(* ===== verification/Prelude.thy ===== *)
theory Prelude
  imports Main "HOL-Library.Word" "HOL-Library.Monad_Syntax"
begin

text \<open>
  Shared vocabulary of the development: the machine types of the C code, NUL terminated
  buffers with checked reads, and the generic facts about lists, words and options that the
  component theories use. A read outside a buffer is the value \<open>None\<close>, so a theorem
  that an operation returns \<open>Some\<close> is a theorem that it never reads out of bounds.
\<close>

unbundle bit_operations_syntax

section \<open>Machine types\<close>

type_synonym byte = "8 word"
type_synonym uint16 = "16 word"
type_synonym uint32 = "32 word"
type_synonym uint64 = "64 word"
type_synonym buf = "byte list"

named_theorems rd_simps \<open>checked reads of a buffer\<close>
named_theorems inv_intros \<open>operations that keep an invariant\<close>

section \<open>NUL terminated buffers\<close>

text \<open>
  A \<open>const char *\<close> that points to a C string is a list of bytes and a position. The
  list holds the bytes before the terminator; position \<open>length s\<close> is the terminator, and
  no position behind it may be read.
\<close>

definition rd :: "buf \<Rightarrow> nat \<Rightarrow> byte option" where
  "rd s i = (if i < length s then Some (s ! i) else if i = length s then Some 0 else None)"

definition is_cstr :: "buf \<Rightarrow> bool" where
  "is_cstr s \<longleftrightarrow> 0 \<notin> set s"

lemma rd_lt [simp, rd_simps]: "i < length s \<Longrightarrow> rd s i = Some (s ! i)"
  by (simp add: rd_def)

lemma rd_end [simp, rd_simps]: "rd s (length s) = Some 0"
  by (simp add: rd_def)

lemma rd_beyond [simp, rd_simps]: "length s < i \<Longrightarrow> rd s i = None"
  by (simp add: rd_def)

lemma rd_eq_None [rd_simps]: "rd s i = None \<longleftrightarrow> length s < i"
  by (auto simp: rd_def)

lemma rd_le: "i \<le> length s \<Longrightarrow> \<exists>b. rd s i = Some b"
  by (auto simp: rd_def)

lemma rd_nonzero: "rd s i = Some b \<Longrightarrow> b \<noteq> 0 \<Longrightarrow> i < length s \<and> s ! i = b"
  by (auto simp: rd_def split: if_splits)

lemma rd_drop [rd_simps]: "i \<le> length s \<Longrightarrow> rd (drop i s) k = rd s (i + k)"
  by (auto simp: rd_def)

lemma rd_append_left [rd_simps]: "i < length s \<Longrightarrow> rd (s @ t) i = Some (s ! i)"
  by (simp add: rd_def nth_append)

lemma rd_append_right [rd_simps]: "rd (s @ t) (length s + k) = rd t k"
  by (simp add: rd_def nth_append)

lemma is_cstr_nth: "is_cstr s \<Longrightarrow> i < length s \<Longrightarrow> s ! i \<noteq> 0"
  by (metis is_cstr_def nth_mem)

lemma is_cstr_rd: "is_cstr s \<Longrightarrow> rd s i = Some 0 \<longleftrightarrow> i = length s"
  by (auto simp: rd_def is_cstr_nth split: if_splits)

lemma is_cstr_append [simp]: "is_cstr (s @ t) \<longleftrightarrow> is_cstr s \<and> is_cstr t"
  by (auto simp: is_cstr_def)

section \<open>Words\<close>

text \<open>
  A property of all small words is decided by evaluating it on each of them.
\<close>

lemma word_below_all:
  fixes z :: "'a::len word"
  assumes all: "\<forall>n\<in>set [0..<k]. P (word_of_nat n :: 'a word)" and z: "unat z < k"
  shows "P z"
proof -
  have "unat z \<in> set [0..<k]" using z by simp
  with all have "P (word_of_nat (unat z))" by blast
  then show ?thesis by simp
qed

lemma byte_all:
  fixes b :: byte
  assumes "\<forall>n\<in>set [0..<256]. P (word_of_nat n :: byte)"
  shows "P b"
  by (rule word_below_all [OF assms]) (use unsigned_less [of b] in simp)

lemma word_less_not_bit:
  fixes c :: "'a::len word"
  assumes "unat c < 2 ^ k" and "k \<le> n"
  shows "\<not> bit c n"
proof -
  have "unat c < 2 ^ n" using assms power_increasing[of k n "2::nat"] by (simp add: order_less_le_trans)
  then have "\<not> bit (unat c) n" by (simp add: bit_iff_odd)
  then show ?thesis by (simp add: bit_unsigned_iff)
qed

lemma word_bit_lt: "unat (c::'a::len word) < 2 ^ k \<Longrightarrow> bit c n \<Longrightarrow> n < k"
  using word_less_not_bit not_le by blast

lemma take_bit_small: "unat (c :: uint32) < 2 ^ k \<Longrightarrow> take_bit k c = c"
  by (rule bit_word_eqI) (auto simp: bit_simps dest: word_bit_lt)

section \<open>Lists\<close>

lemma map_nth_interval: "k \<le> length xs \<Longrightarrow> map ((!) xs) [m..<k] = take (k - m) (drop m xs)"
  by (rule nth_equalityI) auto

lemma drop_eq_Cons_nth: "drop i xs = y # ys \<Longrightarrow> i < length xs \<and> xs ! i = y \<and> drop (Suc i) xs = ys"
  by (metis Cons_nth_drop_Suc drop_all linorder_not_less list.distinct(1) list.inject)

lemma distinct_map_filter: "distinct (map f xs) \<Longrightarrow> distinct (map f (filter P xs))"
  by (induction xs) auto

end
