(* ===== verification/Utf8.thy ===== *)
theory Utf8
  imports Prelude
begin

text \<open>
  UTF-8 strings: \<open>src/lib/fcitx-utils/utf8.c\<close> and the inline functions of \<open>utf8.h\<close>.
  A pointer into a string is a position, a read behind the terminator is \<open>None\<close>
  (\<open>rd\<close> of the prelude), and the short-circuit tests of the C code read exactly the bytes
  the C code reads.
\<close>

section \<open>Decoding one character\<close>

text \<open>The macro \<open>ISUTF8_CB\<close>, and \<open>CONT(i) && CONT(j) && ...\<close> from left to right.\<close>

definition is_utf8_cb :: "byte \<Rightarrow> bool" where
  "is_utf8_cb c \<longleftrightarrow> c AND 0xc0 = 0x80"

fun conts :: "buf \<Rightarrow> nat list \<Rightarrow> bool option" where
  "conts s [] = Some True"
| "conts s (i # is) =
     (case rd s i of None \<Rightarrow> None | Some b \<Rightarrow> if is_utf8_cb b then conts s is else Some False)"

definition multi :: "buf \<Rightarrow> nat \<Rightarrow> byte \<Rightarrow> byte \<Rightarrow> byte \<Rightarrow> nat \<Rightarrow> bool option" where
  "multi s i b m lead n =
     (if b AND m = lead then conts s [Suc i..<i + n] else Some False)"

text \<open>The macro \<open>VAL(i, s)\<close>.\<close>

definition utf8_val :: "buf \<Rightarrow> nat \<Rightarrow> nat \<Rightarrow> uint32" where
  "utf8_val s i k =
     push_bit k (ucast ((case rd s i of None \<Rightarrow> 0 | Some b \<Rightarrow> b) AND 0x3f))"

definition fcitx_utf8_get_char :: "buf \<Rightarrow> nat \<Rightarrow> (uint32 \<times> nat) option" where
  "fcitx_utf8_get_char s i = do {
     b \<leftarrow> rd s i;
     if b AND 0x80 = 0 then Some (ucast b, i + 1) else do {
     t2 \<leftarrow> multi s i b 0xe0 0xc0 2;
     if t2 then Some (push_bit 6 (ucast (b AND 0x1f)) OR utf8_val s (i + 1) 0, i + 2) else do {
     t3 \<leftarrow> multi s i b 0xf0 0xe0 3;
     if t3 then Some (push_bit 12 (ucast (b AND 0xf)) OR utf8_val s (i + 1) 6
                      OR utf8_val s (i + 2) 0, i + 3) else do {
     t4 \<leftarrow> multi s i b 0xf8 0xf0 4;
     if t4 then Some (push_bit 18 (ucast (b AND 0x7)) OR utf8_val s (i + 1) 12
                      OR utf8_val s (i + 2) 6 OR utf8_val s (i + 3) 0, i + 4) else do {
     t5 \<leftarrow> multi s i b 0xfc 0xf8 5;
     if t5 then Some (push_bit 24 (ucast (b AND 0x3)) OR utf8_val s (i + 1) 18
                      OR utf8_val s (i + 2) 12 OR utf8_val s (i + 3) 6
                      OR utf8_val s (i + 4) 0, i + 5) else do {
     t6 \<leftarrow> multi s i b 0xfe 0xfc 6;
     if t6 then Some (push_bit 30 (ucast (b AND 0x1)) OR utf8_val s (i + 1) 24
                      OR utf8_val s (i + 2) 18 OR utf8_val s (i + 3) 12
                      OR utf8_val s (i + 4) 6 OR utf8_val s (i + 5) 0, i + 6)
     else Some (ucast b, i + 1) }}}}}}"

definition fcitx_utf8_char_len :: "buf \<Rightarrow> nat \<Rightarrow> nat option" where
  "fcitx_utf8_char_len s i = do {
     b \<leftarrow> rd s i;
     if b AND 0x80 = 0 then Some 1 else do {
     t2 \<leftarrow> multi s i b 0xe0 0xc0 2;
     if t2 then Some 2 else do {
     t3 \<leftarrow> multi s i b 0xf0 0xe0 3;
     if t3 then Some 3 else do {
     t4 \<leftarrow> multi s i b 0xf8 0xf0 4;
     if t4 then Some 4 else do {
     t5 \<leftarrow> multi s i b 0xfc 0xf8 5;
     if t5 then Some 5 else do {
     t6 \<leftarrow> multi s i b 0xfe 0xfc 6;
     if t6 then Some 6 else Some 1 }}}}}}"

text \<open>The inline functions of \<open>utf8.h\<close>: the kind of a byte by its leading bits.\<close>

definition fcitx_utf8_type :: "byte \<Rightarrow> int" where
  "fcitx_utf8_type c =
     (if c AND 0x80 = 0 then 1 else if c AND 0x40 = 0 then 0 else if c AND 0x20 = 0 then 2
      else if c AND 0x10 = 0 then 3 else if c AND 0x08 = 0 then 4 else if c AND 0x04 = 0 then 5
      else if c AND 0x02 = 0 then 6 else - 1)"

definition fcitx_utf8_valid_start :: "byte \<Rightarrow> bool" where
  "fcitx_utf8_valid_start c =
     (if c AND 0x80 = 0 then True else if c AND 0x40 = 0 then False else c < 0xfe)"

section \<open>Encoding one character\<close>

definition fcitx_ucs4_char_len :: "uint32 \<Rightarrow> nat" where
  "fcitx_ucs4_char_len c =
     (if c < 0x80 then 1 else if c < 0x800 then 2 else if c < 0x10000 then 3
      else if c < 0x200000 then 4 else if c < 0x8000000 then 5 else 6)"

text \<open>
  \<open>cb c k\<close> is \<open>(char) (0x80 + ((c >> k) & 0x3F))\<close>. The bytes written before the
  terminator are the result; the C function also returns their number.
\<close>

definition cb :: "uint32 \<Rightarrow> nat \<Rightarrow> byte" where
  "cb c k = ucast (0x80 + (drop_bit k c AND 0x3F))"

definition fcitx_ucs4_to_utf8 :: "uint32 \<Rightarrow> buf" where
  "fcitx_ucs4_to_utf8 c =
     (if c < 0x80 then [ucast (c AND 0xFF)]
      else if c < 0x800 then [ucast (0xC0 + (drop_bit 6 c AND 0x1F)), cb c 0]
      else if c < 0x10000 then [ucast (0xE0 + (drop_bit 12 c AND 0x0F)), cb c 6, cb c 0]
      else if c < 0x200000 then
        [ucast (0xF0 + (drop_bit 18 c AND 0x07)), cb c 12, cb c 6, cb c 0]
      else if c < 0x8000000 then
        [ucast (0xF8 + (drop_bit 24 c AND 0x03)), cb c 18, cb c 12, cb c 6, cb c 0]
      else
        [ucast (0xFC + (drop_bit 30 c AND 0x01)), cb c 24, cb c 18, cb c 12, cb c 6, cb c 0])"

section \<open>Walking over a string\<close>

text \<open>
  Every loop moves forward: the position after a character lies behind the one before it.
\<close>

lemma get_char_forward: "fcitx_utf8_get_char s i = Some (c, j) \<Longrightarrow> i < j"
  by (auto simp: fcitx_utf8_get_char_def bind_eq_Some_conv split: if_splits)

function utf8_strlen_loop :: "buf \<Rightarrow> nat \<Rightarrow> uint32 \<Rightarrow> uint32 option" where
  "utf8_strlen_loop s i l =
     (case rd s i of None \<Rightarrow> None
      | Some b \<Rightarrow> if b = 0 then Some l else
         (case fcitx_utf8_get_char s i of None \<Rightarrow> None
          | Some (c, j) \<Rightarrow> utf8_strlen_loop s j (l + 1)))"
  by pat_completeness auto
termination
  by (relation "measure (\<lambda>(s, i, l). Suc (length s) - i)")
     (auto dest!: get_char_forward rd_nonzero)

definition fcitx_utf8_strlen :: "buf \<Rightarrow> uint64 option" where
  "fcitx_utf8_strlen s = map_option ucast (utf8_strlen_loop s 0 0)"

function utf8_get_nth_loop :: "buf \<Rightarrow> nat \<Rightarrow> uint32 \<Rightarrow> uint32 \<Rightarrow> nat option" where
  "utf8_get_nth_loop s i l n =
     (case rd s i of None \<Rightarrow> None
      | Some b \<Rightarrow> if b = 0 \<or> \<not> l < n then Some i else
         (case fcitx_utf8_get_char s i of None \<Rightarrow> None
          | Some (c, j) \<Rightarrow> utf8_get_nth_loop s j (l + 1) n))"
  by pat_completeness auto
termination
  by (relation "measure (\<lambda>(s, i, l, n). Suc (length s) - i)")
     (auto dest!: get_char_forward rd_nonzero)

definition fcitx_utf8_get_nth_char :: "buf \<Rightarrow> uint32 \<Rightarrow> nat option" where
  "fcitx_utf8_get_nth_char s n = utf8_get_nth_loop s 0 0 n"

text \<open>
  \<open>fcitx_utf8_strncmp\<close>: two positions, \<open>n\<close> rounds; \<open>1\<close> when the strings differ.
\<close>

fun utf8_strncmp_loop :: "buf \<Rightarrow> nat \<Rightarrow> buf \<Rightarrow> nat \<Rightarrow> nat \<Rightarrow> int option" where
  "utf8_strncmp_loop s1 i s2 j 0 = Some 0"
| "utf8_strncmp_loop s1 i s2 j (Suc n) = do {
     b1 \<leftarrow> rd s1 i;
     if b1 AND 0x80 = 0 then do {
       b2 \<leftarrow> rd s2 j;
       if b1 \<noteq> b2 then Some 1
       else if b1 = 0 then Some 0
       else utf8_strncmp_loop s1 (i + 1) s2 (j + 1) n }
     else do {
       (c1, i') \<leftarrow> fcitx_utf8_get_char s1 i;
       (c2, j') \<leftarrow> fcitx_utf8_get_char s2 j;
       if c1 \<noteq> c2 then Some 1 else utf8_strncmp_loop s1 i' s2 j' n } }"

definition fcitx_utf8_strncmp :: "buf \<Rightarrow> buf \<Rightarrow> int \<Rightarrow> int option" where
  "fcitx_utf8_strncmp s1 s2 n = utf8_strncmp_loop s1 0 s2 0 (nat n)"

section \<open>Validation\<close>

definition utf8_length :: "uint32 \<Rightarrow> nat" where
  "utf8_length c =
     (if c < 0x80 then 1 else if c < 0x800 then 2 else if c < 0x10000 then 3
      else if c < 0x200000 then 4 else if c < 0x4000000 then 5 else 6)"

definition unicode_valid :: "uint32 \<Rightarrow> bool" where
  "unicode_valid c \<longleftrightarrow>
     c < 0x110000 \<and> c AND 0xFFFFF800 \<noteq> 0xD800 \<and> (c < 0xFDD0 \<or> c > 0xFDEF)
     \<and> c AND 0xFFFE \<noteq> 0xFFFE"

text \<open>
  \<open>fcitx_utf8_get_char_extended\<close> returns an \<open>int\<close>: the character, \<open>-1\<close> for an
  invalid sequence, \<open>-2\<close> for a truncated one. \<open>ext_head\<close> classifies the first byte;
  \<open>ext_short\<close> is the loop taken when \<open>max_len\<close> cuts the sequence; \<open>ext_tail\<close>
  collects the continuation bytes.
\<close>

definition ext_head :: "byte \<Rightarrow> (nat \<times> uint32) option" where
  "ext_head b =
     (if b < 0xc0 then None
      else if b < 0xe0 then Some (2, ucast b AND 0x1f)
      else if b < 0xf0 then Some (3, ucast b AND 0x0f)
      else if b < 0xf8 then Some (4, ucast b AND 0x07)
      else if b < 0xfc then Some (5, ucast b AND 0x03)
      else if b < 0xfe then Some (6, ucast b AND 0x01)
      else None)"

fun ext_short :: "buf \<Rightarrow> nat list \<Rightarrow> uint32 option" where
  "ext_short s [] = Some (- 2)"
| "ext_short s (k # ks) =
     (case rd s k of None \<Rightarrow> None
      | Some b \<Rightarrow> if b AND 0xc0 \<noteq> 0x80 then Some (- 1) else ext_short s ks)"

fun ext_tail :: "buf \<Rightarrow> nat list \<Rightarrow> uint32 \<Rightarrow> (uint32 + uint32) option" where
  "ext_tail s [] wc = Some (Inr wc)"
| "ext_tail s (k # ks) wc =
     (case rd s k of None \<Rightarrow> None
      | Some ch \<Rightarrow>
         if ch AND 0xc0 \<noteq> 0x80 then Some (Inl (if ch \<noteq> 0 then - 1 else - 2))
         else ext_tail s ks (push_bit 6 wc OR (ucast ch AND 0x3f)))"

definition fcitx_utf8_get_char_extended :: "buf \<Rightarrow> nat \<Rightarrow> int \<Rightarrow> uint32 option" where
  "fcitx_utf8_get_char_extended s i max_len = do {
     b \<leftarrow> rd s i;
     if b < 0x80 then Some (ucast b)
     else case ext_head b of
       None \<Rightarrow> Some (- 1)
     | Some (len, wc) \<Rightarrow>
         if 0 \<le> max_len \<and> max_len < int len then ext_short s [Suc i..<i + nat max_len]
         else do {
           r \<leftarrow> ext_tail s [Suc i..<i + len] wc;
           case r of
             Inl e \<Rightarrow> Some e
           | Inr wc' \<Rightarrow> if utf8_length wc' \<noteq> len then Some (- 1) else Some wc' } }"

definition fcitx_utf8_get_char_validated :: "buf \<Rightarrow> nat \<Rightarrow> int \<Rightarrow> uint32 option" where
  "fcitx_utf8_get_char_validated s i max_len =
     (if max_len = 0 then Some (- 2)
      else do {
        result \<leftarrow> fcitx_utf8_get_char_extended s i max_len;
        if result AND 0x80000000 \<noteq> 0 then Some result
        else if \<not> unicode_valid result then Some (- 1)
        else Some result })"

function utf8_check_loop :: "buf \<Rightarrow> nat \<Rightarrow> bool option" where
  "utf8_check_loop s i =
     (case rd s i of None \<Rightarrow> None
      | Some b \<Rightarrow> if b = 0 then Some True else
         (case fcitx_utf8_get_char_validated s i 6 of None \<Rightarrow> None
          | Some r \<Rightarrow> if r <s 0 then Some False else
             (case fcitx_utf8_get_char s i of None \<Rightarrow> None
              | Some (c, j) \<Rightarrow> utf8_check_loop s j)))"
  by pat_completeness auto
termination
  by (relation "measure (\<lambda>(s, i). Suc (length s) - i)")
     (auto dest!: get_char_forward rd_nonzero)

definition fcitx_utf8_check_string :: "buf \<Rightarrow> bool option" where
  "fcitx_utf8_check_string s = utf8_check_loop s 0"

section \<open>Copying and measuring within a byte budget\<close>

text \<open>
  \<open>fcitx_utf8_strncpy\<close> fills a destination of \<open>byte\<close> bytes: the copied characters,
  then zeros. The result is the content of the destination.
\<close>

function utf8_strncpy_loop :: "buf \<Rightarrow> nat \<Rightarrow> nat \<Rightarrow> buf \<Rightarrow> buf option" where
  "utf8_strncpy_loop s i n acc =
     (case rd s i of None \<Rightarrow> None
      | Some b \<Rightarrow> if b = 0 then Some (acc @ replicate n 0) else
         (case fcitx_utf8_get_char s i of None \<Rightarrow> None
          | Some (c, j) \<Rightarrow>
             if n < j - i then Some (acc @ replicate n 0)
             else utf8_strncpy_loop s j (n - (j - i)) (acc @ take (j - i) (drop i s))))"
  by pat_completeness auto
termination
  by (relation "measure (\<lambda>(s, i, n, acc). Suc (length s) - i)")
     (auto dest!: get_char_forward rd_nonzero)

definition fcitx_utf8_strncpy :: "buf \<Rightarrow> nat \<Rightarrow> buf option" where
  "fcitx_utf8_strncpy s n = utf8_strncpy_loop s 0 n []"

function utf8_strnlen_loop :: "buf \<Rightarrow> nat \<Rightarrow> nat \<Rightarrow> nat \<Rightarrow> nat option" where
  "utf8_strnlen_loop s i n len =
     (case rd s i of None \<Rightarrow> None
      | Some b \<Rightarrow> if b = 0 \<or> n = 0 then Some len else
         (case fcitx_utf8_get_char s i of None \<Rightarrow> None
          | Some (c, j) \<Rightarrow>
             if n < j - i then Some len
             else utf8_strnlen_loop s j (n - (j - i)) (Suc len)))"
  by pat_completeness auto
termination
  by (relation "measure (\<lambda>(s, i, n, len). Suc (length s) - i)")
     (auto dest!: get_char_forward rd_nonzero)

definition fcitx_utf8_strnlen :: "buf \<Rightarrow> nat \<Rightarrow> nat option" where
  "fcitx_utf8_strnlen s n = utf8_strnlen_loop s 0 n 0"

declare utf8_strlen_loop.simps [simp del] utf8_get_nth_loop.simps [simp del]
  utf8_check_loop.simps [simp del] utf8_strncpy_loop.simps [simp del]
  utf8_strnlen_loop.simps [simp del]

section \<open>The ASCII parts of a string\<close>

text \<open>
  \<open>fcitx_utils_get_ascii_partn\<close> walks back from \<open>len\<close>; it reads only positions below
  \<open>len\<close>. The result is the position where the ASCII tail begins.
\<close>

fun fcitx_utils_get_ascii_partn :: "buf \<Rightarrow> nat \<Rightarrow> nat option" where
  "fcitx_utils_get_ascii_partn s 0 = Some 0"
| "fcitx_utils_get_ascii_partn s (Suc k) =
     (case rd s k of None \<Rightarrow> None
      | Some b \<Rightarrow> if b AND 0x80 = 0 then fcitx_utils_get_ascii_partn s k else Some (Suc k))"

definition fcitx_utils_get_ascii_part :: "buf \<Rightarrow> nat option" where
  "fcitx_utils_get_ascii_part s = fcitx_utils_get_ascii_partn s (length s)"

definition is_valid_ascii :: "byte \<Rightarrow> bool" where
  "is_valid_ascii c \<longleftrightarrow> c AND 0x80 = 0 \<and> c \<noteq> 0"

fun ascii_endn_loop :: "buf \<Rightarrow> nat \<Rightarrow> nat \<Rightarrow> nat option" where
  "ascii_endn_loop s i 0 = Some i"
| "ascii_endn_loop s i (Suc k) =
     (case rd s i of None \<Rightarrow> None
      | Some b \<Rightarrow> if is_valid_ascii b then ascii_endn_loop s (Suc i) k else Some i)"

definition fcitx_utils_get_ascii_endn :: "buf \<Rightarrow> nat \<Rightarrow> nat option" where
  "fcitx_utils_get_ascii_endn s len = ascii_endn_loop s 0 len"

function ascii_end_loop :: "buf \<Rightarrow> nat \<Rightarrow> nat option" where
  "ascii_end_loop s i =
     (case rd s i of None \<Rightarrow> None
      | Some b \<Rightarrow> if is_valid_ascii b then ascii_end_loop s (Suc i) else Some i)"
  by pat_completeness auto
termination
  by (relation "measure (\<lambda>(s, i). Suc (length s) - i)")
     (auto simp: is_valid_ascii_def dest!: rd_nonzero)

declare ascii_end_loop.simps [simp del]

definition fcitx_utils_get_ascii_end :: "buf \<Rightarrow> nat option" where
  "fcitx_utils_get_ascii_end s = ascii_end_loop s 0"

end
