(* ===== verification/Utf8_Codec.thy ===== *)
theory Utf8_Codec
  imports Utf8
begin

text \<open>
  The UTF-8 codec of \<open>utf8.c\<close>: decoding never reads behind the terminator, decoding
  inverts encoding, and \<open>fcitx_utf8_check_string\<close> accepts exactly the concatenations of
  encodings of valid characters. The bytes of a sequence are read as digits in base 64
  (\<open>horner\<close>), most significant first; facts about single bytes are decided by evaluating
  them on all 256 of them.
\<close>

section \<open>Decoding stays inside the buffer\<close>



lemma conts_total: "m \<le> length s \<Longrightarrow> conts s [m..<k] \<noteq> None"
proof (induction "k - m" arbitrary: m)
  case 0
  then show ?case by simp
next
  case (Suc d)
  then have "m < k" by simp
  then have eq: "[m..<k] = m # [Suc m..<k]" by (rule upt_conv_Cons)
  obtain b where b: "rd s m = Some b" using rd_le Suc.prems by blast
  show ?case
  proof (cases "is_utf8_cb b")
    case True
    then have "b \<noteq> 0" by (auto simp: is_utf8_cb_def)
    with b have "Suc m \<le> length s" by (auto dest: rd_nonzero)
    with Suc True b eq show ?thesis by simp
  next
    case False
    with b eq show ?thesis by simp
  qed
qed

lemma conts_True_iff:
  "conts s is = Some True \<longleftrightarrow> (\<forall>j\<in>set is. j < length s \<and> is_utf8_cb (s ! j))"
  by (induction "is")
     (auto simp: rd_def is_utf8_cb_def split: option.splits if_splits)

lemma multi_total: "i < length s \<Longrightarrow> multi s i b m l n \<noteq> None"
  using conts_total [of "Suc i" s "i + n"] by (auto simp: multi_def)

lemma multi_True_iff:
  "multi s i b m l n = Some True \<longleftrightarrow>
   b AND m = l \<and> (\<forall>j\<in>{Suc i..<i + n}. j < length s \<and> is_utf8_cb (s ! j))"
  by (simp add: multi_def conts_True_iff)

lemma multi_bound:
  assumes "i < length s" and "multi s i b m l n = Some True"
  shows "i + n \<le> length s"
proof (cases "n \<le> 1")
  case False
  then have "i + n - 1 \<in> {Suc i..<i + n}" by auto
  with assms(2) have "i + n - 1 < length s" unfolding multi_True_iff by blast
  with False show ?thesis by simp
qed (use assms(1) in simp)

lemma multi_ex:
  "i < length s \<Longrightarrow> \<exists>t. multi s i b m l n = Some t \<and> (t \<longrightarrow> i + n \<le> length s)"
  using multi_total multi_bound by fastforce

lemma get_char_total:
  assumes "i < length s"
  shows "\<exists>c j. fcitx_utf8_get_char s i = Some (c, j) \<and> i < j \<and> j \<le> length s"
proof -
  obtain t2 where "multi s i (s ! i) 0xe0 0xc0 2 = Some t2" "t2 \<longrightarrow> i + 2 \<le> length s" using multi_ex [OF assms] by blast
  moreover obtain t3 where "multi s i (s ! i) 0xf0 0xe0 3 = Some t3" "t3 \<longrightarrow> i + 3 \<le> length s" using multi_ex [OF assms] by blast
  moreover obtain t4 where "multi s i (s ! i) 0xf8 0xf0 4 = Some t4" "t4 \<longrightarrow> i + 4 \<le> length s" using multi_ex [OF assms] by blast
  moreover obtain t5 where "multi s i (s ! i) 0xfc 0xf8 5 = Some t5" "t5 \<longrightarrow> i + 5 \<le> length s" using multi_ex [OF assms] by blast
  moreover obtain t6 where "multi s i (s ! i) 0xfe 0xfc 6 = Some t6" "t6 \<longrightarrow> i + 6 \<le> length s" using multi_ex [OF assms] by blast
  ultimately show ?thesis
    using assms by (simp add: fcitx_utf8_get_char_def)
qed

lemma char_len_get_char:
  "fcitx_utf8_char_len s i = map_option (\<lambda>(c, j). j - i) (fcitx_utf8_get_char s i)"
  by (simp add: fcitx_utf8_char_len_def fcitx_utf8_get_char_def split: option.splits Option.bind_splits)

section \<open>Bits of bytes and characters\<close>

lemma cont_byte_all:
  assumes "unat (z::uint32) < 64"
  shows "is_utf8_cb (ucast (0x80 + z)) \<and> (ucast ((ucast (0x80 + z) :: byte) AND 0x3f) :: uint32) = z"
  by (rule word_below_all[OF _ assms]) code_simp
lemma cb_is_cb [simp]: "is_utf8_cb (cb c k)"
  and cb_val: "(ucast (cb c k AND 0x3f) :: uint32) = drop_bit k c AND 0x3f"
proof -
  have "unat (drop_bit k c AND 0x3f) < 64"
  proof -
    have "drop_bit k c AND 0x3f = take_bit 6 (drop_bit k c)" 
      by (simp add: take_bit_eq_mask mask_numeral)
    then show ?thesis using take_bit_nat_less_exp[of 6] by (simp add: unsigned_take_bit_eq)
  qed
  then show "is_utf8_cb (cb c k)" "(ucast (cb c k AND 0x3f) :: uint32) = drop_bit k c AND 0x3f"
    unfolding cb_def by (rule cont_byte_all[THEN conjunct1], rule cont_byte_all[THEN conjunct2])
qed

lemma masks: "x AND (0x3f::uint32) = take_bit 6 x" "x AND (0x1f::uint32) = take_bit 5 x"
  "x AND (0xf::uint32) = take_bit 4 x" "x AND (0x7::uint32) = take_bit 3 x"
  "x AND (0x3::uint32) = take_bit 2 x" "x AND (0x1::uint32) = take_bit 1 x"
  "x AND (0xff::uint32) = take_bit 8 x"
  by (simp_all add: take_bit_eq_mask mask_numeral)

lemma join_step:
  "push_bit (k + 6) (take_bit m (drop_bit (k + 6) c)) OR push_bit k (take_bit 6 (drop_bit k c))
   = push_bit k (take_bit (m + 6) (drop_bit k (c :: uint32)))"
proof (rule bit_word_eqI)
  fix n
  assume "n < LENGTH(32)"
  then show "bit (push_bit (k + 6) (take_bit m (drop_bit (k + 6) c))
             OR push_bit k (take_bit 6 (drop_bit k c))) n
        = bit (push_bit k (take_bit (m + 6) (drop_bit k c))) n"
    by (cases "n < k"; cases "n < k + 6") (auto simp: bit_simps)
qed


lemma joins: fixes c :: uint32
  shows "unat c < 2 ^ 11 \<Longrightarrow> push_bit 6 (drop_bit 6 c AND 0x1f) OR (c AND 0x3f) = c"
  and "unat c < 2 ^ 16 \<Longrightarrow> push_bit 12 (drop_bit 12 c AND 0xf) OR push_bit 6 (drop_bit 6 c AND 0x3f) OR (c AND 0x3f) = c"
  and "unat c < 2 ^ 21 \<Longrightarrow> push_bit 18 (drop_bit 18 c AND 0x7) OR push_bit 12 (drop_bit 12 c AND 0x3f) OR push_bit 6 (drop_bit 6 c AND 0x3f) OR (c AND 0x3f) = c"
  and "unat c < 2 ^ 26 \<Longrightarrow> push_bit 24 (drop_bit 24 c AND 0x3) OR push_bit 18 (drop_bit 18 c AND 0x3f) OR push_bit 12 (drop_bit 12 c AND 0x3f) OR push_bit 6 (drop_bit 6 c AND 0x3f) OR (c AND 0x3f) = c"
  and "unat c < 2 ^ 31 \<Longrightarrow> push_bit 30 (drop_bit 30 c AND 0x1) OR push_bit 24 (drop_bit 24 c AND 0x3f) OR push_bit 18 (drop_bit 18 c AND 0x3f) OR push_bit 12 (drop_bit 12 c AND 0x3f) OR push_bit 6 (drop_bit 6 c AND 0x3f) OR (c AND 0x3f) = c"
  unfolding masks
  using join_step[of 24 1 c] join_step[of 18 7 c] join_step[of 18 2 c] join_step[of 12 13 c] join_step[of 12 8 c] join_step[of 12 3 c]
    join_step[of 6 19 c] join_step[of 6 14 c] join_step[of 6 9 c] join_step[of 6 4 c]
    join_step[of 0 25 c] join_step[of 0 20 c] join_step[of 0 15 c] join_step[of 0 10 c] join_step[of 0 5 c]
  by (simp_all add: take_bit_small flip: or.assoc)

definition horner :: "uint32 \<Rightarrow> byte \<Rightarrow> uint32" where
  "horner w b = push_bit 6 w OR (ucast b AND 0x3f)"

lemma horner_drop:
  assumes "unat w < 2 ^ 26"
  shows "drop_bit 6 (horner w b) = w"
  unfolding horner_def masks
  by (rule bit_word_eqI) (auto simp: bit_simps dest: word_bit_lt [OF assms])

lemma horner_low: "horner w b AND 0x3f = ucast b AND 0x3f"
  unfolding horner_def masks by (rule bit_word_eqI) (auto simp: bit_simps)

lemma horner_less:
  assumes "unat w < 2 ^ k" and "k \<le> 26"
  shows "unat (horner w b) < 2 ^ (k + 6)"
proof -
  have "take_bit (k + 6) (horner w b) = horner w b"
    unfolding horner_def masks
    by (rule bit_word_eqI) (use assms in \<open>auto simp: bit_simps dest: word_bit_lt\<close>)
  then have "unat (horner w b) = take_bit (k + 6) (unat (horner w b))"
    by (metis unsigned_take_bit_eq)
  then show ?thesis by (metis take_bit_nat_less_exp)
qed

section \<open>Lead bytes\<close>

definition lead_ok :: "byte \<Rightarrow> nat \<Rightarrow> uint32 \<Rightarrow> bool" where
  "lead_ok b n w \<longleftrightarrow> b AND 0x80 \<noteq> 0 \<and> (b AND 0xe0 = 0xc0 \<longleftrightarrow> n = 2) \<and> (b AND 0xf0 = 0xe0 \<longleftrightarrow> n = 3)
    \<and> (b AND 0xf8 = 0xf0 \<longleftrightarrow> n = 4) \<and> (b AND 0xfc = 0xf8 \<longleftrightarrow> n = 5) \<and> (b AND 0xfe = 0xfc \<longleftrightarrow> n = 6)
    \<and> \<not> b < 0x80 \<and> b \<noteq> 0
    \<and> (n = 2 \<longrightarrow> w = ucast (b AND 0x1f))
    \<and> (n = 3 \<longrightarrow> w = ucast (b AND 0xf))
    \<and> (n = 4 \<longrightarrow> w = ucast (b AND 0x7))
    \<and> (n = 5 \<longrightarrow> w = ucast (b AND 0x3))
    \<and> (n = 6 \<longrightarrow> w = ucast (b AND 0x1))
    \<and> n \<in> {2, 3, 4, 5, 6} \<and> unat w < 2 ^ (7 - n)"

lemma ext_head_lead: "ext_head b = Some (n, w) \<Longrightarrow> lead_ok b n w"
proof -
  have "(case ext_head b of None \<Rightarrow> True | Some (n, w) \<Rightarrow> lead_ok b n w)"
    by (rule byte_all[where P = "\<lambda>b. case ext_head b of None \<Rightarrow> True | Some (n, w) \<Rightarrow> lead_ok b n w"]) code_simp
  then show "ext_head b = Some (n, w) \<Longrightarrow> lead_ok b n w" by simp
qed

definition lead_byte :: "nat \<Rightarrow> uint32 \<Rightarrow> byte" where
  "lead_byte n w = ucast ((if n = 2 then 0xC0 else if n = 3 then 0xE0 else if n = 4 then 0xF0
     else if n = 5 then 0xF8 else 0xFC) + w)"

lemma ext_head_byte: "ext_head b = Some (n, w) \<Longrightarrow> b = lead_byte n w"
proof -
  have "(case ext_head b of None \<Rightarrow> True | Some (n, w) \<Rightarrow> b = lead_byte n w)"
    by (rule byte_all[where P = "\<lambda>b. case ext_head b of None \<Rightarrow> True | Some (n, w) \<Rightarrow> b = lead_byte n w"]) code_simp
  then show "ext_head b = Some (n, w) \<Longrightarrow> b = lead_byte n w" by simp
qed

lemma ext_head_of:
  fixes z :: uint32
  shows "unat z < 32 \<Longrightarrow> ext_head (ucast (0xC0 + z)) = Some (2, z)"
    and "unat z < 16 \<Longrightarrow> ext_head (ucast (0xE0 + z)) = Some (3, z)"
    and "unat z < 8 \<Longrightarrow> ext_head (ucast (0xF0 + z)) = Some (4, z)"
    and "unat z < 4 \<Longrightarrow> ext_head (ucast (0xF8 + z)) = Some (5, z)"
    and "unat z < 2 \<Longrightarrow> ext_head (ucast (0xFC + z)) = Some (6, z)"
  by (erule word_below_all[rotated], code_simp)+

lemma cb_of_byte: "is_utf8_cb b \<Longrightarrow> ucast (0x80 + (ucast b AND 0x3f :: uint32)) = b"
proof -
  have "is_utf8_cb b \<longrightarrow> ucast (0x80 + (ucast b AND 0x3f :: uint32)) = b"
    by (rule byte_all[where P = "\<lambda>b. is_utf8_cb b \<longrightarrow> ucast (0x80 + (ucast b AND 0x3f :: uint32)) = b"]) code_simp
  then show "is_utf8_cb b \<Longrightarrow> ucast (0x80 + (ucast b AND 0x3f :: uint32)) = b" by simp
qed

lemma lead_width: "ext_head b = Some (n, w) \<Longrightarrow> unat w < 2 ^ (7 - n)"
  using ext_head_lead unfolding lead_ok_def by blast

lemma lead_len: "ext_head b = Some (n, w) \<Longrightarrow> n \<in> {2, 3, 4, 5, 6}"
  using ext_head_lead unfolding lead_ok_def by blast

lemma upts:
  "[Suc i..<i + 2] = [i + 1]" "[Suc i..<i + 3] = [i + 1, i + 2]"
  "[Suc i..<i + 4] = [i + 1, i + 2, i + 3]" "[Suc i..<i + 5] = [i + 1, i + 2, i + 3, i + 4]"
  "[Suc i..<i + 6] = [i + 1, i + 2, i + 3, i + 4, i + 5]"
  by (simp_all add: upt_conv_Cons numeral_eq_Suc)

lemma ucast_low6: "(ucast ((b :: byte) AND 0x3f) :: uint32) = ucast b AND 0x3f"
  by (simp add: unsigned_and_eq)

lemma get_char_multi:
  assumes i: "i < length s" and h: "ext_head (s ! i) = Some (n, w)"
    and c: "\<forall>k\<in>{Suc i..<i + n}. k < length s \<and> is_utf8_cb (s ! k)"
  shows "fcitx_utf8_get_char s i = Some (foldl horner w (map ((!) s) [Suc i..<i + n]), i + n)"
proof -
  have l: "lead_ok (s ! i) n w" using h by (rule ext_head_lead)
  have m: "multi s i (s ! i) m l n = Some True" if "s ! i AND m = l" for m l
    using that c by (simp add: multi_True_iff)
  have f: "multi s i (s ! i) m l k = Some False" if "s ! i AND m \<noteq> l" for m l k
    using that by (simp add: multi_def)
  consider "n = 2" | "n = 3" | "n = 4" | "n = 5" | "n = 6" using l by (auto simp: lead_ok_def)
  then show ?thesis
  proof cases
    case 1
    then show ?thesis using i l c m[of "0xe0" "0xc0"] 
      by (simp add: fcitx_utf8_get_char_def lead_ok_def f utf8_val_def upts horner_def push_bit_or or.assoc ucast_low6)
  next
    case 2
    then show ?thesis using i l c m[of "0xf0" "0xe0"] 
      by (simp add: fcitx_utf8_get_char_def lead_ok_def f utf8_val_def upts horner_def push_bit_or or.assoc ucast_low6)
  next
    case 3
    then show ?thesis using i l c m[of "0xf8" "0xf0"] 
      by (simp add: fcitx_utf8_get_char_def lead_ok_def f utf8_val_def upts horner_def push_bit_or or.assoc ucast_low6)
  next
    case 4
    then show ?thesis using i l c m[of "0xfc" "0xf8"] 
      by (simp add: fcitx_utf8_get_char_def lead_ok_def f utf8_val_def upts horner_def push_bit_or or.assoc ucast_low6)
  next
    case 5
    then show ?thesis using i l c m[of "0xfe" "0xfc"] 
      by (simp add: fcitx_utf8_get_char_def lead_ok_def f utf8_val_def upts horner_def push_bit_or or.assoc ucast_low6)
  qed
qed

lemma ext_tail_conts:
  "\<forall>k\<in>set ks. k < length s \<and> is_utf8_cb (s ! k) \<Longrightarrow>
   ext_tail s ks w = Some (Inr (foldl horner w (map ((!) s) ks)))"
  by (induction ks arbitrary: w) (auto simp: horner_def is_utf8_cb_def)

lemma ext_tail_Inr:
  "ext_tail s ks w = Some (Inr r) \<Longrightarrow>
   (\<forall>k\<in>set ks. k < length s \<and> is_utf8_cb (s ! k)) \<and> r = foldl horner w (map ((!) s) ks)"
  by (induction ks arbitrary: w)
     (auto simp: horner_def is_utf8_cb_def rd_def split: option.splits if_splits)

lemma utf8_length_bits: 
   "utf8_length c = 2 \<Longrightarrow> unat c < 2 ^ 11" "utf8_length c = 3 \<Longrightarrow> unat c < 2 ^ 16" 
   "utf8_length c = 4 \<Longrightarrow> unat c < 2 ^ 21" "utf8_length c = 5 \<Longrightarrow> unat c < 2 ^ 26"
  by (auto simp: utf8_length_def word_less_nat_alt split: if_splits)

lemma foldl_horner_drop:
  assumes "unat w < 2 ^ k" and "k + 6 * length bs \<le> 32"
  shows "drop_bit (6 * length bs) (foldl horner w bs) = w"
  using assms
proof (induction bs rule: rev_induct)
  case (snoc b bs)
  have "unat (foldl horner w bs) < 2 ^ (k + 6 * length bs)" 
    using snoc.prems 
  proof (induction bs rule: rev_induct)
    case (snoc x xs)
    then have "unat (foldl horner w xs) < 2 ^ (k + 6 * length xs)" "k + 6 * length xs \<le> 26" by auto
    from horner_less[OF this] show ?case by (simp add: algebra_simps)
  qed simp
  moreover have "k + 6 * length bs \<le> 26" using snoc.prems by simp
  ultimately have "unat (foldl horner w bs) < 2 ^ 26" by (meson order_less_le_trans power_increasing one_le_numeral)
  then have "drop_bit 6 (horner (foldl horner w bs) b) = foldl horner w bs" by (rule horner_drop)
  moreover have "drop_bit (6 * length (bs @ [b])) (foldl horner w (bs @ [b])) 
    = drop_bit (6 * length bs) (drop_bit 6 (horner (foldl horner w bs) b))"
    by (simp add: drop_bit_drop_bit algebra_simps)
  ultimately show ?case using snoc by simp
qed simp

lemma cb_horner: "is_utf8_cb b \<Longrightarrow> cb (horner w b) 0 = b"
  by (simp add: cb_def horner_low cb_of_byte)

lemma encode_decode:
  assumes "ext_head b = Some (n, w)" and "length bs = n - 1" and "\<forall>x\<in>set bs. is_utf8_cb x"
    and "utf8_length (foldl horner w bs) = n" and "n \<le> 4"
  shows "fcitx_ucs4_to_utf8 (foldl horner w bs) = b # bs"
proof -
  let ?c = "foldl horner w bs"
  have b: "b = lead_byte n w" using assms(1) by (rule ext_head_byte)
  consider "n = 2" | "n = 3" | "n = 4" using lead_len [OF assms(1)] assms(5) by auto
  then show ?thesis
  proof cases
    case 1
    then obtain b1 where bs: "bs = [b1]" using assms(2) by (auto simp: length_Suc_conv numeral_eq_Suc)
    have w: "unat w < 2 ^ 5" using lead_width [OF assms(1)] 1 by simp
    then have "drop_bit 6 ?c = w" using foldl_horner_drop[OF w, of bs] bs by simp
    moreover have "w AND 0x1f = w" using w by (simp add: masks take_bit_small)
    ultimately show ?thesis using assms 1 bs b
      by (auto simp: fcitx_ucs4_to_utf8_def utf8_length_def lead_byte_def cb_horner split: if_splits)
  next
    case 2
    then obtain b1 b2 where bs: "bs = [b1, b2]" using assms(2) by (auto simp: length_Suc_conv numeral_eq_Suc)
    have w: "unat w < 2 ^ 4" using lead_width [OF assms(1)] 2 by simp
    then have "drop_bit 12 ?c = w" using foldl_horner_drop[OF w, of bs] bs by simp
    moreover have "drop_bit 6 ?c = horner w b1" 
      using foldl_horner_drop[of "horner w b1" 10 "[b2]"] horner_less[OF w] bs by simp
    moreover have "w AND 0xf = w" using w by (simp add: masks take_bit_small)
    ultimately show ?thesis using assms 2 bs b
      by (auto simp: fcitx_ucs4_to_utf8_def utf8_length_def lead_byte_def cb_horner cb_def horner_low cb_of_byte split: if_splits)
  next
    case 3
    then obtain b1 b2 b3 where bs: "bs = [b1, b2, b3]" using assms(2) by (auto simp: length_Suc_conv numeral_eq_Suc)
    have w: "unat w < 2 ^ 3" using lead_width [OF assms(1)] 3 by simp
    then have "drop_bit 18 ?c = w" using foldl_horner_drop[OF w, of bs] bs by simp
    moreover have "drop_bit 12 ?c = horner w b1"  
      using foldl_horner_drop[of "horner w b1" 9 "[b2,b3]"] horner_less[OF w] bs by simp
    moreover have "drop_bit 6 ?c = horner (horner w b1) b2"  
      using foldl_horner_drop[of "horner (horner w b1) b2" 15 "[b3]"] horner_less[OF horner_less[OF w]] bs by simp
    moreover have "w AND 0x7 = w" using w by (simp add: masks take_bit_small)
    ultimately show ?thesis using assms 3 bs b
      by (auto simp: fcitx_ucs4_to_utf8_def utf8_length_def lead_byte_def cb_horner cb_def horner_low cb_of_byte split: if_splits)
  qed
qed

section \<open>Encoding\<close>

lemma mask_bounds: "unat (x AND (0x1f::uint32)) < 32" "unat (x AND (0xf::uint32)) < 16"
  "unat (x AND (0x7::uint32)) < 8" "unat (x AND (0x3::uint32)) < 4" "unat (x AND (0x1::uint32)) < 2"
  using take_bit_nat_less_exp[of 5] take_bit_nat_less_exp[of 4] take_bit_nat_less_exp[of 3]
    take_bit_nat_less_exp[of 2] take_bit_nat_less_exp[of 1]
  unfolding masks unsigned_take_bit_eq by auto

lemma horner_cb: "horner w (cb c k) = push_bit 6 w OR (drop_bit k c AND 0x3f)"
  by (simp add: horner_def flip: ucast_low6 cb_val)

lemma encode_shape:
  assumes "\<not> c < 0x80" and "c < 0x4000000 \<or> (\<not> c < 0x8000000 \<and> c < 0x80000000)"
  shows "\<exists>b bs w. fcitx_ucs4_to_utf8 c = b # bs \<and> ext_head b = Some (Suc (length bs), w)
     \<and> (\<forall>x\<in>set bs. is_utf8_cb x) \<and> foldl horner w bs = c"
proof -
  consider "c < 0x800" | "\<not> c < 0x800" "c < 0x10000" | "\<not> c < 0x10000" "c < 0x200000"
    | "\<not> c < 0x200000" "c < 0x4000000" | "\<not> c < 0x8000000" "c < 0x80000000"
    using assms(2) by blast
  then show ?thesis
  proof cases
    case 1
    then have "unat c < 2 ^ 11" by (simp add: word_less_nat_alt)
    from joins(1) [OF this] 1 assms(1) show ?thesis
      by (simp add: fcitx_ucs4_to_utf8_def ext_head_of mask_bounds horner_cb push_bit_or or.assoc)
  next
    case 2
    then have "unat c < 2 ^ 16" by (simp add: word_less_nat_alt)
    from joins(2) [OF this] 2 assms(1) show ?thesis
      by (simp add: fcitx_ucs4_to_utf8_def ext_head_of mask_bounds horner_cb push_bit_or or.assoc)
  next
    case 3
    then have "unat c < 2 ^ 21" by (simp add: word_less_nat_alt)
    moreover have "\<not> c < 0x800" using 3 by (simp add: word_less_nat_alt)
    ultimately show ?thesis using joins(3)[of c] 3 assms(1)
      by (simp add: fcitx_ucs4_to_utf8_def ext_head_of mask_bounds horner_cb push_bit_or or.assoc)
  next
    case 4
    then have "unat c < 2 ^ 26" by (simp add: word_less_nat_alt)
    moreover have "\<not> c < 0x800" "\<not> c < 0x10000" "c < 0x8000000" using 4 by (simp_all add: word_less_nat_alt)
    ultimately show ?thesis using joins(4)[of c] 4 assms(1)
      by (simp add: fcitx_ucs4_to_utf8_def ext_head_of mask_bounds horner_cb push_bit_or or.assoc)
  next
    case 5
    then have "unat c < 2 ^ 31" by (simp add: word_less_nat_alt)
    moreover have "\<not> c < 0x800" "\<not> c < 0x10000" "\<not> c < 0x200000" using 5 by (simp_all add: word_less_nat_alt)
    ultimately show ?thesis using joins(5)[of c] 5 assms(1)
      by (simp add: fcitx_ucs4_to_utf8_def ext_head_of mask_bounds horner_cb push_bit_or or.assoc)
  qed
qed

lemma encode_ascii: "c < 0x80 \<Longrightarrow> fcitx_ucs4_to_utf8 c = [ucast c] \<and> (ucast c :: byte) AND 0x80 = 0 \<and> (ucast c :: byte) < 0x80 \<and> ucast (ucast c :: byte) = c"
proof -
  assume c: "c < 0x80"
  then have u: "unat c < 128" by (simp add: word_less_nat_alt)
  have "(ucast c :: byte) AND 0x80 = 0 \<and> (ucast c :: byte) < 0x80 \<and> ucast (ucast c :: byte) = c \<and> c AND 0xff = c"
    by (rule word_below_all[OF _ u]) code_simp
  with c show ?thesis by (simp add: fcitx_ucs4_to_utf8_def)
qed

lemma get_char_ascii: "rd s i = Some b \<Longrightarrow> b AND 0x80 = 0 \<Longrightarrow> fcitx_utf8_get_char s i = Some (ucast b, i + 1)"
  by (simp add: fcitx_utf8_get_char_def)


lemma suffix_bytes:
  assumes d: "drop i s = b # bs @ rest" and cbs: "\<forall>x\<in>set bs. is_utf8_cb x"
  shows "i < length s" and "s ! i = b"
    and "\<forall>k\<in>{Suc i..<i + Suc (length bs)}. k < length s \<and> is_utf8_cb (s ! k)"
    and "map ((!) s) [Suc i..<i + Suc (length bs)] = bs"
proof -
  show "i < length s" and "s ! i = b" using d by (auto dest: drop_eq_Cons_nth)
  have d': "drop (Suc i) s = bs @ rest" using d by (auto dest: drop_eq_Cons_nth)
  have len: "length s = Suc i + length bs + length rest"
    using arg_cong [OF d', of length] \<open>i < length s\<close> by simp
  have nth: "s ! k = bs ! (k - Suc i)" if "Suc i \<le> k" "k < i + Suc (length bs)" for k
  proof -
    have "k - Suc i < length bs" using that by simp
    then have "drop (Suc i) s ! (k - Suc i) = bs ! (k - Suc i)" using d' by (simp add: nth_append)
    then show ?thesis using that len by simp
  qed
  show "\<forall>k\<in>{Suc i..<i + Suc (length bs)}. k < length s \<and> is_utf8_cb (s ! k)"
    using cbs len nth by (auto simp: all_set_conv_all_nth)
  show "map ((!) s) [Suc i..<i + Suc (length bs)] = bs"
    by (rule nth_equalityI) (auto simp: nth simp del: upt_Suc)
qed

lemma get_char_at:
  assumes "drop i s = b # bs @ rest" and "ext_head b = Some (Suc (length bs), w)"
    and "\<forall>x\<in>set bs. is_utf8_cb x"
  shows "fcitx_utf8_get_char s i = Some (foldl horner w bs, i + Suc (length bs))"
  using get_char_multi [of i s "Suc (length bs)" w] suffix_bytes [OF assms(1,3)] assms(2)
  by (simp del: upt_Suc)

section \<open>Decoding inverts encoding\<close>

text \<open>
  C4: Decoding inverts encoding. For every code point below \<open>0x4000000\<close>, and for every
  31-bit one from \<open>0x8000000\<close> on, \<open>fcitx_utf8_get_char\<close> applied to the bytes that
  \<open>fcitx_ucs4_to_utf8\<close> wrote, anywhere inside a buffer, returns that code point and
  the position right behind its bytes. (Between the two bounds the encoder drops bits.)
\<close>

theorem utf8_roundtrip:
  assumes "c < 0x4000000 \<or> (\<not> c < 0x8000000 \<and> c < 0x80000000)"
  shows "fcitx_utf8_get_char (pre @ fcitx_ucs4_to_utf8 c @ rest) (length pre)
         = Some (c, length pre + length (fcitx_ucs4_to_utf8 c))"
proof (cases "c < 0x80")
  case True
  from encode_ascii[OF True] show ?thesis by (simp add: get_char_ascii)
next
  case False
  from encode_shape[OF False assms] obtain b bs w where
    e: "fcitx_ucs4_to_utf8 c = b # bs" "ext_head b = Some (Suc (length bs), w)"
     "\<forall>x\<in>set bs. is_utf8_cb x" "foldl horner w bs = c" by blast
  have "drop (length pre) (pre @ fcitx_ucs4_to_utf8 c @ rest) = b # bs @ rest" by (simp add: e(1))
  from get_char_at[OF this e(2,3)] show ?thesis by (simp add: e)
qed

lemma utf8_roundtrip_witness:
  "fcitx_utf8_get_char ([0x61] @ fcitx_ucs4_to_utf8 0x4F60 @ [0x62]) 1
     = Some (0x4F60, 1 + length (fcitx_ucs4_to_utf8 0x4F60))"
  using utf8_roundtrip [of "0x4F60" "[0x61]" "[0x62]"] by simp

text \<open>In between the encoder writes five bytes, which have room for 26 bits only.\<close>

lemma utf8_bad_range: "fcitx_utf8_get_char (fcitx_ucs4_to_utf8 0x4000000) 0 = Some (0, 5)"
  by code_simp


lemma head_not_small: "ext_head b = Some (n, w) \<Longrightarrow> \<not> b < 0x80 \<and> b \<noteq> 0 \<and> b AND 0x80 \<noteq> 0"
  using ext_head_lead unfolding lead_ok_def by blast

lemma sign_bit: "(x :: uint32) AND 0x80000000 = 0 \<longleftrightarrow> \<not> x <s 0"
  using and_exp_eq_0_iff_not_bit [of x 31] bit_last_iff [of x] by (simp add: word_sless_alt)

lemma unicode_valid_sign: "unicode_valid c \<Longrightarrow> \<not> c <s 0"
proof -
  assume "unicode_valid c"
  then have "unat c < 2 ^ 31" by (simp add: unicode_valid_def word_less_nat_alt)
  then have "\<not> bit c 31" using word_bit_lt by blast
  then show ?thesis using bit_last_iff [of c] by (simp add: word_sless_alt)
qed

lemma encode_length: "c < 0x4000000 \<Longrightarrow> length (fcitx_ucs4_to_utf8 c) = utf8_length c"
  by (simp add: fcitx_ucs4_to_utf8_def utf8_length_def word_less_nat_alt)

text \<open>A valid character that starts at a position is accepted and read back.\<close>

lemma validated_encode:
  assumes "unicode_valid c" and d: "drop i s = fcitx_ucs4_to_utf8 c @ rest"
  shows "fcitx_utf8_get_char_validated s i 6 = Some c
     \<and> fcitx_utf8_get_char s i = Some (c, i + length (fcitx_ucs4_to_utf8 c))"
proof (cases "c < 0x80")
  case True
  from d encode_ascii [OF True] have "drop i s = ucast c # rest" by simp
  then have "rd s i = Some (ucast c)" by (auto simp: rd_def dest: drop_eq_Cons_nth)
  then show ?thesis using encode_ascii [OF True] assms(1) unicode_valid_sign [OF assms(1)]
    by (simp add: fcitx_utf8_get_char_validated_def fcitx_utf8_get_char_extended_def sign_bit get_char_ascii)
next
  case False
  have c: "c < 0x4000000" using assms(1) by (simp add: unicode_valid_def word_less_nat_alt)
  with encode_shape [OF False] obtain b bs w where
    e: "fcitx_ucs4_to_utf8 c = b # bs" "ext_head b = Some (Suc (length bs), w)"
     "\<forall>x\<in>set bs. is_utf8_cb x" "foldl horner w bs = c" by blast
  have d': "drop i s = b # bs @ rest" by (simp add: e(1) d)
  have "utf8_length c = Suc (length bs)" using encode_length [OF c] e(1) by simp
  moreover have "ext_tail s [Suc i..<i + Suc (length bs)] w = Some (Inr c)"
    using suffix_bytes [OF d' e(3)] e(4) by (simp add: ext_tail_conts del: upt_Suc)
  ultimately have "fcitx_utf8_get_char_validated s i 6 = Some c"
    using suffix_bytes(1,2) [OF d' e(3)] e(2) head_not_small [OF e(2)] lead_len [OF e(2)]
      unicode_valid_sign [OF assms(1)] assms(1)
    by (auto simp: fcitx_utf8_get_char_validated_def fcitx_utf8_get_char_extended_def sign_bit simp del: upt_Suc)
  with get_char_at [OF d' e(2,3)] e show ?thesis by simp
qed

text \<open>An accepted character is the encoding of what is read.\<close>

lemma minus_sign: "(- 1 :: uint32) <s 0" "(- 2 :: uint32) <s 0"
  by (simp_all add: word_sless_alt)

lemma ext_short_neg: "ext_short s ks = Some r \<Longrightarrow> r <s 0"
  by (induction ks) (auto simp: minus_sign split: option.splits if_splits)

lemma ext_tail_Inl: "ext_tail s ks w = Some (Inl r) \<Longrightarrow> r <s 0"
  by (induction ks arbitrary: w) (auto simp: minus_sign split: option.splits if_splits)

lemma validated_decode:
  assumes v: "fcitx_utf8_get_char_validated s i 6 = Some r" and pos: "\<not> r <s 0"
    and i: "i < length s"
  shows "unicode_valid r \<and> (\<exists>rest. drop i s = fcitx_ucs4_to_utf8 r @ rest)"
proof -
  from v pos have val: "unicode_valid r" and ext: "fcitx_utf8_get_char_extended s i 6 = Some r"
    by (auto simp: fcitx_utf8_get_char_validated_def bind_eq_Some_conv minus_sign sign_bit split: if_splits)
  show ?thesis
  proof (cases "s ! i < 0x80")
    case True
    then have u: "unat (s ! i) < 128" by (simp add: word_less_nat_alt)
    have r: "r = ucast (s ! i)" using ext True i by (simp add: fcitx_utf8_get_char_extended_def)
    have "(ucast (s ! i) :: uint32) < 0x80 \<and> (ucast (ucast (s ! i) :: uint32) :: byte) = s ! i"
      by (rule word_below_all [OF _ u]) code_simp
    with r have "fcitx_ucs4_to_utf8 r = [s ! i]" using encode_ascii by simp
    with val i show ?thesis by (metis Cons_nth_drop_Suc append_Cons append_Nil)
  next
    case False
    with ext i pos obtain n w where h: "ext_head (s ! i) = Some (n, w)"
      by (auto simp: fcitx_utf8_get_char_extended_def minus_sign split: option.splits)
    have "\<not> 6 < n" using lead_len [OF h] by auto
    with ext i False h have ret: "(case ext_tail s [Suc i..<i + n] w of None \<Rightarrow> None
        | Some (Inl e) \<Rightarrow> Some e
        | Some (Inr c) \<Rightarrow> if utf8_length c \<noteq> n then Some (- 1) else Some c) = Some r"
      by (cases "ext_tail s [Suc i..<i + n] w")
         (simp_all add: fcitx_utf8_get_char_extended_def split: sum.splits)
    then have t: "ext_tail s [Suc i..<i + n] w = Some (Inr r)" and n: "utf8_length r = n"
      using pos by (auto simp: minus_sign split: option.splits sum.splits if_splits dest: ext_tail_Inl)
    let ?bs = "map ((!) s) [Suc i..<i + n]"
    from ext_tail_Inr [OF t] have cbs: "\<forall>k\<in>{Suc i..<i + n}. k < length s \<and> is_utf8_cb (s ! k)"
      and r: "r = foldl horner w ?bs" by auto
    have "n \<le> 4" using val n by (auto simp: unicode_valid_def utf8_length_def word_less_nat_alt split: if_splits)
    have "fcitx_ucs4_to_utf8 r = s ! i # ?bs"
      unfolding r by (rule encode_decode [OF h]) (use cbs r n \<open>n \<le> 4\<close> in auto)
    moreover have "i + n - 1 < length s" using cbs lead_len [OF h] by auto
    then have bs: "?bs = take (n - 1) (drop (Suc i) s)" by (simp add: map_nth_interval)
    have "n - 1 + Suc i = i + n" using lead_len [OF h] by auto
    then have "drop (Suc i) s = ?bs @ drop (i + n) s"
      unfolding bs using append_take_drop_id [of "n - 1" "drop (Suc i) s"] by (simp only: drop_drop)
    then have "drop i s = s ! i # ?bs @ drop (i + n) s" using i by (metis Cons_nth_drop_Suc)
    ultimately show ?thesis using val by auto
  qed
qed


section \<open>The accepted strings\<close>

lemma check_loop_decode:
  "utf8_check_loop s i = Some True \<Longrightarrow> is_cstr s \<Longrightarrow> i \<le> length s \<Longrightarrow>
   \<exists>cs. (\<forall>c\<in>set cs. unicode_valid c) \<and> drop i s = concat (map fcitx_ucs4_to_utf8 cs)"
proof (induction s i rule: utf8_check_loop.induct)
  case (1 s i)
  show ?case
  proof (cases "i = length s")
    case True
    then show ?thesis by (intro exI [of _ "[]"]) simp
  next
    case False
    with "1.prems"(3) have i: "i < length s" by simp
    with "1.prems" have nz: "s ! i \<noteq> 0" by (simp add: is_cstr_nth)
    from "1.prems"(1) i nz obtain r c j where v: "fcitx_utf8_get_char_validated s i 6 = Some r"
      "\<not> r <s 0" and g: "fcitx_utf8_get_char s i = Some (c, j)" and next_ok: "utf8_check_loop s j = Some True"
      by (subst (asm) utf8_check_loop.simps) (auto split: option.splits if_splits)
    from validated_decode [OF v i] obtain rest where r: "unicode_valid r"
      and d: "drop i s = fcitx_ucs4_to_utf8 r @ rest" by blast
    from validated_encode [OF r d] g have j: "j = i + length (fcitx_ucs4_to_utf8 r)" by simp
    have "j \<le> length s" using get_char_total [OF i] g by auto
    with "1.IH" [of "s ! i" r "(c, j)" c j] i nz v g next_ok "1.prems"(2)
    obtain cs where cs: "\<forall>c\<in>set cs. unicode_valid c" "drop j s = concat (map fcitx_ucs4_to_utf8 cs)"
      by auto
    have "rest = drop j s" using d j by (metis append_eq_conv_conj drop_drop add.commute)
    with cs r d show ?thesis by (intro exI [of _ "r # cs"]) simp
  qed
qed

lemma encode_nonempty [simp]: "fcitx_ucs4_to_utf8 c \<noteq> []"
  by (simp add: fcitx_ucs4_to_utf8_def)

lemma check_loop_encode:
  "\<forall>c\<in>set cs. unicode_valid c \<Longrightarrow> is_cstr s \<Longrightarrow> i \<le> length s \<Longrightarrow>
   drop i s = concat (map fcitx_ucs4_to_utf8 cs) \<Longrightarrow> utf8_check_loop s i = Some True"
proof (induction cs arbitrary: i)
  case Nil
  then have "i = length s" by simp
  then show ?case by (subst utf8_check_loop.simps) simp
next
  case (Cons c cs)
  then have d: "drop i s = fcitx_ucs4_to_utf8 c @ concat (map fcitx_ucs4_to_utf8 cs)" by simp
  then have i: "i < length s" using Cons.prems(3) by (cases "i = length s") auto
  let ?j = "i + length (fcitx_ucs4_to_utf8 c)"
  from validated_encode [OF _ d] Cons.prems(1) have v: "fcitx_utf8_get_char_validated s i 6 = Some c"
    and g: "fcitx_utf8_get_char s i = Some (c, ?j)" by auto
  have dj: "drop ?j s = concat (map fcitx_ucs4_to_utf8 cs)"
    using d by (metis append_eq_conv_conj drop_drop add.commute)
  have "?j \<le> length s" using get_char_total [OF i] g by auto
  with Cons.IH [of ?j] Cons.prems dj have "utf8_check_loop s ?j = Some True" by simp
  then show ?case using v g i Cons.prems unicode_valid_sign [of c]
    by (subst utf8_check_loop.simps) (simp add: is_cstr_nth)
qed

lemma ext_short_None: "ext_short s ks = None \<longleftrightarrow> conts s ks = None"
  and ext_tail_None: "ext_tail s ks w = None \<longleftrightarrow> conts s ks = None"
  by (induction ks arbitrary: w) (auto simp: is_utf8_cb_def split: option.splits)

lemma validated_total:
  assumes "i < length s"
  shows "\<exists>r. fcitx_utf8_get_char_validated s i m = Some r"
proof -
  have c: "conts s [Suc i..<k] \<noteq> None" for k using conts_total [of "Suc i"] assms by simp
  have es: "ext_short s [Suc i..<k] \<noteq> None" and et: "ext_tail s [Suc i..<k] w \<noteq> None" for k w
    using c ext_short_None ext_tail_None by blast+
  have "fcitx_utf8_get_char_extended s i m \<noteq> None"
  proof (cases "ext_head (s ! i)")
    case None
    then show ?thesis using assms by (simp add: fcitx_utf8_get_char_extended_def)
  next
    case (Some a)
    obtain n w where a: "a = (n, w)" by (cases a)
    obtain y where "ext_tail s [Suc i..<i + n] w = Some y" using et by blast
    with Some a es [of "i + nat m"] show ?thesis using assms
      by (cases y) (simp_all add: fcitx_utf8_get_char_extended_def)
  qed
  then show ?thesis by (auto simp: fcitx_utf8_get_char_validated_def)
qed

lemma check_loop_total: "i \<le> length s \<Longrightarrow> \<exists>t. utf8_check_loop s i = Some t"
proof (induction s i rule: utf8_check_loop.induct)
  case (1 s i)
  show ?case
  proof (cases "i < length s \<and> s ! i \<noteq> 0")
    case True
    then obtain r c j where v: "fcitx_utf8_get_char_validated s i 6 = Some r"
      "fcitx_utf8_get_char s i = Some (c, j)" "j \<le> length s"
      using validated_total get_char_total by blast
    with True "1.IH" [of "s ! i" r "(c, j)" c j] show ?thesis
      by (subst utf8_check_loop.simps) auto
  next
    case False
    with "1.prems" have "rd s i = Some 0" by (auto simp: rd_def)
    then show ?thesis by (subst utf8_check_loop.simps) auto
  qed
qed

text \<open>
  C5: The validator is exact. On every C string \<open>fcitx_utf8_check_string\<close> stays inside
  the buffer and accepts it exactly when it is the concatenation of the encodings of valid
  Unicode characters: overlong forms, surrogates, noncharacters, stray continuation bytes and
  cut sequences are all refused.
\<close>

theorem check_string_iff:
  assumes "is_cstr s"
  shows "fcitx_utf8_check_string s =
    Some (\<exists>cs. (\<forall>c\<in>set cs. unicode_valid c) \<and> s = concat (map fcitx_ucs4_to_utf8 cs))"
proof -
  obtain t where t: "utf8_check_loop s 0 = Some t" using check_loop_total [of 0 s] by auto
  show ?thesis
  proof (cases t)
    case True
    with check_loop_decode [of s 0] t assms show ?thesis by (simp add: fcitx_utf8_check_string_def)
  next
    case False
    with check_loop_encode [of _ s 0] t assms show ?thesis by (auto simp: fcitx_utf8_check_string_def)
  qed
qed

lemma check_string_iff_witness: "fcitx_utf8_check_string [0xE4, 0xBD, 0xA0, 0x61] = Some True"
proof -
  have "list_all unicode_valid [0x4F60, 0x61]
    \<and> [0xE4, 0xBD, 0xA0, 0x61] = concat (map fcitx_ucs4_to_utf8 [0x4F60, 0x61])" by code_simp
  then have "\<exists>cs. (\<forall>c\<in>set cs. unicode_valid c) \<and> [0xE4, 0xBD, 0xA0, 0x61] = concat (map fcitx_ucs4_to_utf8 cs)"
    unfolding list_all_iff by blast
  then show ?thesis using check_string_iff [of "[0xE4, 0xBD, 0xA0, 0x61]"] by (simp add: is_cstr_def)
qed

end
