(* ===== verification/Utf8_Text.thy ===== *)
theory Utf8_Text
  imports Utf8_Codec
begin

text \<open>
  The loops of \<open>utf8.c\<close> over whole strings: length and comparison of texts of valid
  characters, and copying within a byte budget, which stops at the last character boundary
  that fits.
\<close>

section \<open>Texts: sequences of valid characters\<close>

definition utf8_text :: "uint32 list \<Rightarrow> buf" where
  "utf8_text cs = concat (map fcitx_ucs4_to_utf8 cs)"

definition valid_chars :: "uint32 list \<Rightarrow> bool" where
  "valid_chars cs \<longleftrightarrow> (\<forall>c\<in>set cs. unicode_valid c \<and> c \<noteq> 0)"

lemma utf8_text_simps [simp]:
  "utf8_text [] = []" "utf8_text (c # cs) = fcitx_ucs4_to_utf8 c @ utf8_text cs"
  by (simp_all add: utf8_text_def)

lemma valid_chars_simps [simp]:
  "valid_chars []" "valid_chars (c # cs) \<longleftrightarrow> unicode_valid c \<and> c \<noteq> 0 \<and> valid_chars cs"
  by (auto simp: valid_chars_def)

lemma encode_first:
  assumes "unicode_valid c" and "c \<noteq> 0"
  shows "\<exists>b bs. fcitx_ucs4_to_utf8 c = b # bs \<and> b \<noteq> 0 \<and> (b AND 0x80 = 0 \<longleftrightarrow> c < 0x80)
     \<and> (c < 0x80 \<longrightarrow> bs = [] \<and> b = ucast c)"
proof (cases "c < 0x80")
  case True
  from encode_ascii [OF True] assms(2) show ?thesis by (metis unsigned_0 True)
next
  case False
  have "c < 0x4000000" using assms(1) by (simp add: unicode_valid_def word_less_nat_alt)
  with encode_shape [OF False] obtain b bs w where
    "fcitx_ucs4_to_utf8 c = b # bs" "ext_head b = Some (Suc (length bs), w)" by blast
  with head_not_small False show ?thesis by blast
qed

text \<open>What the loops see at the start of a character.\<close>

lemma text_step:
  assumes "unicode_valid c" and "c \<noteq> 0" and d: "drop i s = fcitx_ucs4_to_utf8 c @ rest"
  shows "\<exists>b. rd s i = Some b \<and> b \<noteq> 0 \<and> (b AND 0x80 = 0 \<longleftrightarrow> c < 0x80) \<and> (c < 0x80 \<longrightarrow> b = ucast c)
    \<and> fcitx_utf8_get_char s i = Some (c, i + length (fcitx_ucs4_to_utf8 c))
    \<and> drop (i + length (fcitx_ucs4_to_utf8 c)) s = rest \<and> i < length s"
proof -
  obtain b bs where e: "fcitx_ucs4_to_utf8 c = b # bs" "b \<noteq> 0" "b AND 0x80 = 0 \<longleftrightarrow> c < 0x80"
    "c < 0x80 \<longrightarrow> b = ucast c" using encode_first [OF assms(1,2)] by blast
  then have "i < length s" and "s ! i = b" using drop_eq_Cons_nth [of i s b "bs @ rest"] d by auto
  moreover have "drop (i + length (fcitx_ucs4_to_utf8 c)) s = rest"
    using d by (metis append_eq_conv_conj drop_drop add.commute)
  ultimately show ?thesis using e validated_encode [OF assms(1) d] by auto
qed

lemma text_end: "drop i s = [] \<Longrightarrow> i \<le> length s \<Longrightarrow> rd s i = Some 0"
  by (simp add: rd_def)

lemma strlen_loop_text:
  "valid_chars cs \<Longrightarrow> drop i s = utf8_text cs \<Longrightarrow> i \<le> length s \<Longrightarrow>
   utf8_strlen_loop s i l = Some (l + of_nat (length cs))"
proof (induction cs arbitrary: i l)
  case Nil
  then show ?case by (subst utf8_strlen_loop.simps) (simp add: text_end)
next
  case (Cons c cs)
  let ?j = "i + length (fcitx_ucs4_to_utf8 c)"
  from Cons.prems obtain b where b: "rd s i = Some b" "b \<noteq> 0" "fcitx_utf8_get_char s i = Some (c, ?j)"
    "drop ?j s = utf8_text cs" "i < length s" using text_step [of c i s] by auto
  have "?j \<le> length s" using get_char_total [OF b(5)] b(3) by auto
  with Cons b show ?case
    by (subst utf8_strlen_loop.simps) (simp add: algebra_simps)
qed

theorem strlen_text:
  assumes "valid_chars cs" and "length cs < 2 ^ 32"
  shows "fcitx_utf8_strlen (utf8_text cs) = Some (of_nat (length cs))"
  using strlen_loop_text [OF assms(1), of 0 "utf8_text cs" 0] assms(2)
  by (simp add: fcitx_utf8_strlen_def unsigned_of_nat take_bit_nat_eq_self)

lemma strncmp_loop_text:
  "valid_chars cs \<Longrightarrow> valid_chars ds \<Longrightarrow> drop i s = utf8_text cs \<Longrightarrow> drop j t = utf8_text ds \<Longrightarrow>
   i \<le> length s \<Longrightarrow> j \<le> length t \<Longrightarrow>
   utf8_strncmp_loop s i t j n = Some (if take n cs = take n ds then 0 else 1)"
proof (induction n arbitrary: cs ds i j)
  case 0
  then show ?case by simp
next
  case (Suc n)
  show ?case
  proof (cases cs)
    case Nil
    then have r: "rd s i = Some 0" using Suc.prems by (simp add: text_end)
    show ?thesis
    proof (cases ds)
      case (Cons d ds')
      with Suc.prems text_step [of d j t] obtain b where "rd t j = Some b" "b \<noteq> 0" by auto
      with r Nil Cons show ?thesis by simp
    qed (use r Nil Suc.prems in \<open>simp add: text_end\<close>)
  next
    case c: (Cons c cs')
    let ?i = "i + length (fcitx_ucs4_to_utf8 c)"
    from Suc.prems c text_step [of c i s "utf8_text cs'"] obtain b where b: "rd s i = Some b" "b \<noteq> 0"
      "b AND 0x80 = 0 \<longleftrightarrow> c < 0x80" "c < 0x80 \<longrightarrow> b = ucast c"
      "fcitx_utf8_get_char s i = Some (c, ?i)" "drop ?i s = utf8_text cs'" "i < length s" by auto
    have il: "?i \<le> length s" using get_char_total [OF b(7)] b(5) by auto
    show ?thesis
    proof (cases ds)
      case Nil
      then have r: "rd t j = Some 0" using Suc.prems by (simp add: text_end)
      have "fcitx_utf8_get_char t j = Some (0, j + 1)" using r by (simp add: fcitx_utf8_get_char_def)
      moreover have "b \<noteq> 0" by (rule b(2))
      ultimately show ?thesis using r Nil c b(1,3,5) Suc.prems(1) by simp
    next
      case d: (Cons d ds')
      let ?j = "j + length (fcitx_ucs4_to_utf8 d)"
      from Suc.prems d text_step [of d j t "utf8_text ds'"] obtain e where e: "rd t j = Some e" "e \<noteq> 0"
        "e AND 0x80 = 0 \<longleftrightarrow> d < 0x80" "d < 0x80 \<longrightarrow> e = ucast d"
        "fcitx_utf8_get_char t j = Some (d, ?j)" "drop ?j t = utf8_text ds'" "j < length t" by auto
      have jl: "?j \<le> length t" using get_char_total [OF e(7)] e(5) by auto
      have IH: "utf8_strncmp_loop s ?i t ?j n = Some (if take n cs' = take n ds' then 0 else 1)"
        using Suc.IH Suc.prems c d b e il jl by auto
      show ?thesis
      proof (cases "c < 0x80")
        case True
        have eq: "b = e \<longleftrightarrow> c = d"
        proof (cases "d < 0x80")
          case d80: True
          then show ?thesis using b(4) e(4) True encode_ascii [OF True] encode_ascii [OF d80] by metis
        next
          case False
          then show ?thesis using b(3) e(3) True by metis
        qed
        have len: "length (fcitx_ucs4_to_utf8 c) = 1" using encode_ascii [OF True] by simp
        show ?thesis
        proof (cases "c = d")
          case same: True
          then show ?thesis using IH eq len b(1,2,3) e(1) c d True by simp
        next
          case False
          then show ?thesis using eq b(1,3) e(1) c d True by simp
        qed
      next
        case False
        then show ?thesis using b(1,3,5) e(5) c d IH by auto
      qed
    qed
  qed
qed

text \<open>
  Comparison of texts. On two texts of valid characters \<open>fcitx_utf8_strncmp\<close>
  compares their first \<open>n\<close> characters: \<open>0\<close> when these prefixes agree, \<open>1\<close>
  otherwise, and it stays inside both buffers.
\<close>

theorem strncmp_text:
  assumes "valid_chars cs" and "valid_chars ds" and "0 \<le> n"
  shows "fcitx_utf8_strncmp (utf8_text cs) (utf8_text ds) n
         = Some (if take (nat n) cs = take (nat n) ds then 0 else 1)"
  using strncmp_loop_text [OF assms(1,2), of 0 _ 0] by (simp add: fcitx_utf8_strncmp_def)

lemma strncmp_text_witness:
  "fcitx_utf8_strncmp (utf8_text [0x4F60, 0x597D]) (utf8_text [0x4F60, 0x61]) 2
     = Some (if take (nat 2) [0x4F60, 0x597D] = take (nat 2) [0x4F60, 0x61 :: uint32] then 0 else 1)"
  by (rule strncmp_text) (simp_all add: valid_chars_def unicode_valid_def)

text \<open>
  On other strings the two pointers can get out of step: an overlong NUL on the left is
  equal to the terminator on the right, and the second round reads behind that terminator.
\<close>

lemma strncmp_overrun:
  "fcitx_utf8_strncmp [0xC0, 0x80, 0x61] [] 2 = None \<and> fcitx_utf8_check_string [0xC0, 0x80, 0x61] = Some False"
  by code_simp

section \<open>Character boundaries\<close>

inductive utf8_boundary :: "buf \<Rightarrow> nat \<Rightarrow> nat \<Rightarrow> bool" for s where
  boundary_here: "utf8_boundary s i i"
| boundary_next: "rd s i = Some b \<Longrightarrow> b \<noteq> 0 \<Longrightarrow> fcitx_utf8_get_char s i = Some (c, j) \<Longrightarrow>
    utf8_boundary s j k \<Longrightarrow> utf8_boundary s i k"

inductive_cases boundary_cases: "utf8_boundary s i k"

lemma boundary_ge: "utf8_boundary s i k \<Longrightarrow> i \<le> k"
  by (induction rule: utf8_boundary.induct) (auto dest: get_char_forward)

lemma boundary_le: "utf8_boundary s i k \<Longrightarrow> i \<le> length s \<Longrightarrow> k \<le> length s"
proof (induction rule: utf8_boundary.induct)
  case (boundary_next i b c j k)
  then have "i < length s" by (auto dest: rd_nonzero)
  with boundary_next get_char_total show ?case by fastforce
qed simp

lemma boundary_trans: "utf8_boundary s i j \<Longrightarrow> utf8_boundary s j k \<Longrightarrow> utf8_boundary s i k"
  by (induction rule: utf8_boundary.induct) (auto intro: boundary_next)

text \<open>No boundary lies strictly inside a character.\<close>

lemma boundary_gap:
  "utf8_boundary s i k \<Longrightarrow> fcitx_utf8_get_char s i = Some (c, j) \<Longrightarrow> k = i \<or> j \<le> k"
  by (erule boundary_cases) (auto dest: boundary_ge)

lemma boundary_at_end: "utf8_boundary s i k \<Longrightarrow> rd s i = Some 0 \<Longrightarrow> k = i"
  by (erule boundary_cases) auto

text \<open>The last boundary within \<open>n\<close> bytes.\<close>

definition last_fit :: "buf \<Rightarrow> nat \<Rightarrow> nat \<Rightarrow> nat \<Rightarrow> bool" where
  "last_fit s i n k \<longleftrightarrow> utf8_boundary s i k \<and> k \<le> i + n \<and> (\<forall>m. utf8_boundary s i m \<and> m \<le> i + n \<longrightarrow> m \<le> k)"

lemma last_fit_stop:
  "rd s i = Some 0 \<Longrightarrow> last_fit s i n i"
  "fcitx_utf8_get_char s i = Some (c, j) \<Longrightarrow> n < j - i \<Longrightarrow> last_fit s i n i"
  by (auto simp: last_fit_def boundary_here dest: boundary_at_end boundary_gap)

lemma last_fit_step:
  assumes "rd s i = Some b" "b \<noteq> 0" "fcitx_utf8_get_char s i = Some (c, j)" "\<not> n < j - i"
    "last_fit s j (n - (j - i)) k"
  shows "last_fit s i n k"
  unfolding last_fit_def
proof (intro conjI allI impI)
  have j: "i < j" using assms(3) by (rule get_char_forward)
  show "utf8_boundary s i k" using assms by (auto simp: last_fit_def intro: boundary_next)
  then show "k \<le> i + n" using assms(4,5) j by (simp add: last_fit_def)
  fix m assume m: "utf8_boundary s i m \<and> m \<le> i + n"
  then show "m \<le> k"
  proof (cases "m = i")
    case True
    then show ?thesis using \<open>utf8_boundary s i k\<close> boundary_ge by simp
  next
    case False
    with m assms(1,3) have "utf8_boundary s j m" by (auto elim: boundary_cases)
    with m assms(4,5) j show ?thesis by (simp add: last_fit_def)
  qed
qed

lemma strncpy_loop:
  "i \<le> length s \<Longrightarrow> \<exists>k. last_fit s i n k \<and>
   utf8_strncpy_loop s i n acc = Some (acc @ take (k - i) (drop i s) @ replicate (n - (k - i)) 0)"
proof (induction s i n acc rule: utf8_strncpy_loop.induct)
  case (1 s i n acc)
  show ?case
  proof (cases "i < length s \<and> s ! i \<noteq> 0")
    case False
    with "1.prems" have r: "rd s i = Some 0" by (auto simp: rd_def)
    then show ?thesis by (subst utf8_strncpy_loop.simps) (auto intro!: exI [of _ i] last_fit_stop)
  next
    case True
    then obtain c j where g: "fcitx_utf8_get_char s i = Some (c, j)" "i < j" "j \<le> length s"
      using get_char_total by blast
    show ?thesis
    proof (cases "n < j - i")
      case nofit: True
      then show ?thesis using True g
        by (subst utf8_strncpy_loop.simps) (auto intro!: exI [of _ i] intro: last_fit_stop)
    next
      case False
      with True g "1.IH" [of "s ! i" "(c, j)" c j] obtain k where k: "last_fit s j (n - (j - i)) k"
        "utf8_strncpy_loop s j (n - (j - i)) (acc @ take (j - i) (drop i s))
         = Some ((acc @ take (j - i) (drop i s)) @ take (k - j) (drop j s) @ replicate (n - (j - i) - (k - j)) 0)"
        by auto
      have jk: "j \<le> k" using k(1) boundary_ge by (auto simp: last_fit_def)
      have "take (k - i) (drop i s) = take (j - i) (drop i s) @ take (k - j) (drop j s)"
        using take_add [of "j - i" "k - j" "drop i s"] g(2) jk by simp
      moreover have "n - (j - i) - (k - j) = n - (k - i)" using g(2) jk by simp
      moreover have "last_fit s i n k" using last_fit_step [OF _ _ g(1) False k(1)] True by simp
      ultimately show ?thesis using True g(1) False k(2)
        by (subst utf8_strncpy_loop.simps) (auto intro!: exI [of _ k])
    qed
  qed
qed

text \<open>
  Copying within a byte budget. \<open>fcitx_utf8_strncpy\<close> copies the longest prefix of
  whole characters that fits into the budget, never half a character, and fills the rest of
  the destination with zeros; it stays inside the source, whatever bytes that holds.
\<close>

theorem strncpy_fits:
  "\<exists>k. last_fit s 0 n k \<and> fcitx_utf8_strncpy s n = Some (take k s @ replicate (n - k) 0)"
  using strncpy_loop [of 0 s n "[]"] by (simp add: fcitx_utf8_strncpy_def)

end
