(* ===== verification/Utarray.thy ===== *)
theory Utarray
  imports Prelude
begin

text \<open>
  The dynamic arrays of \<open>src/lib/fcitx-utils/utarray.h\<close> and the checked wrappers
  \<open>fcitx_array_*\<close> of \<open>utils.h\<close>. An array is the list of its live elements; a pointer to
  an element is its index. Erasing a range that does not lie inside the array is a misuse of
  the macros (the destructor gets a null pointer, or the length wraps around, or the wrong
  elements are kept) and is \<open>None\<close> here, as is popping an empty array. Capacities and
  allocation failures are not modelled.
\<close>

section \<open>The macros of utarray.h\<close>

definition utarray_push_back :: "'a list \<Rightarrow> 'a \<Rightarrow> 'a list" where
  "utarray_push_back a x = a @ [x]"

definition utarray_pop_back :: "'a list \<Rightarrow> 'a list option" where
  "utarray_pop_back a = (if a = [] then None else Some (butlast a))"

definition utarray_extend_back :: "'a \<Rightarrow> 'a list \<Rightarrow> 'a list" where
  "utarray_extend_back z a = a @ [z]"

definition utarray_push_front :: "'a list \<Rightarrow> 'a \<Rightarrow> 'a list" where
  "utarray_push_front a x = x # a"

definition utarray_eltptr :: "'a list \<Rightarrow> nat \<Rightarrow> 'a option" where
  "utarray_eltptr a j = (if j < length a then Some (a ! j) else None)"

definition utarray_insert :: "'a list \<Rightarrow> 'a \<Rightarrow> nat \<Rightarrow> 'a list" where
  "utarray_insert a x j = (if j > length a then a else take j a @ x # drop j a)"

definition utarray_inserta :: "'a list \<Rightarrow> 'a list \<Rightarrow> nat \<Rightarrow> 'a list" where
  "utarray_inserta a w j =
     (if length w = 0 then a else if j > length a then a else take j a @ w @ drop j a)"

definition utarray_concat :: "'a list \<Rightarrow> 'a list \<Rightarrow> 'a list" where
  "utarray_concat a w = utarray_inserta a w (length a)"

definition utarray_move :: "'a list \<Rightarrow> nat \<Rightarrow> nat \<Rightarrow> 'a list" where
  "utarray_move a f t =
     (if f \<ge> length a then a else if t \<ge> length a then a else if f = t then a
      else if f > t then take t a @ [a ! f] @ take (f - t) (drop t a) @ drop (Suc f) a
      else take f a @ take (t - f) (drop (Suc f) a) @ [a ! f] @ drop (Suc t) a)"

definition utarray_erase :: "'a list \<Rightarrow> nat \<Rightarrow> nat \<Rightarrow> 'a list option" where
  "utarray_erase a pos n =
     (if pos + n \<le> length a then Some (take pos a @ drop (pos + n) a) else None)"

definition utarray_remove_quick :: "'a list \<Rightarrow> nat \<Rightarrow> 'a list option" where
  "utarray_remove_quick a pos =
     (if pos < length a then Some (butlast (if length a - 1 \<noteq> pos then a[pos := last a] else a))
      else None)"

definition utarray_resize :: "'a \<Rightarrow> 'a list \<Rightarrow> nat \<Rightarrow> 'a list" where
  "utarray_resize z a n = (if length a > n then take n a else a @ replicate (n - length a) z)"

definition utarray_front :: "'a list \<Rightarrow> nat option" where
  "utarray_front a = (if length a \<noteq> 0 then Some 0 else None)"

definition utarray_back :: "'a list \<Rightarrow> nat option" where
  "utarray_back a = (if length a \<noteq> 0 then Some (length a - 1) else None)"

definition utarray_next :: "'a list \<Rightarrow> nat option \<Rightarrow> nat option" where
  "utarray_next a e =
     (case e of None \<Rightarrow> utarray_front a | Some i \<Rightarrow> if length a > i + 1 then Some (i + 1) else None)"

definition utarray_prev :: "'a list \<Rightarrow> nat option \<Rightarrow> nat option" where
  "utarray_prev a e =
     (case e of None \<Rightarrow> utarray_back a | Some i \<Rightarrow> if int i - 1 < 0 then None else Some (i - 1))"

section \<open>The wrappers that check for negative indices\<close>

definition fcitx_array_eltptr :: "'a list \<Rightarrow> int \<Rightarrow> 'a option" where
  "fcitx_array_eltptr a i = (if i < 0 then None else utarray_eltptr a (nat i))"

definition fcitx_array_insert :: "'a list \<Rightarrow> 'a \<Rightarrow> int \<Rightarrow> 'a list" where
  "fcitx_array_insert a x i = (if i < 0 then a else utarray_insert a x (nat i))"

definition fcitx_array_inserta :: "'a list \<Rightarrow> 'a list \<Rightarrow> int \<Rightarrow> 'a list" where
  "fcitx_array_inserta a w i = (if i < 0 then a else utarray_inserta a w (nat i))"

definition fcitx_array_move :: "'a list \<Rightarrow> int \<Rightarrow> int \<Rightarrow> 'a list" where
  "fcitx_array_move a f t = (if f < 0 \<or> t < 0 then a else utarray_move a (nat f) (nat t))"

definition fcitx_array_erase :: "'a list \<Rightarrow> int \<Rightarrow> int \<Rightarrow> 'a list option" where
  "fcitx_array_erase a pos n =
     (if pos < 0 \<or> n < 0 then Some a else utarray_erase a (nat pos) (nat n))"

definition fcitx_array_resize :: "'a \<Rightarrow> 'a list \<Rightarrow> int \<Rightarrow> 'a list" where
  "fcitx_array_resize z a n = (if n < 0 then a else utarray_resize z a (nat n))"

section \<open>Laws\<close>

lemma eltptr_Some: "utarray_eltptr a j = Some x \<longleftrightarrow> j < length a \<and> a ! j = x"
  by (simp add: utarray_eltptr_def)

lemma array_eltptr_Some:
  "fcitx_array_eltptr a i = Some x \<longleftrightarrow> 0 \<le> i \<and> nat i < length a \<and> a ! nat i = x"
  by (auto simp: fcitx_array_eltptr_def eltptr_Some)

lemma length_inserta:
  "j \<le> length a \<Longrightarrow> length (utarray_inserta a w j) = length a + length w"
  by (simp add: utarray_inserta_def)

lemma concat_append [simp]: "utarray_concat a w = a @ w"
  by (simp add: utarray_concat_def utarray_inserta_def)

lemma length_move [simp]: "length (utarray_move a f t) = length a"
  by (auto simp: utarray_move_def)

text \<open>
  Moving an element: it lands at the target, and removing it from the old and from the new
  place leaves the same list, so the others keep their order.
\<close>

definition drop_nth :: "nat \<Rightarrow> 'a list \<Rightarrow> 'a list" where
  "drop_nth i a = take i a @ drop (Suc i) a"

lemma move_target:
  assumes "f < length a" and "t < length a"
  shows "utarray_move a f t ! t = a ! f"
  using assms by (auto simp: utarray_move_def nth_append min_def)

lemma move_others:
  assumes "f < length a" and "t < length a"
  shows "drop_nth t (utarray_move a f t) = drop_nth f a"
proof -
  consider "f = t" | "t < f" | "f < t" by linarith
  then show ?thesis
  proof cases
    case 2
    have "take t a @ take (f - t) (drop t a) = take f a"
      using 2 take_add [of t "f - t" a] by simp
    with 2 assms show ?thesis
      by (simp add: utarray_move_def drop_nth_def)
  next
    case 3
    have "take (t - f) (drop (Suc f) a) @ drop (Suc t) a = drop (Suc f) a"
      using 3 append_take_drop_id [of "t - f" "drop (Suc f) a"] by simp
    with 3 assms show ?thesis
      by (simp add: utarray_move_def drop_nth_def)
  qed (simp add: utarray_move_def)
qed

lemma set_remove_quick:
  assumes "utarray_remove_quick a pos = Some a'"
  shows "set a' \<subseteq> set a \<and> length a' = length a - 1"
proof -
  from assms have "a \<noteq> []" and a': "a' = butlast (if length a - 1 \<noteq> pos then a[pos := last a] else a)"
    by (auto simp: utarray_remove_quick_def split: if_splits)
  have "set (a[pos := last a]) \<subseteq> set a"
    using set_update_subset_insert [of a pos "last a"] \<open>a \<noteq> []\<close> by auto
  with a' show ?thesis by (auto dest: in_set_butlastD)
qed

end
