(* ===== verification/Uthash.thy ===== *)
theory Uthash
  imports Prelude
begin

text \<open>
  The hash tables of \<open>src/lib/fcitx-utils/uthash.h\<close> as their clients see them: an
  association list in application order, the order of the \<open>hh.next\<close> chain. \<open>HASH_ADD\<close>
  appends, iteration goes from the first item to the last. On a table of distinct keys
  \<open>HASH_FIND\<close> has only one answer. A table may also hold one key twice (\<open>HASH_ADD\<close>
  does not look); then the item that was pushed last on the bucket chain is found, which is the
  one added last as long as the table has not been redistributed over more buckets.

  The laws a client relies on are the locale \<open>keyed_store\<close>; a store that also promises
  the order of iteration is an \<open>ordered_store\<close>, and every ordered store is a keyed store.
\<close>

section \<open>Operations\<close>

type_synonym ('k, 'v) uthash = "('k \<times> 'v) list"

definition hash_find :: "('k, 'v) uthash \<Rightarrow> 'k \<Rightarrow> 'v option" where
  "hash_find h k = map_of (rev h) k"

definition hash_add :: "('k, 'v) uthash \<Rightarrow> 'k \<Rightarrow> 'v \<Rightarrow> ('k, 'v) uthash" where
  "hash_add h k v = h @ [(k, v)]"

fun del_first :: "'k \<Rightarrow> ('k \<times> 'v) list \<Rightarrow> ('k \<times> 'v) list" where
  "del_first k [] = []"
| "del_first k (p # ps) = (if fst p = k then ps else p # del_first k ps)"

fun upd_first :: "'k \<Rightarrow> 'v \<Rightarrow> ('k \<times> 'v) list \<Rightarrow> ('k \<times> 'v) list" where
  "upd_first k v [] = []"
| "upd_first k v (p # ps) = (if fst p = k then (k, v) # ps else p # upd_first k v ps)"

text \<open>\<open>HASH_DEL\<close> of the item that \<open>HASH_FIND\<close> returned, and an assignment through it.\<close>

definition hash_del :: "('k, 'v) uthash \<Rightarrow> 'k \<Rightarrow> ('k, 'v) uthash" where
  "hash_del h k = rev (del_first k (rev h))"

definition hash_upd :: "('k, 'v) uthash \<Rightarrow> 'k \<Rightarrow> 'v \<Rightarrow> ('k, 'v) uthash" where
  "hash_upd h k v = rev (upd_first k v (rev h))"

definition hash_keys :: "('k, 'v) uthash \<Rightarrow> 'k list" where
  "hash_keys h = map fst h"

section \<open>The contract of a keyed store\<close>

locale keyed_store =
  fixes wf :: "'m \<Rightarrow> bool"
    and lookup :: "'m \<Rightarrow> 'k \<Rightarrow> 'v option"
    and add :: "'m \<Rightarrow> 'k \<Rightarrow> 'v \<Rightarrow> 'm"
    and upd :: "'m \<Rightarrow> 'k \<Rightarrow> 'v \<Rightarrow> 'm"
    and del :: "'m \<Rightarrow> 'k \<Rightarrow> 'm"
  assumes lookup_add: "wf m \<Longrightarrow> lookup m k = None \<Longrightarrow> lookup (add m k v) = (lookup m)(k \<mapsto> v)"
    and lookup_upd: "wf m \<Longrightarrow> lookup m k \<noteq> None \<Longrightarrow> lookup (upd m k v) = (lookup m)(k \<mapsto> v)"
    and lookup_del: "wf m \<Longrightarrow> lookup m k \<noteq> None \<Longrightarrow> lookup (del m k) = (lookup m)(k := None)"
    and wf_add: "wf m \<Longrightarrow> lookup m k = None \<Longrightarrow> wf (add m k v)"
    and wf_upd: "wf m \<Longrightarrow> lookup m k \<noteq> None \<Longrightarrow> wf (upd m k v)"
    and wf_del: "wf m \<Longrightarrow> lookup m k \<noteq> None \<Longrightarrow> wf (del m k)"
begin

text \<open>Find or create, the way every client stores a value.\<close>

lemma wf_put: "wf m \<Longrightarrow> wf (case lookup m k of None \<Rightarrow> add m k v | Some _ \<Rightarrow> upd m k v)"
  by (simp add: wf_add wf_upd split: option.split)

lemma lookup_put:
  "wf m \<Longrightarrow> lookup (case lookup m k of None \<Rightarrow> add m k v | Some _ \<Rightarrow> upd m k v)
     = (lookup m)(k \<mapsto> v)"
  by (simp add: lookup_add lookup_upd split: option.split)

lemma wf_discard: "wf m \<Longrightarrow> wf (case lookup m k of None \<Rightarrow> m | Some _ \<Rightarrow> del m k)"
  by (simp add: wf_del split: option.split)

lemma lookup_discard:
  "wf m \<Longrightarrow> lookup (case lookup m k of None \<Rightarrow> m | Some _ \<Rightarrow> del m k) = (lookup m)(k := None)"
  by (auto simp: lookup_del fun_eq_iff split: option.split)

end

locale ordered_store =
  fixes items :: "'m \<Rightarrow> ('k \<times> 'v) list"
    and lookup :: "'m \<Rightarrow> 'k \<Rightarrow> 'v option"
    and add :: "'m \<Rightarrow> 'k \<Rightarrow> 'v \<Rightarrow> 'm"
    and upd :: "'m \<Rightarrow> 'k \<Rightarrow> 'v \<Rightarrow> 'm"
    and del :: "'m \<Rightarrow> 'k \<Rightarrow> 'm"
  assumes lookup_items: "distinct (map fst (items m)) \<Longrightarrow> lookup m = map_of (items m)"
    and items_add: "items (add m k v) = items m @ [(k, v)]"
    and items_upd: "distinct (map fst (items m)) \<Longrightarrow>
      items (upd m k v) = map (\<lambda>p. if fst p = k then (k, v) else p) (items m)"
    and items_del: "distinct (map fst (items m)) \<Longrightarrow>
      items (del m k) = filter (\<lambda>p. fst p \<noteq> k) (items m)"
begin

lemma lookup_None: "distinct (map fst (items m)) \<Longrightarrow> lookup m k = None \<longleftrightarrow> k \<notin> fst ` set (items m)"
  by (simp add: lookup_items map_of_eq_None_iff)

lemma keys_upd:
  "distinct (map fst (items m)) \<Longrightarrow> map fst (items (upd m k v)) = map fst (items m)"
  by (simp add: items_upd)

end

lemma map_of_map_if:
  "k \<in> fst ` set ps \<Longrightarrow>
   map_of (map (\<lambda>p. if fst p = k then (k, v) else p) ps) = (map_of ps)(k \<mapsto> v)"
proof (induction ps)
  case (Cons p ps)
  show ?case
  proof (cases "k \<in> fst ` set ps")
    case True
    with Cons.IH show ?thesis by (auto simp: fun_eq_iff)
  next
    case False
    then have "map (\<lambda>p. if fst p = k then (k, v) else p) ps = ps" by (induction ps) auto
    with False Cons.prems show ?thesis by (cases p) (auto simp: fun_eq_iff)
  qed
qed simp

lemma map_of_filter_key: "map_of (filter (\<lambda>p. fst p \<noteq> k) ps) = (map_of ps)(k := None)"
  by (induction ps) (auto simp: fun_eq_iff)

sublocale ordered_store \<subseteq> keyed_store "\<lambda>m. distinct (map fst (items m))" lookup add upd del
proof
  fix m k v
  assume wf: "distinct (map fst (items m))"
  {
    assume k: "lookup m k = None"
    with wf have notin: "k \<notin> fst ` set (items m)" by (simp add: lookup_None)
    with wf show wf': "distinct (map fst (items (add m k v)))" by (simp add: items_add)
    have "map_of (items m @ [(k, v)]) = (map_of (items m))(k \<mapsto> v)"
      using notin map_add_comm [of "[k \<mapsto> v]" "map_of (items m)"]
      by (simp add: dom_map_of_conv_image_fst)
    then show "lookup (add m k v) = (lookup m)(k \<mapsto> v)"
      using wf wf' by (simp add: lookup_items items_add)
  next
    assume k: "lookup m k \<noteq> None"
    with wf have isin: "k \<in> fst ` set (items m)" by (simp add: lookup_None)
    show wf': "distinct (map fst (items (upd m k v)))" using wf by (simp add: keys_upd)
    show "lookup (upd m k v) = (lookup m)(k \<mapsto> v)"
      using wf wf' isin by (simp add: lookup_items items_upd map_of_map_if)
    show wf'': "distinct (map fst (items (del m k)))"
      using wf by (simp add: items_del distinct_map_filter)
    show "lookup (del m k) = (lookup m)(k := None)"
      using wf wf'' by (simp add: lookup_items items_del map_of_filter_key)
  }
qed

section \<open>Hash tables are ordered stores\<close>

lemma del_first_distinct: "distinct (map fst ps) \<Longrightarrow> del_first k ps = filter (\<lambda>p. fst p \<noteq> k) ps"
proof (induction ps)
  case (Cons p ps)
  have "fst p = k \<Longrightarrow> filter (\<lambda>p. fst p \<noteq> k) ps = ps"
    using Cons.prems by (intro filter_True) (auto simp: image_iff)
  with Cons show ?case by simp
qed simp

lemma upd_first_distinct:
  "distinct (map fst ps) \<Longrightarrow> upd_first k v ps = map (\<lambda>p. if fst p = k then (k, v) else p) ps"
proof (induction ps)
  case (Cons p ps)
  show ?case
  proof (cases "fst p = k")
    case True
    then have "map (\<lambda>p. if fst p = k then (k, v) else p) ps = ps"
      using Cons.prems by (intro map_idI) (auto simp: image_iff)
    with True show ?thesis by simp
  next
    case False
    with Cons show ?thesis by simp
  qed
qed simp

lemma map_of_rev: "distinct (map fst ps) \<Longrightarrow> map_of (rev ps) = map_of ps"
  by (subst map_of_inject_set) (simp_all flip: rev_map)

interpretation uh: ordered_store "\<lambda>h. h" hash_find hash_add hash_upd hash_del
proof
  fix h :: "('k \<times> 'v) list" and k :: 'k and v :: 'v
  assume d: "distinct (map fst h)"
  then have d': "distinct (map fst (rev h))" by (simp flip: rev_map)
  show "hash_find h = map_of h"
    using d by (simp add: fun_eq_iff hash_find_def map_of_rev)
  show "hash_upd h k v = map (\<lambda>p. if fst p = k then (k, v) else p) h"
    using upd_first_distinct [OF d'] by (simp add: hash_upd_def rev_map)
  show "hash_del h k = filter (\<lambda>p. fst p \<noteq> k) h"
    using del_first_distinct [OF d'] by (simp add: hash_del_def rev_filter)
qed (simp add: hash_add_def)

end
