(* ===== verification/StrUtils.thy ===== *)
theory StrUtils
  imports Utarray Uthash
begin

text \<open>
  The string helpers of \<open>src/lib/fcitx-utils/utils.c\<close>. A C string is the list of its bytes
  before the terminator, a pointer into it the list of the bytes that remain, a string that
  may be \<open>NULL\<close> an option. Copies that the C code bounds by a length go through
  \<open>copy_from\<close>, which is \<open>None\<close> when bytes behind the terminator would be read.
\<close>

section \<open>The C library on strings\<close>

definition ascii :: "string \<Rightarrow> buf" where
  "ascii t = map of_char t"

definition strcspn :: "buf \<Rightarrow> buf \<Rightarrow> nat" where
  "strcspn s rej = length (takeWhile (\<lambda>c. c \<notin> set rej) s)"

definition strspn :: "buf \<Rightarrow> buf \<Rightarrow> nat" where
  "strspn s acc = length (takeWhile (\<lambda>c. c \<in> set acc) s)"

text \<open>Of the result of \<open>strcmp\<close> only the sign is specified.\<close>

fun strcmp :: "buf \<Rightarrow> buf \<Rightarrow> int" where
  "strcmp [] [] = 0"
| "strcmp [] (b # bs) = - 1"
| "strcmp (a # as) [] = 1"
| "strcmp (a # as) (b # bs) = (if a = b then strcmp as bs else if a < b then - 1 else 1)"

definition to_lower :: "byte \<Rightarrow> byte" where
  "to_lower c = (if 0x41 \<le> c \<and> c \<le> 0x5a then c + 0x20 else c)"

definition strcasecmp :: "buf \<Rightarrow> buf \<Rightarrow> int" where
  "strcasecmp a b = strcmp (map to_lower a) (map to_lower b)"

fun has_prefix :: "buf \<Rightarrow> buf \<Rightarrow> bool" where
  "has_prefix [] s = True"
| "has_prefix (p # ps) [] = False"
| "has_prefix (p # ps) (c # s) = (p = c \<and> has_prefix ps s)"

fun has_infix :: "buf \<Rightarrow> buf \<Rightarrow> bool" where
  "has_infix p [] = has_prefix p []"
| "has_infix p (c # s) = (has_prefix p (c # s) \<or> has_infix p s)"

definition strcasestr :: "buf \<Rightarrow> buf \<Rightarrow> bool" where
  "strcasestr s p = has_infix (map to_lower p) (map to_lower s)"

definition isspace :: "byte \<Rightarrow> bool" where
  "isspace c \<longleftrightarrow> c = 0x20 \<or> (0x09 \<le> c \<and> c \<le> 0x0d)"

definition isdigit :: "byte \<Rightarrow> bool" where
  "isdigit c \<longleftrightarrow> 0x30 \<le> c \<and> c \<le> 0x39"

text \<open>\<open>atoi\<close> on numbers that fit into an \<open>int\<close>; beyond that C leaves it undefined.\<close>

definition digits_val :: "buf \<Rightarrow> int" where
  "digits_val ds = foldl (\<lambda>n d. 10 * n + (uint d - 0x30)) 0 ds"

definition atoi :: "buf \<Rightarrow> int" where
  "atoi s = (case dropWhile isspace s of
       [] \<Rightarrow> 0
     | c # r \<Rightarrow>
         if c = 0x2d then - digits_val (takeWhile isdigit r)
         else if c = 0x2b then digits_val (takeWhile isdigit r)
         else digits_val (takeWhile isdigit (c # r)))"

definition copy_from :: "buf \<Rightarrow> nat \<Rightarrow> buf option" where
  "copy_from s n = those (map (rd s) [0..<n])"

section \<open>Building strings\<close>

text \<open>
  \<open>fcitx_utils_set_str_with_len\<close>: the bytes of the new block before the terminator it
  writes at \<open>len\<close>. Whether an old block is reused does not change the content.
\<close>

definition fcitx_utils_set_str_with_len :: "buf \<Rightarrow> nat \<Rightarrow> buf option" where
  "fcitx_utils_set_str_with_len str len = copy_from str len"

definition fcitx_utils_set_str :: "buf \<Rightarrow> buf option" where
  "fcitx_utils_set_str str = fcitx_utils_set_str_with_len str (length str)"

definition fcitx_utils_string_swap :: "buf option \<Rightarrow> buf option \<Rightarrow> buf option option" where
  "fcitx_utils_string_swap obj str =
     (case str of Some s \<Rightarrow> map_option Some (fcitx_utils_set_str s) | None \<Rightarrow> Some None)"

definition fcitx_utils_string_swap_with_len ::
  "buf option \<Rightarrow> buf option \<Rightarrow> nat \<Rightarrow> buf option option" where
  "fcitx_utils_string_swap_with_len obj str len =
     (case str of Some s \<Rightarrow> map_option Some (fcitx_utils_set_str_with_len s len) | None \<Rightarrow> Some None)"

fun fcitx_utils_str_lens :: "buf option list \<Rightarrow> nat \<times> nat list" where
  "fcitx_utils_str_lens [] = (1, [])"
| "fcitx_utils_str_lens (s # ss) =
     (let (total, sizes) = fcitx_utils_str_lens ss;
          n = (case s of None \<Rightarrow> 0 | Some t \<Rightarrow> length t)
      in (n + total, n # sizes))"

text \<open>The copy of one list item: a \<open>NULL\<close> string may only stand beside the size 0.\<close>

definition copy_item :: "buf option \<Rightarrow> nat \<Rightarrow> buf option" where
  "copy_item s n = (case s of None \<Rightarrow> None | Some t \<Rightarrow> copy_from t n)"

fun fcitx_utils_cat_str :: "(buf option \<times> nat) list \<Rightarrow> buf option" where
  "fcitx_utils_cat_str [] = Some []"
| "fcitx_utils_cat_str ((s, n) # r) =
     (if n = 0 then fcitx_utils_cat_str r
      else do { a \<leftarrow> copy_item s n; b \<leftarrow> fcitx_utils_cat_str r; Some (a @ b) })"

fun cat_with_len_loop :: "nat \<Rightarrow> buf \<Rightarrow> (buf option \<times> nat) list \<Rightarrow> buf option" where
  "cat_with_len_loop limit out [] = Some out"
| "cat_with_len_loop limit out ((s, n) # r) =
     (if n = 0 then cat_with_len_loop limit out r
      else if length out + n > limit then
        map_option ((@) out) (copy_item s (limit - length out))
      else do { a \<leftarrow> copy_item s n; cat_with_len_loop limit (out @ a) r })"

definition fcitx_utils_cat_str_with_len :: "nat \<Rightarrow> (buf option \<times> nat) list \<Rightarrow> buf option" where
  "fcitx_utils_cat_str_with_len len items =
     (if len = 0 then None else cat_with_len_loop (len - 1) [] items)"

section \<open>Comparing\<close>

definition fcitx_utils_strcmp0 :: "buf option \<Rightarrow> buf option \<Rightarrow> int" where
  "fcitx_utils_strcmp0 a b =
     (case a of
        None \<Rightarrow> (case b of None \<Rightarrow> 0 | Some _ \<Rightarrow> - 1)
      | Some a' \<Rightarrow> (case b of None \<Rightarrow> 1 | Some b' \<Rightarrow> strcmp a' b'))"

definition fcitx_utils_strcmp_empty :: "buf option \<Rightarrow> buf option \<Rightarrow> int" where
  "fcitx_utils_strcmp_empty a b =
     (let isemptya = (a = None \<or> a = Some []); isemptyb = (b = None \<or> b = Some []) in
      if isemptya \<and> isemptyb then 0
      else if isemptya \<and> \<not> isemptyb then - 1
      else if \<not> isemptya \<and> isemptyb then 1
      else strcmp (the a) (the b))"

section \<open>Lists of strings\<close>

definition fcitx_utils_string_list_append_no_copy :: "buf list \<Rightarrow> buf \<Rightarrow> buf list" where
  "fcitx_utils_string_list_append_no_copy l s = utarray_push_back l s"

definition fcitx_utils_string_list_append_len :: "buf list \<Rightarrow> buf \<Rightarrow> nat \<Rightarrow> buf list option" where
  "fcitx_utils_string_list_append_len l s len =
     map_option (fcitx_utils_string_list_append_no_copy l) (fcitx_utils_set_str_with_len s len)"

lemma strcspn_le [simp]: "strcspn s r \<le> length s"
  by (simp add: strcspn_def length_takeWhile_le)

function fcitx_utils_append_split_string :: "buf list \<Rightarrow> buf \<Rightarrow> buf \<Rightarrow> buf list option" where
  "fcitx_utils_append_split_string l src delm =
     (let len = strcspn src delm in
      if len < length src then do {
        l' \<leftarrow> fcitx_utils_string_list_append_len l src len;
        fcitx_utils_append_split_string l' (drop (len + 1) src) delm }
      else if len \<noteq> 0 then fcitx_utils_string_list_append_len l src len
      else Some l)"
  by pat_completeness auto
termination by (relation "measure (\<lambda>(l, src, delm). length src)") auto

declare fcitx_utils_append_split_string.simps [simp del]

definition fcitx_utils_split_string :: "buf \<Rightarrow> byte \<Rightarrow> buf list option" where
  "fcitx_utils_split_string str delm = fcitx_utils_append_split_string [] str [delm]"

definition fcitx_utils_append_lines :: "buf list \<Rightarrow> buf \<Rightarrow> buf list option" where
  "fcitx_utils_append_lines l str = fcitx_utils_append_split_string l str [0x0a]"

text \<open>Every item is followed by the delimiter; the last one becomes the terminator.\<close>

definition join_items :: "buf list \<Rightarrow> byte \<Rightarrow> buf" where
  "join_items l delm = butlast (concat (map (\<lambda>s. s @ [delm]) l))"

definition fcitx_utils_join_string_list :: "buf list option \<Rightarrow> byte \<Rightarrow> buf option" where
  "fcitx_utils_join_string_list l delm =
     (case l of None \<Rightarrow> None
      | Some l' \<Rightarrow> if length l' = 0 then Some [] else Some (join_items l' delm))"

fun fcitx_utils_string_list_contains :: "buf list \<Rightarrow> buf \<Rightarrow> bool" where
  "fcitx_utils_string_list_contains [] scmp = False"
| "fcitx_utils_string_list_contains (s # l) scmp =
     (if strcmp scmp s = 0 then True else fcitx_utils_string_list_contains l scmp)"

section \<open>Sets of strings\<close>

type_synonym string_set = "(buf, unit) uthash"

definition fcitx_utils_string_hash_set_insert :: "string_set \<Rightarrow> buf \<Rightarrow> string_set" where
  "fcitx_utils_string_hash_set_insert sset str = hash_add sset str ()"

definition fcitx_utils_string_hash_set_insert_len ::
  "string_set \<Rightarrow> buf \<Rightarrow> nat \<Rightarrow> string_set" where
  "fcitx_utils_string_hash_set_insert_len sset str len = hash_add sset (take len str) ()"

function string_hash_set_parse_loop :: "string_set \<Rightarrow> buf \<Rightarrow> byte \<Rightarrow> string_set" where
  "string_hash_set_parse_loop sset src delim =
     (let len = strcspn src [delim] in
      if len < length src then
        string_hash_set_parse_loop (fcitx_utils_string_hash_set_insert_len sset src len)
          (drop (len + 1) src) delim
      else if len \<noteq> 0 then fcitx_utils_string_hash_set_insert_len sset src len
      else sset)"
  by pat_completeness auto
termination by (relation "measure (\<lambda>(l, src, delm). length src)") auto

declare string_hash_set_parse_loop.simps [simp del]

definition fcitx_utils_string_hash_set_parse :: "buf \<Rightarrow> byte \<Rightarrow> string_set" where
  "fcitx_utils_string_hash_set_parse str delim = string_hash_set_parse_loop [] str delim"

text \<open>The empty table is the null pointer, for which the code returns \<open>NULL\<close>.\<close>

definition fcitx_utils_string_hash_set_join :: "string_set \<Rightarrow> byte \<Rightarrow> buf option" where
  "fcitx_utils_string_hash_set_join sset delim =
     (if sset = [] then None else Some (join_items (hash_keys sset) delim))"

definition fcitx_utils_string_hash_set_contains :: "string_set \<Rightarrow> buf \<Rightarrow> bool" where
  "fcitx_utils_string_hash_set_contains sset str = (hash_find sset str \<noteq> None)"

definition fcitx_util_string_hash_set_remove :: "string_set \<Rightarrow> buf \<Rightarrow> string_set" where
  "fcitx_util_string_hash_set_remove sset str =
     (case hash_find sset str of None \<Rightarrow> sset | Some _ \<Rightarrow> hash_del sset str)"

definition fcitx_utils_string_hash_set_compare :: "buf \<times> unit \<Rightarrow> buf \<times> unit \<Rightarrow> int" where
  "fcitx_utils_string_hash_set_compare a b = strcmp (fst a) (fst b)"

section \<open>Trimming\<close>

fun trim_end :: "buf \<Rightarrow> nat \<Rightarrow> nat" where
  "trim_end s 0 = 0"
| "trim_end s (Suc e) = (if isspace (s ! e) then trim_end s e else Suc e)"

definition fcitx_utils_trim :: "buf \<Rightarrow> buf" where
  "fcitx_utils_trim s =
     (let s' = drop (strspn s [0x0c, 0x0a, 0x0d, 0x09, 0x0b, 0x20]) s
      in take (trim_end s' (length s')) s')"

section \<open>Escaping\<close>

definition fcitx_utils_unescape_char :: "byte \<Rightarrow> byte" where
  "fcitx_utils_unescape_char c =
     (if c = 0x61 then 0x07 else if c = 0x62 then 0x08 else if c = 0x66 then 0x0c
      else if c = 0x6e then 0x0a else if c = 0x72 then 0x0d else if c = 0x74 then 0x09
      else if c = 0x65 then 0x1b else if c = 0x76 then 0x0b else c)"

definition fcitx_utils_escape_char :: "byte \<Rightarrow> byte" where
  "fcitx_utils_escape_char c =
     (if c = 0x07 then 0x61 else if c = 0x08 then 0x62 else if c = 0x0c then 0x66
      else if c = 0x0a then 0x6e else if c = 0x0d then 0x72 else if c = 0x09 then 0x74
      else if c = 0x1b then 0x65 else if c = 0x0b then 0x76 else c)"

text \<open>
  \<open>fcitx_utils_set_unescape_str\<close>. Behind the last backslash the loop steps over one more
  byte; when that is the terminator the next \<open>strcspn\<close> starts outside the string.
\<close>

function unescape_loop :: "buf \<Rightarrow> buf \<Rightarrow> buf option" where
  "unescape_loop dest src =
     (let len = strcspn src [0x5c] in
      if len < length src then
        (case drop (len + 1) src of
           [] \<Rightarrow> None
         | c # src' \<Rightarrow> unescape_loop (dest @ take len src @ [fcitx_utils_unescape_char c]) src')
      else Some (dest @ take len src))"
  by pat_completeness auto
termination
proof (relation "measure (\<lambda>(dest, src). length src)", goal_cases)
  case (2 dest src len c src')
  have "length (c # src') \<le> length src" unfolding 2(3)[symmetric] by simp
  then show ?case by simp
qed simp

declare unescape_loop.simps [simp del]

definition fcitx_utils_set_unescape_str :: "buf \<Rightarrow> buf option" where
  "fcitx_utils_set_unescape_str str = unescape_loop [] str"

definition FCITX_CHAR_NEED_ESCAPE :: buf where
  "FCITX_CHAR_NEED_ESCAPE =
     [0x07, 0x08, 0x0c, 0x0a, 0x0d, 0x09, 0x1b, 0x0b, 0x27, 0x22, 0x5c]"

function escape_loop :: "buf \<Rightarrow> buf \<Rightarrow> buf \<Rightarrow> buf" where
  "escape_loop dest src set' =
     (let len = strcspn src set' in
      if len < length src then
        escape_loop (dest @ take len src @ [0x5c, fcitx_utils_escape_char (src ! len)])
          (drop (len + 1) src) set'
      else dest @ take len src)"
  by pat_completeness auto
termination by (relation "measure (\<lambda>(dest, src, set'). length src)") auto

declare escape_loop.simps [simp del]

definition fcitx_utils_set_escape_str_with_set :: "buf \<Rightarrow> buf option \<Rightarrow> buf" where
  "fcitx_utils_set_escape_str_with_set str set' =
     escape_loop [] str (case set' of None \<Rightarrow> FCITX_CHAR_NEED_ESCAPE | Some t \<Rightarrow> t)"

definition fcitx_utils_set_escape_str :: "buf \<Rightarrow> buf" where
  "fcitx_utils_set_escape_str str = fcitx_utils_set_escape_str_with_set str None"

text \<open>
  \<open>fcitx_utils_unescape_str_inplace\<close> works on one buffer, terminator included. Both ends
  are indices into it; \<open>strcspn_at\<close> is \<open>None\<close> when the scan leaves the buffer.
\<close>

definition strcspn_at :: "buf \<Rightarrow> nat \<Rightarrow> buf \<Rightarrow> nat option" where
  "strcspn_at b i rej =
     (let n = length (takeWhile (\<lambda>c. c \<noteq> 0 \<and> c \<notin> set rej) (drop i b))
      in if i + n < length b then Some n else None)"

definition memmove :: "buf \<Rightarrow> nat \<Rightarrow> nat \<Rightarrow> nat \<Rightarrow> buf" where
  "memmove b dest src len =
     map (\<lambda>i. if dest \<le> i \<and> i < dest + len then b ! (src + (i - dest)) else b ! i) [0..<length b]"

lemma length_memmove [simp]: "length (memmove b dest src len) = length b"
  by (simp add: memmove_def)

function unescape_inplace_loop :: "buf \<Rightarrow> nat \<Rightarrow> nat \<Rightarrow> buf option" where
  "unescape_inplace_loop b dest src =
     (case strcspn_at b src [0x5c] of
        None \<Rightarrow> None
      | Some len \<Rightarrow>
          let pos = src + len;
              b' = (if dest \<noteq> src \<and> len \<noteq> 0 then memmove b dest src len else b)
          in if b ! pos = 0 then Some (b'[dest + len := 0])
             else if pos + 1 < length b then
               unescape_inplace_loop (b'[dest + len := fcitx_utils_unescape_char (b' ! (pos + 1))])
                 (dest + len + 1) (pos + 2)
             else None)"
  by pat_completeness auto
termination
  by (relation "measure (\<lambda>(b, dest, src). length b - src)") auto

declare unescape_inplace_loop.simps [simp del]

definition fcitx_utils_unescape_str_inplace :: "buf \<Rightarrow> buf option" where
  "fcitx_utils_unescape_str_inplace b = unescape_inplace_loop b 0 0"

end
