(* ===== verification/StrUtils_Laws.thy ===== *)
theory StrUtils_Laws
  imports StrUtils
begin

text \<open>
  Laws of the string helpers: \<open>strcmp\<close> is a linear order, unescaping inverts escaping,
  in place or into a copy, splitting and joining are inverse, trimming removes exactly the
  blanks at both ends, and the bounded concatenation is a prefix of the full one. The loops
  are first shown equal to recursive reference functions (\<open>unescape_ref\<close>,
  \<open>escape_ref\<close>, \<open>pieces\<close>), about which everything else is proved.
\<close>

section \<open>Facts about the C library\<close>

lemma strcspn_stops:
  assumes "strcspn s r < length s"
  obtains p c t where "s = p @ c # t" "set p \<inter> set r = {}" "c \<in> set r" "strcspn s r = length p"
proof -
  let ?P = "\<lambda>c. c \<notin> set r"
  have "length (takeWhile ?P s) < length s" using assms by (simp add: strcspn_def)
  then have "dropWhile ?P s \<noteq> []" by (metis takeWhile_dropWhile_id append_Nil2 less_irrefl)
  then obtain c t where d: "dropWhile ?P s = c # t" by (cases "dropWhile ?P s") auto
  then have "c \<in> set r" using hd_dropWhile [of ?P s] by auto
  moreover have "s = takeWhile ?P s @ c # t" by (metis d takeWhile_dropWhile_id)
  moreover have "set (takeWhile ?P s) \<inter> set r = {}" by (auto dest: set_takeWhileD)
  ultimately show thesis using that by (metis strcspn_def)
qed

lemma strcspn_passes:
  assumes "\<not> strcspn s r < length s"
  shows "set s \<inter> set r = {} \<and> strcspn s r = length s"
proof -
  have "length (takeWhile (\<lambda>c. c \<notin> set r) s) = length s"
    using assms strcspn_le [of s r] by (simp add: strcspn_def)
  then have eq: "takeWhile (\<lambda>c. c \<notin> set r) s = s"
    by (metis append_take_drop_id takeWhile_eq_take take_all_iff order_refl)
  then have "\<forall>c\<in>set s. c \<notin> set r" by (simp add: takeWhile_eq_all_conv)
  moreover have "strcspn s r = length s" by (simp only: strcspn_def eq)
  ultimately show ?thesis by auto
qed

lemma those_map_Some: "(\<forall>x\<in>set xs. f x = Some (g x)) \<Longrightarrow> those (map f xs) = Some (map g xs)"
  by (induction xs) auto

lemma copy_from_le [simp]: "n \<le> length s \<Longrightarrow> copy_from s n = Some (take n s)"
proof -
  assume "n \<le> length s"
  then have "those (map (rd s) [0..<n]) = Some (map ((!) s) [0..<n])"
    by (intro those_map_Some) auto
  with \<open>n \<le> length s\<close> show ?thesis
    using map_nth_interval [of n s 0] by (simp add: copy_from_def)
qed

lemma set_str [simp]: "fcitx_utils_set_str s = Some s"
  by (simp add: fcitx_utils_set_str_def fcitx_utils_set_str_with_len_def)

lemma append_len [simp]:
  "n \<le> length s \<Longrightarrow> fcitx_utils_string_list_append_len l s n = Some (l @ [take n s])"
  by (simp add: fcitx_utils_string_list_append_len_def fcitx_utils_set_str_with_len_def
      fcitx_utils_string_list_append_no_copy_def utarray_push_back_def)

section \<open>strcmp is a linear order\<close>

lemma strcmp_eq: "strcmp a b = 0 \<longleftrightarrow> a = b"
  by (induction a b rule: strcmp.induct) auto

lemma strcmp_refl [simp]: "strcmp a a = 0"
  by (simp add: strcmp_eq)

lemma strcmp_swap: "strcmp b a = - strcmp a b"
  by (induction a b rule: strcmp.induct) auto

lemma strcmp_trans: "strcmp a b \<le> 0 \<Longrightarrow> strcmp b c \<le> 0 \<Longrightarrow> strcmp a c \<le> 0"
proof (induction a b arbitrary: c rule: strcmp.induct)
  case 1
  then show ?case by simp
next
  case (2 b bs)
  then show ?case by (cases c) auto
next
  case (3 a as)
  then show ?case by simp
next
  case (4 a as b bs)
  then show ?case by (cases c) (auto split: if_splits)
qed

lemma contains_set: "fcitx_utils_string_list_contains l s \<longleftrightarrow> s \<in> set l"
  by (induction l s rule: fcitx_utils_string_list_contains.induct) (auto simp: strcmp_eq)

section \<open>Unescaping and escaping\<close>

fun unescape_ref :: "buf \<Rightarrow> buf option" where
  "unescape_ref [] = Some []"
| "unescape_ref (c # s) =
     (if c \<noteq> 0x5c then map_option ((#) c) (unescape_ref s)
      else case s of [] \<Rightarrow> None
         | d # s' \<Rightarrow> map_option ((#) (fcitx_utils_unescape_char d)) (unescape_ref s'))"

lemma unescape_ref_plain:
  "0x5c \<notin> set p \<Longrightarrow> unescape_ref (p @ s) = map_option ((@) p) (unescape_ref s)"
  by (induction p) (auto split: option.splits simp: map_option_case)

lemma unescape_loop_ref: "unescape_loop dest src = map_option ((@) dest) (unescape_ref src)"
proof (induction dest src rule: unescape_loop.induct)
  case (1 dest src)
  show ?case
  proof (cases "strcspn src [0x5c] < length src")
    case True
    then obtain p t where src: "src = p @ 0x5c # t" "0x5c \<notin> set p" "strcspn src [0x5c] = length p"
      by (elim strcspn_stops) auto
    show ?thesis
    proof (cases t)
      case Nil
      with src True show ?thesis
        by (subst unescape_loop.simps) (simp add: Let_def unescape_ref_plain)
    next
      case (Cons c t')
      with src True 1 [OF refl, of c t'] show ?thesis
        by (subst unescape_loop.simps)
           (simp add: Let_def unescape_ref_plain option.map_comp comp_def)
    qed
  next
    case False
    with strcspn_passes [OF False] have "unescape_ref src = Some src"
      using unescape_ref_plain [of src "[]"] by simp
    with False strcspn_passes [OF False] show ?thesis
      by (subst unescape_loop.simps) (simp add: Let_def)
  qed
qed

lemma unescape_ref: "fcitx_utils_set_unescape_str s = unescape_ref s"
  by (cases "unescape_ref s") (simp_all add: fcitx_utils_set_unescape_str_def unescape_loop_ref)

definition escape_ref :: "buf \<Rightarrow> buf \<Rightarrow> buf" where
  "escape_ref S s =
     concat (map (\<lambda>c. if c \<in> set S then [0x5c, fcitx_utils_escape_char c] else [c]) s)"

lemma escape_ref_plain: "set p \<inter> set S = {} \<Longrightarrow> escape_ref S p = p"
  by (induction p) (auto simp: escape_ref_def)

lemma escape_loop_ref: "escape_loop dest src S = dest @ escape_ref S src"
proof (induction dest src S rule: escape_loop.induct)
  case (1 dest src S)
  show ?case
  proof (cases "strcspn src S < length src")
    case True
    then obtain p c t where src: "src = p @ c # t" "set p \<inter> set S = {}" "c \<in> set S"
      "strcspn src S = length p" by (elim strcspn_stops)
    have "escape_ref S src = p @ [0x5c, fcitx_utils_escape_char c] @ escape_ref S t"
      using escape_ref_plain [OF src(2)] src(1,3) by (simp add: escape_ref_def)
    with 1 [OF refl True] src True show ?thesis
      by (subst escape_loop.simps) (simp add: Let_def)
  next
    case False
    with strcspn_passes [OF False] show ?thesis
      by (subst escape_loop.simps) (simp add: Let_def escape_ref_plain)
  qed
qed

text \<open>What the eight letters stand for, decided byte by byte.\<close>

definition unescape_letters :: buf where
  "unescape_letters = ascii ''abefnrtv''"

lemma unescape_escape_char:
  "c \<notin> set unescape_letters \<Longrightarrow> fcitx_utils_unescape_char (fcitx_utils_escape_char c) = c"
  by (auto simp: fcitx_utils_unescape_char_def fcitx_utils_escape_char_def unescape_letters_def ascii_def)

lemma unescape_escape_ref:
  "0x5c \<in> set S \<Longrightarrow> set S \<inter> set unescape_letters = {} \<Longrightarrow> unescape_ref (escape_ref S s) = Some s"
  by (induction s) (auto simp: escape_ref_def intro!: unescape_escape_char)

lemma escape_ref_length: "length (escape_ref S s) \<le> 2 * length s"
  by (induction s) (auto simp: escape_ref_def)

lemma default_set: "0x5c \<in> set FCITX_CHAR_NEED_ESCAPE \<and>
  set FCITX_CHAR_NEED_ESCAPE \<inter> set unescape_letters = {}"
  by (simp add: FCITX_CHAR_NEED_ESCAPE_def unescape_letters_def ascii_def)

text \<open>
  C11: Unescaping inverts escaping. With the default set, and with every set that has the
  backslash and none of the letters \<open>abefnrtv\<close>, \<open>fcitx_utils_set_unescape_str\<close>
  gives back the string that \<open>fcitx_utils_set_escape_str_with_set\<close> escaped; the escaped
  string fits into the block of twice the length that the code allocates.
\<close>

theorem escape_roundtrip:
  assumes "\<And>S. set' = Some S \<Longrightarrow> 0x5c \<in> set S \<and> set S \<inter> set unescape_letters = {}"
  shows "fcitx_utils_set_unescape_str (fcitx_utils_set_escape_str_with_set s set') = Some s
     \<and> length (fcitx_utils_set_escape_str_with_set s set') \<le> 2 * length s"
  using assms default_set
  by (cases set') (simp_all add: fcitx_utils_set_escape_str_with_set_def escape_loop_ref
      escape_ref_length unescape_ref unescape_escape_ref)

lemma escape_roundtrip_witness:
  "fcitx_utils_set_unescape_str (fcitx_utils_set_escape_str_with_set [0x61, 0x5c, 0x0a] None) = Some [0x61, 0x5c, 0x0a]
     \<and> length (fcitx_utils_set_escape_str_with_set [0x61, 0x5c, 0x0a] None) \<le> 2 * length [0x61, 0x5c, 0x0a :: byte]"
  by (rule escape_roundtrip) simp

text \<open>The backslashes at the end of a string.\<close>

definition trailing_backslashes :: "buf \<Rightarrow> nat" where
  "trailing_backslashes s = length (takeWhile (\<lambda>c. c = 0x5c) (rev s))"

lemma trailing_Nil: "trailing_backslashes [] = 0"
  by (simp add: trailing_backslashes_def)

lemma trailing_Cons:
  "trailing_backslashes (c # s) =
     (if (\<forall>x\<in>set s. x = 0x5c) then length s + (if c = 0x5c then 1 else 0) else trailing_backslashes s)"
  by (auto simp: trailing_backslashes_def takeWhile_append takeWhile_eq_all_conv[THEN iffD2])

lemma trailing_all: "\<forall>x\<in>set s. x = 0x5c \<Longrightarrow> trailing_backslashes s = length s"
  by (simp add: trailing_backslashes_def takeWhile_eq_all_conv[THEN iffD2])

text \<open>
  C12: When unescaping is safe. \<open>fcitx_utils_set_unescape_str\<close> reads behind the terminator
  of its argument exactly when that ends in an odd number of backslashes: the last backslash
  takes the terminator for the byte it escapes, and the loop goes on behind it.
\<close>

theorem unescape_overrun_iff:
  "fcitx_utils_set_unescape_str s = None \<longleftrightarrow> odd (trailing_backslashes s)"
  unfolding unescape_ref
proof (induction s rule: unescape_ref.induct)
  case 1
  then show ?case by (simp add: trailing_backslashes_def)
next
  case (2 c s)
  show ?case
  proof (cases "c = 0x5c")
    case False
    with 2(1) show ?thesis by (auto simp: trailing_Cons trailing_all)
  next
    case True
    then show ?thesis
      using 2(2) by (cases s) (auto simp: trailing_Cons trailing_all trailing_Nil)
  qed
qed

lemma memmove_back:
  "memmove (D @ M @ R @ T) (length D) (length D + length M) (length R)
   = D @ R @ drop (length R) (M @ R) @ T"
proof (rule nth_equalityI)
  fix i assume "i < length (memmove (D @ M @ R @ T) (length D) (length D + length M) (length R))"
  then have i: "i < length D + length M + length R + length T" by simp
  have *: "drop (length R) M @ drop (length R - length M) R = drop (length R) (M @ R)" by simp
  consider "i < length D" | "length D \<le> i" "i < length D + length R"
    | "length D + length R \<le> i" "i < length D + length M + length R"
    | "length D + length M + length R \<le> i" by linarith
  then show "memmove (D @ M @ R @ T) (length D) (length D + length M) (length R) ! i
      = (D @ R @ drop (length R) (M @ R) @ T) ! i"
  proof cases
    case 3
    then obtain k where k: "i = length D + length R + k" "k < length M"
      by (metis add.assoc add.commute add_less_cancel_left le_Suc_ex)
    then show ?thesis using i by (simp add: memmove_def nth_append del: drop_append)
        (auto simp: algebra_simps)
  next
    case 4
    then obtain k where k: "i = length D + length M + length R + k" by (metis le_Suc_ex)
    then show ?thesis using i by (simp add: memmove_def nth_append del: drop_append)
  qed (use i in \<open>auto simp: memmove_def nth_append simp del: drop_append\<close>)
qed simp

lemma inplace_outside: "length b \<le> src \<Longrightarrow> unescape_inplace_loop b dest src = None"
  by (subst unescape_inplace_loop.simps) (simp add: strcspn_at_def)

lemma inplace_loop:
  "is_cstr R \<Longrightarrow>
   (case unescape_ref R of
      None \<Rightarrow> unescape_inplace_loop (D @ M @ R @ [0]) (length D) (length D + length M) = None
    | Some u \<Rightarrow> \<exists>junk. unescape_inplace_loop (D @ M @ R @ [0]) (length D) (length D + length M)
                 = Some (D @ u @ 0 # junk))"
proof (induction "length R" arbitrary: D M R rule: less_induct)
  case less
  let ?b = "D @ M @ R @ [0]"
  let ?len = "strcspn R [0x5c]"
  have nz: "\<forall>c\<in>set R. c \<noteq> 0" using less.prems by (auto simp: is_cstr_def)
  have tw: "takeWhile (\<lambda>c. c \<noteq> 0 \<and> c \<notin> set [0x5c]) (R @ [0]) = takeWhile (\<lambda>c. c \<notin> set [0x5c :: byte]) R"
    using nz by (induction R) auto
  then have at: "strcspn_at ?b (length D + length M) [0x5c] = Some ?len"
    using strcspn_le [of R "[0x5c]"] by (simp add: strcspn_at_def strcspn_def Let_def)
  show ?case
  proof (cases "?len < length R")
    case False
    from strcspn_passes [OF this] have R: "0x5c \<notin> set R" "?len = length R" by auto
    then have u: "unescape_ref R = Some R" using unescape_ref_plain [of R "[]"] by simp
    let ?b1 = "if length D \<noteq> length D + length M \<and> length R \<noteq> 0
               then memmove ?b (length D) (length D + length M) (length R) else ?b"
    have b1: "?b1 = D @ R @ drop (length R) (M @ R) @ [0]"
      using memmove_back [of D M R "[0]"] by auto
    obtain x xs where x: "drop (length R) (M @ R) @ [0] = x # xs"
      by (cases "drop (length R) (M @ R) @ [0]") auto
    have "?b1[length D + length R := 0] = D @ R @ 0 # xs"
      unfolding b1 x by (simp add: list_update_append)
    with at R u show ?thesis
      by (subst unescape_inplace_loop.simps) (auto simp: nth_append Let_def)
  next
    case True
    then obtain p t where src: "R = p @ 0x5c # t" "0x5c \<notin> set p" "?len = length p"
      by (elim strcspn_stops) auto
    let ?b1 = "if length D \<noteq> length D + length M \<and> length p \<noteq> 0
               then memmove ?b (length D) (length D + length M) (length p) else ?b"
    have b1: "?b1 = D @ p @ drop (length p) (M @ p) @ 0x5c # t @ [0]"
      using memmove_back [of D M p "0x5c # t @ [0]"] src(1) by auto
    obtain x xs where x: "drop (length p) (M @ p) @ [0x5c] = x # xs"
      by (cases "drop (length p) (M @ p) @ [0x5c]") auto
    then have lx: "length xs = length M" by (metis diff_add_inverse2 length_append length_drop length_Cons
      length_append_singleton add.commute diff_add_inverse nat.inject)
    show ?thesis
    proof (cases t)
      case Nil
      with src at show ?thesis
        by (subst unescape_inplace_loop.simps)
           (simp add: nth_append Let_def unescape_ref_plain inplace_outside)
    next
      case (Cons c t')
      let ?u = "fcitx_utils_unescape_char c"
      have b1': "?b1 = (D @ p) @ x # (xs @ c # t' @ [0])"
        using b1 Cons x by (metis append.assoc append_Cons append_Nil)
      have "?b1 ! (length D + length M + length p + 1) = c"
        unfolding b1' using lx by (simp add: nth_append)
      moreover have "?b1[length D + length p := ?u] = (D @ p @ [?u]) @ (xs @ [c]) @ t' @ [0]"
        unfolding b1' by (simp add: list_update_append)
      moreover have "unescape_inplace_loop ?b (length D) (length D + length M)
        = unescape_inplace_loop (?b1[length D + length p :=
              fcitx_utils_unescape_char (?b1 ! (length D + length M + length p + 1))])
            (length D + length p + 1) (length D + length M + length p + 2)"
      proof -
        have "?b ! (length D + length M + length p) \<noteq> 0" unfolding src(1) by (simp add: nth_append)
        moreover have "length D + length M + length p + 1 < length ?b" unfolding src(1) Cons by simp
        ultimately show ?thesis
          by (subst unescape_inplace_loop.simps) (simp only: at src(3) option.case Let_def if_True if_False)
      qed
      ultimately have step: "unescape_inplace_loop ?b (length D) (length D + length M)
        = unescape_inplace_loop ((D @ p @ [?u]) @ (xs @ [c]) @ t' @ [0]) (length (D @ p @ [?u]))
            (length (D @ p @ [?u]) + length (xs @ [c]))"
        using lx by (simp add: add_ac)
      have "is_cstr t'" using less.prems src Cons by (simp add: is_cstr_def)
      with less.hyps [of t' "D @ p @ [?u]" "xs @ [c]"] src Cons show ?thesis
        unfolding step by (auto simp: unescape_ref_plain split: option.splits)
    qed
  qed
qed

lemma unescape_char_nonzero: "c \<noteq> 0 \<Longrightarrow> fcitx_utils_unescape_char c \<noteq> 0"
  by (simp add: fcitx_utils_unescape_char_def)

lemma unescape_ref_cstr: "is_cstr s \<Longrightarrow> unescape_ref s = Some u \<Longrightarrow> is_cstr u"
  by (induction s arbitrary: u rule: unescape_ref.induct)
     (auto simp: is_cstr_def unescape_char_nonzero split: if_splits list.splits)

text \<open>
  Unescaping in place is unescaping into a copy. On the buffer of any C string
  \<open>fcitx_utils_unescape_str_inplace\<close> leaves, before the first terminator, what
  \<open>fcitx_utils_set_unescape_str\<close> returns, although source and destination overlap; and
  it leaves the buffer exactly when the copying version leaves its source.
\<close>

theorem unescape_inplace_agrees:
  assumes "is_cstr s"
  shows "map_option (takeWhile (\<lambda>c. c \<noteq> 0)) (fcitx_utils_unescape_str_inplace (s @ [0]))
         = fcitx_utils_set_unescape_str s"
proof (cases "unescape_ref s")
  case None
  with inplace_loop [OF assms, of "[]" "[]"] show ?thesis
    by (simp add: fcitx_utils_unescape_str_inplace_def unescape_ref)
next
  case (Some u)
  with inplace_loop [OF assms, of "[]" "[]"] obtain junk where
    "fcitx_utils_unescape_str_inplace (s @ [0]) = Some (u @ 0 # junk)"
    by (auto simp: fcitx_utils_unescape_str_inplace_def)
  moreover have "takeWhile (\<lambda>c. c \<noteq> 0) (u @ 0 # junk) = u"
    using unescape_ref_cstr [OF assms Some] by (induction u) (auto simp: is_cstr_def)
  ultimately show ?thesis using Some by (simp add: unescape_ref)
qed

lemma unescape_inplace_agrees_witness:
  "map_option (takeWhile (\<lambda>c. c \<noteq> 0)) (fcitx_utils_unescape_str_inplace ([0x61, 0x5c, 0x74, 0x62] @ [0]))
     = fcitx_utils_set_unescape_str [0x61, 0x5c, 0x74, 0x62]"
  by (rule unescape_inplace_agrees) (simp add: is_cstr_def ascii_def)

section \<open>Splitting and joining\<close>

text \<open>The pieces between the delimiters; an empty piece at the end is left out.\<close>

function pieces :: "buf \<Rightarrow> buf \<Rightarrow> buf list" where
  "pieces delm s =
     (let n = strcspn s delm in
      if n < length s then take n s # pieces delm (drop (n + 1) s)
      else if s = [] then [] else [s])"
  by pat_completeness auto
termination by (relation "measure (\<lambda>(delm, s). length s)") auto

declare pieces.simps [simp del]

lemma pieces_stop: "set s \<inter> set delm = {} \<Longrightarrow> pieces delm s = (if s = [] then [] else [s])"
  by (subst pieces.simps) (auto simp: strcspn_def Let_def takeWhile_eq_all_conv[THEN iffD2] disjoint_iff)

lemma strcspn_at_delim: "set p \<inter> set delm = {} \<Longrightarrow> c \<in> set delm \<Longrightarrow> strcspn (p @ c # t) delm = length p"
  by (simp add: strcspn_def disjoint_iff takeWhile_append2)

lemma pieces_step:
  "set p \<inter> set delm = {} \<Longrightarrow> c \<in> set delm \<Longrightarrow> pieces delm (p @ c # t) = p # pieces delm t"
  by (subst pieces.simps) (simp add: strcspn_at_delim Let_def)

lemma append_split_pieces: "fcitx_utils_append_split_string l s delm = Some (l @ pieces delm s)"
proof (induction l s delm rule: fcitx_utils_append_split_string.induct)
  case (1 l s delm)
  show ?case
  proof (cases "strcspn s delm < length s")
    case True
    then obtain p c t where s: "s = p @ c # t" "set p \<inter> set delm = {}" "c \<in> set delm"
      "strcspn s delm = length p" by (elim strcspn_stops)
    with 1 [OF refl True] True show ?thesis
      by (subst fcitx_utils_append_split_string.simps) (simp add: Let_def pieces_step)
  next
    case False
    with strcspn_passes [OF False] show ?thesis
      by (subst fcitx_utils_append_split_string.simps) (auto simp: Let_def pieces_stop)
  qed
qed

lemma split_pieces: "fcitx_utils_split_string s d = Some (pieces [d] s)"
  by (simp add: fcitx_utils_split_string_def append_split_pieces)

lemma join_items_simps [simp]:
  "join_items [] d = []" "join_items [x] d = x"
  "join_items (x # y # ys) d = x @ d # join_items (y # ys) d"
  by (simp_all add: join_items_def butlast_append)

lemma join_Cons: "ys \<noteq> [] \<Longrightarrow> join_items (x # ys) d = x @ d # join_items ys d"
  by (cases ys) auto

lemma join_list: "fcitx_utils_join_string_list (Some xs) d = Some (join_items xs d)"
  by (simp add: fcitx_utils_join_string_list_def)

lemma pieces_induct [case_names plain step]:
  assumes "\<And>s. d \<notin> set s \<Longrightarrow> P s" and "\<And>p t. d \<notin> set p \<Longrightarrow> P t \<Longrightarrow> P (p @ d # t)"
  shows "P (s :: buf)"
proof (induction "length s" arbitrary: s rule: less_induct)
  case less
  show ?case
  proof (cases "d \<in> set s")
    case True
    then obtain p t where "s = p @ d # t" "d \<notin> set p" by (meson split_list_first)
    with less assms(2) show ?thesis by simp
  qed (rule assms(1))
qed

lemma pieces_clean: "x \<in> set (pieces [d] s) \<Longrightarrow> d \<notin> set x"
  by (induction s rule: pieces_induct [where d = d]) (auto simp: pieces_stop pieces_step split: if_splits)

lemma pieces_Nil: "pieces [d] s = [] \<longleftrightarrow> s = []"
  by (induction s rule: pieces_induct [where d = d]) (auto simp: pieces_stop pieces_step)

lemma join_pieces: "join_items (pieces [d] s) d = (if s \<noteq> [] \<and> last s = d then butlast s else s)"
proof (induction s rule: pieces_induct [where d = d])
  case (plain s)
  then show ?case by (auto simp: pieces_stop)
next
  case (step p t)
  then show ?case
    by (cases "t = []") (auto simp: pieces_step pieces_stop join_Cons pieces_Nil butlast_append)
qed

lemma pieces_join:
  "\<forall>x\<in>set xs. d \<notin> set x \<Longrightarrow> xs = [] \<or> last xs \<noteq> [] \<Longrightarrow> pieces [d] (join_items xs d) = xs"
proof (induction xs)
  case (Cons x xs)
  then show ?case by (cases "xs = []") (auto simp: join_Cons pieces_step pieces_stop)
qed (simp add: pieces_stop)

lemma join_split:
  "\<exists>xs. fcitx_utils_split_string s d = Some xs \<and> (\<forall>x\<in>set xs. d \<notin> set x)
     \<and> fcitx_utils_join_string_list (Some xs) d
       = Some (if s \<noteq> [] \<and> last s = d then butlast s else s)"
  using pieces_clean by (auto simp: split_pieces join_list join_pieces)

text \<open>
  Splitting inverts joining, and joining inverts splitting. A list of strings without
  the delimiter, the last of them not empty, survives \<open>fcitx_utils_join_string_list\<close>
  followed by \<open>fcitx_utils_split_string\<close>; and every string that does not end in the
  delimiter is the join of its pieces. (The piece behind a final delimiter is dropped.)
\<close>

theorem split_join:
  assumes "\<forall>x\<in>set xs. d \<notin> set x" and "xs = [] \<or> last xs \<noteq> []"
  shows "fcitx_utils_split_string (the (fcitx_utils_join_string_list (Some xs) d)) d = Some xs
     \<and> fcitx_utils_join_string_list (fcitx_utils_split_string s d) d
       = Some (if s \<noteq> [] \<and> last s = d then butlast s else s)"
  using pieces_join [OF assms] by (simp add: split_pieces join_list join_pieces)

lemma split_join_witness:
  "fcitx_utils_split_string (the (fcitx_utils_join_string_list (Some [ascii ''a'', [], ascii ''bc'']) 0x2c)) 0x2c
     = Some [ascii ''a'', [], ascii ''bc'']
   \<and> fcitx_utils_join_string_list (fcitx_utils_split_string (ascii ''x,y,'') 0x2c) 0x2c
       = Some (if ascii ''x,y,'' \<noteq> [] \<and> last (ascii ''x,y,'') = 0x2c then butlast (ascii ''x,y,'') else ascii ''x,y,'')"
  by (rule split_join) (simp_all add: ascii_def)

text \<open>The string set parses the same pieces.\<close>

lemma set_parse_pieces:
  "string_hash_set_parse_loop sset s d = sset @ map (\<lambda>x. (x, ())) (pieces [d] s)"
proof (induction sset s d rule: string_hash_set_parse_loop.induct)
  case (1 sset s d)
  show ?case
  proof (cases "strcspn s [d] < length s")
    case True
    then obtain p c t where s: "s = p @ c # t" "set p \<inter> set [d] = {}" "c \<in> set [d]"
      "strcspn s [d] = length p" by (elim strcspn_stops)
    with 1 [OF refl True] True show ?thesis
      by (subst string_hash_set_parse_loop.simps)
         (simp add: Let_def pieces_step fcitx_utils_string_hash_set_insert_len_def hash_add_def)
  next
    case False
    with strcspn_passes [OF False] show ?thesis
      by (subst string_hash_set_parse_loop.simps)
         (auto simp: Let_def pieces_stop fcitx_utils_string_hash_set_insert_len_def hash_add_def)
  qed
qed

lemma set_parse_contains:
  "fcitx_utils_string_hash_set_contains (fcitx_utils_string_hash_set_parse s d) x
     \<longleftrightarrow> x \<in> set (the (fcitx_utils_split_string s d))"
  by (auto simp: fcitx_utils_string_hash_set_contains_def fcitx_utils_string_hash_set_parse_def
      set_parse_pieces split_pieces hash_find_def map_of_eq_None_iff image_image simp flip: not_None_eq)

section \<open>Trimming\<close>

lemma trim_end_take: "e \<le> length s \<Longrightarrow> \<exists>r. take e s = take (trim_end s e) s @ r \<and> (\<forall>c\<in>set r. isspace c)
   \<and> trim_end s e \<le> e \<and> (trim_end s e \<noteq> 0 \<longrightarrow> \<not> isspace (s ! (trim_end s e - 1)))"
proof (induction e)
  case (Suc e)
  show ?case
  proof (cases "isspace (s ! e)")
    case True
    with Suc obtain r where "take e s = take (trim_end s e) s @ r" "\<forall>c\<in>set r. isspace c"
      "trim_end s e \<le> e" "trim_end s e \<noteq> 0 \<longrightarrow> \<not> isspace (s ! (trim_end s e - 1))" by auto
    with True Suc.prems show ?thesis
      by (intro exI [of _ "r @ [s ! e]"]) (auto simp: take_Suc_conv_app_nth)
  qed (simp add: Suc)
qed simp

lemma isspace_set: "isspace c \<longleftrightarrow> c \<in> set [0x0c, 0x0a, 0x0d, 0x09, 0x0b, 0x20 :: byte]"
  by (rule byte_all [where b = c]) (code_simp)

lemma trim_spec:
  "\<exists>l r. s = l @ fcitx_utils_trim s @ r \<and> (\<forall>c\<in>set l \<union> set r. isspace c)
     \<and> (fcitx_utils_trim s \<noteq> [] \<longrightarrow>
          \<not> isspace (hd (fcitx_utils_trim s)) \<and> \<not> isspace (last (fcitx_utils_trim s)))"
proof -
  let ?ws = "[0x0c, 0x0a, 0x0d, 0x09, 0x0b, 0x20 :: byte]"
  define s' where "s' = dropWhile isspace s"
  have sp: "drop (strspn s ?ws) s = s'"
    by (simp add: strspn_def s'_def isspace_set [abs_def] flip: dropWhile_eq_drop)
  have t: "fcitx_utils_trim s = take (trim_end s' (length s')) s'"
    unfolding fcitx_utils_trim_def sp Let_def ..
  obtain r where r: "s' = fcitx_utils_trim s @ r" "\<forall>c\<in>set r. isspace c"
    "trim_end s' (length s') \<le> length s'"
    "trim_end s' (length s') \<noteq> 0 \<longrightarrow> \<not> isspace (s' ! (trim_end s' (length s') - 1))"
    using trim_end_take [of "length s'" s'] by (auto simp: t)
  have l: "s = takeWhile isspace s @ s'" by (simp add: s'_def)
  {
    assume ne: "fcitx_utils_trim s \<noteq> []"
    then have "hd (fcitx_utils_trim s) = hd s'" "s' \<noteq> []" using r(1) by (metis hd_append2, auto)
    then have h: "\<not> isspace (hd (fcitx_utils_trim s))" using hd_dropWhile [of isspace s] by (simp add: s'_def)
    have "last (fcitx_utils_trim s) = s' ! (trim_end s' (length s') - 1)"
      using ne r(3) by (auto simp: t last_conv_nth min_def)
    with r(4) ne have "\<not> isspace (last (fcitx_utils_trim s))" by (auto simp: t)
    with h have "\<not> isspace (hd (fcitx_utils_trim s)) \<and> \<not> isspace (last (fcitx_utils_trim s))" ..
  }
  with r l show ?thesis
    by (intro exI [of _ "takeWhile isspace s"] exI [of _ r]) (auto dest: set_takeWhileD)
qed

section \<open>Concatenation\<close>

abbreviation str_or_empty :: "buf option \<Rightarrow> buf" where
  "str_or_empty s \<equiv> (case s of None \<Rightarrow> [] | Some t \<Rightarrow> t)"

lemma str_lens_eq:
  "fcitx_utils_str_lens ss = (length (concat (map str_or_empty ss)) + 1, map (length \<circ> str_or_empty) ss)"
  by (induction ss) (auto simp: Let_def split: option.splits)

lemma cat_str_eq:
  "fcitx_utils_cat_str (zip ss (map (length \<circ> str_or_empty) ss)) = Some (concat (map str_or_empty ss))"
  by (induction ss) (auto simp: copy_item_def split: option.splits)

lemma cat_loop_eq:
  "length out \<le> limit \<Longrightarrow>
   cat_with_len_loop limit out (zip ss (map (length \<circ> str_or_empty) ss))
     = Some (take limit (out @ concat (map str_or_empty ss)))"
  by (induction ss arbitrary: out) (auto simp: copy_item_def split: option.splits)

lemma cat_str_bounded:
  assumes "0 < len" and "fcitx_utils_str_lens ss = (tot, sizes)"
  shows "fcitx_utils_cat_str_with_len len (zip ss sizes) = map_option (take (len - 1)) (fcitx_utils_cat_str (zip ss sizes))
     \<and> map_option length (fcitx_utils_cat_str (zip ss sizes)) = Some (tot - 1)"
  using assms cat_loop_eq [of "[]" "len - 1" ss]
  by (auto simp: str_lens_eq cat_str_eq fcitx_utils_cat_str_with_len_def)

end
