(* ===== verification/Utils_Sys.thy ===== *)
theory Utils_Sys
  imports StrUtils_Laws
begin

text \<open>
  The helpers of \<open>utils.c\<close> that look at the environment of the process and at files. The
  environment is the function \<open>getenv\<close>, the paths that the build system fixes are the
  record \<open>build_paths\<close>, a file that is read is the list of the bytes that remain, and
  writing yields the bytes written (a failing write is not modelled).
\<close>

section \<open>The environment\<close>

type_synonym env = "buf \<Rightarrow> buf option"

definition fcitx_utils_get_display_number :: "env \<Rightarrow> int option" where
  "fcitx_utils_get_display_number getenv =
     (case getenv (ascii ''DISPLAY'') of
        None \<Rightarrow> Some 0
      | Some display \<Rightarrow>
          let p = drop (strcspn display (ascii '':'')) display in
          if p = [] \<or> hd p \<noteq> 0x3a then Some 0
          else let q = tl p; len = strcspn q (ascii ''.'')
               in map_option atoi (fcitx_utils_set_str_with_len q len))"

definition locale_env :: "env \<Rightarrow> buf option" where
  "locale_env getenv =
     (case getenv (ascii ''LC_CTYPE'') of
        Some p \<Rightarrow> Some p
      | None \<Rightarrow> (case getenv (ascii ''LC_ALL'') of
          Some p \<Rightarrow> Some p
        | None \<Rightarrow> getenv (ascii ''LANG'')))"

definition fcitx_utils_current_locale_is_utf8 :: "env \<Rightarrow> bool" where
  "fcitx_utils_current_locale_is_utf8 getenv =
     (case locale_env getenv of
        None \<Rightarrow> False
      | Some p \<Rightarrow> strcasestr p (ascii ''utf8'') \<or> strcasestr p (ascii ''utf-8''))"

definition fcitx_utils_get_current_langcode :: "env \<Rightarrow> buf option" where
  "fcitx_utils_get_current_langcode getenv =
     (case locale_env getenv of
        None \<Rightarrow> Some (ascii ''C'')
      | Some p \<Rightarrow> fcitx_utils_set_str_with_len p (strcspn p (ascii ''.@'')))"

definition fcitx_utils_get_boolean_env :: "env \<Rightarrow> buf \<Rightarrow> int \<Rightarrow> int" where
  "fcitx_utils_get_boolean_env getenv name defval =
     (case getenv name of
        None \<Rightarrow> defval
      | Some value \<Rightarrow>
          if value = [] \<or> strcmp value (ascii ''0'') = 0 \<or> strcasecmp value (ascii ''false'') = 0
          then 0 else 1)"

section \<open>Installed paths\<close>

record build_paths =
  DATADIR :: buf
  PKGDATADIR :: buf
  BINDIR :: buf
  LIBDIR :: buf
  LOCALEDIR :: buf
  PACKAGE :: buf

definition fcitx_utils_get_fcitx_path :: "build_paths \<Rightarrow> env \<Rightarrow> buf \<Rightarrow> buf option" where
  "fcitx_utils_get_fcitx_path b getenv type =
     (let fcitxdir = getenv (ascii ''FCITXDIR'');
          pick = (\<lambda>suffix built. Some (case fcitxdir of Some d \<Rightarrow> d @ suffix | None \<Rightarrow> built))
      in if strcmp type (ascii ''datadir'') = 0 then pick (ascii ''/share'') (DATADIR b)
         else if strcmp type (ascii ''pkgdatadir'') = 0 then
           pick (ascii ''/share/'' @ PACKAGE b) (PKGDATADIR b)
         else if strcmp type (ascii ''bindir'') = 0 then pick (ascii ''/bin'') (BINDIR b)
         else if strcmp type (ascii ''libdir'') = 0 then pick (ascii ''/lib'') (LIBDIR b)
         else if strcmp type (ascii ''localedir'') = 0 then pick (ascii ''/share/locale'') (LOCALEDIR b)
         else if strcmp type (ascii ''tabledir'') = 0 then
           pick (ascii ''/share/'' @ PACKAGE b @ ascii ''/table'') (PKGDATADIR b @ ascii ''/table'')
         else None)"

definition fcitx_utils_get_fcitx_path_with_filename ::
  "build_paths \<Rightarrow> env \<Rightarrow> buf \<Rightarrow> buf \<Rightarrow> buf option" where
  "fcitx_utils_get_fcitx_path_with_filename b getenv type filename =
     (case fcitx_utils_get_fcitx_path b getenv type of
        None \<Rightarrow> None
      | Some path \<Rightarrow> Some (path @ ascii ''/'' @ filename))"

section \<open>Integers in files\<close>

text \<open>
  Integers are stored with the least significant byte first. A short read returns the size
  0 and leaves the value unspecified: \<open>None\<close>.
\<close>

fun le_bytes :: "nat \<Rightarrow> 'a::len word \<Rightarrow> buf" where
  "le_bytes 0 w = []"
| "le_bytes (Suc n) w = ucast w # le_bytes n (drop_bit 8 w)"

fun le_value :: "buf \<Rightarrow> 'a::len word" where
  "le_value [] = 0"
| "le_value (b # bs) = ucast b OR push_bit 8 (le_value bs)"

definition read_le :: "nat \<Rightarrow> buf \<Rightarrow> 'a::len word option \<times> buf" where
  "read_le n f = (if n \<le> length f then (Some (le_value (take n f)), drop n f) else (None, []))"

definition fcitx_utils_read_uint32 :: "buf \<Rightarrow> uint32 option \<times> buf" where
  "fcitx_utils_read_uint32 = read_le 4"

definition fcitx_utils_write_uint32 :: "uint32 \<Rightarrow> buf" where
  "fcitx_utils_write_uint32 = le_bytes 4"

definition fcitx_utils_read_uint16 :: "buf \<Rightarrow> uint16 option \<times> buf" where
  "fcitx_utils_read_uint16 = read_le 2"

definition fcitx_utils_write_uint16 :: "uint16 \<Rightarrow> buf" where
  "fcitx_utils_write_uint16 = le_bytes 2"

definition fcitx_utils_read_uint64 :: "buf \<Rightarrow> uint64 option \<times> buf" where
  "fcitx_utils_read_uint64 = read_le 8"

definition fcitx_utils_write_uint64 :: "uint64 \<Rightarrow> buf" where
  "fcitx_utils_write_uint64 = le_bytes 8"

text \<open>The number of lines \<open>getline\<close> returns, a last line without a newline included.\<close>

fun calculate_record_number_loop :: "buf \<Rightarrow> bool \<Rightarrow> nat" where
  "calculate_record_number_loop [] open_line = (if open_line then 1 else 0)"
| "calculate_record_number_loop (c # f) open_line =
     (if c = 0x0a then Suc (calculate_record_number_loop f False)
      else calculate_record_number_loop f True)"

definition fcitx_utils_calculate_record_number :: "buf \<Rightarrow> nat" where
  "fcitx_utils_calculate_record_number f = calculate_record_number_loop f False"

section \<open>Arithmetic helpers\<close>

definition fcitx_utils_align_to :: "uint64 \<Rightarrow> uint64 \<Rightarrow> uint64" where
  "fcitx_utils_align_to len align =
     (let left = len mod align in if left \<noteq> 0 then len + align - left else len)"

text \<open>The atomic operations: the old value is returned, the new one stored.\<close>

definition fcitx_utils_atomic_add :: "32 word \<Rightarrow> 32 word \<Rightarrow> 32 word \<times> 32 word" where
  "fcitx_utils_atomic_add old val = (old, old + val)"

definition fcitx_utils_atomic_and :: "uint32 \<Rightarrow> uint32 \<Rightarrow> uint32 \<times> uint32" where
  "fcitx_utils_atomic_and old val = (old, old AND val)"

definition fcitx_utils_atomic_or :: "uint32 \<Rightarrow> uint32 \<Rightarrow> uint32 \<times> uint32" where
  "fcitx_utils_atomic_or old val = (old, old OR val)"

definition fcitx_utils_atomic_xor :: "uint32 \<Rightarrow> uint32 \<Rightarrow> uint32 \<times> uint32" where
  "fcitx_utils_atomic_xor old val = (old, old XOR val)"

section \<open>Laws\<close>

lemma length_le_bytes [simp]: "length (le_bytes n w) = n"
  by (induction n w rule: le_bytes.induct) auto

lemma le_value_bytes: "le_value (le_bytes n w) = take_bit (8 * n) (w :: 'a::len word)"
proof (induction n arbitrary: w)
  case (Suc n)
  have "(ucast (ucast w :: byte) :: 'a word) OR push_bit 8 (take_bit (8 * n) (drop_bit 8 w))
      = take_bit (8 * Suc n) w"
  proof (rule bit_word_eqI)
    fix k assume "k < LENGTH('a)"
    then show "bit (ucast (ucast w :: byte) OR push_bit 8 (take_bit (8 * n) (drop_bit 8 w))) k
      = bit (take_bit (8 * Suc n) w) k"
      by (cases "k < 8") (auto simp: bit_simps)
  qed
  with Suc show ?case by simp
qed simp

lemma read_le_bytes:
  "LENGTH('a::len) \<le> 8 * n \<Longrightarrow> read_le n (le_bytes n (w :: 'a word) @ rest) = (Some w, rest)"
  by (simp add: read_le_def le_value_bytes take_bit_word_eq_self)

text \<open>
  Integers written to a file are read back. For each of the three widths, reading from a
  file that starts with the bytes the writer produced returns the integer and leaves the
  file behind those bytes.
\<close>

theorem read_write_uint:
  "fcitx_utils_read_uint16 (fcitx_utils_write_uint16 a @ rest) = (Some a, rest)
   \<and> fcitx_utils_read_uint32 (fcitx_utils_write_uint32 b @ rest) = (Some b, rest)
   \<and> fcitx_utils_read_uint64 (fcitx_utils_write_uint64 c @ rest) = (Some c, rest)"
  by (simp_all add: fcitx_utils_read_uint16_def fcitx_utils_write_uint16_def
      fcitx_utils_read_uint32_def fcitx_utils_write_uint32_def
      fcitx_utils_read_uint64_def fcitx_utils_write_uint64_def read_le_bytes)

lemma align_to_multiple:
  assumes "unat len + unat align < 2 ^ 64" and "0 < unat align"
  shows "unat (fcitx_utils_align_to len align) mod unat align = 0
     \<and> unat len \<le> unat (fcitx_utils_align_to len align)
     \<and> unat (fcitx_utils_align_to len align) < unat len + unat align"
proof (cases "unat len mod unat align = 0")
  case True
  then have "len mod align = 0" by (simp add: word_arith_nat_mod)
  with True assms show ?thesis by (simp add: fcitx_utils_align_to_def)
next
  case False
  let ?l = "unat len" and ?a = "unat align"
  have left: "unat (len mod align) = ?l mod ?a" by (simp add: unat_mod_distrib)
  with False have "len mod align \<noteq> 0" by (metis unsigned_0)
  moreover have "unat (len + align) = ?l + ?a" using assms(1) by (simp add: unat_word_ariths)
  moreover have "?l mod ?a \<le> ?l + ?a" by (simp add: trans_le_add1)
  ultimately have eq: "unat (fcitx_utils_align_to len align) = ?l + ?a - ?l mod ?a"
    using left by (simp add: fcitx_utils_align_to_def Let_def unat_sub word_le_nat_alt)
  have lt: "?l mod ?a < ?a" using assms(2) by simp
  have "?l + ?a - ?l mod ?a = ?l div ?a * ?a + ?a"
    using div_mult_mod_eq [of ?l ?a] lt by linarith
  then have "(?l + ?a - ?l mod ?a) mod ?a = 0" by simp
  with eq lt False show ?thesis by simp
qed

end
