(* ===== verification/StringMap.thy ===== *)
theory StringMap
  imports Utils_Sys
begin

text \<open>
  The string map of \<open>src/lib/fcitx-utils/stringmap.c\<close>: a hash table from strings to
  booleans, with its textual form \<open>key:true,key:false\<close>. The laws of a lookup after an
  update come from the keyed store contract of the hash table.
\<close>

section \<open>Operations\<close>

type_synonym string_map = "(buf, bool) uthash"

definition fcitx_string_map_get :: "string_map \<Rightarrow> buf \<Rightarrow> bool \<Rightarrow> bool" where
  "fcitx_string_map_get m key dflt =
     (case hash_find m key of Some v \<Rightarrow> v | None \<Rightarrow> dflt)"

definition fcitx_string_map_set :: "string_map \<Rightarrow> buf \<Rightarrow> bool \<Rightarrow> string_map" where
  "fcitx_string_map_set m key value =
     (case hash_find m key of None \<Rightarrow> hash_add m key value | Some _ \<Rightarrow> hash_upd m key value)"

fun fcitx_string_map_clear :: "string_map \<Rightarrow> string_map" where
  "fcitx_string_map_clear [] = []"
| "fcitx_string_map_clear (p # items) = fcitx_string_map_clear items"

definition fcitx_string_map_remove :: "string_map \<Rightarrow> buf \<Rightarrow> string_map" where
  "fcitx_string_map_remove m key =
     (case hash_find m key of None \<Rightarrow> m | Some _ \<Rightarrow> hash_del m key)"

text \<open>One entry of the textual form; entries without exactly two parts are skipped.\<close>

definition string_map_entry :: "string_map \<Rightarrow> buf \<Rightarrow> string_map option" where
  "string_map_entry m s = do {
     item \<leftarrow> fcitx_utils_split_string s 0x3a;
     if length item = 2 then do {
       key \<leftarrow> utarray_eltptr item 0;
       value \<leftarrow> utarray_eltptr item 1;
       Some (fcitx_string_map_set m key (strcmp value (ascii ''true'') = 0)) }
     else Some m }"

fun string_map_entries :: "string_map \<Rightarrow> buf list \<Rightarrow> string_map option" where
  "string_map_entries m [] = Some m"
| "string_map_entries m (s # ss) = do { m' \<leftarrow> string_map_entry m s; string_map_entries m' ss }"

definition fcitx_string_map_from_string :: "string_map \<Rightarrow> buf \<Rightarrow> byte \<Rightarrow> string_map option" where
  "fcitx_string_map_from_string m str delim = do {
     items \<leftarrow> fcitx_utils_split_string str delim;
     string_map_entries (fcitx_string_map_clear m) items }"

definition fcitx_string_map_new :: "buf option \<Rightarrow> byte \<Rightarrow> string_map option" where
  "fcitx_string_map_new str delim =
     (case str of None \<Rightarrow> Some [] | Some s \<Rightarrow> fcitx_string_map_from_string [] s delim)"

text \<open>Every entry is followed by the delimiter; the last one becomes the terminator.\<close>

definition fcitx_string_map_to_string :: "string_map \<Rightarrow> byte \<Rightarrow> buf" where
  "fcitx_string_map_to_string m delim =
     (if m = [] then []
      else butlast (concat (map (\<lambda>(k, v). k @ [0x3a] @ (if v then ascii ''true'' else ascii ''false'') @ [delim]) m)))"

section \<open>Lookup and update\<close>

abbreviation string_map_wf :: "string_map \<Rightarrow> bool" where
  "string_map_wf m \<equiv> distinct (map fst m)"

lemma string_map_set_find:
  "string_map_wf m \<Longrightarrow> hash_find (fcitx_string_map_set m k v) = (hash_find m)(k \<mapsto> v)"
  unfolding fcitx_string_map_set_def by (rule uh.lookup_put)

lemma string_map_set_wf: "string_map_wf m \<Longrightarrow> string_map_wf (fcitx_string_map_set m k v)"
  unfolding fcitx_string_map_set_def by (rule uh.wf_put)

lemma string_map_remove_find:
  "string_map_wf m \<Longrightarrow> hash_find (fcitx_string_map_remove m k) = (hash_find m)(k := None)"
  unfolding fcitx_string_map_remove_def by (rule uh.lookup_discard)

lemma string_map_remove_wf: "string_map_wf m \<Longrightarrow> string_map_wf (fcitx_string_map_remove m k)"
  unfolding fcitx_string_map_remove_def by (rule uh.wf_discard)

lemma clear_empty [simp]: "fcitx_string_map_clear m = []"
  by (induction m) auto

lemma string_map_get_set:
  "string_map_wf m \<Longrightarrow>
   fcitx_string_map_get (fcitx_string_map_set m k v) k' dflt
     = (if k' = k then v else fcitx_string_map_get m k' dflt)"
  by (simp add: fcitx_string_map_get_def string_map_set_find)

lemma string_map_get_remove:
  "string_map_wf m \<Longrightarrow>
   fcitx_string_map_get (fcitx_string_map_remove m k) k' dflt
     = (if k' = k then dflt else fcitx_string_map_get m k' dflt)"
  by (simp add: fcitx_string_map_get_def string_map_remove_find)

section \<open>The textual form\<close>

definition entry_text :: "buf \<times> bool \<Rightarrow> buf" where
  "entry_text p = fst p @ 0x3a # (if snd p then ascii ''true'' else ascii ''false'')"

lemma to_string_join: "fcitx_string_map_to_string m d = join_items (map entry_text m) d"
  by (cases "m = []")
     (auto simp: fcitx_string_map_to_string_def join_items_def entry_text_def comp_def
       case_prod_unfold)

lemma cs_bool: "0x3a \<notin> set (ascii ''true'')" "0x3a \<notin> set (ascii ''false'')"
  "ascii ''true'' \<noteq> []" "ascii ''false'' \<noteq> []" "ascii ''false'' \<noteq> ascii ''true''"
  by (simp_all add: ascii_def)

lemma entry_pieces:
  "0x3a \<notin> set k \<Longrightarrow> pieces [0x3a] (entry_text (k, v)) = [k, if v then ascii ''true'' else ascii ''false'']"
  by (simp add: entry_text_def pieces_step pieces_stop cs_bool)

lemma entry_set: "0x3a \<notin> set k \<Longrightarrow> string_map_entry m (entry_text (k, v)) = Some (fcitx_string_map_set m k v)"
  by (simp add: string_map_entry_def split_pieces entry_pieces utarray_eltptr_def strcmp_eq cs_bool)

lemma set_fresh: "k \<notin> fst ` set m \<Longrightarrow> fcitx_string_map_set m k v = m @ [(k, v)]"
proof -
  assume "k \<notin> fst ` set m"
  then have "map_of (rev m) k = None" by (simp add: map_of_eq_None_iff)
  then show ?thesis by (simp add: fcitx_string_map_set_def hash_find_def hash_add_def)
qed

lemma entries_text:
  "distinct (map fst (m @ h)) \<Longrightarrow> \<forall>p\<in>set h. 0x3a \<notin> set (fst p) \<Longrightarrow>
   string_map_entries m (map entry_text h) = Some (m @ h)"
proof (induction h arbitrary: m)
  case (Cons p h)
  obtain k v where p: "p = (k, v)" by (cases p)
  with Cons.prems have "fcitx_string_map_set m k v = m @ [(k, v)]"
    by (intro set_fresh) auto
  with Cons p show ?case by (simp add: entry_set)
qed simp

text \<open>
  A string map survives its textual form. When the keys are distinct and contain neither
  the colon nor the delimiter, and the delimiter does not occur in the words for the truth
  values, \<open>fcitx_string_map_from_string\<close> applied to the output of
  \<open>fcitx_string_map_to_string\<close> restores the same entries in the same order, whatever the
  map held before.
\<close>

theorem string_map_roundtrip:
  assumes "distinct (map fst h)"
    and "\<forall>p\<in>set h. 0x3a \<notin> set (fst p) \<and> d \<notin> set (fst p)"
    and "d \<noteq> 0x3a" and "d \<notin> set (ascii ''truefalse'')"
  shows "fcitx_string_map_from_string m (fcitx_string_map_to_string h d) d = Some h"
proof -
  have d: "d \<notin> set (ascii ''true'')" "d \<notin> set (ascii ''false'')"
    using assms(4) by (simp_all add: ascii_def)
  have "\<forall>x\<in>set (map entry_text h). d \<notin> set x \<and> x \<noteq> []"
    using assms(2,3) d by (auto simp: entry_text_def)
  then have "pieces [d] (join_items (map entry_text h) d) = map entry_text h"
    by (intro pieces_join) (metis last_in_set, metis last_in_set)
  then show ?thesis using entries_text [of "[]" h] assms(1,2)
    by (simp add: fcitx_string_map_from_string_def to_string_join split_pieces)
qed

lemma string_map_roundtrip_witness:
  "fcitx_string_map_from_string [(ascii ''old'', True)]
     (fcitx_string_map_to_string [(ascii ''a'', True), (ascii ''b'', False)] 0x2c) 0x2c
   = Some [(ascii ''a'', True), (ascii ''b'', False)]"
  by (rule string_map_roundtrip) (simp_all add: ascii_def)

end
