(* ===== verification/SortUtils.thy ===== *)
theory SortUtils
  imports StrUtils_Laws "HOL-Library.Multiset"
begin

text \<open>
  Sorting and searching: \<open>sort_common.h\<close>, \<open>msort_r.c\<close>, \<open>qsort_r.c\<close> and
  \<open>fcitx_utils_custom_bsearch\<close> of \<open>utils.c\<close>. An array of elements of any size is a list,
  the comparison function with its \<open>thunk\<close> a function into the integers. What the routines
  need of it is the locale \<open>comparator\<close>; the merge sort is stable, so every comparator has
  exactly one result, and the insertion sort gives the same one.
\<close>

section \<open>The routines\<close>

type_synonym 'a compar = "'a \<Rightarrow> 'a \<Rightarrow> int"

definition swap_elt :: "'a list \<Rightarrow> nat \<Rightarrow> nat \<Rightarrow> 'a list" where
  "swap_elt b i j = b[i := b ! j, j := b ! i]"

fun insertion_sort_inner :: "'a compar \<Rightarrow> 'a list \<Rightarrow> nat \<Rightarrow> 'a list" where
  "insertion_sort_inner compar b 0 = b"
| "insertion_sort_inner compar b (Suc j) =
     (if compar (b ! j) (b ! Suc j) \<le> 0 then b
      else insertion_sort_inner compar (swap_elt b j (Suc j)) j)"

definition insertion_sort :: "'a compar \<Rightarrow> 'a list \<Rightarrow> 'a list" where
  "insertion_sort compar b = foldl (insertion_sort_inner compar) b [0..<length b]"

text \<open>
  The merging loop of \<open>fcitx_msort_r_with_tmp\<close>: \<open>ia\<close> and \<open>ib\<close> are the positions of
  \<open>b_a\<close> and \<open>b_b\<close>; the result is the content of \<open>tmp\<close> with the final \<open>n_a\<close> and
  position, and the final \<open>n_b\<close>.
\<close>

fun msort_merge ::
  "'a compar \<Rightarrow> 'a list \<Rightarrow> nat \<Rightarrow> nat \<Rightarrow> nat \<Rightarrow> nat \<Rightarrow> 'a list \<Rightarrow> 'a list \<times> nat \<times> nat \<times> nat" where
  "msort_merge cmp b ia (Suc n_a) ib (Suc n_b) tmp =
     (if cmp (b ! ia) (b ! ib) \<le> 0
      then msort_merge cmp b (Suc ia) n_a ib (Suc n_b) (tmp @ [b ! ia])
      else msort_merge cmp b ia (Suc n_a) (Suc ib) n_b (tmp @ [b ! ib]))"
| "msort_merge cmp b ia n_a ib n_b tmp = (tmp, ia, n_a, n_b)"

function fcitx_msort_r_with_tmp :: "'a compar \<Rightarrow> 'a list \<Rightarrow> 'a list" where
  "fcitx_msort_r_with_tmp cmp b =
     (if length b < 10 then insertion_sort cmp b
      else
        let n = length b;
            n_a = n div 2;
            n_b = n - n_a;
            b' = fcitx_msort_r_with_tmp cmp (take n_a b) @ fcitx_msort_r_with_tmp cmp (drop n_a b);
            (tmp, ia, n_a', n_b') = msort_merge cmp b' 0 n_a n_a n_b [];
            t = (if n_a' > 0 then tmp @ take n_a' (drop ia b') else tmp)
        in take (n - n_b') t @ drop (n - n_b') b')"
  by pat_completeness auto
termination by (relation "measure (\<lambda>(cmp, b). length b)") auto

declare fcitx_msort_r_with_tmp.simps [simp del]

text \<open>
  The partition loop of \<open>fcitx_qsort_r\<close> over the indices below the last element, where
  the pivot was put; then the two recursive calls around it.
\<close>

fun qsort_partition :: "'a compar \<Rightarrow> 'a \<Rightarrow> nat list \<Rightarrow> nat \<Rightarrow> 'a list \<Rightarrow> nat \<times> 'a list" where
  "qsort_partition cmp p [] npart b = (npart, b)"
| "qsort_partition cmp p (i # is) npart b =
     (if cmp (b ! i) p \<le> 0 then qsort_partition cmp p is (Suc npart) (swap_elt b i npart)
      else qsort_partition cmp p is npart b)"

definition qsort_pivot :: "'a compar \<Rightarrow> 'a list \<Rightarrow> nat" where
  "qsort_pivot compar base =
     (let nmemb = length base; a = base ! 0; b = base ! (nmemb div 2); c = base ! (nmemb - 1) in
      if compar a b < 0
      then (if compar b c < 0 then nmemb div 2 else if compar a c < 0 then nmemb - 1 else 0)
      else (if compar a c < 0 then 0 else if compar b c < 0 then nmemb - 1 else nmemb div 2))"

lemma length_swap_elt [simp]: "length (swap_elt b i j) = length b"
  by (simp add: swap_elt_def)

lemma partition_bound:
  "qsort_partition cmp p is npart b = (k, b') \<Longrightarrow> npart \<le> k \<and> k \<le> npart + length is \<and> length b' = length b"
  by (induction "is" arbitrary: npart b) (fastforce split: if_splits)+

definition qsort_split :: "'a compar \<Rightarrow> 'a list \<Rightarrow> nat \<times> 'a list" where
  "qsort_split compar base =
     (let nmemb = length base;
          b = swap_elt base (qsort_pivot compar base) (nmemb - 1);
          (npart, b') = qsort_partition compar (b ! (nmemb - 1)) [0..<nmemb - 1] 0 b
      in (npart, swap_elt b' npart (nmemb - 1)))"

lemma split_bound: "base \<noteq> [] \<Longrightarrow> qsort_split compar base = (k, b) \<Longrightarrow> k < length base \<and> length b = length base"
  by (cases base) (auto simp: qsort_split_def Let_def simp del: upt_Suc split: prod.splits
      dest!: partition_bound)

function fcitx_qsort_r :: "'a compar \<Rightarrow> 'a list \<Rightarrow> 'a list" where
  "fcitx_qsort_r compar base =
     (if length base < 10 then insertion_sort compar base
      else let (npart, b) = qsort_split compar base
           in fcitx_qsort_r compar (take npart b) @ b ! npart # fcitx_qsort_r compar (drop (npart + 1) b))"
  by pat_completeness auto
termination
proof (relation "measure (\<lambda>(compar, base). length base)", goal_cases)
  case (2 compar base p npart b)
  then have "base \<noteq> []" "qsort_split compar base = (npart, b)" by auto
  then have "npart < length base" "length b = length base" by (auto dest: split_bound)
  then show ?case by simp
next
  case (3 compar base p npart b)
  then have "base \<noteq> []" "qsort_split compar base = (npart, b)" by auto
  then have "npart < length base" "length b = length base" by (auto dest: split_bound)
  then show ?case by simp
qed simp

declare fcitx_qsort_r.simps [simp del]

text \<open>\<open>fcitx_msort_r\<close>: \<open>mem\<close> says whether the temporary block could be allocated.\<close>

definition fcitx_msort_r :: "bool \<Rightarrow> 'a compar \<Rightarrow> 'a list \<Rightarrow> 'a list" where
  "fcitx_msort_r mem cmp b =
     (if length b < 10 then insertion_sort cmp b
      else if \<not> mem then fcitx_qsort_r cmp b
      else fcitx_msort_r_with_tmp cmp b)"

text \<open>
  \<open>fcitx_utils_custom_bsearch\<close> without \<open>accurate\<close>: the index of the first element that
  is not smaller than the key. With \<open>accurate\<close> it is \<open>bsearch\<close> of the C library.
\<close>

function custom_bsearch_loop :: "('k \<Rightarrow> 'a \<Rightarrow> int) \<Rightarrow> 'k \<Rightarrow> 'a list \<Rightarrow> nat \<Rightarrow> nat \<Rightarrow> nat \<times> nat" where
  "custom_bsearch_loop compar key base l u =
     (if l < u then
        let idx = (l + u) div 2; comparison = compar key (base ! idx) in
        if comparison \<le> 0 then custom_bsearch_loop compar key base l idx
        else custom_bsearch_loop compar key base (idx + 1) u
      else (l, u))"
  by pat_completeness auto
termination by (relation "measure (\<lambda>(compar, key, base, l, u). u - l)") auto

declare custom_bsearch_loop.simps [simp del]

definition fcitx_utils_custom_bsearch :: "('k \<Rightarrow> 'a \<Rightarrow> int) \<Rightarrow> 'k \<Rightarrow> 'a list \<Rightarrow> nat option" where
  "fcitx_utils_custom_bsearch compar key base =
     (let (l, u) = custom_bsearch_loop compar key base 0 (length base)
      in if u \<ge> length base then None else Some l)"

section \<open>What a comparison function promises\<close>

locale comparator =
  fixes cmp :: "'a compar"
  assumes cmp_swap: "sgn (cmp b a) = - sgn (cmp a b)"
    and cmp_trans: "cmp a b \<le> 0 \<Longrightarrow> cmp b c \<le> 0 \<Longrightarrow> cmp a c \<le> 0"
begin

lemma cmp_total: "\<not> cmp a b \<le> 0 \<Longrightarrow> cmp b a < 0"
  using cmp_swap [of b a] by (auto simp: sgn_if split: if_splits)

lemma cmp_refl: "cmp a a = 0"
  using cmp_swap [of a a] by (auto simp: sgn_if split: if_splits)

lemma cmp_pos: "cmp a b > 0 \<longleftrightarrow> cmp b a < 0"
  using cmp_swap [of b a] by (auto simp: sgn_if split: if_splits)

lemma cmp_zero: "cmp a b = 0 \<longleftrightarrow> cmp b a = 0"
  using cmp_swap [of b a] by (auto simp: sgn_if split: if_splits)

lemma cmp_less_trans: "cmp a b < 0 \<Longrightarrow> cmp b c \<le> 0 \<Longrightarrow> cmp a c < 0"
  using cmp_trans [of a b c] cmp_trans [of b c a] cmp_zero [of a c] cmp_pos [of b a]
  by (metis cmp_total less_le linorder_not_less)

abbreviation "srt \<equiv> sorted_wrt (\<lambda>a b. cmp a b \<le> 0)"

text \<open>The elements of the class of \<open>z\<close>, in order.\<close>

abbreviation cls :: "'a \<Rightarrow> 'a list \<Rightarrow> 'a list" where
  "cls z \<equiv> filter (\<lambda>y. cmp z y = 0)"

definition stable_sorted :: "'a list \<Rightarrow> 'a list \<Rightarrow> bool" where
  "stable_sorted xs ys \<longleftrightarrow> mset ys = mset xs \<and> srt ys \<and> (\<forall>z. cls z ys = cls z xs)"

text \<open>A list has only one stably sorted form.\<close>

lemma stable_sorted_unique:
  "stable_sorted xs ys \<Longrightarrow> stable_sorted xs zs \<Longrightarrow> ys = zs"
proof -
  have "mset ys = mset zs \<Longrightarrow> srt ys \<Longrightarrow> srt zs \<Longrightarrow> \<forall>z. cls z ys = cls z zs \<Longrightarrow> ys = zs" for ys zs
  proof (induction ys arbitrary: zs)
    case (Cons y ys)
    then obtain z zs' where zs: "zs = z # zs'" by (cases zs) auto
    have "z \<in> set (y # ys)" "y \<in> set zs" using Cons.prems(1) zs
      by (metis list.set_intros(1) set_mset_mset, metis list.set_intros(1) set_mset_mset)
    then have "cmp y z \<le> 0" "cmp z y \<le> 0"
      using Cons.prems(2,3) zs cmp_refl by auto
    then have "cmp y z = 0" using cmp_swap [of y z] by (auto simp: sgn_if split: if_splits)
    moreover have "cls y (y # ys) = cls y zs" using Cons.prems(4) by blast
    ultimately have yz: "y = z" using zs cmp_refl by simp
    have "cls w ys = cls w zs'" for w
      using Cons.prems(4) [rule_format, of w] zs yz by (simp split: if_splits)
    then have "ys = zs'" using Cons.IH [of zs'] Cons.prems zs yz by simp
    with zs yz show ?case by simp
  qed simp
  then show "stable_sorted xs ys \<Longrightarrow> stable_sorted xs zs \<Longrightarrow> ys = zs"
    by (simp add: stable_sorted_def)
qed

text \<open>Insertion from the right into a sorted list, given reversed.\<close>

fun sink :: "'a \<Rightarrow> 'a list \<Rightarrow> 'a list" where
  "sink x [] = [x]"
| "sink x (p # ps) = (if cmp p x \<le> 0 then x # p # ps else p # sink x ps)"

lemma inner_sink: "insertion_sort_inner cmp (rev ps @ x # rest) (length ps) = rev (sink x ps) @ rest"
proof (induction ps arbitrary: rest)
  case (Cons p ps)
  have "swap_elt (rev ps @ p # x # rest) (length ps) (Suc (length ps)) = rev ps @ x # p # rest"
    by (simp add: swap_elt_def list_update_append nth_append)
  with Cons show ?case by (simp add: nth_append)
qed simp

lemma mset_sink [simp]: "mset (sink x ps) = add_mset x (mset ps)"
  by (induction ps) auto

lemma length_sink [simp]: "length (sink x ps) = Suc (length ps)"
  by (induction ps) auto

lemma sink_sorted: "sorted_wrt (\<lambda>a b. cmp b a \<le> 0) ps \<Longrightarrow> sorted_wrt (\<lambda>a b. cmp b a \<le> 0) (sink x ps)"
proof (induction ps)
  case (Cons p ps)
  have "set (sink x ps) = insert x (set ps)" by (metis mset_sink set_mset_add_mset_insert set_mset_mset)
  with Cons show ?case using cmp_total [of p x] cmp_trans by fastforce
qed simp

lemma sink_cls: "sorted_wrt (\<lambda>a b. cmp b a \<le> 0) ps \<Longrightarrow> cls z (sink x ps) = cls z (x # ps)"
proof (induction ps)
  case (Cons p ps)
  show ?case
  proof (cases "cmp p x \<le> 0")
    case False
    then have "\<not> (cmp z p = 0 \<and> cmp z x = 0)"
      using cmp_trans [of p z x] cmp_zero [of z p] by fastforce
    with Cons False show ?thesis by auto
  qed simp
qed simp

lemma insertion_prefix:
  "k \<le> length b \<Longrightarrow> foldl (insertion_sort_inner cmp) b [0..<k]
     = rev (fold sink (take k b) []) @ drop k b"
proof (induction k)
  case (Suc k)
  let ?ps = "fold sink (take k b) []"
  have len: "length (fold sink xs ys) = length xs + length ys" for xs ys
    by (induction xs arbitrary: ys) auto
  have "drop k b = b ! k # drop (Suc k) b" using Suc.prems by (simp add: Cons_nth_drop_Suc)
  then show ?case
    using Suc inner_sink [of ?ps "b ! k" "drop (Suc k) b"] by (simp add: len take_Suc_conv_app_nth)
qed simp

lemma insertion_sort_stable: "stable_sorted b (insertion_sort cmp b)"
proof -
  have gen: "mset (fold sink xs ps) = mset xs + mset ps
      \<and> sorted_wrt (\<lambda>a b. cmp b a \<le> 0) (fold sink xs ps)
      \<and> cls z (fold sink xs ps) = rev (cls z xs) @ cls z ps"
    if "sorted_wrt (\<lambda>a b. cmp b a \<le> 0) ps" for xs ps z
    using that by (induction xs arbitrary: ps) (auto simp: sink_sorted sink_cls)
  have eq: "insertion_sort cmp b = rev (fold sink b [])"
    using insertion_prefix [of "length b" b] by (simp add: insertion_sort_def)
  show ?thesis using gen [of "[]" b]
    by (simp add: stable_sorted_def eq sorted_wrt_rev rev_filter [symmetric])
qed

section \<open>The merge sort\<close>

fun merge :: "'a list \<Rightarrow> 'a list \<Rightarrow> 'a list" where
  "merge (a # as) (b # bs) = (if cmp a b \<le> 0 then a # merge as (b # bs) else b # merge (a # as) bs)"
| "merge as [] = as"
| "merge [] bs = bs"

lemma merge_Nil1: "merge [] bs = bs"
  by (cases bs) auto

lemma mset_merge [simp]: "mset (merge as bs) = mset as + mset bs"
  by (induction as bs rule: merge.induct) auto

lemma set_merge: "set (merge as bs) = set as \<union> set bs"
  by (metis mset_merge set_mset_mset set_mset_union)

lemma srt_merge: "srt as \<Longrightarrow> srt bs \<Longrightarrow> srt (merge as bs)"
proof (induction as bs rule: merge.induct)
  case (1 a as b bs)
  show ?case
  proof (cases "cmp a b \<le> 0")
    case True
    with 1 show ?thesis using cmp_trans [OF True] by (auto simp: set_merge)
  next
    case False
    then have "cmp b a \<le> 0" using cmp_total by fastforce
    with 1 False show ?thesis using cmp_trans [OF \<open>cmp b a \<le> 0\<close>] by (auto simp: set_merge)
  qed
qed auto

lemma cls_merge: "srt as \<Longrightarrow> cls z (merge as bs) = cls z as @ cls z bs"
proof (induction as bs rule: merge.induct)
  case (1 a as b bs)
  show ?case
  proof (cases "cmp a b \<le> 0")
    case False
    {
      assume z: "cmp z b = 0"
      have "cmp z x \<noteq> 0" if "x \<in> set (a # as)" for x
      proof
        assume x: "cmp z x = 0"
        have "cmp a x \<le> 0" using 1(3) that cmp_refl by auto
        moreover have "cmp x b \<le> 0" using cmp_trans [of x z b] x z cmp_zero [of z x] by simp
        ultimately show False using cmp_trans False by blast
      qed
      then have "cls z (a # as) = []" by (simp add: filter_empty_conv)
    }
    with 1 False show ?thesis by (cases "cmp z b = 0") simp_all
  qed (use 1 in auto)
qed auto


lemma merge_loop:
  assumes "ib + n_b = length b" and "ia + n_a \<le> length b"
    and "msort_merge cmp b ia n_a ib n_b tmp = (tmp', ia', n_a', n_b')"
  shows "n_b' \<le> length b \<and>
    (if n_a' > 0 then tmp' @ take n_a' (drop ia' b) else tmp') @ drop (length b - n_b') b
      = tmp @ merge (take n_a (drop ia b)) (drop ib b)"
  using assms
proof (induction "n_a + n_b" arbitrary: ia n_a ib n_b tmp rule: less_induct)
  case less
  show ?case
  proof (cases "n_a = 0 \<or> n_b = 0")
    case True
    then have "tmp' = tmp" "ia' = ia" "n_a' = n_a" "n_b' = n_b"
      using less.prems(3) by (cases n_a; cases n_b; simp)+
    moreover have "ib = length b - n_b" using less.prems(1) by simp
    moreover have "drop ib b = []" if "n_b = 0" using that less.prems(1) by simp
    ultimately show ?thesis using True less.prems(1) merge_Nil1 by auto
  next
    case False
    then obtain p q where pq: "n_a = Suc p" "n_b = Suc q" by (metis not0_implies_Suc)
    have "ia < length b" using less.prems(2) pq by simp
    then have a: "take (Suc p) (drop ia b) = b ! ia # take p (drop (Suc ia) b)"
      by (metis Cons_nth_drop_Suc take_Suc_Cons)
    have bb: "drop ib b = b ! ib # drop (Suc ib) b"
      using less.prems(1) pq by (simp add: Cons_nth_drop_Suc)
    show ?thesis
    proof (cases "cmp (b ! ia) (b ! ib) \<le> 0")
      case True
      with less.prems pq less.hyps [of p n_b ib "Suc ia" "tmp @ [b ! ia]"] show ?thesis
        by (simp add: a bb)
    next
      case False
      with less.prems pq less.hyps [of n_a q "Suc ib" ia "tmp @ [b ! ib]"] show ?thesis
        by (simp add: a bb)
    qed
  qed
qed

lemma msort_step:
  assumes "msort_merge cmp b 0 n_a n_a (length b - n_a) [] = (tmp, ia, n_a', n_b')" and "n_a \<le> length b"
  shows "take (length b - n_b') (if n_a' > 0 then tmp @ take n_a' (drop ia b) else tmp) @ drop (length b - n_b') b
     = merge (take n_a b) (drop n_a b)"
proof -
  let ?t = "if n_a' > 0 then tmp @ take n_a' (drop ia b) else tmp"
  from merge_loop [OF _ _ assms(1)] assms(2)
  have *: "n_b' \<le> length b" "?t @ drop (length b - n_b') b = merge (take n_a b) (drop n_a b)" by auto
  have "length (merge (take n_a b) (drop n_a b)) = length b"
    by (metis append_take_drop_id mset_append mset_merge size_mset)
  with * have "length ?t + length (drop (length b - n_b') b) = length b" by (metis length_append)
  with *(1) have "length ?t = length b - n_b'" by simp
  with *(2) show ?thesis by simp
qed

lemma stable_sorted_merge:
  "stable_sorted as as' \<Longrightarrow> stable_sorted bs bs' \<Longrightarrow> stable_sorted (as @ bs) (merge as' bs')"
  by (auto simp: stable_sorted_def srt_merge cls_merge)

lemma msort_with_tmp_stable: "stable_sorted b (fcitx_msort_r_with_tmp cmp b)"
proof (induction "length b" arbitrary: b rule: less_induct)
  case less
  show ?case
  proof (cases "length b < 10")
    case True
    then show ?thesis by (subst fcitx_msort_r_with_tmp.simps) (simp add: insertion_sort_stable)
  next
    case False
    let ?n = "length b div 2"
    let ?l = "fcitx_msort_r_with_tmp cmp (take ?n b)" and ?r = "fcitx_msort_r_with_tmp cmp (drop ?n b)"
    have l: "stable_sorted (take ?n b) ?l" and r: "stable_sorted (drop ?n b) ?r"
      using less False by simp_all
    then have len: "length ?l = ?n" "length ?r = length b - ?n"
      unfolding stable_sorted_def by (metis length_take min_absorb2 size_mset div_le_dividend, metis length_drop size_mset)
    obtain tmp ia n_a' n_b' where m: "msort_merge cmp (?l @ ?r) 0 ?n ?n (length b - ?n) [] = (tmp, ia, n_a', n_b')"
      by (metis prod_cases4)
    from msort_step [of "?l @ ?r" ?n tmp ia n_a' n_b'] m len
    have "fcitx_msort_r_with_tmp cmp b = merge ?l ?r"
      using False by (subst fcitx_msort_r_with_tmp.simps) (simp add: Let_def)
    with stable_sorted_merge [OF l r] show ?thesis by simp
  qed
qed

section \<open>The quick sort\<close>

lemma partition_correct:
  assumes "qsort_partition cmp p [i..<m] np b = (k, b')" and "np \<le> i" "i \<le> m" "m < length b"
    and "\<forall>j<np. cmp (b ! j) p \<le> 0" "\<forall>j. np \<le> j \<and> j < i \<longrightarrow> cmp p (b ! j) \<le> 0" "b ! m = p"
  shows "mset b' = mset b \<and> k \<le> m \<and> (\<forall>j<k. cmp (b' ! j) p \<le> 0)
    \<and> (\<forall>j. k \<le> j \<and> j < m \<longrightarrow> cmp p (b' ! j) \<le> 0) \<and> b' ! m = p"
  using assms
proof (induction "m - i" arbitrary: i np b)
  case 0
  then show ?case by simp
next
  case (Suc d)
  then have up: "[i..<m] = i # [Suc i..<m]" by (simp add: upt_conv_Cons)
  show ?case
  proof (cases "cmp (b ! i) p \<le> 0")
    case True
    have ms: "mset (swap_elt b i np) = mset b"
      using Suc.prems Suc.hyps(2) by (simp add: swap_elt_def mset_swap)
    have "mset b' = mset (swap_elt b i np) \<and> k \<le> m \<and> (\<forall>j<k. cmp (b' ! j) p \<le> 0)
      \<and> (\<forall>j. k \<le> j \<and> j < m \<longrightarrow> cmp p (b' ! j) \<le> 0) \<and> b' ! m = p"
      by (rule Suc.hyps(1) [of "Suc i" "Suc np"])
         (use Suc.prems Suc.hyps(2) True up in \<open>auto simp: swap_elt_def nth_list_update less_Suc_eq\<close>)
    with ms show ?thesis by simp
  next
    case False
    then have "cmp p (b ! i) \<le> 0" using cmp_total by fastforce
    with Suc False up show ?thesis by (intro Suc.hyps(1) [of "Suc i" np]) (auto simp: less_Suc_eq)
  qed
qed

lemma pivot_bound: "10 \<le> length b \<Longrightarrow> qsort_pivot cmp b < length b"
  by (auto simp: qsort_pivot_def Let_def)

lemma split_correct:
  assumes "qsort_split cmp base = (k, b)" and "10 \<le> length base"
  shows "mset b = mset base \<and> k < length b
    \<and> (\<forall>x\<in>set (take k b). cmp x (b ! k) \<le> 0) \<and> (\<forall>x\<in>set (drop (Suc k) b). cmp (b ! k) x \<le> 0)"
proof -
  let ?m = "length base - 1"
  define b0 where "b0 = swap_elt base (qsort_pivot cmp base) ?m"
  define b1 where "b1 = snd (qsort_partition cmp (b0 ! ?m) [0..<?m] 0 b0)"
  have p: "qsort_partition cmp (b0 ! ?m) [0..<?m] 0 b0 = (k, b1)" and b: "b = swap_elt b1 k ?m"
    using assms(1) by (auto simp: qsort_split_def Let_def b0_def b1_def simp del: upt_Suc split: prod.splits)
  have m0: "mset b0 = mset base"
    using assms(2) pivot_bound [OF assms(2)] by (auto simp: b0_def swap_elt_def mset_swap)
  then have len0: "length b0 = length base" by (metis size_mset)
  from partition_correct [OF p] assms(2) len0
  have c: "mset b1 = mset b0" "k \<le> ?m" "\<forall>j<k. cmp (b1 ! j) (b0 ! ?m) \<le> 0"
    "\<forall>j. k \<le> j \<and> j < ?m \<longrightarrow> cmp (b0 ! ?m) (b1 ! j) \<le> 0" "b1 ! ?m = b0 ! ?m" by auto
  then have len1: "length b1 = length base" using len0 by (metis size_mset)
  have "mset b = mset base" using b c(1,2) m0 len1 assms(2) by (simp add: swap_elt_def mset_swap)
  moreover have bk: "b ! k = b0 ! ?m" using b c(2,5) len1 assms(2) by (auto simp: swap_elt_def nth_list_update)
  moreover have "\<forall>x\<in>set (take k b). cmp x (b ! k) \<le> 0"
    using c(2,3) b bk len1 by (auto simp: swap_elt_def in_set_conv_nth nth_list_update)
  moreover have "\<forall>x\<in>set (drop (Suc k) b). cmp (b ! k) x \<le> 0"
  proof
    fix x assume "x \<in> set (drop (Suc k) b)"
    then obtain j where j: "Suc k \<le> j" "j < length b" "x = b ! j"
      by (metis in_set_conv_nth le_add1 length_drop less_diff_conv nth_drop add.commute linorder_not_less drop_all empty_iff list.set(1) nat_le_linear)
    show "cmp (b ! k) x \<le> 0"
    proof (cases "j = ?m")
      case True
      have "x = b1 ! k" using True j b len1 by (simp add: swap_elt_def nth_list_update)
      moreover have "k < ?m" using True j by simp
      ultimately show ?thesis using c(4) bk by simp
    next
      case False
      then have "x = b1 ! j" using j b len1 by (simp add: swap_elt_def nth_list_update)
      moreover have "j < ?m" using False j b len1 by (simp add: swap_elt_def)
      ultimately show ?thesis using c(4) bk j by simp
    qed
  qed
  moreover have "k < length b" using b c(2) len1 assms(2) by simp
  ultimately show ?thesis by blast
qed

lemma qsort_sorts: "mset (fcitx_qsort_r cmp base) = mset base \<and> srt (fcitx_qsort_r cmp base)"
proof (induction "length base" arbitrary: base rule: less_induct)
  case less
  show ?case
  proof (cases "length base < 10")
    case True
    with insertion_sort_stable [of base] show ?thesis
      by (subst (1 2) fcitx_qsort_r.simps) (simp add: stable_sorted_def)
  next
    case False
    obtain k b where s: "qsort_split cmp base = (k, b)" by (cases "qsort_split cmp base")
    with split_correct [OF s] False have c: "mset b = mset base" "k < length b"
      "\<forall>x\<in>set (take k b). cmp x (b ! k) \<le> 0" "\<forall>x\<in>set (drop (Suc k) b). cmp (b ! k) x \<le> 0" by auto
    then have len: "length b = length base" by (metis size_mset)
    let ?l = "fcitx_qsort_r cmp (take k b)" and ?r = "fcitx_qsort_r cmp (drop (Suc k) b)"
    have IH: "mset ?l = mset (take k b)" "srt ?l" "mset ?r = mset (drop (Suc k) b)" "srt ?r"
      using less c(2) len by auto
    then have sets: "set ?l = set (take k b)" "set ?r = set (drop (Suc k) b)" by (metis set_mset_mset)+
    have eq: "fcitx_qsort_r cmp base = ?l @ b ! k # ?r"
      using False s by (subst fcitx_qsort_r.simps) simp
    have "mset b = mset (take k b) + add_mset (b ! k) (mset (drop (Suc k) b))"
      using id_take_nth_drop [OF c(2)] by (metis mset.simps(2) mset_append)
    then have "mset (fcitx_qsort_r cmp base) = mset base" unfolding eq using IH c(1) by simp
    moreover have "srt (fcitx_qsort_r cmp base)"
      unfolding eq using IH c(3,4) sets by (auto simp: sorted_wrt_append intro: cmp_trans)
    ultimately show ?thesis ..
  qed
qed

end

text \<open>\<open>strcmp\<close> is a comparator; it sorts the string lists of the program.\<close>

interpretation strcmp_cmp: comparator strcmp
proof
  fix a b c :: buf
  show "sgn (strcmp b a) = - sgn (strcmp a b)" by (simp add: strcmp_swap [of b a])
  show "strcmp a b \<le> 0 \<Longrightarrow> strcmp b c \<le> 0 \<Longrightarrow> strcmp a c \<le> 0" by (rule strcmp_trans)
qed

text \<open>
  C2: The merge sort is a stable sort. For every comparator, \<open>fcitx_msort_r\<close> returns a
  permutation of the array in ascending order in which elements that compare equal keep
  their order; without memory for the temporary block it falls back to the quick sort, whose
  result is an ascending permutation too. Being stable, the merge sort computes exactly what
  the insertion sort computes.
\<close>

theorem msort_correct:
  assumes "comparator cmp"
  shows "mset (fcitx_msort_r mem cmp b) = mset b
    \<and> sorted_wrt (\<lambda>x y. cmp x y \<le> 0) (fcitx_msort_r mem cmp b)
    \<and> (mem \<longrightarrow> fcitx_msort_r mem cmp b = insertion_sort cmp b
         \<and> (\<forall>z. filter (\<lambda>y. cmp z y = 0) (fcitx_msort_r mem cmp b) = filter (\<lambda>y. cmp z y = 0) b))"
proof -
  note ins = comparator.insertion_sort_stable [OF assms, of b]
  note ms = comparator.msort_with_tmp_stable [OF assms, of b]
  note qs = comparator.qsort_sorts [OF assms, of b]
  have "fcitx_msort_r_with_tmp cmp b = insertion_sort cmp b"
    by (rule comparator.stable_sorted_unique [OF assms ms ins])
  with ins qs show ?thesis
    by (auto simp: fcitx_msort_r_def comparator.stable_sorted_def [OF assms])
qed

lemma msort_correct_witness:
  "mset (fcitx_msort_r True strcmp [ascii ''b'', ascii ''a'']) = mset [ascii ''b'', ascii ''a'']
    \<and> sorted_wrt (\<lambda>x y. strcmp x y \<le> 0) (fcitx_msort_r True strcmp [ascii ''b'', ascii ''a''])
    \<and> fcitx_msort_r True strcmp [ascii ''b'', ascii ''a''] = insertion_sort strcmp [ascii ''b'', ascii ''a'']"
  using msort_correct [OF strcmp_cmp.comparator_axioms, of True "[ascii ''b'', ascii ''a'']"] by blast

section \<open>Searching\<close>

lemma bsearch_loop:
  assumes mono: "\<forall>i j. i \<le> j \<and> j < length base \<and> compar key (base ! i) \<le> 0 \<longrightarrow> compar key (base ! j) \<le> 0"
    and "l \<le> u" "u \<le> length base" "\<forall>j<l. 0 < compar key (base ! j)"
    and "\<forall>j. u \<le> j \<and> j < length base \<longrightarrow> compar key (base ! j) \<le> 0"
  shows "\<exists>k\<le>length base. custom_bsearch_loop compar key base l u = (k, k)
    \<and> (\<forall>j<k. 0 < compar key (base ! j)) \<and> (\<forall>j. k \<le> j \<and> j < length base \<longrightarrow> compar key (base ! j) \<le> 0)"
  using assms
proof (induction "u - l" arbitrary: l u rule: less_induct)
  case less
  show ?case
  proof (cases "l < u")
    case False
    with less.prems show ?thesis by (subst custom_bsearch_loop.simps) (auto intro: exI [of _ u])
  next
    case True
    let ?i = "(l + u) div 2"
    have i: "l \<le> ?i" "?i < u" using True by auto
    show ?thesis
    proof (cases "compar key (base ! ?i) \<le> 0")
      case c: True
      with less.prems(3) i mono have "\<forall>j. ?i \<le> j \<and> j < length base \<longrightarrow> compar key (base ! j) \<le> 0" by blast
      with less i True c show ?thesis by (subst custom_bsearch_loop.simps) (simp add: Let_def)
    next
      case c: False
      have "\<forall>j<?i + 1. 0 < compar key (base ! j)"
      proof (intro allI impI)
        fix j assume "j < ?i + 1"
        then have "j \<le> ?i" "?i < length base" using i less.prems(3) by auto
        with mono c show "0 < compar key (base ! j)" by (meson linorder_not_less)
      qed
      with less i True c show ?thesis by (subst custom_bsearch_loop.simps) (simp add: Let_def)
    qed
  qed
qed

text \<open>
  The inexact binary search finds the first element that is not smaller than the key. On
  an array on which the comparison with the key is monotone, \<open>fcitx_utils_custom_bsearch\<close>
  returns the least index whose element compares greater or equal, and nothing when every
  element is smaller.
\<close>

theorem bsearch_least:
  assumes "\<forall>i j. i \<le> j \<and> j < length base \<and> compar key (base ! i) \<le> 0 \<longrightarrow> compar key (base ! j) \<le> 0"
  shows "case fcitx_utils_custom_bsearch compar key base of
      None \<Rightarrow> \<forall>x\<in>set base. 0 < compar key x
    | Some i \<Rightarrow> i < length base \<and> compar key (base ! i) \<le> 0 \<and> (\<forall>j<i. 0 < compar key (base ! j))"
proof -
  obtain k where k: "k \<le> length base" "custom_bsearch_loop compar key base 0 (length base) = (k, k)"
    "\<forall>j<k. 0 < compar key (base ! j)" "\<forall>j. k \<le> j \<and> j < length base \<longrightarrow> compar key (base ! j) \<le> 0"
    using bsearch_loop [of base compar key 0 "length base", OF assms] by auto
  then show ?thesis by (auto simp: fcitx_utils_custom_bsearch_def in_set_conv_nth)
qed

lemma bsearch_least_witness: "fcitx_utils_custom_bsearch (-) (3 :: int) [1, 3, 3, 7] = Some 1"
proof -
  let ?r = "fcitx_utils_custom_bsearch (-) (3 :: int) [1, 3, 3, 7]"
  have "case ?r of None \<Rightarrow> \<forall>x\<in>set [1, 3, 3, 7]. 0 < (3 :: int) - x
      | Some i \<Rightarrow> i < length [1, 3, 3, 7 :: int] \<and> (3 :: int) - [1, 3, 3, 7] ! i \<le> 0 \<and> (\<forall>j<i. 0 < (3 :: int) - [1, 3, 3, 7] ! j)"
    by (rule bsearch_least) (auto simp: less_Suc_eq nth_Cons split: nat.splits)
  then show ?thesis by (cases ?r) (auto simp: less_Suc_eq numeral_eq_Suc)
qed

end
