(* ===== verification/ObjPool.thy ===== *)
theory ObjPool
  imports Prelude
begin

text \<open>
  The object pool of \<open>src/lib/fcitx-utils/objpool.c\<close>: slots with a header integer and
  room for one object. The header of a free slot is the id of the next free one, with
  \<open>-1\<close> at the end of the list; the header of a slot in use is \<open>-2\<close>. Slot sizes are not
  modelled, a slot is an index; the content of a slot nobody has written is \<open>None\<close>.
  Accesses outside the array are \<open>None\<close>.

  The contract that the handler table needs is the locale \<open>id_pool\<close>.
\<close>

section \<open>The pool\<close>

record 'a obj_pool =
  pool_head :: "int list"
  pool_obj :: "'a option list"
  next_free :: int

definition FCITX_OBJECT_POOL_INVALID_ID :: int where
  "FCITX_OBJECT_POOL_INVALID_ID = - 1"

definition FCITX_OBJECT_POOL_ALLOCED_ID :: int where
  "FCITX_OBJECT_POOL_ALLOCED_ID = - 2"

definition FCITX_OBJ_POOL_INIT_SIZE :: nat where
  "FCITX_OBJ_POOL_INIT_SIZE = 4"

text \<open>With \<open>prealloc = 0\<close> the loop bound wraps around and the loop runs off the array.\<close>

definition fcitx_obj_pool_init_with_prealloc :: "nat \<Rightarrow> 'a obj_pool option" where
  "fcitx_obj_pool_init_with_prealloc prealloc =
     (if prealloc = 0 then None
      else Some \<lparr> pool_head = map (\<lambda>i. int i + 1) [0..<prealloc - 1] @ [FCITX_OBJECT_POOL_INVALID_ID],
                  pool_obj = replicate prealloc None, next_free = 0 \<rparr>)"

definition fcitx_obj_pool_new_with_prealloc :: "nat \<Rightarrow> 'a obj_pool option" where
  "fcitx_obj_pool_new_with_prealloc prealloc = fcitx_obj_pool_init_with_prealloc prealloc"

definition fcitx_obj_pool_new :: "'a obj_pool option" where
  "fcitx_obj_pool_new = fcitx_obj_pool_new_with_prealloc FCITX_OBJ_POOL_INIT_SIZE"

text \<open>
  When the free list is empty the array is doubled from \<open>n\<close> to \<open>2 * n\<close> slots. The new slot
  \<open>n\<close> is handed out, the free list goes from \<open>n + 1\<close> to \<open>2 * n - 1\<close>; for \<open>n = 1\<close> that
  end lies outside the new array, and the code writes there.
\<close>

definition fcitx_obj_pool_alloc_id :: "'a obj_pool \<Rightarrow> (int \<times> 'a obj_pool) option" where
  "fcitx_obj_pool_alloc_id pool =
     (if next_free pool \<ge> 0 then
        let id = next_free pool in
        if nat id < length (pool_head pool) then
          Some (id, pool \<lparr> next_free := pool_head pool ! nat id,
                           pool_head := (pool_head pool)[nat id := FCITX_OBJECT_POOL_ALLOCED_ID] \<rparr>)
        else None
      else
        let n = length (pool_head pool) in
        if n < 2 then None
        else Some (int n, pool \<lparr> next_free := int n + 1,
               pool_head := pool_head pool @ FCITX_OBJECT_POOL_ALLOCED_ID
                 # map (\<lambda>i. int i + 1) [n + 1..<2 * n - 1] @ [FCITX_OBJECT_POOL_INVALID_ID],
               pool_obj := pool_obj pool @ replicate n None \<rparr>))"

text \<open>
  The offset of the slot is compared with the size of the array as an unsigned number, so a
  negative id lies outside (for arrays below 4 GiB).
\<close>

definition fcitx_obj_pool_free_id :: "'a obj_pool \<Rightarrow> int \<Rightarrow> bool \<times> 'a obj_pool" where
  "fcitx_obj_pool_free_id pool i =
     (if i < 0 \<or> nat i \<ge> length (pool_head pool) then (False, pool)
      else if pool_head pool ! nat i \<noteq> FCITX_OBJECT_POOL_ALLOCED_ID then (False, pool)
      else (True, pool \<lparr> pool_head := (pool_head pool)[nat i := next_free pool], next_free := i \<rparr>))"

text \<open>Reading and writing the object behind the pointer that \<open>fcitx_obj_pool_get\<close> returns.\<close>

definition fcitx_obj_pool_get :: "'a obj_pool \<Rightarrow> int \<Rightarrow> 'a option" where
  "fcitx_obj_pool_get pool i =
     (if i < 0 \<or> nat i \<ge> length (pool_obj pool) then None else pool_obj pool ! nat i)"

definition obj_pool_put :: "'a obj_pool \<Rightarrow> int \<Rightarrow> 'a \<Rightarrow> 'a obj_pool option" where
  "obj_pool_put pool i x =
     (if i < 0 \<or> nat i \<ge> length (pool_obj pool) then None
      else Some (pool \<lparr> pool_obj := (pool_obj pool)[nat i := Some x] \<rparr>))"

section \<open>The contract of a pool of ids\<close>

locale id_pool =
  fixes wf :: "'p \<Rightarrow> bool"
    and live :: "'p \<Rightarrow> nat set"
    and alloc :: "'p \<Rightarrow> (int \<times> 'p) option"
    and free :: "'p \<Rightarrow> int \<Rightarrow> bool \<times> 'p"
    and get :: "'p \<Rightarrow> int \<Rightarrow> 'a option"
    and put :: "'p \<Rightarrow> int \<Rightarrow> 'a \<Rightarrow> 'p option"
  assumes alloc_law: "wf p \<Longrightarrow> \<exists>i p'. alloc p = Some (int i, p') \<and> i \<notin> live p \<and> wf p'
        \<and> live p' = insert i (live p) \<and> (\<forall>j\<in>live p. get p' (int j) = get p (int j))"
    and free_law: "wf p \<Longrightarrow> i \<in> live p \<Longrightarrow> \<exists>p'. free p (int i) = (True, p') \<and> wf p'
        \<and> live p' = live p - {i} \<and> (\<forall>j\<in>live p'. get p' (int j) = get p (int j))"
    and free_dead: "wf p \<Longrightarrow> k \<notin> int ` live p \<Longrightarrow> free p k = (False, p)"
    and put_law: "wf p \<Longrightarrow> i \<in> live p \<Longrightarrow> \<exists>p'. put p (int i) x = Some p' \<and> wf p' \<and> live p' = live p
        \<and> (\<forall>j\<in>live p. get p' (int j) = (if j = i then Some x else get p (int j)))"
begin

text \<open>Allocating and filling a slot.\<close>

lemma alloc_put:
  assumes "wf p"
  shows "\<exists>i p' p''. alloc p = Some (int i, p') \<and> put p' (int i) x = Some p'' \<and> i \<notin> live p \<and> wf p''
    \<and> live p'' = insert i (live p)
    \<and> (\<forall>j\<in>live p''. get p'' (int j) = (if j = i then Some x else get p (int j)))"
proof -
  obtain i p' where a: "alloc p = Some (int i, p')" "i \<notin> live p" "wf p'" "live p' = insert i (live p)"
    "\<forall>j\<in>live p. get p' (int j) = get p (int j)" using alloc_law [OF assms] by blast
  moreover obtain p'' where "put p' (int i) x = Some p''" "wf p''" "live p'' = live p'"
    "\<forall>j\<in>live p'. get p'' (int j) = (if j = i then Some x else get p' (int j))"
    using put_law [OF a(3), of i x] a(4) by auto
  ultimately show ?thesis by (intro exI [of _ i] exI [of _ p'] exI [of _ p'']) auto
qed

text \<open>A freed id cannot be freed again, and a live id is never handed out.\<close>

lemma free_twice:
  "wf p \<Longrightarrow> i \<in> live p \<Longrightarrow> free p (int i) = (True, p') \<Longrightarrow> free p' (int i) = (False, p')"
  using free_law [of p i] by (auto intro!: free_dead)

end

section \<open>The free list\<close>

text \<open>\<open>chain h a is\<close>: following the headers \<open>h\<close> from \<open>a\<close> visits \<open>is\<close> and ends with \<open>-1\<close>.\<close>

fun chain :: "int list \<Rightarrow> int \<Rightarrow> nat list \<Rightarrow> bool" where
  "chain h a [] \<longleftrightarrow> a = - 1"
| "chain h a (i # is) \<longleftrightarrow> a = int i \<and> i < length h \<and> chain h (h ! i) is"

definition pool_live :: "'a obj_pool \<Rightarrow> nat set" where
  "pool_live p = {i. i < length (pool_head p) \<and> pool_head p ! i = - 2}"

definition pool_wf :: "'a obj_pool \<Rightarrow> bool" where
  "pool_wf p \<longleftrightarrow> 2 \<le> length (pool_head p) \<and> length (pool_obj p) = length (pool_head p)
     \<and> (\<exists>fl. chain (pool_head p) (next_free p) fl \<and> distinct fl
           \<and> set fl = {..<length (pool_head p)} - pool_live p)"

lemma chain_update: "i \<notin> set is \<Longrightarrow> chain h a is \<Longrightarrow> chain (h[i := x]) a is"
  by (induction h a "is" rule: chain.induct) auto

lemma chain_interval:
  "m < n \<Longrightarrow> n \<le> length h \<Longrightarrow> \<forall>i. m \<le> i \<and> i < n - 1 \<longrightarrow> h ! i = int i + 1 \<Longrightarrow> h ! (n - 1) = - 1
   \<Longrightarrow> chain h (int m) [m..<n]"
proof (induction "n - m" arbitrary: m)
  case (Suc d)
  show ?case
  proof (cases "Suc m = n")
    case True
    then show ?thesis using Suc.prems by auto
  next
    case False
    with Suc.prems have "Suc m < n" by simp
    moreover have "h ! m = int (Suc m)" using Suc.prems(3) False \<open>Suc m < n\<close> by simp
    ultimately show ?thesis
      using Suc.hyps(1) [of "Suc m"] Suc.hyps(2) Suc.prems by (simp add: upt_conv_Cons)
  qed
qed simp

lemma chain_start: "chain h a is \<Longrightarrow> a < 0 \<longleftrightarrow> is = []"
  by (cases "is") auto

lemma pool_init_wf:
  assumes "2 \<le> prealloc"
  shows "\<exists>p. fcitx_obj_pool_init_with_prealloc prealloc = Some p \<and> pool_wf p \<and> pool_live p = {}"
proof -
  let ?h = "map (\<lambda>i. int i + 1) [0..<prealloc - 1] @ [- 1 :: int]"
  let ?p = "\<lparr> pool_head = ?h, pool_obj = replicate prealloc None, next_free = 0 \<rparr> :: 'a obj_pool"
  have nth: "?h ! i = (if i < prealloc - 1 then int i + 1 else - 1)" if "i < prealloc" for i
    using that by (simp add: nth_append del: upt_Suc)
  have live: "pool_live ?p = {}" using assms nth by (auto simp: pool_live_def)
  have "chain ?h 0 [0..<prealloc]"
    using chain_interval [of 0 prealloc ?h] assms nth by simp
  with live assms have "pool_wf ?p"
    by (auto simp: pool_wf_def intro!: exI [of _ "[0..<prealloc]"] simp del: chain.simps)
  with live assms show ?thesis
    by (auto simp: fcitx_obj_pool_init_with_prealloc_def FCITX_OBJECT_POOL_INVALID_ID_def)
qed

lemma chain_append: "chain h a is \<Longrightarrow> chain (h @ t) a is"
  by (induction h a "is" rule: chain.induct) (auto simp: nth_append)

lemma pool_alloc_law:
  assumes "pool_wf p"
  shows "\<exists>i p'. fcitx_obj_pool_alloc_id p = Some (int i, p') \<and> i \<notin> pool_live p \<and> pool_wf p'
    \<and> pool_live p' = insert i (pool_live p)
    \<and> (\<forall>j\<in>pool_live p. fcitx_obj_pool_get p' (int j) = fcitx_obj_pool_get p (int j))"
proof -
  let ?h = "pool_head p" and ?n = "length (pool_head p)"
  from assms obtain fl where wf: "2 \<le> ?n" "length (pool_obj p) = ?n" "chain ?h (next_free p) fl"
    "distinct fl" "set fl = {..<?n} - pool_live p" by (auto simp: pool_wf_def)
  show ?thesis
  proof (cases fl)
    case (Cons i fl')
    define p' where "p' = p \<lparr> next_free := ?h ! i, pool_head := ?h[i := - 2] \<rparr>"
    from wf(3,4) Cons have i: "next_free p = int i" "i < ?n" "i \<notin> set fl'" "distinct fl'"
      "chain ?h (?h ! i) fl'" by auto
    have a: "fcitx_obj_pool_alloc_id p = Some (int i, p')"
      using i by (simp add: fcitx_obj_pool_alloc_id_def p'_def FCITX_OBJECT_POOL_ALLOCED_ID_def)
    have live: "pool_live p' = insert i (pool_live p)"
      using i by (auto simp: pool_live_def p'_def nth_list_update)
    have "chain (?h[i := - 2]) (?h ! i) fl'" by (rule chain_update [OF i(3,5)])
    moreover have "set fl' = {..<?n} - insert i (pool_live p)" using wf(5) Cons i(3) by auto
    ultimately have "pool_wf p'"
      unfolding pool_wf_def live using wf(1,2) i(4) by (auto simp: p'_def)
    moreover have "i \<notin> pool_live p" using wf(5) Cons by auto
    ultimately show ?thesis using a live
      by (intro exI [of _ i] exI [of _ p']) (auto simp: p'_def fcitx_obj_pool_get_def)
  next
    case Nil
    with wf(3) have nf: "next_free p = - 1" by simp
    let ?new = "- 2 # map (\<lambda>i. int i + 1) [?n + 1..<2 * ?n - 1] @ [- 1 :: int]"
    define p' where "p' = p \<lparr> next_free := int ?n + 1, pool_head := ?h @ ?new,
      pool_obj := pool_obj p @ replicate ?n None \<rparr>"
    have a: "fcitx_obj_pool_alloc_id p = Some (int ?n, p')"
      using nf wf(1) by (simp add: fcitx_obj_pool_alloc_id_def p'_def FCITX_OBJECT_POOL_ALLOCED_ID_def
          FCITX_OBJECT_POOL_INVALID_ID_def Let_def)
    have len: "length (?h @ ?new) = 2 * ?n" using wf(1) by (simp del: upt_Suc)
    have nth: "(?h @ ?new) ! j = (if j < ?n then ?h ! j else if j = ?n then - 2
        else if j < 2 * ?n - 1 then int j + 1 else - 1)" if j: "j < 2 * ?n" for j
    proof -
      consider "j < ?n" | "j = ?n" | k where "j = ?n + Suc k" using j by (metis less_iff_Suc_add linorder_neqE_nat add_Suc_right)
      then show ?thesis
      proof cases
        case (3 k)
        then have "(?h @ ?new) ! j = (map (\<lambda>i. int i + 1) [?n + 1..<2 * ?n - 1] @ [- 1]) ! k"
          by (simp only: nth_append_length_plus nth_Cons_Suc)
        also have "\<dots> = (if j < 2 * ?n - 1 then int j + 1 else - 1)"
          using 3 j by (auto simp: nth_append simp del: upt_Suc)
        finally show ?thesis using 3 by simp
      qed (simp_all add: nth_append)
    qed
    have all: "pool_live p = {..<?n}" using wf(5) Nil by (auto simp: pool_live_def)
    then have lv: "?h ! j = - 2" if "j < ?n" for j using that by (auto simp: pool_live_def)
    have live: "pool_live p' = insert ?n (pool_live p)"
    proof (intro set_eqI)
      fix j
      have "j \<in> pool_live p' \<longleftrightarrow> j < 2 * ?n \<and> (?h @ ?new) ! j = - 2"
        using len by (auto simp: pool_live_def p'_def simp del: append.simps)
      also have "\<dots> \<longleftrightarrow> j < 2 * ?n \<and> (if j < ?n then ?h ! j = - 2 else j = ?n)"
        using nth [of j] by (auto split: if_splits)
      also have "\<dots> \<longleftrightarrow> j \<in> insert ?n (pool_live p)" unfolding all using lv wf(1) by auto
      finally show "j \<in> pool_live p' \<longleftrightarrow> j \<in> insert ?n (pool_live p)" .
    qed
    have "chain (?h @ ?new) (int (?n + 1)) [?n + 1..<2 * ?n]"
    proof (rule chain_interval)
      show "?n + 1 < 2 * ?n" using wf(1) by simp
      show "2 * ?n \<le> length (?h @ ?new)" using len by simp
      show "\<forall>i. ?n + 1 \<le> i \<and> i < 2 * ?n - 1 \<longrightarrow> (?h @ ?new) ! i = int i + 1"
      proof (intro allI impI)
        fix i assume "?n + 1 \<le> i \<and> i < 2 * ?n - 1"
        then show "(?h @ ?new) ! i = int i + 1" by (subst nth) auto
      qed
      show "(?h @ ?new) ! (2 * ?n - 1) = - 1" using wf(1) by (subst nth) auto
    qed
    moreover have "int (?n + 1) = next_free p'" "pool_head p' = ?h @ ?new" by (simp_all add: p'_def)
    moreover have "set [?n + 1..<2 * ?n] = {..<2 * ?n} - pool_live p'" using all live by auto
    moreover have "length (pool_obj p') = 2 * ?n" using wf(2) by (simp add: p'_def)
    ultimately have "pool_wf p'"
      unfolding pool_wf_def using len wf(1) by (metis distinct_upt mult_le_mono2 mult_2 trans_le_add1)
    moreover have "?n \<notin> pool_live p" by (simp add: pool_live_def)
    moreover have "\<forall>j\<in>pool_live p. fcitx_obj_pool_get p' (int j) = fcitx_obj_pool_get p (int j)"
      using all wf(2) by (auto simp: fcitx_obj_pool_get_def p'_def nth_append)
    ultimately show ?thesis using a live by blast
  qed
qed

lemma pool_free_law:
  assumes "pool_wf p" and "i \<in> pool_live p"
  shows "\<exists>p'. fcitx_obj_pool_free_id p (int i) = (True, p') \<and> pool_wf p'
    \<and> pool_live p' = pool_live p - {i}
    \<and> (\<forall>j\<in>pool_live p'. fcitx_obj_pool_get p' (int j) = fcitx_obj_pool_get p (int j))"
proof -
  let ?h = "pool_head p" and ?n = "length (pool_head p)"
  from assms(1) obtain fl where wf: "2 \<le> ?n" "length (pool_obj p) = ?n" "chain ?h (next_free p) fl"
    "distinct fl" "set fl = {..<?n} - pool_live p" by (auto simp: pool_wf_def)
  from assms(2) have i: "i < ?n" "?h ! i = - 2" by (auto simp: pool_live_def)
  define p' where "p' = p \<lparr> pool_head := ?h[i := next_free p], next_free := int i \<rparr>"
  have f: "fcitx_obj_pool_free_id p (int i) = (True, p')"
    using i by (simp add: fcitx_obj_pool_free_id_def p'_def FCITX_OBJECT_POOL_ALLOCED_ID_def)
  have "next_free p \<noteq> - 2" using wf(3) by (cases fl) auto
  then have live: "pool_live p' = pool_live p - {i}"
    using i by (auto simp: pool_live_def p'_def nth_list_update)
  have notin: "i \<notin> set fl" using wf(5) assms(2) by auto
  have "chain (?h[i := next_free p]) (int i) (i # fl)"
    using chain_update [OF notin wf(3)] i(1) by simp
  moreover have "set (i # fl) = {..<?n} - pool_live p'" using wf(5) live i(1) by auto
  moreover have "distinct (i # fl)" using notin wf(4) by simp
  ultimately have "pool_wf p'"
    unfolding pool_wf_def using wf(1,2)
    by (auto simp: p'_def simp del: chain.simps list.set distinct.simps intro!: exI [of _ "i # fl"])
  with f live show ?thesis by (auto simp: p'_def fcitx_obj_pool_get_def)
qed

interpretation op: id_pool pool_wf pool_live fcitx_obj_pool_alloc_id fcitx_obj_pool_free_id
  fcitx_obj_pool_get obj_pool_put
proof
  fix p :: "'a obj_pool" and i k x
  assume wf: "pool_wf p"
  show "\<exists>i p'. fcitx_obj_pool_alloc_id p = Some (int i, p') \<and> i \<notin> pool_live p \<and> pool_wf p'
    \<and> pool_live p' = insert i (pool_live p)
    \<and> (\<forall>j\<in>pool_live p. fcitx_obj_pool_get p' (int j) = fcitx_obj_pool_get p (int j))"
    by (rule pool_alloc_law [OF wf])
  show "i \<in> pool_live p \<Longrightarrow> \<exists>p'. fcitx_obj_pool_free_id p (int i) = (True, p') \<and> pool_wf p'
    \<and> pool_live p' = pool_live p - {i}
    \<and> (\<forall>j\<in>pool_live p'. fcitx_obj_pool_get p' (int j) = fcitx_obj_pool_get p (int j))"
    by (rule pool_free_law [OF wf])
  show "fcitx_obj_pool_free_id p k = (False, p)" if "k \<notin> int ` pool_live p"
  proof (cases "0 \<le> k")
    case True
    then obtain i where "k = int i" using nonneg_int_cases by blast
    with that show ?thesis
      by (auto simp: fcitx_obj_pool_free_id_def pool_live_def FCITX_OBJECT_POOL_ALLOCED_ID_def)
  qed (simp add: fcitx_obj_pool_free_id_def)
  assume i: "i \<in> pool_live p"
  then have "i < length (pool_obj p)" using wf by (auto simp: pool_live_def pool_wf_def)
  then show "\<exists>p'. obj_pool_put p (int i) x = Some p' \<and> pool_wf p' \<and> pool_live p' = pool_live p
    \<and> (\<forall>j\<in>pool_live p. fcitx_obj_pool_get p' (int j) = (if j = i then Some x else fcitx_obj_pool_get p (int j)))"
    using wf by (auto simp: obj_pool_put_def pool_live_def pool_wf_def fcitx_obj_pool_get_def)
qed

end
