(* ===== verification/HandlerTable.thy ===== *)
theory HandlerTable
  imports ObjPool Uthash
begin

text \<open>
  The handler table of \<open>src/lib/fcitx-utils/handler-table.c\<close>: for each key a doubly linked
  list of objects that live in one object pool. A key structure is found by its key, which is
  unique in the table, so the pointer an object keeps to its key structure is the key; a
  dangling pointer is a key that is no longer in the table. Following a dangling or a null
  pointer is \<open>None\<close>. The calls of \<open>free_func\<close> and of the key callbacks are appended to
  \<open>ht_log\<close>; the data part of a key belongs to those callbacks and is not modelled.

  A callback that changes the table while it is called is not modelled.
\<close>

section \<open>The table\<close>

record 'o handler_obj =
  ho_prev :: int
  ho_next :: int
  ho_key :: buf
  ho_data :: 'o

record handler_key =
  hk_first :: int
  hk_last :: int

datatype 'o handler_event = FreeObj 'o | InitKey buf | FreeKey buf

record 'o handler_table =
  ht_keys :: "(buf, handler_key) uthash"
  ht_objs :: "'o handler_obj obj_pool"
  ht_log :: "'o handler_event list"

abbreviation INVALID_ID :: int where
  "INVALID_ID \<equiv> FCITX_OBJECT_POOL_INVALID_ID"

definition fcitx_handler_table_new_with_keydata :: "'o handler_table option" where
  "fcitx_handler_table_new_with_keydata =
     map_option (\<lambda>objs. \<lparr> ht_keys = [], ht_objs = objs, ht_log = [] \<rparr>) fcitx_obj_pool_new"

definition ht_add_log :: "'o handler_event \<Rightarrow> 'o handler_table \<Rightarrow> 'o handler_table" where
  "ht_add_log e t = t \<lparr> ht_log := ht_log t @ [e] \<rparr>"

text \<open>Reading a key structure or an object through a pointer, and assigning to its fields.\<close>

definition ht_key :: "'o handler_table \<Rightarrow> buf \<Rightarrow> handler_key option" where
  "ht_key t key = hash_find (ht_keys t) key"

definition set_key :: "'o handler_table \<Rightarrow> buf \<Rightarrow> (handler_key \<Rightarrow> handler_key) \<Rightarrow> 'o handler_table option" where
  "set_key t key f = do { k \<leftarrow> ht_key t key; Some (t \<lparr> ht_keys := hash_upd (ht_keys t) key (f k) \<rparr>) }"

definition fcitx_handler_table_get_obj :: "'o handler_table \<Rightarrow> int \<Rightarrow> 'o handler_obj option" where
  "fcitx_handler_table_get_obj t i = fcitx_obj_pool_get (ht_objs t) i"

definition set_obj ::
  "'o handler_table \<Rightarrow> int \<Rightarrow> ('o handler_obj \<Rightarrow> 'o handler_obj) \<Rightarrow> 'o handler_table option" where
  "set_obj t i f = do {
     ob \<leftarrow> fcitx_handler_table_get_obj t i;
     objs \<leftarrow> obj_pool_put (ht_objs t) i (f ob);
     Some (t \<lparr> ht_objs := objs \<rparr>) }"

section \<open>Finding and creating keys\<close>

definition fcitx_handler_table_find_key ::
  "'o handler_table \<Rightarrow> buf \<Rightarrow> bool \<Rightarrow> buf option \<times> 'o handler_table" where
  "fcitx_handler_table_find_key t key create =
     (if ht_key t key \<noteq> None \<or> \<not> create then (map_option (\<lambda>_. key) (ht_key t key), t)
      else (Some key,
            ht_add_log (InitKey key)
              (t \<lparr> ht_keys := hash_add (ht_keys t) key \<lparr> hk_first = INVALID_ID, hk_last = INVALID_ID \<rparr> \<rparr>)))"

section \<open>Adding objects\<close>

definition fcitx_handler_key_append :: "'o handler_table \<Rightarrow> buf \<Rightarrow> 'o \<Rightarrow> (int \<times> 'o handler_table) option" where
  "fcitx_handler_key_append t key obj = do {
     (new_id, objs) \<leftarrow> fcitx_obj_pool_alloc_id (ht_objs t);
     k \<leftarrow> ht_key t key;
     let i = hk_last k;
     objs' \<leftarrow> obj_pool_put objs new_id
       \<lparr> ho_prev = i, ho_next = INVALID_ID, ho_key = key, ho_data = obj \<rparr>;
     let t1 = t \<lparr> ht_objs := objs' \<rparr>;
     if i = INVALID_ID then do {
       t2 \<leftarrow> set_key t1 key (\<lambda>_. \<lparr> hk_first = new_id, hk_last = new_id \<rparr>);
       Some (new_id, t2) }
     else do {
       t2 \<leftarrow> set_key t1 key (\<lambda>k. k \<lparr> hk_last := new_id \<rparr>);
       t3 \<leftarrow> set_obj t2 i (\<lambda>ob. ob \<lparr> ho_next := new_id \<rparr>);
       Some (new_id, t3) } }"

definition fcitx_handler_table_append :: "'o handler_table \<Rightarrow> buf \<Rightarrow> 'o \<Rightarrow> (int \<times> 'o handler_table) option" where
  "fcitx_handler_table_append t key obj =
     (case fcitx_handler_table_find_key t key True of
        (None, t') \<Rightarrow> None
      | (Some k, t') \<Rightarrow> fcitx_handler_key_append t' k obj)"

definition fcitx_handler_key_prepend :: "'o handler_table \<Rightarrow> buf \<Rightarrow> 'o \<Rightarrow> (int \<times> 'o handler_table) option" where
  "fcitx_handler_key_prepend t key obj = do {
     (new_id, objs) \<leftarrow> fcitx_obj_pool_alloc_id (ht_objs t);
     k \<leftarrow> ht_key t key;
     let i = hk_first k;
     objs' \<leftarrow> obj_pool_put objs new_id
       \<lparr> ho_prev = INVALID_ID, ho_next = i, ho_key = key, ho_data = obj \<rparr>;
     let t1 = t \<lparr> ht_objs := objs' \<rparr>;
     if i = INVALID_ID then do {
       t2 \<leftarrow> set_key t1 key (\<lambda>_. \<lparr> hk_first = new_id, hk_last = new_id \<rparr>);
       Some (new_id, t2) }
     else do {
       t2 \<leftarrow> set_key t1 key (\<lambda>k. k \<lparr> hk_first := new_id \<rparr>);
       t3 \<leftarrow> set_obj t2 i (\<lambda>ob. ob \<lparr> ho_prev := new_id \<rparr>);
       Some (new_id, t3) } }"

definition fcitx_handler_table_prepend :: "'o handler_table \<Rightarrow> buf \<Rightarrow> 'o \<Rightarrow> (int \<times> 'o handler_table) option" where
  "fcitx_handler_table_prepend t key obj =
     (case fcitx_handler_table_find_key t key True of
        (None, t') \<Rightarrow> None
      | (Some k, t') \<Rightarrow> fcitx_handler_key_prepend t' k obj)"

section \<open>Looking up\<close>

text \<open>\<open>key\<close> is a pointer to a key structure that may be null; the result \<open>None\<close> is an
  access that has no value.\<close>

definition fcitx_handler_key_is_empty :: "'o handler_table \<Rightarrow> buf option \<Rightarrow> bool option" where
  "fcitx_handler_key_is_empty t key =
     (case key of None \<Rightarrow> None
      | Some k \<Rightarrow> map_option (\<lambda>hk. hk_last hk = INVALID_ID \<and> hk_first hk = INVALID_ID) (ht_key t k))"

text \<open>The inner option is the null pointer the code returns for an invalid id.\<close>

definition fcitx_handler_table_get_by_id :: "'o handler_table \<Rightarrow> int \<Rightarrow> 'o option option" where
  "fcitx_handler_table_get_by_id t i =
     (if i = INVALID_ID then Some None
      else map_option (\<lambda>ob. Some (ho_data ob)) (fcitx_handler_table_get_obj t i))"

definition fcitx_handler_table_get_key_by_id :: "'o handler_table \<Rightarrow> int \<Rightarrow> buf option option" where
  "fcitx_handler_table_get_key_by_id t i =
     (if i = INVALID_ID then Some None
      else map_option (\<lambda>ob. Some (ho_key ob)) (fcitx_handler_table_get_obj t i))"

definition fcitx_handler_key_first_id :: "'o handler_table \<Rightarrow> buf option \<Rightarrow> int option" where
  "fcitx_handler_key_first_id t key =
     (case key of None \<Rightarrow> Some INVALID_ID | Some k \<Rightarrow> map_option hk_first (ht_key t k))"

definition fcitx_handler_key_last_id :: "'o handler_table \<Rightarrow> buf option \<Rightarrow> int option" where
  "fcitx_handler_key_last_id t key =
     (case key of None \<Rightarrow> Some INVALID_ID | Some k \<Rightarrow> map_option hk_last (ht_key t k))"

definition fcitx_handler_key_first :: "'o handler_table \<Rightarrow> buf option \<Rightarrow> 'o option option" where
  "fcitx_handler_key_first t key = do {
     i \<leftarrow> fcitx_handler_key_first_id t key; fcitx_handler_table_get_by_id t i }"

definition fcitx_handler_key_last :: "'o handler_table \<Rightarrow> buf option \<Rightarrow> 'o option option" where
  "fcitx_handler_key_last t key = do {
     i \<leftarrow> fcitx_handler_key_last_id t key; fcitx_handler_table_get_by_id t i }"

definition fcitx_handler_table_first_id :: "'o handler_table \<Rightarrow> buf \<Rightarrow> int option" where
  "fcitx_handler_table_first_id t key =
     (case fst (fcitx_handler_table_find_key t key False) of
        None \<Rightarrow> Some INVALID_ID | Some k \<Rightarrow> map_option hk_first (ht_key t k))"

definition fcitx_handler_table_last_id :: "'o handler_table \<Rightarrow> buf \<Rightarrow> int option" where
  "fcitx_handler_table_last_id t key =
     (case fst (fcitx_handler_table_find_key t key False) of
        None \<Rightarrow> Some INVALID_ID | Some k \<Rightarrow> map_option hk_last (ht_key t k))"

text \<open>An object pointer is the id of its slot.\<close>

definition fcitx_handler_table_next_id :: "'o handler_table \<Rightarrow> int \<Rightarrow> int option" where
  "fcitx_handler_table_next_id t i = map_option ho_next (fcitx_handler_table_get_obj t i)"

definition fcitx_handler_table_prev_id :: "'o handler_table \<Rightarrow> int \<Rightarrow> int option" where
  "fcitx_handler_table_prev_id t i = map_option ho_prev (fcitx_handler_table_get_obj t i)"

definition fcitx_handler_table_first :: "'o handler_table \<Rightarrow> buf \<Rightarrow> 'o option option" where
  "fcitx_handler_table_first t key = do {
     i \<leftarrow> fcitx_handler_table_first_id t key; fcitx_handler_table_get_by_id t i }"

definition fcitx_handler_table_last :: "'o handler_table \<Rightarrow> buf \<Rightarrow> 'o option option" where
  "fcitx_handler_table_last t key = do {
     i \<leftarrow> fcitx_handler_table_last_id t key; fcitx_handler_table_get_by_id t i }"

definition fcitx_handler_table_next :: "'o handler_table \<Rightarrow> int \<Rightarrow> 'o option option" where
  "fcitx_handler_table_next t i = do {
     i' \<leftarrow> fcitx_handler_table_next_id t i; fcitx_handler_table_get_by_id t i' }"

definition fcitx_handler_table_prev :: "'o handler_table \<Rightarrow> int \<Rightarrow> 'o option option" where
  "fcitx_handler_table_prev t i = do {
     i' \<leftarrow> fcitx_handler_table_prev_id t i; fcitx_handler_table_get_by_id t i' }"

section \<open>Removing\<close>

definition free_obj :: "'o handler_table \<Rightarrow> int \<Rightarrow> 'o \<Rightarrow> 'o handler_table" where
  "free_obj t i d =
     (let t' = ht_add_log (FreeObj d) t
      in t' \<lparr> ht_objs := snd (fcitx_obj_pool_free_id (ht_objs t') i) \<rparr>)"

definition fcitx_handler_table_remove_by_id :: "'o handler_table \<Rightarrow> int \<Rightarrow> 'o handler_table option" where
  "fcitx_handler_table_remove_by_id t i =
     (if i = INVALID_ID then Some t
      else do {
        ob \<leftarrow> fcitx_handler_table_get_obj t i;
        let prev = ho_prev ob; let next = ho_next ob;
        t1 \<leftarrow> (if prev = INVALID_ID then set_key t (ho_key ob) (\<lambda>k. k \<lparr> hk_first := next \<rparr>)
               else set_obj t prev (\<lambda>o'. o' \<lparr> ho_next := next \<rparr>));
        t2 \<leftarrow> (if next = INVALID_ID then set_key t1 (ho_key ob) (\<lambda>k. k \<lparr> hk_last := prev \<rparr>)
               else set_obj t1 next (\<lambda>o'. o' \<lparr> ho_prev := prev \<rparr>));
        Some (free_obj t2 i (ho_data ob)) })"

partial_function (option) free_key_loop :: "'o handler_table \<Rightarrow> int \<Rightarrow> 'o handler_table option" where
  "free_key_loop t i =
     (if i = INVALID_ID then Some t
      else do {
        ob \<leftarrow> fcitx_handler_table_get_obj t i;
        free_key_loop (free_obj t i (ho_data ob)) (ho_next ob) })"

definition fcitx_handler_table_free_key :: "'o handler_table \<Rightarrow> buf \<Rightarrow> 'o handler_table option" where
  "fcitx_handler_table_free_key t key = do {
     k \<leftarrow> ht_key t key;
     t' \<leftarrow> free_key_loop t (hk_first k);
     Some (ht_add_log (FreeKey key) (t' \<lparr> ht_keys := hash_del (ht_keys t') key \<rparr>)) }"

definition fcitx_handler_table_remove_by_id_full :: "'o handler_table \<Rightarrow> int \<Rightarrow> 'o handler_table option" where
  "fcitx_handler_table_remove_by_id_full t i = do {
     key \<leftarrow> fcitx_handler_table_get_key_by_id t i;
     t' \<leftarrow> fcitx_handler_table_remove_by_id t i;
     empty \<leftarrow> fcitx_handler_key_is_empty t' key;
     if empty then (case key of None \<Rightarrow> None | Some k \<Rightarrow> fcitx_handler_table_free_key t' k)
     else Some t' }"

definition fcitx_handler_table_remove_key :: "'o handler_table \<Rightarrow> buf \<Rightarrow> 'o handler_table option" where
  "fcitx_handler_table_remove_key t key =
     (case fst (fcitx_handler_table_find_key t key False) of
        None \<Rightarrow> Some t
      | Some k \<Rightarrow> fcitx_handler_table_free_key t k)"

text \<open>\<open>fcitx_handler_table_free\<close> up to the release of the pool and of the table itself.\<close>

fun handler_table_free_loop :: "'o handler_table \<Rightarrow> buf list \<Rightarrow> 'o handler_table option" where
  "handler_table_free_loop t [] = Some t"
| "handler_table_free_loop t (k # ks) = do {
     t' \<leftarrow> fcitx_handler_table_free_key t k; handler_table_free_loop t' ks }"

definition fcitx_handler_table_free :: "'o handler_table \<Rightarrow> 'o handler_table option" where
  "fcitx_handler_table_free t = handler_table_free_loop t (hash_keys (ht_keys t))"

end
