(* ===== verification/HandlerTable_Laws.thy ===== *)
theory HandlerTable_Laws
  imports HandlerTable
begin

text \<open>
  The handler table implements a list of keys with their lists of handlers. \<open>represents t M\<close>
  ties the linked objects in the pool to the lists: forward and backward links, the ends in
  the key structures, and no object in two lists. Adding, removing and freeing are shown to
  be the corresponding list operations, and to follow no pointer that does not exist.
\<close>

section \<open>The lists a table represents\<close>

type_synonym 'o entries = "(nat \<times> 'o) list"

definition hkey :: "'o entries \<Rightarrow> handler_key" where
  "hkey xs = \<lparr> hk_first = (if xs = [] then - 1 else int (fst (hd xs))),
               hk_last = (if xs = [] then - 1 else int (fst (last xs))) \<rparr>"

definition keys_of :: "(buf \<times> 'o entries) list \<Rightarrow> (buf, handler_key) uthash" where
  "keys_of M = map (\<lambda>(k, xs). (k, hkey xs)) M"

lemma keys_of_simps [simp]:
  "keys_of [] = []" "keys_of ((k, xs) # M) = (k, hkey xs) # keys_of M" "keys_of (A @ B) = keys_of A @ keys_of B"
  "map fst (keys_of M) = map fst M" "fst ` set (keys_of M) = fst ` set M"
  by (simp_all add: keys_of_def comp_def case_prod_unfold image_image)

definition hnode :: "buf \<Rightarrow> 'o entries \<Rightarrow> nat \<Rightarrow> 'o handler_obj" where
  "hnode k xs j = \<lparr> ho_prev = (if j = 0 then - 1 else int (fst (xs ! (j - 1)))),
     ho_next = (if Suc j < length xs then int (fst (xs ! Suc j)) else - 1),
     ho_key = k, ho_data = snd (xs ! j) \<rparr>"

definition nodes_ok :: "(int \<Rightarrow> 'o handler_obj option) \<Rightarrow> buf \<Rightarrow> 'o entries \<Rightarrow> bool" where
  "nodes_ok g k xs \<longleftrightarrow> (\<forall>j<length xs. g (int (fst (xs ! j))) = Some (hnode k xs j))"

definition entry_ids :: "(buf \<times> 'o entries) list \<Rightarrow> nat list" where
  "entry_ids M = map fst (concat (map snd M))"

lemma entry_ids_simps [simp]:
  "entry_ids [] = []" "entry_ids ((k, xs) # M) = map fst xs @ entry_ids M"
  "entry_ids (A @ B) = entry_ids A @ entry_ids B"
  by (simp_all add: entry_ids_def)

lemma entry_ids_mem: "(k, ys) \<in> set M \<Longrightarrow> fst ` set ys \<subseteq> set (entry_ids M)"
  by (force simp: entry_ids_def)

definition represents :: "'o handler_table \<Rightarrow> (buf \<times> 'o entries) list \<Rightarrow> bool" where
  "represents t M \<longleftrightarrow> pool_wf (ht_objs t) \<and> distinct (map fst M) \<and> distinct (entry_ids M)
     \<and> set (entry_ids M) = pool_live (ht_objs t) \<and> ht_keys t = keys_of M
     \<and> (\<forall>(k, xs)\<in>set M. nodes_ok (fcitx_obj_pool_get (ht_objs t)) k xs)"

lemma representsD:
  assumes "represents t M"
  shows "pool_wf (ht_objs t)" "distinct (map fst M)" "distinct (entry_ids M)"
    "set (entry_ids M) = pool_live (ht_objs t)" "ht_keys t = keys_of M"
    "(k, xs) \<in> set M \<Longrightarrow> nodes_ok (fcitx_obj_pool_get (ht_objs t)) k xs"
  using assms by (auto simp: represents_def)

lemma nodes_ok_frame:
  "nodes_ok g k xs \<Longrightarrow> \<forall>i\<in>fst ` set xs. g' (int i) = g (int i) \<Longrightarrow> nodes_ok g' k xs"
  by (auto simp: nodes_ok_def)

lemma hash_split:
  assumes "distinct (map fst (A @ (k, v) # B))"
  shows "hash_find (A @ (k, v) # B) k = Some v" "hash_upd (A @ (k, v) # B) k w = A @ (k, w) # B"
    "hash_del (A @ (k, v) # B) k = A @ B"
proof -
  have notin: "k \<notin> fst ` set A" "k \<notin> fst ` set B" using assms by auto
  show "hash_find (A @ (k, v) # B) k = Some v"
    using uh.lookup_items [OF assms] notin map_of_eq_None_iff [of A k] by (simp add: map_add_def)
  show "hash_upd (A @ (k, v) # B) k w = A @ (k, w) # B"
    using notin unfolding uh.items_upd [OF assms] by (auto intro!: map_idI simp: image_iff)
  show "hash_del (A @ (k, v) # B) k = A @ B"
  proof -
    have "filter (\<lambda>p. fst p \<noteq> k) A = A" "filter (\<lambda>p. fst p \<noteq> k) B = B"
      using notin by (auto intro!: filter_True simp: image_iff)
    then show ?thesis unfolding uh.items_del [OF assms] by simp
  qed
qed

lemma key_hash:
  assumes "distinct (map fst (A @ (k, xs) # B))"
  shows "hash_find (keys_of A @ (k, v) # keys_of B) k = Some v"
    "hash_upd (keys_of A @ (k, v) # keys_of B) k w = keys_of A @ (k, w) # keys_of B"
    "hash_del (keys_of A @ (k, v) # keys_of B) k = keys_of A @ keys_of B"
proof -
  have "distinct (map fst (keys_of A @ (k, v) # keys_of B))" using assms by simp
  then show "hash_find (keys_of A @ (k, v) # keys_of B) k = Some v"
    "hash_upd (keys_of A @ (k, v) # keys_of B) k w = keys_of A @ (k, w) # keys_of B"
    "hash_del (keys_of A @ (k, v) # keys_of B) k = keys_of A @ keys_of B"
    by (rule hash_split)+
qed

lemmas key_simps = ht_key_def set_key_def set_obj_def fcitx_handler_table_get_obj_def Let_def
  FCITX_OBJECT_POOL_INVALID_ID_def

lemma rep_other_ids:
  assumes "represents t (A @ (k, xs) # B)" and "(k', ys) \<in> set A \<union> set B"
  shows "fst ` set ys \<inter> fst ` set xs = {}" "fst ` set ys \<subseteq> pool_live (ht_objs t)"
proof -
  show "fst ` set ys \<subseteq> pool_live (ht_objs t)"
    using assms(2) entry_ids_mem unfolding representsD(4) [OF assms(1), symmetric] by fastforce
  have "fst ` set ys \<subseteq> set (entry_ids A) \<union> set (entry_ids B)" using assms(2) entry_ids_mem by fastforce
  then show "fst ` set ys \<inter> fst ` set xs = {}"
    using representsD(3) [OF assms(1)] by (simp, blast)
qed

text \<open>A change of one list and of the objects in it.\<close>

lemma represents_change:
  assumes rep: "represents t (A @ (k, xs) # B)"
    and wf: "pool_wf p"
    and ids: "distinct (map fst ys)" "fst ` set ys \<inter> (pool_live (ht_objs t) - fst ` set xs) = {}"
    and live: "pool_live p = pool_live (ht_objs t) - fst ` set xs \<union> fst ` set ys"
    and frame: "\<forall>j\<in>pool_live (ht_objs t) - fst ` set xs. fcitx_obj_pool_get p (int j) = fcitx_obj_pool_get (ht_objs t) (int j)"
    and nodes: "nodes_ok (fcitx_obj_pool_get p) k ys"
    and t': "ht_objs t' = p" "ht_keys t' = keys_of A @ (k, hkey ys)
           # keys_of B"
  shows "represents t' (A @ (k, ys) # B)"
proof -
  note r = representsD [OF rep]
  have other: "set (entry_ids A) \<union> set (entry_ids B) = pool_live (ht_objs t) - fst ` set xs"
    using r(3) unfolding r(4)[symmetric] by (simp, blast)
  have "distinct (entry_ids (A @ (k, ys) # B))"
    using r(3) ids other by (simp, blast)
  moreover have "set (entry_ids (A @ (k, ys) # B)) = pool_live p"
    using other live by auto
  moreover have "nodes_ok (fcitx_obj_pool_get p) k' zs" if "(k', zs) \<in> set A \<union> set B" for k' zs
  proof (rule nodes_ok_frame)
    show "nodes_ok (fcitx_obj_pool_get (ht_objs t)) k' zs" using that r(6) by auto
    show "\<forall>i\<in>fst ` set zs. fcitx_obj_pool_get p (int i) = fcitx_obj_pool_get (ht_objs t) (int i)"
      using frame rep_other_ids [OF rep that] by blast
  qed
  ultimately show ?thesis
    using wf r(2) nodes t' by (auto simp: represents_def)
qed

lemma key_append:
  assumes rep: "represents t (A @ (k, xs) # B)"
  shows "\<exists>i t'. fcitx_handler_key_append t k d = Some (int i, t') \<and> i \<notin> pool_live (ht_objs t)
    \<and> represents t' (A @ (k, xs @ [(i, d)]) # B) \<and> ht_log t' = ht_log t"
proof -
  let ?x = "\<lparr> ho_prev = hk_last (hkey xs), ho_next = - 1, ho_key = k, ho_data = d \<rparr>"
  note r = representsD [OF rep]
  obtain i p' p where al: "fcitx_obj_pool_alloc_id (ht_objs t) = Some (int i, p')"
    "obj_pool_put p' (int i) ?x = Some p" and i: "i \<notin> pool_live (ht_objs t)" and p: "pool_wf p"
    "pool_live p = insert i (pool_live (ht_objs t))"
    "\<forall>j\<in>pool_live p. fcitx_obj_pool_get p (int j) = (if j = i then Some ?x else fcitx_obj_pool_get (ht_objs t) (int j))"
    using op.alloc_put [OF r(1), of ?x] by blast
  have xs: "fst ` set xs \<subseteq> pool_live (ht_objs t)" "distinct (map fst xs)" using r(3,4) by auto
  have ok: "nodes_ok (fcitx_obj_pool_get (ht_objs t)) k xs" by (rule r(6)) simp
  show ?thesis
  proof (cases "xs = []")
    case True
    let ?t = "t \<lparr> ht_objs := p, ht_keys := keys_of A @ (k, hkey [(i, d)])
           # keys_of B \<rparr>"
    have "fcitx_handler_key_append t k d = Some (int i, ?t)"
      using al True r(5)
      by (simp add: fcitx_handler_key_append_def hkey_def key_simps key_hash [OF r(2)])
    moreover have "represents ?t (A @ (k, [(i, d)]) # B)"
      by (rule represents_change [OF rep p(1)])
         (use p i True in \<open>auto simp: nodes_ok_def hnode_def hkey_def\<close>)
    ultimately show ?thesis using i True by auto
  next
    case False
    define l where "l = fst (last xs)"
    have lx: "l \<in> fst ` set xs" using False by (simp add: l_def)
    then have l: "l \<in> pool_live (ht_objs t)" "l \<noteq> i" "xs ! (length xs - 1) = last xs"
      using xs(1) False i by (auto simp: last_conv_nth)
    let ?y = "hnode k xs (length xs - 1) \<lparr> ho_next := int i \<rparr>"
    have gl: "fcitx_obj_pool_get p (int l) = Some (hnode k xs (length xs - 1))"
      using ok False l p(2,3) by (auto simp: nodes_ok_def l_def last_conv_nth)
    obtain q where q: "obj_pool_put p (int l) ?y = Some q" "pool_wf q" "pool_live q = pool_live p"
      "\<forall>j\<in>pool_live p. fcitx_obj_pool_get q (int j) = (if j = l then Some ?y else fcitx_obj_pool_get p (int j))"
      using op.put_law [OF p(1), of l ?y] l(1) p(2) by auto
    let ?t = "t \<lparr> ht_objs := q, ht_keys := keys_of A @ (k, hkey (xs @ [(i, d)]))
           # keys_of B \<rparr>"
    have "hk_last (hkey xs) = int l" using False by (simp add: hkey_def l_def)
    then have "fcitx_handler_key_append t k d = Some (int i, ?t)"
      using al False r(5) gl q(1)
      by (simp add: fcitx_handler_key_append_def hkey_def key_simps key_hash [OF r(2)])
    moreover have "represents ?t (A @ (k, xs @ [(i, d)]) # B)"
    proof (rule represents_change [OF rep q(2)])
      show "nodes_ok (fcitx_obj_pool_get q) k (xs @ [(i, d)])"
        unfolding nodes_ok_def
      proof (intro allI impI)
        fix j assume j: "j < length (xs @ [(i, d)])"
        consider "j = length xs" | "j = length xs - 1" "j < length xs" | "j < length xs - 1" using j by fastforce
        then show "fcitx_obj_pool_get q (int (fst ((xs @ [(i, d)]) ! j))) = Some (hnode k (xs @ [(i, d)]) j)"
        proof cases
          case 1
          with q(4) p l False show ?thesis by (simp add: hnode_def hkey_def l_def nth_append last_conv_nth)
        next
          case 2
          with q(4) p l show ?thesis
            by (auto simp: hnode_def l_def nth_append last_conv_nth)
        next
          case 3
          then have jx: "j < length xs" "fst (xs ! j) \<in> fst ` set xs" by auto
          then have "fst (xs ! j) \<in> pool_live (ht_objs t)" using xs(1) by blast
          moreover have "fst (xs ! j) \<noteq> l"
            using 3 False xs(2) nth_eq_iff_index_eq [OF xs(2), of j "length xs - 1"]
            by (auto simp: l_def last_conv_nth)
          moreover have "fst (xs ! j) \<noteq> i" using calculation(1) i by blast
          ultimately show ?thesis
            using q(4) p(2,3) ok jx 3 by (auto simp: nodes_ok_def hnode_def nth_append)
        qed
      qed
    qed (use p q i l lx xs in auto)
    ultimately show ?thesis using i by auto
  qed
qed


lemma key_prepend:
  assumes rep: "represents t (A @ (k, xs) # B)"
  shows "\<exists>i t'. fcitx_handler_key_prepend t k d = Some (int i, t') \<and> i \<notin> pool_live (ht_objs t)
    \<and> represents t' (A @ (k, (i, d) # xs) # B) \<and> ht_log t' = ht_log t"
proof -
  let ?x = "\<lparr> ho_prev = - 1, ho_next = hk_first (hkey xs), ho_key = k, ho_data = d \<rparr>"
  note r = representsD [OF rep]
  obtain i p' p where al: "fcitx_obj_pool_alloc_id (ht_objs t) = Some (int i, p')"
    "obj_pool_put p' (int i) ?x = Some p" and i: "i \<notin> pool_live (ht_objs t)" and p: "pool_wf p"
    "pool_live p = insert i (pool_live (ht_objs t))"
    "\<forall>j\<in>pool_live p. fcitx_obj_pool_get p (int j) = (if j = i then Some ?x else fcitx_obj_pool_get (ht_objs t) (int j))"
    using op.alloc_put [OF r(1), of ?x] by blast
  have xs: "fst ` set xs \<subseteq> pool_live (ht_objs t)" "distinct (map fst xs)" using r(3,4) by auto
  have ok: "nodes_ok (fcitx_obj_pool_get (ht_objs t)) k xs" by (rule r(6)) simp
  show ?thesis
  proof (cases xs)
    case Nil
    let ?t = "t \<lparr> ht_objs := p, ht_keys := keys_of A @ (k, hkey [(i, d)]) # keys_of B \<rparr>"
    have "fcitx_handler_key_prepend t k d = Some (int i, ?t)"
      using al Nil r(5) by (simp add: fcitx_handler_key_prepend_def hkey_def key_simps key_hash [OF r(2)])
    moreover have "represents ?t (A @ (k, [(i, d)]) # B)"
      by (rule represents_change [OF rep p(1)])
         (use p i Nil in \<open>auto simp: nodes_ok_def hnode_def hkey_def\<close>)
    ultimately show ?thesis using i Nil by auto
  next
    case (Cons x xs')
    define l where "l = fst x"
    have lx: "l \<in> fst ` set xs" using Cons by (simp add: l_def)
    then have l: "l \<in> pool_live (ht_objs t)" "l \<noteq> i" using xs(1) i by auto
    let ?y = "hnode k xs 0 \<lparr> ho_prev := int i \<rparr>"
    have "fcitx_obj_pool_get p (int l) = Some (hnode k xs 0)"
      using ok l p(2,3) Cons by (auto simp: nodes_ok_def l_def)
    moreover obtain q where q: "obj_pool_put p (int l) ?y = Some q" "pool_wf q" "pool_live q = pool_live p"
      "\<forall>j\<in>pool_live p. fcitx_obj_pool_get q (int j) = (if j = l then Some ?y else fcitx_obj_pool_get p (int j))"
      using op.put_law [OF p(1), of l ?y] l(1) p(2) by auto
    let ?t = "t \<lparr> ht_objs := q, ht_keys := keys_of A @ (k, hkey ((i, d) # xs)) # keys_of B \<rparr>"
    have "hk_first (hkey xs) = int l" using Cons by (simp add: hkey_def l_def)
    ultimately have "fcitx_handler_key_prepend t k d = Some (int i, ?t)"
      using al Cons r(5) q(1)
      by (simp add: fcitx_handler_key_prepend_def hkey_def key_simps key_hash [OF r(2)])
    moreover have "represents ?t (A @ (k, (i, d) # xs) # B)"
    proof (rule represents_change [OF rep q(2)])
      show "nodes_ok (fcitx_obj_pool_get q) k ((i, d) # xs)"
        unfolding nodes_ok_def
      proof (intro allI impI)
        fix j assume j: "j < length ((i, d) # xs)"
        consider "j = 0" | "j = 1" | m where "j = Suc (Suc m)" by (metis One_nat_def not0_implies_Suc)
        then show "fcitx_obj_pool_get q (int (fst (((i, d) # xs) ! j))) = Some (hnode k ((i, d) # xs) j)"
        proof cases
          case 1
          with q(4) p l Cons show ?thesis by (simp add: hnode_def hkey_def)
        next
          case 2
          with q(4) p l Cons show ?thesis by (auto simp: hnode_def l_def)
        next
          case (3 m)
          then have jx: "Suc m < length xs" "fst (xs ! Suc m) \<in> fst ` set xs" using j by auto
          then have "fst (xs ! Suc m) \<in> pool_live (ht_objs t)" using xs(1) by blast
          moreover have "fst (xs ! Suc m) \<noteq> l"
            using jx Cons nth_eq_iff_index_eq [OF xs(2), of "Suc m" 0] by (auto simp: l_def)
          moreover have "fst (xs ! Suc m) \<noteq> i" using calculation(1) i by blast
          ultimately show ?thesis
            using q(4) p(2,3) ok jx 3 by (auto simp: nodes_ok_def hnode_def)
        qed
      qed
    qed (use p q i l lx xs in auto)
    ultimately show ?thesis using i by auto
  qed
qed

text \<open>Assigning to a field of a live object.\<close>

lemma set_obj_live:
  assumes "pool_wf (ht_objs t)" and "i \<in> pool_live (ht_objs t)" and "fcitx_obj_pool_get (ht_objs t) (int i) = Some ob"
  shows "\<exists>q. set_obj t (int i) f = Some (t \<lparr> ht_objs := q \<rparr>) \<and> pool_wf q \<and> pool_live q = pool_live (ht_objs t)
    \<and> (\<forall>j\<in>pool_live q. fcitx_obj_pool_get q (int j)
         = (if j = i then Some (f ob) else fcitx_obj_pool_get (ht_objs t) (int j)))"
  using op.put_law [OF assms(1,2), of "f ob"] assms(3)
  by (auto simp: set_obj_def fcitx_handler_table_get_obj_def)

text \<open>The ids before and behind an entry.\<close>

definition prev_id :: "'o entries \<Rightarrow> int" where
  "prev_id ys = (if ys = [] then - 1 else int (fst (last ys)))"

definition next_id :: "'o entries \<Rightarrow> int" where
  "next_id zs = (if zs = [] then - 1 else int (fst (hd zs)))"

lemma hnode_mid: "hnode k (ys @ (i, d) # zs) (length ys)
    = \<lparr> ho_prev = prev_id ys, ho_next = next_id zs, ho_key = k, ho_data = d \<rparr>"
  by (cases zs; cases "ys = []") (auto simp: hnode_def prev_id_def next_id_def nth_append last_conv_nth)

lemma hkey_ends: "hkey xs = \<lparr> hk_first = next_id xs, hk_last = prev_id xs \<rparr>"
  by (simp add: hkey_def prev_id_def next_id_def)

lemma hnode_before:
  assumes "j < length ys"
  shows "hnode k (ys @ zs) j = (if Suc j = length ys then hnode k (ys @ (i, d) # zs) j \<lparr> ho_next := next_id zs \<rparr>
     else hnode k (ys @ (i, d) # zs) j)"
proof -
  have "(ys @ zs) ! Suc j = hd zs" if "Suc j = length ys" "zs \<noteq> []"
    using that by (simp add: nth_append hd_conv_nth)
  with assms show ?thesis by (auto simp: hnode_def next_id_def nth_append)
qed

lemma hnode_behind:
  assumes "j < length zs"
  shows "hnode k (ys @ zs) (length ys + j)
    = (if j = 0 then hnode k (ys @ (i, d) # zs) (Suc (length ys + j)) \<lparr> ho_prev := prev_id ys \<rparr>
       else hnode k (ys @ (i, d) # zs) (Suc (length ys + j)))"
proof (cases j)
  case 0
  then show ?thesis using assms by (auto simp: hnode_def prev_id_def nth_append last_conv_nth)
next
  case (Suc m)
  then have "length ys + j - 1 = length ys + m" by simp
  with Suc show ?thesis using assms by (simp add: hnode_def nth_append)
qed

lemma remove_by_id:
  assumes rep: "represents t (A @ (k, ys @ (i, d) # zs) # B)"
  shows "\<exists>t'. fcitx_handler_table_remove_by_id t (int i) = Some t' \<and> represents t' (A @ (k, ys @ zs) # B)
    \<and> ht_log t' = ht_log t @ [FreeObj d]"
proof -
  let ?xs = "ys @ (i, d) # zs"
  note r = representsD [OF rep]
  let ?p = "ht_objs t"
  have live: "fst ` set ?xs \<subseteq> pool_live ?p" and dist: "distinct (map fst ?xs)" using r(3,4) by auto
  have ok: "\<And>j. j < length ?xs \<Longrightarrow> fcitx_obj_pool_get ?p (int (fst (?xs ! j))) = Some (hnode k ?xs j)"
    using r(6) [of k ?xs] by (simp add: nodes_ok_def)
  have gi: "fcitx_handler_table_get_obj t (int i)
      = Some \<lparr> ho_prev = prev_id ys, ho_next = next_id zs, ho_key = k, ho_data = d \<rparr>"
    using ok [of "length ys"] by (simp add: fcitx_handler_table_get_obj_def hnode_mid)
  let ?s1 = "if prev_id ys = - 1 then set_key t k (\<lambda>h. h \<lparr> hk_first := next_id zs \<rparr>)
             else set_obj t (prev_id ys) (\<lambda>ob. ob \<lparr> ho_next := next_id zs \<rparr>)"
  let ?k1 = "if ys = [] then hkey ?xs \<lparr> hk_first := next_id zs \<rparr> else hkey ?xs"
  have "\<exists>q. ?s1 = Some (t \<lparr> ht_objs := q, ht_keys := keys_of A @ (k, ?k1) # keys_of B \<rparr>)
      \<and> pool_wf q \<and> pool_live q = pool_live ?p
      \<and> (\<forall>j\<in>pool_live q. fcitx_obj_pool_get q (int j) = (if ys \<noteq> [] \<and> j = fst (last ys)
           then Some (hnode k ?xs (length ys - 1) \<lparr> ho_next := next_id zs \<rparr>) else fcitx_obj_pool_get ?p (int j)))"
  proof (cases "ys = []")
    case True
    then show ?thesis using r(1,5)
      by (intro exI [of _ ?p]) (simp add: prev_id_def set_key_def ht_key_def key_hash [OF r(2)])
  next
    case False
    then have l: "fst (last ys) \<in> pool_live ?p" using live by auto
    have "?xs ! (length ys - 1) = last ys" using False by (simp add: nth_append last_conv_nth)
    then have "fcitx_obj_pool_get ?p (int (fst (last ys))) = Some (hnode k ?xs (length ys - 1))"
      using ok [of "length ys - 1"] by simp
    from set_obj_live [OF r(1) l this, of "\<lambda>ob. ob \<lparr> ho_next := next_id zs \<rparr>"] obtain q where
      q: "set_obj t (int (fst (last ys))) (\<lambda>ob. ob \<lparr> ho_next := next_id zs \<rparr>) = Some (t \<lparr> ht_objs := q \<rparr>)"
        "pool_wf q" "pool_live q = pool_live ?p"
        "\<forall>j\<in>pool_live q. fcitx_obj_pool_get q (int j) = (if j = fst (last ys)
           then Some (hnode k ?xs (length ys - 1) \<lparr> ho_next := next_id zs \<rparr>) else fcitx_obj_pool_get ?p (int j))"
      by auto
    have "t \<lparr> ht_objs := q \<rparr> = t \<lparr> ht_objs := q, ht_keys := keys_of A @ (k, hkey ?xs) # keys_of B \<rparr>"
      using r(5) by (cases t) simp
    with q False show ?thesis by (intro exI [of _ q]) (simp add: prev_id_def)
  qed
  then obtain q where s1: "?s1 = Some (t \<lparr> ht_objs := q, ht_keys := keys_of A @ (k, ?k1) # keys_of B \<rparr>)"
    and q: "pool_wf q" "pool_live q = pool_live ?p"
      "\<forall>j\<in>pool_live q. fcitx_obj_pool_get q (int j) = (if ys \<noteq> [] \<and> j = fst (last ys)
           then Some (hnode k ?xs (length ys - 1) \<lparr> ho_next := next_id zs \<rparr>) else fcitx_obj_pool_get ?p (int j))"
    by blast
  define t1 where "t1 = t \<lparr> ht_objs := q, ht_keys := keys_of A @ (k, ?k1) # keys_of B \<rparr>"
  let ?s2 = "if next_id zs = - 1 then set_key t1 k (\<lambda>h. h \<lparr> hk_last := prev_id ys \<rparr>)
             else set_obj t1 (next_id zs) (\<lambda>ob. ob \<lparr> ho_prev := prev_id ys \<rparr>)"
  have k2: "(if zs = [] then ?k1 \<lparr> hk_last := prev_id ys \<rparr> else ?k1) = hkey (ys @ zs)"
    by (cases ys; cases zs) (auto simp: hkey_ends prev_id_def next_id_def)
  have "\<exists>q2. ?s2 = Some (t1 \<lparr> ht_objs := q2, ht_keys := keys_of A @ (k, hkey (ys @ zs)) # keys_of B \<rparr>)
      \<and> pool_wf q2 \<and> pool_live q2 = pool_live ?p
      \<and> (\<forall>j\<in>pool_live q2. fcitx_obj_pool_get q2 (int j) = (if zs \<noteq> [] \<and> j = fst (hd zs)
           then Some (hnode k ?xs (Suc (length ys)) \<lparr> ho_prev := prev_id ys \<rparr>) else fcitx_obj_pool_get q (int j)))"
  proof (cases zs)
    case Nil
    then show ?thesis using q k2
      by (intro exI [of _ q]) (simp add: t1_def next_id_def set_key_def ht_key_def key_hash [OF r(2)])
  next
    case (Cons z zs')
    then have l: "fst z \<in> pool_live (ht_objs t1)" using live q(2) by (auto simp: t1_def)
    have "ys \<noteq> [] \<Longrightarrow> fst z \<noteq> fst (last ys)"
    proof -
      assume "ys \<noteq> []"
      then have "fst (last ys) \<in> fst ` set ys" by simp
      moreover have "fst z \<notin> fst ` set ys" using dist Cons by auto
      ultimately show ?thesis by metis
    qed
    moreover have "fcitx_obj_pool_get ?p (int (fst z)) = Some (hnode k ?xs (Suc (length ys)))"
      using ok [of "Suc (length ys)"] Cons by (simp add: nth_append)
    ultimately have "fcitx_obj_pool_get (ht_objs t1) (int (fst z)) = Some (hnode k ?xs (Suc (length ys)))"
      using q(3) l by (auto simp: t1_def)
    from set_obj_live [OF _ l this, of "\<lambda>ob. ob \<lparr> ho_prev := prev_id ys \<rparr>"] q(1,2) obtain q2 where
      q2: "set_obj t1 (int (fst z)) (\<lambda>ob. ob \<lparr> ho_prev := prev_id ys \<rparr>) = Some (t1 \<lparr> ht_objs := q2 \<rparr>)"
        "pool_wf q2" "pool_live q2 = pool_live ?p"
        "\<forall>j\<in>pool_live q2. fcitx_obj_pool_get q2 (int j) = (if j = fst z
           then Some (hnode k ?xs (Suc (length ys)) \<lparr> ho_prev := prev_id ys \<rparr>) else fcitx_obj_pool_get q (int j))"
      by (auto simp: t1_def)
    have "t1 \<lparr> ht_objs := q2 \<rparr> = t1 \<lparr> ht_objs := q2, ht_keys := keys_of A @ (k, hkey (ys @ zs)) # keys_of B \<rparr>"
      unfolding t1_def using k2 Cons by simp
    with q2 Cons show ?thesis by (intro exI [of _ q2]) (simp add: next_id_def)
  qed
  then obtain q2 where s2: "?s2 = Some (t1 \<lparr> ht_objs := q2, ht_keys := keys_of A @ (k, hkey (ys @ zs)) # keys_of B \<rparr>)"
    and q2: "pool_wf q2" "pool_live q2 = pool_live ?p"
      "\<forall>j\<in>pool_live q2. fcitx_obj_pool_get q2 (int j) = (if zs \<noteq> [] \<and> j = fst (hd zs)
           then Some (hnode k ?xs (Suc (length ys)) \<lparr> ho_prev := prev_id ys \<rparr>) else fcitx_obj_pool_get q (int j))"
    by blast
  have "i \<in> pool_live q2" using q2(2) live by auto
  from op.free_law [OF q2(1) this] obtain q3 where q3: "fcitx_obj_pool_free_id q2 (int i) = (True, q3)"
    "pool_wf q3" "pool_live q3 = pool_live ?p - {i}"
    "\<forall>j\<in>pool_live q3. fcitx_obj_pool_get q3 (int j) = fcitx_obj_pool_get q2 (int j)" using q2(2) by auto
  define t' where "t' = t \<lparr> ht_objs := q3, ht_keys := keys_of A @ (k, hkey (ys @ zs)) # keys_of B,
    ht_log := ht_log t @ [FreeObj d] \<rparr>"
  have "fcitx_handler_table_remove_by_id t (int i) = Some t'"
    using gi s1 s2 q3(1) unfolding t1_def [symmetric]
    by (cases "prev_id ys = - 1"; cases "next_id zs = - 1") (simp_all add: fcitx_handler_table_remove_by_id_def FCITX_OBJECT_POOL_INVALID_ID_def Let_def
        free_obj_def ht_add_log_def t'_def t1_def)
  moreover have "represents t' (A @ (k, ys @ zs) # B)"
  proof (rule represents_change [OF rep q3(2)])
    have apart: "fst ` set ys \<inter> fst ` set zs = {}" using dist by auto
    have in3: "e \<in> pool_live q3" if "e \<in> fst ` set ys \<union> fst ` set zs" for e
      using that live dist q3(3) by auto
    show "nodes_ok (fcitx_obj_pool_get q3) k (ys @ zs)"
      unfolding nodes_ok_def
    proof (intro allI impI)
      fix j assume j: "j < length (ys @ zs)"
      show "fcitx_obj_pool_get q3 (int (fst ((ys @ zs) ! j))) = Some (hnode k (ys @ zs) j)"
      proof (cases "j < length ys")
        case True
        let ?e = "fst (ys ! j)"
        have e: "?e \<in> fst ` set ys" using True by simp
        then have e3: "?e \<in> pool_live q3" by (intro in3) simp
        then have e2: "?e \<in> pool_live q2" "?e \<in> pool_live q" using q3(3) q2(2) q(2) by auto
        have "zs \<noteq> [] \<Longrightarrow> ?e \<noteq> fst (hd zs)"
          using e apart by (metis disjoint_iff hd_in_set imageI)
        moreover have "?e = fst (last ys) \<longleftrightarrow> Suc j = length ys"
        proof -
          have "ys \<noteq> []" using True by auto
          then have "last ys = ys ! (length ys - 1)" "length ys - 1 < length ys" by (simp_all add: last_conv_nth)
          moreover have "distinct (map fst ys)" using dist by simp
          ultimately show ?thesis
            using True nth_eq_iff_index_eq [of "map fst ys" j "length ys - 1"] by auto
        qed
        moreover have "fcitx_obj_pool_get ?p (int ?e) = Some (hnode k ?xs j)"
          using ok [of j] True by (simp add: nth_append)
        moreover have "Suc j = length ys \<Longrightarrow> length ys - 1 = j" by simp
        moreover have "ys \<noteq> []" using True by auto
        ultimately have "fcitx_obj_pool_get q3 (int ?e) = Some (if Suc j = length ys
            then hnode k ?xs j \<lparr> ho_next := next_id zs \<rparr> else hnode k ?xs j)"
          unfolding q3(4) [rule_format, OF e3]
            q2(3) [rule_format, OF e2(1)] q(3) [rule_format, OF e2(2)]
          by (cases "Suc j = length ys") auto
        with True show ?thesis by (simp add: nth_append hnode_before [where i = i and d = d])
      next
        case False
        then obtain m where m: "j = length ys + m" "m < length zs" using j by (auto simp: le_iff_add not_less)
        let ?e = "fst (zs ! m)"
        have e: "?e \<in> fst ` set zs" using m by simp
        then have e3: "?e \<in> pool_live q3" by (intro in3) simp
        then have e2: "?e \<in> pool_live q2" "?e \<in> pool_live q" using q3(3) q2(2) q(2) by auto
        have "ys \<noteq> [] \<Longrightarrow> ?e \<noteq> fst (last ys)"
          using e apart by (metis disjoint_iff last_in_set imageI)
        moreover have "?e = fst (hd zs) \<longleftrightarrow> m = 0"
          using m dist nth_eq_iff_index_eq [of "map fst zs" m 0] by (cases zs) auto
        moreover have "fcitx_obj_pool_get ?p (int ?e) = Some (hnode k ?xs (Suc j))"
          using ok [of "Suc j"] m by (simp add: nth_append)
        moreover have "m = 0 \<Longrightarrow> Suc (length ys) = Suc j" using m by simp
        moreover have "zs \<noteq> []" using m by auto
        ultimately have "fcitx_obj_pool_get q3 (int ?e) = Some (if m = 0
            then hnode k ?xs (Suc j) \<lparr> ho_prev := prev_id ys \<rparr> else hnode k ?xs (Suc j))"
          unfolding q3(4) [rule_format, OF e3]
            q2(3) [rule_format, OF e2(1)] q(3) [rule_format, OF e2(2)]
          by (cases "m = 0") auto
        with m show ?thesis by (simp add: hnode_behind [where i = i and d = d])
      qed
    qed
  qed (use q3 q2 q live dist in \<open>auto simp: t'_def\<close>)
  ultimately show ?thesis by (auto simp: t'_def)
qed

section \<open>Freeing a key with its objects\<close>

lemma next_id_simps [simp]: "next_id [] = - 1" "next_id (e # zs) = int (fst e)"
  by (simp_all add: next_id_def)

lemma free_loop:
  "pool_wf (ht_objs t) \<Longrightarrow> distinct (map fst zs) \<Longrightarrow> fst ` set zs \<subseteq> pool_live (ht_objs t) \<Longrightarrow>
   \<forall>j<length zs. \<exists>ob. fcitx_obj_pool_get (ht_objs t) (int (fst (zs ! j))) = Some ob
      \<and> ho_next ob = next_id (drop (Suc j) zs) \<and> ho_data ob = snd (zs ! j) \<Longrightarrow>
   \<exists>q. free_key_loop t (next_id zs)
       = Some (t \<lparr> ht_objs := q, ht_log := ht_log t @ map (\<lambda>e. FreeObj (snd e)) zs \<rparr>)
     \<and> pool_wf q \<and> pool_live q = pool_live (ht_objs t) - fst ` set zs
     \<and> (\<forall>j\<in>pool_live q. fcitx_obj_pool_get q (int j) = fcitx_obj_pool_get (ht_objs t) (int j))"
proof (induction zs arbitrary: t)
  case Nil
  then show ?case
    by (subst free_key_loop.simps) (auto simp: next_id_def FCITX_OBJECT_POOL_INVALID_ID_def intro!: exI [of _ "ht_objs t"])
next
  case (Cons e zs)
  obtain i d where e: "e = (i, d)" by (cases e)
  obtain ob where ob: "fcitx_obj_pool_get (ht_objs t) (int i) = Some ob" "ho_next ob = next_id zs" "ho_data ob = d"
    using Cons.prems(4) e by force
  have "i \<in> pool_live (ht_objs t)" using Cons.prems(3) e by simp
  from op.free_law [OF Cons.prems(1) this] obtain p where p: "fcitx_obj_pool_free_id (ht_objs t) (int i) = (True, p)"
    "pool_wf p" "pool_live p = pool_live (ht_objs t) - {i}"
    "\<forall>j\<in>pool_live p. fcitx_obj_pool_get p (int j) = fcitx_obj_pool_get (ht_objs t) (int j)" by blast
  define t1 where "t1 = free_obj t (int i) d"
  have t1: "t1 = t \<lparr> ht_objs := p, ht_log := ht_log t @ [FreeObj d] \<rparr>"
    using p(1) by (simp add: t1_def free_obj_def ht_add_log_def)
  have nodes: "\<exists>ob. fcitx_obj_pool_get p (int (fst (zs ! j))) = Some ob
      \<and> ho_next ob = next_id (drop (Suc j) zs) \<and> ho_data ob = snd (zs ! j)" if j: "j < length zs" for j
  proof -
    have "fst (zs ! j) \<in> fst ` set zs" using j by simp
    then have "fst (zs ! j) \<in> pool_live p" using Cons.prems(2,3) e p(3) by auto
    then show ?thesis using Cons.prems(4) [rule_format, of "Suc j"] j p(4) by simp
  qed
  have live1: "fst ` set zs \<subseteq> pool_live p" using Cons.prems(2,3) e p(3) by auto
  have "\<exists>q. free_key_loop t1 (next_id zs) = Some (t1 \<lparr> ht_objs := q, ht_log := ht_log t1 @ map (\<lambda>e. FreeObj (snd e)) zs \<rparr>)
     \<and> pool_wf q \<and> pool_live q = pool_live (ht_objs t1) - fst ` set zs
     \<and> (\<forall>j\<in>pool_live q. fcitx_obj_pool_get q (int j) = fcitx_obj_pool_get (ht_objs t1) (int j))"
    by (rule Cons.IH) (use Cons.prems(2) p(2) live1 nodes in \<open>auto simp: t1\<close>)
  then obtain q where q: "free_key_loop t1 (next_id zs) = Some (t1 \<lparr> ht_objs := q, ht_log := ht_log t1 @ map (\<lambda>e. FreeObj (snd e)) zs \<rparr>)"
    "pool_wf q" "pool_live q = pool_live p - fst ` set zs"
    "\<forall>j\<in>pool_live q. fcitx_obj_pool_get q (int j) = fcitx_obj_pool_get p (int j)" by (auto simp: t1)
  have "free_key_loop t (next_id (e # zs)) = free_key_loop t1 (next_id zs)"
    using ob e by (subst free_key_loop.simps)
      (simp add: FCITX_OBJECT_POOL_INVALID_ID_def fcitx_handler_table_get_obj_def t1_def)
  with q p(3,4) e show ?case by (intro exI [of _ q]) (auto simp: t1)
qed

lemma free_key:
  assumes rep: "represents t (A @ (k, xs) # B)"
  shows "\<exists>t'. fcitx_handler_table_free_key t k = Some t' \<and> represents t' (A @ B)
    \<and> ht_log t' = ht_log t @ map (\<lambda>e. FreeObj (snd e)) xs @ [FreeKey k]"
proof -
  note r = representsD [OF rep]
  have ok: "nodes_ok (fcitx_obj_pool_get (ht_objs t)) k xs" by (rule r(6)) simp
  have nodes: "\<forall>j<length xs. \<exists>ob. fcitx_obj_pool_get (ht_objs t) (int (fst (xs ! j))) = Some ob
      \<and> ho_next ob = next_id (drop (Suc j) xs) \<and> ho_data ob = snd (xs ! j)"
    using ok by (auto simp: nodes_ok_def hnode_def next_id_def hd_drop_conv_nth)
  obtain q where q: "free_key_loop t (next_id xs)
       = Some (t \<lparr> ht_objs := q, ht_log := ht_log t @ map (\<lambda>e. FreeObj (snd e)) xs \<rparr>)"
    "pool_wf q" "pool_live q = pool_live (ht_objs t) - fst ` set xs"
    "\<forall>j\<in>pool_live q. fcitx_obj_pool_get q (int j) = fcitx_obj_pool_get (ht_objs t) (int j)"
  proof -
    have "distinct (map fst xs)" using r(3) by simp
    moreover have "fst ` set xs \<subseteq> pool_live (ht_objs t)" unfolding r(4) [symmetric] by auto
    ultimately have "\<exists>q. free_key_loop t (next_id xs)
       = Some (t \<lparr> ht_objs := q, ht_log := ht_log t @ map (\<lambda>e. FreeObj (snd e)) xs \<rparr>)
     \<and> pool_wf q \<and> pool_live q = pool_live (ht_objs t) - fst ` set xs
     \<and> (\<forall>j\<in>pool_live q. fcitx_obj_pool_get q (int j) = fcitx_obj_pool_get (ht_objs t) (int j))"
      by (rule free_loop [OF r(1) _ _ nodes])
    then show ?thesis by (elim exE conjE) (rule that)
  qed
  define t' where "t' = t \<lparr> ht_objs := q, ht_keys := keys_of A @ keys_of B,
    ht_log := ht_log t @ map (\<lambda>e. FreeObj (snd e)) xs @ [FreeKey k] \<rparr>"
  have "fcitx_handler_table_free_key t k = Some t'"
    using q(1) r(5) by (simp add: fcitx_handler_table_free_key_def ht_key_def key_hash [OF r(2)]
        hkey_ends ht_add_log_def t'_def)
  moreover have "represents t' (A @ B)"
  proof -
    have "nodes_ok (fcitx_obj_pool_get q) k' zs" if "(k', zs) \<in> set A \<union> set B" for k' zs
    proof (rule nodes_ok_frame)
      show "nodes_ok (fcitx_obj_pool_get (ht_objs t)) k' zs" using that r(6) by auto
      show "\<forall>i\<in>fst ` set zs. fcitx_obj_pool_get q (int i) = fcitx_obj_pool_get (ht_objs t) (int i)"
        using q(3,4) rep_other_ids [OF rep that] by blast
    qed
    moreover have "set (entry_ids (A @ B)) = pool_live q"
      using r(3) q(3) unfolding r(4) [symmetric] by (simp, blast)
    ultimately show ?thesis using q(2) r(2,3) by (auto simp: represents_def t'_def)
  qed
  ultimately show ?thesis by (auto simp: t'_def)
qed

section \<open>The operations on whole tables\<close>

definition put_entries :: "(buf \<times> 'o entries) list \<Rightarrow> buf \<Rightarrow> ('o entries \<Rightarrow> 'o entries) \<Rightarrow> (buf \<times> 'o entries) list" where
  "put_entries M k f = (if k \<in> fst ` set M then map (\<lambda>(k', xs). (k', if k' = k then f xs else xs)) M
     else M @ [(k, f [])])"

lemma put_split:
  "distinct (map fst (A @ (k, xs) # B)) \<Longrightarrow> put_entries (A @ (k, xs) # B) k f = A @ (k, f xs) # B"
proof -
  assume d: "distinct (map fst (A @ (k, xs) # B))"
  have "map (\<lambda>(k', xs). (k', if k' = k then f xs else xs)) C = C" if "k \<notin> fst ` set C" for C
    using that by (intro map_idI) (force simp: image_iff)
  with d show ?thesis by (simp add: put_entries_def)
qed

lemma filter_split:
  "distinct (map fst (A @ (k, xs) # B)) \<Longrightarrow> filter (\<lambda>p. fst p \<noteq> k) (A @ (k, xs) # B) = A @ B"
proof -
  assume "distinct (map fst (A @ (k, xs) # B))"
  then have "filter (\<lambda>p. fst p \<noteq> k) A = A" "filter (\<lambda>p. fst p \<noteq> k) B = B"
    by (auto intro!: filter_True simp: image_iff)
  then show ?thesis by simp
qed

lemma key_unknown:
  assumes "represents t M" and "k \<notin> fst ` set M"
  shows "ht_key t k = None"
  using uh.lookup_None [of "ht_keys t" k] representsD(2,5) [OF assms(1)] assms(2)
  by (simp add: ht_key_def)

text \<open>After finding or creating the key, the table holds it.\<close>

lemma find_key_create:
  assumes "represents t M"
  shows "\<exists>A xs B t'. fcitx_handler_table_find_key t k True = (Some k, t') \<and> represents t' (A @ (k, xs) # B)
    \<and> ht_objs t' = ht_objs t \<and> distinct (map fst (A @ (k, xs) # B)) \<and> (\<forall>f. A @ (k, f xs) # B = put_entries M k f)
    \<and> ht_log t' = ht_log t @ (if k \<in> fst ` set M then [] else [InitKey k])"
proof (cases "k \<in> fst ` set M")
  case True
  then obtain xs where "(k, xs) \<in> set M" by auto
  then obtain A B where M: "M = A @ (k, xs) # B" by (meson split_list)
  note d = representsD(2) [OF assms]
  have "ht_key t k \<noteq> None"
    using assms M representsD(5) [OF assms] d by (simp add: ht_key_def key_hash [OF d [unfolded M]])
  with True assms M put_split [OF d [unfolded M]] d show ?thesis
    by (intro exI [of _ A] exI [of _ xs] exI [of _ B] exI [of _ t]) (auto simp: fcitx_handler_table_find_key_def)
next
  case False
  let ?t = "ht_add_log (InitKey k) (t \<lparr> ht_keys := hash_add (ht_keys t) k \<lparr> hk_first = INVALID_ID, hk_last = INVALID_ID \<rparr> \<rparr>)"
  have "fcitx_handler_table_find_key t k True = (Some k, ?t)"
    using key_unknown [OF assms False] by (simp add: fcitx_handler_table_find_key_def)
  moreover have "represents ?t (M @ (k, []) # [])"
    using assms False by (auto simp: represents_def ht_add_log_def hash_add_def hkey_def nodes_ok_def
        FCITX_OBJECT_POOL_INVALID_ID_def)
  ultimately show ?thesis using False representsD(2) [OF assms]
    by (intro exI [of _ M] exI [of _ "[]"] exI [of _ "[]"] exI [of _ ?t])
       (auto simp: put_entries_def ht_add_log_def)
qed

lemma new_table: "\<exists>t. fcitx_handler_table_new_with_keydata = Some t \<and> represents t []"
  using pool_init_wf [of 4]
  by (auto simp: fcitx_handler_table_new_with_keydata_def fcitx_obj_pool_new_def
      fcitx_obj_pool_new_with_prealloc_def FCITX_OBJ_POOL_INIT_SIZE_def represents_def)

text \<open>
  C6: Adding a handler. On a table that represents the lists \<open>M\<close>,
  \<open>fcitx_handler_table_append\<close> and \<open>fcitx_handler_table_prepend\<close> succeed with an id that
  no object in use has, and afterwards the table represents \<open>M\<close> with the new object at the
  end or at the front of the list of its key, which is created at the end of the table when
  it is new; every other list, and every other id, is as before.
\<close>

theorem handler_add:
  assumes "represents t M"
  shows "(\<exists>i t'. fcitx_handler_table_append t k d = Some (int i, t') \<and> i \<notin> set (entry_ids M)
      \<and> represents t' (put_entries M k (\<lambda>xs. xs @ [(i, d)])))
    \<and> (\<exists>i t'. fcitx_handler_table_prepend t k d = Some (int i, t') \<and> i \<notin> set (entry_ids M)
      \<and> represents t' (put_entries M k (\<lambda>xs. (i, d) # xs)))"
proof
  obtain A xs B t1 where f: "fcitx_handler_table_find_key t k True = (Some k, t1)"
    "represents t1 (A @ (k, xs) # B)" "ht_objs t1 = ht_objs t" "\<forall>f. A @ (k, f xs) # B = put_entries M k f"
    using find_key_create [OF assms] by blast
  note r4 = representsD(4) [OF assms] and f4 = f(4) [rule_format, symmetric]
  from key_append [OF f(2), of d] f(1,3) f4 r4
  show "\<exists>i t'. fcitx_handler_table_append t k d = Some (int i, t') \<and> i \<notin> set (entry_ids M)
      \<and> represents t' (put_entries M k (\<lambda>xs. xs @ [(i, d)]))"
    by (auto simp: fcitx_handler_table_append_def)
  from key_prepend [OF f(2), of d] f(1,3) f4 r4
  show "\<exists>i t'. fcitx_handler_table_prepend t k d = Some (int i, t') \<and> i \<notin> set (entry_ids M)
      \<and> represents t' (put_entries M k (\<lambda>xs. (i, d) # xs))"
    by (auto simp: fcitx_handler_table_prepend_def)
qed

lemma remove_mem:
  assumes "represents t (A @ (k, xs) # B)" and "(i, d) \<in> set xs"
  shows "\<exists>t'. fcitx_handler_table_remove_by_id t (int i) = Some t'
    \<and> represents t' (A @ (k, filter (\<lambda>e. fst e \<noteq> i) xs) # B) \<and> ht_log t' = ht_log t @ [FreeObj d]"
proof -
  obtain ys zs where xs: "xs = ys @ (i, d) # zs" using assms(2) by (metis split_list)
  have "distinct (map fst xs)" using representsD(3) [OF assms(1)] by auto
  then have "filter (\<lambda>e. fst e \<noteq> i) xs = ys @ zs" using filter_split [of ys i d zs] xs by simp
  with remove_by_id [of t A k ys i d zs B] assms(1) xs show ?thesis by simp
qed

text \<open>
  C1: Removing a handler. \<open>fcitx_handler_table_remove_by_id_full\<close> with the id of an object
  in the list of key \<open>k\<close> takes exactly that object out of that list, calls the free
  function for it once, and drops the key, with its own callback, when the list has become
  empty. (With the invalid id the code follows a null pointer: the result is \<open>None\<close>.)
\<close>

theorem handler_remove:
  assumes "represents t M" and "(k, xs) \<in> set M" and "(i, d) \<in> set xs"
  shows "(\<exists>t'. fcitx_handler_table_remove_by_id_full t (int i) = Some t'
    \<and> (let xs' = filter (\<lambda>e. fst e \<noteq> i) xs in
       if xs' = [] then represents t' (filter (\<lambda>p. fst p \<noteq> k) M) \<and> ht_log t' = ht_log t @ [FreeObj d, FreeKey k]
       else represents t' (put_entries M k (\<lambda>_. xs')) \<and> ht_log t' = ht_log t @ [FreeObj d]))
    \<and> fcitx_handler_table_remove_by_id_full t INVALID_ID = None"
proof
  obtain A B where M: "M = A @ (k, xs) # B" using assms(2) by (metis split_list)
  note rep = assms(1) [unfolded M]
  note r = representsD [OF rep]
  let ?xs = "filter (\<lambda>e. fst e \<noteq> i) xs"
  obtain t1 where t1: "fcitx_handler_table_remove_by_id t (int i) = Some t1" "represents t1 (A @ (k, ?xs) # B)"
    "ht_log t1 = ht_log t @ [FreeObj d]" using remove_mem [OF rep assms(3)] by blast
  obtain j where j: "j < length xs" "xs ! j = (i, d)" using assms(3) by (metis in_set_conv_nth)
  have "fcitx_handler_table_get_obj t (int i) = Some (hnode k xs j)"
    using r(6) [of k xs] j by (auto simp: nodes_ok_def fcitx_handler_table_get_obj_def)
  then have key: "fcitx_handler_table_get_key_by_id t (int i) = Some (Some k)"
    by (simp add: fcitx_handler_table_get_key_by_id_def FCITX_OBJECT_POOL_INVALID_ID_def hnode_def)
  have empty: "fcitx_handler_key_is_empty t1 (Some k) = Some (?xs = [])"
    using representsD(2,5) [OF t1(2)]
    by (simp add: fcitx_handler_key_is_empty_def ht_key_def key_hash [OF representsD(2) [OF t1(2)]] hkey_def
        FCITX_OBJECT_POOL_INVALID_ID_def)
  show "\<exists>t'. fcitx_handler_table_remove_by_id_full t (int i) = Some t'
    \<and> (let xs' = filter (\<lambda>e. fst e \<noteq> i) xs in
       if xs' = [] then represents t' (filter (\<lambda>p. fst p \<noteq> k) M) \<and> ht_log t' = ht_log t @ [FreeObj d, FreeKey k]
       else represents t' (put_entries M k (\<lambda>_. xs')) \<and> ht_log t' = ht_log t @ [FreeObj d])"
  proof (cases "?xs = []")
    case True
    from free_key [OF t1(2)] obtain t2 where "fcitx_handler_table_free_key t1 k = Some t2" "represents t2 (A @ B)"
      "ht_log t2 = ht_log t1 @ map (\<lambda>e. FreeObj (snd e)) ?xs @ [FreeKey k]" by blast
    with True t1 key empty filter_split [OF r(2)] M show ?thesis
      by (intro exI [of _ t2]) (simp add: fcitx_handler_table_remove_by_id_full_def)
  next
    case False
    with t1 key empty put_split [OF r(2)] M show ?thesis
      by (intro exI [of _ t1]) (simp add: fcitx_handler_table_remove_by_id_full_def Let_def)
  qed
  show "fcitx_handler_table_remove_by_id_full t INVALID_ID = None"
    by (simp add: fcitx_handler_table_remove_by_id_full_def fcitx_handler_table_get_key_by_id_def
        fcitx_handler_table_remove_by_id_def fcitx_handler_key_is_empty_def)
qed

lemma remove_key:
  assumes "represents t M"
  shows "\<exists>t'. fcitx_handler_table_remove_key t k = Some t' \<and> represents t' (filter (\<lambda>p. fst p \<noteq> k) M)"
proof (cases "k \<in> fst ` set M")
  case True
  then obtain xs where "(k, xs) \<in> set M" by auto
  then obtain A B where M: "M = A @ (k, xs) # B" by (meson split_list)
  note r = representsD [OF assms [unfolded M]]
  have "ht_key t k \<noteq> None" using r(5) by (simp add: ht_key_def key_hash [OF r(2)])
  with free_key [OF assms [unfolded M]] filter_split [OF r(2)] M show ?thesis
    by (auto simp: fcitx_handler_table_remove_key_def fcitx_handler_table_find_key_def)
next
  case False
  then have "filter (\<lambda>p. fst p \<noteq> k) M = M" by (auto intro!: filter_True simp: image_iff)
  with assms key_unknown [OF assms False] show ?thesis
    by (auto simp: fcitx_handler_table_remove_key_def fcitx_handler_table_find_key_def)
qed

lemma handler_free_loop:
  "represents t M \<Longrightarrow> \<exists>t'. handler_table_free_loop t (map fst M) = Some t' \<and> represents t' []
    \<and> ht_log t' = ht_log t @ concat (map (\<lambda>(k, xs). map (\<lambda>e. FreeObj (snd e)) xs @ [FreeKey k]) M)"
proof (induction M arbitrary: t)
  case (Cons p M)
  obtain k xs where p: "p = (k, xs)" by (cases p)
  from free_key [of t "[]" k xs M] Cons.prems p obtain t1 where
    t1: "fcitx_handler_table_free_key t k = Some t1" "represents t1 M"
      "ht_log t1 = ht_log t @ map (\<lambda>e. FreeObj (snd e)) xs @ [FreeKey k]" by auto
  with Cons.IH [OF t1(2)] p show ?case by auto
qed auto

text \<open>
  C9: Freeing a table. \<open>fcitx_handler_table_free\<close> ends, follows no dangling pointer, and
  passes every object in the table to the free function exactly once, list by list in the
  order of the keys, each list followed by the callback for its key; no slot of the pool
  stays in use.
\<close>

theorem handler_free_all:
  assumes "represents t M"
  shows "\<exists>t'. fcitx_handler_table_free t = Some t' \<and> pool_live (ht_objs t') = {}
    \<and> ht_log t' = ht_log t @ concat (map (\<lambda>(k, xs). map (\<lambda>e. FreeObj (snd e)) xs @ [FreeKey k]) M)"
  using handler_free_loop [OF assms] representsD(5) [OF assms]
  by (auto simp: fcitx_handler_table_free_def hash_keys_def represents_def)

text \<open>Walking along a list with the lookup functions.\<close>

lemma handler_first:
  assumes "represents t M"
  shows "fcitx_handler_table_first_id t k = Some (case map_of M k of None \<Rightarrow> - 1 | Some xs \<Rightarrow> next_id xs)"
    and "fcitx_handler_table_last_id t k = Some (case map_of M k of None \<Rightarrow> - 1 | Some xs \<Rightarrow> prev_id xs)"
proof -
  have "map_of (keys_of M) k = map_option hkey (map_of M k)"
    by (simp add: keys_of_def map_of_map)
  then have "ht_key t k = map_option hkey (map_of M k)"
    using uh.lookup_items [of "ht_keys t"] representsD(2,5) [OF assms] by (simp add: ht_key_def)
  then show "fcitx_handler_table_first_id t k = Some (case map_of M k of None \<Rightarrow> - 1 | Some xs \<Rightarrow> next_id xs)"
    "fcitx_handler_table_last_id t k = Some (case map_of M k of None \<Rightarrow> - 1 | Some xs \<Rightarrow> prev_id xs)"
    by (auto simp: fcitx_handler_table_first_id_def fcitx_handler_table_last_id_def
        fcitx_handler_table_find_key_def hkey_ends FCITX_OBJECT_POOL_INVALID_ID_def split: option.split)
qed

lemma handler_next:
  assumes "represents t M" and "(k, xs) \<in> set M" and "j < length xs"
  shows "fcitx_handler_table_next_id t (int (fst (xs ! j))) = Some (next_id (drop (Suc j) xs))"
    and "fcitx_handler_table_get_by_id t (int (fst (xs ! j))) = Some (Some (snd (xs ! j)))"
  using representsD(6) [OF assms(1,2)] assms(3)
  by (auto simp: nodes_ok_def fcitx_handler_table_next_id_def fcitx_handler_table_get_by_id_def
      fcitx_handler_table_get_obj_def hnode_def next_id_def hd_drop_conv_nth FCITX_OBJECT_POOL_INVALID_ID_def)


text \<open>A concrete table for the witnesses.\<close>

definition sample_table :: "nat handler_table" where
  "sample_table = (case fcitx_handler_table_new_with_keydata of None \<Rightarrow> undefined
     | Some t \<Rightarrow> (case fcitx_handler_table_append t [0x61] 7 of None \<Rightarrow> undefined
        | Some (i, t1) \<Rightarrow> t1))"

lemma sample_represents: "\<exists>i. represents sample_table [([0x61], [(i, 7)])]"
proof -
  obtain t :: "nat handler_table" where t: "fcitx_handler_table_new_with_keydata = Some t" "represents t []"
    using new_table by blast
  from find_key_create [OF t(2), of "[0x61]"] obtain A xs B t' where
    f: "fcitx_handler_table_find_key t [0x61] True = (Some [0x61], t')" "represents t' (A @ ([0x61], xs) # B)"
     "\<And>f. A @ ([0x61], f xs) # B = put_entries [] [0x61] f" by blast
  from key_append [OF f(2), of 7] obtain i t1 where a: "fcitx_handler_key_append t' [0x61] 7 = Some (int i, t1)"
    "represents t1 (A @ ([0x61], xs @ [(i, 7)]) # B)" by blast
  have "A @ ([0x61], xs @ [(i, 7)]) # B = [([0x61], [(i, 7)])]"
    using f(3) [of "\<lambda>xs. xs @ [(i, 7)]"] by (simp add: put_entries_def)
  with a f(1) show ?thesis
    unfolding sample_table_def t(1) by (auto simp: fcitx_handler_table_append_def)
qed

lemma handler_add_witness:
  "\<exists>i t'. fcitx_handler_table_append (the fcitx_handler_table_new_with_keydata) [0x61] (7 :: nat) = Some (int i, t')
     \<and> i \<notin> set (entry_ids ([] :: (buf \<times> nat entries) list)) \<and> represents t' (put_entries [] [0x61] (\<lambda>xs. xs @ [(i, 7)]))"
proof -
  obtain t :: "nat handler_table" where t: "fcitx_handler_table_new_with_keydata = Some t" "represents t []"
    using new_table by blast
  from handler_add [OF t(2), of "[0x61]" 7] show ?thesis unfolding t(1) by simp
qed

lemma handler_remove_witness:
  "\<exists>i t'. fcitx_handler_table_remove_by_id_full sample_table (int i) = Some t' \<and> represents t' []"
proof -
  obtain i where r: "represents sample_table [([0x61], [(i, 7)])]" using sample_represents by blast
  from handler_remove [OF r, of "[0x61]" "[(i, 7)]" i 7] show ?thesis by auto
qed

lemma handler_free_all_witness:
  "\<exists>t'. fcitx_handler_table_free sample_table = Some t' \<and> pool_live (ht_objs t') = {}
     \<and> ht_log t' = ht_log sample_table @ [FreeObj 7, FreeKey [0x61]]"
proof -
  obtain i where r: "represents sample_table [([0x61], [(i, 7)])]" using sample_represents by blast
  from handler_free_all [OF r] show ?thesis by simp
qed

end
