(* ===== verification/MemPool.thy ===== *)
theory MemPool
  imports Utarray Utils_Sys "HOL-Library.Multiset"
begin

text \<open>
  The memory pool of \<open>src/lib/fcitx-utils/memory.c\<close>: chunks of memory from which pieces are
  cut off at the front; a chunk with at most 16 bytes left is put aside. Addresses and sizes are
  words of 64 bits, as \<open>uintptr_t\<close> and \<open>size_t\<close>, and all arithmetic on them wraps;
  the address of a new chunk is what the allocator of the C library returned, the argument
  \<open>fresh\<close>. Releasing the memory again is not modelled.
\<close>

type_synonym uintptr = "64 word"

definition FCITX_MEMORY_POOL_PAGE_SIZE :: uintptr where
  "FCITX_MEMORY_POOL_PAGE_SIZE = 8 * 1024"

definition FCITX_MEMORY_CHUNK_FULL_SIZE :: int where
  "FCITX_MEMORY_CHUNK_FULL_SIZE = 16"

record memory_chunk =
  chunk_cur :: uintptr
  chunk_end :: uintptr
  chunk_memory :: uintptr

record memory_pool =
  fullchunks :: "memory_chunk list"
  chunks :: "memory_chunk list"

definition fcitx_memory_pool_create :: memory_pool where
  "fcitx_memory_pool_create = \<lparr> fullchunks = [], chunks = [] \<rparr>"

text \<open>\<open>fcitx_utils_align_to\<close> with the size of an \<open>int\<close>.\<close>

definition memory_align_ptr :: "uintptr \<Rightarrow> uintptr" where
  "memory_align_ptr p = (let left = p mod 4 in if left \<noteq> 0 then p + 4 - left else p)"

fun pool_find_chunk :: "uintptr \<Rightarrow> bool \<Rightarrow> nat \<Rightarrow> memory_chunk list \<Rightarrow> (nat \<times> uintptr) option" where
  "pool_find_chunk sz align i [] = None"
| "pool_find_chunk sz align i (c # cs) =
     (let result = (if align then memory_align_ptr (chunk_cur c) else chunk_cur c); new = result + sz in
      if new \<le> chunk_end c then Some (i, result)
      else pool_find_chunk sz align (Suc i) cs)"

text \<open>
  The test at the end of the allocation, for the chunk at index \<open>i\<close>: the difference of two
  pointers is a signed number.
\<close>

definition pool_retire_chunk :: "memory_pool \<Rightarrow> nat \<Rightarrow> memory_pool option" where
  "pool_retire_chunk pool i = do {
     c \<leftarrow> utarray_eltptr (chunks pool) i;
     if sint (chunk_end c - chunk_cur c) \<le> FCITX_MEMORY_CHUNK_FULL_SIZE then do {
       cs \<leftarrow> utarray_remove_quick (chunks pool) i;
       Some \<lparr> fullchunks = utarray_push_back (fullchunks pool) c, chunks = cs \<rparr> }
     else Some pool }"

definition pool_chunk_size :: "uintptr \<Rightarrow> uintptr" where
  "pool_chunk_size sz =
     (sz + FCITX_MEMORY_POOL_PAGE_SIZE - 1) div FCITX_MEMORY_POOL_PAGE_SIZE * FCITX_MEMORY_POOL_PAGE_SIZE"

definition fcitx_memory_pool_alloc_align ::
  "memory_pool \<Rightarrow> uintptr \<Rightarrow> bool \<Rightarrow> uintptr \<Rightarrow> (uintptr \<times> memory_pool) option" where
  "fcitx_memory_pool_alloc_align pool sz align fresh =
     (case pool_find_chunk sz align 0 (chunks pool) of
        Some (i, result) \<Rightarrow>
          map_option (Pair result)
            (pool_retire_chunk (pool \<lparr> chunks := (chunks pool)[i := (chunks pool ! i) \<lparr> chunk_cur := result + sz \<rparr>] \<rparr>) i)
      | None \<Rightarrow>
          let c = \<lparr> chunk_cur = fresh + sz, chunk_end = fresh + pool_chunk_size sz, chunk_memory = fresh \<rparr>;
              pool' = pool \<lparr> chunks := utarray_push_back (chunks pool) c \<rparr>
          in map_option (Pair fresh) (pool_retire_chunk pool' (length (chunks pool))))"

definition fcitx_memory_pool_alloc :: "memory_pool \<Rightarrow> uintptr \<Rightarrow> uintptr \<Rightarrow> (uintptr \<times> memory_pool) option" where
  "fcitx_memory_pool_alloc pool sz fresh = fcitx_memory_pool_alloc_align pool sz False fresh"

definition fcitx_memory_pool_clear :: "memory_pool \<Rightarrow> memory_pool" where
  "fcitx_memory_pool_clear pool = pool \<lparr> fullchunks := [], chunks := [] \<rparr>"

section \<open>Memory handed out is never handed out again\<close>

abbreviation pool_blocks :: "memory_pool \<Rightarrow> memory_chunk list" where
  "pool_blocks pool \<equiv> chunks pool @ fullchunks pool"

text \<open>The addresses of a piece, those handed out so far, and all addresses of the chunks.\<close>

definition bytes_at :: "uintptr \<Rightarrow> uintptr \<Rightarrow> nat set" where
  "bytes_at p sz = {unat p..<unat p + unat sz}"

definition used_of :: "memory_chunk \<Rightarrow> nat set" where
  "used_of c = {unat (chunk_memory c)..<unat (chunk_cur c)}"

definition block_of :: "memory_chunk \<Rightarrow> nat set" where
  "block_of c = {unat (chunk_memory c)..<unat (chunk_end c)}"

definition pool_used :: "memory_pool \<Rightarrow> nat set" where
  "pool_used pool = (\<Union>c\<in>set (pool_blocks pool). used_of c)"

definition pool_memory :: "memory_pool \<Rightarrow> nat set" where
  "pool_memory pool = (\<Union>c\<in>set (pool_blocks pool). block_of c)"

definition chunk_wf :: "memory_chunk \<Rightarrow> bool" where
  "chunk_wf c \<longleftrightarrow> chunk_memory c \<le> chunk_cur c \<and> chunk_cur c \<le> chunk_end c"

abbreviation apart :: "memory_chunk \<Rightarrow> memory_chunk \<Rightarrow> bool" where
  "apart a b \<equiv> block_of a \<inter> block_of b = {}"

definition mempool_wf :: "memory_pool \<Rightarrow> bool" where
  "mempool_wf pool \<longleftrightarrow> (\<forall>c\<in>set (pool_blocks pool). chunk_wf c) \<and> sorted_wrt apart (pool_blocks pool)"

lemma sorted_wrt_sym_mset:
  assumes sym: "\<And>a b. R a b \<Longrightarrow> R b a"
  shows "mset xs = mset ys \<Longrightarrow> sorted_wrt R xs \<Longrightarrow> sorted_wrt R ys"
proof (induction ys arbitrary: xs)
  case (Cons y ys)
  then obtain a b where xs: "xs = a @ y # b" by (metis list.set_intros(1) set_mset_mset split_list)
  with Cons.prems have "mset (a @ b) = mset ys" by simp
  moreover have "sorted_wrt R (a @ b)" using Cons.prems(2) xs by (auto simp: sorted_wrt_append)
  moreover have "\<forall>x\<in>set (a @ b). R y x" using Cons.prems(2) xs sym by (auto simp: sorted_wrt_append)
  ultimately show ?case using Cons.IH [of "a @ b"] by (metis set_mset_mset sorted_wrt.simps(2))
qed simp

lemma remove_quick_mset:
  "utarray_remove_quick a i = Some a' \<Longrightarrow> mset a = add_mset (a ! i) (mset a') \<and> i < length a"
proof -
  assume r: "utarray_remove_quick a i = Some a'"
  then have i: "i < length a" by (auto simp: utarray_remove_quick_def split: if_splits)
  then obtain b x where a: "a = b @ [x]" by (metis append_butlast_last_id length_0_conv not_less0)
  show ?thesis
  proof (cases "i = length b")
    case True
    with r a show ?thesis by (auto simp: utarray_remove_quick_def)
  next
    case False
    then have ib: "i < length b" using i a by simp
    then have "a' = b[i := x]"
      using r a by (auto simp: utarray_remove_quick_def list_update_append butlast_append split: if_splits)
    then have "mset a' = add_mset x (mset b - {#b ! i#})" using ib by (simp add: mset_update)
    moreover have "b ! i \<in># mset b" using ib by simp
    ultimately show ?thesis using a ib by (simp add: nth_append)
  qed
qed

lemma retire_chunk:
  assumes "i < length (chunks pool)"
  shows "\<exists>p'. pool_retire_chunk pool i = Some p' \<and> mset (pool_blocks p') = mset (pool_blocks pool)"
proof -
  let ?c = "chunks pool ! i"
  obtain cs where cs: "utarray_remove_quick (chunks pool) i = Some cs"
    using assms by (auto simp: utarray_remove_quick_def)
  with remove_quick_mset [OF cs] assms show ?thesis
    by (auto simp: pool_retire_chunk_def utarray_eltptr_def utarray_push_back_def)
qed

lemma pool_props_mset:
  assumes "mset (pool_blocks p') = mset (pool_blocks p)"
  shows "pool_used p' = pool_used p" "pool_memory p' = pool_memory p" "mempool_wf p' = mempool_wf p"
proof -
  have s: "set (pool_blocks p') = set (pool_blocks p)" using assms by (rule mset_eq_setD)
  then show "pool_used p' = pool_used p" "pool_memory p' = pool_memory p"
    by (simp_all add: pool_used_def pool_memory_def)
  have sym: "apart b a" if "apart a b" for a b using that by blast
  have "sorted_wrt apart (pool_blocks p') = sorted_wrt apart (pool_blocks p)"
    using sorted_wrt_sym_mset [of apart, OF sym assms] sorted_wrt_sym_mset [of apart, OF sym assms [symmetric]]
    by blast
  with s show "mempool_wf p' = mempool_wf p" by (simp add: mempool_wf_def)
qed

section \<open>Sums that do not wrap\<close>

lemma unat_add_small: "unat a + unat b < 2 ^ 64 \<Longrightarrow> unat (a + b) = unat a + unat b" for a b :: uintptr
  by (simp add: unat_word_ariths)

lemma unat_mod_4: "unat (p mod 4) = unat p mod 4" for p :: uintptr
  by (simp add: unat_mod)

lemma align_ptr:
  assumes "unat p + 3 < 2 ^ 64"
  shows "unat p \<le> unat (memory_align_ptr p)" "unat (memory_align_ptr p) \<le> unat p + 3" "memory_align_ptr p mod 4 = 0"
proof -
  have a: "unat (memory_align_ptr p) = (if unat p mod 4 = 0 then unat p else unat p + 4 - unat p mod 4)"
  proof (cases "p mod 4 = 0")
    case True
    then show ?thesis using unat_mod_4 [of p] by (simp add: memory_align_ptr_def)
  next
    case False
    then have nz: "unat p mod 4 \<noteq> 0" by (metis unat_mod_4 unat_eq_zero)
    have "unat (4 - p mod 4) = 4 - unat p mod 4"
    proof -
      have "p mod 4 \<le> 4" unfolding word_le_nat_alt unat_mod_4 by simp
      from unat_sub [OF this] show ?thesis by (simp add: unat_mod_4)
    qed
    moreover from this nz assms have "unat p + unat (4 - p mod 4) < 2 ^ 64" by simp
    moreover have "memory_align_ptr p = p + (4 - p mod 4)" using False by (simp add: memory_align_ptr_def Let_def)
    ultimately show ?thesis using nz unat_add_small [of p "4 - p mod 4"] by simp
  qed
  then show "unat p \<le> unat (memory_align_ptr p)" "unat (memory_align_ptr p) \<le> unat p + 3" by presburger+
  have "unat (memory_align_ptr p mod 4) = 0" unfolding unat_mod_4 a by presburger
  then show "memory_align_ptr p mod 4 = 0" by (simp add: unat_eq_zero)
qed

lemma chunk_size:
  assumes "unat sz + 8191 < 2 ^ 64"
  shows "unat (pool_chunk_size sz) = (unat sz + 8191) div 8192 * 8192" "unat sz \<le> unat (pool_chunk_size sz)"
proof -
  have "unat (sz + 8191) = unat sz + 8191" using unat_add_small [of sz 8191] assms by simp
  moreover have "pool_chunk_size sz = (sz + 8191) div 8192 * 8192"
    by (simp add: pool_chunk_size_def FCITX_MEMORY_POOL_PAGE_SIZE_def add_diff_eq [symmetric])
  moreover have "(unat sz + 8191) div 8192 * 8192 < 2 ^ 64" using assms by linarith
  ultimately show "unat (pool_chunk_size sz) = (unat sz + 8191) div 8192 * 8192"
    by (simp add: unat_word_ariths unat_div)
  then show "unat sz \<le> unat (pool_chunk_size sz)" by simp
qed

lemma find_chunk:
  "pool_find_chunk sz align k cs = Some (i, r) \<Longrightarrow>
   \<forall>c\<in>set cs. unat (chunk_cur c) + 3 + unat sz < 2 ^ 64 \<Longrightarrow>
   k \<le> i \<and> i - k < length cs \<and> unat (chunk_cur (cs ! (i - k))) \<le> unat r \<and> unat (r + sz) = unat r + unat sz \<and>
   unat r + unat sz \<le> unat (chunk_end (cs ! (i - k))) \<and> (align \<longrightarrow> r mod 4 = 0)"
proof (induction cs arbitrary: k)
  case (Cons c cs)
  let ?r = "if align then memory_align_ptr (chunk_cur c) else chunk_cur c"
  have small: "unat (chunk_cur c) + 3 < 2 ^ 64" "unat (chunk_cur c) + 3 + unat sz < 2 ^ 64" using Cons.prems(2) by simp_all
  have r: "unat (chunk_cur c) \<le> unat ?r" "unat ?r \<le> unat (chunk_cur c) + 3" "align \<longrightarrow> ?r mod 4 = 0"
    using align_ptr [OF small(1)] by auto
  show ?case
  proof (cases "?r + sz \<le> chunk_end c")
    case True
    then have e: "i = k" "r = ?r" using Cons.prems(1) by (auto simp: Let_def)
    have "unat (?r + sz) = unat ?r + unat sz" using r(2) small(2) by (intro unat_add_small) linarith
    with True have "unat ?r + unat sz \<le> unat (chunk_end c)" "unat (?r + sz) = unat ?r + unat sz"
      by (simp_all only: word_le_nat_alt)
    with e r show ?thesis by simp
  next
    case False
    with Cons.prems(1) have "pool_find_chunk sz align (Suc k) cs = Some (i, r)" by (simp add: Let_def)
    from Cons.IH [OF this] Cons.prems(2) show ?thesis by (auto simp: nth_Cons' Suc_diff_le)
  qed
qed simp

text \<open>
  C10: The pool never hands out memory twice as long as no address wraps. On a well-formed pool,
  for a request so small that \<open>sz\<close> rounded up to whole pages is below \<open>2^64\<close>, and so is the end
  of every chunk with \<open>sz\<close> and the alignment added, and given a new block of the C library inside
  the address space that does not overlap the chunks, \<open>fcitx_memory_pool_alloc_align\<close> returns
  \<open>sz\<close> bytes inside the memory of the pool, disjoint from all bytes handed out before,
  which stay handed out; the address is aligned when that is asked for, and the pool remains
  well-formed. Without these bounds it does hand out memory twice (\<open>pool_alloc_wraps\<close>).
\<close>

theorem pool_alloc_disjoint:
  assumes wf: "mempool_wf pool"
    and bound: "unat sz + 8191 < 2 ^ 64" "\<forall>c\<in>set (chunks pool). unat (chunk_end c) + 3 + unat sz < 2 ^ 64"
    and fresh: "bytes_at fresh (pool_chunk_size sz) \<inter> pool_memory pool = {}" "fresh mod 4 = 0"
      "unat fresh + unat (pool_chunk_size sz) < 2 ^ 64"
  shows "\<exists>r pool'. fcitx_memory_pool_alloc_align pool sz align fresh = Some (r, pool')
    \<and> mempool_wf pool' \<and> bytes_at r sz \<inter> pool_used pool = {} \<and> bytes_at r sz \<subseteq> pool_used pool'
    \<and> pool_used pool \<subseteq> pool_used pool' \<and> pool_used pool' \<subseteq> pool_memory pool' \<and> (align \<longrightarrow> r mod 4 = 0)"
proof -
  have used_mem: "pool_used p \<subseteq> pool_memory p" if "mempool_wf p" for p
  proof -
    have "used_of c \<subseteq> block_of c" if "c \<in> set (pool_blocks p)" for c
      using that \<open>mempool_wf p\<close> by (auto simp: used_of_def block_of_def mempool_wf_def chunk_wf_def word_le_nat_alt)
    then show ?thesis unfolding pool_used_def pool_memory_def by blast
  qed
  show ?thesis
  proof (cases "pool_find_chunk sz align 0 (chunks pool)")
    case (Some p)
    obtain i r where p: "p = (i, r)" by (cases p)
    let ?cs = "chunks pool"
    have "unat (chunk_cur c) + 3 + unat sz < 2 ^ 64" if "c \<in> set ?cs" for c
    proof -
      have "chunk_wf c" using wf that by (simp add: mempool_wf_def)
      then have "unat (chunk_cur c) \<le> unat (chunk_end c)" by (simp add: chunk_wf_def word_le_nat_alt)
      moreover have "unat (chunk_end c) + 3 + unat sz < 2 ^ 64" using bound(2) that by blast
      ultimately show ?thesis by linarith
    qed
    with find_chunk [OF Some [unfolded p]] have i: "i < length ?cs" "unat (chunk_cur (?cs ! i)) \<le> unat r"
      "unat r + unat sz \<le> unat (chunk_end (?cs ! i))" "align \<longrightarrow> r mod 4 = 0" "unat (r + sz) = unat r + unat sz" by auto
    let ?c' = "(?cs ! i) \<lparr> chunk_cur := r + sz \<rparr>"
    define p1 where "p1 = pool \<lparr> chunks := ?cs[i := ?c'] \<rparr>"
    obtain p' where p': "pool_retire_chunk p1 i = Some p'" "mset (pool_blocks p') = mset (pool_blocks p1)"
      using retire_chunk [of i p1] i(1) by (auto simp: p1_def)
    define a where "a = take i ?cs"
    define b where "b = drop (Suc i) ?cs @ fullchunks pool"
    have bl: "pool_blocks pool = a @ ?cs ! i # b" "pool_blocks p1 = a @ ?c' # b"
      using i(1) by (simp_all add: p1_def a_def b_def id_take_nth_drop upd_conv_take_nth_drop)
    have wfc: "chunk_wf (?cs ! i)" using wf i(1) by (simp add: mempool_wf_def)
    have wf1: "mempool_wf p1"
      using wf wfc i unfolding mempool_wf_def bl
      by (auto simp: chunk_wf_def block_of_def sorted_wrt_append word_le_nat_alt)
    have "bytes_at r sz \<inter> used_of x = {}" if "x \<in> set a \<union> set b" for x
    proof -
      have "block_of x \<inter> block_of (?cs ! i) = {}"
        using wf that unfolding mempool_wf_def bl by (auto simp: sorted_wrt_append)
      moreover have "bytes_at r sz \<subseteq> block_of (?cs ! i)"
        using i wfc by (auto simp: block_of_def chunk_wf_def bytes_at_def word_le_nat_alt)
      moreover have "used_of x \<subseteq> block_of x"
        using wf that unfolding mempool_wf_def bl by (auto simp: used_of_def block_of_def chunk_wf_def word_le_nat_alt)
      ultimately show ?thesis by blast
    qed
    moreover have "bytes_at r sz \<inter> used_of (?cs ! i) = {}" using i by (auto simp: used_of_def bytes_at_def)
    ultimately have "bytes_at r sz \<inter> pool_used pool = {}" unfolding pool_used_def bl by auto
    moreover have "bytes_at r sz \<subseteq> pool_used p1" "pool_used pool \<subseteq> pool_used p1"
      using i wfc unfolding pool_used_def bl by (auto simp: used_of_def chunk_wf_def bytes_at_def word_le_nat_alt)
    moreover note pool_props_mset [OF p'(2)] used_mem [OF wf1]
    ultimately show ?thesis
      using Some p p'(1) wf1 i(4) unfolding fcitx_memory_pool_alloc_align_def p1_def by auto
  next
    case None
    let ?c = "\<lparr> chunk_cur = fresh + sz, chunk_end = fresh + pool_chunk_size sz, chunk_memory = fresh \<rparr>"
    define p1 where "p1 = pool \<lparr> chunks := chunks pool @ [?c] \<rparr>"
    obtain p' where p': "pool_retire_chunk p1 (length (chunks pool)) = Some p'" "mset (pool_blocks p') = mset (pool_blocks p1)"
      using retire_chunk [of "length (chunks pool)" p1] by (auto simp: p1_def)
    have ends: "unat (fresh + pool_chunk_size sz) = unat fresh + unat (pool_chunk_size sz)"
      "unat (fresh + sz) = unat fresh + unat sz"
      using fresh(3) chunk_size(2) [OF bound(1)] by (intro unat_add_small; linarith)+
    then have wfc: "chunk_wf ?c" using chunk_size(2) [OF bound(1)] by (simp add: chunk_wf_def word_le_nat_alt)
    have block: "block_of ?c = bytes_at fresh (pool_chunk_size sz)" by (simp add: block_of_def bytes_at_def ends)
    have free: "block_of ?c \<inter> block_of x = {}" if "x \<in> set (pool_blocks pool)" for x
    proof -
      have "block_of x \<subseteq> pool_memory pool" using that by (auto simp: pool_memory_def)
      with block show ?thesis using fresh(1) by blast
    qed
    have wf1: "mempool_wf p1"
      using wf wfc free unfolding mempool_wf_def by (auto simp: p1_def sorted_wrt_append)
    have "bytes_at fresh sz \<subseteq> block_of ?c"
      using chunk_size(2) [OF bound(1)] by (auto simp: block bytes_at_def)
    then have "bytes_at fresh sz \<inter> pool_used pool = {}"
      using free used_mem [OF wf] by (fastforce simp: pool_memory_def)
    moreover have "bytes_at fresh sz \<subseteq> pool_used p1" "pool_used pool \<subseteq> pool_used p1"
      by (auto simp: pool_used_def p1_def used_of_def bytes_at_def ends)
    moreover note pool_props_mset [OF p'(2)] used_mem [OF wf1]
    ultimately show ?thesis
      using None p'(1) wf1 fresh(2) unfolding fcitx_memory_pool_alloc_align_def p1_def
      by (auto simp: Let_def utarray_push_back_def)
  qed
qed

text \<open>A pool with one chunk of a page, of which the first 102 bytes are handed out.\<close>

definition sample_pool :: memory_pool where
  "sample_pool = \<lparr> fullchunks = [], chunks = [\<lparr> chunk_cur = 4198, chunk_end = 12288, chunk_memory = 4096 \<rparr>] \<rparr>"

lemma pool_alloc_disjoint_witness:
  "\<exists>r pool'. fcitx_memory_pool_alloc_align sample_pool 100 True 16384 = Some (r, pool') \<and> mempool_wf pool' \<and>
     bytes_at r 100 \<inter> pool_used sample_pool = {} \<and> bytes_at r 100 \<subseteq> pool_used pool' \<and> r mod 4 = 0"
proof -
  have "pool_chunk_size 100 = 8192" by (simp add: pool_chunk_size_def FCITX_MEMORY_POOL_PAGE_SIZE_def)
  then have "mempool_wf sample_pool" "unat (100::uintptr) + 8191 < 2 ^ 64"
    "\<forall>c\<in>set (chunks sample_pool). unat (chunk_end c) + 3 + unat (100::uintptr) < 2 ^ 64"
    "bytes_at 16384 (pool_chunk_size 100) \<inter> pool_memory sample_pool = {}" "(16384::uintptr) mod 4 = 0"
    "unat (16384::uintptr) + unat (pool_chunk_size 100) < 2 ^ 64"
    by (simp_all add: sample_pool_def mempool_wf_def chunk_wf_def pool_memory_def block_of_def bytes_at_def)
  from pool_alloc_disjoint [OF this, of True] show ?thesis
    by (simp only: simp_thms) (elim exE conjE, intro exI conjI; assumption)
qed

text \<open>
  The table engine asks for \<open>sizeof(RULE) * (iCodeLength - 1)\<close> bytes with a code length from
  the file; for the length 0 these are 16 less than \<open>2^64\<close>. The end of the request wraps and is
  below the end of the chunk, so the front of the chunk moves back, and the next request gets
  bytes that were handed out before.
\<close>

lemma pool_alloc_wraps:
  "mempool_wf sample_pool"
  "\<exists>pool'. fcitx_memory_pool_alloc sample_pool (- 16) fresh = Some (4198, pool') \<and>
     (\<exists>pool''. fcitx_memory_pool_alloc pool' 4 fresh' = Some (4182, pool'')) \<and> bytes_at 4182 4 \<subseteq> pool_used sample_pool"
proof -
  show "mempool_wf sample_pool" by (simp add: sample_pool_def mempool_wf_def chunk_wf_def)
  let ?p = "\<lparr> fullchunks = [], chunks = [\<lparr> chunk_cur = 4182, chunk_end = 12288, chunk_memory = 4096 \<rparr>] \<rparr>"
  have "fcitx_memory_pool_alloc sample_pool (- 16) fresh = Some (4198, ?p)"
    by (simp add: fcitx_memory_pool_alloc_def fcitx_memory_pool_alloc_align_def sample_pool_def pool_retire_chunk_def
        utarray_eltptr_def FCITX_MEMORY_CHUNK_FULL_SIZE_def Let_def)
  moreover have "\<exists>pool''. fcitx_memory_pool_alloc ?p 4 fresh' = Some (4182, pool'')"
    by (simp add: fcitx_memory_pool_alloc_def fcitx_memory_pool_alloc_align_def pool_retire_chunk_def
        utarray_eltptr_def FCITX_MEMORY_CHUNK_FULL_SIZE_def Let_def)
  moreover have "bytes_at 4182 4 \<subseteq> pool_used sample_pool"
    by (auto simp: bytes_at_def pool_used_def used_of_def sample_pool_def)
  ultimately show
    "\<exists>pool'. fcitx_memory_pool_alloc sample_pool (- 16) fresh = Some (4198, pool') \<and>
     (\<exists>pool''. fcitx_memory_pool_alloc pool' 4 fresh' = Some (4182, pool'')) \<and> bytes_at 4182 4 \<subseteq> pool_used sample_pool"
    by blast
qed

end
