(* ===== verification/KeyData.thy ===== *)
theory KeyData
  imports Prelude
begin

text \<open>
  The key tables of the configuration library: the key symbols by their names in
  \<open>keysymgen.h\<close>, as far as the code that is modelled uses them, the conversion tables of
  \<open>src/lib/fcitx-config/keydata.h\<close> and the key names of \<open>hotkey.c\<close>, line by line. Table
  entries are integers; the tables are cut into pieces that are joined at the end.
\<close>

section \<open>Key symbols and modifiers\<close>

abbreviation FcitxKey_space :: uint32 where "FcitxKey_space \<equiv> 0x20"
abbreviation FcitxKey_asterisk :: uint32 where "FcitxKey_asterisk \<equiv> 0x2a"
abbreviation FcitxKey_plus :: uint32 where "FcitxKey_plus \<equiv> 0x2b"
abbreviation FcitxKey_comma :: uint32 where "FcitxKey_comma \<equiv> 0x2c"
abbreviation FcitxKey_minus :: uint32 where "FcitxKey_minus \<equiv> 0x2d"
abbreviation FcitxKey_period :: uint32 where "FcitxKey_period \<equiv> 0x2e"
abbreviation FcitxKey_slash :: uint32 where "FcitxKey_slash \<equiv> 0x2f"
abbreviation FcitxKey_0 :: uint32 where "FcitxKey_0 \<equiv> 0x30"
abbreviation FcitxKey_1 :: uint32 where "FcitxKey_1 \<equiv> 0x31"
abbreviation FcitxKey_2 :: uint32 where "FcitxKey_2 \<equiv> 0x32"
abbreviation FcitxKey_3 :: uint32 where "FcitxKey_3 \<equiv> 0x33"
abbreviation FcitxKey_4 :: uint32 where "FcitxKey_4 \<equiv> 0x34"
abbreviation FcitxKey_5 :: uint32 where "FcitxKey_5 \<equiv> 0x35"
abbreviation FcitxKey_6 :: uint32 where "FcitxKey_6 \<equiv> 0x36"
abbreviation FcitxKey_7 :: uint32 where "FcitxKey_7 \<equiv> 0x37"
abbreviation FcitxKey_8 :: uint32 where "FcitxKey_8 \<equiv> 0x38"
abbreviation FcitxKey_9 :: uint32 where "FcitxKey_9 \<equiv> 0x39"
abbreviation FcitxKey_equal :: uint32 where "FcitxKey_equal \<equiv> 0x3d"
abbreviation FcitxKey_A :: uint32 where "FcitxKey_A \<equiv> 0x41"
abbreviation FcitxKey_Z :: uint32 where "FcitxKey_Z \<equiv> 0x5a"
abbreviation FcitxKey_a :: uint32 where "FcitxKey_a \<equiv> 0x61"
abbreviation FcitxKey_z :: uint32 where "FcitxKey_z \<equiv> 0x7a"
abbreviation FcitxKey_asciitilde :: uint32 where "FcitxKey_asciitilde \<equiv> 0x7e"
abbreviation FcitxKey_ISO_Left_Tab :: uint32 where "FcitxKey_ISO_Left_Tab \<equiv> 0xfe20"
abbreviation FcitxKey_Tab :: uint32 where "FcitxKey_Tab \<equiv> 0xff09"
abbreviation FcitxKey_Return :: uint32 where "FcitxKey_Return \<equiv> 0xff0d"
abbreviation FcitxKey_Home :: uint32 where "FcitxKey_Home \<equiv> 0xff50"
abbreviation FcitxKey_Left :: uint32 where "FcitxKey_Left \<equiv> 0xff51"
abbreviation FcitxKey_Up :: uint32 where "FcitxKey_Up \<equiv> 0xff52"
abbreviation FcitxKey_Right :: uint32 where "FcitxKey_Right \<equiv> 0xff53"
abbreviation FcitxKey_Down :: uint32 where "FcitxKey_Down \<equiv> 0xff54"
abbreviation FcitxKey_Page_Up :: uint32 where "FcitxKey_Page_Up \<equiv> 0xff55"
abbreviation FcitxKey_Page_Down :: uint32 where "FcitxKey_Page_Down \<equiv> 0xff56"
abbreviation FcitxKey_End :: uint32 where "FcitxKey_End \<equiv> 0xff57"
abbreviation FcitxKey_Begin :: uint32 where "FcitxKey_Begin \<equiv> 0xff58"
abbreviation FcitxKey_Insert :: uint32 where "FcitxKey_Insert \<equiv> 0xff63"
abbreviation FcitxKey_KP_Space :: uint32 where "FcitxKey_KP_Space \<equiv> 0xff80"
abbreviation FcitxKey_KP_Tab :: uint32 where "FcitxKey_KP_Tab \<equiv> 0xff89"
abbreviation FcitxKey_KP_Enter :: uint32 where "FcitxKey_KP_Enter \<equiv> 0xff8d"
abbreviation FcitxKey_KP_F1 :: uint32 where "FcitxKey_KP_F1 \<equiv> 0xff91"
abbreviation FcitxKey_KP_F2 :: uint32 where "FcitxKey_KP_F2 \<equiv> 0xff92"
abbreviation FcitxKey_KP_F3 :: uint32 where "FcitxKey_KP_F3 \<equiv> 0xff93"
abbreviation FcitxKey_KP_F4 :: uint32 where "FcitxKey_KP_F4 \<equiv> 0xff94"
abbreviation FcitxKey_KP_Home :: uint32 where "FcitxKey_KP_Home \<equiv> 0xff95"
abbreviation FcitxKey_KP_Left :: uint32 where "FcitxKey_KP_Left \<equiv> 0xff96"
abbreviation FcitxKey_KP_Up :: uint32 where "FcitxKey_KP_Up \<equiv> 0xff97"
abbreviation FcitxKey_KP_Right :: uint32 where "FcitxKey_KP_Right \<equiv> 0xff98"
abbreviation FcitxKey_KP_Down :: uint32 where "FcitxKey_KP_Down \<equiv> 0xff99"
abbreviation FcitxKey_KP_Page_Up :: uint32 where "FcitxKey_KP_Page_Up \<equiv> 0xff9a"
abbreviation FcitxKey_KP_Page_Down :: uint32 where "FcitxKey_KP_Page_Down \<equiv> 0xff9b"
abbreviation FcitxKey_KP_End :: uint32 where "FcitxKey_KP_End \<equiv> 0xff9c"
abbreviation FcitxKey_KP_Begin :: uint32 where "FcitxKey_KP_Begin \<equiv> 0xff9d"
abbreviation FcitxKey_KP_Insert :: uint32 where "FcitxKey_KP_Insert \<equiv> 0xff9e"
abbreviation FcitxKey_KP_Delete :: uint32 where "FcitxKey_KP_Delete \<equiv> 0xff9f"
abbreviation FcitxKey_KP_Multiply :: uint32 where "FcitxKey_KP_Multiply \<equiv> 0xffaa"
abbreviation FcitxKey_KP_Add :: uint32 where "FcitxKey_KP_Add \<equiv> 0xffab"
abbreviation FcitxKey_KP_Separator :: uint32 where "FcitxKey_KP_Separator \<equiv> 0xffac"
abbreviation FcitxKey_KP_Subtract :: uint32 where "FcitxKey_KP_Subtract \<equiv> 0xffad"
abbreviation FcitxKey_KP_Decimal :: uint32 where "FcitxKey_KP_Decimal \<equiv> 0xffae"
abbreviation FcitxKey_KP_Divide :: uint32 where "FcitxKey_KP_Divide \<equiv> 0xffaf"
abbreviation FcitxKey_KP_0 :: uint32 where "FcitxKey_KP_0 \<equiv> 0xffb0"
abbreviation FcitxKey_KP_1 :: uint32 where "FcitxKey_KP_1 \<equiv> 0xffb1"
abbreviation FcitxKey_KP_2 :: uint32 where "FcitxKey_KP_2 \<equiv> 0xffb2"
abbreviation FcitxKey_KP_3 :: uint32 where "FcitxKey_KP_3 \<equiv> 0xffb3"
abbreviation FcitxKey_KP_4 :: uint32 where "FcitxKey_KP_4 \<equiv> 0xffb4"
abbreviation FcitxKey_KP_5 :: uint32 where "FcitxKey_KP_5 \<equiv> 0xffb5"
abbreviation FcitxKey_KP_6 :: uint32 where "FcitxKey_KP_6 \<equiv> 0xffb6"
abbreviation FcitxKey_KP_7 :: uint32 where "FcitxKey_KP_7 \<equiv> 0xffb7"
abbreviation FcitxKey_KP_8 :: uint32 where "FcitxKey_KP_8 \<equiv> 0xffb8"
abbreviation FcitxKey_KP_9 :: uint32 where "FcitxKey_KP_9 \<equiv> 0xffb9"
abbreviation FcitxKey_KP_Equal :: uint32 where "FcitxKey_KP_Equal \<equiv> 0xffbd"
abbreviation FcitxKey_F1 :: uint32 where "FcitxKey_F1 \<equiv> 0xffbe"
abbreviation FcitxKey_F2 :: uint32 where "FcitxKey_F2 \<equiv> 0xffbf"
abbreviation FcitxKey_F3 :: uint32 where "FcitxKey_F3 \<equiv> 0xffc0"
abbreviation FcitxKey_F4 :: uint32 where "FcitxKey_F4 \<equiv> 0xffc1"
abbreviation FcitxKey_Shift_L :: uint32 where "FcitxKey_Shift_L \<equiv> 0xffe1"
abbreviation FcitxKey_Shift_R :: uint32 where "FcitxKey_Shift_R \<equiv> 0xffe2"
abbreviation FcitxKey_Control_L :: uint32 where "FcitxKey_Control_L \<equiv> 0xffe3"
abbreviation FcitxKey_Control_R :: uint32 where "FcitxKey_Control_R \<equiv> 0xffe4"
abbreviation FcitxKey_Alt_L :: uint32 where "FcitxKey_Alt_L \<equiv> 0xffe9"
abbreviation FcitxKey_Alt_R :: uint32 where "FcitxKey_Alt_R \<equiv> 0xffea"
abbreviation FcitxKey_Super_L :: uint32 where "FcitxKey_Super_L \<equiv> 0xffeb"
abbreviation FcitxKey_Super_R :: uint32 where "FcitxKey_Super_R \<equiv> 0xffec"
abbreviation FcitxKey_Hyper_L :: uint32 where "FcitxKey_Hyper_L \<equiv> 0xffed"
abbreviation FcitxKey_Hyper_R :: uint32 where "FcitxKey_Hyper_R \<equiv> 0xffee"
abbreviation FcitxKey_Delete :: uint32 where "FcitxKey_Delete \<equiv> 0xffff"

abbreviation FcitxKeyState_None :: uint32 where "FcitxKeyState_None \<equiv> 0"
abbreviation FcitxKeyState_Shift :: uint32 where "FcitxKeyState_Shift \<equiv> 0x1"
abbreviation FcitxKeyState_CapsLock :: uint32 where "FcitxKeyState_CapsLock \<equiv> 0x2"
abbreviation FcitxKeyState_Ctrl :: uint32 where "FcitxKeyState_Ctrl \<equiv> 0x4"
abbreviation FcitxKeyState_Alt :: uint32 where "FcitxKeyState_Alt \<equiv> 0x8"
abbreviation FcitxKeyState_Ctrl_Shift :: uint32 where "FcitxKeyState_Ctrl_Shift \<equiv> 0x5"
abbreviation FcitxKeyState_Ctrl_Alt_Shift :: uint32 where "FcitxKeyState_Ctrl_Alt_Shift \<equiv> 0xd"
abbreviation FcitxKeyState_Super :: uint32 where "FcitxKeyState_Super \<equiv> 0x40"
abbreviation FcitxKeyState_HandledMask :: uint32 where "FcitxKeyState_HandledMask \<equiv> 0x1000000"
abbreviation FcitxKeyState_IgnoredMask :: uint32 where "FcitxKeyState_IgnoredMask \<equiv> 0x2000000"
abbreviation FcitxKeyState_Super2 :: uint32 where "FcitxKeyState_Super2 \<equiv> 0x4000000"
abbreviation FcitxKeyState_Hyper :: uint32 where "FcitxKeyState_Hyper \<equiv> 0x8000000"
abbreviation FcitxKeyState_Meta :: uint32 where "FcitxKeyState_Meta \<equiv> 0x10000000"
abbreviation FcitxKeyState_SimpleMask :: uint32 where "FcitxKeyState_SimpleMask \<equiv> 0x1c00004d"

section \<open>Key symbols and Unicode\<close>

text \<open>Pairs of a key symbol and a character.\<close>

definition gdk_keysym_to_unicode_tab_1 :: "(int \<times> int) list" where
  "gdk_keysym_to_unicode_tab_1 = [
     (0x1a1, 0x104), (0x1a2, 0x2d8), (0x1a3, 0x141), (0x1a5, 0x13d), (0x1a6, 0x15a),
     (0x1a9, 0x160), (0x1aa, 0x15e), (0x1ab, 0x164), (0x1ac, 0x179), (0x1ae, 0x17d),
     (0x1af, 0x17b), (0x1b1, 0x105), (0x1b2, 0x2db), (0x1b3, 0x142), (0x1b5, 0x13e),
     (0x1b6, 0x15b), (0x1b7, 0x2c7), (0x1b9, 0x161), (0x1ba, 0x15f), (0x1bb, 0x165),
     (0x1bc, 0x17a), (0x1bd, 0x2dd), (0x1be, 0x17e), (0x1bf, 0x17c), (0x1c0, 0x154),
     (0x1c3, 0x102), (0x1c5, 0x139), (0x1c6, 0x106), (0x1c8, 0x10c), (0x1ca, 0x118),
     (0x1cc, 0x11a), (0x1cf, 0x10e), (0x1d0, 0x110), (0x1d1, 0x143), (0x1d2, 0x147),
     (0x1d5, 0x150), (0x1d8, 0x158), (0x1d9, 0x16e), (0x1db, 0x170), (0x1de, 0x162),
     (0x1e0, 0x155), (0x1e3, 0x103), (0x1e5, 0x13a), (0x1e6, 0x107), (0x1e8, 0x10d),
     (0x1ea, 0x119), (0x1ec, 0x11b), (0x1ef, 0x10f), (0x1f0, 0x111), (0x1f1, 0x144),
     (0x1f2, 0x148), (0x1f5, 0x151), (0x1f8, 0x159), (0x1f9, 0x16f), (0x1fb, 0x171),
     (0x1fe, 0x163), (0x1ff, 0x2d9), (0x2a1, 0x126), (0x2a6, 0x124), (0x2a9, 0x130),
     (0x2ab, 0x11e), (0x2ac, 0x134), (0x2b1, 0x127), (0x2b6, 0x125), (0x2b9, 0x131),
     (0x2bb, 0x11f), (0x2bc, 0x135), (0x2c5, 0x10a), (0x2c6, 0x108), (0x2d5, 0x120),
     (0x2d8, 0x11c), (0x2dd, 0x16c), (0x2de, 0x15c), (0x2e5, 0x10b), (0x2e6, 0x109),
     (0x2f5, 0x121), (0x2f8, 0x11d), (0x2fd, 0x16d), (0x2fe, 0x15d), (0x3a2, 0x138),
     (0x3a3, 0x156), (0x3a5, 0x128), (0x3a6, 0x13b), (0x3aa, 0x112), (0x3ab, 0x122),
     (0x3ac, 0x166), (0x3b3, 0x157), (0x3b5, 0x129), (0x3b6, 0x13c), (0x3ba, 0x113),
     (0x3bb, 0x123), (0x3bc, 0x167), (0x3bd, 0x14a), (0x3bf, 0x14b), (0x3c0, 0x100),
     (0x3c7, 0x12e), (0x3cc, 0x116), (0x3cf, 0x12a), (0x3d1, 0x145), (0x3d2, 0x14c),
     (0x3d3, 0x136), (0x3d9, 0x172), (0x3dd, 0x168), (0x3de, 0x16a), (0x3e0, 0x101),
     (0x3e7, 0x12f), (0x3ec, 0x117), (0x3ef, 0x12b), (0x3f1, 0x146), (0x3f2, 0x14d),
     (0x3f3, 0x137), (0x3f9, 0x173), (0x3fd, 0x169), (0x3fe, 0x16b), (0x47e, 0x203e),
     (0x4a1, 0x3002), (0x4a2, 0x300c), (0x4a3, 0x300d), (0x4a4, 0x3001), (0x4a5, 0x30fb),
     (0x4a6, 0x30f2), (0x4a7, 0x30a1), (0x4a8, 0x30a3), (0x4a9, 0x30a5), (0x4aa, 0x30a7),
     (0x4ab, 0x30a9), (0x4ac, 0x30e3), (0x4ad, 0x30e5), (0x4ae, 0x30e7), (0x4af, 0x30c3),
     (0x4b0, 0x30fc), (0x4b1, 0x30a2), (0x4b2, 0x30a4), (0x4b3, 0x30a6), (0x4b4, 0x30a8),
     (0x4b5, 0x30aa), (0x4b6, 0x30ab), (0x4b7, 0x30ad), (0x4b8, 0x30af), (0x4b9, 0x30b1),
     (0x4ba, 0x30b3), (0x4bb, 0x30b5), (0x4bc, 0x30b7), (0x4bd, 0x30b9), (0x4be, 0x30bb),
     (0x4bf, 0x30bd), (0x4c0, 0x30bf), (0x4c1, 0x30c1)]"

definition gdk_keysym_to_unicode_tab_2 :: "(int \<times> int) list" where
  "gdk_keysym_to_unicode_tab_2 = [
     (0x4c2, 0x30c4), (0x4c3, 0x30c6), (0x4c4, 0x30c8), (0x4c5, 0x30ca), (0x4c6, 0x30cb),
     (0x4c7, 0x30cc), (0x4c8, 0x30cd), (0x4c9, 0x30ce), (0x4ca, 0x30cf), (0x4cb, 0x30d2),
     (0x4cc, 0x30d5), (0x4cd, 0x30d8), (0x4ce, 0x30db), (0x4cf, 0x30de), (0x4d0, 0x30df),
     (0x4d1, 0x30e0), (0x4d2, 0x30e1), (0x4d3, 0x30e2), (0x4d4, 0x30e4), (0x4d5, 0x30e6),
     (0x4d6, 0x30e8), (0x4d7, 0x30e9), (0x4d8, 0x30ea), (0x4d9, 0x30eb), (0x4da, 0x30ec),
     (0x4db, 0x30ed), (0x4dc, 0x30ef), (0x4dd, 0x30f3), (0x4de, 0x309b), (0x4df, 0x309c),
     (0x5ac, 0x60c), (0x5bb, 0x61b), (0x5bf, 0x61f), (0x5c1, 0x621), (0x5c2, 0x622),
     (0x5c3, 0x623), (0x5c4, 0x624), (0x5c5, 0x625), (0x5c6, 0x626), (0x5c7, 0x627),
     (0x5c8, 0x628), (0x5c9, 0x629), (0x5ca, 0x62a), (0x5cb, 0x62b), (0x5cc, 0x62c),
     (0x5cd, 0x62d), (0x5ce, 0x62e), (0x5cf, 0x62f), (0x5d0, 0x630), (0x5d1, 0x631),
     (0x5d2, 0x632), (0x5d3, 0x633), (0x5d4, 0x634), (0x5d5, 0x635), (0x5d6, 0x636),
     (0x5d7, 0x637), (0x5d8, 0x638), (0x5d9, 0x639), (0x5da, 0x63a), (0x5e0, 0x640),
     (0x5e1, 0x641), (0x5e2, 0x642), (0x5e3, 0x643), (0x5e4, 0x644), (0x5e5, 0x645),
     (0x5e6, 0x646), (0x5e7, 0x647), (0x5e8, 0x648), (0x5e9, 0x649), (0x5ea, 0x64a),
     (0x5eb, 0x64b), (0x5ec, 0x64c), (0x5ed, 0x64d), (0x5ee, 0x64e), (0x5ef, 0x64f),
     (0x5f0, 0x650), (0x5f1, 0x651), (0x5f2, 0x652), (0x6a1, 0x452), (0x6a2, 0x453),
     (0x6a3, 0x451), (0x6a4, 0x454), (0x6a5, 0x455), (0x6a6, 0x456), (0x6a7, 0x457),
     (0x6a8, 0x458), (0x6a9, 0x459), (0x6aa, 0x45a), (0x6ab, 0x45b), (0x6ac, 0x45c),
     (0x6ad, 0x491), (0x6ae, 0x45e), (0x6af, 0x45f), (0x6b0, 0x2116), (0x6b1, 0x402),
     (0x6b2, 0x403), (0x6b3, 0x401), (0x6b4, 0x404), (0x6b5, 0x405), (0x6b6, 0x406),
     (0x6b7, 0x407), (0x6b8, 0x408), (0x6b9, 0x409), (0x6ba, 0x40a), (0x6bb, 0x40b),
     (0x6bc, 0x40c), (0x6bd, 0x490), (0x6be, 0x40e), (0x6bf, 0x40f), (0x6c0, 0x44e),
     (0x6c1, 0x430), (0x6c2, 0x431), (0x6c3, 0x446), (0x6c4, 0x434), (0x6c5, 0x435),
     (0x6c6, 0x444), (0x6c7, 0x433), (0x6c8, 0x445), (0x6c9, 0x438), (0x6ca, 0x439),
     (0x6cb, 0x43a), (0x6cc, 0x43b), (0x6cd, 0x43c), (0x6ce, 0x43d), (0x6cf, 0x43e),
     (0x6d0, 0x43f), (0x6d1, 0x44f), (0x6d2, 0x440), (0x6d3, 0x441), (0x6d4, 0x442),
     (0x6d5, 0x443), (0x6d6, 0x436), (0x6d7, 0x432), (0x6d8, 0x44c), (0x6d9, 0x44b),
     (0x6da, 0x437), (0x6db, 0x448), (0x6dc, 0x44d), (0x6dd, 0x449), (0x6de, 0x447),
     (0x6df, 0x44a), (0x6e0, 0x42e), (0x6e1, 0x410), (0x6e2, 0x411), (0x6e3, 0x426),
     (0x6e4, 0x414), (0x6e5, 0x415), (0x6e6, 0x424)]"

definition gdk_keysym_to_unicode_tab_3 :: "(int \<times> int) list" where
  "gdk_keysym_to_unicode_tab_3 = [
     (0x6e7, 0x413), (0x6e8, 0x425), (0x6e9, 0x418), (0x6ea, 0x419), (0x6eb, 0x41a),
     (0x6ec, 0x41b), (0x6ed, 0x41c), (0x6ee, 0x41d), (0x6ef, 0x41e), (0x6f0, 0x41f),
     (0x6f1, 0x42f), (0x6f2, 0x420), (0x6f3, 0x421), (0x6f4, 0x422), (0x6f5, 0x423),
     (0x6f6, 0x416), (0x6f7, 0x412), (0x6f8, 0x42c), (0x6f9, 0x42b), (0x6fa, 0x417),
     (0x6fb, 0x428), (0x6fc, 0x42d), (0x6fd, 0x429), (0x6fe, 0x427), (0x6ff, 0x42a),
     (0x7a1, 0x386), (0x7a2, 0x388), (0x7a3, 0x389), (0x7a4, 0x38a), (0x7a5, 0x3aa),
     (0x7a7, 0x38c), (0x7a8, 0x38e), (0x7a9, 0x3ab), (0x7ab, 0x38f), (0x7ae, 0x385),
     (0x7af, 0x2015), (0x7b1, 0x3ac), (0x7b2, 0x3ad), (0x7b3, 0x3ae), (0x7b4, 0x3af),
     (0x7b5, 0x3ca), (0x7b6, 0x390), (0x7b7, 0x3cc), (0x7b8, 0x3cd), (0x7b9, 0x3cb),
     (0x7ba, 0x3b0), (0x7bb, 0x3ce), (0x7c1, 0x391), (0x7c2, 0x392), (0x7c3, 0x393),
     (0x7c4, 0x394), (0x7c5, 0x395), (0x7c6, 0x396), (0x7c7, 0x397), (0x7c8, 0x398),
     (0x7c9, 0x399), (0x7ca, 0x39a), (0x7cb, 0x39b), (0x7cc, 0x39c), (0x7cd, 0x39d),
     (0x7ce, 0x39e), (0x7cf, 0x39f), (0x7d0, 0x3a0), (0x7d1, 0x3a1), (0x7d2, 0x3a3),
     (0x7d4, 0x3a4), (0x7d5, 0x3a5), (0x7d6, 0x3a6), (0x7d7, 0x3a7), (0x7d8, 0x3a8),
     (0x7d9, 0x3a9), (0x7e1, 0x3b1), (0x7e2, 0x3b2), (0x7e3, 0x3b3), (0x7e4, 0x3b4),
     (0x7e5, 0x3b5), (0x7e6, 0x3b6), (0x7e7, 0x3b7), (0x7e8, 0x3b8), (0x7e9, 0x3b9),
     (0x7ea, 0x3ba), (0x7eb, 0x3bb), (0x7ec, 0x3bc), (0x7ed, 0x3bd), (0x7ee, 0x3be),
     (0x7ef, 0x3bf), (0x7f0, 0x3c0), (0x7f1, 0x3c1), (0x7f2, 0x3c3), (0x7f3, 0x3c2),
     (0x7f4, 0x3c4), (0x7f5, 0x3c5), (0x7f6, 0x3c6), (0x7f7, 0x3c7), (0x7f8, 0x3c8),
     (0x7f9, 0x3c9), (0x8a4, 0x2320), (0x8a5, 0x2321), (0x8a6, 0x2502), (0x8bc, 0x2264),
     (0x8bd, 0x2260), (0x8be, 0x2265), (0x8bf, 0x222b), (0x8c0, 0x2234), (0x8c1, 0x221d),
     (0x8c2, 0x221e), (0x8c5, 0x2207), (0x8c8, 0x2245), (0x8cd, 0x21d4), (0x8ce, 0x21d2),
     (0x8cf, 0x2261), (0x8d6, 0x221a), (0x8da, 0x2282), (0x8db, 0x2283), (0x8dc, 0x2229),
     (0x8dd, 0x222a), (0x8de, 0x2227), (0x8df, 0x2228), (0x8ef, 0x2202), (0x8f6, 0x192),
     (0x8fb, 0x2190), (0x8fc, 0x2191), (0x8fd, 0x2192), (0x8fe, 0x2193), (0x9df, 0x2422),
     (0x9e0, 0x25c6), (0x9e1, 0x2592)]"

definition gdk_keysym_to_unicode_tab_4 :: "(int \<times> int) list" where
  "gdk_keysym_to_unicode_tab_4 = [
     (0x9e2, 0x2409), (0x9e3, 0x240c), (0x9e4, 0x240d), (0x9e5, 0x240a), (0x9e8, 0x2424),
     (0x9e9, 0x240b), (0x9ea, 0x2518), (0x9eb, 0x2510), (0x9ec, 0x250c), (0x9ed, 0x2514),
     (0x9ee, 0x253c), (0x9f1, 0x2500), (0x9f4, 0x251c), (0x9f5, 0x2524), (0x9f6, 0x2534),
     (0x9f7, 0x252c), (0x9f8, 0x2502), (0xaa1, 0x2003), (0xaa2, 0x2002), (0xaa3, 0x2004),
     (0xaa4, 0x2005), (0xaa5, 0x2007), (0xaa6, 0x2008), (0xaa7, 0x2009), (0xaa8, 0x200a),
     (0xaa9, 0x2014), (0xaaa, 0x2013), (0xaae, 0x2026), (0xab0, 0x2153), (0xab1, 0x2154),
     (0xab2, 0x2155), (0xab3, 0x2156), (0xab4, 0x2157), (0xab5, 0x2158), (0xab6, 0x2159),
     (0xab7, 0x215a), (0xab8, 0x2105), (0xabb, 0x2012), (0xabc, 0x2329), (0xabd, 0x2e),
     (0xabe, 0x232a), (0xac3, 0x215b), (0xac4, 0x215c), (0xac5, 0x215d), (0xac6, 0x215e),
     (0xac9, 0x2122), (0xaca, 0x2613), (0xacc, 0x25c1), (0xacd, 0x25b7), (0xace, 0x25cb),
     (0xacf, 0x25a1), (0xad0, 0x2018), (0xad1, 0x2019), (0xad2, 0x201c), (0xad3, 0x201d),
     (0xad4, 0x211e), (0xad6, 0x2032), (0xad7, 0x2033), (0xad9, 0x271d), (0xadb, 0x25ac),
     (0xadc, 0x25c0), (0xadd, 0x25b6), (0xade, 0x25cf), (0xadf, 0x25a0), (0xae0, 0x25e6),
     (0xae1, 0x25ab), (0xae2, 0x25ad), (0xae3, 0x25b3), (0xae4, 0x25bd), (0xae5, 0x2606),
     (0xae6, 0x2022), (0xae7, 0x25aa), (0xae8, 0x25b2), (0xae9, 0x25bc), (0xaea, 0x261c),
     (0xaeb, 0x261e), (0xaec, 0x2663), (0xaed, 0x2666), (0xaee, 0x2665), (0xaf0, 0x2720),
     (0xaf1, 0x2020), (0xaf2, 0x2021), (0xaf3, 0x2713), (0xaf4, 0x2717), (0xaf5, 0x266f),
     (0xaf6, 0x266d), (0xaf7, 0x2642), (0xaf8, 0x2640), (0xaf9, 0x260e), (0xafa, 0x2315),
     (0xafb, 0x2117), (0xafc, 0x2038), (0xafd, 0x201a), (0xafe, 0x201e), (0xba3, 0x3c),
     (0xba6, 0x3e), (0xba8, 0x2228), (0xba9, 0x2227), (0xbc0, 0xaf), (0xbc2, 0x22a4),
     (0xbc3, 0x2229), (0xbc4, 0x230a), (0xbc6, 0x5f), (0xbca, 0x2218), (0xbcc, 0x2395),
     (0xbce, 0x22a5), (0xbcf, 0x25cb), (0xbd3, 0x2308), (0xbd6, 0x222a), (0xbd8, 0x2283),
     (0xbda, 0x2282), (0xbdc, 0x22a3), (0xbfc, 0x22a2), (0xcdf, 0x2017), (0xce0, 0x5d0),
     (0xce1, 0x5d1), (0xce2, 0x5d2), (0xce3, 0x5d3), (0xce4, 0x5d4), (0xce5, 0x5d5),
     (0xce6, 0x5d6), (0xce7, 0x5d7), (0xce8, 0x5d8), (0xce9, 0x5d9), (0xcea, 0x5da),
     (0xceb, 0x5db), (0xcec, 0x5dc), (0xced, 0x5dd), (0xcee, 0x5de), (0xcef, 0x5df),
     (0xcf0, 0x5e0), (0xcf1, 0x5e1), (0xcf2, 0x5e2), (0xcf3, 0x5e3), (0xcf4, 0x5e4),
     (0xcf5, 0x5e5), (0xcf6, 0x5e6), (0xcf7, 0x5e7)]"

definition gdk_keysym_to_unicode_tab_5 :: "(int \<times> int) list" where
  "gdk_keysym_to_unicode_tab_5 = [
     (0xcf8, 0x5e8), (0xcf9, 0x5e9), (0xcfa, 0x5ea), (0xda1, 0xe01), (0xda2, 0xe02),
     (0xda3, 0xe03), (0xda4, 0xe04), (0xda5, 0xe05), (0xda6, 0xe06), (0xda7, 0xe07),
     (0xda8, 0xe08), (0xda9, 0xe09), (0xdaa, 0xe0a), (0xdab, 0xe0b), (0xdac, 0xe0c),
     (0xdad, 0xe0d), (0xdae, 0xe0e), (0xdaf, 0xe0f), (0xdb0, 0xe10), (0xdb1, 0xe11),
     (0xdb2, 0xe12), (0xdb3, 0xe13), (0xdb4, 0xe14), (0xdb5, 0xe15), (0xdb6, 0xe16),
     (0xdb7, 0xe17), (0xdb8, 0xe18), (0xdb9, 0xe19), (0xdba, 0xe1a), (0xdbb, 0xe1b),
     (0xdbc, 0xe1c), (0xdbd, 0xe1d), (0xdbe, 0xe1e), (0xdbf, 0xe1f), (0xdc0, 0xe20),
     (0xdc1, 0xe21), (0xdc2, 0xe22), (0xdc3, 0xe23), (0xdc4, 0xe24), (0xdc5, 0xe25),
     (0xdc6, 0xe26), (0xdc7, 0xe27), (0xdc8, 0xe28), (0xdc9, 0xe29), (0xdca, 0xe2a),
     (0xdcb, 0xe2b), (0xdcc, 0xe2c), (0xdcd, 0xe2d), (0xdce, 0xe2e), (0xdcf, 0xe2f),
     (0xdd0, 0xe30), (0xdd1, 0xe31), (0xdd2, 0xe32), (0xdd3, 0xe33), (0xdd4, 0xe34),
     (0xdd5, 0xe35), (0xdd6, 0xe36), (0xdd7, 0xe37), (0xdd8, 0xe38), (0xdd9, 0xe39),
     (0xdda, 0xe3a), (0xdde, 0xe3e), (0xddf, 0xe3f), (0xde0, 0xe40), (0xde1, 0xe41),
     (0xde2, 0xe42), (0xde3, 0xe43), (0xde4, 0xe44), (0xde5, 0xe45), (0xde6, 0xe46),
     (0xde7, 0xe47), (0xde8, 0xe48), (0xde9, 0xe49), (0xdea, 0xe4a), (0xdeb, 0xe4b),
     (0xdec, 0xe4c), (0xded, 0xe4d), (0xdf0, 0xe50), (0xdf1, 0xe51), (0xdf2, 0xe52),
     (0xdf3, 0xe53), (0xdf4, 0xe54), (0xdf5, 0xe55), (0xdf6, 0xe56), (0xdf7, 0xe57),
     (0xdf8, 0xe58), (0xdf9, 0xe59), (0xea1, 0x3131), (0xea2, 0x3132), (0xea3, 0x3133),
     (0xea4, 0x3134), (0xea5, 0x3135), (0xea6, 0x3136), (0xea7, 0x3137), (0xea8, 0x3138),
     (0xea9, 0x3139), (0xeaa, 0x313a), (0xeab, 0x313b), (0xeac, 0x313c), (0xead, 0x313d),
     (0xeae, 0x313e), (0xeaf, 0x313f), (0xeb0, 0x3140), (0xeb1, 0x3141), (0xeb2, 0x3142),
     (0xeb3, 0x3143), (0xeb4, 0x3144), (0xeb5, 0x3145), (0xeb6, 0x3146), (0xeb7, 0x3147),
     (0xeb8, 0x3148), (0xeb9, 0x3149), (0xeba, 0x314a), (0xebb, 0x314b), (0xebc, 0x314c),
     (0xebd, 0x314d), (0xebe, 0x314e), (0xebf, 0x314f), (0xec0, 0x3150), (0xec1, 0x3151),
     (0xec2, 0x3152), (0xec3, 0x3153), (0xec4, 0x3154), (0xec5, 0x3155), (0xec6, 0x3156),
     (0xec7, 0x3157), (0xec8, 0x3158), (0xec9, 0x3159), (0xeca, 0x315a), (0xecb, 0x315b),
     (0xecc, 0x315c), (0xecd, 0x315d), (0xece, 0x315e), (0xecf, 0x315f), (0xed0, 0x3160),
     (0xed1, 0x3161), (0xed2, 0x3162), (0xed3, 0x3163), (0xed4, 0x11a8), (0xed5, 0x11a9),
     (0xed6, 0x11aa), (0xed7, 0x11ab), (0xed8, 0x11ac), (0xed9, 0x11ad), (0xeda, 0x11ae),
     (0xedb, 0x11af), (0xedc, 0x11b0), (0xedd, 0x11b1)]"

definition gdk_keysym_to_unicode_tab_6 :: "(int \<times> int) list" where
  "gdk_keysym_to_unicode_tab_6 = [
     (0xede, 0x11b2), (0xedf, 0x11b3), (0xee0, 0x11b4), (0xee1, 0x11b5), (0xee2, 0x11b6),
     (0xee3, 0x11b7), (0xee4, 0x11b8), (0xee5, 0x11b9), (0xee6, 0x11ba), (0xee7, 0x11bb),
     (0xee8, 0x11bc), (0xee9, 0x11bd), (0xeea, 0x11be), (0xeeb, 0x11bf), (0xeec, 0x11c0),
     (0xeed, 0x11c1), (0xeee, 0x11c2), (0xeef, 0x316d), (0xef0, 0x3171), (0xef1, 0x3178),
     (0xef2, 0x317f), (0xef4, 0x3184), (0xef5, 0x3186), (0xef6, 0x318d), (0xef7, 0x318e),
     (0xef8, 0x11eb), (0xefa, 0x11f9), (0xeff, 0x20a9), (0x13bc, 0x152), (0x13bd, 0x153),
     (0x13be, 0x178), (0x20a0, 0x20a0), (0x20a1, 0x20a1), (0x20a2, 0x20a2), (0x20a3, 0x20a3),
     (0x20a4, 0x20a4), (0x20a5, 0x20a5), (0x20a6, 0x20a6), (0x20a7, 0x20a7), (0x20a8, 0x20a8),
     (0x20a9, 0x20a9), (0x20aa, 0x20aa), (0x20ab, 0x20ab), (0x20ac, 0x20ac), (0xff08, 0x8),
     (0xff09, 0x9), (0xff0a, 0xa), (0xff0b, 0xb), (0xff0d, 0xd), (0xff1b, 0x1b), (0xff80, 0x20),
     (0xffaa, 0x2a), (0xffab, 0x2b), (0xffac, 0x2c), (0xffad, 0x2d), (0xffae, 0x2e),
     (0xffaf, 0x2f), (0xffb0, 0x30), (0xffb1, 0x31), (0xffb2, 0x32), (0xffb3, 0x33),
     (0xffb4, 0x34), (0xffb5, 0x35), (0xffb6, 0x36), (0xffb7, 0x37), (0xffb8, 0x38),
     (0xffb9, 0x39), (0xffbd, 0x3d), (0xffff, 0x7f)]"

definition gdk_keysym_to_unicode_tab :: "(int \<times> int) list" where
  "gdk_keysym_to_unicode_tab = gdk_keysym_to_unicode_tab_1 @ gdk_keysym_to_unicode_tab_2 @ gdk_keysym_to_unicode_tab_3 @ gdk_keysym_to_unicode_tab_4 @ gdk_keysym_to_unicode_tab_5 @ gdk_keysym_to_unicode_tab_6"

definition gdk_unicode_to_keysym_tab_1 :: "(int \<times> int) list" where
  "gdk_unicode_to_keysym_tab_1 = [
     (0xabd, 0x2e), (0xba3, 0x3c), (0xba6, 0x3e), (0xbc6, 0x5f), (0xbc0, 0xaf), (0x3c0, 0x100),
     (0x3e0, 0x101), (0x1c3, 0x102), (0x1e3, 0x103), (0x1a1, 0x104), (0x1b1, 0x105),
     (0x1c6, 0x106), (0x1e6, 0x107), (0x2c6, 0x108), (0x2e6, 0x109), (0x2c5, 0x10a),
     (0x2e5, 0x10b), (0x1c8, 0x10c), (0x1e8, 0x10d), (0x1cf, 0x10e), (0x1ef, 0x10f),
     (0x1d0, 0x110), (0x1f0, 0x111), (0x3aa, 0x112), (0x3ba, 0x113), (0x3cc, 0x116),
     (0x3ec, 0x117), (0x1ca, 0x118), (0x1ea, 0x119), (0x1cc, 0x11a), (0x1ec, 0x11b),
     (0x2d8, 0x11c), (0x2f8, 0x11d), (0x2ab, 0x11e), (0x2bb, 0x11f), (0x2d5, 0x120),
     (0x2f5, 0x121), (0x3ab, 0x122), (0x3bb, 0x123), (0x2a6, 0x124), (0x2b6, 0x125),
     (0x2a1, 0x126), (0x2b1, 0x127), (0x3a5, 0x128), (0x3b5, 0x129), (0x3cf, 0x12a),
     (0x3ef, 0x12b), (0x3c7, 0x12e), (0x3e7, 0x12f), (0x2a9, 0x130), (0x2b9, 0x131),
     (0x2ac, 0x134), (0x2bc, 0x135), (0x3d3, 0x136), (0x3f3, 0x137), (0x3a2, 0x138),
     (0x1c5, 0x139), (0x1e5, 0x13a), (0x3a6, 0x13b), (0x3b6, 0x13c), (0x1a5, 0x13d),
     (0x1b5, 0x13e), (0x1a3, 0x141), (0x1b3, 0x142), (0x1d1, 0x143), (0x1f1, 0x144),
     (0x3d1, 0x145), (0x3f1, 0x146), (0x1d2, 0x147), (0x1f2, 0x148), (0x3bd, 0x14a),
     (0x3bf, 0x14b), (0x3d2, 0x14c), (0x3f2, 0x14d), (0x1d5, 0x150), (0x1f5, 0x151),
     (0x13bc, 0x152), (0x13bd, 0x153), (0x1c0, 0x154), (0x1e0, 0x155), (0x3a3, 0x156),
     (0x3b3, 0x157), (0x1d8, 0x158), (0x1f8, 0x159), (0x1a6, 0x15a), (0x1b6, 0x15b),
     (0x2de, 0x15c), (0x2fe, 0x15d), (0x1aa, 0x15e), (0x1ba, 0x15f), (0x1a9, 0x160),
     (0x1b9, 0x161), (0x1de, 0x162), (0x1fe, 0x163), (0x1ab, 0x164), (0x1bb, 0x165),
     (0x3ac, 0x166), (0x3bc, 0x167), (0x3dd, 0x168), (0x3fd, 0x169), (0x3de, 0x16a),
     (0x3fe, 0x16b), (0x2dd, 0x16c), (0x2fd, 0x16d), (0x1d9, 0x16e), (0x1f9, 0x16f),
     (0x1db, 0x170), (0x1fb, 0x171), (0x3d9, 0x172), (0x3f9, 0x173), (0x13be, 0x178),
     (0x1ac, 0x179), (0x1bc, 0x17a), (0x1af, 0x17b), (0x1bf, 0x17c), (0x1ae, 0x17d),
     (0x1be, 0x17e), (0x8f6, 0x192), (0x1b7, 0x2c7), (0x1a2, 0x2d8), (0x1ff, 0x2d9),
     (0x1b2, 0x2db), (0x1bd, 0x2dd), (0x7ae, 0x385), (0x7a1, 0x386), (0x7a2, 0x388),
     (0x7a3, 0x389), (0x7a4, 0x38a), (0x7a7, 0x38c), (0x7a8, 0x38e), (0x7ab, 0x38f),
     (0x7b6, 0x390), (0x7c1, 0x391), (0x7c2, 0x392), (0x7c3, 0x393), (0x7c4, 0x394),
     (0x7c5, 0x395), (0x7c6, 0x396), (0x7c7, 0x397), (0x7c8, 0x398), (0x7c9, 0x399),
     (0x7ca, 0x39a), (0x7cb, 0x39b), (0x7cc, 0x39c), (0x7cd, 0x39d), (0x7ce, 0x39e),
     (0x7cf, 0x39f), (0x7d0, 0x3a0)]"

definition gdk_unicode_to_keysym_tab_2 :: "(int \<times> int) list" where
  "gdk_unicode_to_keysym_tab_2 = [
     (0x7d1, 0x3a1), (0x7d2, 0x3a3), (0x7d4, 0x3a4), (0x7d5, 0x3a5), (0x7d6, 0x3a6),
     (0x7d7, 0x3a7), (0x7d8, 0x3a8), (0x7d9, 0x3a9), (0x7a5, 0x3aa), (0x7a9, 0x3ab),
     (0x7b1, 0x3ac), (0x7b2, 0x3ad), (0x7b3, 0x3ae), (0x7b4, 0x3af), (0x7ba, 0x3b0),
     (0x7e1, 0x3b1), (0x7e2, 0x3b2), (0x7e3, 0x3b3), (0x7e4, 0x3b4), (0x7e5, 0x3b5),
     (0x7e6, 0x3b6), (0x7e7, 0x3b7), (0x7e8, 0x3b8), (0x7e9, 0x3b9), (0x7ea, 0x3ba),
     (0x7eb, 0x3bb), (0x7ec, 0x3bc), (0x7ed, 0x3bd), (0x7ee, 0x3be), (0x7ef, 0x3bf),
     (0x7f0, 0x3c0), (0x7f1, 0x3c1), (0x7f3, 0x3c2), (0x7f2, 0x3c3), (0x7f4, 0x3c4),
     (0x7f5, 0x3c5), (0x7f6, 0x3c6), (0x7f7, 0x3c7), (0x7f8, 0x3c8), (0x7f9, 0x3c9),
     (0x7b5, 0x3ca), (0x7b9, 0x3cb), (0x7b7, 0x3cc), (0x7b8, 0x3cd), (0x7bb, 0x3ce),
     (0x6b3, 0x401), (0x6b1, 0x402), (0x6b2, 0x403), (0x6b4, 0x404), (0x6b5, 0x405),
     (0x6b6, 0x406), (0x6b7, 0x407), (0x6b8, 0x408), (0x6b9, 0x409), (0x6ba, 0x40a),
     (0x6bb, 0x40b), (0x6bc, 0x40c), (0x6be, 0x40e), (0x6bf, 0x40f), (0x6e1, 0x410),
     (0x6e2, 0x411), (0x6f7, 0x412), (0x6e7, 0x413), (0x6e4, 0x414), (0x6e5, 0x415),
     (0x6f6, 0x416), (0x6fa, 0x417), (0x6e9, 0x418), (0x6ea, 0x419), (0x6eb, 0x41a),
     (0x6ec, 0x41b), (0x6ed, 0x41c), (0x6ee, 0x41d), (0x6ef, 0x41e), (0x6f0, 0x41f),
     (0x6f2, 0x420), (0x6f3, 0x421), (0x6f4, 0x422), (0x6f5, 0x423), (0x6e6, 0x424),
     (0x6e8, 0x425), (0x6e3, 0x426), (0x6fe, 0x427), (0x6fb, 0x428), (0x6fd, 0x429),
     (0x6ff, 0x42a), (0x6f9, 0x42b), (0x6f8, 0x42c), (0x6fc, 0x42d), (0x6e0, 0x42e),
     (0x6f1, 0x42f), (0x6c1, 0x430), (0x6c2, 0x431), (0x6d7, 0x432), (0x6c7, 0x433),
     (0x6c4, 0x434), (0x6c5, 0x435), (0x6d6, 0x436), (0x6da, 0x437), (0x6c9, 0x438),
     (0x6ca, 0x439), (0x6cb, 0x43a), (0x6cc, 0x43b), (0x6cd, 0x43c), (0x6ce, 0x43d),
     (0x6cf, 0x43e), (0x6d0, 0x43f), (0x6d2, 0x440), (0x6d3, 0x441), (0x6d4, 0x442),
     (0x6d5, 0x443), (0x6c6, 0x444), (0x6c8, 0x445), (0x6c3, 0x446), (0x6de, 0x447),
     (0x6db, 0x448), (0x6dd, 0x449), (0x6df, 0x44a), (0x6d9, 0x44b), (0x6d8, 0x44c),
     (0x6dc, 0x44d), (0x6c0, 0x44e), (0x6d1, 0x44f), (0x6a3, 0x451), (0x6a1, 0x452),
     (0x6a2, 0x453), (0x6a4, 0x454), (0x6a5, 0x455), (0x6a6, 0x456), (0x6a7, 0x457),
     (0x6a8, 0x458), (0x6a9, 0x459), (0x6aa, 0x45a), (0x6ab, 0x45b), (0x6ac, 0x45c),
     (0x6ae, 0x45e), (0x6af, 0x45f), (0xce0, 0x5d0), (0xce1, 0x5d1), (0xce2, 0x5d2),
     (0xce3, 0x5d3), (0xce4, 0x5d4), (0xce5, 0x5d5), (0xce6, 0x5d6), (0xce7, 0x5d7),
     (0xce8, 0x5d8), (0xce9, 0x5d9), (0xcea, 0x5da)]"

definition gdk_unicode_to_keysym_tab_3 :: "(int \<times> int) list" where
  "gdk_unicode_to_keysym_tab_3 = [
     (0xceb, 0x5db), (0xcec, 0x5dc), (0xced, 0x5dd), (0xcee, 0x5de), (0xcef, 0x5df),
     (0xcf0, 0x5e0), (0xcf1, 0x5e1), (0xcf2, 0x5e2), (0xcf3, 0x5e3), (0xcf4, 0x5e4),
     (0xcf5, 0x5e5), (0xcf6, 0x5e6), (0xcf7, 0x5e7), (0xcf8, 0x5e8), (0xcf9, 0x5e9),
     (0xcfa, 0x5ea), (0x5ac, 0x60c), (0x5bb, 0x61b), (0x5bf, 0x61f), (0x5c1, 0x621),
     (0x5c2, 0x622), (0x5c3, 0x623), (0x5c4, 0x624), (0x5c5, 0x625), (0x5c6, 0x626),
     (0x5c7, 0x627), (0x5c8, 0x628), (0x5c9, 0x629), (0x5ca, 0x62a), (0x5cb, 0x62b),
     (0x5cc, 0x62c), (0x5cd, 0x62d), (0x5ce, 0x62e), (0x5cf, 0x62f), (0x5d0, 0x630),
     (0x5d1, 0x631), (0x5d2, 0x632), (0x5d3, 0x633), (0x5d4, 0x634), (0x5d5, 0x635),
     (0x5d6, 0x636), (0x5d7, 0x637), (0x5d8, 0x638), (0x5d9, 0x639), (0x5da, 0x63a),
     (0x5e0, 0x640), (0x5e1, 0x641), (0x5e2, 0x642), (0x5e3, 0x643), (0x5e4, 0x644),
     (0x5e5, 0x645), (0x5e6, 0x646), (0x5e7, 0x647), (0x5e8, 0x648), (0x5e9, 0x649),
     (0x5ea, 0x64a), (0x5eb, 0x64b), (0x5ec, 0x64c), (0x5ed, 0x64d), (0x5ee, 0x64e),
     (0x5ef, 0x64f), (0x5f0, 0x650), (0x5f1, 0x651), (0x5f2, 0x652), (0xda1, 0xe01),
     (0xda2, 0xe02), (0xda3, 0xe03), (0xda4, 0xe04), (0xda5, 0xe05), (0xda6, 0xe06),
     (0xda7, 0xe07), (0xda8, 0xe08), (0xda9, 0xe09), (0xdaa, 0xe0a), (0xdab, 0xe0b),
     (0xdac, 0xe0c), (0xdad, 0xe0d), (0xdae, 0xe0e), (0xdaf, 0xe0f), (0xdb0, 0xe10),
     (0xdb1, 0xe11), (0xdb2, 0xe12), (0xdb3, 0xe13), (0xdb4, 0xe14), (0xdb5, 0xe15),
     (0xdb6, 0xe16), (0xdb7, 0xe17), (0xdb8, 0xe18), (0xdb9, 0xe19), (0xdba, 0xe1a),
     (0xdbb, 0xe1b), (0xdbc, 0xe1c), (0xdbd, 0xe1d), (0xdbe, 0xe1e), (0xdbf, 0xe1f),
     (0xdc0, 0xe20), (0xdc1, 0xe21), (0xdc2, 0xe22), (0xdc3, 0xe23), (0xdc4, 0xe24),
     (0xdc5, 0xe25), (0xdc6, 0xe26), (0xdc7, 0xe27), (0xdc8, 0xe28), (0xdc9, 0xe29),
     (0xdca, 0xe2a), (0xdcb, 0xe2b), (0xdcc, 0xe2c), (0xdcd, 0xe2d), (0xdce, 0xe2e),
     (0xdcf, 0xe2f), (0xdd0, 0xe30), (0xdd1, 0xe31), (0xdd2, 0xe32), (0xdd3, 0xe33),
     (0xdd4, 0xe34), (0xdd5, 0xe35), (0xdd6, 0xe36), (0xdd7, 0xe37), (0xdd8, 0xe38),
     (0xdd9, 0xe39), (0xdda, 0xe3a), (0xddf, 0xe3f), (0xde0, 0xe40), (0xde1, 0xe41),
     (0xde2, 0xe42), (0xde3, 0xe43), (0xde4, 0xe44), (0xde5, 0xe45), (0xde6, 0xe46),
     (0xde7, 0xe47), (0xde8, 0xe48), (0xde9, 0xe49), (0xdea, 0xe4a), (0xdeb, 0xe4b),
     (0xdec, 0xe4c), (0xded, 0xe4d), (0xdf0, 0xe50), (0xdf1, 0xe51), (0xdf2, 0xe52),
     (0xdf3, 0xe53), (0xdf4, 0xe54), (0xdf5, 0xe55), (0xdf6, 0xe56), (0xdf7, 0xe57),
     (0xdf8, 0xe58), (0xdf9, 0xe59), (0xed4, 0x11a8)]"

definition gdk_unicode_to_keysym_tab_4 :: "(int \<times> int) list" where
  "gdk_unicode_to_keysym_tab_4 = [
     (0xed5, 0x11a9), (0xed6, 0x11aa), (0xed7, 0x11ab), (0xed8, 0x11ac), (0xed9, 0x11ad),
     (0xeda, 0x11ae), (0xedb, 0x11af), (0xedc, 0x11b0), (0xedd, 0x11b1), (0xede, 0x11b2),
     (0xedf, 0x11b3), (0xee0, 0x11b4), (0xee1, 0x11b5), (0xee2, 0x11b6), (0xee3, 0x11b7),
     (0xee4, 0x11b8), (0xee5, 0x11b9), (0xee6, 0x11ba), (0xee7, 0x11bb), (0xee8, 0x11bc),
     (0xee9, 0x11bd), (0xeea, 0x11be), (0xeeb, 0x11bf), (0xeec, 0x11c0), (0xeed, 0x11c1),
     (0xeee, 0x11c2), (0xef8, 0x11eb), (0xefa, 0x11f9), (0xaa2, 0x2002), (0xaa1, 0x2003),
     (0xaa3, 0x2004), (0xaa4, 0x2005), (0xaa5, 0x2007), (0xaa6, 0x2008), (0xaa7, 0x2009),
     (0xaa8, 0x200a), (0xabb, 0x2012), (0xaaa, 0x2013), (0xaa9, 0x2014), (0x7af, 0x2015),
     (0xcdf, 0x2017), (0xad0, 0x2018), (0xad1, 0x2019), (0xafd, 0x201a), (0xad2, 0x201c),
     (0xad3, 0x201d), (0xafe, 0x201e), (0xaf1, 0x2020), (0xaf2, 0x2021), (0xae6, 0x2022),
     (0xaae, 0x2026), (0xad6, 0x2032), (0xad7, 0x2033), (0xafc, 0x2038), (0x47e, 0x203e),
     (0x20a0, 0x20a0), (0x20a1, 0x20a1), (0x20a2, 0x20a2), (0x20a3, 0x20a3), (0x20a4, 0x20a4),
     (0x20a5, 0x20a5), (0x20a6, 0x20a6), (0x20a7, 0x20a7), (0x20a8, 0x20a8), (0xeff, 0x20a9),
     (0x20a9, 0x20a9), (0x20aa, 0x20aa), (0x20ab, 0x20ab), (0x20ac, 0x20ac), (0xab8, 0x2105),
     (0x6b0, 0x2116), (0xafb, 0x2117), (0xad4, 0x211e), (0xac9, 0x2122), (0xab0, 0x2153),
     (0xab1, 0x2154), (0xab2, 0x2155), (0xab3, 0x2156), (0xab4, 0x2157), (0xab5, 0x2158),
     (0xab6, 0x2159), (0xab7, 0x215a), (0xac3, 0x215b), (0xac4, 0x215c), (0xac5, 0x215d),
     (0xac6, 0x215e), (0x8fb, 0x2190), (0x8fc, 0x2191), (0x8fd, 0x2192), (0x8fe, 0x2193),
     (0x8ce, 0x21d2), (0x8cd, 0x21d4), (0x8ef, 0x2202), (0x8c5, 0x2207), (0xbca, 0x2218),
     (0x8d6, 0x221a), (0x8c1, 0x221d), (0x8c2, 0x221e), (0x8de, 0x2227), (0xba9, 0x2227),
     (0x8df, 0x2228), (0xba8, 0x2228), (0x8dc, 0x2229), (0xbc3, 0x2229), (0x8dd, 0x222a),
     (0xbd6, 0x222a), (0x8bf, 0x222b), (0x8c0, 0x2234), (0x8c8, 0x2245), (0x8bd, 0x2260),
     (0x8cf, 0x2261), (0x8bc, 0x2264), (0x8be, 0x2265), (0x8da, 0x2282), (0xbda, 0x2282),
     (0x8db, 0x2283), (0xbd8, 0x2283), (0xbfc, 0x22a2), (0xbdc, 0x22a3), (0xbc2, 0x22a4),
     (0xbce, 0x22a5), (0xbd3, 0x2308), (0xbc4, 0x230a), (0xafa, 0x2315), (0x8a4, 0x2320),
     (0x8a5, 0x2321), (0xabc, 0x2329), (0xabe, 0x232a), (0xbcc, 0x2395), (0x9e2, 0x2409),
     (0x9e5, 0x240a), (0x9e9, 0x240b), (0x9e3, 0x240c), (0x9e4, 0x240d), (0x9df, 0x2422),
     (0x9e8, 0x2424), (0x9f1, 0x2500), (0x8a6, 0x2502), (0x9f8, 0x2502), (0x9ec, 0x250c),
     (0x9eb, 0x2510), (0x9ed, 0x2514), (0x9ea, 0x2518), (0x9f4, 0x251c), (0x9f5, 0x2524),
     (0x9f7, 0x252c), (0x9f6, 0x2534), (0x9ee, 0x253c)]"

definition gdk_unicode_to_keysym_tab_5 :: "(int \<times> int) list" where
  "gdk_unicode_to_keysym_tab_5 = [
     (0x9e1, 0x2592), (0xadf, 0x25a0), (0xacf, 0x25a1), (0xae7, 0x25aa), (0xae1, 0x25ab),
     (0xadb, 0x25ac), (0xae2, 0x25ad), (0xae8, 0x25b2), (0xae3, 0x25b3), (0xadd, 0x25b6),
     (0xacd, 0x25b7), (0xae9, 0x25bc), (0xae4, 0x25bd), (0xadc, 0x25c0), (0xacc, 0x25c1),
     (0x9e0, 0x25c6), (0xace, 0x25cb), (0xbcf, 0x25cb), (0xade, 0x25cf), (0xae0, 0x25e6),
     (0xae5, 0x2606), (0xaf9, 0x260e), (0xaca, 0x2613), (0xaea, 0x261c), (0xaeb, 0x261e),
     (0xaf8, 0x2640), (0xaf7, 0x2642), (0xaec, 0x2663), (0xaee, 0x2665), (0xaed, 0x2666),
     (0xaf6, 0x266d), (0xaf5, 0x266f), (0xaf3, 0x2713), (0xaf4, 0x2717), (0xad9, 0x271d),
     (0xaf0, 0x2720), (0x4a4, 0x3001), (0x4a1, 0x3002), (0x4a2, 0x300c), (0x4a3, 0x300d),
     (0x4de, 0x309b), (0x4df, 0x309c), (0x4a7, 0x30a1), (0x4b1, 0x30a2), (0x4a8, 0x30a3),
     (0x4b2, 0x30a4), (0x4a9, 0x30a5), (0x4b3, 0x30a6), (0x4aa, 0x30a7), (0x4b4, 0x30a8),
     (0x4ab, 0x30a9), (0x4b5, 0x30aa), (0x4b6, 0x30ab), (0x4b7, 0x30ad), (0x4b8, 0x30af),
     (0x4b9, 0x30b1), (0x4ba, 0x30b3), (0x4bb, 0x30b5), (0x4bc, 0x30b7), (0x4bd, 0x30b9),
     (0x4be, 0x30bb), (0x4bf, 0x30bd), (0x4c0, 0x30bf), (0x4c1, 0x30c1), (0x4af, 0x30c3),
     (0x4c2, 0x30c4), (0x4c3, 0x30c6), (0x4c4, 0x30c8), (0x4c5, 0x30ca), (0x4c6, 0x30cb),
     (0x4c7, 0x30cc), (0x4c8, 0x30cd), (0x4c9, 0x30ce), (0x4ca, 0x30cf), (0x4cb, 0x30d2),
     (0x4cc, 0x30d5), (0x4cd, 0x30d8), (0x4ce, 0x30db), (0x4cf, 0x30de), (0x4d0, 0x30df),
     (0x4d1, 0x30e0), (0x4d2, 0x30e1), (0x4d3, 0x30e2), (0x4ac, 0x30e3), (0x4d4, 0x30e4),
     (0x4ad, 0x30e5), (0x4d5, 0x30e6), (0x4ae, 0x30e7), (0x4d6, 0x30e8), (0x4d7, 0x30e9),
     (0x4d8, 0x30ea), (0x4d9, 0x30eb), (0x4da, 0x30ec), (0x4db, 0x30ed), (0x4dc, 0x30ef),
     (0x4a6, 0x30f2), (0x4dd, 0x30f3), (0x4a5, 0x30fb), (0x4b0, 0x30fc), (0xea1, 0x3131),
     (0xea2, 0x3132), (0xea3, 0x3133), (0xea4, 0x3134), (0xea5, 0x3135), (0xea6, 0x3136),
     (0xea7, 0x3137), (0xea8, 0x3138), (0xea9, 0x3139), (0xeaa, 0x313a), (0xeab, 0x313b),
     (0xeac, 0x313c), (0xead, 0x313d), (0xeae, 0x313e), (0xeaf, 0x313f), (0xeb0, 0x3140),
     (0xeb1, 0x3141), (0xeb2, 0x3142), (0xeb3, 0x3143), (0xeb4, 0x3144), (0xeb5, 0x3145),
     (0xeb6, 0x3146), (0xeb7, 0x3147), (0xeb8, 0x3148), (0xeb9, 0x3149), (0xeba, 0x314a),
     (0xebb, 0x314b), (0xebc, 0x314c), (0xebd, 0x314d), (0xebe, 0x314e), (0xebf, 0x314f),
     (0xec0, 0x3150), (0xec1, 0x3151), (0xec2, 0x3152), (0xec3, 0x3153), (0xec4, 0x3154),
     (0xec5, 0x3155), (0xec6, 0x3156), (0xec7, 0x3157), (0xec8, 0x3158), (0xec9, 0x3159),
     (0xeca, 0x315a), (0xecb, 0x315b), (0xecc, 0x315c), (0xecd, 0x315d), (0xece, 0x315e),
     (0xecf, 0x315f), (0xed0, 0x3160), (0xed1, 0x3161)]"

definition gdk_unicode_to_keysym_tab_6 :: "(int \<times> int) list" where
  "gdk_unicode_to_keysym_tab_6 = [
     (0xed2, 0x3162), (0xed3, 0x3163), (0xeef, 0x316d), (0xef0, 0x3171), (0xef1, 0x3178),
     (0xef2, 0x317f), (0xef4, 0x3184), (0xef5, 0x3186), (0xef6, 0x318d), (0xef7, 0x318e)]"

definition gdk_unicode_to_keysym_tab :: "(int \<times> int) list" where
  "gdk_unicode_to_keysym_tab = gdk_unicode_to_keysym_tab_1 @ gdk_unicode_to_keysym_tab_2 @ gdk_unicode_to_keysym_tab_3 @ gdk_unicode_to_keysym_tab_4 @ gdk_unicode_to_keysym_tab_5 @ gdk_unicode_to_keysym_tab_6"

section \<open>Key names\<close>

definition keyList_1 :: "(string \<times> int) list" where
  "keyList_1 = [
     (''TAB'', 0xff09), (''ENTER'', 0xff0d), (''LCTRL'', 0xffe3), (''LSHIFT'', 0xffe1),
     (''LALT'', 0xffe9), (''RCTRL'', 0xffe4), (''RSHIFT'', 0xffe2), (''RALT'', 0xffea),
     (''INSERT'', 0xff63), (''HOME'', 0xff50), (''PGUP'', 0xff55), (''END'', 0xff57),
     (''PGDN'', 0xff56), (''ESCAPE'', 0xff1b), (''SPACE'', 0x20), (''BACKSPACE'', 0xff08),
     (''DELETE'', 0xffff), (''UP'', 0xff52), (''DOWN'', 0xff54), (''LEFT'', 0xff51),
     (''RIGHT'', 0xff53), (''LINEFEED'', 0xff0a), (''CLEAR'', 0xff0b), (''MULTIKEY'', 0xff20),
     (''CODEINPUT'', 0xff37), (''SINGLECANDIDATE'', 0xff3c), (''MULTIPLECANDIDATE'', 0xff3d),
     (''PREVIOUSCANDIDATE'', 0xff3e), (''KANJI'', 0xff21), (''MUHENKAN'', 0xff22),
     (''HENKANMODE'', 0xff23), (''HENKAN'', 0xff23), (''ROMAJI'', 0xff24), (''HIRAGANA'', 0xff25),
     (''KATAKANA'', 0xff26), (''HIRAGANAKATAKANA'', 0xff27), (''ZENKAKU'', 0xff28),
     (''HANKAKU'', 0xff29), (''ZENKAKUHANKAKU'', 0xff2a), (''TOUROKU'', 0xff2b),
     (''MASSYO'', 0xff2c), (''KANALOCK'', 0xff2d), (''KANASHIFT'', 0xff2e),
     (''EISUSHIFT'', 0xff2f), (''EISUTOGGLE'', 0xff30), (''KANJIBANGOU'', 0xff37),
     (''ZENKOHO'', 0xff3d), (''MAEKOHO'', 0xff3e), (''F1'', 0xffbe), (''F2'', 0xffbf),
     (''F3'', 0xffc0), (''F4'', 0xffc1), (''F5'', 0xffc2), (''F6'', 0xffc3), (''F7'', 0xffc4),
     (''F8'', 0xffc5), (''F9'', 0xffc6), (''F10'', 0xffc7), (''F11'', 0xffc8), (''L1'', 0xffc8),
     (''F12'', 0xffc9), (''L2'', 0xffc9), (''F13'', 0xffca), (''L3'', 0xffca), (''F14'', 0xffcb),
     (''L4'', 0xffcb), (''F15'', 0xffcc), (''L5'', 0xffcc), (''F16'', 0xffcd), (''L6'', 0xffcd),
     (''F17'', 0xffce), (''L7'', 0xffce), (''F18'', 0xffcf), (''L8'', 0xffcf), (''F19'', 0xffd0),
     (''L9'', 0xffd0), (''F20'', 0xffd1), (''L10'', 0xffd1), (''F21'', 0xffd2), (''R1'', 0xffd2),
     (''F22'', 0xffd3), (''R2'', 0xffd3), (''F23'', 0xffd4), (''R3'', 0xffd4), (''F24'', 0xffd5),
     (''R4'', 0xffd5), (''F25'', 0xffd6), (''R5'', 0xffd6), (''F26'', 0xffd7), (''R6'', 0xffd7),
     (''F27'', 0xffd8), (''R7'', 0xffd8), (''F28'', 0xffd9), (''R8'', 0xffd9), (''F29'', 0xffda),
     (''R9'', 0xffda), (''F30'', 0xffdb), (''R10'', 0xffdb), (''F31'', 0xffdc), (''R11'', 0xffdc),
     (''F32'', 0xffdd), (''R12'', 0xffdd), (''F33'', 0xffde), (''R13'', 0xffde),
     (''F34'', 0xffdf), (''R14'', 0xffdf), (''F35'', 0xffe0), (''R15'', 0xffe0),
     (''FIRSTVIRTUALSCREEN'', 0xfed0), (''PREVVIRTUALSCREEN'', 0xfed1),
     (''NEXTVIRTUALSCREEN'', 0xfed2), (''LASTVIRTUALSCREEN'', 0xfed4),
     (''TERMINATESERVER'', 0xfed5), (''ACCESSXENABLE'', 0xfe70),
     (''ACCESSXFEEDBACKENABLE'', 0xfe71), (''REPEATKEYSENABLE'', 0xfe72),
     (''SLOWKEYSENABLE'', 0xfe73), (''BOUNCEKEYSENABLE'', 0xfe74), (''STICKYKEYSENABLE'', 0xfe75),
     (''MOUSEKEYSENABLE'', 0xfe76), (''MOUSEKEYSACCELENABLE'', 0xfe77),
     (''OVERLAY1ENABLE'', 0xfe78), (''OVERLAY2ENABLE'', 0xfe79), (''AUDIBLEBELLENABLE'', 0xfe7a),
     (''KAPPA'', 0x3a2), (''KANAMIDDLEDOT'', 0x4a5), (''KANATU'', 0x4af), (''KANATI'', 0x4c1),
     (''KANATU'', 0x4c2), (''KANAHU'', 0x4cc), (''KANASWITCH'', 0xff7e), (''ARABICHEH'', 0x5e7),
     (''ARABICSWITCH'', 0xff7e), (''UKRANIANJE'', 0x6a4), (''UKRANIANI'', 0x6a6),
     (''UKRANIANYI'', 0x6a7), (''SERBIANJE'', 0x6a8), (''SERBIANLJE'', 0x6a9),
     (''SERBIANNJE'', 0x6aa), (''SERBIANDZE'', 0x6af), (''UKRANIANJE'', 0x6b4),
     (''UKRANIANI'', 0x6b6), (''UKRANIANYI'', 0x6b7), (''SERBIANJE'', 0x6b8),
     (''SERBIANLJE'', 0x6b9), (''SERBIANNJE'', 0x6ba), (''SERBIANDZE'', 0x6bf),
     (''GREEKIOTADIAERESIS'', 0x7a5)]"

definition keyList_2 :: "(string \<times> int) list" where
  "keyList_2 = [
     (''GREEKSWITCH'', 0xff7e), (''TOPLEFTSUMMATION'', 0x8b1), (''BOTLEFTSUMMATION'', 0x8b2),
     (''TOPVERTSUMMATIONCONNECTOR'', 0x8b3), (''BOTVERTSUMMATIONCONNECTOR'', 0x8b4),
     (''TOPRIGHTSUMMATION'', 0x8b5), (''BOTRIGHTSUMMATION'', 0x8b6),
     (''RIGHTMIDDLESUMMATION'', 0x8b7), (''BLANK'', 0x9df), (''MARKER'', 0xabf),
     (''TRADEMARKINCIRCLE'', 0xacb), (''HEXAGRAM'', 0xada), (''CURSOR'', 0xaff),
     (''HEBREWBETH'', 0xce1), (''HEBREWGIMMEL'', 0xce2), (''HEBREWDALETH'', 0xce3),
     (''HEBREWZAYIN'', 0xce6), (''HEBREWHET'', 0xce7), (''HEBREWTETH'', 0xce8),
     (''HEBREWSAMEKH'', 0xcf1), (''HEBREWFINALZADI'', 0xcf5), (''HEBREWZADI'', 0xcf6),
     (''HEBREWKUF'', 0xcf7), (''HEBREWTAF'', 0xcfa), (''HEBREWSWITCH'', 0xff7e),
     (''THAIMAIHANAKATMAITHO'', 0xdde), (''HANGUL'', 0xff31), (''HANGULSTART'', 0xff32),
     (''HANGULEND'', 0xff33), (''HANGULHANJA'', 0xff34), (''HANGULJAMO'', 0xff35),
     (''HANGULROMAJA'', 0xff36), (''HANGULCODEINPUT'', 0xff37), (''HANGULJEONJA'', 0xff38),
     (''HANGULBANJA'', 0xff39), (''HANGULPREHANJA'', 0xff3a), (''HANGULPOSTHANJA'', 0xff3b),
     (''HANGULSINGLECANDIDATE'', 0xff3c), (''HANGULMULTIPLECANDIDATE'', 0xff3d),
     (''HANGULPREVIOUSCANDIDATE'', 0xff3e), (''HANGULSPECIAL'', 0xff3f),
     (''HANGULSWITCH'', 0xff7e), (''HANGULKIYEOG'', 0xea1), (''HANGULSSANGKIYEOG'', 0xea2),
     (''HANGULKIYEOGSIOS'', 0xea3), (''HANGULNIEUN'', 0xea4), (''HANGULNIEUNJIEUJ'', 0xea5),
     (''HANGULNIEUNHIEUH'', 0xea6), (''HANGULDIKEUD'', 0xea7), (''HANGULSSANGDIKEUD'', 0xea8),
     (''HANGULRIEUL'', 0xea9), (''HANGULRIEULKIYEOG'', 0xeaa), (''HANGULRIEULMIEUM'', 0xeab),
     (''HANGULRIEULPIEUB'', 0xeac), (''HANGULRIEULSIOS'', 0xead), (''HANGULRIEULTIEUT'', 0xeae),
     (''HANGULRIEULPHIEUF'', 0xeaf), (''HANGULRIEULHIEUH'', 0xeb0), (''HANGULMIEUM'', 0xeb1),
     (''HANGULPIEUB'', 0xeb2), (''HANGULSSANGPIEUB'', 0xeb3), (''HANGULPIEUBSIOS'', 0xeb4),
     (''HANGULSIOS'', 0xeb5), (''HANGULSSANGSIOS'', 0xeb6), (''HANGULIEUNG'', 0xeb7),
     (''HANGULJIEUJ'', 0xeb8), (''HANGULSSANGJIEUJ'', 0xeb9), (''HANGULCIEUC'', 0xeba),
     (''HANGULKHIEUQ'', 0xebb), (''HANGULTIEUT'', 0xebc), (''HANGULPHIEUF'', 0xebd),
     (''HANGULHIEUH'', 0xebe), (''HANGULA'', 0xebf), (''HANGULAE'', 0xec0), (''HANGULYA'', 0xec1),
     (''HANGULYAE'', 0xec2), (''HANGULEO'', 0xec3), (''HANGULE'', 0xec4), (''HANGULYEO'', 0xec5),
     (''HANGULYE'', 0xec6), (''HANGULO'', 0xec7), (''HANGULWA'', 0xec8), (''HANGULWAE'', 0xec9),
     (''HANGULOE'', 0xeca), (''HANGULYO'', 0xecb), (''HANGULU'', 0xecc), (''HANGULWEO'', 0xecd),
     (''HANGULWE'', 0xece), (''HANGULWI'', 0xecf), (''HANGULYU'', 0xed0), (''HANGULEU'', 0xed1),
     (''HANGULYI'', 0xed2), (''HANGULI'', 0xed3), (''HANGULJKIYEOG'', 0xed4),
     (''HANGULJSSANGKIYEOG'', 0xed5), (''HANGULJKIYEOGSIOS'', 0xed6), (''HANGULJNIEUN'', 0xed7),
     (''HANGULJNIEUNJIEUJ'', 0xed8), (''HANGULJNIEUNHIEUH'', 0xed9), (''HANGULJDIKEUD'', 0xeda),
     (''HANGULJRIEUL'', 0xedb), (''HANGULJRIEULKIYEOG'', 0xedc), (''HANGULJRIEULMIEUM'', 0xedd),
     (''HANGULJRIEULPIEUB'', 0xede), (''HANGULJRIEULSIOS'', 0xedf),
     (''HANGULJRIEULTIEUT'', 0xee0), (''HANGULJRIEULPHIEUF'', 0xee1),
     (''HANGULJRIEULHIEUH'', 0xee2), (''HANGULJMIEUM'', 0xee3), (''HANGULJPIEUB'', 0xee4),
     (''HANGULJPIEUBSIOS'', 0xee5), (''HANGULJSIOS'', 0xee6), (''HANGULJSSANGSIOS'', 0xee7),
     (''HANGULJIEUNG'', 0xee8), (''HANGULJJIEUJ'', 0xee9), (''HANGULJCIEUC'', 0xeea),
     (''HANGULJKHIEUQ'', 0xeeb), (''HANGULJTIEUT'', 0xeec), (''HANGULJPHIEUF'', 0xeed),
     (''HANGULJHIEUH'', 0xeee), (''HANGULRIEULYEORINHIEUH'', 0xeef),
     (''HANGULSUNKYEONGEUMMIEUM'', 0xef0), (''HANGULSUNKYEONGEUMPIEUB'', 0xef1),
     (''HANGULPANSIOS'', 0xef2), (''HANGULKKOGJIDALRINIEUNG'', 0xef3),
     (''HANGULSUNKYEONGEUMPHIEUF'', 0xef4), (''HANGULYEORINHIEUH'', 0xef5),
     (''HANGULARAEA'', 0xef6), (''HANGULARAEAE'', 0xef7), (''HANGULJPANSIOS'', 0xef8),
     (''HANGULJKKOGJIDALRINIEUNG'', 0xef9), (''HANGULJYEORINHIEUH'', 0xefa),
     (''BRAILLEDOT1'', 0xfff1), (''BRAILLEDOT2'', 0xfff2), (''BRAILLEDOT3'', 0xfff3),
     (''BRAILLEDOT4'', 0xfff4), (''BRAILLEDOT5'', 0xfff5), (''BRAILLEDOT6'', 0xfff6),
     (''BRAILLEDOT7'', 0xfff7), (''BRAILLEDOT8'', 0xfff8), (''BRAILLEDOT9'', 0xfff9),
     (''BRAILLEDOT10'', 0xfffa), (''SELECT'', 0xff60), (''EXECUTE'', 0xff62), (''PRINT'', 0xff61),
     (''UNDO'', 0xff65), (''REDO'', 0xff66), (''MENU'', 0xff67)]"

definition keyList_3 :: "(string \<times> int) list" where
  "keyList_3 = [
     (''FIND'', 0xff68), (''CANCEL'', 0xff69), (''HELP'', 0xff6a), (''BREAK'', 0xff6b),
     (''PAUSE'', 0xff13), (''SCROLLLOCK'', 0xff14), (''SYSREQ'', 0xff15), (''BEGIN'', 0xff58),
     (''MODESWITCH'', 0xff7e), (''SCRIPTSWITCH'', 0xff7e), (''NUMLOCK'', 0xff7f),
     (''KPSPACE'', 0xff80), (''KPTAB'', 0xff89), (''KPENTER'', 0xff8d), (''KPF1'', 0xff91),
     (''KPF2'', 0xff92), (''KPF3'', 0xff93), (''KPF4'', 0xff94), (''KPHOME'', 0xff95),
     (''KPLEFT'', 0xff96), (''KPUP'', 0xff97), (''KPRIGHT'', 0xff98), (''KPDOWN'', 0xff99),
     (''KPPGUP'', 0xff9a), (''KPPGDOWN'', 0xff9b), (''KPEND'', 0xff9c), (''KPBEGIN'', 0xff9d),
     (''KPINSERT'', 0xff9e), (''KPDELETE'', 0xff9f), (''KPEQUAL'', 0xffbd),
     (''KPMULTIPLY'', 0xffaa), (''KPADD'', 0xffab), (''KPSEPARATOR'', 0xffac),
     (''KPSUBTRACT'', 0xffad), (''KPDECIMAL'', 0xffae), (''KPDIVIDE'', 0xffaf), (''KP0'', 0xffb0),
     (''KP1'', 0xffb1), (''KP2'', 0xffb2), (''KP3'', 0xffb3), (''KP4'', 0xffb4),
     (''KP5'', 0xffb5), (''KP6'', 0xffb6), (''KP7'', 0xffb7), (''KP8'', 0xffb8),
     (''KP9'', 0xffb9), (''CAPSLOCK'', 0xffe5), (''SHIFTLOCK'', 0xffe6), (''LMETA'', 0xffe7),
     (''RMETA'', 0xffe8), (''LSUPER'', 0xffeb), (''RSUPER'', 0xffec), (''LHYPER'', 0xffed),
     (''RHYPER'', 0xffee)]"

definition keyList :: "(string \<times> int) list" where
  "keyList = keyList_1 @ keyList_2 @ keyList_3"

end
