(* ===== verification/Hotkey.thy ===== *)
theory Hotkey
  imports KeyData StrUtils_Laws
begin

text \<open>
  Hotkeys: \<open>src/lib/fcitx-config/hotkey.c\<close>. A key event is a key symbol with the state of
  the modifiers; a hotkey setting is a pair of such events with the text they were parsed
  from. Key symbols and states are 32 bit words.
\<close>

type_synonym keysym = uint32

record hotkey =
  hk_desc :: "buf option"
  hk_sym :: keysym
  hk_state :: uint32

section \<open>Key symbols and characters\<close>

text \<open>The binary search of both conversions; \<open>key\<close> selects the column that is searched.\<close>

function key_search :: "((int \<times> int) \<Rightarrow> int) \<Rightarrow> (int \<times> int) list \<Rightarrow> int \<Rightarrow> int \<Rightarrow> int \<Rightarrow> (int \<times> int) option" where
  "key_search key tab v mn mx =
     (if mx \<ge> mn then
        let mid = (mn + mx) div 2; e = tab ! nat mid in
        if key e < v then key_search key tab v (mid + 1) mx
        else if key e > v then key_search key tab v mn (mid - 1)
        else Some e
      else None)"
  by pat_completeness auto
termination by (relation "measure (\<lambda>(key, tab, v, mn, mx). nat (mx - mn + 1))") (auto simp: Let_def)

declare key_search.simps [simp del]

definition latin1 :: "uint32 \<Rightarrow> bool" where
  "latin1 c \<longleftrightarrow> (c \<ge> 0x20 \<and> c \<le> 0x7e) \<or> (c \<ge> 0xa0 \<and> c \<le> 0xff)"

definition FcitxKeySymToUnicode :: "keysym \<Rightarrow> uint32" where
  "FcitxKeySymToUnicode keyval =
     (if latin1 keyval then keyval
      else if keyval AND 0xff000000 = 0x01000000 then keyval AND 0x00ffffff
      else (case key_search fst gdk_keysym_to_unicode_tab (uint keyval) 0
                   (int (length gdk_keysym_to_unicode_tab) - 1) of
              Some (keysym, ucs) \<Rightarrow> word_of_int ucs
            | None \<Rightarrow> 0))"

definition FcitxUnicodeToKeySym :: "uint32 \<Rightarrow> keysym" where
  "FcitxUnicodeToKeySym wc =
     (if latin1 wc then wc
      else (case key_search snd gdk_unicode_to_keysym_tab (uint wc) 0
                   (int (length gdk_unicode_to_keysym_tab) - 1) of
              Some (keysym, ucs) \<Rightarrow> word_of_int keysym
            | None \<Rightarrow> wc OR 0x01000000))"

section \<open>Kinds of keys\<close>

definition FcitxHotkeyIsHotKeyDigit :: "keysym \<Rightarrow> uint32 \<Rightarrow> bool" where
  "FcitxHotkeyIsHotKeyDigit ksym state =
     (if state \<noteq> 0 then False else ksym \<ge> FcitxKey_0 \<and> ksym \<le> FcitxKey_9)"

definition FcitxHotkeyIsHotKeyUAZ :: "keysym \<Rightarrow> uint32 \<Rightarrow> bool" where
  "FcitxHotkeyIsHotKeyUAZ ksym state =
     (if state \<noteq> 0 then False else ksym \<ge> FcitxKey_A \<and> ksym \<le> FcitxKey_Z)"

definition FcitxHotkeyIsHotKeySimple :: "keysym \<Rightarrow> uint32 \<Rightarrow> bool" where
  "FcitxHotkeyIsHotKeySimple ksym state =
     (if state \<noteq> 0 then False else ksym \<ge> FcitxKey_space \<and> ksym \<le> FcitxKey_asciitilde)"

definition FcitxHotkeyIsHotKeyLAZ :: "keysym \<Rightarrow> uint32 \<Rightarrow> bool" where
  "FcitxHotkeyIsHotKeyLAZ ksym state =
     (if state \<noteq> 0 then False else ksym \<ge> FcitxKey_a \<and> ksym \<le> FcitxKey_z)"

text \<open>The two hotkeys of a setting are a pair.\<close>

definition FcitxHotkeyIsHotKey :: "keysym \<Rightarrow> uint32 \<Rightarrow> hotkey \<times> hotkey \<Rightarrow> bool" where
  "FcitxHotkeyIsHotKey ksym state hk =
     (let st = state AND (FcitxKeyState_Ctrl_Alt_Shift OR FcitxKeyState_Super); (h0, h1) = hk in
      (hk_sym h0 \<noteq> 0 \<and> ksym = hk_sym h0 \<and> hk_state h0 = st)
      \<or> (hk_sym h1 \<noteq> 0 \<and> ksym = hk_sym h1 \<and> hk_state h1 = st))"

definition no_hotkey :: hotkey where
  "no_hotkey = \<lparr> hk_desc = None, hk_sym = 0, hk_state = 0 \<rparr>"

definition FcitxHotkeyIsKey :: "keysym \<Rightarrow> uint32 \<Rightarrow> keysym \<Rightarrow> uint32 \<Rightarrow> bool" where
  "FcitxHotkeyIsKey ksym state symcmp statecmp =
     FcitxHotkeyIsHotKey ksym state (\<lparr> hk_desc = None, hk_sym = symcmp, hk_state = statecmp \<rparr>, no_hotkey)"

definition FcitxHotkeyIsHotkeyCursorMove :: "keysym \<Rightarrow> uint32 \<Rightarrow> bool" where
  "FcitxHotkeyIsHotkeyCursorMove ksym state \<longleftrightarrow>
     (ksym = FcitxKey_Left \<or> ksym = FcitxKey_Right \<or> ksym = FcitxKey_Up \<or> ksym = FcitxKey_Down
      \<or> ksym = FcitxKey_Page_Up \<or> ksym = FcitxKey_Page_Down \<or> ksym = FcitxKey_Home \<or> ksym = FcitxKey_End)
     \<and> (state = FcitxKeyState_Ctrl \<or> state = FcitxKeyState_Ctrl_Shift \<or> state = FcitxKeyState_Shift
        \<or> state = FcitxKeyState_None)"

definition FcitxHotkeyIsHotKeyModifierCombine :: "keysym \<Rightarrow> uint32 \<Rightarrow> bool" where
  "FcitxHotkeyIsHotKeyModifierCombine ksym state \<longleftrightarrow>
     ksym = FcitxKey_Control_L \<or> ksym = FcitxKey_Control_R \<or> ksym = FcitxKey_Alt_L \<or> ksym = FcitxKey_Alt_R
     \<or> ksym = FcitxKey_Super_L \<or> ksym = FcitxKey_Super_R \<or> ksym = FcitxKey_Hyper_L \<or> ksym = FcitxKey_Hyper_R
     \<or> ksym = FcitxKey_Shift_L \<or> ksym = FcitxKey_Shift_R"

section \<open>Normalising a key event\<close>

definition FcitxHotkeyGetKey :: "keysym \<Rightarrow> uint32 \<Rightarrow> keysym \<times> uint32" where
  "FcitxHotkeyGetKey keysym0 iKeyState =
     (let (keysym, state) =
        (if iKeyState \<noteq> 0 then
           let keysym = (if iKeyState \<noteq> FcitxKeyState_Shift \<and> FcitxHotkeyIsHotKeyLAZ keysym0 0
                         then keysym0 + FcitxKey_A - FcitxKey_a else keysym0)
           in if FcitxHotkeyIsHotKeyLAZ keysym 0 \<or> FcitxHotkeyIsHotKeyUAZ keysym 0 then
                (keysym, if iKeyState = FcitxKeyState_Shift then iKeyState AND NOT FcitxKeyState_Shift else iKeyState)
              else
                (keysym,
                 if iKeyState AND FcitxKeyState_Shift \<noteq> 0
                    \<and> (((FcitxHotkeyIsHotKeySimple keysym 0 \<or> FcitxKeySymToUnicode keysym \<noteq> 0)
                         \<and> keysym \<noteq> FcitxKey_space \<and> keysym \<noteq> FcitxKey_Return)
                        \<or> (keysym \<ge> FcitxKey_KP_0 \<and> keysym \<le> FcitxKey_KP_9))
                 then iKeyState AND NOT FcitxKeyState_Shift else iKeyState)
         else (keysym0, iKeyState))
      in (if keysym = FcitxKey_ISO_Left_Tab then FcitxKey_Tab else keysym, state))"

definition FcitxHotkeyPadToMain :: "keysym \<Rightarrow> keysym" where
  "FcitxHotkeyPadToMain ksym =
     (case map_of
        [(FcitxKey_KP_Space, FcitxKey_space), (FcitxKey_KP_Tab, FcitxKey_Tab),
         (FcitxKey_KP_Enter, FcitxKey_Return), (FcitxKey_KP_F1, FcitxKey_F1),
         (FcitxKey_KP_F2, FcitxKey_F2), (FcitxKey_KP_F3, FcitxKey_F3), (FcitxKey_KP_F4, FcitxKey_F4),
         (FcitxKey_KP_Home, FcitxKey_Home), (FcitxKey_KP_Left, FcitxKey_Left),
         (FcitxKey_KP_Up, FcitxKey_Up), (FcitxKey_KP_Right, FcitxKey_Right),
         (FcitxKey_KP_Down, FcitxKey_Down), (FcitxKey_KP_Page_Up, FcitxKey_Page_Up),
         (FcitxKey_KP_Page_Down, FcitxKey_Page_Down), (FcitxKey_KP_End, FcitxKey_End),
         (FcitxKey_KP_Begin, FcitxKey_Begin), (FcitxKey_KP_Insert, FcitxKey_Insert),
         (FcitxKey_KP_Delete, FcitxKey_Delete), (FcitxKey_KP_Multiply, FcitxKey_asterisk),
         (FcitxKey_KP_Add, FcitxKey_plus), (FcitxKey_KP_Separator, FcitxKey_comma),
         (FcitxKey_KP_Subtract, FcitxKey_minus), (FcitxKey_KP_Decimal, FcitxKey_period),
         (FcitxKey_KP_Divide, FcitxKey_slash), (FcitxKey_KP_0, FcitxKey_0),
         (FcitxKey_KP_1, FcitxKey_1), (FcitxKey_KP_2, FcitxKey_2), (FcitxKey_KP_3, FcitxKey_3),
         (FcitxKey_KP_4, FcitxKey_4), (FcitxKey_KP_5, FcitxKey_5), (FcitxKey_KP_6, FcitxKey_6),
         (FcitxKey_KP_7, FcitxKey_7), (FcitxKey_KP_8, FcitxKey_8), (FcitxKey_KP_9, FcitxKey_9),
         (FcitxKey_KP_Equal, FcitxKey_equal)] ksym of
        Some main \<Rightarrow> main
      | None \<Rightarrow> ksym)"

definition FcitxHotkeyModifierToState :: "keysym \<Rightarrow> uint32" where
  "FcitxHotkeyModifierToState ksym =
     (if ksym = FcitxKey_Control_L \<or> ksym = FcitxKey_Control_R then FcitxKeyState_Ctrl
      else if ksym = FcitxKey_Alt_L \<or> ksym = FcitxKey_Alt_R then FcitxKeyState_Alt
      else if ksym = FcitxKey_Shift_L \<or> ksym = FcitxKey_Shift_R then FcitxKeyState_Shift
      else if ksym = FcitxKey_Super_L \<or> ksym = FcitxKey_Super_R then FcitxKeyState_Super
      else if ksym = FcitxKey_Hyper_L \<or> ksym = FcitxKey_Hyper_R then FcitxKeyState_Hyper
      else 0)"

section \<open>Key names\<close>

fun find_key_name :: "buf \<Rightarrow> (string \<times> int) list \<Rightarrow> int option" where
  "find_key_name strKey [] = None"
| "find_key_name strKey ((name, code) # ks) =
     (if strcmp strKey (ascii name) = 0 then Some code else find_key_name strKey ks)"

definition FcitxHotkeyGetKeyList :: "buf \<Rightarrow> int" where
  "FcitxHotkeyGetKeyList strKey =
     (case find_key_name strKey keyList of
        Some code \<Rightarrow> code
      | None \<Rightarrow> if length strKey = 1 then sint (strKey ! 0) else - 1)"

fun find_key_code :: "int \<Rightarrow> (string \<times> int) list \<Rightarrow> buf option" where
  "find_key_code key [] = None"
| "find_key_code key ((name, code) # ks) =
     (if code = key then Some (ascii name) else find_key_code key ks)"

definition FcitxHotkeyGetKeyListString :: "keysym \<Rightarrow> buf option" where
  "FcitxHotkeyGetKeyListString key =
     (if key > FcitxKey_space \<and> key \<le> FcitxKey_asciitilde then Some [ucast key]
      else find_key_code (uint key) keyList)"

definition flag_text :: "uint32 \<Rightarrow> uint32 \<Rightarrow> string \<Rightarrow> buf" where
  "flag_text state flag text = (if state AND flag \<noteq> 0 then ascii text else [])"

definition FcitxHotkeyGetKeyString :: "keysym \<Rightarrow> uint32 \<Rightarrow> buf option" where
  "FcitxHotkeyGetKeyString ksym0 state =
     (let ksym = (if ksym0 = FcitxKey_ISO_Left_Tab then FcitxKey_Tab else ksym0) in
      map_option (\<lambda>key.
        flag_text state FcitxKeyState_Ctrl ''CTRL_'' @ flag_text state FcitxKeyState_Alt ''ALT_''
        @ flag_text state FcitxKeyState_Shift ''SHIFT_'' @ flag_text state FcitxKeyState_Super ''SUPER_''
        @ key) (FcitxHotkeyGetKeyListString ksym))"

text \<open>
  The readable form leaves out the modifier that the key itself is. The C code counts the
  length of the modifiers before it replaces \<open>ISO_Left_Tab\<close>, and writes them after; that
  key is no modifier, so both see the same ones.
\<close>

definition readable_flag :: "keysym \<Rightarrow> uint32 \<Rightarrow> uint32 \<Rightarrow> keysym \<Rightarrow> keysym \<Rightarrow> string \<Rightarrow> buf" where
  "readable_flag ksym state flag l r text =
     (if state AND flag \<noteq> 0 \<and> ksym \<noteq> r \<and> ksym \<noteq> l then ascii text else [])"

definition FcitxHotkeyGetReadableKeyString :: "keysym \<Rightarrow> uint32 \<Rightarrow> buf option" where
  "FcitxHotkeyGetReadableKeyString ksym0 state =
     (let ksym = (if ksym0 = FcitxKey_ISO_Left_Tab then FcitxKey_Tab else ksym0) in
      map_option (\<lambda>key.
        readable_flag ksym state FcitxKeyState_Ctrl FcitxKey_Control_L FcitxKey_Control_R ''Ctrl+''
        @ readable_flag ksym state FcitxKeyState_Alt FcitxKey_Alt_L FcitxKey_Alt_R ''Alt+''
        @ readable_flag ksym state FcitxKeyState_Shift FcitxKey_Shift_L FcitxKey_Shift_R ''Shift+''
        @ readable_flag ksym state FcitxKeyState_Super FcitxKey_Super_L FcitxKey_Super_R ''Super+''
        @ (case key of [] \<Rightarrow> [] | c # k \<Rightarrow> c # map to_lower k)) (FcitxHotkeyGetKeyListString ksym))"

text \<open>
  \<open>FcitxHotkeyParseKey\<close>: a modifier may stand anywhere, its length is skipped at the front.
  Skipping past the end of the text is \<open>None\<close>; the inner option is the result.
\<close>

definition skip :: "buf \<Rightarrow> nat \<Rightarrow> buf option" where
  "skip p n = (if n \<le> length p then Some (drop n p) else None)"

definition parse_flag :: "buf \<Rightarrow> string \<Rightarrow> uint32 \<Rightarrow> buf \<times> uint32 \<Rightarrow> (buf \<times> uint32) option" where
  "parse_flag hay text flag ps =
     (let (p, st) = ps in
      if has_infix (ascii text) hay then map_option (\<lambda>p'. (p', st OR flag)) (skip p (length text))
      else Some (p, st))"

definition FcitxHotkeyParseKey :: "buf \<Rightarrow> (keysym \<times> uint32) option option" where
  "FcitxHotkeyParseKey strKey = do {
     a \<leftarrow> parse_flag strKey ''CTRL_'' FcitxKeyState_Ctrl (strKey, 0);
     b \<leftarrow> parse_flag (fst a) ''ALT_'' FcitxKeyState_Alt a;
     c \<leftarrow> parse_flag strKey ''SHIFT_'' FcitxKeyState_Shift b;
     d \<leftarrow> parse_flag strKey ''SUPER_'' FcitxKeyState_Super c;
     let iKey = FcitxHotkeyGetKeyList (fst d);
     Some (if iKey = - 1 then None else Some (word_of_int iKey, snd d)) }"

text \<open>\<open>FcitxHotkeySetKey\<close>: at most two words, those that parse fill the setting from the left.\<close>

fun set_key_words :: "nat \<Rightarrow> buf \<Rightarrow> hotkey list option" where
  "set_key_words 0 p = Some []"
| "set_key_words (Suc k) p =
     (let i = length (takeWhile (\<lambda>c. c \<noteq> 0x20) p); strKey = take i p in do {
        r \<leftarrow> FcitxHotkeyParseKey strKey;
        let hs = (case r of None \<Rightarrow> []
          | Some (ksym, state) \<Rightarrow> [\<lparr> hk_desc = Some (fcitx_utils_trim strKey), hk_sym = ksym, hk_state = state \<rparr>]);
        if i = length p then Some hs
        else do { rest \<leftarrow> set_key_words k (drop (i + 1) p); Some (hs @ rest) } })"

definition FcitxHotkeySetKey :: "buf \<Rightarrow> (hotkey \<times> hotkey) option" where
  "FcitxHotkeySetKey str = do {
     hs \<leftarrow> set_key_words 2 (fcitx_utils_trim str);
     Some (case hs of [] \<Rightarrow> (no_hotkey, no_hotkey) | [h] \<Rightarrow> (h, no_hotkey) | h0 # h1 # _ \<Rightarrow> (h0, h1)) }"

end
