(* ===== verification/Hotkey_Laws.thy ===== *)
theory Hotkey_Laws
  imports Hotkey
begin

text \<open>
  Laws of the hotkeys: the two conversion tables agree, so that every character survives the
  way to a key symbol and back, and the textual form of a key is parsed back to the key, but
  for the key symbols whose names clash in the table of key names.
\<close>

section \<open>Searching a table\<close>

lemma key_search_sound:
  assumes "key_search key tab v mn mx = Some e" "0 \<le> mn" "mx < int (length tab)"
  shows "e \<in> set tab \<and> key e = v"
  using assms
proof (induction key tab v mn mx rule: key_search.induct)
  case (1 key tab v mn mx)
  show ?case
  proof (cases "mx \<ge> mn")
    case True
    define mid where "mid = (mn + mx) div 2"
    have mid: "mn \<le> mid" "mid \<le> mx" using True by (auto simp: mid_def)
    then have mem: "tab ! nat mid \<in> set tab" using 1(4,5) by (intro nth_mem) linarith
    show ?thesis
      using 1(1)[OF True refl refl] 1(2)[OF True refl refl] 1(3-5) True mid
      by (simp add: key_search.simps[of key tab v mn mx] Let_def mid_def[symmetric] split: if_splits)
        (use mem in blast)+
  qed (use 1(3) in \<open>simp add: key_search.simps\<close>)
qed

lemma key_search_complete:
  assumes "sorted (map key tab)" "0 \<le> mn" "mx < int (length tab)"
    and "mn \<le> int i" "int i \<le> mx" "key (tab ! i) = v"
  shows "key_search key tab v mn mx \<noteq> None"
  using assms
proof (induction key tab v mn mx rule: key_search.induct)
  case (1 key tab v mn mx)
  define mid where "mid = (mn + mx) div 2"
  have le: "mx \<ge> mn" using 1(6,7) by linarith
  then have mid: "mn \<le> mid" "mid \<le> mx" by (auto simp: mid_def)
  have mono: "key (tab ! j) \<le> key (tab ! k)" if "j \<le> k" "k < length tab" for j k
    using sorted_nth_mono[OF 1(3) that(1)] that by simp
  have lo: "mid + 1 \<le> int i" if "key (tab ! nat mid) < v"
    using mono[of i "nat mid"] that 1(4-8) mid by (smt (verit) le_nat_iff int_nat_eq nat_less_iff)
  have hi: "int i \<le> mid - 1" if "key (tab ! nat mid) > v"
  proof (rule ccontr)
    assume "\<not> int i \<le> mid - 1"
    then have "nat mid \<le> i" by linarith
    from mono[OF this] that 1(5,7,8) show False by linarith
  qed
  show ?case
    using 1(1)[OF le refl refl] 1(2)[OF le refl refl] 1(3-8) le mid lo hi
    by (subst key_search.simps) (auto simp: Let_def mid_def[symmetric])
qed

section \<open>The conversion tables\<close>

text \<open>Inclusion of tables is checked on the tables sorted by their first column.\<close>

fun within :: "(int \<times> int) list \<Rightarrow> (int \<times> int) list \<Rightarrow> bool" where
  "within [] ys = True"
| "within (x # xs) [] = False"
| "within (x # xs) (y # ys) = (if x = y then within xs ys else within (x # xs) ys)"

fun merge_fst :: "(int \<times> int) list \<Rightarrow> (int \<times> int) list \<Rightarrow> (int \<times> int) list" where
  "merge_fst [] ys = ys"
| "merge_fst (x # xs) [] = x # xs"
| "merge_fst (x # xs) (y # ys) =
     (if fst x < fst y then x # merge_fst xs (y # ys) else y # merge_fst (x # xs) ys)"

fun merge_pairs :: "(int \<times> int) list list \<Rightarrow> (int \<times> int) list list" where
  "merge_pairs (x # y # xs) = merge_fst x y # merge_pairs xs"
| "merge_pairs xs = xs"

fun merge_all :: "nat \<Rightarrow> (int \<times> int) list list \<Rightarrow> (int \<times> int) list" where
  "merge_all 0 xs = concat xs"
| "merge_all (Suc n) xs = merge_all n (merge_pairs xs)"

lemma set_merge_fst: "set (merge_fst xs ys) = set xs \<union> set ys"
  by (induction xs ys rule: merge_fst.induct) auto

lemma set_merge_pairs: "(\<Union>x\<in>set (merge_pairs xs). set x) = (\<Union>x\<in>set xs. set x)"
  by (induction xs rule: merge_pairs.induct) (auto simp: set_merge_fst)

lemma set_merge_all: "set (merge_all n xs) = (\<Union>x\<in>set xs. set x)"
  by (induction n xs rule: merge_all.induct) (simp_all add: set_merge_pairs)

lemma within_subset: "within xs ys \<Longrightarrow> set xs \<subseteq> set ys"
  by (induction xs ys rule: within.induct) (auto split: if_splits)

lemma to_unicode_sorted: "sorted_wrt (<) (map fst gdk_keysym_to_unicode_tab)"
proof -
  have "successively (<) (map fst gdk_keysym_to_unicode_tab)" by code_simp
  then show ?thesis by (simp add: successively_conv_sorted_wrt)
qed

lemma to_keysym_sorted: "sorted (map snd gdk_unicode_to_keysym_tab)"
proof -
  have "successively (\<le>) (map snd gdk_unicode_to_keysym_tab)" by code_simp
  then show ?thesis by (simp add: successively_conv_sorted_wrt)
qed

lemma tables_agree: "set gdk_unicode_to_keysym_tab \<subseteq> set gdk_keysym_to_unicode_tab"
proof -
  have "within (merge_all 10 (map (\<lambda>x. [x]) gdk_unicode_to_keysym_tab)) gdk_keysym_to_unicode_tab" by code_simp
  from within_subset[OF this] show ?thesis by (simp add: set_merge_all)
qed

lemma table_ranges:
  "list_all (\<lambda>e. 0xff < fst e \<and> fst e < 0x10000 \<and> 0 \<le> snd e \<and> snd e < 0x10000) gdk_keysym_to_unicode_tab"
  by code_simp

lemma sorted_key_unique:
  assumes "sorted_wrt (<) (map f xs)" "x \<in> set xs" "y \<in> set xs" "f x = (f y :: int)"
  shows "x = y"
  using assms by (induction xs) auto

lemma plane_mask_bit: "bit (0xff000000 :: uint32) i \<longleftrightarrow> 24 \<le> i \<and> i < 32"
proof -
  have "(0xff000000 :: uint32) = push_bit 24 (mask 8)" by (simp add: mask_eq_exp_minus_1)
  then show ?thesis by (simp only: bit_push_bit_iff bit_mask_iff) auto
qed

lemma low_mask_bit: "bit (0x00ffffff :: uint32) i \<longleftrightarrow> i < 24"
proof -
  have "(0x00ffffff :: uint32) = mask 24" by (simp add: mask_eq_exp_minus_1)
  then show ?thesis by (simp only: bit_mask_iff) auto
qed

lemma plane_one_bit: "bit (0x01000000 :: uint32) i \<longleftrightarrow> i = 24"
proof -
  have "(0x01000000 :: uint32) = push_bit 24 1" by simp
  then show ?thesis by (simp only: bit_push_bit_iff bit_1_iff) auto
qed

lemma low_no_bit: "(k :: uint32) < 0x1000000 \<Longrightarrow> 24 \<le> i \<Longrightarrow> \<not> bit k i"
  by (rule word_less_not_bit[of k 24]) (simp_all add: word_less_nat_alt)

lemma sym_plane: "(k :: uint32) < 0x1000000 \<Longrightarrow> k AND 0xff000000 = 0"
  using low_no_bit[of k]
  by (intro bit_word_eqI) (simp only: bit_and_iff plane_mask_bit, auto)

lemma direct_sym_plane: "(wc :: uint32) < 0x1000000 \<Longrightarrow> (wc OR 0x01000000) AND 0xff000000 = 0x01000000"
  using low_no_bit[of wc]
  by (intro bit_word_eqI) (simp only: bit_and_iff bit_or_iff plane_mask_bit plane_one_bit, auto)

lemma direct_sym_low: "(wc :: uint32) < 0x1000000 \<Longrightarrow> (wc OR 0x01000000) AND 0x00ffffff = wc"
  using low_no_bit[of wc]
  by (intro bit_word_eqI)
    (simp only: bit_and_iff bit_or_iff low_mask_bit plane_one_bit, metis linorder_not_less nless_le)

lemma direct_sym_latin1: "\<not> latin1 (wc OR 0x01000000)"
proof -
  have "0x01000000 \<le> wc OR 0x01000000" by (rule le_word_or1)
  then show ?thesis by (auto simp: latin1_def word_le_def)
qed

lemma keysym_unicode:
  assumes "(k, u) \<in> set gdk_keysym_to_unicode_tab"
  shows "FcitxKeySymToUnicode (word_of_int k) = word_of_int u"
proof -
  have k: "0xff < k" "k < 0x10000" using table_ranges assms by (auto simp: list_all_iff)
  then have uk: "uint (word_of_int k :: uint32) = k" by (simp add: uint_word_of_int)
  have nl: "\<not> latin1 (word_of_int k)"
    using k uk by (simp add: latin1_def word_le_def)
  have pl: "(word_of_int k :: uint32) AND 0xff000000 = 0"
    using k uk by (intro sym_plane) (simp add: word_less_def)
  obtain i where i: "i < length gdk_keysym_to_unicode_tab" "gdk_keysym_to_unicode_tab ! i = (k, u)"
    using assms by (auto simp: in_set_conv_nth)
  have "sorted (map fst gdk_keysym_to_unicode_tab)"
    using to_unicode_sorted by (rule strict_sorted_imp_sorted)
  from key_search_complete[OF this, of 0 "int (length gdk_keysym_to_unicode_tab) - 1" i k] i
  obtain e where e: "key_search fst gdk_keysym_to_unicode_tab k 0
      (int (length gdk_keysym_to_unicode_tab) - 1) = Some e" by auto
  from key_search_sound[OF e] have "e \<in> set gdk_keysym_to_unicode_tab" "fst e = k" by auto
  with sorted_key_unique[OF to_unicode_sorted this(1) assms] have "e = (k, u)" by simp
  then show ?thesis using e uk nl pl by (simp add: FcitxKeySymToUnicode_def)
qed

text \<open>
  Every character survives the way to a key symbol and back. For every code point below
  \<open>0x1000000\<close>, \<open>FcitxKeySymToUnicode\<close> applied to the result of
  \<open>FcitxUnicodeToKeySym\<close> returns that code point, whether it goes through Latin-1, the
  table or the direct encoding.
\<close>

theorem unicode_keysym_roundtrip:
  assumes "wc < 0x1000000"
  shows "FcitxKeySymToUnicode (FcitxUnicodeToKeySym wc) = wc"
proof (cases "latin1 wc")
  case True then show ?thesis by (simp add: FcitxKeySymToUnicode_def FcitxUnicodeToKeySym_def)
next
  case False
  show ?thesis
  proof (cases "key_search snd gdk_unicode_to_keysym_tab (uint wc) 0
                   (int (length gdk_unicode_to_keysym_tab) - 1)")
    case None
    then show ?thesis using False direct_sym_plane[OF assms] direct_sym_low[OF assms] direct_sym_latin1
      by (simp add: FcitxKeySymToUnicode_def FcitxUnicodeToKeySym_def)
  next
    case (Some e)
    from key_search_sound[OF this] tables_agree
    have "(fst e, uint wc) \<in> set gdk_keysym_to_unicode_tab" by (cases e) auto
    then have "FcitxKeySymToUnicode (word_of_int (fst e)) = wc"
      using keysym_unicode by simp
    then show ?thesis using Some False by (simp add: FcitxUnicodeToKeySym_def split_beta)
  qed
qed

lemma unicode_keysym_roundtrip_witness:
  "FcitxKeySymToUnicode (FcitxUnicodeToKeySym 0x20ac) = 0x20ac"
  by (rule unicode_keysym_roundtrip) simp

section \<open>Key names\<close>

abbreviation modifier_mask :: uint32 where
  "modifier_mask \<equiv> FcitxKeyState_Ctrl_Alt_Shift OR FcitxKeyState_Super"

lemma modifier_texts:
  "ascii ''CTRL_'' = [67, 84, 82, 76, 95]" "ascii ''ALT_'' = [65, 76, 84, 95]"
  "ascii ''SHIFT_'' = [83, 72, 73, 70, 84, 95]" "ascii ''SUPER_'' = [83, 85, 80, 69, 82, 95]"
  by code_simp+

lemma and_not_zero:
  fixes s m :: "'a::len word"
  assumes "s AND NOT m = 0"
  shows "s = s AND m"
proof (rule bit_word_eqI)
  fix n assume "n < LENGTH('a)"
  then show "bit s n = bit (s AND m) n"
    using arg_cong[OF assms, of "\<lambda>x. bit x n"] by (auto simp: bit_and_iff bit_not_iff)
qed

lemma modifier_states:
  assumes "state AND NOT modifier_mask = (0 :: uint32)"
  shows "state \<in> {0, 1, 4, 5, 8, 9, 12, 13, 64, 65, 68, 69, 72, 73, 76, 77}"
proof -
  have eq: "state = state AND modifier_mask" by (rule and_not_zero[OF assms])
  also have "\<dots> \<le> modifier_mask" by (rule word_and_le1)
  finally have "unat state < 78" by (simp add: word_le_nat_alt)
  have "state AND modifier_mask = state \<longrightarrow>
    list_ex ((=) state) [0, 1, 4, 5, 8, 9, 12, 13, 64, 65, 68, 69, 72, 73, 76, 77]"
    by (rule word_below_all[where k = 78]) (code_simp, fact)
  then show ?thesis using eq by simp
qed

lemma has_prefix_set: "has_prefix p s \<Longrightarrow> set p \<subseteq> set s"
  by (induction p s rule: has_prefix.induct) auto

lemma has_infix_set: "has_infix p s \<Longrightarrow> set p \<subseteq> set s"
  by (induction p s rule: has_infix.induct) (force dest: has_prefix_set)+

lemma no_infix: "x \<in> set p \<Longrightarrow> x \<notin> set s \<Longrightarrow> \<not> has_infix p s \<and> \<not> has_prefix p s"
  by (auto dest: has_prefix_set has_infix_set)

lemma parse_modifiers:
  assumes "state AND NOT modifier_mask = 0" "0x5f \<notin> set key \<or> key = [0x5f]"
  shows "FcitxHotkeyParseKey
     (flag_text state FcitxKeyState_Ctrl ''CTRL_'' @ flag_text state FcitxKeyState_Alt ''ALT_''
        @ flag_text state FcitxKeyState_Shift ''SHIFT_'' @ flag_text state FcitxKeyState_Super ''SUPER_''
        @ key)
    = Some (if FcitxHotkeyGetKeyList key = - 1 then None
            else Some (word_of_int (FcitxHotkeyGetKeyList key), state))"
  using assms(2)
proof
  assume *: "0x5f \<notin> set key"
  have [simp]: "\<not> has_infix p key" "\<not> has_prefix p key" if "0x5f \<in> set p" for p
    using no_infix[OF that *] by auto
  show ?thesis
    using modifier_states[OF assms(1)]
    by (auto simp: FcitxHotkeyParseKey_def parse_flag_def flag_text_def modifier_texts skip_def)
next
  assume "key = [0x5f]"
  then show ?thesis
    using modifier_states[OF assms(1)]
    by (auto simp: FcitxHotkeyParseKey_def parse_flag_def flag_text_def modifier_texts skip_def)
qed


text \<open>
  The names in the table are in capitals, so that keys that differ only in case share a name;
  these keys lose against the one that comes first.
\<close>

definition clashing_keys :: "int list" where
  "clashing_keys = [0x4c2, 0x6b4, 0x6b6, 0x6b7, 0x6b8, 0x6b9, 0x6ba, 0x6bf]"

definition name_number :: "string \<Rightarrow> int" where
  "name_number n = horner_sum of_char 256 n"

definition sound_keys :: "(string \<times> int) list" where
  "sound_keys = filter (\<lambda>e. snd e \<notin> set clashing_keys) keyList"

lemma key_names_long:
  "list_all (\<lambda>(n, c). length n \<ge> 2 \<and> CHR ''_'' \<notin> set n \<and> 0x1f < c \<and> c < 0x10000) keyList"
  by code_simp

lemma sound_names_sorted:
  "successively (<) (map fst (merge_all 9 (map (\<lambda>e. [(name_number (fst e), snd e)]) sound_keys)))"
  by code_simp

lemma clashing_names:
  "list_all (\<lambda>e. case find (\<lambda>x. fst x = fst e) keyList of None \<Rightarrow> False
     | Some e' \<Rightarrow> snd e' \<notin> set clashing_keys) (filter (\<lambda>e. snd e \<in> set clashing_keys) keyList)"
  by code_simp

lemma of_char_inj: "(of_char c :: byte) = of_char d \<longleftrightarrow> c = d"
proof -
  have "unat (of_char c :: byte) = of_char c" for c :: char
  proof -
    have "(of_char c :: nat) < 256" by simp
    then show ?thesis using of_nat_of_char[of c, where 'a = byte, symmetric] by (simp add: unat_of_nat)
  qed
  then show ?thesis by (metis of_char_eq_iff)
qed

lemma ascii_inj: "ascii m = ascii n \<longleftrightarrow> m = n"
  unfolding ascii_def by (rule inj_map_eq_map) (simp add: inj_def of_char_inj)

lemma find_key_name_find: "find_key_name (ascii n) ks = map_option snd (find (\<lambda>x. fst x = n) ks)"
  by (induction ks) (auto simp: strcmp_eq ascii_inj)

lemma find_key_code_find: "find_key_code c ks = map_option (\<lambda>e. ascii (fst e)) (find (\<lambda>x. snd x = c) ks)"
  by (induction ks) auto

lemma find_key_name_short:
  "list_all (\<lambda>e. length s \<noteq> length (fst e)) ks \<Longrightarrow> find_key_name s ks = None"
  by (induction s ks rule: find_key_name.induct) (auto simp: strcmp_eq ascii_def)

lemma name_of_clash:
  assumes "e \<in> set keyList" "snd e \<in> set clashing_keys"
  obtains e' where "find (\<lambda>x. fst x = fst e) keyList = Some e'" "snd e' \<notin> set clashing_keys"
  using clashing_names assms by (fastforce simp: list_all_iff split: option.splits)

lemma name_of_sound:
  assumes "e \<in> set keyList" "snd e \<notin> set clashing_keys"
  shows "find (\<lambda>x. fst x = fst e) keyList = Some e"
proof -
  have "find (\<lambda>x. fst x = fst e) keyList \<noteq> None" using assms(1) unfolding find_None_iff by blast
  then obtain e' where e': "find (\<lambda>x. fst x = fst e) keyList = Some e'" by blast
  then have m: "e' \<in> set keyList" "fst e' = fst e" by (auto simp: find_Some_iff)
  have "snd e' \<notin> set clashing_keys"
    using name_of_clash[OF m(1)] e' m(2) by (metis option.inject)
  then have "e \<in> set sound_keys" "e' \<in> set sound_keys" using assms m by (auto simp: sound_keys_def)
  moreover have "distinct (map fst (merge_all 9 (map (\<lambda>e. [(name_number (fst e), snd e)]) sound_keys)))"
    using sound_names_sorted by (simp add: successively_conv_sorted_wrt strict_sorted_iff)
  moreover define L where "L = merge_all 9 (map (\<lambda>e. [(name_number (fst e), snd e)]) sound_keys)"
  ultimately have "distinct (map fst L)" "(name_number (fst e), snd e') \<in> set L" "(name_number (fst e), snd e) \<in> set L"
    unfolding L_def set_merge_all using m(2) by (auto simp: image_iff intro: bexI[of _ e'])
  from eq_key_imp_eq_value[OF this] have "snd e' = snd e" .
  with e' m(2) show ?thesis by (simp add: prod_eq_iff)
qed

lemma key_name_back:
  assumes "FcitxHotkeyGetKeyListString ksym = Some key"
  shows "(0x5f \<notin> set key \<or> key = [0x5f]) \<and> FcitxHotkeyGetKeyList key \<noteq> - 1
     \<and> (word_of_int (FcitxHotkeyGetKeyList key) = ksym \<longleftrightarrow> uint ksym \<notin> set clashing_keys)"
proof (cases "ksym > FcitxKey_space \<and> ksym \<le> FcitxKey_asciitilde")
  case True
  then have key: "key = [ucast ksym]" using assms by (simp add: FcitxHotkeyGetKeyListString_def)
  have "find_key_name key keyList = None"
    by (rule find_key_name_short) (use key_names_long key in \<open>auto simp: list_all_iff\<close>)
  moreover have "FcitxKey_space < ksym \<and> ksym \<le> FcitxKey_asciitilde \<longrightarrow> sint (ucast ksym :: byte) = uint ksym"
    by (rule word_below_all[where k = 127]) (code_simp, use True in \<open>simp add: word_le_nat_alt\<close>)
  moreover have "uint ksym \<notin> set clashing_keys"
    using True by (auto simp: clashing_keys_def word_le_def)
  moreover have "uint ksym \<noteq> - 1" using uint_ge_0[of ksym] by linarith
  ultimately show ?thesis using key True by (auto simp: FcitxHotkeyGetKeyList_def)
next
  case False
  then obtain e where e: "find (\<lambda>x. snd x = uint ksym) keyList = Some e" "key = ascii (fst e)"
    using assms by (auto simp: FcitxHotkeyGetKeyListString_def find_key_code_find)
  then have m: "e \<in> set keyList" "snd e = uint ksym" by (auto simp: find_Some_iff)
  have us: "0x5f \<notin> set key" 
  proof -
    have "CHR ''_'' \<notin> set (fst e)" using key_names_long m(1) by (auto simp: list_all_iff)
    moreover have "(0x5f :: byte) = of_char CHR ''_''" by code_simp
    ultimately have "\<forall>x\<in>set (fst e). of_char x \<noteq> (0x5f :: byte)" by (metis of_char_inj)
    then show ?thesis by (auto simp: e(2) ascii_def)
  qed
  obtain e' where e': "find (\<lambda>x. fst x = fst e) keyList = Some e'"
     "snd e' = snd e \<longleftrightarrow> snd e \<notin> set clashing_keys"
    using name_of_sound[OF m(1)] name_of_clash[OF m(1)] by (metis option.inject)
  then have "e' \<in> set keyList" by (auto simp: find_Some_iff)
  then have r: "0 < snd e' \<and> snd e' < 0x10000"
    using bspec[OF key_names_long[unfolded list_all_iff], of e'] by (auto split: prod.splits)
  have "FcitxHotkeyGetKeyList key = snd e'"
    using e' by (simp add: FcitxHotkeyGetKeyList_def e(2) find_key_name_find)
  moreover have "word_of_int (snd e') = ksym \<longleftrightarrow> snd e' = uint ksym"
    using r by (auto simp: uint_word_of_int)
  ultimately show ?thesis using us r e'(2) m(2) by auto
qed

lemma tab_text:
  "FcitxHotkeyGetKeyListString FcitxKey_Tab = Some (ascii ''TAB'')" "FcitxHotkeyGetKeyList (ascii ''TAB'') = uint FcitxKey_Tab"
  "uint FcitxKey_ISO_Left_Tab \<notin> set clashing_keys" "FcitxKey_Tab \<noteq> FcitxKey_ISO_Left_Tab"
  by code_simp+

text \<open>
  C13: The textual form of a key is parsed back. For every key that has a name, \<open>ISO_Left_Tab\<close> included (which is
  written as \<open>TAB\<close>), with every combination of the modifiers Control, Alt, Shift and Super and no other modifier,
  \<open>FcitxHotkeyParseKey\<close> reads the string of \<open>FcitxHotkeyGetKeyString\<close>. It gives back key and modifiers
  except exactly for nine keys: \<open>ISO_Left_Tab\<close>, which becomes \<open>Tab\<close> with the same modifiers, and the eight keys
  whose name in the table belongs to another key before them.
\<close>

theorem key_string_roundtrip:
  assumes "FcitxHotkeyGetKeyString ksym state = Some str" and "state AND NOT modifier_mask = 0"
  shows "(FcitxHotkeyParseKey str = Some (Some (ksym, state)) \<longleftrightarrow>
      uint ksym \<notin> set clashing_keys \<and> ksym \<noteq> FcitxKey_ISO_Left_Tab) \<and>
    (ksym = FcitxKey_ISO_Left_Tab \<longrightarrow> FcitxHotkeyParseKey str = Some (Some (FcitxKey_Tab, state)))"
proof -
  let ?k = "if ksym = FcitxKey_ISO_Left_Tab then FcitxKey_Tab else ksym"
  obtain key where k: "FcitxHotkeyGetKeyListString ?k = Some key"
    "str = flag_text state FcitxKeyState_Ctrl ''CTRL_'' @ flag_text state FcitxKeyState_Alt ''ALT_''
        @ flag_text state FcitxKeyState_Shift ''SHIFT_'' @ flag_text state FcitxKeyState_Super ''SUPER_''
        @ key"
    using assms(1) by (auto simp: FcitxHotkeyGetKeyString_def Let_def)
  from key_name_back[OF k(1)] have n: "0x5f \<notin> set key \<or> key = [0x5f]" by blast
  note parse = parse_modifiers[OF assms(2) n, folded k(2)]
  show ?thesis
  proof (cases "ksym = FcitxKey_ISO_Left_Tab")
    case True
    then have "key = ascii ''TAB''" using k(1) tab_text(1) by simp
    then have "FcitxHotkeyParseKey str = Some (Some (FcitxKey_Tab, state))"
      using parse tab_text(2) by simp
    then show ?thesis using True tab_text(4) by simp
  next
    case False
    with k(1) have "FcitxHotkeyGetKeyListString ksym = Some key" by simp
    from parse key_name_back[OF this] False show ?thesis by simp
  qed
qed

lemma key_string_roundtrip_witness:
  "FcitxHotkeyParseKey (ascii ''CTRL_A'') = Some (Some (0x41, FcitxKeyState_Ctrl))"
proof -
  have "FcitxHotkeyGetKeyString 0x41 FcitxKeyState_Ctrl = Some (ascii ''CTRL_A'')" by code_simp
  from key_string_roundtrip[OF this] show ?thesis by (simp add: clashing_keys_def)
qed

lemma parse_order: "FcitxHotkeyParseKey (ascii ''ALT_CTRL_A'') = Some None"
  by (simp add: FcitxHotkeyParseKey_def parse_flag_def skip_def modifier_texts ascii_def) code_simp

end
