(* ===== verification/Candidate.thy ===== *)
theory Candidate
  imports Hotkey Utarray
begin

text \<open>
  The list of candidate words: \<open>src/lib/fcitx/candidate.c\<close>. Words lie in one array that is
  shown page by page. A pointer to a word is its index in the array; calls of callbacks that
  end a function are returned as values, and the calls of destroy functions are kept in a log.
  Sizes and indices are integers, for arrays of fewer than \<open>2 ^ 31\<close> words.
\<close>

type_synonym ptr = nat

datatype cand_callback = DummyHandler | CandCallback ptr

record cand_word =
  cw_word :: "buf option"
  cw_extra :: "buf option"
  cw_callback :: cand_callback
  cw_wordType :: uint32
  cw_extraType :: uint32
  cw_owner :: ptr
  cw_priv :: ptr

datatype layout_hint = CLH_NotSet | CLH_Vertical | CLH_Horizontal

record cand_list =
  cl_words :: "cand_word list"
  cl_choose :: buf
  cl_modifier :: uint32
  cl_page :: int
  cl_perpage :: int
  cl_gone_prev :: bool
  cl_gone_next :: bool
  cl_layout :: layout_hint
  cl_has_prev :: bool
  cl_has_next :: bool
  cl_paging :: "ptr option"
  cl_over_arg :: ptr
  cl_over_destroy :: "ptr option"
  cl_override :: bool
  cl_over_highlight :: bool
  cl_over_highlight_value :: bool
  cl_destroyed :: "(ptr \<times> ptr) list"

abbreviation MAX_CAND_WORD :: nat where "MAX_CAND_WORD \<equiv> 10"

definition DIGIT_STR_CHOOSE :: buf where
  "DIGIT_STR_CHOOSE = ascii ''1234567890''"

definition FcitxCandidateWordNewList :: cand_list where
  "FcitxCandidateWordNewList =
     \<lparr> cl_words = [], cl_choose = take MAX_CAND_WORD DIGIT_STR_CHOOSE, cl_modifier = 0, cl_page = 0,
       cl_perpage = 5, cl_gone_prev = False, cl_gone_next = False, cl_layout = CLH_NotSet,
       cl_has_prev = False, cl_has_next = False, cl_paging = None, cl_over_arg = 0,
       cl_over_destroy = None, cl_override = False, cl_over_highlight = False,
       cl_over_highlight_value = False, cl_destroyed = [] \<rparr>"

section \<open>Changing the words\<close>

definition FcitxCandidateWordInsert :: "cand_list \<Rightarrow> cand_word \<Rightarrow> int \<Rightarrow> cand_list" where
  "FcitxCandidateWordInsert l w position = l \<lparr> cl_words := fcitx_array_insert (cl_words l) w position \<rparr>"

definition FcitxCandidateWordAppend :: "cand_list \<Rightarrow> cand_word \<Rightarrow> cand_list" where
  "FcitxCandidateWordAppend l w = l \<lparr> cl_words := utarray_push_back (cl_words l) w \<rparr>"

text \<open>Merging steals the words of the other list, which may be the null pointer.\<close>

definition FcitxCandidateWordMerge ::
  "cand_list \<Rightarrow> cand_list option \<Rightarrow> int \<Rightarrow> cand_list \<times> cand_list option" where
  "FcitxCandidateWordMerge l newList position =
     (case newList of
        None \<Rightarrow> (l, None)
      | Some n \<Rightarrow>
         (l \<lparr> cl_words := (if position \<ge> 0 then fcitx_array_inserta (cl_words l) (cl_words n) position
                           else utarray_concat (cl_words l) (cl_words n)) \<rparr>,
          Some (n \<lparr> cl_words := [], cl_page := 0 \<rparr>)))"

definition zero_word :: "cand_callback \<Rightarrow> cand_word" where
  "zero_word cb = \<lparr> cw_word = None, cw_extra = None, cw_callback = cb, cw_wordType = 0,
     cw_extraType = 0, cw_owner = 0, cw_priv = 0 \<rparr>"

definition FcitxCandidateWordInsertPlaceHolder :: "cand_list \<Rightarrow> int \<Rightarrow> cand_list" where
  "FcitxCandidateWordInsertPlaceHolder l position =
     l \<lparr> cl_words := fcitx_array_insert (cl_words l) (zero_word DummyHandler) position \<rparr>"

definition FcitxCandidateWordMove :: "cand_list \<Rightarrow> int \<Rightarrow> int \<Rightarrow> cand_list" where
  "FcitxCandidateWordMove l from to = l \<lparr> cl_words := fcitx_array_move (cl_words l) from to \<rparr>"

definition FcitxCandidateWordMoveByWord :: "cand_list \<Rightarrow> nat \<Rightarrow> int \<Rightarrow> cand_list" where
  "FcitxCandidateWordMoveByWord l w to = FcitxCandidateWordMove l (int w) to"

text \<open>An index behind the last word is not checked: the destructor gets a null pointer.\<close>

definition FcitxCandidateWordRemoveByIndex :: "cand_list \<Rightarrow> int \<Rightarrow> cand_list option" where
  "FcitxCandidateWordRemoveByIndex l idx =
     map_option (\<lambda>ws. l \<lparr> cl_words := ws \<rparr>) (fcitx_array_erase (cl_words l) idx 1)"

definition FcitxCandidateWordRemove :: "cand_list \<Rightarrow> nat \<Rightarrow> cand_list option" where
  "FcitxCandidateWordRemove l w = FcitxCandidateWordRemoveByIndex l (int w)"

text \<open>A list made longer holds zeroed words; \<open>null_cb\<close> stands for their null callback.\<close>

definition FcitxCandidateWordResize :: "cand_callback \<Rightarrow> cand_list \<Rightarrow> int \<Rightarrow> cand_list" where
  "FcitxCandidateWordResize null_cb l n = l \<lparr> cl_words := fcitx_array_resize (zero_word null_cb) (cl_words l) n \<rparr>"

definition FcitxCandidateWordReset :: "cand_list \<Rightarrow> cand_list" where
  "FcitxCandidateWordReset l =
     (let l1 = l \<lparr> cl_words := [] \<rparr>;
          l2 = (if cl_override l1 then
                  l1 \<lparr> cl_override := False, cl_has_prev := False, cl_has_next := False, cl_paging := None,
                       cl_destroyed := cl_destroyed l1 @
                         (case cl_over_destroy l1 of None \<Rightarrow> [] | Some f \<Rightarrow> [(f, cl_over_arg l1)]),
                       cl_over_arg := 0, cl_over_destroy := None \<rparr>
                else l1)
      in l2 \<lparr> cl_over_highlight := False, cl_over_highlight_value := False, cl_page := 0,
              cl_gone_prev := False, cl_gone_next := False, cl_layout := CLH_NotSet \<rparr>)"

section \<open>Pages\<close>

definition FcitxCandidateWordGetListSize :: "cand_list \<Rightarrow> int" where
  "FcitxCandidateWordGetListSize l = int (length (cl_words l))"

definition FcitxCandidateWordPageCount :: "cand_list \<Rightarrow> int" where
  "FcitxCandidateWordPageCount l = (int (length (cl_words l)) + cl_perpage l - 1) div cl_perpage l"

definition FcitxCandidateWordGetCurrentPage :: "cand_list \<Rightarrow> int" where
  "FcitxCandidateWordGetCurrentPage l = cl_page l"

definition FcitxCandidateWordGetPageSize :: "cand_list \<Rightarrow> int" where
  "FcitxCandidateWordGetPageSize l = cl_perpage l"

definition FcitxCandidateWordSetPageSize :: "cand_list \<Rightarrow> int \<Rightarrow> cand_list" where
  "FcitxCandidateWordSetPageSize l n = l \<lparr> cl_perpage := (if n \<le> 0 \<or> n > 10 then 5 else n) \<rparr>"

definition FcitxCandidateWordSetPage :: "cand_list \<Rightarrow> int \<Rightarrow> cand_list" where
  "FcitxCandidateWordSetPage l index =
     (if index \<ge> 0 \<and> index < FcitxCandidateWordPageCount l then l \<lparr> cl_page := index \<rparr> else l)"

text \<open>The division of C rounds towards zero.\<close>

definition FcitxCandidateWordSetFocus :: "cand_list \<Rightarrow> int \<Rightarrow> cand_list" where
  "FcitxCandidateWordSetFocus l index =
     FcitxCandidateWordSetPage l (sgn index * (\<bar>index\<bar> div cl_perpage l))"

definition FcitxCandidateWordGetCurrentIndex :: "cand_list \<Rightarrow> int" where
  "FcitxCandidateWordGetCurrentIndex l = cl_page l * cl_perpage l"

definition FcitxCandidateWordHasPrev :: "cand_list \<Rightarrow> bool" where
  "FcitxCandidateWordHasPrev l = (if cl_override l then cl_has_prev l else cl_page l > 0)"

definition FcitxCandidateWordHasNext :: "cand_list \<Rightarrow> bool" where
  "FcitxCandidateWordHasNext l =
     (if cl_override l then cl_has_next l else cl_page l + 1 < FcitxCandidateWordPageCount l)"

text \<open>With overridden paging the answer is that of the callback.\<close>

datatype paging_result = PagingReturn bool | PagingCall ptr ptr bool

definition FcitxCandidateWordGoPrevPage :: "cand_list \<Rightarrow> paging_result \<times> cand_list" where
  "FcitxCandidateWordGoPrevPage l =
     (if cl_override l then
        (case cl_paging l of Some f \<Rightarrow> (PagingCall f (cl_over_arg l) True, l) | None \<Rightarrow> (PagingReturn True, l))
      else if FcitxCandidateWordPageCount l = 0 then (PagingReturn False, l)
      else if FcitxCandidateWordHasPrev l then
        (PagingReturn True, l \<lparr> cl_page := cl_page l - 1, cl_gone_prev := True \<rparr>)
      else (PagingReturn False, l))"

definition FcitxCandidateWordGoNextPage :: "cand_list \<Rightarrow> paging_result \<times> cand_list" where
  "FcitxCandidateWordGoNextPage l =
     (if cl_override l then
        (case cl_paging l of Some f \<Rightarrow> (PagingCall f (cl_over_arg l) False, l) | None \<Rightarrow> (PagingReturn True, l))
      else if FcitxCandidateWordPageCount l = 0 then (PagingReturn False, l)
      else if FcitxCandidateWordHasNext l then
        (PagingReturn True, l \<lparr> cl_page := cl_page l + 1, cl_gone_next := True \<rparr>)
      else (PagingReturn False, l))"

definition FcitxCandidateWordGetHasGoneToPrevPage :: "cand_list \<Rightarrow> bool" where
  "FcitxCandidateWordGetHasGoneToPrevPage l = cl_gone_prev l"

definition FcitxCandidateWordGetHasGoneToNextPage :: "cand_list \<Rightarrow> bool" where
  "FcitxCandidateWordGetHasGoneToNextPage l = cl_gone_next l"

definition FcitxCandidateWordGetCurrentWindowSize :: "cand_list \<Rightarrow> int" where
  "FcitxCandidateWordGetCurrentWindowSize l =
     (if length (cl_words l) = 0 then 0
      else if cl_page l + 1 = FcitxCandidateWordPageCount l \<and> int (length (cl_words l)) mod cl_perpage l \<noteq> 0
      then int (length (cl_words l)) mod cl_perpage l
      else cl_perpage l)"

definition FcitxCandidateWordSetOverridePaging ::
  "cand_list \<Rightarrow> bool \<Rightarrow> bool \<Rightarrow> ptr option \<Rightarrow> ptr \<Rightarrow> ptr option \<Rightarrow> cand_list" where
  "FcitxCandidateWordSetOverridePaging l hasPrev hasNext paging arg destroyNotify =
     l \<lparr> cl_destroyed := cl_destroyed l @
           (if cl_override l then (case cl_over_destroy l of None \<Rightarrow> [] | Some f \<Rightarrow> [(f, cl_over_arg l)]) else []),
         cl_override := True, cl_has_prev := hasPrev, cl_has_next := hasNext, cl_paging := paging,
         cl_over_arg := arg, cl_over_destroy := destroyNotify \<rparr>"

definition FcitxCandidateWordSetOverrideDefaultHighlight :: "cand_list \<Rightarrow> bool \<Rightarrow> cand_list" where
  "FcitxCandidateWordSetOverrideDefaultHighlight l v =
     l \<lparr> cl_over_highlight := True, cl_over_highlight_value := v \<rparr>"

definition FcitxCandidateWordGetLayoutHint :: "cand_list \<Rightarrow> layout_hint" where
  "FcitxCandidateWordGetLayoutHint l = cl_layout l"

definition FcitxCandidateWordSetLayoutHint :: "cand_list \<Rightarrow> layout_hint \<Rightarrow> cand_list" where
  "FcitxCandidateWordSetLayoutHint l hint = l \<lparr> cl_layout := hint \<rparr>"

section \<open>Access to words\<close>

text \<open>Results that are pointers to a word are its index.\<close>

definition FcitxCandidateWordGetByTotalIndex :: "cand_list \<Rightarrow> int \<Rightarrow> nat option" where
  "FcitxCandidateWordGetByTotalIndex l index =
     map_option (\<lambda>_. nat index) (fcitx_array_eltptr (cl_words l) index)"

definition FcitxCandidateWordGetByIndex :: "cand_list \<Rightarrow> int \<Rightarrow> nat option" where
  "FcitxCandidateWordGetByIndex l index =
     (if index < cl_perpage l \<and> index \<ge> 0
      then FcitxCandidateWordGetByTotalIndex l (cl_page l * cl_perpage l + index) else None)"

definition FcitxCandidateWordGetCurrentWindow :: "cand_list \<Rightarrow> nat option" where
  "FcitxCandidateWordGetCurrentWindow l = FcitxCandidateWordGetByTotalIndex l (cl_page l * cl_perpage l)"

definition FcitxCandidateWordGetCurrentWindowNext :: "cand_list \<Rightarrow> nat option \<Rightarrow> nat option" where
  "FcitxCandidateWordGetCurrentWindowNext l w =
     (case utarray_next (cl_words l) w of
        None \<Rightarrow> None
      | Some n \<Rightarrow> (case FcitxCandidateWordGetCurrentWindow l of
            None \<Rightarrow> None
          | Some start \<Rightarrow> if n < start \<or> int n \<ge> int start + cl_perpage l then None else Some n))"

definition FcitxCandidateWordGetCurrentWindowPrev :: "cand_list \<Rightarrow> nat option \<Rightarrow> nat option" where
  "FcitxCandidateWordGetCurrentWindowPrev l w =
     (case utarray_prev (cl_words l) w of
        None \<Rightarrow> None
      | Some n \<Rightarrow> (case FcitxCandidateWordGetCurrentWindow l of
            None \<Rightarrow> None
          | Some start \<Rightarrow> if n < start \<or> int n \<ge> int start + cl_perpage l then None else Some n))"

definition FcitxCandidateWordGetFirst :: "cand_list \<Rightarrow> nat option" where
  "FcitxCandidateWordGetFirst l = utarray_front (cl_words l)"

definition FcitxCandidateWordGetLast :: "cand_list \<Rightarrow> nat option" where
  "FcitxCandidateWordGetLast l = utarray_back (cl_words l)"

definition FcitxCandidateWordGetNext :: "cand_list \<Rightarrow> nat option \<Rightarrow> nat option" where
  "FcitxCandidateWordGetNext l w = utarray_next (cl_words l) w"

definition FcitxCandidateWordGetPrev :: "cand_list \<Rightarrow> nat option \<Rightarrow> nat option" where
  "FcitxCandidateWordGetPrev l w = utarray_prev (cl_words l) w"

section \<open>Choosing a word\<close>

abbreviation IRV_TO_PROCESS :: uint32 where "IRV_TO_PROCESS \<equiv> 0"
abbreviation IRV_DO_NOTHING :: uint32 where "IRV_DO_NOTHING \<equiv> 1"

text \<open>Choosing a word calls its callback with the owner and the word.\<close>

datatype choice = ChoiceReturn uint32 | ChoiceCall cand_callback ptr nat

definition choose_word :: "cand_list \<Rightarrow> nat option \<Rightarrow> choice" where
  "choose_word l w =
     (case w of
        None \<Rightarrow> ChoiceReturn (if FcitxCandidateWordGetListSize l > 0 then IRV_DO_NOTHING else IRV_TO_PROCESS)
      | Some i \<Rightarrow> ChoiceCall (cw_callback (cl_words l ! i)) (cw_owner (cl_words l ! i)) i)"

definition FcitxCandidateWordChooseByIndex :: "cand_list \<Rightarrow> int \<Rightarrow> choice" where
  "FcitxCandidateWordChooseByIndex l index = choose_word l (FcitxCandidateWordGetByIndex l index)"

definition FcitxCandidateWordChooseByTotalIndex :: "cand_list \<Rightarrow> int \<Rightarrow> choice" where
  "FcitxCandidateWordChooseByTotalIndex l index = choose_word l (FcitxCandidateWordGetByTotalIndex l index)"

text \<open>\<open>strncpy\<close> leaves the last byte of the buffer, which stays zero.\<close>

definition FcitxCandidateWordSetChooseAndModifier :: "cand_list \<Rightarrow> buf \<Rightarrow> uint32 \<Rightarrow> cand_list" where
  "FcitxCandidateWordSetChooseAndModifier l strChoose state =
     l \<lparr> cl_choose := take MAX_CAND_WORD strChoose, cl_modifier := state \<rparr>"

definition FcitxCandidateWordSetChoose :: "cand_list \<Rightarrow> buf \<Rightarrow> cand_list" where
  "FcitxCandidateWordSetChoose l strChoose = FcitxCandidateWordSetChooseAndModifier l strChoose FcitxKeyState_None"

definition FcitxCandidateWordGetModifier :: "cand_list \<Rightarrow> uint32" where
  "FcitxCandidateWordGetModifier l = cl_modifier l"

definition FcitxCandidateWordGetChoose :: "cand_list \<Rightarrow> buf" where
  "FcitxCandidateWordGetChoose l = cl_choose l"

text \<open>
  \<open>strchr\<close> converts its argument to \<open>char\<close>, and finds the terminator for zero.
\<close>

definition strchr :: "buf \<Rightarrow> uint32 \<Rightarrow> nat option" where
  "strchr s c = (let b = ucast c :: byte; i = length (takeWhile (\<lambda>x. x \<noteq> b) s) in
     if i < length s then Some i else if b = 0 then Some (length s) else None)"

definition FcitxHotkeyCheckChooseKeyAndModifier :: "keysym \<Rightarrow> uint32 \<Rightarrow> buf \<Rightarrow> uint32 \<Rightarrow> int" where
  "FcitxHotkeyCheckChooseKeyAndModifier ksym state strChoose candState =
     (if state \<noteq> candState then - 1
      else (case strchr strChoose (FcitxHotkeyPadToMain ksym) of Some i \<Rightarrow> int i | None \<Rightarrow> - 1))"

definition FcitxHotkeyCheckChooseKey :: "keysym \<Rightarrow> uint32 \<Rightarrow> buf \<Rightarrow> int" where
  "FcitxHotkeyCheckChooseKey ksym state strChoose =
     FcitxHotkeyCheckChooseKeyAndModifier ksym state strChoose FcitxKeyState_None"

definition FcitxCandidateWordCheckChooseKey :: "cand_list \<Rightarrow> keysym \<Rightarrow> uint32 \<Rightarrow> int" where
  "FcitxCandidateWordCheckChooseKey l ksym state =
     FcitxHotkeyCheckChooseKeyAndModifier ksym state (cl_choose l) (cl_modifier l)"

section \<open>The focused word\<close>

abbreviation MSG_CANDIATE_CURSOR :: uint32 where "MSG_CANDIATE_CURSOR \<equiv> 3"
abbreviation MSG_OTHER :: uint32 where "MSG_OTHER \<equiv> 6"
abbreviation MSG_REGULAR_MASK :: uint32 where "MSG_REGULAR_MASK \<equiv> 7"

definition FcitxCandidateWordSetType :: "cand_word \<Rightarrow> uint32 \<Rightarrow> cand_word" where
  "FcitxCandidateWordSetType w t = w \<lparr> cw_wordType := (cw_wordType w AND NOT MSG_REGULAR_MASK) OR t \<rparr>"

definition FcitxCandidateWordCheckFocus :: "cand_word \<Rightarrow> bool \<Rightarrow> bool \<times> cand_word" where
  "FcitxCandidateWordCheckFocus w clear =
     (if cw_wordType w AND MSG_REGULAR_MASK = MSG_CANDIATE_CURSOR
      then (True, if clear then FcitxCandidateWordSetType w MSG_OTHER else w) else (False, w))"

text \<open>The loop over the current window; the last focused word wins.\<close>

function get_focus_loop :: "cand_list \<Rightarrow> bool \<Rightarrow> nat option \<Rightarrow> nat option \<Rightarrow> nat option \<times> cand_list" where
  "get_focus_loop l clear w res =
     (case w of
        None \<Rightarrow> (res, l)
      | Some i \<Rightarrow>
         (let (focus, w') = FcitxCandidateWordCheckFocus (cl_words l ! i) clear;
              l' = l \<lparr> cl_words := (cl_words l)[i := w'] \<rparr>
          in get_focus_loop l' clear (FcitxCandidateWordGetCurrentWindowNext l' (Some i))
               (if focus then Some i else res)))"
  by pat_completeness auto
termination
  by (relation "measure (\<lambda>(l, clear, w, res). case w of None \<Rightarrow> 0 | Some i \<Rightarrow> Suc (length (cl_words l) - i))")
     (auto simp: FcitxCandidateWordGetCurrentWindowNext_def utarray_next_def split: option.splits if_splits)

declare get_focus_loop.simps [simp del]

definition FcitxCandidateWordGetFocus :: "cand_list \<Rightarrow> bool \<Rightarrow> nat option \<times> cand_list" where
  "FcitxCandidateWordGetFocus l clear =
     (let (res, l') = get_focus_loop l clear (FcitxCandidateWordGetCurrentWindow l) None
      in (if res = None then FcitxCandidateWordGetCurrentWindow l' else res, l'))"

end
