(* ===== verification/Candidate_Laws.thy ===== *)
theory Candidate_Laws
  imports Candidate
begin

text \<open>
  Laws of the candidate list: which operations keep the current page inside the list, that the
  pages partition the words, which keys choose a word, and which word has the focus.
\<close>

section \<open>The current page\<close>

text \<open>The page is inside the list, and the page size one that the setter accepts.\<close>

definition cand_ok :: "cand_list \<Rightarrow> bool" where
  "cand_ok l \<longleftrightarrow> 1 \<le> cl_perpage l \<and> cl_perpage l \<le> 10 \<and> 0 \<le> cl_page l
     \<and> (cl_page l = 0 \<or> cl_page l * cl_perpage l < int (length (cl_words l)))
     \<and> length (cl_choose l) \<le> MAX_CAND_WORD"

lemma page_count_bounds:
  assumes "1 \<le> cl_perpage l"
  shows "k < FcitxCandidateWordPageCount l \<longleftrightarrow> k * cl_perpage l < int (length (cl_words l))"
proof -
  let ?p = "cl_perpage l" and ?n = "int (length (cl_words l))"
  define q r where "q = (?n + ?p - 1) div ?p" and "r = (?n + ?p - 1) mod ?p"
  have x: "?n + ?p - 1 = q * ?p + r" by (simp add: q_def r_def)
  have r: "0 \<le> r" "r < ?p" using assms by (simp_all add: r_def)
  have "k < q \<Longrightarrow> (k + 1) * ?p \<le> q * ?p" using assms by (intro mult_right_mono) auto
  moreover have "\<not> k < q \<Longrightarrow> q * ?p \<le> k * ?p" using assms by (intro mult_right_mono) auto
  moreover have "(k + 1) * ?p = k * ?p + ?p" by (simp add: distrib_right)
  ultimately have "k < q \<longleftrightarrow> k * ?p < ?n" using x r by linarith
  then show ?thesis by (simp add: FcitxCandidateWordPageCount_def q_def)
qed

lemma cand_ok_words:
  "cand_ok l \<Longrightarrow> length (cl_words l) \<le> length ws \<Longrightarrow> cand_ok (l \<lparr> cl_words := ws \<rparr>)"
  by (auto simp: cand_ok_def)

lemma length_array_insert: "length a \<le> length (fcitx_array_insert a x i)"
  by (simp add: fcitx_array_insert_def utarray_insert_def)

lemma length_array_inserta: "length a \<le> length (fcitx_array_inserta a w i)"
  by (simp add: fcitx_array_inserta_def utarray_inserta_def)

lemma length_array_move: "length (fcitx_array_move a f t) = length a"
  by (simp add: fcitx_array_move_def)

lemma set_page_ok: "cand_ok l \<Longrightarrow> cand_ok (FcitxCandidateWordSetPage l i)"
  by (auto simp: FcitxCandidateWordSetPage_def cand_ok_def page_count_bounds)

lemma go_prev_ok: "cand_ok l \<Longrightarrow> cand_ok (snd (FcitxCandidateWordGoPrevPage l))"
proof -
  assume ok: "cand_ok l"
  then have "(cl_page l - 1) * cl_perpage l < int (length (cl_words l))" if "cl_page l > 0"
    using that by (auto simp: cand_ok_def algebra_simps)
  with ok show ?thesis
    by (auto simp: FcitxCandidateWordGoPrevPage_def FcitxCandidateWordHasPrev_def cand_ok_def split: option.splits)
qed

lemma go_next_ok: "cand_ok l \<Longrightarrow> cand_ok (snd (FcitxCandidateWordGoNextPage l))"
  by (auto simp: FcitxCandidateWordGoNextPage_def FcitxCandidateWordHasNext_def cand_ok_def page_count_bounds
      split: option.splits)

lemma get_focus_fields:
  "cl_page (snd (get_focus_loop l clear w r)) = cl_page l \<and> cl_perpage (snd (get_focus_loop l clear w r)) = cl_perpage l
   \<and> cl_choose (snd (get_focus_loop l clear w r)) = cl_choose l
   \<and> length (cl_words (snd (get_focus_loop l clear w r))) = length (cl_words l)"
proof (induction l clear w r rule: get_focus_loop.induct)
  case (1 l clear w r)
  show ?case
  proof (cases w)
    case None
    then show ?thesis by (subst get_focus_loop.simps, subst (2) get_focus_loop.simps) (simp add: get_focus_loop.simps)
  next
    case (Some i)
    obtain focus w' where f: "FcitxCandidateWordCheckFocus (cl_words l ! i) clear = (focus, w')" by (cases "FcitxCandidateWordCheckFocus (cl_words l ! i) clear")
    note step = get_focus_loop.simps [of l clear w r, unfolded Some option.case f prod.case Let_def]
    from 1 [OF Some f [symmetric] refl refl] show ?thesis unfolding Some step by simp
  qed
qed

lemma get_focus_ok: "cand_ok l \<Longrightarrow> cand_ok (snd (FcitxCandidateWordGetFocus l clear))"
  using get_focus_fields [of l clear "FcitxCandidateWordGetCurrentWindow l" None]
  by (cases "get_focus_loop l clear (FcitxCandidateWordGetCurrentWindow l) None")
    (auto simp: FcitxCandidateWordGetFocus_def cand_ok_def Let_def)

text \<open>The current page still starts inside of \<open>n\<close> words, with pages of \<open>k\<close>.\<close>

definition page_inside :: "cand_list \<Rightarrow> int \<Rightarrow> int \<Rightarrow> bool" where
  "page_inside l k n \<longleftrightarrow> cl_page l = 0 \<or> cl_page l * k < n"

lemma remove_ok:
  assumes "cand_ok l"
  shows "case FcitxCandidateWordRemoveByIndex l i of
      None \<Rightarrow> int (length (cl_words l)) \<le> i
    | Some l' \<Rightarrow> if i < 0 then l' = l
        else cand_ok l' \<longleftrightarrow> page_inside l (cl_perpage l) (int (length (cl_words l)) - 1)"
  using assms by (auto simp: FcitxCandidateWordRemoveByIndex_def fcitx_array_erase_def utarray_erase_def cand_ok_def
      page_inside_def min_def of_nat_diff split: if_splits)

lemma resize_ok:
  "cand_ok l \<Longrightarrow> cand_ok (FcitxCandidateWordResize z l n) \<longleftrightarrow> n < 0 \<or> page_inside l (cl_perpage l) n"
  by (auto simp: FcitxCandidateWordResize_def fcitx_array_resize_def utarray_resize_def cand_ok_def page_inside_def)

text \<open>
  C15: The list stays well formed. A new list is well formed (a page size from 1 to 10, a current
  page that starts inside the list, a string of at most ten choice keys), and every operation
  that adds words, moves words, changes the page, the paging, the layout, the highlight or the
  choice keys, searches the focused word, or resets the list, keeps it so; changing the page size
  does after a reset. The operations that can take the words of the current page away keep it
  exactly when a word is left on that page or it is the first: changing the page size without a
  reset, removing a word (a negative index removes none, one behind the end is a fault), and resizing.
\<close>

theorem candidate_ops_ok:
  assumes "cand_ok l" and "cand_ok n"
  shows "cand_ok FcitxCandidateWordNewList
    \<and> cand_ok (FcitxCandidateWordInsert l w i) \<and> cand_ok (FcitxCandidateWordAppend l w)
    \<and> cand_ok (FcitxCandidateWordInsertPlaceHolder l i) \<and> cand_ok (FcitxCandidateWordMove l i j)
    \<and> cand_ok (FcitxCandidateWordMoveByWord l k j)
    \<and> cand_ok (fst (FcitxCandidateWordMerge l (Some n) i))
    \<and> cand_ok (the (snd (FcitxCandidateWordMerge l (Some n) i)))
    \<and> cand_ok (FcitxCandidateWordSetPage l i) \<and> cand_ok (FcitxCandidateWordSetFocus l i)
    \<and> cand_ok (snd (FcitxCandidateWordGoPrevPage l)) \<and> cand_ok (snd (FcitxCandidateWordGoNextPage l))
    \<and> cand_ok (FcitxCandidateWordReset l) \<and> cand_ok (FcitxCandidateWordSetOverridePaging l a b f r d)
    \<and> cand_ok (FcitxCandidateWordSetOverrideDefaultHighlight l b) \<and> cand_ok (FcitxCandidateWordSetLayoutHint l h)
    \<and> cand_ok (FcitxCandidateWordSetChooseAndModifier l s m) \<and> cand_ok (FcitxCandidateWordSetChoose l s)
    \<and> cand_ok (snd (FcitxCandidateWordGetFocus l b))
    \<and> cand_ok (FcitxCandidateWordSetPageSize (FcitxCandidateWordReset l) i)
    \<and> (cand_ok (FcitxCandidateWordSetPageSize l i) \<longleftrightarrow>
        page_inside l (cl_perpage (FcitxCandidateWordSetPageSize l i)) (int (length (cl_words l))))
    \<and> (case FcitxCandidateWordRemoveByIndex l i of
        None \<Rightarrow> int (length (cl_words l)) \<le> i
      | Some l' \<Rightarrow> if i < 0 then l' = l
          else cand_ok l' \<longleftrightarrow> page_inside l (cl_perpage l) (int (length (cl_words l)) - 1))
    \<and> (case FcitxCandidateWordRemove l k of
        None \<Rightarrow> length (cl_words l) \<le> k
      | Some l' \<Rightarrow> cand_ok l' \<longleftrightarrow> page_inside l (cl_perpage l) (int (length (cl_words l)) - 1))
    \<and> (cand_ok (FcitxCandidateWordResize z l i) \<longleftrightarrow> i < 0 \<or> page_inside l (cl_perpage l) i)"
  using assms cand_ok_words[OF assms(1)] set_page_ok[OF assms(1)] go_prev_ok[OF assms(1)] go_next_ok[OF assms(1)]
    length_array_insert[of "cl_words l"] length_array_inserta[of "cl_words l"] length_array_move[of "cl_words l"]
  apply (intro conjI)
  subgoal by (simp add: cand_ok_def FcitxCandidateWordNewList_def)
  subgoal by (simp add: FcitxCandidateWordInsert_def)
  subgoal by (simp add: FcitxCandidateWordAppend_def utarray_push_back_def)
  subgoal by (simp add: FcitxCandidateWordInsertPlaceHolder_def)
  subgoal by (simp add: FcitxCandidateWordMove_def)
  subgoal by (simp add: FcitxCandidateWordMoveByWord_def FcitxCandidateWordMove_def)
  subgoal by (simp add: FcitxCandidateWordMerge_def)
  subgoal by (simp add: FcitxCandidateWordMerge_def cand_ok_def)
  subgoal by blast
  subgoal by (simp add: FcitxCandidateWordSetFocus_def)
  subgoal by blast
  subgoal by blast
  subgoal by (auto simp: FcitxCandidateWordReset_def cand_ok_def Let_def)
  subgoal by (auto simp: FcitxCandidateWordSetOverridePaging_def cand_ok_def)
  subgoal by (auto simp: FcitxCandidateWordSetOverrideDefaultHighlight_def cand_ok_def)
  subgoal by (auto simp: FcitxCandidateWordSetLayoutHint_def cand_ok_def)
  subgoal by (auto simp: FcitxCandidateWordSetChooseAndModifier_def cand_ok_def)
  subgoal by (auto simp: FcitxCandidateWordSetChoose_def FcitxCandidateWordSetChooseAndModifier_def cand_ok_def)
  subgoal by (simp add: get_focus_ok)
  subgoal by (auto simp: FcitxCandidateWordReset_def FcitxCandidateWordSetPageSize_def cand_ok_def Let_def)
  subgoal by (auto simp: FcitxCandidateWordSetPageSize_def cand_ok_def page_inside_def)
  subgoal by (rule remove_ok)
  subgoal using remove_ok [OF assms(1), of "int k"]
    by (simp add: FcitxCandidateWordRemove_def split: option.splits)
  subgoal by (rule resize_ok)
  done

text \<open>Six words in pages of five, and the second page: all pages of ten start at its end.\<close>

definition second_page :: cand_list where
  "second_page = FcitxCandidateWordNewList \<lparr> cl_words := replicate 6 (zero_word DummyHandler), cl_page := 1 \<rparr>"

lemma candidate_ops_ok_witness:
  "cand_ok (fst (FcitxCandidateWordMerge second_page (Some FcitxCandidateWordNewList) 0)) \<and>
   cand_ok (FcitxCandidateWordMove second_page 0 5) \<and> \<not> cand_ok (FcitxCandidateWordSetPageSize second_page 10)"
proof -
  have new: "cand_ok FcitxCandidateWordNewList" "cand_ok second_page"
    by (simp_all add: cand_ok_def FcitxCandidateWordNewList_def second_page_def)
  have "\<not> page_inside second_page (cl_perpage (FcitxCandidateWordSetPageSize second_page 10)) (int (length (cl_words second_page)))"
    by (simp add: page_inside_def second_page_def FcitxCandidateWordSetPageSize_def)
  moreover note ok = candidate_ops_ok [OF new(2,1), where w = "zero_word DummyHandler" and k = 0 and a = True and b = True
      and f = None and r = 0 and d = None and h = CLH_NotSet and s = "[]" and m = 0 and z = DummyHandler]
  note ok [where i = 0 and j = 5] ok [where i = 10 and j = 5]
  ultimately show ?thesis by blast
qed

text \<open>There the window is empty, but its size is ten.\<close>

lemma page_size_breaks_page:
  "FcitxCandidateWordGetCurrentWindow (FcitxCandidateWordSetPageSize second_page 10) = None
     \<and> FcitxCandidateWordGetCurrentWindowSize (FcitxCandidateWordSetPageSize second_page 10) = 10"
  unfolding second_page_def by code_simp

section \<open>Pages partition the words\<close>

text \<open>The words that are shown on the current page.\<close>

definition page_words :: "cand_list \<Rightarrow> cand_word list" where
  "page_words l = map (\<lambda>i. cl_words l ! the (FcitxCandidateWordGetByIndex l i))
     [0..FcitxCandidateWordGetCurrentWindowSize l - 1]"

lemma nat_take_drop: "a \<le> length xs \<Longrightarrow> map (\<lambda>i. xs ! (a + i)) [0..<min k (length xs - a)] = take k (drop a xs)"
  by (rule nth_equalityI) auto

lemma window_size:
  assumes "cand_ok l"
  shows "FcitxCandidateWordGetCurrentWindowSize l
    = min (cl_perpage l) (int (length (cl_words l)) - cl_page l * cl_perpage l)"
proof -
  let ?p = "cl_perpage l" and ?n = "int (length (cl_words l))" and ?k = "cl_page l"
  have pp: "1 \<le> ?p" using assms by (simp add: cand_ok_def)
  show ?thesis
  proof (cases "?n = 0")
    case True
    moreover have "0 \<le> ?k * ?p" using assms by (simp add: cand_ok_def)
    ultimately have "?k = 0" using assms by (auto simp: cand_ok_def)
    then show ?thesis using True pp by (simp add: FcitxCandidateWordGetCurrentWindowSize_def)
  next
    case False
    then have k: "?k * ?p < ?n" using assms by (auto simp: cand_ok_def)
    have last: "?k + 1 = FcitxCandidateWordPageCount l \<longleftrightarrow> ?n \<le> (?k + 1) * ?p"
      using page_count_bounds[OF pp, of ?k] page_count_bounds[OF pp, of "?k + 1"] k by linarith
    show ?thesis
    proof (cases "?n \<le> (?k + 1) * ?p")
      case True
      have "?n mod ?p = (if ?n = (?k + 1) * ?p then 0 else ?n - ?k * ?p)"
      proof (cases "?n = (?k + 1) * ?p")
        case True then show ?thesis by (simp only:) simp
      next
        case False
        with True k have "0 \<le> ?n - ?k * ?p" "?n - ?k * ?p < ?p" by (auto simp: algebra_simps)
        then have "(?n - ?k * ?p) mod ?p = ?n - ?k * ?p" by simp
        moreover have "((?n - ?k * ?p) + ?k * ?p) mod ?p = (?n - ?k * ?p) mod ?p" by (rule mod_mult_self1)
        ultimately show ?thesis using False by simp
      qed
      then show ?thesis using True k last False
        by (auto simp: FcitxCandidateWordGetCurrentWindowSize_def algebra_simps)
    next
      case f: False
      then show ?thesis using last False
        by (auto simp: FcitxCandidateWordGetCurrentWindowSize_def algebra_simps)
    qed
  qed
qed

lemma min_nat_int: "a \<le> n \<Longrightarrow> 1 \<le> p \<Longrightarrow> min p (int n - int a) = int (min (nat p) (n - a))"
  by (auto simp: min_def of_nat_diff)

lemma page_words_window:
  assumes "cand_ok l"
  shows "page_words l = take (nat (cl_perpage l)) (drop (nat (cl_page l * cl_perpage l)) (cl_words l))"
proof -
  let ?p = "cl_perpage l" and ?n = "length (cl_words l)"
  have "0 \<le> cl_page l * ?p" "1 \<le> ?p" using assms by (auto simp: cand_ok_def)
  then obtain s where s: "cl_page l * ?p = int s" using nonneg_int_cases by blast
  have sn: "s \<le> ?n" using s assms by (auto simp: cand_ok_def)
  have sz: "FcitxCandidateWordGetCurrentWindowSize l = int (min (nat ?p) (?n - s))"
    unfolding window_size[OF assms] s by (rule min_nat_int) fact+
  have "page_words l = map (\<lambda>i. cl_words l ! (s + i)) [0..<min (nat ?p) (?n - s)]"
  proof (rule nth_equalityI)
    show "length (page_words l) = length (map (\<lambda>i. cl_words l ! (s + i)) [0..<min (nat ?p) (?n - s)])"
      by (simp add: page_words_def sz)
  next
    fix i assume "i < length (page_words l)"
    then have i: "i < min (nat ?p) (?n - s)" by (simp add: page_words_def sz)
    then have "FcitxCandidateWordGetByIndex l (int i) = Some (s + i)"
      by (auto simp: FcitxCandidateWordGetByIndex_def FcitxCandidateWordGetByTotalIndex_def
          fcitx_array_eltptr_def utarray_eltptr_def nat_add_distrib s)
    then show "page_words l ! i = map (\<lambda>i. cl_words l ! (s + i)) [0..<min (nat ?p) (?n - s)] ! i"
      using i by (simp add: page_words_def sz)
  qed
  then show ?thesis using nat_take_drop[OF sn, of "nat ?p"] s by simp
qed

text \<open>The list after \<open>k\<close> times going to the next page.\<close>

primrec go_pages :: "nat \<Rightarrow> cand_list \<Rightarrow> cand_list" where
  "go_pages 0 l = l"
| "go_pages (Suc k) l = snd (FcitxCandidateWordGoNextPage (go_pages k l))"

lemma go_next_pages:
  assumes "cand_ok l" "\<not> cl_override l" "cl_page l = 0"
  shows "int k < FcitxCandidateWordPageCount l \<or> k = 0 \<Longrightarrow>
    cl_page (go_pages k l) = int k \<and> cl_words (go_pages k l) = cl_words l
    \<and> cl_perpage (go_pages k l) = cl_perpage l \<and> \<not> cl_override (go_pages k l) \<and> cand_ok (go_pages k l)"
proof (induction k)
  case 0
  then show ?case using assms by simp
next
  case (Suc k)
  then have IH: "cl_page (go_pages k l) = int k" "cl_words (go_pages k l) = cl_words l"
    "cl_perpage (go_pages k l) = cl_perpage l" "\<not> cl_override (go_pages k l)" "cand_ok (go_pages k l)" by auto
  have "FcitxCandidateWordPageCount (go_pages k l) = FcitxCandidateWordPageCount l"
    using IH by (simp add: FcitxCandidateWordPageCount_def)
  then show ?case using IH Suc.prems go_next_ok[OF IH(5)]
    by (auto simp: FcitxCandidateWordGoNextPage_def FcitxCandidateWordHasNext_def)
qed

lemma concat_chunks:
  "concat (map (\<lambda>k. take p (drop (k * p) xs)) [0..<m]) = take (m * p) xs"
proof (induction m)
  case (Suc m)
  then show ?case using take_add[of "m * p" p xs] by (simp add: add.commute)
qed simp

text \<open>
  C14: The pages partition the words. Starting on the first page of a well-formed list and going
  to the next page as often as there are pages, the words that \<open>FcitxCandidateWordGetByIndex\<close>
  yields for the indices below \<open>FcitxCandidateWordGetCurrentWindowSize\<close> are, page after page,
  all words of the list, each once and in order; on the last page there is no next one.
\<close>

theorem pages_partition:
  assumes "cand_ok l" and "\<not> cl_override l" and "cl_page l = 0"
  shows "concat (map (\<lambda>k. page_words (go_pages k l)) [0..<nat (FcitxCandidateWordPageCount l)]) = cl_words l
    \<and> (cl_words l \<noteq> [] \<longrightarrow>
        fst (FcitxCandidateWordGoNextPage (go_pages (nat (FcitxCandidateWordPageCount l) - 1) l)) = PagingReturn False)"
proof -
  let ?p = "nat (cl_perpage l)" and ?m = "nat (FcitxCandidateWordPageCount l)"
  have pp: "1 \<le> cl_perpage l" using assms(1) by (simp add: cand_ok_def)
  note pc = page_count_bounds[OF pp]
  have page: "page_words (go_pages k l) = take ?p (drop (k * ?p) (cl_words l))" if "k < ?m" for k
  proof -
    have "int k < FcitxCandidateWordPageCount l" using that by linarith
    with go_next_pages[OF assms, of k] page_words_window[of "go_pages k l"] pp
    show ?thesis by (simp add: nat_mult_distrib)
  qed
  have "map (\<lambda>k. page_words (go_pages k l)) [0..<?m] = map (\<lambda>k. take ?p (drop (k * ?p) (cl_words l))) [0..<?m]"
    using page by simp
  moreover have "int (length (cl_words l)) \<le> int (?m * ?p)"
  proof -
    have "0 \<le> FcitxCandidateWordPageCount l" using pc[of "-1"] pp by simp
    then show ?thesis using pc[of "FcitxCandidateWordPageCount l"] pp by simp
  qed
  moreover have "fst (FcitxCandidateWordGoNextPage (go_pages (?m - 1) l)) = PagingReturn False" if "cl_words l \<noteq> []"
  proof -
    have "0 < FcitxCandidateWordPageCount l" using pc[of 0] that by simp
    then have m: "int (?m - 1) < FcitxCandidateWordPageCount l" "int (?m - 1) + 1 = FcitxCandidateWordPageCount l"
      by linarith+
    note g = go_next_pages[OF assms disjI1[OF m(1)]]
    then have "FcitxCandidateWordPageCount (go_pages (?m - 1) l) = FcitxCandidateWordPageCount l"
      by (simp add: FcitxCandidateWordPageCount_def)
    then show ?thesis using g m
      by (simp add: FcitxCandidateWordGoNextPage_def FcitxCandidateWordHasNext_def)
  qed
  ultimately show ?thesis unfolding concat_chunks[of ?p "cl_words l" ?m, symmetric]
    using concat_chunks[of ?p "cl_words l" ?m] by (simp only: of_nat_le_iff take_all) simp
qed

lemma pages_partition_witness:
  "concat (map (\<lambda>k. page_words (go_pages k (FcitxCandidateWordNewList
       \<lparr> cl_words := map zero_word [DummyHandler, CandCallback 1, CandCallback 2], cl_perpage := 2 \<rparr>))) [0, 1])
   = map zero_word [DummyHandler, CandCallback 1, CandCallback 2]"
proof -
  let ?l = "FcitxCandidateWordNewList
       \<lparr> cl_words := map zero_word [DummyHandler, CandCallback 1, CandCallback 2], cl_perpage := 2 \<rparr>"
  have "cand_ok ?l" "\<not> cl_override ?l" "cl_page ?l = 0" "FcitxCandidateWordPageCount ?l = 2"
    by (simp_all add: cand_ok_def FcitxCandidateWordNewList_def FcitxCandidateWordPageCount_def)
  from pages_partition[OF this(1-3)] this(4) show ?thesis by (simp add: upt_rec)
qed

section \<open>Choice keys\<close>

lemma strchr_Nil: "strchr [] c = (if (ucast c :: byte) = 0 then Some 0 else None)"
  by (simp add: strchr_def)

lemma strchr_Cons: "strchr (x # s) c = (if x = ucast c then Some 0 else map_option Suc (strchr s c))"
  by (simp add: strchr_def Let_def)

lemma strchr_found:
  "i < length s \<Longrightarrow> strchr s c = Some i \<longleftrightarrow> s ! i = ucast c \<and> (\<forall>j<i. s ! j \<noteq> ucast c)"
proof (induction s arbitrary: i)
  case (Cons x s)
  then show ?case by (cases i) (auto simp: strchr_Cons All_less_Suc2)
qed simp

lemma strchr_end: "strchr s c = Some (length s) \<longleftrightarrow> (ucast c :: byte) = 0 \<and> (\<forall>x\<in>set s. x \<noteq> 0)"
  by (induction s) (auto simp: strchr_Nil strchr_Cons)

lemma strchr_bound: "strchr s c = Some i \<Longrightarrow> i \<le> length s"
  by (induction s arbitrary: i) (auto simp: strchr_Nil strchr_Cons split: if_splits)

text \<open>
  Which keys choose a word. \<open>FcitxCandidateWordCheckChooseKey\<close> answers with the index
  \<open>i\<close> exactly when the modifiers are those of the list and the low byte of the key symbol
  (after mapping the keypad) first occurs at \<open>i\<close> in the choice keys, or when that byte is
  zero and \<open>i\<close> is their number. Only the low byte counts, since \<open>strchr\<close> converts its
  argument to \<open>char\<close>.
\<close>

theorem choose_key_iff:
  assumes "is_cstr (cl_choose l)" and "i \<le> length (cl_choose l)"
  shows "FcitxCandidateWordCheckChooseKey l ksym state = int i \<longleftrightarrow>
     state = cl_modifier l
     \<and> (let b = ucast (FcitxHotkeyPadToMain ksym) :: byte in
        if i < length (cl_choose l) then cl_choose l ! i = b \<and> (\<forall>j<i. cl_choose l ! j \<noteq> b) else b = 0)"
proof -
  have c: "FcitxCandidateWordCheckChooseKey l ksym state = int i \<longleftrightarrow>
     state = cl_modifier l \<and> strchr (cl_choose l) (FcitxHotkeyPadToMain ksym) = Some i"
    by (simp add: FcitxCandidateWordCheckChooseKey_def FcitxHotkeyCheckChooseKeyAndModifier_def split: option.split)
  show ?thesis
  proof (cases "i < length (cl_choose l)")
    case True
    then show ?thesis unfolding c by (simp add: strchr_found Let_def)
  next
    case False
    then have "i = length (cl_choose l)" using assms(2) by simp
    then show ?thesis unfolding c using assms(1) by (auto simp: strchr_end Let_def is_cstr_def)
  qed
qed

lemma choose_key_iff_witness:
  "FcitxCandidateWordCheckChooseKey FcitxCandidateWordNewList FcitxKey_KP_1 0 = int 0"
proof -
  have "is_cstr (cl_choose FcitxCandidateWordNewList)" "0 < length (cl_choose FcitxCandidateWordNewList)"
    "cl_choose FcitxCandidateWordNewList ! 0 = ucast (FcitxHotkeyPadToMain FcitxKey_KP_1)"
    "cl_modifier FcitxCandidateWordNewList = 0"
    by code_simp+
  then show ?thesis using choose_key_iff[of FcitxCandidateWordNewList 0 FcitxKey_KP_1 0] by simp
qed

text \<open>So the Hangul key takes the first word, and a key with low byte zero the eleventh.\<close>

lemma hangul_chooses:
  "FcitxCandidateWordCheckChooseKey FcitxCandidateWordNewList 0xff31 0 = 0
   \<and> FcitxCandidateWordCheckChooseKey FcitxCandidateWordNewList 0x1000500 0 = 10"
  by code_simp

section \<open>The focused word\<close>

definition focused :: "cand_word \<Rightarrow> bool" where
  "focused w \<longleftrightarrow> cw_wordType w AND MSG_REGULAR_MASK = MSG_CANDIATE_CURSOR"

definition unfocus :: "cand_word \<Rightarrow> cand_word" where
  "unfocus w = (if focused w then FcitxCandidateWordSetType w MSG_OTHER else w)"

lemma check_focus: "FcitxCandidateWordCheckFocus w clear = (focused w, if clear then unfocus w else w)"
  by (simp add: FcitxCandidateWordCheckFocus_def focused_def unfocus_def)

lemma unfocus_not_focused: "\<not> focused (unfocus w)"
proof -
  have "(x AND NOT MSG_REGULAR_MASK OR MSG_OTHER) AND MSG_REGULAR_MASK = (MSG_OTHER :: uint32)" for x
  proof -
    have "(x AND NOT MSG_REGULAR_MASK OR MSG_OTHER) AND MSG_REGULAR_MASK
      = (x AND (NOT MSG_REGULAR_MASK AND MSG_REGULAR_MASK)) OR (MSG_OTHER AND MSG_REGULAR_MASK :: uint32)"
      by (simp only: bit.conj_disj_distrib2 and.assoc)
    then show ?thesis by simp
  qed
  then show ?thesis by (simp add: unfocus_def focused_def FcitxCandidateWordSetType_def)
qed

definition last_or :: "'a option \<Rightarrow> 'a list \<Rightarrow> 'a option" where
  "last_or res xs = (if xs = [] then res else Some (last xs))"

lemma window_next:
  assumes "cl_page l * cl_perpage l = int a" "1 \<le> cl_perpage l"
    "b = min (a + nat (cl_perpage l)) (length (cl_words l))" "a \<le> i" "i < b"
  shows "FcitxCandidateWordGetCurrentWindowNext l (Some i) = (if Suc i < b then Some (Suc i) else None)"
  using assms
  by (auto simp: FcitxCandidateWordGetCurrentWindowNext_def utarray_next_def FcitxCandidateWordGetCurrentWindow_def
      FcitxCandidateWordGetByTotalIndex_def fcitx_array_eltptr_def utarray_eltptr_def)

lemma focus_loop:
  assumes "cl_page l * cl_perpage l = int a" "1 \<le> cl_perpage l"
    "b = min (a + nat (cl_perpage l)) (length (cl_words l))" "a \<le> i" "i \<le> b"
  shows "get_focus_loop l clear (if i < b then Some i else None) res
    = (last_or res (filter (\<lambda>j. focused (cl_words l ! j)) [i..<b]),
       l \<lparr> cl_words := map (\<lambda>j. if i \<le> j \<and> j < b \<and> clear then unfocus (cl_words l ! j) else cl_words l ! j)
              [0..<length (cl_words l)] \<rparr>)"
  using assms
proof (induction "b - i" arbitrary: l i res)
  case 0
  then have "map (\<lambda>j. if i \<le> j \<and> j < b \<and> clear then unfocus (cl_words l ! j) else cl_words l ! j)
      [0..<length (cl_words l)] = cl_words l" by (intro nth_equalityI) auto
  moreover have "i = b" using 0 by linarith
  ultimately show ?case by (simp add: get_focus_loop.simps[of l clear None res] last_or_def)
next
  case (Suc n)
  let ?ws = "cl_words l"
  define w' where "w' = (if clear then unfocus (?ws ! i) else ?ws ! i)"
  define l' where "l' = l \<lparr> cl_words := ?ws[i := w'] \<rparr>"
  have ib: "i < b" "i < length ?ws" using Suc.hyps(2) Suc.prems(3) by auto
  have l': "cl_page l' * cl_perpage l' = int a" "1 \<le> cl_perpage l'"
    "b = min (a + nat (cl_perpage l')) (length (cl_words l'))" using Suc.prems by (auto simp: l'_def)
  have "n = b - Suc i" "a \<le> Suc i" "Suc i \<le> b" using Suc.hyps(2) Suc.prems(4) by linarith+
  note IH = Suc.hyps(1)[OF this(1) l' this(2,3), of "if focused (?ws ! i) then Some i else res"]
  have words: "map (\<lambda>j. if Suc i \<le> j \<and> j < b \<and> clear then unfocus (cl_words l' ! j) else cl_words l' ! j)
      [0..<length (cl_words l')]
    = map (\<lambda>j. if i \<le> j \<and> j < b \<and> clear then unfocus (?ws ! j) else ?ws ! j) [0..<length ?ws]"
    using ib by (intro nth_equalityI) (auto simp: l'_def w'_def nth_list_update)
  have flt: "filter (\<lambda>j. focused (cl_words l' ! j)) [Suc i..<b] = filter (\<lambda>j. focused (?ws ! j)) [Suc i..<b]"
    by (intro filter_cong) (auto simp: l'_def)
  have "get_focus_loop l clear (Some i) res
    = get_focus_loop l' clear (if Suc i < b then Some (Suc i) else None) (if focused (?ws ! i) then Some i else res)"
    using window_next[OF l', of i] Suc.prems ib
    by (simp add: get_focus_loop.simps[of l] check_focus w'_def[symmetric] l'_def[symmetric])
  also have "\<dots> = (last_or (if focused (?ws ! i) then Some i else res) (filter (\<lambda>j. focused (?ws ! j)) [Suc i..<b]),
      l \<lparr> cl_words := map (\<lambda>j. if i \<le> j \<and> j < b \<and> clear then unfocus (?ws ! j) else ?ws ! j) [0..<length ?ws] \<rparr>)"
    unfolding IH words flt by (simp add: l'_def)
  finally show ?case using ib by (auto simp: upt_conv_Cons last_or_def)
qed

text \<open>
  The focused word. \<open>FcitxCandidateWordGetFocus\<close> returns the last word on the current
  page that has the type of the cursor, or the first word of the page when there is none, and
  with \<open>clear\<close> takes that type from every word on the page and from no other word.
\<close>

theorem get_focus:
  assumes "cand_ok l"
  shows "let a = nat (cl_page l * cl_perpage l); b = min (a + nat (cl_perpage l)) (length (cl_words l));
      (res, l') = FcitxCandidateWordGetFocus l clear
    in res = last_or (if a < b then Some a else None) (filter (\<lambda>j. focused (cl_words l ! j)) [a..<b])
     \<and> cl_words l' = map (\<lambda>j. if a \<le> j \<and> j < b \<and> clear then unfocus (cl_words l ! j) else cl_words l ! j)
         [0..<length (cl_words l)]"
proof -
  let ?p = "cl_perpage l"
  have "0 \<le> cl_page l * ?p" and p: "1 \<le> ?p" using assms by (auto simp: cand_ok_def)
  then obtain a where a: "cl_page l * ?p = int a" using nonneg_int_cases by blast
  have an: "a \<le> length (cl_words l)" using assms a by (auto simp: cand_ok_def)
  define b where "b = min (a + nat ?p) (length (cl_words l))"
  have ab: "a < b \<longleftrightarrow> a < length (cl_words l)" using p by (auto simp: b_def)
  have w: "FcitxCandidateWordGetCurrentWindow l' = (if a < b then Some a else None)"
    if "cl_page l' * cl_perpage l' = int a" "length (cl_words l') = length (cl_words l)" for l'
    using that ab by (simp add: FcitxCandidateWordGetCurrentWindow_def FcitxCandidateWordGetByTotalIndex_def
        fcitx_array_eltptr_def utarray_eltptr_def)
  have "a \<le> b" using an p by (simp add: b_def)
  from focus_loop[OF a p b_def order_refl this, of clear None] w[of l] a
  have "get_focus_loop l clear (FcitxCandidateWordGetCurrentWindow l) None
    = (last_or None (filter (\<lambda>j. focused (cl_words l ! j)) [a..<b]),
       l \<lparr> cl_words := map (\<lambda>j. if a \<le> j \<and> j < b \<and> clear then unfocus (cl_words l ! j) else cl_words l ! j)
              [0..<length (cl_words l)] \<rparr>)" by simp
  then show ?thesis unfolding Let_def a nat_int b_def[symmetric]
    using w a by (auto simp: FcitxCandidateWordGetFocus_def Let_def last_or_def)
qed

lemma get_focus_witness:
  "fst (FcitxCandidateWordGetFocus (FcitxCandidateWordNewList
     \<lparr> cl_words := [zero_word DummyHandler, (zero_word DummyHandler) \<lparr> cw_wordType := 3 \<rparr>] \<rparr>) True) = Some 1"
proof -
  let ?l = "FcitxCandidateWordNewList
     \<lparr> cl_words := [zero_word DummyHandler, (zero_word DummyHandler) \<lparr> cw_wordType := 3 \<rparr>] \<rparr>"
  have ok: "cand_ok ?l" by (simp add: cand_ok_def FcitxCandidateWordNewList_def)
  have l: "cl_page ?l * cl_perpage ?l = 0" "min (0 + nat (cl_perpage ?l)) (length (cl_words ?l)) = 2"
    by (simp_all add: FcitxCandidateWordNewList_def)
  have "[0..<2] = [0, 1 :: nat]" "\<not> focused (zero_word DummyHandler)"
    "focused ((zero_word DummyHandler) \<lparr> cw_wordType := 3 \<rparr>)"
    by (simp_all add: upt_rec focused_def zero_word_def)
  then show ?thesis using get_focus[OF ok, of True] unfolding l nat_0 Let_def
    by (simp add: last_or_def case_prod_beta)
qed

end
