(* ===== verification/Messages.thy ===== *)
theory Messages
  imports StrUtils_Laws Candidate
begin

text \<open>
  The message lists of the input window: \<open>FcitxMessages\<close> in \<open>src/lib/fcitx/ui.c\<close>. A list is an
  array of 64 slots of 901 bytes each, of which the first \<open>msgCount\<close> are shown; a slot holds its
  string before the terminator. A position outside the array and a string that does not fit into
  its slot are \<open>None\<close>. Formatting with \<open>printf\<close> is left out: the formatted text is the argument.
\<close>

abbreviation MESSAGE_MAX_LENGTH :: nat where "MESSAGE_MAX_LENGTH \<equiv> 900"
abbreviation MAX_MESSAGE_COUNT :: nat where "MAX_MESSAGE_COUNT \<equiv> 64"
abbreviation MSG_TIPS :: uint32 where "MSG_TIPS \<equiv> 0"
abbreviation MSG_INPUT :: uint32 where "MSG_INPUT \<equiv> 1"
abbreviation MSG_INDEX :: uint32 where "MSG_INDEX \<equiv> 2"
abbreviation MSG_FIRSTCAND :: uint32 where "MSG_FIRSTCAND \<equiv> 3"
abbreviation MSG_CODE :: uint32 where "MSG_CODE \<equiv> 5"
abbreviation MSG_DONOT_COMMIT_WHEN_UNFOCUS :: uint32 where "MSG_DONOT_COMMIT_WHEN_UNFOCUS \<equiv> 32"

record message =
  strMsg :: buf
  msgType :: uint32

record messages =
  msgs :: "message list"
  msgCount :: nat
  msgChanged :: bool

definition FcitxMessagesNew :: messages where
  "FcitxMessagesNew =
     \<lparr> msgs = replicate MAX_MESSAGE_COUNT \<lparr> strMsg = [], msgType = 0 \<rparr>, msgCount = 0, msgChanged = False \<rparr>"

definition FcitxMessagesSetMessageCount :: "messages \<Rightarrow> int \<Rightarrow> messages" where
  "FcitxMessagesSetMessageCount m s =
     (if s \<le> int MAX_MESSAGE_COUNT \<and> s \<ge> 0 then m \<lparr> msgCount := nat s \<rparr> else m) \<lparr> msgChanged := True \<rparr>"

definition FcitxMessagesGetMessageCount :: "messages \<Rightarrow> int" where
  "FcitxMessagesGetMessageCount m = int (msgCount m)"

definition FcitxMessagesIsMessageChanged :: "messages \<Rightarrow> bool" where
  "FcitxMessagesIsMessageChanged m = msgChanged m"

definition FcitxMessagesSetMessageChanged :: "messages \<Rightarrow> bool \<Rightarrow> messages" where
  "FcitxMessagesSetMessageChanged m changed = m \<lparr> msgChanged := changed \<rparr>"

definition msg_at :: "messages \<Rightarrow> int \<Rightarrow> message option" where
  "msg_at m index = (if 0 \<le> index \<and> nat index < length (msgs m) then Some (msgs m ! nat index) else None)"

definition FcitxMessagesGetMessageString :: "messages \<Rightarrow> int \<Rightarrow> buf option" where
  "FcitxMessagesGetMessageString m index = map_option strMsg (msg_at m index)"

definition FcitxMessagesGetMessageType :: "messages \<Rightarrow> int \<Rightarrow> uint32 option" where
  "FcitxMessagesGetMessageType m index = map_option (\<lambda>x. msgType x AND MSG_REGULAR_MASK) (msg_at m index)"

definition FcitxMessagesGetClientMessageType :: "messages \<Rightarrow> int \<Rightarrow> uint32 option" where
  "FcitxMessagesGetClientMessageType m index = map_option msgType (msg_at m index)"

text \<open>Writing a slot; only positions behind the array are checked.\<close>

definition set_slot :: "messages \<Rightarrow> int \<Rightarrow> buf \<Rightarrow> uint32 \<Rightarrow> messages" where
  "set_slot m position t type' =
     m \<lparr> msgs := (msgs m)[nat position := \<lparr> strMsg = t, msgType = type' \<rparr>], msgChanged := True \<rparr>"

text \<open>\<open>vsnprintf\<close> is told the size 900, so it keeps 899 bytes of the text.\<close>

definition FcitxMessagesSetMessageV :: "messages \<Rightarrow> int \<Rightarrow> uint32 \<Rightarrow> buf \<Rightarrow> messages option" where
  "FcitxMessagesSetMessageV m position type' txt =
     (if position < int MAX_MESSAGE_COUNT then
        if position < 0 then None
        else Some (set_slot m position (take (MESSAGE_MAX_LENGTH - 1) txt) type')
      else Some m)"

definition FcitxMessagesSetMessageStringsReal :: "messages \<Rightarrow> int \<Rightarrow> uint32 \<Rightarrow> buf option list \<Rightarrow> messages option" where
  "FcitxMessagesSetMessageStringsReal m position type' strs =
     (if position < int MAX_MESSAGE_COUNT then
        if position < 0 then None
        else map_option (\<lambda>t. set_slot m position t type')
          (fcitx_utils_cat_str_with_len (MESSAGE_MAX_LENGTH + 1) (zip strs (snd (fcitx_utils_str_lens strs))))
      else Some m)"

definition FcitxMessagesSetMessage :: "messages \<Rightarrow> int \<Rightarrow> uint32 \<Rightarrow> buf \<Rightarrow> messages option" where
  "FcitxMessagesSetMessage m position type' txt = FcitxMessagesSetMessageV m position type' txt"

text \<open>The old type is read before the position is checked.\<close>

definition FcitxMessagesSetMessageText :: "messages \<Rightarrow> int \<Rightarrow> buf \<Rightarrow> messages option" where
  "FcitxMessagesSetMessageText m position txt =
     do { t \<leftarrow> FcitxMessagesGetClientMessageType m position; FcitxMessagesSetMessageV m position t txt }"

definition FcitxMessagesSetMessageTextVString :: "messages \<Rightarrow> int \<Rightarrow> buf option list \<Rightarrow> messages option" where
  "FcitxMessagesSetMessageTextVString m position strs =
     do { t \<leftarrow> FcitxMessagesGetClientMessageType m position; FcitxMessagesSetMessageStringsReal m position t strs }"

definition FcitxMessagesAddMessageAtLast :: "messages \<Rightarrow> uint32 \<Rightarrow> buf \<Rightarrow> messages option" where
  "FcitxMessagesAddMessageAtLast m type' txt =
     (if msgCount m < MAX_MESSAGE_COUNT then
        map_option (\<lambda>m. m \<lparr> msgCount := msgCount m + 1, msgChanged := True \<rparr>)
          (FcitxMessagesSetMessageV m (int (msgCount m)) type' txt)
      else Some m)"

definition FcitxMessagesAddMessageVStringAtLast :: "messages \<Rightarrow> uint32 \<Rightarrow> buf option list \<Rightarrow> messages option" where
  "FcitxMessagesAddMessageVStringAtLast m type' strs =
     (if msgCount m < MAX_MESSAGE_COUNT then
        map_option (\<lambda>m. m \<lparr> msgCount := msgCount m + 1, msgChanged := True \<rparr>)
          (FcitxMessagesSetMessageStringsReal m (int (msgCount m)) type' strs)
      else Some m)"

text \<open>\<open>strncat\<close> appends at most 900 bytes, however many the slot already holds.\<close>

definition concat_slot :: "messages \<Rightarrow> int \<Rightarrow> buf \<Rightarrow> messages option" where
  "concat_slot m position txt =
     do { x \<leftarrow> msg_at m position;
          let t = strMsg x @ take MESSAGE_MAX_LENGTH txt;
          if length t > MESSAGE_MAX_LENGTH then None
          else Some (m \<lparr> msgs := (msgs m)[nat position := x \<lparr> strMsg := t \<rparr>], msgChanged := True \<rparr>) }"

definition FcitxMessagesMessageConcat :: "messages \<Rightarrow> int \<Rightarrow> buf \<Rightarrow> messages option" where
  "FcitxMessagesMessageConcat m position txt = concat_slot m position txt"

definition FcitxMessagesMessageConcatLast :: "messages \<Rightarrow> buf \<Rightarrow> messages option" where
  "FcitxMessagesMessageConcatLast m txt = concat_slot m (int (msgCount m) - 1) txt"

section \<open>Messages as one string\<close>

definition FcitxUIMessagesToCString :: "messages \<Rightarrow> buf option" where
  "FcitxUIMessagesToCString m =
     map_option concat (those (map (\<lambda>i. FcitxMessagesGetMessageString m (int i)) [0..<msgCount m]))"

definition FcitxUIMessagesToCStringForCommit :: "messages \<Rightarrow> buf option" where
  "FcitxUIMessagesToCStringForCommit m =
     do { ts \<leftarrow> those (map (\<lambda>i. FcitxMessagesGetClientMessageType m (int i)) [0..<msgCount m]);
          ss \<leftarrow> those (map (\<lambda>i. FcitxMessagesGetMessageString m (int i)) [0..<msgCount m]);
          Some (concat (map snd (filter (\<lambda>(t, s). t AND MSG_DONOT_COMMIT_WHEN_UNFOCUS = 0) (zip ts ss)))) }"

section \<open>Laws\<close>

definition messages_ok :: "messages \<Rightarrow> bool" where
  "messages_ok m \<longleftrightarrow> length (msgs m) = MAX_MESSAGE_COUNT \<and> msgCount m \<le> MAX_MESSAGE_COUNT
     \<and> (\<forall>x\<in>set (msgs m). length (strMsg x) \<le> MESSAGE_MAX_LENGTH)"

text \<open>The shown messages with their types.\<close>

definition shown :: "messages \<Rightarrow> (uint32 \<times> buf) list" where
  "shown m = map (\<lambda>x. (msgType x, strMsg x)) (take (msgCount m) (msgs m))"

lemma messages_new_ok [simp]: "messages_ok FcitxMessagesNew"
  by (simp add: messages_ok_def FcitxMessagesNew_def)

lemma shown_empty [simp]: "shown (FcitxMessagesSetMessageCount m 0) = []"
  by (simp add: shown_def FcitxMessagesSetMessageCount_def)

lemma set_count_ok [inv_intros]: "messages_ok m \<Longrightarrow> messages_ok (FcitxMessagesSetMessageCount m s)"
  by (auto simp: messages_ok_def FcitxMessagesSetMessageCount_def)

lemma shown_set_count:
  "messages_ok m \<Longrightarrow> 0 \<le> s \<Longrightarrow> s \<le> int (msgCount m)
   \<Longrightarrow> shown (FcitxMessagesSetMessageCount m s) = take (nat s) (shown m)"
  by (auto simp: messages_ok_def FcitxMessagesSetMessageCount_def shown_def take_map min_def)

lemma cat_limited:
  "fcitx_utils_cat_str_with_len 901 (zip strs (snd (fcitx_utils_str_lens strs)))
     = Some (take MESSAGE_MAX_LENGTH (concat (map str_or_empty strs)))"
  using cat_loop_eq [of "[]" MESSAGE_MAX_LENGTH strs]
  by (simp add: str_lens_eq fcitx_utils_cat_str_with_len_def)

lemma take_Suc_update: "i < length xs \<Longrightarrow> take (Suc i) (xs[i := y]) = take i xs @ [y]"
  by (simp add: take_Suc_conv_app_nth)

lemma slot_append:
  assumes "messages_ok m" and "msgCount m < MAX_MESSAGE_COUNT" and "length t \<le> MESSAGE_MAX_LENGTH"
    and "m' = (set_slot m (int (msgCount m)) t type') \<lparr> msgCount := msgCount m + 1, msgChanged := True \<rparr>"
  shows "messages_ok m' \<and> shown m' = shown m @ [(type', t)]"
  using assms
  by (auto simp: messages_ok_def set_slot_def shown_def take_Suc_update
           dest!: set_update_subset_insert [THEN subsetD])

lemma set_slot_count [simp]: "msgCount (set_slot m p t ty) = msgCount m"
  by (simp add: set_slot_def)

text \<open>What is added to a list: the strings joined and cut, while there is a free slot.\<close>

definition added :: "messages \<Rightarrow> uint32 \<Rightarrow> buf \<Rightarrow> (uint32 \<times> buf) list" where
  "added m type' t = (if msgCount m < MAX_MESSAGE_COUNT then shown m @ [(type', t)] else shown m)"

lemma add_strings:
  assumes "messages_ok m"
  obtains m' where "FcitxMessagesAddMessageVStringAtLast m type' strs = Some m'"
    and "messages_ok m'" and "shown m' = added m type' (take MESSAGE_MAX_LENGTH (concat (map str_or_empty strs)))"
proof (cases "msgCount m < MAX_MESSAGE_COUNT")
  case True
  then show ?thesis
    using slot_append [OF assms True _ refl, of "take MESSAGE_MAX_LENGTH (concat (map str_or_empty strs))" type'] that
    by (simp add: FcitxMessagesAddMessageVStringAtLast_def FcitxMessagesSetMessageStringsReal_def cat_limited
          added_def)
qed (use that assms in \<open>auto simp: FcitxMessagesAddMessageVStringAtLast_def added_def\<close>)

lemma add_text:
  assumes "messages_ok m"
  obtains m' where "FcitxMessagesAddMessageAtLast m type' txt = Some m'"
    and "messages_ok m'" and "shown m' = added m type' (take (MESSAGE_MAX_LENGTH - 1) txt)"
proof (cases "msgCount m < MAX_MESSAGE_COUNT")
  case True
  then show ?thesis
    using slot_append [OF assms True _ refl, of "take (MESSAGE_MAX_LENGTH - 1) txt" type'] that
    by (simp add: FcitxMessagesAddMessageAtLast_def FcitxMessagesSetMessageV_def added_def)
qed (use that assms in \<open>auto simp: FcitxMessagesAddMessageAtLast_def added_def\<close>)

lemma shown_nth:
  "messages_ok m \<Longrightarrow> i < msgCount m \<Longrightarrow> msg_at m (int i) = Some (msgs m ! i)"
  by (auto simp: msg_at_def messages_ok_def)

lemma those_map_all: "(\<And>x. x \<in> set xs \<Longrightarrow> f x = Some (g x)) \<Longrightarrow> those (map f xs) = Some (map g xs)"
  by (induction xs) auto

lemma shown_conv:
  assumes "messages_ok m"
  shows "map (\<lambda>i. strMsg (msgs m ! i)) [0..<msgCount m] = map snd (shown m)"
    and "map (\<lambda>i. msgType (msgs m ! i)) [0..<msgCount m] = map fst (shown m)"
  using assms by (auto simp: shown_def messages_ok_def min_def intro!: nth_equalityI)

lemma to_cstring:
  assumes "messages_ok m"
  shows "FcitxUIMessagesToCString m = Some (concat (map snd (shown m)))"
proof -
  have "those (map (\<lambda>i. FcitxMessagesGetMessageString m (int i)) [0..<msgCount m])
      = Some (map (\<lambda>i. strMsg (msgs m ! i)) [0..<msgCount m])"
    by (rule those_map_all) (simp add: FcitxMessagesGetMessageString_def shown_nth [OF assms])
  then show ?thesis by (simp add: FcitxUIMessagesToCString_def shown_conv [OF assms])
qed

lemma to_cstring_commit:
  assumes "messages_ok m"
  shows "FcitxUIMessagesToCStringForCommit m
    = Some (concat (map snd (filter (\<lambda>(t, s). t AND MSG_DONOT_COMMIT_WHEN_UNFOCUS = 0) (shown m))))"
proof -
  have "those (map (\<lambda>i. FcitxMessagesGetMessageString m (int i)) [0..<msgCount m])
      = Some (map (\<lambda>i. strMsg (msgs m ! i)) [0..<msgCount m])"
    by (rule those_map_all) (simp add: FcitxMessagesGetMessageString_def shown_nth [OF assms])
  moreover have "those (map (\<lambda>i. FcitxMessagesGetClientMessageType m (int i)) [0..<msgCount m])
      = Some (map (\<lambda>i. msgType (msgs m ! i)) [0..<msgCount m])"
    by (rule those_map_all) (simp add: FcitxMessagesGetClientMessageType_def shown_nth [OF assms])
  ultimately show ?thesis
    by (simp add: FcitxUIMessagesToCStringForCommit_def shown_conv [OF assms] zip_map_fst_snd)
qed

section \<open>Properties\<close>

text \<open>All 64 slots, and that a result is the list with one of them written.\<close>

definition slots :: "messages \<Rightarrow> (uint32 \<times> buf) list" where
  "slots m = map (\<lambda>x. (msgType x, strMsg x)) (msgs m)"

definition wrote :: "messages \<Rightarrow> int \<Rightarrow> uint32 \<times> buf \<Rightarrow> messages option \<Rightarrow> bool" where
  "wrote m p x r \<longleftrightarrow> (case r of None \<Rightarrow> False
     | Some m' \<Rightarrow> messages_ok m' \<and> slots m' = (slots m)[nat p := x] \<and> msgCount m' = msgCount m)"

lemma set_count_shown:
  "messages_ok m \<Longrightarrow> shown (FcitxMessagesSetMessageCount m n)
     = (if 0 \<le> n \<and> n \<le> int MAX_MESSAGE_COUNT then take (nat n) (slots m) else shown m)"
  by (auto simp: FcitxMessagesSetMessageCount_def shown_def slots_def take_map)

lemma wrote_slot:
  assumes "messages_ok m" "0 \<le> p" "p < int MAX_MESSAGE_COUNT" "length t \<le> MESSAGE_MAX_LENGTH"
  shows "wrote m p (ty, t) (Some (set_slot m p t ty))"
  using assms by (auto simp: wrote_def set_slot_def messages_ok_def slots_def map_update
      dest!: set_update_subset_insert [THEN subsetD])

lemma client_type:
  "messages_ok m \<Longrightarrow> FcitxMessagesGetClientMessageType m p
     = (if 0 \<le> p \<and> p < int MAX_MESSAGE_COUNT then Some (fst (slots m ! nat p)) else None)"
  by (auto simp: FcitxMessagesGetClientMessageType_def msg_at_def messages_ok_def slots_def)

lemma concat_wrote:
  assumes "messages_ok m"
  shows "if p < 0 \<or> int MAX_MESSAGE_COUNT \<le> p \<or>
        MESSAGE_MAX_LENGTH < length (snd (slots m ! nat p)) + min (length txt) MESSAGE_MAX_LENGTH
      then concat_slot m p txt = None
      else wrote m p (fst (slots m ! nat p), snd (slots m ! nat p) @ take MESSAGE_MAX_LENGTH txt) (concat_slot m p txt)"
proof (cases "p < 0 \<or> int MAX_MESSAGE_COUNT \<le> p")
  case True
  then show ?thesis using assms by (auto simp: concat_slot_def msg_at_def messages_ok_def)
next
  case False
  then have p: "nat p < length (msgs m)" "0 \<le> p" using assms by (auto simp: messages_ok_def)
  let ?x = "msgs m ! nat p" and ?t = "strMsg (msgs m ! nat p) @ take MESSAGE_MAX_LENGTH txt"
  have x: "slots m ! nat p = (msgType ?x, strMsg ?x)" using p by (simp add: slots_def)
  have c: "concat_slot m p txt = (if length ?t > MESSAGE_MAX_LENGTH then None else Some (set_slot m p ?t (msgType ?x)))"
    using p by (cases ?x) (simp add: concat_slot_def msg_at_def set_slot_def Let_def)
  have l: "length ?t = length (strMsg ?x) + min (length txt) MESSAGE_MAX_LENGTH" by (simp add: min.commute)
  show ?thesis
    using False wrote_slot [OF assms, of p ?t "msgType ?x"] unfolding c x fst_conv snd_conv l [symmetric] by auto
qed

text \<open>
  C16: A message list refines a list of 64 typed strings of at most 900 bytes, of which the first ones are
  shown. Adding strings never fails: it appends their concatenation cut to 900 bytes (899 for a formatted
  text) to the shown ones, or does nothing when all slots are in use. Setting the count shows that many
  slots, so a smaller count shows a prefix and a larger one slots that were used before; a count outside of
  0 to 64 is ignored. Setting a message writes that slot only; a position of 64 and more is ignored by the
  functions that are told the type, and read or written outside of the array by those that keep the type; a
  negative position is written outside by all of them. Appending to a message writes its slot with both
  strings joined, and writes outside of the slot exactly when they have more than 900 bytes together (of the
  new one at most 900 count) or the position is not one of the array, which includes the last one of an empty
  list. The strings for the client are the shown strings joined, for a commit only those that may be committed.
\<close>

theorem messages_refine:
  assumes "messages_ok m"
  shows "map_option shown (FcitxMessagesAddMessageVStringAtLast m type' strs)
       = Some (added m type' (take MESSAGE_MAX_LENGTH (concat (map str_or_empty strs))))
     \<and> map_option messages_ok (FcitxMessagesAddMessageVStringAtLast m type' strs) = Some True
     \<and> map_option shown (FcitxMessagesAddMessageAtLast m type' txt)
       = Some (added m type' (take (MESSAGE_MAX_LENGTH - 1) txt))
     \<and> map_option messages_ok (FcitxMessagesAddMessageAtLast m type' txt) = Some True
     \<and> shown (FcitxMessagesSetMessageCount m n)
       = (if 0 \<le> n \<and> n \<le> int MAX_MESSAGE_COUNT then take (nat n) (slots m) else shown m)
     \<and> shown m = take (msgCount m) (slots m) \<and> messages_ok (FcitxMessagesSetMessageCount m n)
     \<and> (if p < 0 then FcitxMessagesSetMessage m p type' txt = None \<and>
            FcitxMessagesSetMessageStringsReal m p type' strs = None
        else if int MAX_MESSAGE_COUNT \<le> p then FcitxMessagesSetMessage m p type' txt = Some m \<and>
            FcitxMessagesSetMessageStringsReal m p type' strs = Some m
        else wrote m p (type', take (MESSAGE_MAX_LENGTH - 1) txt) (FcitxMessagesSetMessage m p type' txt) \<and>
            wrote m p (type', take MESSAGE_MAX_LENGTH (concat (map str_or_empty strs)))
              (FcitxMessagesSetMessageStringsReal m p type' strs))
     \<and> (if p < 0 \<or> int MAX_MESSAGE_COUNT \<le> p then FcitxMessagesSetMessageText m p txt = None \<and>
            FcitxMessagesSetMessageTextVString m p strs = None
        else wrote m p (fst (slots m ! nat p), take (MESSAGE_MAX_LENGTH - 1) txt) (FcitxMessagesSetMessageText m p txt) \<and>
            wrote m p (fst (slots m ! nat p), take MESSAGE_MAX_LENGTH (concat (map str_or_empty strs)))
              (FcitxMessagesSetMessageTextVString m p strs))
     \<and> (if p < 0 \<or> int MAX_MESSAGE_COUNT \<le> p \<or>
            MESSAGE_MAX_LENGTH < length (snd (slots m ! nat p)) + min (length txt) MESSAGE_MAX_LENGTH
        then FcitxMessagesMessageConcat m p txt = None
        else wrote m p (fst (slots m ! nat p), snd (slots m ! nat p) @ take MESSAGE_MAX_LENGTH txt)
            (FcitxMessagesMessageConcat m p txt))
     \<and> FcitxMessagesMessageConcatLast m txt
       = (if msgCount m = 0 then None else FcitxMessagesMessageConcat m (int (msgCount m) - 1) txt)
     \<and> FcitxUIMessagesToCString m = Some (concat (map snd (shown m)))
     \<and> FcitxUIMessagesToCStringForCommit m
       = Some (concat (map snd (filter (\<lambda>(t, s). t AND MSG_DONOT_COMMIT_WHEN_UNFOCUS = 0) (shown m))))"
proof -
  obtain m1 where m1: "FcitxMessagesAddMessageVStringAtLast m type' strs = Some m1" "messages_ok m1"
      "shown m1 = added m type' (take MESSAGE_MAX_LENGTH (concat (map str_or_empty strs)))"
    by (rule add_strings [OF assms])
  obtain m2 where m2: "FcitxMessagesAddMessageAtLast m type' txt = Some m2" "messages_ok m2"
      "shown m2 = added m type' (take (MESSAGE_MAX_LENGTH - 1) txt)"
    by (rule add_text [OF assms])
  have last: "FcitxMessagesMessageConcatLast m txt
      = (if msgCount m = 0 then None else FcitxMessagesMessageConcat m (int (msgCount m) - 1) txt)"
    by (simp add: FcitxMessagesMessageConcatLast_def FcitxMessagesMessageConcat_def concat_slot_def msg_at_def)
  have sh: "shown m = take (msgCount m) (slots m)" by (simp add: shown_def slots_def take_map)
  show ?thesis
    using assms m1 m2 concat_wrote [OF assms, of p "txt"] wrote_slot [OF assms, of p] last sh
    by (intro conjI) (simp_all add: set_count_shown set_count_ok to_cstring to_cstring_commit client_type cat_limited
        FcitxMessagesSetMessage_def FcitxMessagesSetMessageV_def FcitxMessagesSetMessageStringsReal_def
        FcitxMessagesSetMessageText_def FcitxMessagesSetMessageTextVString_def FcitxMessagesMessageConcat_def)
qed

definition one_message :: messages where
  "one_message = the (FcitxMessagesAddMessageVStringAtLast FcitxMessagesNew MSG_TIPS [Some [0x61], None, Some [0x62]])"

lemma one_message_ok: "messages_ok one_message"
  unfolding messages_ok_def by code_simp

theorem messages_refine_witness:
  "FcitxUIMessagesToCString one_message = Some [0x61, 0x62]
   \<and> map_option shown (FcitxMessagesAddMessageAtLast one_message MSG_CODE [0x63])
     = Some [(MSG_TIPS, [0x61, 0x62]), (MSG_CODE, [0x63])]
   \<and> wrote one_message 0 (MSG_TIPS, [0x61, 0x62, 0x63]) (FcitxMessagesMessageConcat one_message 0 [0x63])
   \<and> shown (FcitxMessagesSetMessageCount one_message 2) = [(MSG_TIPS, [0x61, 0x62]), (MSG_TIPS, [])]"
proof -
  have s: "shown one_message = [(MSG_TIPS, [0x61, 0x62])]" and c: "msgCount one_message < MAX_MESSAGE_COUNT"
    and sl: "slots one_message ! 0 = (MSG_TIPS, [0x61, 0x62])"
      "take 2 (slots one_message) = [(MSG_TIPS, [0x61, 0x62]), (MSG_TIPS, [])]"
    by code_simp+
  show ?thesis
    using messages_refine [OF one_message_ok, of MSG_CODE "[]" "[0x63]" 2 0] by (simp add: s c sl added_def)
qed

end
