(* ===== verification/Hook.thy ===== *)
theory Hook
  imports Hotkey_Laws
begin

text \<open>
  The hooks of an instance: \<open>src/lib/fcitx/hook.c\<close>. Each hook is a stack of functions in the
  order of their registration (the first element of the C list is a dummy and left out). The
  functions belong to modules, so they are values here: a function of type \<open>'s \<Rightarrow> 's\<close>
  transforms the state \<open>'s\<close> of the instance, and the argument that the C code stores beside the
  function is part of it. Registering from inside a hook is not modelled.
\<close>

type_synonym 's key_filter = "keysym \<Rightarrow> uint32 \<Rightarrow> uint32 \<Rightarrow> 's \<Rightarrow> bool \<times> uint32 \<times> 's"
type_synonym 's string_filter = "buf \<Rightarrow> 's \<Rightarrow> buf option \<times> 's"
type_synonym 's event_hook = "'s \<Rightarrow> 's"
type_synonym 's ic_hook = "nat \<Rightarrow> 's \<Rightarrow> 's"
type_synonym 's ui_hook = "buf \<Rightarrow> 's \<Rightarrow> 's"
type_synonym 's hotkey_hook = "(hotkey \<times> hotkey) \<times> ('s \<Rightarrow> uint32 \<times> 's)"

record 's hooks =
  hookPreInputFilter :: "'s key_filter list"
  hookPostInputFilter :: "'s key_filter list"
  hookPreReleaseInputFilter :: "'s key_filter list"
  hookPostReleaseInputFilter :: "'s key_filter list"
  hookOutputFilter :: "'s string_filter list"
  hookCommitFilter :: "'s string_filter list"
  hookHotkeyFilter :: "'s hotkey_hook list"
  hookResetInputHook :: "'s event_hook list"
  hookTriggerOnHook :: "'s event_hook list"
  hookTriggerOffHook :: "'s event_hook list"
  hookInputFocusHook :: "'s event_hook list"
  hookInputUnFocusHook :: "'s event_hook list"
  hookIMChangedHook :: "'s event_hook list"
  hookUpdateCandidateWordHook :: "'s event_hook list"
  hookUpdateIMListHook :: "'s event_hook list"
  hookICStateChangedHook :: "'s ic_hook list"
  hookUIStatusChangedHook :: "'s ui_hook list"

text \<open>\<open>DEFINE_HOOK\<close>: registering walks to the end of the stack and appends.\<close>

definition register_hook :: "'f list \<Rightarrow> 'f \<Rightarrow> 'f list" where
  "register_hook stack value = stack @ [value]"

definition FcitxInstanceRegisterPreInputFilter :: "'s hooks \<Rightarrow> 's key_filter \<Rightarrow> 's hooks" where
  "FcitxInstanceRegisterPreInputFilter h f = h \<lparr> hookPreInputFilter := register_hook (hookPreInputFilter h) f \<rparr>"

definition FcitxInstanceRegisterPostInputFilter :: "'s hooks \<Rightarrow> 's key_filter \<Rightarrow> 's hooks" where
  "FcitxInstanceRegisterPostInputFilter h f = h \<lparr> hookPostInputFilter := register_hook (hookPostInputFilter h) f \<rparr>"

definition FcitxInstanceRegisterPreReleaseInputFilter :: "'s hooks \<Rightarrow> 's key_filter \<Rightarrow> 's hooks" where
  "FcitxInstanceRegisterPreReleaseInputFilter h f = h \<lparr> hookPreReleaseInputFilter := register_hook (hookPreReleaseInputFilter h) f \<rparr>"

definition FcitxInstanceRegisterPostReleaseInputFilter :: "'s hooks \<Rightarrow> 's key_filter \<Rightarrow> 's hooks" where
  "FcitxInstanceRegisterPostReleaseInputFilter h f = h \<lparr> hookPostReleaseInputFilter := register_hook (hookPostReleaseInputFilter h) f \<rparr>"

definition FcitxInstanceRegisterOutputFilter :: "'s hooks \<Rightarrow> 's string_filter \<Rightarrow> 's hooks" where
  "FcitxInstanceRegisterOutputFilter h f = h \<lparr> hookOutputFilter := register_hook (hookOutputFilter h) f \<rparr>"

definition FcitxInstanceRegisterCommitFilter :: "'s hooks \<Rightarrow> 's string_filter \<Rightarrow> 's hooks" where
  "FcitxInstanceRegisterCommitFilter h f = h \<lparr> hookCommitFilter := register_hook (hookCommitFilter h) f \<rparr>"

definition FcitxInstanceRegisterHotkeyFilter :: "'s hooks \<Rightarrow> 's hotkey_hook \<Rightarrow> 's hooks" where
  "FcitxInstanceRegisterHotkeyFilter h f = h \<lparr> hookHotkeyFilter := register_hook (hookHotkeyFilter h) f \<rparr>"

definition FcitxInstanceRegisterResetInputHook :: "'s hooks \<Rightarrow> 's event_hook \<Rightarrow> 's hooks" where
  "FcitxInstanceRegisterResetInputHook h f = h \<lparr> hookResetInputHook := register_hook (hookResetInputHook h) f \<rparr>"

definition FcitxInstanceRegisterTriggerOnHook :: "'s hooks \<Rightarrow> 's event_hook \<Rightarrow> 's hooks" where
  "FcitxInstanceRegisterTriggerOnHook h f = h \<lparr> hookTriggerOnHook := register_hook (hookTriggerOnHook h) f \<rparr>"

definition FcitxInstanceRegisterTriggerOffHook :: "'s hooks \<Rightarrow> 's event_hook \<Rightarrow> 's hooks" where
  "FcitxInstanceRegisterTriggerOffHook h f = h \<lparr> hookTriggerOffHook := register_hook (hookTriggerOffHook h) f \<rparr>"

definition FcitxInstanceRegisterInputFocusHook :: "'s hooks \<Rightarrow> 's event_hook \<Rightarrow> 's hooks" where
  "FcitxInstanceRegisterInputFocusHook h f = h \<lparr> hookInputFocusHook := register_hook (hookInputFocusHook h) f \<rparr>"

definition FcitxInstanceRegisterInputUnFocusHook :: "'s hooks \<Rightarrow> 's event_hook \<Rightarrow> 's hooks" where
  "FcitxInstanceRegisterInputUnFocusHook h f = h \<lparr> hookInputUnFocusHook := register_hook (hookInputUnFocusHook h) f \<rparr>"

definition FcitxInstanceRegisterIMChangedHook :: "'s hooks \<Rightarrow> 's event_hook \<Rightarrow> 's hooks" where
  "FcitxInstanceRegisterIMChangedHook h f = h \<lparr> hookIMChangedHook := register_hook (hookIMChangedHook h) f \<rparr>"

definition FcitxInstanceRegisterUpdateCandidateWordHook :: "'s hooks \<Rightarrow> 's event_hook \<Rightarrow> 's hooks" where
  "FcitxInstanceRegisterUpdateCandidateWordHook h f = h \<lparr> hookUpdateCandidateWordHook := register_hook (hookUpdateCandidateWordHook h) f \<rparr>"

definition FcitxInstanceRegisterUpdateIMListHook :: "'s hooks \<Rightarrow> 's event_hook \<Rightarrow> 's hooks" where
  "FcitxInstanceRegisterUpdateIMListHook h f = h \<lparr> hookUpdateIMListHook := register_hook (hookUpdateIMListHook h) f \<rparr>"

definition FcitxInstanceRegisterICStateChangedHook :: "'s hooks \<Rightarrow> 's ic_hook \<Rightarrow> 's hooks" where
  "FcitxInstanceRegisterICStateChangedHook h f = h \<lparr> hookICStateChangedHook := register_hook (hookICStateChangedHook h) f \<rparr>"

definition FcitxInstanceRegisterUIStatusChangedHook :: "'s hooks \<Rightarrow> 's ui_hook \<Rightarrow> 's hooks" where
  "FcitxInstanceRegisterUIStatusChangedHook h f = h \<lparr> hookUIStatusChangedHook := register_hook (hookUIStatusChangedHook h) f \<rparr>"

section \<open>Key filters\<close>

fun run_key_filters :: "'s key_filter list \<Rightarrow> keysym \<Rightarrow> uint32 \<Rightarrow> uint32 \<Rightarrow> 's \<Rightarrow> uint32 \<times> 's" where
  "run_key_filters [] ksym state retval s = (retval, s)"
| "run_key_filters (f # fs) ksym state retval s =
     (let (consumed, retval', s') = f ksym state retval s in
      if consumed then (retval', s') else run_key_filters fs ksym state retval' s')"

definition FcitxInstanceProcessPreInputFilter :: "'s hooks \<Rightarrow> keysym \<Rightarrow> uint32 \<Rightarrow> uint32 \<Rightarrow> 's \<Rightarrow> uint32 \<times> 's" where
  "FcitxInstanceProcessPreInputFilter h ksym state retval s =
     run_key_filters (hookPreInputFilter h) ksym state 0 s"

definition FcitxInstanceProcessPostInputFilter :: "'s hooks \<Rightarrow> keysym \<Rightarrow> uint32 \<Rightarrow> uint32 \<Rightarrow> 's \<Rightarrow> uint32 \<times> 's" where
  "FcitxInstanceProcessPostInputFilter h ksym state retval s =
     run_key_filters (hookPostInputFilter h) ksym state retval s"

definition FcitxInstanceProcessPreReleaseInputFilter ::
  "'s hooks \<Rightarrow> keysym \<Rightarrow> uint32 \<Rightarrow> uint32 \<Rightarrow> 's \<Rightarrow> uint32 \<times> 's" where
  "FcitxInstanceProcessPreReleaseInputFilter h ksym state retval s =
     run_key_filters (hookPreReleaseInputFilter h) ksym state 0 s"

definition FcitxInstanceProcessPostReleaseInputFilter ::
  "'s hooks \<Rightarrow> keysym \<Rightarrow> uint32 \<Rightarrow> uint32 \<Rightarrow> 's \<Rightarrow> uint32 \<times> 's" where
  "FcitxInstanceProcessPostReleaseInputFilter h ksym state retval s =
     run_key_filters (hookPostReleaseInputFilter h) ksym state retval s"

section \<open>String filters\<close>

text \<open>The output filters all get the input; the commit filters get the result so far.\<close>

fun run_output_filters :: "'s string_filter list \<Rightarrow> buf \<Rightarrow> buf option \<Rightarrow> 's \<Rightarrow> buf option \<times> 's" where
  "run_output_filters [] inp out s = (out, s)"
| "run_output_filters (f # fs) inp out s =
     (let (newout, s') = f inp s in
      run_output_filters fs inp (if newout \<noteq> None then newout else out) s')"

definition FcitxInstanceProcessOutputFilter :: "'s hooks \<Rightarrow> buf \<Rightarrow> 's \<Rightarrow> buf option \<times> 's" where
  "FcitxInstanceProcessOutputFilter h inp s = run_output_filters (hookOutputFilter h) inp None s"

fun run_commit_filters :: "'s string_filter list \<Rightarrow> buf \<Rightarrow> buf option \<Rightarrow> 's \<Rightarrow> buf option \<times> 's" where
  "run_commit_filters [] inp out s = (out, s)"
| "run_commit_filters (f # fs) inp out s =
     (let (newout, s') = f inp s in
      case newout of
        Some t \<Rightarrow> run_commit_filters fs t (Some t) s'
      | None \<Rightarrow> run_commit_filters fs inp out s')"

definition FcitxInstanceProcessCommitFilter :: "'s hooks \<Rightarrow> buf \<Rightarrow> 's \<Rightarrow> buf option \<times> 's" where
  "FcitxInstanceProcessCommitFilter h inp s = run_commit_filters (hookCommitFilter h) inp None s"

section \<open>Event hooks\<close>

definition run_events :: "'s event_hook list \<Rightarrow> 's \<Rightarrow> 's" where
  "run_events stack s = foldl (\<lambda>s f. f s) s stack"

definition FcitxInstanceProcessUpdateCandidates :: "'s hooks \<Rightarrow> 's \<Rightarrow> 's" where
  "FcitxInstanceProcessUpdateCandidates h = run_events (hookUpdateCandidateWordHook h)"

definition FcitxInstanceProcessResetInputHook :: "'s hooks \<Rightarrow> 's \<Rightarrow> 's" where
  "FcitxInstanceProcessResetInputHook h = run_events (hookResetInputHook h)"

definition FcitxInstanceProcessTriggerOffHook :: "'s hooks \<Rightarrow> 's \<Rightarrow> 's" where
  "FcitxInstanceProcessTriggerOffHook h = run_events (hookTriggerOffHook h)"

definition FcitxInstanceProcessTriggerOnHook :: "'s hooks \<Rightarrow> 's \<Rightarrow> 's" where
  "FcitxInstanceProcessTriggerOnHook h = run_events (hookTriggerOnHook h)"

definition FcitxInstanceProcessInputFocusHook :: "'s hooks \<Rightarrow> 's \<Rightarrow> 's" where
  "FcitxInstanceProcessInputFocusHook h = run_events (hookInputFocusHook h)"

definition FcitxInstanceProcessInputUnFocusHook :: "'s hooks \<Rightarrow> 's \<Rightarrow> 's" where
  "FcitxInstanceProcessInputUnFocusHook h = run_events (hookInputUnFocusHook h)"

definition FcitxInstanceProcessIMChangedHook :: "'s hooks \<Rightarrow> 's \<Rightarrow> 's" where
  "FcitxInstanceProcessIMChangedHook h = run_events (hookIMChangedHook h)"

definition FcitxInstanceProcessUpdateIMListHook :: "'s hooks \<Rightarrow> 's \<Rightarrow> 's" where
  "FcitxInstanceProcessUpdateIMListHook h = run_events (hookUpdateIMListHook h)"

definition FcitxInstanceProcessICStateChangedHook :: "'s hooks \<Rightarrow> nat \<Rightarrow> 's \<Rightarrow> 's" where
  "FcitxInstanceProcessICStateChangedHook h ic = run_events (map (\<lambda>f. f ic) (hookICStateChangedHook h))"

definition FcitxInstanceProcessUIStatusChangedHook :: "'s hooks \<Rightarrow> buf \<Rightarrow> 's \<Rightarrow> 's" where
  "FcitxInstanceProcessUIStatusChangedHook h statusName =
     run_events (map (\<lambda>f. f statusName) (hookUIStatusChangedHook h))"

section \<open>Hotkeys\<close>

text \<open>The setting is normalised first, the way key events are.\<close>

definition normal_hotkey :: "hotkey \<Rightarrow> hotkey" where
  "normal_hotkey hk =
     (let (k, st) = FcitxHotkeyGetKey (hk_sym hk) (hk_state hk) in \<lparr> hk_desc = None, hk_sym = k, hk_state = st \<rparr>)"

fun run_hotkeys :: "'s hotkey_hook list \<Rightarrow> keysym \<Rightarrow> uint32 \<Rightarrow> 's \<Rightarrow> uint32 \<times> 's" where
  "run_hotkeys [] ksym state s = (0, s)"
| "run_hotkeys ((hk, handle) # fs) ksym state s =
     (if FcitxHotkeyIsHotKey ksym state (normal_hotkey (fst hk), normal_hotkey (snd hk)) then handle s
      else run_hotkeys fs ksym state s)"

definition FcitxInstanceProcessHotkey :: "'s hooks \<Rightarrow> keysym \<Rightarrow> uint32 \<Rightarrow> 's \<Rightarrow> uint32 \<times> 's" where
  "FcitxInstanceProcessHotkey h ksym state s = run_hotkeys (hookHotkeyFilter h) ksym state s"

text \<open>\<open>FcitxDummyReleaseInputHook\<close>, a key filter that modules register with a flag of theirs.\<close>

definition FcitxDummyReleaseInputHook :: "('s \<Rightarrow> bool) \<Rightarrow> 's key_filter" where
  "FcitxDummyReleaseInputHook flag ksym state retval s =
     (if \<not> flag s then (False, retval, s)
      else (True, if retval = 0 then 1 else retval, s))"

section \<open>Laws\<close>

text \<open>An instance on which nothing is registered.\<close>

definition no_hooks :: "'s hooks" where
  "no_hooks = \<lparr> hookPreInputFilter = [], hookPostInputFilter = [], hookPreReleaseInputFilter = [],
     hookPostReleaseInputFilter = [], hookOutputFilter = [], hookCommitFilter = [], hookHotkeyFilter = [],
     hookResetInputHook = [], hookTriggerOnHook = [], hookTriggerOffHook = [], hookInputFocusHook = [],
     hookInputUnFocusHook = [], hookIMChangedHook = [], hookUpdateCandidateWordHook = [],
     hookUpdateIMListHook = [], hookICStateChangedHook = [], hookUIStatusChangedHook = [] \<rparr>"

text \<open>
  Key filters run in the order of their registration up to the first that consumes the
  key. When every filter before \<open>f\<close> lets the key pass, \<open>f\<close> gets the value and the state
  they left, and when it consumes the key its answer is that of the phase, whatever is
  registered behind it.
\<close>

theorem key_filter_first:
  assumes "hookPreInputFilter h = fs @ f # gs"
    and "\<forall>g\<in>set fs. \<forall>r s. \<not> fst (g ksym state r s)"
    and "run_key_filters fs ksym state 0 s = (r1, s1)"
    and "f ksym state r1 s1 = (c, r2, s2)"
  shows "FcitxInstanceProcessPreInputFilter h ksym state r s =
     (if c then (r2, s2) else run_key_filters gs ksym state r2 s2)"
proof -
  have "run_key_filters (fs @ f # gs) ksym state r0 s0 =
      (let (r1, s1) = run_key_filters fs ksym state r0 s0; (c, r2, s2) = f ksym state r1 s1
       in if c then (r2, s2) else run_key_filters gs ksym state r2 s2)" for r0 s0
    using assms(2)
  proof (induction fs arbitrary: r0 s0)
    case (Cons g fs)
    obtain b r' s' where g: "g ksym state r0 s0 = (b, r', s')" by (metis surj_pair)
    then have "\<not> b" using Cons.prems by (metis fst_conv list.set_intros(1))
    with g Cons show ?case by simp
  qed simp
  with assms(1,3,4) show ?thesis by (simp add: FcitxInstanceProcessPreInputFilter_def)
qed

lemma key_filter_first_witness:
  "FcitxInstanceProcessPreInputFilter
     (no_hooks \<lparr> hookPreInputFilter :=
        [\<lambda>k st r s. (False, 4, Suc s), \<lambda>k st r s. (True, r + 1, Suc s), \<lambda>k st r s. (True, 0, 0)] \<rparr>) 0x61 0 9 0 = (5, 2)"
  by (subst key_filter_first[where fs = "[\<lambda>k st r s. (False, 4, Suc s)]" and gs = "[\<lambda>k st r s. (True, 0, 0)]"
        and f = "\<lambda>k st r s. (True, r + 1, Suc s)" and ?r1.0 = 4 and ?s1.0 = 1 and c = True and ?r2.0 = 5 and ?s2.0 = 2])
    simp_all

text \<open>Applying one string filter: without a result the string stays.\<close>

definition apply_filter :: "buf \<Rightarrow> (buf \<Rightarrow> buf option) \<Rightarrow> buf" where
  "apply_filter t f = (case f t of None \<Rightarrow> t | Some u \<Rightarrow> u)"

definition pure_filter :: "(buf \<Rightarrow> buf option) \<Rightarrow> 's string_filter" where
  "pure_filter f t s = (f t, s)"

lemma commit_filters:
  "out = None \<or> out = Some inp \<Longrightarrow>
   (case fst (run_commit_filters (map pure_filter fs) inp out s) of None \<Rightarrow> inp | Some t \<Rightarrow> t)
     = foldl apply_filter inp fs
   \<and> (fst (run_commit_filters (map pure_filter fs) inp out s) = None \<longrightarrow> out = None)"
proof (induction fs arbitrary: inp out)
  case (Cons f fs)
  show ?case
  proof (cases "f inp")
    case None
    then show ?thesis using Cons.IH[OF Cons.prems] by (simp add: apply_filter_def pure_filter_def)
  next
    case (Some u)
    then show ?thesis using Cons.IH[of "Some u" u]
      by (auto simp: apply_filter_def pure_filter_def split: option.splits)
  qed
qed auto

lemma output_filters:
  "fst (run_output_filters (map pure_filter fs) inp out s)
   = foldl (\<lambda>r f. case f inp of None \<Rightarrow> r | Some t \<Rightarrow> Some t) out fs"
  by (induction fs arbitrary: out) (auto simp: pure_filter_def split: option.splits intro!: arg_cong[where f = "\<lambda>x. foldl _ x _"])

text \<open>
  Commit filters are chained, output filters are not. For filters that do not depend on the
  state, \<open>FcitxInstanceProcessCommitFilter\<close> leads to the string that comes out when the filters
  are applied one to the result of the other, while \<open>FcitxInstanceProcessOutputFilter\<close> returns
  what the last filter that has a result makes of the input alone: the results of the filters
  before it are lost.
\<close>

theorem string_filters:
  assumes "hookCommitFilter h = map pure_filter fs" and "hookOutputFilter h = map pure_filter gs"
  shows "(case fst (FcitxInstanceProcessCommitFilter h inp s) of None \<Rightarrow> inp | Some t \<Rightarrow> t)
       = foldl apply_filter inp fs
    \<and> fst (FcitxInstanceProcessOutputFilter h inp s)
       = foldl (\<lambda>r f. case f inp of None \<Rightarrow> r | Some t \<Rightarrow> Some t) None gs"
  using commit_filters[of None inp fs s] output_filters[of gs inp None s] assms
  by (simp add: FcitxInstanceProcessCommitFilter_def FcitxInstanceProcessOutputFilter_def)

lemma string_filters_witness:
  "fst (FcitxInstanceProcessOutputFilter (no_hooks \<lparr> hookOutputFilter :=
      map pure_filter [\<lambda>t. Some (0x61 # t), \<lambda>t. Some (0x62 # t)] \<rparr>) [0x63] ()) = Some [0x62, 0x63]"
  using string_filters[of "no_hooks \<lparr> hookOutputFilter :=
      map pure_filter [\<lambda>t. Some (0x61 # t), \<lambda>t. Some (0x62 # t)] \<rparr>" "[]"
      "[\<lambda>t. Some (0x61 # t), \<lambda>t. Some (0x62 # t)]" "[0x63]" "()"]
  by (simp add: no_hooks_def)

text \<open>
  The first hotkey that matches is the one that runs. A key matches a setting when one of
  the two normalised hotkeys has its symbol and, of the modifiers Control, Alt, Shift and
  Super, its state; without a match the answer is \<open>IRV_TO_PROCESS\<close> and nothing happens.
\<close>

lemma hotkey_first:
  "FcitxInstanceProcessHotkey h ksym state s =
     (case find (\<lambda>(hk, handle). FcitxHotkeyIsHotKey ksym state (normal_hotkey (fst hk), normal_hotkey (snd hk)))
        (hookHotkeyFilter h) of
        None \<Rightarrow> (0, s)
      | Some (hk, handle) \<Rightarrow> handle s)"
proof -
  have "run_hotkeys fs ksym state s =
     (case find (\<lambda>(hk, handle). FcitxHotkeyIsHotKey ksym state (normal_hotkey (fst hk), normal_hotkey (snd hk))) fs of
        None \<Rightarrow> (0, s) | Some (hk, handle) \<Rightarrow> handle s)" for fs :: "'a hotkey_hook list"
    by (induction fs ksym state s rule: run_hotkeys.induct) auto
  then show ?thesis by (simp add: FcitxInstanceProcessHotkey_def)
qed

end
