(* ===== verification/Context.thy ===== *)
theory Context
  imports Hotkey Uthash Utarray StrUtils_Laws
begin

text \<open>
  Watchable contexts: \<open>src/lib/fcitx/context.c\<close>, named values of an instance with callbacks
  for their changes. The C union keeps a string or a boolean in the place of the description of
  the first hotkey, so reading a context of one of these types as the other is reading a wild
  value; it is \<open>None\<close>. The callbacks are recorded in a log, in the order of their calls.
\<close>

datatype context_type = FCT_Hotkey | FCT_String | FCT_Void | FCT_Boolean

abbreviation FCF_None :: uint32 where "FCF_None \<equiv> 0"
abbreviation FCF_ResetOnInputMethodChange :: uint32 where "FCF_ResetOnInputMethodChange \<equiv> 1"

type_synonym keypair = "(keysym \<times> uint32) \<times> (keysym \<times> uint32)"

text \<open>The \<open>void\<close> pointers that are passed in and out: a null pointer or a typed value.\<close>

datatype context_value = CtxNull | CtxStr buf | CtxHotkey keypair | CtxBool bool

record fcitx_context =
  cx_type :: context_type
  cx_flag :: uint32
  cx_hotkey :: keypair
  cx_str :: "buf option"
  cx_b :: bool
  cx_callback :: "(nat \<times> nat) list"

record context_state =
  contexts :: "(buf, fcitx_context) uthash"
  cx_log :: "((nat \<times> nat) \<times> context_value) list"

definition FcitxInstanceRegisterWatchableContext ::
  "context_state \<Rightarrow> buf \<Rightarrow> context_type \<Rightarrow> uint32 \<Rightarrow> context_state" where
  "FcitxInstanceRegisterWatchableContext s key type flag =
     s \<lparr> contexts := hash_add (contexts s) key
           \<lparr> cx_type = type, cx_flag = flag, cx_hotkey = ((0, 0), (0, 0)), cx_str = None, cx_b = False,
             cx_callback = [] \<rparr> \<rparr>"

text \<open>
  The new content, the value for the callbacks and whether it counts as a change. A value of
  another type than that of the context would be misread: \<open>None\<close>.
\<close>

definition context_assign ::
  "fcitx_context \<Rightarrow> context_value \<Rightarrow> (fcitx_context \<times> context_value \<times> bool) option" where
  "context_assign c value =
     (case cx_type c of
        FCT_String \<Rightarrow>
          (case value of
             CtxStr t \<Rightarrow> Some (c \<lparr> cx_str := Some t \<rparr>, CtxStr t,
                (case cx_str c of None \<Rightarrow> True | Some old \<Rightarrow> strcmp old t \<noteq> 0))
           | CtxNull \<Rightarrow> Some (c \<lparr> cx_str := None \<rparr>, CtxNull, cx_str c \<noteq> None)
           | _ \<Rightarrow> None)
      | FCT_Hotkey \<Rightarrow>
          (case value of
             CtxHotkey hk \<Rightarrow> Some (c \<lparr> cx_hotkey := hk \<rparr>, CtxHotkey hk, True)
           | CtxNull \<Rightarrow> Some (c \<lparr> cx_hotkey := ((0, 0), (0, 0)) \<rparr>, CtxHotkey ((0, 0), (0, 0)), True)
           | _ \<Rightarrow> None)
      | FCT_Boolean \<Rightarrow>
          (case value of
             CtxBool b \<Rightarrow> Some (if b \<noteq> cx_b c then (c \<lparr> cx_b := b \<rparr>, CtxBool b, True) else (c, CtxBool b, False))
           | CtxNull \<Rightarrow> Some (if cx_b c then (c \<lparr> cx_b := False \<rparr>, CtxBool False, True) else (c, CtxBool False, False))
           | _ \<Rightarrow> None)
      | FCT_Void \<Rightarrow> Some (c, CtxNull, True))"

definition FcitxInstanceSetContextInternal ::
  "context_state \<Rightarrow> buf \<Rightarrow> fcitx_context \<Rightarrow> context_value \<Rightarrow> context_state option" where
  "FcitxInstanceSetContextInternal s key c value =
     map_option (\<lambda>(c', newvalue, changed).
        \<lparr> contexts = hash_upd (contexts s) key c',
          cx_log = cx_log s @ (if changed then map (\<lambda>info. (info, newvalue)) (cx_callback c') else []) \<rparr>)
       (context_assign c value)"

definition FcitxInstanceSetContext :: "context_state \<Rightarrow> buf \<Rightarrow> context_value \<Rightarrow> context_state option" where
  "FcitxInstanceSetContext s key value =
     (case hash_find (contexts s) key of
        None \<Rightarrow> Some s
      | Some c \<Rightarrow> FcitxInstanceSetContextInternal s key c value)"

definition FcitxInstanceWatchContext :: "context_state \<Rightarrow> buf \<Rightarrow> nat \<times> nat \<Rightarrow> context_state" where
  "FcitxInstanceWatchContext s key info =
     (case hash_find (contexts s) key of
        None \<Rightarrow> s
      | Some c \<Rightarrow> s \<lparr> contexts := hash_upd (contexts s) key (c \<lparr> cx_callback := utarray_push_back (cx_callback c) info \<rparr>) \<rparr>)"

text \<open>The getters; the inner option of the first two is the null pointer.\<close>

definition FcitxInstanceGetContextHotkey :: "context_state \<Rightarrow> buf \<Rightarrow> keypair option" where
  "FcitxInstanceGetContextHotkey s key =
     (case hash_find (contexts s) key of
        None \<Rightarrow> None
      | Some c \<Rightarrow> if cx_hotkey c = ((0, 0), (0, 0)) then None else Some (cx_hotkey c))"

definition FcitxInstanceGetContextString :: "context_state \<Rightarrow> buf \<Rightarrow> buf option option" where
  "FcitxInstanceGetContextString s key =
     (case hash_find (contexts s) key of
        None \<Rightarrow> Some None
      | Some c \<Rightarrow> if cx_b c then None else Some (cx_str c))"

definition FcitxInstanceGetContextBoolean :: "context_state \<Rightarrow> buf \<Rightarrow> bool option" where
  "FcitxInstanceGetContextBoolean s key =
     (case hash_find (contexts s) key of
        None \<Rightarrow> Some False
      | Some c \<Rightarrow> if cx_str c \<noteq> None then None else Some (cx_b c))"

text \<open>Resetting walks over the table; every context is found under its key.\<close>

fun reset_context_loop :: "buf list \<Rightarrow> uint32 \<Rightarrow> context_state \<Rightarrow> context_state option" where
  "reset_context_loop [] flag s = Some s"
| "reset_context_loop (key # ks) flag s =
     (case hash_find (contexts s) key of
        None \<Rightarrow> reset_context_loop ks flag s
      | Some c \<Rightarrow>
          if cx_flag c AND flag \<noteq> 0 then
            Option.bind (FcitxInstanceSetContextInternal s key c CtxNull) (reset_context_loop ks flag)
          else reset_context_loop ks flag s)"

definition FcitxInstanceResetContext :: "context_state \<Rightarrow> uint32 \<Rightarrow> context_state option" where
  "FcitxInstanceResetContext s flag = reset_context_loop (hash_keys (contexts s)) flag s"

section \<open>Laws\<close>

text \<open>Contexts are registered once, and hold content of their own type only.\<close>

definition context_ok :: "fcitx_context \<Rightarrow> bool" where
  "context_ok c \<longleftrightarrow>
     (case cx_type c of
        FCT_String \<Rightarrow> cx_hotkey c = ((0, 0), (0, 0)) \<and> \<not> cx_b c
      | FCT_Hotkey \<Rightarrow> cx_str c = None \<and> \<not> cx_b c
      | FCT_Boolean \<Rightarrow> cx_hotkey c = ((0, 0), (0, 0)) \<and> cx_str c = None
      | FCT_Void \<Rightarrow> cx_hotkey c = ((0, 0), (0, 0)) \<and> cx_str c = None \<and> \<not> cx_b c)"

definition contexts_ok :: "context_state \<Rightarrow> bool" where
  "contexts_ok s \<longleftrightarrow> distinct (map fst (contexts s)) \<and> (\<forall>p\<in>set (contexts s). context_ok (snd p))"

text \<open>What a context holds, as a value; the null value of a hotkey is the empty one.\<close>

definition context_content :: "fcitx_context \<Rightarrow> context_value" where
  "context_content c =
     (case cx_type c of
        FCT_String \<Rightarrow> (case cx_str c of None \<Rightarrow> CtxNull | Some t \<Rightarrow> CtxStr t)
      | FCT_Hotkey \<Rightarrow> CtxHotkey (cx_hotkey c)
      | FCT_Boolean \<Rightarrow> CtxBool (cx_b c)
      | FCT_Void \<Rightarrow> CtxNull)"

fun typed_value :: "context_type \<Rightarrow> context_value \<Rightarrow> bool" where
  "typed_value FCT_String (CtxStr t) = True"
| "typed_value FCT_Hotkey (CtxHotkey hk) = True"
| "typed_value FCT_Boolean (CtxBool b) = True"
| "typed_value FCT_Void v = True"
| "typed_value t CtxNull = True"
| "typed_value t v = False"

fun normal_value :: "context_type \<Rightarrow> context_value \<Rightarrow> context_value" where
  "normal_value FCT_Hotkey CtxNull = CtxHotkey ((0, 0), (0, 0))"
| "normal_value FCT_Boolean CtxNull = CtxBool False"
| "normal_value FCT_Void v = CtxNull"
| "normal_value t v = v"

lemma assign_spec:
  assumes "context_ok c" "typed_value (cx_type c) v"
  shows "\<exists>c' changed. context_assign c v = Some (c', normal_value (cx_type c) v, changed)
    \<and> context_ok c' \<and> context_content c' = normal_value (cx_type c) v
    \<and> cx_type c' = cx_type c \<and> cx_flag c' = cx_flag c \<and> cx_callback c' = cx_callback c
    \<and> (changed \<longleftrightarrow> cx_type c = FCT_Hotkey \<or> cx_type c = FCT_Void \<or> context_content c \<noteq> normal_value (cx_type c) v)"
  using assms
  by (cases "cx_type c"; cases v; cases "cx_str c")
    (auto simp: context_assign_def context_ok_def context_content_def strcmp_eq)

lemma contexts_find:
  assumes "contexts_ok s" "hash_find (contexts s) key = Some c"
  shows "context_ok c"
proof -
  have "distinct (map fst (contexts s))" using assms(1) by (simp add: contexts_ok_def)
  then have "map_of (contexts s) key = Some c" using assms(2) uh.lookup_items by metis
  then show ?thesis using assms(1) map_of_SomeD by (fastforce simp: contexts_ok_def)
qed

lemma set_internal:
  assumes ok: "contexts_ok s" and c: "hash_find (contexts s) key = Some c" and v: "typed_value (cx_type c) v"
  obtains s' c' changed where "FcitxInstanceSetContextInternal s key c v = Some s'"
    "context_assign c v = Some (c', normal_value (cx_type c) v, changed)"
    "contexts_ok s'" "hash_find (contexts s') = (hash_find (contexts s))(key \<mapsto> c')"
    "map fst (contexts s') = map fst (contexts s)"
    "cx_log s' = cx_log s @ (if changed then map (\<lambda>i. (i, normal_value (cx_type c) v)) (cx_callback c) else [])"
proof -
  from assign_spec[OF contexts_find[OF ok c] v] obtain c' changed where
    a: "context_assign c v = Some (c', normal_value (cx_type c) v, changed)" "context_ok c'"
      "cx_callback c' = cx_callback c" by blast
  have d: "distinct (map fst (contexts s))" using ok by (simp add: contexts_ok_def)
  define s' where "s' = \<lparr> contexts = hash_upd (contexts s) key c',
    cx_log = cx_log s @ (if changed then map (\<lambda>i. (i, normal_value (cx_type c) v)) (cx_callback c) else []) \<rparr>"
  have items: "contexts s' = map (\<lambda>p. if fst p = key then (key, c') else p) (contexts s)"
    using uh.items_upd[OF d] by (simp add: s'_def)
  then have keys: "map fst (contexts s') = map fst (contexts s)" by simp
  have "contexts_ok s'" unfolding contexts_ok_def keys
    using d ok a(2) by (auto simp: items contexts_ok_def)
  moreover have "hash_find (contexts s') = (hash_find (contexts s))(key \<mapsto> c')"
    using uh.lookup_upd[OF d, of key c'] c by (simp add: s'_def)
  ultimately show ?thesis using that[of s' c' changed] a keys
    by (simp add: FcitxInstanceSetContextInternal_def s'_def)
qed

text \<open>
  Setting a context. On a well-formed set of contexts, a value of the right type (or the null
  pointer) becomes the content of the context, no other context changes, and the callbacks of
  this context are called once each, in the order of their registration and with the new value,
  exactly when the value is new or the context is a hotkey or without a value.
\<close>

theorem set_context:
  assumes "contexts_ok s" and "hash_find (contexts s) key = Some c" and "typed_value (cx_type c) v"
  shows "\<exists>s' c'. FcitxInstanceSetContext s key v = Some s' \<and> contexts_ok s'
    \<and> hash_find (contexts s') = (hash_find (contexts s))(key \<mapsto> c')
    \<and> context_content c' = normal_value (cx_type c) v
    \<and> cx_log s' = cx_log s @
        (if cx_type c = FCT_Hotkey \<or> cx_type c = FCT_Void \<or> context_content c \<noteq> normal_value (cx_type c) v
         then map (\<lambda>i. (i, normal_value (cx_type c) v)) (cx_callback c) else [])"
proof -
  from set_internal[OF assms] obtain s' c' changed where
    s': "FcitxInstanceSetContextInternal s key c v = Some s'"
      "context_assign c v = Some (c', normal_value (cx_type c) v, changed)"
      "contexts_ok s'" "hash_find (contexts s') = (hash_find (contexts s))(key \<mapsto> c')"
      "cx_log s' = cx_log s @ (if changed then map (\<lambda>i. (i, normal_value (cx_type c) v)) (cx_callback c) else [])"
    by metis
  moreover from assign_spec[OF contexts_find[OF assms(1,2)] assms(3)] s'(2)
  have "context_content c' = normal_value (cx_type c) v"
    "changed \<longleftrightarrow> cx_type c = FCT_Hotkey \<or> cx_type c = FCT_Void \<or> context_content c \<noteq> normal_value (cx_type c) v"
    by auto
  moreover have "FcitxInstanceSetContext s key v = Some s'"
    using assms(2) s'(1) by (simp add: FcitxInstanceSetContext_def)
  ultimately show ?thesis by (intro exI[of _ s'] exI[of _ c']) simp
qed

definition sample_contexts :: context_state where
  "sample_contexts = FcitxInstanceWatchContext
     (FcitxInstanceRegisterWatchableContext \<lparr> contexts = [], cx_log = [] \<rparr> [0x61] FCT_Boolean FCF_ResetOnInputMethodChange)
     [0x61] (3, 4)"

lemma sample_contexts_ok:
  "contexts_ok sample_contexts \<and> hash_find (contexts sample_contexts) [0x61]
     = Some \<lparr> cx_type = FCT_Boolean, cx_flag = 1, cx_hotkey = ((0, 0), (0, 0)), cx_str = None, cx_b = False,
         cx_callback = [(3, 4)] \<rparr>"
  by (simp add: sample_contexts_def FcitxInstanceWatchContext_def FcitxInstanceRegisterWatchableContext_def
      contexts_ok_def context_ok_def hash_add_def hash_find_def hash_upd_def utarray_push_back_def)

lemma set_context_witness:
  "\<exists>s'. FcitxInstanceSetContext sample_contexts [0x61] (CtxBool True) = Some s'
     \<and> cx_log s' = cx_log sample_contexts @ [((3, 4), CtxBool True)]"
  using set_context[OF sample_contexts_ok[THEN conjunct1] sample_contexts_ok[THEN conjunct2], of "CtxBool True"]
  by (auto simp: context_content_def)

section \<open>Resetting\<close>

definition cleared :: "uint32 \<Rightarrow> fcitx_context \<Rightarrow> fcitx_context" where
  "cleared flag c =
     (if cx_flag c AND flag \<noteq> 0
      then c \<lparr> cx_hotkey := ((0, 0), (0, 0)), cx_str := None, cx_b := False \<rparr> else c)"

lemma typed_null: "typed_value t CtxNull"
  by (cases t) auto

lemma assign_null:
  assumes "context_ok c" "cx_flag c AND flag \<noteq> 0" "context_assign c CtxNull = Some (c', v, ch)"
  shows "c' = cleared flag c"
  using assms by (cases c; cases "cx_type c")
    (auto simp: context_assign_def context_ok_def cleared_def split: if_splits)

lemma reset_loop:
  assumes "contexts_ok s" "distinct ks"
  shows "\<exists>s'. reset_context_loop ks flag s = Some s' \<and> contexts_ok s'
    \<and> map fst (contexts s') = map fst (contexts s)
    \<and> (\<forall>k. hash_find (contexts s') k =
         (if k \<in> set ks then map_option (cleared flag) (hash_find (contexts s) k) else hash_find (contexts s) k))"
  using assms
proof (induction ks arbitrary: s)
  case Nil
  then show ?case by simp
next
  case (Cons key ks)
  show ?case
  proof (cases "hash_find (contexts s) key")
    case None
    then show ?thesis using Cons.IH[OF Cons.prems(1)] Cons.prems(2) by auto
  next
    case (Some c)
    show ?thesis
    proof (cases "cx_flag c AND flag = 0")
      case True
      then have "cleared flag c = c" by (simp add: cleared_def)
      then show ?thesis using Cons.IH[OF Cons.prems(1)] Cons.prems(2) Some True by auto
    next
      case False
      obtain s1 c' ch where s1: "FcitxInstanceSetContextInternal s key c CtxNull = Some s1"
        "context_assign c CtxNull = Some (c', normal_value (cx_type c) CtxNull, ch)"
        "contexts_ok s1" "hash_find (contexts s1) = (hash_find (contexts s))(key \<mapsto> c')"
        "map fst (contexts s1) = map fst (contexts s)"
        using set_internal[OF Cons.prems(1) Some typed_null] by metis
      have c': "c' = cleared flag c"
        by (rule assign_null[OF contexts_find[OF Cons.prems(1) Some] False s1(2)])
      have d: "distinct ks" "key \<notin> set ks" using Cons.prems(2) by auto
      from Cons.IH[OF s1(3) d(1)] obtain s' where s': "reset_context_loop ks flag s1 = Some s'" "contexts_ok s'"
        "map fst (contexts s') = map fst (contexts s1)"
        "\<forall>k. hash_find (contexts s') k =
           (if k \<in> set ks then map_option (cleared flag) (hash_find (contexts s1) k) else hash_find (contexts s1) k)"
        by blast
      then have "reset_context_loop (key # ks) flag s = Some s'" using Some False s1(1) by simp
      moreover have "hash_find (contexts s') k = (if k \<in> set (key # ks)
          then map_option (cleared flag) (hash_find (contexts s) k) else hash_find (contexts s) k)" for k
        using s'(4) s1(4) c' d(2) Some by auto
      ultimately show ?thesis using s'(2,3) s1(5) by (intro exI[of _ s']) simp
    qed
  qed
qed

text \<open>
  Resetting contexts. On a well-formed set of contexts, \<open>FcitxInstanceResetContext\<close> empties
  exactly the contexts that carry the flag, keeps all others, the names and their order, and
  the set stays well formed.
\<close>

theorem reset_context:
  assumes "contexts_ok s"
  shows "\<exists>s'. FcitxInstanceResetContext s flag = Some s' \<and> contexts_ok s'
    \<and> map fst (contexts s') = map fst (contexts s)
    \<and> (\<forall>k. hash_find (contexts s') k = map_option (cleared flag) (hash_find (contexts s) k))"
proof -
  have d: "distinct (map fst (contexts s))" using assms by (simp add: contexts_ok_def)
  then have "distinct (hash_keys (contexts s))" by (simp add: hash_keys_def)
  from reset_loop[OF assms this, of flag] obtain s' where s': "reset_context_loop (hash_keys (contexts s)) flag s = Some s'"
    "contexts_ok s'" "map fst (contexts s') = map fst (contexts s)"
    "\<forall>k. hash_find (contexts s') k = (if k \<in> set (hash_keys (contexts s))
        then map_option (cleared flag) (hash_find (contexts s) k) else hash_find (contexts s) k)" by blast
  have "k \<notin> set (hash_keys (contexts s)) \<Longrightarrow> hash_find (contexts s) k = None" for k
    using uh.lookup_None[OF d] by (auto simp: hash_keys_def)
  with s' show ?thesis by (auto simp: FcitxInstanceResetContext_def)
qed

lemma reset_context_witness:
  "\<exists>s'. FcitxInstanceResetContext sample_contexts 1 = Some s' \<and> contexts_ok s'"
  using reset_context[OF sample_contexts_ok[THEN conjunct1], of 1] by blast

end
