(* ===== verification/Timeout.thy ===== *)
theory Timeout
  imports Utarray "HOL-Library.Multiset"
begin

text \<open>
  Timeouts: the functions on \<open>instance->timeout\<close> and the loop of the main thread that runs them in
  \<open>src/lib/fcitx/instance.c\<close>. The state is a record that the instance extends. Times are
  milliseconds as 64 bit words; the clock is an argument. What a callback does to the state is the
  parameter \<open>call\<close>; it may add and remove timeouts, so the loop runs on fuel.
\<close>

datatype timeout_callback = HideInputSpeedCallback | TimeoutCallback nat

record timeout_item =
  ti_callback :: timeout_callback
  ti_arg :: nat
  ti_milli :: uint64
  ti_idx :: uint64
  ti_time :: uint64

record timers =
  timeout :: "timeout_item list"
  timeoutIdx :: uint64

definition FcitxInstanceAddTimeout ::
  "uint64 \<Rightarrow> int \<Rightarrow> timeout_callback \<Rightarrow> nat \<Rightarrow> 'a timers_scheme \<Rightarrow> uint64 \<times> 'a timers_scheme" where
  "FcitxInstanceAddTimeout now milli callback arg s =
     (if milli < 0 then (0, s)
      else let i = timeoutIdx s + 1;
               item = \<lparr> ti_callback = callback, ti_arg = arg, ti_milli = word_of_int milli, ti_idx = i, ti_time = now \<rparr>
           in (i, s \<lparr> timeoutIdx := i, timeout := utarray_push_back (timeout s) item \<rparr>))"

text \<open>Searching the array front to back.\<close>

fun find_timeout :: "(timeout_item \<Rightarrow> bool) \<Rightarrow> timeout_item list \<Rightarrow> nat option" where
  "find_timeout P [] = None"
| "find_timeout P (t # ts) = (if P t then Some 0 else map_option Suc (find_timeout P ts))"

definition remove_timeout :: "(timeout_item \<Rightarrow> bool) \<Rightarrow> 'a timers_scheme \<Rightarrow> bool \<times> 'a timers_scheme" where
  "remove_timeout P s =
     (case find_timeout P (timeout s) of
        None \<Rightarrow> (False, s)
      | Some i \<Rightarrow> (case utarray_remove_quick (timeout s) i of
            None \<Rightarrow> (True, s)
          | Some ts \<Rightarrow> (True, s \<lparr> timeout := ts \<rparr>)))"

definition FcitxInstanceCheckTimeoutByFunc :: "'a timers_scheme \<Rightarrow> timeout_callback \<Rightarrow> bool" where
  "FcitxInstanceCheckTimeoutByFunc s callback = (find_timeout (\<lambda>t. ti_callback t = callback) (timeout s) \<noteq> None)"

definition FcitxInstanceCheckTimeoutById :: "'a timers_scheme \<Rightarrow> uint64 \<Rightarrow> bool" where
  "FcitxInstanceCheckTimeoutById s i = (find_timeout (\<lambda>t. ti_idx t = i) (timeout s) \<noteq> None)"

definition FcitxInstanceRemoveTimeoutByFunc :: "'a timers_scheme \<Rightarrow> timeout_callback \<Rightarrow> bool \<times> 'a timers_scheme" where
  "FcitxInstanceRemoveTimeoutByFunc s callback = remove_timeout (\<lambda>t. ti_callback t = callback) s"

definition FcitxInstanceRemoveTimeoutById :: "'a timers_scheme \<Rightarrow> uint64 \<Rightarrow> bool \<times> 'a timers_scheme" where
  "FcitxInstanceRemoveTimeoutById s i = (if i = 0 then (False, s) else remove_timeout (\<lambda>t. ti_idx t = i) s)"

text \<open>
  The loop of \<open>RunInstance\<close> over the timeouts. After the callback the item may have moved: then it
  is removed by its number and the loop starts over.
\<close>

definition due :: "uint64 \<Rightarrow> timeout_item \<Rightarrow> bool" where
  "due curtime t \<longleftrightarrow> ti_time t + ti_milli t \<le> curtime"

fun run_timeouts ::
  "nat \<Rightarrow> (timeout_callback \<Rightarrow> nat \<Rightarrow> 'a timers_scheme \<Rightarrow> 'a timers_scheme) \<Rightarrow> uint64 \<Rightarrow> nat
   \<Rightarrow> 'a timers_scheme \<Rightarrow> 'a timers_scheme option" where
  "run_timeouts 0 call curtime idx s = None"
| "run_timeouts (Suc n) call curtime idx s =
     (case utarray_eltptr (timeout s) idx of
        None \<Rightarrow> Some s
      | Some ti \<Rightarrow>
          if due curtime ti then
            (let s1 = call (ti_callback ti) (ti_arg ti) s in
             case utarray_eltptr (timeout s1) idx of
               Some ti' \<Rightarrow>
                 if ti_idx ti' = ti_idx ti then
                   (case utarray_remove_quick (timeout s1) idx of
                      None \<Rightarrow> None
                    | Some ts \<Rightarrow> run_timeouts n call curtime idx (s1 \<lparr> timeout := ts \<rparr>))
                 else run_timeouts n call curtime 0 (snd (FcitxInstanceRemoveTimeoutById s1 (ti_idx ti)))
             | None \<Rightarrow> run_timeouts n call curtime 0 (snd (FcitxInstanceRemoveTimeoutById s1 (ti_idx ti))))
          else run_timeouts n call curtime (idx + 1) s)"

text \<open>The wait until the next timeout, in milliseconds, as it is handed to \<open>select\<close>.\<close>

definition LONG_MAX :: uint64 where "LONG_MAX = 0x7fffffffffffffff"

definition next_timeout :: "uint64 \<Rightarrow> 'a timers_scheme \<Rightarrow> uint64 option" where
  "next_timeout curtime s =
     (if length (timeout s) \<noteq> 0 then
        Some (foldl (\<lambda>m t. if ti_time t + ti_milli t - curtime < m then ti_time t + ti_milli t - curtime else m)
                LONG_MAX (timeout s))
      else None)"

section \<open>Laws\<close>

lemma find_timeout_Some:
  "find_timeout P ts = Some i \<Longrightarrow> i < length ts \<and> P (ts ! i) \<and> (\<forall>j<i. \<not> P (ts ! j))"
  by (induction ts arbitrary: i) (auto simp: nth_Cons' split: if_splits)

lemma find_timeout_None: "find_timeout P ts = None \<longleftrightarrow> (\<forall>t\<in>set ts. \<not> P t)"
  by (induction ts) auto

lemma mset_remove_quick:
  assumes "i < length a"
  obtains a' where "utarray_remove_quick a i = Some a'" and "mset a = add_mset (a ! i) (mset a')"
    and "take i a' = take i a" and "length a' = length a - 1"
proof (cases "length a - 1 = i")
  case True
  have ne: "a \<noteq> []" using assms by auto
  then have l: "last a = a ! i" using True by (simp add: last_conv_nth)
  have "mset a = add_mset (a ! i) (mset (butlast a))"
    using append_butlast_last_id [OF ne] l by (metis mset_append union_mset_add_mset_right mset.simps(1,2) add.right_neutral)
  moreover have "utarray_remove_quick a i = Some (butlast a)"
    using assms True by (auto simp: utarray_remove_quick_def)
  moreover have "take i (butlast a) = take i a" by (rule take_butlast [OF assms])
  ultimately show ?thesis by (intro that [of "butlast a"]) simp_all
next
  case False
  then have i: "i < length a - 1" using assms by simp
  let ?b = "butlast (a[i := last a])"
  have ne: "a \<noteq> []" using assms by auto
  have b: "?b = (butlast a)[i := last a]" using i by (simp add: butlast_list_update)
  have "mset a = add_mset (last a) (mset (butlast a))"
    using append_butlast_last_id [OF ne] by (metis mset_append union_mset_add_mset_right mset.simps(1,2) add.right_neutral)
  moreover have "mset ?b = add_mset (last a) (mset (butlast a) - {#a ! i#})"
    using i by (simp add: b mset_update nth_butlast)
  moreover have "a ! i \<in># mset (butlast a)" using i by (metis length_butlast nth_butlast nth_mem set_mset_mset)
  ultimately have "mset a = add_mset (a ! i) (mset ?b)" by simp
  then show ?thesis
    using that [of ?b] assms i by (simp add: utarray_remove_quick_def take_butlast)
qed

definition run_items ::
  "(timeout_callback \<Rightarrow> nat \<Rightarrow> 'a timers_scheme \<Rightarrow> 'a timers_scheme) \<Rightarrow> timeout_item list \<Rightarrow> 'a timers_scheme \<Rightarrow> 'a timers_scheme" where
  "run_items call called s = foldl (\<lambda>s t. call (ti_callback t) (ti_arg t) s) s called"

lemma run_items_timeout:
  assumes "\<And>cb arg s ts. call cb arg (s \<lparr> timeout := ts \<rparr>) = (call cb arg s) \<lparr> timeout := ts \<rparr>"
  shows "run_items call called (s \<lparr> timeout := ts \<rparr>) = (run_items call called s) \<lparr> timeout := ts \<rparr>"
  by (induction called arbitrary: s) (simp_all add: run_items_def assms)

lemma call_keeps_timeout:
  assumes "\<And>cb arg s ts. call cb arg (s \<lparr> timeout := ts \<rparr>) = (call cb arg s) \<lparr> timeout := ts \<rparr>"
  shows "timeout (call cb arg s) = timeout s"
  using arg_cong [OF assms [of cb arg "timeout s" s], of timeout] by simp

lemma run_timeouts_loop:
  assumes quiet: "\<And>cb arg s ts. call cb arg (s \<lparr> timeout := ts \<rparr>) = (call cb arg s) \<lparr> timeout := ts \<rparr>"
    and "length (timeout s) - idx < n" and "\<forall>t\<in>set (take idx (timeout s)). \<not> due curtime t"
  shows "\<exists>called kept. run_timeouts n call curtime idx s = Some ((run_items call called s) \<lparr> timeout := kept \<rparr>)
    \<and> mset called = filter_mset (due curtime) (mset (timeout s))
    \<and> mset kept = filter_mset (\<lambda>t. \<not> due curtime t) (mset (timeout s))"
  using assms(2,3)
proof (induction n arbitrary: idx s)
  case (Suc n)
  note keep = call_keeps_timeout [of call, OF quiet]
  show ?case
  proof (cases "idx < length (timeout s)")
    case False
    then have "\<forall>t\<in>#mset (timeout s). \<not> due curtime t" using Suc.prems(2) by simp
    then have "filter (due curtime) (timeout s) = []" "filter (\<lambda>t. \<not> due curtime t) (timeout s) = timeout s"
      by (auto simp: filter_empty_conv intro: filter_True)
    then have "filter_mset (due curtime) (mset (timeout s)) = {#}"
      "filter_mset (\<lambda>t. \<not> due curtime t) (mset (timeout s)) = mset (timeout s)"
      by (metis mset_filter mset.simps(1))+
    then show ?thesis using False
      by (intro exI [of _ "[]"] exI [of _ "timeout s"]) (simp add: utarray_eltptr_def run_items_def)
  next
    case True
    let ?t = "timeout s ! idx"
    show ?thesis
    proof (cases "due curtime ?t")
      case d: True
      define s1 where "s1 = call (ti_callback ?t) (ti_arg ?t) s"
      have t1: "timeout s1 = timeout s" by (simp add: s1_def keep)
      obtain ts where ts: "utarray_remove_quick (timeout s) idx = Some ts" "mset (timeout s) = add_mset ?t (mset ts)"
        "take idx ts = take idx (timeout s)" "length ts = length (timeout s) - 1"
        by (rule mset_remove_quick [OF True])
      have "length (timeout (s1 \<lparr> timeout := ts \<rparr>)) - idx < n"
        using ts(4) True Suc.prems(1) by simp
      moreover have "\<forall>t\<in>set (take idx (timeout (s1 \<lparr> timeout := ts \<rparr>))). \<not> due curtime t"
        using ts(3) Suc.prems(2) by simp
      ultimately obtain called kept where
        r: "run_timeouts n call curtime idx (s1 \<lparr> timeout := ts \<rparr>)
            = Some ((run_items call called (s1 \<lparr> timeout := ts \<rparr>)) \<lparr> timeout := kept \<rparr>)"
        "mset called = filter_mset (due curtime) (mset ts)" "mset kept = filter_mset (\<lambda>t. \<not> due curtime t) (mset ts)"
        using Suc.IH by fastforce
      have "run_timeouts (Suc n) call curtime idx s = Some ((run_items call (?t # called) s) \<lparr> timeout := kept \<rparr>)"
        using True d ts(1) r(1) run_items_timeout [of call, OF quiet]
        by (simp add: utarray_eltptr_def Let_def t1 run_items_def flip: s1_def)
      then show ?thesis using r(2,3) ts(2) d
        by (intro exI [of _ "?t # called"] exI [of _ kept]) simp
    next
      case d: False
      have "\<forall>t\<in>set (take (idx + 1) (timeout s)). \<not> due curtime t"
        using Suc.prems(2) d True by (auto simp: take_Suc_conv_app_nth)
      then have "\<exists>called kept. run_timeouts n call curtime (idx + 1) s = Some ((run_items call called s) \<lparr> timeout := kept \<rparr>)
        \<and> mset called = filter_mset (due curtime) (mset (timeout s))
        \<and> mset kept = filter_mset (\<lambda>t. \<not> due curtime t) (mset (timeout s))"
        using Suc.prems(1) True by (intro Suc.IH) auto
      then show ?thesis using True d by (simp add: utarray_eltptr_def)
    qed
  qed
qed simp

section \<open>What the loop is to do\<close>

text \<open>
  The abstract loop: while a timeout is due, one of them is picked, its callback runs, and it is taken
  out by its number if the callback left it there. It is refined by the loop over the array.
\<close>

definition timers_ok :: "timeout_item list \<Rightarrow> bool" where
  "timers_ok ts \<longleftrightarrow> distinct (map ti_idx ts) \<and> 0 \<notin> ti_idx ` set ts"

definition taken_out :: "timeout_item \<Rightarrow> timeout_item list \<Rightarrow> timeout_item list \<Rightarrow> bool" where
  "taken_out t ts us \<longleftrightarrow> mset us = filter_mset (\<lambda>x. ti_idx x \<noteq> ti_idx t) (mset ts)"

type_synonym 'a calling = "timeout_callback \<Rightarrow> nat \<Rightarrow> 'a timers_scheme \<Rightarrow> 'a timers_scheme"

definition call_of :: "'a calling \<Rightarrow> timeout_item \<Rightarrow> 'a timers_scheme \<Rightarrow> 'a timers_scheme" where
  "call_of call t s = call (ti_callback t) (ti_arg t) s"

inductive serves :: "'a calling \<Rightarrow> uint64 \<Rightarrow> 'a timers_scheme \<Rightarrow> timeout_item list \<Rightarrow> 'a timers_scheme \<Rightarrow> bool"
  for call curtime where
  serves_stop: "\<forall>t\<in>set (timeout s). \<not> due curtime t \<Longrightarrow> serves call curtime s [] s"
| serves_step: "t \<in> set (timeout s) \<Longrightarrow> due curtime t \<Longrightarrow> taken_out t (timeout (call_of call t s)) us \<Longrightarrow>
    serves call curtime ((call_of call t s)\<lparr>timeout := us\<rparr>) called s' \<Longrightarrow> serves call curtime s (t # called) s'"

text \<open>
  What is asked of the callbacks on a set of states that running them does not leave: the timeouts keep
  different numbers; a new timeout is not due at once; and a callback that leaves its own timeout at its
  place does not bring one that is due in front of it.
\<close>

definition callbacks_ok :: "('a timers_scheme \<Rightarrow> bool) \<Rightarrow> 'a calling \<Rightarrow> uint64 \<Rightarrow> bool" where
  "callbacks_ok I call curtime \<longleftrightarrow> (\<forall>s. I s \<longrightarrow> timers_ok (timeout s) \<and>
     (\<forall>k<length (timeout s). due curtime (timeout s ! k) \<longrightarrow>
       (let t = timeout s ! k; s1 = call_of call t s in
        timers_ok (timeout s1) \<and> (\<forall>x\<in>set (timeout s1). due curtime x \<longrightarrow> x \<in> set (timeout s)) \<and>
        (k < length (timeout s1) \<and> ti_idx (timeout s1 ! k) = ti_idx t \<and> (\<forall>x\<in>set (take k (timeout s)). \<not> due curtime x) \<longrightarrow>
          (\<forall>x\<in>set (take k (timeout s1)). \<not> due curtime x)) \<and>
        (\<forall>us. taken_out t (timeout s1) us \<longrightarrow> I (s1\<lparr>timeout := us\<rparr>)))))"

text \<open>The callback of no other timeout removes \<open>x\<close>.\<close>

definition stays :: "('a timers_scheme \<Rightarrow> bool) \<Rightarrow> 'a calling \<Rightarrow> uint64 \<Rightarrow> timeout_item \<Rightarrow> bool" where
  "stays I call curtime x \<longleftrightarrow> (\<forall>s t. I s \<longrightarrow> t \<in> set (timeout s) \<longrightarrow> due curtime t \<longrightarrow> x \<in> set (timeout s) \<longrightarrow> t \<noteq> x \<longrightarrow>
     x \<in> set (timeout (call_of call t s)))"

lemma callbacks_okD:
  assumes "callbacks_ok I call curtime" "I s" "k < length (timeout s)" "due curtime (timeout s ! k)"
    and "s1 = call_of call (timeout s ! k) s"
  shows "timers_ok (timeout s)" "timers_ok (timeout s1)"
    "\<And>x. x \<in> set (timeout s1) \<Longrightarrow> due curtime x \<Longrightarrow> x \<in> set (timeout s)"
    "\<And>us. taken_out (timeout s ! k) (timeout s1) us \<Longrightarrow> I (s1\<lparr>timeout := us\<rparr>)"
    "k < length (timeout s1) \<Longrightarrow> ti_idx (timeout s1 ! k) = ti_idx (timeout s ! k) \<Longrightarrow>
      \<forall>x\<in>set (take k (timeout s)). \<not> due curtime x \<Longrightarrow> \<forall>x\<in>set (take k (timeout s1)). \<not> due curtime x"
  using assms unfolding callbacks_ok_def Let_def by blast+

lemma filter_mset_all: "\<forall>x\<in>#M. P x \<Longrightarrow> filter_mset P M = M"
  by (induction M) auto

lemma taken_out_one:
  assumes "timers_ok ts" "i < length ts" "mset ts = add_mset (ts ! i) (mset us)" "ti_idx (ts ! i) = ti_idx t"
  shows "taken_out t ts us"
proof -
  have "mset (map ti_idx ts) = mset (ti_idx t # map ti_idx us)"
    using arg_cong [OF assms(3), of "image_mset ti_idx"] assms(4) by simp
  then have "distinct (ti_idx t # map ti_idx us)"
    using assms(1) mset_eq_imp_distinct_iff unfolding timers_ok_def by blast
  then have "ti_idx t \<notin> ti_idx ` set us" by simp
  then have "\<forall>x\<in>#mset us. ti_idx x \<noteq> ti_idx t" by (metis imageI set_mset_mset)
  from filter_mset_all [OF this] show ?thesis using assms(3,4) by (simp add: taken_out_def)
qed

lemma remove_timeout_by_id:
  assumes "timers_ok (timeout s)" "ti_idx t \<noteq> 0"
  obtains us where "snd (FcitxInstanceRemoveTimeoutById s (ti_idx t)) = s\<lparr>timeout := us\<rparr>" "taken_out t (timeout s) us"
proof (cases "find_timeout (\<lambda>x. ti_idx x = ti_idx t) (timeout s)")
  case None
  then have "\<forall>x\<in>#mset (timeout s). ti_idx x \<noteq> ti_idx t" by (simp add: find_timeout_None)
  from filter_mset_all [OF this] have "taken_out t (timeout s) (timeout s)" by (simp add: taken_out_def)
  moreover have "snd (FcitxInstanceRemoveTimeoutById s (ti_idx t)) = s\<lparr>timeout := timeout s\<rparr>"
    using None assms(2) by (simp add: FcitxInstanceRemoveTimeoutById_def remove_timeout_def)
  ultimately show ?thesis by (rule that [rotated])
next
  case (Some i)
  from find_timeout_Some [OF this] have i: "i < length (timeout s)" "ti_idx (timeout s ! i) = ti_idx t" by auto
  obtain us where us: "utarray_remove_quick (timeout s) i = Some us" "mset (timeout s) = add_mset (timeout s ! i) (mset us)"
    by (rule mset_remove_quick [OF i(1)])
  have "snd (FcitxInstanceRemoveTimeoutById s (ti_idx t)) = s\<lparr>timeout := us\<rparr>"
    using Some us(1) assms(2) by (simp add: FcitxInstanceRemoveTimeoutById_def remove_timeout_def)
  then show ?thesis using taken_out_one [OF assms(1) i(1) us(2) i(2)] by (rule that)
qed

text \<open>What the loop at an index reaches.\<close>

definition due_of :: "uint64 \<Rightarrow> 'a timers_scheme \<Rightarrow> timeout_item set" where
  "due_of curtime s = {t \<in> set (timeout s). due curtime t}"

definition served :: "('a timers_scheme \<Rightarrow> bool) \<Rightarrow> 'a calling \<Rightarrow> uint64 \<Rightarrow> 'a timers_scheme \<Rightarrow> timeout_item list \<Rightarrow> 'a timers_scheme \<Rightarrow> bool" where
  "served I call curtime s called s' \<longleftrightarrow> serves call curtime s called s' \<and> distinct called \<and>
     set called \<subseteq> due_of curtime s \<and> due_of curtime s' = {} \<and>
     (\<forall>t\<in>set (timeout s). stays I call curtime t \<longrightarrow> (if due curtime t then t \<in> set called else t \<in> set (timeout s')))"

lemma timers_inj: "timers_ok ts \<Longrightarrow> x \<in> set ts \<Longrightarrow> y \<in> set ts \<Longrightarrow> ti_idx x = ti_idx y \<Longrightarrow> x = y"
  by (auto simp: timers_ok_def distinct_map inj_on_def)

lemma set_taken_out: "taken_out t ts us \<Longrightarrow> set us = {x \<in> set ts. ti_idx x \<noteq> ti_idx t}"
  unfolding taken_out_def by (metis set_mset_filter set_mset_mset)

lemma served_step:
  assumes ok: "callbacks_ok I call curtime" "I s" and t: "t \<in> set (timeout s)" "due curtime t"
    and us: "taken_out t (timeout (call_of call t s)) us"
    and r: "served I call curtime ((call_of call t s)\<lparr>timeout := us\<rparr>) called s'"
  shows "served I call curtime s (t # called) s'"
proof -
  obtain k where k: "k < length (timeout s)" "timeout s ! k = t" using t(1) by (auto simp: in_set_conv_nth)
  note d = callbacks_okD [OF ok k(1), unfolded k(2), OF t(2) refl]
  let ?s2 = "(call_of call t s)\<lparr>timeout := us\<rparr>"
  have set2: "set (timeout ?s2) = {x \<in> set (timeout (call_of call t s)). ti_idx x \<noteq> ti_idx t}"
    using set_taken_out [OF us] by simp
  have due2: "due_of curtime ?s2 \<subseteq> due_of curtime s - {t}" using d(3) set2 by (auto simp: due_of_def)
  have keep: "x \<in> set (timeout ?s2)" if "x \<in> set (timeout s)" "stays I call curtime x" "x \<noteq> t" for x
  proof -
    have "x \<in> set (timeout (call_of call t s))" using that ok(2) t unfolding stays_def by blast
    moreover have "ti_idx x \<noteq> ti_idx t" using timers_inj [OF d(1) that(1) t(1)] that(3) by blast
    ultimately show ?thesis using set2 by simp
  qed
  show ?thesis
    unfolding served_def
  proof (intro conjI ballI impI)
    show "serves call curtime s (t # called) s'" using r t us by (auto simp: served_def intro: serves_step)
    show "distinct (t # called)" using r due2 by (auto simp: served_def)
    show "set (t # called) \<subseteq> due_of curtime s" using r due2 t by (auto simp: served_def due_of_def)
    show "due_of curtime s' = {}" using r by (simp add: served_def)
    show "if due curtime x then x \<in> set (t # called) else x \<in> set (timeout s')"
      if "x \<in> set (timeout s)" "stays I call curtime x" for x
      using keep [OF that] r t(2) that(2) unfolding served_def by (cases "x = t") auto
  qed
qed

text \<open>Running one timeout: what \<open>run_timeouts\<close> goes on with.\<close>

lemma run_due_step:
  assumes ok: "callbacks_ok I call curtime" "I s" and k: "idx < length (timeout s)" "due curtime (timeout s ! idx)"
    and before: "\<forall>x\<in>set (take idx (timeout s)). \<not> due curtime x"
  obtains us j where "taken_out (timeout s ! idx) (timeout (call_of call (timeout s ! idx) s)) us"
    "\<forall>x\<in>set (take j us). \<not> due curtime x"
    "\<And>n. run_timeouts (Suc n) call curtime idx s =
       run_timeouts n call curtime j ((call_of call (timeout s ! idx) s)\<lparr>timeout := us\<rparr>)"
proof -
  let ?t = "timeout s ! idx"
  define s1 where "s1 = call_of call ?t s"
  note d = callbacks_okD [OF ok k s1_def]
  have id: "ti_idx ?t \<noteq> 0" using d(1) k(1) unfolding timers_ok_def by (metis image_eqI nth_mem)
  have s1: "s1 = call (ti_callback ?t) (ti_arg ?t) s" by (simp add: s1_def call_of_def)
  have step: "run_timeouts (Suc n) call curtime idx s =
     (case utarray_eltptr (timeout s1) idx of
        Some ti' \<Rightarrow> if ti_idx ti' = ti_idx ?t then
            (case utarray_remove_quick (timeout s1) idx of None \<Rightarrow> None
             | Some ts \<Rightarrow> run_timeouts n call curtime idx (s1 \<lparr> timeout := ts \<rparr>))
          else run_timeouts n call curtime 0 (snd (FcitxInstanceRemoveTimeoutById s1 (ti_idx ?t)))
      | None \<Rightarrow> run_timeouts n call curtime 0 (snd (FcitxInstanceRemoveTimeoutById s1 (ti_idx ?t))))" for n
    using k by (simp add: utarray_eltptr_def Let_def flip: s1)
  show ?thesis
  proof (cases "idx < length (timeout s1) \<and> ti_idx (timeout s1 ! idx) = ti_idx ?t")
    case True
    then have i: "idx < length (timeout s1)" "ti_idx (timeout s1 ! idx) = ti_idx ?t" by auto
    obtain us where us: "utarray_remove_quick (timeout s1) idx = Some us"
      "mset (timeout s1) = add_mset (timeout s1 ! idx) (mset us)" "take idx us = take idx (timeout s1)"
      by (rule mset_remove_quick [OF i(1)])
    have "\<forall>x\<in>set (take idx us). \<not> due curtime x" using d(5) [OF i before] us(3) by simp
    moreover have "run_timeouts (Suc n) call curtime idx s = run_timeouts n call curtime idx (s1\<lparr>timeout := us\<rparr>)" for n
      using i us(1) step [of n] by (simp add: utarray_eltptr_def)
    ultimately show ?thesis using that taken_out_one [OF d(2) i(1) us(2) i(2)] unfolding s1_def by blast
  next
    case False
    obtain us where us: "snd (FcitxInstanceRemoveTimeoutById s1 (ti_idx ?t)) = s1\<lparr>timeout := us\<rparr>" "taken_out ?t (timeout s1) us"
      by (rule remove_timeout_by_id [OF d(2) id])
    have "run_timeouts (Suc n) call curtime idx s = run_timeouts n call curtime 0 (s1\<lparr>timeout := us\<rparr>)" for n
      using False us(1) step [of n] by (auto simp: utarray_eltptr_def)
    then show ?thesis using that [of us 0] us(2) unfolding s1_def by simp
  qed
qed

lemma run_timeouts_served:
  assumes ok: "callbacks_ok I call curtime"
  shows "I s \<Longrightarrow> \<forall>x\<in>set (take idx (timeout s)). \<not> due curtime x \<Longrightarrow>
    \<exists>n called s'. (\<forall>m\<ge>n. run_timeouts m call curtime idx s = Some s') \<and> served I call curtime s called s'"
proof (induction "(card (due_of curtime s), length (timeout s) - idx)" arbitrary: s idx
    rule: wf_induct_rule [OF wf_lex_prod [OF wf_less wf_less]])
  case 1
  show ?case
  proof (cases "idx < length (timeout s)")
    case False
    then have none: "due_of curtime s = {}" using 1(3) by (auto simp: due_of_def)
    then have "served I call curtime s [] s"
      by (auto simp: served_def due_of_def intro: serves_stop)
    moreover have "run_timeouts m call curtime idx s = Some s" if "m \<ge> 1" for m
      using False that by (cases m) (simp_all add: utarray_eltptr_def)
    ultimately show ?thesis by blast
  next
    case i: True
    let ?t = "timeout s ! idx"
    show ?thesis
    proof (cases "due curtime ?t")
      case False
      have "\<forall>x\<in>set (take (idx + 1) (timeout s)). \<not> due curtime x"
        using 1(3) False i by (auto simp: take_Suc_conv_app_nth)
      moreover have "((card (due_of curtime s), length (timeout s) - (idx + 1)), (card (due_of curtime s), length (timeout s) - idx))
          \<in> {(x, y). x < y} <*lex*> {(x, y). x < y}" using i by auto
      ultimately obtain n called s' where n: "\<forall>m\<ge>n. run_timeouts m call curtime (idx + 1) s = Some s'"
        "served I call curtime s called s'" using 1(1) 1(2) by blast
      have "run_timeouts m call curtime idx s = Some s'" if "m \<ge> Suc n" for m
        using that n(1) i False by (cases m) (simp_all add: utarray_eltptr_def)
      then show ?thesis using n(2) by blast
    next
      case d: True
      obtain us j where us: "taken_out ?t (timeout (call_of call ?t s)) us" "\<forall>x\<in>set (take j us). \<not> due curtime x"
        "\<And>n. run_timeouts (Suc n) call curtime idx s = run_timeouts n call curtime j ((call_of call ?t s)\<lparr>timeout := us\<rparr>)"
        by (rule run_due_step [OF ok 1(2) i d 1(3)]) blast
      let ?s2 = "(call_of call ?t s)\<lparr>timeout := us\<rparr>"
      note c = callbacks_okD [OF ok 1(2) i d refl]
      have I2: "I ?s2" by (rule c(4) [OF us(1)])
      have "due_of curtime ?s2 \<subseteq> due_of curtime s - {?t}"
        using c(3) set_taken_out [OF us(1)] by (auto simp: due_of_def)
      moreover have "?t \<in> due_of curtime s" using i d by (simp add: due_of_def)
      moreover have "finite (due_of curtime s)" by (simp add: due_of_def)
      ultimately have "card (due_of curtime ?s2) < card (due_of curtime s)" by (intro psubset_card_mono) auto
      then have "((card (due_of curtime ?s2), length (timeout ?s2) - j), (card (due_of curtime s), length (timeout s) - idx))
          \<in> {(x, y). x < y} <*lex*> {(x, y). x < y}" by simp
      from 1(1) [OF this I2] us(2) obtain n called s' where n: "\<forall>m\<ge>n. run_timeouts m call curtime j ?s2 = Some s'"
        "served I call curtime ?s2 called s'" by auto
      have "run_timeouts m call curtime idx s = Some s'" if "m \<ge> Suc n" for m
        using that n(1) us(3) by (cases m) simp_all
      moreover have "served I call curtime s (?t # called) s'"
        by (rule served_step [OF ok 1(2) _ d us(1) n(2)]) (use i in simp)
      ultimately show ?thesis by blast
    qed
  qed
qed

section \<open>Properties\<close>

text \<open>
  C17: The loop over the timeouts ends, and it serves the timeouts as the abstract loop does, where callbacks may
  add and remove timeouts, their own included, so that the loop also starts over. Every timeout that was due and
  that no other callback removes has been called, once, no other timeout has been called, none that is due is left,
  and those that were not due and that no callback removes are left. The conditions on the callbacks, on a set \<open>I\<close>
  of states that running them does not leave (\<open>callbacks_ok\<close>): the timeouts keep different numbers other than zero,
  a timeout that is added is not due at once, and a callback that leaves its own timeout at its index does not move
  a due one in front of it. (Without the last condition the loop passes over a due timeout, \<open>timeout_passed_over\<close>.)
\<close>

theorem timeouts_run:
  assumes "callbacks_ok I call curtime" and "I s"
  shows "\<exists>n called s'. (\<forall>m\<ge>n. run_timeouts m call curtime 0 s = Some s') \<and> serves call curtime s called s' \<and>
    distinct called \<and> set called \<subseteq> {t \<in> set (timeout s). due curtime t} \<and> (\<forall>t\<in>set (timeout s'). \<not> due curtime t) \<and>
    (\<forall>t\<in>set (timeout s). stays I call curtime t \<longrightarrow> (if due curtime t then t \<in> set called else t \<in> set (timeout s')))"
proof -
  obtain n called s' where r: "\<forall>m\<ge>n. run_timeouts m call curtime 0 s = Some s'" "served I call curtime s called s'"
    using run_timeouts_served [OF assms(1) assms(2), of 0] by auto
  from r(2) have "serves call curtime s called s'" "distinct called" "set called \<subseteq> {t \<in> set (timeout s). due curtime t}"
    "\<forall>t\<in>set (timeout s'). \<not> due curtime t"
    "\<forall>t\<in>set (timeout s). stays I call curtime t \<longrightarrow> (if due curtime t then t \<in> set called else t \<in> set (timeout s'))"
    by (auto simp: served_def due_of_def)
  with r(1) show ?thesis by blast
qed

text \<open>
  Four timeouts, all but the first one due. All callbacks write a log; that of the second one removes the
  first one and itself, so that the last one moves to the front and the loop has to start over; that of the
  third one adds a timeout.
\<close>

definition timer :: "nat \<Rightarrow> uint64 \<Rightarrow> timeout_item" where
  "timer n milli = \<lparr> ti_callback = TimeoutCallback n, ti_arg = n, ti_milli = milli, ti_idx = of_nat n, ti_time = 100 \<rparr>"

definition new_timer :: timeout_item where
  "new_timer = \<lparr> ti_callback = TimeoutCallback 1, ti_arg = 5, ti_milli = 1000, ti_idx = 5, ti_time = 120 \<rparr>"

definition work_call :: "nat list calling" where
  "work_call cb arg s = (let s = timers.more_update (\<lambda>l. l @ [arg]) s in
     if arg = 2 then snd (FcitxInstanceRemoveTimeoutById (snd (FcitxInstanceRemoveTimeoutById s 1)) 2)
     else if arg = 3 then snd (FcitxInstanceAddTimeout 120 1000 (TimeoutCallback 1) 5 s)
     else s)"

definition four_timers :: "nat list timers_scheme" where
  "four_timers = \<lparr> timeout = [timer 1 500, timer 2 10, timer 3 10, timer 4 10], timeoutIdx = 4, \<dots> = [] \<rparr>"

definition work_items :: "timeout_item list" where
  "work_items = [timer 1 500, timer 2 10, timer 3 10, timer 4 10, new_timer]"

definition work_states :: "nat list timers_scheme \<Rightarrow> bool" where
  "work_states s \<longleftrightarrow> distinct (timeout s) \<and> set (timeout s) \<subseteq> set work_items \<and>
     (timer 3 10 \<in> set (timeout s) \<longrightarrow> timeoutIdx s = 4 \<and> new_timer \<notin> set (timeout s))"

lemma work_timers: "distinct ts \<Longrightarrow> set ts \<subseteq> set work_items \<Longrightarrow> timers_ok ts"
proof -
  assume a: "distinct ts" "set ts \<subseteq> set work_items"
  have "distinct (map ti_idx work_items)" "0 \<notin> ti_idx ` set work_items"
    by (simp_all add: work_items_def timer_def new_timer_def)
  then have "inj_on ti_idx (set work_items)" "0 \<notin> ti_idx ` set work_items" by (simp_all add: distinct_map)
  with a show ?thesis by (auto simp: timers_ok_def distinct_map intro: inj_on_subset)
qed

lemma distinct_taken_out: "distinct ts \<Longrightarrow> taken_out t ts us \<Longrightarrow> distinct us"
  by (metis distinct_filter mset_eq_imp_distinct_iff mset_filter taken_out_def)

lemma work_idx:
  "x \<in> set work_items \<Longrightarrow> ti_idx x \<noteq> ti_idx (timer 1 500) \<longleftrightarrow> x \<noteq> timer 1 500"
  "x \<in> set work_items \<Longrightarrow> ti_idx x \<noteq> ti_idx (timer 2 10) \<longleftrightarrow> x \<noteq> timer 2 10"
  by (auto simp: work_items_def timer_def new_timer_def)

lemma work_due: "x \<in> set work_items \<Longrightarrow> due 120 x \<longleftrightarrow> x \<in> {timer 2 10, timer 3 10, timer 4 10}"
  by (auto simp: work_items_def timer_def new_timer_def due_def)

lemma work_step:
  assumes "work_states s" "t \<in> set (timeout s)" "due 120 t"
  obtains us where "t = timer 2 10" "timeout (call_of work_call t s) = us" "distinct us"
      "set us = set (timeout s) - {timer 1 500, timer 2 10}" "timeoutIdx (call_of work_call t s) = timeoutIdx s"
    | "t = timer 3 10" "timeout (call_of work_call t s) = timeout s @ [new_timer]" "new_timer \<notin> set (timeout s)"
    | "t = timer 4 10" "timeout (call_of work_call t s) = timeout s" "timeoutIdx (call_of work_call t s) = timeoutIdx s"
proof -
  have ok: "timers_ok (timeout s)" and w: "distinct (timeout s)" "set (timeout s) \<subseteq> set work_items"
    using assms(1) by (auto simp: work_states_def intro: work_timers)
  from work_due [of t] assms w consider "t = timer 2 10" | "t = timer 3 10" | "t = timer 4 10" by blast
  then show ?thesis
  proof cases
    case 1
    let ?l = "timers.more_update (\<lambda>l. l @ [2]) s"
    have t: "timeout ?l = timeout s" "timeoutIdx ?l = timeoutIdx s" by simp_all
    obtain us where us: "snd (FcitxInstanceRemoveTimeoutById ?l (ti_idx (timer 1 500))) = ?l\<lparr>timeout := us\<rparr>"
      "taken_out (timer 1 500) (timeout s) us"
      using remove_timeout_by_id [of ?l "timer 1 500"] ok t by (auto simp: timer_def)
    have us_ok: "distinct us" "set us = set (timeout s) - {timer 1 500}"
      using us(2) w distinct_taken_out set_taken_out [OF us(2)] work_idx(1) by blast+
    then have "timers_ok us" using w by (intro work_timers) auto
    then obtain vs where vs: "snd (FcitxInstanceRemoveTimeoutById (?l\<lparr>timeout := us\<rparr>) (ti_idx (timer 2 10))) = ?l\<lparr>timeout := us\<rparr>\<lparr>timeout := vs\<rparr>"
      "taken_out (timer 2 10) us vs"
      using remove_timeout_by_id [of "?l\<lparr>timeout := us\<rparr>" "timer 2 10"] by (auto simp: timer_def)
    have "set vs = {x \<in> set us. ti_idx x \<noteq> ti_idx (timer 2 10)}" by (rule set_taken_out [OF vs(2)])
    moreover have "set us \<subseteq> set work_items" using us_ok w by auto
    ultimately have vs_ok: "distinct vs" "set vs = set (timeout s) - {timer 1 500, timer 2 10}"
      using vs(2) us_ok distinct_taken_out work_idx(2) by blast+
    have "call_of work_call t s = ?l\<lparr>timeout := vs\<rparr>"
      using us(1) vs(1) 1 by (simp add: call_of_def work_call_def timer_def)
    then show ?thesis using that(1) [OF 1 _ vs_ok] by simp
  next
    case 2
    then have "timeoutIdx s = 4" "new_timer \<notin> set (timeout s)" using assms(1,2) by (simp_all add: work_states_def)
    then show ?thesis using that(2) [OF 2]
      by (simp add: 2 call_of_def work_call_def timer_def new_timer_def FcitxInstanceAddTimeout_def utarray_push_back_def)
  next
    case 3
    then show ?thesis using that(3) [OF 3] by (simp add: call_of_def work_call_def timer_def)
  qed
qed

lemma work_callbacks: "callbacks_ok work_states work_call 120"
  unfolding callbacks_ok_def Let_def
proof (intro allI impI conjI)
  fix s assume s: "work_states s"
  then have w: "distinct (timeout s)" "set (timeout s) \<subseteq> set work_items" by (simp_all add: work_states_def)
  then show "timers_ok (timeout s)" by (rule work_timers)
  fix k assume k: "k < length (timeout s)" and d: "due 120 (timeout s ! k)"
  let ?t = "timeout s ! k"
  let ?s1 = "call_of work_call ?t s"
  have t: "?t \<in> set (timeout s)" using k by simp
  have new: "new_timer \<in> set work_items" "\<not> due 120 new_timer"
    by (simp_all add: work_items_def new_timer_def due_def)
  from work_step [OF s t d] have s1: "distinct (timeout ?s1)" "set (timeout ?s1) \<subseteq> set work_items"
    by (cases; use w new in auto)+
  then show "timers_ok (timeout ?s1)" by (rule work_timers)
  from work_step [OF s t d] show "\<forall>x\<in>set (timeout ?s1). due 120 x \<longrightarrow> x \<in> set (timeout s)"
    by (cases; use new in auto)
  show "\<forall>x\<in>set (take k (timeout ?s1)). \<not> due 120 x"
    if a: "k < length (timeout ?s1) \<and> ti_idx (timeout ?s1 ! k) = ti_idx ?t \<and> (\<forall>x\<in>set (take k (timeout s)). \<not> due 120 x)"
  proof (cases rule: work_step [OF s t d])
    case (1 us)
    then have "timeout ?s1 ! k \<in> set work_items - {timer 2 10}" using a s1(2) nth_mem [of k "timeout ?s1"] by auto
    then have "ti_idx (timeout ?s1 ! k) \<noteq> ti_idx (timer 2 10)" using work_idx(2) by blast
    then show ?thesis using a 1(1) by simp
  qed (use a k in auto)
  show "work_states (?s1\<lparr>timeout := us\<rparr>)" if us: "taken_out ?t (timeout ?s1) us" for us
  proof -
    have m: "distinct us" "set us = {x \<in> set (timeout ?s1). ti_idx x \<noteq> ti_idx ?t}"
      using distinct_taken_out [OF s1(1) us] set_taken_out [OF us] by blast+
    moreover have "timer 3 10 \<in> set us \<Longrightarrow> timeoutIdx ?s1 = 4 \<and> new_timer \<notin> set us"
      using work_step [OF s t d] by (cases) (use m s in \<open>auto simp: work_states_def\<close>)
    ultimately show ?thesis using s1 by (auto simp: work_states_def)
  qed
qed

lemma work_stays: "stays work_states work_call 120 (timer 3 10)" "stays work_states work_call 120 (timer 4 10)"
proof -
  have neq: "timer 3 10 \<noteq> timer 1 500" "timer 3 10 \<noteq> timer 2 10" "timer 4 10 \<noteq> timer 1 500" "timer 4 10 \<noteq> timer 2 10"
    by (simp_all add: timer_def)
  have "x \<in> set (timeout (call_of work_call t s))"
    if "work_states s" "t \<in> set (timeout s)" "due 120 t" "x \<in> set (timeout s)" "x = timer 3 10 \<or> x = timer 4 10" for s t x
    by (cases rule: work_step [OF that(1-3)]) (use that(4,5) neq in auto)
  then show "stays work_states work_call 120 (timer 3 10)" "stays work_states work_call 120 (timer 4 10)"
    unfolding stays_def by blast+
qed

lemma timeouts_run_witness:
  "\<exists>n called s'. run_timeouts n work_call 120 0 four_timers = Some s' \<and> serves work_call 120 four_timers called s' \<and>
     distinct called \<and> {timer 3 10, timer 4 10} \<subseteq> set called"
proof -
  have s: "work_states four_timers"
    by (simp add: work_states_def four_timers_def work_items_def timer_def new_timer_def)
  have m: "timer 3 10 \<in> set (timeout four_timers)" "timer 4 10 \<in> set (timeout four_timers)"
    "due 120 (timer 3 10)" "due 120 (timer 4 10)"
    by (simp_all add: four_timers_def due_def timer_def)
  from timeouts_run [OF work_callbacks s] obtain n called s' where
    r: "\<forall>m\<ge>n. run_timeouts m work_call 120 0 four_timers = Some s'" "serves work_call 120 four_timers called s'" "distinct called"
    "\<forall>t\<in>set (timeout four_timers). stays work_states work_call 120 t \<longrightarrow>
       (if due 120 t then t \<in> set called else t \<in> set (timeout s'))" by blast
  from r(4) m work_stays have "timer 3 10 \<in> set called" "timer 4 10 \<in> set called" by fastforce+
  with r(1-3) show ?thesis by blast
qed

text \<open>
  A callback that removes an earlier timeout and stays: the last timeout moves to the place in front of the
  index and is passed over although it is due. The time that is left for it wraps, so that the wait for
  the next event has no limit.
\<close>

definition removing_call :: "nat list calling" where
  "removing_call cb arg s = (if arg = 2 then snd (FcitxInstanceRemoveTimeoutById s 1) else s)"

lemma timeout_passed_over:
  "map_option (\<lambda>s. (timeout s, next_timeout 120 s)) (run_timeouts 5 removing_call 120 0 four_timers)
     = Some ([timer 4 10], Some LONG_MAX)"
  "due 120 (timer 4 10)"
  by code_simp+

end
