(* ===== verification/Keys.thy ===== *)
theory Keys
  imports Hotkey
begin

text \<open>
  The hotkeys that the code names: the constants of \<open>src/lib/fcitx/keys.c\<close>, each a pair of key symbols
  with their modifiers. A symbol 0 matches no key.
\<close>

abbreviation FcitxKey_BackSpace :: uint32 where "FcitxKey_BackSpace \<equiv> 0xff08"
abbreviation FcitxKey_E :: uint32 where "FcitxKey_E \<equiv> 0x0045"
abbreviation FcitxKey_Escape :: uint32 where "FcitxKey_Escape \<equiv> 0xff1b"
abbreviation FcitxKey_Meta_L :: uint32 where "FcitxKey_Meta_L \<equiv> 0xffe7"
abbreviation FcitxKey_Meta_R :: uint32 where "FcitxKey_Meta_R \<equiv> 0xffe8"
abbreviation FcitxKey_None :: uint32 where "FcitxKey_None \<equiv> 0x0"
abbreviation FcitxKey_apostrophe :: uint32 where "FcitxKey_apostrophe \<equiv> 0x0027"
abbreviation FcitxKeyState_Alt_Shift :: uint32 where "FcitxKeyState_Alt_Shift \<equiv> 9"
abbreviation FcitxKeyState_Ctrl_Alt :: uint32 where "FcitxKeyState_Ctrl_Alt \<equiv> 12"
abbreviation FcitxKey_semicolon :: uint32 where "FcitxKey_semicolon \<equiv> 0x003b"

definition key_pair :: "keysym \<Rightarrow> uint32 \<Rightarrow> keysym \<Rightarrow> uint32 \<Rightarrow> hotkey \<times> hotkey" where
  "key_pair k1 s1 k2 s2 =
     (\<lparr> hk_desc = None, hk_sym = k1, hk_state = s1 \<rparr>, \<lparr> hk_desc = None, hk_sym = k2, hk_state = s2 \<rparr>)"

definition FCITX_NONE_KEY :: "hotkey \<times> hotkey" where
  "FCITX_NONE_KEY = key_pair FcitxKey_None 0 FcitxKey_None 0"

definition FCITX_DELETE :: "hotkey \<times> hotkey" where
  "FCITX_DELETE = key_pair FcitxKey_Delete 0 FcitxKey_KP_Delete 0"

definition FCITX_CTRL_DELETE :: "hotkey \<times> hotkey" where
  "FCITX_CTRL_DELETE = key_pair FcitxKey_Delete FcitxKeyState_Ctrl 0 0"

definition FCITX_BACKSPACE :: "hotkey \<times> hotkey" where
  "FCITX_BACKSPACE = key_pair FcitxKey_BackSpace 0 0 0"

definition FCITX_HOME :: "hotkey \<times> hotkey" where
  "FCITX_HOME = key_pair FcitxKey_Home 0 FcitxKey_KP_Home 0"

definition FCITX_END :: "hotkey \<times> hotkey" where
  "FCITX_END = key_pair FcitxKey_End 0 FcitxKey_KP_End 0"

definition FCITX_RIGHT :: "hotkey \<times> hotkey" where
  "FCITX_RIGHT = key_pair FcitxKey_Right 0 FcitxKey_KP_Right 0"

definition FCITX_LEFT :: "hotkey \<times> hotkey" where
  "FCITX_LEFT = key_pair FcitxKey_Left 0 FcitxKey_KP_Left 0"

definition FCITX_ESCAPE :: "hotkey \<times> hotkey" where
  "FCITX_ESCAPE = key_pair FcitxKey_Escape 0 0 0"

definition FCITX_ENTER :: "hotkey \<times> hotkey" where
  "FCITX_ENTER = key_pair FcitxKey_Return 0 FcitxKey_KP_Enter 0"

definition FCITX_LCTRL_LSHIFT :: "hotkey \<times> hotkey" where
  "FCITX_LCTRL_LSHIFT = key_pair FcitxKey_Shift_L FcitxKeyState_Ctrl_Shift FcitxKey_Control_L FcitxKeyState_Ctrl_Shift"

definition FCITX_LCTRL_LSHIFT2 :: "hotkey \<times> hotkey" where
  "FCITX_LCTRL_LSHIFT2 = key_pair FcitxKey_Shift_L FcitxKeyState_Ctrl FcitxKey_Control_L FcitxKeyState_Shift"

definition FCITX_RCTRL_RSHIFT :: "hotkey \<times> hotkey" where
  "FCITX_RCTRL_RSHIFT = key_pair FcitxKey_Shift_R FcitxKeyState_Ctrl_Shift FcitxKey_Control_R FcitxKeyState_Ctrl_Shift"

definition FCITX_RCTRL_RSHIFT2 :: "hotkey \<times> hotkey" where
  "FCITX_RCTRL_RSHIFT2 = key_pair FcitxKey_Shift_R FcitxKeyState_Ctrl FcitxKey_Control_R FcitxKeyState_Shift"

definition FCITX_LALT_LSHIFT :: "hotkey \<times> hotkey" where
  "FCITX_LALT_LSHIFT = key_pair FcitxKey_Shift_L FcitxKeyState_Alt_Shift FcitxKey_Meta_L FcitxKeyState_Alt_Shift"

definition FCITX_LALT_LSHIFT2 :: "hotkey \<times> hotkey" where
  "FCITX_LALT_LSHIFT2 = key_pair FcitxKey_Shift_L FcitxKeyState_Alt FcitxKey_Meta_L FcitxKeyState_Shift"

definition FCITX_RALT_RSHIFT :: "hotkey \<times> hotkey" where
  "FCITX_RALT_RSHIFT = key_pair FcitxKey_Shift_R FcitxKeyState_Alt_Shift FcitxKey_Meta_R FcitxKeyState_Alt_Shift"

definition FCITX_RALT_RSHIFT2 :: "hotkey \<times> hotkey" where
  "FCITX_RALT_RSHIFT2 = key_pair FcitxKey_Shift_R FcitxKeyState_Alt FcitxKey_Meta_R FcitxKeyState_Shift"

definition FCITX_LCTRL_LSUPER :: "hotkey \<times> hotkey" where
  "FCITX_LCTRL_LSUPER = key_pair FcitxKey_Super_L (FcitxKeyState_Ctrl OR FcitxKeyState_Super) FcitxKey_Control_L (FcitxKeyState_Ctrl OR FcitxKeyState_Super)"

definition FCITX_LCTRL_LSUPER2 :: "hotkey \<times> hotkey" where
  "FCITX_LCTRL_LSUPER2 = key_pair FcitxKey_Super_L FcitxKeyState_Ctrl FcitxKey_Control_L FcitxKeyState_Super"

definition FCITX_RCTRL_RSUPER :: "hotkey \<times> hotkey" where
  "FCITX_RCTRL_RSUPER = key_pair FcitxKey_Super_R (FcitxKeyState_Ctrl OR FcitxKeyState_Super) FcitxKey_Control_R (FcitxKeyState_Ctrl OR FcitxKeyState_Super)"

definition FCITX_RCTRL_RSUPER2 :: "hotkey \<times> hotkey" where
  "FCITX_RCTRL_RSUPER2 = key_pair FcitxKey_Super_R FcitxKeyState_Ctrl FcitxKey_Control_R FcitxKeyState_Super"

definition FCITX_LALT_LSUPER :: "hotkey \<times> hotkey" where
  "FCITX_LALT_LSUPER = key_pair FcitxKey_Super_L (FcitxKeyState_Alt OR FcitxKeyState_Super) FcitxKey_Alt_L (FcitxKeyState_Alt OR FcitxKeyState_Super)"

definition FCITX_LALT_LSUPER2 :: "hotkey \<times> hotkey" where
  "FCITX_LALT_LSUPER2 = key_pair FcitxKey_Super_L FcitxKeyState_Alt FcitxKey_Alt_L FcitxKeyState_Super"

definition FCITX_RALT_RSUPER :: "hotkey \<times> hotkey" where
  "FCITX_RALT_RSUPER = key_pair FcitxKey_Super_R (FcitxKeyState_Alt OR FcitxKeyState_Super) FcitxKey_Alt_R (FcitxKeyState_Alt OR FcitxKeyState_Super)"

definition FCITX_RALT_RSUPER2 :: "hotkey \<times> hotkey" where
  "FCITX_RALT_RSUPER2 = key_pair FcitxKey_Super_R FcitxKeyState_Alt FcitxKey_Alt_R FcitxKeyState_Super"

definition FCITX_SEMICOLON :: "hotkey \<times> hotkey" where
  "FCITX_SEMICOLON = key_pair FcitxKey_semicolon FcitxKeyState_None 0 0"

definition FCITX_SPACE :: "hotkey \<times> hotkey" where
  "FCITX_SPACE = key_pair FcitxKey_space FcitxKeyState_None 0 0"

definition FCITX_SHIFT_SPACE :: "hotkey \<times> hotkey" where
  "FCITX_SHIFT_SPACE = key_pair FcitxKey_space FcitxKeyState_Shift 0 0"

definition FCITX_SHIFT_ENTER :: "hotkey \<times> hotkey" where
  "FCITX_SHIFT_ENTER = key_pair FcitxKey_Return FcitxKeyState_Shift FcitxKey_KP_Enter FcitxKeyState_Shift"

definition FCITX_TAB :: "hotkey \<times> hotkey" where
  "FCITX_TAB = key_pair FcitxKey_Tab FcitxKeyState_None 0 0"

definition FCITX_COMMA :: "hotkey \<times> hotkey" where
  "FCITX_COMMA = key_pair FcitxKey_comma FcitxKeyState_None 0 0"

definition FCITX_PERIOD :: "hotkey \<times> hotkey" where
  "FCITX_PERIOD = key_pair FcitxKey_period FcitxKeyState_None 0 0"

definition FCITX_CTRL_5 :: "hotkey \<times> hotkey" where
  "FCITX_CTRL_5 = key_pair FcitxKey_5 FcitxKeyState_Ctrl 0 0"

definition FCITX_SEPARATOR :: "hotkey \<times> hotkey" where
  "FCITX_SEPARATOR = key_pair FcitxKey_apostrophe FcitxKeyState_None 0 0"

definition FCITX_CTRL_ALT_E :: "hotkey \<times> hotkey" where
  "FCITX_CTRL_ALT_E = key_pair FcitxKey_E FcitxKeyState_Ctrl_Alt 0 0"

definition FCITX_LCTRL :: "hotkey \<times> hotkey" where
  "FCITX_LCTRL = key_pair FcitxKey_Control_L FcitxKeyState_None FcitxKey_Control_L FcitxKeyState_Ctrl"

definition FCITX_LSHIFT :: "hotkey \<times> hotkey" where
  "FCITX_LSHIFT = key_pair FcitxKey_Shift_L FcitxKeyState_None FcitxKey_Shift_L FcitxKeyState_Shift"

definition FCITX_RCTRL :: "hotkey \<times> hotkey" where
  "FCITX_RCTRL = key_pair FcitxKey_Control_R FcitxKeyState_None FcitxKey_Control_R FcitxKeyState_Ctrl"

definition FCITX_RSHIFT :: "hotkey \<times> hotkey" where
  "FCITX_RSHIFT = key_pair FcitxKey_Shift_R FcitxKeyState_None FcitxKey_Shift_R FcitxKeyState_Shift"

definition FCITX_ALT_LSHIFT :: "hotkey \<times> hotkey" where
  "FCITX_ALT_LSHIFT = key_pair FcitxKey_Shift_L FcitxKeyState_Alt_Shift FcitxKey_Shift_L FcitxKeyState_Alt"

definition FCITX_ALT_RSHIFT :: "hotkey \<times> hotkey" where
  "FCITX_ALT_RSHIFT = key_pair FcitxKey_Shift_R FcitxKeyState_Alt_Shift FcitxKey_Shift_R FcitxKeyState_Alt"

definition FCITX_CTRL_LSUPER :: "hotkey \<times> hotkey" where
  "FCITX_CTRL_LSUPER = key_pair FcitxKey_Super_L (FcitxKeyState_Ctrl OR FcitxKeyState_Super) FcitxKey_Super_L FcitxKeyState_Ctrl"

definition FCITX_CTRL_RSUPER :: "hotkey \<times> hotkey" where
  "FCITX_CTRL_RSUPER = key_pair FcitxKey_Super_R (FcitxKeyState_Ctrl OR FcitxKeyState_Super) FcitxKey_Super_R FcitxKeyState_Ctrl"

definition FCITX_SUPER_LCTRL :: "hotkey \<times> hotkey" where
  "FCITX_SUPER_LCTRL = key_pair FcitxKey_Control_L (FcitxKeyState_Ctrl OR FcitxKeyState_Super) FcitxKey_Control_L FcitxKeyState_Super"

definition FCITX_SUPER_RCTRL :: "hotkey \<times> hotkey" where
  "FCITX_SUPER_RCTRL = key_pair FcitxKey_Control_R (FcitxKeyState_Ctrl OR FcitxKeyState_Super) FcitxKey_Control_R FcitxKeyState_Super"

definition FCITX_LALT :: "hotkey \<times> hotkey" where
  "FCITX_LALT = key_pair FcitxKey_Alt_L FcitxKeyState_None FcitxKey_Alt_L FcitxKeyState_Alt"

definition FCITX_RALT :: "hotkey \<times> hotkey" where
  "FCITX_RALT = key_pair FcitxKey_Alt_R FcitxKeyState_None FcitxKey_Alt_R FcitxKeyState_Alt"

definition FCITX_LSUPER :: "hotkey \<times> hotkey" where
  "FCITX_LSUPER = key_pair FcitxKey_Super_L FcitxKeyState_None FcitxKey_Super_L FcitxKeyState_Super"

definition FCITX_RSUPER :: "hotkey \<times> hotkey" where
  "FCITX_RSUPER = key_pair FcitxKey_Super_R FcitxKeyState_None FcitxKey_Super_R FcitxKeyState_Super"

end
