(* ===== verification/Instance.thy ===== *)
theory Instance
  imports Messages Hook Context Timeout Utf8 Keys
begin

text \<open>
  The state of an instance and the operations that all parts of it share: the records of
  \<open>instance-internal.h\<close>, \<open>ime-internal.h\<close>, \<open>ime.h\<close> and \<open>frontend.h\<close>, with the functions of \<open>ime.c\<close>,
  \<open>frontend.c\<close> and \<open>ui.c\<close> that only change the input state. Function pointers are numbers, the null
  pointer is 0; what they and the loaded libraries do is the environment, a record of functions on
  the state. The hooks are part of the environment: registering while a hook runs is not modelled.
\<close>

section \<open>Input methods\<close>

record im_iface =
  if_ResetIM :: ptr
  if_DoInput :: ptr
  if_GetCandWords :: ptr
  if_PhraseTips :: ptr
  if_Save :: ptr
  if_Init :: ptr
  if_ReloadConfig :: ptr
  if_KeyBlocker :: ptr
  if_UpdateSurroundingText :: ptr
  if_DoReleaseInput :: ptr
  if_OnClose :: ptr
  if_GetSubModeName :: ptr

record im =
  uniqueName :: buf
  strName :: buf
  strIconName :: buf
  iface :: im_iface
  klass :: ptr
  iPriority :: int
  langCode :: buf
  initialized :: bool
  owner :: ptr

datatype close_event = CET_ChangeByInactivate | CET_LostFocus | CET_SwitchIM

section \<open>Input contexts\<close>

datatype ic_state = IS_CLOSED | IS_INACTIVE | IS_ACTIVE

datatype tri_state = Tri_False | Tri_True | Tri_Unknown

record ic =
  state :: ic_state
  offset_x :: int
  offset_y :: int
  frontendid :: int
  contextCaps :: uint32
  imname :: "buf option"
  switchBySwitchKey :: bool
  data :: "ptr list"
  prgname :: "buf option"
  mayUsePreedit :: tri_state

abbreviation CAPACITY_NONE :: uint32 where "CAPACITY_NONE \<equiv> 0"
abbreviation CAPACITY_CLIENT_SIDE_UI :: uint32 where "CAPACITY_CLIENT_SIDE_UI \<equiv> 1"
abbreviation CAPACITY_PREEDIT :: uint32 where "CAPACITY_PREEDIT \<equiv> 2"
abbreviation CAPACITY_CLIENT_SIDE_CONTROL_STATE :: uint32 where "CAPACITY_CLIENT_SIDE_CONTROL_STATE \<equiv> 4"
abbreviation CAPACITY_PASSWORD :: uint32 where "CAPACITY_PASSWORD \<equiv> 8"
abbreviation CAPACITY_CLIENT_UNFOCUS_COMMIT :: uint32 where "CAPACITY_CLIENT_UNFOCUS_COMMIT \<equiv> 32"

section \<open>Configuration and input state\<close>

datatype share_state = ShareState_None | ShareState_All | ShareState_PerProgram

type_synonym hotkeys = "hotkey \<times> hotkey"

record config =
  bSendTextWhenSwitchEng :: bool
  bPhraseTips :: bool
  bShowInputWindowTriggering :: bool
  bShowInputWindowOnlyWhenActive :: bool
  bShowInputWindowWhenFocusIn :: bool
  bPointAfterNumber :: bool
  bHideInputWindowWhenOnlyPreeditString :: bool
  bHideInputWindowWhenOnlyOneCandidate :: bool
  bShowUserSpeed :: bool
  bShowVersion :: bool
  bHKtriggerKey :: bool
  bIMSwitchKey :: bool
  bIMSwitchIncludeInactive :: bool
  bDontCommitPreeditWhenUnfocus :: bool
  bUseExtraTriggerKeyOnlyWhenUseItToInactivate :: bool
  hkTrigger :: hotkeys
  hkActivate :: hotkeys
  hkInactivate :: hotkeys
  hkCustomSwitchKey :: hotkeys
  iSwitchKey :: nat
  iIMSwitchKey :: nat
  hkPrevPage :: hotkeys
  hkNextPage :: hotkeys
  i2ndSelectKey :: hotkeys
  i3rdSelectKey :: hotkeys
  shareState :: share_state
  defaultIMState :: ic_state

record profile =
  imList :: buf
  imName :: "buf option"
  bUsePreedit :: bool
  bUseRemind :: bool

datatype key_released = KR_OTHER | KR_SWITCH | KR_2ND_SELECTKEY | KR_3RD_SELECTKEY | KR_SWITCH_IM
  | KR_SWITCH_IM_REVERSE | KR_TRIGGER | KR_ACTIVATE | KR_DEACTIVATE

record input_state =
  lastKeyPressedTime :: uint64
  bIsDoInputOnly :: bool
  keyReleased :: key_released
  iCodeInputCount :: int
  strCodeInput :: buf
  strStringGet :: buf
  strLastCommit :: buf
  bIsInRemind :: bool
  iCursorPos :: int
  iClientCursorPos :: int
  bShowCursor :: bool
  lastIsSingleHZ :: int
  candList :: cand_list
  msgPreedit :: messages
  msgAuxUp :: messages
  msgAuxDown :: messages
  msgClientPreedit :: messages

datatype key_event = FCITX_PRESS_KEY | FCITX_RELEASE_KEY

text \<open>What a module keeps for each input context: the functions that allocate, copy and free it.\<close>

record ic_data_info =
  di_alloc :: ptr
  di_copy :: ptr
  di_free :: ptr
  di_arg :: ptr

section \<open>The instance\<close>

text \<open>
  Input contexts live in \<open>ic_mem\<close> under the number of their block. A destroyed context goes to the
  free list and keeps its content, so following a stale pointer to it is defined. \<open>ic_brk\<close> is the next
  new block; \<open>saved\<close> logs what was written as the profile.
\<close>

record inst = timers +
  imes :: "im list"
  availimes :: "im list"
  imLoaded :: bool
  iIMIndex :: int
  globalIMName :: "buf option"
  unusedItem :: "(buf, bool) uthash"
  currentIMAddon :: ptr
  profile :: profile
  config :: config
  input :: input_state
  ctx :: context_state
  ic_mem :: "ptr \<Rightarrow> ic"
  ic_list :: "ptr list"
  free_list :: "ptr list"
  icdata :: "ic_data_info list"
  ic_brk :: ptr
  CurrentIC :: "ptr option"
  lastIC :: "ptr option"
  delayedIM :: "buf option"
  globalState :: ic_state
  eventflag :: uint32
  iHZInputed :: int
  totaltime :: int
  timeStart :: int
  running :: bool
  saved :: "buf list"

text \<open>The functions of a frontend and of the user interface; \<open>None\<close> is the null pointer.\<close>

record 's frontend =
  fe_CreateIC :: "ptr \<Rightarrow> ptr \<Rightarrow> 's \<Rightarrow> 's"
  fe_CheckIC :: "ptr \<Rightarrow> ptr \<Rightarrow> 's \<Rightarrow> bool"
  fe_DestroyIC :: "ptr \<Rightarrow> 's \<Rightarrow> 's"
  fe_EnableIM :: "ptr \<Rightarrow> 's \<Rightarrow> 's"
  fe_CloseIM :: "ptr \<Rightarrow> 's \<Rightarrow> 's"
  fe_CommitString :: "ptr \<Rightarrow> buf \<Rightarrow> 's \<Rightarrow> 's"
  fe_ForwardKey :: "ptr \<Rightarrow> key_event \<Rightarrow> keysym \<Rightarrow> uint32 \<Rightarrow> 's \<Rightarrow> 's"
  fe_SetWindowOffset :: "(ptr \<Rightarrow> int \<Rightarrow> int \<Rightarrow> 's \<Rightarrow> 's) option"
  fe_GetWindowRect :: "(ptr \<Rightarrow> 's \<Rightarrow> (int \<times> int \<times> int \<times> int)) option"
  fe_GetSurroundingPreedit :: "(ptr \<Rightarrow> 's \<Rightarrow> bool \<times> buf \<times> uint32 \<times> uint32) option"
  fe_DeleteSurroundingText :: "(ptr \<Rightarrow> int \<Rightarrow> uint32 \<Rightarrow> 's \<Rightarrow> 's) option"
  fe_UpdatePreedit :: "ptr \<Rightarrow> 's \<Rightarrow> 's"
  fe_UpdateClientSideUI :: "(ptr \<Rightarrow> 's \<Rightarrow> 's) option"
  fe_CheckICFromSameApplication :: "(ptr \<Rightarrow> ptr \<Rightarrow> 's \<Rightarrow> bool) option"
  fe_GetPid :: "(ptr \<Rightarrow> 's \<Rightarrow> nat) option"

record 's ui =
  ui_OnInputFocus :: "('s \<Rightarrow> 's) option"
  ui_OnInputUnFocus :: "('s \<Rightarrow> 's) option"
  ui_OnTriggerOn :: "('s \<Rightarrow> 's) option"
  ui_OnTriggerOff :: "('s \<Rightarrow> 's) option"
  ui_ShowInputWindow :: "('s \<Rightarrow> 's) option"
  ui_CloseInputWindow :: "('s \<Rightarrow> 's) option"
  ui_MoveInputWindow :: "('s \<Rightarrow> 's) option"

text \<open>
  \<open>e_call\<close>, \<open>e_ret\<close>, \<open>e_key\<close>, \<open>e_close\<close> and \<open>e_name\<close> run a function of an input method on its class;
  \<open>e_cand\<close> and \<open>e_paging\<close> run the callbacks of the candidate list; \<open>e_alloc\<close>,
  \<open>e_copy\<close> and \<open>e_free\<close> run the callbacks of a module on its data of an input context; \<open>e_load\<close> is
  \<open>FcitxInstanceLoadIM\<close> on an addon; \<open>e_clock\<close> and \<open>e_msec\<close> are the time of the day, \<open>e_pids\<close> the running processes,
  \<open>e_blacklist\<close> the match of a program name with the programs without preedit, \<open>e_text\<close> the
  translations, \<open>e_version\<close> the text of the version, \<open>e_writable\<close> whether the profile can be written and \<open>e_loads\<close> bounds how
  many lazy loads may nest.
\<close>

record 's environment =
  e_hooks :: "'s hooks"
  e_frontends :: "'s frontend list"
  e_ui :: "'s ui option"
  e_call :: "ptr \<Rightarrow> ptr \<Rightarrow> 's \<Rightarrow> 's"
  e_ret :: "ptr \<Rightarrow> ptr \<Rightarrow> 's \<Rightarrow> uint32 \<times> 's"
  e_key :: "ptr \<Rightarrow> ptr \<Rightarrow> keysym \<Rightarrow> uint32 \<Rightarrow> 's \<Rightarrow> uint32 \<times> 's"
  e_close :: "ptr \<Rightarrow> ptr \<Rightarrow> close_event \<Rightarrow> 's \<Rightarrow> 's"
  e_name :: "ptr \<Rightarrow> ptr \<Rightarrow> 's \<Rightarrow> buf option \<times> 's"
  e_cand :: "cand_callback \<Rightarrow> ptr \<Rightarrow> nat \<Rightarrow> 's \<Rightarrow> uint32 \<times> 's"
  e_paging :: "ptr \<Rightarrow> ptr \<Rightarrow> bool \<Rightarrow> 's \<Rightarrow> bool \<times> 's"
  e_alloc :: "ptr \<Rightarrow> ptr \<Rightarrow> 's \<Rightarrow> ptr \<times> 's"
  e_copy :: "ptr \<Rightarrow> ptr \<Rightarrow> ptr \<Rightarrow> ptr \<Rightarrow> 's \<Rightarrow> ptr \<times> 's"
  e_free :: "ptr \<Rightarrow> ptr \<Rightarrow> ptr \<Rightarrow> 's \<Rightarrow> 's"
  e_load :: "ptr \<Rightarrow> 's \<Rightarrow> 's"
  e_clock :: int
  e_msec :: uint64
  e_pids :: "nat \<Rightarrow> bool"
  e_blacklist :: "buf \<Rightarrow> bool"
  e_text :: "buf \<Rightarrow> buf"
  e_version :: buf
  e_langcode :: buf
  e_writable :: bool
  e_loads :: nat

type_synonym env = "inst environment"

end
