(* ===== verification/Input.thy ===== *)
theory Input
  imports Instance
begin

text \<open>
  The operations on the input state and on one input context: the parts of \<open>ime.c\<close>, \<open>frontend.c\<close>,
  \<open>instance.c\<close> and \<open>ui.c\<close> that leave the list of input methods alone. An operation that may follow a
  null pointer or leave an array has an option result.
\<close>

abbreviation IRV_FLAG_RESET_INPUT :: uint32 where "IRV_FLAG_RESET_INPUT \<equiv> 4"
abbreviation IRV_FLAG_PENDING_COMMIT_STRING :: uint32 where "IRV_FLAG_PENDING_COMMIT_STRING \<equiv> 8"
abbreviation IRV_FLAG_UPDATE_INPUT_WINDOW :: uint32 where "IRV_FLAG_UPDATE_INPUT_WINDOW \<equiv> 16"
abbreviation IRV_FLAG_UPDATE_CANDIDATE_WORDS :: uint32 where "IRV_FLAG_UPDATE_CANDIDATE_WORDS \<equiv> 32"
abbreviation IRV_FLAG_DISPLAY_LAST :: uint32 where "IRV_FLAG_DISPLAY_LAST \<equiv> 256"
abbreviation IRV_FLAG_DO_PHRASE_TIPS :: uint32 where "IRV_FLAG_DO_PHRASE_TIPS \<equiv> 512"
abbreviation IRV_DONOT_PROCESS :: uint32 where "IRV_DONOT_PROCESS \<equiv> 2"
abbreviation IRV_CLEAN :: uint32 where "IRV_CLEAN \<equiv> 4"
abbreviation IRV_COMMIT_STRING :: uint32 where "IRV_COMMIT_STRING \<equiv> 520"
abbreviation IRV_DISPLAY_CANDWORDS :: uint32 where "IRV_DISPLAY_CANDWORDS \<equiv> 48"
abbreviation IRV_ENG :: uint32 where "IRV_ENG \<equiv> 76"

abbreviation FEF_UI_MOVE :: uint32 where "FEF_UI_MOVE \<equiv> 2"
abbreviation FEF_UI_UPDATE :: uint32 where "FEF_UI_UPDATE \<equiv> 4"

abbreviation MAX_USER_INPUT :: nat where "MAX_USER_INPUT \<equiv> 300"

definition upd_input :: "(input_state \<Rightarrow> input_state) \<Rightarrow> inst \<Rightarrow> inst" where
  "upd_input f s = s \<lparr> input := f (input s) \<rparr>"

definition upd_ic :: "ptr \<Rightarrow> (ic \<Rightarrow> ic) \<Rightarrow> inst \<Rightarrow> inst" where
  "upd_ic p f s = s \<lparr> ic_mem := (ic_mem s)(p := f (ic_mem s p)) \<rparr>"

definition FcitxInputStateCreate :: input_state where
  "FcitxInputStateCreate =
     \<lparr> lastKeyPressedTime = 0, bIsDoInputOnly = False, keyReleased = KR_OTHER, iCodeInputCount = 0, strCodeInput = [],
       strStringGet = [], strLastCommit = [], bIsInRemind = False, iCursorPos = 0, iClientCursorPos = 0,
       bShowCursor = False, lastIsSingleHZ = 0, candList = FcitxCandidateWordNewList, msgPreedit = FcitxMessagesNew,
       msgAuxUp = FcitxMessagesNew, msgAuxDown = FcitxMessagesNew, msgClientPreedit = FcitxMessagesNew \<rparr>"

section \<open>Looking things up\<close>

definition FcitxInstanceGetPFrontend :: "env \<Rightarrow> int \<Rightarrow> inst frontend option" where
  "FcitxInstanceGetPFrontend e i = fcitx_array_eltptr (e_frontends e) i"

definition FcitxInstanceGetCurrentIM :: "inst \<Rightarrow> im option" where
  "FcitxInstanceGetCurrentIM s = fcitx_array_eltptr (imes s) (iIMIndex s)"

definition FcitxInstanceGetIMByIndex :: "inst \<Rightarrow> int \<Rightarrow> im option" where
  "FcitxInstanceGetIMByIndex s index = fcitx_array_eltptr (imes s) index"

definition FcitxInstanceGetCurrentIC :: "inst \<Rightarrow> ptr option" where
  "FcitxInstanceGetCurrentIC s = CurrentIC s"

definition FcitxInstanceGetLastIC :: "inst \<Rightarrow> ptr option" where
  "FcitxInstanceGetLastIC s = lastIC s"

definition FcitxInstanceGetCurrentState :: "inst \<Rightarrow> ic_state" where
  "FcitxInstanceGetCurrentState s = (case CurrentIC s of Some p \<Rightarrow> state (ic_mem s p) | None \<Rightarrow> IS_CLOSED)"

definition FcitxInstanceGetCurrentStatev2 :: "inst \<Rightarrow> ic_state" where
  "FcitxInstanceGetCurrentStatev2 s =
     (case CurrentIC s of
        Some p \<Rightarrow> if state (ic_mem s p) = IS_INACTIVE then IS_ACTIVE else state (ic_mem s p)
      | None \<Rightarrow> IS_CLOSED)"

definition FcitxInstanceGetCurrentCapacity :: "inst \<Rightarrow> uint32" where
  "FcitxInstanceGetCurrentCapacity s =
     (case CurrentIC s of Some p \<Rightarrow> contextCaps (ic_mem s p) | None \<Rightarrow> CAPACITY_NONE)"

text \<open>\<open>UI_FUNC_IS_VALID\<close> and the call behind it.\<close>

definition ui_call :: "env \<Rightarrow> (inst ui \<Rightarrow> (inst \<Rightarrow> inst) option) \<Rightarrow> inst \<Rightarrow> inst" where
  "ui_call e sel s =
     (if FcitxInstanceGetCurrentCapacity s AND CAPACITY_CLIENT_SIDE_UI \<noteq> 0 then s
      else (case e_ui e of
              None \<Rightarrow> s
            | Some u \<Rightarrow> (case sel u of None \<Rightarrow> s | Some f \<Rightarrow> f s)))"

text \<open>Calling a function of an input method when it is there.\<close>

definition im_call :: "env \<Rightarrow> (im_iface \<Rightarrow> ptr) \<Rightarrow> im option \<Rightarrow> inst \<Rightarrow> inst" where
  "im_call e sel i s =
     (case i of
        None \<Rightarrow> s
      | Some m \<Rightarrow> if sel (iface m) = 0 then s else e_call e (sel (iface m)) (klass m) s)"

definition im_close :: "env \<Rightarrow> im option \<Rightarrow> close_event \<Rightarrow> inst \<Rightarrow> inst" where
  "im_close e i ev s =
     (case i of
        None \<Rightarrow> s
      | Some m \<Rightarrow> if if_OnClose (iface m) = 0 then s else e_close e (if_OnClose (iface m)) (klass m) ev s)"

section \<open>The input window\<close>

definition FcitxInstanceCleanInputWindowUp :: "inst \<Rightarrow> inst" where
  "FcitxInstanceCleanInputWindowUp =
     upd_input (\<lambda>i. i \<lparr> msgAuxUp := FcitxMessagesSetMessageCount (msgAuxUp i) 0,
                        msgPreedit := FcitxMessagesSetMessageCount (msgPreedit i) 0,
                        msgClientPreedit := FcitxMessagesSetMessageCount (msgClientPreedit i) 0 \<rparr>)"

definition FcitxInstanceCleanInputWindowDown :: "inst \<Rightarrow> inst" where
  "FcitxInstanceCleanInputWindowDown =
     upd_input (\<lambda>i. i \<lparr> candList := FcitxCandidateWordReset (candList i),
                        msgAuxDown := FcitxMessagesSetMessageCount (msgAuxDown i) 0 \<rparr>)"

definition FcitxInstanceCleanInputWindow :: "inst \<Rightarrow> inst" where
  "FcitxInstanceCleanInputWindow s = FcitxInstanceCleanInputWindowDown (FcitxInstanceCleanInputWindowUp s)"

definition FcitxUIUpdateInputWindow :: "inst \<Rightarrow> inst" where
  "FcitxUIUpdateInputWindow s = s \<lparr> eventflag := eventflag s OR FEF_UI_UPDATE \<rparr>"

definition FcitxUIMoveInputWindow :: "inst \<Rightarrow> inst" where
  "FcitxUIMoveInputWindow s = s \<lparr> eventflag := eventflag s OR FEF_UI_MOVE \<rparr>"

definition FcitxUICloseInputWindow :: "inst \<Rightarrow> inst" where
  "FcitxUICloseInputWindow s =
     (let s1 = FcitxInstanceCleanInputWindow s in s1 \<lparr> eventflag := eventflag s1 OR FEF_UI_UPDATE \<rparr>)"

definition FcitxInstanceResetInput :: "env \<Rightarrow> inst \<Rightarrow> inst" where
  "FcitxInstanceResetInput e s =
     (let s1 = upd_input (\<lambda>i. i \<lparr> candList := FcitxCandidateWordReset (candList i), iCursorPos := 0,
                 iClientCursorPos := 0, strCodeInput := [], iCodeInputCount := 0, bIsDoInputOnly := False,
                 bIsInRemind := False \<rparr>) s
      in FcitxInstanceProcessResetInputHook (e_hooks e) (im_call e if_ResetIM (FcitxInstanceGetCurrentIM s1) s1))"

definition FcitxInstanceSendCloseEvent :: "env \<Rightarrow> close_event \<Rightarrow> inst \<Rightarrow> inst" where
  "FcitxInstanceSendCloseEvent e closeEvent s = im_close e (FcitxInstanceGetCurrentIM s) closeEvent s"

definition FcitxInstanceSaveAllIM :: "env \<Rightarrow> inst \<Rightarrow> inst" where
  "FcitxInstanceSaveAllIM e s = foldl (\<lambda>s m. im_call e if_Save (Some m) s) s (availimes s)"

definition FcitxInstanceNotifyUpdateSurroundingText :: "env \<Rightarrow> ptr option \<Rightarrow> inst \<Rightarrow> inst" where
  "FcitxInstanceNotifyUpdateSurroundingText e p s =
     (if p = None then s else if p \<noteq> CurrentIC s then s
      else im_call e if_UpdateSurroundingText (FcitxInstanceGetCurrentIM s) s)"

text \<open>\<open>AppPreeditBlacklisted\<close> remembers its answer; it is true for the programs without preedit.\<close>

definition AppPreeditBlacklisted :: "env \<Rightarrow> ptr \<Rightarrow> inst \<Rightarrow> bool \<times> inst" where
  "AppPreeditBlacklisted e p s =
     (if mayUsePreedit (ic_mem s p) \<noteq> Tri_Unknown then (mayUsePreedit (ic_mem s p) = Tri_True, s)
      else (case prgname (ic_mem s p) of
              None \<Rightarrow> (False, upd_ic p (\<lambda>c. c \<lparr> mayUsePreedit := Tri_False \<rparr>) s)
            | Some prg \<Rightarrow>
                if e_blacklist e prg then (True, upd_ic p (\<lambda>c. c \<lparr> mayUsePreedit := Tri_True \<rparr>) s)
                else (False, upd_ic p (\<lambda>c. c \<lparr> mayUsePreedit := Tri_False \<rparr>) s)))"

definition FcitxInstanceICSupportPreedit :: "env \<Rightarrow> ptr option \<Rightarrow> inst \<Rightarrow> bool \<times> inst" where
  "FcitxInstanceICSupportPreedit e p s =
     (case p of
        None \<Rightarrow> (False, s)
      | Some q \<Rightarrow>
          if contextCaps (ic_mem s q) AND CAPACITY_PREEDIT = 0 \<or> \<not> bUsePreedit (profile s) then (False, s)
          else (let (b, s1) = AppPreeditBlacklisted e q s in (\<not> b, s1)))"

definition FcitxInstanceUpdatePreedit :: "env \<Rightarrow> ptr option \<Rightarrow> inst \<Rightarrow> inst" where
  "FcitxInstanceUpdatePreedit e p s =
     (if \<not> bUsePreedit (profile s) then s
      else (case p of
              None \<Rightarrow> s
            | Some q \<Rightarrow>
                (let (b, s1) = AppPreeditBlacklisted e q s in
                 if b then s1
                 else if contextCaps (ic_mem s1 q) AND CAPACITY_PREEDIT = 0 then s1
                 else (case FcitxInstanceGetPFrontend e (frontendid (ic_mem s1 q)) of
                         None \<Rightarrow> s1
                       | Some fe \<Rightarrow> fe_UpdatePreedit fe q s1))))"

definition FcitxInstanceUpdateClientSideUI :: "env \<Rightarrow> ptr option \<Rightarrow> inst \<Rightarrow> inst" where
  "FcitxInstanceUpdateClientSideUI e p s =
     (case p of
        None \<Rightarrow> s
      | Some q \<Rightarrow>
          if contextCaps (ic_mem s q) AND CAPACITY_CLIENT_SIDE_UI = 0 then s
          else (case FcitxInstanceGetPFrontend e (frontendid (ic_mem s q)) of
                  None \<Rightarrow> s
                | Some fe \<Rightarrow> (case fe_UpdateClientSideUI fe of None \<Rightarrow> s | Some f \<Rightarrow> f q s)))"

section \<open>Committing\<close>

definition cstr_of :: "buf \<Rightarrow> buf" where
  "cstr_of b = takeWhile (\<lambda>c. c \<noteq> 0) b"

definition FcitxInstanceCommitString :: "env \<Rightarrow> ptr option \<Rightarrow> buf \<Rightarrow> inst \<Rightarrow> inst option" where
  "FcitxInstanceCommitString e p str s =
     (case p of
        None \<Rightarrow> Some s
      | Some q \<Rightarrow>
         (let (pstr, s1) = FcitxInstanceProcessCommitFilter (e_hooks e) str s;
              str' = (case pstr of Some t \<Rightarrow> t | None \<Rightarrow> str) in
          case FcitxInstanceGetPFrontend e (frontendid (ic_mem s1 q)) of
            None \<Rightarrow> Some s1
          | Some fe \<Rightarrow>
              (let s2 = fe_CommitString fe q str' s1 in
               do { last \<leftarrow> fcitx_utf8_strncpy str' MAX_USER_INPUT;
                    n \<leftarrow> fcitx_utf8_strlen str';
                    Some ((upd_input (\<lambda>i. i \<lparr> strLastCommit := cstr_of last \<rparr>) s2)
                            \<lparr> iHZInputed := iHZInputed s2 + uint n \<rparr>) })))"

text \<open>The input method is looked up again, and its pointer is followed without a check.\<close>

definition FcitxInstanceDoPhraseTips :: "env \<Rightarrow> inst \<Rightarrow> inst option" where
  "FcitxInstanceDoPhraseTips e s =
     (case FcitxInstanceGetCurrentIM s of
        None \<Rightarrow> None
      | Some m \<Rightarrow>
         (let (r, s1) = (if if_PhraseTips (iface m) = 0 then (0, s)
                         else e_ret e (if_PhraseTips (iface m)) (klass m) s)
          in Some (upd_input (\<lambda>i. i \<lparr> lastIsSingleHZ := (if r \<noteq> 0 then - 1 else 0) \<rparr>) s1)))"

definition add_msg :: "uint32 \<Rightarrow> buf \<Rightarrow> messages \<Rightarrow> messages option" where
  "add_msg type' t m = FcitxMessagesAddMessageVStringAtLast m type' [Some t]"

definition display_last :: "inst \<Rightarrow> inst option" where
  "display_last s =
     (let s1 = FcitxInstanceCleanInputWindow s; i = input s1 in
      do { up \<leftarrow> add_msg MSG_INPUT (take 1 (strCodeInput i)) (msgAuxUp i);
           down \<leftarrow> add_msg MSG_TIPS (strLastCommit i) (msgAuxDown i);
           Some (upd_input (\<lambda>i. i \<lparr> msgAuxUp := up, msgAuxDown := down \<rparr>) s1) })"

definition FcitxInstanceProcessInputReturnValue :: "env \<Rightarrow> uint32 \<Rightarrow> inst \<Rightarrow> inst option" where
  "FcitxInstanceProcessInputReturnValue e retVal s =
     (let currentIM = FcitxInstanceGetCurrentIM s in
      do { s1 \<leftarrow> (if retVal AND IRV_FLAG_PENDING_COMMIT_STRING \<noteq> 0
                  then FcitxInstanceCommitString e (CurrentIC s) (strStringGet (input s)) s else Some s);
           s2 \<leftarrow> (if retVal AND IRV_FLAG_DO_PHRASE_TIPS \<noteq> 0 then
                    (let t = FcitxInstanceCleanInputWindow s1 in
                     do { t' \<leftarrow> (if bPhraseTips (config t)
                                    \<and> (case currentIM of None \<Rightarrow> False | Some m \<Rightarrow> if_PhraseTips (iface m) \<noteq> 0)
                                 then FcitxInstanceDoPhraseTips e t else Some t);
                          Some (upd_input (\<lambda>i. i \<lparr> lastIsSingleHZ := 0 \<rparr>)
                                  (FcitxInstanceResetInput e (FcitxUIUpdateInputWindow t'))) })
                  else Some s1);
           let s3 = (if retVal AND IRV_FLAG_RESET_INPUT \<noteq> 0
                     then FcitxUICloseInputWindow (FcitxInstanceResetInput e s2) else s2);
           s4 \<leftarrow> (if retVal AND IRV_FLAG_DISPLAY_LAST \<noteq> 0 then display_last s3 else Some s3);
           Some (if retVal AND IRV_FLAG_UPDATE_INPUT_WINDOW \<noteq> 0 then FcitxUIUpdateInputWindow s4 else s4) })"

end
