(* ===== verification/InputWindow.thy ===== *)
theory InputWindow
  imports Input
begin

text \<open>
  The input window and what is shown in it: \<open>ui.c\<close> lines 640 to 1010 and the corresponding parts of
  \<open>ime.c\<close> and \<open>instance.c\<close>. The loops over the current page of the candidate list do not change the
  list, so they run over the list of its word indices.
\<close>

section \<open>Focus\<close>

definition FcitxInstanceSetLastIC :: "ptr option \<Rightarrow> inst \<Rightarrow> inst" where
  "FcitxInstanceSetLastIC p s = s \<lparr> lastIC := p, delayedIM := None \<rparr>"

definition FcitxInstanceSetDelayedIM :: "buf option \<Rightarrow> inst \<Rightarrow> inst" where
  "FcitxInstanceSetDelayedIM name s = s \<lparr> delayedIM := name \<rparr>"

definition FcitxInstanceSetCurrentIC :: "env \<Rightarrow> ptr option \<Rightarrow> inst \<Rightarrow> bool \<times> inst" where
  "FcitxInstanceSetCurrentIC e p s =
     (let prevstate = FcitxInstanceGetCurrentState s;
          changed = (CurrentIC s \<noteq> p);
          s1 = (if p \<noteq> None then FcitxInstanceSetLastIC p s else s);
          s2 = s1 \<lparr> CurrentIC := p \<rparr>;
          nextstate = FcitxInstanceGetCurrentState s2
      in (changed,
          if (prevstate = IS_CLOSED \<and> nextstate = IS_CLOSED) \<or> (prevstate \<noteq> IS_CLOSED \<and> nextstate \<noteq> IS_CLOSED) then s2
          else if prevstate = IS_CLOSED then s2 \<lparr> timeStart := e_clock e \<rparr>
          else s2 \<lparr> totaltime := totaltime s2 + (e_clock e - timeStart s2) \<rparr>))"

definition FcitxUIOnInputUnFocus :: "env \<Rightarrow> inst \<Rightarrow> inst" where
  "FcitxUIOnInputUnFocus e s = FcitxInstanceProcessInputUnFocusHook (e_hooks e) (ui_call e ui_OnInputUnFocus s)"

definition FcitxUIOnTriggerOff :: "env \<Rightarrow> inst \<Rightarrow> inst" where
  "FcitxUIOnTriggerOff e s =
     (let s1 = FcitxInstanceProcessTriggerOffHook (e_hooks e) (ui_call e ui_OnTriggerOff s)
      in s1 \<lparr> totaltime := totaltime s1 + (e_clock e - timeStart s1) \<rparr>)"

section \<open>The input speed\<close>

definition window_used :: "input_state \<Rightarrow> bool" where
  "window_used i \<longleftrightarrow> FcitxMessagesGetMessageCount (msgPreedit i) \<noteq> 0
     \<or> FcitxMessagesGetMessageCount (msgClientPreedit i) \<noteq> 0 \<or> FcitxCandidateWordGetListSize (candList i) \<noteq> 0"

definition HideInputSpeed :: "inst \<Rightarrow> inst" where
  "HideInputSpeed s =
     (if FcitxMessagesIsMessageChanged (msgAuxUp (input s)) \<or> FcitxMessagesIsMessageChanged (msgAuxDown (input s))
         \<or> window_used (input s)
      then s else FcitxUICloseInputWindow s)"

text \<open>The division of C rounds towards zero; numbers are printed in decimal.\<close>

definition c_div :: "int \<Rightarrow> int \<Rightarrow> int" where
  "c_div a b = sgn a * sgn b * (\<bar>a\<bar> div \<bar>b\<bar>)"

fun dec_nat :: "nat \<Rightarrow> buf" where
  "dec_nat n = (if n < 10 then [word_of_nat (48 + n)] else dec_nat (n div 10) @ [word_of_nat (48 + n mod 10)])"

declare dec_nat.simps [simp del]

definition dec_int :: "int \<Rightarrow> buf" where
  "dec_int k = (if k < 0 then 0x2d # dec_nat (nat (- k)) else dec_nat (nat k))"

definition speed_messages :: "env \<Rightarrow> inst \<Rightarrow> messages \<Rightarrow> messages option" where
  "speed_messages e s m0 =
     (let passed = totaltime s + (e_clock e - timeStart s);
          timePassed = (if passed = 0 then 1 else passed) in
      do { m1 \<leftarrow> add_msg MSG_OTHER (e_text e (ascii ''Input Speed: '')) (FcitxMessagesSetMessageCount m0 0);
           m2 \<leftarrow> FcitxMessagesAddMessageAtLast m1 MSG_CODE (dec_int (c_div (iHZInputed s * 60) timePassed));
           m3 \<leftarrow> add_msg MSG_OTHER (e_text e (ascii ''/min  Time Used: '')) m2;
           m4 \<leftarrow> FcitxMessagesAddMessageAtLast m3 MSG_CODE (dec_int (c_div timePassed 60));
           m5 \<leftarrow> add_msg MSG_OTHER (e_text e (ascii ''min Num of Characters: '')) m4;
           FcitxMessagesAddMessageAtLast m5 MSG_CODE (dec_nat (unat (word_of_int (iHZInputed s) :: uint32))) })"

text \<open>The part of \<open>FcitxInstanceShowInputSpeed\<close> that fills the window for an input method.\<close>

definition show_im_info :: "env \<Rightarrow> im \<Rightarrow> inst \<Rightarrow> inst option" where
  "show_im_info e m s1 =
     do { up1 \<leftarrow> (if bShowVersion (config s1) then add_msg MSG_TIPS (e_version e) (msgAuxUp (input s1))
                  else Some (msgAuxUp (input s1)));
          up2 \<leftarrow> add_msg MSG_TIPS (strName m) up1;
          let s2 = upd_input (\<lambda>i. i \<lparr> msgAuxUp := up2 \<rparr>) s1;
          let (sub, s3) = (if if_GetSubModeName (iface m) = 0 then (None, s2)
                           else e_name e (if_GetSubModeName (iface m)) (klass m) s2);
          up3 \<leftarrow> (case sub of
                    None \<Rightarrow> Some (msgAuxUp (input s3))
                  | Some t \<Rightarrow> FcitxMessagesAddMessageVStringAtLast (msgAuxUp (input s3)) MSG_TIPS
                                [Some (ascii '' - ''), Some t]);
          let s4 = upd_input (\<lambda>i. i \<lparr> msgAuxUp := up3 \<rparr>) s3;
          down \<leftarrow> (if bShowUserSpeed (config s4) then speed_messages e s4 (msgAuxDown (input s4))
                   else Some (msgAuxDown (input s4)));
          let s5 = FcitxUIUpdateInputWindow (upd_input (\<lambda>i. i \<lparr> msgAuxDown := down \<rparr>) s4);
          Some (if FcitxInstanceCheckTimeoutByFunc s5 HideInputSpeedCallback then s5
                else snd (FcitxInstanceAddTimeout (e_msec e) 1000 HideInputSpeedCallback 0 s5)) }"

definition FcitxInstanceShowInputSpeed :: "env \<Rightarrow> bool \<Rightarrow> inst \<Rightarrow> inst option" where
  "FcitxInstanceShowInputSpeed e force s =
     (if \<not> running s then Some s
      else if \<not> force \<and> \<not> bShowInputWindowTriggering (config s) then Some s
      else if \<not> force \<and> FcitxInstanceGetCurrentState s \<noteq> IS_ACTIVE \<and> bShowInputWindowOnlyWhenActive (config s)
      then Some s
      else if FcitxMessagesGetMessageCount (msgAuxUp (input s)) \<noteq> 0
           \<or> FcitxMessagesGetMessageCount (msgAuxDown (input s)) \<noteq> 0 \<or> window_used (input s) then Some s
      else
        (let s1 = FcitxInstanceCleanInputWindow (upd_input (\<lambda>i. i \<lparr> bShowCursor := False \<rparr>) s) in
         case FcitxInstanceGetCurrentIM s1 of None \<Rightarrow> Some s1 | Some m \<Rightarrow> show_im_info e m s1))"

definition FcitxInstanceShowCurrentIMInfo :: "env \<Rightarrow> inst \<Rightarrow> inst option" where
  "FcitxInstanceShowCurrentIMInfo e s = FcitxInstanceShowInputSpeed e True s"

definition FcitxUIOnTriggerOn :: "env \<Rightarrow> inst \<Rightarrow> inst option" where
  "FcitxUIOnTriggerOn e s =
     (let s1 = FcitxInstanceProcessTriggerOnHook (e_hooks e) (ui_call e ui_OnTriggerOn s)
      in FcitxInstanceShowInputSpeed e False (s1 \<lparr> timeStart := e_clock e \<rparr>))"

section \<open>Preedit\<close>

definition FcitxUICommitPreedit :: "env \<Rightarrow> inst \<Rightarrow> inst option" where
  "FcitxUICommitPreedit e s =
     (case CurrentIC s of
        None \<Rightarrow> Some s
      | Some p \<Rightarrow>
         (let caps = contextCaps (ic_mem s p);
              doServerSideCommit = (\<not> bDontCommitPreeditWhenUnfocus (config s) \<and> caps AND CAPACITY_CLIENT_UNFOCUS_COMMIT = 0);
              callOnClose = (doServerSideCommit \<or> caps AND CAPACITY_CLIENT_UNFOCUS_COMMIT \<noteq> 0);
              s1 = (if callOnClose then im_close e (FcitxInstanceGetCurrentIM s) CET_LostFocus s else s) in
          if doServerSideCommit then
            do { s2 \<leftarrow> (if FcitxMessagesGetMessageCount (msgClientPreedit (input s1)) > 0 then
                          do { str \<leftarrow> FcitxUIMessagesToCStringForCommit (msgClientPreedit (input s1));
                               if str \<noteq> [] then FcitxInstanceCommitString e (CurrentIC s1) str s1 else Some s1 }
                        else Some s1);
                 Some (upd_input (\<lambda>i. i \<lparr> msgClientPreedit := FcitxMessagesSetMessageCount (msgClientPreedit i) 0 \<rparr>) s2) }
          else Some s1))"

section \<open>Candidates as messages\<close>

function window_from :: "cand_list \<Rightarrow> nat option \<Rightarrow> nat list" where
  "window_from l w =
     (case w of None \<Rightarrow> [] | Some i \<Rightarrow> i # window_from l (FcitxCandidateWordGetCurrentWindowNext l (Some i)))"
  by pat_completeness auto
termination
  by (relation "measure (\<lambda>(l, w). case w of None \<Rightarrow> 0 | Some i \<Rightarrow> Suc (length (cl_words l) - i))")
     (auto simp: FcitxCandidateWordGetCurrentWindowNext_def utarray_next_def split: option.splits if_splits)

declare window_from.simps [simp del]

definition current_window :: "cand_list \<Rightarrow> nat list" where
  "current_window l = window_from l (FcitxCandidateWordGetCurrentWindow l)"

text \<open>The choice keys are a zeroed array of 11 bytes; a null byte ends the label.\<close>

definition choose_label :: "bool \<Rightarrow> cand_list \<Rightarrow> nat \<Rightarrow> buf option" where
  "choose_label point l i =
     (if i \<le> MAX_CAND_WORD then
        Some (if i < length (cl_choose l) then [cl_choose l ! i] @ (if point then [0x2e] else []) else [])
      else None)"

definition CONTEXT_DISABLE_AUTO_FIRST_CANDIDATE_HIGHTLIGHT :: buf where
  "CONTEXT_DISABLE_AUTO_FIRST_CANDIDATE_HIGHTLIGHT = ascii ''CONTEXT_DISABLE_AUTO_FIRST_CANDIDATE_HIGHTLIGHT''"

definition FcitxUIUseDefaultHighlight :: "inst \<Rightarrow> cand_list \<Rightarrow> bool option" where
  "FcitxUIUseDefaultHighlight s l =
     (if cl_over_highlight l then Some (cl_over_highlight_value l)
      else map_option Not (FcitxInstanceGetContextBoolean (ctx s) CONTEXT_DISABLE_AUTO_FIRST_CANDIDATE_HIGHTLIGHT))"

definition modifier_prefix :: "uint32 \<Rightarrow> buf option list" where
  "modifier_prefix m =
     [Some (if m AND FcitxKeyState_Super \<noteq> 0 then ascii ''M-'' else []),
      Some (if m AND FcitxKeyState_Ctrl \<noteq> 0 then ascii ''C-'' else []),
      Some (if m AND FcitxKeyState_Alt \<noteq> 0 then ascii ''A-'' else []),
      Some (if m AND FcitxKeyState_Shift \<noteq> 0 then ascii ''S-'' else [])]"

definition show_candidate :: "inst \<Rightarrow> nat \<Rightarrow> cand_word \<Rightarrow> messages \<Rightarrow> messages option" where
  "show_candidate s i w m =
     (let l = candList (input s) in
      do { label \<leftarrow> choose_label (bPointAfterNumber (config s)) l i;
           case cw_word w of
             None \<Rightarrow> Some m
           | Some t \<Rightarrow>
               do { m1 \<leftarrow> FcitxMessagesAddMessageVStringAtLast m MSG_INDEX (modifier_prefix (cl_modifier l) @ [Some label]);
                    first \<leftarrow> (if i = 0 \<and> FcitxCandidateWordGetCurrentPage l = 0 \<and> cw_wordType w = MSG_OTHER
                              then FcitxUIUseDefaultHighlight s l else Some False);
                    m2 \<leftarrow> add_msg (if first then MSG_FIRSTCAND else cw_wordType w) t m1;
                    m3 \<leftarrow> (case cw_extra w of
                             Some x \<Rightarrow> if x \<noteq> [] then add_msg (cw_extraType w) x m2 else Some m2
                           | None \<Rightarrow> Some m2);
                    add_msg MSG_OTHER (ascii '' '') m3 } })"

fun show_candidates :: "inst \<Rightarrow> nat \<Rightarrow> nat list \<Rightarrow> messages \<Rightarrow> messages option" where
  "show_candidates s i [] m = Some m"
| "show_candidates s i (w # ws) m =
     do { m' \<leftarrow> show_candidate s i (cl_words (candList (input s)) ! w) m; show_candidates s (Suc i) ws m' }"

text \<open>Copying messages with their types; the result counts the bytes.\<close>

fun copy_messages :: "messages \<Rightarrow> nat list \<Rightarrow> messages \<Rightarrow> (messages \<times> nat) option" where
  "copy_messages src [] dst = Some (dst, 0)"
| "copy_messages src (i # is) dst =
     do { t \<leftarrow> FcitxMessagesGetMessageType src (int i);
          x \<leftarrow> FcitxMessagesGetMessageString src (int i);
          dst' \<leftarrow> add_msg t x dst;
          (dst'', n) \<leftarrow> copy_messages src is dst';
          Some (dst'', length x + n) }"

definition FcitxUINewMessageToOldStyleMessage ::
  "inst \<Rightarrow> messages \<Rightarrow> messages \<Rightarrow> (int \<times> messages \<times> messages) option" where
  "FcitxUINewMessageToOldStyleMessage s msgUp msgDown =
     (let i = input s in
      do { (up1, n) \<leftarrow> copy_messages (msgAuxUp i) [0..<msgCount (msgAuxUp i)] (FcitxMessagesSetMessageCount msgUp 0);
           (up2, _) \<leftarrow> copy_messages (msgPreedit i) [0..<msgCount (msgPreedit i)] up1;
           (down1, _) \<leftarrow> copy_messages (msgAuxDown i) [0..<msgCount (msgAuxDown i)] (FcitxMessagesSetMessageCount msgDown 0);
           down2 \<leftarrow> show_candidates s 0 (current_window (candList i)) down1;
           Some (iCursorPos i + int n, up2, down2) })"

text \<open>
  \<open>FcitxUICandidateWordToCString\<close>: both of its loops follow the word of a candidate without a check,
  which is null for a placeholder.
\<close>

definition candidate_text :: "inst \<Rightarrow> nat \<Rightarrow> cand_word \<Rightarrow> buf option" where
  "candidate_text s i w =
     do { label \<leftarrow> choose_label (bPointAfterNumber (config s)) (candList (input s)) i;
          t \<leftarrow> cw_word w;
          Some (label @ t @ (case cw_extra w of Some x \<Rightarrow> x | None \<Rightarrow> []) @ [0x20]) }"

definition FcitxUICandidateWordToCString :: "inst \<Rightarrow> buf option" where
  "FcitxUICandidateWordToCString s =
     (let l = candList (input s); ws = current_window l in
      map_option concat (those (map (\<lambda>(i, w). candidate_text s i (cl_words l ! w)) (zip [0..<length ws] ws))))"

section \<open>Updating the window\<close>

definition window_shown :: "inst \<Rightarrow> uint32 \<Rightarrow> bool" where
  "window_shown s flags \<longleftrightarrow>
     (let i = input s; c = config s in
      FcitxMessagesGetMessageCount (msgAuxUp i) \<noteq> 0 \<or> FcitxMessagesGetMessageCount (msgAuxDown i) \<noteq> 0
      \<or> FcitxCandidateWordGetListSize (candList i) > 1
      \<or> (FcitxCandidateWordGetListSize (candList i) = 1
         \<and> (\<not> bHideInputWindowWhenOnlyPreeditString c \<or> \<not> bHideInputWindowWhenOnlyOneCandidate c))
      \<or> (FcitxMessagesGetMessageCount (msgPreedit i) \<noteq> 0
         \<and> \<not> (flags AND CAPACITY_PREEDIT \<noteq> 0 \<and> bHideInputWindowWhenOnlyPreeditString c \<and> bUsePreedit (profile s))))"

definition FcitxUIShowInputWindow :: "env \<Rightarrow> inst \<Rightarrow> inst" where
  "FcitxUIShowInputWindow e s = ui_call e ui_ShowInputWindow s"

definition FcitxUIUpdateInputWindowReal :: "env \<Rightarrow> inst \<Rightarrow> inst" where
  "FcitxUIUpdateInputWindowReal e s =
     (let p = FcitxInstanceGetCurrentIC s;
          flags = (case p of Some q \<Rightarrow> contextCaps (ic_mem s q) | None \<Rightarrow> CAPACITY_NONE) in
      if flags AND CAPACITY_CLIENT_SIDE_UI \<noteq> 0 then FcitxInstanceUpdateClientSideUI e p s
      else
        (let s1 = FcitxInstanceUpdatePreedit e p s;
             s2 = (if window_shown s1 flags then FcitxUIShowInputWindow e s1 else ui_call e ui_CloseInputWindow s1)
         in upd_input (\<lambda>i. i \<lparr> msgAuxUp := FcitxMessagesSetMessageChanged (msgAuxUp i) False,
                               msgAuxDown := FcitxMessagesSetMessageChanged (msgAuxDown i) False,
                               msgPreedit := FcitxMessagesSetMessageChanged (msgPreedit i) False,
                               msgClientPreedit := FcitxMessagesSetMessageChanged (msgClientPreedit i) False \<rparr>) s2))"

definition FcitxUIMoveInputWindowReal :: "env \<Rightarrow> inst \<Rightarrow> inst" where
  "FcitxUIMoveInputWindowReal e s = ui_call e ui_MoveInputWindow s"

section \<open>Hotkeys of the instance and the key blocker\<close>

definition ImProcessEnter :: "inst \<Rightarrow> uint32 \<times> inst" where
  "ImProcessEnter s =
     (if iCodeInputCount (input s) = 0 then (IRV_DONOT_PROCESS, s)
      else (IRV_ENG, upd_input (\<lambda>i. i \<lparr> strStringGet := strCodeInput i \<rparr>) (FcitxInstanceCleanInputWindow s)))"

definition ImProcessEscape :: "inst \<Rightarrow> uint32 \<times> inst" where
  "ImProcessEscape s =
     (if iCodeInputCount (input s) \<noteq> 0 \<or> bIsInRemind (input s) then (IRV_CLEAN, s) else (IRV_DONOT_PROCESS, s))"

definition ImProcessSaveAll :: "env \<Rightarrow> inst \<Rightarrow> uint32 \<times> inst" where
  "ImProcessSaveAll e s = (IRV_DO_NOTHING, FcitxInstanceSaveAllIM e s)"

definition FcitxStandardKeyBlocker :: "input_state \<Rightarrow> keysym \<Rightarrow> uint32 \<Rightarrow> uint32" where
  "FcitxStandardKeyBlocker i key st =
     (if (iCodeInputCount i \<noteq> 0 \<or> window_used i)
         \<and> (FcitxHotkeyIsHotKeySimple key st \<or> FcitxHotkeyIsHotkeyCursorMove key st
            \<or> FcitxHotkeyIsHotKey key st FCITX_SHIFT_SPACE \<or> FcitxHotkeyIsHotKey key st FCITX_TAB
            \<or> FcitxHotkeyIsHotKey key st FCITX_SHIFT_ENTER)
      then IRV_DO_NOTHING else IRV_TO_PROCESS)"

end
