(* ===== verification/ImList.thy ===== *)
theory ImList
  imports InputWindow SortUtils
begin

text \<open>
  The list of input methods: registration, the order and the content of the list of enabled input
  methods in \<open>ime.c\<close>, and the textual form of the list in the profile (\<open>profile.c\<close>). A pointer to an input
  method is a copy of it where the list does not change before its last use. \<open>FcitxInstanceUpdateIMList\<close>
  ends with choosing the current input method, which may load one and then updates the list again;
  that step is the argument \<open>sw\<close> here and is tied in theory \<open>ImSwitch\<close>.
\<close>

abbreviation LANGCODE_LENGTH :: nat where "LANGCODE_LENGTH \<equiv> 5"
abbreviation PRIORITY_DISABLE :: int where "PRIORITY_DISABLE \<equiv> 100"
abbreviation PRIORITY_MAGIC_FIRST :: int where "PRIORITY_MAGIC_FIRST \<equiv> 0xf1527"

text \<open>
  Input methods register with priorities that are not negative, so that the difference of two of them is an \<open>int\<close>
  again (\<open>priority_difference\<close>). For priorities of opposite signs it may not be one, which C leaves undefined.
\<close>

definition IMPriorityCmp :: "im \<Rightarrow> im \<Rightarrow> int" where
  "IMPriorityCmp ta tb =
     (let delta = iPriority ta - iPriority tb in
      if delta \<noteq> 0 then delta else strcmp (uniqueName ta) (uniqueName tb))"

lemma priority_difference:
  assumes "0 \<le> iPriority a" "iPriority a < 2 ^ 31" "0 \<le> iPriority b" "iPriority b < 2 ^ 31"
  shows "signed_take_bit 31 (iPriority a - iPriority b) = iPriority a - iPriority b"
  using assms by (intro signed_take_bit_int_eq_self) simp_all

datatype im_available_status = IMAS_Enable | IMAS_Disable

fun find_im :: "im list \<Rightarrow> buf \<Rightarrow> nat option" where
  "find_im [] name = None"
| "find_im (m # ms) name = (if strcmp (uniqueName m) name = 0 then Some 0 else map_option Suc (find_im ms name))"

definition FcitxInstanceGetIMFromIMList :: "inst \<Rightarrow> im_available_status \<Rightarrow> buf \<Rightarrow> nat option" where
  "FcitxInstanceGetIMFromIMList s status name =
     find_im (case status of IMAS_Enable \<Rightarrow> imes s | IMAS_Disable \<Rightarrow> availimes s) name"

text \<open>A null name is compared only when the list is not empty; \<open>strcmp\<close> then reads address 0.\<close>

definition FcitxInstanceGetIMIndexByName :: "inst \<Rightarrow> buf option \<Rightarrow> int option" where
  "FcitxInstanceGetIMIndexByName s name =
     (case name of
        None \<Rightarrow> if imes s = [] then Some (- 1) else None
      | Some n \<Rightarrow> Some (case find_im (imes s) n of None \<Rightarrow> - 1 | Some i \<Rightarrow> int i))"

section \<open>Registration\<close>

definition no_iface :: im_iface where
  "no_iface = \<lparr> if_ResetIM = 0, if_DoInput = 0, if_GetCandWords = 0, if_PhraseTips = 0, if_Save = 0, if_Init = 0,
     if_ReloadConfig = 0, if_KeyBlocker = 0, if_UpdateSurroundingText = 0, if_DoReleaseInput = 0, if_OnClose = 0,
     if_GetSubModeName = 0 \<rparr>"

definition FcitxInstanceRegisterEmptyIMEntry ::
  "inst \<Rightarrow> buf \<Rightarrow> buf \<Rightarrow> buf \<Rightarrow> int \<Rightarrow> buf \<Rightarrow> ptr \<Rightarrow> inst" where
  "FcitxInstanceRegisterEmptyIMEntry s name unique icon priority lang addon =
     (if FcitxInstanceGetIMFromIMList s IMAS_Disable unique \<noteq> None then s
      else s \<lparr> availimes := utarray_extend_back
                 \<lparr> uniqueName = unique, strName = name, strIconName = icon, iface = no_iface, klass = 0,
                   iPriority = priority, langCode = take LANGCODE_LENGTH lang, initialized = False, owner = addon \<rparr>
                 (availimes s) \<rparr>)"

text \<open>
  An entry that is known but not initialized is completed and keeps its names. A language that is the
  null pointer leaves the old one.
\<close>

definition FcitxInstanceRegisterIMv2 ::
  "inst \<Rightarrow> ptr \<Rightarrow> buf \<Rightarrow> buf \<Rightarrow> buf \<Rightarrow> im_iface \<Rightarrow> int \<Rightarrow> buf option \<Rightarrow> inst" where
  "FcitxInstanceRegisterIMv2 s imclass unique name icon ifc priority lang =
     (if priority \<le> 0 then s
      else
        (let prio = (if priority = PRIORITY_MAGIC_FIRST then 0 else priority);
             fill = (\<lambda>m. m \<lparr> iface := ifc, klass := imclass, iPriority := prio,
                              langCode := (case lang of Some l \<Rightarrow> take LANGCODE_LENGTH l | None \<Rightarrow> langCode m),
                              initialized := True, owner := currentIMAddon s \<rparr>) in
         case FcitxInstanceGetIMFromIMList s IMAS_Disable unique of
           Some i \<Rightarrow>
             if initialized (availimes s ! i) then s
             else s \<lparr> availimes := (availimes s)[i := fill (availimes s ! i)] \<rparr>
         | None \<Rightarrow>
             s \<lparr> availimes := utarray_extend_back
                   (fill \<lparr> uniqueName = unique, strName = name, strIconName = icon, iface = no_iface, klass = 0,
                           iPriority = 0, langCode = [], initialized = False, owner = 0 \<rparr>)
                   (availimes s) \<rparr>))"

definition FcitxInstanceRegisterIM ::
  "inst \<Rightarrow> ptr \<Rightarrow> buf \<Rightarrow> buf \<Rightarrow> buf \<Rightarrow> im_iface \<Rightarrow> int \<Rightarrow> buf option \<Rightarrow> inst" where
  "FcitxInstanceRegisterIM s imclass unique name icon ifc priority lang =
     FcitxInstanceRegisterIMv2 s imclass unique name icon
       (ifc \<lparr> if_UpdateSurroundingText := 0, if_DoReleaseInput := 0, if_OnClose := 0, if_GetSubModeName := 0 \<rparr>)
       priority lang"

definition FcitxInstanceUnregisterIM :: "inst \<Rightarrow> buf \<Rightarrow> inst option" where
  "FcitxInstanceUnregisterIM s name =
     (case FcitxInstanceGetIMFromIMList s IMAS_Disable name of
        None \<Rightarrow> Some s
      | Some i \<Rightarrow> map_option (\<lambda>ms. s \<lparr> availimes := ms \<rparr>) (utarray_erase (availimes s) i 1))"

section \<open>The profile\<close>

definition status_text :: "bool \<Rightarrow> buf" where
  "status_text b = (if b then ascii '':True,'' else ascii '':False,'')"

text \<open>
  \<open>FilterIMList\<close>: enabled ones, then the other known ones, then the unknown ones, each with a comma
  that the last one loses.
\<close>

definition profile_names :: "inst \<Rightarrow> (buf \<times> bool) list" where
  "profile_names s =
     map (\<lambda>m. (uniqueName m, True)) (imes s)
     @ map (\<lambda>m. (uniqueName m, False))
         (filter (\<lambda>m. FcitxInstanceGetIMFromIMList s IMAS_Enable (uniqueName m) = None) (availimes s))
     @ unusedItem s"

definition FilterIMList :: "inst \<Rightarrow> buf" where
  "FilterIMList s = butlast (concat (map (\<lambda>(n, b). n @ status_text b) (profile_names s)))"

definition FilterIMName_save :: "inst \<Rightarrow> buf option" where
  "FilterIMName_save s = (case globalIMName s of Some n \<Rightarrow> Some n | None \<Rightarrow> imName (profile s))"

definition FilterIMName_load :: "inst \<Rightarrow> inst" where
  "FilterIMName_load s = (case imName (profile s) of Some n \<Rightarrow> s \<lparr> globalIMName := Some n \<rparr> | None \<Rightarrow> s)"

text \<open>Saving writes the values after the filters have replaced them.\<close>

definition FcitxProfileSave :: "env \<Rightarrow> inst \<Rightarrow> inst" where
  "FcitxProfileSave e s =
     (if \<not> e_writable e then s
      else s \<lparr> profile := (profile s) \<lparr> imList := FilterIMList s, imName := FilterIMName_save s \<rparr>,
               saved := saved s @ [FilterIMList s] \<rparr>)"

definition ImSwitchEmbeddedPreedit :: "env \<Rightarrow> inst \<Rightarrow> uint32 \<times> inst" where
  "ImSwitchEmbeddedPreedit e s =
     (IRV_DO_NOTHING, FcitxUIUpdateInputWindow
        (FcitxProfileSave e (s \<lparr> profile := (profile s) \<lparr> bUsePreedit := \<not> bUsePreedit (profile s) \<rparr> \<rparr>)))"

section \<open>The enabled input methods\<close>

definition MatchLanguage :: "buf \<Rightarrow> buf \<Rightarrow> bool" where
  "MatchLanguage lang cur =
     (let cur1 = (if strcmp cur (ascii ''zh_HK'') = 0 then ascii ''zh_TW'' else cur);
          cur2 = (if strcmp cur1 (ascii ''en_HK'') = 0 then ascii ''zh_TW'' else cur1);
          lang1 = (if strcmp lang (ascii ''zh_HK'') = 0 then ascii ''zh_TW'' else lang) in
      if take 2 cur2 = ascii ''zh'' \<and> length cur2 = 5 then strcmp lang1 cur2 = 0
      else take 2 lang1 = take 2 cur2)"

text \<open>\<open>strncmp\<close> over the length of the name: a name that only starts with it matches too.\<close>

definition IMIsInIMNameList :: "buf list \<Rightarrow> im \<Rightarrow> bool" where
  "IMIsInIMNameList l m = (\<exists>str\<in>set l. has_prefix (uniqueName m) str)"

text \<open>
  The first loop of \<open>FcitxInstanceUpdateIMList\<close> over the items of the profile. The result is the list of
  names that it leaves in \<open>imList\<close>, the items that it leaves in \<open>imList_bak\<close>, the enabled input methods
  and the unknown ones. The walk of \<open>pstr_bak\<close>, which is not initialized before the first step, has no
  effect and is left out.
\<close>

fun im_items :: "im list \<Rightarrow> buf list \<Rightarrow> im list \<Rightarrow> (buf, bool) uthash \<Rightarrow> buf list \<times> buf list \<times> im list \<times> (buf, bool) uthash" where
  "im_items avail [] ims unused = ([], [], ims, unused)"
| "im_items avail (str # strs) ims unused =
     (if 0x3a \<in> set str then
        (let name = takeWhile (\<lambda>c. c \<noteq> 0x3a) str;
             pos = drop (length name + 1) str;
             status = (strcmp pos (ascii ''True'') = 0) in
         case find_im avail name of
           Some i \<Rightarrow>
             (let (names, bak, ims', unused') =
                im_items avail strs (if status then utarray_push_back ims (avail ! i) else ims) unused
              in (name # names, str # bak, ims', unused'))
         | None \<Rightarrow>
             (let (names, bak, ims', unused') =
                im_items avail strs ims (if hash_find unused name = None then hash_add unused name status else unused)
              in (name # names, bak, ims', unused')))
      else
        (let (names, bak, ims', unused') = im_items avail strs ims unused in (str # names, str # bak, ims', unused')))"

text \<open>The second loop: input methods that the profile does not name.\<close>

definition add_unlisted :: "buf list \<Rightarrow> bool \<Rightarrow> buf \<Rightarrow> im list \<Rightarrow> im \<Rightarrow> im list" where
  "add_unlisted names isEmpty lang ims m =
     (if IMIsInIMNameList names m then ims
      else if iPriority m = 0 then utarray_push_front ims m
      else if iPriority m < PRIORITY_DISABLE \<and> (\<not> isEmpty \<or> MatchLanguage (langCode m) lang)
      then utarray_insert ims m 1
      else ims)"

definition rebuild_im_list :: "env \<Rightarrow> inst \<Rightarrow> inst option" where
  "rebuild_im_list e s =
     do { l \<leftarrow> fcitx_utils_split_string (imList (profile s)) 0x2c;
          let avail = insertion_sort IMPriorityCmp (availimes s);
          let (names, bak, ims, unused) = im_items avail l [] [];
          bak_text \<leftarrow> fcitx_utils_join_string_list (Some bak) 0x2c;
          Some (s \<lparr> availimes := avail, unusedItem := unused,
                    imes := foldl (add_unlisted names (l = []) (e_langcode e)) ims avail,
                    profile := (profile s) \<lparr> imList := bak_text \<rparr> \<rparr>) }"

text \<open>\<open>sw\<close> is \<open>FcitxInstanceUpdateCurrentIM\<close> with its force.\<close>

definition update_im_list :: "(inst \<Rightarrow> inst option) \<Rightarrow> env \<Rightarrow> inst \<Rightarrow> inst option" where
  "update_im_list sw e s =
     (if \<not> imLoaded s then Some s
      else do { s1 \<leftarrow> rebuild_im_list e s;
                s2 \<leftarrow> sw s1;
                let s3 = FcitxInstanceProcessUpdateIMListHook (e_hooks e) s2;
                Some (if globalIMName s3 \<noteq> None then FcitxProfileSave e s3 else s3) })"

end
