(* ===== verification/ImSwitch.thy ===== *)
theory ImSwitch
  imports ImList
begin

text \<open>
  Switching the input method and the state of input contexts: \<open>ime.c\<close> from
  \<open>FcitxInstanceSwitchIMByName\<close> to \<open>FcitxInstanceChangeIMStateInternal\<close>, with the focus of \<open>ui.c\<close>.
  Switching to an input method that is not loaded yet loads it and updates the list, which chooses the
  current input method again: \<open>FcitxInstanceSwitchIMInternal\<close> runs on fuel, one unit for each
  nested load. A result \<open>None\<close> is a null pointer that is followed, or exhausted fuel. The loops over the
  input contexts run over the list as it is when they start.
\<close>

definition CONTEXT_IM_LANGUAGE :: buf where
  "CONTEXT_IM_LANGUAGE = ascii ''CONTEXT_IM_LANGUAGE''"

text \<open>\<open>FcitxInstanceUpdateCurrentIM\<close>; the switch itself is the argument \<open>sw\<close>.\<close>

definition fix_global :: "bool \<Rightarrow> int \<Rightarrow> inst \<Rightarrow> inst \<times> int \<times> bool \<times> bool" where
  "fix_global force g s =
     (if g \<le> 0 then
        (case utarray_eltptr (imes s) 1 of
           Some m \<Rightarrow> (s \<lparr> globalIMName := Some (uniqueName m) \<rparr>, 1, True, True)
         | None \<Rightarrow> (s, g, force, False))
      else (s, g, force, False))"

definition drop_stale_local :: "ptr option \<Rightarrow> inst \<Rightarrow> inst" where
  "drop_stale_local p s =
     (case p of
        None \<Rightarrow> s
      | Some q \<Rightarrow> (case imname (ic_mem s q) of
            None \<Rightarrow> s
          | Some n \<Rightarrow> if FcitxInstanceGetIMFromIMList s IMAS_Enable n = None
                      then upd_ic q (\<lambda>c. c \<lparr> imname := None \<rparr>) s else s))"

definition target_index :: "ptr option \<Rightarrow> int \<Rightarrow> inst \<Rightarrow> (int \<times> bool) option" where
  "target_index p globalIndex s =
     (case p of
        None \<Rightarrow> Some (globalIndex, True)
      | Some q \<Rightarrow>
          if state (ic_mem s q) \<noteq> IS_ACTIVE then Some (0, False)
          else (case imname (ic_mem s q) of
                  None \<Rightarrow> Some (globalIndex, True)
                | Some n \<Rightarrow> map_option (\<lambda>t. (t, True)) (FcitxInstanceGetIMIndexByName s (Some n))))"

definition update_current_im ::
  "(int \<Rightarrow> bool \<Rightarrow> bool \<Rightarrow> bool \<Rightarrow> inst \<Rightarrow> inst option) \<Rightarrow> bool \<Rightarrow> bool \<Rightarrow> inst \<Rightarrow> (bool \<times> inst) option" where
  "update_current_im sw force userSwitchIM s =
     (let p = FcitxInstanceGetCurrentIC s in
      if p = None \<and> \<not> force then Some (False, s)
      else do {
        g \<leftarrow> FcitxInstanceGetIMIndexByName s (globalIMName s);
        let (s1, globalIndex, forceSwitch, updateGlobal) = fix_global force g s;
        let s2 = drop_stale_local p s1;
        (t, skipZero) \<leftarrow> target_index p globalIndex s2;
        if forceSwitch \<or> t \<noteq> iIMIndex s2 then map_option (Pair True) (sw t skipZero updateGlobal userSwitchIM s2)
        else Some (False, s2) })"

definition switch_index :: "int \<Rightarrow> int \<Rightarrow> bool \<Rightarrow> int" where
  "switch_index iIMCount index skipZero =
     (let i1 = (if index \<ge> iIMCount then iIMCount - 1 else if index < 0 then 0 else index);
          i2 = (if skipZero \<and> i1 = 0 then 1 else i1)
      in if iIMCount \<le> 1 then 0 else i2)"

text \<open>Loading an input method on demand; one that does not come up is taken off the list.\<close>

definition lazy_load :: "(inst \<Rightarrow> inst option) \<Rightarrow> env \<Rightarrow> im \<Rightarrow> inst \<Rightarrow> inst option" where
  "lazy_load update e m s =
     (let s1 = e_load e (owner m) s in
      do { i \<leftarrow> FcitxInstanceGetIMFromIMList s1 IMAS_Disable (uniqueName m);
           s2 \<leftarrow> (if initialized (availimes s1 ! i) then Some s1
                 else map_option (\<lambda>ms. s1 \<lparr> availimes := ms \<rparr>) (utarray_erase (availimes s1) i 1));
           s3 \<leftarrow> update s2;
           k \<leftarrow> FcitxInstanceGetIMIndexByName s3 (Some (uniqueName m));
           Some (s3 \<lparr> iIMIndex := k \<rparr>) })"

text \<open>Before the new input method is in place, and after.\<close>

definition leave_im :: "env \<Rightarrow> bool \<Rightarrow> inst \<Rightarrow> inst" where
  "leave_im e userSwitchIM s =
     (let lastIM = FcitxInstanceGetCurrentIM s;
          s1 = (if userSwitchIM then im_close e lastIM CET_SwitchIM s else s);
          s2 = im_call e if_Save lastIM s1
      in FcitxUIUpdateInputWindow (FcitxInstanceResetInput e (FcitxInstanceCleanInputWindow s2)))"

definition run_init :: "env \<Rightarrow> inst \<Rightarrow> inst option" where
  "run_init e s =
     (case FcitxInstanceGetCurrentIM s of
        None \<Rightarrow> Some s
      | Some m \<Rightarrow>
          if if_Init (iface m) = 0 then Some s
          else do { c1 \<leftarrow> FcitxInstanceResetContext (ctx s) FCF_ResetOnInputMethodChange;
                    c2 \<leftarrow> FcitxInstanceSetContext c1 CONTEXT_IM_LANGUAGE (CtxStr (langCode m));
                    Some (im_call e if_Init (Some m) (s \<lparr> ctx := c2 \<rparr>)) })"

definition note_global :: "env \<Rightarrow> bool \<Rightarrow> im option \<Rightarrow> inst \<Rightarrow> inst" where
  "note_global e updateGlobal newIM s =
     (case newIM of
        None \<Rightarrow> s
      | Some m \<Rightarrow>
          if updateGlobal \<and> fcitx_utils_strcmp0 (globalIMName s) (Some (uniqueName m)) \<noteq> 0
          then FcitxProfileSave e (s \<lparr> globalIMName := Some (uniqueName m) \<rparr>) else s)"

definition enter_im :: "env \<Rightarrow> bool \<Rightarrow> inst \<Rightarrow> inst option" where
  "enter_im e updateGlobal s =
     do { s1 \<leftarrow> run_init e s;
          let s2 = note_global e updateGlobal (FcitxInstanceGetCurrentIM s) s1;
          Some (FcitxInstanceProcessIMChangedHook (e_hooks e) (FcitxInstanceResetInput e s2)) }"

fun FcitxInstanceSwitchIMInternal ::
  "nat \<Rightarrow> env \<Rightarrow> int \<Rightarrow> bool \<Rightarrow> bool \<Rightarrow> bool \<Rightarrow> inst \<Rightarrow> inst option" where
  "FcitxInstanceSwitchIMInternal 0 e index skipZero updateGlobal userSwitchIM s = None"
| "FcitxInstanceSwitchIMInternal (Suc n) e index skipZero updateGlobal userSwitchIM s =
     (let s1 = leave_im e userSwitchIM s;
          s2 = s1 \<lparr> iIMIndex := switch_index (int (length (imes s))) index skipZero \<rparr> in
      do { s3 \<leftarrow> (case FcitxInstanceGetCurrentIM s2 of
                    None \<Rightarrow> Some s2
                  | Some m \<Rightarrow>
                      if initialized m then Some s2
                      else lazy_load
                        (update_im_list
                          (\<lambda>s. map_option snd (update_current_im (FcitxInstanceSwitchIMInternal n e) True False s)) e)
                        e m s2);
           enter_im e updateGlobal s3 })"

definition FcitxInstanceUpdateCurrentIM :: "env \<Rightarrow> bool \<Rightarrow> bool \<Rightarrow> inst \<Rightarrow> (bool \<times> inst) option" where
  "FcitxInstanceUpdateCurrentIM e force userSwitchIM s =
     update_current_im (FcitxInstanceSwitchIMInternal (e_loads e) e) force userSwitchIM s"

definition FcitxInstanceUpdateIMList :: "env \<Rightarrow> inst \<Rightarrow> inst option" where
  "FcitxInstanceUpdateIMList e s =
     update_im_list (\<lambda>s. map_option snd (FcitxInstanceUpdateCurrentIM e True False s)) e s"

text \<open>The input method that an input context would get.\<close>

definition FcitxInstanceGetIM :: "inst \<Rightarrow> ptr option \<Rightarrow> im option option" where
  "FcitxInstanceGetIM s p =
     (case p of
        None \<Rightarrow> Some None
      | Some q \<Rightarrow>
          do { g \<leftarrow> FcitxInstanceGetIMIndexByName s (globalIMName s);
               let globalIndex = (if g \<le> 0 \<and> utarray_eltptr (imes s) 1 \<noteq> None then 1 else g);
               t \<leftarrow> (if state (ic_mem s q) \<noteq> IS_ACTIVE then Some 0
                     else do { t \<leftarrow> (case imname (ic_mem s q) of
                                       None \<Rightarrow> Some 0
                                     | Some n \<Rightarrow> FcitxInstanceGetIMIndexByName s (Some n));
                               Some (if t \<le> 0 then globalIndex else t) });
               Some (fcitx_array_eltptr (imes s) t) })"

section \<open>States of input contexts\<close>

definition FcitxInstanceSetICStatus :: "env \<Rightarrow> ptr \<Rightarrow> ic_state \<Rightarrow> inst \<Rightarrow> inst" where
  "FcitxInstanceSetICStatus e p st s =
     (if state (ic_mem s p) \<noteq> st
      then FcitxInstanceProcessICStateChangedHook (e_hooks e) p (upd_ic p (\<lambda>c. c \<lparr> state := st \<rparr>) s) else s)"

definition FcitxInstanceCheckICFromSameApplication :: "env \<Rightarrow> ptr \<Rightarrow> ptr \<Rightarrow> inst \<Rightarrow> bool" where
  "FcitxInstanceCheckICFromSameApplication e r p s =
     (if frontendid (ic_mem s r) \<noteq> frontendid (ic_mem s p) then False
      else if r = p then True
      else if imname (ic_mem s r) \<noteq> None \<or> imname (ic_mem s p) \<noteq> None then False
      else (case FcitxInstanceGetPFrontend e (frontendid (ic_mem s p)) of
              None \<Rightarrow> False
            | Some fe \<Rightarrow> (case fe_CheckICFromSameApplication fe of None \<Rightarrow> False | Some f \<Rightarrow> f r p s)))"

fun for_ics :: "(ptr \<Rightarrow> inst \<Rightarrow> inst option) \<Rightarrow> ptr list \<Rightarrow> inst \<Rightarrow> inst option" where
  "for_ics f [] s = Some s"
| "for_ics f (r # rs) s = do { s' \<leftarrow> f r s; for_ics f rs s' }"

text \<open>The contexts that share the state of a context, in the loops of the three operations on states.\<close>

definition share_with :: "env \<Rightarrow> ptr \<Rightarrow> ptr \<Rightarrow> inst \<Rightarrow> bool" where
  "share_with e p r s =
     ((if shareState (config s) = ShareState_All then True else FcitxInstanceCheckICFromSameApplication e r p s)
      \<and> (r = p \<or> contextCaps (ic_mem s r) AND CAPACITY_CLIENT_SIDE_CONTROL_STATE = 0))"

definition shared_do :: "env \<Rightarrow> ptr \<Rightarrow> (ptr \<Rightarrow> inst \<Rightarrow> inst option) \<Rightarrow> inst \<Rightarrow> inst option" where
  "shared_do e p f s =
     (case shareState (config s) of
        ShareState_None \<Rightarrow> f p s
      | _ \<Rightarrow> for_ics (\<lambda>r s. if share_with e p r s then f r s else Some s) (ic_list s) s)"

definition FcitxInstanceEnableIMInternal :: "env \<Rightarrow> bool \<Rightarrow> ptr \<Rightarrow> inst \<Rightarrow> inst option" where
  "FcitxInstanceEnableIMInternal e keepState p s =
     (case FcitxInstanceGetPFrontend e (frontendid (ic_mem s p)) of
        None \<Rightarrow> Some s
      | Some fe \<Rightarrow>
         (let oldstate = state (ic_mem s p);
              s1 = FcitxInstanceSetICStatus e p IS_ACTIVE s;
              s2 = (if oldstate = IS_CLOSED then fe_EnableIM fe p s1 else s1) in
          if CurrentIC s2 = Some p then
            do { s3 \<leftarrow> (if oldstate = IS_CLOSED then FcitxUIOnTriggerOn e s2 else Some s2);
                 Some (if keepState then s3 else FcitxInstanceResetInput e s3) }
          else Some s2))"

definition set_key_released :: "key_released \<Rightarrow> inst \<Rightarrow> inst" where
  "set_key_released k = upd_input (\<lambda>i. i \<lparr> keyReleased := k \<rparr>)"

definition FcitxInstanceEnableIM :: "env \<Rightarrow> ptr option \<Rightarrow> bool \<Rightarrow> inst \<Rightarrow> inst option" where
  "FcitxInstanceEnableIM e p keepState s =
     (case p of
        None \<Rightarrow> Some s
      | Some q \<Rightarrow>
          do { s1 \<leftarrow> shared_do e q (FcitxInstanceEnableIMInternal e keepState) (s \<lparr> globalState := IS_ACTIVE \<rparr>);
               (_, s2) \<leftarrow> FcitxInstanceUpdateCurrentIM e False False s1;
               Some (set_key_released KR_OTHER s2) })"

definition FcitxInstanceCloseIMInternal :: "env \<Rightarrow> ptr \<Rightarrow> inst \<Rightarrow> inst option" where
  "FcitxInstanceCloseIMInternal e p s =
     (case FcitxInstanceGetPFrontend e (frontendid (ic_mem s p)) of
        None \<Rightarrow> Some s
      | Some fe \<Rightarrow>
         (let s1 = fe_CloseIM fe p (FcitxInstanceSetICStatus e p IS_CLOSED s) in
          Some (if CurrentIC s1 = Some p
                then FcitxInstanceResetInput e (FcitxUICloseInputWindow (FcitxUIOnTriggerOff e s1)) else s1)))"

definition FcitxInstanceChangeIMStateInternal :: "env \<Rightarrow> ic_state \<Rightarrow> bool \<Rightarrow> ptr \<Rightarrow> inst \<Rightarrow> inst option" where
  "FcitxInstanceChangeIMStateInternal e objectState withSwitchKey p s =
     (if state (ic_mem s p) = objectState then Some s
      else
        (let s1 = upd_ic p (\<lambda>c. c \<lparr> switchBySwitchKey := withSwitchKey \<rparr>) (FcitxInstanceSetICStatus e p objectState s) in
         Some (if CurrentIC s1 = Some p \<and> objectState \<noteq> IS_ACTIVE then FcitxUICloseInputWindow s1 else s1)))"

definition FcitxInstanceChangeIMStateWithKey :: "env \<Rightarrow> ptr option \<Rightarrow> bool \<Rightarrow> inst \<Rightarrow> inst option" where
  "FcitxInstanceChangeIMStateWithKey e p withSwitchKey s =
     (case p of
        None \<Rightarrow> Some s
      | Some q \<Rightarrow>
         (let objectState = (if state (ic_mem s q) = IS_INACTIVE then IS_ACTIVE else IS_INACTIVE) in
          do { s1 \<leftarrow> shared_do e q (FcitxInstanceChangeIMStateInternal e objectState withSwitchKey)
                       (s \<lparr> globalState := objectState \<rparr>);
               (_, s2) \<leftarrow> FcitxInstanceUpdateCurrentIM e False (\<not> withSwitchKey) s1;
               Some s2 }))"

definition FcitxInstanceChangeIMState :: "env \<Rightarrow> ptr option \<Rightarrow> inst \<Rightarrow> inst option" where
  "FcitxInstanceChangeIMState e p s = FcitxInstanceChangeIMStateWithKey e p False s"

definition FcitxInstanceCloseIM :: "env \<Rightarrow> ptr option \<Rightarrow> inst \<Rightarrow> inst option" where
  "FcitxInstanceCloseIM e p s =
     (case p of
        None \<Rightarrow> Some s
      | Some q \<Rightarrow>
          if contextCaps (ic_mem s q) AND CAPACITY_CLIENT_SIDE_CONTROL_STATE = 0 then
            (if state (ic_mem s q) = IS_ACTIVE then FcitxInstanceChangeIMState e p s else Some s)
          else shared_do e q (FcitxInstanceCloseIMInternal e) (s \<lparr> globalState := IS_CLOSED \<rparr>))"

section \<open>Switching\<close>

definition FcitxInstanceSetLocalIMName :: "env \<Rightarrow> ptr \<Rightarrow> buf option \<Rightarrow> inst \<Rightarrow> inst option" where
  "FcitxInstanceSetLocalIMName e p name s =
     (let s1 = upd_ic p (\<lambda>c. c \<lparr> imname := name \<rparr>) s in
      if CurrentIC s1 = Some p then map_option snd (FcitxInstanceUpdateCurrentIM e False True s1) else Some s1)"

definition wrap_index :: "int \<Rightarrow> int \<Rightarrow> int \<Rightarrow> int" where
  "wrap_index iIMCount cur index =
     (let skipZero = (index = - 3 \<or> index = - 4) in
      if index = - 2 \<or> index = - 4 then
        (if cur > 0 then (if cur - 1 = 0 \<and> skipZero then iIMCount - 1 else cur - 1) else iIMCount - 1)
      else if index = - 1 \<or> index = - 3 then
        (if cur \<ge> iIMCount - 1 then (if skipZero then 1 else 0) else cur + 1)
      else index)"

definition FcitxInstanceSwitchIMByIndex :: "env \<Rightarrow> int \<Rightarrow> inst \<Rightarrow> inst option" where
  "FcitxInstanceSwitchIMByIndex e index0 s =
     (let iIMCount = int (length (imes s)) in
      if index0 < - 4 \<or> index0 \<ge> iIMCount then Some s
      else
        (let index = wrap_index iIMCount (iIMIndex s) index0; p = FcitxInstanceGetCurrentIC s in
         do { s1 \<leftarrow> (if index = 0 then FcitxInstanceCloseIM e p s
                     else do { a \<leftarrow> (case p of None \<Rightarrow> Some s | Some q \<Rightarrow> FcitxInstanceSetLocalIMName e q None s);
                               b \<leftarrow> FcitxInstanceSwitchIMInternal (e_loads e) e index True True True a;
                               if FcitxInstanceGetCurrentState b \<noteq> IS_ACTIVE
                               then FcitxInstanceEnableIM e (FcitxInstanceGetCurrentIC b) False b else Some b });
              FcitxInstanceShowInputSpeed e False s1 }))"

definition FcitxInstanceSwitchIM :: "env \<Rightarrow> int \<Rightarrow> inst \<Rightarrow> inst option" where
  "FcitxInstanceSwitchIM e index s = FcitxInstanceSwitchIMByIndex e index s"

text \<open>The current input method is compared by the name that is shown, not by its unique name.\<close>

definition FcitxInstanceSwitchIMByName :: "env \<Rightarrow> buf \<Rightarrow> inst \<Rightarrow> inst option" where
  "FcitxInstanceSwitchIMByName e name s =
     (if FcitxInstanceGetIMFromIMList s IMAS_Enable name = None then Some s
      else if FcitxInstanceGetCurrentIC s \<noteq> None then
        (if (case FcitxInstanceGetCurrentIM s of None \<Rightarrow> False | Some m \<Rightarrow> strcmp (strName m) name = 0) then Some s
         else do { idx \<leftarrow> FcitxInstanceGetIMIndexByName s (Some name);
                   if idx < 0 then Some s else FcitxInstanceSwitchIMByIndex e idx s })
      else Some (FcitxInstanceSetDelayedIM (Some name) s))"

definition IMMenuAction :: "env \<Rightarrow> int \<Rightarrow> inst \<Rightarrow> inst option" where
  "IMMenuAction e index s =
     (case FcitxInstanceGetIMByIndex s index of
        None \<Rightarrow> Some s
      | Some m \<Rightarrow> FcitxInstanceSwitchIMByName e (uniqueName m) s)"

definition FcitxUIOnInputFocus :: "env \<Rightarrow> inst \<Rightarrow> inst option" where
  "FcitxUIOnInputFocus e s =
     (let s1 = FcitxInstanceResetInput e
                 (FcitxInstanceProcessInputFocusHook (e_hooks e) (ui_call e ui_OnInputFocus s)) in
      do { (changed, s2) \<leftarrow>
             (case (if lastIC s1 = CurrentIC s1 then delayedIM s1 else None) of
                Some name \<Rightarrow> map_option (Pair True) (FcitxInstanceSwitchIMByName e name s1)
              | None \<Rightarrow> FcitxInstanceUpdateCurrentIM e False False s1);
           if bShowInputWindowWhenFocusIn (config s2) \<and> changed then FcitxInstanceShowInputSpeed e False s2
           else Some (FcitxUICloseInputWindow s2) })"

end
