(* ===== verification/FrontendIC.thy ===== *)
theory FrontendIC
  imports ImSwitch
begin

text \<open>
  The input contexts of an instance: \<open>src/lib/fcitx/frontend.c\<close> without the loading of frontends. The
  list of contexts is \<open>ic_list\<close>; a destroyed context goes to \<open>free_list\<close>, from where it is taken again,
  and keeps its content meanwhile. Modules keep one pointer per context and registration, in \<open>data\<close>.
  The loops run over the list as it is when they start, and the callbacks of modules do not register.
\<close>

abbreviation CAPACITY_SURROUNDING_TEXT :: uint32 where "CAPACITY_SURROUNDING_TEXT \<equiv> 64"

section \<open>Data of modules\<close>

fun alloc_data :: "env \<Rightarrow> ic_data_info list \<Rightarrow> inst \<Rightarrow> ptr list \<times> inst" where
  "alloc_data e [] s = ([], s)"
| "alloc_data e (i # is) s =
     (let (d, s1) = (if di_alloc i = 0 then (0, s) else e_alloc e (di_alloc i) (di_arg i) s);
          (ds, s2) = alloc_data e is s1
      in (d # ds, s2))"

definition FillICData :: "env \<Rightarrow> ptr \<Rightarrow> inst \<Rightarrow> inst" where
  "FillICData e p s =
     (let (ds, s1) = alloc_data e (drop (length (data (ic_mem s p))) (icdata s)) s
      in upd_ic p (\<lambda>c. c \<lparr> data := data c @ ds \<rparr>) s1)"

definition NewICData :: "env \<Rightarrow> ptr \<Rightarrow> inst \<Rightarrow> inst" where
  "NewICData e p s = FillICData e p (upd_ic p (\<lambda>c. c \<lparr> data := [] \<rparr>) s)"

text \<open>More data than registrations would read behind the end of the array.\<close>

fun free_data :: "env \<Rightarrow> ptr list \<Rightarrow> ic_data_info list \<Rightarrow> inst \<Rightarrow> inst option" where
  "free_data e [] is s = Some s"
| "free_data e (d # ds) [] s = None"
| "free_data e (d # ds) (i # is) s =
     free_data e ds is (if di_free i = 0 then s else e_free e (di_free i) (di_arg i) d s)"

definition FreeICData :: "env \<Rightarrow> ptr \<Rightarrow> inst \<Rightarrow> inst option" where
  "FreeICData e p s = free_data e (data (ic_mem s p)) (icdata s) s"

definition FcitxInstanceGetICData :: "inst \<Rightarrow> ptr option \<Rightarrow> int \<Rightarrow> ptr" where
  "FcitxInstanceGetICData s p icdataid =
     (case p of
        None \<Rightarrow> 0
      | Some q \<Rightarrow> (case fcitx_array_eltptr (data (ic_mem s q)) icdataid of None \<Rightarrow> 0 | Some d \<Rightarrow> d))"

definition FcitxInstanceSetICDataInternal :: "env \<Rightarrow> ptr \<Rightarrow> int \<Rightarrow> ptr \<Rightarrow> bool \<Rightarrow> inst \<Rightarrow> inst" where
  "FcitxInstanceSetICDataInternal e p icdataid newdata copy s =
     (case (fcitx_array_eltptr (icdata s) icdataid, fcitx_array_eltptr (data (ic_mem s p)) icdataid) of
        (Some info, Some old) \<Rightarrow>
          (let set = (\<lambda>d. upd_ic p (\<lambda>c. c \<lparr> data := (data c)[nat icdataid := d] \<rparr>)) in
           if copy then
             (if di_copy info \<noteq> 0
              then let (d, s1) = e_copy e (di_copy info) (di_arg info) old newdata s in set d s1
              else s)
           else set newdata s)
      | _ \<Rightarrow> s)"

definition FcitxInstanceSetICData :: "env \<Rightarrow> ptr option \<Rightarrow> int \<Rightarrow> ptr \<Rightarrow> inst \<Rightarrow> inst" where
  "FcitxInstanceSetICData e p icdataid newdata s =
     (case p of
        None \<Rightarrow> s
      | Some q \<Rightarrow>
          (if shareState (config s) = ShareState_None
           then FcitxInstanceSetICDataInternal e q icdataid newdata False s
           else foldl (\<lambda>s r.
                  if shareState (config s) = ShareState_All \<or> FcitxInstanceCheckICFromSameApplication e r q s
                  then FcitxInstanceSetICDataInternal e r icdataid newdata (r \<noteq> q) s else s) s (ic_list s)))"

definition FcitxInstanceAllocDataForIC :: "env \<Rightarrow> ic_data_info \<Rightarrow> inst \<Rightarrow> int \<times> inst" where
  "FcitxInstanceAllocDataForIC e info s =
     (let s1 = s \<lparr> icdata := utarray_push_back (icdata s) info \<rparr>;
          s2 = foldl (\<lambda>s r. FillICData e r s) s1 (ic_list s1)
      in (int (length (icdata s2)) - 1, s2))"

section \<open>Creating and destroying\<close>

definition zero_ic :: "int \<Rightarrow> ic" where
  "zero_ic fid = \<lparr> state = IS_CLOSED, offset_x = - 1, offset_y = - 1, frontendid = fid, contextCaps = 0,
     imname = None, switchBySwitchKey = False, data = [], prgname = None, mayUsePreedit = Tri_Unknown \<rparr>"

text \<open>A context whose process is gone is destroyed; its frontend is not checked.\<close>

definition forget_current :: "env \<Rightarrow> inst \<Rightarrow> inst" where
  "forget_current e s =
     snd (FcitxInstanceSetCurrentIC e None (FcitxUIOnInputUnFocus e (FcitxUICloseInputWindow s)))"

definition clean_up_one :: "env \<Rightarrow> ptr \<Rightarrow> inst \<Rightarrow> inst option" where
  "clean_up_one e r s =
     (case FcitxInstanceGetPFrontend e (frontendid (ic_mem s r)) of
        None \<Rightarrow> None
      | Some fe \<Rightarrow>
         (let pid = (case fe_GetPid fe of None \<Rightarrow> 0 | Some f \<Rightarrow> f r s) in
          if pid \<noteq> 0 \<and> \<not> e_pids e pid then
            do { s1 \<leftarrow> FreeICData e r (fe_DestroyIC fe r
                        (s \<lparr> ic_list := remove1 r (ic_list s), free_list := r # free_list s \<rparr>));
                 let s2 = (if lastIC s1 = Some r then FcitxInstanceSetLastIC None s1 else s1);
                 Some (if CurrentIC s2 = Some r then forget_current e (s2 \<lparr> CurrentIC := None \<rparr>) else s2) }
          else Some s))"

definition FcitxInstanceCleanUpIC :: "env \<Rightarrow> inst \<Rightarrow> inst option" where
  "FcitxInstanceCleanUpIC e s = for_ics (clean_up_one e) (ic_list s) s"

definition take_block :: "inst \<Rightarrow> ptr \<times> inst" where
  "take_block s =
     (case free_list s of
        r # rs \<Rightarrow> (r, s \<lparr> free_list := rs \<rparr>)
      | [] \<Rightarrow> (ic_brk s, s \<lparr> ic_brk := ic_brk s + 1 \<rparr>))"

definition FcitxInstanceCreateIC :: "env \<Rightarrow> int \<Rightarrow> ptr \<Rightarrow> inst \<Rightarrow> (ptr option \<times> inst) option" where
  "FcitxInstanceCreateIC e fid priv s =
     do { s1 \<leftarrow> FcitxInstanceCleanUpIC e s;
          Some (case FcitxInstanceGetPFrontend e fid of
             None \<Rightarrow> (None, s1)
           | Some fe \<Rightarrow>
              (let (r, s2) = take_block s1;
                   s3 = NewICData e r (upd_ic r (\<lambda>_. zero_ic fid) s2);
                   st = (if shareState (config s3) = ShareState_All then globalState s3 else defaultIMState (config s3));
                   s4 = fe_CreateIC fe r priv (upd_ic r (\<lambda>c. c \<lparr> state := st \<rparr>) s3)
               in (Some r, s4 \<lparr> ic_list := r # ic_list s4 \<rparr>))) }"

definition FcitxInstanceFindIC :: "env \<Rightarrow> int \<Rightarrow> ptr \<Rightarrow> inst \<Rightarrow> ptr option" where
  "FcitxInstanceFindIC e fid filter' s =
     (case FcitxInstanceGetPFrontend e fid of
        None \<Rightarrow> None
      | Some fe \<Rightarrow> find (\<lambda>r. frontendid (ic_mem s r) = fid \<and> fe_CheckIC fe r filter' s) (ic_list s))"

definition FcitxInstanceSetICStateFromSameApplication :: "env \<Rightarrow> int \<Rightarrow> ptr \<Rightarrow> inst \<Rightarrow> inst" where
  "FcitxInstanceSetICStateFromSameApplication e fid p s =
     (case FcitxInstanceGetPFrontend e fid of
        None \<Rightarrow> s
      | Some fe \<Rightarrow>
         (case fe_CheckICFromSameApplication fe of
            None \<Rightarrow> s
          | Some f \<Rightarrow>
             (case find (\<lambda>r. frontendid (ic_mem s r) = fid \<and> f r p s) (ic_list s) of
                None \<Rightarrow> s
              | Some r \<Rightarrow> upd_ic p (\<lambda>c. c \<lparr> state := state (ic_mem s r) \<rparr>) s)))"

definition FcitxInstanceDestroyIC :: "env \<Rightarrow> int \<Rightarrow> ptr \<Rightarrow> inst \<Rightarrow> inst option" where
  "FcitxInstanceDestroyIC e fid filter' s =
     (case FcitxInstanceGetPFrontend e fid of
        None \<Rightarrow> Some s
      | Some fe \<Rightarrow>
         (case find (\<lambda>r. frontendid (ic_mem s r) = fid \<and> fe_CheckIC fe r filter' s) (ic_list s) of
            None \<Rightarrow> Some s
          | Some r \<Rightarrow>
             (let s1 = s \<lparr> ic_list := remove1 r (ic_list s), free_list := r # free_list s \<rparr>;
                  s2 = (if lastIC s1 = Some r then FcitxInstanceSetLastIC None s1 else s1);
                  s3 = (if FcitxInstanceGetCurrentIC s2 = Some r then forget_current e s2 else s2)
              in FreeICData e r (fe_DestroyIC fe r s3))))"

section \<open>What a frontend offers\<close>

definition FcitxInstanceGetSurroundingText :: "env \<Rightarrow> ptr option \<Rightarrow> inst \<Rightarrow> (buf \<times> uint32 \<times> uint32) option" where
  "FcitxInstanceGetSurroundingText e p s =
     (case p of
        None \<Rightarrow> None
      | Some q \<Rightarrow>
          if contextCaps (ic_mem s q) AND CAPACITY_SURROUNDING_TEXT = 0 then None
          else (case FcitxInstanceGetPFrontend e (frontendid (ic_mem s q)) of
                  None \<Rightarrow> None
                | Some fe \<Rightarrow>
                   (case fe_GetSurroundingPreedit fe of
                      None \<Rightarrow> None
                    | Some f \<Rightarrow> (let (ok, t, cursor, anchor) = f q s in if ok then Some (t, cursor, anchor) else None))))"

definition FcitxInstanceDeleteSurroundingText :: "env \<Rightarrow> ptr option \<Rightarrow> int \<Rightarrow> uint32 \<Rightarrow> inst \<Rightarrow> inst" where
  "FcitxInstanceDeleteSurroundingText e p offset n s =
     (case p of
        None \<Rightarrow> s
      | Some q \<Rightarrow>
         (case FcitxInstanceGetPFrontend e (frontendid (ic_mem s q)) of
            None \<Rightarrow> s
          | Some fe \<Rightarrow> (case fe_DeleteSurroundingText fe of None \<Rightarrow> s | Some f \<Rightarrow> f q offset n s)))"

definition FcitxInstanceSetWindowOffset :: "env \<Rightarrow> ptr \<Rightarrow> int \<Rightarrow> int \<Rightarrow> inst \<Rightarrow> inst" where
  "FcitxInstanceSetWindowOffset e q x y s =
     (case FcitxInstanceGetPFrontend e (frontendid (ic_mem s q)) of
        None \<Rightarrow> s
      | Some fe \<Rightarrow> (case fe_SetWindowOffset fe of None \<Rightarrow> s | Some f \<Rightarrow> f q x y s))"

definition FcitxInstanceGetWindowRect :: "env \<Rightarrow> ptr option \<Rightarrow> inst \<Rightarrow> (int \<times> int \<times> int \<times> int) option" where
  "FcitxInstanceGetWindowRect e p s =
     (case p of
        None \<Rightarrow> None
      | Some q \<Rightarrow>
         (case FcitxInstanceGetPFrontend e (frontendid (ic_mem s q)) of
            None \<Rightarrow> None
          | Some fe \<Rightarrow> map_option (\<lambda>f. f q s) (fe_GetWindowRect fe)))"

definition FcitxInstanceGetWindowPosition :: "env \<Rightarrow> ptr option \<Rightarrow> inst \<Rightarrow> (int \<times> int) option" where
  "FcitxInstanceGetWindowPosition e p s =
     map_option (\<lambda>(x, y, w, h). (x, y + h)) (FcitxInstanceGetWindowRect e p s)"

end
