(* ===== verification/Quiet.thy ===== *)
theory Quiet
  imports ImSwitch
begin

text \<open>
  What the theorems on switching ask of the code that is not part of the program: input methods,
  modules, frontends and user interfaces may change the input state, the windows, the timers and the
  contexts, but when they are called back they leave alone the lists of input methods, the input
  contexts and the configuration; loading an addon only registers input methods. Every operation of the
  model that calls them then keeps the same fields.
\<close>

section \<open>Steps that keep the core of the state\<close>

definition core where
  "core s = (imes s, availimes s, imLoaded s, iIMIndex s, globalIMName s, ic_mem s, ic_list s, CurrentIC s, config s)"

definition ctx_ok :: "inst \<Rightarrow> bool" where
  "ctx_ok s \<longleftrightarrow> contexts_ok (ctx s)
     \<and> (\<forall>c. hash_find (contexts (ctx s)) CONTEXT_IM_LANGUAGE = Some c \<longrightarrow> cx_type c = FCT_String)"

definition same_core :: "inst \<Rightarrow> inst \<Rightarrow> bool" where
  "same_core s t \<longleftrightarrow> core t = core s \<and> (ctx_ok s \<longrightarrow> ctx_ok t)"

named_theorems quiet_intros \<open>operations that keep the core\<close>

lemma same_core_refl [quiet_intros]: "same_core s s"
  by (simp add: same_core_def)

lemma same_core_trans: "same_core s t \<Longrightarrow> same_core t u \<Longrightarrow> same_core s u"
  by (simp add: same_core_def)

lemma same_coreD:
  assumes "same_core s t"
  shows "imes t = imes s" "availimes t = availimes s" "imLoaded t = imLoaded s" "iIMIndex t = iIMIndex s"
    "globalIMName t = globalIMName s" "ic_mem t = ic_mem s" "ic_list t = ic_list s" "CurrentIC t = CurrentIC s"
    "config t = config s" "ctx_ok s \<Longrightarrow> ctx_ok t"
  using assms by (simp_all add: same_core_def core_def)

lemma core_update:
  "core (t \<lparr> input := i \<rparr>) = core t" "core (t \<lparr> eventflag := a \<rparr>) = core t" "core (t \<lparr> timeStart := b \<rparr>) = core t"
  "core (t \<lparr> totaltime := b \<rparr>) = core t" "core (t \<lparr> iHZInputed := b \<rparr>) = core t"
  "core (t \<lparr> globalState := g \<rparr>) = core t" "core (t \<lparr> timeoutIdx := j \<rparr>) = core t"
  "core (t \<lparr> timeout := ts \<rparr>) = core t" "core (t \<lparr> profile := p \<rparr>) = core t" "core (t \<lparr> saved := sv \<rparr>) = core t"
  by (simp_all add: core_def)

lemma ctx_ok_update:
  "ctx_ok (t \<lparr> input := i \<rparr>) = ctx_ok t" "ctx_ok (t \<lparr> eventflag := a \<rparr>) = ctx_ok t"
  "ctx_ok (t \<lparr> timeStart := b \<rparr>) = ctx_ok t" "ctx_ok (t \<lparr> totaltime := b \<rparr>) = ctx_ok t"
  "ctx_ok (t \<lparr> iHZInputed := b \<rparr>) = ctx_ok t" "ctx_ok (t \<lparr> globalState := g \<rparr>) = ctx_ok t"
  "ctx_ok (t \<lparr> timeoutIdx := j \<rparr>) = ctx_ok t" "ctx_ok (t \<lparr> timeout := ts \<rparr>) = ctx_ok t"
  "ctx_ok (t \<lparr> profile := p \<rparr>) = ctx_ok t" "ctx_ok (t \<lparr> saved := sv \<rparr>) = ctx_ok t"
  "ctx_ok (t \<lparr> iIMIndex := k \<rparr>) = ctx_ok t" "ctx_ok (t \<lparr> globalIMName := n \<rparr>) = ctx_ok t"
  "ctx_ok (t \<lparr> ic_mem := m \<rparr>) = ctx_ok t" "ctx_ok (t \<lparr> availimes := av \<rparr>) = ctx_ok t"
  "ctx_ok (t \<lparr> imes := av \<rparr>) = ctx_ok t" "ctx_ok (t \<lparr> unusedItem := u \<rparr>) = ctx_ok t"
  by (simp_all add: ctx_ok_def)

lemma same_core_upd_input [quiet_intros]: "same_core s t \<Longrightarrow> same_core s (upd_input f t)"
  unfolding same_core_def upd_input_def core_update ctx_ok_update .

lemma same_core_fields [quiet_intros]:
  "same_core s t \<Longrightarrow> same_core s (t \<lparr> eventflag := a \<rparr>)"
  "same_core s t \<Longrightarrow> same_core s (t \<lparr> timeStart := b \<rparr>)"
  "same_core s t \<Longrightarrow> same_core s (t \<lparr> totaltime := b \<rparr>)"
  "same_core s t \<Longrightarrow> same_core s (t \<lparr> iHZInputed := b \<rparr>)"
  "same_core s t \<Longrightarrow> same_core s (t \<lparr> globalState := g \<rparr>)"
  "same_core s t \<Longrightarrow> same_core s (t \<lparr> timeoutIdx := i \<rparr>)"
  "same_core s t \<Longrightarrow> same_core s (t \<lparr> timeout := ts \<rparr>)"
  "same_core s t \<Longrightarrow> same_core s (t \<lparr> profile := p \<rparr>)"
  "same_core s t \<Longrightarrow> same_core s (t \<lparr> saved := sv \<rparr>)"
  unfolding same_core_def core_update ctx_ok_update by assumption+

section \<open>Quiet environments\<close>

definition quiet :: "(inst \<Rightarrow> inst) \<Rightarrow> bool" where
  "quiet f \<longleftrightarrow> (\<forall>s. same_core s (f s))"

lemma quietD: "quiet f \<Longrightarrow> same_core s t \<Longrightarrow> same_core s (f t)"
  using same_core_trans by (auto simp: quiet_def)

definition quiet_hooks :: "inst hooks \<Rightarrow> bool" where
  "quiet_hooks h \<longleftrightarrow>
     (\<forall>f\<in>set (hookResetInputHook h) \<union> set (hookTriggerOnHook h) \<union> set (hookTriggerOffHook h)
        \<union> set (hookInputFocusHook h) \<union> set (hookInputUnFocusHook h) \<union> set (hookIMChangedHook h)
        \<union> set (hookUpdateIMListHook h) \<union> set (hookUpdateCandidateWordHook h). quiet f)
     \<and> (\<forall>f\<in>set (hookICStateChangedHook h). \<forall>p. quiet (f p))"

definition quiet_frontend :: "inst frontend \<Rightarrow> bool" where
  "quiet_frontend fe \<longleftrightarrow>
     (\<forall>p. quiet (fe_EnableIM fe p)) \<and> (\<forall>p. quiet (fe_CloseIM fe p)) \<and> (\<forall>p t. quiet (fe_CommitString fe p t))
     \<and> (\<forall>f r p s s'. fe_CheckICFromSameApplication fe = Some f \<longrightarrow> f r p s = f r p s')"

definition quiet_ui :: "inst ui \<Rightarrow> bool" where
  "quiet_ui u \<longleftrightarrow>
     (\<forall>f. ui_OnInputFocus u = Some f \<longrightarrow> quiet f) \<and> (\<forall>f. ui_OnTriggerOn u = Some f \<longrightarrow> quiet f)
     \<and> (\<forall>f. ui_OnTriggerOff u = Some f \<longrightarrow> quiet f)"

text \<open>One registration, as a library makes it when it is created.\<close>

record registration =
  rg_class :: ptr
  rg_unique :: buf
  rg_name :: buf
  rg_icon :: buf
  rg_iface :: im_iface
  rg_priority :: int
  rg_lang :: "buf option"

definition register_all :: "registration list \<Rightarrow> inst \<Rightarrow> inst" where
  "register_all rs s =
     foldl (\<lambda>s r. FcitxInstanceRegisterIMv2 s (rg_class r) (rg_unique r) (rg_name r) (rg_icon r) (rg_iface r)
                    (rg_priority r) (rg_lang r)) s rs"

definition loads_register :: "env \<Rightarrow> bool" where
  "loads_register e \<longleftrightarrow> (\<forall>addon s. \<exists>t rs. same_core s t \<and> e_load e addon s = register_all rs t)"

definition quiet_env :: "env \<Rightarrow> bool" where
  "quiet_env e \<longleftrightarrow>
     quiet_hooks (e_hooks e) \<and> (\<forall>fe\<in>set (e_frontends e). quiet_frontend fe)
     \<and> (\<forall>u. e_ui e = Some u \<longrightarrow> quiet_ui u) \<and> (\<forall>f k. quiet (e_call e f k)) \<and> (\<forall>f k ev. quiet (e_close e f k ev))
     \<and> (\<forall>f k. quiet (\<lambda>s. snd (e_name e f k s))) \<and> loads_register e"

lemma quiet_envD:
  assumes "quiet_env e"
  shows "quiet_hooks (e_hooks e)" "fe \<in> set (e_frontends e) \<Longrightarrow> quiet_frontend fe" "e_ui e = Some u \<Longrightarrow> quiet_ui u"
    "quiet (e_call e f k)" "quiet (e_close e f k ev)" "quiet (\<lambda>s. snd (e_name e f k s))" "loads_register e"
  using assms by (auto simp: quiet_env_def)

section \<open>Operations in a quiet environment\<close>

lemma same_core_events:
  "\<forall>f\<in>set fs. quiet f \<Longrightarrow> same_core s t \<Longrightarrow> same_core s (run_events fs t)"
  unfolding run_events_def by (induction fs arbitrary: t) (auto intro: quietD)

lemma same_core_hooks [quiet_intros]:
  assumes "quiet_hooks h" and "same_core s t"
  shows "same_core s (FcitxInstanceProcessResetInputHook h t)" "same_core s (FcitxInstanceProcessIMChangedHook h t)"
    "same_core s (FcitxInstanceProcessUpdateIMListHook h t)" "same_core s (FcitxInstanceProcessTriggerOnHook h t)"
    "same_core s (FcitxInstanceProcessTriggerOffHook h t)" "same_core s (FcitxInstanceProcessInputFocusHook h t)"
    "same_core s (FcitxInstanceProcessUpdateCandidates h t)"
    "same_core s (FcitxInstanceProcessICStateChangedHook h p t)"
  using assms
  by (auto simp: quiet_hooks_def FcitxInstanceProcessResetInputHook_def FcitxInstanceProcessIMChangedHook_def
      FcitxInstanceProcessUpdateIMListHook_def FcitxInstanceProcessTriggerOnHook_def
      FcitxInstanceProcessTriggerOffHook_def FcitxInstanceProcessInputFocusHook_def
      FcitxInstanceProcessUpdateCandidates_def FcitxInstanceProcessICStateChangedHook_def intro!: same_core_events)

lemma same_core_im_call [quiet_intros]:
  assumes "quiet_env e" and "same_core s t"
  shows "same_core s (im_call e sel m t)" "same_core s (im_close e m ev t)"
  using assms by (auto simp: im_call_def im_close_def intro: quietD quiet_envD split: option.split)

lemma same_core_windows [quiet_intros]:
  assumes "same_core s t"
  shows "same_core s (FcitxInstanceCleanInputWindow t)" "same_core s (FcitxUIUpdateInputWindow t)"
    "same_core s (FcitxUICloseInputWindow t)" "same_core s (FcitxProfileSave e t)"
    "same_core s (set_key_released k t)" "same_core s (HideInputSpeed t)"
  using assms
  by (auto simp: FcitxInstanceCleanInputWindow_def FcitxInstanceCleanInputWindowUp_def
      FcitxInstanceCleanInputWindowDown_def FcitxUIUpdateInputWindow_def FcitxUICloseInputWindow_def Let_def
      FcitxProfileSave_def set_key_released_def HideInputSpeed_def intro!: quiet_intros)

lemma same_core_reset [quiet_intros]:
  assumes "quiet_env e" and "same_core s t"
  shows "same_core s (FcitxInstanceResetInput e t)"
  using assms by (auto simp: FcitxInstanceResetInput_def Let_def intro!: quiet_intros quiet_envD)

lemma same_core_ui_call [quiet_intros]:
  assumes "quiet_env e" and "same_core s t"
  shows "same_core s (ui_call e ui_OnTriggerOn t)" "same_core s (ui_call e ui_OnTriggerOff t)"
    "same_core s (ui_call e ui_OnInputFocus t)"
  using assms quiet_envD(3) [OF assms(1)]
  by (auto simp: ui_call_def quiet_ui_def intro: quietD split: option.split)

lemma same_core_timeout [quiet_intros]:
  "same_core s t \<Longrightarrow> same_core s (snd (FcitxInstanceAddTimeout now milli back arg t))"
  by (auto simp: FcitxInstanceAddTimeout_def Let_def intro!: quiet_intros)

lemma same_core_leave [quiet_intros]:
  assumes "quiet_env e" and "same_core s t"
  shows "same_core s (leave_im e user t)"
  using assms by (auto simp: leave_im_def Let_def intro!: quiet_intros)

lemma add_strings_Some: "\<exists>m'. FcitxMessagesAddMessageVStringAtLast m ty strs = Some m'"
  by (simp add: FcitxMessagesAddMessageVStringAtLast_def FcitxMessagesSetMessageStringsReal_def cat_limited)

lemma add_text_Some: "\<exists>m'. FcitxMessagesAddMessageAtLast m ty t = Some m'"
  by (simp add: FcitxMessagesAddMessageAtLast_def FcitxMessagesSetMessageV_def)

lemma add_msg_Some: "\<exists>m'. add_msg ty t m = Some m'"
  by (simp add: add_msg_def add_strings_Some)

lemma bind_Some_intro:
  assumes "\<exists>x. a = Some x \<and> P x" and "\<And>x. P x \<Longrightarrow> \<exists>y. f x = Some y \<and> Q y"
  shows "\<exists>y. Option.bind a f = Some y \<and> Q y"
  using assms by auto

lemma msg_bind:
  assumes "\<And>m. \<exists>m'. f m = Some m' \<and> Q m'"
  shows "\<exists>m'. Option.bind (add_msg ty t m0) f = Some m' \<and> Q m'"
    "\<exists>m'. Option.bind (FcitxMessagesAddMessageAtLast m0 ty t) f = Some m' \<and> Q m'"
  using assms add_msg_Some [of ty t m0] add_text_Some [of m0 ty t] by auto

lemma speed_messages_Some: "\<exists>m'. speed_messages e s m = Some m' \<and> True"
  unfolding speed_messages_def Let_def by (intro msg_bind) (simp add: add_text_Some)

lemma same_core_name:
  assumes "quiet_env e" and "same_core s t"
    and "(if f = 0 then (None, t) else e_name e f k t) = (sub, u)"
  shows "same_core s u"
  using assms quietD [OF quiet_envD(6) [OF assms(1), of f k] assms(2)] by (auto split: if_splits)

text \<open>Showing the input speed never fails.\<close>

lemma show_im_info:
  assumes q: "quiet_env e" and c: "same_core s t"
  shows "\<exists>u. show_im_info e m t = Some u \<and> same_core s u"
  unfolding show_im_info_def Let_def
proof (rule bind_Some_intro [where P = "\<lambda>_. True"], goal_cases)
  case 1
  show ?case using add_msg_Some [of MSG_TIPS "e_version e" "msgAuxUp (input t)"] by auto
next
  case (2 up1)
  show ?case
  proof (rule msg_bind, goal_cases)
    case (1 up2)
    define s2 where "s2 = upd_input (\<lambda>i. i \<lparr> msgAuxUp := up2 \<rparr>) t"
    obtain sub s3 where 3: "(if if_GetSubModeName (iface m) = 0 then (None, s2)
        else e_name e (if_GetSubModeName (iface m)) (klass m) s2) = (sub, s3)" by (meson surj_pair)
    have "same_core s s2" using c by (simp add: s2_def quiet_intros)
    then have c3: "same_core s s3" using same_core_name [OF q _ 3] by blast
    show ?case
      unfolding s2_def [symmetric] 3 prod.case
    proof (rule bind_Some_intro [where P = "\<lambda>_. True"], goal_cases)
      case 1
      show ?case using add_strings_Some by (cases sub) auto
    next
      case (2 up3)
      show ?case
      proof (rule bind_Some_intro [where P = "\<lambda>_. True"], goal_cases)
        case 1
        show ?case using speed_messages_Some by auto
      next
        case (2 down)
        have "same_core s (FcitxUIUpdateInputWindow (upd_input (\<lambda>i. i \<lparr> msgAuxDown := down \<rparr>)
            (upd_input (\<lambda>i. i \<lparr> msgAuxUp := up3 \<rparr>) s3)))"
          using c3 by (intro quiet_intros)
        then show ?case by (auto intro: quiet_intros)
      qed
    qed
  qed
qed

lemma show_speed:
  assumes q: "quiet_env e" and c: "same_core s t"
  shows "\<exists>u. FcitxInstanceShowInputSpeed e force t = Some u \<and> same_core s u"
proof -
  have "same_core s (FcitxInstanceCleanInputWindow (upd_input (\<lambda>i. i \<lparr> bShowCursor := False \<rparr>) t))"
    using c by (intro quiet_intros)
  then show ?thesis
    using c show_im_info [OF q] by (auto simp: FcitxInstanceShowInputSpeed_def Let_def split: option.split)
qed

end
