(* ===== verification/ImList_Laws.thy ===== *)
theory ImList_Laws
  imports ImList
begin

text \<open>
  The list of input methods: the order that \<open>FcitxInstanceUpdateIMList\<close> gives it, and that the profile
  restores it.
\<close>

section \<open>Order and search\<close>

interpretation im_priority: comparator IMPriorityCmp
proof
  fix a b c :: im
  show "sgn (IMPriorityCmp b a) = - sgn (IMPriorityCmp a b)"
    by (auto simp: IMPriorityCmp_def Let_def strcmp_swap [of "uniqueName b"] sgn_if)
  show "IMPriorityCmp a b \<le> 0 \<Longrightarrow> IMPriorityCmp b c \<le> 0 \<Longrightarrow> IMPriorityCmp a c \<le> 0"
    by (auto simp: IMPriorityCmp_def Let_def intro: strcmp_trans split: if_splits)
qed

lemma mset_sorted_ims [simp]: "mset (insertion_sort IMPriorityCmp ms) = mset ms"
  and srt_sorted_ims: "sorted_wrt (\<lambda>a b. IMPriorityCmp a b \<le> 0) (insertion_sort IMPriorityCmp ms)"
  using im_priority.insertion_sort_stable [of ms] by (auto simp: im_priority.stable_sorted_def)

lemma set_sorted_ims [simp]: "set (insertion_sort IMPriorityCmp ms) = set ms"
  by (metis mset_sorted_ims set_mset_mset)

lemma sorted_priorities: "sorted (map iPriority (insertion_sort IMPriorityCmp ms))"
  unfolding sorted_wrt_map
  by (rule sorted_wrt_mono_rel [OF _ srt_sorted_ims]) (auto simp: IMPriorityCmp_def Let_def split: if_splits)

lemma find_im_Some: "find_im ms n = Some i \<Longrightarrow> i < length ms \<and> uniqueName (ms ! i) = n"
  by (induction ms arbitrary: i) (auto simp: strcmp_eq nth_Cons' split: if_splits)

lemma find_im_None: "find_im ms n = None \<longleftrightarrow> n \<notin> uniqueName ` set ms"
  by (induction ms) (auto simp: strcmp_eq)

lemma find_im_member:
  assumes "m \<in> set ms" and "distinct (map uniqueName ms)"
  obtains i where "find_im ms (uniqueName m) = Some i" and "ms ! i = m"
proof -
  have "find_im ms (uniqueName m) \<noteq> None" using assms(1) by (auto simp: find_im_None)
  then obtain i where i: "find_im ms (uniqueName m) = Some i" by auto
  from find_im_Some [OF i] have "i < length ms" "uniqueName (ms ! i) = uniqueName m" by auto
  then have "ms ! i = m"
    using assms by (metis (no_types, lifting) in_set_conv_nth length_map nth_map distinct_conv_nth)
  with i that show ?thesis by blast
qed

lemma distinct_sorted_names [simp]:
  "distinct (map uniqueName (insertion_sort IMPriorityCmp ms)) \<longleftrightarrow> distinct (map uniqueName ms)"
  by (metis mset_map mset_sorted_ims mset_eq_imp_distinct_iff)

section \<open>The items of the profile\<close>

definition item_name :: "buf \<Rightarrow> buf" where
  "item_name str = takeWhile (\<lambda>c. c \<noteq> 0x3a) str"

definition item_on :: "buf \<Rightarrow> bool" where
  "item_on str \<longleftrightarrow> drop (length (item_name str) + 1) str = ascii ''True''"

text \<open>The input methods that an item enables, and whether the item stays in the profile.\<close>

definition item_ims :: "im list \<Rightarrow> buf \<Rightarrow> im list" where
  "item_ims avail str =
     (if 0x3a \<in> set str \<and> item_on str
      then (case find_im avail (item_name str) of Some i \<Rightarrow> [avail ! i] | None \<Rightarrow> []) else [])"

definition item_known :: "im list \<Rightarrow> buf \<Rightarrow> bool" where
  "item_known avail str \<longleftrightarrow> 0x3a \<notin> set str \<or> find_im avail (item_name str) \<noteq> None"

fun item_unused :: "im list \<Rightarrow> buf list \<Rightarrow> (buf, bool) uthash \<Rightarrow> (buf, bool) uthash" where
  "item_unused avail [] unused = unused"
| "item_unused avail (str # strs) unused =
     item_unused avail strs
       (if item_known avail str \<or> hash_find unused (item_name str) \<noteq> None then unused
        else hash_add unused (item_name str) (item_on str))"

lemma item_name_plain: "0x3a \<notin> set str \<Longrightarrow> item_name str = str"
  by (auto simp: item_name_def takeWhile_eq_all_conv)

lemma im_items_eq:
  "im_items avail l ims unused =
     (map item_name l, filter (item_known avail) l, ims @ concat (map (item_ims avail) l), item_unused avail l unused)"
proof (induction l arbitrary: ims unused)
  case (Cons str l)
  show ?case
  proof (cases "0x3a \<in> set str")
    case True
    then show ?thesis
      by (cases "find_im avail (item_name str)")
         (auto simp: Let_def Cons.IH item_name_def [symmetric] item_on_def strcmp_eq item_ims_def
            item_known_def utarray_push_back_def)
  qed (simp add: Cons.IH item_known_def item_ims_def item_name_plain)
qed simp

section \<open>The second loop\<close>

definition listed_by :: "buf list \<Rightarrow> im \<Rightarrow> bool" where
  "listed_by l m \<longleftrightarrow> IMIsInIMNameList (map item_name l) m"

definition put_second :: "'a list \<Rightarrow> 'a list \<Rightarrow> 'a list" where
  "put_second base xs = (case base of [] \<Rightarrow> [] | b # bs \<Rightarrow> b # xs @ bs)"

lemma add_first_loop:
  assumes "\<forall>m\<in>set ms. iPriority m = 0"
  shows "foldl (add_unlisted names em lang) base ms = rev (filter (\<lambda>m. \<not> IMIsInIMNameList names m) ms) @ base"
  using assms
  by (induction ms arbitrary: base) (auto simp: add_unlisted_def utarray_push_front_def)

lemma add_second_loop:
  assumes "\<forall>m\<in>set ms. iPriority m \<noteq> 0"
    and P: "P = (\<lambda>m. \<not> IMIsInIMNameList names m \<and> iPriority m < PRIORITY_DISABLE
                     \<and> (\<not> em \<or> MatchLanguage (langCode m) lang))"
  shows "foldl (add_unlisted names em lang) (put_second base xs) ms = put_second base (rev (filter P ms) @ xs)"
  using assms(1)
proof (induction ms arbitrary: xs)
  case (Cons m ms)
  have "utarray_insert (put_second base xs) m 1 = put_second base (m # xs)"
    by (cases base) (simp_all add: put_second_def utarray_insert_def)
  then have "add_unlisted names em lang (put_second base xs) m = put_second base (if P m then m # xs else xs)"
    using Cons.prems by (auto simp: add_unlisted_def P)
  then show ?case using Cons by simp
qed simp

lemma put_second_Nil [simp]: "put_second base [] = base"
  by (cases base) (simp_all add: put_second_def)

lemma put_second_empty [simp]: "put_second base xs = [] \<longleftrightarrow> base = []"
  by (simp add: put_second_def split: list.split)

lemma split_at_zero:
  assumes "sorted (map p ms)" and "\<forall>m\<in>set ms. (0::int) \<le> p m"
  shows "ms = filter (\<lambda>m. p m = 0) ms @ filter (\<lambda>m. p m \<noteq> 0) ms"
  using assms
proof (induction ms)
  case (Cons m ms)
  show ?case
  proof (cases "p m = 0")
    case False
    then have "\<forall>x\<in>set ms. p x \<noteq> 0" using Cons.prems by fastforce
    then show ?thesis using False by (simp add: filter_empty_conv filter_id_conv)
  qed (use Cons in simp)
qed simp

text \<open>The enabled input methods after an update, from the items of the profile.\<close>

definition enabled_by :: "buf list \<Rightarrow> buf \<Rightarrow> im list \<Rightarrow> im list" where
  "enabled_by l lang avail =
     put_second
       (rev (filter (\<lambda>m. \<not> listed_by l m \<and> iPriority m = 0) avail) @ concat (map (item_ims avail) l))
       (rev (filter (\<lambda>m. \<not> listed_by l m \<and> iPriority m \<noteq> 0 \<and> iPriority m < PRIORITY_DISABLE
                       \<and> (l \<noteq> [] \<or> MatchLanguage (langCode m) lang)) avail))"

lemma second_loop:
  assumes "sorted (map iPriority avail)" and "\<forall>m\<in>set avail. 0 \<le> iPriority m"
  shows "foldl (add_unlisted (map item_name l) (l = []) lang) (concat (map (item_ims avail) l)) avail
    = enabled_by l lang avail"
proof -
  let ?z = "filter (\<lambda>m. iPriority m = 0) avail" and ?r = "filter (\<lambda>m. iPriority m \<noteq> 0) avail"
  let ?base = "rev (filter (\<lambda>m. \<not> IMIsInIMNameList (map item_name l) m) ?z) @ concat (map (item_ims avail) l)"
  have "foldl (add_unlisted (map item_name l) (l = []) lang) (concat (map (item_ims avail) l)) (?z @ ?r)
    = foldl (add_unlisted (map item_name l) (l = []) lang) (put_second ?base []) ?r"
    by (simp add: add_first_loop)
  also have "\<dots> = put_second ?base (rev (filter (\<lambda>m. \<not> IMIsInIMNameList (map item_name l) m
       \<and> iPriority m < PRIORITY_DISABLE \<and> (\<not> l = [] \<or> MatchLanguage (langCode m) lang)) ?r))"
    by (subst add_second_loop [OF _ refl]) simp_all
  also have "\<dots> = enabled_by l lang avail"
    by (simp add: enabled_by_def listed_by_def conj_ac)
  finally show ?thesis using split_at_zero [OF assms] by simp
qed

lemma rebuild_eq:
  assumes "pieces [0x2c] (imList (profile s)) = l"
  shows "rebuild_im_list e s =
    (let avail = insertion_sort IMPriorityCmp (availimes s) in
     Some (s \<lparr> availimes := avail, unusedItem := item_unused avail l [],
               imes := foldl (add_unlisted (map item_name l) (l = []) (e_langcode e)) (concat (map (item_ims avail) l)) avail,
               profile := (profile s) \<lparr> imList := join_items (filter (item_known avail) l) 0x2c \<rparr> \<rparr>))"
  using assms by (simp add: rebuild_im_list_def split_pieces im_items_eq join_list Let_def)

section \<open>Properties\<close>

text \<open>
  C18: The order of the enabled input methods after an update of the list. The known ones come first in
  ascending order of priority and name. Of those, the ones that the profile enables are enabled in the
  order of the profile; the ones of priority 0 that it does not mention are put before them; the others
  that it does not mention follow the first enabled one, in descending order, when their
  priority is below 100 and the profile is not empty or their language fits. Where nothing comes first,
  nothing is enabled.
\<close>

theorem im_list_order:
  assumes "\<forall>m\<in>set (availimes s). 0 \<le> iPriority m"
    and "fcitx_utils_split_string (imList (profile s)) 0x2c = Some l"
  shows "\<exists>s'. rebuild_im_list e s = Some s'
    \<and> mset (availimes s') = mset (availimes s)
    \<and> sorted_wrt (\<lambda>a b. IMPriorityCmp a b \<le> 0) (availimes s')
    \<and> imes s' = enabled_by l (e_langcode e) (availimes s')
    \<and> imes s' \<noteq> [] = ((\<exists>m\<in>set (availimes s). \<not> listed_by l m \<and> iPriority m = 0)
         \<or> concat (map (item_ims (availimes s')) l) \<noteq> [])"
proof -
  let ?av = "insertion_sort IMPriorityCmp (availimes s)"
  have l: "pieces [0x2c] (imList (profile s)) = l" using assms(2) by (simp add: split_pieces)
  have "foldl (add_unlisted (map item_name l) (l = []) (e_langcode e)) (concat (map (item_ims ?av) l)) ?av
    = enabled_by l (e_langcode e) ?av"
    using assms(1) by (intro second_loop) (simp_all add: sorted_priorities)
  moreover have "enabled_by l (e_langcode e) ?av \<noteq> [] \<longleftrightarrow>
      (\<exists>m\<in>set (availimes s). \<not> listed_by l m \<and> iPriority m = 0) \<or> concat (map (item_ims ?av) l) \<noteq> []"
    by (auto simp: enabled_by_def filter_empty_conv)
  ultimately show ?thesis
    by (simp add: rebuild_eq [OF l] Let_def srt_sorted_ims)
qed

text \<open>A small instance: a keyboard, two Chinese input methods, and an empty profile.\<close>

definition no_config :: config where
  "no_config =
     (let none = (no_hotkey, no_hotkey) in
      \<lparr> bSendTextWhenSwitchEng = True, bPhraseTips = True, bShowInputWindowTriggering = False,
        bShowInputWindowOnlyWhenActive = False, bShowInputWindowWhenFocusIn = False, bPointAfterNumber = True,
        bHideInputWindowWhenOnlyPreeditString = False, bHideInputWindowWhenOnlyOneCandidate = False,
        bShowUserSpeed = False, bShowVersion = False, bHKtriggerKey = True, bIMSwitchKey = True,
        bIMSwitchIncludeInactive = False, bDontCommitPreeditWhenUnfocus = False,
        bUseExtraTriggerKeyOnlyWhenUseItToInactivate = False, hkTrigger = none, hkActivate = none, hkInactivate = none,
        hkCustomSwitchKey = none, iSwitchKey = 18, iIMSwitchKey = 0, hkPrevPage = none, hkNextPage = none,
        i2ndSelectKey = none, i3rdSelectKey = none, shareState = ShareState_None, defaultIMState = IS_INACTIVE \<rparr>)"

definition new_inst :: inst where
  "new_inst =
     \<lparr> timeout = [], timeoutIdx = 0, imes = [], availimes = [], imLoaded = True, iIMIndex = 0, globalIMName = Some [],
       unusedItem = [], currentIMAddon = 0,
       profile = \<lparr> imList = [], imName = None, bUsePreedit = True, bUseRemind = False \<rparr>, config = no_config,
       input = FcitxInputStateCreate, ctx = \<lparr> contexts = [], cx_log = [] \<rparr>,
       ic_mem = (\<lambda>p. \<lparr> state = IS_CLOSED, offset_x = - 1, offset_y = - 1, frontendid = 0, contextCaps = 0, imname = None,
                      switchBySwitchKey = False, data = [], prgname = None, mayUsePreedit = Tri_Unknown \<rparr>),
       ic_list = [], free_list = [], icdata = [], ic_brk = 1, CurrentIC = None, lastIC = None, delayedIM = None,
       globalState = IS_CLOSED, eventflag = 0, iHZInputed = 0, totaltime = 0, timeStart = 0, running = True, saved = [] \<rparr>"

definition small_im :: "string \<Rightarrow> int \<Rightarrow> string \<Rightarrow> im" where
  "small_im name priority lang =
     \<lparr> uniqueName = ascii name, strName = ascii name, strIconName = [], iface = no_iface, klass = 0,
       iPriority = priority, langCode = ascii lang, initialized = True, owner = 0 \<rparr>"

definition three_ims :: "im list" where
  "three_ims = [small_im ''wbx'' 10 ''zh_CN'', small_im ''pinyin'' 5 ''zh_CN'', small_im ''kbd-us'' 0 ''en'']"

definition plain_env :: env where
  "plain_env =
     \<lparr> e_hooks = no_hooks, e_frontends = [], e_ui = None, e_call = (\<lambda>_ _ s. s), e_ret = (\<lambda>_ _ s. (0, s)),
       e_key = (\<lambda>_ _ _ _ s. (0, s)), e_close = (\<lambda>_ _ _ s. s), e_name = (\<lambda>_ _ s. (None, s)),
       e_cand = (\<lambda>_ _ _ s. (0, s)), e_paging = (\<lambda>_ _ _ s. (False, s)), e_alloc = (\<lambda>_ _ s. (0, s)), e_copy = (\<lambda>_ _ d _ s. (d, s)), e_free = (\<lambda>_ _ _ s. s),
       e_load = (\<lambda>_ s. s), e_clock = 0, e_msec = 0,
       e_pids = (\<lambda>_. True), e_blacklist = (\<lambda>_. False), e_text = (\<lambda>t. t), e_version = [],
       e_langcode = ascii ''zh_CN'', e_writable = True, e_loads = 4 \<rparr>"

lemma three_ims_sorted:
  "insertion_sort IMPriorityCmp three_ims
    = [small_im ''kbd-us'' 0 ''en'', small_im ''pinyin'' 5 ''zh_CN'', small_im ''wbx'' 10 ''zh_CN'']"
  by code_simp

theorem im_list_order_witness:
  "map_option (\<lambda>s. map uniqueName (imes s)) (rebuild_im_list plain_env (new_inst \<lparr> availimes := three_ims \<rparr>))
    = Some [ascii ''kbd-us'', ascii ''wbx'', ascii ''pinyin'']"
proof -
  let ?s = "new_inst \<lparr> availimes := three_ims \<rparr>"
  have "\<exists>s'. rebuild_im_list plain_env ?s = Some s'
    \<and> mset (availimes s') = mset (availimes ?s)
    \<and> sorted_wrt (\<lambda>a b. IMPriorityCmp a b \<le> 0) (availimes s')
    \<and> imes s' = enabled_by [] (e_langcode plain_env) (availimes s')
    \<and> imes s' \<noteq> [] = ((\<exists>m\<in>set (availimes ?s). \<not> listed_by [] m \<and> iPriority m = 0)
         \<or> concat (map (item_ims (availimes s')) []) \<noteq> [])"
    by (rule im_list_order) (simp_all add: new_inst_def three_ims_def small_im_def split_pieces pieces_stop)
  then obtain s' where s': "rebuild_im_list plain_env ?s = Some s'"
    "imes s' = enabled_by [] (e_langcode plain_env) (availimes s')" by blast
  have "availimes s' = insertion_sort IMPriorityCmp three_ims"
    using s'(1) by (auto simp: rebuild_eq [OF refl] Let_def new_inst_def)
  moreover have "map uniqueName (enabled_by [] (ascii ''zh_CN'') (insertion_sort IMPriorityCmp three_ims))
    = [ascii ''kbd-us'', ascii ''wbx'', ascii ''pinyin'']"
    unfolding three_ims_sorted by code_simp
  ultimately show ?thesis using s' by (simp add: plain_env_def)
qed

section \<open>The profile restores the list\<close>

definition names_ok :: "inst \<Rightarrow> bool" where
  "names_ok s \<longleftrightarrow> distinct (map uniqueName (availimes s)) \<and> set (imes s) \<subseteq> set (availimes s)
     \<and> distinct (map fst (unusedItem s)) \<and> (\<forall>n\<in>fst ` set (unusedItem s). n \<notin> uniqueName ` set (availimes s))
     \<and> (\<forall>n\<in>uniqueName ` set (availimes s) \<union> fst ` set (unusedItem s). 0x3a \<notin> set n \<and> 0x2c \<notin> set n)"

definition profile_item :: "buf \<times> bool \<Rightarrow> buf" where
  "profile_item p = fst p @ (if snd p then ascii '':True'' else ascii '':False'')"

lemma FilterIMList_items: "FilterIMList s = join_items (map profile_item (profile_names s)) 0x2c"
proof -
  have "(\<lambda>(n, b). n @ status_text b) = (\<lambda>p. profile_item p @ [0x2c])"
    by (auto simp: profile_item_def status_text_def ascii_def)
  then show ?thesis by (simp add: FilterIMList_def join_items_def comp_def)
qed

lemma item_of_profile:
  assumes "0x3a \<notin> set n"
  shows "item_name (profile_item (n, b)) = n" "item_on (profile_item (n, b)) = b" "0x3a \<in> set (profile_item (n, b))"
    "profile_item (n, b) \<noteq> []" "0x2c \<notin> set n \<Longrightarrow> 0x2c \<notin> set (profile_item (n, b))"
proof -
  have n: "takeWhile (\<lambda>c. c \<noteq> 0x3a) (n @ 0x3a # t) = n" for t using assms by (simp add: takeWhile_tail takeWhile_eq_all_conv) blast
  show name: "item_name (profile_item (n, b)) = n"
    using n by (simp add: item_name_def profile_item_def ascii_def)
  show "item_on (profile_item (n, b)) = b"
    by (simp add: item_on_def name) (simp add: profile_item_def ascii_def)
qed (simp_all add: profile_item_def ascii_def)

lemma restored_unused:
  assumes "\<forall>p\<in>set ps. 0x3a \<notin> set (fst p) \<and> fst p \<notin> uniqueName ` set avail" and "distinct (map fst (us @ ps))"
  shows "item_unused avail (map profile_item ps) us = us @ ps"
  using assms
proof (induction ps arbitrary: us)
  case (Cons p ps)
  obtain n b where p: "p = (n, b)" by (cases p)
  have "0x3a \<notin> set n" "n \<notin> uniqueName ` set avail" using Cons.prems(1) p by auto
  moreover have "hash_find us n = None" using Cons.prems(2) p by (auto simp: hash_find_def map_of_eq_None_iff)
  ultimately have "item_unused avail (map profile_item (p # ps)) us = item_unused avail (map profile_item ps) (us @ [p])"
    by (simp add: p item_of_profile item_known_def find_im_None hash_add_def)
  also have "\<dots> = (us @ [p]) @ ps" using Cons.prems by (intro Cons.IH) auto
  finally show ?case by simp
qed simp

lemma item_unused_known:
  "\<forall>x\<in>set l. item_known avail x \<Longrightarrow> item_unused avail (l @ l') us = item_unused avail l' us"
  by (induction l) auto

text \<open>The three parts of the names in the profile.\<close>

definition names_on :: "inst \<Rightarrow> (buf \<times> bool) list" where
  "names_on s = map (\<lambda>m. (uniqueName m, True)) (imes s)"

definition names_off :: "inst \<Rightarrow> (buf \<times> bool) list" where
  "names_off s = map (\<lambda>m. (uniqueName m, False))
     (filter (\<lambda>m. FcitxInstanceGetIMFromIMList s IMAS_Enable (uniqueName m) = None) (availimes s))"

lemma profile_names_parts: "profile_names s = names_on s @ names_off s @ unusedItem s"
  by (simp add: profile_names_def names_on_def names_off_def)

lemma names_known:
  assumes "names_ok s"
  shows "fst ` set (names_on s @ names_off s) = uniqueName ` set (availimes s)"
proof
  show "fst ` set (names_on s @ names_off s) \<subseteq> uniqueName ` set (availimes s)"
    using assms by (auto simp: names_on_def names_off_def names_ok_def)
  show "uniqueName ` set (availimes s) \<subseteq> fst ` set (names_on s @ names_off s)"
  proof
    fix n assume "n \<in> uniqueName ` set (availimes s)"
    then show "n \<in> fst ` set (names_on s @ names_off s)"
      by (cases "n \<in> uniqueName ` set (imes s)")
         (auto simp: names_on_def names_off_def find_im_None FcitxInstanceGetIMFromIMList_def image_Un image_image)
  qed
qed

lemma names_plain:
  assumes "names_ok s" and "p \<in> set (profile_names s)"
  shows "0x3a \<notin> set (fst p) \<and> 0x2c \<notin> set (fst p)"
proof -
  have "fst ` set (profile_names s) = uniqueName ` set (availimes s) \<union> fst ` set (unusedItem s)"
    using names_known [OF assms(1)] by (simp add: profile_names_parts image_Un Un_assoc [symmetric])
  moreover have "\<forall>n\<in>uniqueName ` set (availimes s) \<union> fst ` set (unusedItem s). 0x3a \<notin> set n \<and> 0x2c \<notin> set n"
    using assms(1) by (simp add: names_ok_def)
  ultimately show ?thesis using assms(2) by (metis imageI)
qed

lemma saved_pieces:
  assumes "names_ok s"
  shows "pieces [0x2c] (FilterIMList s) = map profile_item (profile_names s)"
proof -
  let ?l = "map profile_item (profile_names s)"
  have "\<forall>x\<in>set ?l. 0x2c \<notin> set x"
  proof
    fix x assume "x \<in> set ?l"
    then obtain n b where "(n, b) \<in> set (profile_names s)" "x = profile_item (n, b)" by auto
    then show "0x2c \<notin> set x" using names_plain [OF assms, of "(n, b)"] item_of_profile(5) [of n b] by simp
  qed
  moreover have "\<forall>x\<in>set ?l. x \<noteq> []" by (auto simp: profile_item_def ascii_def)
  then have "?l = [] \<or> last ?l \<noteq> []" using last_in_set by blast
  ultimately show ?thesis using pieces_join by (simp add: FilterIMList_items)
qed

lemma av_names:
  assumes ok: "names_ok s" and av: "av = insertion_sort IMPriorityCmp (availimes s)"
  shows "distinct (map uniqueName av)" "set av = set (availimes s)"
  using ok by (auto simp: av names_ok_def)

lemma items_on:
  assumes ok: "names_ok s" and av: "av = insertion_sort IMPriorityCmp (availimes s)"
  shows "concat (map (item_ims av) (map profile_item (names_on s))) = imes s"
proof -
  have "item_ims av (profile_item (uniqueName m, True)) = [m]" if "m \<in> set (imes s)" for m
  proof -
    have m: "m \<in> set av" "0x3a \<notin> set (uniqueName m)" using that ok av_names [OF ok av] by (auto simp: names_ok_def)
    then obtain i where "find_im av (uniqueName m) = Some i" "av ! i = m" using find_im_member av_names [OF ok av] by blast
    with m show ?thesis by (simp add: item_ims_def item_of_profile)
  qed
  then have "map (item_ims av) (map profile_item (names_on s)) = map (\<lambda>m. [m]) (imes s)" by (simp add: names_on_def)
  then show ?thesis by simp
qed

lemma items_off:
  assumes ok: "names_ok s" and av: "av = insertion_sort IMPriorityCmp (availimes s)"
    and p: "p \<in> set (names_off s @ unusedItem s)"
  shows "item_ims av (profile_item p) = []"
proof -
  obtain n b where nb: "p = (n, b)" by (cases p)
  have n: "0x3a \<notin> set n" using names_plain [OF ok, of p] p nb by (auto simp: profile_names_parts)
  show ?thesis
  proof (cases "p \<in> set (names_off s)")
    case True
    then show ?thesis using n nb by (auto simp: names_off_def item_ims_def item_of_profile)
  next
    case False
    then have "n \<notin> uniqueName ` set av" using p nb ok av_names [OF ok av] by (force simp: names_ok_def)
    then have "find_im av (item_name (profile_item p)) = None" using n nb by (simp add: item_of_profile find_im_None)
    then show ?thesis by (simp add: item_ims_def)
  qed
qed

lemma items_known:
  assumes ok: "names_ok s" and av: "av = insertion_sort IMPriorityCmp (availimes s)"
    and x: "x \<in> set (map profile_item (names_on s @ names_off s))"
  shows "item_known av x"
proof -
  from x obtain n b where p: "(n, b) \<in> set (names_on s @ names_off s)" "x = profile_item (n, b)" by auto
  then have "n \<in> uniqueName ` set av" "0x3a \<notin> set n"
    using names_known [OF ok] av_names [OF ok av] names_plain [OF ok, of "(n, b)"] by (force simp: profile_names_parts)+
  then show ?thesis using p(2) by (simp add: item_known_def find_im_None item_of_profile)
qed

lemma items_unused:
  assumes ok: "names_ok s" and av: "av = insertion_sort IMPriorityCmp (availimes s)"
  shows "item_unused av (map profile_item (profile_names s)) [] = unusedItem s"
proof -
  have "item_unused av (map profile_item (profile_names s)) [] = item_unused av (map profile_item (unusedItem s)) []"
    using item_unused_known [of "map profile_item (names_on s @ names_off s)" av] items_known [OF ok av]
    by (simp add: profile_names_parts)
  also have "\<dots> = unusedItem s"
    using restored_unused [of "unusedItem s" av "[]"] ok names_plain [OF ok] av_names [OF ok av]
    by (auto simp: profile_names_parts names_ok_def)
  finally show ?thesis .
qed

lemma items_listed:
  assumes ok: "names_ok s" and av: "av = insertion_sort IMPriorityCmp (availimes s)"
    and m: "m \<in> set av"
  shows "IMIsInIMNameList (map item_name (map profile_item (profile_names s))) m"
proof -
  have "uniqueName m \<in> fst ` set (names_on s @ names_off s)" using m names_known [OF ok] av_names [OF ok av] by simp
  then obtain q where "uniqueName m = fst q" "q \<in> set (names_on s @ names_off s)" by (rule imageE)
  then obtain b where "(uniqueName m, b) \<in> set (names_on s @ names_off s)" by (cases q) simp
  then have p: "(uniqueName m, b) \<in> set (profile_names s)" by (auto simp: profile_names_parts)
  then have "item_name (profile_item (uniqueName m, b)) = uniqueName m"
    using names_plain [OF ok p] by (simp add: item_of_profile)
  then have "uniqueName m \<in> set (map item_name (map profile_item (profile_names s)))"
    using p by (force simp: image_iff)
  moreover have "has_prefix t t" for t :: buf by (induction t) auto
  ultimately show ?thesis unfolding IMIsInIMNameList_def by blast
qed

lemma nothing_added:
  "names_ok s \<Longrightarrow> av = insertion_sort IMPriorityCmp (availimes s) \<Longrightarrow> set ms \<subseteq> set av \<Longrightarrow>
   foldl (add_unlisted (map item_name (map profile_item (profile_names s))) em lang) base ms = base"
  using items_listed by (induction ms) (auto simp: add_unlisted_def)

text \<open>
  C19: The profile keeps the enabled input methods. For names without colon and comma, saving the profile
  and building the list from it gives the same enabled input methods in the same order and the same
  remembered settings of unknown ones, whatever the priorities and the language are.
\<close>

theorem profile_roundtrip:
  assumes "names_ok s" and "e_writable e"
  shows "\<exists>s'. rebuild_im_list e (FcitxProfileSave e s) = Some s'
    \<and> imes s' = imes s \<and> unusedItem s' = unusedItem s \<and> mset (availimes s') = mset (availimes s)"
proof -
  let ?l = "map profile_item (profile_names s)" and ?av = "insertion_sort IMPriorityCmp (availimes s)"
  have l: "pieces [0x2c] (imList (profile (FcitxProfileSave e s))) = ?l"
    using assms by (simp add: FcitxProfileSave_def saved_pieces)
  have "concat (map (item_ims ?av) (map profile_item (names_off s @ unusedItem s))) = []"
    using items_off [OF assms(1) refl] by simp
  then have "concat (map (item_ims ?av) ?l) = imes s"
    using items_on [OF assms(1) refl] by (simp add: profile_names_parts)
  then show ?thesis
    using rebuild_eq [OF l, of e] assms(2) items_unused [OF assms(1) refl]
      nothing_added [OF assms(1) refl order_refl, of "?l = []" "e_langcode e" "imes s"]
    by (simp add: FcitxProfileSave_def Let_def)
qed

definition list_inst :: inst where
  "list_inst = new_inst \<lparr> availimes := three_ims, imes := [three_ims ! 1, three_ims ! 0],
                          unusedItem := [(ascii ''rime'', True)] \<rparr>"

theorem profile_roundtrip_witness:
  "map_option (\<lambda>s. (map uniqueName (imes s), unusedItem s)) (rebuild_im_list plain_env (FcitxProfileSave plain_env list_inst))
    = Some ([ascii ''pinyin'', ascii ''wbx''], [(ascii ''rime'', True)])"
proof -
  have "names_ok list_inst"
    by (simp add: names_ok_def list_inst_def three_ims_def small_im_def new_inst_def ascii_def)
  then obtain s' where "rebuild_im_list plain_env (FcitxProfileSave plain_env list_inst) = Some s'"
    "imes s' = imes list_inst" "unusedItem s' = unusedItem list_inst"
    using profile_roundtrip [of list_inst plain_env] by (auto simp: plain_env_def)
  then show ?thesis by (simp add: list_inst_def three_ims_def small_im_def)
qed

end
