(* ===== verification/ImSwitch_Laws.thy ===== *)
theory ImSwitch_Laws
  imports Quiet ImList_Laws
begin

text \<open>
  Switching the input method in a quiet environment: the nested loads end, the current input
  method is the one its context asks for, and sharing states changes exactly the contexts that share.
\<close>

section \<open>Registration while loading\<close>

definition uninit :: "inst \<Rightarrow> im set" where
  "uninit s = {m \<in> set (availimes s). \<not> initialized m}"

lemma finite_uninit [simp]: "finite (uninit s)"
  by (simp add: uninit_def)

text \<open>What only switching may change: the local name of a context.\<close>

definition frame :: "inst \<Rightarrow> inst \<Rightarrow> bool" where
  "frame s t \<longleftrightarrow> ic_list t = ic_list s \<and> CurrentIC t = CurrentIC s \<and> config t = config s
     \<and> (\<forall>p. (ic_mem t p) \<lparr> imname := None \<rparr> = (ic_mem s p) \<lparr> imname := None \<rparr>)"

lemma frame_refl [simp]: "frame s s"
  by (simp add: frame_def)

lemma frame_trans: "frame s t \<Longrightarrow> frame t u \<Longrightarrow> frame s u"
  by (simp add: frame_def)

lemma same_core_frame: "same_core s t \<Longrightarrow> frame s t"
  by (simp add: frame_def same_coreD)

lemma frame_state: "frame s t \<Longrightarrow> state (ic_mem t p) = state (ic_mem s p)"
  unfolding frame_def by (metis ic.select_convs(1) ic.surjective ic.update_convs(6))

lemma frame_fields:
  assumes "frame s t"
  shows "ic_list t = ic_list s" "CurrentIC t = CurrentIC s" "config t = config s"
  using assms by (simp_all add: frame_def)

text \<open>Names and contexts in order, with or without the enabled list.\<close>

definition list_ok :: "inst \<Rightarrow> bool" where
  "list_ok s \<longleftrightarrow> imLoaded s \<and> distinct (map uniqueName (availimes s)) \<and> globalIMName s \<noteq> None \<and> ctx_ok s"

definition switch_ok :: "inst \<Rightarrow> bool" where
  "switch_ok s \<longleftrightarrow> list_ok s \<and> (\<forall>m\<in>set (imes s). \<not> initialized m \<longrightarrow> m \<in> set (availimes s))"

lemma same_core_ok: "same_core s t \<Longrightarrow> list_ok s \<Longrightarrow> list_ok t" "same_core s t \<Longrightarrow> switch_ok s \<Longrightarrow> switch_ok t"
  by (auto simp: list_ok_def switch_ok_def same_coreD)

lemma same_core_uninit: "same_core s t \<Longrightarrow> uninit t = uninit s"
  by (simp add: uninit_def same_coreD)

lemma register_cases:
  obtains (same) "FcitxInstanceRegisterIMv2 s cl u n ic ifc prio lang = s"
  | (fill) i m where "find_im (availimes s) u = Some i" "uniqueName m = uniqueName (availimes s ! i)" "initialized m"
      "FcitxInstanceRegisterIMv2 s cl u n ic ifc prio lang = s \<lparr> availimes := (availimes s)[i := m] \<rparr>"
  | (new) m where "find_im (availimes s) u = None" "uniqueName m = u" "initialized m"
      "FcitxInstanceRegisterIMv2 s cl u n ic ifc prio lang = s \<lparr> availimes := availimes s @ [m] \<rparr>"
proof (cases "prio \<le> 0")
  case False
  note def = FcitxInstanceRegisterIMv2_def FcitxInstanceGetIMFromIMList_def utarray_extend_back_def Let_def
  show ?thesis
  proof (cases "find_im (availimes s) u")
    case None
    show ?thesis by (rule new [OF None _ _]) (simp_all add: def None False)
  next
    case (Some i)
    show ?thesis
    proof (cases "initialized (availimes s ! i)")
      case True
      then show ?thesis using same Some False by (simp add: def)
    next
      case ni: False
      show ?thesis by (rule fill [OF Some _ _]) (simp_all add: def Some False ni)
    qed
  qed
qed (use same in \<open>simp add: FcitxInstanceRegisterIMv2_def\<close>)

text \<open>What registrations and loads guarantee.\<close>

definition grows :: "inst \<Rightarrow> inst \<Rightarrow> bool" where
  "grows s t \<longleftrightarrow> frame s t \<and> uninit t \<subseteq> uninit s
     \<and> uniqueName ` set (availimes s) \<subseteq> uniqueName ` set (availimes t)"

lemma grows_trans: "grows s t \<Longrightarrow> grows t u \<Longrightarrow> grows s u"
  unfolding grows_def by (meson frame_trans order_trans)

lemma same_core_grows: "same_core s t \<Longrightarrow> grows s t"
  by (simp add: grows_def same_core_frame same_core_uninit same_coreD)

lemma register_step:
  assumes "list_ok s"
  shows "list_ok (FcitxInstanceRegisterIMv2 s cl u n ic ifc prio lang)
    \<and> grows s (FcitxInstanceRegisterIMv2 s cl u n ic ifc prio lang)"
proof (rule register_cases [of s cl u n ic ifc prio lang], goal_cases)
  case 1
  then show ?case using assms by (simp add: grows_def)
next
  case (2 i m)
  have i: "i < length (availimes s)" using find_im_Some 2(1) by blast
  have names: "map uniqueName ((availimes s)[i := m]) = map uniqueName (availimes s)"
    using 2(2) i by (simp add: map_update) (metis list_update_id nth_map)
  then have "uniqueName ` set ((availimes s)[i := m]) = uniqueName ` set (availimes s)" by (metis set_map)
  moreover have "{x \<in> set ((availimes s)[i := m]). \<not> initialized x} \<subseteq> uninit s"
    using 2(3) set_update_subset_insert [of "availimes s" i m] by (auto simp: uninit_def)
  ultimately show ?case
    using assms names unfolding 2(4) by (simp add: list_ok_def ctx_ok_update frame_def grows_def uninit_def)
next
  case (3 m)
  have "u \<notin> uniqueName ` set (availimes s)" using 3(1) by (simp add: find_im_None)
  then show ?case
    using assms 3(2,3) unfolding 3(4)
    by (auto simp: list_ok_def ctx_ok_update frame_def uninit_def grows_def)
qed

lemma register_all_ok: "list_ok s \<Longrightarrow> list_ok (register_all rs s) \<and> grows s (register_all rs s)"
proof (induction rs arbitrary: s)
  case (Cons r rs)
  have "register_all (r # rs) s = register_all rs (FcitxInstanceRegisterIMv2 s (rg_class r) (rg_unique r) (rg_name r)
      (rg_icon r) (rg_iface r) (rg_priority r) (rg_lang r))" by (simp add: register_all_def)
  then show ?case using Cons.IH register_step [OF Cons.prems] grows_trans by metis
qed (simp add: register_all_def grows_def)

lemma load_ok:
  assumes "quiet_env e" and "list_ok s"
  shows "list_ok (e_load e a s)" "grows s (e_load e a s)"
proof -
  obtain t rs where t: "same_core s t" "e_load e a s = register_all rs t"
    using quiet_envD(7) [OF assms(1)] unfolding loads_register_def by blast
  have "list_ok t" by (rule same_core_ok(1) [OF t(1) assms(2)])
  from register_all_ok [OF this, of rs] t(2) show "list_ok (e_load e a s)" "grows s (e_load e a s)"
    using grows_trans [OF same_core_grows [OF t(1)]] by simp_all
qed

section \<open>One load takes one input method off the list of the unloaded ones\<close>

definition index_ok :: "inst \<Rightarrow> bool" where
  "index_ok s \<longleftrightarrow> - 1 \<le> iIMIndex s \<and> (iIMIndex s < int (length (imes s)) \<or> iIMIndex s = 0)"

definition good :: "inst \<Rightarrow> inst \<Rightarrow> bool" where
  "good s t \<longleftrightarrow> switch_ok t \<and> frame s t \<and> index_ok t"

lemma same_core_index: "same_core s t \<Longrightarrow> index_ok s \<Longrightarrow> index_ok t"
  by (simp add: index_ok_def same_coreD)

lemma good_quiet: "good s t \<Longrightarrow> same_core t u \<Longrightarrow> good s u"
  using same_core_ok(2) same_core_frame frame_trans same_core_index by (auto simp: good_def)

lemma uninit_drop:
  assumes "list_ok s" and "find_im (availimes s) n = Some i" and "\<not> initialized (availimes s ! i)"
    and "utarray_erase (availimes s) i 1 = Some ms"
  shows "list_ok (s \<lparr> availimes := ms \<rparr>) \<and> uninit (s \<lparr> availimes := ms \<rparr>) = uninit s - {availimes s ! i}"
proof -
  have i: "i < length (availimes s)" using find_im_Some assms(2) by blast
  have ms: "ms = take i (availimes s) @ drop (Suc i) (availimes s)"
    using assms(4) by (auto simp: utarray_erase_def split: if_splits)
  have l: "availimes s = take i (availimes s) @ availimes s ! i # drop (Suc i) (availimes s)"
    using i by (rule id_take_nth_drop)
  have d: "distinct (map uniqueName (availimes s))" using assms(1) by (simp add: list_ok_def)
  have "distinct (take i (availimes s) @ availimes s ! i # drop (Suc i) (availimes s))"
    using d l by (metis distinct_map)
  then have "set ms = set (availimes s) - {availimes s ! i}"
    unfolding ms by (subst (3) l) auto
  moreover have "distinct (map uniqueName ms)"
  proof -
    have "distinct (map uniqueName (take i (availimes s) @ availimes s ! i # drop (Suc i) (availimes s)))"
      using d l by metis
    then show ?thesis unfolding ms by simp
  qed
  ultimately show ?thesis using assms(1) by (auto simp: list_ok_def ctx_ok_update uninit_def)
qed

lemma index_by_name:
  assumes "FcitxInstanceGetIMIndexByName s n = Some k"
  shows "- 1 \<le> k \<and> k < int (length (imes s)) \<or> k = - 1"
  using assms find_im_Some by (fastforce simp: FcitxInstanceGetIMIndexByName_def split: option.splits if_splits)

lemma lazy_load_ok:
  assumes q: "quiet_env e" and s: "list_ok s" and m: "m \<in> uninit s"
    and update: "\<And>t. list_ok t \<Longrightarrow> card (uninit t) < card (uninit s) \<Longrightarrow> \<exists>u. update t = Some u \<and> good t u"
  shows "\<exists>u. lazy_load update e m s = Some u \<and> good s u"
proof -
  define s1 where "s1 = e_load e (owner m) s"
  note l = load_ok [OF q s, of "owner m", folded s1_def]
  have d1: "distinct (map uniqueName (availimes s1))" using l(1) by (simp add: list_ok_def)
  have "uniqueName m \<in> uniqueName ` set (availimes s1)"
    using m l(2) by (auto simp: uninit_def grows_def)
  then have "find_im (availimes s1) (uniqueName m) \<noteq> None" by (simp add: find_im_None)
  then obtain i where i: "find_im (availimes s1) (uniqueName m) = Some i" by auto
  let ?x = "availimes s1 ! i"
  have x: "?x \<in> set (availimes s1)" "uniqueName ?x = uniqueName m" "i < length (availimes s1)"
    using find_im_Some [OF i] by auto
  have only: "y = ?x" if "y \<in> set (availimes s1)" "uniqueName y = uniqueName m" for y
    using that x d1 by (metis distinct_map inj_onD)
  have step: "\<exists>s2. (if initialized ?x then Some s1
        else map_option (\<lambda>ms. s1 \<lparr> availimes := ms \<rparr>) (utarray_erase (availimes s1) i 1)) = Some s2
      \<and> list_ok s2 \<and> frame s s2 \<and> uninit s2 \<subseteq> uninit s - {m}"
  proof (cases "initialized ?x")
    case True
    then have "m \<notin> uninit s1" using only m by (auto simp: uninit_def)
    then show ?thesis using True l by (auto simp: grows_def)
  next
    case False
    obtain ms where ms: "utarray_erase (availimes s1) i 1 = Some ms" using x(3) by (simp add: utarray_erase_def)
    have "uninit (s1 \<lparr> availimes := ms \<rparr>) \<subseteq> uninit s - {m}"
    proof -
      have "?x \<in> uninit s" using False x(1) l(2) by (auto simp: uninit_def grows_def)
      then have "?x = m" using m x(2) s unfolding uninit_def list_ok_def by (metis (mono_tags) distinct_map inj_onD mem_Collect_eq)
      then show ?thesis using uninit_drop [OF l(1) i False ms] l(2) by (auto simp: grows_def)
    qed
    moreover have "frame s (s1 \<lparr> availimes := ms \<rparr>)" using l(2) by (simp add: grows_def frame_def)
    ultimately show ?thesis using uninit_drop [OF l(1) i False ms] ms False by auto
  qed
  then obtain s2 where s2: "(if initialized ?x then Some s1
        else map_option (\<lambda>ms. s1 \<lparr> availimes := ms \<rparr>) (utarray_erase (availimes s1) i 1)) = Some s2"
      "list_ok s2" "frame s s2" "uninit s2 \<subseteq> uninit s - {m}" by blast
  have "card (uninit s2) < card (uninit s)"
    using s2(4) m by (intro psubset_card_mono) auto
  then obtain s3 where s3: "update s2 = Some s3" "good s2 s3" using update s2(2) by blast
  obtain k where k: "FcitxInstanceGetIMIndexByName s3 (Some (uniqueName m)) = Some k"
    by (simp add: FcitxInstanceGetIMIndexByName_def)
  have "good s (s3 \<lparr> iIMIndex := k \<rparr>)"
    using s3(2) frame_trans [OF s2(3), of s3] index_by_name [OF k]
    by (auto simp: good_def switch_ok_def list_ok_def ctx_ok_update index_ok_def frame_def)
  moreover have "lazy_load update e m s = Some (s3 \<lparr> iIMIndex := k \<rparr>)"
    unfolding lazy_load_def Let_def s1_def [symmetric] FcitxInstanceGetIMFromIMList_def im_available_status.case
    by (simp add: i s2(1) s3(1) k split del: if_split del: One_nat_def)
  ultimately show ?thesis by blast
qed

section \<open>Rebuilding and choosing\<close>

lemma add_unlisted_set: "set (foldl (add_unlisted names em lang) base ms) \<subseteq> set base \<union> set ms"
proof (induction ms arbitrary: base)
  case (Cons m ms)
  have "set (add_unlisted names em lang base m) \<subseteq> insert m (set base)"
    by (auto simp: add_unlisted_def utarray_push_front_def utarray_insert_def dest: in_set_takeD in_set_dropD)
  then show ?case using Cons.IH [of "add_unlisted names em lang base m"] by auto
qed simp

lemma item_ims_set: "set (item_ims avail str) \<subseteq> set avail"
proof
  fix m assume "m \<in> set (item_ims avail str)"
  then obtain i where "find_im avail (item_name str) = Some i" "m = avail ! i"
    unfolding item_ims_def by (cases "find_im avail (item_name str)"; cases "0x3a \<in> set str \<and> item_on str") auto
  then show "m \<in> set avail" using find_im_Some nth_mem by blast
qed

lemma rebuild_ok:
  assumes "list_ok s"
  shows "\<exists>t. rebuild_im_list e s = Some t \<and> switch_ok t \<and> frame s t \<and> uninit t = uninit s \<and> iIMIndex t = iIMIndex s"
proof -
  let ?l = "pieces [0x2c] (imList (profile s))" and ?av = "insertion_sort IMPriorityCmp (availimes s)"
  have "set (foldl (add_unlisted (map item_name ?l) (?l = []) (e_langcode e)) (concat (map (item_ims ?av) ?l)) ?av) \<subseteq> set ?av"
    using add_unlisted_set item_ims_set by fastforce
  then show ?thesis
    using assms
    by (auto simp: rebuild_eq [OF refl] Let_def switch_ok_def list_ok_def ctx_ok_def uninit_def frame_def)
qed

lemma drop_stale:
  assumes "switch_ok s"
  shows "switch_ok (drop_stale_local p s) \<and> frame s (drop_stale_local p s) \<and> imes (drop_stale_local p s) = imes s
    \<and> uninit (drop_stale_local p s) = uninit s \<and> iIMIndex (drop_stale_local p s) = iIMIndex s
    \<and> globalIMName (drop_stale_local p s) = globalIMName s"
  using assms
  by (auto simp: drop_stale_local_def upd_ic_def switch_ok_def list_ok_def ctx_ok_update frame_def uninit_def
      split: option.split)

lemma fix_global_ok:
  assumes "switch_ok s" and "fix_global force g s = (t, k, f, u)"
  shows "switch_ok t \<and> frame s t \<and> imes t = imes s \<and> uninit t = uninit s \<and> iIMIndex t = iIMIndex s
    \<and> ic_mem t = ic_mem s \<and> (f \<longleftrightarrow> force \<or> g \<le> 0 \<and> 2 \<le> length (imes s)) \<and> u = (g \<le> 0 \<and> 2 \<le> length (imes s))
    \<and> k = (if g \<le> 0 \<and> 2 \<le> length (imes s) then 1 else g)"
  using assms
  by (auto simp: fix_global_def switch_ok_def list_ok_def ctx_ok_update frame_def uninit_def utarray_eltptr_def
      split: option.splits if_splits)

lemma target_Some: "\<exists>t z. target_index p g s = Some (t, z)"
  by (auto simp: target_index_def FcitxInstanceGetIMIndexByName_def split: option.split)

text \<open>Choosing the current input method, for any way of switching that keeps the state in order.\<close>

lemma update_current_ok:
  assumes s: "switch_ok s" "force \<or> index_ok s"
    and sw: "\<And>t a b c d. switch_ok t \<Longrightarrow> uninit t = uninit s \<Longrightarrow> imes t = imes s
      \<Longrightarrow> \<exists>u. sw a b c d t = Some u \<and> good t u \<and> (keep \<longrightarrow> imes u = imes t)"
  shows "\<exists>b t. update_current_im sw force user s = Some (b, t) \<and> good s t \<and> (keep \<longrightarrow> imes t = imes s)"
proof (cases "CurrentIC s = None \<and> \<not> force")
  case True
  then show ?thesis using s by (auto simp: update_current_im_def FcitxInstanceGetCurrentIC_def good_def)
next
  case False
  obtain n where n: "globalIMName s = Some n" using s(1) by (auto simp: switch_ok_def list_ok_def)
  obtain g where g: "FcitxInstanceGetIMIndexByName s (globalIMName s) = Some g"
    by (simp add: n FcitxInstanceGetIMIndexByName_def)
  obtain s1 k f u where f: "fix_global force g s = (s1, k, f, u)" by (metis prod_cases4)
  note f' = fix_global_ok [OF s(1) f]
  define s2 where "s2 = drop_stale_local (CurrentIC s) s1"
  have s2: "switch_ok s2" "frame s s2" "imes s2 = imes s" "uninit s2 = uninit s" "iIMIndex s2 = iIMIndex s"
    using drop_stale [of s1 "CurrentIC s"] f' frame_trans [of s s1] by (auto simp: s2_def)
  obtain t z where t: "target_index (CurrentIC s) k s2 = Some (t, z)" using target_Some by blast
  have eq: "update_current_im sw force user s =
      (if f \<or> t \<noteq> iIMIndex s2 then map_option (Pair True) (sw t z u user s2) else Some (False, s2))"
    using False g f t unfolding s2_def by (auto simp: update_current_im_def FcitxInstanceGetCurrentIC_def Let_def)
  show ?thesis
  proof (cases "f \<or> t \<noteq> iIMIndex s2")
    case True
    obtain v where "sw t z u user s2 = Some v" "good s2 v" "keep \<longrightarrow> imes v = imes s2" using sw [OF s2(1,4,3)] by blast
    then show ?thesis using eq True s2(3) frame_trans [OF s2(2)] by (auto simp: good_def)
  next
    case nf: False
    then have "index_ok s" using s(2) f' by auto
    then have "index_ok s2" using s2 by (simp add: index_ok_def)
    then show ?thesis using eq nf s2 by (auto simp: good_def)
  qed
qed

section \<open>Entering an input method\<close>

lemma reset_then_language:
  assumes "ctx_ok s"
  obtains c1 c2 where "FcitxInstanceResetContext (ctx s) flag = Some c1"
    "FcitxInstanceSetContext c1 CONTEXT_IM_LANGUAGE (CtxStr l) = Some c2" "ctx_ok (s \<lparr> ctx := c2 \<rparr>)"
proof -
  have ok: "contexts_ok (ctx s)" using assms by (simp add: ctx_ok_def)
  then have "distinct (hash_keys (contexts (ctx s)))" by (simp add: contexts_ok_def hash_keys_def)
  from reset_loop [OF ok this, of flag] obtain c1 where
    c1: "FcitxInstanceResetContext (ctx s) flag = Some c1" "contexts_ok c1"
      "\<forall>k. hash_find (contexts c1) k = (if k \<in> set (hash_keys (contexts (ctx s)))
         then map_option (cleared flag) (hash_find (contexts (ctx s)) k) else hash_find (contexts (ctx s)) k)"
    by (auto simp: FcitxInstanceResetContext_def)
  have str: "cx_type c = FCT_String" if "hash_find (contexts c1) CONTEXT_IM_LANGUAGE = Some c" for c
    using that c1(3) assms by (auto simp: ctx_ok_def cleared_def split: if_splits)
  show ?thesis
  proof (cases "hash_find (contexts c1) CONTEXT_IM_LANGUAGE")
    case None
    then show ?thesis using that [OF c1(1), of c1] c1(2) by (simp add: FcitxInstanceSetContext_def ctx_ok_def)
  next
    case (Some c)
    have t: "typed_value (cx_type c) (CtxStr l)" using str [OF Some] by simp
    from set_internal [OF c1(2) Some t] obtain c2 c' ch where
      c2: "FcitxInstanceSetContextInternal c1 CONTEXT_IM_LANGUAGE c (CtxStr l) = Some c2"
        "context_assign c (CtxStr l) = Some (c', normal_value (cx_type c) (CtxStr l), ch)" "contexts_ok c2"
        "hash_find (contexts c2) = (hash_find (contexts c1))(CONTEXT_IM_LANGUAGE \<mapsto> c')" by metis
    have "cx_type c' = FCT_String"
      using assign_spec [OF contexts_find [OF c1(2) Some] t] c2(2) str [OF Some] by auto
    then show ?thesis
      using that [OF c1(1), of c2] c2 Some by (simp add: FcitxInstanceSetContext_def ctx_ok_def)
  qed
qed

lemma good_trans: "good s t \<Longrightarrow> good t u \<Longrightarrow> good s u"
  using frame_trans by (auto simp: good_def)

lemma run_init_ok:
  assumes q: "quiet_env e" and c: "ctx_ok t"
  shows "\<exists>u. run_init e t = Some u \<and> same_core t u"
proof (cases "FcitxInstanceGetCurrentIM t")
  case (Some m)
  show ?thesis
  proof (cases "if_Init (iface m) = 0")
    case False
    obtain c1 c2 where c12: "FcitxInstanceResetContext (ctx t) FCF_ResetOnInputMethodChange = Some c1"
        "FcitxInstanceSetContext c1 CONTEXT_IM_LANGUAGE (CtxStr (langCode m)) = Some c2" "ctx_ok (t \<lparr> ctx := c2 \<rparr>)"
      by (rule reset_then_language [OF c])
    have "same_core t (t \<lparr> ctx := c2 \<rparr>)" using c12(3) by (simp add: same_core_def core_def)
    from same_core_im_call(1) [OF q this] show ?thesis using Some False c12 by (auto simp: run_init_def)
  qed (simp add: run_init_def Some same_core_refl)
qed (simp add: run_init_def same_core_refl)

definition new_global :: "bool \<Rightarrow> inst \<Rightarrow> buf option" where
  "new_global ug t = (case FcitxInstanceGetCurrentIM t of
     Some m \<Rightarrow> if ug then Some (uniqueName m) else globalIMName t | None \<Rightarrow> globalIMName t)"

lemma note_global_ok:
  assumes "globalIMName s = globalIMName t"
  shows "same_core (s \<lparr> globalIMName := new_global ug t \<rparr>) (note_global e ug (FcitxInstanceGetCurrentIM t) s)"
proof (cases "case FcitxInstanceGetCurrentIM t of None \<Rightarrow> False
    | Some m \<Rightarrow> ug \<and> fcitx_utils_strcmp0 (globalIMName s) (Some (uniqueName m)) \<noteq> 0")
  case True
  then show ?thesis
    by (auto simp: note_global_def new_global_def same_core_windows(4) same_core_refl split: option.splits)
next
  case False
  then have "note_global e ug (FcitxInstanceGetCurrentIM t) s = s" by (auto simp: note_global_def split: option.splits)
  moreover have "globalIMName s = new_global ug t"
    using False assms by (auto simp: new_global_def fcitx_utils_strcmp0_def strcmp_eq split: option.splits)
  then have "s \<lparr> globalIMName := new_global ug t \<rparr> = s" by simp
  ultimately show ?thesis by (simp add: same_core_refl)
qed

text \<open>Entering keeps the index, and every step of it succeeds.\<close>

lemma enter_im_ok:
  assumes q: "quiet_env e" and g: "good s t"
  shows "\<exists>u. enter_im e ug t = Some u \<and> good s u \<and> imes u = imes t \<and> iIMIndex u = iIMIndex t
    \<and> ic_mem u = ic_mem t \<and> globalIMName u = new_global ug t"
proof -
  have "ctx_ok t" using g by (simp add: good_def switch_ok_def list_ok_def)
  then obtain s1 where s1: "run_init e t = Some s1" "same_core t s1" using run_init_ok [OF q] by blast
  let ?s2 = "s1 \<lparr> globalIMName := new_global ug t \<rparr>"
  define u where "u = FcitxInstanceProcessIMChangedHook (e_hooks e)
      (FcitxInstanceResetInput e (note_global e ug (FcitxInstanceGetCurrentIM t) s1))"
  have "same_core ?s2 (note_global e ug (FcitxInstanceGetCurrentIM t) s1)"
    using note_global_ok same_coreD(5) [OF s1(2)] by blast
  then have c: "same_core ?s2 u"
    unfolding u_def by (intro same_core_hooks same_core_reset q quiet_envD)
  have "globalIMName t \<noteq> None" using g by (simp add: good_def switch_ok_def list_ok_def)
  then have "new_global ug t \<noteq> None" by (auto simp: new_global_def split: option.split)
  then have "good s ?s2"
    using good_quiet [OF g s1(2)]
    by (auto simp: good_def switch_ok_def list_ok_def ctx_ok_update frame_def index_ok_def)
  from good_quiet [OF this c] c s1 show ?thesis
    by (auto simp: enter_im_def u_def same_coreD)
qed

section \<open>Switching ends\<close>

lemma switch_index_range: "0 \<le> n \<Longrightarrow> 0 \<le> switch_index n i z \<and> (switch_index n i z < n \<or> switch_index n i z = 0)"
  by (auto simp: switch_index_def Let_def)

lemma update_im_list_ok:
  assumes q: "quiet_env e" and s: "list_ok s"
    and sw: "\<And>t a b c d. switch_ok t \<Longrightarrow> uninit t = uninit s \<Longrightarrow> \<exists>u. sw a b c d t = Some u \<and> good t u"
  shows "\<exists>u. update_im_list (\<lambda>s. map_option snd (update_current_im sw True user s)) e s = Some u \<and> good s u"
proof -
  obtain t where t: "rebuild_im_list e s = Some t" "switch_ok t" "frame s t" "uninit t = uninit s"
    using rebuild_ok [OF s] by blast
  obtain b u where u: "update_current_im sw True user t = Some (b, u)" "good t u"
    using update_current_ok [OF t(2), of True sw False user] sw t(4) by auto
  have "good s u" using u(2) frame_trans [OF t(3)] by (simp add: good_def)
  moreover have "same_core u (FcitxInstanceProcessUpdateIMListHook (e_hooks e) u)"
    by (intro same_core_hooks same_core_refl quiet_envD q)
  ultimately have "good s (FcitxInstanceProcessUpdateIMListHook (e_hooks e) u)" by (rule good_quiet)
  then show ?thesis
    using s t(1) u(1) good_quiet same_core_windows(4) [OF same_core_refl]
    by (auto simp: update_im_list_def list_ok_def Let_def)
qed

lemma switch_internal_ok:
  assumes q: "quiet_env e"
  shows "switch_ok s \<Longrightarrow> card (uninit s) < n
    \<Longrightarrow> \<exists>u. FcitxInstanceSwitchIMInternal n e i z g user s = Some u \<and> good s u"
proof (induction n arbitrary: s i z g user)
  case (Suc n)
  define s2 where "s2 = (leave_im e user s) \<lparr> iIMIndex := switch_index (int (length (imes s))) i z \<rparr>"
  have c: "same_core s (leave_im e user s)" by (intro same_core_leave q same_core_refl)
  have s2: "switch_ok s2" "frame s s2" "uninit s2 = uninit s" "index_ok s2" "imes s2 = imes s"
    using same_core_ok(2) [OF c Suc.prems(1)] same_core_frame [OF c] same_core_uninit [OF c] same_coreD(1) [OF c]
      switch_index_range [of "int (length (imes s))" i z]
    by (auto simp: s2_def switch_ok_def list_ok_def ctx_ok_update frame_def uninit_def index_ok_def)
  have g2: "good s s2" using s2 by (simp add: good_def)
  let ?upd = "update_im_list (\<lambda>s. map_option snd (update_current_im (FcitxInstanceSwitchIMInternal n e) True False s)) e"
  have "\<exists>s3. (case FcitxInstanceGetCurrentIM s2 of None \<Rightarrow> Some s2
      | Some m \<Rightarrow> if initialized m then Some s2 else lazy_load ?upd e m s2) = Some s3 \<and> good s s3"
  proof (cases "case FcitxInstanceGetCurrentIM s2 of None \<Rightarrow> False | Some m \<Rightarrow> \<not> initialized m")
    case True
    then obtain m where m: "FcitxInstanceGetCurrentIM s2 = Some m" "\<not> initialized m" by (auto split: option.splits)
    then have "m \<in> set (imes s2)" by (auto simp: FcitxInstanceGetCurrentIM_def array_eltptr_Some)
    then have mu: "m \<in> uninit s2" using s2(1) m(2) by (auto simp: switch_ok_def uninit_def)
    have "\<exists>u. ?upd t = Some u \<and> good t u" if t: "list_ok t" "card (uninit t) < card (uninit s2)" for t
    proof (rule update_im_list_ok [OF q t(1)])
      fix v a b c d assume "switch_ok v" "uninit v = uninit t"
      moreover have "card (uninit t) < n" using t(2) s2(3) Suc.prems(2) by simp
      ultimately show "\<exists>u. FcitxInstanceSwitchIMInternal n e a b c d v = Some u \<and> good v u"
        using Suc.IH by metis
    qed
    with lazy_load_ok [OF q _ mu, of ?upd] s2(1)
    obtain s3 where "lazy_load ?upd e m s2 = Some s3" "good s2 s3" by (auto simp: switch_ok_def)
    then show ?thesis using m good_trans [OF g2] by auto
  qed (use g2 in \<open>auto split: option.splits\<close>)
  then obtain s3 where "(case FcitxInstanceGetCurrentIM s2 of None \<Rightarrow> Some s2
      | Some m \<Rightarrow> if initialized m then Some s2 else lazy_load ?upd e m s2) = Some s3" "good s s3" by blast
  with enter_im_ok [OF q, of s s3 g] show ?case
    unfolding FcitxInstanceSwitchIMInternal.simps Let_def s2_def [symmetric] by fastforce
qed simp

end
