(* ===== verification/ImSwitch_Props.thy ===== *)
theory ImSwitch_Props
  imports ImSwitch_Laws
begin

text \<open>
  The theorems on switching the input method in a quiet environment, over the lemmas of
  \<open>ImSwitch_Laws\<close>: the nested loads end, the current input method is the one its context asks for,
  sharing states changes exactly the contexts that share, and stepping through the list cycles.
\<close>

section \<open>An environment that loads on demand\<close>

definition pinyin_registration :: registration where
  "pinyin_registration =
     \<lparr> rg_class = 7, rg_unique = ascii ''pinyin'', rg_name = ascii ''Pinyin'', rg_icon = [], rg_iface = no_iface,
       rg_priority = 5, rg_lang = Some (ascii ''zh_CN'') \<rparr>"

text \<open>Addon 1 registers its input method when it is loaded; the other addons fail.\<close>

definition lazy_env :: env where
  "lazy_env = plain_env \<lparr> e_load := (\<lambda>addon s. register_all (if addon = 1 then [pinyin_registration] else []) s) \<rparr>"

definition lazy_inst :: inst where
  "lazy_inst = new_inst \<lparr> availimes :=
     [small_im ''kbd-us'' 0 ''en'', (small_im ''wbx'' 10 ''zh_CN'') \<lparr> initialized := False, owner := 2 \<rparr>,
      (small_im ''pinyin'' 5 ''zh_CN'') \<lparr> initialized := False, owner := 1 \<rparr>] \<rparr>"

lemma quiet_id [simp]: "quiet (\<lambda>s. s)"
  by (simp add: quiet_def same_core_refl)

lemma quiet_plain: "quiet_env plain_env"
proof -
  have "loads_register plain_env"
    unfolding loads_register_def
  proof (intro allI exI conjI)
    fix a s show "same_core s s" "e_load plain_env a s = register_all [] s"
      by (simp_all add: same_core_refl plain_env_def register_all_def)
  qed
  then show ?thesis by (simp add: quiet_env_def quiet_hooks_def plain_env_def no_hooks_def)
qed

lemma quiet_lazy: "quiet_env lazy_env"
proof -
  have "loads_register lazy_env"
    unfolding loads_register_def by (auto simp: lazy_env_def intro: same_core_refl)
  then show ?thesis by (simp add: quiet_env_def quiet_hooks_def lazy_env_def plain_env_def no_hooks_def)
qed

lemma new_inst_ctx: "ctx_ok new_inst"
  by (simp add: ctx_ok_def new_inst_def contexts_ok_def hash_find_def)

section \<open>The nested loads end\<close>

text \<open>
  C20: Updating the list of input methods ends. Choosing the current input method may have to load it, a
  load updates the list and chooses again: when the bound on nested loads exceeds the number of
  registered but unloaded input methods, everything succeeds, whatever the loaded libraries register,
  and the current index then names an input method or is the 0 or -1 of an empty choice; the contexts
  keep everything but their own input method, and what stays enabled but unloaded is still registered.
\<close>

theorem update_im_list_ends:
  assumes "quiet_env e" and "list_ok s" and "card (uninit s) < e_loads e"
  shows "\<exists>t. FcitxInstanceUpdateIMList e s = Some t \<and> switch_ok t \<and> index_ok t \<and> frame s t"
proof -
  have "\<exists>u. update_im_list (\<lambda>s. map_option snd
      (update_current_im (FcitxInstanceSwitchIMInternal (e_loads e) e) True False s)) e s = Some u \<and> good s u"
    using assms(3) by (intro update_im_list_ok assms switch_internal_ok) simp_all
  then show ?thesis
    by (auto simp: FcitxInstanceUpdateIMList_def FcitxInstanceUpdateCurrentIM_def good_def)
qed

theorem update_im_list_ends_witness:
  "card (uninit lazy_inst) = 2 \<and> (\<exists>t. FcitxInstanceUpdateIMList lazy_env lazy_inst = Some t \<and> index_ok t)"
proof -
  have "uninit lazy_inst = {(small_im ''wbx'' 10 ''zh_CN'') \<lparr> initialized := False, owner := 2 \<rparr>,
      (small_im ''pinyin'' 5 ''zh_CN'') \<lparr> initialized := False, owner := 1 \<rparr>}"
    by (auto simp: uninit_def lazy_inst_def small_im_def)
  then have c: "card (uninit lazy_inst) = 2" by (simp add: small_im_def ascii_def)
  have "list_ok lazy_inst"
    using new_inst_ctx by (simp add: list_ok_def lazy_inst_def ctx_ok_update) (simp add: new_inst_def small_im_def ascii_def)
  from update_im_list_ends [OF quiet_lazy this] c show ?thesis by (auto simp: lazy_env_def plain_env_def)
qed

section \<open>The current input method\<close>

text \<open>Switching among initialised input methods does not load.\<close>

lemma switch_initialized:
  assumes q: "quiet_env e" and s: "switch_ok s" and n: "0 < n" and i: "\<forall>m\<in>set (imes s). initialized m"
  shows "\<exists>u. FcitxInstanceSwitchIMInternal n e k z g user s = Some u \<and> good s u \<and> imes u = imes s
    \<and> iIMIndex u = switch_index (int (length (imes s))) k z \<and> ic_mem u = ic_mem s
    \<and> globalIMName u = (case fcitx_array_eltptr (imes s) (switch_index (int (length (imes s))) k z) of
        Some m \<Rightarrow> if g then Some (uniqueName m) else globalIMName s | None \<Rightarrow> globalIMName s)"
proof -
  obtain n' where n': "n = Suc n'" using n by (cases n) auto
  define s2 where "s2 = (leave_im e user s) \<lparr> iIMIndex := switch_index (int (length (imes s))) k z \<rparr>"
  have c: "same_core s (leave_im e user s)" by (intro same_core_leave q same_core_refl)
  have s2: "switch_ok s2" "frame s s2" "index_ok s2" "imes s2 = imes s" "ic_mem s2 = ic_mem s"
      "globalIMName s2 = globalIMName s" "iIMIndex s2 = switch_index (int (length (imes s))) k z"
    using same_core_ok(2) [OF c s] same_core_frame [OF c] same_coreD [OF c]
      switch_index_range [of "int (length (imes s))" k z]
    by (auto simp: s2_def switch_ok_def list_ok_def ctx_ok_update frame_def index_ok_def)
  have "initialized m" if "FcitxInstanceGetCurrentIM s2 = Some m" for m
    using that s2(4) i by (auto simp: FcitxInstanceGetCurrentIM_def array_eltptr_Some)
  then have "FcitxInstanceSwitchIMInternal n e k z g user s = enter_im e g s2"
    unfolding n' FcitxInstanceSwitchIMInternal.simps Let_def s2_def [symmetric] by (cases "FcitxInstanceGetCurrentIM s2") auto
  moreover have "good s s2" using s2 by (simp add: good_def)
  moreover obtain u where "enter_im e g s2 = Some u" "good s u" "imes u = imes s2" "iIMIndex u = iIMIndex s2"
      "ic_mem u = ic_mem s2" "globalIMName u = new_global g s2"
    using enter_im_ok [OF q, of s s2 g] \<open>good s s2\<close> by blast
  ultimately show ?thesis
    using s2(4-7) by (simp add: new_global_def FcitxInstanceGetCurrentIM_def cong: option.case_cong if_cong)
qed

lemma fix_global_value:
  assumes "2 \<le> length (imes s)"
  shows "fix_global force g s = (if g \<le> 0 then (s \<lparr> globalIMName := Some (uniqueName (imes s ! 1)) \<rparr>, 1, True, True)
    else (s, g, force, False))"
  using assms by (simp add: fix_global_def utarray_eltptr_def)

lemma get_im_global:
  assumes "2 \<le> length (imes s)" and "FcitxInstanceGetIMIndexByName s (globalIMName s) = Some g"
  shows "FcitxInstanceGetIM s (Some q) =
    (if state (ic_mem s q) \<noteq> IS_ACTIVE then Some (fcitx_array_eltptr (imes s) 0)
     else case imname (ic_mem s q) of
       None \<Rightarrow> Some (fcitx_array_eltptr (imes s) (if g \<le> 0 then 1 else g))
     | Some n \<Rightarrow> map_option (\<lambda>t. fcitx_array_eltptr (imes s) (if t \<le> 0 then if g \<le> 0 then 1 else g else t))
         (FcitxInstanceGetIMIndexByName s (Some n)))"
  using assms by (auto simp: FcitxInstanceGetIM_def Let_def utarray_eltptr_def map_conv_bind_option comp_def split: option.split)

lemma drop_stale_value:
  "imname (ic_mem (drop_stale_local (Some q) s) q) =
     (case imname (ic_mem s q) of None \<Rightarrow> None | Some n \<Rightarrow> if find_im (imes s) n = None then None else Some n)"
  "state (ic_mem (drop_stale_local (Some q) s) q) = state (ic_mem s q)"
  by (auto simp: drop_stale_local_def upd_ic_def FcitxInstanceGetIMFromIMList_def split: option.split)

lemma find_im_le: "i < length ms \<Longrightarrow> \<exists>j\<le>i. find_im ms (uniqueName (ms ! i)) = Some j"
proof (induction ms arbitrary: i)
  case (Cons m ms)
  show ?case
  proof (cases i)
    case (Suc k)
    then obtain j where "j \<le> k" "find_im ms (uniqueName (ms ! k)) = Some j" using Cons by auto
    then show ?thesis using Suc by simp
  qed (simp add: strcmp_eq)
qed simp

lemma find_im_head: "find_im ms m = Some 0 \<Longrightarrow> uniqueName (hd ms) = m"
  by (cases ms) (auto simp: strcmp_eq split: if_splits)

lemma local_choice:
  assumes "imname (ic_mem (drop_stale_local (Some q) s) q) = Some m"
  shows "find_im (imes s) m \<noteq> None \<and> imname (ic_mem s q) = Some m"
  using assms unfolding drop_stale_value by (cases "imname (ic_mem s q)") (auto split: if_splits)

text \<open>What \<open>FcitxInstanceGetIM\<close> gives when the global name is the one in the list that was chosen.\<close>

lemma get_im_chosen:
  assumes n: "2 \<le> length (imes t)" and g: "globalIMName t = Some nm"
    and T: "T = (if state (ic_mem t q) \<noteq> IS_ACTIVE then 0
      else case imname (ic_mem t q) of None \<Rightarrow> k
      | Some m \<Rightarrow> (case find_im (imes t) m of None \<Rightarrow> - 1 | Some i \<Rightarrow> int i))"
    and local: "\<And>m. imname (ic_mem t q) = Some m \<Longrightarrow> \<exists>i. find_im (imes t) m = Some i \<and> i \<noteq> 0"
    and k: "state (ic_mem t q) = IS_ACTIVE \<Longrightarrow> imname (ic_mem t q) = None \<Longrightarrow>
      k = (case find_im (imes t) nm of None \<Rightarrow> 1 | Some i \<Rightarrow> if i = 0 then 1 else int i)"
  shows "FcitxInstanceGetIM t (Some q) = Some (fcitx_array_eltptr (imes t) T)"
proof (cases "imname (ic_mem t q)")
  case None
  then show ?thesis
    using k T unfolding get_im_global [OF n, of "case find_im (imes t) nm of None \<Rightarrow> - 1 | Some i \<Rightarrow> int i" q,
        unfolded g FcitxInstanceGetIMIndexByName_def, simplified]
    by (auto split: option.splits)
next
  case (Some m)
  then obtain i where i: "find_im (imes t) m = Some i" "i \<noteq> 0" using local by blast
  show ?thesis
    using Some T i unfolding get_im_global [OF n, of "case find_im (imes t) nm of None \<Rightarrow> - 1 | Some i \<Rightarrow> int i" q,
        unfolded g FcitxInstanceGetIMIndexByName_def, simplified]
    by auto
qed

text \<open>
  C21: Choosing the current input method and asking for the input method of a context agree. With two
  enabled input methods at least, all of them loaded, and no local choice of the first one, after
  \<open>FcitxInstanceUpdateCurrentIM\<close> the current input method is the one that \<open>FcitxInstanceGetIM\<close> gives for
  the current context: the first when it is inactive, its local choice when that is enabled, otherwise
  the global one, which is repaired when it is not enabled.
\<close>

theorem current_im_agrees:
  assumes "quiet_env e" and "switch_ok s" and "index_ok s" and "0 < e_loads e"
    and "2 \<le> length (imes s)" and "\<forall>m\<in>set (imes s). initialized m" and "CurrentIC s = Some q"
    and "imname (ic_mem s q) \<noteq> Some (uniqueName (hd (imes s)))"
  shows "\<exists>b t. FcitxInstanceUpdateCurrentIM e force user s = Some (b, t)
    \<and> FcitxInstanceGetIM t (Some q) = Some (FcitxInstanceGetCurrentIM t) \<and> imes t = imes s
    \<and> FcitxInstanceGetCurrentIM t \<noteq> None"
proof -
  let ?n = "int (length (imes s))"
  obtain nm where nm: "globalIMName s = Some nm" using assms(2) by (auto simp: switch_ok_def list_ok_def)
  define g where "g = (case find_im (imes s) nm of None \<Rightarrow> - 1 | Some i \<Rightarrow> int i)"
  have g: "FcitxInstanceGetIMIndexByName s (globalIMName s) = Some g" by (simp add: nm g_def FcitxInstanceGetIMIndexByName_def)
  have gr: "g < ?n" using index_by_name [OF g [unfolded nm]] assms(5) by linarith
  define s1 where "s1 = fst (fix_global force g s)"
  define k where "k = (if g \<le> 0 then 1 else g)"
  have f: "fix_global force g s = (s1, k, (force \<or> g \<le> 0), (g \<le> 0))"
    using assms(5) by (simp add: s1_def k_def fix_global_value)
  note f' = fix_global_ok [OF assms(2) f]
  define s2 where "s2 = drop_stale_local (Some q) s1"
  have s2: "switch_ok s2" "imes s2 = imes s" "iIMIndex s2 = iIMIndex s" "globalIMName s2 = globalIMName s1"
    using drop_stale [of s1 "Some q"] f' by (auto simp: s2_def)
  define T where "T = (if state (ic_mem s2 q) \<noteq> IS_ACTIVE then 0
      else case imname (ic_mem s2 q) of None \<Rightarrow> k
      | Some m \<Rightarrow> (case find_im (imes s) m of None \<Rightarrow> - 1 | Some i \<Rightarrow> int i))"
  define z where "z = (state (ic_mem s2 q) = IS_ACTIVE)"
  have T: "target_index (Some q) k s2 = Some (T, z)"
    by (auto simp: target_index_def T_def z_def s2(2) FcitxInstanceGetIMIndexByName_def split: option.split)
  have local: "\<exists>i. find_im (imes s) m = Some i \<and> i \<noteq> 0" if "imname (ic_mem s2 q) = Some m" for m
  proof -
    have "find_im (imes s) m \<noteq> None" "imname (ic_mem s q) = Some m" using local_choice [of q s1 m] that f' by (auto simp: s2_def)
    then show ?thesis using assms(8) find_im_head [of "imes s" m] by force
  qed
  have r: "0 \<le> T \<and> T < ?n \<and> (z \<longrightarrow> T \<noteq> 0)"
  proof (cases "imname (ic_mem s2 q)")
    case None
    then show ?thesis using assms(5) gr by (auto simp: T_def z_def k_def)
  next
    case (Some m)
    then obtain i where "find_im (imes s) m = Some i" "i \<noteq> 0" using local by blast
    then show ?thesis using Some assms(5) find_im_Some [of "imes s" m i] by (auto simp: T_def z_def)
  qed
  then have sw: "switch_index ?n T z = T" using assms(5) by (auto simp: switch_index_def)
  have agrees: "FcitxInstanceGetIM t (Some q) = Some (fcitx_array_eltptr (imes t) T) \<and> fcitx_array_eltptr (imes t) T \<noteq> None"
    if t: "imes t = imes s" "ic_mem t = ic_mem s2" "globalIMName t = Some nm'"
      and nm': "z \<Longrightarrow> imname (ic_mem s2 q) = None \<Longrightarrow>
        k = (case find_im (imes s) nm' of None \<Rightarrow> 1 | Some i \<Rightarrow> if i = 0 then 1 else int i)" for t nm'
  proof
    show "FcitxInstanceGetIM t (Some q) = Some (fcitx_array_eltptr (imes t) T)"
      using get_im_chosen [of t nm' T q k] assms(5) local nm' unfolding t T_def z_def by blast
    show "fcitx_array_eltptr (imes t) T \<noteq> None"
      using r t(1) by (auto simp: fcitx_array_eltptr_def utarray_eltptr_def nat_less_iff)
  qed
  have eq: "FcitxInstanceUpdateCurrentIM e force user s =
      (if (force \<or> g \<le> 0) \<or> T \<noteq> iIMIndex s2
       then map_option (Pair True) (FcitxInstanceSwitchIMInternal (e_loads e) e T z (g \<le> 0) user s2) else Some (False, s2))"
    using assms(7) g f T unfolding s2_def
    by (simp add: FcitxInstanceUpdateCurrentIM_def update_current_im_def FcitxInstanceGetCurrentIC_def Let_def)
  have k_global: "k = (case find_im (imes s) nm of None \<Rightarrow> 1 | Some i \<Rightarrow> if i = 0 then 1 else int i)"
    by (auto simp: k_def g_def split: option.split)
  have keep: "globalIMName s2 = Some nm" if "\<not> g \<le> 0"
    using that f' nm s2(4) assms(5) by (simp add: s1_def fix_global_value)
  show ?thesis
  proof (cases "(force \<or> g \<le> 0) \<or> T \<noteq> iIMIndex s2")
    case False
    then have "globalIMName s2 = Some nm" and same: "FcitxInstanceUpdateCurrentIM e force user s = Some (False, s2)" "iIMIndex s2 = T"
      using keep eq by auto
    then show ?thesis using agrees [OF s2(2) refl, of nm] k_global s2(2) by (auto simp: FcitxInstanceGetCurrentIM_def)
  next
    case True
    have "\<forall>m\<in>set (imes s2). initialized m" using assms(6) s2(2) by simp
    from switch_initialized [OF assms(1) s2(1) assms(4) this, of T z "g \<le> 0" user, unfolded s2(2) sw]
    obtain u where u: "FcitxInstanceSwitchIMInternal (e_loads e) e T z (g \<le> 0) user s2 = Some u" "imes u = imes s"
        "iIMIndex u = T" "ic_mem u = ic_mem s2"
        "globalIMName u = (case fcitx_array_eltptr (imes s) T of
           Some m \<Rightarrow> if g \<le> 0 then Some (uniqueName m) else globalIMName s2 | None \<Rightarrow> globalIMName s2)" by blast
    define nm' where "nm' = (if g \<le> 0 then uniqueName (imes s ! nat T) else nm)"
    have "fcitx_array_eltptr (imes s) T = Some (imes s ! nat T)"
      using r by (auto simp: fcitx_array_eltptr_def utarray_eltptr_def nat_less_iff)
    then have "globalIMName u = Some nm'" using u(5) keep by (simp add: nm'_def)
    moreover have "k = (case find_im (imes s) nm' of None \<Rightarrow> 1 | Some i \<Rightarrow> if i = 0 then 1 else int i)"
      if "z" "imname (ic_mem s2 q) = None"
    proof (cases "g \<le> 0")
      case True
      then have "k = 1" "T = 1" using that by (auto simp: k_def T_def z_def)
      moreover obtain j where "j \<le> 1" "find_im (imes s) (uniqueName (imes s ! 1)) = Some j"
        using find_im_le [of 1 "imes s"] assms(5) by auto
      ultimately show ?thesis using True by (auto simp: nm'_def)
    qed (use k_global in \<open>simp add: nm'_def\<close>)
    ultimately show ?thesis using agrees [OF u(2,4), of nm'] u eq True by (auto simp: FcitxInstanceGetCurrentIM_def)
  qed
qed

definition focus_inst :: inst where
  "focus_inst = new_inst \<lparr> availimes := three_ims, imes := three_ims, ic_list := [1, 2, 3], CurrentIC := Some 1,
     ic_mem := (ic_mem new_inst) (1 := (ic_mem new_inst 1) \<lparr> state := IS_ACTIVE \<rparr>,
       2 := (ic_mem new_inst 2) \<lparr> state := IS_ACTIVE, imname := Some (ascii ''kbd-us'') \<rparr>,
       3 := (ic_mem new_inst 3) \<lparr> contextCaps := CAPACITY_CLIENT_SIDE_CONTROL_STATE \<rparr>) \<rparr>"

lemma focus_inst_ok: "switch_ok focus_inst" "index_ok focus_inst" "uninit focus_inst = {}"
  "\<forall>m\<in>set (imes focus_inst). initialized m" "length (imes focus_inst) = 3"
proof -
  have "ctx_ok focus_inst" by (simp add: ctx_ok_def focus_inst_def new_inst_def contexts_ok_def hash_find_def)
  then show "switch_ok focus_inst"
    by (simp add: switch_ok_def list_ok_def) (simp add: focus_inst_def new_inst_def three_ims_def small_im_def ascii_def)
qed (auto simp: focus_inst_def three_ims_def small_im_def new_inst_def index_ok_def uninit_def)

theorem current_im_agrees_witness:
  "\<exists>t. FcitxInstanceUpdateCurrentIM plain_env True True focus_inst = Some (True, t)
    \<and> FcitxInstanceGetIM t (Some 1) = Some (FcitxInstanceGetCurrentIM t) \<and> imes t = three_ims"
proof -
  have "imname (ic_mem focus_inst 1) \<noteq> Some (uniqueName (hd (imes focus_inst)))"
    by (simp add: focus_inst_def new_inst_def)
  from current_im_agrees [OF quiet_plain focus_inst_ok(1,2) _ _ focus_inst_ok(4) _ this, of True True] focus_inst_ok(5)
  obtain b t where t: "FcitxInstanceUpdateCurrentIM plain_env True True focus_inst = Some (b, t)"
    "FcitxInstanceGetIM t (Some 1) = Some (FcitxInstanceGetCurrentIM t)" "imes t = imes focus_inst"
    by (auto simp: plain_env_def focus_inst_def)
  have "b = True" using t(1)
    by (auto simp: FcitxInstanceUpdateCurrentIM_def update_current_im_def Let_def fix_global_def bind_eq_Some_conv
        split: if_splits option.splits)
  then show ?thesis using t by (simp add: focus_inst_def)
qed

section \<open>Contexts that share their state\<close>

text \<open>What the change of one context keeps: everything the choice of sharing contexts depends on.\<close>

definition set_ic_states :: "(ptr \<Rightarrow> ic_state option) \<Rightarrow> inst \<Rightarrow> inst \<Rightarrow> bool" where
  "set_ic_states f s t \<longleftrightarrow> same_core (s \<lparr> ic_mem := ic_mem t \<rparr>) t
     \<and> (\<forall>p. state (ic_mem t p) = (case f p of None \<Rightarrow> state (ic_mem s p) | Some st \<Rightarrow> st)
          \<and> (ic_mem t p) \<lparr> state := IS_CLOSED, switchBySwitchKey := False \<rparr>
            = (ic_mem s p) \<lparr> state := IS_CLOSED, switchBySwitchKey := False \<rparr>)"

lemma ic_parts:
  assumes "c \<lparr> state := IS_CLOSED, switchBySwitchKey := False \<rparr> = d \<lparr> state := IS_CLOSED, switchBySwitchKey := False \<rparr>"
  shows "frontendid c = frontendid d" "imname c = imname d" "contextCaps c = contextCaps d"
  using assms by (cases c; cases d; simp)+

lemma set_ic_states_share:
  assumes q: "quiet_env e" and t: "set_ic_states f s t"
  shows "share_with e p r t = share_with e p r s"
proof -
  have c: "config t = config s" using t same_coreD(9) by (fastforce simp: set_ic_states_def)
  have ic: "frontendid (ic_mem t x) = frontendid (ic_mem s x)" "imname (ic_mem t x) = imname (ic_mem s x)"
    "contextCaps (ic_mem t x) = contextCaps (ic_mem s x)" for x
    using t ic_parts [of "ic_mem t x" "ic_mem s x"] by (auto simp: set_ic_states_def)
  have f: "h a b s' = h a b s" if "FcitxInstanceGetPFrontend e i = Some fe" "fe_CheckICFromSameApplication fe = Some h" for i fe h a b s'
  proof -
    have "quiet_frontend fe"
      using that(1) quiet_envD(2) [OF q] by (auto simp: FcitxInstanceGetPFrontend_def array_eltptr_Some)
    then show ?thesis using that(2) unfolding quiet_frontend_def by blast
  qed
  have "FcitxInstanceCheckICFromSameApplication e r p t = FcitxInstanceCheckICFromSameApplication e r p s"
    unfolding FcitxInstanceCheckICFromSameApplication_def ic using f by (auto split: option.split)
  then show ?thesis by (simp add: share_with_def c ic)
qed

lemma same_core_ic_mem: "same_core s t \<Longrightarrow> same_core (s \<lparr> ic_mem := m \<rparr>) (t \<lparr> ic_mem := m \<rparr>)"
  unfolding same_core_def ctx_ok_update by (simp add: core_def)

lemma set_ic_states_trans:
  assumes "set_ic_states f s t" and "set_ic_states g t u"
  shows "set_ic_states (\<lambda>p. case g p of None \<Rightarrow> f p | Some st \<Rightarrow> Some st) s u"
proof -
  have "same_core (s \<lparr> ic_mem := ic_mem u \<rparr>) (t \<lparr> ic_mem := ic_mem u \<rparr>)"
    using assms(1) same_core_ic_mem [of "s \<lparr> ic_mem := ic_mem t \<rparr>" t "ic_mem u"] by (simp add: set_ic_states_def)
  then have "same_core (s \<lparr> ic_mem := ic_mem u \<rparr>) u"
    using assms(2) same_core_trans unfolding set_ic_states_def by blast
  then show ?thesis
    using assms unfolding set_ic_states_def by (auto split: option.split)
qed

lemma set_ic_states_refl: "set_ic_states (\<lambda>_. None) s s"
  by (simp add: set_ic_states_def same_core_refl)

lemma set_ic_states_cong: "set_ic_states f s t \<Longrightarrow> (\<And>p. f p = g p) \<Longrightarrow> set_ic_states g s t"
  by (simp add: set_ic_states_def)

definition sharing :: "env \<Rightarrow> ptr \<Rightarrow> inst \<Rightarrow> ptr \<Rightarrow> bool" where
  "sharing e q s r \<longleftrightarrow>
     (if shareState (config s) = ShareState_None then r = q else r \<in> set (ic_list s) \<and> share_with e q r s)"

text \<open>An operation that sets the state of one context, under a condition on the context.\<close>

definition sets_state :: "ic_state \<Rightarrow> (ptr \<Rightarrow> bool) \<Rightarrow> (ptr \<Rightarrow> inst \<Rightarrow> inst option) \<Rightarrow> inst \<Rightarrow> bool" where
  "sets_state st A f s \<longleftrightarrow> (\<forall>h t r. set_ic_states h s t \<longrightarrow>
     (\<exists>u. f r t = Some u \<and> set_ic_states (\<lambda>p. if p = r \<and> A r then Some st else None) t u))"

lemma for_ics_sets:
  assumes q: "quiet_env e" and f: "sets_state st A f s"
  shows "set_ic_states h s t \<Longrightarrow> \<exists>u. for_ics (\<lambda>r s. if share_with e q r s then f r s else Some s) rs t = Some u
    \<and> set_ic_states (\<lambda>p. if p \<in> set rs \<and> share_with e q p s \<and> A p then Some st else h p) s u"
proof (induction rs arbitrary: t h)
  case (Cons r rs)
  have sh: "share_with e q r t = share_with e q r s" by (rule set_ic_states_share [OF q Cons.prems])
  obtain u where u: "(if share_with e q r t then f r t else Some t) = Some u"
      "set_ic_states (\<lambda>p. if p = r \<and> share_with e q r s \<and> A r then Some st else None) t u"
  proof (cases "share_with e q r t")
    case True
    then show ?thesis using that f Cons.prems sh unfolding sets_state_def by fastforce
  next
    case False
    then show ?thesis using that [of t] sh set_ic_states_refl by simp
  qed
  from Cons.IH [OF set_ic_states_trans [OF Cons.prems u(2)]] obtain v where
    v: "for_ics (\<lambda>r s. if share_with e q r s then f r s else Some s) rs u = Some v"
      "set_ic_states (\<lambda>p. if p \<in> set rs \<and> share_with e q p s \<and> A p then Some st
        else case if p = r \<and> share_with e q r s \<and> A r then Some st else None of None \<Rightarrow> h p | Some st \<Rightarrow> Some st) s v"
    by blast
  show ?case
    using u(1) v(1) by (intro exI [of _ v] conjI set_ic_states_cong [OF v(2)]) auto
qed simp

lemma shared_do_sets:
  assumes q: "quiet_env e" and f: "sets_state st A f s"
  shows "\<exists>u. shared_do e q f s = Some u \<and> set_ic_states (\<lambda>p. if sharing e q s p \<and> A p then Some st else None) s u"
proof (cases "shareState (config s)")
  case ShareState_None
  obtain u where u: "f q s = Some u" "set_ic_states (\<lambda>p. if p = q \<and> A q then Some st else None) s u"
    using f set_ic_states_refl unfolding sets_state_def by metis
  then show ?thesis
    using ShareState_None by (auto simp: shared_do_def sharing_def intro: set_ic_states_cong)
qed (use for_ics_sets [OF q f set_ic_states_refl, of q "ic_list s"] in
    \<open>auto simp: shared_do_def sharing_def intro: set_ic_states_cong\<close>)

text \<open>The operations set the state of one context.\<close>

lemma set_ic_status:
  assumes q: "quiet_env e"
  shows "set_ic_states (\<lambda>p. if p = r then Some st else None) s (FcitxInstanceSetICStatus e r st s)"
proof (cases "state (ic_mem s r) = st")
  case False
  let ?t = "s \<lparr> ic_mem := (ic_mem s)(r := (ic_mem s r) \<lparr> state := st \<rparr>) \<rparr>"
  have "same_core ?t (FcitxInstanceProcessICStateChangedHook (e_hooks e) r ?t)"
    by (intro same_core_hooks same_core_refl quiet_envD q)
  then show ?thesis
    using False by (auto simp: set_ic_states_def FcitxInstanceSetICStatus_def upd_ic_def same_coreD(6))
qed (simp add: FcitxInstanceSetICStatus_def set_ic_states_def same_core_refl)

lemma set_ic_states_quiet:
  assumes "set_ic_states f s t" and "same_core t u"
  shows "set_ic_states f s u"
proof -
  have m: "ic_mem u = ic_mem t" using same_coreD(6) [OF assms(2)] .
  moreover have "same_core (s \<lparr> ic_mem := ic_mem u \<rparr>) u"
    using assms same_core_trans unfolding set_ic_states_def m by blast
  ultimately show ?thesis using assms(1) unfolding set_ic_states_def by simp
qed

lemma change_state_sets:
  assumes q: "quiet_env e"
  shows "sets_state st (\<lambda>_. True) (FcitxInstanceChangeIMStateInternal e st k) s"
  unfolding sets_state_def
proof (intro allI impI)
  fix h t r assume "set_ic_states h s t"
  define u where "u = FcitxInstanceSetICStatus e r st t"
  have u: "set_ic_states (\<lambda>p. if p = r then Some st else None) t u" unfolding u_def by (rule set_ic_status [OF q])
  let ?u = "upd_ic r (\<lambda>c. c \<lparr> switchBySwitchKey := k \<rparr>) u"
  have "same_core (t \<lparr> ic_mem := ic_mem ?u \<rparr>) (u \<lparr> ic_mem := ic_mem ?u \<rparr>)"
    using u same_core_ic_mem [of "t \<lparr> ic_mem := ic_mem u \<rparr>" u "ic_mem ?u"] by (simp add: set_ic_states_def)
  then have "same_core (t \<lparr> ic_mem := ic_mem ?u \<rparr>) ?u" by (simp add: upd_ic_def)
  then have v: "set_ic_states (\<lambda>p. if p = r then Some st else None) t ?u"
    using u unfolding set_ic_states_def by (auto simp: upd_ic_def)
  show "\<exists>u. FcitxInstanceChangeIMStateInternal e st k r t = Some u
    \<and> set_ic_states (\<lambda>p. if p = r \<and> True then Some st else None) t u"
  proof (cases "state (ic_mem t r) = st")
    case True
    then show ?thesis by (simp add: FcitxInstanceChangeIMStateInternal_def set_ic_states_def same_core_refl)
  next
    case False
    then show ?thesis
      using v set_ic_states_quiet [OF v same_core_windows(3) [OF same_core_refl]]
      by (simp add: FcitxInstanceChangeIMStateInternal_def Let_def u_def)
  qed
qed

lemma set_ic_states_ok:
  assumes "set_ic_states f s t"
  shows "switch_ok s \<Longrightarrow> switch_ok t" "index_ok s \<Longrightarrow> index_ok t" "uninit t = uninit s"
proof -
  let ?s = "s \<lparr> ic_mem := ic_mem t \<rparr>"
  have c: "same_core ?s t" using assms by (simp add: set_ic_states_def)
  have "switch_ok s \<Longrightarrow> switch_ok ?s" by (simp add: switch_ok_def list_ok_def ctx_ok_update)
  then show "switch_ok s \<Longrightarrow> switch_ok t" using same_core_ok(2) [OF c] by blast
  have "index_ok s \<Longrightarrow> index_ok ?s" by (simp add: index_ok_def)
  then show "index_ok s \<Longrightarrow> index_ok t" using same_core_index [OF c] by blast
  show "uninit t = uninit s" using same_core_uninit [OF c] by (simp add: uninit_def)
qed

lemma update_current_good:
  assumes "quiet_env e" and "switch_ok s" and "force \<or> index_ok s" and "card (uninit s) < e_loads e"
  shows "\<exists>b t. FcitxInstanceUpdateCurrentIM e force user s = Some (b, t) \<and> good s t"
  using update_current_ok [OF assms(2,3), of "FcitxInstanceSwitchIMInternal (e_loads e) e" False user]
    switch_internal_ok [OF assms(1)] assms(4)
  unfolding FcitxInstanceUpdateCurrentIM_def by simp

text \<open>
  C22: Toggling changes the states of exactly the contexts that share: with no sharing only the context
  itself, otherwise those of the list that belong to the same application (all of them when everything
  is shared) and do not keep their own state; the new state is active for an inactive context and
  inactive for any other one. It always succeeds, whatever has to be loaded for it.
\<close>

theorem toggle_shares:
  assumes "quiet_env e" and "switch_ok s" and "index_ok s" and "card (uninit s) < e_loads e"
  shows "\<exists>t. FcitxInstanceChangeIMState e (Some q) s = Some t
    \<and> (\<forall>p. state (ic_mem t p) =
          (if sharing e q s p then (if state (ic_mem s q) = IS_INACTIVE then IS_ACTIVE else IS_INACTIVE)
           else state (ic_mem s p)))"
proof -
  let ?st = "if state (ic_mem s q) = IS_INACTIVE then IS_ACTIVE else IS_INACTIVE"
  let ?s = "s \<lparr> globalState := ?st \<rparr>"
  have c: "same_core s ?s" by (intro quiet_intros)
  obtain u where u: "shared_do e q (FcitxInstanceChangeIMStateInternal e ?st False) ?s = Some u"
      "set_ic_states (\<lambda>p. if sharing e q ?s p \<and> True then Some ?st else None) ?s u"
    using shared_do_sets [OF assms(1) change_state_sets [OF assms(1)]] by blast
  have ok: "switch_ok u" "index_ok u" "uninit u = uninit s"
    using set_ic_states_ok [OF u(2)] same_core_ok(2) [OF c assms(2)] same_core_index [OF c assms(3)] same_core_uninit [OF c] by simp_all
  obtain b t where t: "FcitxInstanceUpdateCurrentIM e False True u = Some (b, t)" "good u t"
    using update_current_good [OF assms(1) ok(1), of False True] ok assms(4) by auto
  have "sharing e q ?s p = sharing e q s p" for p
  proof -
    have "set_ic_states (\<lambda>_. None) s ?s" using set_ic_states_quiet [OF set_ic_states_refl c] .
    then show ?thesis using set_ic_states_share [OF assms(1)] by (simp add: sharing_def)
  qed
  then have "state (ic_mem t p) = (if sharing e q s p then ?st else state (ic_mem s p))" for p
    using u(2) t(2) frame_state [of u t p] unfolding set_ic_states_def good_def by simp
  then show ?thesis
    using u(1) t(1) by (simp add: FcitxInstanceChangeIMState_def FcitxInstanceChangeIMStateWithKey_def Let_def)
qed

theorem toggle_shares_witness:
  "map_option (\<lambda>t. map (\<lambda>p. state (ic_mem t p)) [1, 2, 3]) (FcitxInstanceChangeIMState plain_env (Some 1)
     (focus_inst \<lparr> config := (config focus_inst) \<lparr> shareState := ShareState_All \<rparr> \<rparr>))
   = Some [IS_INACTIVE, IS_INACTIVE, IS_CLOSED]"
proof -
  let ?s = "focus_inst \<lparr> config := (config focus_inst) \<lparr> shareState := ShareState_All \<rparr> \<rparr>"
  have "switch_ok ?s" "index_ok ?s" "uninit ?s = {}"
    using focus_inst_ok by (simp_all add: switch_ok_def list_ok_def ctx_ok_def index_ok_def uninit_def)
  then obtain t where t: "FcitxInstanceChangeIMState plain_env (Some 1) ?s = Some t"
    "\<forall>p. state (ic_mem t p) = (if sharing plain_env 1 ?s p
       then (if state (ic_mem ?s 1) = IS_INACTIVE then IS_ACTIVE else IS_INACTIVE) else state (ic_mem ?s p))"
    using toggle_shares [OF quiet_plain, of ?s 1] by (auto simp: plain_env_def)
  then show ?thesis
    by (simp add: sharing_def share_with_def) (simp add: focus_inst_def new_inst_def)
qed

section \<open>Stepping through the list\<close>

lemma wrap_index_mod:
  assumes "1 \<le> cur" and "cur < n" and "d = - 3 \<or> d = - 4"
  shows "wrap_index n cur d = (cur + (if d = - 3 then 0 else - 2)) mod (n - 1) + 1"
proof (cases "d = - 3")
  case True
  then show ?thesis using assms by (cases "cur = n - 1") (auto simp: wrap_index_def)
next
  case False
  have "(- 1) mod (n - 1) = n - 2" if "2 \<le> n" using that zmod_minus1 [of "n - 1"] by simp
  then show ?thesis using False assms by (cases "cur = 1") (auto simp: wrap_index_def)
qed

text \<open>Switching to an index other than 0, with everything loaded.\<close>

lemma switch_index_value:
  assumes q: "quiet_env e" and s: "switch_ok s" "index_ok s" and n: "0 < e_loads e"
    and i: "\<forall>m\<in>set (imes s). initialized m"
    and k: "0 < k" "k < int (length (imes s))"
  shows "\<exists>u. FcitxInstanceSwitchIMInternal (e_loads e) e k True True user s = Some u \<and> good s u \<and> imes u = imes s
    \<and> iIMIndex u = k \<and> globalIMName u = Some (uniqueName (imes s ! nat k))"
proof -
  have "switch_index (int (length (imes s))) k True = k" using k by (simp add: switch_index_def)
  moreover have "fcitx_array_eltptr (imes s) k = Some (imes s ! nat k)"
    using k by (auto simp: fcitx_array_eltptr_def utarray_eltptr_def nat_less_iff)
  ultimately show ?thesis using switch_initialized [OF q s(1) n i, of k True True user] by auto
qed

lemma set_local_initialized:
  assumes q: "quiet_env e" and s: "switch_ok s" "index_ok s" and n: "0 < e_loads e"
    and i: "\<forall>m\<in>set (imes s). initialized m"
  shows "\<exists>u. FcitxInstanceSetLocalIMName e p None s = Some u \<and> good s u \<and> imes u = imes s"
proof -
  define t where "t = upd_ic p (\<lambda>c. c \<lparr> imname := None \<rparr>) s"
  have t: "switch_ok t" "index_ok t" "frame s t" "imes t = imes s"
    using s by (auto simp: t_def upd_ic_def switch_ok_def list_ok_def ctx_ok_update index_ok_def frame_def)
  have "\<exists>b u. FcitxInstanceUpdateCurrentIM e False True t = Some (b, u) \<and> good t u \<and> (True \<longrightarrow> imes u = imes t)"
    unfolding FcitxInstanceUpdateCurrentIM_def
  proof (rule update_current_ok [OF t(1)])
    fix v a b c d assume "switch_ok v" "imes v = imes t"
    then show "\<exists>u. FcitxInstanceSwitchIMInternal (e_loads e) e a b c d v = Some u \<and> good v u \<and> (True \<longrightarrow> imes u = imes v)"
      using switch_initialized [OF q _ n, of v a b c d] i t(4) by auto
  qed (use t(2) in simp)
  then obtain b u where "FcitxInstanceUpdateCurrentIM e False True t = Some (b, u)" "good t u" "imes u = imes t" by auto
  then show ?thesis
    using t frame_trans [OF t(3)] by (auto simp: FcitxInstanceSetLocalIMName_def t_def [symmetric] Let_def good_def)
qed

text \<open>
  C23: The keys for the next and the previous input method go round the list without its first entry. With
  everything loaded and the current context active (or no context), index -3 makes the successor the
  current and global input method, index -4 the predecessor, and both wrap around at the ends.
\<close>

theorem switch_cycles:
  assumes "quiet_env e" and "switch_ok s" and "0 < e_loads e" and "\<forall>m\<in>set (imes s). initialized m"
    and "CurrentIC s = None \<or> FcitxInstanceGetCurrentState s = IS_ACTIVE"
    and "1 \<le> iIMIndex s" and "iIMIndex s < int (length (imes s))" and "d = - 3 \<or> d = - 4"
  shows "\<exists>t. FcitxInstanceSwitchIMByIndex e d s = Some t \<and> imes t = imes s
    \<and> iIMIndex t = (iIMIndex s + (if d = - 3 then 0 else - 2)) mod (int (length (imes s)) - 1) + 1
    \<and> globalIMName t = Some (uniqueName (imes s ! nat (iIMIndex t)))"
proof -
  let ?n = "int (length (imes s))" and ?k = "wrap_index (int (length (imes s))) (iIMIndex s) d"
  have ix: "index_ok s" using assms(6,7) by (simp add: index_ok_def)
  have k: "0 < ?k" "?k < ?n" "?k = (iIMIndex s + (if d = - 3 then 0 else - 2)) mod (?n - 1) + 1"
  proof -
    show eq: "?k = (iIMIndex s + (if d = - 3 then 0 else - 2)) mod (?n - 1) + 1" by (rule wrap_index_mod [OF assms(6,7,8)])
    have "0 < ?n - 1" using assms(6,7) by simp
    then have "0 \<le> x mod (?n - 1) \<and> x mod (?n - 1) < ?n - 1" for x by simp
    then show "0 < ?k" "?k < ?n" unfolding eq by (smt (verit))+
  qed
  have "\<exists>a. (case CurrentIC s of None \<Rightarrow> Some s | Some q \<Rightarrow> FcitxInstanceSetLocalIMName e q None s) = Some a
      \<and> good s a \<and> imes a = imes s"
    using set_local_initialized [OF assms(1,2) ix assms(3,4)] assms(2) ix by (cases "CurrentIC s") (auto simp: good_def)
  then obtain a where a: "(case CurrentIC s of None \<Rightarrow> Some s | Some q \<Rightarrow> FcitxInstanceSetLocalIMName e q None s) = Some a"
      "good s a" "imes a = imes s" by blast
  have "\<forall>m\<in>set (imes a). initialized m" using a(3) assms(4) by simp
  from switch_index_value [OF assms(1) _ _ assms(3) this, of ?k True] k a
  obtain b where b: "FcitxInstanceSwitchIMInternal (e_loads e) e ?k True True True a = Some b" "good a b"
      "imes b = imes s" "iIMIndex b = ?k" "globalIMName b = Some (uniqueName (imes s ! nat ?k))"
    by (auto simp: good_def)
  have st: "FcitxInstanceGetCurrentState b = FcitxInstanceGetCurrentState s"
    using good_trans [OF a(2) b(2)] frame_state [of s b] frame_fields [of s b]
    by (auto simp: good_def FcitxInstanceGetCurrentState_def split: option.split)
  have cur: "CurrentIC b = CurrentIC s"
    using good_trans [OF a(2) b(2)] frame_fields [of s b] by (simp add: good_def)
  have "(if FcitxInstanceGetCurrentState b \<noteq> IS_ACTIVE
      then FcitxInstanceEnableIM e (FcitxInstanceGetCurrentIC b) False b else Some b) = Some b"
    using assms(5) st cur by (auto simp: FcitxInstanceEnableIM_def FcitxInstanceGetCurrentIC_def)
  moreover obtain t where t: "FcitxInstanceShowInputSpeed e False b = Some t" "same_core b t"
    using show_speed [OF assms(1) same_core_refl] by blast
  ultimately have "FcitxInstanceSwitchIMByIndex e d s = Some t"
    using a(1) b(1) k assms(8) by (auto simp: FcitxInstanceSwitchIMByIndex_def Let_def FcitxInstanceGetCurrentIC_def)
  then show ?thesis using b same_coreD [OF t(2)] k(3) by simp
qed

theorem switch_cycles_witness:
  "map_option (\<lambda>t. (iIMIndex t, globalIMName t)) (FcitxInstanceSwitchIMByIndex plain_env (- 4) (focus_inst \<lparr> iIMIndex := 1 \<rparr>))
   = Some (2, Some (ascii ''kbd-us''))"
proof -
  let ?s = "focus_inst \<lparr> iIMIndex := 1 \<rparr>"
  have "switch_ok ?s" using focus_inst_ok by (simp add: switch_ok_def list_ok_def ctx_ok_update)
  moreover have "FcitxInstanceGetCurrentState ?s = IS_ACTIVE"
    by (simp add: FcitxInstanceGetCurrentState_def focus_inst_def)
  ultimately obtain t where t: "FcitxInstanceSwitchIMByIndex plain_env (- 4) ?s = Some t"
    "iIMIndex t = (iIMIndex ?s - 2) mod (int (length (imes ?s)) - 1) + 1"
    "globalIMName t = Some (uniqueName (imes ?s ! nat (iIMIndex t)))"
    using switch_cycles [OF quiet_plain, of ?s "- 4"] focus_inst_ok by (auto simp: plain_env_def)
  have "iIMIndex t = 2" using t(2) focus_inst_ok(5) by simp
  then show ?thesis using t by (simp add: focus_inst_def three_ims_def small_im_def)
qed

end
