(* ===== verification/FrontendIC_Laws.thy ===== *)
theory FrontendIC_Laws
  imports FrontendIC ImSwitch_Props
begin

text \<open>
  The invariant of the input contexts: a block is in use or free and not both, every context in use has
  one pointer per registration and a frontend, and the focused and the last focused context are in use.
  All operations on contexts keep it and succeed, in an environment whose callbacks do not themselves
  create or destroy contexts.
\<close>

definition same_ics :: "inst \<Rightarrow> inst \<Rightarrow> bool" where
  "same_ics s t \<longleftrightarrow> ic_list t = ic_list s \<and> free_list t = free_list s \<and> ic_brk t = ic_brk s \<and> icdata t = icdata s
     \<and> CurrentIC t = CurrentIC s \<and> lastIC t = lastIC s
     \<and> (\<forall>p. length (data (ic_mem t p)) = length (data (ic_mem s p)) \<and> frontendid (ic_mem t p) = frontendid (ic_mem s p))"

lemma same_ics_refl [simp]: "same_ics s s"
  by (simp add: same_ics_def)

lemma same_ics_trans: "same_ics s t \<Longrightarrow> same_ics t u \<Longrightarrow> same_ics s u"
  by (simp add: same_ics_def)

definition keeps_ics :: "(inst \<Rightarrow> inst) \<Rightarrow> bool" where
  "keeps_ics f \<longleftrightarrow> (\<forall>s. same_ics s (f s))"

lemma keeps_icsD: "keeps_ics f \<Longrightarrow> same_ics s t \<Longrightarrow> same_ics s (f t)"
  using same_ics_trans by (auto simp: keeps_ics_def)

definition ics_env :: "env \<Rightarrow> bool" where
  "ics_env e \<longleftrightarrow>
     (\<forall>fe\<in>set (e_frontends e). (\<forall>r priv. keeps_ics (fe_CreateIC fe r priv)) \<and> (\<forall>r. keeps_ics (fe_DestroyIC fe r)))
     \<and> (\<forall>u f. e_ui e = Some u \<longrightarrow> ui_OnInputUnFocus u = Some f \<longrightarrow> keeps_ics f)
     \<and> (\<forall>f\<in>set (hookInputUnFocusHook (e_hooks e)). keeps_ics f)
     \<and> (\<forall>f a. keeps_ics (\<lambda>s. snd (e_alloc e f a s))) \<and> (\<forall>f a d. keeps_ics (e_free e f a d))
     \<and> (\<forall>f a d n. keeps_ics (\<lambda>s. snd (e_copy e f a d n s)))"

definition ics_ok :: "env \<Rightarrow> inst \<Rightarrow> bool" where
  "ics_ok e s \<longleftrightarrow> distinct (ic_list s @ free_list s) \<and> (\<forall>p\<in>set (ic_list s @ free_list s). p < ic_brk s)
     \<and> (\<forall>p\<in>set (ic_list s). length (data (ic_mem s p)) = length (icdata s)
          \<and> FcitxInstanceGetPFrontend e (frontendid (ic_mem s p)) \<noteq> None)
     \<and> (\<forall>p. CurrentIC s = Some p \<or> lastIC s = Some p \<longrightarrow> p \<in> set (ic_list s))"

lemma ics_ok_same: "same_ics s t \<Longrightarrow> ics_ok e s \<Longrightarrow> ics_ok e t"
  by (auto simp: ics_ok_def same_ics_def)

section \<open>Data\<close>

lemma alloc_data_ok:
  "ics_env e \<Longrightarrow> alloc_data e is s = (ds, t) \<Longrightarrow> length ds = length is \<and> same_ics s t"
proof (induction "is" arbitrary: s ds t)
  case (Cons i "is")
  obtain d s1 where d: "(if di_alloc i = 0 then (0, s) else e_alloc e (di_alloc i) (di_arg i) s) = (d, s1)"
    by (meson surj_pair)
  have k: "keeps_ics (\<lambda>s. snd (e_alloc e f a s))" for f a using Cons.prems(1) by (simp add: ics_env_def)
  have "same_ics s s1" using d keeps_icsD [OF k, of s s "di_alloc i" "di_arg i"] by (auto split: if_splits)
  moreover obtain ds' where ds: "alloc_data e is s1 = (ds', t)" "ds = d # ds'"
    using Cons.prems(2) d by (auto split: prod.splits)
  moreover have "length ds' = length is" "same_ics s1 t" using Cons.IH [OF Cons.prems(1) ds(1)] by simp_all
  ultimately show ?case using same_ics_trans [of s s1 t] by simp
qed simp

lemma free_data_ok:
  assumes e: "ics_env e"
  shows "length ds \<le> length is \<Longrightarrow> \<exists>t. free_data e ds is s = Some t \<and> same_ics s t"
proof (induction ds arbitrary: "is" s)
  case (Cons d ds)
  obtain i js where i: "is = i # js" using Cons.prems by (cases "is") auto
  define s1 where "s1 = (if di_free i = 0 then s else e_free e (di_free i) (di_arg i) d s)"
  have k: "keeps_ics (e_free e (di_free i) (di_arg i) d)" using e by (simp add: ics_env_def)
  have "same_ics s (e_free e (di_free i) (di_arg i) d s)" by (rule keeps_icsD [OF k same_ics_refl])
  then have s1: "same_ics s s1" by (simp add: s1_def)
  have "length ds \<le> length js" using Cons.prems i by simp
  from Cons.IH [OF this, of s1] obtain t where "free_data e ds js s1 = Some t" "same_ics s1 t" by blast
  moreover from this(2) have "same_ics s t" by (rule same_ics_trans [OF s1])
  ultimately show ?case using i by (auto simp: s1_def)
qed simp

lemma FreeICData_ok:
  assumes "ics_env e" and "length (data (ic_mem s p)) \<le> length (icdata s)"
  shows "\<exists>t. FreeICData e p s = Some t \<and> same_ics s t"
  using free_data_ok [OF assms] by (simp add: FreeICData_def)

text \<open>Filling completes the data of one context.\<close>

lemma FillICData_ok:
  assumes "ics_env e" and "length (data (ic_mem s p)) \<le> length (icdata s)"
  shows "same_ics (s \<lparr> ic_mem := (ic_mem s)(p := (ic_mem s p) \<lparr> data := replicate (length (icdata s)) 0 \<rparr>) \<rparr>) (FillICData e p s)"
proof -
  obtain ds t where a: "alloc_data e (drop (length (data (ic_mem s p))) (icdata s)) s = (ds, t)" by (meson surj_pair)
  from alloc_data_ok [OF assms(1) a] assms(2) show ?thesis
    by (simp add: FillICData_def a upd_ic_def same_ics_def)
qed

section \<open>Letting a context go\<close>

lemma unfocus_ok:
  assumes "ics_env e"
  shows "same_ics s (FcitxUIOnInputUnFocus e s)"
proof -
  have run: "same_ics s (run_events fs t)" if "\<forall>f\<in>set fs. keeps_ics f" "same_ics s t" for fs t
    using that by (induction fs arbitrary: t) (auto simp: run_events_def intro: keeps_icsD)
  have "same_ics s (ui_call e ui_OnInputUnFocus s)"
    using assms keeps_icsD [OF _ same_ics_refl] by (auto simp: ui_call_def ics_env_def split: option.split)
  then show ?thesis
    using assms by (auto simp: FcitxUIOnInputUnFocus_def FcitxInstanceProcessInputUnFocusHook_def ics_env_def intro: run)
qed

lemma forget_ok:
  assumes "ics_env e"
  shows "same_ics (s \<lparr> CurrentIC := None \<rparr>) (forget_current e s)"
proof -
  have "same_ics s (FcitxUICloseInputWindow s)"
    by (simp add: same_ics_def FcitxUICloseInputWindow_def FcitxInstanceCleanInputWindow_def
        FcitxInstanceCleanInputWindowUp_def FcitxInstanceCleanInputWindowDown_def upd_input_def Let_def)
  then have "same_ics s (FcitxUIOnInputUnFocus e (FcitxUICloseInputWindow s))"
    using unfocus_ok [OF assms] same_ics_trans by blast
  then show ?thesis
    by (auto simp: forget_current_def FcitxInstanceSetCurrentIC_def Let_def same_ics_def)
qed

lemma unlink_ok:
  assumes s: "ics_ok e s" and r: "r \<in> set (ic_list s)"
    and t: "ic_list t = remove1 r (ic_list s)" "free_list t = r # free_list s" "ic_brk t = ic_brk s"
      "icdata t = icdata s" "\<forall>p. length (data (ic_mem t p)) = length (data (ic_mem s p)) \<and> frontendid (ic_mem t p) = frontendid (ic_mem s p)"
      "CurrentIC t = (if CurrentIC s = Some r then None else CurrentIC s)"
      "lastIC t = (if lastIC s = Some r then None else lastIC s)"
  shows "ics_ok e t"
proof -
  have d: "distinct (ic_list s)" using s by (simp add: ics_ok_def)
  have set: "set (ic_list t) = set (ic_list s) - {r}" using d t(1) by simp
  have "distinct (ic_list t @ free_list t)" using s r d t(1,2) by (auto simp: ics_ok_def)
  then show ?thesis using s r t set by (auto simp: ics_ok_def)
qed

lemma frontend_quiet:
  assumes "ics_env e" and "FcitxInstanceGetPFrontend e i = Some fe"
  shows "keeps_ics (fe_CreateIC fe r priv)" "keeps_ics (fe_DestroyIC fe r)"
  using assms by (auto simp: ics_env_def FcitxInstanceGetPFrontend_def array_eltptr_Some)

lemma ics_frontend: "ics_ok e s \<Longrightarrow> r \<in> set (ic_list s) \<Longrightarrow> \<exists>fe. FcitxInstanceGetPFrontend e (frontendid (ic_mem s r)) = Some fe"
  by (auto simp: ics_ok_def)

lemma clean_up_one_ok:
  assumes e: "ics_env e" and s: "ics_ok e s" and r: "r \<in> set (ic_list s)"
  shows "\<exists>t. clean_up_one e r s = Some t \<and> ics_ok e t \<and> (ic_list t = ic_list s \<or> ic_list t = remove1 r (ic_list s))"
proof -
  obtain fe where fe: "FcitxInstanceGetPFrontend e (frontendid (ic_mem s r)) = Some fe" using ics_frontend [OF s r] by blast
  let ?dead = "(case fe_GetPid fe of None \<Rightarrow> 0 | Some f \<Rightarrow> f r s) \<noteq> 0 \<and> \<not> e_pids e (case fe_GetPid fe of None \<Rightarrow> 0 | Some f \<Rightarrow> f r s)"
  define s0 where "s0 = s \<lparr> ic_list := remove1 r (ic_list s), free_list := r # free_list s \<rparr>"
  have d: "same_ics s0 (fe_DestroyIC fe r s0)" using frontend_quiet(2) [OF e fe] by (simp add: keeps_ics_def)
  have "length (data (ic_mem (fe_DestroyIC fe r s0) r)) \<le> length (icdata (fe_DestroyIC fe r s0))"
    using d s r by (simp add: same_ics_def s0_def ics_ok_def)
  from FreeICData_ok [OF e this] obtain s1 where s1: "FreeICData e r (fe_DestroyIC fe r s0) = Some s1"
    "same_ics (fe_DestroyIC fe r s0) s1" by blast
  define s2 where "s2 = (if lastIC s1 = Some r then FcitxInstanceSetLastIC None s1 else s1)"
  define t where "t = (if CurrentIC s2 = Some r then forget_current e (s2 \<lparr> CurrentIC := None \<rparr>) else s2)"
  have 1: "same_ics s0 s1" by (rule same_ics_trans [OF d s1(2)])
  have f: "same_ics (s2 \<lparr> CurrentIC := None \<rparr>) (forget_current e (s2 \<lparr> CurrentIC := None \<rparr>))"
    using forget_ok [OF e, of "s2 \<lparr> CurrentIC := None \<rparr>"] by simp
  have 2: "ic_list s2 = remove1 r (ic_list s)" "free_list s2 = r # free_list s" "ic_brk s2 = ic_brk s" "icdata s2 = icdata s"
    "\<forall>p. length (data (ic_mem s2 p)) = length (data (ic_mem s p)) \<and> frontendid (ic_mem s2 p) = frontendid (ic_mem s p)"
    "CurrentIC s2 = CurrentIC s" "lastIC s2 = (if lastIC s = Some r then None else lastIC s)"
    using 1 by (simp_all add: s2_def s0_def same_ics_def FcitxInstanceSetLastIC_def)
  have t: "ic_list t = remove1 r (ic_list s)" "free_list t = r # free_list s" "ic_brk t = ic_brk s" "icdata t = icdata s"
    "\<forall>p. length (data (ic_mem t p)) = length (data (ic_mem s p)) \<and> frontendid (ic_mem t p) = frontendid (ic_mem s p)"
    "CurrentIC t = (if CurrentIC s = Some r then None else CurrentIC s)" "lastIC t = (if lastIC s = Some r then None else lastIC s)"
    using 2 f by (simp_all add: t_def same_ics_def)
  have "clean_up_one e r s = (if ?dead then Some t else Some s)"
    using fe s1(1) by (simp add: clean_up_one_def Let_def s0_def s2_def t_def)
  then show ?thesis using unlink_ok [OF s r t] s t(1) by auto
qed

lemma clean_up_ok:
  assumes e: "ics_env e"
  shows "ics_ok e s \<Longrightarrow> distinct rs \<Longrightarrow> set rs \<subseteq> set (ic_list s)
    \<Longrightarrow> \<exists>t. for_ics (clean_up_one e) rs s = Some t \<and> ics_ok e t"
proof (induction rs arbitrary: s)
  case (Cons r rs)
  obtain t where t: "clean_up_one e r s = Some t" "ics_ok e t" "ic_list t = ic_list s \<or> ic_list t = remove1 r (ic_list s)"
    using clean_up_one_ok [OF e Cons.prems(1), of r] Cons.prems(3) by auto
  have "set (remove1 r (ic_list s)) = set (ic_list s) - {r}" using Cons.prems(1) by (simp add: ics_ok_def)
  then have "set rs \<subseteq> set (ic_list t)" using t(3) Cons.prems(2,3) by auto
  then show ?case using Cons.IH [OF t(2)] Cons.prems(2) t(1) by simp
qed simp

lemma destroy_ok:
  assumes e: "ics_env e" and s: "ics_ok e s"
  shows "\<exists>t. FcitxInstanceDestroyIC e fid flt s = Some t \<and> ics_ok e t"
proof (cases "FcitxInstanceGetPFrontend e fid")
  case (Some fe)
  show ?thesis
  proof (cases "find (\<lambda>r. frontendid (ic_mem s r) = fid \<and> fe_CheckIC fe r flt s) (ic_list s)")
    case r: (Some r)
    then have rin: "r \<in> set (ic_list s)" by (auto simp: find_Some_iff)
    define s1 where "s1 = s \<lparr> ic_list := remove1 r (ic_list s), free_list := r # free_list s \<rparr>"
    define s2 where "s2 = (if lastIC s1 = Some r then FcitxInstanceSetLastIC None s1 else s1)"
    define s3 where "s3 = (if FcitxInstanceGetCurrentIC s2 = Some r then forget_current e s2 else s2)"
    have 3: "same_ics (s1 \<lparr> lastIC := (if lastIC s = Some r then None else lastIC s),
        CurrentIC := (if CurrentIC s = Some r then None else CurrentIC s) \<rparr>) s3"
      using forget_ok [OF e, of s2]
      by (auto simp: s3_def s2_def s1_def FcitxInstanceGetCurrentIC_def FcitxInstanceSetLastIC_def same_ics_def)
    have d: "same_ics s3 (fe_DestroyIC fe r s3)" using frontend_quiet(2) [OF e Some] by (simp add: keeps_ics_def)
    have "length (data (ic_mem (fe_DestroyIC fe r s3) r)) \<le> length (icdata (fe_DestroyIC fe r s3))"
      using same_ics_trans [OF 3 d] s rin by (simp add: same_ics_def s1_def ics_ok_def)
    from FreeICData_ok [OF e this] obtain t where t: "FreeICData e r (fe_DestroyIC fe r s3) = Some t"
      "same_ics (fe_DestroyIC fe r s3) t" by blast
    have "ics_ok e t"
      using same_ics_trans [OF same_ics_trans [OF 3 d] t(2)]
      by (intro unlink_ok [OF s rin]) (simp_all add: same_ics_def s1_def)
    moreover have "FcitxInstanceDestroyIC e fid flt s = FreeICData e r (fe_DestroyIC fe r s3)"
      unfolding s3_def s2_def s1_def by (simp add: FcitxInstanceDestroyIC_def Let_def Some r)
    ultimately show ?thesis using t(1) by simp
  qed (use Some s in \<open>simp add: FcitxInstanceDestroyIC_def\<close>)
qed (use s in \<open>simp add: FcitxInstanceDestroyIC_def\<close>)

lemma create_ok:
  assumes e: "ics_env e" and s: "ics_ok e s"
  shows "\<exists>r t. FcitxInstanceCreateIC e fid priv s = Some (r, t) \<and> ics_ok e t
    \<and> (case r of None \<Rightarrow> FcitxInstanceGetPFrontend e fid = None
       | Some p \<Rightarrow> hd (ic_list t) = p \<and> p \<in> set (ic_list t) \<and> frontendid (ic_mem t p) = fid)"
proof -
  obtain s1 where s1: "FcitxInstanceCleanUpIC e s = Some s1" "ics_ok e s1"
    using clean_up_ok [OF e s, of "ic_list s"] s by (auto simp: FcitxInstanceCleanUpIC_def ics_ok_def)
  show ?thesis
  proof (cases "FcitxInstanceGetPFrontend e fid")
    case None
    then show ?thesis using s1 by (simp add: FcitxInstanceCreateIC_def)
  next
    case (Some fe)
    obtain r s2 where 2: "take_block s1 = (r, s2)" by (meson surj_pair)
    define s3 where "s3 = NewICData e r (upd_ic r (\<lambda>_. zero_ic fid) s2)"
    define s4 where "s4 = fe_CreateIC fe r priv (upd_ic r (\<lambda>c. c \<lparr> state :=
      if shareState (config s3) = ShareState_All then globalState s3 else defaultIMState (config s3) \<rparr>) s3)"
    define t where "t = s4 \<lparr> ic_list := r # ic_list s4 \<rparr>"
    have eq: "FcitxInstanceCreateIC e fid priv s = Some (Some r, t)"
      using s1(1) Some 2 by (simp add: FcitxInstanceCreateIC_def Let_def s3_def s4_def t_def)
    let ?z = "(zero_ic fid) \<lparr> data := replicate (length (icdata s2)) 0 \<rparr>"
    have "same_ics (s2 \<lparr> ic_mem := (ic_mem s2)(r := ?z) \<rparr>) s3"
      using FillICData_ok [OF e, of "upd_ic r (\<lambda>c. c \<lparr> data := [] \<rparr>) (upd_ic r (\<lambda>_. zero_ic fid) s2)" r]
      by (simp add: s3_def NewICData_def upd_ic_def zero_ic_def)
    moreover have "same_ics s3 s4"
      unfolding s4_def by (rule keeps_icsD [OF frontend_quiet(1) [OF e Some]]) (simp add: same_ics_def upd_ic_def)
    ultimately have 4: "same_ics (s2 \<lparr> ic_mem := (ic_mem s2)(r := ?z) \<rparr>) s4" by (rule same_ics_trans)
    have b: "ic_list s2 = ic_list s1" "icdata s2 = icdata s1" "ic_mem s2 = ic_mem s1" "CurrentIC s2 = CurrentIC s1"
        "lastIC s2 = lastIC s1" "r \<notin> set (ic_list s1)" "distinct (r # ic_list s1 @ free_list s2)"
        "\<forall>p\<in>set (r # ic_list s1 @ free_list s2). p < ic_brk s2"
      using 2 s1(2) by (auto simp: take_block_def ics_ok_def less_Suc_eq split: list.splits)
    have l: "length (data (ic_mem s4 p)) = (if p = r then length (icdata s1) else length (data (ic_mem s1 p)))"
        "frontendid (ic_mem s4 p) = (if p = r then fid else frontendid (ic_mem s1 p))" for p
      using 4 b by (simp_all add: same_ics_def zero_ic_def)
    have s4: "ic_list s4 = ic_list s1" "free_list s4 = free_list s2" "ic_brk s4 = ic_brk s2" "icdata s4 = icdata s1"
        "CurrentIC s4 = CurrentIC s1" "lastIC s4 = lastIC s1"
      using 4 b by (simp_all add: same_ics_def)
    have "ics_ok e t"
      using s1(2) b(6,7,8) l s4 Some by (auto simp: t_def ics_ok_def)
    then show ?thesis using eq l(2) [of r] by (auto simp: t_def)
  qed
qed

section \<open>Registering and setting data\<close>

lemma fill_all_ok:
  assumes e: "ics_env e"
  shows "(\<forall>p\<in>set rs. length (data (ic_mem s p)) \<le> length (icdata s))
    \<Longrightarrow> same_ics (s \<lparr> ic_mem := (\<lambda>p. if p \<in> set rs then (ic_mem s p) \<lparr> data := replicate (length (icdata s)) 0 \<rparr> else ic_mem s p) \<rparr>)
          (foldl (\<lambda>s r. FillICData e r s) s rs)"
proof (induction rs arbitrary: s)
  case (Cons r rs)
  have f: "same_ics (s \<lparr> ic_mem := (ic_mem s)(r := (ic_mem s r) \<lparr> data := replicate (length (icdata s)) 0 \<rparr>) \<rparr>) (FillICData e r s)"
    using Cons.prems by (intro FillICData_ok [OF e]) simp
  then have "\<forall>p\<in>set rs. length (data (ic_mem (FillICData e r s) p)) \<le> length (icdata (FillICData e r s))"
    using Cons.prems by (simp add: same_ics_def)
  from Cons.IH [OF this] f show ?case by (simp add: same_ics_def)
qed simp

lemma register_data_ok:
  assumes e: "ics_env e" and s: "ics_ok e s"
  shows "ics_ok e (snd (FcitxInstanceAllocDataForIC e info s))"
    "length (icdata (snd (FcitxInstanceAllocDataForIC e info s))) = Suc (length (icdata s))"
    "fst (FcitxInstanceAllocDataForIC e info s) = int (length (icdata s))"
proof -
  let ?s1 = "s \<lparr> icdata := utarray_push_back (icdata s) info \<rparr>"
  define t where "t = foldl (\<lambda>s r. FillICData e r s) ?s1 (ic_list ?s1)"
  have l: "length (icdata ?s1) = Suc (length (icdata s))" by (simp add: utarray_push_back_def)
  have t: "same_ics (?s1 \<lparr> ic_mem := (\<lambda>p. if p \<in> set (ic_list ?s1) then (ic_mem ?s1 p) \<lparr> data := replicate (length (icdata ?s1)) 0 \<rparr>
      else ic_mem ?s1 p) \<rparr>) t"
    unfolding t_def using s l by (intro fill_all_ok [OF e]) (simp add: ics_ok_def)
  have eq: "FcitxInstanceAllocDataForIC e info s = (int (length (icdata t)) - 1, t)"
    by (simp add: FcitxInstanceAllocDataForIC_def Let_def t_def)
  have d: "icdata t = icdata ?s1" using t by (simp add: same_ics_def)
  show "length (icdata (snd (FcitxInstanceAllocDataForIC e info s))) = Suc (length (icdata s))"
    "fst (FcitxInstanceAllocDataForIC e info s) = int (length (icdata s))"
    using eq d l by simp_all
  show "ics_ok e (snd (FcitxInstanceAllocDataForIC e info s))"
    using t s eq by (auto simp: ics_ok_def same_ics_def)
qed

lemma set_data_ok:
  assumes e: "ics_env e"
  shows "same_ics s (FcitxInstanceSetICDataInternal e p i d copy s)"
proof -
  have k: "keeps_ics (\<lambda>s. snd (e_copy e f a x n s))" for f a x n using e by (simp add: ics_env_def)
  have upd: "same_ics s (upd_ic p (\<lambda>c. c \<lparr> data := (data c)[j := x] \<rparr>) t)" if "same_ics s t" for t j x
    using that by (simp add: same_ics_def upd_ic_def)
  have cp: "same_ics s (snd (e_copy e f a x n s))" for f a x n by (rule keeps_icsD [OF k same_ics_refl])
  show ?thesis
    using cp by (auto simp: FcitxInstanceSetICDataInternal_def Let_def split: option.split prod.split intro!: upd)
      (metis snd_conv)+
qed

lemma set_all_data_ok:
  assumes e: "ics_env e"
  shows "same_ics s (FcitxInstanceSetICData e p i d s)"
proof -
  have "same_ics s (foldl (\<lambda>s r. if c r s then FcitxInstanceSetICDataInternal e r i d (b r) s else s) t rs)"
    if "same_ics s t" for c b t rs
    using that
  proof (induction rs arbitrary: t)
    case (Cons r rs)
    have "same_ics s (if c r t then FcitxInstanceSetICDataInternal e r i d (b r) t else t)"
      using same_ics_trans [OF Cons.prems set_data_ok [OF e]] Cons.prems by simp
    then show ?case using Cons.IH by simp
  qed simp
  then show ?thesis using set_data_ok [OF e] by (auto simp: FcitxInstanceSetICData_def split: option.split)
qed

text \<open>
  C25: The input contexts stay in order. A block is in use or free and never both or twice, every context
  in use has exactly one pointer per registered kind of data and a frontend, and the focused and the last
  focused context are in use: creating a context (after the clean up of dead ones), destroying one,
  registering data and setting it all succeed and keep this; a created context heads the list and belongs
  to its frontend, and a registration answers the next number.
\<close>

theorem contexts_invariant:
  assumes "ics_env e" and "ics_ok e s"
  shows "\<exists>r t u. FcitxInstanceCreateIC e fid priv s = Some (r, t) \<and> ics_ok e t
    \<and> (case r of None \<Rightarrow> FcitxInstanceGetPFrontend e fid = None
       | Some p \<Rightarrow> hd (ic_list t) = p \<and> p \<in> set (ic_list t) \<and> frontendid (ic_mem t p) = fid)
    \<and> FcitxInstanceDestroyIC e fid flt s = Some u \<and> ics_ok e u
    \<and> ics_ok e (snd (FcitxInstanceAllocDataForIC e info s))
    \<and> fst (FcitxInstanceAllocDataForIC e info s) = int (length (icdata s))
    \<and> ics_ok e (FcitxInstanceSetICData e q i d s)"
  using create_ok [OF assms, of fid priv] destroy_ok [OF assms, of fid flt] register_data_ok(1,3) [OF assms, of info]
    ics_ok_same [OF set_all_data_ok [OF assms(1)] assms(2), of q i d]
  by blast

text \<open>One frontend whose contexts belong to the process of their number; process 2 is gone.\<close>

definition desk_frontend :: "inst frontend" where
  "desk_frontend =
     \<lparr> fe_CreateIC = (\<lambda>_ _ s. s), fe_CheckIC = (\<lambda>r f _. r = f), fe_DestroyIC = (\<lambda>_ s. s), fe_EnableIM = (\<lambda>_ s. s),
       fe_CloseIM = (\<lambda>_ s. s), fe_CommitString = (\<lambda>_ _ s. s), fe_ForwardKey = (\<lambda>_ _ _ _ s. s),
       fe_SetWindowOffset = None, fe_GetWindowRect = None, fe_GetSurroundingPreedit = None,
       fe_DeleteSurroundingText = None, fe_UpdatePreedit = (\<lambda>_ s. s), fe_UpdateClientSideUI = None,
       fe_CheckICFromSameApplication = None, fe_GetPid = Some (\<lambda>r _. r) \<rparr>"

definition desk_env :: env where
  "desk_env = plain_env \<lparr> e_frontends := [desk_frontend], e_pids := (\<lambda>p. p \<noteq> 2) \<rparr>"

definition desk_inst :: inst where
  "desk_inst = new_inst \<lparr> ic_list := [2, 1], free_list := [3], ic_brk := 4, CurrentIC := Some 2, lastIC := Some 2 \<rparr>"

theorem contexts_invariant_witness:
  "\<exists>p t. FcitxInstanceCreateIC desk_env 0 9 desk_inst = Some (Some p, t) \<and> hd (ic_list t) = p
     \<and> distinct (ic_list t @ free_list t)"
proof -
  have "ics_env desk_env"
    by (simp add: ics_env_def desk_env_def plain_env_def desk_frontend_def no_hooks_def keeps_ics_def)
  moreover have "ics_ok desk_env desk_inst"
    by (auto simp: ics_ok_def desk_inst_def new_inst_def desk_env_def plain_env_def FcitxInstanceGetPFrontend_def
        fcitx_array_eltptr_def utarray_eltptr_def)
  ultimately obtain r t where "FcitxInstanceCreateIC desk_env 0 9 desk_inst = Some (r, t)" "ics_ok desk_env t"
      "case r of None \<Rightarrow> FcitxInstanceGetPFrontend desk_env 0 = None
       | Some p \<Rightarrow> hd (ic_list t) = p \<and> p \<in> set (ic_list t) \<and> frontendid (ic_mem t p) = 0"
    using contexts_invariant [of desk_env desk_inst 0 9] by blast
  then show ?thesis
    by (auto simp: ics_ok_def desk_env_def FcitxInstanceGetPFrontend_def fcitx_array_eltptr_def utarray_eltptr_def
        split: option.splits)
qed

end
