(* ===== verification/ImKey.thy ===== *)
theory ImKey
  imports ImSwitch
begin

text \<open>
  Key events: \<open>FcitxInstanceProcessKey\<close> and its phases, from the hotkeys of the instance over the filters
  and the input method to \<open>FcitxInstanceDoInputCallback\<close>, and choosing a candidate from outside. The
  input method is read once at the start, as the code keeps its pointer. A result \<open>None\<close> is a null
  pointer that is followed or an index outside of a table.
\<close>

section \<open>The tables of keys\<close>

definition switchKey1 :: "hotkeys list" where
  "switchKey1 = [FCITX_RCTRL, FCITX_RSHIFT, FCITX_LSHIFT, FCITX_LCTRL, FCITX_ALT_LSHIFT, FCITX_ALT_RSHIFT,
     FCITX_RCTRL, FCITX_RSHIFT, FCITX_LALT, FCITX_RALT, FCITX_LALT, FCITX_LSUPER, FCITX_RSUPER, FCITX_LSUPER,
     FCITX_CTRL_LSUPER, FCITX_CTRL_RSUPER, FCITX_SUPER_LCTRL, FCITX_SUPER_RCTRL, FCITX_NONE_KEY]"

definition switchKey2 :: "hotkeys list" where
  "switchKey2 = [FCITX_NONE_KEY, FCITX_NONE_KEY, FCITX_NONE_KEY, FCITX_NONE_KEY, FCITX_NONE_KEY, FCITX_NONE_KEY,
     FCITX_LCTRL, FCITX_LSHIFT, FCITX_NONE_KEY, FCITX_NONE_KEY, FCITX_RALT, FCITX_NONE_KEY, FCITX_NONE_KEY,
     FCITX_RSUPER, FCITX_NONE_KEY, FCITX_NONE_KEY, FCITX_NONE_KEY, FCITX_NONE_KEY, FCITX_NONE_KEY]"

definition imSWNextKey1 :: "hotkeys list" where
  "imSWNextKey1 = [FCITX_LCTRL_LSHIFT, FCITX_LALT_LSHIFT, FCITX_LCTRL_LSUPER, FCITX_LALT_LSUPER]"

definition imSWNextKey2 :: "hotkeys list" where
  "imSWNextKey2 = [FCITX_LCTRL_LSHIFT2, FCITX_LALT_LSHIFT2, FCITX_LCTRL_LSUPER2, FCITX_LALT_LSUPER2]"

definition imSWPrevKey1 :: "hotkeys list" where
  "imSWPrevKey1 = [FCITX_RCTRL_RSHIFT, FCITX_RALT_RSHIFT, FCITX_RCTRL_RSUPER, FCITX_RALT_RSUPER]"

definition imSWPrevKey2 :: "hotkeys list" where
  "imSWPrevKey2 = [FCITX_RCTRL_RSHIFT2, FCITX_RALT_RSHIFT2, FCITX_RCTRL_RSUPER2, FCITX_RALT_RSUPER2]"

definition without_modifier :: "hotkey \<Rightarrow> hotkey" where
  "without_modifier h =
     (if FcitxHotkeyIsHotKeyModifierCombine (hk_sym h) (hk_state h)
      then h \<lparr> hk_state := hk_state h AND NOT (FcitxHotkeyModifierToState (hk_sym h)) \<rparr> else h)"

definition with_modifier :: "hotkey \<Rightarrow> hotkey" where
  "with_modifier h =
     (if FcitxHotkeyIsHotKeyModifierCombine (hk_sym h) (hk_state h)
      then h \<lparr> hk_state := hk_state h OR FcitxHotkeyModifierToState (hk_sym h) \<rparr> else h)"

definition NormalizeHotkeyForModifier :: "hotkeys \<Rightarrow> hotkeys \<times> hotkeys" where
  "NormalizeHotkeyForModifier origin =
     ((without_modifier (fst origin), without_modifier (snd origin)),
      (with_modifier (fst origin), with_modifier (snd origin)))"

definition IsTriggerOnRelease :: "keysym \<Rightarrow> uint32 \<Rightarrow> bool" where
  "IsTriggerOnRelease k st = FcitxHotkeyIsHotKeyModifierCombine k st"

section \<open>What the hotkeys do\<close>

type_synonym action = "env \<Rightarrow> inst \<Rightarrow> (uint32 \<times> inst) option"

definition answer :: "uint32 \<Rightarrow> inst option \<Rightarrow> (uint32 \<times> inst) option" where
  "answer r t = map_option (Pair r) t"

definition DoTrigger :: action where
  "DoTrigger e s = answer IRV_DO_NOTHING
     (if bHKtriggerKey (config s) then
        (if FcitxInstanceGetCurrentState s = IS_INACTIVE
         then do { s1 \<leftarrow> FcitxInstanceChangeIMState e (CurrentIC s) s; FcitxInstanceShowInputSpeed e False s1 }
         else FcitxInstanceCloseIM e (CurrentIC s) s)
      else Some s)"

definition DoActivate :: action where
  "DoActivate e s =
     (if FcitxInstanceGetCurrentState s \<noteq> IS_ACTIVE
      then answer IRV_DO_NOTHING (do { s1 \<leftarrow> FcitxInstanceEnableIM e (CurrentIC s) False s;
                                       FcitxInstanceShowInputSpeed e False s1 })
      else Some (IRV_TO_PROCESS, s))"

definition DoDeactivate :: action where
  "DoDeactivate e s =
     (if FcitxInstanceGetCurrentState s = IS_ACTIVE
      then answer IRV_DO_NOTHING (do { s1 \<leftarrow> FcitxInstanceCloseIM e (CurrentIC s) s;
                                       FcitxInstanceShowInputSpeed e False s1 })
      else Some (IRV_TO_PROCESS, s))"

definition switch_by_key :: "int \<Rightarrow> int \<Rightarrow> action" where
  "switch_by_key withFirst withoutFirst e s =
     (if bIMSwitchKey (config s)
         \<and> (bIMSwitchIncludeInactive (config s) \<or> FcitxInstanceGetCurrentState s = IS_ACTIVE)
      then answer IRV_DO_NOTHING (FcitxInstanceSwitchIMByIndex e
             (if bIMSwitchIncludeInactive (config s) then withFirst else withoutFirst) s)
      else Some (IRV_TO_PROCESS, s))"

definition DoSwitchIM :: action where
  "DoSwitchIM = switch_by_key (- 1) (- 3)"

definition DoSwitchIMReverse :: action where
  "DoSwitchIMReverse = switch_by_key (- 2) (- 4)"

definition DoSwitch :: action where
  "DoSwitch e s =
     (let closes = (case FcitxInstanceGetCurrentIM s of None \<Rightarrow> False | Some m \<Rightarrow> if_OnClose (iface m) \<noteq> 0);
          (retVal, s1) =
            (if closes then (IRV_DONOT_PROCESS, im_close e (FcitxInstanceGetCurrentIM s) CET_ChangeByInactivate s)
             else if bSendTextWhenSwitchEng (config s) \<and> iCodeInputCount (input s) \<noteq> 0
             then (IRV_ENG, upd_input (\<lambda>i. i \<lparr> strStringGet := strCodeInput i \<rparr>) s)
             else (IRV_DONOT_PROCESS, s))
      in answer retVal (do { s2 \<leftarrow> FcitxInstanceChangeIMStateWithKey e (CurrentIC s1) True s1;
                             FcitxInstanceShowInputSpeed e False s2 }))"

text \<open>Running what the choice of a candidate or the turn of a page asks for.\<close>

definition run_choice :: "env \<Rightarrow> choice \<Rightarrow> inst \<Rightarrow> uint32 \<times> inst" where
  "run_choice e c s =
     (case c of
        ChoiceReturn r \<Rightarrow> (r, s)
      | ChoiceCall f own i \<Rightarrow> (case f of DummyHandler \<Rightarrow> (IRV_DO_NOTHING, s) | CandCallback _ \<Rightarrow> e_cand e f own i s))"

definition run_paging :: "env \<Rightarrow> paging_result \<times> cand_list \<Rightarrow> inst \<Rightarrow> bool \<times> inst" where
  "run_paging e pl s =
     (let s1 = upd_input (\<lambda>i. i \<lparr> candList := snd pl \<rparr>) s in
      case fst pl of PagingReturn b \<Rightarrow> (b, s1) | PagingCall f arg prev \<Rightarrow> e_paging e f arg prev s1)"

definition select_nth :: "int \<Rightarrow> buf \<Rightarrow> action" where
  "select_nth n space e s =
     (let i = input s in
      if bIsInRemind i \<or> FcitxCandidateWordGetPageSize (candList i) \<noteq> 0 then
        (if \<not> bIsInRemind i then Some (run_choice e (FcitxCandidateWordChooseByIndex (candList i) n) s)
         else Some (IRV_COMMIT_STRING, upd_input (\<lambda>i. i \<lparr> strStringGet := space \<rparr>) s))
      else Some (IRV_TO_PROCESS, s))"

definition Do2ndSelect :: action where
  "Do2ndSelect = select_nth 1 [0x20]"

definition Do3ndSelect :: action where
  "Do3ndSelect = select_nth 2 [0xe3, 0x80, 0x80]"

definition Check2ndSelect :: "inst \<Rightarrow> bool" where
  "Check2ndSelect s \<longleftrightarrow> FcitxCandidateWordGetByIndex (candList (input s)) 1 \<noteq> None"

definition Check3ndSelect :: "inst \<Rightarrow> bool" where
  "Check3ndSelect s \<longleftrightarrow> FcitxCandidateWordGetByIndex (candList (input s)) 2 \<noteq> None"

definition CheckActivate :: "inst \<Rightarrow> bool" where
  "CheckActivate s \<longleftrightarrow> FcitxInstanceGetCurrentState s \<noteq> IS_ACTIVE"

definition CheckDeactivate :: "inst \<Rightarrow> bool" where
  "CheckDeactivate s \<longleftrightarrow> FcitxInstanceGetCurrentState s = IS_ACTIVE"

text \<open>\<open>CurrentIC\<close> is followed; the callers have checked it.\<close>

definition CheckSwitch :: "inst \<Rightarrow> bool" where
  "CheckSwitch s \<longleftrightarrow>
     (case CurrentIC s of
        None \<Rightarrow> False
      | Some p \<Rightarrow> state (ic_mem s p) = IS_ACTIVE \<or> \<not> bUseExtraTriggerKeyOnlyWhenUseItToInactivate (config s)
                  \<or> switchBySwitchKey (ic_mem s p))"

definition CheckSwitchIM :: "inst \<Rightarrow> bool" where
  "CheckSwitchIM s \<longleftrightarrow> bIMSwitchKey (config s)"

section \<open>The table of hotkeys\<close>

record key_handle =
  kh_kr :: key_released
  kh_hk1 :: hotkeys
  kh_hk2 :: "hotkeys option"
  kh_callback :: action
  kh_check :: "(inst \<Rightarrow> bool) option"

definition CUSTOM_SWITCH_KEY :: nat where "CUSTOM_SWITCH_KEY = 19"

definition switch_keys :: "config \<Rightarrow> hotkeys \<times> hotkeys" where
  "switch_keys c =
     (if iSwitchKey c < CUSTOM_SWITCH_KEY then (switchKey1 ! iSwitchKey c, switchKey2 ! iSwitchKey c)
      else NormalizeHotkeyForModifier (hkCustomSwitchKey c))"

definition handle :: "key_released \<Rightarrow> hotkeys \<times> hotkeys \<Rightarrow> action \<Rightarrow> (inst \<Rightarrow> bool) option \<Rightarrow> key_handle" where
  "handle kr hk act chk =
     \<lparr> kh_kr = kr, kh_hk1 = fst hk, kh_hk2 = Some (snd hk), kh_callback = act, kh_check = chk \<rparr>"

definition keyHandle :: "config \<Rightarrow> key_handle list option" where
  "keyHandle c =
     do { next1 \<leftarrow> utarray_eltptr imSWNextKey1 (iIMSwitchKey c);
          next2 \<leftarrow> utarray_eltptr imSWNextKey2 (iIMSwitchKey c);
          prev1 \<leftarrow> utarray_eltptr imSWPrevKey1 (iIMSwitchKey c);
          prev2 \<leftarrow> utarray_eltptr imSWPrevKey2 (iIMSwitchKey c);
          Some
           [\<lparr> kh_kr = KR_2ND_SELECTKEY, kh_hk1 = i2ndSelectKey c, kh_hk2 = None, kh_callback = Do2ndSelect,
              kh_check = Some Check2ndSelect \<rparr>,
            \<lparr> kh_kr = KR_3RD_SELECTKEY, kh_hk1 = i3rdSelectKey c, kh_hk2 = None, kh_callback = Do3ndSelect,
              kh_check = Some Check3ndSelect \<rparr>,
            handle KR_SWITCH (switch_keys c) DoSwitch (Some CheckSwitch),
            handle KR_SWITCH_IM (next1, next2) DoSwitchIM (Some CheckSwitchIM),
            handle KR_SWITCH_IM_REVERSE (prev1, prev2) DoSwitchIMReverse (Some CheckSwitchIM),
            handle KR_TRIGGER (NormalizeHotkeyForModifier (hkTrigger c)) DoTrigger None,
            handle KR_ACTIVATE (NormalizeHotkeyForModifier (hkActivate c)) DoActivate (Some CheckActivate),
            handle KR_DEACTIVATE (NormalizeHotkeyForModifier (hkInactivate c)) DoDeactivate (Some CheckDeactivate)] }"

definition CHECK_HOTKEY :: "keysym \<Rightarrow> uint32 \<Rightarrow> key_handle \<Rightarrow> bool" where
  "CHECK_HOTKEY k st h \<longleftrightarrow>
     FcitxHotkeyIsHotKey k st (kh_hk1 h) \<or> (case kh_hk2 h of Some hk \<Rightarrow> FcitxHotkeyIsHotKey k st hk | None \<Rightarrow> False)"

definition HAVE_IM :: "inst \<Rightarrow> bool" where
  "HAVE_IM s \<longleftrightarrow> 1 < length (imes s)"

section \<open>The hotkeys of the instance\<close>

text \<open>The release of a key runs the hotkey that its press has noted, when it still matches.\<close>

fun release_keys :: "keysym \<Rightarrow> uint32 \<Rightarrow> key_handle list \<Rightarrow> action" where
  "release_keys k st [] e s = Some (IRV_TO_PROCESS, set_key_released KR_OTHER s)"
| "release_keys k st (h # hs) e s =
     do { (r, s1) \<leftarrow> (if keyReleased (input s) = kh_kr h \<and> CHECK_HOTKEY k st h
                     then (if IsTriggerOnRelease k st then kh_callback h e s else Some (IRV_DO_NOTHING, s))
                     else Some (IRV_TO_PROCESS, s));
          if r \<noteq> IRV_TO_PROCESS then Some (r, set_key_released KR_OTHER s1) else release_keys k st hs e s1 }"

text \<open>The press runs the first hotkey that matches, unless it is a modifier, and notes it.\<close>

fun press_keys :: "keysym \<Rightarrow> uint32 \<Rightarrow> key_handle list \<Rightarrow> action" where
  "press_keys k st [] e s = Some (IRV_TO_PROCESS, set_key_released KR_OTHER s)"
| "press_keys k st (h # hs) e s =
     (if CHECK_HOTKEY k st h \<and> (case kh_check h of None \<Rightarrow> True | Some c \<Rightarrow> c s)
      then do { (r, s1) \<leftarrow> (if IsTriggerOnRelease k st then Some (IRV_TO_PROCESS, s) else kh_callback h e s);
                Some (r, set_key_released (kh_kr h) s1) }
      else press_keys k st hs e s)"

text \<open>The difference of the times is unsigned.\<close>

definition hotkey_phase :: "key_handle list \<Rightarrow> key_event \<Rightarrow> uint64 \<Rightarrow> keysym \<Rightarrow> uint32 \<Rightarrow> action" where
  "hotkey_phase hs event timestamp k st e s =
     (case event of
        FCITX_RELEASE_KEY \<Rightarrow>
          if FcitxInstanceGetCurrentState s \<noteq> IS_CLOSED \<and> timestamp - lastKeyPressedTime (input s) < 500
             \<and> \<not> bIsDoInputOnly (input s) \<and> HAVE_IM s
          then release_keys k st hs e s else Some (IRV_TO_PROCESS, s)
      | FCITX_PRESS_KEY \<Rightarrow>
          (let s1 = upd_input (\<lambda>i. i \<lparr> lastKeyPressedTime := timestamp \<rparr>) s in
           if HAVE_IM s1 then press_keys k st hs e s1 else Some (IRV_TO_PROCESS, s1)))"

section \<open>The input method\<close>

definition release_phase :: "im \<Rightarrow> keysym \<Rightarrow> uint32 \<Rightarrow> env \<Rightarrow> inst \<Rightarrow> uint32 \<times> inst" where
  "release_phase m k st e s =
     (let (r1, s1) = FcitxInstanceProcessPreReleaseInputFilter (e_hooks e) k st IRV_TO_PROCESS s;
          (r2, s2) = (if r1 = IRV_TO_PROCESS \<and> if_DoReleaseInput (iface m) \<noteq> 0
                      then e_key e (if_DoReleaseInput (iface m)) (klass m) k st s1 else (r1, s1));
          (r3, s3) = (if r2 = IRV_TO_PROCESS
                      then FcitxInstanceProcessPostReleaseInputFilter (e_hooks e) k st r2 s2 else (r2, s2))
      in (if r3 = IRV_TO_PROCESS then IRV_DONOT_PROCESS else r3, s3))"

text \<open>\<open>DoInput\<close> is called without a check.\<close>

definition do_input :: "im \<Rightarrow> keysym \<Rightarrow> uint32 \<Rightarrow> action" where
  "do_input m k st e s =
     do { next1 \<leftarrow> utarray_eltptr imSWNextKey1 (iIMSwitchKey (config s));
          if FcitxHotkeyIsHotKey k st next1 then Some (IRV_TO_PROCESS, s)
          else if if_DoInput (iface m) = 0 then None
          else Some (e_key e (if_DoInput (iface m)) (klass m) k st s) }"

definition input_phase :: "im \<Rightarrow> keysym \<Rightarrow> uint32 \<Rightarrow> action" where
  "input_phase m k st e s =
     (let (r1, s1) = (if bIsDoInputOnly (input s) then (IRV_TO_PROCESS, s)
                      else FcitxInstanceProcessPreInputFilter (e_hooks e) k st IRV_TO_PROCESS s) in
      do { (r2, s2) \<leftarrow> (if r1 = IRV_TO_PROCESS then do_input m k st e s1 else Some (r1, s1));
           Some (if \<not> bIsDoInputOnly (input s2) \<and> r2 = IRV_TO_PROCESS then
                   (let idx = FcitxCandidateWordCheckChooseKey (candList (input s2)) k st in
                    if idx \<ge> 0 then run_choice e (FcitxCandidateWordChooseByIndex (candList (input s2)) idx) s2
                    else (r2, s2))
                 else (r2, s2)) })"

section \<open>After the input method\<close>

definition active2 :: "inst \<Rightarrow> bool" where
  "active2 s \<longleftrightarrow> FcitxInstanceGetCurrentStatev2 s = IS_ACTIVE"

definition update_candidates :: "env \<Rightarrow> im option \<Rightarrow> uint32 \<Rightarrow> inst \<Rightarrow> uint32 \<times> inst" where
  "update_candidates e i retVal s =
     (case i of
        None \<Rightarrow> (retVal, s)
      | Some m \<Rightarrow>
          if active2 s \<and> retVal AND IRV_FLAG_UPDATE_CANDIDATE_WORDS \<noteq> 0 \<and> if_GetCandWords (iface m) \<noteq> 0 then
            (let (r, s1) = e_ret e (if_GetCandWords (iface m)) (klass m) (FcitxInstanceCleanInputWindow s)
             in (r, FcitxInstanceProcessUpdateCandidates (e_hooks e) s1))
          else (retVal, s))"

definition keypair_hotkeys :: "keypair \<Rightarrow> hotkeys" where
  "keypair_hotkeys p = key_pair (fst (fst p)) (snd (fst p)) (fst (snd p)) (snd (snd p))"

definition FcitxConfigPrevPageKey :: "inst \<Rightarrow> hotkeys" where
  "FcitxConfigPrevPageKey s =
     (case FcitxInstanceGetContextHotkey (ctx s) (ascii ''CONTEXT_ALTERNATIVE_PREVPAGE_KEY'') of
        None \<Rightarrow> hkPrevPage (config s) | Some p \<Rightarrow> keypair_hotkeys p)"

definition FcitxConfigNextPageKey :: "inst \<Rightarrow> hotkeys" where
  "FcitxConfigNextPageKey s =
     (case FcitxInstanceGetContextHotkey (ctx s) (ascii ''CONTEXT_ALTERNATIVE_NEXTPAGE_KEY'') of
        None \<Rightarrow> hkNextPage (config s) | Some p \<Rightarrow> keypair_hotkeys p)"

definition page_keys :: "env \<Rightarrow> keysym \<Rightarrow> uint32 \<Rightarrow> inst \<Rightarrow> uint32 \<times> inst" where
  "page_keys e k st s =
     (let l = candList (input s) in
      if FcitxHotkeyIsHotKey k st (FcitxConfigPrevPageKey s) then
        (let (b, s1) = run_paging e (FcitxCandidateWordGoPrevPage l) s in (if b then IRV_DISPLAY_CANDWORDS else IRV_TO_PROCESS, s1))
      else if FcitxHotkeyIsHotKey k st (FcitxConfigNextPageKey s) then
        (let (b, s1) = run_paging e (FcitxCandidateWordGoNextPage l) s in (if b then IRV_DISPLAY_CANDWORDS else IRV_TO_PROCESS, s1))
      else (IRV_TO_PROCESS, s))"

definition still_open :: "uint32 \<Rightarrow> inst \<Rightarrow> bool" where
  "still_open r s \<longleftrightarrow> active2 s \<and> \<not> bIsDoInputOnly (input s) \<and> r = IRV_TO_PROCESS"

definition FcitxInstanceDoInputCallback :: "env \<Rightarrow> uint32 \<Rightarrow> keysym \<Rightarrow> uint32 \<Rightarrow> inst \<Rightarrow> (uint32 \<times> inst) option" where
  "FcitxInstanceDoInputCallback e retVal k st s =
     (let currentIM = FcitxInstanceGetCurrentIM s;
          (r1, s1) = update_candidates e currentIM retVal s;
          (r2, s2) = (if still_open r1 s1 then page_keys e k st s1 else (r1, s1));
          (r3, s3) = (if still_open r2 s2 then FcitxInstanceProcessPostInputFilter (e_hooks e) k st r2 s2 else (r2, s2));
          (r4, s4) = (if r3 = IRV_TO_PROCESS then FcitxInstanceProcessHotkey (e_hooks e) k st s3 else (r3, s3));
          (r5, s5) = (if still_open r4 s4 then
                        (case currentIM of
                           Some m \<Rightarrow> if if_KeyBlocker (iface m) \<noteq> 0 then e_key e (if_KeyBlocker (iface m)) (klass m) k st s4
                                     else (FcitxStandardKeyBlocker (input s4) k st, s4)
                         | None \<Rightarrow> (FcitxStandardKeyBlocker (input s4) k st, s4))
                      else (r4, s4))
      in answer r5 (FcitxInstanceProcessInputReturnValue e r5 s5))"

definition hide_speed_on_press :: "key_event \<Rightarrow> keysym \<Rightarrow> uint32 \<Rightarrow> inst \<Rightarrow> inst" where
  "hide_speed_on_press event k st s =
     (if event = FCITX_PRESS_KEY \<and> \<not> FcitxHotkeyIsHotKeyModifierCombine k st
      then (let (removed, s1) = FcitxInstanceRemoveTimeoutByFunc s HideInputSpeedCallback in
            if removed then HideInputSpeed s1 else s1)
      else s)"

definition FcitxInstanceProcessKey ::
  "env \<Rightarrow> key_event \<Rightarrow> uint64 \<Rightarrow> keysym \<Rightarrow> uint32 \<Rightarrow> inst \<Rightarrow> (uint32 \<times> inst) option" where
  "FcitxInstanceProcessKey e event timestamp k st s =
     (if k = 0 then Some (IRV_DONOT_PROCESS, s)
      else do {
        hs \<leftarrow> keyHandle (config s);
        case CurrentIC s of
          None \<Rightarrow> Some (IRV_TO_PROCESS, s)
        | Some p \<Rightarrow>
           (let s1 = hide_speed_on_press event k st s in
            if contextCaps (ic_mem s1 p) AND CAPACITY_PASSWORD \<noteq> 0 then Some (IRV_TO_PROCESS, s1)
            else (case FcitxInstanceGetCurrentIM s of
                    None \<Rightarrow> Some (IRV_TO_PROCESS, s1)
                  | Some m \<Rightarrow>
                      do { (r1, s2) \<leftarrow> hotkey_phase hs event timestamp k st e s1;
                           let (r2, s3) = (if r1 = IRV_TO_PROCESS \<and> event = FCITX_RELEASE_KEY
                                           then release_phase m k st e s2 else (r1, s2));
                           (r3, s4) \<leftarrow> (if active2 s3 \<and> r2 = IRV_TO_PROCESS then input_phase m k st e s3
                                       else Some (r2, s3));
                           FcitxInstanceDoInputCallback e r3 k st s4 })) })"

section \<open>Choosing from outside\<close>

definition FcitxInstanceChooseCandidateByIndex :: "env \<Rightarrow> int \<Rightarrow> inst \<Rightarrow> inst option" where
  "FcitxInstanceChooseCandidateByIndex e index s =
     (if \<not> (active2 s \<and> index < 10) then Some s
      else (let (r, s1) = run_choice e (FcitxCandidateWordChooseByIndex (candList (input s)) index) s;
                (r', s2) = update_candidates e (FcitxInstanceGetCurrentIM s1) r s1
            in FcitxInstanceProcessInputReturnValue e r' s2))"

definition FcitxInstanceChooseCandidateByTotalIndex :: "env \<Rightarrow> int \<Rightarrow> inst \<Rightarrow> inst option" where
  "FcitxInstanceChooseCandidateByTotalIndex e index s =
     (if \<not> active2 s then Some s
      else (let (r, s1) = run_choice e (FcitxCandidateWordChooseByTotalIndex (candList (input s)) index) s;
                (r', s2) = update_candidates e (FcitxInstanceGetCurrentIM s1) r s1
            in FcitxInstanceProcessInputReturnValue e r' s2))"

definition FcitxInstanceForwardKey :: "env \<Rightarrow> ptr option \<Rightarrow> key_event \<Rightarrow> keysym \<Rightarrow> uint32 \<Rightarrow> inst \<Rightarrow> inst" where
  "FcitxInstanceForwardKey e p event k st s =
     (case p of
        None \<Rightarrow> s
      | Some q \<Rightarrow> (case FcitxInstanceGetPFrontend e (frontendid (ic_mem s q)) of
                     None \<Rightarrow> s | Some fe \<Rightarrow> fe_ForwardKey fe q event k st s))"

end
