(* ===== verification/ImKey_Laws.thy ===== *)
theory ImKey_Laws
  imports ImKey ImSwitch_Props
begin

text \<open>
  The hotkeys of the instance: a modifier that is a hotkey works as a tap, that is, its press only notes
  the hotkey and its release runs it unless another key or too much time came between; password fields
  are left alone.
\<close>

definition pressed :: "keysym \<Rightarrow> uint32 \<Rightarrow> inst \<Rightarrow> key_handle \<Rightarrow> bool" where
  "pressed k st s h \<longleftrightarrow> CHECK_HOTKEY k st h \<and> (case kh_check h of None \<Rightarrow> True | Some c \<Rightarrow> c s)"

lemma press_modifier:
  assumes "IsTriggerOnRelease k st"
  shows "press_keys k st hs e s =
    Some (IRV_TO_PROCESS, set_key_released (case find (pressed k st s) hs of None \<Rightarrow> KR_OTHER | Some h \<Rightarrow> kh_kr h) s)"
  by (induction hs) (use assms in \<open>auto simp: pressed_def\<close>)

lemma press_other:
  assumes "find (pressed k st s) hs = None"
  shows "press_keys k st hs e s = Some (IRV_TO_PROCESS, set_key_released KR_OTHER s)"
  using assms by (induction hs) (auto simp: pressed_def split: if_splits)

lemma release_none:
  assumes "\<forall>h\<in>set hs. kh_kr h \<noteq> keyReleased (input s)"
  shows "release_keys k st hs e s = Some (IRV_TO_PROCESS, set_key_released KR_OTHER s)"
  using assms by (induction hs) auto

lemma release_noted:
  assumes "distinct (map kh_kr hs)" and "h \<in> set hs" and "keyReleased (input s) = kh_kr h"
    and "CHECK_HOTKEY k st h" and "IsTriggerOnRelease k st"
    and "kh_callback h e s = Some (r, t)" and "r \<noteq> IRV_TO_PROCESS"
  shows "release_keys k st hs e s = Some (r, set_key_released KR_OTHER t)"
  using assms by (induction hs) (auto simp: image_iff)

lemma keyHandle_kinds:
  assumes "keyHandle c = Some hs"
  shows "distinct (map kh_kr hs)" "KR_OTHER \<notin> kh_kr ` set hs"
  using assms by (auto simp: keyHandle_def handle_def bind_eq_Some_conv)

text \<open>The state after the press of a key that notes a hotkey.\<close>

definition noted :: "uint64 \<Rightarrow> key_released \<Rightarrow> inst \<Rightarrow> inst" where
  "noted t kr s = set_key_released kr (upd_input (\<lambda>i. i \<lparr> lastKeyPressedTime := t \<rparr>) s)"

lemma noted_fields:
  "lastKeyPressedTime (input (noted t kr s)) = t" "keyReleased (input (noted t kr s)) = kr"
  "bIsDoInputOnly (input (noted t kr s)) = bIsDoInputOnly (input s)" "HAVE_IM (noted t kr s) = HAVE_IM s"
  "HAVE_IM (upd_input g s) = HAVE_IM s" "FcitxInstanceGetCurrentState (noted t kr s) = FcitxInstanceGetCurrentState s"
  "set_key_released kr (noted t kr s) = noted t kr s"
  by (simp_all add: noted_def set_key_released_def upd_input_def HAVE_IM_def FcitxInstanceGetCurrentState_def
      cong: option.case_cong)

lemma press_noted:
  assumes "HAVE_IM s"
    and "press_keys k st hs e (upd_input (\<lambda>i. i \<lparr> lastKeyPressedTime := t \<rparr>) s) =
      Some (IRV_TO_PROCESS, set_key_released kr (upd_input (\<lambda>i. i \<lparr> lastKeyPressedTime := t \<rparr>) s))"
  shows "hotkey_phase hs FCITX_PRESS_KEY t k st e s = Some (IRV_TO_PROCESS, noted t kr s)"
  using assms by (simp add: hotkey_phase_def noted_fields Let_def noted_def)

lemma release_noted_phase:
  assumes "HAVE_IM s" and "\<not> bIsDoInputOnly (input s)" and "FcitxInstanceGetCurrentState s \<noteq> IS_CLOSED" and "d < 500"
  shows "hotkey_phase hs FCITX_RELEASE_KEY (t + d) k st e (noted t kr s) = release_keys k st hs e (noted t kr s)"
  using assms by (simp add: hotkey_phase_def noted_fields)

text \<open>
  C24: A modifier key that is a hotkey works as a tap. Its press is passed on and only notes the first
  hotkey of the table that matches and whose check holds. Its release within 500 ms, counted modulo
  \<open>2 ^ 64\<close> so that a wrap of the clock does no harm, runs the noted hotkey when it still matches, gives
  its answer and forgets it. When a key that is no hotkey was pressed between, the release runs nothing.
\<close>

theorem modifier_tap:
  assumes "keyHandle (config s) = Some hs" and "HAVE_IM s" and "IsTriggerOnRelease k st"
    and "\<not> bIsDoInputOnly (input s)" and "FcitxInstanceGetCurrentState s \<noteq> IS_CLOSED"
    and "find (pressed k st (upd_input (\<lambda>i. i \<lparr> lastKeyPressedTime := t \<rparr>) s)) hs = Some h"
    and "d < 500" and "CHECK_HOTKEY k st' h"
    and "kh_callback h e (noted t (kh_kr h) s) = Some (r, u)" and "r \<noteq> IRV_TO_PROCESS"
    and "find (pressed k2 st2 (upd_input (\<lambda>i. i \<lparr> lastKeyPressedTime := t2 \<rparr>) (noted t (kh_kr h) s))) hs = None"
    and "t3 - t2 < 500"
  shows "hotkey_phase hs FCITX_PRESS_KEY t k st e s = Some (IRV_TO_PROCESS, noted t (kh_kr h) s)
    \<and> hotkey_phase hs FCITX_RELEASE_KEY (t + d) k st' e (noted t (kh_kr h) s) = Some (r, set_key_released KR_OTHER u)
    \<and> (\<exists>s2. hotkey_phase hs FCITX_PRESS_KEY t2 k2 st2 e (noted t (kh_kr h) s) = Some (IRV_TO_PROCESS, s2)
        \<and> hotkey_phase hs FCITX_RELEASE_KEY t3 k st' e s2 = Some (IRV_TO_PROCESS, s2))"
proof (intro conjI exI)
  let ?s1 = "noted t (kh_kr h) s" and ?s2 = "noted t2 KR_OTHER (noted t (kh_kr h) s)"
  show "hotkey_phase hs FCITX_PRESS_KEY t k st e s = Some (IRV_TO_PROCESS, ?s1)"
    using press_noted [OF assms(2)] press_modifier [OF assms(3)] assms(6) by simp
  have "h \<in> set hs" using assms(6) by (auto simp: find_Some_iff)
  moreover have "IsTriggerOnRelease k st'" using assms(3) by (simp add: IsTriggerOnRelease_def FcitxHotkeyIsHotKeyModifierCombine_def)
  ultimately show "hotkey_phase hs FCITX_RELEASE_KEY (t + d) k st' e ?s1 = Some (r, set_key_released KR_OTHER u)"
    unfolding release_noted_phase [OF assms(2,4,5,7)]
    by (intro release_noted [OF keyHandle_kinds(1) [OF assms(1)] _ _ assms(8) _ assms(9,10)]) (simp_all add: noted_fields)
  have s1: "HAVE_IM ?s1" "\<not> bIsDoInputOnly (input ?s1)" "FcitxInstanceGetCurrentState ?s1 \<noteq> IS_CLOSED"
    using assms by (simp_all add: noted_fields)
  show "hotkey_phase hs FCITX_PRESS_KEY t2 k2 st2 e ?s1 = Some (IRV_TO_PROCESS, ?s2)"
    using press_noted [OF s1(1)] press_other [OF assms(11)] by simp
  have "\<forall>g\<in>set hs. kh_kr g \<noteq> keyReleased (input ?s2)" using keyHandle_kinds(2) [OF assms(1)] by (force simp: noted_fields)
  then show "hotkey_phase hs FCITX_RELEASE_KEY t3 k st' e ?s2 = Some (IRV_TO_PROCESS, ?s2)"
    using release_noted_phase [OF s1 assms(12), of hs t2 k st' e KR_OTHER] release_none [of hs ?s2 k st' e]
    by (simp add: noted_fields)
qed

text \<open>The left Shift key chooses the second candidate; a candidate commits a byte of its number.\<close>

definition pick_env :: env where
  "pick_env = plain_env \<lparr> e_cand := (\<lambda>_ _ i s. (IRV_COMMIT_STRING, upd_input (\<lambda>x. x \<lparr> strStringGet := [word_of_nat i] \<rparr>) s)) \<rparr>"

definition pick_config :: config where
  "pick_config = no_config \<lparr> i2ndSelectKey := FCITX_LSHIFT \<rparr>"

definition pick_inst :: inst where
  "pick_inst = focus_inst \<lparr> config := pick_config,
     input := FcitxInputStateCreate \<lparr> candList := FcitxCandidateWordNewList \<lparr> cl_words :=
       [zero_word (CandCallback 1), zero_word (CandCallback 1)] \<rparr> \<rparr> \<rparr>"

definition pick_handles :: "key_handle list" where
  "pick_handles = the (keyHandle pick_config)"

lemmas key_defs = FCITX_NONE_KEY_def FCITX_LSHIFT_def FCITX_LCTRL_LSHIFT_def FCITX_LCTRL_LSHIFT2_def
  FCITX_RCTRL_RSHIFT_def FCITX_RCTRL_RSHIFT2_def key_pair_def no_hotkey_def

lemma pick_handles_eq:
  "keyHandle pick_config = Some pick_handles"
  "pick_handles =
    [\<lparr> kh_kr = KR_2ND_SELECTKEY, kh_hk1 = FCITX_LSHIFT, kh_hk2 = None, kh_callback = Do2ndSelect,
       kh_check = Some Check2ndSelect \<rparr>,
     \<lparr> kh_kr = KR_3RD_SELECTKEY, kh_hk1 = (no_hotkey, no_hotkey), kh_hk2 = None, kh_callback = Do3ndSelect,
       kh_check = Some Check3ndSelect \<rparr>,
     handle KR_SWITCH (FCITX_NONE_KEY, FCITX_NONE_KEY) DoSwitch (Some CheckSwitch),
     handle KR_SWITCH_IM (FCITX_LCTRL_LSHIFT, FCITX_LCTRL_LSHIFT2) DoSwitchIM (Some CheckSwitchIM),
     handle KR_SWITCH_IM_REVERSE (FCITX_RCTRL_RSHIFT, FCITX_RCTRL_RSHIFT2) DoSwitchIMReverse (Some CheckSwitchIM),
     handle KR_TRIGGER ((no_hotkey, no_hotkey), (no_hotkey, no_hotkey)) DoTrigger None,
     handle KR_ACTIVATE ((no_hotkey, no_hotkey), (no_hotkey, no_hotkey)) DoActivate (Some CheckActivate),
     handle KR_DEACTIVATE ((no_hotkey, no_hotkey), (no_hotkey, no_hotkey)) DoDeactivate (Some CheckDeactivate)]"
  by (simp_all add: pick_handles_def keyHandle_def pick_config_def no_config_def utarray_eltptr_def imSWNextKey1_def
      imSWNextKey2_def imSWPrevKey1_def imSWPrevKey2_def switch_keys_def CUSTOM_SWITCH_KEY_def switchKey1_def
      switchKey2_def NormalizeHotkeyForModifier_def without_modifier_def with_modifier_def no_hotkey_def
      FcitxHotkeyIsHotKeyModifierCombine_def Let_def)

theorem modifier_tap_witness:
  "hotkey_phase pick_handles FCITX_PRESS_KEY (- 100) FcitxKey_Shift_L 0 pick_env pick_inst
     = Some (IRV_TO_PROCESS, noted (- 100) KR_2ND_SELECTKEY pick_inst)
   \<and> map_option (\<lambda>x. (fst x, strStringGet (input (snd x))))
       (hotkey_phase pick_handles FCITX_RELEASE_KEY 50 FcitxKey_Shift_L FcitxKeyState_Shift pick_env
          (noted (- 100) KR_2ND_SELECTKEY pick_inst)) = Some (IRV_COMMIT_STRING, [1])"
proof -
  let ?h = "hd pick_handles"
  let ?s1 = "noted (- 100) KR_2ND_SELECTKEY pick_inst"
  have kr: "kh_kr ?h = KR_2ND_SELECTKEY" by (simp add: pick_handles_eq)
  define u where "u = upd_input (\<lambda>x. x \<lparr> strStringGet := [1] \<rparr>) ?s1"
  have cands: "candList (input ?s1) = FcitxCandidateWordNewList \<lparr> cl_words := [zero_word (CandCallback 1), zero_word (CandCallback 1)] \<rparr>"
      "bIsInRemind (input ?s1) = False"
    by (simp_all add: noted_def set_key_released_def upd_input_def pick_inst_def FcitxInputStateCreate_def)
  have act: "kh_callback ?h pick_env ?s1 = Some (IRV_COMMIT_STRING, u)"
    by (simp add: pick_handles_eq Do2ndSelect_def select_nth_def cands FcitxCandidateWordGetPageSize_def
        FcitxCandidateWordChooseByIndex_def FcitxCandidateWordGetByIndex_def FcitxCandidateWordGetByTotalIndex_def
        FcitxCandidateWordNewList_def fcitx_array_eltptr_def utarray_eltptr_def choose_word_def zero_word_def
        run_choice_def pick_env_def u_def)
  have "hotkey_phase pick_handles FCITX_PRESS_KEY (- 100) FcitxKey_Shift_L 0 pick_env pick_inst
      = Some (IRV_TO_PROCESS, noted (- 100) (kh_kr ?h) pick_inst)
    \<and> hotkey_phase pick_handles FCITX_RELEASE_KEY (- 100 + 150) FcitxKey_Shift_L FcitxKeyState_Shift pick_env
        (noted (- 100) (kh_kr ?h) pick_inst) = Some (IRV_COMMIT_STRING, set_key_released KR_OTHER u)
    \<and> (\<exists>s2. hotkey_phase pick_handles FCITX_PRESS_KEY 0 0x61 0 pick_env (noted (- 100) (kh_kr ?h) pick_inst)
          = Some (IRV_TO_PROCESS, s2)
        \<and> hotkey_phase pick_handles FCITX_RELEASE_KEY 50 FcitxKey_Shift_L FcitxKeyState_Shift pick_env s2
          = Some (IRV_TO_PROCESS, s2))"
  proof (rule modifier_tap)
    show "keyHandle (config pick_inst) = Some pick_handles" by (simp add: pick_inst_def pick_handles_eq(1))
    show "HAVE_IM pick_inst" "\<not> bIsDoInputOnly (input pick_inst)" "FcitxInstanceGetCurrentState pick_inst \<noteq> IS_CLOSED"
      by (simp_all add: pick_inst_def focus_inst_def HAVE_IM_def three_ims_def FcitxInputStateCreate_def FcitxInstanceGetCurrentState_def)
    show "kh_callback ?h pick_env (noted (- 100) (kh_kr ?h) pick_inst) = Some (IRV_COMMIT_STRING, u)"
      using act kr by simp
    show "find (pressed FcitxKey_Shift_L 0 (upd_input (\<lambda>i. i \<lparr> lastKeyPressedTime := - 100 \<rparr>) pick_inst)) pick_handles = Some ?h"
      by (simp add: pick_handles_eq(2) pressed_def CHECK_HOTKEY_def FcitxHotkeyIsHotKey_def key_defs Check2ndSelect_def
          upd_input_def pick_inst_def FcitxInputStateCreate_def FcitxCandidateWordGetByIndex_def
          FcitxCandidateWordGetByTotalIndex_def FcitxCandidateWordNewList_def fcitx_array_eltptr_def utarray_eltptr_def)
    show "find (pressed 0x61 0 (upd_input (\<lambda>i. i \<lparr> lastKeyPressedTime := 0 \<rparr>) (noted (- 100) (kh_kr ?h) pick_inst))) pick_handles = None"
      by (simp add: pick_handles_eq(2) pressed_def CHECK_HOTKEY_def FcitxHotkeyIsHotKey_def key_defs handle_def)
    show "CHECK_HOTKEY FcitxKey_Shift_L FcitxKeyState_Shift ?h"
      by (simp add: pick_handles_eq(2) CHECK_HOTKEY_def FcitxHotkeyIsHotKey_def key_defs)
  qed (simp_all add: IsTriggerOnRelease_def FcitxHotkeyIsHotKeyModifierCombine_def)
  then show ?thesis unfolding kr by (simp add: u_def set_key_released_def upd_input_def)
qed

end
