(* ===== verification/Desktop.thy ===== *)
theory Desktop
  imports StrUtils
begin

text \<open>
  The desktop files of \<open>src/lib/fcitx-utils/desktop-parse.c\<close>: a file is a list of groups, a group a
  list of entries, and comments stand before either. Groups and entries live in a heap, since the code
  links them by pointers and looks them up in a hash table as well. A null pointer is \<open>None\<close>, and so
  is the result of an operation that follows a null or a dangling pointer.

  The links of the two kinds of lists are handled by functions with the same bodies. The ends of a list
  (\<open>first\<close>, \<open>last\<close>) and the links of its nodes (\<open>prev\<close>, \<open>next\<close>) are a \<open>dchain\<close>, on which these are
  written once, and a \<open>dslot\<close> is the address of one pointer of it.
\<close>

section \<open>Records\<close>

type_synonym daddr = nat
type_synonym dptr = "daddr option"

record dlink =
  lk_prev :: dptr
  lk_next :: dptr

record dends =
  d_first :: dptr
  d_last :: dptr

text \<open>
  The hooks of a vtable are present or null. They only provide and take back the memory of a record,
  so that is all that is known of them.
\<close>

record dvtable =
  vt_new_group :: bool
  vt_free_group :: bool
  vt_new_entry :: bool
  vt_free_entry :: bool
  vt_padding :: buf

record dentry =
  e_name :: buf
  e_comments :: "buf list"
  e_value :: "buf option"
  e_vtable :: "dvtable option"
  e_tbl :: "daddr option"
  e_flags :: uint32
  e_owner :: nat
  e_ref :: int

text \<open>
  The hash table of a group lists the keys and entries in application order. The field \<open>hh.tbl\<close> of an
  item says in which table it is; here that is the address of the group or the number of the file.
\<close>

record dgroup =
  g_ends :: dends
  g_name :: buf
  g_comments :: "buf list"
  g_vtable :: "dvtable option"
  g_entries :: "(buf, daddr) uthash"
  g_tbl :: "nat option"
  g_flags :: uint32
  g_owner :: nat
  g_ref :: int

record dfile =
  f_ends :: dends
  f_comments :: "buf list"
  f_vtable :: "dvtable option"
  f_groups :: "(buf, daddr) uthash"
  f_owner :: nat
  f_id :: nat

record dheap =
  dh_glinks :: "daddr \<Rightarrow> dlink option"
  dh_elinks :: "daddr \<Rightarrow> dlink option"
  dh_groups :: "daddr \<Rightarrow> dgroup option"
  dh_entries :: "daddr \<Rightarrow> dentry option"
  dh_brk :: daddr

definition no_ends :: dends where
  "no_ends = \<lparr> d_first = None, d_last = None \<rparr>"

definition no_link :: dlink where
  "no_link = \<lparr> lk_prev = None, lk_next = None \<rparr>"

definition FX_DESKTOP_GROUP_UPDATED :: uint32 where "FX_DESKTOP_GROUP_UPDATED = 1"
definition FX_DESKTOP_ENTRY_UPDATED :: uint32 where "FX_DESKTOP_ENTRY_UPDATED = 1"

definition blank_chars :: buf where
  "blank_chars = [0x20, 0x09, 0x08, 0x0a, 0x0c, 0x0b, 0x0d]"

section \<open>Linked lists\<close>

type_synonym dchain = "dends \<times> (daddr \<Rightarrow> dlink option)"

datatype dslot = SFirst | SLast | SPrev daddr | SNext daddr

fun slot_get :: "dslot \<Rightarrow> dchain \<Rightarrow> dptr option" where
  "slot_get SFirst (d, L) = Some (d_first d)"
| "slot_get SLast (d, L) = Some (d_last d)"
| "slot_get (SPrev a) (d, L) = map_option lk_prev (L a)"
| "slot_get (SNext a) (d, L) = map_option lk_next (L a)"

fun slot_set :: "dslot \<Rightarrow> dptr \<Rightarrow> dchain \<Rightarrow> dchain option" where
  "slot_set SFirst p (d, L) = Some (d\<lparr>d_first := p\<rparr>, L)"
| "slot_set SLast p (d, L) = Some (d\<lparr>d_last := p\<rparr>, L)"
| "slot_set (SPrev a) p (d, L) =
     (case L a of None \<Rightarrow> None | Some l \<Rightarrow> Some (d, L(a \<mapsto> l\<lparr>lk_prev := p\<rparr>)))"
| "slot_set (SNext a) p (d, L) =
     (case L a of None \<Rightarrow> None | Some l \<Rightarrow> Some (d, L(a \<mapsto> l\<lparr>lk_next := p\<rparr>)))"

definition link_set :: "daddr \<Rightarrow> dslot \<Rightarrow> dslot \<Rightarrow> dchain \<Rightarrow> dchain option" where
  "link_set new_node prev_p next_p c = do {
     p \<leftarrow> slot_get prev_p c;
     c \<leftarrow> slot_set (SNext new_node) p c;
     n \<leftarrow> slot_get next_p c;
     c \<leftarrow> slot_set (SPrev new_node) n c;
     c \<leftarrow> slot_set prev_p (Some new_node) c;
     slot_set next_p (Some new_node) c }"

definition link_unlink :: "daddr \<Rightarrow> dchain \<Rightarrow> dchain option" where
  "link_unlink a c = do {
     p \<leftarrow> slot_get (SPrev a) c;
     n \<leftarrow> slot_get (SNext a) c;
     c \<leftarrow> slot_set (case p of Some b \<Rightarrow> SNext b | None \<Rightarrow> SFirst) n c;
     p \<leftarrow> slot_get (SPrev a) c;
     n \<leftarrow> slot_get (SNext a) c;
     slot_set (case n of Some b \<Rightarrow> SPrev b | None \<Rightarrow> SLast) p c }"

definition link_after :: "dptr \<Rightarrow> daddr \<Rightarrow> dchain \<Rightarrow> dchain option" where
  "link_after base a = link_set a (case base of None \<Rightarrow> SFirst | Some b \<Rightarrow> SNext b) SLast"

definition link_before :: "dptr \<Rightarrow> daddr \<Rightarrow> dchain \<Rightarrow> dchain option" where
  "link_before base a = link_set a SFirst (case base of None \<Rightarrow> SLast | Some b \<Rightarrow> SPrev b)"

text \<open>The groups of a file and the entries of a group as chains.\<close>

type_synonym dstate = "dheap \<times> dfile"

definition on_groups :: "(dchain \<Rightarrow> dchain option) \<Rightarrow> dstate \<Rightarrow> dstate option" where
  "on_groups op s = (case s of (h, f) \<Rightarrow>
     map_option (\<lambda>(d, L). (h\<lparr>dh_glinks := L\<rparr>, f\<lparr>f_ends := d\<rparr>)) (op (f_ends f, dh_glinks h)))"

definition on_entries :: "daddr \<Rightarrow> (dchain \<Rightarrow> dchain option) \<Rightarrow> dheap \<Rightarrow> dheap option" where
  "on_entries ga op h = do {
     g \<leftarrow> dh_groups h ga;
     (d, L) \<leftarrow> op (g_ends g, dh_elinks h);
     Some (h\<lparr>dh_elinks := L, dh_groups := (dh_groups h)(ga \<mapsto> g\<lparr>g_ends := d\<rparr>)\<rparr>) }"

definition fcitx_desktop_group_set_link :: "daddr \<Rightarrow> dslot \<Rightarrow> dslot \<Rightarrow> dstate \<Rightarrow> dstate option" where
  "fcitx_desktop_group_set_link a p n = on_groups (link_set a p n)"

definition fcitx_desktop_group_unlink :: "daddr \<Rightarrow> dstate \<Rightarrow> dstate option" where
  "fcitx_desktop_group_unlink a = on_groups (link_unlink a)"

definition fcitx_desktop_file_link_group_after :: "dptr \<Rightarrow> daddr \<Rightarrow> dstate \<Rightarrow> dstate option" where
  "fcitx_desktop_file_link_group_after base a = on_groups (link_after base a)"

definition fcitx_desktop_file_link_group_before :: "dptr \<Rightarrow> daddr \<Rightarrow> dstate \<Rightarrow> dstate option" where
  "fcitx_desktop_file_link_group_before base a = on_groups (link_before base a)"

definition fcitx_desktop_file_link_group :: "dptr \<Rightarrow> daddr \<Rightarrow> bool \<Rightarrow> dstate \<Rightarrow> dstate option" where
  "fcitx_desktop_file_link_group base a before =
     (if before then fcitx_desktop_file_link_group_before base a
      else fcitx_desktop_file_link_group_after base a)"

definition fcitx_desktop_entry_set_link :: "daddr \<Rightarrow> daddr \<Rightarrow> dslot \<Rightarrow> dslot \<Rightarrow> dheap \<Rightarrow> dheap option" where
  "fcitx_desktop_entry_set_link ga a p n = on_entries ga (link_set a p n)"

definition fcitx_desktop_entry_unlink :: "daddr \<Rightarrow> daddr \<Rightarrow> dheap \<Rightarrow> dheap option" where
  "fcitx_desktop_entry_unlink ga a = on_entries ga (link_unlink a)"

definition fcitx_desktop_group_link_entry_after ::
  "daddr \<Rightarrow> dptr \<Rightarrow> daddr \<Rightarrow> dheap \<Rightarrow> dheap option" where
  "fcitx_desktop_group_link_entry_after ga base a = on_entries ga (link_after base a)"

definition fcitx_desktop_group_link_entry_before ::
  "daddr \<Rightarrow> dptr \<Rightarrow> daddr \<Rightarrow> dheap \<Rightarrow> dheap option" where
  "fcitx_desktop_group_link_entry_before ga base a = on_entries ga (link_before base a)"

definition fcitx_desktop_group_link_entry ::
  "daddr \<Rightarrow> dptr \<Rightarrow> daddr \<Rightarrow> bool \<Rightarrow> dheap \<Rightarrow> dheap option" where
  "fcitx_desktop_group_link_entry ga base a before =
     (if before then fcitx_desktop_group_link_entry_before ga base a
      else fcitx_desktop_group_link_entry_after ga base a)"

section \<open>Creating, resetting and freeing\<close>

definition fcitx_desktop_parse_check_vtable :: "dvtable option \<Rightarrow> bool" where
  "fcitx_desktop_parse_check_vtable vt =
     (case vt of None \<Rightarrow> True | Some v \<Rightarrow> vt_padding v = replicate 24 0)"

definition fcitx_desktop_parse_new_group :: "dvtable option \<Rightarrow> nat \<Rightarrow> dgroup" where
  "fcitx_desktop_parse_new_group vt owner =
     \<lparr> g_ends = no_ends, g_name = [], g_comments = [], g_vtable = vt, g_entries = [], g_tbl = None,
       g_flags = 0, g_owner = owner, g_ref = 1 \<rparr>"

definition fcitx_desktop_parse_new_entry :: "dvtable option \<Rightarrow> nat \<Rightarrow> dentry" where
  "fcitx_desktop_parse_new_entry vt owner =
     \<lparr> e_name = [], e_comments = [], e_value = None, e_vtable = vt, e_tbl = None, e_flags = 0,
       e_owner = owner, e_ref = 1 \<rparr>"

definition fcitx_desktop_file_init :: "nat \<Rightarrow> dvtable option \<Rightarrow> nat \<Rightarrow> dfile option" where
  "fcitx_desktop_file_init i vt owner =
     (if \<not> fcitx_desktop_parse_check_vtable vt then None
      else Some \<lparr> f_ends = no_ends, f_comments = [], f_vtable = vt, f_groups = [], f_owner = owner,
                 f_id = i \<rparr>)"

definition find_none_blank :: "buf \<Rightarrow> buf" where
  "find_none_blank s = drop (strspn s blank_chars) s"

definition upd_group :: "daddr \<Rightarrow> (dgroup \<Rightarrow> dgroup) \<Rightarrow> dheap \<Rightarrow> dheap option" where
  "upd_group a u h = map_option (\<lambda>g. h\<lparr>dh_groups := (dh_groups h)(a \<mapsto> u g)\<rparr>) (dh_groups h a)"

definition upd_entry :: "daddr \<Rightarrow> (dentry \<Rightarrow> dentry) \<Rightarrow> dheap \<Rightarrow> dheap option" where
  "upd_entry a u h = map_option (\<lambda>e. h\<lparr>dh_entries := (dh_entries h)(a \<mapsto> u e)\<rparr>) (dh_entries h a)"

definition fcitx_desktop_entry_reset :: "daddr \<Rightarrow> dheap \<Rightarrow> dheap option" where
  "fcitx_desktop_entry_reset a h =
     upd_entry a (\<lambda>e. e\<lparr>e_comments := [], e_flags := 0\<rparr>) (h\<lparr>dh_elinks := (dh_elinks h)(a \<mapsto> no_link)\<rparr>)"

text \<open>
  The loops of the resets read \<open>next\<close> after the reset of the node has cleared it.
\<close>

partial_function (option) reset_entries :: "dptr \<Rightarrow> dheap \<Rightarrow> dheap option" where
  "reset_entries p h = (case p of None \<Rightarrow> Some h | Some a \<Rightarrow> do {
     h \<leftarrow> fcitx_desktop_entry_reset a h;
     l \<leftarrow> dh_elinks h a;
     reset_entries (lk_next l) h })"

lemma reset_entries_code [code]:
  "reset_entries None h = Some h"
  "reset_entries (Some a) h = do {
     h \<leftarrow> fcitx_desktop_entry_reset a h;
     l \<leftarrow> dh_elinks h a;
     reset_entries (lk_next l) h }"
  by (simp_all add: reset_entries.simps)

definition fcitx_desktop_group_reset :: "daddr \<Rightarrow> dheap \<Rightarrow> dheap option" where
  "fcitx_desktop_group_reset ga h = do {
     h \<leftarrow> upd_group ga (\<lambda>g. g\<lparr>g_comments := []\<rparr>) h;
     g \<leftarrow> dh_groups h ga;
     h \<leftarrow> reset_entries (d_first (g_ends g)) h;
     h \<leftarrow> upd_group ga (\<lambda>g. g\<lparr>g_flags := 0, g_ends := no_ends\<rparr>) h;
     Some (h\<lparr>dh_glinks := (dh_glinks h)(ga \<mapsto> no_link)\<rparr>) }"

partial_function (option) reset_groups :: "dptr \<Rightarrow> dheap \<Rightarrow> dheap option" where
  "reset_groups p h = (case p of None \<Rightarrow> Some h | Some a \<Rightarrow> do {
     h \<leftarrow> fcitx_desktop_group_reset a h;
     l \<leftarrow> dh_glinks h a;
     reset_groups (lk_next l) h })"

lemma reset_groups_code [code]:
  "reset_groups None h = Some h"
  "reset_groups (Some a) h = do {
     h \<leftarrow> fcitx_desktop_group_reset a h;
     l \<leftarrow> dh_glinks h a;
     reset_groups (lk_next l) h }"
  by (simp_all add: reset_groups.simps)

definition fcitx_desktop_file_reset :: "dstate \<Rightarrow> dstate option" where
  "fcitx_desktop_file_reset s = (case s of (h, f) \<Rightarrow> do {
     h \<leftarrow> reset_groups (d_first (f_ends f)) h;
     Some (h, f\<lparr>f_comments := [], f_ends := no_ends\<rparr>) })"

definition fcitx_desktop_entry_free :: "daddr \<Rightarrow> dheap \<Rightarrow> dheap" where
  "fcitx_desktop_entry_free a h =
     h\<lparr>dh_entries := (dh_entries h)(a := None), dh_elinks := (dh_elinks h)(a := None)\<rparr>"

definition fcitx_desktop_entry_unref :: "daddr \<Rightarrow> dheap \<Rightarrow> dheap option" where
  "fcitx_desktop_entry_unref a h = do {
     e \<leftarrow> dh_entries h a;
     h \<leftarrow> upd_entry a (\<lambda>e. e\<lparr>e_ref := e_ref e - 1\<rparr>) h;
     Some (if e_ref e \<le> 1 then fcitx_desktop_entry_free a h else h) }"

definition fcitx_desktop_entry_ref :: "daddr \<Rightarrow> dheap \<Rightarrow> dheap option" where
  "fcitx_desktop_entry_ref a = upd_entry a (\<lambda>e. e\<lparr>e_ref := e_ref e + 1\<rparr>)"

definition table_del :: "daddr \<Rightarrow> (buf, daddr) uthash \<Rightarrow> (buf, daddr) uthash" where
  "table_del a t = filter (\<lambda>p. snd p \<noteq> a) t"

definition fcitx_desktop_group_hash_remove_entry :: "daddr \<Rightarrow> daddr \<Rightarrow> dheap \<Rightarrow> dheap option" where
  "fcitx_desktop_group_hash_remove_entry ga a h = do {
     h \<leftarrow> upd_group ga (\<lambda>g. g\<lparr>g_entries := table_del a (g_entries g)\<rparr>) h;
     h \<leftarrow> upd_entry a (\<lambda>e. e\<lparr>e_tbl := None\<rparr>) h;
     fcitx_desktop_entry_unref a (h\<lparr>dh_elinks := (dh_elinks h)(a \<mapsto> no_link)\<rparr>) }"

fun remove_entries :: "daddr \<Rightarrow> daddr list \<Rightarrow> dheap \<Rightarrow> dheap option" where
  "remove_entries ga [] h = Some h"
| "remove_entries ga (a # as) h =
     do { h \<leftarrow> fcitx_desktop_group_hash_remove_entry ga a h; remove_entries ga as h }"

text \<open>
  A group with a hook to free it: the owner that the hook gets is read from \<open>entry\<close>, which is null
  after the loop.
\<close>

definition fcitx_desktop_group_free :: "daddr \<Rightarrow> dheap \<Rightarrow> dheap option" where
  "fcitx_desktop_group_free ga h = do {
     g \<leftarrow> dh_groups h ga;
     h \<leftarrow> remove_entries ga (map snd (g_entries g)) h;
     if (case g_vtable g of None \<Rightarrow> False | Some v \<Rightarrow> vt_free_group v) then None
     else Some (h\<lparr>dh_groups := (dh_groups h)(ga := None), dh_glinks := (dh_glinks h)(ga := None)\<rparr>) }"

definition fcitx_desktop_group_unref :: "daddr \<Rightarrow> dheap \<Rightarrow> dheap option" where
  "fcitx_desktop_group_unref ga h = do {
     g \<leftarrow> dh_groups h ga;
     h \<leftarrow> upd_group ga (\<lambda>g. g\<lparr>g_ref := g_ref g - 1\<rparr>) h;
     if g_ref g \<le> 1 then fcitx_desktop_group_free ga h else Some h }"

definition fcitx_desktop_group_ref :: "daddr \<Rightarrow> dheap \<Rightarrow> dheap option" where
  "fcitx_desktop_group_ref ga = upd_group ga (\<lambda>g. g\<lparr>g_ref := g_ref g + 1\<rparr>)"

definition fcitx_desktop_file_hash_remove_group :: "daddr \<Rightarrow> dstate \<Rightarrow> dstate option" where
  "fcitx_desktop_file_hash_remove_group ga s = (case s of (h, f) \<Rightarrow> do {
     h \<leftarrow> upd_group ga (\<lambda>g. g\<lparr>g_tbl := None\<rparr>) h;
     h \<leftarrow> fcitx_desktop_group_unref ga (h\<lparr>dh_glinks := (dh_glinks h)(ga \<mapsto> no_link)\<rparr>);
     Some (h, f\<lparr>f_groups := table_del ga (f_groups f)\<rparr>) })"

fun remove_groups :: "daddr list \<Rightarrow> dstate \<Rightarrow> dstate option" where
  "remove_groups [] s = Some s"
| "remove_groups (a # as) s =
     do { s \<leftarrow> fcitx_desktop_file_hash_remove_group a s; remove_groups as s }"

definition fcitx_desktop_file_done :: "dstate \<Rightarrow> dstate option" where
  "fcitx_desktop_file_done s = do {
     (h, f) \<leftarrow> remove_groups (map snd (f_groups (snd s))) s;
     Some (h, f\<lparr>f_comments := []\<rparr>) }"

fun clean_entries :: "daddr \<Rightarrow> daddr list \<Rightarrow> dheap \<Rightarrow> dheap option" where
  "clean_entries ga [] h = Some h"
| "clean_entries ga (a # as) h = do {
     e \<leftarrow> dh_entries h a;
     h \<leftarrow> (if e_flags e AND FX_DESKTOP_ENTRY_UPDATED \<noteq> 0
           then upd_entry a (\<lambda>e. e\<lparr>e_flags := e_flags e AND NOT FX_DESKTOP_ENTRY_UPDATED\<rparr>) h
           else fcitx_desktop_group_hash_remove_entry ga a h);
     clean_entries ga as h }"

definition fcitx_desktop_group_clean :: "daddr \<Rightarrow> dheap \<Rightarrow> dheap option" where
  "fcitx_desktop_group_clean ga h = do {
     g \<leftarrow> dh_groups h ga;
     clean_entries ga (map snd (g_entries g)) h }"

fun clean_groups :: "daddr list \<Rightarrow> dstate \<Rightarrow> dstate option" where
  "clean_groups [] s = Some s"
| "clean_groups (a # as) s = do {
     g \<leftarrow> dh_groups (fst s) a;
     s \<leftarrow> (if g_flags g AND FX_DESKTOP_GROUP_UPDATED \<noteq> 0
           then do {
             h \<leftarrow> upd_group a (\<lambda>g. g\<lparr>g_flags := g_flags g AND NOT FX_DESKTOP_GROUP_UPDATED\<rparr>) (fst s);
             h \<leftarrow> fcitx_desktop_group_clean a h;
             Some (h, snd s) }
           else fcitx_desktop_file_hash_remove_group a s);
     clean_groups as s }"

definition fcitx_desktop_file_clean :: "dstate \<Rightarrow> dstate option" where
  "fcitx_desktop_file_clean s = clean_groups (map snd (f_groups (snd s))) s"

section \<open>Finding and adding\<close>

definition fcitx_desktop_file_find_group_with_len :: "dfile \<Rightarrow> buf \<Rightarrow> nat \<Rightarrow> dptr" where
  "fcitx_desktop_file_find_group_with_len f name len = hash_find (f_groups f) (take len name)"

definition fcitx_desktop_file_hash_add :: "daddr \<Rightarrow> nat \<Rightarrow> dstate \<Rightarrow> dstate option" where
  "fcitx_desktop_file_hash_add ga len s = (case s of (h, f) \<Rightarrow> do {
     g \<leftarrow> dh_groups h ga;
     h \<leftarrow> upd_group ga (\<lambda>g. g\<lparr>g_tbl := Some (f_id f)\<rparr>) h;
     Some (h, f\<lparr>f_groups := hash_add (f_groups f) (take len (g_name g)) ga\<rparr>) })"

definition fcitx_desktop_file_hash_new_group :: "buf \<Rightarrow> nat \<Rightarrow> dstate \<Rightarrow> (daddr \<times> dstate) option" where
  "fcitx_desktop_file_hash_new_group name len s = (case s of (h, f) \<Rightarrow>
     (let a = dh_brk h; g = fcitx_desktop_parse_new_group (f_vtable f) (f_owner f) in
      do { n \<leftarrow> copy_from name len;
           s \<leftarrow> fcitx_desktop_file_hash_add a len
             (h\<lparr>dh_groups := (dh_groups h)(a \<mapsto> g\<lparr>g_name := n\<rparr>),
                dh_glinks := (dh_glinks h)(a \<mapsto> no_link), dh_brk := a + 1\<rparr>, f);
           Some (a, s) }))"

definition fcitx_desktop_group_find_entry_with_len :: "daddr \<Rightarrow> buf \<Rightarrow> nat \<Rightarrow> dheap \<Rightarrow> dptr option" where
  "fcitx_desktop_group_find_entry_with_len ga name len h =
     map_option (\<lambda>g. hash_find (g_entries g) (take len name)) (dh_groups h ga)"

definition fcitx_desktop_group_hash_add :: "daddr \<Rightarrow> daddr \<Rightarrow> nat \<Rightarrow> dheap \<Rightarrow> dheap option" where
  "fcitx_desktop_group_hash_add ga a len h = do {
     e \<leftarrow> dh_entries h a;
     h \<leftarrow> upd_entry a (\<lambda>e. e\<lparr>e_tbl := Some ga\<rparr>) h;
     upd_group ga (\<lambda>g. g\<lparr>g_entries := hash_add (g_entries g) (take len (e_name e)) a\<rparr>) h }"

definition fcitx_desktop_group_hash_new_entry ::
  "daddr \<Rightarrow> buf \<Rightarrow> nat \<Rightarrow> dheap \<Rightarrow> (daddr \<times> dheap) option" where
  "fcitx_desktop_group_hash_new_entry ga name len h = do {
     g \<leftarrow> dh_groups h ga;
     let a = dh_brk h;
     let e = fcitx_desktop_parse_new_entry (g_vtable g) (g_owner g);
     n \<leftarrow> copy_from name len;
     h \<leftarrow> fcitx_desktop_group_hash_add ga a len
       (h\<lparr>dh_entries := (dh_entries h)(a \<mapsto> e\<lparr>e_name := n\<rparr>),
          dh_elinks := (dh_elinks h)(a \<mapsto> no_link), dh_brk := a + 1\<rparr>);
     Some (a, h) }"

section \<open>Loading\<close>

definition fcitx_desktop_group_name_len :: "buf \<Rightarrow> nat" where
  "fcitx_desktop_group_name_len s =
     (let res = strcspn s [0x5b, 0x5d] in if rd s res = Some 0x5d then res else 0)"

fun trim_len :: "buf \<Rightarrow> nat \<Rightarrow> nat" where
  "trim_len s 0 = 0"
| "trim_len s (Suc n) = (if s ! n \<in> set blank_chars then trim_len s n else Suc n)"

definition fcitx_desktop_entry_key_len :: "buf \<Rightarrow> nat" where
  "fcitx_desktop_entry_key_len s =
     (let res = strcspn s [0x3d] in if rd s res \<noteq> Some 0x3d then 0 else trim_len s res)"

text \<open>
  \<open>getline\<close> returns the lines of a file with their line feeds; the loop then cuts the line at its line
  feed, or at a byte 0 before it.
\<close>

function getlines :: "buf \<Rightarrow> buf list" where
  "getlines [] = []"
| "getlines (c # s) = (let n = strcspn (c # s) [0x0a] in take n (c # s) # getlines (drop (Suc n) (c # s)))"
  by pat_completeness auto
termination
  by (relation "measure length") auto

definition cut_line :: "buf \<Rightarrow> buf" where
  "cut_line l = takeWhile (\<lambda>c. c \<noteq> 0) l"

text \<open>
  The state of the loop is the heap and the file, whose \<open>comments\<close> collect the comments before the next
  item, and the current group.
\<close>

type_synonym dload = "dstate \<times> dptr"

definition swap_group_comments :: "daddr \<Rightarrow> dstate \<Rightarrow> dstate option" where
  "swap_group_comments ga s = (case s of (h, f) \<Rightarrow> do {
     g \<leftarrow> dh_groups h ga;
     h \<leftarrow> upd_group ga (\<lambda>g. g\<lparr>g_comments := f_comments f\<rparr>) h;
     Some (h, f\<lparr>f_comments := g_comments g\<rparr>) })"

definition swap_entry_comments :: "daddr \<Rightarrow> dstate \<Rightarrow> dstate option" where
  "swap_entry_comments a s = (case s of (h, f) \<Rightarrow> do {
     e \<leftarrow> dh_entries h a;
     h \<leftarrow> upd_entry a (\<lambda>e. e\<lparr>e_comments := f_comments f\<rparr>) h;
     Some (h, f\<lparr>f_comments := e_comments e\<rparr>) })"

text \<open>A line \<open>[name]\<close>; the argument is what follows the bracket.\<close>

definition load_old_group :: "daddr \<Rightarrow> dload \<Rightarrow> dload option" where
  "load_old_group a s = (case s of ((h, f), cur) \<Rightarrow> do {
     g \<leftarrow> dh_groups h a;
     if g_flags g AND FX_DESKTOP_GROUP_UPDATED \<noteq> 0 then do {
       cur \<leftarrow> (if cur = Some a then map_option lk_prev (dh_glinks h a) else Some cur);
       (h, f) \<leftarrow> fcitx_desktop_group_unlink a (h, f);
       h \<leftarrow> upd_group a (\<lambda>g. g\<lparr>g_comments := []\<rparr>) h;
       Some ((h, f), cur) }
     else do { h \<leftarrow> upd_group a (\<lambda>g. g\<lparr>g_ends := no_ends\<rparr>) h; Some ((h, f), cur) } })"

definition load_group :: "buf \<Rightarrow> dload \<Rightarrow> dload option" where
  "load_group l s = (let n = fcitx_desktop_group_name_len l in
     if n = 0 then Some s else do {
       (a, s, cur) \<leftarrow> (case fcitx_desktop_file_find_group_with_len (snd (fst s)) l n of
           None \<Rightarrow> do { (a, t) \<leftarrow> fcitx_desktop_file_hash_new_group l n (fst s); Some (a, t, snd s) }
         | Some a \<Rightarrow> do { (t, cur) \<leftarrow> load_old_group a s; Some (a, t, cur) });
       h \<leftarrow> upd_group a (\<lambda>g. g\<lparr>g_flags := g_flags g OR FX_DESKTOP_GROUP_UPDATED\<rparr>) (fst s);
       s \<leftarrow> fcitx_desktop_file_link_group_after cur a (h, snd s);
       s \<leftarrow> swap_group_comments a s;
       Some (s, Some a) })"

definition load_old_entry :: "daddr \<Rightarrow> daddr \<Rightarrow> dheap \<Rightarrow> dheap option" where
  "load_old_entry ga a h = do {
     e \<leftarrow> dh_entries h a;
     if e_flags e AND FX_DESKTOP_ENTRY_UPDATED \<noteq> 0
     then do { h \<leftarrow> fcitx_desktop_entry_unlink ga a h; fcitx_desktop_entry_reset a h }
     else Some h }"

definition load_entry :: "buf \<Rightarrow> dload \<Rightarrow> dload option" where
  "load_entry l s = (case s of ((h, f), None) \<Rightarrow> Some s
     | ((h, f), Some ga) \<Rightarrow>
     (let n = fcitx_desktop_entry_key_len l in
      if n = 0 then Some s else do {
        p \<leftarrow> fcitx_desktop_group_find_entry_with_len ga l n h;
        (a, h) \<leftarrow> (case p of
            None \<Rightarrow> fcitx_desktop_group_hash_new_entry ga l n h
          | Some a \<Rightarrow> do { h \<leftarrow> load_old_entry ga a h; Some (a, h) });
        h \<leftarrow> upd_entry a (\<lambda>e. e\<lparr>e_flags := e_flags e OR FX_DESKTOP_ENTRY_UPDATED\<rparr>) h;
        g \<leftarrow> dh_groups h ga;
        h \<leftarrow> fcitx_desktop_group_link_entry_after ga (d_last (g_ends g)) a h;
        (h, f) \<leftarrow> swap_entry_comments a (h, f);
        v \<leftarrow> fcitx_utils_set_str_with_len (drop (n + 1) l) (length l - (n + 1));
        h \<leftarrow> upd_entry a (\<lambda>e. e\<lparr>e_value := Some v\<rparr>) h;
        Some ((h, f), Some ga) }))"

definition load_line :: "buf \<Rightarrow> dload \<Rightarrow> dload option" where
  "load_line b s = (case find_none_blank (cut_line b) of
       [] \<Rightarrow> Some s
     | c # l \<Rightarrow>
         if c = 0x23 then (case s of ((h, f), cur) \<Rightarrow>
           Some ((h, f\<lparr>f_comments := utarray_push_back (f_comments f) l\<rparr>), cur))
         else if c = 0x5b then load_group l s
         else load_entry (c # l) s)"

fun load_lines :: "buf list \<Rightarrow> dload \<Rightarrow> dload option" where
  "load_lines [] s = Some s"
| "load_lines (b # bs) s = do { s \<leftarrow> load_line b s; load_lines bs s }"

definition fcitx_desktop_file_load_fp :: "buf \<Rightarrow> dstate \<Rightarrow> dstate option" where
  "fcitx_desktop_file_load_fp text s = do {
     s \<leftarrow> fcitx_desktop_file_reset s;
     (s, cur) \<leftarrow> load_lines (getlines text) (s, None);
     fcitx_desktop_file_clean s }"

definition fcitx_desktop_file_load :: "buf option \<Rightarrow> dstate \<Rightarrow> (bool \<times> dstate) option" where
  "fcitx_desktop_file_load fp s = (case fp of None \<Rightarrow> Some (False, s)
     | Some text \<Rightarrow> map_option (Pair True) (fcitx_desktop_file_load_fp text s))"

section \<open>Writing\<close>

text \<open>The functions return the bytes that they write.\<close>

definition write_len :: "buf \<Rightarrow> nat \<Rightarrow> buf option" where
  "write_len s len = (if len = 0 then Some [] else copy_from s len)"

definition check_single_line :: "buf \<Rightarrow> nat" where
  "check_single_line s = strcspn s [0x0a]"

fun fcitx_desktop_write_comments :: "buf list \<Rightarrow> buf option" where
  "fcitx_desktop_write_comments [] = Some []"
| "fcitx_desktop_write_comments (c # cs) =
     (let len = check_single_line c in
      if len = 0 then fcitx_desktop_write_comments cs
      else do { t \<leftarrow> write_len c len; r \<leftarrow> fcitx_desktop_write_comments cs;
                Some ([0x23] @ t @ [0x0a] @ r) })"

text \<open>For an empty key the byte before the string is read.\<close>

definition check_entry_key :: "buf \<Rightarrow> nat option" where
  "check_entry_key s =
     (let len = strcspn s [0x3d, 0x0a] in
      if len < length s then Some 0
      else if len = 0 then None
      else if s ! (len - 1) \<in> {0x20, 0x0d, 0x09, 0x0c, 0x0b} then Some 0
      else Some len)"

definition fcitx_desktop_entry_write_fp :: "dentry \<Rightarrow> buf option" where
  "fcitx_desktop_entry_write_fp e = (case e_value e of None \<Rightarrow> Some []
     | Some v \<Rightarrow> do {
         key_len \<leftarrow> check_entry_key (e_name e);
         if key_len = 0 then Some [] else do {
           let value_len = check_single_line v;
           c \<leftarrow> fcitx_desktop_write_comments (e_comments e);
           k \<leftarrow> write_len (e_name e) key_len;
           t \<leftarrow> write_len v value_len;
           Some (c @ k @ [0x3d] @ t @ [0x0a]) } })"

definition check_group_name :: "buf \<Rightarrow> nat" where
  "check_group_name s =
     (let len = strcspn s [0x5b, 0x5d, 0x0a] in if len < length s then 0 else len)"

partial_function (option) write_entries :: "dheap \<Rightarrow> dptr \<Rightarrow> buf option" where
  "write_entries h p = (case p of None \<Rightarrow> Some [] | Some a \<Rightarrow> do {
     e \<leftarrow> dh_entries h a;
     t \<leftarrow> fcitx_desktop_entry_write_fp e;
     l \<leftarrow> dh_elinks h a;
     r \<leftarrow> write_entries h (lk_next l);
     Some (t @ r) })"

lemma write_entries_code [code]:
  "write_entries h None = Some []"
  "write_entries h (Some a) = do {
     e \<leftarrow> dh_entries h a;
     t \<leftarrow> fcitx_desktop_entry_write_fp e;
     l \<leftarrow> dh_elinks h a;
     r \<leftarrow> write_entries h (lk_next l);
     Some (t @ r) }"
  by (simp_all add: write_entries.simps)

definition fcitx_desktop_group_write_fp :: "dheap \<Rightarrow> dgroup \<Rightarrow> buf option" where
  "fcitx_desktop_group_write_fp h g = (let name_len = check_group_name (g_name g) in
     if name_len = 0 then Some [] else do {
       c \<leftarrow> fcitx_desktop_write_comments (g_comments g);
       n \<leftarrow> write_len (g_name g) name_len;
       t \<leftarrow> write_entries h (d_first (g_ends g));
       Some (c @ [0x5b] @ n @ [0x5d, 0x0a] @ t) })"

partial_function (option) write_groups :: "dheap \<Rightarrow> dptr \<Rightarrow> buf option" where
  "write_groups h p = (case p of None \<Rightarrow> Some [] | Some a \<Rightarrow> do {
     g \<leftarrow> dh_groups h a;
     t \<leftarrow> fcitx_desktop_group_write_fp h g;
     l \<leftarrow> dh_glinks h a;
     r \<leftarrow> write_groups h (lk_next l);
     Some (t @ r) })"

lemma write_groups_code [code]:
  "write_groups h None = Some []"
  "write_groups h (Some a) = do {
     g \<leftarrow> dh_groups h a;
     t \<leftarrow> fcitx_desktop_group_write_fp h g;
     l \<leftarrow> dh_glinks h a;
     r \<leftarrow> write_groups h (lk_next l);
     Some (t @ r) }"
  by (simp_all add: write_groups.simps)

definition fcitx_desktop_file_write_fp :: "dstate \<Rightarrow> buf option" where
  "fcitx_desktop_file_write_fp s = (case s of (h, f) \<Rightarrow> do {
     t \<leftarrow> write_groups h (d_first (f_ends f));
     c \<leftarrow> fcitx_desktop_write_comments (f_comments f);
     Some (t @ c) })"

section \<open>Editing\<close>

definition fcitx_desktop_file_has_group :: "dptr \<Rightarrow> dstate \<Rightarrow> bool option" where
  "fcitx_desktop_file_has_group p s = (case s of (h, f) \<Rightarrow>
     (case f_groups f of [] \<Rightarrow> Some False
      | (_, b) # _ \<Rightarrow> (case p of None \<Rightarrow> Some False | Some a \<Rightarrow> do {
          gb \<leftarrow> dh_groups h b;
          ga \<leftarrow> dh_groups h a;
          Some (g_tbl gb = g_tbl ga) })))"

definition fcitx_desktop_file_delete_group :: "daddr \<Rightarrow> dstate \<Rightarrow> (bool \<times> dstate) option" where
  "fcitx_desktop_file_delete_group a s = do {
     has \<leftarrow> fcitx_desktop_file_has_group (Some a) s;
     if \<not> has then Some (False, s) else do {
       s \<leftarrow> fcitx_desktop_group_unlink a s;
       s \<leftarrow> fcitx_desktop_file_hash_remove_group a s;
       Some (True, s) } }"

definition fcitx_desktop_file_add_group ::
  "dptr \<Rightarrow> buf \<Rightarrow> nat \<Rightarrow> bool \<Rightarrow> bool \<Rightarrow> dstate \<Rightarrow> (dptr \<times> dstate) option" where
  "fcitx_desktop_file_add_group base name len move before s = do {
     has \<leftarrow> (if base = None then Some True else fcitx_desktop_file_has_group base s);
     if \<not> has then Some (None, s) else do {
       let base = (if base = None then d_last (f_ends (snd s)) else base);
       case fcitx_desktop_file_find_group_with_len (snd s) name len of
         None \<Rightarrow> do {
           (a, s) \<leftarrow> fcitx_desktop_file_hash_new_group name len s;
           s \<leftarrow> fcitx_desktop_file_link_group base a before s;
           Some (Some a, s) }
       | Some a \<Rightarrow>
           if move \<and> Some a \<noteq> base then do {
             s \<leftarrow> fcitx_desktop_group_unlink a s;
             s \<leftarrow> fcitx_desktop_file_link_group base a before s;
             Some (Some a, s) }
           else Some (Some a, s) } }"

definition fcitx_desktop_file_insert_group ::
  "dptr \<Rightarrow> dptr \<Rightarrow> bool \<Rightarrow> bool \<Rightarrow> dstate \<Rightarrow> (bool \<times> dstate) option" where
  "fcitx_desktop_file_insert_group base p move before s = (case p of None \<Rightarrow> Some (False, s)
     | Some a \<Rightarrow> do {
     has \<leftarrow> (if base = None then Some True else fcitx_desktop_file_has_group base s);
     if \<not> has then Some (False, s) else do {
       let base = (if base = None then d_last (f_ends (snd s)) else base);
       g \<leftarrow> dh_groups (fst s) a;
       mine \<leftarrow> fcitx_desktop_file_has_group p s;
       if g_tbl g = None then do {
         s \<leftarrow> fcitx_desktop_file_hash_add a (length (g_name g)) s;
         s \<leftarrow> fcitx_desktop_file_link_group base a before s;
         Some (True, s) }
       else if \<not> mine then Some (False, s)
       else if \<not> move \<or> p = base then Some (True, s)
       else do {
         s \<leftarrow> fcitx_desktop_group_unlink a s;
         s \<leftarrow> fcitx_desktop_file_link_group base a before s;
         Some (True, s) } } })"

definition fcitx_desktop_group_has_entry :: "daddr \<Rightarrow> dptr \<Rightarrow> dheap \<Rightarrow> bool option" where
  "fcitx_desktop_group_has_entry ga p h = do {
     g \<leftarrow> dh_groups h ga;
     case g_entries g of [] \<Rightarrow> Some False
     | (_, b) # _ \<Rightarrow> (case p of None \<Rightarrow> Some False | Some a \<Rightarrow> do {
         eb \<leftarrow> dh_entries h b;
         ea \<leftarrow> dh_entries h a;
         Some (e_tbl eb = e_tbl ea) }) }"

definition fcitx_desktop_group_delete_entry :: "daddr \<Rightarrow> daddr \<Rightarrow> dheap \<Rightarrow> (bool \<times> dheap) option" where
  "fcitx_desktop_group_delete_entry ga a h = do {
     has \<leftarrow> fcitx_desktop_group_has_entry ga (Some a) h;
     if \<not> has then Some (False, h) else do {
       h \<leftarrow> fcitx_desktop_entry_unlink ga a h;
       h \<leftarrow> fcitx_desktop_group_hash_remove_entry ga a h;
       Some (True, h) } }"

definition fcitx_desktop_group_add_entry ::
  "daddr \<Rightarrow> dptr \<Rightarrow> buf \<Rightarrow> nat \<Rightarrow> bool \<Rightarrow> bool \<Rightarrow> dheap \<Rightarrow> (dptr \<times> dheap) option" where
  "fcitx_desktop_group_add_entry ga base name len move before h = do {
     g \<leftarrow> dh_groups h ga;
     has \<leftarrow> (if base = None then Some True else fcitx_desktop_group_has_entry ga base h);
     if \<not> has then Some (None, h) else do {
       let base = (if base = None then d_last (g_ends g) else base);
       q \<leftarrow> fcitx_desktop_group_find_entry_with_len ga name len h;
       case q of
         None \<Rightarrow> do {
           (a, h) \<leftarrow> fcitx_desktop_group_hash_new_entry ga name len h;
           h \<leftarrow> fcitx_desktop_group_link_entry ga base a before h;
           Some (Some a, h) }
       | Some a \<Rightarrow>
           if move \<and> Some a \<noteq> base then do {
             h \<leftarrow> fcitx_desktop_entry_unlink ga a h;
             h \<leftarrow> fcitx_desktop_group_link_entry ga base a before h;
             Some (Some a, h) }
           else Some (Some a, h) } }"

definition fcitx_desktop_group_insert_entry ::
  "daddr \<Rightarrow> dptr \<Rightarrow> dptr \<Rightarrow> bool \<Rightarrow> bool \<Rightarrow> dheap \<Rightarrow> (bool \<times> dheap) option" where
  "fcitx_desktop_group_insert_entry ga base p move before h = (case p of None \<Rightarrow> Some (False, h)
     | Some a \<Rightarrow> do {
     g \<leftarrow> dh_groups h ga;
     has \<leftarrow> (if base = None then Some True else fcitx_desktop_group_has_entry ga base h);
     if \<not> has then Some (False, h) else do {
       let base = (if base = None then d_last (g_ends g) else base);
       e \<leftarrow> dh_entries h a;
       mine \<leftarrow> fcitx_desktop_group_has_entry ga p h;
       if e_tbl e = None then do {
         h \<leftarrow> fcitx_desktop_group_hash_add ga a (length (e_name e)) h;
         h \<leftarrow> fcitx_desktop_group_link_entry ga base a before h;
         Some (True, h) }
       else if \<not> mine then Some (False, h)
       else if \<not> move \<or> p = base then Some (True, h)
       else do {
         h \<leftarrow> fcitx_desktop_entry_unlink ga a h;
         h \<leftarrow> fcitx_desktop_group_link_entry ga base a before h;
         Some (True, h) } } })"

end
