(* ===== verification/Numbers.thy ===== *)
theory Numbers
  imports StrUtils
begin

text \<open>
  Numbers as text and as floating point values: what \<open>printf\<close> writes for \<open>%d\<close> and \<open>scanf\<close> reads for it, and
  the few operations on \<open>double\<close> that the configuration of colours uses, with the rounding of IEEE 754
  (53 bits, ties to even; no overflow, no denormalised numbers, which cannot come up there).
\<close>

section \<open>Decimal text\<close>

fun dec_nat :: "nat \<Rightarrow> buf" where
  "dec_nat n = (if n < 10 then [0x30 + of_nat n] else dec_nat (n div 10) @ [0x30 + of_nat (n mod 10)])"

declare dec_nat.simps [simp del]

definition dec_int :: "int \<Rightarrow> buf" where
  "dec_int i = (if i < 0 then 0x2d # dec_nat (nat (- i)) else dec_nat (nat i))"

lemma digit_byte: "n < 10 \<Longrightarrow> isdigit (0x30 + of_nat n) \<and> uint (0x30 + of_nat n :: byte) = 0x30 + int n"
proof -
  assume "n < 10"
  then have "n \<in> {0,1,2,3,4,5,6,7,8,9}" by auto
  then show ?thesis by (auto simp: isdigit_def)
qed

lemma dec_nat_digits: "c \<in> set (dec_nat n) \<Longrightarrow> isdigit c"
proof (induction n rule: dec_nat.induct)
  case (1 n)
  show ?case
  proof (cases "n < 10")
    case True
    then show ?thesis using 1 digit_byte by (subst (asm) dec_nat.simps) auto
  next
    case False
    then show ?thesis using 1 digit_byte [of "n mod 10"] by (subst (asm) (2) dec_nat.simps) auto
  qed
qed

lemma dec_nat_not_Nil [simp]: "dec_nat n \<noteq> []"
  by (subst dec_nat.simps) auto

lemma digits_val_append: "digits_val (s @ [d]) = 10 * digits_val s + (uint d - 0x30)"
  by (simp add: digits_val_def)

lemma digits_val_dec: "digits_val (dec_nat n) = int n"
proof (induction n rule: dec_nat.induct)
  case (1 n)
  show ?case
  proof (cases "n < 10")
    case True
    then show ?thesis using digit_byte [of n] by (subst dec_nat.simps) (simp add: digits_val_def)
  next
    case False
    then show ?thesis using 1 digit_byte [of "n mod 10"]
      by (subst dec_nat.simps) (simp add: digits_val_append; presburger)
  qed
qed

lemma isdigit_not: "isdigit c \<Longrightarrow> \<not> isspace c \<and> c \<noteq> 0x2d \<and> c \<noteq> 0x2b"
  by (auto simp: isdigit_def isspace_def word_le_nat_alt unat_arith_simps) 

lemma takeWhile_dec: "takeWhile isdigit (dec_nat n) = dec_nat n"
  using dec_nat_digits by (intro takeWhile_eq_all_conv [THEN iffD2]) blast

lemma atoi_dec: "atoi (dec_int i) = i"
proof (cases "i < 0")
  case True
  then show ?thesis by (simp add: atoi_def dec_int_def takeWhile_dec digits_val_dec isspace_def)
next
  case False
  obtain c r where c: "dec_nat (nat i) = c # r" by (cases "dec_nat (nat i)") auto
  then have d: "isdigit c" "\<forall>x\<in>set r. isdigit x" using dec_nat_digits [of _ "nat i"] by auto
  from takeWhile_dec [of "nat i"] c d have "takeWhile isdigit r = r" by simp
  then have t: "takeWhile isdigit (c # r) = c # r" using d(1) by simp
  have v: "digits_val (c # r) = i" using digits_val_dec [of "nat i"] c False by simp
  show ?thesis using isdigit_not [OF d(1)] False by (simp add: atoi_def dec_int_def c t v del: takeWhile.simps)
qed

text \<open>One \<open>%d\<close> of \<open>sscanf\<close>: the number and what is left, or a failure to match.\<close>

definition scan_int :: "buf \<Rightarrow> (int \<times> buf) option" where
  "scan_int s = (let s = dropWhile isspace s;
       (neg, s) = (case s of c # r \<Rightarrow> if c = 0x2d then (True, r) else if c = 0x2b then (False, r) else (False, s)
                  | [] \<Rightarrow> (False, s));
       ds = takeWhile isdigit s
     in if ds = [] then None
        else Some (if neg then - digits_val ds else digits_val ds, dropWhile isdigit s))"

lemma scan_int_dec:
  assumes "s = [] \<or> \<not> isdigit (hd s)"
  shows "scan_int (0x20 # dec_int i @ s) = Some (i, s)" "scan_int (dec_int i @ s) = Some (i, s)"
proof -
  have tw: "takeWhile isdigit (dec_nat n @ s) = dec_nat n" "dropWhile isdigit (dec_nat n @ s) = s" for n
    using assms by (cases s; simp add: takeWhile_append2 dropWhile_append2 dec_nat_digits)+
  have sp: "isspace 0x20" "\<not> isspace 0x2d" by (simp_all add: isspace_def)
  show a: "scan_int (dec_int i @ s) = Some (i, s)"
  proof (cases "i < 0")
    case True
    then show ?thesis by (simp add: scan_int_def dec_int_def sp tw digits_val_dec)
  next
    case False
    obtain c r where c: "dec_nat (nat i) = c # r" by (cases "dec_nat (nat i)") auto
    then have d: "isdigit c" using dec_nat_digits [of c "nat i"] by auto
    with False c tw [of "nat i"] isdigit_not [OF d] digits_val_dec [of "nat i"] show ?thesis
      by (simp add: scan_int_def dec_int_def)
  qed
  show "scan_int (0x20 # dec_int i @ s) = Some (i, s)" using a sp by (simp add: scan_int_def)
qed

section \<open>Floating point\<close>

text \<open>\<open>Dbl m k\<close> is \<open>m / 2 ^ k\<close> (\<open>m * 2 ^ -k\<close> when \<open>k\<close> is negative), with at most 53 bits in \<open>m\<close>.\<close>

datatype double = Dbl (mant: int) (expo: int)

definition div_even :: "int \<Rightarrow> int \<Rightarrow> int" where
  "div_even n d = (let q = n div d; r = n mod d in
     if 2 * r < d then q else if 2 * r > d then q + 1 else if even q then q else q + 1)"

text \<open>
  The quotient is scaled by powers of two until it has 53 bits: \<open>lo\<close> and \<open>hi\<close> are the denominator times
  \<open>2 ^ 52\<close> and \<open>2 ^ 53\<close>.
\<close>

function dbl_up :: "int \<Rightarrow> int \<Rightarrow> int \<Rightarrow> int \<times> int" where
  "dbl_up n lo k = (if 0 < n \<and> n < lo then dbl_up (2 * n) lo (k + 1) else (n, k))"
  by pat_completeness auto
termination
  by (relation "measure (\<lambda>(n, lo, k). nat (lo - n))") auto

function dbl_down :: "int \<Rightarrow> int \<Rightarrow> int \<Rightarrow> int \<times> int" where
  "dbl_down n hi k = (if 0 < hi \<and> hi \<le> n then dbl_down n (2 * hi) (k - 1) else (hi, k))"
  by pat_completeness auto
termination
  by (relation "measure (\<lambda>(n, hi, k). nat (n + 1 - hi))") auto

declare dbl_up.simps [simp del] dbl_down.simps [simp del]

definition dbl_frac :: "int \<Rightarrow> int \<Rightarrow> double" where
  "dbl_frac n d = (if n = 0 then Dbl 0 0 else
     let (n1, k1) = dbl_up \<bar>n\<bar> (d * 4503599627370496) 0;
         (hi, k2) = dbl_down n1 (d * 9007199254740992) k1
     in Dbl (sgn n * div_even n1 (hi div 9007199254740992)) k2)"

definition dbl_mul :: "double \<Rightarrow> int \<Rightarrow> double" where
  "dbl_mul a c = (let p = dbl_frac (mant a * c) 1 in Dbl (mant p) (expo p + expo a))"

definition dbl_trunc :: "double \<Rightarrow> int" where
  "dbl_trunc a = (if expo a \<le> 0 then mant a * 2 ^ nat (- expo a)
     else sgn (mant a) * (\<bar>mant a\<bar> div 2 ^ nat (expo a)))"

text \<open>A component of a colour survives the way from text and back.\<close>

definition byte_exact :: "int \<Rightarrow> bool" where
  "byte_exact r \<longleftrightarrow> dbl_trunc (dbl_mul (dbl_frac r 255) 255) = r"

lemma bytes_exact: "list_all byte_exact [0..255]"
  by code_simp

lemma dbl_byte: "0 \<le> r \<Longrightarrow> r \<le> 255 \<Longrightarrow> dbl_trunc (dbl_mul (dbl_frac r 255) 255) = r"
  using bytes_exact by (simp add: list_all_iff byte_exact_def del: upto.simps upto_rec_numeral)

end
