(* ===== verification/IniFile.thy ===== *)
theory IniFile
  imports Desktop Numbers
begin

text \<open>
  Configuration files and their descriptions: the ini parser and the descriptions of
  \<open>src/lib/fcitx-config/fcitx-config.c\<close>. The structs of the code hang in hash tables, which are lists in
  application order; the pointer from an option to its description is the description, which nobody
  changes once it has been read. The variable that an option is bound to is an address, 0 when there is none.
\<close>

section \<open>Data\<close>

datatype ctype = T_Integer | T_Color | T_String | T_Char | T_Boolean | T_Enum | T_File | T_Hotkey | T_Font
  | T_I18NString | T_ExternalOption

text \<open>
  The union of constraints is only read for the type that it was written for, or as the length limit of a
  string when nothing was written; each member is a field, 0 at first.
\<close>

record codesc =
  od_name :: buf
  od_desc :: buf
  od_type :: ctype
  od_default :: "buf option"
  od_enum :: "buf option list"
  od_advance :: bool
  od_min :: int
  od_max :: int
  od_maxlen :: nat
  od_nomod :: bool
  od_modonly :: bool
  od_long :: buf
  od_shown :: bool

record cgdesc =
  gd_name :: buf
  gd_opts :: "(buf, codesc) uthash"

record cfdesc =
  fd_groups :: "(buf, cgdesc) uthash"
  fd_domain :: "buf option"

record copt =
  co_name :: buf
  co_raw :: "buf option"
  co_value :: nat
  co_filter :: nat
  co_farg :: nat
  co_desc :: "codesc option"
  co_sub :: "(buf, buf) uthash"

record cgroup =
  cg_name :: buf
  cg_opts :: "(buf, copt) uthash"

record cfile =
  cf_groups :: "(buf, cgroup) uthash"
  cf_desc :: "cfdesc option"

definition no_file :: cfile where
  "no_file = \<lparr> cf_groups = [], cf_desc = None \<rparr>"

definition new_option :: "buf \<Rightarrow> buf \<Rightarrow> copt" where
  "new_option name v = \<lparr> co_name = name, co_raw = Some v, co_value = 0, co_filter = 0, co_farg = 0,
     co_desc = None, co_sub = [] \<rparr>"

section \<open>Parsing\<close>

text \<open>
  A line \<open>name=value\<close> or \<open>name[subkey]=value\<close>. When the name has an opening bracket but does not end with
  a closing one, the pointer to the bracket stays set and the rest of the name is taken for the subkey, too.
\<close>

definition split_name :: "buf \<Rightarrow> buf \<times> buf option" where
  "split_name name = (let i = strcspn name [0x5b] in
     if i = length name then (name, None)
     else if last name = 0x5d then (take i name, Some (butlast (drop (Suc i) name)))
     else (name, Some (drop i name)))"

definition put_subkey :: "buf \<Rightarrow> buf \<Rightarrow> copt \<Rightarrow> copt" where
  "put_subkey k v opt = (case hash_find (co_sub opt) k of
       Some _ \<Rightarrow> opt\<lparr>co_sub := hash_upd (co_sub opt) k v\<rparr>
     | None \<Rightarrow> opt\<lparr>co_sub := hash_add (co_sub opt) k v\<rparr>)"

definition put_entry :: "buf \<Rightarrow> buf option \<Rightarrow> buf \<Rightarrow> cgroup \<Rightarrow> cgroup" where
  "put_entry name sub v g = (case hash_find (cg_opts g) name of
       Some opt \<Rightarrow> g\<lparr>cg_opts := hash_upd (cg_opts g) name
         (case sub of Some k \<Rightarrow> put_subkey k v opt | None \<Rightarrow> opt\<lparr>co_raw := Some v\<rparr>)\<rparr>
     | None \<Rightarrow> g\<lparr>cg_opts := hash_add (cg_opts g) name
         (case sub of Some k \<Rightarrow> (new_option name v)\<lparr>co_sub := [(k, v)]\<rparr> | None \<Rightarrow> new_option name v)\<rparr>)"

text \<open>The state of the loop is the file and the name of the current group; an error is \<open>None\<close>.\<close>

definition ini_group :: "buf \<Rightarrow> cfile \<times> buf option \<Rightarrow> (cfile \<times> buf option) option" where
  "ini_group line s = (case s of (cf, cur) \<Rightarrow>
     if \<not> (last line = 0x5d \<and> length line \<noteq> 2) then None
     else let name = butlast (tl line) in
       (case hash_find (cf_groups cf) name of
          Some _ \<Rightarrow> Some (cf, Some name)
        | None \<Rightarrow> Some (cf\<lparr>cf_groups := hash_add (cf_groups cf) name \<lparr> cg_name = name, cg_opts = [] \<rparr>\<rparr>, Some name)))"

definition ini_entry :: "buf \<Rightarrow> cfile \<times> buf option \<Rightarrow> cfile \<times> buf option" where
  "ini_entry line s = (case s of (cf, None) \<Rightarrow> s
     | (cf, Some cur) \<Rightarrow> (let n = strcspn line [0x3d] in
         if n = length line \<or> n = 0 then s
         else (let (name, sub) = split_name (take n line); v = drop (Suc n) line in
           (case hash_find (cf_groups cf) cur of
              None \<Rightarrow> s
            | Some g \<Rightarrow> (cf\<lparr>cf_groups := hash_upd (cf_groups cf) cur (put_entry name sub v g)\<rparr>, Some cur)))))"

definition ini_line :: "buf \<Rightarrow> cfile \<times> buf option \<Rightarrow> (cfile \<times> buf option) option" where
  "ini_line buf s = (let line = fcitx_utils_trim (cut_line buf) in
     if line = [] \<or> hd line = 0x23 then Some s
     else if hd line = 0x5b then ini_group line s
     else Some (ini_entry line s))"

fun ini_lines :: "buf list \<Rightarrow> cfile \<times> buf option \<Rightarrow> (cfile \<times> buf option) option" where
  "ini_lines [] s = Some s"
| "ini_lines (l # ls) s = do { s \<leftarrow> ini_line l s; ini_lines ls s }"

definition FcitxConfigParseIniFp :: "buf option \<Rightarrow> cfile option \<Rightarrow> cfile option" where
  "FcitxConfigParseIniFp fp cfile = (case fp of None \<Rightarrow> cfile
     | Some text \<Rightarrow> map_option fst
         (ini_lines (getlines text) (case cfile of None \<Rightarrow> no_file | Some cf \<Rightarrow> cf, None)))"

definition FcitxConfigParseIni :: "buf option \<Rightarrow> cfile option \<Rightarrow> cfile option" where
  "FcitxConfigParseIni fp reuse = (case fp of None \<Rightarrow> None | Some _ \<Rightarrow> FcitxConfigParseIniFp fp reuse)"

section \<open>Checking a file against its description\<close>

definition check_option :: "codesc \<Rightarrow> cgroup \<Rightarrow> cgroup option" where
  "check_option d g = (case hash_find (cg_opts g) (od_name d) of
       Some opt \<Rightarrow> Some (g\<lparr>cg_opts := hash_upd (cg_opts g) (od_name d) (opt\<lparr>co_desc := Some d\<rparr>)\<rparr>)
     | None \<Rightarrow> (case od_default d of None \<Rightarrow> None
         | Some v \<Rightarrow> Some (g\<lparr>cg_opts := hash_add (cg_opts g) (od_name d)
             ((new_option (od_name d) v)\<lparr>co_desc := Some d\<rparr>)\<rparr>)))"

fun check_options :: "codesc list \<Rightarrow> cgroup \<Rightarrow> cgroup option" where
  "check_options [] g = Some g"
| "check_options (d # ds) g = do { g \<leftarrow> check_option d g; check_options ds g }"

definition check_group :: "cgdesc \<Rightarrow> cfile \<Rightarrow> cfile option" where
  "check_group gd cf = (let (g, cf) = (case hash_find (cf_groups cf) (gd_name gd) of
         Some g \<Rightarrow> (g, cf)
       | None \<Rightarrow> (let g = \<lparr> cg_name = gd_name gd, cg_opts = [] \<rparr>
                 in (g, cf\<lparr>cf_groups := hash_add (cf_groups cf) (gd_name gd) g\<rparr>)))
     in do { g \<leftarrow> check_options (map snd (gd_opts gd)) g;
             Some (cf\<lparr>cf_groups := hash_upd (cf_groups cf) (gd_name gd) g\<rparr>) })"

fun check_groups :: "cgdesc list \<Rightarrow> cfile \<Rightarrow> cfile option" where
  "check_groups [] cf = Some cf"
| "check_groups (gd # gds) cf = do { cf \<leftarrow> check_group gd cf; check_groups gds cf }"

definition FcitxConfigCheckConfigFile :: "cfile option \<Rightarrow> cfdesc \<Rightarrow> cfile option" where
  "FcitxConfigCheckConfigFile cfile desc = do {
     cf \<leftarrow> cfile;
     cf \<leftarrow> check_groups (map snd (fd_groups desc)) cf;
     Some (cf\<lparr>cf_desc := Some desc\<rparr>) }"

definition FcitxConfigParseConfigFileFp :: "buf option \<Rightarrow> cfdesc \<Rightarrow> cfile option" where
  "FcitxConfigParseConfigFileFp fp desc =
     FcitxConfigCheckConfigFile
       (Some (case FcitxConfigParseIniFp fp None of None \<Rightarrow> no_file | Some cf \<Rightarrow> cf)) desc"

definition FcitxConfigParseConfigFile :: "buf option \<Rightarrow> cfdesc \<Rightarrow> cfile option" where
  "FcitxConfigParseConfigFile fp desc =
     (case fp of None \<Rightarrow> None | Some _ \<Rightarrow> FcitxConfigParseConfigFileFp fp desc)"

definition FcitxConfigParseMultiConfigFileFp :: "buf option list \<Rightarrow> cfdesc \<Rightarrow> cfile option" where
  "FcitxConfigParseMultiConfigFileFp fps desc =
     FcitxConfigCheckConfigFile
       (Some (case fold (\<lambda>fp cf. FcitxConfigParseIniFp fp cf) fps None of None \<Rightarrow> no_file | Some cf \<Rightarrow> cf)) desc"

definition FcitxConfigFileGetOption :: "cfile \<Rightarrow> buf \<Rightarrow> buf \<Rightarrow> copt option" where
  "FcitxConfigFileGetOption cf gn n =
     (case hash_find (cf_groups cf) gn of None \<Rightarrow> None | Some g \<Rightarrow> hash_find (cg_opts g) n)"

definition FcitxConfigDescGetOptionDesc :: "cfdesc \<Rightarrow> buf \<Rightarrow> buf \<Rightarrow> codesc option" where
  "FcitxConfigDescGetOptionDesc fd gn n =
     (case hash_find (fd_groups fd) gn of None \<Rightarrow> None | Some gd \<Rightarrow> hash_find (gd_opts gd) n)"

text \<open>Setting every described option that has a default to it.\<close>

definition reset_option :: "codesc \<Rightarrow> cgroup \<Rightarrow> cgroup" where
  "reset_option d g = (case hash_find (cg_opts g) (od_name d) of None \<Rightarrow> g
     | Some opt \<Rightarrow> (case od_default d of None \<Rightarrow> g
         | Some v \<Rightarrow> g\<lparr>cg_opts := hash_upd (cg_opts g) (od_name d) (opt\<lparr>co_raw := Some v\<rparr>)\<rparr>))"

definition reset_group :: "cgdesc \<Rightarrow> cfile \<Rightarrow> cfile" where
  "reset_group gd cf = (case hash_find (cf_groups cf) (gd_name gd) of None \<Rightarrow> cf
     | Some g \<Rightarrow> cf\<lparr>cf_groups := hash_upd (cf_groups cf) (gd_name gd)
         (fold reset_option (map snd (gd_opts gd)) g)\<rparr>)"

definition FcitxConfigResetConfigToDefaultValue :: "cfile option \<Rightarrow> cfile option" where
  "FcitxConfigResetConfigToDefaultValue c = (case c of None \<Rightarrow> None
     | Some cf \<Rightarrow> (case cf_desc cf of None \<Rightarrow> Some cf
         | Some d \<Rightarrow> Some (fold reset_group (map snd (fd_groups d)) cf)))"

section \<open>Reading a description\<close>

definition opt_raw :: "cgroup \<Rightarrow> string \<Rightarrow> buf option" where
  "opt_raw g name = Option.bind (hash_find (cg_opts g) (ascii name)) co_raw"

definition is_true :: "buf option \<Rightarrow> bool" where
  "is_true v \<longleftrightarrow> v = Some (ascii ''True'')"

text \<open>
  The items of an enumeration. When one is missing after the first, the loop that is to free the items
  before it does not count: it frees the first one again and again, which is \<open>None\<close> here.
\<close>

fun enum_items :: "cgroup \<Rightarrow> nat \<Rightarrow> nat \<Rightarrow> buf list \<Rightarrow> buf list \<times> bool" where
  "enum_items g i 0 acc = (acc, True)"
| "enum_items g i (Suc n) acc =
     (case Option.bind (hash_find (cg_opts g) (ascii ''Enum'' @ dec_nat i)) co_raw of
        Some v \<Rightarrow> enum_items g (Suc i) n (acc @ [v])
      | None \<Rightarrow> (acc, False))"

definition desc_enum :: "cgroup \<Rightarrow> codesc \<Rightarrow> codesc option" where
  "desc_enum g d = (case opt_raw g ''EnumCount'' of
       None \<Rightarrow> Some (d\<lparr>od_type := T_Enum\<rparr>)
     | Some c \<Rightarrow> (let n = nat (atoi c) in
         if atoi c \<le> 0 then Some (d\<lparr>od_type := T_String\<rparr>)
         else (case enum_items g 0 n [] of
             (es, True) \<Rightarrow> Some (d\<lparr>od_type := T_Enum, od_enum := map Some es\<rparr>)
           | ([], False) \<Rightarrow> Some (d\<lparr>od_type := T_String, od_enum := replicate n None\<rparr>)
           | (e # es, False) \<Rightarrow> None)))"

definition desc_integer :: "cgroup \<Rightarrow> codesc \<Rightarrow> codesc" where
  "desc_integer g d = d\<lparr>od_type := T_Integer,
     od_min := (case opt_raw g ''Min'' of Some v \<Rightarrow> atoi v | None \<Rightarrow> - (2 ^ 31)),
     od_max := (case opt_raw g ''Max'' of Some v \<Rightarrow> atoi v | None \<Rightarrow> 2 ^ 31 - 1)\<rparr>"

definition desc_string :: "cgroup \<Rightarrow> codesc \<Rightarrow> codesc" where
  "desc_string g d = d\<lparr>od_type := T_String,
     od_maxlen := (case opt_raw g ''MaxLength'' of Some v \<Rightarrow> nat (atoi v mod 2 ^ 64) | None \<Rightarrow> 0)\<rparr>"

definition desc_hotkey :: "cgroup \<Rightarrow> codesc \<Rightarrow> codesc" where
  "desc_hotkey g d = d\<lparr>od_type := T_Hotkey, od_modonly := is_true (opt_raw g ''AllowModifierOnly''),
     od_nomod := is_true (opt_raw g ''DisallowNoModifer'')\<rparr>"

definition desc_type :: "cgroup \<Rightarrow> codesc \<Rightarrow> codesc option" where
  "desc_type g d = (case opt_raw g ''Type'' of None \<Rightarrow> Some (d\<lparr>od_type := T_String\<rparr>)
     | Some t \<Rightarrow>
         if t = ascii ''Integer'' then Some (desc_integer g d)
         else if t = ascii ''Color'' then Some (d\<lparr>od_type := T_Color\<rparr>)
         else if t = ascii ''Char'' then Some (d\<lparr>od_type := T_Char\<rparr>)
         else if t = ascii ''String'' then Some (desc_string g d)
         else if t = ascii ''I18NString'' then Some (d\<lparr>od_type := T_I18NString\<rparr>)
         else if t = ascii ''Boolean'' then Some (d\<lparr>od_type := T_Boolean\<rparr>)
         else if t = ascii ''File'' then Some (d\<lparr>od_type := T_File\<rparr>)
         else if t = ascii ''Font'' then Some (d\<lparr>od_type := T_Font\<rparr>)
         else if t = ascii ''ExternalOption'' then Some (d\<lparr>od_type := T_ExternalOption\<rparr>)
         else if t = ascii ''Hotkey'' then Some (desc_hotkey g d)
         else if t = ascii ''Enum'' then desc_enum g d
         else Some (d\<lparr>od_type := T_String\<rparr>))"

definition desc_option :: "buf \<Rightarrow> cgroup \<Rightarrow> codesc option" where
  "desc_option name g = map_option (\<lambda>d. d\<lparr>od_default := opt_raw g ''DefaultValue''\<rparr>) (desc_type g
     \<lparr> od_name = name, od_desc = (case opt_raw g ''Description'' of Some v \<Rightarrow> v | None \<Rightarrow> []),
       od_type = T_Integer, od_default = None, od_enum = [], od_advance = is_true (opt_raw g ''Advance''),
       od_min = 0, od_max = 0, od_maxlen = 0, od_nomod = False, od_modonly = False,
       od_long = (case opt_raw g ''LongDescription'' of Some v \<Rightarrow> v | None \<Rightarrow> []),
       od_shown = is_true (opt_raw g ''ShownInDeepin'') \<rparr>)"

text \<open>
  A group \<open>Group/Option\<close> describes an option; the group \<open>DescriptionFile\<close> names the text domain, and it
  is an access through a null pointer when it does not.
\<close>

definition desc_group :: "cgroup \<Rightarrow> cfdesc \<Rightarrow> cfdesc option" where
  "desc_group g fd =
     (if cg_name g = ascii ''DescriptionFile'' then
        map_option (\<lambda>v. fd\<lparr>fd_domain := Some v\<rparr>) (opt_raw g ''LocaleDomain'')
      else let i = strcspn (cg_name g) [0x2f]; gn = take i (cg_name g); name = drop (Suc i) (cg_name g) in
        if i = length (cg_name g) \<or> gn = [] \<or> name = [] then Some fd
        else (let gd = (case hash_find (fd_groups fd) gn of Some gd \<Rightarrow> gd
                        | None \<Rightarrow> \<lparr> gd_name = gn, gd_opts = [] \<rparr>) in
          do { d \<leftarrow> desc_option name g;
               let gd = gd\<lparr>gd_opts := hash_add (gd_opts gd) name d\<rparr>;
               Some (fd\<lparr>fd_groups := (case hash_find (fd_groups fd) gn of
                   Some _ \<Rightarrow> hash_upd (fd_groups fd) gn gd
                 | None \<Rightarrow> hash_add (fd_groups fd) gn gd)\<rparr>) }))"

fun desc_groups :: "cgroup list \<Rightarrow> cfdesc \<Rightarrow> cfdesc option" where
  "desc_groups [] fd = Some fd"
| "desc_groups (g # gs) fd = do { fd \<leftarrow> desc_group g fd; desc_groups gs fd }"

definition FcitxConfigParseConfigFileDescFp :: "buf option \<Rightarrow> cfdesc option option" where
  "FcitxConfigParseConfigFileDescFp fp = (case FcitxConfigParseIniFp fp None of None \<Rightarrow> Some None
     | Some cf \<Rightarrow> map_option Some (desc_groups (map snd (cf_groups cf)) \<lparr> fd_groups = [], fd_domain = None \<rparr>))"

text \<open>Freeing a description frees all items of an enumeration, also those that were never stored.\<close>

definition FcitxConfigFreeConfigOptionDesc :: "codesc \<Rightarrow> unit option" where
  "FcitxConfigFreeConfigOptionDesc d = (if None \<in> set (od_enum d) then None else Some ())"

end
