(* ===== verification/Config.thy ===== *)
theory Config
  imports IniFile Hotkey
begin

text \<open>
  Binding of options to variables, and saving: the second half of
  \<open>src/lib/fcitx-config/fcitx-config.c\<close>. The variables are a store from addresses to values; the union
  of pointers in an option is one address, and using it for a variable of another type is \<open>None\<close>, as are
  null pointers. What is outside of the file is the environment: the locale, the translation of texts, and
  the filters, functions of the programs that are called when an option is synchronised.
\<close>

section \<open>Variables and environment\<close>

datatype cvar = VInt int | VBool bool | VChar byte | VStr "buf option" | VColor double double double
  | VHotkey hotkey hotkey

type_synonym cvars = "nat \<Rightarrow> cvar option"

datatype csync = Raw2Value | Value2Raw | ValueFree

datatype csync_result = SyncSuccess | SyncNoBinding | SyncInvalid

record cenv =
  ce_locale :: buf
  ce_gettext :: "buf option \<Rightarrow> buf \<Rightarrow> buf"
  ce_filter :: "nat \<Rightarrow> nat \<Rightarrow> csync \<Rightarrow> nat \<Rightarrow> cvars \<Rightarrow> cvars"

text \<open>What a function on an option returns: the result, the option and the variables.\<close>

type_synonym csynced = "csync_result \<times> copt \<times> cvars"

definition set_raw :: "buf \<Rightarrow> copt \<Rightarrow> copt" where
  "set_raw v opt = opt\<lparr>co_raw := Some v\<rparr>"

definition set_var :: "copt \<Rightarrow> cvar \<Rightarrow> cvars \<Rightarrow> cvars" where
  "set_var opt v m = m(co_value opt \<mapsto> v)"

section \<open>One option\<close>

definition FcitxConfigOptionInteger :: "csync \<Rightarrow> copt \<Rightarrow> cvars \<Rightarrow> csynced option" where
  "FcitxConfigOptionInteger sync opt m =
     (if co_value opt = 0 then Some (SyncNoBinding, opt, m)
      else (case (sync, m (co_value opt)) of
        (Raw2Value, Some (VInt _)) \<Rightarrow> do {
          d \<leftarrow> co_desc opt;
          r \<leftarrow> co_raw opt;
          if atoi r > od_max d \<or> atoi r < od_min d then Some (SyncInvalid, opt, m)
          else Some (SyncSuccess, opt, set_var opt (VInt (atoi r)) m) }
      | (Value2Raw, Some (VInt i)) \<Rightarrow> do {
          d \<leftarrow> co_desc opt;
          if i > od_max d \<or> i < od_min d then Some (SyncInvalid, opt, m)
          else Some (SyncSuccess, set_raw (dec_int i) opt, m) }
      | (ValueFree, _) \<Rightarrow> Some (SyncSuccess, opt, m)
      | _ \<Rightarrow> None))"

definition FcitxConfigOptionBoolean :: "csync \<Rightarrow> copt \<Rightarrow> cvars \<Rightarrow> csynced option" where
  "FcitxConfigOptionBoolean sync opt m =
     (if co_value opt = 0 then Some (SyncNoBinding, opt, m)
      else (case (sync, m (co_value opt)) of
        (Raw2Value, Some (VBool _)) \<Rightarrow> do {
          r \<leftarrow> co_raw opt;
          Some (SyncSuccess, opt, set_var opt (VBool (r = ascii ''True'')) m) }
      | (Value2Raw, Some (VBool b)) \<Rightarrow>
          Some (SyncSuccess, set_raw (if b then ascii ''True'' else ascii ''False'') opt, m)
      | (ValueFree, _) \<Rightarrow> Some (SyncSuccess, opt, m)
      | _ \<Rightarrow> None))"

text \<open>The loop over the items of an enumeration: \<open>strcmp\<close> faults on a missing item or text.\<close>

fun enum_index :: "buf option list \<Rightarrow> buf option \<Rightarrow> nat \<Rightarrow> nat option option" where
  "enum_index [] r i = Some None"
| "enum_index (e # es) r i = do {
     s \<leftarrow> e;
     t \<leftarrow> r;
     if s = t then Some (Some i) else enum_index es r (Suc i) }"

definition FcitxConfigOptionEnum :: "csync \<Rightarrow> copt \<Rightarrow> cvars \<Rightarrow> csynced option" where
  "FcitxConfigOptionEnum sync opt m =
     (case co_desc opt of None \<Rightarrow> Some (SyncNoBinding, opt, m) | Some d \<Rightarrow>
      if co_value opt = 0 then Some (SyncNoBinding, opt, m)
      else (case (sync, m (co_value opt)) of
        (Raw2Value, Some (VInt _)) \<Rightarrow> do {
          j \<leftarrow> enum_index (od_enum d) (co_raw opt) 0;
          case j of
            Some i \<Rightarrow> Some (SyncSuccess, opt, set_var opt (VInt (int i)) m)
          | None \<Rightarrow> Some (SyncInvalid, opt, m) }
      | (Value2Raw, Some (VInt i)) \<Rightarrow>
          if i < 0 \<or> i \<ge> int (length (od_enum d)) then Some (SyncInvalid, opt, m)
          else do { e \<leftarrow> od_enum d ! nat i; Some (SyncSuccess, set_raw e opt, m) }
      | (ValueFree, _) \<Rightarrow> Some (SyncSuccess, opt, m)
      | _ \<Rightarrow> None))"

definition IsColorValid :: "int \<Rightarrow> bool" where
  "IsColorValid c \<longleftrightarrow> c \<ge> 0 \<and> c \<le> 255"

definition RoundColor :: "int \<Rightarrow> int" where
  "RoundColor c = (if c \<ge> 0 then (if c \<le> 255 then c else 255) else 0)"

definition scan_color :: "buf \<Rightarrow> (int \<times> int \<times> int) option" where
  "scan_color s = do { (r, s) \<leftarrow> scan_int s; (g, s) \<leftarrow> scan_int s; (b, s) \<leftarrow> scan_int s; Some (r, g, b) }"

definition color_text :: "double \<Rightarrow> double \<Rightarrow> double \<Rightarrow> buf" where
  "color_text r g b = (let f = (\<lambda>d. dec_int (RoundColor (dbl_trunc (dbl_mul d 255)))) in
     f r @ [0x20] @ f g @ [0x20] @ f b)"

definition FcitxConfigOptionColor :: "csync \<Rightarrow> copt \<Rightarrow> cvars \<Rightarrow> csynced option" where
  "FcitxConfigOptionColor sync opt m =
     (if co_value opt = 0 then Some (SyncNoBinding, opt, m)
      else (case (sync, m (co_value opt)) of
        (Raw2Value, Some (VColor _ _ _)) \<Rightarrow> do {
          raw \<leftarrow> co_raw opt;
          case scan_color raw of None \<Rightarrow> Some (SyncInvalid, opt, m)
          | Some (r, g, b) \<Rightarrow>
              if IsColorValid r \<and> IsColorValid g \<and> IsColorValid b
              then Some (SyncSuccess, opt,
                set_var opt (VColor (dbl_frac r 255) (dbl_frac g 255) (dbl_frac b 255)) m)
              else Some (SyncInvalid, opt, m) }
      | (Value2Raw, Some (VColor r g b)) \<Rightarrow> Some (SyncSuccess, set_raw (color_text r g b) opt, m)
      | (ValueFree, _) \<Rightarrow> Some (SyncSuccess, opt, m)
      | _ \<Rightarrow> None))"

definition too_long :: "codesc \<Rightarrow> buf \<Rightarrow> bool" where
  "too_long d s \<longleftrightarrow> od_maxlen d \<noteq> 0 \<and> length s > od_maxlen d"

definition FcitxConfigOptionString :: "csync \<Rightarrow> copt \<Rightarrow> cvars \<Rightarrow> csynced option" where
  "FcitxConfigOptionString sync opt m =
     (if co_value opt = 0 then Some (SyncNoBinding, opt, m)
      else (case (sync, m (co_value opt)) of
        (Raw2Value, Some (VStr _)) \<Rightarrow> do {
          d \<leftarrow> co_desc opt;
          if od_maxlen d \<noteq> 0 \<and> co_raw opt = None then None
          else if (case co_raw opt of None \<Rightarrow> False | Some r \<Rightarrow> too_long d r) then Some (SyncInvalid, opt, m)
          else Some (SyncSuccess, opt, set_var opt (VStr (co_raw opt)) m) }
      | (Value2Raw, Some (VStr v)) \<Rightarrow> do {
          d \<leftarrow> co_desc opt;
          if od_maxlen d \<noteq> 0 \<and> v = None then None
          else if (case v of None \<Rightarrow> False | Some r \<Rightarrow> too_long d r) then Some (SyncInvalid, opt, m)
          else Some (SyncSuccess, opt\<lparr>co_raw := v\<rparr>, m) }
      | (ValueFree, Some (VStr _)) \<Rightarrow> Some (SyncSuccess, opt, set_var opt (VStr None) m)
      | _ \<Rightarrow> None))"

text \<open>
  The locale up to the dot is copied into a buffer of 40 bytes; a terminator behind 40 bytes is outside.
\<close>

definition FcitxConfigOptionGetLocaleString :: "buf \<Rightarrow> copt \<Rightarrow> buf option option" where
  "FcitxConfigOptionGetLocaleString locale opt = (let len = strcspn locale [0x2e] in
     if len > 40 then Some (co_raw opt)
     else if len = 40 then None
     else Some (case hash_find (co_sub opt) (take len locale) of
         Some v \<Rightarrow> Some v
       | None \<Rightarrow> co_raw opt))"

definition FcitxConfigOptionI18NString :: "buf \<Rightarrow> csync \<Rightarrow> copt \<Rightarrow> cvars \<Rightarrow> csynced option" where
  "FcitxConfigOptionI18NString locale sync opt m =
     (if co_value opt = 0 then Some (SyncNoBinding, opt, m)
      else (case (sync, m (co_value opt)) of
        (Raw2Value, Some (VStr _)) \<Rightarrow> do {
          s \<leftarrow> FcitxConfigOptionGetLocaleString locale opt;
          Some (SyncSuccess, opt, set_var opt (VStr s) m) }
      | (Value2Raw, _) \<Rightarrow> Some (SyncSuccess, opt, m)
      | (ValueFree, Some (VStr _)) \<Rightarrow> Some (SyncSuccess, opt, set_var opt (VStr None) m)
      | _ \<Rightarrow> None))"

definition FcitxConfigOptionChar :: "csync \<Rightarrow> copt \<Rightarrow> cvars \<Rightarrow> csynced option" where
  "FcitxConfigOptionChar sync opt m =
     (if co_value opt = 0 then Some (SyncNoBinding, opt, m)
      else (case (sync, m (co_value opt)) of
        (Raw2Value, Some (VChar _)) \<Rightarrow> do {
          r \<leftarrow> co_raw opt;
          c \<leftarrow> rd r 0;
          Some (SyncSuccess, opt, set_var opt (VChar c) m) }
      | (Value2Raw, Some (VChar c)) \<Rightarrow> Some (SyncSuccess, set_raw (if c = 0 then [] else [c]) opt, m)
      | (ValueFree, _) \<Rightarrow> Some (SyncSuccess, opt, m)
      | _ \<Rightarrow> None))"

definition hotkey_text :: "hotkey \<Rightarrow> hotkey \<Rightarrow> buf" where
  "hotkey_text h0 h1 = (let t = (\<lambda>h. case hk_desc h of Some s \<Rightarrow> s | None \<Rightarrow> []) in
     if hk_desc h1 \<noteq> None then t h0 @ [0x20] @ t h1 else t h0)"

definition FcitxConfigOptionHotkey :: "csync \<Rightarrow> copt \<Rightarrow> cvars \<Rightarrow> csynced option" where
  "FcitxConfigOptionHotkey sync opt m =
     (if co_value opt = 0 then Some (SyncNoBinding, opt, m)
      else (case (sync, m (co_value opt)) of
        (Raw2Value, Some (VHotkey _ _)) \<Rightarrow> do {
          r \<leftarrow> co_raw opt;
          (h0, h1) \<leftarrow> FcitxHotkeySetKey r;
          Some (SyncSuccess, opt, set_var opt (VHotkey h0 h1) m) }
      | (Value2Raw, Some (VHotkey h0 h1)) \<Rightarrow> Some (SyncSuccess, set_raw (hotkey_text h0 h1) opt, m)
      | (ValueFree, Some (VHotkey h0 h1)) \<Rightarrow>
          Some (SyncSuccess, opt, set_var opt (VHotkey (h0\<lparr>hk_desc := None\<rparr>) (h1\<lparr>hk_desc := None\<rparr>)) m)
      | _ \<Rightarrow> None))"

section \<open>Synchronising\<close>

definition option_func :: "buf \<Rightarrow> ctype \<Rightarrow> csync \<Rightarrow> copt \<Rightarrow> cvars \<Rightarrow> csynced option" where
  "option_func locale t = (case t of
       T_Integer \<Rightarrow> FcitxConfigOptionInteger
     | T_Color \<Rightarrow> FcitxConfigOptionColor
     | T_Boolean \<Rightarrow> FcitxConfigOptionBoolean
     | T_Enum \<Rightarrow> FcitxConfigOptionEnum
     | T_String \<Rightarrow> FcitxConfigOptionString
     | T_I18NString \<Rightarrow> FcitxConfigOptionI18NString locale
     | T_Hotkey \<Rightarrow> FcitxConfigOptionHotkey
     | T_File \<Rightarrow> FcitxConfigOptionString
     | T_Font \<Rightarrow> FcitxConfigOptionString
     | T_Char \<Rightarrow> FcitxConfigOptionChar
     | T_ExternalOption \<Rightarrow> (\<lambda>sync opt m. Some (SyncNoBinding, opt, m)))"

definition run_filter :: "cenv \<Rightarrow> csync \<Rightarrow> copt \<Rightarrow> cvars \<Rightarrow> cvars" where
  "run_filter e sync opt m =
     (if co_filter opt = 0 then m else ce_filter e (co_filter opt) (co_farg opt) sync (co_value opt) m)"

definition use_default :: "cenv \<Rightarrow> codesc \<Rightarrow> csync \<Rightarrow> copt \<Rightarrow> cvars \<Rightarrow> (copt \<times> cvars) option" where
  "use_default e d sync opt m = (case od_default d of None \<Rightarrow> Some (opt, m)
     | Some v \<Rightarrow> (let opt = set_raw v opt in
         if sync = Raw2Value then map_option snd (option_func (ce_locale e) (od_type d) sync opt m)
         else Some (opt, m)))"

definition FcitxConfigSyncValue :: "cenv \<Rightarrow> csync \<Rightarrow> copt \<Rightarrow> cvars \<Rightarrow> (copt \<times> cvars) option" where
  "FcitxConfigSyncValue e sync opt m = (case co_desc opt of None \<Rightarrow> Some (opt, m)
     | Some d \<Rightarrow> do {
         let m = (if sync = Value2Raw then run_filter e sync opt m else m);
         (r, opt, m) \<leftarrow> option_func (ce_locale e) (od_type d) sync opt m;
         (opt, m) \<leftarrow> (if r = SyncInvalid then use_default e d sync opt m else Some (opt, m));
         Some (opt, if sync = Raw2Value then run_filter e sync opt m else m) })"

text \<open>The option of a description in a file, and the loops over all descriptions.\<close>

type_synonym cstate = "cfile \<times> cvars"

definition put_option :: "buf \<Rightarrow> buf \<Rightarrow> copt \<Rightarrow> cfile \<Rightarrow> cfile" where
  "put_option gn n opt cf = (case hash_find (cf_groups cf) gn of None \<Rightarrow> cf
     | Some g \<Rightarrow> cf\<lparr>cf_groups := hash_upd (cf_groups cf) gn (g\<lparr>cg_opts := hash_upd (cg_opts g) n opt\<rparr>)\<rparr>)"

definition sync_option :: "cenv \<Rightarrow> csync \<Rightarrow> buf \<Rightarrow> buf \<Rightarrow> cstate \<Rightarrow> cstate option" where
  "sync_option e sync gn n s = (case s of (cf, m) \<Rightarrow> do {
     opt \<leftarrow> FcitxConfigFileGetOption cf gn n;
     (opt, m) \<leftarrow> FcitxConfigSyncValue e sync opt m;
     Some (put_option gn n opt cf, m) })"

definition desc_names :: "cfdesc \<Rightarrow> (buf \<times> buf) list" where
  "desc_names fd = concat (map (\<lambda>gd. map (\<lambda>d. (gd_name gd, od_name d)) (map snd (gd_opts gd)))
     (map snd (fd_groups fd)))"

fun sync_options :: "cenv \<Rightarrow> csync \<Rightarrow> (buf \<times> buf) list \<Rightarrow> cstate \<Rightarrow> cstate option" where
  "sync_options e sync [] s = Some s"
| "sync_options e sync ((gn, n) # ns) s =
     do { s \<leftarrow> sync_option e sync gn n s; sync_options e sync ns s }"

definition FcitxConfigBindSync :: "cenv \<Rightarrow> cfile option \<Rightarrow> cvars \<Rightarrow> (cfile option \<times> cvars) option" where
  "FcitxConfigBindSync e c m = (case c of None \<Rightarrow> Some (None, m)
     | Some cf \<Rightarrow> do {
         d \<leftarrow> cf_desc cf;
         (cf, m) \<leftarrow> sync_options e Raw2Value (desc_names d) (cf, m);
         Some (Some cf, m) })"

definition FcitxConfigFree :: "cenv \<Rightarrow> cfile option \<Rightarrow> cvars \<Rightarrow> cvars option" where
  "FcitxConfigFree e c m = (case c of None \<Rightarrow> Some m
     | Some cf \<Rightarrow> do {
         d \<leftarrow> cf_desc cf;
         (cf, m) \<leftarrow> sync_options e ValueFree (desc_names d) (cf, m);
         Some m })"

definition FcitxConfigBindValue :: "buf \<Rightarrow> buf \<Rightarrow> nat \<Rightarrow> nat \<Rightarrow> nat \<Rightarrow> cfile \<Rightarrow> cfile" where
  "FcitxConfigBindValue gn n var filt arg cf = (case FcitxConfigFileGetOption cf gn n of None \<Rightarrow> cf
     | Some opt \<Rightarrow> (let opt = opt\<lparr>co_filter := filt, co_farg := arg\<rparr> in
         put_option gn n (case co_desc opt of None \<Rightarrow> opt
             | Some d \<Rightarrow> if od_type d = T_ExternalOption then opt else opt\<lparr>co_value := var\<rparr>) cf))"

definition FcitxConfigGetBindValue :: "cfile \<Rightarrow> buf \<Rightarrow> buf \<Rightarrow> nat" where
  "FcitxConfigGetBindValue cf gn n =
     (case FcitxConfigFileGetOption cf gn n of None \<Rightarrow> 0 | Some opt \<Rightarrow> co_value opt)"

section \<open>Saving\<close>

definition comment_line :: "buf \<Rightarrow> buf" where
  "comment_line t = ascii ''# '' @ t @ [0x0a]"

fun enum_comments :: "buf option list \<Rightarrow> buf option" where
  "enum_comments [] = Some []"
| "enum_comments (e # es) = do { t \<leftarrow> e; r \<leftarrow> enum_comments es; Some (comment_line t @ r) }"

definition type_comment :: "cenv \<Rightarrow> codesc \<Rightarrow> buf option" where
  "type_comment e d = (let av = comment_line (ce_gettext e (Some (ascii ''fcitx'')) (ascii ''Available Value:'')) in
     case od_type d of
       T_Enum \<Rightarrow> map_option (\<lambda>t. av @ t) (enum_comments (od_enum d))
     | T_Boolean \<Rightarrow> Some (av @ comment_line (ascii ''True False''))
     | _ \<Rightarrow> Some [])"

definition desc_comment :: "cenv \<Rightarrow> buf option \<Rightarrow> codesc \<Rightarrow> buf" where
  "desc_comment e domain d = (if od_desc d = [] then [] else comment_line (ce_gettext e domain (od_desc d)))"

definition entry_line :: "buf \<Rightarrow> buf \<Rightarrow> buf" where
  "entry_line name v = name @ [0x3d] @ v @ [0x0a]"

definition subkey_lines :: "copt \<Rightarrow> buf" where
  "subkey_lines opt =
     concat (map (\<lambda>(k, v). entry_line (co_name opt @ [0x5b] @ k @ [0x5d]) v) (co_sub opt))"

text \<open>A value that is the default is written as a comment.\<close>

definition option_lines :: "codesc \<Rightarrow> copt \<Rightarrow> buf option" where
  "option_lines d opt = do {
     r \<leftarrow> co_raw opt;
     Some ((if od_default d = Some r then [0x23] else []) @ entry_line (co_name opt) r @ subkey_lines opt) }"

definition save_option :: "cenv \<Rightarrow> buf option \<Rightarrow> buf \<Rightarrow> codesc \<Rightarrow> cfile option \<times> cvars \<Rightarrow>
    (buf \<times> cfile option \<times> cvars) option" where
  "save_option e domain gn d s = (case s of (c, m) \<Rightarrow> do {
     t \<leftarrow> type_comment e d;
     let t = desc_comment e domain d @ t;
     case Option.bind c (\<lambda>cf. FcitxConfigFileGetOption cf gn (od_name d)) of
       None \<Rightarrow> (case od_default d of
           Some v \<Rightarrow> Some (t @ [0x23] @ entry_line (od_name d) v, c, m)
         | None \<Rightarrow> Some (t, c, m))
     | Some opt \<Rightarrow> do {
         (opt, m) \<leftarrow> FcitxConfigSyncValue e Value2Raw opt m;
         l \<leftarrow> option_lines d opt;
         Some (t @ l, map_option (put_option gn (od_name d) opt) c, m) } })"

fun save_options :: "cenv \<Rightarrow> buf option \<Rightarrow> buf \<Rightarrow> codesc list \<Rightarrow> cfile option \<times> cvars \<Rightarrow>
    (buf \<times> cfile option \<times> cvars) option" where
  "save_options e domain gn [] s = Some ([], s)"
| "save_options e domain gn (d # ds) s = do {
     (t, s) \<leftarrow> save_option e domain gn d s;
     (r, s) \<leftarrow> save_options e domain gn ds s;
     Some (t @ r, s) }"

fun save_groups :: "cenv \<Rightarrow> buf option \<Rightarrow> cgdesc list \<Rightarrow> cfile option \<times> cvars \<Rightarrow>
    (buf \<times> cfile option \<times> cvars) option" where
  "save_groups e domain [] s = Some ([], s)"
| "save_groups e domain (gd # gds) s = do {
     (t, s) \<leftarrow> save_options e domain (gd_name gd) (map snd (gd_opts gd)) s;
     (r, s) \<leftarrow> save_groups e domain gds s;
     Some ([0x5b] @ gd_name gd @ [0x5d, 0x0a] @ t @ [0x0a] @ r, s) }"

definition FcitxConfigSaveConfigFileFp ::
  "cenv \<Rightarrow> cfdesc \<Rightarrow> cfile option \<times> cvars \<Rightarrow> (buf \<times> cfile option \<times> cvars) option" where
  "FcitxConfigSaveConfigFileFp e desc s = save_groups e (fd_domain desc) (map snd (fd_groups desc)) s"

end
