(* ===== verification/Hotkey_Total.thy ===== *)
theory Hotkey_Total
  imports Hotkey StrUtils_Laws "HOL-Library.Sublist"
begin

text \<open>
  \<open>FcitxHotkeyParseKey\<close> skips the length of every modifier that it finds anywhere in its argument. The
  names of the modifiers end with an underscore and none is the end of another, so different modifiers stand
  at different underscores and together are never longer than the argument: the parser stays inside.
\<close>

lemma has_prefix_prefix: "has_prefix p s \<longleftrightarrow> prefix p s"
  by (induction p s rule: has_prefix.induct) auto

lemma has_infix_sublist: "has_infix p s \<longleftrightarrow> sublist p s"
proof (induction s)
  case (Cons c s)
  have "sublist p (c # s) \<longleftrightarrow> prefix p (c # s) \<or> sublist p s"
    by (rule sublist_Cons_right)
  then show ?case using Cons by (simp add: has_prefix_prefix)
qed (cases p; simp)

text \<open>A word with its end mark stands at the first end mark of a text or behind it.\<close>

lemma sublist_mark:
  assumes "m \<notin> set a" "m \<notin> set w" "sublist (w @ [m]) (a @ m # r)"
  shows "suffix w a \<or> sublist (w @ [m]) r"
proof -
  obtain x y where e: "a @ m # r = x @ w @ m # y" using assms(3) by (auto simp: sublist_def)
  show ?thesis
  proof (cases "length (x @ w) < length a")
    case True
    have "(a @ m # r) ! length (x @ w) = m" unfolding e by (metis append.assoc nth_append_length)
    with True have "a ! length (x @ w) = m" by (simp add: nth_append)
    with True assms(1) nth_mem show ?thesis by blast
  next
    case False
    then obtain z where z: "x @ w = a @ z" "m # r = z @ m # y"
      using e by (metis append.assoc append_eq_append_conv_if append_take_drop_id not_less)
    show ?thesis
    proof (cases z)
      case Nil
      then show ?thesis using z(1) by (auto simp: suffix_def)
    next
      case (Cons c z')
      with z have c: "c = m" "r = z' @ m # y" by auto
      have "suffix w z'"
      proof (rule ccontr)
        assume n: "\<not> suffix w z'"
        have "suffix w (a @ m # z')" using z(1) Cons c by (metis suffixI)
        moreover have "suffix z' (a @ m # z')" by (rule suffixI [of _ "a @ [m]"]) simp
        ultimately have "suffix z' w" "z' \<noteq> w" using n suffix_same_cases by blast+
        then obtain u where u: "w = u @ z'" "u \<noteq> []" by (auto simp: suffix_def)
        with z(1) Cons c have "x @ u = a @ [m]" by auto
        with u(2) have "last u = m" by (metis last_appendR last_snoc)
        with u assms(2) show False by (metis Un_iff last_in_set set_append)
      qed
      then obtain zs where "z' = zs @ w" by (auto simp: suffix_def)
      then have "r = zs @ (w @ [m]) @ y" using c by simp
      then show ?thesis by (metis sublist_appendI)
    qed
  qed
qed

definition found_length :: "byte \<Rightarrow> buf list \<Rightarrow> buf \<Rightarrow> nat" where
  "found_length m ws s = sum_list (map (\<lambda>w. if sublist (w @ [m]) s then Suc (length w) else 0) ws)"

lemma found_length_le:
  assumes ws: "\<forall>w\<in>set ws. m \<notin> set w" "distinct ws" "\<forall>u\<in>set ws. \<forall>v\<in>set ws. suffix u v \<longrightarrow> u = v"
  shows "found_length m ws s \<le> length s"
proof (induction "length s" arbitrary: s rule: less_induct)
  case less
  show ?case
  proof (cases "m \<in> set s")
    case False
    then have ns: "\<not> sublist (w @ [m]) s" for w by (auto dest: set_mono_sublist)
    show ?thesis by (simp add: found_length_def ns)
  next
    case True
    then obtain a r where s: "s = a @ m # r" "m \<notin> set a" by (meson split_list_first)
    let ?here = "\<lambda>w. if suffix w a then Suc (length w) else 0"
    let ?f = "\<lambda>t w. if sublist (w @ [m]) t then Suc (length w) else 0"
    have "sum_list (map (?f s) ws) \<le> sum_list (map (\<lambda>w. ?here w + ?f r w) ws)"
      by (rule sum_list_mono) (use sublist_mark [OF s(2)] ws(1) in \<open>auto simp: s\<close>)
    also have "\<dots> = sum_list (map ?here ws) + sum_list (map (?f r) ws)" by (rule sum_list_addf)
    also have "sum_list (map ?here ws) \<le> Suc (length a)"
      using ws(2,3)
    proof (induction ws)
      case (Cons w ws)
      show ?case
      proof (cases "suffix w a")
        case True
        have "\<not> suffix v a" if "v \<in> set ws" for v
        proof
          assume "suffix v a"
          with True have "suffix v w \<or> suffix w v" using suffix_same_cases by blast
          with that Cons.prems show False by auto
        qed
        then have "map ?here ws = map (\<lambda>_. 0) ws" by (intro map_cong) auto
        with True suffix_length_le [OF True] show ?thesis by (simp only: list.map sum_list.Cons) simp
      next
        case False
        with Cons show ?thesis by simp
      qed
    qed simp
    also have "sum_list (map (?f r) ws) \<le> length r" using less [of r] s by (simp add: found_length_def)
    finally show ?thesis by (simp add: found_length_def s)
  qed
qed

definition modifier_words :: "buf list" where
  "modifier_words = [ascii ''CTRL'', ascii ''ALT'', ascii ''SHIFT'', ascii ''SUPER'']"

lemma modifier_words_ok:
  "(\<forall>w\<in>set modifier_words. 0x5f \<notin> set w) \<and> distinct modifier_words \<and>
   (\<forall>u\<in>set modifier_words. \<forall>v\<in>set modifier_words. suffix u v \<longrightarrow> u = v)"
  by code_simp

lemma modifier_marks:
  "ascii ''CTRL'' @ [0x5f] = ascii ''CTRL_''" "ascii ''ALT'' @ [0x5f] = ascii ''ALT_''"
  "ascii ''SHIFT'' @ [0x5f] = ascii ''SHIFT_''" "ascii ''SUPER'' @ [0x5f] = ascii ''SUPER_''"
  "length (ascii ''CTRL'') = 4" "length (ascii ''ALT'') = 3" "length (ascii ''SHIFT'') = 5"
  "length (ascii ''SUPER'') = 5"
  by (simp_all add: ascii_def)

lemma modifiers_fit:
  "(if has_infix (ascii ''CTRL_'') s then 5 else 0) + (if has_infix (ascii ''ALT_'') s then 4 else 0) +
   (if has_infix (ascii ''SHIFT_'') s then 6 else 0) + (if has_infix (ascii ''SUPER_'') s then 6 else 0)
   \<le> length s"
proof -
  have "found_length 0x5f modifier_words s \<le> length s"
    using modifier_words_ok by (intro found_length_le) blast+
  then show ?thesis
    by (simp only: found_length_def modifier_words_def has_infix_sublist modifier_marks list.map sum_list.Cons
        sum_list.Nil) (auto split: if_splits)
qed

lemma modifier_lengths:
  "length ''CTRL_'' = 5" "length ''ALT_'' = 4" "length ''SHIFT_'' = 6" "length ''SUPER_'' = 6"
  by simp_all

lemma has_infix_drop: "has_infix p (drop n s) \<Longrightarrow> has_infix p s"
  unfolding has_infix_sublist by (metis sublist_order.order_trans sublist_drop)

theorem parse_key_inside: "FcitxHotkeyParseKey s \<noteq> None"
proof -
  have "(if has_infix (ascii ''ALT_'') (drop n s) then 4 else 0) \<le>
      (if has_infix (ascii ''ALT_'') s then 4 else (0::nat))" for n
    using has_infix_drop by auto
  note alt = this [of 5]
  show ?thesis using modifiers_fit [of s] alt
    by (cases "has_infix (ascii ''CTRL_'') s"; cases "has_infix (ascii ''ALT_'') s";
        cases "has_infix (ascii ''SHIFT_'') s"; cases "has_infix (ascii ''SUPER_'') s";
        cases "has_infix (ascii ''ALT_'') (drop 5 s)")
      (auto simp: FcitxHotkeyParseKey_def parse_flag_def skip_def Let_def modifier_lengths simp del: list.size)
qed

lemma set_key_words_inside: "set_key_words k p \<noteq> None"
proof (induction k arbitrary: p)
  case (Suc k)
  let ?i = "length (takeWhile (\<lambda>c. c \<noteq> 0x20) p)"
  obtain r where r: "FcitxHotkeyParseKey (take ?i p) = Some r" using parse_key_inside by blast
  obtain hs where hs: "set_key_words k (drop (Suc ?i) p) = Some hs" using Suc by blast
  show ?case by (simp add: Let_def r hs)
qed simp

lemma set_key_inside: "FcitxHotkeySetKey s \<noteq> None"
  using set_key_words_inside [of 2 "fcitx_utils_trim s"] by (auto simp: FcitxHotkeySetKey_def)

end
