(* ===== verification/Config_Laws.thy ===== *)
theory Config_Laws
  imports Config StrUtils_Laws Hotkey_Total
begin

text \<open>
  The life of a configuration: it is parsed and completed from its description, its options are bound to
  variables, and the values are read into them. Nothing on this way follows a null pointer or stores a
  value of one type into a variable of another (\<open>config_bind_typed\<close>), and what is read into a variable is
  written back as text that is read as the same value (\<open>option_value_stable\<close>).
\<close>

section \<open>Finding and storing\<close>

lemma hash_find_add: "hash_find (hash_add h k v) k' = (if k' = k then Some v else hash_find h k')"
  by (simp add: hash_find_def hash_add_def)

lemma map_of_upd_first:
  "map_of (upd_first k v ps) k' = (if k' = k \<and> map_of ps k \<noteq> None then Some v else map_of ps k')"
  by (induction ps) auto

lemma hash_find_upd:
  "hash_find (hash_upd h k v) k' = (if k' = k \<and> hash_find h k \<noteq> None then Some v else hash_find h k')"
  by (simp add: hash_find_def hash_upd_def map_of_upd_first)

lemma hash_find_Nil [simp]: "hash_find [] k = None"
  by (simp add: hash_find_def)

lemmas hash_finds = hash_find_add hash_find_upd

lemma get_put_option:
  "FcitxConfigFileGetOption (put_option gn n opt cf) g k =
     (if g = gn \<and> k = n \<and> FcitxConfigFileGetOption cf gn n \<noteq> None then Some opt
      else FcitxConfigFileGetOption cf g k)"
  by (auto simp: FcitxConfigFileGetOption_def put_option_def hash_finds split: option.splits)

lemma desc_put_option [simp]: "cf_desc (put_option gn n opt cf) = cf_desc cf"
  by (simp add: put_option_def split: option.split)

section \<open>Invariants of the options of a file\<close>

definition desc_in :: "cgdesc list \<Rightarrow> buf \<Rightarrow> buf \<Rightarrow> codesc \<Rightarrow> bool" where
  "desc_in gds gn n d \<longleftrightarrow> (\<exists>gd\<in>set gds. gd_name gd = gn \<and> d \<in> set (map snd (gd_opts gd)) \<and> od_name d = n)"

abbreviation described :: "cfdesc \<Rightarrow> buf \<Rightarrow> buf \<Rightarrow> codesc \<Rightarrow> bool" where
  "described fd \<equiv> desc_in (map snd (fd_groups fd))"

definition has_option :: "cfile \<Rightarrow> buf \<Rightarrow> buf \<Rightarrow> bool" where
  "has_option cf gn n \<longleftrightarrow> FcitxConfigFileGetOption cf gn n \<noteq> None"

lemma desc_in_Cons: "desc_in (gd # gds) gn n d \<longleftrightarrow>
    gn = gd_name gd \<and> n = od_name d \<and> d \<in> set (map snd (gd_opts gd)) \<or> desc_in gds gn n d"
  by (auto simp: desc_in_def)

definition options_all :: "(buf \<Rightarrow> buf \<Rightarrow> copt \<Rightarrow> bool) \<Rightarrow> cfile \<Rightarrow> bool" where
  "options_all P cf \<longleftrightarrow> (\<forall>gn n opt. FcitxConfigFileGetOption cf gn n = Some opt \<longrightarrow> P gn n opt)"

definition group_all :: "(buf \<Rightarrow> copt \<Rightarrow> bool) \<Rightarrow> cgroup \<Rightarrow> bool" where
  "group_all P g \<longleftrightarrow> (\<forall>n opt. hash_find (cg_opts g) n = Some opt \<longrightarrow> P n opt)"

lemma options_all_groups:
  "options_all P cf \<longleftrightarrow> (\<forall>gn g. hash_find (cf_groups cf) gn = Some g \<longrightarrow> group_all (P gn) g)"
  by (auto simp: options_all_def group_all_def FcitxConfigFileGetOption_def split: option.splits)

lemma options_all_put:
  "options_all P cf \<Longrightarrow> P gn n opt \<Longrightarrow> options_all P (put_option gn n opt cf)"
  by (simp add: options_all_def get_put_option)

text \<open>Parsing: options with a text, not bound and without description.\<close>

definition parsed :: "copt \<Rightarrow> bool" where
  "parsed opt \<longleftrightarrow> co_raw opt \<noteq> None \<and> co_value opt = 0 \<and> co_filter opt = 0 \<and> co_desc opt = None"

lemma put_entry_parsed: "group_all (\<lambda>_. parsed) g \<Longrightarrow> group_all (\<lambda>_. parsed) (put_entry name sub v g)"
  by (auto simp: group_all_def put_entry_def hash_finds put_subkey_def parsed_def new_option_def split: option.splits)

lemma ini_line_parsed:
  "options_all (\<lambda>_ _. parsed) cf \<Longrightarrow> ini_line l (cf, cur) = Some (cf', cur') \<Longrightarrow> options_all (\<lambda>_ _. parsed) cf'"
  by (auto simp: options_all_groups ini_line_def Let_def ini_group_def ini_entry_def hash_finds put_entry_parsed
      group_all_def [where g = "\<lparr>cg_name = _, cg_opts = []\<rparr>"] split: if_splits option.splits prod.splits)

lemma ini_lines_parsed:
  "options_all (\<lambda>_ _. parsed) cf \<Longrightarrow> ini_lines ls (cf, cur) = Some (cf', cur') \<Longrightarrow> options_all (\<lambda>_ _. parsed) cf'"
proof (induction ls arbitrary: cf cur)
  case (Cons l ls)
  then obtain cf1 cur1 where "ini_line l (cf, cur) = Some (cf1, cur1)" "ini_lines ls (cf1, cur1) = Some (cf', cur')"
    by (auto simp: bind_eq_Some_conv)
  with Cons show ?case using ini_line_parsed by blast
qed simp

text \<open>Checking: every described option is there, with its description.\<close>

definition checked :: "(codesc \<Rightarrow> bool) \<Rightarrow> copt \<Rightarrow> bool" where
  "checked D opt \<longleftrightarrow> co_raw opt \<noteq> None \<and> co_value opt = 0 \<and> co_filter opt = 0 \<and>
     (\<forall>d. co_desc opt = Some d \<longrightarrow> D d)"

lemma check_options_ok:
  assumes "check_options ds g = Some g'" "group_all (\<lambda>n. checked (D n)) g"
    "\<And>d. d \<in> set ds \<Longrightarrow> D (od_name d) d"
  shows "group_all (\<lambda>n. checked (D n)) g' \<and> cg_name g' = cg_name g \<and>
    (\<forall>n. n \<in> od_name ` set ds \<or> hash_find (cg_opts g) n \<noteq> None \<longrightarrow> hash_find (cg_opts g') n \<noteq> None)"
  using assms
proof (induction ds arbitrary: g)
  case (Cons d ds)
  from Cons.prems(1) obtain g1 where g1: "check_option d g = Some g1" "check_options ds g1 = Some g'"
    by (auto simp: bind_eq_Some_conv)
  have "D (od_name d) d" by (rule Cons.prems(3)) simp
  then have "group_all (\<lambda>n. checked (D n)) g1 \<and> cg_name g1 = cg_name g \<and>
    (\<forall>n. n = od_name d \<or> hash_find (cg_opts g) n \<noteq> None \<longrightarrow> hash_find (cg_opts g1) n \<noteq> None)"
    using g1(1) Cons.prems(2)
    by (auto simp: check_option_def group_all_def checked_def new_option_def hash_finds split: option.splits if_splits)
  with Cons.IH [OF g1(2)] Cons.prems(3) show ?case by auto
qed simp

lemma check_group_ok:
  assumes "check_group gd cf = Some cf1" "options_all (\<lambda>gn n. checked (D gn n)) cf"
    and D: "\<And>d. d \<in> set (map snd (gd_opts gd)) \<Longrightarrow> D (gd_name gd) (od_name d) d"
  shows "options_all (\<lambda>gn n. checked (D gn n)) cf1"
    "d \<in> set (map snd (gd_opts gd)) \<Longrightarrow> has_option cf1 (gd_name gd) (od_name d)"
    "has_option cf gn n \<Longrightarrow> has_option cf1 gn n"
proof -
  have "options_all (\<lambda>gn n. checked (D gn n)) cf1 \<and>
    (\<forall>gn n. (gd_name gd = gn \<and> n \<in> od_name ` set (map snd (gd_opts gd))) \<or>
       FcitxConfigFileGetOption cf gn n \<noteq> None \<longrightarrow> FcitxConfigFileGetOption cf1 gn n \<noteq> None)"
  proof (cases "hash_find (cf_groups cf) (gd_name gd)")
    case None
    let ?g = "\<lparr> cg_name = gd_name gd, cg_opts = [] \<rparr>"
    from assms(1) None obtain g' where g': "check_options (map snd (gd_opts gd)) ?g = Some g'"
      "cf1 = cf\<lparr>cf_groups := hash_upd (hash_add (cf_groups cf) (gd_name gd) ?g) (gd_name gd) g'\<rparr>"
      by (auto simp: check_group_def Let_def bind_eq_Some_conv)
    have "group_all (\<lambda>n. checked (D (gd_name gd) n)) ?g" by (simp add: group_all_def)
    from check_options_ok [OF g'(1) this D] show ?thesis
      using assms(2) None
      by (auto simp: g'(2) options_all_groups FcitxConfigFileGetOption_def hash_finds split: option.splits)
  next
    case (Some g)
    from assms(1) Some obtain g' where g': "check_options (map snd (gd_opts gd)) g = Some g'"
      "cf1 = cf\<lparr>cf_groups := hash_upd (cf_groups cf) (gd_name gd) g'\<rparr>"
      by (auto simp: check_group_def Let_def bind_eq_Some_conv)
    have "group_all (\<lambda>n. checked (D (gd_name gd) n)) g" using assms(2) Some by (simp add: options_all_groups)
    from check_options_ok [OF g'(1) this D] show ?thesis
      using assms(2) Some
      by (auto simp: g'(2) options_all_groups FcitxConfigFileGetOption_def hash_finds split: option.splits)
  qed
  then show "options_all (\<lambda>gn n. checked (D gn n)) cf1"
    "d \<in> set (map snd (gd_opts gd)) \<Longrightarrow> has_option cf1 (gd_name gd) (od_name d)"
    "has_option cf gn n \<Longrightarrow> has_option cf1 gn n" by (simp_all add: has_option_def)
qed

lemma check_groups_ok:
  assumes "check_groups gds cf = Some cf'" "options_all (\<lambda>gn n. checked (D gn n)) cf"
    "\<And>gn n d. desc_in gds gn n d \<Longrightarrow> D gn n d"
  shows "options_all (\<lambda>gn n. checked (D gn n)) cf' \<and> (\<forall>gn n d. desc_in gds gn n d \<longrightarrow> has_option cf' gn n) \<and>
    (\<forall>gn n. has_option cf gn n \<longrightarrow> has_option cf' gn n)"
  using assms
proof (induction gds arbitrary: cf)
  case (Cons gd gds)
  from Cons.prems(1) obtain cf1 where cf1: "check_group gd cf = Some cf1" "check_groups gds cf1 = Some cf'"
    by (auto simp: bind_eq_Some_conv)
  have D: "\<And>d. d \<in> set (map snd (gd_opts gd)) \<Longrightarrow> D (gd_name gd) (od_name d) d"
    by (rule Cons.prems(3)) (simp add: desc_in_Cons)
  note g = check_group_ok [OF cf1(1) Cons.prems(2) D]
  note IH = Cons.IH [OF cf1(2) g(1) Cons.prems(3)]
  show ?case using IH g(2,3) by (simp only: desc_in_Cons) blast
qed (simp add: desc_in_def)

lemma parse_checked:
  assumes "FcitxConfigParseConfigFileFp fp fd = Some cf"
  shows "cf_desc cf = Some fd" "options_all (\<lambda>gn n. checked (described fd gn n)) cf"
    "described fd gn n d \<Longrightarrow> has_option cf gn n"
proof -
  define cf0 where "cf0 = (case FcitxConfigParseIniFp fp None of None \<Rightarrow> no_file | Some cf \<Rightarrow> cf)"
  have "options_all (\<lambda>_ _. parsed) no_file" by (simp add: options_all_groups no_file_def)
  then have "options_all (\<lambda>_ _. parsed) cf0"
    using ini_lines_parsed [of no_file]
    by (auto simp: cf0_def FcitxConfigParseIniFp_def split: option.splits)
  then have c0: "options_all (\<lambda>gn n. checked (described fd gn n)) cf0"
    by (auto simp: options_all_def parsed_def checked_def)
  obtain cf1 where cf1: "check_groups (map snd (fd_groups fd)) cf0 = Some cf1" "cf = cf1\<lparr>cf_desc := Some fd\<rparr>"
    using assms by (auto simp: FcitxConfigParseConfigFileFp_def FcitxConfigCheckConfigFile_def cf0_def [symmetric]
        bind_eq_Some_conv)
  note ok = check_groups_ok [OF cf1(1) c0]
  have "FcitxConfigFileGetOption cf = FcitxConfigFileGetOption cf1"
    by (simp add: cf1(2) fun_eq_iff FcitxConfigFileGetOption_def)
  then have get: "options_all P cf = options_all P cf1" "has_option cf gn n = has_option cf1 gn n" for P gn n
    by (simp_all add: options_all_def has_option_def)
  show "cf_desc cf = Some fd" "options_all (\<lambda>gn n. checked (described fd gn n)) cf"
    "described fd gn n d \<Longrightarrow> has_option cf gn n"
    unfolding get using ok by (simp add: cf1(2), blast, blast)
qed


section \<open>Types of variables\<close>

fun var_fits :: "ctype \<Rightarrow> cvar \<Rightarrow> bool" where
  "var_fits T_Integer (VInt _) = True"
| "var_fits T_Enum (VInt _) = True"
| "var_fits T_Boolean (VBool _) = True"
| "var_fits T_Char (VChar _) = True"
| "var_fits T_String (VStr _) = True"
| "var_fits T_File (VStr _) = True"
| "var_fits T_Font (VStr _) = True"
| "var_fits T_I18NString (VStr _) = True"
| "var_fits T_Color (VColor _ _ _) = True"
| "var_fits T_Hotkey (VHotkey _ _) = True"
| "var_fits _ _ = False"

fun_cases var_fits_intE: "var_fits T_Integer v" and var_fits_enumE: "var_fits T_Enum v"
  and var_fits_boolE: "var_fits T_Boolean v" and var_fits_charE: "var_fits T_Char v"
  and var_fits_strE: "var_fits T_String v" and var_fits_fileE: "var_fits T_File v"
  and var_fits_fontE: "var_fits T_Font v" and var_fits_i18nE: "var_fits T_I18NString v"
  and var_fits_colorE: "var_fits T_Color v" and var_fits_hotkeyE: "var_fits T_Hotkey v"
  and var_fits_extE: "var_fits T_ExternalOption v"

lemmas var_fitsE = var_fits_intE var_fits_enumE var_fits_boolE var_fits_charE var_fits_strE var_fits_fileE
  var_fits_fontE var_fits_i18nE var_fits_colorE var_fits_hotkeyE var_fits_extE

lemma var_fits_var [simp]:
  "var_fits t (VInt i) \<longleftrightarrow> t = T_Integer \<or> t = T_Enum"
  "var_fits t (VBool b) \<longleftrightarrow> t = T_Boolean"
  "var_fits t (VChar c) \<longleftrightarrow> t = T_Char"
  "var_fits t (VStr s) \<longleftrightarrow> t = T_String \<or> t = T_File \<or> t = T_Font \<or> t = T_I18NString"
  "var_fits t (VColor x y z) \<longleftrightarrow> t = T_Color"
  "var_fits t (VHotkey h0 h1) \<longleftrightarrow> t = T_Hotkey"
  by (cases t; simp)+

definition same_types :: "cvars \<Rightarrow> cvars \<Rightarrow> bool" where
  "same_types m m' \<longleftrightarrow> (\<forall>a v. m a = Some v \<longrightarrow> (\<exists>w. m' a = Some w \<and> (\<forall>t. var_fits t v \<longrightarrow> var_fits t w)))"

lemma same_types_refl [simp]: "same_types m m"
  by (simp add: same_types_def)

lemma same_types_trans: "same_types m m1 \<Longrightarrow> same_types m1 m2 \<Longrightarrow> same_types m m2"
  unfolding same_types_def by meson

text \<open>A new value of the type of the old one.\<close>

lemma same_types_set:
  "m (co_value opt) = Some v \<Longrightarrow> (\<And>t. var_fits t v \<Longrightarrow> var_fits t w) \<Longrightarrow> same_types m (set_var opt w m)"
  by (auto simp: same_types_def set_var_def)

text \<open>
  What is asked of an option before its value is read: it has a text, and the variable, if there is one, has
  the type of the option.
\<close>

definition option_typed :: "(codesc \<Rightarrow> bool) \<Rightarrow> cvars \<Rightarrow> copt \<Rightarrow> bool" where
  "option_typed D m opt \<longleftrightarrow> co_raw opt \<noteq> None \<and> (\<forall>d. co_desc opt = Some d \<longrightarrow> D d \<and>
     (co_value opt \<noteq> 0 \<longrightarrow> (\<exists>v. m (co_value opt) = Some v \<and> var_fits (od_type d) v)))"

lemma option_typed_same:
  "option_typed D m opt \<Longrightarrow> same_types m m' \<Longrightarrow> option_typed D m' opt"
  unfolding option_typed_def same_types_def by meson

definition locale_ok :: "cenv \<Rightarrow> bool" where
  "locale_ok e \<longleftrightarrow> strcspn (ce_locale e) [0x2e] \<noteq> 40"

definition filters_typed :: "cenv \<Rightarrow> bool" where
  "filters_typed e \<longleftrightarrow> (\<forall>f a sync v m. same_types m (ce_filter e f a sync v m))"

text \<open>Enumerations have all their items.\<close>

definition items_known :: "codesc \<Rightarrow> bool" where
  "items_known d \<longleftrightarrow> (od_type d = T_Enum \<longrightarrow> None \<notin> set (od_enum d))"

lemma enum_index_found: "None \<notin> set es \<Longrightarrow> \<exists>j. enum_index es (Some r) i = Some j"
proof (induction es arbitrary: i)
  case (Cons e es)
  then obtain s where "e = Some s" by (cases e) auto
  with Cons show ?case by simp
qed simp

lemma read_option_typed:
  assumes items: "items_known d" and d: "co_desc opt = Some d" and o: "option_typed D m opt" and l: "locale_ok e"
  shows "\<exists>r m'. option_func (ce_locale e) (od_type d) Raw2Value opt m = Some (r, opt, m') \<and> same_types m m'"
proof (cases "co_value opt = 0")
  case True
  then show ?thesis
    by (cases "od_type d") (simp_all add: option_func_def d FcitxConfigOptionInteger_def FcitxConfigOptionColor_def
      FcitxConfigOptionBoolean_def FcitxConfigOptionEnum_def FcitxConfigOptionString_def
      FcitxConfigOptionI18NString_def FcitxConfigOptionHotkey_def FcitxConfigOptionChar_def)
next
  case False
  with o d obtain v r where v: "m (co_value opt) = Some v" "var_fits (od_type d) v" and r: "co_raw opt = Some r"
    by (auto simp: option_typed_def)
  have "FcitxConfigOptionGetLocaleString (ce_locale e) opt \<noteq> None"
    using l by (simp add: FcitxConfigOptionGetLocaleString_def locale_ok_def Let_def)
  then obtain loc where loc: "FcitxConfigOptionGetLocaleString (ce_locale e) opt = Some loc" by auto
  obtain c where c: "rd r 0 = Some c" using rd_le [of 0 r] by auto
  note set = same_types_set [of m opt v, OF v(1)]
  show ?thesis
  proof (cases "od_type d")
    case T_Enum
    then obtain j where "enum_index (od_enum d) (co_raw opt) 0 = Some j"
      using items enum_index_found [of "od_enum d" r 0] r by (auto simp: items_known_def)
    with T_Enum False v d r show ?thesis
      by (auto simp: option_func_def FcitxConfigOptionEnum_def elim!: var_fitsE intro!: set split: option.split)
  next
    case T_Hotkey
    then obtain h0 h1 where "FcitxHotkeySetKey r = Some (h0, h1)" using set_key_inside [of r] by auto
    with T_Hotkey False v d r show ?thesis
      by (auto simp: option_func_def FcitxConfigOptionHotkey_def elim!: var_fitsE intro!: set)
  next
    case T_Color
    with False v d r show ?thesis
      by (auto simp: option_func_def FcitxConfigOptionColor_def elim!: var_fitsE intro!: set split: option.split)
  qed (use False v d r loc c in \<open>auto simp: option_func_def FcitxConfigOptionInteger_def
      FcitxConfigOptionBoolean_def FcitxConfigOptionString_def
      FcitxConfigOptionI18NString_def FcitxConfigOptionChar_def elim!: var_fitsE intro!: set split: option.split\<close>)
qed


lemma option_func_same_option:
  "option_func loc t Raw2Value opt m = Some (r, opt', m') \<Longrightarrow> opt' = opt"
  by (cases t) (auto simp: option_func_def FcitxConfigOptionInteger_def FcitxConfigOptionColor_def
      FcitxConfigOptionBoolean_def FcitxConfigOptionEnum_def FcitxConfigOptionString_def
      FcitxConfigOptionI18NString_def FcitxConfigOptionHotkey_def FcitxConfigOptionChar_def bind_eq_Some_conv
      split: if_splits option.splits cvar.splits)

lemma run_filter_typed: "filters_typed e \<Longrightarrow> same_types m (run_filter e sync opt m)"
  by (simp add: run_filter_def filters_typed_def)

lemma sync_value_typed:
  assumes o: "option_typed D m opt" and items: "\<And>d. D d \<Longrightarrow> items_known d" and e: "locale_ok e" "filters_typed e"
  shows "\<exists>opt' m'. FcitxConfigSyncValue e Raw2Value opt m = Some (opt', m') \<and> same_types m m' \<and>
           option_typed D m' opt'"
proof (cases "co_desc opt")
  case None
  then show ?thesis using o by (simp add: FcitxConfigSyncValue_def)
next
  case (Some d)
  have it: "items_known d" using o Some items by (simp add: option_typed_def)
  obtain r m1 where r: "option_func (ce_locale e) (od_type d) Raw2Value opt m = Some (r, opt, m1)" "same_types m m1"
    using read_option_typed [OF it Some o e(1)] by auto
  obtain opt2 m2 where s: "(if r = SyncInvalid then use_default e d Raw2Value opt m1 else Some (opt, m1)) = Some (opt2, m2)"
    "same_types m m2" "option_typed D m2 opt2"
  proof (cases "r = SyncInvalid \<and> od_default d \<noteq> None")
    case False
    then have "(if r = SyncInvalid then use_default e d Raw2Value opt m1 else Some (opt, m1)) = Some (opt, m1)"
      by (auto simp: use_default_def)
    then show ?thesis using that r(2) option_typed_same [OF o r(2)] by blast
  next
    case True
    then obtain v where v: "od_default d = Some v" by auto
    have o1: "option_typed D m1 (set_raw v opt)"
      using option_typed_same [OF o r(2)] by (simp add: option_typed_def set_raw_def)
    have "co_desc (set_raw v opt) = Some d" using Some by (simp add: set_raw_def)
    from read_option_typed [OF it this o1 e(1)] obtain r' m2 where
      m2: "option_func (ce_locale e) (od_type d) Raw2Value (set_raw v opt) m1 = Some (r', set_raw v opt, m2)"
        "same_types m1 m2" by auto
    then have "(if r = SyncInvalid then use_default e d Raw2Value opt m1 else Some (opt, m1)) = Some (set_raw v opt, m2)"
      using True v by (simp add: use_default_def)
    then show ?thesis using that same_types_trans [OF r(2) m2(2)] option_typed_same [OF o1 m2(2)] by blast
  qed
  let ?m = "run_filter e Raw2Value opt2 m2"
  have "same_types m2 ?m" using e(2) by (rule run_filter_typed)
  moreover have "FcitxConfigSyncValue e Raw2Value opt m = Some (opt2, ?m)"
    using r(1) s(1) Some by (simp add: FcitxConfigSyncValue_def)
  ultimately show ?thesis using s(2,3) same_types_trans option_typed_same by blast
qed

text \<open>All options.\<close>

definition config_typed :: "cfdesc \<Rightarrow> cvars \<Rightarrow> cfile \<Rightarrow> bool" where
  "config_typed fd m cf \<longleftrightarrow> cf_desc cf = Some fd \<and>
     options_all (\<lambda>gn n. option_typed (described fd gn n) m) cf \<and>
     (\<forall>gn n d. described fd gn n d \<longrightarrow> has_option cf gn n)"

lemma has_put_option [simp]: "has_option (put_option gn n opt cf) g k = has_option cf g k"
  by (auto simp: has_option_def get_put_option)

lemma config_typed_same: "config_typed fd m cf \<Longrightarrow> same_types m m' \<Longrightarrow> config_typed fd m' cf"
  by (auto simp: config_typed_def options_all_def intro: option_typed_same)

lemma desc_names_described: "(gn, n) \<in> set (desc_names fd) \<Longrightarrow> \<exists>d. described fd gn n d"
  by (auto simp: desc_names_def desc_in_def image_iff)

lemma sync_options_typed:
  "set ns \<subseteq> set (desc_names fd) \<Longrightarrow> config_typed fd m cf \<Longrightarrow> locale_ok e \<Longrightarrow> filters_typed e \<Longrightarrow>
   \<forall>gn n d. described fd gn n d \<longrightarrow> items_known d \<Longrightarrow>
   \<exists>cf' m'. sync_options e Raw2Value ns (cf, m) = Some (cf', m') \<and> same_types m m' \<and> config_typed fd m' cf'"
proof (induction ns arbitrary: cf m)
  case (Cons p ns)
  obtain gn n where p: "p = (gn, n)" by (cases p)
  then have "\<exists>d. described fd gn n d" using Cons.prems(1) desc_names_described by auto
  then obtain opt where opt: "FcitxConfigFileGetOption cf gn n = Some opt"
    using Cons.prems(2) by (auto simp: config_typed_def has_option_def)
  then have "option_typed (described fd gn n) m opt"
    using Cons.prems(2) by (simp add: config_typed_def options_all_def)
  from sync_value_typed [OF this _ Cons.prems(3,4)] Cons.prems(5) obtain opt' m1 where
    s: "FcitxConfigSyncValue e Raw2Value opt m = Some (opt', m1)" "same_types m m1"
      "option_typed (described fd gn n) m1 opt'" by blast
  have "config_typed fd m1 (put_option gn n opt' cf)"
    using config_typed_same [OF Cons.prems(2) s(2)] s(3)
    by (simp add: config_typed_def options_all_put)
  from Cons.IH [OF _ this Cons.prems(3,4,5)] Cons.prems(1) obtain cf' m' where
    "sync_options e Raw2Value ns (put_option gn n opt' cf, m1) = Some (cf', m')" "same_types m1 m'"
    "config_typed fd m' cf'" by auto
  moreover from this(2) have "same_types m m'" using s(2) same_types_trans by blast
  ultimately show ?case using p opt s(1) by (simp add: sync_option_def)
qed simp

text \<open>Binding a list of options, the way the macros \<open>CONFIG_BINDING_REGISTER\<close> do it.\<close>

type_synonym cbinding = "buf \<times> buf \<times> nat \<times> nat \<times> nat"

definition bind_options :: "cbinding list \<Rightarrow> cfile \<Rightarrow> cfile" where
  "bind_options bs = fold (\<lambda>(gn, n, var, filt, arg). FcitxConfigBindValue gn n var filt arg) bs"

definition binding_typed :: "cfdesc \<Rightarrow> cvars \<Rightarrow> cbinding \<Rightarrow> bool" where
  "binding_typed fd m b \<longleftrightarrow> (case b of (gn, n, var, filt, arg) \<Rightarrow>
     \<forall>d. described fd gn n d \<longrightarrow> od_type d \<noteq> T_ExternalOption \<longrightarrow> (\<exists>v. m var = Some v \<and> var_fits (od_type d) v))"

lemma bind_value_typed:
  assumes "config_typed fd m cf" "binding_typed fd m (gn, n, var, filt, arg)"
  shows "config_typed fd m (FcitxConfigBindValue gn n var filt arg cf)"
proof (cases "FcitxConfigFileGetOption cf gn n")
  case None
  then show ?thesis using assms(1) by (simp add: FcitxConfigBindValue_def)
next
  case (Some opt)
  then have "option_typed (described fd gn n) m opt"
    using assms(1) by (simp add: config_typed_def options_all_def)
  then show ?thesis using assms Some
    by (auto simp: FcitxConfigBindValue_def Let_def config_typed_def option_typed_def binding_typed_def
        intro!: options_all_put split: option.splits)
qed

lemma bind_options_typed:
  "\<forall>b\<in>set bs. binding_typed fd m b \<Longrightarrow> config_typed fd m cf \<Longrightarrow> config_typed fd m (bind_options bs cf)"
  by (induction bs arbitrary: cf) (auto simp: bind_options_def bind_value_typed)

text \<open>
  C28: configurations are type safe. Parse a file against its description, in which no item of an enumeration is
  missing (as in every description that is loaded from a file, \<open>loaded_items_known\<close>), bind options to variables
  of their types, and synchronise: whatever the text says, every option is found, no null pointer is followed, no
  value is stored into a variable of another type, and all variables keep their types. (The locale must not
  have exactly 40 bytes before its dot; that length overruns a buffer.)
\<close>
theorem config_bind_typed:
  assumes parse: "FcitxConfigParseConfigFileFp fp fd = Some cf"
    and items: "\<And>gn n d. described fd gn n d \<Longrightarrow> items_known d"
    and binds: "\<forall>b\<in>set bs. binding_typed fd m b" and e: "locale_ok e" "filters_typed e"
  shows "\<exists>cf' m'. FcitxConfigBindSync e (Some (bind_options bs cf)) m = Some (Some cf', m') \<and>
           same_types m m' \<and> config_typed fd m' cf'"
proof -
  note p = parse_checked [OF parse]
  have "config_typed fd m cf"
    using p by (auto simp: config_typed_def options_all_def option_typed_def checked_def)
  then have t: "config_typed fd m (bind_options bs cf)" by (rule bind_options_typed [OF binds])
  then have "cf_desc (bind_options bs cf) = Some fd" by (simp add: config_typed_def)
  moreover have "\<exists>cf' m'. sync_options e Raw2Value (desc_names fd) (bind_options bs cf, m) = Some (cf', m') \<and>
      same_types m m' \<and> config_typed fd m' cf'"
    using items by (intro sync_options_typed [OF subset_refl t e]) blast
  ultimately show ?thesis
    by (auto simp: FcitxConfigBindSync_def)
qed


section \<open>Texts of values\<close>

lemma scan_color_text:
  assumes "0 \<le> r" "r \<le> 255" "0 \<le> g" "g \<le> 255" "0 \<le> b" "b \<le> 255"
  shows "scan_color (color_text (dbl_frac r 255) (dbl_frac g 255) (dbl_frac b 255)) = Some (r, g, b)"
proof -
  have "isdigit 0x20 = False" by (simp add: isdigit_def)
  with assms show ?thesis
    using scan_int_dec(1) [of "[]" b]
    by (simp add: scan_color_def color_text_def dbl_byte RoundColor_def scan_int_dec)
qed

lemma enum_index_nth:
  "enum_index es r i = Some (Some j) \<Longrightarrow> i \<le> j \<and> j - i < length es \<and> es ! (j - i) = r"
proof (induction es arbitrary: i)
  case (Cons e es)
  show ?case
  proof (cases "e = r")
    case False
    then have "enum_index es r (Suc i) = Some (Some j)" using Cons.prems by (auto simp: bind_eq_Some_conv split: if_splits)
    from Cons.IH [OF this] have "Suc i \<le> j" "j - Suc i < length es" "es ! (j - Suc i) = r" by auto
    then show ?thesis by (auto simp: nth_Cons')
  qed (use Cons.prems in \<open>auto simp: bind_eq_Some_conv\<close>)
qed simp

lemma set_var_same: "m (co_value opt) = Some v \<Longrightarrow> set_var opt v m = m"
  by (auto simp: set_var_def)

lemma string_stable:
  assumes "FcitxConfigOptionString Raw2Value opt m = Some (SyncSuccess, opt, m')"
  shows "\<exists>opt'. FcitxConfigOptionString Value2Raw opt m' = Some (SyncSuccess, opt', m') \<and>
           FcitxConfigOptionString Raw2Value opt' m' = Some (SyncSuccess, opt', m')"
proof -
  from assms have "co_value opt \<noteq> 0" by (intro notI) (simp add: FcitxConfigOptionString_def)
  moreover from this assms obtain d where "co_desc opt = Some d" "m' = set_var opt (VStr (co_raw opt)) m"
    "\<not> (od_maxlen d \<noteq> 0 \<and> co_raw opt = None)" "\<not> (case co_raw opt of None \<Rightarrow> False | Some r \<Rightarrow> too_long d r)"
    by (cases "co_desc opt") (auto simp: FcitxConfigOptionString_def split: if_splits option.splits cvar.splits)
  ultimately show ?thesis by (simp add: FcitxConfigOptionString_def set_var_def)
qed

text \<open>
  C29: what an option reads is what it writes. When the text of an option is valid and read into its variable,
  then writing the variable back succeeds, and reading the text that was written leaves all variables as they
  are. This holds for every type but hotkeys, whose descriptions are trimmed.
\<close>
theorem option_value_stable:
  assumes "option_func loc t Raw2Value opt m = Some (SyncSuccess, opt, m')" and "t \<noteq> T_Hotkey"
    and "co_desc opt = Some d"
  shows "\<exists>opt'. option_func loc t Value2Raw opt m' = Some (SyncSuccess, opt', m') \<and>
           option_func loc t Raw2Value opt' m' = Some (SyncSuccess, opt', m')"
  using assms
proof (cases t)
  case T_Enum
  with assms obtain i where "enum_index (od_enum d) (co_raw opt) 0 = Some (Some i)"
    "m' = set_var opt (VInt (int i)) m" "co_value opt \<noteq> 0"
    by (auto simp: option_func_def FcitxConfigOptionEnum_def bind_eq_Some_conv split: if_splits option.splits cvar.splits)
  moreover from enum_index_nth [OF this(1)] have "i < length (od_enum d)" "od_enum d ! i = co_raw opt" by auto
  moreover obtain r where "co_raw opt = Some r" using calculation(1,4) by (cases "od_enum d"; cases "co_raw opt") auto
  ultimately show ?thesis using T_Enum assms(3)
    by (simp add: option_func_def FcitxConfigOptionEnum_def set_var_def set_raw_def)
next
  case T_Color
  have nz: "co_value opt \<noteq> 0" and raw: "co_raw opt \<noteq> None"
    using assms T_Color by (auto simp: option_func_def FcitxConfigOptionColor_def bind_eq_Some_conv
        split: if_splits option.splits cvar.splits)
  then obtain raw where raw: "co_raw opt = Some raw" by auto
  with nz assms T_Color have "scan_color raw \<noteq> None"
    by (auto simp: option_func_def FcitxConfigOptionColor_def split: option.splits cvar.splits)
  then obtain r g b where x: "scan_color raw = Some (r, g, b)" by auto
  have c: "IsColorValid r" "IsColorValid g" "IsColorValid b" and
    "m' = set_var opt (VColor (dbl_frac r 255) (dbl_frac g 255) (dbl_frac b 255)) m"
    using assms T_Color raw x nz
    by (auto simp: option_func_def FcitxConfigOptionColor_def split: if_splits option.splits cvar.splits)
  note raw x nz this
  moreover have "scan_color (color_text (dbl_frac r 255) (dbl_frac g 255) (dbl_frac b 255)) = Some (r, g, b)"
    using c by (intro scan_color_text) (auto simp: IsColorValid_def)
  ultimately show ?thesis using T_Color
    by (simp add: option_func_def FcitxConfigOptionColor_def set_var_def set_raw_def)
next
  case T_Char
  with assms obtain r c where "co_raw opt = Some r" "rd r 0 = Some c" "m' = set_var opt (VChar c) m" "co_value opt \<noteq> 0"
    by (auto simp: option_func_def FcitxConfigOptionChar_def bind_eq_Some_conv split: if_splits option.splits cvar.splits)
  then show ?thesis using T_Char
    by (auto simp: option_func_def FcitxConfigOptionChar_def set_var_def set_raw_def rd_def)
next
  case T_I18NString
  with assms show ?thesis
    by (auto simp: option_func_def FcitxConfigOptionI18NString_def set_var_def bind_eq_Some_conv
        split: if_splits option.splits cvar.splits)
next
  case T_Integer
  with assms obtain r where "co_raw opt = Some r" "\<not> (atoi r > od_max d \<or> atoi r < od_min d)"
    "m' = set_var opt (VInt (atoi r)) m" "co_value opt \<noteq> 0"
    by (auto simp: option_func_def FcitxConfigOptionInteger_def bind_eq_Some_conv split: if_splits option.splits cvar.splits)
  then show ?thesis using T_Integer assms(3)
    by (simp add: option_func_def FcitxConfigOptionInteger_def set_var_def set_raw_def atoi_dec)
next
  case T_Boolean
  with assms obtain r where "co_raw opt = Some r" "m' = set_var opt (VBool (r = ascii ''True'')) m" "co_value opt \<noteq> 0"
    by (auto simp: option_func_def FcitxConfigOptionBoolean_def bind_eq_Some_conv split: if_splits option.splits cvar.splits)
  moreover have "ascii ''False'' \<noteq> ascii ''True''" by (simp add: ascii_def)
  ultimately show ?thesis using T_Boolean
    by (simp add: option_func_def FcitxConfigOptionBoolean_def set_var_def set_raw_def)
qed (simp_all add: option_func_def string_stable)

section \<open>Witnesses\<close>

definition sample_desc :: "string \<Rightarrow> ctype \<Rightarrow> string \<Rightarrow> codesc" where
  "sample_desc n t v = \<lparr> od_name = ascii n, od_desc = ascii ''text'', od_type = t, od_default = Some (ascii v),
     od_enum = [], od_advance = False, od_min = 0, od_max = 10, od_maxlen = 0, od_nomod = False,
     od_modonly = False, od_long = [], od_shown = False \<rparr>"

definition sample_fd :: cfdesc where
  "sample_fd = \<lparr> fd_groups = [(ascii ''G'', \<lparr> gd_name = ascii ''G'', gd_opts =
     [(ascii ''a'', sample_desc ''a'' T_Integer ''5''), (ascii ''b'', sample_desc ''b'' T_Color ''1 2 3'')] \<rparr>)],
     fd_domain = None \<rparr>"

definition sample_env :: cenv where
  "sample_env = \<lparr> ce_locale = ascii ''de_DE.UTF-8'', ce_gettext = (\<lambda>_ t. t), ce_filter = (\<lambda>_ _ _ _ m. m) \<rparr>"

definition sample_text :: buf where
  "sample_text = ascii ''[G]'' @ [0x0a] @ ascii ''a=99'' @ [0x0a]"

definition sample_vars :: cvars where
  "sample_vars = [1 \<mapsto> VInt 0, 2 \<mapsto> VColor (Dbl 0 0) (Dbl 0 0) (Dbl 0 0)]"

definition sample_binds :: "cbinding list" where
  "sample_binds = [(ascii ''G'', ascii ''a'', 1, 0, 0), (ascii ''G'', ascii ''b'', 2, 0, 0)]"

lemma config_bind_typed_witness:
  "\<exists>cf cf' m'. FcitxConfigParseConfigFileFp (Some sample_text) sample_fd = Some cf \<and>
     FcitxConfigBindSync sample_env (Some (bind_options sample_binds cf)) sample_vars = Some (Some cf', m') \<and>
     same_types sample_vars m'"
proof -
  have "FcitxConfigParseConfigFileFp (Some sample_text) sample_fd \<noteq> None" by code_simp
  then obtain cf where cf: "FcitxConfigParseConfigFileFp (Some sample_text) sample_fd = Some cf" by auto
  have "\<forall>b\<in>set sample_binds. binding_typed sample_fd sample_vars b"
    by (auto simp: sample_binds_def binding_typed_def desc_in_def sample_fd_def sample_desc_def sample_vars_def ascii_def)
  moreover have "locale_ok sample_env" by code_simp
  moreover have "filters_typed sample_env" by (simp add: filters_typed_def sample_env_def)
  moreover have "items_known d" if "described sample_fd gn n d" for gn n d
    using that by (auto simp: items_known_def desc_in_def sample_fd_def sample_desc_def)
  ultimately show ?thesis using config_bind_typed [OF cf] cf by blast
qed

lemma option_value_stable_witness:
  "\<exists>opt'. option_func [] T_Integer Value2Raw ((new_option (ascii ''a'') (ascii '' 07''))
       \<lparr>co_value := 1, co_desc := Some (sample_desc ''a'' T_Integer ''5'')\<rparr>) [1 \<mapsto> VInt 7] =
     Some (SyncSuccess, opt', [1 \<mapsto> VInt 7])"
proof -
  let ?o = "(new_option (ascii ''a'') (ascii '' 07''))\<lparr>co_value := 1, co_desc := Some (sample_desc ''a'' T_Integer ''5'')\<rparr>"
  have "option_func [] T_Integer Raw2Value ?o [1 \<mapsto> VInt 7] = Some (SyncSuccess, ?o, [1 \<mapsto> VInt 7])"
    by (simp add: option_func_def FcitxConfigOptionInteger_def new_option_def sample_desc_def ascii_def atoi_def
        isspace_def isdigit_def digits_val_def set_var_def)
  from option_value_stable [OF this] show ?thesis by (auto simp: new_option_def)
qed

section \<open>Descriptions that are loaded\<close>

lemma desc_option_items: "desc_option name g = Some d \<Longrightarrow> items_known d"
  by (auto simp: desc_option_def desc_type_def desc_enum_def desc_integer_def desc_string_def desc_hotkey_def
      items_known_def Let_def split: option.splits if_splits prod.splits list.splits bool.splits)

lemma hash_upd_set: "p \<in> set (hash_upd h k v) \<Longrightarrow> p \<in> set h \<or> snd p = v"
proof -
  have "p \<in> set (upd_first k v ps) \<Longrightarrow> p \<in> set ps \<or> snd p = v" for ps
    by (induction ps) (auto split: if_splits)
  from this [of "rev h"] show "p \<in> set (hash_upd h k v) \<Longrightarrow> ?thesis" by (simp add: hash_upd_def)
qed

lemma hash_find_set: "hash_find h k = Some v \<Longrightarrow> (k, v) \<in> set h"
  by (auto simp: hash_find_def dest: map_of_SomeD)

definition all_known :: "cfdesc \<Rightarrow> bool" where
  "all_known fd \<longleftrightarrow> (\<forall>p\<in>set (fd_groups fd). \<forall>q\<in>set (gd_opts (snd p)). items_known (snd q))"

lemma desc_group_items: "desc_group g fd = Some fd' \<Longrightarrow> all_known fd \<Longrightarrow> all_known fd'"
proof -
  assume g: "desc_group g fd = Some fd'" and fd: "all_known fd"
  let ?i = "strcspn (cg_name g) [0x2f]"
  let ?gn = "take ?i (cg_name g)" and ?name = "drop (Suc ?i) (cg_name g)"
  let ?gd = "case hash_find (fd_groups fd) ?gn of Some gd \<Rightarrow> gd | None \<Rightarrow> \<lparr> gd_name = ?gn, gd_opts = [] \<rparr>"
  have old: "items_known (snd q)" if "q \<in> set (gd_opts ?gd)" for q
    using that fd hash_find_set [of "fd_groups fd" ?gn] by (fastforce simp: all_known_def split: option.splits)
  consider "fd_groups fd' = fd_groups fd"
    | d where "desc_option ?name g = Some d"
      "\<And>p. p \<in> set (fd_groups fd') \<Longrightarrow> p \<in> set (fd_groups fd) \<or> snd p = ?gd\<lparr>gd_opts := hash_add (gd_opts ?gd) ?name d\<rparr>"
  proof (cases "cg_name g = ascii ''DescriptionFile'' \<or> ?i = length (cg_name g) \<or> ?gn = [] \<or> ?name = []")
    case True
    then have "fd_groups fd' = fd_groups fd" using g by (auto simp: desc_group_def Let_def split: if_splits)
    then show ?thesis using that(1) by blast
  next
    case False
    then obtain d where d: "desc_option ?name g = Some d"
      and fd': "fd' = (let gd = ?gd\<lparr>gd_opts := hash_add (gd_opts ?gd) ?name d\<rparr> in
        fd\<lparr>fd_groups := (case hash_find (fd_groups fd) ?gn of Some _ \<Rightarrow> hash_upd (fd_groups fd) ?gn gd
          | None \<Rightarrow> hash_add (fd_groups fd) ?gn gd)\<rparr>)"
      using g by (auto simp: desc_group_def Let_def bind_eq_Some_conv)
    have "p \<in> set (fd_groups fd) \<or> snd p = ?gd\<lparr>gd_opts := hash_add (gd_opts ?gd) ?name d\<rparr>"
      if "p \<in> set (fd_groups fd')" for p
    proof (cases "hash_find (fd_groups fd) ?gn")
      case None
      then show ?thesis using that unfolding fd' Let_def by (auto simp: hash_add_def)
    next
      case (Some gd)
      then show ?thesis using that hash_upd_set unfolding fd' Let_def by fastforce
    qed
    with d show ?thesis by (rule that(2))
  qed
  then show ?thesis
  proof cases
    case 1
    then show ?thesis using fd by (simp add: all_known_def)
  next
    case (2 d)
    show ?thesis unfolding all_known_def
    proof (intro ballI)
      fix p q
      assume p: "p \<in> set (fd_groups fd')" and q: "q \<in> set (gd_opts (snd p))"
      from 2(2) [OF p] show "items_known (snd q)"
      proof
        assume "p \<in> set (fd_groups fd)"
        then show ?thesis using fd q by (simp add: all_known_def)
      next
        assume "snd p = ?gd\<lparr>gd_opts := hash_add (gd_opts ?gd) ?name d\<rparr>"
        with q have "q \<in> set (gd_opts ?gd) \<or> q = (?name, d)" by (auto simp: hash_add_def)
        then show ?thesis using old [of q] desc_option_items [OF 2(1)] by (elim disjE) (blast, simp)
      qed
    qed
  qed
qed

lemma loaded_items_known:
  assumes "FcitxConfigParseConfigFileDescFp fp = Some (Some fd)" "described fd gn n d"
  shows "items_known d"
proof -
  have "desc_groups gs f = Some fd \<Longrightarrow> all_known f \<Longrightarrow> all_known fd" for gs f
    by (induction gs arbitrary: f) (auto simp: bind_eq_Some_conv intro: desc_group_items)
  moreover have "all_known \<lparr> fd_groups = [], fd_domain = None \<rparr>" by (simp add: all_known_def)
  ultimately have "all_known fd"
    using assms(1) by (auto simp: FcitxConfigParseConfigFileDescFp_def split: option.splits)
  then show ?thesis using assms(2) by (auto simp: all_known_def desc_in_def)
qed

section \<open>Faults\<close>

text \<open>
  A locale whose name has 40 bytes before the dot: the terminator of its copy is written behind the buffer.
\<close>

lemma locale_overrun:
  "length (ce_locale e) = 40 \<Longrightarrow> 0x2e \<notin> set (ce_locale e) \<Longrightarrow>
   FcitxConfigOptionGetLocaleString (ce_locale e) opt = None"
proof -
  assume l: "length (ce_locale e) = 40" "0x2e \<notin> set (ce_locale e)"
  then have "takeWhile (\<lambda>c. c \<notin> set [0x2e]) (ce_locale e) = ce_locale e"
    by (intro takeWhile_eq_all_conv [THEN iffD2]) auto
  then have "strcspn (ce_locale e) [0x2e] = 40" by (simp only: strcspn_def l(1))
  then show ?thesis by (simp add: FcitxConfigOptionGetLocaleString_def)
qed

text \<open>
  An enumeration that says it has two items and describes only the first: reading the description frees that
  item for ever. When not even the first is there, its items are freed with the description, uninitialised.
\<close>

definition enum_desc_text :: "string list \<Rightarrow> buf" where
  "enum_desc_text ls = concat (map (\<lambda>l. ascii l @ [0x0a]) ([''[G/a]'', ''Type=Enum'', ''EnumCount=2''] @ ls))"

lemma enum_missing_second: "FcitxConfigParseConfigFileDescFp (Some (enum_desc_text [''Enum0=x''])) = None"
  by code_simp

lemma enum_missing_first:
  "\<exists>fd d. FcitxConfigParseConfigFileDescFp (Some (enum_desc_text [])) = Some (Some fd) \<and>
     FcitxConfigDescGetOptionDesc fd (ascii ''G'') (ascii ''a'') = Some d \<and> FcitxConfigFreeConfigOptionDesc d = None"
proof -
  have "(case FcitxConfigParseConfigFileDescFp (Some (enum_desc_text [])) of
      Some (Some fd) \<Rightarrow> (case FcitxConfigDescGetOptionDesc fd (ascii ''G'') (ascii ''a'') of
        Some d \<Rightarrow> FcitxConfigFreeConfigOptionDesc d = None | None \<Rightarrow> False) | _ \<Rightarrow> False)" by code_simp
  then show ?thesis by (auto split: option.splits)
qed

end
