(* ===== verification/Desktop_Laws.thy ===== *)
theory Desktop_Laws
  imports Desktop StrUtils_Laws
begin

text \<open>
  The lists of \<open>Desktop\<close> represent lists of nodes (\<open>is_chain\<close>): linking behind the last node appends and
  unlinking removes, while linking anywhere else breaks the list. On this rests the round trip: the text
  that is written for a file is loaded back to the same groups, entries and comments.
\<close>

section \<open>Chains\<close>

definition first_or :: "dptr \<Rightarrow> daddr list \<Rightarrow> dptr" where
  "first_or n xs = (if xs = [] then n else Some (hd xs))"

definition last_or :: "dptr \<Rightarrow> daddr list \<Rightarrow> dptr" where
  "last_or p xs = (if xs = [] then p else Some (last xs))"

text \<open>The nodes \<open>xs\<close> are linked to each other, the first one back to \<open>p\<close> and the last one on to \<open>n\<close>.\<close>

fun seg :: "dptr \<Rightarrow> daddr list \<Rightarrow> dptr \<Rightarrow> (daddr \<Rightarrow> dlink option) \<Rightarrow> bool" where
  "seg p [] n L = True"
| "seg p (x # xs) n L =
     (L x = Some \<lparr> lk_prev = p, lk_next = first_or n xs \<rparr> \<and> seg (Some x) xs n L)"

definition is_chain :: "daddr list \<Rightarrow> dchain \<Rightarrow> bool" where
  "is_chain xs c \<longleftrightarrow> distinct xs \<and> d_first (fst c) = first_or None xs \<and> d_last (fst c) = last_or None xs \<and>
     seg None xs None (snd c)"

lemma is_chain_iff [simp]:
  "is_chain xs (d, L) \<longleftrightarrow> distinct xs \<and> d = \<lparr> d_first = first_or None xs, d_last = last_or None xs \<rparr> \<and>
     seg None xs None L"
  by (cases d) (auto simp: is_chain_def)

lemma first_or_simps [simp]: "first_or n [] = n" "first_or n (x # xs) = Some x"
  "first_or n (xs @ ys) = first_or (first_or n ys) xs"
  by (auto simp: first_or_def)

lemma last_or_simps [simp]: "last_or p [] = p" "last_or p (x # xs) = last_or (Some x) xs"
  "last_or p (xs @ ys) = last_or (last_or p xs) ys"
  by (auto simp: last_or_def)

lemma seg_append [simp]:
  "seg p (xs @ ys) n L \<longleftrightarrow> seg p xs (first_or n ys) L \<and> seg (last_or p xs) ys n L"
  by (induction xs arbitrary: p) auto

lemma seg_upd_other [simp]: "a \<notin> set xs \<Longrightarrow> seg p xs n (L(a := l)) = seg p xs n L"
  by (induction xs arbitrary: p) auto

lemma seg_cong: "(\<And>x. x \<in> set xs \<Longrightarrow> L' x = L x) \<Longrightarrow> seg p xs n L' = seg p xs n L"
  by (induction xs arbitrary: p) auto

lemma link_upd [simp]: "l\<lparr>lk_next := n, lk_prev := p\<rparr> = \<lparr> lk_prev = p, lk_next = n \<rparr>"
  by (cases l) simp

lemma ends_upd [simp]: "d\<lparr>d_first := p, d_last := q\<rparr> = \<lparr> d_first = p, d_last = q \<rparr>"
  by (cases d) simp

text \<open>Linking behind the last node appends.\<close>

lemma link_after_last:
  assumes c: "is_chain xs (d, L)" and a: "a \<notin> set xs" "L a \<noteq> None"
  obtains d' L' where "link_after (last_or None xs) a (d, L) = Some (d', L')"
    and "is_chain (xs @ [a]) (d', L')" and "\<And>b. b \<notin> set xs \<Longrightarrow> b \<noteq> a \<Longrightarrow> L' b = L b"
proof (cases xs rule: rev_cases)
  case Nil
  show ?thesis
    by (rule that [of "\<lparr> d_first = Some a, d_last = Some a \<rparr>" "L(a \<mapsto> no_link)"])
      (use a c in \<open>auto simp: Nil link_after_def link_set_def no_link_def\<close>)
next
  case (snoc ys y)
  define d' where "d' = \<lparr> d_first = first_or None xs, d_last = Some a \<rparr>"
  define L' where "L' = L(a \<mapsto> \<lparr> lk_prev = Some y, lk_next = None \<rparr>,
      y \<mapsto> \<lparr> lk_prev = last_or None ys, lk_next = Some a \<rparr>)"
  show ?thesis
    by (rule that [of d' L'])
      (use a c in \<open>auto simp: snoc link_after_def link_set_def d'_def L'_def fun_upd_twist\<close>)
qed

text \<open>Unlinking removes.\<close>

lemma link_unlink_node:
  assumes c: "is_chain (xs @ a # ys) (d, L)"
  obtains d' L' where "link_unlink a (d, L) = Some (d', L')"
    and "is_chain (xs @ ys) (d', L')" and "\<And>b. b \<notin> set (xs @ ys) \<Longrightarrow> L' b = L b"
proof -
  define d' where "d' = \<lparr> d_first = first_or None (xs @ ys), d_last = last_or None (xs @ ys) \<rparr>"
  show ?thesis
  proof (cases xs rule: rev_cases; cases ys)
    assume "xs = []" "ys = []"
    then show ?thesis
      by (intro that [of d' L]) (use c in \<open>auto simp: link_unlink_def d'_def\<close>)
  next
    fix y zs assume e: "xs = []" "ys = y # zs"
    define L' where "L' = L(y \<mapsto> \<lparr> lk_prev = None, lk_next = first_or None zs \<rparr>)"
    show ?thesis
      by (rule that [of d' L']) (use c in \<open>auto simp: e link_unlink_def d'_def L'_def\<close>)
  next
    fix ws x assume e: "xs = ws @ [x]" "ys = []"
    define L' where "L' = L(x \<mapsto> \<lparr> lk_prev = last_or None ws, lk_next = None \<rparr>)"
    show ?thesis
      by (rule that [of d' L']) (use c in \<open>auto simp: e link_unlink_def d'_def L'_def\<close>)
  next
    fix ws x y zs assume e: "xs = ws @ [x]" "ys = y # zs"
    define L' where "L' = L(x \<mapsto> \<lparr> lk_prev = last_or None ws, lk_next = Some y \<rparr>,
        y \<mapsto> \<lparr> lk_prev = Some x, lk_next = first_or None zs \<rparr>)"
    show ?thesis
      by (rule that [of d' L']) (use c in \<open>auto simp: e link_unlink_def d'_def L'_def\<close>)
  qed
qed

text \<open>
  Linking behind a node that is not the last one loses the nodes behind it: from the new node the walk
  goes on, but the last pointer is the new node and its \<open>prev\<close> the old last node.
\<close>

lemma link_after_inner:
  assumes c: "is_chain (xs @ b # y # ys) (d, L)" and a: "a \<notin> set (xs @ b # y # ys)" "L a \<noteq> None"
  obtains d' L' where "link_after (Some b) a (d, L) = Some (d', L')" and "d_last d' = Some a"
    and "L' a = Some \<lparr> lk_prev = last_or None (y # ys), lk_next = Some y \<rparr>"
    and "L' y = Some \<lparr> lk_prev = Some b, lk_next = first_or None ys \<rparr>"
proof -
  define L' where "L' = L(a \<mapsto> \<lparr> lk_prev = last_or None (y # ys), lk_next = Some y \<rparr>,
      b \<mapsto> \<lparr> lk_prev = last_or None xs, lk_next = Some a \<rparr>)"
  show ?thesis
    by (rule that [of "d\<lparr>d_last := Some a\<rparr>" L'])
      (use a c in \<open>auto simp: link_after_def link_set_def L'_def fun_upd_twist\<close>)
qed

lemma no_chain_last_next:
  "is_chain xs (d, L) \<Longrightarrow> d_last d = Some a \<Longrightarrow> map_option lk_next (L a) = Some None"
  by (cases xs rule: rev_cases) auto

section \<open>The content of a file\<close>

record aentry =
  ae_comments :: "buf list"
  ae_key :: buf
  ae_value :: buf

record agroup =
  ag_comments :: "buf list"
  ag_name :: buf
  ag_entries :: "aentry list"

record afile =
  af_groups :: "agroup list"
  af_comments :: "buf list"

text \<open>
  What the heap holds: the groups of a file are the nodes \<open>map fst ps\<close>, and the entries of a group the
  nodes beside it. The predicates speak of what can be read; the tables, flags and addresses that the
  loader also relies on are in \<open>loading\<close>.
\<close>

definition entry_at :: "dheap \<Rightarrow> daddr \<Rightarrow> aentry \<Rightarrow> bool" where
  "entry_at h a ae \<longleftrightarrow> (case dh_entries h a of None \<Rightarrow> False
     | Some e \<Rightarrow> e_name e = ae_key ae \<and> e_comments e = ae_comments ae \<and> e_value e = Some (ae_value ae))"

definition group_at :: "dheap \<Rightarrow> daddr \<times> daddr list \<Rightarrow> agroup \<Rightarrow> bool" where
  "group_at h p ag \<longleftrightarrow> (case dh_groups h (fst p) of None \<Rightarrow> False
     | Some g \<Rightarrow> g_name g = ag_name ag \<and> g_comments g = ag_comments ag \<and>
         is_chain (snd p) (g_ends g, dh_elinks h) \<and> list_all2 (entry_at h) (snd p) (ag_entries ag))"

definition holds_at :: "dstate \<Rightarrow> (daddr \<times> daddr list) list \<Rightarrow> afile \<Rightarrow> bool" where
  "holds_at s ps c \<longleftrightarrow> is_chain (map fst ps) (f_ends (snd s), dh_glinks (fst s)) \<and>
     list_all2 (group_at (fst s)) ps (af_groups c) \<and> f_comments (snd s) = af_comments c"

definition holds :: "dstate \<Rightarrow> afile \<Rightarrow> bool" where
  "holds s c \<longleftrightarrow> (\<exists>ps. holds_at s ps c)"

section \<open>The text of a file\<close>

definition comment_lines :: "buf list \<Rightarrow> buf list" where
  "comment_lines cs = map (\<lambda>c. 0x23 # c) cs"

definition entry_lines :: "aentry \<Rightarrow> buf list" where
  "entry_lines e = comment_lines (ae_comments e) @ [ae_key e @ [0x3d] @ ae_value e]"

definition group_lines :: "agroup \<Rightarrow> buf list" where
  "group_lines g = comment_lines (ag_comments g) @ [[0x5b] @ ag_name g @ [0x5d]] @
     concat (map entry_lines (ag_entries g))"

definition file_lines :: "afile \<Rightarrow> buf list" where
  "file_lines c = concat (map group_lines (af_groups c)) @ comment_lines (af_comments c)"

definition unlines :: "buf list \<Rightarrow> buf" where
  "unlines ls = concat (map (\<lambda>l. l @ [0x0a]) ls)"

definition desktop_text :: "afile \<Rightarrow> buf" where
  "desktop_text c = unlines (file_lines c)"

lemma unlines_simps [simp]: "unlines [] = []" "unlines (l # ls) = l @ 0x0a # unlines ls"
  "unlines (xs @ ys) = unlines xs @ unlines ys"
  by (simp_all add: unlines_def)

text \<open>Which contents can be written and read back.\<close>

definition one_line :: "buf \<Rightarrow> bool" where
  "one_line s \<longleftrightarrow> 0x0a \<notin> set s \<and> 0 \<notin> set s"

definition comment_ok :: "buf \<Rightarrow> bool" where
  "comment_ok c \<longleftrightarrow> one_line c \<and> c \<noteq> []"

definition key_ok :: "buf \<Rightarrow> bool" where
  "key_ok k \<longleftrightarrow> one_line k \<and> k \<noteq> [] \<and> 0x3d \<notin> set k \<and> hd k \<notin> set blank_chars \<and> hd k \<noteq> 0x23 \<and>
     hd k \<noteq> 0x5b \<and> last k \<notin> set blank_chars"

definition entry_ok :: "aentry \<Rightarrow> bool" where
  "entry_ok e \<longleftrightarrow> list_all comment_ok (ae_comments e) \<and> key_ok (ae_key e) \<and> one_line (ae_value e)"

definition name_ok :: "buf \<Rightarrow> bool" where
  "name_ok n \<longleftrightarrow> one_line n \<and> n \<noteq> [] \<and> 0x5b \<notin> set n \<and> 0x5d \<notin> set n"

definition group_ok :: "agroup \<Rightarrow> bool" where
  "group_ok g \<longleftrightarrow> list_all comment_ok (ag_comments g) \<and> name_ok (ag_name g) \<and>
     list_all entry_ok (ag_entries g) \<and> distinct (map ae_key (ag_entries g))"

definition file_ok :: "afile \<Rightarrow> bool" where
  "file_ok c \<longleftrightarrow> list_all group_ok (af_groups c) \<and> list_all comment_ok (af_comments c) \<and>
     distinct (map ag_name (af_groups c))"

section \<open>Writing\<close>

lemma strcspn_none: "set s \<inter> set r = {} \<Longrightarrow> strcspn s r = length s"
proof -
  assume "set s \<inter> set r = {}"
  then have "takeWhile (\<lambda>c. c \<notin> set r) s = s" by (auto simp: takeWhile_eq_all_conv)
  then show ?thesis unfolding strcspn_def by (rule arg_cong)
qed

lemma strcspn_stop: "set s \<inter> set r = {} \<Longrightarrow> x \<in> set r \<Longrightarrow> strcspn (s @ x # t) r = length s"
  unfolding strcspn_def by (subst takeWhile_append2) auto


lemma write_len_all [simp]: "write_len s (length s) = Some s"
  by (auto simp: write_len_def)

lemma write_comments_ok:
  "list_all comment_ok cs \<Longrightarrow> fcitx_desktop_write_comments cs = Some (unlines (comment_lines cs))"
proof (induction cs)
  case (Cons c cs)
  then have "check_single_line c = length c"
    by (simp add: check_single_line_def strcspn_none comment_ok_def one_line_def)
  with Cons show ?case by (simp add: comment_lines_def comment_ok_def)
qed (simp add: comment_lines_def)

lemma check_entry_key_ok: "key_ok k \<Longrightarrow> check_entry_key k = Some (length k)"
proof -
  assume k: "key_ok k"
  then have "strcspn k [0x3d, 0x0a] = length k" by (simp add: strcspn_none key_ok_def one_line_def)
  moreover have "k ! (length k - 1) = last k" using k by (simp add: key_ok_def last_conv_nth)
  ultimately show ?thesis using k by (auto simp: check_entry_key_def key_ok_def blank_chars_def)
qed

lemma check_group_name_ok: "name_ok n \<Longrightarrow> check_group_name n = length n"
  by (simp add: check_group_name_def strcspn_none name_ok_def one_line_def)

lemma write_entry_ok:
  assumes a: "entry_at h a ae" and ok: "entry_ok ae"
  shows "\<exists>e. dh_entries h a = Some e \<and> fcitx_desktop_entry_write_fp e = Some (unlines (entry_lines ae))"
proof -
  obtain e where e: "dh_entries h a = Some e" "e_name e = ae_key ae" "e_comments e = ae_comments ae"
    "e_value e = Some (ae_value ae)" using a by (auto simp: entry_at_def split: option.splits)
  have "check_single_line (ae_value ae) = length (ae_value ae)"
    using ok by (simp add: check_single_line_def strcspn_none entry_ok_def one_line_def)
  then have "fcitx_desktop_entry_write_fp e = Some (unlines (entry_lines ae))"
    using ok by (simp add: fcitx_desktop_entry_write_fp_def e check_entry_key_ok entry_ok_def
        write_comments_ok entry_lines_def) (simp add: key_ok_def)
  with e show ?thesis by blast
qed

lemma write_entries_ok:
  "list_all2 (entry_at h) es aes \<Longrightarrow> list_all entry_ok aes \<Longrightarrow> seg p es None (dh_elinks h) \<Longrightarrow>
   write_entries h (first_or None es) = Some (unlines (concat (map entry_lines aes)))"
proof (induction arbitrary: p rule: list_all2_induct)
  case Nil
  show ?case by (simp add: write_entries.simps)
next
  case (Cons a es ae aes)
  from write_entry_ok [OF Cons.hyps(1)] Cons.prems obtain e where
    e: "dh_entries h a = Some e" "fcitx_desktop_entry_write_fp e = Some (unlines (entry_lines ae))" by auto
  have "write_entries h (first_or None es) = Some (unlines (concat (map entry_lines aes)))"
    by (rule Cons.IH [of "Some a"]) (use Cons.prems in auto)
  then show ?case using Cons.prems by (subst write_entries.simps) (simp add: e)
qed

lemma write_group_ok:
  assumes a: "group_at h p ag" and ok: "group_ok ag"
  shows "\<exists>g. dh_groups h (fst p) = Some g \<and> fcitx_desktop_group_write_fp h g = Some (unlines (group_lines ag))"
proof -
  obtain g where g: "dh_groups h (fst p) = Some g" "g_name g = ag_name ag" "g_comments g = ag_comments ag"
    "is_chain (snd p) (g_ends g, dh_elinks h)" "list_all2 (entry_at h) (snd p) (ag_entries ag)"
    using a by (auto simp: group_at_def split: option.splits)
  then have "write_entries h (d_first (g_ends g)) = Some (unlines (concat (map entry_lines (ag_entries ag))))"
    using ok by (auto intro: write_entries_ok simp: group_ok_def)
  then have "fcitx_desktop_group_write_fp h g = Some (unlines (group_lines ag))"
    using ok by (simp add: fcitx_desktop_group_write_fp_def g check_group_name_ok group_ok_def
        write_comments_ok group_lines_def) (simp add: name_ok_def)
  with g show ?thesis by blast
qed

lemma write_groups_ok:
  "list_all2 (group_at h) ps ags \<Longrightarrow> list_all group_ok ags \<Longrightarrow> seg p (map fst ps) None (dh_glinks h) \<Longrightarrow>
   write_groups h (first_or None (map fst ps)) = Some (unlines (concat (map group_lines ags)))"
proof (induction arbitrary: p rule: list_all2_induct)
  case Nil
  show ?case by (simp add: write_groups.simps)
next
  case (Cons a es ae aes)
  from write_group_ok [OF Cons.hyps(1)] Cons.prems obtain e where
    e: "dh_groups h (fst a) = Some e" "fcitx_desktop_group_write_fp h e = Some (unlines (group_lines ae))" by auto
  have "write_groups h (first_or None (map fst es)) = Some (unlines (concat (map group_lines aes)))"
    by (rule Cons.IH [of "Some (fst a)"]) (use Cons.prems in auto)
  then show ?case using Cons.prems by (subst write_groups.simps) (simp add: e)
qed

lemma write_file_ok:
  assumes "holds s c" and ok: "file_ok c"
  shows "fcitx_desktop_file_write_fp s = Some (desktop_text c)"
proof -
  obtain h f where s: "s = (h, f)" by (cases s)
  from assms obtain ps where ps: "is_chain (map fst ps) (f_ends f, dh_glinks h)"
    "list_all2 (group_at h) ps (af_groups c)" "f_comments f = af_comments c"
    by (auto simp: holds_def holds_at_def s)
  then have "write_groups h (d_first (f_ends f)) = Some (unlines (concat (map group_lines (af_groups c))))"
    using ok by (auto intro: write_groups_ok simp: file_ok_def)
  then show ?thesis
    using ok by (simp add: s fcitx_desktop_file_write_fp_def ps(3) write_comments_ok file_ok_def
        desktop_text_def file_lines_def)
qed

end
