(* ===== verification/Desktop_Load.thy ===== *)
theory Desktop_Load
  imports Desktop_Laws
begin

text \<open>
  Loading of a text that was written: line by line the loader builds the groups and entries, in fresh
  nodes at the ends of their lists, and what it has built so far is the content of the lines it has read.
\<close>

section \<open>The state of the loader\<close>

definition entry_loaded :: "dheap \<Rightarrow> daddr \<Rightarrow> aentry \<Rightarrow> bool" where
  "entry_loaded h a ae \<longleftrightarrow> (\<exists>e. dh_entries h a = Some e \<and> e_name e = ae_key ae \<and>
     e_comments e = ae_comments ae \<and> e_value e = Some (ae_value ae) \<and> e_flags e = 1)"

definition group_loaded :: "dheap \<Rightarrow> daddr \<times> daddr list \<Rightarrow> agroup \<Rightarrow> bool" where
  "group_loaded h p ag \<longleftrightarrow> (\<exists>g. dh_groups h (fst p) = Some g \<and> g_name g = ag_name ag \<and>
     g_comments g = ag_comments ag \<and> g_flags g = 1 \<and> g_entries g = zip (map ae_key (ag_entries ag)) (snd p) \<and>
     is_chain (snd p) (g_ends g, dh_elinks h) \<and> list_all2 (entry_loaded h) (snd p) (ag_entries ag))"

definition loading :: "(daddr \<times> daddr list) list \<Rightarrow> afile \<Rightarrow> dload \<Rightarrow> bool" where
  "loading ps c s \<longleftrightarrow> (case s of ((h, f), cur) \<Rightarrow>
     is_chain (map fst ps) (f_ends f, dh_glinks h) \<and> list_all2 (group_loaded h) ps (af_groups c) \<and>
     f_groups f = zip (map ag_name (af_groups c)) (map fst ps) \<and> f_comments f = af_comments c \<and>
     cur = last_or None (map fst ps) \<and> distinct (concat (map snd ps)) \<and>
     (\<forall>p\<in>set ps. fst p < dh_brk h \<and> (\<forall>a\<in>set (snd p). a < dh_brk h)))"

lemma entry_loaded_cong: "dh_entries h' a = dh_entries h a \<Longrightarrow> entry_loaded h' a ae = entry_loaded h a ae"
  by (simp add: entry_loaded_def)

lemma group_loaded_cong:
  assumes "group_loaded h p ag" "dh_groups h' (fst p) = dh_groups h (fst p)"
    "\<And>a. a \<in> set (snd p) \<Longrightarrow> dh_entries h' a = dh_entries h a \<and> dh_elinks h' a = dh_elinks h a"
  shows "group_loaded h' p ag"
proof -
  have "seg None (snd p) None (dh_elinks h') = seg None (snd p) None (dh_elinks h)"
    by (rule seg_cong) (use assms(3) in blast)
  moreover have "list_all2 (entry_loaded h') (snd p) es = list_all2 (entry_loaded h) (snd p) es" for es
    by (rule list.rel_cong) (use assms(3) in \<open>simp_all add: entry_loaded_def\<close>)
  ultimately show ?thesis using assms(1,2) by (auto simp: group_loaded_def)
qed

section \<open>One line\<close>

lemma find_none_blank_id: "s \<noteq> [] \<Longrightarrow> hd s \<notin> set blank_chars \<Longrightarrow> find_none_blank s = s"
  by (cases s) (simp_all add: find_none_blank_def strspn_def)

lemma cut_line_id: "0 \<notin> set s \<Longrightarrow> cut_line s = s"
  by (auto simp: cut_line_def takeWhile_eq_all_conv)

lemma load_comment:
  assumes "comment_ok c" and l: "loading ps a s"
  shows "\<exists>s'. load_line (0x23 # c) s = Some s' \<and> loading ps (a\<lparr>af_comments := af_comments a @ [c]\<rparr>) s'"
proof -
  obtain h f cur where s: "s = ((h, f), cur)" by (cases s) auto
  have "find_none_blank (cut_line (0x23 # c)) = 0x23 # c"
    using assms(1) by (simp add: comment_ok_def one_line_def cut_line_id find_none_blank_id blank_chars_def)
  then show ?thesis using l
    by (simp add: load_line_def s loading_def utarray_push_back_def)
qed

lemma group_name_len_ok:
  assumes "name_ok n"
  shows "fcitx_desktop_group_name_len (n @ [0x5d]) = length n"
proof -
  have "strcspn (n @ [0x5d]) [0x5b, 0x5d] = length n"
    using assms by (intro strcspn_stop) (auto simp: name_ok_def)
  then show ?thesis by (simp add: fcitx_desktop_group_name_len_def)
qed

lemma load_group_new:
  assumes n: "name_ok n" and new: "hash_find (f_groups f) n = None"
    and c: "is_chain xs (f_ends f, dh_glinks h)" and a: "a = dh_brk h" "a \<notin> set xs"
  obtains d' L' where "load_group (n @ [0x5d]) ((h, f), last_or None xs) = Some
      ((h\<lparr>dh_groups := (dh_groups h)(a \<mapsto> (fcitx_desktop_parse_new_group (f_vtable f) (f_owner f))
            \<lparr>g_name := n, g_tbl := Some (f_id f), g_flags := 1, g_comments := f_comments f\<rparr>),
          dh_glinks := L', dh_brk := Suc a\<rparr>,
        f\<lparr>f_groups := f_groups f @ [(n, a)], f_ends := d', f_comments := []\<rparr>), Some a)"
    and "is_chain (xs @ [a]) (d', L')"
proof -
  have "is_chain xs (f_ends f, (dh_glinks h)(a \<mapsto> no_link))" using c a by simp
  from link_after_last [OF this a(2)] obtain d' L' where
    l: "link_after (last_or None xs) a (f_ends f, (dh_glinks h)(a \<mapsto> no_link)) = Some (d', L')"
       "is_chain (xs @ [a]) (d', L')" by auto
  have len: "fcitx_desktop_group_name_len (n @ [0x5d]) = length n" and n0: "n \<noteq> []"
    using n group_name_len_ok by (auto simp: name_ok_def)
  show ?thesis
    by (rule that [of L' d'])
      (use l n0 new in \<open>simp_all add: load_group_def len fcitx_desktop_file_find_group_with_len_def
        fcitx_desktop_file_hash_new_group_def fcitx_desktop_file_hash_add_def upd_group_def hash_add_def
        fcitx_desktop_file_link_group_after_def on_groups_def swap_group_comments_def a(1) [symmetric]
        FX_DESKTOP_GROUP_UPDATED_def fcitx_desktop_parse_new_group_def\<close>)
qed

lemma trim_len_last: "n \<le> length s \<Longrightarrow> 0 < n \<Longrightarrow> s ! (n - 1) \<notin> set blank_chars \<Longrightarrow> trim_len s n = n"
  by (cases n) auto

lemma entry_key_len_ok:
  assumes "key_ok k"
  shows "fcitx_desktop_entry_key_len (k @ 0x3d # v) = length k"
proof -
  have "strcspn (k @ 0x3d # v) [0x3d] = length k"
    using assms by (intro strcspn_stop) (auto simp: key_ok_def)
  moreover have "trim_len (k @ 0x3d # v) (length k) = length k"
    using assms by (intro trim_len_last) (auto simp: key_ok_def nth_append last_conv_nth)
  ultimately show ?thesis by (simp add: fcitx_desktop_entry_key_len_def)
qed

lemma load_entry_new:
  assumes k: "key_ok k" and ga: "dh_groups h ga = Some g" and new: "hash_find (g_entries g) k = None"
    and c: "is_chain es (g_ends g, dh_elinks h)" and a: "a = dh_brk h" "a \<notin> set es"
  obtains d' L' where "load_entry (k @ 0x3d # v) ((h, f), Some ga) = Some
      ((h\<lparr>dh_entries := (dh_entries h)(a \<mapsto> (fcitx_desktop_parse_new_entry (g_vtable g) (g_owner g))
            \<lparr>e_name := k, e_tbl := Some ga, e_flags := 1, e_comments := f_comments f, e_value := Some v\<rparr>),
          dh_elinks := L', dh_brk := Suc a,
          dh_groups := (dh_groups h)(ga \<mapsto> g\<lparr>g_entries := g_entries g @ [(k, a)], g_ends := d'\<rparr>)\<rparr>,
        f\<lparr>f_comments := []\<rparr>), Some ga)"
    and "is_chain (es @ [a]) (d', L')" and "\<And>b. b \<notin> set es \<Longrightarrow> b \<noteq> a \<Longrightarrow> L' b = dh_elinks h b"
proof -
  have "is_chain es (g_ends g, (dh_elinks h)(a \<mapsto> no_link))" using c a by simp
  from link_after_last [OF this a(2)] obtain d' L' where
    l: "link_after (last_or None es) a (g_ends g, (dh_elinks h)(a \<mapsto> no_link)) = Some (d', L')"
       "is_chain (es @ [a]) (d', L')" "\<And>b. b \<notin> set es \<Longrightarrow> b \<noteq> a \<Longrightarrow> L' b = ((dh_elinks h)(a \<mapsto> no_link)) b"
    by auto
  have last: "d_last (g_ends g) = last_or None es" using c by simp
  have len: "fcitx_desktop_entry_key_len (k @ 0x3d # v) = length k" and k0: "k \<noteq> []"
    using k entry_key_len_ok by (auto simp: key_ok_def)
  show ?thesis
    by (rule that [of d' L'])
      (use l k0 new in \<open>simp_all add: load_entry_def len fcitx_desktop_group_find_entry_with_len_def ga last
        fcitx_desktop_group_hash_new_entry_def fcitx_desktop_group_hash_add_def upd_group_def upd_entry_def
        hash_add_def fcitx_desktop_group_link_entry_after_def on_entries_def swap_entry_comments_def
        a(1) [symmetric] FX_DESKTOP_ENTRY_UPDATED_def fcitx_desktop_parse_new_entry_def
        fcitx_utils_set_str_with_len_def\<close>)
qed


section \<open>The items of a text\<close>

definition add_group :: "buf \<Rightarrow> afile \<Rightarrow> afile" where
  "add_group n c = \<lparr> af_groups = af_groups c @ [\<lparr> ag_comments = af_comments c, ag_name = n, ag_entries = [] \<rparr>],
                     af_comments = [] \<rparr>"

definition add_entry :: "buf \<Rightarrow> buf \<Rightarrow> afile \<Rightarrow> afile" where
  "add_entry k v c = (let g = last (af_groups c) in
     \<lparr> af_groups = butlast (af_groups c) @ [g\<lparr>ag_entries := ag_entries g @
         [\<lparr> ae_comments = af_comments c, ae_key = k, ae_value = v \<rparr>]\<rparr>], af_comments = [] \<rparr>)"

lemma hash_find_zip: "length ks = length vs \<Longrightarrow> hash_find (zip ks vs) k = None \<longleftrightarrow> k \<notin> set ks"
  by (simp add: hash_find_def map_of_eq_None_iff flip: set_map)

lemma load_group_line:
  assumes n: "name_ok n" "n \<notin> ag_name ` set (af_groups c)" and l: "loading ps c s"
  shows "\<exists>ps' s'. load_line ([0x5b] @ n @ [0x5d]) s = Some s' \<and> loading ps' (add_group n c) s'"
proof -
  obtain h f cur where s: "s = ((h, f), cur)" by (cases s) auto
  note l = l [unfolded loading_def s, simplified]
  define a where "a = dh_brk h"
  have len: "length (af_groups c) = length ps" using l by (auto dest: list_all2_lengthD)
  have new: "hash_find (f_groups f) n = None" using l n len by (simp add: hash_find_zip)
  have afresh: "a \<notin> set (map fst ps)" using l by (auto simp: a_def)
  have chain: "is_chain (map fst ps) (f_ends f, dh_glinks h)" using l by auto
  obtain d' L' where ld: "load_group (n @ [0x5d]) ((h, f), last_or None (map fst ps)) = Some
      ((h\<lparr>dh_groups := (dh_groups h)(a \<mapsto> (fcitx_desktop_parse_new_group (f_vtable f) (f_owner f))
            \<lparr>g_name := n, g_tbl := Some (f_id f), g_flags := 1, g_comments := f_comments f\<rparr>),
          dh_glinks := L', dh_brk := Suc a\<rparr>,
        f\<lparr>f_groups := f_groups f @ [(n, a)], f_ends := d', f_comments := []\<rparr>), Some a)"
      (is "_ = Some ((?h, ?f), _)")
    and ch: "is_chain (map fst ps @ [a]) (d', L')"
    by (rule load_group_new [OF n(1) new chain a_def afresh])
  have line: "load_line ([0x5b] @ n @ [0x5d]) s = load_group (n @ [0x5d]) s"
    using n(1) by (simp add: load_line_def cut_line_id find_none_blank_id name_ok_def one_line_def blank_chars_def)
  have "list_all2 (group_loaded h) ps (af_groups c)" using l by auto
  then have old: "list_all2 (group_loaded ?h) ps (af_groups c)"
    by (rule list.rel_mono_strong) (rule group_loaded_cong, use afresh in auto)
  have "group_loaded ?h (a, []) \<lparr> ag_comments = af_comments c, ag_name = n, ag_entries = [] \<rparr>"
    using l by (simp add: group_loaded_def fcitx_desktop_parse_new_group_def no_ends_def)
  with old have "list_all2 (group_loaded ?h) (ps @ [(a, [])]) (af_groups (add_group n c))"
    by (simp add: add_group_def list_all2_appendI)
  then have "loading (ps @ [(a, [])]) (add_group n c) ((?h, ?f), Some a)"
    using l ch len by (auto simp: loading_def add_group_def less_Suc_eq a_def)
  then show ?thesis using ld l line s by auto
qed

lemma load_entry_line:
  assumes k: "key_ok k" "one_line v" and c: "af_groups c = gs @ [g]" "k \<notin> ae_key ` set (ag_entries g)"
    and l: "loading ps c s"
  shows "\<exists>ps' s'. load_line (k @ [0x3d] @ v) s = Some s' \<and> loading ps' (add_entry k v c) s'"
proof -
  obtain h f cur where s: "s = ((h, f), cur)" by (cases s) auto
  note l = l [unfolded loading_def s, simplified]
  define a where "a = dh_brk h"
  from l c(1) obtain qs p where ps: "ps = qs @ [p]" "list_all2 (group_loaded h) qs gs" "group_loaded h p g"
    by (auto simp: list_all2_append2 list_all2_Cons2)
  obtain ga es where p: "p = (ga, es)" by (cases p)
  obtain G where G: "dh_groups h ga = Some G" "g_entries G = zip (map ae_key (ag_entries g)) es"
    "g_name G = ag_name g" "g_comments G = ag_comments g" "g_flags G = 1"
    "is_chain es (g_ends G, dh_elinks h)" "list_all2 (entry_loaded h) es (ag_entries g)"
    using ps(3) p by (auto simp: group_loaded_def)
  have len: "length (ag_entries g) = length es" using G(7) by (auto dest: list_all2_lengthD)
  have lens: "length gs = length qs" using ps(2) by (auto dest: list_all2_lengthD)
  have new: "hash_find (g_entries G) k = None" using G(2) len c(2) by (simp add: hash_find_zip)
  have afresh: "a \<notin> set es" "\<forall>q\<in>set qs. a \<notin> set (snd q)" using l by (auto simp: a_def ps p)
  have others: "\<And>q. q \<in> set qs \<Longrightarrow> fst q \<noteq> ga \<and> set (snd q) \<inter> set es = {}" using l by (auto simp: ps p)
  obtain d' L' where ld: "load_entry (k @ 0x3d # v) ((h, f), Some ga) = Some
      ((h\<lparr>dh_entries := (dh_entries h)(a \<mapsto> (fcitx_desktop_parse_new_entry (g_vtable G) (g_owner G))
            \<lparr>e_name := k, e_tbl := Some ga, e_flags := 1, e_comments := f_comments f, e_value := Some v\<rparr>),
          dh_elinks := L', dh_brk := Suc a,
          dh_groups := (dh_groups h)(ga \<mapsto> G\<lparr>g_entries := g_entries G @ [(k, a)], g_ends := d'\<rparr>)\<rparr>,
        f\<lparr>f_comments := []\<rparr>), Some ga)" (is "_ = Some ((?h, ?f), _)")
    and ch: "is_chain (es @ [a]) (d', L')" and L': "\<And>b. b \<notin> set es \<Longrightarrow> b \<noteq> a \<Longrightarrow> L' b = dh_elinks h b"
    using load_entry_new [where v = v and f = f, OF k(1) G(1) new G(6) a_def afresh(1)] by blast
  have line: "load_line (k @ [0x3d] @ v) s = load_entry (k @ 0x3d # v) s"
  proof -
    have "0 \<notin> set (k @ 0x3d # v)" "hd (k @ 0x3d # v) = hd k" "k \<noteq> []"
      using k by (auto simp: key_ok_def one_line_def)
    then have "find_none_blank (cut_line (k @ 0x3d # v)) = k @ 0x3d # v"
      using k by (simp add: cut_line_id find_none_blank_id key_ok_def)
    moreover obtain b bs where "k @ 0x3d # v = b # bs" "hd k = b" using \<open>k \<noteq> []\<close> by (cases k) auto
    ultimately show ?thesis using k(1) by (auto simp: load_line_def key_ok_def)
  qed
  have old: "list_all2 (group_loaded ?h) qs gs"
    using ps(2) by (rule list.rel_mono_strong)
      (rule group_loaded_cong, use others afresh in \<open>auto simp: L' disjoint_iff\<close>)
  have "list_all2 (entry_loaded ?h) es (ag_entries g)"
    using G(7) by (rule list.rel_mono_strong) (use afresh in \<open>auto simp: entry_loaded_def\<close>)
  then have upd: "group_loaded ?h (ga, es @ [a]) (g\<lparr>ag_entries := ag_entries g @
         [\<lparr> ae_comments = af_comments c, ae_key = k, ae_value = v \<rparr>]\<rparr>)"
    using ch G len l by (auto simp: group_loaded_def entry_loaded_def list_all2_appendI fcitx_desktop_parse_new_entry_def)
  with old have "list_all2 (group_loaded ?h) (qs @ [(ga, es @ [a])]) (af_groups (add_entry k v c))"
    by (simp add: add_entry_def Let_def c list_all2_appendI)
  then have "loading (qs @ [(ga, es @ [a])]) (add_entry k v c) ((?h, ?f), Some ga)"
    using l lens afresh by (auto simp: loading_def add_entry_def Let_def c ps p less_Suc_eq a_def)
  moreover have "cur = Some ga" using l by (simp add: ps p)
  ultimately show ?thesis using ld line s by auto
qed

lemma load_lines_append: "load_lines (xs @ ys) s = load_lines xs s \<bind> load_lines ys"
proof (induction xs arbitrary: s)
  case (Cons x xs)
  then show ?case by (cases "load_line x s") simp_all
qed simp

lemma load_comments:
  "list_all comment_ok cs \<Longrightarrow> loading ps a s \<Longrightarrow>
   \<exists>s'. load_lines (comment_lines cs) s = Some s' \<and> loading ps (a\<lparr>af_comments := af_comments a @ cs\<rparr>) s'"
proof (induction cs arbitrary: a s)
  case (Cons c cs)
  from load_comment [OF _ Cons.prems(2), of c] Cons.prems(1) obtain s1 where
    s1: "load_line (0x23 # c) s = Some s1" "loading ps (a\<lparr>af_comments := af_comments a @ [c]\<rparr>) s1" by auto
  from Cons.IH [OF _ s1(2)] Cons.prems(1) s1(1) show ?case by (auto simp: comment_lines_def)
qed (simp add: comment_lines_def)

definition with_group :: "afile \<Rightarrow> agroup \<Rightarrow> afile" where
  "with_group c g = \<lparr> af_groups = af_groups c @ [g], af_comments = [] \<rparr>"

lemma load_entry_item:
  assumes l: "loading ps (with_group c g) s" and e: "entry_ok e" "ae_key e \<notin> ae_key ` set (ag_entries g)"
  shows "\<exists>ps' s'. load_lines (entry_lines e) s = Some s' \<and>
           loading ps' (with_group c (g\<lparr>ag_entries := ag_entries g @ [e]\<rparr>)) s'"
proof -
  have "list_all comment_ok (ae_comments e)" using e by (simp add: entry_ok_def)
  from load_comments [OF this l] obtain s1 where s1: "load_lines (comment_lines (ae_comments e)) s = Some s1"
    "loading ps ((with_group c g)\<lparr>af_comments := ae_comments e\<rparr>) s1" by (auto simp: with_group_def)
  have "\<exists>ps' s'. load_line (ae_key e @ [0x3d] @ ae_value e) s1 = Some s' \<and>
      loading ps' (add_entry (ae_key e) (ae_value e) ((with_group c g)\<lparr>af_comments := ae_comments e\<rparr>)) s'"
    by (rule load_entry_line [OF _ _ _ e(2) s1(2)]) (use e in \<open>simp_all add: entry_ok_def with_group_def\<close>)
  moreover have "add_entry (ae_key e) (ae_value e) ((with_group c g)\<lparr>af_comments := ae_comments e\<rparr>)
      = with_group c (g\<lparr>ag_entries := ag_entries g @ [e]\<rparr>)"
    by (simp add: add_entry_def with_group_def Let_def)
  ultimately show ?thesis using s1(1) by (auto simp: entry_lines_def load_lines_append)
qed

lemma load_entry_items:
  "list_all entry_ok es \<Longrightarrow> distinct (map ae_key (ag_entries g @ es)) \<Longrightarrow> loading ps (with_group c g) s \<Longrightarrow>
   \<exists>ps' s'. load_lines (concat (map entry_lines es)) s = Some s' \<and>
     loading ps' (with_group c (g\<lparr>ag_entries := ag_entries g @ es\<rparr>)) s'"
proof (induction es arbitrary: g ps s)
  case (Cons e es)
  from load_entry_item [OF Cons.prems(3), of e] Cons.prems(1,2) obtain ps1 s1 where
    s1: "load_lines (entry_lines e) s = Some s1"
      "loading ps1 (with_group c (g\<lparr>ag_entries := ag_entries g @ [e]\<rparr>)) s1" by auto
  from Cons.IH [OF _ _ s1(2)] Cons.prems(1,2) s1(1) show ?case by (auto simp: load_lines_append)
qed auto

lemma load_group_item:
  assumes l: "loading ps c s" "af_comments c = []" and g: "group_ok g" "ag_name g \<notin> ag_name ` set (af_groups c)"
  shows "\<exists>ps' s'. load_lines (group_lines g) s = Some s' \<and> loading ps' (with_group c g) s'"
proof -
  have "list_all comment_ok (ag_comments g)" using g by (simp add: group_ok_def)
  from load_comments [OF this l(1)] obtain s1 where s1: "load_lines (comment_lines (ag_comments g)) s = Some s1"
    "loading ps (c\<lparr>af_comments := ag_comments g\<rparr>) s1" by (auto simp: l(2))
  have "\<exists>ps' s'. load_line ([0x5b] @ ag_name g @ [0x5d]) s1 = Some s' \<and>
      loading ps' (add_group (ag_name g) (c\<lparr>af_comments := ag_comments g\<rparr>)) s'"
    by (rule load_group_line [OF _ _ s1(2)]) (use g in \<open>simp_all add: group_ok_def\<close>)
  then obtain ps2 s2 where s2: "load_line ([0x5b] @ ag_name g @ [0x5d]) s1 = Some s2"
      "loading ps2 (with_group c (g\<lparr>ag_entries := []\<rparr>)) s2"
    by (auto simp: add_group_def with_group_def) (cases g, auto)
  have "\<exists>ps' s'. load_lines (concat (map entry_lines (ag_entries g))) s2 = Some s' \<and>
     loading ps' (with_group c ((g\<lparr>ag_entries := []\<rparr>)\<lparr>ag_entries := ag_entries (g\<lparr>ag_entries := []\<rparr>) @ ag_entries g\<rparr>)) s'"
    by (rule load_entry_items [OF _ _ s2(2)]) (use g in \<open>simp_all add: group_ok_def\<close>)
  then show ?thesis using s1(1) s2(1)
    by (auto simp: group_lines_def load_lines_append)
qed

lemma load_group_items:
  "list_all group_ok gs \<Longrightarrow> distinct (map ag_name (af_groups c @ gs)) \<Longrightarrow> loading ps c s \<Longrightarrow> af_comments c = [] \<Longrightarrow>
   \<exists>ps' s'. load_lines (concat (map group_lines gs)) s = Some s' \<and>
     loading ps' \<lparr>af_groups = af_groups c @ gs, af_comments = []\<rparr> s'"
proof (induction gs arbitrary: c ps s)
  case (Cons g gs)
  from load_group_item [OF Cons.prems(3,4), of g] Cons.prems(1,2) obtain ps1 s1 where
    s1: "load_lines (group_lines g) s = Some s1" "loading ps1 (with_group c g) s1" by auto
  from Cons.IH [OF _ _ s1(2)] Cons.prems s1(1) show ?case
    by (auto simp: load_lines_append with_group_def)
next
  case Nil
  obtain gs cs where "c = \<lparr>af_groups = gs, af_comments = cs\<rparr>" by (cases c)
  with Nil show ?case by auto
qed

section \<open>Cleaning\<close>

definition same_content :: "dheap \<Rightarrow> dheap \<Rightarrow> bool" where
  "same_content h h' \<longleftrightarrow> dh_glinks h' = dh_glinks h \<and> dh_elinks h' = dh_elinks h \<and>
     (\<forall>a g. dh_groups h a = Some g \<longrightarrow> (\<exists>g'. dh_groups h' a = Some g' \<and> g_name g' = g_name g \<and>
        g_comments g' = g_comments g \<and> g_ends g' = g_ends g)) \<and>
     (\<forall>a e. dh_entries h a = Some e \<longrightarrow> (\<exists>e'. dh_entries h' a = Some e' \<and> e_name e' = e_name e \<and>
        e_comments e' = e_comments e \<and> e_value e' = e_value e))"

lemma same_content_refl: "same_content h h"
  by (simp add: same_content_def)

lemma same_content_trans:
  assumes "same_content h h1" "same_content h1 h2"
  shows "same_content h h2"
proof (unfold same_content_def, intro conjI allI impI, goal_cases)
  case (3 a g)
  with assms(1) obtain g1 where "dh_groups h1 a = Some g1" "g_name g1 = g_name g" "g_comments g1 = g_comments g"
    "g_ends g1 = g_ends g" unfolding same_content_def by blast
  moreover from this(1) assms(2) obtain g2 where "dh_groups h2 a = Some g2" "g_name g2 = g_name g1"
    "g_comments g2 = g_comments g1" "g_ends g2 = g_ends g1" unfolding same_content_def by blast
  ultimately show ?case by simp
next
  case (4 a e)
  with assms(1) obtain e1 where "dh_entries h1 a = Some e1" "e_name e1 = e_name e" "e_comments e1 = e_comments e"
    "e_value e1 = e_value e" unfolding same_content_def by blast
  moreover from this(1) assms(2) obtain e2 where "dh_entries h2 a = Some e2" "e_name e2 = e_name e1"
    "e_comments e2 = e_comments e1" "e_value e2 = e_value e1" unfolding same_content_def by blast
  ultimately show ?case by simp
qed (use assms in \<open>simp_all add: same_content_def\<close>)

lemma clean_entries_ok:
  "\<forall>a\<in>set as. \<exists>e. dh_entries h a = Some e \<and> e_flags e = 1 \<Longrightarrow> distinct as \<Longrightarrow>
   \<exists>E. clean_entries ga as h = Some (h\<lparr>dh_entries := E\<rparr>) \<and> same_content h (h\<lparr>dh_entries := E\<rparr>) \<and>
     (\<forall>a. a \<notin> set as \<longrightarrow> E a = dh_entries h a)"
proof (induction as arbitrary: h)
  case Nil
  show ?case by (intro exI [of _ "dh_entries h"]) (simp add: same_content_refl)
next
  case (Cons a as)
  then obtain e where e: "dh_entries h a = Some e" "e_flags e = 1" by auto
  let ?h = "h\<lparr>dh_entries := (dh_entries h)(a \<mapsto> e\<lparr>e_flags := 0\<rparr>)\<rparr>"
  have "\<forall>b\<in>set as. \<exists>e. dh_entries ?h b = Some e \<and> e_flags e = 1" using Cons.prems by auto
  from Cons.IH [OF this] Cons.prems obtain E where
    E: "clean_entries ga as ?h = Some (?h\<lparr>dh_entries := E\<rparr>)" "same_content ?h (?h\<lparr>dh_entries := E\<rparr>)"
      "\<forall>b. b \<notin> set as \<longrightarrow> E b = dh_entries ?h b" by auto
  have "same_content h ?h" using e by (auto simp: same_content_def)
  then have "same_content h (?h\<lparr>dh_entries := E\<rparr>)" by (rule same_content_trans) (rule E(2))
  moreover have "clean_entries ga (a # as) h = Some (h\<lparr>dh_entries := E\<rparr>)"
    using E(1) e by (simp add: FX_DESKTOP_ENTRY_UPDATED_def upd_entry_def)
  ultimately show ?case using E(3) by (intro exI [of _ E]) simp
qed

lemma clean_groups_ok:
  "list_all2 (group_loaded h) ps ags \<Longrightarrow> distinct (map fst ps) \<Longrightarrow> distinct (concat (map snd ps)) \<Longrightarrow>
   \<exists>h'. clean_groups (map fst ps) (h, f) = Some (h', f) \<and> same_content h h'"
proof (induction ps arbitrary: h ags)
  case Nil
  show ?case by (simp add: same_content_refl)
next
  case (Cons p ps)
  obtain ag ags' where ags: "ags = ag # ags'" "group_loaded h p ag" "list_all2 (group_loaded h) ps ags'"
    using Cons.prems(1) by (auto simp: list_all2_Cons1)
  then obtain g where g: "dh_groups h (fst p) = Some g" "g_flags g = 1"
    "g_entries g = zip (map ae_key (ag_entries ag)) (snd p)" "list_all2 (entry_loaded h) (snd p) (ag_entries ag)"
    by (auto simp: group_loaded_def)
  have es: "map snd (g_entries g) = snd p" using g(3,4) by (auto dest: list_all2_lengthD)
  let ?h = "h\<lparr>dh_groups := (dh_groups h)(fst p \<mapsto> g\<lparr>g_flags := 0\<rparr>)\<rparr>"
  have "\<forall>a\<in>set (snd p). \<exists>e. dh_entries ?h a = Some e \<and> e_flags e = 1"
    using g(4) by (induction rule: list_all2_induct) (auto simp: entry_loaded_def)
  from clean_entries_ok [OF this, of "fst p"] Cons.prems obtain E where
    E: "clean_entries (fst p) (snd p) ?h = Some (?h\<lparr>dh_entries := E\<rparr>)" "same_content ?h (?h\<lparr>dh_entries := E\<rparr>)"
      "\<forall>a. a \<notin> set (snd p) \<longrightarrow> E a = dh_entries ?h a" by auto
  have others: "\<And>q. q \<in> set ps \<Longrightarrow> fst q \<noteq> fst p \<and> set (snd q) \<inter> set (snd p) = {}"
    using Cons.prems(2,3) by (auto simp: image_iff)
  have "list_all2 (group_loaded (?h\<lparr>dh_entries := E\<rparr>)) ps ags'"
    using ags(3) by (rule list.rel_mono_strong)
      (rule group_loaded_cong, use others E(3) in \<open>auto simp: disjoint_iff\<close>)
  from Cons.IH [OF this] Cons.prems obtain h' where
    h': "clean_groups (map fst ps) (?h\<lparr>dh_entries := E\<rparr>, f) = Some (h', f)" "same_content (?h\<lparr>dh_entries := E\<rparr>) h'"
    by auto
  have "same_content h ?h" using g by (auto simp: same_content_def)
  then have "same_content h h'" using E(2) h'(2) by (meson same_content_trans)
  moreover have "clean_groups (map fst (p # ps)) (h, f) = Some (h', f)"
    using h'(1) E(1) g(1,2) es by (simp add: FX_DESKTOP_GROUP_UPDATED_def upd_group_def fcitx_desktop_group_clean_def)
  ultimately show ?case by blast
qed

lemma group_loaded_at:
  assumes "group_loaded h p ag" "same_content h h'"
  shows "group_at h' p ag"
proof -
  obtain g where g: "dh_groups h (fst p) = Some g" "g_name g = ag_name ag" "g_comments g = ag_comments ag"
    "is_chain (snd p) (g_ends g, dh_elinks h)" "list_all2 (entry_loaded h) (snd p) (ag_entries ag)"
    using assms(1) by (auto simp: group_loaded_def)
  have "list_all2 (entry_at h') (snd p) (ag_entries ag)"
    using g(5) by (rule list_all2_mono) (use assms(2) in \<open>fastforce simp: entry_loaded_def entry_at_def same_content_def\<close>)
  moreover obtain g' where "dh_groups h' (fst p) = Some g'" "g_name g' = g_name g" "g_comments g' = g_comments g"
    "g_ends g' = g_ends g" using assms(2) g(1) unfolding same_content_def by blast
  moreover have "dh_elinks h' = dh_elinks h" using assms(2) by (simp add: same_content_def)
  ultimately show ?thesis using g by (simp add: group_at_def)
qed

section \<open>Round trip\<close>

lemma getlines_line: "0x0a \<notin> set l \<Longrightarrow> getlines (l @ 0x0a # t) = l # getlines t"
proof -
  assume "0x0a \<notin> set l"
  then have n: "strcspn (l @ 0x0a # t) [0x0a] = length l" by (intro strcspn_stop) auto
  obtain c s where c: "l @ 0x0a # t = c # s" by (cases l) auto
  show ?thesis unfolding c getlines.simps n [unfolded c] Let_def
    by (simp flip: c)
qed

lemma getlines_unlines: "\<forall>l\<in>set ls. 0x0a \<notin> set l \<Longrightarrow> getlines (unlines ls) = ls"
  by (induction ls) (simp_all add: getlines_line)

lemma file_lines_one: "file_ok c \<Longrightarrow> l \<in> set (file_lines c) \<Longrightarrow> 0x0a \<notin> set l"
  by (auto simp: file_lines_def group_lines_def entry_lines_def comment_lines_def file_ok_def group_ok_def
      entry_ok_def comment_ok_def key_ok_def name_ok_def one_line_def list_all_iff)

text \<open>
  C26: reading back what was written. A content whose keys and names the format can express (\<open>file_ok\<close>: one
  line each, no blanks around keys, no duplicates, no empty comments) is written as the text
  \<open>desktop_text\<close>; loading that text into a new file builds exactly this content, every group, entry,
  value and comment in its place, without following a dangling pointer, and writing it gives the same text
  again.
\<close>
theorem desktop_roundtrip:
  assumes ok: "file_ok c" and f: "fcitx_desktop_file_init i vt owner = Some f"
  shows "\<exists>s. fcitx_desktop_file_load_fp (desktop_text c) (h, f) = Some s \<and> holds s c \<and>
           fcitx_desktop_file_write_fp s = Some (desktop_text c)"
proof -
  let ?e = "\<lparr> af_groups = [], af_comments = [] \<rparr>"
  have f0: "f = \<lparr> f_ends = no_ends, f_comments = [], f_vtable = vt, f_groups = [], f_owner = owner, f_id = i \<rparr>"
    using f by (simp add: fcitx_desktop_file_init_def split: if_splits)
  have reset: "fcitx_desktop_file_reset (h, f) = Some (h, f)"
    by (simp add: fcitx_desktop_file_reset_def f0 reset_groups.simps no_ends_def)
  have "loading [] ?e ((h, f), None)" by (simp add: loading_def f0 no_ends_def)
  from load_group_items [OF _ _ this, of "af_groups c"] ok obtain ps s1 where
    s1: "load_lines (concat (map group_lines (af_groups c))) ((h, f), None) = Some s1"
      "loading ps \<lparr> af_groups = af_groups c, af_comments = [] \<rparr> s1" by (auto simp: file_ok_def)
  from load_comments [OF _ s1(2), of "af_comments c"] ok obtain s2 where
    s2: "load_lines (comment_lines (af_comments c)) s1 = Some s2"
      "loading ps \<lparr> af_groups = af_groups c, af_comments = af_comments c \<rparr> s2" by (auto simp: file_ok_def)
  obtain h2 f2 cur where st: "s2 = ((h2, f2), cur)" by (cases s2) auto
  note l = s2(2) [unfolded loading_def st, simplified]
  have "map snd (f_groups f2) = map fst ps" using l by (auto dest: list_all2_lengthD)
  moreover from l obtain h' where h': "clean_groups (map fst ps) (h2, f2) = Some (h', f2)" "same_content h2 h'"
    using clean_groups_ok [of h2 ps "af_groups c" f2] by auto
  moreover have "getlines (desktop_text c) = file_lines c"
    using ok by (simp add: desktop_text_def getlines_unlines file_lines_one)
  ultimately have load: "fcitx_desktop_file_load_fp (desktop_text c) (h, f) = Some (h', f2)"
    using s1(1) s2(1) h'(1) by (simp add: fcitx_desktop_file_load_fp_def reset file_lines_def load_lines_append st
        fcitx_desktop_file_clean_def)
  have "list_all2 (group_loaded h2) ps (af_groups c)" using l by auto
  then have "list_all2 (group_at h') ps (af_groups c)"
    by (rule list_all2_mono) (rule group_loaded_at [OF _ h'(2)])
  then have "holds_at (h', f2) ps c" using l h'(2) by (simp add: holds_at_def same_content_def)
  then have "holds (h', f2) c" by (auto simp: holds_def)
  with load write_file_ok ok show ?thesis by blast
qed


definition sample_file :: afile where
  "sample_file = \<lparr> af_groups = [
     \<lparr> ag_comments = [ascii ''top''], ag_name = ascii ''Desktop Entry'', ag_entries = [
         \<lparr> ae_comments = [], ae_key = ascii ''Name'', ae_value = ascii ''a = b'' \<rparr>,
         \<lparr> ae_comments = [ascii ''c''], ae_key = ascii ''Exec'', ae_value = [] \<rparr>] \<rparr>,
     \<lparr> ag_comments = [], ag_name = ascii ''x'', ag_entries = [] \<rparr>], af_comments = [ascii ''end''] \<rparr>"

lemma sample_file_ok: "file_ok sample_file"
  by code_simp

lemma desktop_init: "fcitx_desktop_file_init i None owner = Some
    \<lparr> f_ends = no_ends, f_comments = [], f_vtable = None, f_groups = [], f_owner = owner, f_id = i \<rparr>"
  by (simp add: fcitx_desktop_file_init_def fcitx_desktop_parse_check_vtable_def)

definition empty_heap :: dheap where
  "empty_heap = \<lparr> dh_glinks = \<lambda>_. None, dh_elinks = \<lambda>_. None, dh_groups = \<lambda>_. None, dh_entries = \<lambda>_. None,
     dh_brk = 0 \<rparr>"

lemma desktop_roundtrip_witness:
  "\<exists>s. holds s sample_file \<and> fcitx_desktop_file_write_fp s = Some (desktop_text sample_file)"
  using desktop_roundtrip [OF sample_file_ok desktop_init, of empty_heap] by blast

section \<open>What the format and the lists do not handle\<close>

text \<open>
  C27: a group is linked behind another one by \<open>link_after\<close> with the last pointer of the list as the
  other end. When the base is not the last group, the \<open>prev\<close> pointers no longer mirror the \<open>next\<close>
  pointers and the last group of the file is followed by another one: no list of groups is represented
  any more.
\<close>
theorem desktop_insert_inner_breaks:
  assumes c: "is_chain (xs @ b # y # ys) (f_ends f, dh_glinks h)"
    and a: "a \<notin> set (xs @ b # y # ys)" "dh_glinks h a \<noteq> None"
  shows "\<exists>h' f'. fcitx_desktop_file_link_group_after (Some b) a (h, f) = Some (h', f') \<and>
           d_last (f_ends f') = Some a \<and> map_option lk_next (dh_glinks h' a) = Some (Some y) \<and>
           (\<nexists>zs. is_chain zs (f_ends f', dh_glinks h'))"
proof -
  obtain d' L' where l: "link_after (Some b) a (f_ends f, dh_glinks h) = Some (d', L')" "d_last d' = Some a"
    "L' a = Some \<lparr> lk_prev = last_or None (y # ys), lk_next = Some y \<rparr>"
    using link_after_inner [OF c a] by blast
  then have "\<not> is_chain zs (d', L')" for zs using no_chain_last_next [of zs d' L' a] by auto
  with l show ?thesis by (auto simp: fcitx_desktop_file_link_group_after_def on_groups_def)
qed

definition two_groups :: dstate where
  "two_groups = (empty_heap\<lparr>dh_glinks := [0 \<mapsto> \<lparr> lk_prev = None, lk_next = Some 1 \<rparr>,
      1 \<mapsto> \<lparr> lk_prev = Some 0, lk_next = None \<rparr>, 2 \<mapsto> no_link]\<rparr>,
    \<lparr> f_ends = \<lparr> d_first = Some 0, d_last = Some 1 \<rparr>, f_comments = [], f_vtable = None, f_groups = [],
      f_owner = 0, f_id = 0 \<rparr>)"

lemma desktop_insert_inner_breaks_witness:
  "\<exists>h' f'. fcitx_desktop_file_link_group_after (Some 0) 2 two_groups = Some (h', f') \<and>
     (\<nexists>zs. is_chain zs (f_ends f', dh_glinks h'))"
  using desktop_insert_inner_breaks [of "[]" 0 1 "[]" "snd two_groups" "fst two_groups" 2]
  by (simp add: two_groups_def) blast

text \<open>
  Loading into a file that was loaded before: the resets stop after the first group and its first entry,
  since they clear the link that they follow. The old comments of a later entry come back as comments of
  whatever follows.
\<close>

definition reload_text :: buf where
  "reload_text = unlines [ascii ''[g]'', ascii ''k=v'', ascii ''#c'', ascii ''m=w'']"

lemma reload_adds_comment:
  "(do { f \<leftarrow> fcitx_desktop_file_init 0 None 0;
         s \<leftarrow> fcitx_desktop_file_load_fp reload_text (empty_heap, f);
         s \<leftarrow> fcitx_desktop_file_load_fp reload_text s;
         fcitx_desktop_file_write_fp s }) = Some (reload_text @ ascii ''#c'' @ [0x0a])"
  by code_simp

text \<open>Blanks between the key and the equals sign: the first of them is taken for the equals sign.\<close>

lemma trim_len_blanks:
  "k \<noteq> [] \<Longrightarrow> last k \<notin> set blank_chars \<Longrightarrow> set bs \<subseteq> set blank_chars \<Longrightarrow>
   trim_len (k @ bs @ t) (length k + length bs) = length k"
proof (induction bs arbitrary: t rule: rev_induct)
  case Nil
  then show ?case by (simp, intro trim_len_last) (auto simp: nth_append last_conv_nth)
next
  case (snoc b bs)
  from snoc.IH [of "b # t"] snoc.prems show ?case by (simp add: nth_append)
qed

lemma blank_before_equals:
  assumes k: "key_ok k" and bs: "set bs \<subseteq> set blank_chars" "bs = b # cs"
  shows "drop (fcitx_desktop_entry_key_len (k @ bs @ [0x3d] @ v) + 1) (k @ bs @ [0x3d] @ v) = cs @ [0x3d] @ v"
proof -
  have "strcspn ((k @ bs) @ 0x3d # v) [0x3d] = length (k @ bs)"
    using k bs(1) by (intro strcspn_stop) (auto simp: key_ok_def blank_chars_def)
  then have "fcitx_desktop_entry_key_len (k @ bs @ [0x3d] @ v) = length k"
    using trim_len_blanks [of k bs "0x3d # v"] k bs
    by (simp add: fcitx_desktop_entry_key_len_def key_ok_def rd_def nth_append)
  then show ?thesis by (simp add: bs(2))
qed

text \<open>A vtable with a hook that frees groups: the owner is read through a null pointer.\<close>

lemma free_group_hook_null:
  "dh_groups h ga = Some g \<Longrightarrow> g_vtable g = Some v \<Longrightarrow> vt_free_group v \<Longrightarrow> fcitx_desktop_group_free ga h = None"
  by (simp add: fcitx_desktop_group_free_def)

end
