(* ===== verification/Config_File.thy ===== *)
theory Config_File
  imports Config_Laws Desktop_Load
begin

text \<open>
  Saving a configuration and parsing the file again. The text is a function of the configuration after the
  save (\<open>config_lines\<close>), options with their default value are comments in it, and parsing it and completing
  it from the description restores the text of every option.
\<close>

section \<open>The lines of a saved file\<close>

definition option_comments :: "cenv \<Rightarrow> buf option \<Rightarrow> codesc \<Rightarrow> buf list" where
  "option_comments e dm d = (let hash = (\<lambda>t. ascii ''# '' @ t) in
     (if od_desc d = [] then [] else [hash (ce_gettext e dm (od_desc d))]) @
     (case od_type d of
        T_Enum \<Rightarrow> hash (ce_gettext e (Some (ascii ''fcitx'')) (ascii ''Available Value:'')) # map (hash o the) (od_enum d)
      | T_Boolean \<Rightarrow> [hash (ce_gettext e (Some (ascii ''fcitx'')) (ascii ''Available Value:'')), hash (ascii ''True False'')]
      | _ \<Rightarrow> []))"

definition option_entry :: "codesc \<Rightarrow> buf \<Rightarrow> buf" where
  "option_entry d r = (if od_default d = Some r then [0x23] else []) @ od_name d @ [0x3d] @ r"

definition raw_of :: "cfile \<Rightarrow> buf \<Rightarrow> buf \<Rightarrow> buf option" where
  "raw_of cf gn n = Option.bind (FcitxConfigFileGetOption cf gn n) co_raw"

definition group_texts :: "cenv \<Rightarrow> buf option \<Rightarrow> cfile \<Rightarrow> cgdesc \<Rightarrow> buf list" where
  "group_texts e dm cf gd = [[0x5b] @ gd_name gd @ [0x5d]] @
     concat (map (\<lambda>d. option_comments e dm d @ [option_entry d (the (raw_of cf (gd_name gd) (od_name d)))])
       (map snd (gd_opts gd))) @ [[]]"

definition config_lines :: "cenv \<Rightarrow> cfdesc \<Rightarrow> cfile \<Rightarrow> buf list" where
  "config_lines e fd cf = concat (map (group_texts e (fd_domain fd) cf) (map snd (fd_groups fd)))"

text \<open>Options without subkeys under their own names.\<close>

definition plain_options :: "cfile \<Rightarrow> bool" where
  "plain_options cf \<longleftrightarrow> options_all (\<lambda>gn n opt. co_name opt = n \<and> co_sub opt = []) cf"

section \<open>Saving\<close>

lemma option_func_keeps:
  "option_func loc t Value2Raw opt m = Some (r, opt', m') \<Longrightarrow> co_name opt' = co_name opt \<and> co_sub opt' = co_sub opt"
  by (cases t) (auto simp: option_func_def FcitxConfigOptionInteger_def FcitxConfigOptionColor_def
      FcitxConfigOptionBoolean_def FcitxConfigOptionEnum_def FcitxConfigOptionString_def set_raw_def
      FcitxConfigOptionI18NString_def FcitxConfigOptionHotkey_def FcitxConfigOptionChar_def bind_eq_Some_conv
      split: if_splits option.splits cvar.splits)

lemma sync_keeps:
  "FcitxConfigSyncValue e Value2Raw opt m = Some (opt', m') \<Longrightarrow> co_name opt' = co_name opt \<and> co_sub opt' = co_sub opt"
  by (auto simp: FcitxConfigSyncValue_def use_default_def set_raw_def bind_eq_Some_conv Let_def
      dest!: option_func_keeps split: option.splits if_splits)

lemma enum_comments_lines:
  "enum_comments es = Some t \<Longrightarrow> t = unlines (map ((\<lambda>t. ascii ''# '' @ t) o the) es)"
  by (induction es arbitrary: t) (auto simp: bind_eq_Some_conv comment_line_def)

lemma type_comment_lines:
  "type_comment e d = Some t \<Longrightarrow> desc_comment e dm d @ t = unlines (option_comments e dm d)"
  by (auto simp: type_comment_def desc_comment_def option_comments_def Let_def comment_line_def
      dest!: enum_comments_lines split: ctype.splits)

lemma save_option_text:
  assumes "save_option e dm gn d (Some cf, m) = Some (t, c', m')" "has_option cf gn (od_name d)" "plain_options cf"
  obtains cf' r where "c' = Some cf'" "raw_of cf' gn (od_name d) = Some r"
    "t = unlines (option_comments e dm d @ [option_entry d r])" "plain_options cf'"
    "\<And>g k. has_option cf' g k = has_option cf g k"
    "\<And>g k. g \<noteq> gn \<or> k \<noteq> od_name d \<Longrightarrow> raw_of cf' g k = raw_of cf g k"
proof -
  obtain opt where opt: "FcitxConfigFileGetOption cf gn (od_name d) = Some opt"
    using assms(2) by (auto simp: has_option_def)
  have plain: "co_name opt = od_name d" "co_sub opt = []"
    using assms(3) opt by (auto simp: plain_options_def options_all_def)
  from assms(1) opt obtain t0 opt' m1 l where s: "type_comment e d = Some t0"
    "FcitxConfigSyncValue e Value2Raw opt m = Some (opt', m1)" "option_lines d opt' = Some l"
    "t = desc_comment e dm d @ t0 @ l" "c' = Some (put_option gn (od_name d) opt' cf)"
    by (auto simp: save_option_def bind_eq_Some_conv Let_def)
  have keep: "co_name opt' = od_name d" "co_sub opt' = []" using sync_keeps [OF s(2)] plain by auto
  then obtain r where r: "co_raw opt' = Some r" "l = unlines [option_entry d r]"
    using s(3) by (auto simp: option_lines_def bind_eq_Some_conv subkey_lines_def entry_line_def option_entry_def)
  show ?thesis
  proof (rule that)
    show "c' = Some (put_option gn (od_name d) opt' cf)" by (rule s)
    show "raw_of (put_option gn (od_name d) opt' cf) gn (od_name d) = Some r"
      using opt r by (simp add: raw_of_def get_put_option)
    show "t = unlines (option_comments e dm d @ [option_entry d r])"
      using type_comment_lines [OF s(1), of dm] by (simp add: s(4) r(2))
    show "plain_options (put_option gn (od_name d) opt' cf)"
      using assms(3) keep unfolding plain_options_def by (intro options_all_put) auto
  qed (auto simp: raw_of_def get_put_option)
qed

lemma save_options_text:
  "save_options e dm gn ds (Some cf, m) = Some (t, c', m') \<Longrightarrow> distinct (map od_name ds) \<Longrightarrow>
   \<forall>d\<in>set ds. has_option cf gn (od_name d) \<Longrightarrow> plain_options cf \<Longrightarrow>
   \<exists>cf'. c' = Some cf' \<and> plain_options cf' \<and> (\<forall>g k. has_option cf' g k = has_option cf g k) \<and>
     t = unlines (concat (map (\<lambda>d. option_comments e dm d @ [option_entry d (the (raw_of cf' gn (od_name d)))]) ds)) \<and>
     (\<forall>d\<in>set ds. raw_of cf' gn (od_name d) \<noteq> None) \<and>
     (\<forall>g k. g \<noteq> gn \<or> k \<notin> od_name ` set ds \<longrightarrow> raw_of cf' g k = raw_of cf g k)"
proof (induction ds arbitrary: cf m t)
  case (Cons d ds)
  from Cons.prems(1) obtain t1 c1 m1 t2 where s: "save_option e dm gn d (Some cf, m) = Some (t1, c1, m1)"
    "save_options e dm gn ds (c1, m1) = Some (t2, c', m')" "t = t1 @ t2"
    by (auto simp: bind_eq_Some_conv)
  have "has_option cf gn (od_name d)" using Cons.prems(3) by simp
  from save_option_text [OF s(1) this Cons.prems(4)] obtain cf1 r where c1: "c1 = Some cf1"
    "raw_of cf1 gn (od_name d) = Some r" "t1 = unlines (option_comments e dm d @ [option_entry d r])"
    "plain_options cf1" "\<And>g k. has_option cf1 g k = has_option cf g k"
    "\<And>g k. g \<noteq> gn \<or> k \<noteq> od_name d \<Longrightarrow> raw_of cf1 g k = raw_of cf g k" by metis
  have "\<forall>d\<in>set ds. has_option cf1 gn (od_name d)" using Cons.prems(3) c1(5) by simp
  from Cons.IH [OF s(2) [unfolded c1(1)] _ this c1(4)] Cons.prems(2) obtain cf' where cf': "c' = Some cf'"
    "plain_options cf'" "\<forall>g k. has_option cf' g k = has_option cf1 g k"
    "t2 = unlines (concat (map (\<lambda>d. option_comments e dm d @ [option_entry d (the (raw_of cf' gn (od_name d)))]) ds))"
    "\<forall>d\<in>set ds. raw_of cf' gn (od_name d) \<noteq> None"
    "\<forall>g k. g \<noteq> gn \<or> k \<notin> od_name ` set ds \<longrightarrow> raw_of cf' g k = raw_of cf1 g k" by auto
  have "raw_of cf' gn (od_name d) = Some r" using cf'(6) c1(2) Cons.prems(2) by auto
  then show ?case using s(3) c1 cf' by (intro exI [of _ cf']) auto
next
  case Nil
  then show ?case by (intro exI [of _ cf]) auto
qed

lemma group_texts_cong:
  "(\<And>d. d \<in> set (map snd (gd_opts gd)) \<Longrightarrow> raw_of cf' (gd_name gd) (od_name d) = raw_of cf (gd_name gd) (od_name d)) \<Longrightarrow>
   group_texts e dm cf' gd = group_texts e dm cf gd"
  by (auto simp: group_texts_def intro!: arg_cong [where f = concat])

lemma save_groups_text:
  "save_groups e dm gds (Some cf, m) = Some (t, c', m') \<Longrightarrow> distinct (map gd_name gds) \<Longrightarrow>
   \<forall>gd\<in>set gds. distinct (map od_name (map snd (gd_opts gd))) \<Longrightarrow>
   \<forall>gn n d. desc_in gds gn n d \<longrightarrow> has_option cf gn n \<Longrightarrow> plain_options cf \<Longrightarrow>
   \<exists>cf'. c' = Some cf' \<and> t = unlines (concat (map (group_texts e dm cf') gds)) \<and>
     (\<forall>gn n d. desc_in gds gn n d \<longrightarrow> raw_of cf' gn n \<noteq> None) \<and>
     (\<forall>g k. g \<notin> gd_name ` set gds \<longrightarrow> raw_of cf' g k = raw_of cf g k)"
proof (induction gds arbitrary: cf m t)
  case Nil
  then show ?case by (intro exI [of _ cf]) (auto simp: desc_in_def)
next
  case (Cons gd gds)
  let ?ds = "map snd (gd_opts gd)" and ?gn = "gd_name gd"
  from Cons.prems(1) obtain t1 c1 m1 t2 where s: "save_options e dm ?gn ?ds (Some cf, m) = Some (t1, c1, m1)"
    "save_groups e dm gds (c1, m1) = Some (t2, c', m')" "t = [0x5b] @ ?gn @ [0x5d, 0x0a] @ t1 @ [0x0a] @ t2"
    by (auto simp: bind_eq_Some_conv)
  have "\<forall>d\<in>set ?ds. has_option cf ?gn (od_name d)" using Cons.prems(4) by (auto simp: desc_in_Cons)
  with save_options_text [OF s(1)] Cons.prems(3,5) obtain cf1 where c1: "c1 = Some cf1" "plain_options cf1"
    "\<forall>g k. has_option cf1 g k = has_option cf g k"
    "t1 = unlines (concat (map (\<lambda>d. option_comments e dm d @ [option_entry d (the (raw_of cf1 ?gn (od_name d)))]) ?ds))"
    "\<forall>d\<in>set ?ds. raw_of cf1 ?gn (od_name d) \<noteq> None"
    "\<forall>g k. g \<noteq> ?gn \<or> k \<notin> od_name ` set ?ds \<longrightarrow> raw_of cf1 g k = raw_of cf g k" by auto
  have "\<forall>gn n d. desc_in gds gn n d \<longrightarrow> has_option cf1 gn n"
    using Cons.prems(4) c1(3) by (auto simp: desc_in_Cons)
  from Cons.IH [OF s(2) [unfolded c1(1)] _ _ this c1(2)] Cons.prems(2,3) obtain cf' where cf': "c' = Some cf'"
    "t2 = unlines (concat (map (group_texts e dm cf') gds))"
    "\<forall>gn n d. desc_in gds gn n d \<longrightarrow> raw_of cf' gn n \<noteq> None"
    "\<forall>g k. g \<notin> gd_name ` set gds \<longrightarrow> raw_of cf' g k = raw_of cf1 g k" by auto
  have same: "raw_of cf' ?gn k = raw_of cf1 ?gn k" for k using cf'(4) Cons.prems(2) by auto
  have "group_texts e dm cf' gd = group_texts e dm cf1 gd" by (rule group_texts_cong) (rule same)
  then have "t = unlines (concat (map (group_texts e dm cf') (gd # gds)))"
    using s(3) c1(4) cf'(2) by (simp add: group_texts_def)
  then show ?case using cf' c1 same by (intro exI [of _ cf']) (auto simp: desc_in_Cons)
qed


text \<open>Saving only reads the variables, when the filters leave them alone.\<close>

lemma option_func_vars: "option_func loc t Value2Raw opt m = Some (r, opt', m') \<Longrightarrow> m' = m"
  by (cases t) (auto simp: option_func_def FcitxConfigOptionInteger_def FcitxConfigOptionColor_def
      FcitxConfigOptionBoolean_def FcitxConfigOptionEnum_def FcitxConfigOptionString_def set_raw_def
      FcitxConfigOptionI18NString_def FcitxConfigOptionHotkey_def FcitxConfigOptionChar_def bind_eq_Some_conv
      split: if_splits option.splits cvar.splits)

lemma sync_vars:
  "FcitxConfigSyncValue e Value2Raw opt m = Some (opt', m') \<Longrightarrow> (\<And>f x s v m. ce_filter e f x s v m = m) \<Longrightarrow> m' = m"
  by (auto simp: FcitxConfigSyncValue_def run_filter_def use_default_def bind_eq_Some_conv Let_def
      dest!: option_func_vars split: option.splits if_splits)

lemma save_options_vars:
  "save_options e dm gn ds (c, m) = Some (t, c', m') \<Longrightarrow> (\<And>f x s v m. ce_filter e f x s v m = m) \<Longrightarrow> m' = m"
proof (induction ds arbitrary: c m t)
  case (Cons d ds)
  from Cons.prems(1) obtain t1 c1 m1 t2 where s: "save_option e dm gn d (c, m) = Some (t1, c1, m1)"
    "save_options e dm gn ds (c1, m1) = Some (t2, c', m')" by (auto simp: bind_eq_Some_conv)
  have "m1 = m" using s(1) sync_vars [OF _ Cons.prems(2)]
    by (auto simp: save_option_def bind_eq_Some_conv Let_def split: option.splits)
  then show ?case using Cons.IH [OF s(2) Cons.prems(2)] by simp
qed simp

lemma save_groups_vars:
  "save_groups e dm gds (c, m) = Some (t, c', m') \<Longrightarrow> (\<And>f x s v m. ce_filter e f x s v m = m) \<Longrightarrow> m' = m"
proof (induction gds arbitrary: c m t)
  case (Cons gd gds)
  from Cons.prems(1) obtain t1 c1 m1 t2 where s:
    "save_options e dm (gd_name gd) (map snd (gd_opts gd)) (c, m) = Some (t1, c1, m1)"
    "save_groups e dm gds (c1, m1) = Some (t2, c', m')" by (auto simp: bind_eq_Some_conv)
  then show ?case using Cons.IH [OF s(2) Cons.prems(2)] save_options_vars [OF s(1) Cons.prems(2)] by simp
qed simp

lemma save_vars:
  "FcitxConfigSaveConfigFileFp e fd (c, m) = Some (t, c', m') \<Longrightarrow> (\<And>f x s v m. ce_filter e f x s v m = m) \<Longrightarrow> m' = m"
  unfolding FcitxConfigSaveConfigFileFp_def by (rule save_groups_vars)

section \<open>Which texts come back\<close>

text \<open>
  Names and texts that the format can express: one line each, and no blank where the parser trims. Translations
  and descriptions must not break their comment lines.
\<close>

definition oname_ok :: "buf \<Rightarrow> bool" where
  "oname_ok n \<longleftrightarrow> one_line n \<and> n \<noteq> [] \<and> 0x3d \<notin> set n \<and> 0x5b \<notin> set n \<and> hd n \<noteq> 0x23 \<and> \<not> isspace (hd n)"

definition gname_ok :: "buf \<Rightarrow> bool" where
  "gname_ok n \<longleftrightarrow> one_line n \<and> n \<noteq> []"

definition raw_ok :: "buf \<Rightarrow> bool" where
  "raw_ok r \<longleftrightarrow> one_line r \<and> (r \<noteq> [] \<longrightarrow> \<not> isspace (last r))"

definition desc_ok :: "cenv \<Rightarrow> cfdesc \<Rightarrow> bool" where
  "desc_ok e fd \<longleftrightarrow> distinct (map (gd_name o snd) (fd_groups fd)) \<and>
     list_all (\<lambda>gd. gname_ok (gd_name gd) \<and> distinct (map (od_name o snd) (gd_opts gd)) \<and>
       list_all (\<lambda>d. oname_ok (od_name d) \<and> list_all one_line (option_comments e (fd_domain fd) d)) (map snd (gd_opts gd)))
     (map snd (fd_groups fd))"

section \<open>Parsing lines\<close>

lemma trim_id:
  assumes "s \<noteq> []" "\<not> isspace (hd s)" "\<not> isspace (last s)"
  shows "fcitx_utils_trim s = s"
proof -
  obtain l t r where s: "s = l @ t @ r" "\<forall>c\<in>set l \<union> set r. isspace c" "fcitx_utils_trim s = t"
    using trim_spec [of s] by blast
  have "l = []" using assms(2) s by (cases l) auto
  moreover have "r = []" using assms(3) s by (cases r rule: rev_cases) auto
  ultimately show ?thesis using s by simp
qed

lemma trim_hd:
  assumes "\<not> isspace c"
  shows "\<exists>t. fcitx_utils_trim (c # s) = c # t"
proof -
  obtain l r where e: "c # s = l @ fcitx_utils_trim (c # s) @ r" "\<forall>x\<in>set l \<union> set r. isspace x"
    using trim_spec [of "c # s"] by blast
  then have "l = []" using assms by (cases l) auto
  moreover have "fcitx_utils_trim (c # s) \<noteq> []" using e calculation assms by (cases r) auto
  ultimately show ?thesis using e(1) by (cases "fcitx_utils_trim (c # s)") auto
qed

lemma ini_comment: "one_line (0x23 # t) \<Longrightarrow> ini_line (0x23 # t) s = Some s"
proof -
  assume "one_line (0x23 # t)"
  then have "cut_line (0x23 # t) = 0x23 # t" by (auto simp: one_line_def cut_line_def takeWhile_eq_all_conv)
  moreover obtain u where "fcitx_utils_trim (0x23 # t) = 0x23 # u" using trim_hd [of "0x23" t] by (auto simp: isspace_def)
  ultimately show ?thesis by (simp add: ini_line_def)
qed

lemma ini_blank: "ini_line [] s = Some s"
  by (simp add: ini_line_def cut_line_def fcitx_utils_trim_def strspn_def)

lemma ini_entry_line:
  assumes n: "oname_ok n" and r: "raw_ok r"
  shows "ini_line (n @ [0x3d] @ r) (cf, Some gn) = Some (case hash_find (cf_groups cf) gn of None \<Rightarrow> (cf, Some gn)
     | Some g \<Rightarrow> (cf\<lparr>cf_groups := hash_upd (cf_groups cf) gn (put_entry n None r g)\<rparr>, Some gn))"
proof -
  obtain b n' where b: "n = b # n'" "b \<noteq> 0x23" "b \<noteq> 0x5b" "\<not> isspace b"
    using n by (cases n) (auto simp: oname_ok_def)
  have cut: "cut_line (n @ [0x3d] @ r) = n @ [0x3d] @ r"
    using n r by (auto simp: oname_ok_def raw_ok_def one_line_def cut_line_def takeWhile_eq_all_conv)
  have trim: "fcitx_utils_trim (n @ [0x3d] @ r) = n @ [0x3d] @ r"
  proof (rule trim_id)
    show "\<not> isspace (last (n @ [0x3d] @ r))" using r by (auto simp: raw_ok_def isspace_def)
  qed (use b in auto)
  have eq: "strcspn (n @ 0x3d # r) [0x3d] = length n"
    using n by (intro strcspn_stop) (auto simp: oname_ok_def)
  have "strcspn n [0x5b] = length n" using n by (intro strcspn_none) (auto simp: oname_ok_def)
  then have "split_name n = (n, None)" by (simp add: split_name_def)
  then have "ini_entry (n @ 0x3d # r) (cf, Some gn) = (case hash_find (cf_groups cf) gn of None \<Rightarrow> (cf, Some gn)
     | Some g \<Rightarrow> (cf\<lparr>cf_groups := hash_upd (cf_groups cf) gn (put_entry n None r g)\<rparr>, Some gn))"
    using b eq by (simp add: ini_entry_def split: option.split)
  then show ?thesis using b(2,3) cut trim by (simp add: ini_line_def Let_def b(1))
qed

lemma ini_group_line:
  assumes g: "gname_ok gn" and new: "hash_find (cf_groups cf) gn = None"
  shows "ini_line ([0x5b] @ gn @ [0x5d]) (cf, cur) =
     Some (cf\<lparr>cf_groups := hash_add (cf_groups cf) gn \<lparr> cg_name = gn, cg_opts = [] \<rparr>\<rparr>, Some gn)"
proof -
  have cut: "cut_line ([0x5b] @ gn @ [0x5d]) = [0x5b] @ gn @ [0x5d]"
    using g by (auto simp: gname_ok_def one_line_def cut_line_def takeWhile_eq_all_conv)
  have trim: "fcitx_utils_trim ([0x5b] @ gn @ [0x5d]) = [0x5b] @ gn @ [0x5d]"
    by (rule trim_id) (auto simp: isspace_def)
  show ?thesis using g new cut trim by (simp add: ini_line_def Let_def ini_group_def gname_ok_def)
qed

lemma ini_lines_append: "ini_lines (xs @ ys) s = ini_lines xs s \<bind> ini_lines ys"
proof (induction xs arbitrary: s)
  case (Cons x xs)
  then show ?case by (cases "ini_line x s") simp_all
qed simp

lemma ini_comments:
  "\<forall>l\<in>set ls. one_line l \<and> (\<exists>t. l = 0x23 # t) \<Longrightarrow> ini_lines ls s = Some s"
  by (induction ls) (auto simp: ini_comment)

lemma option_comments_hash: "l \<in> set (option_comments e dm d) \<Longrightarrow> \<exists>t. l = 0x23 # t"
  by (auto simp: option_comments_def Let_def ascii_def split: if_splits ctype.splits)

section \<open>Parsing a saved file\<close>

text \<open>What the parser builds from the options of a group: those that are not at their default.\<close>

definition written :: "(buf \<Rightarrow> buf option) \<Rightarrow> codesc list \<Rightarrow> (buf, copt) uthash" where
  "written raw ds = concat (map (\<lambda>d. let r = the (raw (od_name d)) in
     if od_default d = Some r then [] else [(od_name d, new_option (od_name d) r)]) ds)"

lemma hash_upd_last: "hash_upd (pre @ [(k, v)]) k w = pre @ [(k, w)]"
  by (simp add: hash_upd_def)

lemma hash_find_last: "hash_find (pre @ [(k, v)]) k = Some v"
  by (simp add: hash_find_def)

lemma put_entry_new:
  "hash_find opts n = None \<Longrightarrow> put_entry n None r \<lparr> cg_name = gn, cg_opts = opts \<rparr> =
     \<lparr> cg_name = gn, cg_opts = opts @ [(n, new_option n r)] \<rparr>"
  by (simp add: put_entry_def hash_add_def)

lemma hash_find_none: "hash_find h k = None \<longleftrightarrow> k \<notin> fst ` set h"
  by (simp add: hash_find_def map_of_eq_None_iff)

lemma written_keys: "fst ` set (written raw ds) \<subseteq> od_name ` set ds"
  by (auto simp: written_def Let_def split: if_splits)

lemma written_Cons: "written raw (d # ds) = written raw [d] @ written raw ds"
  by (simp add: written_def)

lemma disjoint_add: "A \<subseteq> {x} \<Longrightarrow> x \<notin> C \<Longrightarrow> B \<inter> C = {} \<Longrightarrow> (B \<union> A) \<inter> C = {}"
  by blast

lemma parse_options:
  "\<forall>d\<in>set ds. oname_ok (od_name d) \<and> list_all one_line (option_comments e dm d) \<and>
     (\<exists>r. raw (od_name d) = Some r \<and> raw_ok r) \<Longrightarrow> distinct (map od_name ds) \<Longrightarrow>
   fst ` set opts \<inter> od_name ` set ds = {} \<Longrightarrow>
   ini_lines (concat (map (\<lambda>d. option_comments e dm d @ [option_entry d (the (raw (od_name d)))]) ds))
     (cf\<lparr>cf_groups := pre @ [(gn, \<lparr> cg_name = gn, cg_opts = opts \<rparr>)]\<rparr>, Some gn) =
   Some (cf\<lparr>cf_groups := pre @ [(gn, \<lparr> cg_name = gn, cg_opts = opts @ written raw ds \<rparr>)]\<rparr>, Some gn)"
proof (induction ds arbitrary: opts)
  case Nil
  show ?case by (simp add: written_def)
next
  case (Cons d ds)
  let ?s = "\<lambda>os. (cf\<lparr>cf_groups := pre @ [(gn, \<lparr> cg_name = gn, cg_opts = os \<rparr>)]\<rparr>, Some gn)"
  let ?f = "\<lambda>d. option_comments e dm d @ [option_entry d (the (raw (od_name d)))]"
  obtain r where r: "raw (od_name d) = Some r" "raw_ok r" using Cons.prems(1) by auto
  have com: "ini_lines (option_comments e dm d) (?s opts) = Some (?s opts)"
    using Cons.prems(1) option_comments_hash by (intro ini_comments) (auto simp: list_all_iff)
  have ent: "ini_line (option_entry d r) (?s opts) = Some (?s (opts @ written raw [d]))"
  proof (cases "od_default d = Some r")
    case True
    have "one_line (0x23 # od_name d @ [0x3d] @ r)"
      using Cons.prems(1) r by (auto simp: oname_ok_def raw_ok_def one_line_def)
    from ini_comment [OF this] True r show ?thesis by (simp add: option_entry_def written_def)
  next
    case False
    have "oname_ok (od_name d)" using Cons.prems(1) by simp
    moreover have "hash_find opts (od_name d) = None" using Cons.prems(3) by (auto simp: hash_find_none)
    ultimately show ?thesis using False r ini_entry_line [OF _ r(2)]
      by (simp add: option_entry_def written_def hash_find_last hash_upd_last put_entry_new)
  qed
  have "fst ` set (opts @ written raw [d]) \<inter> od_name ` set ds = {}"
  proof -
    have "fst ` set (written raw [d]) \<subseteq> {od_name d}" using written_keys [of raw "[d]"] by simp
    moreover have "od_name d \<notin> od_name ` set ds" using Cons.prems(2) by auto
    moreover have "fst ` set opts \<inter> od_name ` set ds = {}" using Cons.prems(3) by auto
    ultimately show ?thesis unfolding set_append image_Un by (rule disjoint_add)
  qed
  note fresh = this
  have "ini_lines (concat (map ?f ds)) (?s (opts @ written raw [d])) = Some (?s ((opts @ written raw [d]) @ written raw ds))"
  proof (rule Cons.IH)
    show "\<forall>d\<in>set ds. oname_ok (od_name d) \<and> list_all one_line (option_comments e dm d) \<and>
        (\<exists>r. raw (od_name d) = Some r \<and> raw_ok r)" by (rule ballI, rule bspec [OF Cons.prems(1)]) (rule list.set_intros(2))
    show "distinct (map od_name ds)" using Cons.prems(2) by simp
  qed (rule fresh)
  then have rest: "ini_lines (concat (map ?f ds)) (?s (opts @ written raw [d])) = Some (?s (opts @ written raw (d # ds)))"
    by (simp only: written_Cons [of raw d ds] append_assoc)
  have "concat (map ?f (d # ds)) = option_comments e dm d @ [option_entry d r] @ concat (map ?f ds)"
    using r by simp
  then have "ini_lines (concat (map ?f (d # ds))) (?s opts) =
      ini_lines (option_comments e dm d @ [option_entry d r] @ concat (map ?f ds)) (?s opts)" by (rule arg_cong)
  also have "\<dots> = ini_lines (concat (map ?f ds)) (?s (opts @ written raw [d]))"
    unfolding ini_lines_append com by (simp only: ini_lines.simps bind.simps ent)
  also note rest
  finally show ?case .
qed

lemma parse_groups:
  assumes "\<forall>gd\<in>set gds. gname_ok (gd_name gd) \<and> distinct (map od_name (map snd (gd_opts gd))) \<and>
      (\<forall>d\<in>set (map snd (gd_opts gd)). oname_ok (od_name d) \<and> list_all one_line (option_comments e dm d) \<and>
        (\<exists>r. raw_of cf (gd_name gd) (od_name d) = Some r \<and> raw_ok r))"
    and "distinct (map gd_name gds)" "fst ` set pre \<inter> gd_name ` set gds = {}"
  shows "\<exists>cur'. ini_lines (concat (map (group_texts e dm cf) gds)) (cf0\<lparr>cf_groups := pre\<rparr>, cur) =
     Some (cf0\<lparr>cf_groups := pre @ map (\<lambda>gd. (gd_name gd, \<lparr> cg_name = gd_name gd,
       cg_opts = written (raw_of cf (gd_name gd)) (map snd (gd_opts gd)) \<rparr>)) gds\<rparr>, cur')"
  using assms
proof (induction gds arbitrary: pre cur)
  case (Cons gd gds)
  let ?gn = "gd_name gd" and ?ds = "map snd (gd_opts gd)"
  let ?g = "\<lambda>os. (?gn, \<lparr> cg_name = ?gn, cg_opts = os \<rparr>)"
  have "hash_find (cf_groups (cf0\<lparr>cf_groups := pre\<rparr>)) ?gn = None" using Cons.prems(3) by (auto simp: hash_find_none)
  moreover have "gname_ok ?gn" using Cons.prems(1) by simp
  ultimately have head: "ini_line ([0x5b] @ ?gn @ [0x5d]) (cf0\<lparr>cf_groups := pre\<rparr>, cur) =
      Some (cf0\<lparr>cf_groups := pre @ [?g []]\<rparr>, Some ?gn)"
    using ini_group_line by (simp add: hash_add_def)
  have body: "ini_lines (concat (map (\<lambda>d. option_comments e dm d @ [option_entry d (the (raw_of cf ?gn (od_name d)))]) ?ds))
     (cf0\<lparr>cf_groups := pre @ [?g []]\<rparr>, Some ?gn) =
   Some (cf0\<lparr>cf_groups := pre @ [?g ([] @ written (raw_of cf ?gn) ?ds)]\<rparr>, Some ?gn)"
    by (rule parse_options) (use Cons.prems(1) in auto)
  have "fst ` set (pre @ [?g (written (raw_of cf ?gn) ?ds)]) \<inter> gd_name ` set gds = {}"
    using Cons.prems(2,3) by auto
  from Cons.IH [OF _ _ this, of "Some ?gn"] Cons.prems(1,2) obtain cur' where
    "ini_lines (concat (map (group_texts e dm cf) gds)) (cf0\<lparr>cf_groups := pre @ [?g (written (raw_of cf ?gn) ?ds)]\<rparr>, Some ?gn) =
     Some (cf0\<lparr>cf_groups := (pre @ [?g (written (raw_of cf ?gn) ?ds)]) @ map (\<lambda>gd. (gd_name gd, \<lparr> cg_name = gd_name gd,
       cg_opts = written (raw_of cf (gd_name gd)) (map snd (gd_opts gd)) \<rparr>)) gds\<rparr>, cur')" by auto
  then show ?case using head body by (simp add: group_texts_def [of e dm cf gd] ini_lines_append ini_blank)
qed auto

section \<open>Completing what was parsed\<close>

lemma check_option_raw:
  assumes "(case hash_find (cg_opts g) (od_name d) of Some opt \<Rightarrow> co_raw opt | None \<Rightarrow> od_default d) = Some r"
  obtains g' opt where "check_option d g = Some g'" "hash_find (cg_opts g') (od_name d) = Some opt" "co_raw opt = Some r"
    "\<And>k. k \<noteq> od_name d \<Longrightarrow> hash_find (cg_opts g') k = hash_find (cg_opts g) k"
proof (cases "hash_find (cg_opts g) (od_name d)")
  case None
  show ?thesis
  proof (rule that [of _ "(new_option (od_name d) r)\<lparr>co_desc := Some d\<rparr>"])
    show "check_option d g = Some (g\<lparr>cg_opts := hash_add (cg_opts g) (od_name d)
        ((new_option (od_name d) r)\<lparr>co_desc := Some d\<rparr>)\<rparr>)" using assms None by (simp add: check_option_def)
  qed (simp_all add: new_option_def hash_finds None)
next
  case (Some opt)
  show ?thesis
  proof (rule that [of _ "opt\<lparr>co_desc := Some d\<rparr>"])
    show "check_option d g = Some (g\<lparr>cg_opts := hash_upd (cg_opts g) (od_name d) (opt\<lparr>co_desc := Some d\<rparr>)\<rparr>)"
      using Some by (simp add: check_option_def)
  qed (use assms in \<open>simp_all add: hash_finds Some\<close>)
qed

lemma check_options_raw:
  "\<forall>d\<in>set ds. (case hash_find (cg_opts g) (od_name d) of Some opt \<Rightarrow> co_raw opt | None \<Rightarrow> od_default d) =
      Some (the (raw (od_name d))) \<Longrightarrow>
   \<exists>g'. check_options ds g = Some g' \<and>
     (\<forall>d\<in>set ds. \<exists>opt. hash_find (cg_opts g') (od_name d) = Some opt \<and> co_raw opt = Some (the (raw (od_name d)))) \<and>
     (\<forall>k. k \<notin> od_name ` set ds \<longrightarrow> hash_find (cg_opts g') k = hash_find (cg_opts g) k)"
proof (induction ds arbitrary: g)
  case (Cons d ds)
  from Cons.prems have "(case hash_find (cg_opts g) (od_name d) of Some opt \<Rightarrow> co_raw opt | None \<Rightarrow> od_default d) =
      Some (the (raw (od_name d)))" by simp
  from check_option_raw [OF this] obtain g1 opt where g1: "check_option d g = Some g1"
    "hash_find (cg_opts g1) (od_name d) = Some opt" "co_raw opt = Some (the (raw (od_name d)))"
    "\<And>k. k \<noteq> od_name d \<Longrightarrow> hash_find (cg_opts g1) k = hash_find (cg_opts g) k" by blast
  have "(case hash_find (cg_opts g1) (od_name x) of Some opt \<Rightarrow> co_raw opt | None \<Rightarrow> od_default x) =
      Some (the (raw (od_name x)))" if "x \<in> set ds" for x
  proof (cases "od_name x = od_name d")
    case False
    then show ?thesis using Cons.prems that g1(4) by simp
  qed (use g1 in simp)
  with Cons.IH [of g1] obtain g' where g': "check_options ds g1 = Some g'"
    "\<forall>x\<in>set ds. \<exists>opt. hash_find (cg_opts g') (od_name x) = Some opt \<and> co_raw opt = Some (the (raw (od_name x)))"
    "\<forall>k. k \<notin> od_name ` set ds \<longrightarrow> hash_find (cg_opts g') k = hash_find (cg_opts g1) k" by blast
  have "\<exists>opt. hash_find (cg_opts g') (od_name d) = Some opt \<and> co_raw opt = Some (the (raw (od_name d)))"
  proof (cases "od_name d \<in> od_name ` set ds")
    case True
    then obtain x where "x \<in> set ds" "od_name x = od_name d" by (metis imageE)
    then show ?thesis using g'(2) by metis
  next
    case False
    then show ?thesis using g'(3) g1(2,3) by simp
  qed
  then show ?case using g1 g' by (intro exI [of _ g']) simp
qed simp

lemma written_find:
  "distinct (map od_name ds) \<Longrightarrow> d \<in> set ds \<Longrightarrow> raw (od_name d) = Some r \<Longrightarrow>
   hash_find (written raw ds) (od_name d) = (if od_default d = Some r then None else Some (new_option (od_name d) r))"
proof (induction ds)
  case (Cons x ds)
  show ?case
  proof (cases "x = d")
    case True
    then have "od_name d \<notin> fst ` set (written raw ds)" using Cons.prems(1) written_keys [of raw ds] by auto
    then have none: "hash_find (written raw ds) (od_name d) = None" by (simp add: hash_find_none)
    have "written raw [x] = (if od_default d = Some r then [] else [(od_name d, new_option (od_name d) r)])"
      using True Cons.prems(3) by (simp add: written_def)
    with none show ?thesis unfolding written_Cons [of raw x ds] by (simp add: hash_find_def map_add_def)
  next
    case False
    then have d: "d \<in> set ds" using Cons.prems(2) by simp
    then have "od_name d \<noteq> od_name x" using Cons.prems(1) by (metis distinct.simps(2) imageI list.simps(9) set_map)
    then have "od_name d \<notin> fst ` set (written raw [x])" using written_keys [of raw "[x]"] by auto
    then have "map_of (rev (written raw [x])) (od_name d) = None" by (simp add: map_of_eq_None_iff)
    then show ?thesis using Cons.IH d Cons.prems unfolding written_Cons [of raw x ds]
      by (simp add: hash_find_def map_add_def split: option.split)
  qed
qed simp

lemma check_groups_raw:
  "\<forall>gd\<in>set gds. distinct (map od_name (map snd (gd_opts gd))) \<and>
     hash_find (cf_groups cf) (gd_name gd) = Some \<lparr> cg_name = gd_name gd,
       cg_opts = written (raw (gd_name gd)) (map snd (gd_opts gd)) \<rparr> \<and>
     (\<forall>d\<in>set (map snd (gd_opts gd)). raw (gd_name gd) (od_name d) \<noteq> None) \<Longrightarrow> distinct (map gd_name gds) \<Longrightarrow>
   \<exists>cf'. check_groups gds cf = Some cf' \<and>
     (\<forall>gn n d. desc_in gds gn n d \<longrightarrow> raw_of cf' gn n = raw gn n) \<and>
     (\<forall>k. k \<notin> gd_name ` set gds \<longrightarrow> hash_find (cf_groups cf') k = hash_find (cf_groups cf) k)"
proof (induction gds arbitrary: cf)
  case Nil
  then show ?case by (simp add: desc_in_def)
next
  case (Cons gd gds)
  let ?gn = "gd_name gd" and ?ds = "map snd (gd_opts gd)"
  let ?g = "\<lparr> cg_name = ?gn, cg_opts = written (raw ?gn) ?ds \<rparr>"
  have "distinct (map od_name ?ds) \<and> hash_find (cf_groups cf) ?gn = Some ?g \<and>
      (\<forall>d\<in>set ?ds. raw ?gn (od_name d) \<noteq> None)" by (rule bspec [OF Cons.prems(1)]) simp
  then have dist: "distinct (map od_name ?ds)" and find: "hash_find (cf_groups cf) ?gn = Some ?g"
    and some: "\<forall>d\<in>set ?ds. raw ?gn (od_name d) \<noteq> None" by blast+
  have "(case hash_find (cg_opts ?g) (od_name d) of Some opt \<Rightarrow> co_raw opt | None \<Rightarrow> od_default d) =
      Some (the (raw ?gn (od_name d)))" if "d \<in> set ?ds" for d
  proof -
    from bspec [OF some that] obtain r where "raw ?gn (od_name d) = Some r" by (simp only: not_None_eq) (erule exE)
    with written_find [OF dist that, of "raw ?gn"] show ?thesis by (simp add: new_option_def)
  qed
  with check_options_raw [of ?ds ?g] obtain g' where g': "check_options ?ds ?g = Some g'"
    "\<forall>d\<in>set ?ds. \<exists>opt. hash_find (cg_opts g') (od_name d) = Some opt \<and> co_raw opt = Some (the (raw ?gn (od_name d)))"
    by blast
  let ?cf = "cf\<lparr>cf_groups := hash_upd (cf_groups cf) ?gn g'\<rparr>"
  have head: "check_group gd cf = Some ?cf" using find g'(1) by (simp add: check_group_def)
  have others: "hash_find (cf_groups ?cf) k = hash_find (cf_groups cf) k" if "k \<noteq> ?gn" for k using that by (simp add: hash_finds)
  have new: "?gn \<notin> gd_name ` set gds" using Cons.prems(2) by simp
  have "\<exists>cf'. check_groups gds ?cf = Some cf' \<and>
     (\<forall>gn n d. desc_in gds gn n d \<longrightarrow> raw_of cf' gn n = raw gn n) \<and>
     (\<forall>k. k \<notin> gd_name ` set gds \<longrightarrow> hash_find (cf_groups cf') k = hash_find (cf_groups ?cf) k)"
  proof (rule Cons.IH)
    show "distinct (map gd_name gds)" using Cons.prems(2) by simp
    show "\<forall>gd\<in>set gds. distinct (map od_name (map snd (gd_opts gd))) \<and>
     hash_find (cf_groups ?cf) (gd_name gd) = Some \<lparr> cg_name = gd_name gd,
       cg_opts = written (raw (gd_name gd)) (map snd (gd_opts gd)) \<rparr> \<and>
     (\<forall>d\<in>set (map snd (gd_opts gd)). raw (gd_name gd) (od_name d) \<noteq> None)"
    proof
      fix x assume x: "x \<in> set gds"
      then have "gd_name x \<noteq> ?gn" using new by (metis imageI)
      from others [OF this] bspec [OF Cons.prems(1), of x] x show
        "distinct (map od_name (map snd (gd_opts x))) \<and>
         hash_find (cf_groups ?cf) (gd_name x) = Some \<lparr> cg_name = gd_name x,
           cg_opts = written (raw (gd_name x)) (map snd (gd_opts x)) \<rparr> \<and>
         (\<forall>d\<in>set (map snd (gd_opts x)). raw (gd_name x) (od_name d) \<noteq> None)" by simp
    qed
  qed
  then obtain cf' where cf': "check_groups gds ?cf = Some cf'"
    "\<forall>gn n d. desc_in gds gn n d \<longrightarrow> raw_of cf' gn n = raw gn n"
    "\<forall>k. k \<notin> gd_name ` set gds \<longrightarrow> hash_find (cf_groups cf') k = hash_find (cf_groups ?cf) k" by blast
  have "hash_find (cf_groups cf') ?gn = Some g'" using cf'(3) new find by (simp add: hash_finds)
  then have "raw_of cf' ?gn (od_name d) = raw ?gn (od_name d)" if "d \<in> set ?ds" for d
  proof -
    from bspec [OF some that] obtain r where "raw ?gn (od_name d) = Some r" by (simp only: not_None_eq) (erule exE)
    moreover from bspec [OF g'(2) that] obtain opt where "hash_find (cg_opts g') (od_name d) = Some opt"
      "co_raw opt = Some (the (raw ?gn (od_name d)))" by (elim exE conjE)
    ultimately show ?thesis using \<open>hash_find (cf_groups cf') ?gn = Some g'\<close>
      by (simp add: raw_of_def FcitxConfigFileGetOption_def)
  qed
  then show ?case using head cf' others by (intro exI [of _ cf']) (auto simp: desc_in_Cons)
qed

section \<open>Round trip\<close>

lemma option_entry_line: "oname_ok (od_name d) \<Longrightarrow> raw_ok r \<Longrightarrow> 0x0a \<notin> set (option_entry d r)"
  by (auto simp: option_entry_def oname_ok_def raw_ok_def one_line_def)

lemma group_texts_lines:
  assumes "gname_ok (gd_name gd) \<and> distinct (map od_name (map snd (gd_opts gd))) \<and>
      (\<forall>d\<in>set (map snd (gd_opts gd)). oname_ok (od_name d) \<and> list_all one_line (option_comments e dm d) \<and>
        (\<exists>r. raw_of cf (gd_name gd) (od_name d) = Some r \<and> raw_ok r))"
    and "l \<in> set (group_texts e dm cf gd)"
  shows "0x0a \<notin> set l"
proof -
  consider "l = [0x5b] @ gd_name gd @ [0x5d]" | "l = []" | d where "d \<in> set (map snd (gd_opts gd))"
    "l \<in> set (option_comments e dm d) \<or> l = option_entry d (the (raw_of cf (gd_name gd) (od_name d)))"
    using assms(2) by (auto simp: group_texts_def)
  then show ?thesis
  proof cases
    case 3
    then have d: "oname_ok (od_name d)" "list_all one_line (option_comments e dm d)"
      "\<exists>r. raw_of cf (gd_name gd) (od_name d) = Some r \<and> raw_ok r" using assms(1) by blast+
    from 3(2) show ?thesis
    proof
      assume "l \<in> set (option_comments e dm d)"
      then show ?thesis using d(2) by (auto simp: list_all_iff one_line_def)
    qed (use d option_entry_line in auto)
  qed (use assms(1) in \<open>auto simp: gname_ok_def one_line_def\<close>)
qed

lemma find_mapped:
  "distinct (map f xs) \<Longrightarrow> x \<in> set xs \<Longrightarrow> hash_find (map (\<lambda>x. (f x, g x)) xs) (f x) = Some (g x)"
  unfolding hash_find_def by (rule map_of_is_SomeI) (auto simp: rev_map [symmetric] comp_def)

lemma parse_saved:
  assumes ok: "\<forall>gd\<in>set (map snd (fd_groups fd)). gname_ok (gd_name gd) \<and> distinct (map od_name (map snd (gd_opts gd))) \<and>
      (\<forall>d\<in>set (map snd (gd_opts gd)). oname_ok (od_name d) \<and> list_all one_line (option_comments e dm d))"
    and dist: "distinct (map gd_name (map snd (fd_groups fd)))"
    and raws: "\<And>gn n d. described fd gn n d \<Longrightarrow> raw_of cf' gn n \<noteq> None \<and> raw_ok (the (raw_of cf' gn n))"
    and written: "text = unlines (concat (map (group_texts e dm cf') (map snd (fd_groups fd))))"
  shows "\<exists>cf2. FcitxConfigParseConfigFileFp (Some text) fd = Some cf2 \<and>
        (\<forall>gn n d. described fd gn n d \<longrightarrow> raw_of cf2 gn n = raw_of cf' gn n)"
proof -
  let ?gds = "map snd (fd_groups fd)"
  have each: "\<exists>r. raw_of cf' (gd_name gd) (od_name d) = Some r \<and> raw_ok r"
    if "gd \<in> set ?gds" "d \<in> set (map snd (gd_opts gd))" for gd d
  proof -
    have "described fd (gd_name gd) (od_name d) d" using that unfolding desc_in_def by blast
    from raws [OF this] show ?thesis by auto
  qed
  have ok': "\<forall>gd\<in>set ?gds. gname_ok (gd_name gd) \<and> distinct (map od_name (map snd (gd_opts gd))) \<and>
      (\<forall>d\<in>set (map snd (gd_opts gd)). oname_ok (od_name d) \<and> list_all one_line (option_comments e dm d) \<and>
        (\<exists>r. raw_of cf' (gd_name gd) (od_name d) = Some r \<and> raw_ok r))"
    by (intro ballI conjI) (use ok each in \<open>blast+\<close>)
  have "0x0a \<notin> set l" if "gd \<in> set ?gds" "l \<in> set (group_texts e dm cf' gd)" for gd l
    using group_texts_lines [OF bspec [OF ok' that(1)] that(2)] .
  then have "getlines text = concat (map (group_texts e dm cf') ?gds)"
    unfolding written by (intro getlines_unlines) auto
  moreover obtain cur where "ini_lines (concat (map (group_texts e dm cf') ?gds)) (no_file\<lparr>cf_groups := []\<rparr>, None) =
     Some (no_file\<lparr>cf_groups := [] @ map (\<lambda>gd. (gd_name gd, \<lparr> cg_name = gd_name gd,
       cg_opts = written (raw_of cf' (gd_name gd)) (map snd (gd_opts gd)) \<rparr>)) ?gds\<rparr>, cur)"
    using parse_groups [OF ok' dist, of "[]" no_file None] by auto
  moreover have "no_file\<lparr>cf_groups := []\<rparr> = no_file" by (simp add: no_file_def)
  ultimately obtain cf1 where cf1: "FcitxConfigParseIniFp (Some text) None = Some cf1"
    "cf_groups cf1 = map (\<lambda>gd. (gd_name gd, \<lparr> cg_name = gd_name gd,
       cg_opts = written (raw_of cf' (gd_name gd)) (map snd (gd_opts gd)) \<rparr>)) ?gds"
    by (auto simp: FcitxConfigParseIniFp_def)
  have find: "hash_find (cf_groups cf1) (gd_name gd) = Some \<lparr> cg_name = gd_name gd,
       cg_opts = written (raw_of cf' (gd_name gd)) (map snd (gd_opts gd)) \<rparr>" if "gd \<in> set ?gds" for gd
    unfolding cf1(2) by (rule find_mapped [OF dist that])
  have "\<exists>cf2. check_groups ?gds cf1 = Some cf2 \<and>
     (\<forall>gn n d. desc_in ?gds gn n d \<longrightarrow> raw_of cf2 gn n = raw_of cf' gn n) \<and>
     (\<forall>k. k \<notin> gd_name ` set ?gds \<longrightarrow> hash_find (cf_groups cf2) k = hash_find (cf_groups cf1) k)"
  proof (rule check_groups_raw [OF _ dist], intro ballI conjI)
    fix gd d assume "gd \<in> set ?gds" "d \<in> set (map snd (gd_opts gd))"
    from each [OF this] show "raw_of cf' (gd_name gd) (od_name d) \<noteq> None" by auto
  qed (use ok find in blast)+
  then obtain cf2 where "check_groups ?gds cf1 = Some cf2"
    "\<forall>gn n d. desc_in ?gds gn n d \<longrightarrow> raw_of cf2 gn n = raw_of cf' gn n" by (elim exE conjE)
  then show ?thesis
    by (simp add: FcitxConfigParseConfigFileFp_def FcitxConfigCheckConfigFile_def cf1(1) raw_of_def
        FcitxConfigFileGetOption_def)
qed

text \<open>
  C30: What \<open>FcitxConfigSaveConfigFileFp\<close> writes for a configuration in which every described option is present,
  \<open>FcitxConfigParseConfigFileFp\<close> reads back: every option has the text again that it had after the save, those
  that were at their default (which are only comments in the file) included. The conditions: no option has subkeys
  (\<open>plain_options\<close>; with a translation an option at its default does lose its text, \<open>translated_default_lost\<close>); the
  names of groups and options are distinct and can stand in a line, and no comment breaks its line (\<open>desc_ok\<close>); the
  text of every option is one line that does not end in a blank (\<open>raw_ok\<close>).
\<close>

theorem config_file_roundtrip:
  assumes "FcitxConfigSaveConfigFileFp e fd (Some cf, m) = Some (text, Some cf', m')" "desc_ok e fd" "plain_options cf"
    and "\<And>gn n d. described fd gn n d \<Longrightarrow> has_option cf gn n"
    and raws: "\<And>gn n d. described fd gn n d \<Longrightarrow> raw_ok (the (raw_of cf' gn n))"
  shows "\<exists>cf2. FcitxConfigParseConfigFileFp (Some text) fd = Some cf2 \<and>
      (\<forall>gn n d. described fd gn n d \<longrightarrow> raw_of cf2 gn n = raw_of cf' gn n \<and> raw_of cf' gn n \<noteq> None)"
proof -
  let ?gds = "map snd (fd_groups fd)" and ?dm = "fd_domain fd"
  have dist: "distinct (map gd_name ?gds)" using assms(2) by (simp add: desc_ok_def)
  have od: "\<forall>gd\<in>set ?gds. gname_ok (gd_name gd) \<and> distinct (map od_name (map snd (gd_opts gd))) \<and>
      (\<forall>d\<in>set (map snd (gd_opts gd)). oname_ok (od_name d) \<and> list_all one_line (option_comments e ?dm d))"
    using assms(2) by (simp add: desc_ok_def list_all_iff)
  have "\<exists>cf1. Some cf' = Some cf1 \<and> text = unlines (concat (map (group_texts e ?dm cf1) ?gds)) \<and>
     (\<forall>gn n d. described fd gn n d \<longrightarrow> raw_of cf1 gn n \<noteq> None) \<and>
     (\<forall>g k. g \<notin> gd_name ` set ?gds \<longrightarrow> raw_of cf1 g k = raw_of cf g k)"
    using assms(1,3,4) dist od unfolding FcitxConfigSaveConfigFileFp_def by (intro save_groups_text) simp_all
  then have cf': "text = unlines (concat (map (group_texts e ?dm cf') ?gds))"
    "\<forall>gn n d. described fd gn n d \<longrightarrow> raw_of cf' gn n \<noteq> None" by blast+
  have "\<exists>cf2. FcitxConfigParseConfigFileFp (Some text) fd = Some cf2 \<and>
        (\<forall>gn n d. described fd gn n d \<longrightarrow> raw_of cf2 gn n = raw_of cf' gn n)"
    using raws cf'(2) by (intro parse_saved [OF od dist _ cf'(1)]) blast
  with cf'(2) show ?thesis by blast
qed

text \<open>
  An instance: two options, one at its default. The file is written and read back.
\<close>

definition saved_file :: cfile where
  "saved_file = \<lparr> cf_groups = [(ascii ''G'', \<lparr> cg_name = ascii ''G'', cg_opts =
     [(ascii ''a'', (new_option (ascii ''a'') (ascii ''7''))\<lparr>co_desc := Some (sample_desc ''a'' T_Integer ''5''), co_value := 1\<rparr>),
      (ascii ''b'', (new_option (ascii ''b'') (ascii ''1 2 3''))\<lparr>co_desc := Some (sample_desc ''b'' T_Color ''1 2 3'')\<rparr>)] \<rparr>)],
     cf_desc = Some sample_fd \<rparr>"

definition saved_vars :: cvars where
  "saved_vars = [1 \<mapsto> VInt 3]"

definition file_saved :: cfile where
  "file_saved = \<lparr> cf_groups = [(ascii ''G'', \<lparr> cg_name = ascii ''G'', cg_opts =
     [(ascii ''a'', (new_option (ascii ''a'') (ascii ''3''))\<lparr>co_desc := Some (sample_desc ''a'' T_Integer ''5''), co_value := 1\<rparr>),
      (ascii ''b'', (new_option (ascii ''b'') (ascii ''1 2 3''))\<lparr>co_desc := Some (sample_desc ''b'' T_Color ''1 2 3'')\<rparr>)] \<rparr>)],
     cf_desc = Some sample_fd \<rparr>"

definition text_saved :: buf where
  "text_saved = unlines [ascii ''[G]'', ascii ''# text'', ascii ''a=3'', ascii ''# text'', ascii ''#b=1 2 3'', []]"

lemma save_sample:
  "FcitxConfigSaveConfigFileFp sample_env sample_fd (Some saved_file, saved_vars) =
     Some (text_saved, Some file_saved, saved_vars)"
proof -
  have "(case FcitxConfigSaveConfigFileFp sample_env sample_fd (Some saved_file, saved_vars) of
      Some (t, Some c, m) \<Rightarrow> t = text_saved \<and> c = file_saved | _ \<Rightarrow> False)" by code_simp
  moreover have "m' = saved_vars" if "FcitxConfigSaveConfigFileFp sample_env sample_fd (Some saved_file, saved_vars) = Some (t, c, m')"
    for t c m'
    using save_vars [OF that] by (simp add: sample_env_def)
  ultimately show ?thesis by (auto split: option.splits prod.splits)
qed

lemma sample_described: "described sample_fd gn n d \<Longrightarrow> gn = ascii ''G'' \<and> (n = ascii ''a'' \<or> n = ascii ''b'')"
  by (auto simp: desc_in_def sample_fd_def sample_desc_def)

lemma config_file_roundtrip_witness:
  "\<exists>cf2. FcitxConfigParseConfigFileFp (Some text_saved) sample_fd = Some cf2 \<and>
     raw_of cf2 (ascii ''G'') (ascii ''a'') = Some (ascii ''3'')"
proof -
  have "desc_ok sample_env sample_fd" by code_simp
  moreover have "plain_options saved_file"
    by (auto simp: plain_options_def options_all_def FcitxConfigFileGetOption_def saved_file_def hash_find_def new_option_def
        split: if_splits option.splits)
  moreover have "has_option saved_file gn n" if "described sample_fd gn n d" for gn n d
    using sample_described [OF that]
    by (auto simp: has_option_def FcitxConfigFileGetOption_def saved_file_def hash_find_def ascii_def)
  moreover have "raw_ok (the (raw_of file_saved gn n))" if "described sample_fd gn n d" for gn n d
    using sample_described [OF that]
    by (auto simp: raw_of_def FcitxConfigFileGetOption_def file_saved_def hash_find_def new_option_def ascii_def
        raw_ok_def one_line_def isspace_def)
  ultimately obtain cf2 where cf2: "FcitxConfigParseConfigFileFp (Some text_saved) sample_fd = Some cf2"
    "\<forall>gn n d. described sample_fd gn n d \<longrightarrow> raw_of cf2 gn n = raw_of file_saved gn n \<and> raw_of file_saved gn n \<noteq> None"
    using config_file_roundtrip [OF save_sample] by blast
  have "described sample_fd (ascii ''G'') (ascii ''a'') (sample_desc ''a'' T_Integer ''5'')"
    by (auto simp: desc_in_def sample_fd_def sample_desc_def)
  with cf2 have "raw_of cf2 (ascii ''G'') (ascii ''a'') = raw_of file_saved (ascii ''G'') (ascii ''a'')" by blast
  also have "\<dots> = Some (ascii ''3'')"
    by (simp add: raw_of_def FcitxConfigFileGetOption_def file_saved_def hash_find_def new_option_def ascii_def)
  finally show ?thesis using cf2(1) by blast
qed

section \<open>Translated options\<close>

text \<open>
  Options with subkeys do not survive: when the text is the default, the file only has a comment for it and the
  lines of the subkeys, and the first of these makes its value the text of the option.
\<close>

definition translated_file :: cfile where
  "translated_file = \<lparr> cf_groups = [(ascii ''G'', \<lparr> cg_name = ascii ''G'', cg_opts =
     [(ascii ''a'', (new_option (ascii ''a'') (ascii ''Yes''))\<lparr>co_desc := Some (sample_desc ''a'' T_I18NString ''Yes''),
        co_sub := [(ascii ''de'', ascii ''Ja'')]\<rparr>)] \<rparr>)], cf_desc = None \<rparr>"

definition translated_fd :: cfdesc where
  "translated_fd = \<lparr> fd_groups = [(ascii ''G'', \<lparr> gd_name = ascii ''G'', gd_opts =
     [(ascii ''a'', sample_desc ''a'' T_I18NString ''Yes'')] \<rparr>)], fd_domain = None \<rparr>"

lemma translated_default_lost:
  "\<exists>text cf' m' cf2. FcitxConfigSaveConfigFileFp sample_env translated_fd (Some translated_file, saved_vars) = Some (text, Some cf', m') \<and>
     raw_of cf' (ascii ''G'') (ascii ''a'') = Some (ascii ''Yes'') \<and>
     FcitxConfigParseConfigFileFp (Some text) translated_fd = Some cf2 \<and>
     raw_of cf2 (ascii ''G'') (ascii ''a'') = Some (ascii ''Ja'')"
proof -
  have "(case FcitxConfigSaveConfigFileFp sample_env translated_fd (Some translated_file, saved_vars) of
      Some (text, Some cf', m') \<Rightarrow> raw_of cf' (ascii ''G'') (ascii ''a'') = Some (ascii ''Yes'') \<and>
        (case FcitxConfigParseConfigFileFp (Some text) translated_fd of
          Some cf2 \<Rightarrow> raw_of cf2 (ascii ''G'') (ascii ''a'') = Some (ascii ''Ja'') | None \<Rightarrow> False)
    | _ \<Rightarrow> False)" by code_simp
  then show ?thesis by (auto split: option.splits prod.splits)
qed

end
