(* ===== verification/PyTables.thy ===== *)
theory PyTables
  imports StrUtils
begin

text \<open>
  The tables of the Pinyin input method: initials and finals with their one letter codes (\<open>pyMapTable.c\<close>),
  the groups of fuzzy sounds and the table of all Pinyin with the setting that allows each (\<open>PYFA.c\<close>), and the
  layouts of Shuangpin, where two keys stand for a Pinyin (\<open>spdata.h\<close>). Tables end with an empty entry, as in
  the code.
\<close>

section \<open>Initials and finals\<close>

definition syllabaryMapTable :: "(buf \<times> byte) list" where
  "syllabaryMapTable = [
    (ascii ''zh'', 0x41), (ascii ''z'', 0x42), (ascii ''y'', 0x43), (ascii ''x'', 0x44), (ascii ''w'', 0x45),
    (ascii ''t'', 0x46), (ascii ''sh'', 0x47), (ascii ''s'', 0x48), (ascii ''r'', 0x49), (ascii ''q'', 0x4a),
    (ascii ''p'', 0x4b), (ascii ''ou'', 0x4c), (ascii ''o'', 0x4d), (ascii ''ng'', 0x4e), (ascii ''n'', 0x4f),
    (ascii ''m'', 0x50), (ascii ''l'', 0x51), (ascii ''k'', 0x52), (ascii ''j'', 0x53), (ascii ''h'', 0x54),
    (ascii ''g'', 0x55), (ascii ''f'', 0x56), (ascii ''er'', 0x57), (ascii ''en'', 0x58), (ascii ''ei'', 0x59),
    (ascii ''e'', 0x5a), (ascii ''d'', 0x61), (ascii ''ch'', 0x62), (ascii ''c'', 0x63), (ascii ''b'', 0x64),
    (ascii ''ao'', 0x65), (ascii ''ang'', 0x66), (ascii ''an'', 0x67), (ascii ''ai'', 0x68), (ascii ''a'', 0x69),
    ([], 0)]"

definition consonantMapTable :: "(buf \<times> byte) list" where
  "consonantMapTable = [
    (ascii ''a'', 0x41), (ascii ''ai'', 0x42), (ascii ''an'', 0x43), (ascii ''ang'', 0x44), (ascii ''ao'', 0x45),
    (ascii ''e'', 0x46), (ascii ''ei'', 0x47), (ascii ''en'', 0x48), (ascii ''eng'', 0x49), (ascii ''i'', 0x4a),
    (ascii ''ia'', 0x4b), (ascii ''ian'', 0x4c), (ascii ''iang'', 0x4d), (ascii ''iao'', 0x4e),
    (ascii ''ie'', 0x4f), (ascii ''in'', 0x50), (ascii ''ing'', 0x51), (ascii ''iong'', 0x52),
    (ascii ''iu'', 0x53), (ascii ''o'', 0x54), (ascii ''ong'', 0x55), (ascii ''ou'', 0x56), (ascii ''u'', 0x57),
    (ascii ''ua'', 0x58), (ascii ''uai'', 0x59), (ascii ''uan'', 0x5a), (ascii ''uang'', 0x61),
    (ascii ''ue'', 0x62), (ascii ''ui'', 0x63), (ascii ''un'', 0x64), (ascii ''uo'', 0x65), (ascii ''v'', 0x66),
    (ascii ''ve'', 0x67), ([], 0)]"

section \<open>Fuzzy sounds\<close>

datatype PYTABLE_CONTROL = PYTABLE_NONE | PYTABLE_NG_GN | PYTABLE_V_U | PYTABLE_AN_ANG | PYTABLE_EN_ENG
  | PYTABLE_IAN_IANG | PYTABLE_IN_ING | PYTABLE_U_OU | PYTABLE_UAN_UANG | PYTABLE_C_CH | PYTABLE_F_H
  | PYTABLE_L_N | PYTABLE_S_SH | PYTABLE_Z_ZH | PYTABLE_AN_ANG_S

definition MHPY_C_TEMPLATE :: "buf list" where
  "MHPY_C_TEMPLATE = map ascii [''CD'', ''HI'', ''LM'', ''PQ'', ''VW'', ''Za'', ''fW'', []]"

definition MHPY_S_TEMPLATE :: "buf list" where
  "MHPY_S_TEMPLATE = map ascii [''bc'', ''TV'', ''OQ'', ''GH'', ''AB'', ''fg'', []]"

section \<open>All Pinyin\<close>

definition PYTable_template_1 :: "(buf \<times> PYTABLE_CONTROL) list" where
  "PYTable_template_1 = [
    (ascii ''zuo'', PYTABLE_NONE), (ascii ''zun'', PYTABLE_NONE), (ascii ''zui'', PYTABLE_NONE),
    (ascii ''zuagn'', PYTABLE_NG_GN), (ascii ''zuang'', PYTABLE_UAN_UANG), (ascii ''zuagn'', PYTABLE_NG_GN),
    (ascii ''zuang'', PYTABLE_Z_ZH), (ascii ''zuan'', PYTABLE_NONE), (ascii ''zua'', PYTABLE_Z_ZH),
    (ascii ''zu'', PYTABLE_NONE), (ascii ''zou'', PYTABLE_NONE), (ascii ''zogn'', PYTABLE_NG_GN),
    (ascii ''zong'', PYTABLE_NONE), (ascii ''zi'', PYTABLE_NONE), (ascii ''zhuo'', PYTABLE_NONE),
    (ascii ''zhun'', PYTABLE_NONE), (ascii ''zhui'', PYTABLE_NONE), (ascii ''zhuagn'', PYTABLE_NG_GN),
    (ascii ''zhuang'', PYTABLE_NONE), (ascii ''zhuan'', PYTABLE_NONE), (ascii ''zhuai'', PYTABLE_NONE),
    (ascii ''zhua'', PYTABLE_NONE), (ascii ''zhu'', PYTABLE_NONE), (ascii ''zhou'', PYTABLE_NONE),
    (ascii ''zhogn'', PYTABLE_NG_GN), (ascii ''zhong'', PYTABLE_NONE), (ascii ''zhi'', PYTABLE_NONE),
    (ascii ''zhegn'', PYTABLE_NG_GN), (ascii ''zheng'', PYTABLE_NONE), (ascii ''zhen'', PYTABLE_NONE),
    (ascii ''zhe'', PYTABLE_NONE), (ascii ''zhao'', PYTABLE_NONE), (ascii ''zhagn'', PYTABLE_NG_GN),
    (ascii ''zhang'', PYTABLE_NONE), (ascii ''zhan'', PYTABLE_NONE), (ascii ''zhai'', PYTABLE_NONE),
    (ascii ''zha'', PYTABLE_NONE), (ascii ''zegn'', PYTABLE_NG_GN), (ascii ''zeng'', PYTABLE_NONE),
    (ascii ''zen'', PYTABLE_NONE), (ascii ''zei'', PYTABLE_NONE), (ascii ''ze'', PYTABLE_NONE),
    (ascii ''zao'', PYTABLE_NONE), (ascii ''zagn'', PYTABLE_NG_GN), (ascii ''zang'', PYTABLE_NONE),
    (ascii ''zan'', PYTABLE_NONE), (ascii ''zai'', PYTABLE_NONE), (ascii ''za'', PYTABLE_NONE),
    (ascii ''yun'', PYTABLE_NONE), (ascii ''yue'', PYTABLE_NONE), (ascii ''yuagn'', PYTABLE_NG_GN),
    (ascii ''yuang'', PYTABLE_UAN_UANG), (ascii ''yuan'', PYTABLE_NONE), (ascii ''yu'', PYTABLE_NONE),
    (ascii ''yv'', PYTABLE_V_U), (ascii ''you'', PYTABLE_NONE), (ascii ''yogn'', PYTABLE_NG_GN),
    (ascii ''yong'', PYTABLE_NONE), (ascii ''yo'', PYTABLE_NONE), (ascii ''yign'', PYTABLE_NG_GN),
    (ascii ''ying'', PYTABLE_NONE), (ascii ''yin'', PYTABLE_NONE), (ascii ''yi'', PYTABLE_NONE),
    (ascii ''ye'', PYTABLE_NONE), (ascii ''yao'', PYTABLE_NONE), (ascii ''yagn'', PYTABLE_NG_GN),
    (ascii ''yang'', PYTABLE_NONE), (ascii ''yan'', PYTABLE_NONE), (ascii ''ya'', PYTABLE_NONE),
    (ascii ''xun'', PYTABLE_NONE), (ascii ''xue'', PYTABLE_NONE), (ascii ''xuagn'', PYTABLE_NG_GN),
    (ascii ''xuang'', PYTABLE_UAN_UANG), (ascii ''xuan'', PYTABLE_NONE), (ascii ''xu'', PYTABLE_NONE)]"

definition PYTable_template_2 :: "(buf \<times> PYTABLE_CONTROL) list" where
  "PYTable_template_2 = [
    (ascii ''xv'', PYTABLE_V_U), (ascii ''xou'', PYTABLE_U_OU), (ascii ''xiu'', PYTABLE_NONE),
    (ascii ''xiogn'', PYTABLE_NG_GN), (ascii ''xiong'', PYTABLE_NONE), (ascii ''xign'', PYTABLE_NG_GN),
    (ascii ''xing'', PYTABLE_NONE), (ascii ''xin'', PYTABLE_NONE), (ascii ''xie'', PYTABLE_NONE),
    (ascii ''xiao'', PYTABLE_NONE), (ascii ''xiagn'', PYTABLE_NG_GN), (ascii ''xiang'', PYTABLE_NONE),
    (ascii ''xian'', PYTABLE_NONE), (ascii ''xia'', PYTABLE_NONE), (ascii ''xi'', PYTABLE_NONE),
    (ascii ''wu'', PYTABLE_NONE), (ascii ''wo'', PYTABLE_NONE), (ascii ''wegn'', PYTABLE_NG_GN),
    (ascii ''weng'', PYTABLE_NONE), (ascii ''wen'', PYTABLE_NONE), (ascii ''wei'', PYTABLE_NONE),
    (ascii ''wagn'', PYTABLE_NG_GN), (ascii ''wang'', PYTABLE_NONE), (ascii ''wan'', PYTABLE_NONE),
    (ascii ''wai'', PYTABLE_NONE), (ascii ''wa'', PYTABLE_NONE), (ascii ''tuo'', PYTABLE_NONE),
    (ascii ''tun'', PYTABLE_NONE), (ascii ''tui'', PYTABLE_NONE), (ascii ''tuagn'', PYTABLE_NG_GN),
    (ascii ''tuang'', PYTABLE_UAN_UANG), (ascii ''tuan'', PYTABLE_NONE), (ascii ''tu'', PYTABLE_NONE),
    (ascii ''tou'', PYTABLE_NONE), (ascii ''togn'', PYTABLE_NG_GN), (ascii ''tong'', PYTABLE_NONE),
    (ascii ''tign'', PYTABLE_NG_GN), (ascii ''ting'', PYTABLE_NONE), (ascii ''tin'', PYTABLE_IN_ING),
    (ascii ''tie'', PYTABLE_NONE), (ascii ''tiao'', PYTABLE_NONE), (ascii ''tiagn'', PYTABLE_NG_GN),
    (ascii ''tiang'', PYTABLE_IAN_IANG), (ascii ''tian'', PYTABLE_NONE), (ascii ''ti'', PYTABLE_NONE),
    (ascii ''tegn'', PYTABLE_NG_GN), (ascii ''teng'', PYTABLE_NONE), (ascii ''ten'', PYTABLE_EN_ENG),
    (ascii ''tei'', PYTABLE_NONE), (ascii ''te'', PYTABLE_NONE), (ascii ''tao'', PYTABLE_NONE),
    (ascii ''tagn'', PYTABLE_NG_GN), (ascii ''tang'', PYTABLE_NONE), (ascii ''tan'', PYTABLE_NONE),
    (ascii ''tai'', PYTABLE_NONE), (ascii ''ta'', PYTABLE_NONE), (ascii ''suo'', PYTABLE_NONE),
    (ascii ''sun'', PYTABLE_NONE), (ascii ''sui'', PYTABLE_NONE), (ascii ''suagn'', PYTABLE_NG_GN),
    (ascii ''suang'', PYTABLE_S_SH), (ascii ''suagn'', PYTABLE_NG_GN), (ascii ''suang'', PYTABLE_UAN_UANG),
    (ascii ''suan'', PYTABLE_NONE), (ascii ''sua'', PYTABLE_S_SH), (ascii ''su'', PYTABLE_NONE),
    (ascii ''sou'', PYTABLE_NONE), (ascii ''sogn'', PYTABLE_NG_GN), (ascii ''song'', PYTABLE_NONE),
    (ascii ''si'', PYTABLE_NONE), (ascii ''shuo'', PYTABLE_NONE), (ascii ''shun'', PYTABLE_NONE),
    (ascii ''shui'', PYTABLE_NONE), (ascii ''shuagn'', PYTABLE_NG_GN), (ascii ''shuang'', PYTABLE_NONE)]"

definition PYTable_template_3 :: "(buf \<times> PYTABLE_CONTROL) list" where
  "PYTable_template_3 = [
    (ascii ''shuan'', PYTABLE_NONE), (ascii ''shuai'', PYTABLE_NONE), (ascii ''shua'', PYTABLE_NONE),
    (ascii ''shu'', PYTABLE_NONE), (ascii ''shou'', PYTABLE_NONE), (ascii ''shi'', PYTABLE_NONE),
    (ascii ''shegn'', PYTABLE_NG_GN), (ascii ''sheng'', PYTABLE_NONE), (ascii ''shen'', PYTABLE_NONE),
    (ascii ''shei'', PYTABLE_NONE), (ascii ''she'', PYTABLE_NONE), (ascii ''shao'', PYTABLE_NONE),
    (ascii ''shagn'', PYTABLE_NG_GN), (ascii ''shang'', PYTABLE_NONE), (ascii ''shan'', PYTABLE_NONE),
    (ascii ''shai'', PYTABLE_NONE), (ascii ''sha'', PYTABLE_NONE), (ascii ''segn'', PYTABLE_NG_GN),
    (ascii ''seng'', PYTABLE_NONE), (ascii ''sen'', PYTABLE_NONE), (ascii ''se'', PYTABLE_NONE),
    (ascii ''sao'', PYTABLE_NONE), (ascii ''sagn'', PYTABLE_NG_GN), (ascii ''sang'', PYTABLE_NONE),
    (ascii ''san'', PYTABLE_NONE), (ascii ''sai'', PYTABLE_NONE), (ascii ''sa'', PYTABLE_NONE),
    (ascii ''ruo'', PYTABLE_NONE), (ascii ''run'', PYTABLE_NONE), (ascii ''rui'', PYTABLE_NONE),
    (ascii ''ruagn'', PYTABLE_NG_GN), (ascii ''ruang'', PYTABLE_UAN_UANG), (ascii ''ruan'', PYTABLE_NONE),
    (ascii ''ru'', PYTABLE_NONE), (ascii ''rou'', PYTABLE_NONE), (ascii ''rogn'', PYTABLE_NG_GN),
    (ascii ''rong'', PYTABLE_NONE), (ascii ''ri'', PYTABLE_NONE), (ascii ''regn'', PYTABLE_NG_GN),
    (ascii ''reng'', PYTABLE_NONE), (ascii ''ren'', PYTABLE_NONE), (ascii ''re'', PYTABLE_NONE),
    (ascii ''rao'', PYTABLE_NONE), (ascii ''ragn'', PYTABLE_NG_GN), (ascii ''rang'', PYTABLE_NONE),
    (ascii ''ran'', PYTABLE_NONE), (ascii ''qun'', PYTABLE_NONE), (ascii ''que'', PYTABLE_NONE),
    (ascii ''quagn'', PYTABLE_NG_GN), (ascii ''quang'', PYTABLE_UAN_UANG), (ascii ''quan'', PYTABLE_NONE),
    (ascii ''qu'', PYTABLE_NONE), (ascii ''qv'', PYTABLE_V_U), (ascii ''qiu'', PYTABLE_NONE),
    (ascii ''qiogn'', PYTABLE_NG_GN), (ascii ''qiong'', PYTABLE_NONE), (ascii ''qign'', PYTABLE_NG_GN),
    (ascii ''qing'', PYTABLE_NONE), (ascii ''qin'', PYTABLE_NONE), (ascii ''qie'', PYTABLE_NONE),
    (ascii ''qiao'', PYTABLE_NONE), (ascii ''qiagn'', PYTABLE_NG_GN), (ascii ''qiang'', PYTABLE_NONE),
    (ascii ''qian'', PYTABLE_NONE), (ascii ''qia'', PYTABLE_NONE), (ascii ''qi'', PYTABLE_NONE),
    (ascii ''pu'', PYTABLE_NONE), (ascii ''pou'', PYTABLE_NONE), (ascii ''po'', PYTABLE_NONE),
    (ascii ''pign'', PYTABLE_NG_GN), (ascii ''ping'', PYTABLE_NONE), (ascii ''pin'', PYTABLE_NONE),
    (ascii ''pie'', PYTABLE_NONE), (ascii ''piao'', PYTABLE_NONE), (ascii ''piagn'', PYTABLE_NG_GN)]"

definition PYTable_template_4 :: "(buf \<times> PYTABLE_CONTROL) list" where
  "PYTable_template_4 = [
    (ascii ''piang'', PYTABLE_IAN_IANG), (ascii ''pian'', PYTABLE_NONE), (ascii ''pi'', PYTABLE_NONE),
    (ascii ''pegn'', PYTABLE_NG_GN), (ascii ''peng'', PYTABLE_NONE), (ascii ''pen'', PYTABLE_NONE),
    (ascii ''pei'', PYTABLE_NONE), (ascii ''pao'', PYTABLE_NONE), (ascii ''pagn'', PYTABLE_NG_GN),
    (ascii ''pang'', PYTABLE_NONE), (ascii ''pan'', PYTABLE_NONE), (ascii ''pai'', PYTABLE_NONE),
    (ascii ''pa'', PYTABLE_NONE), (ascii ''ou'', PYTABLE_NONE), (ascii ''o'', PYTABLE_NONE),
    (ascii ''nve'', PYTABLE_NONE), (ascii ''nv'', PYTABLE_NONE), (ascii ''nuo'', PYTABLE_NONE),
    (ascii ''nue'', PYTABLE_NONE), (ascii ''nuagn'', PYTABLE_NG_GN), (ascii ''nuang'', PYTABLE_UAN_UANG),
    (ascii ''nuagn'', PYTABLE_NG_GN), (ascii ''nuang'', PYTABLE_L_N), (ascii ''nuan'', PYTABLE_NONE),
    (ascii ''nu'', PYTABLE_NONE), (ascii ''nou'', PYTABLE_NONE), (ascii ''nogn'', PYTABLE_NG_GN),
    (ascii ''nong'', PYTABLE_NONE), (ascii ''niu'', PYTABLE_NONE), (ascii ''nign'', PYTABLE_NG_GN),
    (ascii ''ning'', PYTABLE_NONE), (ascii ''nin'', PYTABLE_NONE), (ascii ''nie'', PYTABLE_NONE),
    (ascii ''niao'', PYTABLE_NONE), (ascii ''niagn'', PYTABLE_NG_GN), (ascii ''niang'', PYTABLE_NONE),
    (ascii ''nian'', PYTABLE_NONE), (ascii ''ni'', PYTABLE_NONE), (ascii ''ng'', PYTABLE_NONE),
    (ascii ''negn'', PYTABLE_NG_GN), (ascii ''neng'', PYTABLE_NONE), (ascii ''nen'', PYTABLE_NONE),
    (ascii ''nei'', PYTABLE_NONE), (ascii ''ne'', PYTABLE_NONE), (ascii ''nao'', PYTABLE_NONE),
    (ascii ''nagn'', PYTABLE_NG_GN), (ascii ''nang'', PYTABLE_NONE), (ascii ''nan'', PYTABLE_NONE),
    (ascii ''nai'', PYTABLE_NONE), (ascii ''na'', PYTABLE_NONE), (ascii ''n'', PYTABLE_NONE),
    (ascii ''mu'', PYTABLE_NONE), (ascii ''mou'', PYTABLE_NONE), (ascii ''mo'', PYTABLE_NONE),
    (ascii ''miu'', PYTABLE_NONE), (ascii ''mign'', PYTABLE_NG_GN), (ascii ''ming'', PYTABLE_NONE),
    (ascii ''min'', PYTABLE_NONE), (ascii ''mie'', PYTABLE_NONE), (ascii ''miao'', PYTABLE_NONE),
    (ascii ''miagn'', PYTABLE_NG_GN), (ascii ''miang'', PYTABLE_IAN_IANG), (ascii ''mian'', PYTABLE_NONE),
    (ascii ''mi'', PYTABLE_NONE), (ascii ''megn'', PYTABLE_NG_GN), (ascii ''meng'', PYTABLE_NONE),
    (ascii ''men'', PYTABLE_NONE), (ascii ''mei'', PYTABLE_NONE), (ascii ''me'', PYTABLE_NONE),
    (ascii ''mao'', PYTABLE_NONE), (ascii ''magn'', PYTABLE_NG_GN), (ascii ''mang'', PYTABLE_NONE),
    (ascii ''man'', PYTABLE_NONE), (ascii ''mai'', PYTABLE_NONE), (ascii ''ma'', PYTABLE_NONE)]"

definition PYTable_template_5 :: "(buf \<times> PYTABLE_CONTROL) list" where
  "PYTable_template_5 = [
    (ascii ''m'', PYTABLE_NONE), (ascii ''lve'', PYTABLE_NONE), (ascii ''lv'', PYTABLE_NONE),
    (ascii ''luo'', PYTABLE_NONE), (ascii ''lun'', PYTABLE_NONE), (ascii ''lue'', PYTABLE_NONE),
    (ascii ''luagn'', PYTABLE_NG_GN), (ascii ''luang'', PYTABLE_UAN_UANG), (ascii ''luagn'', PYTABLE_NG_GN),
    (ascii ''luang'', PYTABLE_L_N), (ascii ''luan'', PYTABLE_NONE), (ascii ''lu'', PYTABLE_NONE),
    (ascii ''lou'', PYTABLE_NONE), (ascii ''logn'', PYTABLE_NG_GN), (ascii ''long'', PYTABLE_NONE),
    (ascii ''lo'', PYTABLE_NONE), (ascii ''liu'', PYTABLE_NONE), (ascii ''lign'', PYTABLE_NG_GN),
    (ascii ''ling'', PYTABLE_NONE), (ascii ''lin'', PYTABLE_NONE), (ascii ''lie'', PYTABLE_NONE),
    (ascii ''liao'', PYTABLE_NONE), (ascii ''liagn'', PYTABLE_NG_GN), (ascii ''liang'', PYTABLE_NONE),
    (ascii ''lian'', PYTABLE_NONE), (ascii ''lia'', PYTABLE_NONE), (ascii ''li'', PYTABLE_NONE),
    (ascii ''legn'', PYTABLE_NG_GN), (ascii ''leng'', PYTABLE_NONE), (ascii ''len'', PYTABLE_EN_ENG),
    (ascii ''lei'', PYTABLE_NONE), (ascii ''le'', PYTABLE_NONE), (ascii ''lao'', PYTABLE_NONE),
    (ascii ''lagn'', PYTABLE_NG_GN), (ascii ''lang'', PYTABLE_NONE), (ascii ''lan'', PYTABLE_NONE),
    (ascii ''lai'', PYTABLE_NONE), (ascii ''la'', PYTABLE_NONE), (ascii ''kuo'', PYTABLE_NONE),
    (ascii ''kun'', PYTABLE_NONE), (ascii ''kui'', PYTABLE_NONE), (ascii ''kuagn'', PYTABLE_NG_GN),
    (ascii ''kuang'', PYTABLE_NONE), (ascii ''kuan'', PYTABLE_NONE), (ascii ''kuai'', PYTABLE_NONE),
    (ascii ''kua'', PYTABLE_NONE), (ascii ''ku'', PYTABLE_NONE), (ascii ''kou'', PYTABLE_NONE),
    (ascii ''kogn'', PYTABLE_NG_GN), (ascii ''kong'', PYTABLE_NONE), (ascii ''kegn'', PYTABLE_NG_GN),
    (ascii ''keng'', PYTABLE_NONE), (ascii ''ken'', PYTABLE_NONE), (ascii ''kei'', PYTABLE_NONE),
    (ascii ''ke'', PYTABLE_NONE), (ascii ''kao'', PYTABLE_NONE), (ascii ''kagn'', PYTABLE_NG_GN),
    (ascii ''kang'', PYTABLE_NONE), (ascii ''kan'', PYTABLE_NONE), (ascii ''kai'', PYTABLE_NONE),
    (ascii ''ka'', PYTABLE_NONE), (ascii ''jun'', PYTABLE_NONE), (ascii ''jue'', PYTABLE_NONE),
    (ascii ''juagn'', PYTABLE_NG_GN), (ascii ''juang'', PYTABLE_UAN_UANG), (ascii ''juan'', PYTABLE_NONE),
    (ascii ''ju'', PYTABLE_NONE), (ascii ''jv'', PYTABLE_V_U), (ascii ''jiu'', PYTABLE_NONE),
    (ascii ''jiogn'', PYTABLE_NG_GN), (ascii ''jiong'', PYTABLE_NONE), (ascii ''jign'', PYTABLE_NG_GN),
    (ascii ''jing'', PYTABLE_NONE), (ascii ''jin'', PYTABLE_NONE), (ascii ''jie'', PYTABLE_NONE)]"

definition PYTable_template_6 :: "(buf \<times> PYTABLE_CONTROL) list" where
  "PYTable_template_6 = [
    (ascii ''jiao'', PYTABLE_NONE), (ascii ''jiagn'', PYTABLE_NG_GN), (ascii ''jiang'', PYTABLE_NONE),
    (ascii ''jian'', PYTABLE_NONE), (ascii ''jia'', PYTABLE_NONE), (ascii ''ji'', PYTABLE_NONE),
    (ascii ''huo'', PYTABLE_NONE), (ascii ''hun'', PYTABLE_NONE), (ascii ''hui'', PYTABLE_NONE),
    (ascii ''huagn'', PYTABLE_NG_GN), (ascii ''huang'', PYTABLE_NONE), (ascii ''huan'', PYTABLE_NONE),
    (ascii ''huai'', PYTABLE_NONE), (ascii ''hua'', PYTABLE_NONE), (ascii ''hu'', PYTABLE_NONE),
    (ascii ''hou'', PYTABLE_NONE), (ascii ''hogn'', PYTABLE_NG_GN), (ascii ''hong'', PYTABLE_NONE),
    (ascii ''hegn'', PYTABLE_NG_GN), (ascii ''heng'', PYTABLE_NONE), (ascii ''hen'', PYTABLE_NONE),
    (ascii ''hei'', PYTABLE_NONE), (ascii ''he'', PYTABLE_NONE), (ascii ''hao'', PYTABLE_NONE),
    (ascii ''hagn'', PYTABLE_NG_GN), (ascii ''hang'', PYTABLE_NONE), (ascii ''han'', PYTABLE_NONE),
    (ascii ''hai'', PYTABLE_NONE), (ascii ''ha'', PYTABLE_NONE), (ascii ''guo'', PYTABLE_NONE),
    (ascii ''gun'', PYTABLE_NONE), (ascii ''gui'', PYTABLE_NONE), (ascii ''guagn'', PYTABLE_NG_GN),
    (ascii ''guang'', PYTABLE_NONE), (ascii ''guan'', PYTABLE_NONE), (ascii ''guai'', PYTABLE_NONE),
    (ascii ''gua'', PYTABLE_NONE), (ascii ''gu'', PYTABLE_NONE), (ascii ''gou'', PYTABLE_NONE),
    (ascii ''gogn'', PYTABLE_NG_GN), (ascii ''gong'', PYTABLE_NONE), (ascii ''gegn'', PYTABLE_NG_GN),
    (ascii ''geng'', PYTABLE_NONE), (ascii ''gen'', PYTABLE_NONE), (ascii ''gei'', PYTABLE_NONE),
    (ascii ''ge'', PYTABLE_NONE), (ascii ''gao'', PYTABLE_NONE), (ascii ''gagn'', PYTABLE_NG_GN),
    (ascii ''gang'', PYTABLE_NONE), (ascii ''gan'', PYTABLE_NONE), (ascii ''gai'', PYTABLE_NONE),
    (ascii ''ga'', PYTABLE_NONE), (ascii ''fu'', PYTABLE_NONE), (ascii ''fou'', PYTABLE_NONE),
    (ascii ''fo'', PYTABLE_NONE), (ascii ''fegn'', PYTABLE_NG_GN), (ascii ''feng'', PYTABLE_NONE),
    (ascii ''fen'', PYTABLE_NONE), (ascii ''fei'', PYTABLE_NONE), (ascii ''fagn'', PYTABLE_NG_GN),
    (ascii ''fang'', PYTABLE_NONE), (ascii ''fan'', PYTABLE_NONE), (ascii ''fa'', PYTABLE_NONE),
    (ascii ''er'', PYTABLE_NONE), (ascii ''egn'', PYTABLE_NG_GN), (ascii ''eng'', PYTABLE_EN_ENG),
    (ascii ''en'', PYTABLE_NONE), (ascii ''ei'', PYTABLE_NONE), (ascii ''e'', PYTABLE_NONE),
    (ascii ''duo'', PYTABLE_NONE), (ascii ''dun'', PYTABLE_NONE), (ascii ''dui'', PYTABLE_NONE),
    (ascii ''duagn'', PYTABLE_NG_GN), (ascii ''duang'', PYTABLE_UAN_UANG), (ascii ''duan'', PYTABLE_NONE)]"

definition PYTable_template_7 :: "(buf \<times> PYTABLE_CONTROL) list" where
  "PYTable_template_7 = [
    (ascii ''du'', PYTABLE_NONE), (ascii ''dou'', PYTABLE_NONE), (ascii ''dogn'', PYTABLE_NG_GN),
    (ascii ''dong'', PYTABLE_NONE), (ascii ''diu'', PYTABLE_NONE), (ascii ''dign'', PYTABLE_NG_GN),
    (ascii ''ding'', PYTABLE_NONE), (ascii ''din'', PYTABLE_IN_ING), (ascii ''die'', PYTABLE_NONE),
    (ascii ''diao'', PYTABLE_NONE), (ascii ''diagn'', PYTABLE_NG_GN), (ascii ''diang'', PYTABLE_IAN_IANG),
    (ascii ''dian'', PYTABLE_NONE), (ascii ''dia'', PYTABLE_NONE), (ascii ''di'', PYTABLE_NONE),
    (ascii ''degn'', PYTABLE_NG_GN), (ascii ''deng'', PYTABLE_NONE), (ascii ''den'', PYTABLE_NONE),
    (ascii ''dei'', PYTABLE_NONE), (ascii ''de'', PYTABLE_NONE), (ascii ''dao'', PYTABLE_NONE),
    (ascii ''dagn'', PYTABLE_NG_GN), (ascii ''dang'', PYTABLE_NONE), (ascii ''dan'', PYTABLE_NONE),
    (ascii ''dai'', PYTABLE_NONE), (ascii ''da'', PYTABLE_NONE), (ascii ''cuo'', PYTABLE_NONE),
    (ascii ''cun'', PYTABLE_NONE), (ascii ''cui'', PYTABLE_NONE), (ascii ''cuagn'', PYTABLE_NG_GN),
    (ascii ''cuang'', PYTABLE_UAN_UANG), (ascii ''cuagn'', PYTABLE_NG_GN), (ascii ''cuang'', PYTABLE_C_CH),
    (ascii ''cuan'', PYTABLE_NONE), (ascii ''cu'', PYTABLE_NONE), (ascii ''cou'', PYTABLE_NONE),
    (ascii ''cogn'', PYTABLE_NG_GN), (ascii ''cong'', PYTABLE_NONE), (ascii ''ci'', PYTABLE_NONE),
    (ascii ''chuo'', PYTABLE_NONE), (ascii ''chun'', PYTABLE_NONE), (ascii ''chui'', PYTABLE_NONE),
    (ascii ''chuagn'', PYTABLE_NG_GN), (ascii ''chuang'', PYTABLE_NONE), (ascii ''chuan'', PYTABLE_NONE),
    (ascii ''chuai'', PYTABLE_NONE), (ascii ''chu'', PYTABLE_NONE), (ascii ''chou'', PYTABLE_NONE),
    (ascii ''chogn'', PYTABLE_NG_GN), (ascii ''chong'', PYTABLE_NONE), (ascii ''chi'', PYTABLE_NONE),
    (ascii ''chegn'', PYTABLE_NG_GN), (ascii ''cheng'', PYTABLE_NONE), (ascii ''chen'', PYTABLE_NONE),
    (ascii ''che'', PYTABLE_NONE), (ascii ''chao'', PYTABLE_NONE), (ascii ''chagn'', PYTABLE_NG_GN),
    (ascii ''chang'', PYTABLE_NONE), (ascii ''chan'', PYTABLE_NONE), (ascii ''chai'', PYTABLE_NONE),
    (ascii ''cha'', PYTABLE_NONE), (ascii ''cegn'', PYTABLE_NG_GN), (ascii ''ceng'', PYTABLE_NONE),
    (ascii ''cen'', PYTABLE_NONE), (ascii ''ce'', PYTABLE_NONE), (ascii ''cao'', PYTABLE_NONE),
    (ascii ''cagn'', PYTABLE_NG_GN), (ascii ''cang'', PYTABLE_NONE), (ascii ''can'', PYTABLE_NONE),
    (ascii ''cai'', PYTABLE_NONE), (ascii ''ca'', PYTABLE_NONE), (ascii ''bu'', PYTABLE_NONE),
    (ascii ''bo'', PYTABLE_NONE), (ascii ''bign'', PYTABLE_NG_GN), (ascii ''bing'', PYTABLE_NONE)]"

definition PYTable_template_8 :: "(buf \<times> PYTABLE_CONTROL) list" where
  "PYTable_template_8 = [
    (ascii ''bin'', PYTABLE_NONE), (ascii ''bie'', PYTABLE_NONE), (ascii ''biao'', PYTABLE_NONE),
    (ascii ''biagn'', PYTABLE_NG_GN), (ascii ''biang'', PYTABLE_IAN_IANG), (ascii ''bian'', PYTABLE_NONE),
    (ascii ''bi'', PYTABLE_NONE), (ascii ''begn'', PYTABLE_NG_GN), (ascii ''beng'', PYTABLE_NONE),
    (ascii ''ben'', PYTABLE_NONE), (ascii ''bei'', PYTABLE_NONE), (ascii ''bao'', PYTABLE_NONE),
    (ascii ''bagn'', PYTABLE_NG_GN), (ascii ''bang'', PYTABLE_NONE), (ascii ''ban'', PYTABLE_NONE),
    (ascii ''bai'', PYTABLE_NONE), (ascii ''ba'', PYTABLE_NONE), (ascii ''ao'', PYTABLE_NONE),
    (ascii ''agn'', PYTABLE_NG_GN), (ascii ''ang'', PYTABLE_NONE), (ascii ''an'', PYTABLE_NONE),
    (ascii ''ai'', PYTABLE_NONE), (ascii ''a'', PYTABLE_NONE)]"

definition PYTable_template :: "(buf \<times> PYTABLE_CONTROL) list" where
  "PYTable_template = PYTable_template_1 @ PYTable_template_2 @ PYTable_template_3 @ PYTable_template_4 @ PYTable_template_5 @ PYTable_template_6 @ PYTable_template_7 @ PYTable_template_8"

section \<open>Layouts of Shuangpin\<close>

definition SPMap_C_MS :: "(buf \<times> byte) list" where
  "SPMap_C_MS = [
    (ascii ''ai'', 0x6c), (ascii ''an'', 0x6a), (ascii ''ang'', 0x68), (ascii ''ao'', 0x6b), (ascii ''ei'', 0x7a),
    (ascii ''en'', 0x66), (ascii ''eng'', 0x67), (ascii ''er'', 0x72), (ascii ''ia'', 0x77), (ascii ''ian'', 0x6d),
    (ascii ''iang'', 0x64), (ascii ''iao'', 0x63), (ascii ''ie'', 0x78), (ascii ''in'', 0x6e),
    (ascii ''ing'', 0x3b), (ascii ''iong'', 0x73), (ascii ''iu'', 0x71), (ascii ''ng'', 0x67),
    (ascii ''ong'', 0x73), (ascii ''ou'', 0x62), (ascii ''ua'', 0x77), (ascii ''uai'', 0x79),
    (ascii ''uan'', 0x72), (ascii ''uang'', 0x64), (ascii ''ue'', 0x74), (ascii ''ui'', 0x76),
    (ascii ''un'', 0x70), (ascii ''uo'', 0x6f), (ascii ''ve'', 0x76), (ascii ''v'', 0x79), ([], 0)]"

definition SPMap_S_MS :: "(buf \<times> byte) list" where
  "SPMap_S_MS = [
    (ascii ''ch'', 0x69), (ascii ''sh'', 0x75), (ascii ''zh'', 0x76), ([], 0)]"

definition SPMap_C_Ziguang :: "(buf \<times> byte) list" where
  "SPMap_C_Ziguang = [
    (ascii ''ai'', 0x70), (ascii ''an'', 0x72), (ascii ''ang'', 0x73), (ascii ''ao'', 0x71), (ascii ''ei'', 0x6b),
    (ascii ''en'', 0x77), (ascii ''eng'', 0x74), (ascii ''er'', 0x6a), (ascii ''ia'', 0x78), (ascii ''ian'', 0x66),
    (ascii ''iang'', 0x67), (ascii ''iao'', 0x62), (ascii ''ie'', 0x64), (ascii ''in'', 0x79),
    (ascii ''ing'', 0x3b), (ascii ''iong'', 0x68), (ascii ''iu'', 0x6a), (ascii ''ng'', 0x67),
    (ascii ''ong'', 0x68), (ascii ''ou'', 0x7a), (ascii ''ua'', 0x78), (ascii ''uai'', 0x79),
    (ascii ''uan'', 0x6c), (ascii ''uang'', 0x67), (ascii ''ue'', 0x6e), (ascii ''ui'', 0x6e),
    (ascii ''un'', 0x6d), (ascii ''uo'', 0x6f), (ascii ''ve'', 0x6e), (ascii ''v'', 0x76), ([], 0)]"

definition SPMap_S_Ziguang :: "(buf \<times> byte) list" where
  "SPMap_S_Ziguang = [
    (ascii ''ch'', 0x61), (ascii ''sh'', 0x69), (ascii ''zh'', 0x75), ([], 0)]"

definition SPMap_C_ABC :: "(buf \<times> byte) list" where
  "SPMap_C_ABC = [
    (ascii ''ai'', 0x6c), (ascii ''an'', 0x6a), (ascii ''ang'', 0x68), (ascii ''ao'', 0x6b), (ascii ''ei'', 0x71),
    (ascii ''en'', 0x66), (ascii ''eng'', 0x67), (ascii ''er'', 0x72), (ascii ''ia'', 0x64), (ascii ''ian'', 0x77),
    (ascii ''iang'', 0x74), (ascii ''iao'', 0x7a), (ascii ''ie'', 0x78), (ascii ''in'', 0x63),
    (ascii ''ing'', 0x79), (ascii ''iong'', 0x73), (ascii ''iu'', 0x72), (ascii ''ng'', 0x67),
    (ascii ''ong'', 0x73), (ascii ''ou'', 0x62), (ascii ''ua'', 0x64), (ascii ''uai'', 0x63),
    (ascii ''uan'', 0x70), (ascii ''uang'', 0x74), (ascii ''ue'', 0x6d), (ascii ''ui'', 0x6d),
    (ascii ''un'', 0x6e), (ascii ''uo'', 0x6f), (ascii ''ve'', 0x6d), (ascii ''v'', 0x76), ([], 0)]"

definition SPMap_S_ABC :: "(buf \<times> byte) list" where
  "SPMap_S_ABC = [
    (ascii ''ch'', 0x65), (ascii ''sh'', 0x76), (ascii ''zh'', 0x61), ([], 0)]"

definition SPMap_C_Zhongwenzhixing :: "(buf \<times> byte) list" where
  "SPMap_C_Zhongwenzhixing = [
    (ascii ''ai'', 0x73), (ascii ''an'', 0x66), (ascii ''ang'', 0x67), (ascii ''ao'', 0x64), (ascii ''ei'', 0x77),
    (ascii ''en'', 0x72), (ascii ''eng'', 0x74), (ascii ''er'', 0x71), (ascii ''ia'', 0x62), (ascii ''ian'', 0x6a),
    (ascii ''iang'', 0x68), (ascii ''iao'', 0x6b), (ascii ''ie'', 0x6d), (ascii ''in'', 0x6c),
    (ascii ''ing'', 0x71), (ascii ''iong'', 0x79), (ascii ''iu'', 0x6e), (ascii ''ng'', 0x67),
    (ascii ''ong'', 0x79), (ascii ''ou'', 0x70), (ascii ''ua'', 0x62), (ascii ''uai'', 0x78),
    (ascii ''uan'', 0x63), (ascii ''uang'', 0x68), (ascii ''ue'', 0x78), (ascii ''ui'', 0x76),
    (ascii ''un'', 0x7a), (ascii ''uo'', 0x6f), (ascii ''ve'', 0x78), (ascii ''v'', 0x76), ([], 0)]"

definition SPMap_S_Zhongwenzhixing :: "(buf \<times> byte) list" where
  "SPMap_S_Zhongwenzhixing = [
    (ascii ''ch'', 0x75), (ascii ''sh'', 0x69), (ascii ''zh'', 0x76), ([], 0)]"

definition SPMap_C_PinyinJiaJia :: "(buf \<times> byte) list" where
  "SPMap_C_PinyinJiaJia = [
    (ascii ''ai'', 0x73), (ascii ''an'', 0x66), (ascii ''ang'', 0x67), (ascii ''ao'', 0x64), (ascii ''ei'', 0x77),
    (ascii ''en'', 0x72), (ascii ''eng'', 0x74), (ascii ''er'', 0x71), (ascii ''ia'', 0x62), (ascii ''ian'', 0x6a),
    (ascii ''iang'', 0x68), (ascii ''iao'', 0x6b), (ascii ''ie'', 0x6d), (ascii ''in'', 0x6c),
    (ascii ''ing'', 0x71), (ascii ''iong'', 0x79), (ascii ''iu'', 0x6e), (ascii ''ng'', 0x67),
    (ascii ''ong'', 0x79), (ascii ''ou'', 0x70), (ascii ''ua'', 0x62), (ascii ''uai'', 0x78),
    (ascii ''uan'', 0x63), (ascii ''uang'', 0x68), (ascii ''ue'', 0x78), (ascii ''ui'', 0x76),
    (ascii ''un'', 0x7a), (ascii ''uo'', 0x6f), (ascii ''ve'', 0x78), (ascii ''v'', 0x76), ([], 0)]"

definition SPMap_S_PinyinJiaJia :: "(buf \<times> byte) list" where
  "SPMap_S_PinyinJiaJia = [
    (ascii ''ch'', 0x75), (ascii ''sh'', 0x69), (ascii ''zh'', 0x76), ([], 0)]"

definition SPMap_C_Ziranma :: "(buf \<times> byte) list" where
  "SPMap_C_Ziranma = [
    (ascii ''ai'', 0x6c), (ascii ''an'', 0x6a), (ascii ''ang'', 0x68), (ascii ''ao'', 0x6b), (ascii ''ei'', 0x7a),
    (ascii ''en'', 0x66), (ascii ''eng'', 0x67), (ascii ''er'', 0x72), (ascii ''ia'', 0x77), (ascii ''ian'', 0x6d),
    (ascii ''iang'', 0x64), (ascii ''iao'', 0x63), (ascii ''ie'', 0x78), (ascii ''in'', 0x6e),
    (ascii ''ing'', 0x79), (ascii ''iong'', 0x73), (ascii ''iu'', 0x71), (ascii ''ng'', 0x67),
    (ascii ''ong'', 0x73), (ascii ''ou'', 0x62), (ascii ''ua'', 0x77), (ascii ''uai'', 0x79),
    (ascii ''uan'', 0x72), (ascii ''uang'', 0x64), (ascii ''ue'', 0x74), (ascii ''ui'', 0x76),
    (ascii ''un'', 0x70), (ascii ''uo'', 0x6f), (ascii ''ve'', 0x74), (ascii ''v'', 0x76), ([], 0)]"

definition SPMap_S_Ziranma :: "(buf \<times> byte) list" where
  "SPMap_S_Ziranma = [
    (ascii ''ch'', 0x69), (ascii ''sh'', 0x75), (ascii ''zh'', 0x76), ([], 0)]"

definition SPMap_C_XIAOHE :: "(buf \<times> byte) list" where
  "SPMap_C_XIAOHE = [
    (ascii ''ai'', 0x64), (ascii ''an'', 0x6a), (ascii ''ang'', 0x68), (ascii ''ao'', 0x63), (ascii ''ei'', 0x77),
    (ascii ''en'', 0x66), (ascii ''eng'', 0x67), (ascii ''ia'', 0x78), (ascii ''ian'', 0x6d),
    (ascii ''iang'', 0x6c), (ascii ''iao'', 0x6e), (ascii ''ie'', 0x70), (ascii ''in'', 0x62),
    (ascii ''ing'', 0x6b), (ascii ''iong'', 0x73), (ascii ''iu'', 0x71), (ascii ''ng'', 0x67),
    (ascii ''ong'', 0x73), (ascii ''ou'', 0x7a), (ascii ''ua'', 0x78), (ascii ''uai'', 0x6b),
    (ascii ''uan'', 0x72), (ascii ''uang'', 0x6c), (ascii ''ue'', 0x74), (ascii ''ui'', 0x76),
    (ascii ''un'', 0x79), (ascii ''uo'', 0x6f), (ascii ''ve'', 0x74), (ascii ''v'', 0x76), ([], 0)]"

definition SPMap_S_XIAOHE :: "(buf \<times> byte) list" where
  "SPMap_S_XIAOHE = [
    (ascii ''ch'', 0x69), (ascii ''sh'', 0x75), (ascii ''zh'', 0x76), ([], 0)]"

end
