(* ===== verification/PyParser.thy ===== *)
theory PyParser
  imports PyTables Uthash
begin

text \<open>
  Pinyin and their codes: \<open>src/im/pinyin/pyParser.c\<close> up to the parser, and the functions of \<open>PYFA.c\<close>. A Pinyin
  has a code of two letters, the initial and the final; a part that is not known is \<open>0\<close> in the code of user
  input and a blank in the code of the system. An index that is \<open>-1\<close> in the code is \<open>None\<close> here, and a
  local array that is not initialised is a list of \<open>None\<close>.
\<close>

section \<open>Configuration\<close>

datatype SHUANGPINSCHEME = SP_ZIRANMA | SP_MS | SP_ZIGUANG | SP_ABC | SP_ZHONGWENZHIXING | SP_PINYINJIAJIA
  | SP_XIAOHE | SP_USERDEFINE

datatype ADJUSTORDER = AD_NO | AD_FAST | AD_FREQ

record mhpy =
  mh_map :: buf
  mh_mode :: bool

record pyconfig =
  spscheme :: SHUANGPINSCHEME
  bFullPY :: bool
  bPYCreateAuto :: bool
  bPYSaveAutoAsPhrase :: bool
  bFixCursorAtHead :: bool
  bUseVForQuickPhrase :: bool
  baseOrder :: ADJUSTORDER
  phraseOrder :: ADJUSTORDER
  freqOrder :: ADJUSTORDER
  MHPY_C :: "mhpy list"
  MHPY_S :: "mhpy list"
  bMisstypeNGGN :: bool
  PYTable :: "(buf \<times> PYTABLE_CONTROL option) list"
  cNonS :: byte
  SPMap_C :: "(buf \<times> byte) list"
  SPMap_S :: "(buf \<times> byte) list"
  splitData :: "(buf, int) uthash"

text \<open>
  The pointer of an entry of the table of Pinyin leads to the setting that allows it. The frequencies of the
  split data are only compared; they are integers in thousandths.
\<close>

definition mh_on :: "mhpy list \<Rightarrow> nat \<Rightarrow> bool" where
  "mh_on ms i = (i < length ms \<and> mh_mode (ms ! i))"

definition pMH :: "pyconfig \<Rightarrow> PYTABLE_CONTROL \<Rightarrow> bool" where
  "pMH cfg c = (case c of
       PYTABLE_NONE \<Rightarrow> True
     | PYTABLE_NG_GN \<Rightarrow> bMisstypeNGGN cfg
     | PYTABLE_V_U \<Rightarrow> mh_on (MHPY_C cfg) 6
     | PYTABLE_AN_ANG \<Rightarrow> mh_on (MHPY_C cfg) 0
     | PYTABLE_EN_ENG \<Rightarrow> mh_on (MHPY_C cfg) 1
     | PYTABLE_IAN_IANG \<Rightarrow> mh_on (MHPY_C cfg) 2
     | PYTABLE_IN_ING \<Rightarrow> mh_on (MHPY_C cfg) 3
     | PYTABLE_U_OU \<Rightarrow> mh_on (MHPY_C cfg) 4
     | PYTABLE_UAN_UANG \<Rightarrow> mh_on (MHPY_C cfg) 5
     | PYTABLE_C_CH \<Rightarrow> mh_on (MHPY_S cfg) 0
     | PYTABLE_F_H \<Rightarrow> mh_on (MHPY_S cfg) 1
     | PYTABLE_L_N \<Rightarrow> mh_on (MHPY_S cfg) 2
     | PYTABLE_S_SH \<Rightarrow> mh_on (MHPY_S cfg) 3
     | PYTABLE_Z_ZH \<Rightarrow> mh_on (MHPY_S cfg) 4
     | PYTABLE_AN_ANG_S \<Rightarrow> mh_on (MHPY_S cfg) 5)"

definition InitMHPY :: "buf list \<Rightarrow> mhpy list" where
  "InitMHPY template = map (\<lambda>t. \<lparr> mh_map = t, mh_mode = False \<rparr>) (takeWhile (\<lambda>t. t \<noteq> []) template)"

definition InitPYTable :: "pyconfig \<Rightarrow> pyconfig" where
  "InitPYTable cfg = cfg\<lparr>PYTable := map (\<lambda>(s, c). (s, if c = PYTABLE_NONE then None else Some c)) PYTable_template @ [([], None)]\<rparr>"

section \<open>Fuzzy sounds\<close>

definition mh_pair :: "mhpy \<Rightarrow> byte \<Rightarrow> byte \<Rightarrow> bool" where
  "mh_pair m a b \<longleftrightarrow> a \<in> set (mh_map m) \<and> b \<in> set (mh_map m)"

fun mh_index :: "bool \<Rightarrow> mhpy list \<Rightarrow> byte \<Rightarrow> byte \<Rightarrow> nat \<Rightarrow> nat option" where
  "mh_index any [] a b i = None"
| "mh_index any (m # ms) a b i =
     (if mh_pair m a b then (if mh_mode m \<or> any then Some i else None) else mh_index any ms a b (Suc i))"

definition GetMHIndex_C2 :: "mhpy list \<Rightarrow> byte \<Rightarrow> byte \<Rightarrow> nat option" where
  "GetMHIndex_C2 ms a b = mh_index False ms a b 0"

definition GetMHIndex_S2 :: "mhpy list \<Rightarrow> byte \<Rightarrow> byte \<Rightarrow> bool \<Rightarrow> nat option" where
  "GetMHIndex_S2 ms a b bMode = mh_index bMode ms a b 0"

definition IsZ_C_S :: "byte \<Rightarrow> bool" where
  "IsZ_C_S c \<longleftrightarrow> c = 0x63 \<or> c = 0x48 \<or> c = 0x42"

definition IsJ_Q_X_Y :: "byte \<Rightarrow> bool" where
  "IsJ_Q_X_Y c \<longleftrightarrow> c = 0x53 \<or> c = 0x4a \<or> c = 0x58 \<or> c = 0x43"

section \<open>Searching the tables\<close>

fun map_index :: "(buf \<Rightarrow> bool) \<Rightarrow> (buf \<times> byte) list \<Rightarrow> nat \<Rightarrow> nat option" where
  "map_index P [] i = None"
| "map_index P ((s, c) # t) i = (if c = 0 then None else if P s then Some i else map_index P t (Suc i))"

definition matches :: "buf \<Rightarrow> bool \<Rightarrow> buf \<Rightarrow> bool" where
  "matches py bMode s = (if bMode then has_prefix s py else py = s)"

definition IsSyllabary :: "buf \<Rightarrow> bool \<Rightarrow> nat option" where
  "IsSyllabary py bMode = map_index (matches py bMode) syllabaryMapTable 0"

definition IsConsonant :: "buf \<Rightarrow> bool \<Rightarrow> nat option" where
  "IsConsonant py bMode = map_index (matches py bMode) consonantMapTable 0"

text \<open>
  A mistyped Pinyin (\<open>gn\<close> for \<open>ng\<close>) only counts when the entry behind it, the one that is meant, is valid.
\<close>

definition pointer_on :: "pyconfig \<Rightarrow> PYTABLE_CONTROL option \<Rightarrow> bool" where
  "pointer_on cfg p = (case p of None \<Rightarrow> True | Some c \<Rightarrow> pMH cfg c)"

definition next_on :: "pyconfig \<Rightarrow> (buf \<times> PYTABLE_CONTROL option) list \<Rightarrow> bool" where
  "next_on cfg t = (case t of [] \<Rightarrow> False | q # _ \<Rightarrow> pointer_on cfg (snd q))"

fun pyfa_index :: "pyconfig \<Rightarrow> (buf \<Rightarrow> bool) \<Rightarrow> (buf \<times> PYTABLE_CONTROL option) list \<Rightarrow> nat \<Rightarrow> nat option" where
  "pyfa_index cfg P [] i = None"
| "pyfa_index cfg P ((s, p) # t) i =
     (if s = [] then None
      else if P s \<and> pointer_on cfg p \<and> (p = Some PYTABLE_NG_GN \<longrightarrow> next_on cfg t)
      then Some i
      else pyfa_index cfg P t (Suc i))"

definition FindPYFAIndex :: "pyconfig \<Rightarrow> buf \<Rightarrow> bool \<Rightarrow> nat option" where
  "FindPYFAIndex cfg py bMode = pyfa_index cfg (matches py bMode) (PYTable cfg) 0"

definition PYTable_str :: "pyconfig \<Rightarrow> nat \<Rightarrow> buf" where
  "PYTable_str cfg i = fst (PYTable cfg ! i)"

section \<open>From Pinyin to codes\<close>

type_synonym local_map = "byte option list"

definition code_at :: "(buf \<times> byte) list \<Rightarrow> nat \<Rightarrow> byte option" where
  "code_at t i = (if i < length t then Some (snd (t ! i)) else None)"

text \<open>
  \<open>MapPY\<close> takes the code of an initial out of the table of finals at the index of the initial: the two tables
  number their letters alike, but the table of finals is shorter. The result is whether the conversion succeeded,
  and the array of the caller.
\<close>

definition fix_gn :: "pyconfig \<Rightarrow> buf \<Rightarrow> buf" where
  "fix_gn cfg py = (let len = length py in
     if bMisstypeNGGN cfg \<and> len > 2 \<and> py ! (len - 1) = 0x6e \<and> py ! (len - 2) = 0x67
     then take (len - 2) py @ [0x6e, 0x67] else py)"

definition map_whole :: "buf \<Rightarrow> local_map \<Rightarrow> (bool \<times> local_map) option" where
  "map_whole py m = do {
     c1 \<leftarrow> rd py 1;
     if c1 = 0x68 \<or> c1 = 0x67 then do {
       i \<leftarrow> IsSyllabary [py ! 0, c1] False;
       s \<leftarrow> code_at consonantMapTable i;
       j \<leftarrow> IsConsonant (drop 2 py) False;
       c \<leftarrow> code_at consonantMapTable j;
       Some (True, [Some s, Some c, Some 0]) }
     else (case IsSyllabary [py ! 0] False of
         None \<Rightarrow> Some (False, m)
       | Some i \<Rightarrow> do {
           s \<leftarrow> code_at consonantMapTable i;
           let m = m[0 := Some s];
           case IsConsonant (drop 1 py) False of
             None \<Rightarrow> Some (False, m)
           | Some j \<Rightarrow> do { c \<leftarrow> code_at consonantMapTable j; Some (True, m[1 := Some c]) } }) }"

definition MapPY :: "pyconfig \<Rightarrow> buf \<Rightarrow> local_map \<Rightarrow> byte \<Rightarrow> (bool \<times> local_map) option" where
  "MapPY cfg strPYorigin m mode = (if length strPYorigin > 6 then None else
     let py = fix_gn cfg strPYorigin in
     if py = ascii ''eng'' \<and> mh_on (MHPY_C cfg) 1 then Some (True, [Some 0x58, Some 0x30, Some 0])
     else let m = m[2 := Some 0] in
       (case IsSyllabary py False of
          Some i \<Rightarrow> Some (True, [Some (snd (syllabaryMapTable ! i)), Some mode, Some 0])
        | None \<Rightarrow> (case IsConsonant py False of
            Some i \<Rightarrow> Some (True, [Some mode, Some (snd (consonantMapTable ! i)), Some 0])
          | None \<Rightarrow> map_whole py m)))"

section \<open>From codes to Pinyin\<close>

fun table_py :: "(buf \<times> byte) list \<Rightarrow> byte \<Rightarrow> buf option" where
  "table_py [] c = None"
| "table_py ((s, k) # t) c = (if k = 0 then None else if k = c then Some s else table_py t c)"

definition MapToPY :: "byte \<Rightarrow> byte \<Rightarrow> buf option" where
  "MapToPY c0 c1 = do {
     s \<leftarrow> (if c0 \<noteq> 0x20 then table_py syllabaryMapTable c0 else Some []);
     c \<leftarrow> (if c1 \<noteq> 0x20 then table_py consonantMapTable c1 else Some []);
     Some (s @ c) }"

section \<open>Comparing codes\<close>

text \<open>Characters are signed; the result of a comparison is their difference.\<close>

definition Cmp1Map :: "pyconfig \<Rightarrow> byte \<Rightarrow> byte \<Rightarrow> bool \<Rightarrow> bool \<Rightarrow> bool \<Rightarrow> int" where
  "Cmp1Map cfg s1 s2 is_S bUseMH bSP =
     (let diff = sint s1 - sint s2 in
      if s2 = 0x30 \<or> s1 = 0x30 then
        (if s1 = 0x20 \<or> s2 = 0x20 \<or> \<not> bFullPY cfg \<or> bSP then 0 else diff)
      else if s1 = s2 then 0
      else (let iVal = (if is_S then GetMHIndex_S2 (MHPY_S cfg) s1 s2 bUseMH
                 else case GetMHIndex_C2 (MHPY_C cfg) s1 s2 of None \<Rightarrow> None
                   | Some i \<Rightarrow> if \<not> bUseMH \<and> i = 6 then None else Some i) in
            if iVal \<noteq> None then 0 else diff))"

definition Cmp2Map :: "pyconfig \<Rightarrow> buf \<Rightarrow> buf \<Rightarrow> bool \<Rightarrow> int option" where
  "Cmp2Map cfg s1 s2 bSP = do {
     a0 \<leftarrow> rd s1 0; b0 \<leftarrow> rd s2 0; b1 \<leftarrow> rd s2 1;
     let i = Cmp1Map cfg a0 b0 True (IsZ_C_S b0 \<and> b1 = 0x30) bSP;
     if i \<noteq> 0 then Some i
     else do { a1 \<leftarrow> rd s1 1; Some (Cmp1Map cfg a1 b1 False (IsJ_Q_X_Y b0) bSP) } }"

text \<open>The loop of \<open>CmpMap\<close> from a matched length on; the result is the value and the matched length.\<close>

function cmp_map :: "pyconfig \<Rightarrow> buf \<Rightarrow> buf \<Rightarrow> bool \<Rightarrow> nat \<Rightarrow> (int \<times> nat) option" where
  "cmp_map cfg s1 s2 bSP n = (case (rd s1 n, rd s2 n) of
       (Some a, Some b) \<Rightarrow>
         if b = 0 then Some (sint a - sint b, n)
         else (case rd s2 (Suc n) of None \<Rightarrow> None
           | Some b' \<Rightarrow> (let even = (Suc n mod 2 = 1);
               v = Cmp1Map cfg a b even (even \<and> IsZ_C_S b \<and> (b' = 0x30 \<or> b' = 0)) bSP in
               if v \<noteq> 0 then Some (v, n) else cmp_map cfg s1 s2 bSP (Suc n)))
     | _ \<Rightarrow> None)"
  by pat_completeness auto
termination
  by (relation "measure (\<lambda>(cfg, s1, s2, bSP, n). length s2 - n)") (auto simp: rd_def split: if_splits)

definition CmpMap :: "pyconfig \<Rightarrow> buf \<Rightarrow> buf \<Rightarrow> bool \<Rightarrow> (int \<times> nat) option" where
  "CmpMap cfg s1 s2 bSP = cmp_map cfg s1 s2 bSP 0"

section \<open>Split frequencies\<close>

definition InitPYSplitData :: "(buf \<times> buf \<times> int) list \<Rightarrow> pyconfig \<Rightarrow> pyconfig" where
  "InitPYSplitData pySplitData cfg = cfg\<lparr>splitData :=
     fold (\<lambda>(py1, py2, freq) h. hash_add h (py1 @ [0x20] @ py2) freq) pySplitData (splitData cfg)\<rparr>"

definition LookupPYFreq :: "pyconfig \<Rightarrow> nat \<Rightarrow> nat \<Rightarrow> int" where
  "LookupPYFreq cfg index1 index2 =
     (case hash_find (splitData cfg) (PYTable_str cfg index1 @ [0x20] @ PYTable_str cfg index2) of
        None \<Rightarrow> 0 | Some f \<Rightarrow> f)"

definition FreePYSplitData :: "pyconfig \<Rightarrow> pyconfig" where
  "FreePYSplitData cfg = cfg\<lparr>splitData := []\<rparr>"

end
