(* ===== verification/CmpMap_Laws.thy ===== *)
theory CmpMap_Laws
  imports PyParser
begin

text \<open>
  What \<open>CmpMap\<close> compares: two codes are equal when they have the same length and every position matches, and the
  matched length counts the positions before the first difference. It reads behind the first code when the second
  one is longer and has an unknown part right there.
\<close>

definition match_at :: "pyconfig \<Rightarrow> buf \<Rightarrow> buf \<Rightarrow> bool \<Rightarrow> nat \<Rightarrow> bool" where
  "match_at cfg s1 s2 bSP k \<longleftrightarrow> (let b' = (if Suc k < length s2 then s2 ! Suc k else 0) in
     Cmp1Map cfg (s1 ! k) (s2 ! k) (even k) (even k \<and> IsZ_C_S (s2 ! k) \<and> (b' = 0x30 \<or> b' = 0)) bSP = 0)"

definition codes_ok :: "pyconfig \<Rightarrow> bool" where
  "codes_ok cfg \<longleftrightarrow> (\<forall>m\<in>set (MHPY_C cfg) \<union> set (MHPY_S cfg). 0 \<notin> set (mh_map m))"

text \<open>The second code is longer, agrees with the first one, and goes on with an unknown part that counts as equal.\<close>

definition overruns :: "pyconfig \<Rightarrow> buf \<Rightarrow> buf \<Rightarrow> bool \<Rightarrow> bool" where
  "overruns cfg s1 s2 bSP \<longleftrightarrow> length s1 < length s2 \<and> (\<forall>k<length s1. match_at cfg s1 s2 bSP k) \<and>
     s2 ! length s1 = 0x30 \<and> (\<not> bFullPY cfg \<or> bSP)"

lemma sint_nonzero: "b \<noteq> 0 \<Longrightarrow> sint b \<noteq> 0"
  by (metis sint_0 signed_word_eqI)

lemma mh_index_zero: "\<forall>m\<in>set ms. 0 \<notin> set (mh_map m) \<Longrightarrow> mh_index any ms 0 b i = None"
  by (induction ms arbitrary: i) (auto simp: mh_pair_def)

lemma cmp1_zero:
  assumes "codes_ok cfg" "b \<noteq> 0"
  shows "Cmp1Map cfg 0 b s z bSP = 0 \<longleftrightarrow> b = 0x30 \<and> (\<not> bFullPY cfg \<or> bSP)"
proof -
  have "sint b \<noteq> 0" using assms(2) by (simp add: sint_nonzero)
  then show ?thesis using assms
    by (auto simp: Cmp1Map_def Let_def GetMHIndex_S2_def GetMHIndex_C2_def mh_index_zero codes_ok_def)
qed

lemma cmp_map_beyond: "n > length s1 \<Longrightarrow> cmp_map cfg s1 s2 bSP n = None"
  by (subst cmp_map.simps) simp

lemma cmp_map_step:
  assumes "is_cstr s2" "n < length s2" "n < length s1"
  shows "cmp_map cfg s1 s2 bSP n = (let v = Cmp1Map cfg (s1 ! n) (s2 ! n) (even n)
       (even n \<and> IsZ_C_S (s2 ! n) \<and> (let b' = (if Suc n < length s2 then s2 ! Suc n else 0) in b' = 0x30 \<or> b' = 0)) bSP in
     if v \<noteq> 0 then Some (v, n) else cmp_map cfg s1 s2 bSP (Suc n))"
proof -
  have "s2 ! n \<noteq> 0" using assms(1,2) by (rule is_cstr_nth)
  moreover have "rd s2 (Suc n) = Some (if Suc n < length s2 then s2 ! Suc n else 0)"
    using assms(2) by (auto simp: rd_def)
  moreover have "Suc n mod 2 = 1 \<longleftrightarrow> even n" by presburger
  ultimately show ?thesis using assms(2,3) by (subst cmp_map.simps) (simp add: Let_def)
qed

lemma cmp_map_result:
  assumes "is_cstr s1" "is_cstr s2" "codes_ok cfg"
  shows "n \<le> length s1 \<Longrightarrow> n \<le> length s2 \<Longrightarrow> (\<forall>k<n. match_at cfg s1 s2 bSP k) \<Longrightarrow>
    (case cmp_map cfg s1 s2 bSP n of
       Some (v, l) \<Rightarrow> l \<le> length s1 \<and> l \<le> length s2 \<and> (\<forall>k<l. match_at cfg s1 s2 bSP k) \<and>
         (l < length s1 \<and> l < length s2 \<longrightarrow> \<not> match_at cfg s1 s2 bSP l) \<and> (v = 0 \<longleftrightarrow> l = length s1 \<and> l = length s2) \<and>
         \<not> (l = length s1 \<and> l < length s2 \<and> s2 ! l = 0x30 \<and> (\<not> bFullPY cfg \<or> bSP))
     | None \<Rightarrow> overruns cfg s1 s2 bSP)"
  unfolding overruns_def
proof (induction "length s2 - n" arbitrary: n rule: less_induct)
  case less
  consider "n = length s2" | "n < length s2" "n = length s1" | "n < length s2" "n < length s1"
    using less.prems by linarith
  then show ?case
  proof cases
    case 1
    have "rd s1 n = Some (if n < length s1 then s1 ! n else 0)" using less.prems(1) by (auto simp: rd_def)
    then have eq: "cmp_map cfg s1 s2 bSP n = Some (sint (if n < length s1 then s1 ! n else 0), n)"
      using 1 by (subst cmp_map.simps) simp
    have "sint (s1 ! n) \<noteq> 0" if "n < length s1"
      using is_cstr_nth [OF assms(1) that] by (simp add: sint_nonzero)
    then show ?thesis using less.prems 1 unfolding eq by auto
  next
    case 2
    have b: "s2 ! n \<noteq> 0" using assms(2) 2(1) by (rule is_cstr_nth)
    have "rd s2 (Suc n) = Some (if Suc n < length s2 then s2 ! Suc n else 0)" using 2(1) by (auto simp: rd_def)
    then obtain e z where "cmp_map cfg s1 s2 bSP n = (let v = Cmp1Map cfg 0 (s2 ! n) e z bSP in
        if v \<noteq> 0 then Some (v, n) else cmp_map cfg s1 s2 bSP (Suc n))"
      using 2 b cmp_map.simps [of cfg s1 s2 bSP n] by (simp add: Let_def)
    then have eq: "cmp_map cfg s1 s2 bSP n = (if s2 ! n = 0x30 \<and> (\<not> bFullPY cfg \<or> bSP) then None
        else Some (Cmp1Map cfg 0 (s2 ! n) e z bSP, n))"
      using cmp1_zero [OF assms(3) b, of e z bSP] cmp_map_beyond [of s1 "Suc n"] 2(2) by (simp add: Let_def)
    have "s2 ! n = 0x30 \<and> (\<not> bFullPY cfg \<or> bSP) \<or> Cmp1Map cfg 0 (s2 ! n) e z bSP \<noteq> 0"
      using cmp1_zero [OF assms(3) b, of e z bSP] by blast
    then show ?thesis using less.prems 2 unfolding eq by auto
  next
    case 3
    show ?thesis
    proof (cases "match_at cfg s1 s2 bSP n")
      case True
      then have "cmp_map cfg s1 s2 bSP n = cmp_map cfg s1 s2 bSP (Suc n)"
        using cmp_map_step [OF assms(2) 3] by (simp add: match_at_def Let_def)
      moreover have "\<forall>k<Suc n. match_at cfg s1 s2 bSP k" using less.prems(3) True by (auto simp: less_Suc_eq)
      ultimately show ?thesis using less.hyps [of "Suc n"] 3 by simp
    next
      case False
      then have "\<exists>v. v \<noteq> 0 \<and> cmp_map cfg s1 s2 bSP n = Some (v, n)"
        using cmp_map_step [OF assms(2) 3] by (simp add: match_at_def Let_def)
      then show ?thesis using less.prems False 3 by auto
    qed
  qed
qed

text \<open>
  C32: \<open>CmpMap\<close> on two codes reads behind the first one exactly when that one is shorter, every position of it matches,
  the second one has an unknown part (\<open>0\<close>) right behind it, and unknown parts count as equal: the setting for complete
  Pinyin is off, or it is Shuangpin. In all other cases it returns: the matched length is the number of positions
  that match before the first difference or the end of one of them, and the result is zero just when both end there.
\<close>

theorem cmp_map_spec:
  assumes "is_cstr s1" "is_cstr s2" "codes_ok cfg"
  shows "(CmpMap cfg s1 s2 bSP = None \<longleftrightarrow>
       length s1 < length s2 \<and> (\<forall>k<length s1. match_at cfg s1 s2 bSP k) \<and> s2 ! length s1 = 0x30 \<and> (\<not> bFullPY cfg \<or> bSP)) \<and>
     (case CmpMap cfg s1 s2 bSP of
       Some (v, l) \<Rightarrow> l \<le> length s1 \<and> l \<le> length s2 \<and> (\<forall>k<l. match_at cfg s1 s2 bSP k) \<and>
         (l < length s1 \<and> l < length s2 \<longrightarrow> \<not> match_at cfg s1 s2 bSP l) \<and> (v = 0 \<longleftrightarrow> l = length s1 \<and> l = length s2)
     | None \<Rightarrow> True)"
proof (cases "CmpMap cfg s1 s2 bSP")
  case None
  then have "cmp_map cfg s1 s2 bSP 0 = None" by (simp only: CmpMap_def)
  with cmp_map_result [OF assms, of 0 bSP] have "overruns cfg s1 s2 bSP" by (simp del: cmp_map.simps)
  then show ?thesis using None by (simp add: overruns_def)
next
  case (Some vl)
  obtain v l where vl: "vl = (v, l)" by (cases vl)
  have "cmp_map cfg s1 s2 bSP 0 = Some (v, l)" using Some unfolding vl by (simp only: CmpMap_def)
  with cmp_map_result [OF assms, of 0 bSP] have r: "l \<le> length s1" "l \<le> length s2"
    "\<forall>k<l. match_at cfg s1 s2 bSP k" "l < length s1 \<and> l < length s2 \<longrightarrow> \<not> match_at cfg s1 s2 bSP l"
    "v = 0 \<longleftrightarrow> l = length s1 \<and> l = length s2"
    "\<not> (l = length s1 \<and> l < length s2 \<and> s2 ! l = 0x30 \<and> (\<not> bFullPY cfg \<or> bSP))"
    by (auto simp only: option.case prod.case)
  have "\<not> overruns cfg s1 s2 bSP"
  proof
    assume o: "overruns cfg s1 s2 bSP"
    then have "l = length s1" using r(1,4) unfolding overruns_def by (meson le_neq_implies_less less_trans)
    with o r(6) show False by (simp add: overruns_def)
  qed
  then show ?thesis using Some vl r(1-5) by (simp add: overruns_def)
qed

definition fuzzy_config :: pyconfig where
  "fuzzy_config = \<lparr> spscheme = SP_ZIRANMA, bFullPY = False, bPYCreateAuto = False, bPYSaveAutoAsPhrase = False,
     bFixCursorAtHead = False, bUseVForQuickPhrase = False, baseOrder = AD_NO, phraseOrder = AD_NO, freqOrder = AD_NO,
     MHPY_C = InitMHPY MHPY_C_TEMPLATE, MHPY_S = InitMHPY MHPY_S_TEMPLATE, bMisstypeNGGN = False, PYTable = [], cNonS = 0x6f,
     SPMap_C = [], SPMap_S = [], splitData = [] \<rparr>"

text \<open>The code of \<open>zhi\<close> before that of \<open>u\<close>: the comparison with a phrase that ends there leaves it.\<close>

lemma cmp_map_spec_witness:
  "CmpMap fuzzy_config (ascii ''AJ'') (ascii ''AJ0W'') False = None \<and> length (ascii ''AJ'') < length (ascii ''AJ0W'')"
proof -
  have ok: "is_cstr (ascii ''AJ'')" "is_cstr (ascii ''AJ0W'')" "codes_ok fuzzy_config"
    by (simp_all add: is_cstr_def ascii_def codes_ok_def fuzzy_config_def InitMHPY_def MHPY_C_TEMPLATE_def MHPY_S_TEMPLATE_def)
  have "CmpMap fuzzy_config (ascii ''AJ'') (ascii ''AJ0W'') False = None" by code_simp
  with cmp_map_spec [OF ok, of False] show ?thesis by simp
qed

end
