(* ===== verification/ShuangPin.thy ===== *)
theory ShuangPin
  imports PyParser
begin

text \<open>
  Shuangpin, two keys for a Pinyin: \<open>src/im/pinyin/sp.c\<close>. The layout of the configuration has room for 31
  finals and 4 initials, with the empty entry that ends each.
\<close>

section \<open>Searching the layout\<close>

fun sp_index :: "(buf \<times> byte \<Rightarrow> bool) \<Rightarrow> (buf \<times> byte) list \<Rightarrow> nat \<Rightarrow> nat option option" where
  "sp_index P [] i = None"
| "sp_index P (e # t) i = (if fst e = [] then Some None else if P e then Some (Some i) else sp_index P t (Suc i))"

definition GetSPIndexQP_S :: "pyconfig \<Rightarrow> buf \<Rightarrow> nat option option" where
  "GetSPIndexQP_S cfg str = sp_index (\<lambda>e. fst e = str) (SPMap_S cfg) 0"

definition GetSPIndexQP_C :: "pyconfig \<Rightarrow> buf \<Rightarrow> nat option option" where
  "GetSPIndexQP_C cfg str = sp_index (\<lambda>e. fst e = str) (SPMap_C cfg) 0"

definition GetSPIndexJP_S :: "pyconfig \<Rightarrow> byte \<Rightarrow> nat option option" where
  "GetSPIndexJP_S cfg c = sp_index (\<lambda>e. snd e = c) (SPMap_S cfg) 0"

definition GetSPIndexJP_C :: "pyconfig \<Rightarrow> byte \<Rightarrow> nat \<Rightarrow> nat option option" where
  "GetSPIndexJP_C cfg c iStart = sp_index (\<lambda>e. snd e = c) (drop iStart (SPMap_C cfg)) iStart"

section \<open>Loading a layout\<close>

text \<open>
  The arrays are copied with a fixed number of entries, 4 and 31; the copy of a shorter table reads behind its
  end. The layout of the user is a file of lines \<open>pinyin=key\<close>, behind a line with the name of the layout; the
  names of the layouts that are built in are not taken.
\<close>

definition copy_layout :: "(buf \<times> byte) list \<Rightarrow> (buf \<times> byte) list \<Rightarrow> byte \<Rightarrow> pyconfig \<Rightarrow> pyconfig option" where
  "copy_layout C S nonS cfg = (if length C < 31 \<or> length S < 4 then None
     else Some (cfg\<lparr>cNonS := nonS, SPMap_S := take 4 S, SPMap_C := take 31 C\<rparr>))"

definition sp_name_key :: buf where
  "sp_name_key = [0xe6, 0x96, 0xb9, 0xe6, 0xa1, 0x88, 0xe5, 0x90, 0x8d, 0xe7, 0xa7, 0xb0, 0x3d]"

definition sp_known_names :: "buf list" where
  "sp_known_names = [
     [0xe8, 0x87, 0xaa, 0xe7, 0x84, 0xb6, 0xe7, 0xa0, 0x81],
     [0xe5, 0xbe, 0xae, 0xe8, 0xbd, 0xaf],
     [0xe7, 0xb4, 0xab, 0xe5, 0x85, 0x89],
     [0xe6, 0x8b, 0xbc, 0xe9, 0x9f, 0xb3, 0xe5, 0x8a, 0xa0, 0xe5, 0x8a, 0xa0],
     [0xe4, 0xb8, 0xad, 0xe6, 0x96, 0x87, 0xe4, 0xb9, 0x8b, 0xe6, 0x98, 0x9f],
     [0xe6, 0x99, 0xba, 0xe8, 0x83, 0xbd, 0x41, 0x42, 0x43],
     [0xe5, 0xb0, 0x8f, 0xe9, 0xb9, 0xa4]]"

definition skip_blank :: "buf \<Rightarrow> buf" where
  "skip_blank s = (case s of c # t \<Rightarrow> if c = 0x20 \<or> c = 0x09 then t else s | [] \<Rightarrow> [])"

definition trim_line :: "buf \<Rightarrow> buf" where
  "trim_line s = rev (dropWhile (\<lambda>c. c = 0x20 \<or> c = 0x0a) (rev s))"

definition set_key :: "nat \<Rightarrow> byte \<Rightarrow> (buf \<times> byte) list \<Rightarrow> (buf \<times> byte) list" where
  "set_key i c t = t[i := (fst (t ! i), c)]"

text \<open>The name in front of the equals sign is copied to an array of five bytes.\<close>

definition sp_entry :: "buf \<Rightarrow> pyconfig \<Rightarrow> pyconfig option" where
  "sp_entry pstr cfg = do {
     c0 \<leftarrow> rd pstr 0;
     if c0 = 0x3d then do { c1 \<leftarrow> rd pstr 1; Some (cfg\<lparr>cNonS := to_lower c1\<rparr>) }
     else (let i = strcspn pstr [0x3d] in
       if i = length pstr then Some cfg
       else if i > 4 then None
       else do {
         c \<leftarrow> rd pstr (Suc i);
         s \<leftarrow> GetSPIndexQP_S cfg (take i pstr);
         case s of
           Some k \<Rightarrow> Some (cfg\<lparr>SPMap_S := set_key k (to_lower c) (SPMap_S cfg)\<rparr>)
         | None \<Rightarrow> do {
             f \<leftarrow> GetSPIndexQP_C cfg (take i pstr);
             Some (case f of None \<Rightarrow> cfg
               | Some k \<Rightarrow> cfg\<lparr>SPMap_C := set_key k (to_lower c) (SPMap_C cfg)\<rparr>) } }) }"

definition sp_line :: "buf \<Rightarrow> pyconfig \<times> bool \<Rightarrow> (pyconfig \<times> bool) option" where
  "sp_line str st = (case st of (cfg, bIsDefault) \<Rightarrow>
     let pstr = skip_blank (trim_line str) in
     if pstr = [] \<or> hd pstr = 0x23 then Some st
     else if has_prefix sp_name_key pstr then
       Some (cfg, bIsDefault \<or> skip_blank (drop (length sp_name_key) pstr) \<notin> set sp_known_names)
     else if \<not> bIsDefault then Some st
     else do { cfg \<leftarrow> sp_entry pstr cfg; Some (cfg, bIsDefault) })"

fun sp_lines :: "buf list \<Rightarrow> pyconfig \<times> bool \<Rightarrow> (pyconfig \<times> bool) option" where
  "sp_lines [] st = Some st"
| "sp_lines (l # ls) st = do { st \<leftarrow> sp_line l st; sp_lines ls st }"

text \<open>The lines that \<open>fgets\<close> returns for a buffer of 100 bytes.\<close>

function fgets100 :: "buf \<Rightarrow> buf list" where
  "fgets100 [] = []"
| "fgets100 (c # s) = (let n = min 99 (Suc (strcspn (c # s) [0x0a])) in take n (c # s) # fgets100 (drop n (c # s)))"
  by pat_completeness auto
termination
  by (relation "measure length") (auto simp: Let_def min_def)

text \<open>Entries of a single letter get that letter as their key again before the file of the user is read.\<close>

definition reset_singles :: "(buf \<times> byte) list \<Rightarrow> (buf \<times> byte) list" where
  "reset_singles t = map (\<lambda>(s, c). case s of [b] \<Rightarrow> (s, b) | _ \<Rightarrow> (s, c)) t"

definition user_layout :: "buf option \<Rightarrow> pyconfig \<Rightarrow> pyconfig option" where
  "user_layout fp cfg = do {
     text \<leftarrow> fp;
     (cfg, d) \<leftarrow> sp_lines (fgets100 text) (cfg\<lparr>SPMap_C := reset_singles (SPMap_C cfg)\<rparr>, False);
     Some cfg }"

definition uses_semicolon :: "pyconfig \<Rightarrow> bool" where
  "uses_semicolon cfg \<longleftrightarrow>
     0x3b \<in> snd ` set (takeWhile (\<lambda>e. fst e \<noteq> []) (SPMap_C cfg)) \<or>
     0x3b \<in> snd ` set (takeWhile (\<lambda>e. fst e \<noteq> []) (SPMap_S cfg)) \<or> cNonS cfg = 0x3b"

text \<open>\<open>LoadSPData\<close> on the configuration and the flag of the state that the semicolon is a key of the layout.\<close>

definition LoadSPData :: "buf option \<Rightarrow> pyconfig \<times> bool \<Rightarrow> (pyconfig \<times> bool) option" where
  "LoadSPData fp st = (case st of (cfg, bSP_UseSemicolon) \<Rightarrow> do {
     cfg \<leftarrow> (case spscheme cfg of
         SP_ZIRANMA \<Rightarrow> copy_layout SPMap_C_Ziranma SPMap_S_Ziranma 0x6f cfg
       | SP_MS \<Rightarrow> copy_layout SPMap_C_MS SPMap_S_MS 0x6f cfg
       | SP_ZIGUANG \<Rightarrow> copy_layout SPMap_C_Ziguang SPMap_S_Ziguang 0x6f cfg
       | SP_PINYINJIAJIA \<Rightarrow> copy_layout SPMap_C_PinyinJiaJia SPMap_S_PinyinJiaJia 0x6f cfg
       | SP_ZHONGWENZHIXING \<Rightarrow> copy_layout SPMap_C_Zhongwenzhixing SPMap_S_Zhongwenzhixing 0x6f cfg
       | SP_ABC \<Rightarrow> copy_layout SPMap_C_ABC SPMap_S_ABC 0x6f cfg
       | SP_XIAOHE \<Rightarrow> copy_layout SPMap_C_XIAOHE SPMap_S_XIAOHE 0x2a cfg
       | SP_USERDEFINE \<Rightarrow> user_layout fp cfg);
     Some (cfg, bSP_UseSemicolon \<or> uses_semicolon cfg) })"

section \<open>From two keys to a Pinyin\<close>

definition aeiou :: buf where
  "aeiou = ascii ''aeiou''"

text \<open>
  The rule of Xiaohe: Pinyin without initial are typed with their first letter, twice for a single letter and
  before the key of the final otherwise. The loop looks for a final of that key that begins with the letter.
\<close>

fun key_finals :: "pyconfig \<Rightarrow> byte \<Rightarrow> nat \<Rightarrow> nat \<Rightarrow> nat list option" where
  "key_finals cfg c iStart 0 = None"
| "key_finals cfg c iStart (Suc n) = do {
     r \<leftarrow> GetSPIndexJP_C cfg c iStart;
     case r of None \<Rightarrow> Some []
     | Some i \<Rightarrow> do { is \<leftarrow> key_finals cfg c (Suc i) n; Some (i # is) } }"

definition xiaohe_nonS :: "pyconfig \<Rightarrow> byte \<Rightarrow> byte \<Rightarrow> bool option" where
  "xiaohe_nonS cfg a b =
     (if cNonS cfg \<noteq> 0x2a \<or> a \<notin> set aeiou \<or> b = 0 then Some False
      else if b \<in> set aeiou then Some (a = b)
      else map_option (\<lambda>is. \<exists>i\<in>set is. hd (fst (SPMap_C cfg ! i)) = a) (key_finals cfg b 0 32))"

definition cat7 :: "buf \<Rightarrow> buf \<Rightarrow> buf option" where
  "cat7 s t = (if length s + length t \<le> 6 then Some (s @ t) else None)"

text \<open>The finals of the second key in order: the first one that makes a Pinyin, else the key itself.\<close>

fun try_finals :: "pyconfig \<Rightarrow> bool \<Rightarrow> byte \<Rightarrow> byte \<Rightarrow> buf \<Rightarrow> nat list \<Rightarrow> (buf \<times> bool) option" where
  "try_finals cfg check a b strQP [] = do { q \<leftarrow> cat7 strQP [b]; Some (q, False) }"
| "try_finals cfg check a b strQP (i # is) =
     (if check \<and> hd (fst (SPMap_C cfg ! i)) \<noteq> a then try_finals cfg check a b strQP is
      else do {
        q \<leftarrow> cat7 strQP (fst (SPMap_C cfg ! i));
        if FindPYFAIndex cfg q False \<noteq> None then Some (q, True)
        else try_finals cfg check a b strQP is })"

text \<open>One pass: the Pinyin, and whether the second index is not -1.\<close>

definition sp_pass :: "pyconfig \<Rightarrow> bool \<Rightarrow> byte \<Rightarrow> byte \<Rightarrow> (buf \<times> bool) option" where
  "sp_pass cfg check a b = do {
     q \<leftarrow> (if a \<noteq> cNonS cfg \<and> \<not> check then do {
              r \<leftarrow> GetSPIndexJP_S cfg a;
              Some (case r of None \<Rightarrow> [a] | Some i \<Rightarrow> fst (SPMap_S cfg ! i)) }
            else Some (if b = 0 then [a] else []));
     if b = 0 then Some (q, True)
     else do {
       is \<leftarrow> key_finals cfg b 0 32;
       try_finals cfg check a b q is } }"

definition SP2QP :: "pyconfig \<Rightarrow> buf \<Rightarrow> buf option" where
  "SP2QP cfg strSP = do {
     a \<leftarrow> rd strSP 0;
     b \<leftarrow> rd strSP 1;
     check \<leftarrow> xiaohe_nonS cfg a b;
     (q, found) \<leftarrow> sp_pass cfg check a b;
     (q, found) \<leftarrow> (if FindPYFAIndex cfg q False \<noteq> None then Some (q, True)
       else if check then do {
         (q, found) \<leftarrow> sp_pass cfg False a b;
         Some (q, found \<or> FindPYFAIndex cfg q False \<noteq> None) }
       else Some (q, found));
     Some (if \<not> found \<and> FindPYFAIndex cfg strSP False \<noteq> None then strSP else q) }"

end
