(* ===== verification/ParsePY.thy ===== *)
theory ParsePY
  imports ShuangPin
begin

text \<open>
  The parser of \<open>src/im/pinyin/pyParser.c\<close>: \<open>ParsePY\<close> cuts what was typed into pieces, one for a character,
  with their codes. The result has room for 35 pieces; writing behind them is \<open>None\<close>. The argument is the text
  before the terminator, and reading in front of it or behind its terminator is \<open>None\<close>.
\<close>

section \<open>The result\<close>

definition PARSE_ERROR :: nat where "PARSE_ERROR = 0"
definition PARSE_SINGLEHZ :: nat where "PARSE_SINGLEHZ = 1"
definition PARSE_PHRASE :: nat where "PARSE_PHRASE = 2"
definition PARSE_ABBR :: nat where "PARSE_ABBR = 4"

definition PY_PARSE_INPUT_USER :: byte where "PY_PARSE_INPUT_USER = 0x30"
definition PY_PARSE_INPUT_SYSTEM :: byte where "PY_PARSE_INPUT_SYSTEM = 0x20"

definition PY_SEPARATOR :: byte where "PY_SEPARATOR = 0x27"

record ParsePYStruct =
  strPYParsed :: "buf list"
  strMap :: "buf list"
  iHZCount :: nat
  iMode :: nat

definition put_parsed :: "buf \<Rightarrow> ParsePYStruct \<Rightarrow> ParsePYStruct option" where
  "put_parsed s p = (if iHZCount p < length (strPYParsed p) \<and> length s < 8
     then Some (p\<lparr>strPYParsed := (strPYParsed p)[iHZCount p := s]\<rparr>) else None)"

definition put_map :: "buf \<Rightarrow> ParsePYStruct \<Rightarrow> ParsePYStruct option" where
  "put_map s p = (if iHZCount p < length (strMap p) \<and> length s < 3
     then Some (p\<lparr>strMap := (strMap p)[iHZCount p := s]\<rparr>) else None)"

text \<open>The C string in a local array; reading a byte that was not written is \<open>None\<close>.\<close>

fun local_str :: "local_map \<Rightarrow> buf option" where
  "local_str [] = None"
| "local_str (None # m) = None"
| "local_str (Some c # m) = (if c = 0 then Some [] else map_option ((#) c) (local_str m))"

definition put_piece :: "buf \<Rightarrow> buf \<Rightarrow> ParsePYStruct \<Rightarrow> ParsePYStruct option" where
  "put_piece s m p = do {
     p \<leftarrow> put_parsed s p;
     p \<leftarrow> put_map m p;
     Some (p\<lparr>iHZCount := Suc (iHZCount p)\<rparr>) }"

definition strip_seps :: "buf \<Rightarrow> buf" where
  "strip_seps s = dropWhile (\<lambda>c. c = PY_SEPARATOR) s"

section \<open>Shuangpin\<close>

text \<open>
  One round of the loop of Shuangpin: the rest of the text, the result and the array of the code. Whether the
  loop ends here is the last component.
\<close>

type_synonym parsing = "buf \<times> ParsePYStruct \<times> local_map"

definition sp_single :: "pyconfig \<Rightarrow> byte \<Rightarrow> byte \<Rightarrow> ParsePYStruct \<Rightarrow> local_map \<Rightarrow> (ParsePYStruct \<times> local_map) option" where
  "sp_single cfg mode a p m = do {
     q \<leftarrow> SP2QP cfg [a];
     (ok, m) \<leftarrow> MapPY cfg q m mode;
     s \<leftarrow> (if ok then local_str m else Some [a]);
     p \<leftarrow> put_piece [a] s p;
     Some (p, m) }"

definition sp_round :: "pyconfig \<Rightarrow> byte \<Rightarrow> parsing \<Rightarrow> (parsing \<times> bool) option" where
  "sp_round cfg mode st = (case st of (a # strP, p, m) \<Rightarrow> do {
       let jp = a # take 1 strP;
       q \<leftarrow> SP2QP cfg jp;
       (ok, m) \<leftarrow> MapPY cfg q m mode;
       if strP = [] then do {
         s \<leftarrow> local_str m;
         p \<leftarrow> put_piece jp s p;
         Some (([], p, m), True) }
       else do {
         (p, m, strP) \<leftarrow> (if FindPYFAIndex cfg q False \<noteq> None then do {
             s \<leftarrow> local_str m;
             p \<leftarrow> put_piece jp s p;
             Some (p, m, drop 1 strP) }
           else do {
             (p, m) \<leftarrow> sp_single cfg mode a p m;
             Some (p, m, strP) });
         if strP \<noteq> [] \<and> hd strP = PY_SEPARATOR then do {
           let i = iHZCount p - 1;
           s \<leftarrow> (if length (strPYParsed p ! i) < 7 then Some (strPYParsed p ! i @ [PY_SEPARATOR]) else None);
           Some ((strip_seps strP, p\<lparr>strPYParsed := (strPYParsed p)[i := s]\<rparr>, m), False) }
         else Some ((strP, p, m), False) } }
     | ([], _, _) \<Rightarrow> None)"

fun sp_loop :: "nat \<Rightarrow> pyconfig \<Rightarrow> byte \<Rightarrow> parsing \<Rightarrow> ParsePYStruct option" where
  "sp_loop n cfg mode ([], p, m) = Some p"
| "sp_loop 0 cfg mode (c # s, p, m) = None"
| "sp_loop (Suc n) cfg mode (c # s, p, m) = do {
     (st, end) \<leftarrow> sp_round cfg mode (c # s, p, m);
     if end then Some (fst (snd st)) else sp_loop n cfg mode st }"

section \<open>Quanpin\<close>

text \<open>
  Where a Pinyin ends in \<open>g\<close>, \<open>n\<close>, \<open>e\<close> or \<open>a\<close> it may be cut one letter earlier: when the shorter one is a
  Pinyin, the rest begins with one of more than a letter, and that split is longer in all or more frequent.
\<close>

definition resplit_wins :: "pyconfig \<Rightarrow> buf \<Rightarrow> nat \<Rightarrow> nat \<Rightarrow> nat \<Rightarrow> bool" where
  "resplit_wins cfg strP iIndex firstIndex iTemp =
     (case FindPYFAIndex cfg (drop (length (PYTable_str cfg iIndex)) strP) True of
        None \<Rightarrow> True
      | Some index2 \<Rightarrow> (let
          length1 = length (PYTable_str cfg iIndex) + length (PYTable_str cfg index2);
          length2 = length (PYTable_str cfg firstIndex) + length (PYTable_str cfg iTemp) in
          if length1 \<noteq> length2 then length1 < length2
          else LookupPYFreq cfg iIndex index2 \<le> LookupPYFreq cfg firstIndex iTemp))"

definition split_piece :: "pyconfig \<Rightarrow> buf \<Rightarrow> nat \<Rightarrow> buf" where
  "split_piece cfg strP iIndex = (let py = PYTable_str cfg iIndex; short = take (length py - 1) strP in
     if last py \<notin> {0x67, 0x6e, 0x65, 0x61} then py
     else (case FindPYFAIndex cfg short False of None \<Rightarrow> py
       | Some firstIndex \<Rightarrow>
           (case FindPYFAIndex cfg (drop (length (PYTable_str cfg firstIndex)) strP) True of None \<Rightarrow> py
            | Some iTemp \<Rightarrow>
                if length (PYTable_str cfg iTemp) = 1 \<or> PYTable_str cfg iTemp = ascii ''ng'' then py
                else if resplit_wins cfg strP iIndex firstIndex iTemp then short else py)))"

text \<open>One round of the loop: the text, whether a separator waits, the result and the array of the code.\<close>

type_synonym qp_parsing = "buf \<times> bool \<times> ParsePYStruct \<times> local_map"

definition with_sep :: "bool \<Rightarrow> buf \<Rightarrow> buf" where
  "with_sep bSeperator s = (if bSeperator then PY_SEPARATOR # s else s)"

definition qp_piece :: "pyconfig \<Rightarrow> byte \<Rightarrow> buf \<Rightarrow> qp_parsing \<Rightarrow> qp_parsing option" where
  "qp_piece cfg mode py st = (case st of (strP, bSeperator, p, m) \<Rightarrow> do {
     (ok, m) \<leftarrow> MapPY cfg py m mode;
     s \<leftarrow> local_str m;
     p \<leftarrow> put_piece (with_sep bSeperator py) s p;
     Some (drop (length py) strP, False, p, m) })"

definition qp_separator :: "qp_parsing \<Rightarrow> qp_parsing option" where
  "qp_separator st = (case st of (strP, bSeperator, p, m) \<Rightarrow>
     if strP = [] then None
     else do {
       p \<leftarrow> put_parsed [PY_SEPARATOR] p;
       p \<leftarrow> put_map [0x30, 0x30] p;
       Some (drop 1 strP, True, p, m) })"

definition set_mode :: "nat \<Rightarrow> qp_parsing \<Rightarrow> qp_parsing" where
  "set_mode v st = (case st of (strP, b, p, m) \<Rightarrow> (strP, b, p\<lparr>iMode := v\<rparr>, m))"

definition qp_round :: "pyconfig \<Rightarrow> byte \<Rightarrow> qp_parsing \<Rightarrow> qp_parsing option" where
  "qp_round cfg mode st = (case st of (strP, bSeperator, p, m) \<Rightarrow>
     (case FindPYFAIndex cfg strP True of
        Some iIndex \<Rightarrow> qp_piece cfg mode (split_piece cfg strP iIndex) st
      | None \<Rightarrow> do {
          c \<leftarrow> rd strP 0;
          let st = (if bFullPY cfg \<and> c \<noteq> PY_SEPARATOR then set_mode PARSE_ERROR st else st);
          case IsConsonant strP True of
            Some i \<Rightarrow> qp_piece cfg mode (fst (consonantMapTable ! i)) (set_mode PARSE_ERROR st)
          | None \<Rightarrow> (case IsSyllabary strP True of
              Some i \<Rightarrow> qp_piece cfg mode (fst (syllabaryMapTable ! i))
                (if iMode (fst (snd (snd st))) \<noteq> PARSE_ERROR then set_mode PARSE_ABBR st else st)
            | None \<Rightarrow> qp_separator st) }))"

text \<open>The loop runs at least once; every round takes at least one character.\<close>

fun qp_loop :: "nat \<Rightarrow> pyconfig \<Rightarrow> byte \<Rightarrow> qp_parsing \<Rightarrow> ParsePYStruct option" where
  "qp_loop 0 cfg mode st = None"
| "qp_loop (Suc n) cfg mode st = do {
     (strP, b, p, m) \<leftarrow> qp_round cfg mode st;
     if strP = [] then Some p else qp_loop n cfg mode (strP, b, p, m) }"

section \<open>ParsePY\<close>

definition final_mode :: "ParsePYStruct \<Rightarrow> ParsePYStruct" where
  "final_mode p = (if iMode p = PARSE_ERROR then p
     else p\<lparr>iMode := (iMode p AND PARSE_ABBR) OR (if iHZCount p > 1 then PARSE_PHRASE else PARSE_SINGLEHZ)\<rparr>)"

definition ParsePY :: "pyconfig \<Rightarrow> buf \<Rightarrow> ParsePYStruct \<Rightarrow> byte \<Rightarrow> bool \<Rightarrow> ParsePYStruct option" where
  "ParsePY cfg strPY parsePY mode bSP = do {
     let p = parsePY\<lparr>iMode := PARSE_SINGLEHZ, iHZCount := 0\<rparr>;
     let m = [None, None, None];
     p \<leftarrow> (if bSP then sp_loop (length strPY) cfg mode (strPY, p, m)
          else qp_loop (length strPY) cfg mode (strPY, False, p, m));
     if strPY = [] then None
     else Some (final_mode
       (if last strPY = PY_SEPARATOR \<and> \<not> bSP then p\<lparr>iHZCount := Suc (iHZCount p)\<rparr> else p)) }"

definition parse_buffer :: ParsePYStruct where
  "parse_buffer = \<lparr> strPYParsed = replicate 35 [], strMap = replicate 35 [], iHZCount = 0, iMode = PARSE_SINGLEHZ \<rparr>"

end
