(* ===== verification/PyDict.thy ===== *)
theory PyDict
  imports ParsePY ShuangPin Utils_Sys Utf8
begin

text \<open>
  The dictionary of \<open>src/im/pinyin/py.c\<close>: characters under their Pinyin (\<open>PYFA\<close>, \<open>PyBase\<close>), the phrases of the
  system and of the user that begin with a character, and the frequent characters of a Pinyin, with the files they
  are loaded from and saved to. The circular list of the phrases of the user, which begins with a sentinel, and the
  lists of frequent characters are lists without their sentinels; the counters that the code keeps beside them are
  fields, and walking on to a sentinel is \<open>None\<close>. A file is the list of its bytes, and the files that are written
  are fields of the state.
\<close>

section \<open>State\<close>

record HZ =
  hz_strHZ :: buf
  hz_iPYFA :: uint32
  hz_iHit :: uint32
  hz_iIndex :: uint32

record PyFreq =
  pf_HZList :: "HZ list"
  pf_strPY :: buf
  pf_iCount :: uint32

record PyPhrase =
  ph_strPhrase :: buf
  ph_strMap :: buf
  ph_iIndex :: uint32
  ph_iHit :: uint32

record PyBase =
  b_strHZ :: buf
  b_phrase :: "PyPhrase list"
  b_userPhrase :: "PyPhrase list"
  b_iUserPhrase :: int
  b_iIndex :: uint32
  b_iHit :: uint32

record PYFA =
  fa_strMap :: buf
  fa_pyBase :: "PyBase list"

record PY_SELECTED =
  sel_strPY :: buf
  sel_strHZ :: buf
  sel_strMap :: buf

record pystate =
  py_config :: pyconfig
  PYFAList :: "PYFA list"
  iCounter :: uint32
  iOrigCounter :: uint32
  bPYBaseDictLoaded :: bool
  bPYOtherDictLoaded :: bool
  pyFreq :: "PyFreq list"
  iPYFreqCount :: uint32
  strFindString :: buf
  findTail :: buf
  findMap :: ParsePYStruct
  iPYInsertPoint :: int
  strPYRemindSource :: buf
  strPYRemindMap :: buf
  pySelected :: "PY_SELECTED list"
  strPYAuto :: buf
  strPYAutoMap :: buf
  iNewPYPhraseCount :: int
  iOrderCount :: int
  iNewFreqCount :: int
  bIsPYAddFreq :: bool
  bIsPYDelFreq :: bool
  bIsPYDelUserPhr :: bool
  bSP_UseSemicolon :: bool
  py_bSP :: bool
  py_disk :: bool
  usr_file :: "buf option"
  index_file :: "buf option"
  freq_file :: "buf option"

text \<open>
  \<open>py_disk\<close> tells whether a temporary file can be created in the directory of the user; saving does nothing
  otherwise.
\<close>

definition AUTOSAVE_PHRASE_COUNT :: int where "AUTOSAVE_PHRASE_COUNT = 1024"
definition AUTOSAVE_ORDER_COUNT :: int where "AUTOSAVE_ORDER_COUNT = 1024"
definition AUTOSAVE_FREQ_COUNT :: int where "AUTOSAVE_FREQ_COUNT = 32"
definition PY_INDEX_MAGIC_NUMBER :: uint32 where "PY_INDEX_MAGIC_NUMBER = 0xf7462e34"
definition UTF8_MAX_LENGTH :: nat where "UTF8_MAX_LENGTH = 6"
definition MAX_WORDS_USER_INPUT :: nat where "MAX_WORDS_USER_INPUT = 32"
definition MAX_PY_PHRASE_LENGTH :: nat where "MAX_PY_PHRASE_LENGTH = 10"

text \<open>\<open>strcat\<close> to an array with room for a string of \<open>n\<close> bytes.\<close>

definition scat :: "nat \<Rightarrow> buf \<Rightarrow> buf \<Rightarrow> buf option" where
  "scat n s t = (if length s + length t \<le> n then Some (s @ t) else None)"

definition upd_base :: "nat \<Rightarrow> nat \<Rightarrow> (PyBase \<Rightarrow> PyBase) \<Rightarrow> pystate \<Rightarrow> pystate" where
  "upd_base i j f st = st\<lparr>PYFAList := (PYFAList st)[i := (PYFAList st ! i)\<lparr>fa_pyBase :=
     (fa_pyBase (PYFAList st ! i))[j := f (fa_pyBase (PYFAList st ! i) ! j)]\<rparr>]\<rparr>"

definition get_base :: "pystate \<Rightarrow> nat \<Rightarrow> nat \<Rightarrow> PyBase" where
  "get_base st i j = fa_pyBase (PYFAList st ! i) ! j"

section \<open>Finding characters\<close>

fun base_index :: "buf \<Rightarrow> PyBase list \<Rightarrow> nat \<Rightarrow> nat option" where
  "base_index s [] j = None"
| "base_index s (b # bs) j = (if s = b_strHZ b then Some j else base_index s bs (Suc j))"

text \<open>A negative index of a Pinyin reads in front of the list.\<close>

definition GetBaseIndex :: "pystate \<Rightarrow> int \<Rightarrow> buf \<Rightarrow> nat option option" where
  "GetBaseIndex st iPYFA strBase =
     (if iPYFA < 0 then None
      else if nat iPYFA < length (PYFAList st) then Some (base_index strBase (fa_pyBase (PYFAList st ! nat iPYFA)) 0)
      else Some None)"

fun base_map_index :: "buf \<Rightarrow> PYFA list \<Rightarrow> nat \<Rightarrow> nat option" where
  "base_map_index s [] i = None"
| "base_map_index s (f # fs) i = (if s = fa_strMap f then Some i else base_map_index s fs (Suc i))"

definition GetBaseMapIndex :: "pystate \<Rightarrow> buf \<Rightarrow> nat option" where
  "GetBaseMapIndex st s = base_map_index s (PYFAList st) 0"

section \<open>Reading\<close>

text \<open>
  A read of an integer that comes short leaves the variable as it was, possibly unset. What a short read leaves in
  an array is not determined.
\<close>

definition read_i32 :: "uint32 option \<Rightarrow> buf \<Rightarrow> uint32 option \<times> buf" where
  "read_i32 old f = (case fcitx_utils_read_uint32 f of (Some v, f) \<Rightarrow> (Some v, f) | (None, f) \<Rightarrow> (old, f))"

definition fread_str :: "int \<Rightarrow> buf \<Rightarrow> (buf \<times> buf) option" where
  "fread_str n f = (if 0 \<le> n \<and> nat n \<le> length f
     then Some (takeWhile (\<lambda>c. c \<noteq> 0) (take (nat n) f), drop (nat n) f) else None)"

fun read_bases :: "nat \<Rightarrow> uint32 \<Rightarrow> uint32 option \<Rightarrow> buf \<Rightarrow> (PyBase list \<times> uint32 \<times> uint32 option \<times> buf) option" where
  "read_bases 0 counter iLen f = Some ([], counter, iLen, f)"
| "read_bases (Suc n) counter iLen f = do {
     (len, f) \<leftarrow> (case f of [] \<Rightarrow> None | c # f \<Rightarrow> Some (sint c, f));
     (s, f) \<leftarrow> (if len > int UTF8_MAX_LENGTH then None else fread_str len f);
     let (iLen, f) = read_i32 iLen f;
     v \<leftarrow> iLen;
     (bs, counter, iLen, f) \<leftarrow> read_bases n (max counter v) iLen f;
     Some (\<lparr> b_strHZ = s, b_phrase = [], b_userPhrase = [], b_iUserPhrase = 0, b_iIndex = v, b_iHit = 0 \<rparr> # bs,
       counter, iLen, f) }"

fun read_pyfas :: "nat \<Rightarrow> uint32 \<Rightarrow> uint32 option \<Rightarrow> buf \<Rightarrow> (PYFA list \<times> uint32) option" where
  "read_pyfas 0 counter iLen f = Some ([], counter)"
| "read_pyfas (Suc n) counter iLen f = do {
     (m, f) \<leftarrow> fread_str 2 f;
     let (k, f) = read_i32 (Some 0) f;
     k \<leftarrow> k;
     (bs, counter, iLen, f) \<leftarrow> (if sint k < 0 then None else read_bases (unat k) counter iLen f);
     (fas, counter) \<leftarrow> read_pyfas n counter iLen f;
     Some (\<lparr> fa_strMap = m, fa_pyBase = bs \<rparr> # fas, counter) }"

definition LoadPYBaseDict :: "buf option \<Rightarrow> pystate \<Rightarrow> (bool \<times> pystate) option" where
  "LoadPYBaseDict fp st = (case fp of None \<Rightarrow> Some (False, st)
     | Some f \<Rightarrow> do {
         let (n, f) = read_i32 (Some (of_nat (length (PYFAList st)))) f;
         n \<leftarrow> n;
         (fas, counter) \<leftarrow> (if sint n < 0 then None else read_pyfas (unat n) (iCounter st) None f);
         Some (True, st\<lparr>PYFAList := fas, iCounter := counter, iOrigCounter := counter, bPYBaseDictLoaded := True,
           pyFreq := []\<rparr>) })"

section \<open>Phrases\<close>

definition read_phrase :: "bool \<Rightarrow> uint32 option \<Rightarrow> buf \<Rightarrow> (PyPhrase \<times> uint32 option \<times> buf) option" where
  "read_phrase isSystem iLen f = do {
     let (iLen, f) = read_i32 iLen f;
     n \<leftarrow> iLen;
     (m, f) \<leftarrow> fread_str (sint n) f;
     let (iLen, f) = read_i32 iLen f;
     n \<leftarrow> iLen;
     (s, f) \<leftarrow> fread_str (sint n) f;
     let (iLen, f) = read_i32 iLen f;
     index \<leftarrow> iLen;
     let (iLen, f) = (if isSystem then (iLen, f) else read_i32 iLen f);
     hit \<leftarrow> iLen;
     Some (\<lparr> ph_strPhrase = s, ph_strMap = m, ph_iIndex = index, ph_iHit = (if isSystem then 0 else hit) \<rparr>, iLen, f) }"

fun read_phrases :: "bool \<Rightarrow> nat \<Rightarrow> uint32 \<Rightarrow> uint32 option \<Rightarrow> buf \<Rightarrow>
    (PyPhrase list \<times> uint32 \<times> uint32 option \<times> buf) option" where
  "read_phrases isSystem 0 counter iLen f = Some ([], counter, iLen, f)"
| "read_phrases isSystem (Suc n) counter iLen f = do {
     (p, iLen, f) \<leftarrow> read_phrase isSystem iLen f;
     (ps, counter, iLen, f) \<leftarrow> read_phrases isSystem n (max counter (ph_iIndex p)) iLen f;
     Some (p # ps, counter, iLen, f) }"

definition same_phrase :: "PyPhrase \<Rightarrow> PyPhrase \<Rightarrow> bool" where
  "same_phrase p q \<longleftrightarrow> ph_strMap p = ph_strMap q \<and> ph_strPhrase p = ph_strPhrase q"

definition add_system :: "bool \<Rightarrow> PyPhrase list \<Rightarrow> PyBase \<Rightarrow> PyBase" where
  "add_system stripDup ps b = (let old = b_phrase b in
     if old = [] then b\<lparr>b_phrase := ps\<rparr>
     else b\<lparr>b_phrase := old @ filter (\<lambda>p. \<not> (stripDup \<and> (\<exists>q\<in>set old. same_phrase q p))) ps\<rparr>)"

text \<open>
  One section of a file of phrases: the index of the Pinyin, the character, the count and the phrases. A section
  that cannot be read up to its count, or whose character is unknown, ends the loop. The phrases of the user are
  put in front of those that are already there, but the count is overwritten. A negative count of system phrases
  asks for more memory than there is, and the result is not looked at.
\<close>

definition phrase_head :: "pystate \<Rightarrow> buf \<Rightarrow> ((nat \<times> nat \<times> uint32) option \<times> buf) option" where
  "phrase_head st f = (case fcitx_utils_read_uint32 f of (None, f) \<Rightarrow> Some (None, f) | (Some i, f) \<Rightarrow>
     (case f of [] \<Rightarrow> Some (None, f) | c # f \<Rightarrow>
     (if sint c \<le> 0 \<or> sint c > int UTF8_MAX_LENGTH then Some (None, f)
      else case fread_str (sint c) f of None \<Rightarrow> Some (None, []) | Some (s, f) \<Rightarrow>
     (case fcitx_utils_read_uint32 f of (None, f) \<Rightarrow> Some (None, f) | (Some count, f) \<Rightarrow> do {
        j \<leftarrow> GetBaseIndex st (sint i) s;
        Some (map_option (\<lambda>j. (unat i, j, count)) j, f) }))))"

definition phrase_section :: "bool \<Rightarrow> bool \<Rightarrow> pystate \<times> uint32 option \<times> buf \<Rightarrow>
    (bool \<times> pystate \<times> uint32 option \<times> buf) option" where
  "phrase_section isSystem stripDup s = (case s of (st, iLen, f) \<Rightarrow> do {
     (h, f) \<leftarrow> phrase_head st f;
     case h of None \<Rightarrow> Some (False, st, iLen, f)
     | Some (i, j, count) \<Rightarrow> do {
         n \<leftarrow> (if isSystem \<and> sint count < 0 then None else Some (nat (sint count)));
         (ps, counter, iLen, f) \<leftarrow> read_phrases isSystem n (iCounter st) iLen f;
         let upd = (if isSystem then add_system stripDup ps
           else (\<lambda>b. b\<lparr>b_userPhrase := ps @ b_userPhrase b, b_iUserPhrase := sint count\<rparr>));
         Some (True, (upd_base i j upd st)\<lparr>iCounter := counter\<rparr>, iLen, f) } })"

text \<open>Every section takes at least ten bytes, so the length of the file is enough fuel.\<close>

fun phrase_sections :: "nat \<Rightarrow> bool \<Rightarrow> bool \<Rightarrow> pystate \<times> uint32 option \<times> buf \<Rightarrow> pystate option" where
  "phrase_sections 0 isSystem stripDup s = Some (fst s)"
| "phrase_sections (Suc n) isSystem stripDup s = do {
     (more, s) \<leftarrow> phrase_section isSystem stripDup s;
     if more then phrase_sections n isSystem stripDup s else Some (fst s) }"

definition LoadPYPhraseDict :: "pystate \<Rightarrow> buf \<Rightarrow> bool \<Rightarrow> bool \<Rightarrow> pystate option" where
  "LoadPYPhraseDict st fp isSystem stripDup = phrase_sections (Suc (length fp)) isSystem stripDup (st, None, fp)"

section \<open>The file of indices\<close>

text \<open>
  The loop ends when a read came short, so the round in which the file ends also sets an entry: the variables keep
  the values of the round before, or are not set at all.
\<close>

type_synonym index_vars = "uint32 option \<times> uint32 option \<times> uint32 option \<times> uint32 option \<times> uint32 option"

definition read_vars :: "index_vars \<Rightarrow> buf \<Rightarrow> index_vars \<times> buf" where
  "read_vars v f = (case v of (i, j, k, iIndex, iLen) \<Rightarrow>
     let (i, f) = read_i32 i f; (j, f) = read_i32 j f; (k, f) = read_i32 k f;
       (iIndex, f) = read_i32 iIndex f; (iLen, f) = read_i32 iLen f in ((i, j, k, iIndex, iLen), f))"

definition set_phrase :: "nat \<Rightarrow> uint32 \<Rightarrow> uint32 \<Rightarrow> PyBase \<Rightarrow> PyBase" where
  "set_phrase k iIndex iHit b =
     b\<lparr>b_phrase := (b_phrase b)[k := (b_phrase b ! k)\<lparr>ph_iIndex := iIndex, ph_iHit := iHit\<rparr>]\<rparr>"

definition apply_index :: "index_vars \<Rightarrow> pystate \<Rightarrow> pystate option" where
  "apply_index v st = (case v of
     (Some i, Some j, Some k, Some iIndex, Some iLen) \<Rightarrow>
       if sint i < int (length (PYFAList st)) then
         (if sint i < 0 then None
          else if sint j < int (length (fa_pyBase (PYFAList st ! unat i))) then
            (if sint j < 0 then None
             else if sint k < int (length (b_phrase (get_base st (unat i) (unat j)))) then
               Some (upd_base (unat i) (unat j)
                 (if sint k \<ge> 0 then set_phrase (unat k) iIndex iLen
                  else (\<lambda>b. b\<lparr>b_iIndex := iIndex, b_iHit := iLen\<rparr>)) st)
             else Some st)
          else Some st)
       else Some st
   | _ \<Rightarrow> None)"

lemma read_i32_length: "length (snd (read_i32 old f)) = length f - 4"
  by (auto simp: read_i32_def fcitx_utils_read_uint32_def read_le_def split: prod.split option.split)

lemma read_vars_length: "length (snd (read_vars v f)) = length f - 20"
  by (simp add: read_vars_def split_beta Let_def read_i32_length)

function index_loop :: "index_vars \<Rightarrow> buf \<Rightarrow> pystate \<Rightarrow> pystate option" where
  "index_loop v f st = do {
     st \<leftarrow> apply_index (fst (read_vars v f)) st;
     if length f < 20 then Some st else index_loop (fst (read_vars v f)) (snd (read_vars v f)) st }"
  by pat_completeness auto
termination
  by (relation "measure (\<lambda>(v, f, st). length f)") (auto simp: read_vars_length)

definition load_index :: "buf \<Rightarrow> pystate \<Rightarrow> pystate option" where
  "load_index fp st = (case read_i32 (Some 0) fp of (magic, f) \<Rightarrow>
     if magic \<noteq> Some PY_INDEX_MAGIC_NUMBER then Some st
     else do {
       let (iLen, f') = read_i32 None f;
       v \<leftarrow> iLen;
       let st = st\<lparr>iCounter := max (iCounter st) v\<rparr>;
       index_loop (None, None, None, None, iLen) f' st })"

text \<open>First the characters, with the index -1 of a phrase, then the phrases of the system.\<close>

definition index_record :: "nat \<Rightarrow> nat \<Rightarrow> uint32 \<Rightarrow> uint32 \<Rightarrow> uint32 \<Rightarrow> buf" where
  "index_record i j k iIndex iHit = fcitx_utils_write_uint32 (of_nat i) @ fcitx_utils_write_uint32 (of_nat j) @
     fcitx_utils_write_uint32 k @ fcitx_utils_write_uint32 iIndex @ fcitx_utils_write_uint32 iHit"

definition with_index :: "'a list \<Rightarrow> (nat \<times> 'a) list" where
  "with_index xs = zip [0..<length xs] xs"

definition base_records :: "pystate \<Rightarrow> buf" where
  "base_records st = concat (map (\<lambda>(i, fa). concat (map (\<lambda>(j, b).
     if b_iIndex b > iOrigCounter st then index_record i j (- 1) (b_iIndex b) (b_iHit b) else [])
     (with_index (fa_pyBase fa)))) (with_index (PYFAList st)))"

definition phrase_records :: "pystate \<Rightarrow> buf" where
  "phrase_records st = concat (map (\<lambda>(i, fa). concat (map (\<lambda>(j, b). concat (map (\<lambda>(k, p).
     if ph_iIndex p > iOrigCounter st then index_record i j (of_nat k) (ph_iIndex p) (ph_iHit p) else [])
     (with_index (b_phrase b)))) (with_index (fa_pyBase fa)))) (with_index (PYFAList st)))"

definition SavePYIndex :: "pystate \<Rightarrow> pystate" where
  "SavePYIndex st = (if \<not> py_disk st then st
     else st\<lparr>index_file := Some (fcitx_utils_write_uint32 PY_INDEX_MAGIC_NUMBER @
       fcitx_utils_write_uint32 (iCounter st) @ base_records st @ phrase_records st), iOrderCount := 0\<rparr>)"

section \<open>Frequent characters\<close>

text \<open>Eleven bytes of the Pinyin are written and read; the array behind them is zero.\<close>

definition freq_key :: "buf \<Rightarrow> buf" where
  "freq_key s = take 11 (s @ replicate 11 0)"

fun read_hzs :: "nat \<Rightarrow> buf \<Rightarrow> (HZ list \<times> buf) option" where
  "read_hzs 0 f = Some ([], f)"
| "read_hzs (Suc n) f = do {
     (slen, f) \<leftarrow> (case f of [] \<Rightarrow> None | c # f \<Rightarrow> Some (sint c, f));
     (s, f) \<leftarrow> (if slen > int (MAX_PY_PHRASE_LENGTH * UTF8_MAX_LENGTH) then None else fread_str slen f);
     let (iPYFA, f) = read_i32 (Some 0) f;
     let (iHit, f) = read_i32 (Some 0) f;
     let (iIndex, f) = read_i32 (Some 0) f;
     iPYFA \<leftarrow> iPYFA; iHit \<leftarrow> iHit; iIndex \<leftarrow> iIndex;
     (hs, f) \<leftarrow> read_hzs n f;
     Some (\<lparr> hz_strHZ = s, hz_iPYFA = iPYFA, hz_iHit = iHit, hz_iIndex = iIndex \<rparr> # hs, f) }"

fun read_freqs :: "nat \<Rightarrow> buf \<Rightarrow> (PyFreq list \<times> buf) option" where
  "read_freqs 0 f = Some ([], f)"
| "read_freqs (Suc n) f = do {
     (py, f) \<leftarrow> fread_str 11 f;
     let (count, f) = read_i32 (Some 0) f;
     count \<leftarrow> count;
     (hs, f) \<leftarrow> read_hzs (unat count) f;
     (fs, f) \<leftarrow> read_freqs n f;
     Some (\<lparr> pf_HZList = hs, pf_strPY = py, pf_iCount = count \<rparr> # fs, f) }"

definition load_freq :: "buf \<Rightarrow> pystate \<Rightarrow> pystate option" where
  "load_freq fp st = (case read_i32 (Some (iPYFreqCount st)) fp of (n, f) \<Rightarrow> do {
     n \<leftarrow> n;
     (fs, f) \<leftarrow> read_freqs (unat n) f;
     Some (st\<lparr>pyFreq := (if n = 0 then pyFreq st else fs), iPYFreqCount := n\<rparr>) })"

text \<open>Walking \<open>iCount\<close> steps along a list that is shorter follows a null pointer.\<close>

definition take_exact :: "nat \<Rightarrow> 'a list \<Rightarrow> 'a list option" where
  "take_exact n xs = (if n \<le> length xs then Some (take n xs) else None)"

definition hz_bytes :: "HZ \<Rightarrow> buf" where
  "hz_bytes h = of_nat (length (hz_strHZ h)) # hz_strHZ h @ fcitx_utils_write_uint32 (hz_iPYFA h) @
     fcitx_utils_write_uint32 (hz_iHit h) @ fcitx_utils_write_uint32 (hz_iIndex h)"

fun freq_bytes :: "PyFreq list \<Rightarrow> buf option" where
  "freq_bytes [] = Some []"
| "freq_bytes (p # ps) = do {
     hs \<leftarrow> take_exact (unat (pf_iCount p)) (pf_HZList p);
     rest \<leftarrow> freq_bytes ps;
     Some (freq_key (pf_strPY p) @ fcitx_utils_write_uint32 (pf_iCount p) @ concat (map hz_bytes hs) @ rest) }"

definition SavePYFreq :: "pystate \<Rightarrow> pystate option" where
  "SavePYFreq st = (if \<not> py_disk st then Some st
     else do {
       bs \<leftarrow> freq_bytes (pyFreq st);
       Some (st\<lparr>freq_file := Some (fcitx_utils_write_uint32 (of_nat (length (pyFreq st))) @ bs), iNewFreqCount := 0\<rparr>) })"

section \<open>Saving the phrases of the user\<close>

definition phrase_bytes :: "PyPhrase \<Rightarrow> buf" where
  "phrase_bytes p = fcitx_utils_write_uint32 (of_nat (length (ph_strMap p))) @ ph_strMap p @
     fcitx_utils_write_uint32 (of_nat (length (ph_strPhrase p))) @ ph_strPhrase p @
     fcitx_utils_write_uint32 (ph_iIndex p) @ fcitx_utils_write_uint32 (ph_iHit p)"

definition base_bytes :: "nat \<Rightarrow> PyBase \<Rightarrow> buf option" where
  "base_bytes i b = (if b_iUserPhrase b = 0 then Some []
     else do {
       ps \<leftarrow> take_exact (nat (b_iUserPhrase b)) (b_userPhrase b);
       Some (fcitx_utils_write_uint32 (of_nat i) @ [of_nat (length (b_strHZ b))] @ b_strHZ b @
         fcitx_utils_write_uint32 (of_int (b_iUserPhrase b)) @ concat (map phrase_bytes ps)) })"

fun bases_bytes :: "nat \<Rightarrow> PyBase list \<Rightarrow> buf option" where
  "bases_bytes i [] = Some []"
| "bases_bytes i (b # bs) = do { x \<leftarrow> base_bytes i b; y \<leftarrow> bases_bytes i bs; Some (x @ y) }"

fun pyfas_bytes :: "nat \<Rightarrow> PYFA list \<Rightarrow> buf option" where
  "pyfas_bytes i [] = Some []"
| "pyfas_bytes i (fa # fas) = do {
     x \<leftarrow> bases_bytes i (fa_pyBase fa);
     y \<leftarrow> pyfas_bytes (Suc i) fas;
     Some (x @ y) }"

definition SavePYUserPhrase :: "pystate \<Rightarrow> pystate option" where
  "SavePYUserPhrase st = (if \<not> py_disk st then Some st
     else do {
       bs \<leftarrow> pyfas_bytes 0 (PYFAList st);
       Some (st\<lparr>usr_file := Some bs, iNewPYPhraseCount := 0\<rparr>) })"

definition SavePY :: "pystate \<Rightarrow> pystate option" where
  "SavePY st = do {
     st \<leftarrow> (if iNewPYPhraseCount st \<noteq> 0 then SavePYUserPhrase st else Some st);
     let st = (if iOrderCount st \<noteq> 0 then SavePYIndex st else st);
     if iNewFreqCount st \<noteq> 0 then SavePYFreq st else Some st }"

section \<open>Loading everything else\<close>

text \<open>
  The file of the system and the other files with its ending in the order in which they are listed; files that
  cannot be opened are left out of the list.
\<close>

fun load_extra :: "buf list \<Rightarrow> pystate \<Rightarrow> pystate option" where
  "load_extra [] st = Some st"
| "load_extra (f # fs) st = do { st \<leftarrow> LoadPYPhraseDict st f True True; load_extra fs st }"

definition LoadPYOtherDict :: "buf option \<Rightarrow> buf list \<Rightarrow> pystate \<Rightarrow> (bool \<times> pystate) option" where
  "LoadPYOtherDict system extra st = do {
     let st = st\<lparr>bPYOtherDictLoaded := True\<rparr>;
     st \<leftarrow> (case system of None \<Rightarrow> Some st
       | Some f \<Rightarrow> do {
           st \<leftarrow> LoadPYPhraseDict st f True False;
           st \<leftarrow> load_extra extra st;
           Some (st\<lparr>iOrigCounter := iCounter st\<rparr>) });
     st \<leftarrow> (case usr_file st of None \<Rightarrow> Some st | Some f \<Rightarrow> LoadPYPhraseDict st f False False);
     st \<leftarrow> (case index_file st of None \<Rightarrow> Some st | Some f \<Rightarrow> load_index f st);
     st \<leftarrow> (case freq_file st of None \<Rightarrow> Some st | Some f \<Rightarrow> load_freq f st);
     Some (True, st) }"

section \<open>Phrases of the user\<close>

text \<open>The first \<open>n\<close> entries of a list whose end is a sentinel without strings.\<close>

fun find_first :: "(PyPhrase \<Rightarrow> bool) \<Rightarrow> nat \<Rightarrow> PyPhrase list \<Rightarrow> nat \<Rightarrow> nat option option" where
  "find_first P 0 ps k = Some None"
| "find_first P (Suc n) [] k = None"
| "find_first P (Suc n) (p # ps) k = (if P p then Some (Some k) else find_first P n ps (Suc k))"

definition is_phrase :: "buf \<Rightarrow> buf \<Rightarrow> PyPhrase \<Rightarrow> bool" where
  "is_phrase m s p \<longleftrightarrow> m = ph_strMap p \<and> s = ph_strPhrase p"

fun insert_place :: "pyconfig \<Rightarrow> buf \<Rightarrow> bool \<Rightarrow> nat \<Rightarrow> PyPhrase list \<Rightarrow> nat option" where
  "insert_place cfg m bSP 0 ps = Some 0"
| "insert_place cfg m bSP (Suc n) [] = None"
| "insert_place cfg m bSP (Suc n) (p # ps) = do {
     (v, l) \<leftarrow> CmpMap cfg m (ph_strMap p) bSP;
     if v > 0 then Some 0 else map_option Suc (insert_place cfg m bSP n ps) }"

definition hit_phrase :: "uint32 \<Rightarrow> PyPhrase \<Rightarrow> PyPhrase" where
  "hit_phrase iIndex p = p\<lparr>ph_iHit := ph_iHit p + 1, ph_iIndex := iIndex\<rparr>"

definition upd_nth :: "nat \<Rightarrow> ('a \<Rightarrow> 'a) \<Rightarrow> 'a list \<Rightarrow> 'a list" where
  "upd_nth k f xs = xs[k := f (xs ! k)]"

definition insert_at :: "nat \<Rightarrow> 'a \<Rightarrow> 'a list \<Rightarrow> 'a list" where
  "insert_at k x xs = take k xs @ x # drop k xs"

definition new_phrase :: "buf \<Rightarrow> buf \<Rightarrow> uint32 \<Rightarrow> PyPhrase" where
  "new_phrase m s iIndex = \<lparr> ph_strPhrase = s, ph_strMap = m, ph_iIndex = iIndex, ph_iHit = 1 \<rparr>"

definition save_phrases_now :: "pystate \<Rightarrow> pystate option" where
  "save_phrases_now st = (let st = st\<lparr>iNewPYPhraseCount := iNewPYPhraseCount st + 1\<rparr> in
     if iNewPYPhraseCount st \<ge> AUTOSAVE_PHRASE_COUNT then SavePYUserPhrase st else Some st)"

definition add_new_phrase :: "nat \<Rightarrow> nat \<Rightarrow> buf \<Rightarrow> buf \<Rightarrow> pystate \<Rightarrow> (bool \<times> pystate) option" where
  "add_new_phrase i j m s st = (let b = get_base st i j; c = iCounter st + 1 in do {
     k \<leftarrow> insert_place (py_config st) m (py_bSP st) (nat (b_iUserPhrase b)) (b_userPhrase b);
     let st = (upd_base i j (\<lambda>b. b\<lparr>b_userPhrase := insert_at k (new_phrase m s c) (b_userPhrase b),
       b_iUserPhrase := b_iUserPhrase b + 1\<rparr>) st)\<lparr>iCounter := c\<rparr>;
     st \<leftarrow> save_phrases_now st;
     Some (True, st) })"

definition first_code :: "buf \<Rightarrow> buf option" where
  "first_code m = (if length m < 2 then None else Some (takeWhile (\<lambda>c. c \<noteq> 0) (take 2 m)))"

text \<open>
  The code of the first character leads to its Pinyin and the character itself to its entry: an index of -1 is not
  looked at.
\<close>

definition PYAddUserPhrase :: "pystate \<Rightarrow> buf \<Rightarrow> buf \<Rightarrow> bool \<Rightarrow> (bool \<times> pystate) option" where
  "PYAddUserPhrase st phrase m incHit = do {
     n \<leftarrow> fcitx_utf8_strlen phrase;
     if n < 2 then Some (False, st)
     else do {
       code \<leftarrow> first_code m;
       i \<leftarrow> GetBaseMapIndex st code;
       clen \<leftarrow> fcitx_utf8_char_len phrase 0;
       j \<leftarrow> GetBaseIndex st (int i) (take clen phrase);
       j \<leftarrow> j;
       let rest = drop 2 m;
       let s = drop clen phrase;
       let b = get_base st i j;
       k \<leftarrow> find_first (is_phrase rest s) (nat (b_iUserPhrase b)) (b_userPhrase b) 0;
       case k of Some k \<Rightarrow> Some (False, if incHit then (upd_base i j (\<lambda>b. b\<lparr>b_userPhrase :=
           upd_nth k (hit_phrase (iCounter st + 1)) (b_userPhrase b)\<rparr>) st)\<lparr>iCounter := iCounter st + 1\<rparr> else st)
       | None \<Rightarrow> do {
           k \<leftarrow> find_first (is_phrase rest s) (length (b_phrase b)) (b_phrase b) 0;
           case k of Some k \<Rightarrow> Some (False, if incHit then (upd_base i j (\<lambda>b. b\<lparr>b_phrase :=
               upd_nth k (hit_phrase (iCounter st + 1)) (b_phrase b)\<rparr>) st)\<lparr>iCounter := iCounter st + 1\<rparr> else st)
           | None \<Rightarrow> add_new_phrase i j rest s st } } }"

text \<open>
  A phrase of the user is named by its place in the list; a place that is not there makes the search for it walk
  around the circle for ever.
\<close>

definition PYDelUserPhrase :: "pystate \<Rightarrow> nat \<Rightarrow> nat \<Rightarrow> nat \<Rightarrow> pystate option" where
  "PYDelUserPhrase st i j k =
     (if i < length (PYFAList st) \<and> j < length (fa_pyBase (PYFAList st ! i)) \<and> k < length (b_userPhrase (get_base st i j))
      then save_phrases_now (upd_base i j (\<lambda>b. b\<lparr>b_userPhrase := take k (b_userPhrase b) @ drop (Suc k) (b_userPhrase b),
        b_iUserPhrase := b_iUserPhrase b - 1\<rparr>) st)
      else None)"

section \<open>Frequent characters of a Pinyin\<close>

text \<open>The list of a Pinyin is named by its place; the search returns no place when the whole list was walked.\<close>

fun find_freq :: "buf \<Rightarrow> nat \<Rightarrow> PyFreq list \<Rightarrow> nat \<Rightarrow> nat option option" where
  "find_freq s 0 fs k = Some (case fs of [] \<Rightarrow> None | f # fs \<Rightarrow> Some k)"
| "find_freq s (Suc n) [] k = None"
| "find_freq s (Suc n) (f # fs) k = (if s = pf_strPY f then Some (Some k) else find_freq s n fs (Suc k))"

fun hz_in :: "buf \<Rightarrow> nat \<Rightarrow> HZ list \<Rightarrow> bool option" where
  "hz_in s 0 hs = Some False"
| "hz_in s (Suc n) [] = None"
| "hz_in s (Suc n) (h # hs) = (if s = hz_strHZ h then Some True else hz_in s n hs)"

definition PYIsInFreq :: "PyFreq option \<Rightarrow> buf \<Rightarrow> bool option" where
  "PYIsInFreq pCurFreq strHZ = (case pCurFreq of None \<Rightarrow> Some False
     | Some f \<Rightarrow> hz_in strHZ (unat (pf_iCount f)) (pf_HZList f))"

definition save_freq_now :: "pystate \<Rightarrow> pystate option" where
  "save_freq_now st = (let st = st\<lparr>iNewFreqCount := iNewFreqCount st + 1\<rparr> in
     if iNewFreqCount st \<ge> AUTOSAVE_FREQ_COUNT then SavePYFreq st else Some st)"

definition upd_freq :: "nat \<Rightarrow> (PyFreq \<Rightarrow> PyFreq) \<Rightarrow> pystate \<Rightarrow> pystate" where
  "upd_freq k f st = st\<lparr>pyFreq := upd_nth k f (pyFreq st)\<rparr>"

definition add_hz :: "HZ \<Rightarrow> PyFreq \<Rightarrow> PyFreq option" where
  "add_hz h f = do {
     hs \<leftarrow> take_exact (unat (pf_iCount f)) (pf_HZList f);
     Some (f\<lparr>pf_HZList := hs @ [h], pf_iCount := pf_iCount f + 1\<rparr>) }"

text \<open>
  What a candidate of the Pinyin input method stands for: places in the dictionary instead of pointers. A word that
  was only allocated is zero, which is the kind of the automatic one.
\<close>

datatype PYCandWord =
    CandAuto
  | CandBase nat nat
  | CandSysPhrase nat nat nat
  | CandUserPhrase nat nat nat
  | CandFreq nat nat
  | CandRemind bool nat nat nat nat

definition PYAddFreq :: "pystate \<Rightarrow> PYCandWord \<Rightarrow> pystate option" where
  "PYAddFreq st w = do {
     k \<leftarrow> find_freq (strFindString st) (unat (iPYFreqCount st)) (pyFreq st) 0;
     known \<leftarrow> (case k of None \<Rightarrow> Some False
       | Some k \<Rightarrow> (case w of
           CandFreq _ _ \<Rightarrow> Some True
         | CandBase i j \<Rightarrow> PYIsInFreq (Some (pyFreq st ! k)) (b_strHZ (get_base st i j))
         | _ \<Rightarrow> None));
     if known then Some st
     else (case w of CandBase i j \<Rightarrow> do {
         (if length (strFindString st) \<le> MAX_PY_PHRASE_LENGTH * 6 then Some () else None);
         let (k, st) = (case k of Some k \<Rightarrow> (k, st)
           | None \<Rightarrow> (length (pyFreq st), st\<lparr>pyFreq := pyFreq st @
               [\<lparr> pf_HZList = [], pf_strPY = strFindString st, pf_iCount = 0 \<rparr>], iPYFreqCount := iPYFreqCount st + 1\<rparr>));
         f \<leftarrow> add_hz \<lparr> hz_strHZ = b_strHZ (get_base st i j), hz_iPYFA = of_nat i, hz_iHit = 0, hz_iIndex = 0 \<rparr>
           (pyFreq st ! k);
         save_freq_now (upd_freq k (\<lambda>_. f) st) }
       | _ \<Rightarrow> None) }"

definition PYDelFreq :: "pystate \<Rightarrow> PYCandWord \<Rightarrow> pystate option" where
  "PYDelFreq st w = (case w of
       CandFreq k h \<Rightarrow>
         if k < length (pyFreq st) \<and> h < length (pf_HZList (pyFreq st ! k))
         then save_freq_now (upd_freq k (\<lambda>f. f\<lparr>pf_HZList := take h (pf_HZList f) @ drop (Suc h) (pf_HZList f),
           pf_iCount := pf_iCount f - 1\<rparr>) st)
         else None
     | _ \<Rightarrow> Some st)"

section \<open>From characters to Pinyin\<close>

text \<open>The Pinyin of a character, the last ones of the list first, joined by blanks.\<close>

definition py_of :: "byte list \<Rightarrow> buf option" where
  "py_of m = (case m of [a, b] \<Rightarrow> MapToPY a b | [a] \<Rightarrow> MapToPY a 0 | _ \<Rightarrow> MapToPY 0 0)"

fun hz_pys :: "buf \<Rightarrow> PYFA list \<Rightarrow> buf \<Rightarrow> buf" where
  "hz_pys strHZ [] acc = acc"
| "hz_pys strHZ (fa # fas) acc = (let acc = hz_pys strHZ fas acc in
     (case py_of (fa_strMap fa) of None \<Rightarrow> acc
      | Some py \<Rightarrow> fold (\<lambda>b acc. if b_strHZ b = strHZ then (if acc = [] then acc else acc @ [0x20]) @ py else acc)
          (fa_pyBase fa) acc))"

definition PYGetPYByHZ :: "pystate \<Rightarrow> buf \<Rightarrow> buf" where
  "PYGetPYByHZ st strHZ = hz_pys strHZ (PYFAList st) []"

text \<open>The last Pinyin of the list that matches the code in hand and has the character.\<close>

fun hz_map :: "pyconfig \<Rightarrow> buf \<Rightarrow> buf \<Rightarrow> PYFA list \<Rightarrow> buf option option" where
  "hz_map cfg strHZ mapHint [] = Some None"
| "hz_map cfg strHZ mapHint (fa # fas) = do {
     v \<leftarrow> Cmp2Map cfg (fa_strMap fa) mapHint False;
     if v = 0 \<and> strHZ \<in> b_strHZ ` set (fa_pyBase fa) then Some (Some (fa_strMap fa)) else hz_map cfg strHZ mapHint fas }"

definition PYGetPYMapByHZ :: "pystate \<Rightarrow> buf \<Rightarrow> buf \<Rightarrow> buf option option" where
  "PYGetPYMapByHZ st strHZ mapHint = hz_map (py_config st) strHZ mapHint (rev (PYFAList st))"

text \<open>The codes of the characters from a position on, each with the parsed code beside it.\<close>

function maps_of :: "pystate \<Rightarrow> buf \<Rightarrow> nat \<Rightarrow> nat \<Rightarrow> buf \<Rightarrow> buf option option" where
  "maps_of st s pos i acc =
     (case fcitx_utf8_get_char s pos of None \<Rightarrow> None
      | Some (c, q) \<Rightarrow>
        if pos \<ge> length s then Some (Some acc)
        else if i \<ge> length (strMap (findMap st)) then None
        else (case PYGetPYMapByHZ st (take (q - pos) (drop pos s)) (strMap (findMap st) ! i) of
            None \<Rightarrow> None
          | Some None \<Rightarrow> Some None
          | Some (Some m) \<Rightarrow> maps_of st s q (Suc i) (acc @ take 2 m)))"
  by pat_completeness auto
termination
  by (relation "measure (\<lambda>(st, s, pos, i, acc). Suc (length s) - pos)") (auto dest: get_char_forward)

definition PYAddUserPhraseFromCString :: "pystate \<Rightarrow> buf \<Rightarrow> pystate option" where
  "PYAddUserPhraseFromCString st strHZ = (case fcitx_utf8_check_string strHZ of None \<Rightarrow> None | Some ok \<Rightarrow>
     if \<not> ok then Some st
     else do {
       hzCount \<leftarrow> fcitx_utf8_strlen strHZ;
       let codes = concat (map sel_strMap (pySelected st));
       let local = sum_list (map (\<lambda>s. length (sel_strMap s) div 2) (pySelected st)) + iHZCount (findMap st);
       if local \<noteq> unat hzCount \<or> unat hzCount > MAX_PY_PHRASE_LENGTH then Some st
       else do {
         pos \<leftarrow> (if pySelected st = [] then Some 0 else fcitx_utf8_get_nth_char strHZ (of_nat (length codes div 2)));
         m \<leftarrow> maps_of st strHZ pos 0 codes;
         case m of None \<Rightarrow> Some st | Some m \<Rightarrow> map_option snd (PYAddUserPhrase st strHZ m True) } })"

section \<open>Starting\<close>

text \<open>
  The array of the text: the text itself, its terminator, and what older texts left behind it (\<open>findTail\<close>).
  Writing a text with its terminator to the front leaves the bytes behind them.
\<close>

definition find_array :: "pystate \<Rightarrow> buf" where
  "find_array st = strFindString st @ 0 # findTail st"

definition set_find :: "buf \<Rightarrow> pystate \<Rightarrow> pystate" where
  "set_find s st = st\<lparr>strFindString := s, findTail := drop (Suc (length s)) (find_array st)\<rparr>"

definition ResetPYStatus :: "pystate \<Rightarrow> pystate" where
  "ResetPYStatus st = (set_find [] st)\<lparr>iPYInsertPoint := 0, pySelected := [], strPYAuto := [],
     bIsPYAddFreq := False, bIsPYDelFreq := False, bIsPYDelUserPhr := False,
     findMap := (findMap st)\<lparr>iMode := PARSE_SINGLEHZ\<rparr>\<rparr>"

definition PYInit :: "pystate \<Rightarrow> pystate" where
  "PYInit st = st\<lparr>py_bSP := False\<rparr>"

definition SPInit :: "buf option \<Rightarrow> pystate \<Rightarrow> pystate option" where
  "SPInit fp st = do {
     (cfg, b) \<leftarrow> LoadSPData fp ((py_config st)\<lparr>cNonS := 0x6f, SPMap_S := SPMap_S_Ziranma, SPMap_C := SPMap_C_Ziranma\<rparr>,
       bSP_UseSemicolon st);
     Some (st\<lparr>py_bSP := True, py_config := cfg, bSP_UseSemicolon := b\<rparr>) }"

end
