(* ===== verification/PyCand.thy ===== *)
theory PyCand
  imports PyDict SortUtils Input
begin

text \<open>
  The candidates of the Pinyin input method (\<open>src/im/pinyin/py.c\<close>): the phrases and characters whose codes match
  what was typed, their order, the automatic composition, the candidates that continue what was committed, and what
  choosing a candidate does. A session is the state of the input method, the instance, and the candidate words that
  were allocated, which the private pointers of the candidates name by their number.
\<close>

section \<open>Matching entries\<close>

text \<open>The two letters of the code of a piece.\<close>

definition code2 :: "ParsePYStruct \<Rightarrow> nat \<Rightarrow> buf option" where
  "code2 p n = (if n < length (strMap p) then do {
       a \<leftarrow> rd (strMap p ! n) 0;
       b \<leftarrow> rd (strMap p ! n) 1;
       Some [a, b] }
     else None)"

text \<open>The codes of the pieces from one on, in an array of 65 bytes.\<close>

definition codes_from :: "nat \<Rightarrow> ParsePYStruct \<Rightarrow> buf option" where
  "codes_from n p = (if iHZCount p > length (strMap p) then None
     else scat (2 * MAX_WORDS_USER_INPUT) [] (concat (take (iHZCount p - n) (drop n (strMap p)))))"

fun matching_pyfas :: "pyconfig \<Rightarrow> bool \<Rightarrow> buf \<Rightarrow> (nat \<times> PYFA) list \<Rightarrow> (nat \<times> PYFA) list option" where
  "matching_pyfas cfg bSP str [] = Some []"
| "matching_pyfas cfg bSP str ((i, fa) # fas) = do {
     v \<leftarrow> Cmp2Map cfg (fa_strMap fa) str bSP;
     rest \<leftarrow> matching_pyfas cfg bSP str fas;
     Some (if v = 0 then (i, fa) # rest else rest) }"

definition matching_bases :: "pystate \<Rightarrow> buf \<Rightarrow> (nat \<times> nat \<times> PYFA \<times> PyBase) list option" where
  "matching_bases st str = map_option
     (\<lambda>fas. concat (map (\<lambda>(i, fa). map (\<lambda>(j, b). (i, j, fa, b)) (with_index (fa_pyBase fa))) fas))
     (matching_pyfas (py_config st) (py_bSP st) str (with_index (PYFAList st)))"

text \<open>
  A phrase is offered when its code is the rest of what was typed or begins it. The matched length is the second
  component.
\<close>

definition phrase_hit :: "pystate \<Rightarrow> buf \<Rightarrow> PyPhrase \<Rightarrow> (bool \<times> bool \<times> nat) option" where
  "phrase_hit st codes p = do {
     (v, l) \<leftarrow> CmpMap (py_config st) (ph_strMap p) codes (py_bSP st);
     Some (v = 0 \<or> length (ph_strMap p) = l, v = 0, l) }"

type_synonym hit = "nat \<times> nat \<times> nat \<times> PYFA \<times> PyBase \<times> PyPhrase \<times> bool \<times> nat"

fun phrase_hits :: "pystate \<Rightarrow> buf \<Rightarrow> nat \<times> nat \<times> PYFA \<times> PyBase \<Rightarrow> (nat \<times> PyPhrase) list \<Rightarrow> hit list option" where
  "phrase_hits st codes e [] = Some []"
| "phrase_hits st codes (i, j, fa, b) ((k, p) # ps) = do {
     (hit, full, l) \<leftarrow> phrase_hit st codes p;
     rest \<leftarrow> phrase_hits st codes (i, j, fa, b) ps;
     Some (if hit then (i, j, k, fa, b, p, full, l) # rest else rest) }"

fun all_hits :: "pystate \<Rightarrow> buf \<Rightarrow> (PyBase \<Rightarrow> (nat \<times> PyPhrase) list option) \<Rightarrow> (nat \<times> nat \<times> PYFA \<times> PyBase) list \<Rightarrow> hit list option" where
  "all_hits st codes f [] = Some []"
| "all_hits st codes f ((i, j, fa, b) # bs) = do {
     ps \<leftarrow> f b;
     hs \<leftarrow> phrase_hits st codes (i, j, fa, b) ps;
     rest \<leftarrow> all_hits st codes f bs;
     Some (hs @ rest) }"

definition user_list :: "PyBase \<Rightarrow> (nat \<times> PyPhrase) list option" where
  "user_list b = take_exact (nat (b_iUserPhrase b)) (with_index (b_userPhrase b))"

definition system_list :: "PyBase \<Rightarrow> (nat \<times> PyPhrase) list option" where
  "system_list b = Some (with_index (b_phrase b))"

section \<open>The order of candidates\<close>

datatype cand_type = PY_CAND_BASE | PY_CAND_SYSPHRASE | PY_CAND_FREQ | PY_CAND_REMIND

definition word_phrase :: "pystate \<Rightarrow> PYCandWord \<Rightarrow> PyPhrase option" where
  "word_phrase st w = (case w of
       CandSysPhrase i j k \<Rightarrow> Some (b_phrase (get_base st i j) ! k)
     | CandUserPhrase i j k \<Rightarrow> Some (b_userPhrase (get_base st i j) ! k)
     | CandRemind isSystem i j k l \<Rightarrow>
         Some ((if isSystem then b_phrase (get_base st i j) else b_userPhrase (get_base st i j)) ! k)
     | _ \<Rightarrow> None)"

definition word_hz :: "pystate \<Rightarrow> PYCandWord \<Rightarrow> HZ option" where
  "word_hz st w = (case w of CandFreq f h \<Rightarrow> Some (pf_HZList (pyFreq st ! f) ! h) | _ \<Rightarrow> None)"

definition word_base :: "pystate \<Rightarrow> PYCandWord \<Rightarrow> PyBase option" where
  "word_base st w = (case w of
       CandBase i j \<Rightarrow> Some (get_base st i j)
     | CandSysPhrase i j k \<Rightarrow> Some (get_base st i j)
     | CandUserPhrase i j k \<Rightarrow> Some (get_base st i j)
     | _ \<Rightarrow> None)"

text \<open>Counters are unsigned, and their difference is returned as an \<open>int\<close>.\<close>

definition delta :: "uint32 \<Rightarrow> uint32 \<Rightarrow> int" where
  "delta a b = sint (a - b)"

definition first_of :: "int \<Rightarrow> int \<Rightarrow> int" where
  "first_of d e = (if d \<noteq> 0 then d else e)"

definition phrase_cmp :: "ADJUSTORDER \<Rightarrow> PyPhrase \<Rightarrow> PyPhrase \<Rightarrow> int" where
  "phrase_cmp order p q = (let s = int (length (ph_strPhrase p)) - int (length (ph_strPhrase q)) in
     case order of
       AD_NO \<Rightarrow> s
     | AD_FAST \<Rightarrow> first_of s (first_of (delta (ph_iIndex p) (ph_iIndex q)) (delta (ph_iHit p) (ph_iHit q)))
     | AD_FREQ \<Rightarrow> first_of s (first_of (delta (ph_iHit p) (ph_iHit q)) (delta (ph_iIndex p) (ph_iIndex q))))"

definition base_cmp :: "ADJUSTORDER \<Rightarrow> PyBase \<Rightarrow> PyBase \<Rightarrow> int" where
  "base_cmp order p q = (case order of
       AD_NO \<Rightarrow> 0
     | AD_FAST \<Rightarrow> first_of (delta (b_iIndex p) (b_iIndex q)) (delta (b_iHit p) (b_iHit q))
     | AD_FREQ \<Rightarrow> first_of (delta (b_iHit p) (b_iHit q)) (delta (b_iIndex p) (b_iIndex q)))"

definition hz_cmp :: "ADJUSTORDER \<Rightarrow> HZ \<Rightarrow> HZ \<Rightarrow> int" where
  "hz_cmp order p q = (case order of
       AD_NO \<Rightarrow> 0
     | AD_FAST \<Rightarrow> delta (hz_iIndex p) (hz_iIndex q)
     | AD_FREQ \<Rightarrow> delta (hz_iHit p) (hz_iHit q))"

text \<open>
  The later argument comes first, so larger counters do. For the words that continue a text the first counter is
  compared with itself.
\<close>

definition PYCandWordCmp :: "pystate \<Rightarrow> cand_type \<Rightarrow> ADJUSTORDER \<Rightarrow> PYCandWord \<Rightarrow> PYCandWord \<Rightarrow> int" where
  "PYCandWordCmp st type order wb wa = (case type of
       PY_CAND_BASE \<Rightarrow> (case (word_base st wa, word_base st wb) of (Some a, Some b) \<Rightarrow> base_cmp order a b | _ \<Rightarrow> 0)
     | PY_CAND_SYSPHRASE \<Rightarrow> (case (word_phrase st wa, word_phrase st wb) of (Some a, Some b) \<Rightarrow> phrase_cmp order a b | _ \<Rightarrow> 0)
     | PY_CAND_FREQ \<Rightarrow> (case (word_hz st wa, word_hz st wb) of (Some a, Some b) \<Rightarrow> hz_cmp order a b | _ \<Rightarrow> 0)
     | PY_CAND_REMIND \<Rightarrow> (case word_phrase st wa of Some a \<Rightarrow> delta (ph_iHit a) (ph_iHit a) | None \<Rightarrow> 0))"

definition sort_words :: "pystate \<Rightarrow> cand_type \<Rightarrow> ADJUSTORDER \<Rightarrow> PYCandWord list \<Rightarrow> PYCandWord list" where
  "sort_words st type order ws =
     (if order = AD_NO then ws else fcitx_msort_r True (PYCandWordCmp st type order) ws)"

section \<open>Collecting\<close>

text \<open>
  A phrase that is the automatic composition is not filled in, but the result is not looked at: the word that was
  only allocated stays in the list.
\<close>

definition PYAddPhraseCandWord :: "pystate \<Rightarrow> nat \<Rightarrow> nat \<Rightarrow> nat \<Rightarrow> PyPhrase \<Rightarrow> bool \<Rightarrow> (bool \<times> PYCandWord) option" where
  "PYAddPhraseCandWord st i j k p isSystem = do {
     str \<leftarrow> scat (MAX_WORDS_USER_INPUT * UTF8_MAX_LENGTH) (b_strHZ (get_base st i j)) (ph_strPhrase p);
     if strPYAuto st \<noteq> [] \<and> strPYAuto st = str then Some (False, CandAuto)
     else Some (True, if isSystem then CandSysPhrase i j k else CandUserPhrase i j k) }"

fun phrase_words :: "pystate \<Rightarrow> bool \<Rightarrow> hit list \<Rightarrow> PYCandWord list option" where
  "phrase_words st isSystem [] = Some []"
| "phrase_words st isSystem ((i, j, k, fa, b, p, full, l) # hs) = do {
     (ok, w) \<leftarrow> PYAddPhraseCandWord st i j k p isSystem;
     ws \<leftarrow> phrase_words st isSystem hs;
     Some (w # ws) }"

definition phrase_candidates :: "pystate \<Rightarrow> PYCandWord list option" where
  "phrase_candidates st = do {
     str \<leftarrow> code2 (findMap st) 0;
     codes \<leftarrow> codes_from 1 (findMap st);
     bs \<leftarrow> matching_bases st str;
     users \<leftarrow> all_hits st codes user_list bs;
     systems \<leftarrow> all_hits st codes system_list bs;
     us \<leftarrow> phrase_words st False users;
     ss \<leftarrow> phrase_words st True systems;
     if CandAuto \<in> set (us @ ss) then None
     else Some (sort_words st PY_CAND_SYSPHRASE (phraseOrder (py_config st)) (us @ ss)) }"

definition PYAddBaseCandWord :: "nat \<Rightarrow> nat \<Rightarrow> PYCandWord" where
  "PYAddBaseCandWord i j = CandBase i j"

fun base_words :: "PyFreq option \<Rightarrow> (nat \<times> nat \<times> PYFA \<times> PyBase) list \<Rightarrow> PYCandWord list option" where
  "base_words pCurFreq [] = Some []"
| "base_words pCurFreq ((i, j, fa, b) # bs) = do {
     known \<leftarrow> PYIsInFreq pCurFreq (b_strHZ b);
     ws \<leftarrow> base_words pCurFreq bs;
     Some (if known then ws else PYAddBaseCandWord i j # ws) }"

definition base_candidates :: "pystate \<Rightarrow> nat option \<Rightarrow> PYCandWord list option" where
  "base_candidates st cur = do {
     str \<leftarrow> code2 (findMap st) 0;
     bs \<leftarrow> matching_bases st str;
     ws \<leftarrow> base_words (map_option (\<lambda>k. pyFreq st ! k) cur) bs;
     Some (sort_words st PY_CAND_BASE (baseOrder (py_config st)) ws) }"

definition PYAddFreqCandWord :: "nat \<Rightarrow> nat \<Rightarrow> PYCandWord" where
  "PYAddFreqCandWord f h = CandFreq f h"

definition freq_candidates :: "pystate \<Rightarrow> nat option \<Rightarrow> PYCandWord list option" where
  "freq_candidates st cur = (case cur of None \<Rightarrow> Some []
     | Some f \<Rightarrow> do {
         hs \<leftarrow> take_exact (unat (pf_iCount (pyFreq st ! f))) (with_index (pf_HZList (pyFreq st ! f)));
         Some (sort_words st PY_CAND_FREQ (freqOrder (py_config st)) (map (\<lambda>(h, _). PYAddFreqCandWord f h) hs)) })"

section \<open>The automatic composition\<close>

text \<open>
  The phrases of one character in the order in which they are walked; a count that is too large leads to the
  sentinel, which has no strings.
\<close>

definition walk :: "nat \<Rightarrow> 'a list \<Rightarrow> 'a option list" where
  "walk n xs = map Some (take n xs) @ (if n \<le> length xs then [] else [None])"

definition user_walk :: "PyBase \<Rightarrow> PyPhrase option list" where
  "user_walk b = walk (nat (b_iUserPhrase b)) (b_userPhrase b)"

definition system_walk :: "PyBase \<Rightarrow> PyPhrase option list" where
  "system_walk b = map Some (b_phrase b)"

type_synonym choice = "(PYFA \<times> PyBase \<times> PyPhrase) option"

definition better :: "nat \<Rightarrow> choice \<Rightarrow> PyPhrase \<Rightarrow> bool" where
  "better hzs sel p = (case sel of None \<Rightarrow> True
     | Some (_, _, q) \<Rightarrow> int (length (ph_strMap p)) \<le> (int hzs - 1) * 2 \<and>
         (if length (ph_strMap p) = length (ph_strMap q)
          then ph_iHit p > ph_iHit q \<or> ph_iHit p = ph_iHit q \<and> ph_iIndex p > ph_iIndex q
          else length (ph_strMap p) > length (ph_strMap q)))"

text \<open>\<open>Some None\<close>: a phrase for the whole text was met, and the function returns.\<close>

fun auto_scan :: "pystate \<Rightarrow> buf \<Rightarrow> (PYFA \<times> PyBase \<times> PyPhrase option) list \<Rightarrow> choice \<Rightarrow> choice option option" where
  "auto_scan st codes [] sel = Some (Some sel)"
| "auto_scan st codes ((fa, b, None) # es) sel = None"
| "auto_scan st codes ((fa, b, Some p) # es) sel = do {
     (hit, full, l) \<leftarrow> phrase_hit st codes p;
     let hzs = iHZCount (findMap st);
     if full \<and> int l = (int hzs - 1) * 2 then Some None
     else auto_scan st codes es (if hit \<and> better hzs sel p then Some (fa, b, p) else sel) }"

definition auto_entries :: "(PyBase \<Rightarrow> PyPhrase option list) \<Rightarrow> (nat \<times> nat \<times> PYFA \<times> PyBase) list \<Rightarrow>
    (PYFA \<times> PyBase \<times> PyPhrase option) list" where
  "auto_entries f bs = concat (map (\<lambda>(i, j, fa, b). map (\<lambda>p. (fa, b, p)) (f b)) bs)"

fun best_base :: "int \<Rightarrow> (PYFA \<times> PyBase) option \<Rightarrow> (nat \<times> nat \<times> PYFA \<times> PyBase) list \<Rightarrow> (PYFA \<times> PyBase) option" where
  "best_base val sel [] = sel"
| "best_base val sel ((i, j, fa, b) # bs) =
     (if sint (b_iHit b) > val then best_base (sint (b_iHit b)) (Some (fa, b)) bs else best_base val sel bs)"

definition cat_auto :: "buf \<Rightarrow> buf \<Rightarrow> pystate \<Rightarrow> pystate option" where
  "cat_auto s m st = do {
     a \<leftarrow> scat (MAX_WORDS_USER_INPUT * UTF8_MAX_LENGTH) (strPYAuto st) s;
     am \<leftarrow> scat (2 * MAX_WORDS_USER_INPUT) (strPYAutoMap st) m;
     Some (st\<lparr>strPYAuto := a, strPYAutoMap := am\<rparr>) }"

text \<open>One round; whether the function returns there is the first component.\<close>

definition auto_round :: "nat \<Rightarrow> pystate \<Rightarrow> (bool \<times> pystate) option" where
  "auto_round n st = do {
     str \<leftarrow> code2 (findMap st) n;
     codes \<leftarrow> codes_from (Suc n) (findMap st);
     bs \<leftarrow> matching_bases st str;
     sel \<leftarrow> (if iHZCount (findMap st) - n > 1
       then auto_scan st codes (auto_entries user_walk bs @ auto_entries system_walk bs) None
       else Some (Some None));
     case sel of
       None \<Rightarrow> Some (True, st)
     | Some (Some (fa, b, p)) \<Rightarrow> do {
         st \<leftarrow> cat_auto (b_strHZ b) (fa_strMap fa) st;
         st \<leftarrow> cat_auto (ph_strPhrase p) (ph_strMap p) st;
         Some (False, st) }
     | Some None \<Rightarrow> (case best_base (- 1) None bs of
           Some (fa, b) \<Rightarrow> map_option (Pair False) (cat_auto (b_strHZ b) (fa_strMap fa) st)
         | None \<Rightarrow> Some (True, st\<lparr>strPYAuto := []\<rparr>)) }"

text \<open>
  Every round adds at least a byte to an array of 193, or does not change it, and then it is repeated for ever: so
  two hundred rounds are enough fuel.
\<close>

fun auto_loop :: "nat \<Rightarrow> pystate \<Rightarrow> pystate option" where
  "auto_loop 0 st = None"
| "auto_loop (Suc fuel) st = do {
     n \<leftarrow> fcitx_utf8_strlen (strPYAuto st);
     if unat n < iHZCount (findMap st) then do {
       (end, st) \<leftarrow> auto_round (unat n) st;
       if end then Some st else auto_loop fuel st }
     else Some st }"

definition PYCreateAuto :: "pystate \<Rightarrow> pystate option" where
  "PYCreateAuto st = (let st = st\<lparr>strPYAuto := [], strPYAutoMap := []\<rparr> in
     if iHZCount (findMap st) = 1 then Some st else auto_loop 200 st)"

section \<open>Showing the candidates\<close>

record pysession =
  ses_py :: pystate
  ses_inst :: inst
  ses_words :: "PYCandWord list"
  ses_self :: ptr
  ses_callback :: ptr

text \<open>
  The private pointer 0 is null; a word is named by its number from one on. The extra type of a candidate is never
  set and is 0 here.
\<close>

abbreviation MSG_USERPHR :: uint32 where "MSG_USERPHR \<equiv> 4"
abbreviation IRV_COMMIT_STRING_REMIND :: uint32 where "IRV_COMMIT_STRING_REMIND \<equiv> 24"

definition upd_ses :: "(input_state \<Rightarrow> input_state) \<Rightarrow> pysession \<Rightarrow> pysession" where
  "upd_ses f ses = ses\<lparr>ses_inst := upd_input f (ses_inst ses)\<rparr>"

definition new_cand :: "pysession \<Rightarrow> ptr \<Rightarrow> uint32 \<Rightarrow> buf \<Rightarrow> cand_word" where
  "new_cand ses priv type' s = \<lparr> cw_word = Some s, cw_extra = None, cw_callback = CandCallback (ses_callback ses),
     cw_wordType = type', cw_extraType = 0, cw_owner = ses_self ses, cw_priv = priv \<rparr>"

definition append_cand :: "cand_word \<Rightarrow> pysession \<Rightarrow> pysession" where
  "append_cand w = upd_ses (\<lambda>i. i\<lparr>candList := FcitxCandidateWordAppend (candList i) w\<rparr>)"

definition append_word :: "uint32 \<Rightarrow> buf \<Rightarrow> PYCandWord \<Rightarrow> pysession \<Rightarrow> pysession" where
  "append_word type' s w ses = append_cand (new_cand ses (Suc (length (ses_words ses))) type' s)
     (ses\<lparr>ses_words := ses_words ses @ [w]\<rparr>)"

text \<open>The text that a word shows, and its type.\<close>

definition word_text :: "pystate \<Rightarrow> PYCandWord \<Rightarrow> buf" where
  "word_text st w = (case w of
       CandAuto \<Rightarrow> strPYAuto st
     | CandBase i j \<Rightarrow> b_strHZ (get_base st i j)
     | CandSysPhrase i j k \<Rightarrow> b_strHZ (get_base st i j) @ ph_strPhrase (b_phrase (get_base st i j) ! k)
     | CandUserPhrase i j k \<Rightarrow> b_strHZ (get_base st i j) @ ph_strPhrase (b_userPhrase (get_base st i j) ! k)
     | CandFreq f h \<Rightarrow> hz_strHZ (pf_HZList (pyFreq st ! f) ! h)
     | CandRemind isSystem i j k l \<Rightarrow>
         drop l (ph_strPhrase ((if isSystem then b_phrase (get_base st i j) else b_userPhrase (get_base st i j)) ! k)))"

definition word_type :: "PYCandWord \<Rightarrow> uint32" where
  "word_type w = (case w of CandUserPhrase _ _ _ \<Rightarrow> MSG_USERPHR | CandFreq _ _ \<Rightarrow> MSG_USERPHR | _ \<Rightarrow> MSG_OTHER)"

definition append_words :: "PYCandWord list \<Rightarrow> pysession \<Rightarrow> pysession" where
  "append_words ws ses = fold (\<lambda>w ses. append_word (word_type w) (word_text (ses_py ses) w) w ses) ws ses"

definition PYGetPhraseCandWords :: "pysession \<Rightarrow> pysession option" where
  "PYGetPhraseCandWords ses = (if iHZCount (findMap (ses_py ses)) = 1 then Some ses
     else do { ws \<leftarrow> phrase_candidates (ses_py ses); Some (append_words ws ses) })"

definition PYGetBaseCandWords :: "nat option \<Rightarrow> pysession \<Rightarrow> pysession option" where
  "PYGetBaseCandWords cur ses = do { ws \<leftarrow> base_candidates (ses_py ses) cur; Some (append_words ws ses) }"

definition PYGetFreqCandWords :: "nat option \<Rightarrow> pysession \<Rightarrow> pysession option" where
  "PYGetFreqCandWords cur ses = do { ws \<leftarrow> freq_candidates (ses_py ses) cur; Some (append_words ws ses) }"

section \<open>Continuing a text\<close>

definition PYAddRemindCandWord :: "pystate \<Rightarrow> bool \<Rightarrow> nat \<Rightarrow> nat \<Rightarrow> nat \<Rightarrow> PYCandWord option" where
  "PYAddRemindCandWord st isSystem i j k = do {
     c \<leftarrow> fcitx_utf8_char_len (strPYRemindSource st) 0;
     Some (CandRemind isSystem i j k (length (strPYRemindSource st) - c)) }"

text \<open>The entry of the first character of the text under the code of its map.\<close>

fun remind_base :: "buf \<Rightarrow> (nat \<times> PyBase) list \<Rightarrow> nat option option" where
  "remind_base src [] = Some None"
| "remind_base src ((j, b) # bs) = do {
     v \<leftarrow> fcitx_utf8_strncmp src (b_strHZ b) 1;
     if v = 0 then Some (Some j) else remind_base src bs }"

fun remind_entry :: "buf \<Rightarrow> buf \<Rightarrow> (nat \<times> PYFA) list \<Rightarrow> (nat \<times> nat) option option" where
  "remind_entry src m [] = Some None"
| "remind_entry src m ((i, fa) # fas) =
     (if take 2 m = take 2 (fa_strMap fa) then do {
        r \<leftarrow> remind_base src (with_index (fa_pyBase fa));
        case r of Some j \<Rightarrow> Some (Some (i, j)) | None \<Rightarrow> remind_entry src m fas }
      else remind_entry src m fas)"

definition remind_fits :: "buf \<Rightarrow> buf \<Rightarrow> bool option" where
  "remind_fits src s = do {
     n \<leftarrow> fcitx_utf8_strlen src;
     if n = 1 then map_option (\<lambda>k. k = 1) (fcitx_utf8_strlen s)
     else if length s = length src then do {
       c \<leftarrow> fcitx_utf8_char_len src 0;
       Some (has_prefix (drop c src) s) }
     else Some False }"

text \<open>The limit is the size of a page when paging is off; \<open>n\<close> words are there already.\<close>

fun remind_words :: "pystate \<Rightarrow> int option \<Rightarrow> bool \<Rightarrow> nat \<Rightarrow> nat \<Rightarrow> (nat \<times> PyPhrase option) list \<Rightarrow> nat \<Rightarrow>
    PYCandWord list option" where
  "remind_words st limit isSystem i j [] n = Some []"
| "remind_words st limit isSystem i j ((k, p) # ps) n =
     (if (case limit of None \<Rightarrow> False | Some l \<Rightarrow> int n \<ge> l) then Some []
      else do {
        p \<leftarrow> p;
        fits \<leftarrow> remind_fits (strPYRemindSource st) (ph_strPhrase p);
        if fits then do {
          w \<leftarrow> PYAddRemindCandWord st isSystem i j k;
          ws \<leftarrow> remind_words st limit isSystem i j ps (Suc n);
          Some (w # ws) }
        else remind_words st limit isSystem i j ps n })"

definition remind_candidates :: "pystate \<Rightarrow> int option \<Rightarrow> PYCandWord list option" where
  "remind_candidates st limit = do {
     e \<leftarrow> remind_entry (strPYRemindSource st) (strPYRemindMap st) (with_index (PYFAList st));
     case e of None \<Rightarrow> Some []
     | Some (i, j) \<Rightarrow> do {
         ss \<leftarrow> remind_words st limit True i j (with_index (system_walk (get_base st i j))) 0;
         us \<leftarrow> remind_words st limit False i j (with_index (user_walk (get_base st i j))) (length ss);
         Some (ss @ us) } }"

text \<open>\<open>tr\<close> is the translation of a message, \<open>paging_off\<close> the setting that turns paging off here.\<close>

definition PYGetRemindCandWords :: "(buf \<Rightarrow> buf) \<Rightarrow> bool \<Rightarrow> pysession \<Rightarrow> (uint32 \<times> pysession) option" where
  "PYGetRemindCandWords tr paging_off ses = (let st = ses_py ses in
     if strPYRemindSource st = [] then Some (IRV_TO_PROCESS, ses)
     else do {
       ws \<leftarrow> remind_candidates st (if paging_off then Some (cl_perpage (candList (input (ses_inst ses)))) else None);
       if ws = [] then Some (IRV_TO_PROCESS, ses)
       else do {
         m \<leftarrow> add_msg MSG_TIPS (tr (ascii ''Remind: '')) (FcitxMessagesSetMessageCount (msgAuxUp (input (ses_inst ses))) 0);
         m \<leftarrow> add_msg MSG_INPUT (strPYRemindSource st) m;
         let ses = append_words ws (upd_ses (\<lambda>i. i\<lparr>msgAuxUp := m\<rparr>) ses);
         Some (IRV_DISPLAY_CANDWORDS,
           upd_ses (\<lambda>i. i\<lparr>bIsInRemind := (FcitxCandidateWordPageCount (candList i) \<noteq> 0)\<rparr>) ses) } })"

end
