(* ===== verification/PyInput.thy ===== *)
theory PyInput
  imports PyCand Keys
begin

text \<open>
  The keys of the Pinyin input method (\<open>DoPYInput\<close> of \<open>src/im/pinyin/py.c\<close>): editing the text with a cursor,
  choosing candidates, and the modes in which the next choice adds or deletes a frequent character or a phrase of
  the user. Choosing a candidate may call \<open>DoPYInput\<close> again with the void symbol, which chooses nothing, so the
  function is given its inner call as an argument.
\<close>

section \<open>Environment\<close>

text \<open>
  The environment of the instance, the settings of the core that are used here, the hotkeys of the input method,
  the launch of quick phrase, the files of the dictionary, and the text of the message with a number and a string.
\<close>

record pyenv =
  pe_env :: "inst environment"
  pe_max :: int
  pe_paging_off :: bool
  pe_add :: "hotkey \<times> hotkey"
  pe_del :: "hotkey \<times> hotkey"
  pe_delphr :: "hotkey \<times> hotkey"
  pe_quick :: "pysession \<Rightarrow> bool \<times> pysession"
  pe_base :: "buf option"
  pe_system :: "buf option"
  pe_extra :: "buf list"
  pe_delmsg :: "int \<Rightarrow> buf \<Rightarrow> buf"

abbreviation IRV_DISPLAY_MESSAGE :: uint32 where "IRV_DISPLAY_MESSAGE \<equiv> 16"
abbreviation FcitxKey_VoidSymbol :: keysym where "FcitxKey_VoidSymbol \<equiv> 0xffffff"
abbreviation FcitxKey_v :: keysym where "FcitxKey_v \<equiv> 0x76"

definition upd_py :: "(pystate \<Rightarrow> pystate) \<Rightarrow> pysession \<Rightarrow> pysession" where
  "upd_py f ses = ses\<lparr>ses_py := f (ses_py ses)\<rparr>"

definition with_py :: "(pystate \<Rightarrow> pystate option) \<Rightarrow> pysession \<Rightarrow> pysession option" where
  "with_py f ses = map_option (\<lambda>st. ses\<lparr>ses_py := st\<rparr>) (f (ses_py ses))"

definition raw_size :: "pysession \<Rightarrow> int" where
  "raw_size ses = iCodeInputCount (input (ses_inst ses))"

definition cands :: "pysession \<Rightarrow> cand_list" where
  "cands ses = candList (input (ses_inst ses))"

section \<open>The text and its cursor\<close>

definition parse_again :: "pystate \<Rightarrow> pystate option" where
  "parse_again st = do {
     p \<leftarrow> ParsePY (py_config st) (strFindString st) (findMap st) PY_PARSE_INPUT_USER (py_bSP st);
     Some (st\<lparr>findMap := p\<rparr>) }"

text \<open>
  The array of the text has 302 bytes. The cursor is inside of the text; typing and deleting backwards with one
  outside of it, which does not happen (\<open>cursor_stays_in_text\<close>), is \<open>None\<close> here.
\<close>

definition put_text :: "buf \<Rightarrow> pystate \<Rightarrow> pystate option" where
  "put_text s st = (if length s \<le> MAX_USER_INPUT + 1 then Some (set_find s st) else None)"

definition insert_char :: "byte \<Rightarrow> pystate \<Rightarrow> pystate option" where
  "insert_char c st = (let p = iPYInsertPoint st; s = strFindString st in
     if p < 0 \<or> nat p > length s then None
     else put_text (take (nat p) s @ c # drop (nat p) s) (st\<lparr>iPYInsertPoint := p + 1\<rparr>))"

text \<open>The cursor is compared with the length as an unsigned number.\<close>

definition clip_cursor :: "pystate \<Rightarrow> pystate" where
  "clip_cursor st = (let p = iPYInsertPoint st; n = int (length (strFindString st)) in
     if p < 0 \<or> p > n then st\<lparr>iPYInsertPoint := n\<rparr> else st)"

definition UpdateFindString :: "int \<Rightarrow> pystate \<Rightarrow> pystate option" where
  "UpdateFindString val st = (let p = findMap st in
     map_option clip_cursor (put_text
       (concat (take (min (iHZCount p) (nat (int MAX_WORDS_USER_INPUT - val))) (strPYParsed p))) st))"

text \<open>The number of characters of the words that were chosen, and the insertion with its limit of 32 pieces.\<close>

fun selected_chars :: "PY_SELECTED list \<Rightarrow> int option" where
  "selected_chars [] = Some 0"
| "selected_chars (s # ss) = do {
     n \<leftarrow> fcitx_utf8_strlen (sel_strHZ s);
     k \<leftarrow> selected_chars ss;
     Some (int (unat n) + k) }"

definition insert_letter :: "byte \<Rightarrow> pystate \<Rightarrow> (uint32 \<times> pystate) option" where
  "insert_letter c st = do {
     st \<leftarrow> insert_char c st;
     st \<leftarrow> parse_again st;
     val \<leftarrow> selected_chars (pySelected st);
     if int (iHZCount (findMap st)) > int MAX_WORDS_USER_INPUT - val then do {
       st \<leftarrow> UpdateFindString val st;
       st \<leftarrow> parse_again st;
       Some (IRV_DO_NOTHING, st) }
     else Some (IRV_DISPLAY_CANDWORDS, st) }"

text \<open>The last word that was chosen becomes text again, in front of the text; \<open>strTemp\<close> has 301 bytes.\<close>

definition unselect :: "(int \<Rightarrow> int \<Rightarrow> int) \<Rightarrow> pystate \<Rightarrow> pystate option" where
  "unselect cursor st = do {
     s \<leftarrow> scat MAX_USER_INPUT (sel_strPY (last (pySelected st))) (strFindString st);
     let grown = int (length s) - int (length (strFindString st));
     parse_again ((set_find s st)\<lparr>iPYInsertPoint := cursor (iPYInsertPoint st) grown,
       pySelected := butlast (pySelected st)\<rparr>) }"

definition back_space :: "pystate \<Rightarrow> (uint32 \<times> pystate) option" where
  "back_space st = (let s = strFindString st; p = iPYInsertPoint st in
     if pySelected st \<noteq> [] then map_option (Pair IRV_DISPLAY_CANDWORDS) (unselect (+) st)
     else if p \<noteq> 0 then
       (if p < 0 \<or> nat p > length s then None
        else (let n = nat p; val = (if n > 1 \<and> s ! (n - 2) = PY_SEPARATOR then 2 else 1) in do {
          st \<leftarrow> parse_again (set_find (take (n - val) s @ drop n s) st);
          let st = st\<lparr>iPYInsertPoint := p - int val\<rparr>;
          Some (if strFindString st = [] then IRV_CLEAN else IRV_DISPLAY_CANDWORDS, st) }))
     else Some (if s = [] then IRV_TO_PROCESS else IRV_DO_NOTHING, st))"

text \<open>
  Deleting works on the array. At the end of the text, what lies behind its terminator is moved onto it. A move
  to or from places outside of the array is \<open>None\<close>.
\<close>

definition string_at :: "buf \<Rightarrow> nat \<Rightarrow> buf option" where
  "string_at a i = (let t = takeWhile (\<lambda>c. c \<noteq> 0) (drop i a) in if i + length t < length a then Some t else None)"

definition delete_char :: "pystate \<Rightarrow> (uint32 \<times> pystate) option" where
  "delete_char st = (let a = find_array st; n = nat (iPYInsertPoint st) in
     if iPYInsertPoint st < 0 \<or> n + 1 \<ge> length a then None
     else do {
       let val = (if a ! (n + 1) = PY_SEPARATOR then 2 else 1);
       t \<leftarrow> string_at a (n + val);
       let a' = take n a @ t @ 0 # drop (n + length t + 1) a;
       let s' = (if n \<le> length (strFindString st) then take n a @ t else strFindString st);
       st \<leftarrow> parse_again (st\<lparr>strFindString := s', findTail := drop (Suc (length s')) a'\<rparr>);
       Some (if strFindString st = [] then IRV_CLEAN else IRV_DISPLAY_CANDWORDS, st) })"

definition go_right :: "pystate \<Rightarrow> uint32 \<times> pystate" where
  "go_right st = (if iPYInsertPoint st = int (length (strFindString st)) then (IRV_DO_NOTHING, st)
     else (IRV_DISPLAY_CANDWORDS, st\<lparr>iPYInsertPoint := iPYInsertPoint st + 1\<rparr>))"

definition go_left :: "pystate \<Rightarrow> (uint32 \<times> pystate) option" where
  "go_left st =
     (if iPYInsertPoint st \<le> 0 then
        (if pySelected st \<noteq> [] then map_option (Pair IRV_DISPLAY_CANDWORDS) (unselect (\<lambda>_ grown. grown) st)
         else Some (IRV_DO_NOTHING, st))
      else Some (IRV_DISPLAY_CANDWORDS, st\<lparr>iPYInsertPoint := iPYInsertPoint st - 1\<rparr>))"

text \<open>The cursor among the words that were chosen and the pieces, which are shown with a blank between them.\<close>

fun cursor_in :: "buf list \<Rightarrow> int \<Rightarrow> int" where
  "cursor_in [] t = 0"
| "cursor_in (s # ss) t = (if int (length s) \<ge> t then t else int (length s) + 1 + cursor_in ss (t - int (length s)))"

definition CalculateCursorPosition :: "pysession \<Rightarrow> pysession" where
  "CalculateCursorPosition ses = (let
     st = clip_cursor (ses_py ses);
     hzLen = int (sum_list (map (\<lambda>s. length (sel_strHZ s)) (pySelected st)));
     pos = hzLen + cursor_in (take (iHZCount (findMap st)) (strPYParsed (findMap st))) (iPYInsertPoint st) in
     upd_ses (\<lambda>i. i\<lparr>iCursorPos := pos, iClientCursorPos := (if bFixCursorAtHead (py_config st) then 0 else hzLen)\<rparr>)
       (ses\<lparr>ses_py := st\<rparr>))"

definition UpdateCodeInputPY :: "pysession \<Rightarrow> pysession option" where
  "UpdateCodeInputPY ses = (let st = ses_py ses in do {
     s \<leftarrow> scat (MAX_USER_INPUT * UTF8_MAX_LENGTH) (concat (map sel_strPY (pySelected st))) (strFindString st);
     Some (upd_ses (\<lambda>i. i\<lparr>strCodeInput := s, iCodeInputCount := int (length s)\<rparr>) ses) })"

section \<open>All candidates\<close>

definition find_cur :: "pystate \<Rightarrow> nat option option" where
  "find_cur st = find_freq (strFindString st) (unat (iPYFreqCount st)) (pyFreq st) 0"

definition preedit_selected :: "pystate \<Rightarrow> messages \<Rightarrow> messages option" where
  "preedit_selected st m = (if pySelected st = [] then Some m
     else do {
       m \<leftarrow> add_msg MSG_OTHER [] m;
       fold (\<lambda>s m. do { m \<leftarrow> m; FcitxMessagesMessageConcat m (FcitxMessagesGetMessageCount m - 1) (sel_strHZ s) })
         (pySelected st) (Some m) })"

fun preedit_pieces :: "buf list \<Rightarrow> messages \<Rightarrow> messages option" where
  "preedit_pieces [] m = Some m"
| "preedit_pieces (s # ss) m = do {
     m \<leftarrow> add_msg MSG_CODE s m;
     m \<leftarrow> (if ss = [] then Some m else FcitxMessagesMessageConcat m (FcitxMessagesGetMessageCount m - 1) [0x20]);
     preedit_pieces ss m }"

fun code_pieces :: "buf list \<Rightarrow> messages \<Rightarrow> messages option" where
  "code_pieces [] m = Some m"
| "code_pieces (s # ss) m = do { m \<leftarrow> add_msg MSG_CODE s m; code_pieces ss m }"

text \<open>A text that is not Pinyin is offered as it is, in a candidate without a word behind it.\<close>

definition error_candidate :: "pysession \<Rightarrow> messages \<Rightarrow> pysession option" where
  "error_candidate ses client = do {
     client \<leftarrow> code_pieces (take (iHZCount (findMap (ses_py ses))) (strPYParsed (findMap (ses_py ses)))) client;
     s \<leftarrow> FcitxUIMessagesToCString client;
     let ses = (upd_ses (\<lambda>i. i\<lparr>msgClientPreedit := client\<rparr>) ses);
     let ses = ses\<lparr>ses_inst := FcitxInstanceCleanInputWindowDown (ses_inst ses)\<rparr>;
     Some (append_cand (new_cand ses 0 MSG_OTHER s) ses) }"

definition auto_candidate :: "pysession \<Rightarrow> pysession" where
  "auto_candidate ses = (if strPYAuto (ses_py ses) \<noteq> []
     then append_word MSG_OTHER (strPYAuto (ses_py ses)) CandAuto ses else ses)"

text \<open>The first candidate of the page is shown in the preedit of the client.\<close>

definition show_first :: "pysession \<Rightarrow> pysession option" where
  "show_first ses = (if FcitxCandidateWordPageCount (cands ses) = 0 then Some ses
     else do {
       k \<leftarrow> FcitxCandidateWordGetCurrentWindow (cands ses);
       s \<leftarrow> cw_word (cl_words (cands ses) ! k);
       m \<leftarrow> add_msg MSG_INPUT s (msgClientPreedit (input (ses_inst ses)));
       Some (upd_ses (\<lambda>i. i\<lparr>msgClientPreedit := m\<rparr>) ses) })"

definition PYGetCandWords :: "pyenv \<Rightarrow> pysession \<Rightarrow> (uint32 \<times> pysession) option" where
  "PYGetCandWords pe ses = do {
     let st = ses_py ses;
     let i = input (ses_inst ses);
     let l = FcitxCandidateWordSetChoose (FcitxCandidateWordSetPageSize (candList i) (pe_max pe)) DIGIT_STR_CHOOSE;
     pre \<leftarrow> preedit_selected st (FcitxMessagesSetMessageCount (msgPreedit i) 0);
     client \<leftarrow> preedit_selected st (FcitxMessagesSetMessageCount (msgClientPreedit i) 0);
     pre \<leftarrow> preedit_pieces (take (iHZCount (findMap st)) (strPYParsed (findMap st))) pre;
     let ses = upd_ses (\<lambda>i. i\<lparr>candList := l, msgPreedit := pre, msgClientPreedit := client\<rparr>) ses;
     if iMode (findMap st) = PARSE_ERROR then map_option (Pair IRV_DISPLAY_CANDWORDS) (error_candidate ses client)
     else if bIsInRemind (input (ses_inst ses)) then
       PYGetRemindCandWords (e_text (pe_env pe)) (pe_paging_off pe) ses
     else do {
       cur \<leftarrow> find_cur st;
       ses \<leftarrow> (if bPYCreateAuto (py_config st) then with_py PYCreateAuto ses else Some ses);
       ses \<leftarrow> PYGetPhraseCandWords (auto_candidate ses);
       ses \<leftarrow> (case cur of None \<Rightarrow> Some ses | Some _ \<Rightarrow> PYGetFreqCandWords cur ses);
       ses \<leftarrow> PYGetBaseCandWords cur ses;
       ses \<leftarrow> show_first ses;
       Some (IRV_DISPLAY_CANDWORDS, ses) } }"

section \<open>Choosing a candidate\<close>

text \<open>
  What a word stands for: its text and code, counted as chosen, and where its index is. The union is only read as
  the kind of the word says.
\<close>

type_synonym chosen = "buf \<times> buf \<times> buf \<times> buf \<times> bool"

definition touch :: "uint32 \<Rightarrow> uint32 \<Rightarrow> uint32" where
  "touch counter index = (if index \<noteq> counter then counter + 1 else index)"

definition new_counter :: "uint32 \<Rightarrow> uint32 \<Rightarrow> uint32" where
  "new_counter counter index = (if index \<noteq> counter then counter + 1 else counter)"

definition count_base :: "uint32 \<Rightarrow> PyBase \<Rightarrow> PyBase" where
  "count_base c b = b\<lparr>b_iHit := b_iHit b + 1, b_iIndex := touch c (b_iIndex b)\<rparr>"

definition count_phrase :: "uint32 \<Rightarrow> PyPhrase \<Rightarrow> PyPhrase" where
  "count_phrase c p = p\<lparr>ph_iHit := ph_iHit p + 1, ph_iIndex := touch c (ph_iIndex p)\<rparr>"

definition count_hz :: "uint32 \<Rightarrow> HZ \<Rightarrow> HZ" where
  "count_hz c h = h\<lparr>hz_iHit := hz_iHit h + 1, hz_iIndex := touch c (hz_iIndex h)\<rparr>"

definition count_word :: "PYCandWord \<Rightarrow> pystate \<Rightarrow> pystate" where
  "count_word w st = (let c = iCounter st in case w of
       CandBase i j \<Rightarrow> (upd_base i j (count_base c) st)\<lparr>iOrderCount := iOrderCount st + 1,
         iCounter := new_counter c (b_iIndex (get_base st i j))\<rparr>
     | CandUserPhrase i j k \<Rightarrow> (upd_base i j (\<lambda>b. b\<lparr>b_userPhrase := upd_nth k (count_phrase c) (b_userPhrase b)\<rparr>) st)
         \<lparr>iNewPYPhraseCount := iNewPYPhraseCount st + 1, iOrderCount := iOrderCount st + 1,
          iCounter := new_counter c (ph_iIndex (b_userPhrase (get_base st i j) ! k))\<rparr>
     | CandSysPhrase i j k \<Rightarrow> (upd_base i j (\<lambda>b. b\<lparr>b_phrase := upd_nth k (count_phrase c) (b_phrase b)\<rparr>) st)
         \<lparr>iOrderCount := iOrderCount st + 1, iCounter := new_counter c (ph_iIndex (b_phrase (get_base st i j) ! k))\<rparr>
     | CandFreq f h \<Rightarrow> (upd_freq f (\<lambda>p. p\<lparr>pf_HZList := upd_nth h (count_hz c) (pf_HZList p)\<rparr>) st)
         \<lparr>iNewFreqCount := iNewFreqCount st + 1, iCounter := new_counter c (hz_iIndex (pf_HZList (pyFreq st ! f) ! h))\<rparr>
     | _ \<Rightarrow> st)"

definition chosen_word :: "pystate \<Rightarrow> PYCandWord \<Rightarrow> chosen" where
  "chosen_word st w = (case w of
       CandAuto \<Rightarrow> (strPYAuto st, [], strPYAutoMap st, [], pySelected st \<noteq> [] \<or> bPYSaveAutoAsPhrase (py_config st))
     | CandBase i j \<Rightarrow> (b_strHZ (get_base st i j), [], fa_strMap (PYFAList st ! i), [], True)
     | CandUserPhrase i j k \<Rightarrow> (let p = b_userPhrase (get_base st i j) ! k in
         (b_strHZ (get_base st i j), ph_strPhrase p, fa_strMap (PYFAList st ! i), ph_strMap p, True))
     | CandSysPhrase i j k \<Rightarrow> (let p = b_phrase (get_base st i j) ! k in
         (b_strHZ (get_base st i j), ph_strPhrase p, fa_strMap (PYFAList st ! i), ph_strMap p, True))
     | CandFreq f h \<Rightarrow> (let z = pf_HZList (pyFreq st ! f) ! h in
         (hz_strHZ z, [], fa_strMap (PYFAList st ! unat (hz_iPYFA z)), [], True))
     | CandRemind isSystem i j k l \<Rightarrow> ([], [], [], [], True))"

definition autosave :: "pystate \<Rightarrow> pystate option" where
  "autosave st = (let st = (if iOrderCount st \<ge> AUTOSAVE_ORDER_COUNT then SavePYIndex st else st) in
     if iNewFreqCount st \<ge> AUTOSAVE_FREQ_COUNT then SavePYFreq st else Some st)"

text \<open>
  A word that continues a text: the offset in bytes of the text is taken as the offset in the code, too.
\<close>

definition choose_remind :: "pyenv \<Rightarrow> bool \<Rightarrow> nat \<Rightarrow> nat \<Rightarrow> nat \<Rightarrow> nat \<Rightarrow> pysession \<Rightarrow> (uint32 \<times> pysession) option" where
  "choose_remind pe isSystem i j k l ses = (let st = ses_py ses;
     p = (if isSystem then b_phrase (get_base st i j) else b_userPhrase (get_base st i j)) ! k in
     if l > length (ph_strPhrase p) \<or> l > length (ph_strMap p) then None
     else do {
       let src = drop l (ph_strPhrase p);
       let ses = upd_py (\<lambda>st. st\<lparr>strPYRemindSource := src, strPYRemindMap := drop l (ph_strMap p)\<rparr>) ses;
       let ses = upd_ses (\<lambda>i. i\<lparr>strStringGet := src, candList := FcitxCandidateWordReset (candList i)\<rparr>) ses;
       (r, ses) \<leftarrow> PYGetRemindCandWords (e_text (pe_env pe)) (pe_paging_off pe) ses;
       Some (if r = IRV_DISPLAY_CANDWORDS then IRV_COMMIT_STRING_REMIND else IRV_COMMIT_STRING, ses) })"

text \<open>The word completes the text: it is committed, and may become a new phrase and be continued.\<close>

definition commit_word :: "pyenv \<Rightarrow> chosen \<Rightarrow> buf \<Rightarrow> pysession \<Rightarrow> (uint32 \<times> pysession) option" where
  "commit_word pe w hz ses = (case w of (base, phrase, base_map, phrase_map, bAddNewPhrase) \<Rightarrow> do {
     let st = ses_py ses;
     auto \<leftarrow> scat (MAX_WORDS_USER_INPUT * UTF8_MAX_LENGTH) (concat (map sel_strHZ (pySelected st))) hz;
     p \<leftarrow> ParsePY (py_config st) (strCodeInput (input (ses_inst ses))) (findMap st) PY_PARSE_INPUT_USER (py_bSP st);
     m \<leftarrow> scat (MAX_WORDS_USER_INPUT * UTF8_MAX_LENGTH) (concat (map sel_strMap (pySelected st))) (base_map @ phrase_map);
     let st = st\<lparr>strPYAuto := auto, findMap := p\<rparr>;
     n \<leftarrow> fcitx_utf8_strlen auto;
     st \<leftarrow> (if bAddNewPhrase \<and> unat n \<le> MAX_PY_PHRASE_LENGTH then map_option snd (PYAddUserPhrase st auto m False)
       else Some st);
     let inst = FcitxInstanceCleanInputWindow (ses_inst ses);
     let ses = upd_ses (\<lambda>i. i\<lparr>strStringGet := auto\<rparr>) (ses\<lparr>ses_py := st, ses_inst := inst\<rparr>);
     if \<not> bUseRemind (profile inst) then Some (IRV_COMMIT_STRING, ses)
     else do {
       (if length m \<le> 2 * MAX_WORDS_USER_INPUT then Some () else None);
       let ses = upd_ses (\<lambda>i. i\<lparr>strCodeInput := [], iCodeInputCount := 0\<rparr>)
         (upd_py (\<lambda>st. st\<lparr>strPYRemindSource := auto, strPYRemindMap := m\<rparr>) ses);
       (r, ses) \<leftarrow> PYGetRemindCandWords (e_text (pe_env pe)) (pe_paging_off pe) ses;
       if r \<noteq> IRV_TO_PROCESS
       then Some (IRV_COMMIT_STRING_REMIND, upd_py (\<lambda>st. (set_find [] st)\<lparr>iPYInsertPoint := 0\<rparr>) ses)
       else Some (IRV_COMMIT_STRING, ses) } })"

text \<open>The word covers the first pieces: they become a selected word, and the rest is the text.\<close>

definition select_word :: "chosen \<Rightarrow> buf \<Rightarrow> nat \<Rightarrow> pystate \<Rightarrow> pystate option" where
  "select_word w hz n st = (case w of (base, phrase, base_map, phrase_map, _) \<Rightarrow>
     let ps = strPYParsed (findMap st) in
     if length (pySelected st) > MAX_WORDS_USER_INPUT \<or> n > length ps then None
     else do {
       py \<leftarrow> scat ((MAX_PY_PHRASE_LENGTH) * 7) [] (concat (take n ps));
       m \<leftarrow> scat (2 * MAX_PY_PHRASE_LENGTH) base_map phrase_map;
       s \<leftarrow> scat (MAX_PY_PHRASE_LENGTH * UTF8_MAX_LENGTH) [] hz;
       put_text (concat (take (iHZCount (findMap st) - n) (drop n ps)))
         (st\<lparr>pySelected := pySelected st @ [\<lparr> sel_strPY = py, sel_strHZ = s, sel_strMap = m \<rparr>]\<rparr>) })"

type_synonym again = "pysession \<Rightarrow> (uint32 \<times> pysession) option"

definition PYGetCandWord :: "pyenv \<Rightarrow> again \<Rightarrow> nat \<Rightarrow> pysession \<Rightarrow> (uint32 \<times> pysession) option" where
  "PYGetCandWord pe again k ses = (let c = cl_words (cands ses) ! k in
     if cw_priv c = 0 then do {
       s \<leftarrow> cw_word c;
       Some (IRV_COMMIT_STRING, upd_ses (\<lambda>i. i\<lparr>strStringGet := s\<rparr>) ses) }
     else if cw_priv c > length (ses_words ses) then None
     else (case ses_words ses ! (cw_priv c - 1) of
         CandRemind isSystem i j n l \<Rightarrow> choose_remind pe isSystem i j n l ses
       | w \<Rightarrow> do {
           let chosen = chosen_word (ses_py ses) w;
           ses \<leftarrow> with_py (\<lambda>st. autosave (count_word w st)) ses;
           hz \<leftarrow> scat (MAX_WORDS_USER_INPUT * UTF8_MAX_LENGTH) (fst chosen) (fst (snd chosen));
           n \<leftarrow> fcitx_utf8_strlen hz;
           if unat n = iHZCount (findMap (ses_py ses)) then commit_word pe chosen hz ses
           else do {
             ses \<leftarrow> with_py (select_word chosen hz (unat n)) ses;
             (r, ses) \<leftarrow> again ses;
             let ses = upd_py (\<lambda>st. st\<lparr>iPYInsertPoint := int (length (strFindString st))\<rparr>) ses;
             Some (IRV_DISPLAY_CANDWORDS, CalculateCursorPosition ses) } }))"

section \<open>Keys\<close>

text \<open>A step returns its value; \<open>Done\<close> leaves the function, \<open>Next\<close> goes on with the choice of candidates.\<close>

datatype py_step = Done uint32 pysession | Next uint32 pysession

definition edit_step :: "(pystate \<Rightarrow> (uint32 \<times> pystate) option) \<Rightarrow> pysession \<Rightarrow> py_step option" where
  "edit_step f ses = map_option (\<lambda>(r, st). Next r (ses\<lparr>ses_py := st\<rparr>)) (f (ses_py ses))"

definition letter_step :: "pyenv \<Rightarrow> keysym \<Rightarrow> uint32 \<Rightarrow> pysession \<Rightarrow> py_step option" where
  "letter_step pe ks mods ses = (let
     ses = upd_ses (\<lambda>i. i\<lparr>bIsInRemind := False, bShowCursor := True\<rparr>) ses;
     st = ses_py ses; p = iPYInsertPoint st; s = strFindString st in
     if FcitxHotkeyIsHotKey ks mods FCITX_SEPARATOR \<and> p = 0 then Some (Done IRV_TO_PROCESS ses)
     else if FcitxHotkeyIsHotKey ks mods FCITX_SEPARATOR \<and> (p < 0 \<or> nat p > length s) then None
     else if FcitxHotkeyIsHotKey ks mods FCITX_SEPARATOR \<and> s ! nat (p - 1) = PY_SEPARATOR then Some (Done IRV_DO_NOTHING ses)
     else (let (launched, ses) = (if \<not> py_bSP st \<and> bUseVForQuickPhrase (py_config st) \<and> s = [] \<and>
             FcitxHotkeyIsKey ks mods FcitxKey_v FcitxKeyState_None then pe_quick pe ses else (False, ses)) in
       if launched then Some (Done IRV_DISPLAY_MESSAGE ses)
       else edit_step (insert_letter (ucast ks)) ses))"

text \<open>The words of this input method on the page, with their numbers; a word without a private part is followed.\<close>

definition page_own :: "pysession \<Rightarrow> (nat \<times> PYCandWord option) list" where
  "page_own ses = (let l = cands ses in
     map (\<lambda>i. (i, let c = cl_words l ! nat (cl_page l * cl_perpage l + int i) in
           if cw_priv c = 0 then None else Some (ses_words ses ! (cw_priv c - 1))))
       (filter (\<lambda>i. cw_owner (cl_words l ! nat (cl_page l * cl_perpage l + int i)) = ses_self ses)
         (filter (\<lambda>i. FcitxCandidateWordGetByIndex l (int i) \<noteq> None) [0..<10])))"

fun first_user :: "(nat \<times> PYCandWord option) list \<Rightarrow> bool option" where
  "first_user [] = Some False"
| "first_user ((i, None) # ws) = None"
| "first_user ((i, Some w) # ws) = (case w of CandUserPhrase _ _ _ \<Rightarrow> Some True | _ \<Rightarrow> first_user ws)"

fun last_freq :: "(nat \<times> PYCandWord option) list \<Rightarrow> nat \<Rightarrow> nat option" where
  "last_freq [] n = Some n"
| "last_freq ((i, None) # ws) n = None"
| "last_freq ((i, Some w) # ws) n = last_freq ws (case w of CandFreq _ _ \<Rightarrow> Suc i | _ \<Rightarrow> n)"

definition ask :: "buf \<Rightarrow> (pystate \<Rightarrow> pystate) \<Rightarrow> pysession \<Rightarrow> py_step option" where
  "ask s f ses = (let ses = upd_py f (upd_ses (\<lambda>i. i\<lparr>bIsDoInputOnly := True\<rparr>) ses);
     ses = ses\<lparr>ses_inst := FcitxInstanceCleanInputWindowUp (ses_inst ses)\<rparr> in do {
     m \<leftarrow> add_msg MSG_TIPS s (msgAuxUp (input (ses_inst ses)));
     Some (Done IRV_DISPLAY_MESSAGE (upd_ses (\<lambda>i. i\<lparr>msgAuxUp := m, bShowCursor := False\<rparr>) ses)) })"

definition ask_delete_phrase :: "pyenv \<Rightarrow> pysession \<Rightarrow> py_step option" where
  "ask_delete_phrase pe ses = do {
     found \<leftarrow> first_user (page_own ses);
     if found then ask (e_text (pe_env pe) (ascii ''Press index to delete user phrase (ESC for cancel)''))
       (\<lambda>st. st\<lparr>bIsPYDelUserPhr := True\<rparr>) ses
     else Some (Next IRV_TO_PROCESS ses) }"

definition ask_add_freq :: "pyenv \<Rightarrow> pysession \<Rightarrow> py_step option" where
  "ask_add_freq pe ses = (if iHZCount (findMap (ses_py ses)) = 1 \<and> raw_size ses \<noteq> 0
     then ask (e_text (pe_env pe) (ascii ''Press number to make word in frequent list''))
       (\<lambda>st. st\<lparr>bIsPYAddFreq := True\<rparr>) ses
     else Some (Next IRV_TO_PROCESS ses))"

definition ask_delete_freq :: "pyenv \<Rightarrow> pysession \<Rightarrow> py_step option" where
  "ask_delete_freq pe ses = do {
     n \<leftarrow> last_freq (page_own ses) 0;
     if n = 0 then Some (Done IRV_DO_NOTHING ses)
     else ask (pe_delmsg pe (int n) (strFindString (ses_py ses))) (\<lambda>st. st\<lparr>bIsPYDelFreq := True\<rparr>) ses }"

definition choose_first :: "pyenv \<Rightarrow> again \<Rightarrow> pysession \<Rightarrow> py_step option" where
  "choose_first pe again ses =
     (if FcitxCandidateWordPageCount (cands ses) = 0
      then Some (Next (if raw_size ses = 0 then IRV_TO_PROCESS else IRV_DO_NOTHING) ses)
      else (case FcitxCandidateWordChooseByIndex (cands ses) 0 of
          ChoiceReturn r \<Rightarrow> Some (Next r ses)
        | ChoiceCall f own k \<Rightarrow>
            if f = CandCallback (ses_callback ses) \<and> own = ses_self ses
            then map_option (\<lambda>(r, ses). Next r ses) (PYGetCandWord pe again k ses)
            else (case f of DummyHandler \<Rightarrow> Some (Next IRV_DO_NOTHING ses)
              | CandCallback _ \<Rightarrow> (let (r, s) = e_cand (pe_env pe) f own k (ses_inst ses) in
                  Some (Next r (ses\<lparr>ses_inst := s\<rparr>))))))"

definition enter_step :: "pysession \<Rightarrow> py_step option" where
  "enter_step ses = (let st = ses_py ses in do {
     s \<leftarrow> scat (MAX_USER_INPUT * UTF8_MAX_LENGTH) (concat (map sel_strHZ (pySelected st)))
       (concat (take (iHZCount (findMap st)) (strPYParsed (findMap st))));
     Some (Next IRV_COMMIT_STRING (upd_ses (\<lambda>i. i\<lparr>strStringGet := s\<rparr>) ses)) })"

definition py_key :: "pyenv \<Rightarrow> again \<Rightarrow> keysym \<Rightarrow> uint32 \<Rightarrow> pysession \<Rightarrow> py_step option" where
  "py_key pe again ks mods ses = (let is = FcitxHotkeyIsHotKey ks mods; typed = (raw_size ses \<noteq> 0); st = ses_py ses in
     if FcitxHotkeyIsHotKeyLAZ ks mods \<or> is FCITX_SEPARATOR \<or>
        (py_bSP st \<and> raw_size ses > 0 \<and> bSP_UseSemicolon st \<and> is FCITX_SEMICOLON) then letter_step pe ks mods ses
     else if is FCITX_BACKSPACE then edit_step back_space ses
     else if typed \<and> is FCITX_DELETE then edit_step delete_char ses
     else if typed \<and> is FCITX_HOME then
       Some (Next IRV_DISPLAY_CANDWORDS (upd_py (\<lambda>st. st\<lparr>iPYInsertPoint := 0\<rparr>) ses))
     else if typed \<and> is FCITX_END then
       Some (Next IRV_DISPLAY_CANDWORDS (upd_py (\<lambda>st. st\<lparr>iPYInsertPoint := int (length (strFindString st))\<rparr>) ses))
     else if typed \<and> is FCITX_RIGHT then edit_step (\<lambda>st. Some (go_right st)) ses
     else if typed \<and> is FCITX_LEFT then edit_step go_left ses
     else if is FCITX_SPACE then choose_first pe again ses
     else if typed \<and> is FCITX_ENTER then enter_step ses
     else if is (pe_delphr pe) then ask_delete_phrase pe ses
     else if is (pe_add pe) then ask_add_freq pe ses
     else if is (pe_del pe) then ask_delete_freq pe ses
     else Some (Next IRV_TO_PROCESS ses))"

text \<open>A word of this input method that is chosen in one of the modes.\<close>

definition mode_choice :: "PYCandWord \<Rightarrow> pystate \<Rightarrow> pystate option" where
  "mode_choice w st =
     (if bIsPYAddFreq st then map_option (\<lambda>st. st\<lparr>bIsPYAddFreq := False\<rparr>) (PYAddFreq st w)
      else if bIsPYDelFreq st then map_option (\<lambda>st. st\<lparr>bIsPYDelFreq := False\<rparr>) (PYDelFreq st w)
      else map_option (\<lambda>st. st\<lparr>bIsPYDelUserPhr := False\<rparr>)
        (case w of CandUserPhrase i j k \<Rightarrow> PYDelUserPhrase st i j k | _ \<Rightarrow> Some st))"

definition in_mode :: "pystate \<Rightarrow> bool" where
  "in_mode st \<longleftrightarrow> bIsPYAddFreq st \<or> bIsPYDelFreq st \<or> bIsPYDelUserPhr st"

definition choose_step :: "int \<Rightarrow> pysession \<Rightarrow> py_step option" where
  "choose_step iKey ses =
     (if bIsInRemind (input (ses_inst ses)) then Some (Next IRV_TO_PROCESS ses)
      else if raw_size ses = 0 then Some (Done IRV_TO_PROCESS ses)
      else (case FcitxCandidateWordGetByIndex (cands ses) iKey of
          None \<Rightarrow> Some (Done IRV_DO_NOTHING ses)
        | Some k \<Rightarrow> (let c = cl_words (cands ses) ! k in
            if cw_owner c = ses_self ses \<and> in_mode (ses_py ses) then
              (if cw_priv c = 0 then None
               else do {
                 ses \<leftarrow> with_py (mode_choice (ses_words ses ! (cw_priv c - 1))) ses;
                 Some (Next IRV_DISPLAY_CANDWORDS (upd_ses (\<lambda>i. i\<lparr>bIsDoInputOnly := False, bShowCursor := True\<rparr>) ses)) })
            else Some (Next IRV_TO_PROCESS ses))))"

definition void_step :: "pysession \<Rightarrow> py_step option" where
  "void_step ses = do {
     ses \<leftarrow> with_py parse_again ses;
     Some (Next IRV_DISPLAY_CANDWORDS (upd_py (\<lambda>st. st\<lparr>iPYInsertPoint := 0\<rparr>) ses)) }"

definition choice_key :: "keysym \<Rightarrow> uint32 \<Rightarrow> int \<Rightarrow> pysession \<Rightarrow> py_step option" where
  "choice_key ks mods iKey ses =
     (if iKey \<ge> 0 then choose_step iKey ses
      else if ks = FcitxKey_VoidSymbol then void_step ses
      else if FcitxHotkeyIsHotKey ks mods FCITX_ESCAPE then Some (Done IRV_TO_PROCESS ses)
      else if in_mode (ses_py ses) then Some (Done IRV_DO_NOTHING ses)
      else Some (Next IRV_TO_PROCESS ses))"

definition finish_key :: "uint32 \<Rightarrow> int \<Rightarrow> pysession \<Rightarrow> (uint32 \<times> pysession) option" where
  "finish_key r iKey ses =
     (if \<not> bIsInRemind (input (ses_inst ses)) then do {
        ses \<leftarrow> UpdateCodeInputPY ses;
        Some (r, CalculateCursorPosition ses) }
      else if r = IRV_TO_PROCESS \<and> iKey < 0 then
        Some (r, (upd_py ResetPYStatus ses)\<lparr>ses_inst := FcitxUIUpdateInputWindow (FcitxInstanceCleanInputWindow (ses_inst ses))\<rparr>)
      else Some (r, ses))"

definition load_dicts :: "pyenv \<Rightarrow> pystate \<Rightarrow> pystate option" where
  "load_dicts pe st = do {
     st \<leftarrow> (if bPYBaseDictLoaded st then Some st else map_option snd (LoadPYBaseDict (pe_base pe) st));
     if bPYOtherDictLoaded st then Some st else map_option snd (LoadPYOtherDict (pe_system pe) (pe_extra pe) st) }"

text \<open>\<open>again\<close> is the call of \<open>DoPYInput\<close> with the void symbol that choosing a word makes.\<close>

definition do_py_input :: "pyenv \<Rightarrow> again \<Rightarrow> keysym \<Rightarrow> uint32 \<Rightarrow> pysession \<Rightarrow> (uint32 \<times> pysession) option" where
  "do_py_input pe again ks mods ses = do {
     let ks = (if ks = 0 \<and> mods = 0 then FcitxKey_VoidSymbol else ks);
     ses \<leftarrow> with_py (load_dicts pe) ses;
     step \<leftarrow> (if in_mode (ses_py ses) then Some (Next IRV_TO_PROCESS ses) else py_key pe again ks mods ses);
     case step of Done r ses \<Rightarrow> Some (r, ses)
     | Next r ses \<Rightarrow> do {
         let iKey = FcitxCandidateWordCheckChooseKey (cands ses) ks mods;
         step \<leftarrow> (if r = IRV_TO_PROCESS then choice_key ks mods iKey ses else Some (Next r ses));
         case step of Done r ses \<Rightarrow> Some (r, ses) | Next r ses \<Rightarrow> finish_key r iKey ses } }"

definition DoPYInput :: "pyenv \<Rightarrow> keysym \<Rightarrow> uint32 \<Rightarrow> pysession \<Rightarrow> (uint32 \<times> pysession) option" where
  "DoPYInput pe = do_py_input pe (do_py_input pe (\<lambda>_. None) 0 0)"

end
