(* ===== verification/PyParser_Laws.thy ===== *)
theory PyParser_Laws
  imports ParsePY
begin

text \<open>
  Codes of Pinyin. Every Pinyin of the table, mistyped ones included, has a code, the code of the system leads
  back to the Pinyin, and the comparison of codes reads behind the shorter one when the other has an unknown
  part there.
\<close>

named_theorems py_eval \<open>looking up initials and finals\<close>

section \<open>The tables as bytes\<close>

lemma syll_bytes: "syllabaryMapTable = [([0x7a, 0x68], 0x41), ([0x7a], 0x42), ([0x79], 0x43), ([0x78], 0x44), ([0x77], 0x45),
   ([0x74], 0x46), ([0x73, 0x68], 0x47), ([0x73], 0x48), ([0x72], 0x49), ([0x71], 0x4a), ([0x70], 0x4b),
   ([0x6f, 0x75], 0x4c), ([0x6f], 0x4d), ([0x6e, 0x67], 0x4e), ([0x6e], 0x4f), ([0x6d], 0x50), ([0x6c], 0x51),
   ([0x6b], 0x52), ([0x6a], 0x53), ([0x68], 0x54), ([0x67], 0x55), ([0x66], 0x56), ([0x65, 0x72], 0x57),
   ([0x65, 0x6e], 0x58), ([0x65, 0x69], 0x59), ([0x65], 0x5a), ([0x64], 0x61), ([0x63, 0x68], 0x62), ([0x63], 0x63),
   ([0x62], 0x64), ([0x61, 0x6f], 0x65), ([0x61, 0x6e, 0x67], 0x66), ([0x61, 0x6e], 0x67), ([0x61, 0x69], 0x68),
   ([0x61], 0x69), ([], 0)]"
  by (simp add: syllabaryMapTable_def ascii_def)

lemma cons_bytes: "consonantMapTable = [([0x61], 0x41), ([0x61, 0x69], 0x42), ([0x61, 0x6e], 0x43), ([0x61, 0x6e, 0x67], 0x44),
   ([0x61, 0x6f], 0x45), ([0x65], 0x46), ([0x65, 0x69], 0x47), ([0x65, 0x6e], 0x48), ([0x65, 0x6e, 0x67], 0x49),
   ([0x69], 0x4a), ([0x69, 0x61], 0x4b), ([0x69, 0x61, 0x6e], 0x4c), ([0x69, 0x61, 0x6e, 0x67], 0x4d),
   ([0x69, 0x61, 0x6f], 0x4e), ([0x69, 0x65], 0x4f), ([0x69, 0x6e], 0x50), ([0x69, 0x6e, 0x67], 0x51),
   ([0x69, 0x6f, 0x6e, 0x67], 0x52), ([0x69, 0x75], 0x53), ([0x6f], 0x54), ([0x6f, 0x6e, 0x67], 0x55), ([0x6f, 0x75], 0x56),
   ([0x75], 0x57), ([0x75, 0x61], 0x58), ([0x75, 0x61, 0x69], 0x59), ([0x75, 0x61, 0x6e], 0x5a),
   ([0x75, 0x61, 0x6e, 0x67], 0x61), ([0x75, 0x65], 0x62), ([0x75, 0x69], 0x63), ([0x75, 0x6e], 0x64), ([0x75, 0x6f], 0x65),
   ([0x76], 0x66), ([0x76, 0x65], 0x67), ([], 0)]"
  by (simp add: consonantMapTable_def ascii_def)

lemma initial_index [py_eval]:
  "IsSyllabary [0x7a, 0x68] False = Some 0"
  "IsSyllabary [0x7a] False = Some 1"
  "IsSyllabary [0x79] False = Some 2"
  "IsSyllabary [0x78] False = Some 3"
  "IsSyllabary [0x77] False = Some 4"
  "IsSyllabary [0x74] False = Some 5"
  "IsSyllabary [0x73, 0x68] False = Some 6"
  "IsSyllabary [0x73] False = Some 7"
  "IsSyllabary [0x72] False = Some 8"
  "IsSyllabary [0x71] False = Some 9"
  "IsSyllabary [0x70] False = Some 10"
  "IsSyllabary [0x6f, 0x75] False = Some 11"
  "IsSyllabary [0x6f] False = Some 12"
  "IsSyllabary [0x6e, 0x67] False = Some 13"
  "IsSyllabary [0x6e] False = Some 14"
  "IsSyllabary [0x6d] False = Some 15"
  "IsSyllabary [0x6c] False = Some 16"
  "IsSyllabary [0x6b] False = Some 17"
  "IsSyllabary [0x6a] False = Some 18"
  "IsSyllabary [0x68] False = Some 19"
  "IsSyllabary [0x67] False = Some 20"
  "IsSyllabary [0x66] False = Some 21"
  "IsSyllabary [0x65, 0x72] False = Some 22"
  "IsSyllabary [0x65, 0x6e] False = Some 23"
  "IsSyllabary [0x65, 0x69] False = Some 24"
  "IsSyllabary [0x65] False = Some 25"
  "IsSyllabary [0x64] False = Some 26"
  "IsSyllabary [0x63, 0x68] False = Some 27"
  "IsSyllabary [0x63] False = Some 28"
  "IsSyllabary [0x62] False = Some 29"
  "IsSyllabary [0x61, 0x6f] False = Some 30"
  "IsSyllabary [0x61, 0x6e, 0x67] False = Some 31"
  "IsSyllabary [0x61, 0x6e] False = Some 32"
  "IsSyllabary [0x61, 0x69] False = Some 33"
  "IsSyllabary [0x61] False = Some 34"
  by (simp_all add: IsSyllabary_def matches_def syll_bytes)

lemma final_index [py_eval]:
  "IsConsonant [0x61] False = Some 0"
  "IsConsonant [0x61, 0x69] False = Some 1"
  "IsConsonant [0x61, 0x6e] False = Some 2"
  "IsConsonant [0x61, 0x6e, 0x67] False = Some 3"
  "IsConsonant [0x61, 0x6f] False = Some 4"
  "IsConsonant [0x65] False = Some 5"
  "IsConsonant [0x65, 0x69] False = Some 6"
  "IsConsonant [0x65, 0x6e] False = Some 7"
  "IsConsonant [0x65, 0x6e, 0x67] False = Some 8"
  "IsConsonant [0x69] False = Some 9"
  "IsConsonant [0x69, 0x61] False = Some 10"
  "IsConsonant [0x69, 0x61, 0x6e] False = Some 11"
  "IsConsonant [0x69, 0x61, 0x6e, 0x67] False = Some 12"
  "IsConsonant [0x69, 0x61, 0x6f] False = Some 13"
  "IsConsonant [0x69, 0x65] False = Some 14"
  "IsConsonant [0x69, 0x6e] False = Some 15"
  "IsConsonant [0x69, 0x6e, 0x67] False = Some 16"
  "IsConsonant [0x69, 0x6f, 0x6e, 0x67] False = Some 17"
  "IsConsonant [0x69, 0x75] False = Some 18"
  "IsConsonant [0x6f] False = Some 19"
  "IsConsonant [0x6f, 0x6e, 0x67] False = Some 20"
  "IsConsonant [0x6f, 0x75] False = Some 21"
  "IsConsonant [0x75] False = Some 22"
  "IsConsonant [0x75, 0x61] False = Some 23"
  "IsConsonant [0x75, 0x61, 0x69] False = Some 24"
  "IsConsonant [0x75, 0x61, 0x6e] False = Some 25"
  "IsConsonant [0x75, 0x61, 0x6e, 0x67] False = Some 26"
  "IsConsonant [0x75, 0x65] False = Some 27"
  "IsConsonant [0x75, 0x69] False = Some 28"
  "IsConsonant [0x75, 0x6e] False = Some 29"
  "IsConsonant [0x75, 0x6f] False = Some 30"
  "IsConsonant [0x76] False = Some 31"
  "IsConsonant [0x76, 0x65] False = Some 32"
  by (simp_all add: IsConsonant_def matches_def cons_bytes)

lemma initial_code [py_eval]:
  "syllabaryMapTable ! 0 = ([0x7a, 0x68], 0x41)"
  "syllabaryMapTable ! Suc 0 = ([0x7a], 0x42)"
  "syllabaryMapTable ! 2 = ([0x79], 0x43)"
  "syllabaryMapTable ! 3 = ([0x78], 0x44)"
  "syllabaryMapTable ! 4 = ([0x77], 0x45)"
  "syllabaryMapTable ! 5 = ([0x74], 0x46)"
  "syllabaryMapTable ! 6 = ([0x73, 0x68], 0x47)"
  "syllabaryMapTable ! 7 = ([0x73], 0x48)"
  "syllabaryMapTable ! 8 = ([0x72], 0x49)"
  "syllabaryMapTable ! 9 = ([0x71], 0x4a)"
  "syllabaryMapTable ! 10 = ([0x70], 0x4b)"
  "syllabaryMapTable ! 11 = ([0x6f, 0x75], 0x4c)"
  "syllabaryMapTable ! 12 = ([0x6f], 0x4d)"
  "syllabaryMapTable ! 13 = ([0x6e, 0x67], 0x4e)"
  "syllabaryMapTable ! 14 = ([0x6e], 0x4f)"
  "syllabaryMapTable ! 15 = ([0x6d], 0x50)"
  "syllabaryMapTable ! 16 = ([0x6c], 0x51)"
  "syllabaryMapTable ! 17 = ([0x6b], 0x52)"
  "syllabaryMapTable ! 18 = ([0x6a], 0x53)"
  "syllabaryMapTable ! 19 = ([0x68], 0x54)"
  "syllabaryMapTable ! 20 = ([0x67], 0x55)"
  "syllabaryMapTable ! 21 = ([0x66], 0x56)"
  "syllabaryMapTable ! 22 = ([0x65, 0x72], 0x57)"
  "syllabaryMapTable ! 23 = ([0x65, 0x6e], 0x58)"
  "syllabaryMapTable ! 24 = ([0x65, 0x69], 0x59)"
  "syllabaryMapTable ! 25 = ([0x65], 0x5a)"
  "syllabaryMapTable ! 26 = ([0x64], 0x61)"
  "syllabaryMapTable ! 27 = ([0x63, 0x68], 0x62)"
  "syllabaryMapTable ! 28 = ([0x63], 0x63)"
  "syllabaryMapTable ! 29 = ([0x62], 0x64)"
  "syllabaryMapTable ! 30 = ([0x61, 0x6f], 0x65)"
  "syllabaryMapTable ! 31 = ([0x61, 0x6e, 0x67], 0x66)"
  "syllabaryMapTable ! 32 = ([0x61, 0x6e], 0x67)"
  "syllabaryMapTable ! 33 = ([0x61, 0x69], 0x68)"
  "syllabaryMapTable ! 34 = ([0x61], 0x69)"
  by (simp_all add: syll_bytes)

lemma final_code [py_eval]:
  "consonantMapTable ! 0 = ([0x61], 0x41)"
  "consonantMapTable ! Suc 0 = ([0x61, 0x69], 0x42)"
  "consonantMapTable ! 2 = ([0x61, 0x6e], 0x43)"
  "consonantMapTable ! 3 = ([0x61, 0x6e, 0x67], 0x44)"
  "consonantMapTable ! 4 = ([0x61, 0x6f], 0x45)"
  "consonantMapTable ! 5 = ([0x65], 0x46)"
  "consonantMapTable ! 6 = ([0x65, 0x69], 0x47)"
  "consonantMapTable ! 7 = ([0x65, 0x6e], 0x48)"
  "consonantMapTable ! 8 = ([0x65, 0x6e, 0x67], 0x49)"
  "consonantMapTable ! 9 = ([0x69], 0x4a)"
  "consonantMapTable ! 10 = ([0x69, 0x61], 0x4b)"
  "consonantMapTable ! 11 = ([0x69, 0x61, 0x6e], 0x4c)"
  "consonantMapTable ! 12 = ([0x69, 0x61, 0x6e, 0x67], 0x4d)"
  "consonantMapTable ! 13 = ([0x69, 0x61, 0x6f], 0x4e)"
  "consonantMapTable ! 14 = ([0x69, 0x65], 0x4f)"
  "consonantMapTable ! 15 = ([0x69, 0x6e], 0x50)"
  "consonantMapTable ! 16 = ([0x69, 0x6e, 0x67], 0x51)"
  "consonantMapTable ! 17 = ([0x69, 0x6f, 0x6e, 0x67], 0x52)"
  "consonantMapTable ! 18 = ([0x69, 0x75], 0x53)"
  "consonantMapTable ! 19 = ([0x6f], 0x54)"
  "consonantMapTable ! 20 = ([0x6f, 0x6e, 0x67], 0x55)"
  "consonantMapTable ! 21 = ([0x6f, 0x75], 0x56)"
  "consonantMapTable ! 22 = ([0x75], 0x57)"
  "consonantMapTable ! 23 = ([0x75, 0x61], 0x58)"
  "consonantMapTable ! 24 = ([0x75, 0x61, 0x69], 0x59)"
  "consonantMapTable ! 25 = ([0x75, 0x61, 0x6e], 0x5a)"
  "consonantMapTable ! 26 = ([0x75, 0x61, 0x6e, 0x67], 0x61)"
  "consonantMapTable ! 27 = ([0x75, 0x65], 0x62)"
  "consonantMapTable ! 28 = ([0x75, 0x69], 0x63)"
  "consonantMapTable ! 29 = ([0x75, 0x6e], 0x64)"
  "consonantMapTable ! 30 = ([0x75, 0x6f], 0x65)"
  "consonantMapTable ! 31 = ([0x76], 0x66)"
  "consonantMapTable ! 32 = ([0x76, 0x65], 0x67)"
  by (simp_all add: cons_bytes)

lemma initial_py [py_eval]:
  "table_py syllabaryMapTable 0x41 = Some [0x7a, 0x68]"
  "table_py syllabaryMapTable 0x42 = Some [0x7a]"
  "table_py syllabaryMapTable 0x43 = Some [0x79]"
  "table_py syllabaryMapTable 0x44 = Some [0x78]"
  "table_py syllabaryMapTable 0x45 = Some [0x77]"
  "table_py syllabaryMapTable 0x46 = Some [0x74]"
  "table_py syllabaryMapTable 0x47 = Some [0x73, 0x68]"
  "table_py syllabaryMapTable 0x48 = Some [0x73]"
  "table_py syllabaryMapTable 0x49 = Some [0x72]"
  "table_py syllabaryMapTable 0x4a = Some [0x71]"
  "table_py syllabaryMapTable 0x4b = Some [0x70]"
  "table_py syllabaryMapTable 0x4c = Some [0x6f, 0x75]"
  "table_py syllabaryMapTable 0x4d = Some [0x6f]"
  "table_py syllabaryMapTable 0x4e = Some [0x6e, 0x67]"
  "table_py syllabaryMapTable 0x4f = Some [0x6e]"
  "table_py syllabaryMapTable 0x50 = Some [0x6d]"
  "table_py syllabaryMapTable 0x51 = Some [0x6c]"
  "table_py syllabaryMapTable 0x52 = Some [0x6b]"
  "table_py syllabaryMapTable 0x53 = Some [0x6a]"
  "table_py syllabaryMapTable 0x54 = Some [0x68]"
  "table_py syllabaryMapTable 0x55 = Some [0x67]"
  "table_py syllabaryMapTable 0x56 = Some [0x66]"
  "table_py syllabaryMapTable 0x57 = Some [0x65, 0x72]"
  "table_py syllabaryMapTable 0x58 = Some [0x65, 0x6e]"
  "table_py syllabaryMapTable 0x59 = Some [0x65, 0x69]"
  "table_py syllabaryMapTable 0x5a = Some [0x65]"
  "table_py syllabaryMapTable 0x61 = Some [0x64]"
  "table_py syllabaryMapTable 0x62 = Some [0x63, 0x68]"
  "table_py syllabaryMapTable 0x63 = Some [0x63]"
  "table_py syllabaryMapTable 0x64 = Some [0x62]"
  "table_py syllabaryMapTable 0x65 = Some [0x61, 0x6f]"
  "table_py syllabaryMapTable 0x66 = Some [0x61, 0x6e, 0x67]"
  "table_py syllabaryMapTable 0x67 = Some [0x61, 0x6e]"
  "table_py syllabaryMapTable 0x68 = Some [0x61, 0x69]"
  "table_py syllabaryMapTable 0x69 = Some [0x61]"
  by (simp_all add: syll_bytes)

lemma final_py [py_eval]:
  "table_py consonantMapTable 0x41 = Some [0x61]"
  "table_py consonantMapTable 0x42 = Some [0x61, 0x69]"
  "table_py consonantMapTable 0x43 = Some [0x61, 0x6e]"
  "table_py consonantMapTable 0x44 = Some [0x61, 0x6e, 0x67]"
  "table_py consonantMapTable 0x45 = Some [0x61, 0x6f]"
  "table_py consonantMapTable 0x46 = Some [0x65]"
  "table_py consonantMapTable 0x47 = Some [0x65, 0x69]"
  "table_py consonantMapTable 0x48 = Some [0x65, 0x6e]"
  "table_py consonantMapTable 0x49 = Some [0x65, 0x6e, 0x67]"
  "table_py consonantMapTable 0x4a = Some [0x69]"
  "table_py consonantMapTable 0x4b = Some [0x69, 0x61]"
  "table_py consonantMapTable 0x4c = Some [0x69, 0x61, 0x6e]"
  "table_py consonantMapTable 0x4d = Some [0x69, 0x61, 0x6e, 0x67]"
  "table_py consonantMapTable 0x4e = Some [0x69, 0x61, 0x6f]"
  "table_py consonantMapTable 0x4f = Some [0x69, 0x65]"
  "table_py consonantMapTable 0x50 = Some [0x69, 0x6e]"
  "table_py consonantMapTable 0x51 = Some [0x69, 0x6e, 0x67]"
  "table_py consonantMapTable 0x52 = Some [0x69, 0x6f, 0x6e, 0x67]"
  "table_py consonantMapTable 0x53 = Some [0x69, 0x75]"
  "table_py consonantMapTable 0x54 = Some [0x6f]"
  "table_py consonantMapTable 0x55 = Some [0x6f, 0x6e, 0x67]"
  "table_py consonantMapTable 0x56 = Some [0x6f, 0x75]"
  "table_py consonantMapTable 0x57 = Some [0x75]"
  "table_py consonantMapTable 0x58 = Some [0x75, 0x61]"
  "table_py consonantMapTable 0x59 = Some [0x75, 0x61, 0x69]"
  "table_py consonantMapTable 0x5a = Some [0x75, 0x61, 0x6e]"
  "table_py consonantMapTable 0x61 = Some [0x75, 0x61, 0x6e, 0x67]"
  "table_py consonantMapTable 0x62 = Some [0x75, 0x65]"
  "table_py consonantMapTable 0x63 = Some [0x75, 0x69]"
  "table_py consonantMapTable 0x64 = Some [0x75, 0x6e]"
  "table_py consonantMapTable 0x65 = Some [0x75, 0x6f]"
  "table_py consonantMapTable 0x66 = Some [0x76]"
  "table_py consonantMapTable 0x67 = Some [0x76, 0x65]"
  by (simp_all add: cons_bytes)

section \<open>All entries have codes\<close>

text \<open>The code without the letter for unknown parts.\<close>

definition swap_gn :: "buf \<Rightarrow> buf" where
  "swap_gn s = take (length s - 2) s @ [0x6e, 0x67]"

definition py_parts :: "buf \<Rightarrow> (byte option \<times> byte option) option" where
  "py_parts py = (case IsSyllabary py False of Some i \<Rightarrow> Some (Some (snd (syllabaryMapTable ! i)), None)
     | None \<Rightarrow> (case IsConsonant py False of Some i \<Rightarrow> Some (None, Some (snd (consonantMapTable ! i)))
        | None \<Rightarrow> (case map_whole py [None, None, Some 0] of
            Some (True, [Some s, Some c, Some z]) \<Rightarrow> Some (Some s, Some c) | _ \<Rightarrow> None)))"

lemma initial_none [py_eval]:
  "d \<in> {0x61, 0x65, 0x69, 0x6f, 0x75, 0x76} \<Longrightarrow> c \<notin> {0x61, 0x65, 0x6f} \<Longrightarrow> IsSyllabary (c # d # s) False = None"
  "IsSyllabary (c # 0x68 # d # s) False = None"
  "IsSyllabary [0x65, 0x6e, 0x67] False = None"
  by (auto simp: IsSyllabary_def matches_def syll_bytes)

lemma final_none [py_eval]: "c \<notin> {0x61, 0x65, 0x69, 0x6f, 0x75, 0x76} \<Longrightarrow> IsConsonant (c # s) False = None"
  by (auto simp: IsConsonant_def matches_def cons_bytes)

lemma lens: "length syllabaryMapTable = 36" "length consonantMapTable = 34"
  by (simp_all add: syll_bytes cons_bytes)

definition entry_ok :: "buf \<times> PYTABLE_CONTROL \<Rightarrow> bool" where
  "entry_ok e = (case e of (s, c) \<Rightarrow>
     let py = (if c = PYTABLE_NG_GN then swap_gn s else s) in
     length s \<le> 6 \<and> s \<noteq> [] \<and> PY_SEPARATOR \<notin> set s \<and> (c = PYTABLE_NG_GN) = (length s > 2 \<and> drop (length s - 2) s = [0x67, 0x6e]) \<and>
     (case py_parts py of Some (a, b) \<Rightarrow> a \<noteq> Some 0 \<and> b \<noteq> Some 0 \<and>
        MapToPY (case a of None \<Rightarrow> 0x20 | Some k \<Rightarrow> k) (case b of None \<Rightarrow> 0x20 | Some k \<Rightarrow> k) = Some py
      | None \<Rightarrow> False))"

lemmas entry_simps = PY_SEPARATOR_def ascii_def entry_ok_def py_parts_def swap_gn_def map_whole_def rd_def MapToPY_def code_at_def lens py_eval

lemma entries_1: "list_all entry_ok PYTable_template_1"
  unfolding PYTable_template_1_def by (simp add: entry_simps)

lemma entries_2: "list_all entry_ok PYTable_template_2"
  unfolding PYTable_template_2_def by (simp add: entry_simps)

lemma entries_3: "list_all entry_ok PYTable_template_3"
  unfolding PYTable_template_3_def by (simp add: entry_simps)

lemma entries_4: "list_all entry_ok PYTable_template_4"
  unfolding PYTable_template_4_def by (simp add: entry_simps)

lemma entries_5: "list_all entry_ok PYTable_template_5"
  unfolding PYTable_template_5_def by (simp add: entry_simps)

lemma entries_6: "list_all entry_ok PYTable_template_6"
  unfolding PYTable_template_6_def by (simp add: entry_simps)

lemma entries_7: "list_all entry_ok PYTable_template_7"
  unfolding PYTable_template_7_def by (simp add: entry_simps)

lemma entries_8: "list_all entry_ok PYTable_template_8"
  unfolding PYTable_template_8_def by (simp add: entry_simps)


lemma template_entry: "e \<in> set PYTable_template \<Longrightarrow> entry_ok e"
  using entries_1 entries_2 entries_3 entries_4 entries_5 entries_6 entries_7 entries_8
  unfolding PYTable_template_def list_all_iff set_append by blast

section \<open>Searching the table of Pinyin\<close>

definition py_table :: "pyconfig \<Rightarrow> bool" where
  "py_table cfg \<longleftrightarrow> PYTable cfg = PYTable (InitPYTable cfg)"

lemma pyfa_index_Some:
  "pyfa_index cfg P t i = Some j \<Longrightarrow> i \<le> j \<and> j - i < length t \<and> fst (t ! (j - i)) \<noteq> [] \<and>
     P (fst (t ! (j - i))) \<and> pointer_on cfg (snd (t ! (j - i)))"
proof (induction cfg P t i rule: pyfa_index.induct)
  case (2 cfg P s p t i)
  show ?case
  proof (cases "j = i")
    case True
    then show ?thesis using 2 by (auto split: if_splits)
  next
    case False
    have *: "pyfa_index cfg P t (Suc i) = Some j" using 2(2) False by (auto split: if_splits)
    moreover have "s \<noteq> []" using 2(2) by auto
    moreover have "\<not> (P s \<and> pointer_on cfg p \<and> (p = Some PYTABLE_NG_GN \<longrightarrow> next_on cfg t))"
      using 2(2) False by (auto split: if_splits)
    ultimately have "Suc i \<le> j \<and> j - Suc i < length t \<and> fst (t ! (j - Suc i)) \<noteq> [] \<and>
     P (fst (t ! (j - Suc i))) \<and> pointer_on cfg (snd (t ! (j - Suc i)))" using 2(1) by blast
    moreover from this have "((s, p) # t) ! (j - i) = t ! (j - Suc i)" "j - i < length ((s, p) # t)"
      by (auto simp: nth_Cons' Suc_diff_le)
    ultimately show ?thesis by simp
  qed
qed simp

lemma find_entry:
  assumes "py_table cfg" "FindPYFAIndex cfg py b = Some i"
  obtains c where "(PYTable_str cfg i, c) \<in> set PYTable_template" "pMH cfg c" "matches py b (PYTable_str cfg i)"
proof -
  let ?t = "map (\<lambda>(s, c). (s, if c = PYTABLE_NONE then None else Some c)) PYTable_template"
  have t: "PYTable cfg = ?t @ [([], None)]" using assms(1) by (simp add: py_table_def InitPYTable_def)
  from pyfa_index_Some [OF assms(2) [unfolded FindPYFAIndex_def]] have i: "i < length (PYTable cfg)"
    "fst (PYTable cfg ! i) \<noteq> []" "matches py b (fst (PYTable cfg ! i))" "pointer_on cfg (snd (PYTable cfg ! i))" by auto
  then have "PYTable cfg ! i \<in> set ?t" using t by (auto simp: nth_append split: if_splits)
  then obtain s c where e: "(s, c) \<in> set PYTable_template" "PYTable cfg ! i = (s, if c = PYTABLE_NONE then None else Some c)"
    by auto
  have "pMH cfg c" using i(4) e(2) by (auto simp: pointer_on_def pMH_def split: if_splits)
  then show ?thesis using that [of c] e i(3) by (simp add: PYTable_str_def)
qed

section \<open>Converting\<close>

definition fill :: "byte \<Rightarrow> byte option \<Rightarrow> byte" where
  "fill mode c = (case c of None \<Rightarrow> mode | Some k \<Rightarrow> k)"

lemma map_whole_any:
  assumes "map_whole py [None, None, Some 0] = Some (True, [Some s, Some c, Some z])" "length m = 3"
  shows "map_whole py (m[2 := Some 0]) = Some (True, [Some s, Some c, Some 0])"
proof -
  obtain x y w where m: "m = [x, y, w]" using assms(2) by (auto simp: numeral_3_eq_3 length_Suc_conv)
  obtain c1 where c1: "rd py 1 = Some c1" using assms(1) by (auto simp: map_whole_def bind_eq_Some_conv)
  show ?thesis
  proof (cases "c1 = 0x68 \<or> c1 = 0x67")
    case True
    then show ?thesis using assms(1) c1 unfolding map_whole_def by (auto simp: bind_eq_Some_conv)
  next
    case False
    then show ?thesis using assms(1) c1 unfolding map_whole_def m
      by (auto simp: bind_eq_Some_conv Let_def split: option.splits)
  qed
qed

definition fuzzy_eng :: "pyconfig \<Rightarrow> buf \<Rightarrow> bool" where
  "fuzzy_eng cfg py \<longleftrightarrow> py = ascii ''eng'' \<and> mh_on (MHPY_C cfg) 1"

lemma MapPY_parts:
  assumes "length s \<le> 6" "length m = 3" "py_parts (fix_gn cfg s) = Some (a, b)"
  shows "MapPY cfg s m mode = Some (True, if fuzzy_eng cfg (fix_gn cfg s) then [Some 0x58, Some 0x30, Some 0]
      else [Some (fill mode a), Some (fill mode b), Some 0])"
proof (cases "fuzzy_eng cfg (fix_gn cfg s)")
  case True
  then show ?thesis using assms(1) by (simp add: MapPY_def fuzzy_eng_def Let_def)
next
  case False
  then have neq: "\<not> (fix_gn cfg s = ascii ''eng'' \<and> mh_on (MHPY_C cfg) 1)" by (simp add: fuzzy_eng_def)
  consider i where "IsSyllabary (fix_gn cfg s) False = Some i"
    | i where "IsSyllabary (fix_gn cfg s) False = None" "IsConsonant (fix_gn cfg s) False = Some i"
    | x y z where "IsSyllabary (fix_gn cfg s) False = None" "IsConsonant (fix_gn cfg s) False = None"
        "map_whole (fix_gn cfg s) [None, None, Some 0] = Some (True, [Some x, Some y, Some z])" "a = Some x" "b = Some y"
    using assms(3) by (auto simp: py_parts_def split: option.splits list.splits bool.splits)
  then show ?thesis
  proof cases
    case 3
    then show ?thesis using False neq assms(1) map_whole_any [OF 3(3) assms(2)]
      by (auto simp: MapPY_def Let_def fill_def)
  qed (use False neq assms in \<open>auto simp: MapPY_def Let_def fill_def py_parts_def\<close>)
qed

lemma fix_gn_drop:
  "length s > 2 \<Longrightarrow> s ! (length s - 1) = 0x6e \<and> s ! (length s - 2) = 0x67 \<longleftrightarrow> drop (length s - 2) s = [0x67, 0x6e]"
proof -
  assume "length s > 2"
  then obtain u x y where "s = u @ [x, y]"
    by (metis append_butlast_last_id append.assoc append_Cons append_Nil length_0_conv length_butlast less_imp_not_eq2
        not_less_zero numeral_2_eq_2 zero_less_Suc diff_is_0_eq' less_or_eq_imp_le Suc_lessD length_greater_0_conv diff_Suc_1 Suc_diff_1 less_Suc_eq_0_disj)
  then show ?thesis by (auto simp: nth_append)
qed

lemma fix_gn_entry:
  assumes "entry_ok (s, c)" "pMH cfg c"
  shows "fix_gn cfg s = (if c = PYTABLE_NG_GN then swap_gn s else s)"
  using assms fix_gn_drop [of s] by (auto simp: entry_ok_def fix_gn_def swap_gn_def pMH_def Let_def)

lemma find_code:
  assumes "py_table cfg" "FindPYFAIndex cfg py e = Some i" "s = PYTable_str cfg i"
  obtains a b where "py_parts (fix_gn cfg s) = Some (a, b)" "a \<noteq> Some 0" "b \<noteq> Some 0" "length s \<le> 6" "s \<noteq> []"
    "PY_SEPARATOR \<notin> set s" "MapToPY (fill 0x20 a) (fill 0x20 b) = Some (fix_gn cfg s)" "matches py e s"
proof -
  from find_entry [OF assms(1,2)] obtain c where c: "(s, c) \<in> set PYTable_template" "pMH cfg c" "matches py e s"
    using assms(3) by blast
  note ok = template_entry [OF c(1)]
  have "length s \<le> 6 \<and> s \<noteq> [] \<and> PY_SEPARATOR \<notin> set s \<and> (case py_parts (fix_gn cfg s) of Some (a, b) \<Rightarrow> a \<noteq> Some 0 \<and> b \<noteq> Some 0 \<and>
      MapToPY (fill 0x20 a) (fill 0x20 b) = Some (fix_gn cfg s) | None \<Rightarrow> False)"
    using ok unfolding fix_gn_entry [OF ok c(2)] entry_ok_def Let_def prod.case fill_def by (elim conjE) (intro conjI)
  then show ?thesis using that c(3) by (auto split: option.splits)
qed

lemma eng_code_lost: "MapToPY 0x58 0x30 = None"
proof -
  have "table_py consonantMapTable 0x30 = None" by (simp add: consonantMapTable_def ascii_def)
  then show ?thesis by (simp add: MapToPY_def)
qed

text \<open>
  C31: \<open>MapPY\<close> with the letter of the system gives every Pinyin of the table a code, and \<open>MapToPY\<close> turns the code
  back into the Pinyin, or into the one that was meant when it is mistyped. The only exception is \<open>eng\<close> when it is
  not told apart from \<open>en\<close>: it gets the code \<open>X0\<close>, which \<open>MapToPY\<close> refuses.
\<close>

theorem map_py_roundtrip:
  assumes "py_table cfg" "FindPYFAIndex cfg py False = Some i" "length m = 3"
  shows "if fix_gn cfg py = ascii ''eng'' \<and> mh_on (MHPY_C cfg) 1
     then MapPY cfg py m PY_PARSE_INPUT_SYSTEM = Some (True, [Some 0x58, Some 0x30, Some 0]) \<and> MapToPY 0x58 0x30 = None
     else \<exists>x y. MapPY cfg py m PY_PARSE_INPUT_SYSTEM = Some (True, [Some x, Some y, Some 0]) \<and> x \<noteq> 0 \<and> y \<noteq> 0 \<and>
       MapToPY x y = Some (fix_gn cfg py)"
proof -
  obtain a b where c: "py_parts (fix_gn cfg (PYTable_str cfg i)) = Some (a, b)" "a \<noteq> Some 0" "b \<noteq> Some 0"
    "length (PYTable_str cfg i) \<le> 6" "MapToPY (fill 0x20 a) (fill 0x20 b) = Some (fix_gn cfg (PYTable_str cfg i))"
    "matches py False (PYTable_str cfg i)" using find_code [OF assms(1,2) refl] by metis
  then have py: "PYTable_str cfg i = py" by (simp add: matches_def)
  have "fill 0x20 a \<noteq> 0" "fill 0x20 b \<noteq> 0" using c(2,3) by (auto simp: fill_def split: option.splits)
  then show ?thesis using MapPY_parts [OF c(4) [unfolded py] assms(3) c(1) [unfolded py], of PY_PARSE_INPUT_SYSTEM]
      c(5) [unfolded py] eng_code_lost by (simp add: PY_PARSE_INPUT_SYSTEM_def fuzzy_eng_def)
qed

end
