(* ===== verification/ParsePY_Laws.thy ===== *)
theory ParsePY_Laws
  imports PyParser_Laws
begin

text \<open>
  Cutting a text of letters and separators: \<open>ParsePY\<close> ends, stays inside its arrays for texts of up to 35
  characters, and its pieces are the text with every run of separators as one.
\<close>

section \<open>Texts\<close>

definition py_text :: "buf \<Rightarrow> bool" where
  "py_text s \<longleftrightarrow> (\<forall>c\<in>set s. c = PY_SEPARATOR \<or> 0x61 \<le> c \<and> c \<le> 0x7a)"

text \<open>A text with its runs of separators as one; the flag says that one waits in front of it.\<close>

fun squeeze :: "bool \<Rightarrow> buf \<Rightarrow> buf" where
  "squeeze b [] = (if b then [PY_SEPARATOR] else [])"
| "squeeze b (c # s) = (if c = PY_SEPARATOR then squeeze True s else with_sep b (c # squeeze False s))"

lemma squeeze_piece:
  "py \<noteq> [] \<Longrightarrow> PY_SEPARATOR \<notin> set py \<Longrightarrow> squeeze b (py @ s) = with_sep b py @ squeeze False s"
proof (induction py arbitrary: b)
  case (Cons c py)
  then show ?case by (cases "py = []") (auto simp: with_sep_def)
qed simp

lemma has_prefix_take: "has_prefix p s \<longleftrightarrow> take (length p) s = p"
  by (induction p s rule: has_prefix.induct) auto

section \<open>Initials and finals in front of a text\<close>

text \<open>A piece that has a code.\<close>

definition codable :: "pyconfig \<Rightarrow> buf \<Rightarrow> bool" where
  "codable cfg s \<longleftrightarrow> length s \<le> 6 \<and> s \<noteq> [] \<and> PY_SEPARATOR \<notin> set s \<and>
     (\<exists>a b. py_parts (fix_gn cfg s) = Some (a, b) \<and> a \<noteq> Some 0 \<and> b \<noteq> Some 0)"

definition part_ok :: "buf \<Rightarrow> bool" where
  "part_ok s \<longleftrightarrow> length s \<le> 6 \<and> s \<noteq> [] \<and> PY_SEPARATOR \<notin> set s \<and>
     (length s > 2 \<longrightarrow> drop (length s - 2) s \<noteq> [0x67, 0x6e]) \<and>
     (case py_parts s of Some (a, b) \<Rightarrow> a \<noteq> Some 0 \<and> b \<noteq> Some 0 | None \<Rightarrow> False)"

lemma vowel_none: "IsSyllabary (0x69 # s) False = None" "IsSyllabary (0x75 # s) False = None"
  "IsSyllabary (0x76 # s) False = None" "IsSyllabary [0x6f, 0x6e, 0x67] False = None"
  by (simp_all add: IsSyllabary_def matches_def syll_bytes)

lemma parts_ok:
  "list_all (\<lambda>e. snd e \<noteq> 0 \<longrightarrow> part_ok (fst e)) consonantMapTable"
  "list_all (\<lambda>e. snd e \<noteq> 0 \<longrightarrow> part_ok (fst e)) syllabaryMapTable"
  unfolding cons_bytes syll_bytes by (simp_all add: part_ok_def py_parts_def PY_SEPARATOR_def vowel_none py_eval)

lemma map_index_Some:
  "map_index P t i = Some j \<Longrightarrow> i \<le> j \<and> j - i < length t \<and> snd (t ! (j - i)) \<noteq> 0 \<and> P (fst (t ! (j - i)))"
proof (induction P t i rule: map_index.induct)
  case (2 P s c t i)
  show ?case
  proof (cases "P s")
    case True
    then show ?thesis using 2 by (auto split: if_splits)
  next
    case False
    then have "Suc i \<le> j \<and> j - Suc i < length t \<and> snd (t ! (j - Suc i)) \<noteq> 0 \<and> P (fst (t ! (j - Suc i)))"
      using 2 by (auto split: if_splits)
    moreover from this have "((s, c) # t) ! (j - i) = t ! (j - Suc i)" "j - i < length ((s, c) # t)"
      by (auto simp: nth_Cons' Suc_diff_le)
    ultimately show ?thesis by simp
  qed
qed simp

lemma map_index_None:
  "map_index P t i = None \<Longrightarrow> e \<in> set (takeWhile (\<lambda>e. snd e \<noteq> 0) t) \<Longrightarrow> \<not> P (fst e)"
  by (induction P t i rule: map_index.induct) (auto split: if_splits)

lemma part_codable: "part_ok s \<Longrightarrow> codable cfg s"
proof -
  assume p: "part_ok s"
  then have "fix_gn cfg s = s" using fix_gn_drop [of s] by (auto simp: part_ok_def fix_gn_def Let_def)
  with p show ?thesis by (auto simp: part_ok_def codable_def split: option.splits)
qed

lemma part_at:
  assumes "list_all (\<lambda>e. snd e \<noteq> 0 \<longrightarrow> part_ok (fst e)) t" "map_index (matches strP True) t 0 = Some i"
  shows "codable cfg (fst (t ! i))" "has_prefix (fst (t ! i)) strP"
proof -
  from map_index_Some [OF assms(2)] have i: "i < length t" "snd (t ! i) \<noteq> 0" "matches strP True (fst (t ! i))" by simp_all
  then have "part_ok (fst (t ! i))" using assms(1) by (simp add: list_all_length)
  then show "codable cfg (fst (t ! i))" by (rule part_codable)
  show "has_prefix (fst (t ! i)) strP" using i(3) by (simp add: matches_def)
qed

text \<open>Every letter begins an initial or a final.\<close>

lemma letters: "0x61 \<le> c \<Longrightarrow> c \<le> (0x7a :: byte) \<Longrightarrow> c \<in> {0x61, 0x62, 0x63, 0x64, 0x65, 0x66, 0x67, 0x68, 0x69, 0x6a, 0x6b, 0x6c, 0x6d, 0x6e,
    0x6f, 0x70, 0x71, 0x72, 0x73, 0x74, 0x75, 0x76, 0x77, 0x78, 0x79, 0x7a}"
proof -
  assume "0x61 \<le> c" "c \<le> (0x7a :: byte)"
  then have "97 \<le> unat c \<and> unat c < 123" by (simp add: word_le_nat_alt)
  then have "unat c \<in> set [97..<123]" by (simp only: set_upt atLeastLessThan_iff)
  then have "word_of_nat (unat c) \<in> (word_of_nat :: nat \<Rightarrow> byte) ` set [97..<123]" by (rule imageI)
  then show ?thesis by (simp add: upt_rec)
qed

lemma known_parts:
  "[c] \<in> fst ` set (takeWhile (\<lambda>e. snd e \<noteq> 0) syllabaryMapTable) \<Longrightarrow> IsSyllabary (c # s) True \<noteq> None"
  "[c] \<in> fst ` set (takeWhile (\<lambda>e. snd e \<noteq> 0) consonantMapTable) \<Longrightarrow> IsConsonant (c # s) True \<noteq> None"
  using map_index_None [of "matches (c # s) True" syllabaryMapTable 0] map_index_None [of "matches (c # s) True" consonantMapTable 0]
  by (fastforce simp: IsSyllabary_def IsConsonant_def matches_def)+

lemma letter_known:
  assumes "0x61 \<le> c" "c \<le> 0x7a" "IsConsonant (c # s) True = None"
  shows "IsSyllabary (c # s) True \<noteq> None"
proof -
  have "fst ` set (takeWhile (\<lambda>e. snd e \<noteq> 0) syllabaryMapTable) \<supseteq> (\<lambda>b. [b]) ` {0x61, 0x62, 0x63, 0x64, 0x65, 0x66, 0x67, 0x68, 0x6a, 0x6b, 0x6c, 0x6d, 0x6e,
    0x6f, 0x70, 0x71, 0x72, 0x73, 0x74, 0x77, 0x78, 0x79, 0x7a}"
    by (simp add: syll_bytes)
  moreover have "fst ` set (takeWhile (\<lambda>e. snd e \<noteq> 0) consonantMapTable) \<supseteq> (\<lambda>b. [b]) ` {0x69, 0x75, 0x76}"
    by (simp add: cons_bytes)
  ultimately show ?thesis using letters [OF assms(1,2)] known_parts [of c s] assms(3) by auto
qed

section \<open>One round\<close>

text \<open>What the loop keeps of the result, with the number of characters that are left.\<close>

definition room :: "nat \<Rightarrow> ParsePYStruct \<Rightarrow> bool" where
  "room n p \<longleftrightarrow> length (strPYParsed p) = 35 \<and> length (strMap p) = 35 \<and> iHZCount p + n \<le> 35"

definition pieces :: "ParsePYStruct \<Rightarrow> buf" where
  "pieces p = concat (take (iHZCount p) (strPYParsed p))"

definition coded :: "ParsePYStruct \<Rightarrow> bool" where
  "coded p \<longleftrightarrow> (\<forall>i<iHZCount p. length (strMap p ! i) = 2)"

definition separated :: "bool \<Rightarrow> ParsePYStruct \<Rightarrow> bool" where
  "separated b p \<longleftrightarrow> (b \<longrightarrow> iHZCount p < 35 \<and> strPYParsed p ! iHZCount p = [PY_SEPARATOR] \<and>
     length (strMap p ! iHZCount p) = 2)"

lemma MapPY_codable:
  assumes "codable cfg py" "length m = 3" "mode \<noteq> 0"
  obtains x y where "MapPY cfg py m mode = Some (True, [Some x, Some y, Some 0])" "x \<noteq> 0" "y \<noteq> 0"
proof -
  from assms(1) obtain a b where c: "length py \<le> 6" "py_parts (fix_gn cfg py) = Some (a, b)" "a \<noteq> Some 0" "b \<noteq> Some 0"
    by (auto simp: codable_def)
  show ?thesis
  proof (cases "fuzzy_eng cfg (fix_gn cfg py)")
    case True
    then show ?thesis using MapPY_parts [OF c(1) assms(2) c(2), where mode = mode] by (intro that [of "0x58" "0x30"]) simp_all
  next
    case False
    then show ?thesis using MapPY_parts [OF c(1) assms(2) c(2), where mode = mode] c(3,4) assms(3)
      by (intro that [of "fill mode a" "fill mode b"]) (auto simp: fill_def split: option.splits)
  qed
qed

lemma qp_piece_step:
  assumes "codable cfg py" "has_prefix py strP" "length m = 3" "mode \<noteq> 0" "room (length strP) p" "coded p"
  obtains p' m' rest where "qp_piece cfg mode py (strP, b, p, m) = Some (rest, False, p', m')" "length m' = 3"
    "strP = py @ rest" "room (length rest) p'" "coded p'" "pieces p' @ squeeze False rest = pieces p @ squeeze b strP"
    "iHZCount p < iHZCount p'"
proof -
  from MapPY_codable [OF assms(1,3,4)] obtain x y where xy: "MapPY cfg py m mode = Some (True, [Some x, Some y, Some 0])"
    "x \<noteq> 0" "y \<noteq> 0" by blast
  let ?i = "iHZCount p" and ?s = "with_sep b py"
  let ?p = "p\<lparr>strPYParsed := (strPYParsed p)[?i := ?s], strMap := (strMap p)[?i := [x, y]], iHZCount := Suc ?i\<rparr>"
  have py: "py \<noteq> []" "length py \<le> 6" "PY_SEPARATOR \<notin> set py" using assms(1) by (auto simp: codable_def)
  obtain rest where strP: "strP = py @ rest" using assms(2) by (metis append_take_drop_id has_prefix_take)
  have i: "?i < 35" using assms(5) py(1) by (cases py) (auto simp: room_def strP)
  have "put_piece ?s [x, y] p = Some ?p"
    using i assms(5) py(2) by (auto simp: put_piece_def put_parsed_def put_map_def room_def with_sep_def)
  then have eq: "qp_piece cfg mode py (strP, b, p, m) = Some (rest, False, ?p, [Some x, Some y, Some 0])"
    using xy by (simp add: qp_piece_def strP)
  have "pieces ?p = pieces p @ ?s" using i assms(5) by (simp add: pieces_def room_def take_Suc_conv_app_nth)
  then have out: "pieces ?p @ squeeze False rest = pieces p @ squeeze b strP"
    using squeeze_piece [OF py(1,3), of b rest] by (simp add: strP)
  have "room (length rest) ?p" using assms(5) py(1) by (cases py) (auto simp: room_def strP)
  moreover have "coded ?p" using assms(5,6) i by (auto simp: coded_def room_def nth_list_update less_Suc_eq)
  ultimately show ?thesis using that [OF eq _ strP _ _ out] by simp
qed

lemma qp_separator_step:
  assumes "room (length (PY_SEPARATOR # s)) p" "coded p"
  obtains p' where "qp_separator (PY_SEPARATOR # s, b, p, m) = Some (s, True, p', m)"
    "room (length s) p'" "coded p'" "pieces p' = pieces p" "separated True p'" "iHZCount p' = iHZCount p"
proof -
  let ?i = "iHZCount p"
  let ?p = "p\<lparr>strPYParsed := (strPYParsed p)[?i := [PY_SEPARATOR]], strMap := (strMap p)[?i := [0x30, 0x30]]\<rparr>"
  have i: "?i < 35" using assms(1) by (simp add: room_def)
  have "qp_separator (PY_SEPARATOR # s, b, p, m) = Some (s, True, ?p, m)"
    using i assms(1) by (simp add: qp_separator_def put_parsed_def put_map_def room_def)
  then show ?thesis
    using i assms by (intro that [of ?p]) (auto simp: room_def coded_def pieces_def separated_def nth_list_update)
qed

lemma find_codable:
  assumes "py_table cfg" "FindPYFAIndex cfg py e = Some i"
  shows "codable cfg (PYTable_str cfg i)" "matches py e (PYTable_str cfg i)"
  using find_code [OF assms refl] unfolding codable_def by metis+

lemma split_piece_codable:
  assumes "py_table cfg" "FindPYFAIndex cfg strP True = Some i"
  shows "codable cfg (split_piece cfg strP i)" "has_prefix (split_piece cfg strP i) strP"
proof -
  have whole: "codable cfg (PYTable_str cfg i)" "has_prefix (PYTable_str cfg i) strP"
    using find_codable [OF assms] by (simp_all add: matches_def)
  let ?short = "take (length (PYTable_str cfg i) - 1) strP"
  have short: "codable cfg ?short" if "FindPYFAIndex cfg ?short False = Some j" for j
    using find_codable [OF assms(1) that] by (simp add: matches_def)
  have "has_prefix ?short strP" by (simp add: has_prefix_take min_def)
  with whole short show "codable cfg (split_piece cfg strP i)" "has_prefix (split_piece cfg strP i) strP"
    by (auto simp: split_piece_def Let_def split: option.splits)
qed

lemma room_mode: "room n (p\<lparr>iMode := v\<rparr>) = room n p" "coded (p\<lparr>iMode := v\<rparr>) = coded p"
  "pieces (p\<lparr>iMode := v\<rparr>) = pieces p" "separated b (p\<lparr>iMode := v\<rparr>) = separated b p"
  by (simp_all add: room_def coded_def pieces_def separated_def)

lemma mode_same: "p = p\<lparr>iMode := iMode p\<rparr>"
  by simp

text \<open>A round: a piece or a separator less, and the pieces so far with the rest still make the text.\<close>

definition round_ok :: "bool \<Rightarrow> buf \<Rightarrow> ParsePYStruct \<Rightarrow> qp_parsing \<Rightarrow> bool" where
  "round_ok b strP p st \<longleftrightarrow> (case st of (rest, b', p', m') \<Rightarrow>
     length m' = 3 \<and> length rest < length strP \<and> py_text rest \<and> room (length rest) p' \<and> coded p' \<and> separated b' p' \<and>
     pieces p' @ squeeze b' rest = pieces p @ squeeze b strP \<and>
     (if rest = [] then b' = (last strP = PY_SEPARATOR) else last rest = last strP) \<and> iHZCount p \<le> iHZCount p')"

lemma round_piece:
  assumes "codable cfg py" "has_prefix py strP" "mode \<noteq> 0" "py_text strP" "length m = 3" "room (length strP) p" "coded p"
  shows "\<exists>st. qp_piece cfg mode py (strP, b, p\<lparr>iMode := v\<rparr>, m) = Some st \<and> round_ok b strP p st"
proof -
  have st: "room (length strP) (p\<lparr>iMode := v\<rparr>)" "coded (p\<lparr>iMode := v\<rparr>)" using assms(6,7) by (simp_all add: room_mode)
  from qp_piece_step [OF assms(1,2,5,3) st, of b] obtain p' m' rest where
    r: "qp_piece cfg mode py (strP, b, p\<lparr>iMode := v\<rparr>, m) = Some (rest, False, p', m')" "length m' = 3"
    "strP = py @ rest" "room (length rest) p'" "coded p'"
    "pieces p' @ squeeze False rest = pieces (p\<lparr>iMode := v\<rparr>) @ squeeze b strP"
    "iHZCount (p\<lparr>iMode := v\<rparr>) < iHZCount p'" by blast
  have py: "py \<noteq> []" "PY_SEPARATOR \<notin> set py" using assms(1) by (auto simp: codable_def)
  then have "last py \<noteq> PY_SEPARATOR" by (metis last_in_set)
  moreover have "py_text rest" using assms(4) unfolding r(3) by (auto simp: py_text_def)
  moreover have "length rest < length strP" using py(1) unfolding r(3) by simp
  moreover have "if rest = [] then False = (last strP = PY_SEPARATOR) else last rest = last strP"
    using calculation(1) py(1) unfolding r(3) by simp
  ultimately have "round_ok b strP p (rest, False, p', m')"
    using r(2,4,5,6,7) by (simp add: round_ok_def separated_def room_mode)
  with r(1) show ?thesis by blast
qed

lemma round_separator:
  assumes "strP = PY_SEPARATOR # s" "py_text strP" "length m = 3" "room (length strP) p" "coded p"
  shows "\<exists>st. qp_separator (strP, b, p\<lparr>iMode := v\<rparr>, m) = Some st \<and> round_ok b strP p st"
proof -
  have st: "room (length (PY_SEPARATOR # s)) (p\<lparr>iMode := v\<rparr>)" "coded (p\<lparr>iMode := v\<rparr>)"
    using assms by (simp_all add: room_mode)
  from qp_separator_step [OF st, of b m] obtain p' where r: "qp_separator (PY_SEPARATOR # s, b, p\<lparr>iMode := v\<rparr>, m) = Some (s, True, p', m)"
    "room (length s) p'" "coded p'" "pieces p' = pieces (p\<lparr>iMode := v\<rparr>)" "separated True p'"
    "iHZCount p' = iHZCount (p\<lparr>iMode := v\<rparr>)" by blast
  then have "round_ok b strP p (s, True, p', m)" using assms by (auto simp: round_ok_def py_text_def room_mode)
  with r(1) assms(1) show ?thesis by blast
qed

lemma qp_round_step:
  assumes cfg: "py_table cfg" "mode \<noteq> 0" and str: "strP \<noteq> []" "py_text strP"
    and st: "length m = 3" "room (length strP) p" "coded p"
  shows "\<exists>st. qp_round cfg mode (strP, b, p, m) = Some st \<and> round_ok b strP p st"
proof (cases "FindPYFAIndex cfg strP True")
  case (Some i)
  have "qp_round cfg mode (strP, b, p, m) = qp_piece cfg mode (split_piece cfg strP i) (strP, b, p\<lparr>iMode := iMode p\<rparr>, m)"
    using Some by (simp add: qp_round_def)
  then show ?thesis using round_piece [OF split_piece_codable [OF cfg(1) Some] cfg(2) str(2) st] by metis
next
  case None
  obtain c s where c: "strP = c # s" using str(1) by (cases strP) auto
  define v where "v = (if bFullPY cfg \<and> c \<noteq> PY_SEPARATOR then PARSE_ERROR else iMode p)"
  have v: "(if bFullPY cfg \<and> c \<noteq> PY_SEPARATOR then set_mode PARSE_ERROR (strP, b, p, m) else (strP, b, p, m)) =
      (strP, b, p\<lparr>iMode := v\<rparr>, m)" by (simp add: v_def set_mode_def)
  have rd: "rd strP 0 = Some c" by (simp add: c rd_def)
  consider i where "IsConsonant strP True = Some i" | i where "IsConsonant strP True = None" "IsSyllabary strP True = Some i"
    | "IsConsonant strP True = None" "IsSyllabary strP True = None" by fastforce
  then show ?thesis
  proof cases
    case 1
    then have "qp_round cfg mode (strP, b, p, m) =
        qp_piece cfg mode (fst (consonantMapTable ! i)) (strP, b, p\<lparr>iMode := PARSE_ERROR\<rparr>, m)"
      using None rd v by (simp add: qp_round_def set_mode_def)
    then show ?thesis
      using round_piece [OF part_at [OF parts_ok(1) 1 [unfolded IsConsonant_def]] cfg(2) str(2) st] by metis
  next
    case 2
    then have "qp_round cfg mode (strP, b, p, m) = qp_piece cfg mode (fst (syllabaryMapTable ! i))
        (strP, b, p\<lparr>iMode := if v \<noteq> PARSE_ERROR then PARSE_ABBR else v\<rparr>, m)"
      using None rd v by (simp add: qp_round_def set_mode_def Let_def)
    then show ?thesis
      using round_piece [OF part_at [OF parts_ok(2) 2(2) [unfolded IsSyllabary_def]] cfg(2) str(2) st] by metis
  next
    case 3
    then have "c = PY_SEPARATOR" using letter_known [of c s] str(2) c by (auto simp: py_text_def)
    with c have sep: "strP = PY_SEPARATOR # s" by simp
    have "qp_round cfg mode (strP, b, p, m) = qp_separator (strP, b, p\<lparr>iMode := v\<rparr>, m)"
      using 3 None rd v by (simp add: qp_round_def)
    then show ?thesis using round_separator [OF sep str(2) st] by metis
  qed
qed

section \<open>The whole text\<close>

lemma qp_loop_pieces:
  assumes "py_table cfg" "mode \<noteq> 0"
  shows "strP \<noteq> [] \<Longrightarrow> length strP \<le> n \<Longrightarrow> py_text strP \<Longrightarrow> length m = 3 \<Longrightarrow> room (length strP) p \<Longrightarrow> coded p \<Longrightarrow>
   \<exists>p'. qp_loop n cfg mode (strP, b, p, m) = Some p' \<and> room 0 p' \<and> coded p' \<and>
     separated (last strP = PY_SEPARATOR) p' \<and>
     pieces p' @ squeeze (last strP = PY_SEPARATOR) [] = pieces p @ squeeze b strP \<and> iHZCount p \<le> iHZCount p'"
proof (induction n arbitrary: strP b p m)
  case (Suc n)
  from qp_round_step [OF assms Suc.prems(1,3,4,5,6)] obtain rest b' p1 m1 where r:
    "qp_round cfg mode (strP, b, p, m) = Some (rest, b', p1, m1)" "round_ok b strP p (rest, b', p1, m1)"
    by (metis prod_cases4)
  show ?case
  proof (cases "rest = []")
    case True
    with r(2) have "length m1 = 3" "room 0 p1" "coded p1" "separated b' p1" "b' = (last strP = PY_SEPARATOR)"
      "pieces p1 @ squeeze b' [] = pieces p @ squeeze b strP" "iHZCount p \<le> iHZCount p1" by (auto simp: round_ok_def)
    with r(1) True show ?thesis by auto
  next
    case False
    with r(2) have k: "length m1 = 3" "length rest < length strP" "py_text rest" "room (length rest) p1" "coded p1"
      "pieces p1 @ squeeze b' rest = pieces p @ squeeze b strP" "last rest = last strP" "iHZCount p \<le> iHZCount p1"
      by (simp_all add: round_ok_def)
    have "length rest \<le> n" using k(2) Suc.prems(2) by simp
    from Suc.IH [OF False this k(3,1,4,5), of b'] obtain p' where "qp_loop n cfg mode (rest, b', p1, m1) = Some p'"
      "room 0 p'" "coded p'" "separated (last rest = PY_SEPARATOR) p'"
      "pieces p' @ squeeze (last rest = PY_SEPARATOR) [] = pieces p1 @ squeeze b' rest" "iHZCount p1 \<le> iHZCount p'" by blast
    then show ?thesis using r(1) False k(6,7,8) by (auto split: prod.split)
  qed
qed simp

lemma parse_text:
  assumes "py_table cfg" "mode \<noteq> 0" "py_text s" "s \<noteq> []" "length s \<le> 35"
    "length (strPYParsed p) = 35" "length (strMap p) = 35"
  shows "\<exists>p'. ParsePY cfg s p mode False = Some p' \<and> length (strPYParsed p') = 35 \<and> length (strMap p') = 35 \<and>
     concat (take (iHZCount p') (strPYParsed p')) = squeeze False s \<and>
     iHZCount p' \<le> 35 \<and> (\<forall>i<iHZCount p'. length (strMap p' ! i) = 2)"
proof -
  let ?p = "p\<lparr>iMode := PARSE_SINGLEHZ, iHZCount := 0\<rparr>" and ?e = "last s = PY_SEPARATOR"
  have "room (length s) ?p" "coded ?p" using assms(5,6,7) by (simp_all add: room_def coded_def)
  from qp_loop_pieces [OF assms(1,2,4) order_refl assms(3) _ this, of "[None, None, None]" False] obtain p' where p':
    "qp_loop (length s) cfg mode (s, False, ?p, [None, None, None]) = Some p'" "room 0 p'" "coded p'" "separated ?e p'"
    "pieces p' @ squeeze ?e [] = pieces ?p @ squeeze False s" by auto
  have empty: "pieces ?p = []" by (simp add: pieces_def)
  let ?q = "if ?e then p'\<lparr>iHZCount := Suc (iHZCount p')\<rparr> else p'"
  have "concat (take (iHZCount ?q) (strPYParsed ?q)) = squeeze False s"
    using p'(2,4,5) empty by (auto simp: pieces_def separated_def room_def take_Suc_conv_app_nth)
  moreover have "iHZCount ?q \<le> 35" "length (strPYParsed ?q) = 35" "length (strMap ?q) = 35"
    using p'(2,4) by (auto simp: separated_def room_def)
  moreover have "\<forall>i<iHZCount ?q. length (strMap ?q ! i) = 2"
    using p'(3,4) by (auto simp: separated_def coded_def less_Suc_eq)
  moreover have "ParsePY cfg s p mode False = Some (final_mode ?q)"
    using p'(1) assms(4) by (simp add: ParsePY_def)
  ultimately show ?thesis by (auto simp: final_mode_def)
qed

text \<open>The empty text: the check for a separator at its end reads in front of it.\<close>

lemma parse_empty: "ParsePY cfg [] p mode bSP = None"
  by (cases "bSP") (simp_all add: ParsePY_def)

text \<open>
  C3: When the text is empty, \<open>ParsePY\<close> reads in front of it, which is the result \<open>None\<close>. For every other text of
  letters and separators with at most 35 characters, \<open>ParsePY\<close> on Quanpin returns: the loop ends,
  no piece is written behind the arrays, the pieces in a row are the text with its runs of separators as one, and
  every piece has a code of two letters.
\<close>

theorem parse_py_pieces:
  assumes "py_table cfg" "mode \<noteq> 0" "py_text s" "length s \<le> 35"
    "length (strPYParsed p) = 35" "length (strMap p) = 35"
  shows "if s = [] then ParsePY cfg s p mode False = None
     else \<exists>p'. ParsePY cfg s p mode False = Some p' \<and>
       concat (take (iHZCount p') (strPYParsed p')) = squeeze False s \<and> iHZCount p' \<le> 35 \<and>
       (\<forall>i<iHZCount p'. length (strMap p' ! i) = 2)"
proof (cases "s = []")
  case False
  then show ?thesis using parse_text [OF assms(1,2,3) _ assms(4,5,6)] by auto
qed (simp add: parse_empty)

text \<open>The standard configuration, without fuzzy sounds.\<close>

definition plain_py :: pyconfig where
  "plain_py = InitPYTable \<lparr> spscheme = SP_ZIRANMA, bFullPY = False, bPYCreateAuto = False, bPYSaveAutoAsPhrase = False,
     bFixCursorAtHead = False, bUseVForQuickPhrase = False, baseOrder = AD_FAST, phraseOrder = AD_FAST, freqOrder = AD_FAST,
     MHPY_C = InitMHPY MHPY_C_TEMPLATE, MHPY_S = InitMHPY MHPY_S_TEMPLATE, bMisstypeNGGN = False, PYTable = [], cNonS = 0x6f,
     SPMap_C = SPMap_C_Ziranma, SPMap_S = SPMap_S_Ziranma, splitData = [] \<rparr>"

lemma plain_py_table: "py_table plain_py"
  by (simp add: py_table_def plain_py_def InitPYTable_def)

lemma parse_py_pieces_witness:
  "\<exists>p'. ParsePY plain_py (ascii ''xi'' @ [0x27, 0x27] @ ascii ''an'') parse_buffer PY_PARSE_INPUT_USER False = Some p' \<and>
     concat (take (iHZCount p') (strPYParsed p')) = ascii ''xi'' @ [0x27] @ ascii ''an''"
proof -
  let ?s = "ascii ''xi'' @ [0x27, 0x27] @ ascii ''an''"
  have "py_text ?s" by (simp add: py_text_def PY_SEPARATOR_def ascii_def)
  moreover have "squeeze False ?s = ascii ''xi'' @ [0x27] @ ascii ''an''"
    by (simp add: PY_SEPARATOR_def ascii_def with_sep_def)
  ultimately show ?thesis
    using parse_py_pieces [OF plain_py_table, of PY_PARSE_INPUT_USER ?s parse_buffer]
    by (auto simp: PY_PARSE_INPUT_USER_def parse_buffer_def ascii_def)
qed

lemma map_py_roundtrip_witness:
  "\<exists>x y. MapPY plain_py (ascii ''zuo'') [None, None, None] PY_PARSE_INPUT_SYSTEM = Some (True, [Some x, Some y, Some 0]) \<and>
     MapToPY x y = Some (ascii ''zuo'')"
proof -
  have "FindPYFAIndex plain_py (ascii ''zuo'') False = Some 0"
    by (simp add: FindPYFAIndex_def plain_py_def InitPYTable_def PYTable_template_def PYTable_template_1_def matches_def
        ascii_def pointer_on_def)
  moreover have "fix_gn plain_py (ascii ''zuo'') = ascii ''zuo''"
    by (simp add: fix_gn_def plain_py_def InitPYTable_def)
  moreover have "ascii ''zuo'' \<noteq> ascii ''eng''" by (simp add: ascii_def)
  ultimately show ?thesis
    using map_py_roundtrip [OF plain_py_table, of "ascii ''zuo''" 0 "[None, None, None]"] by auto
qed

section \<open>Faults\<close>

text \<open>
  \<open>a\<close> and a rest that is no final: the code of the initial is taken out of the table of finals, behind its end.
\<close>

lemma map_py_beyond: "MapPY plain_py (ascii ''aa'') m mode = None"
proof -
  have "IsSyllabary [0x61, 0x61] False = None" "IsConsonant [0x61, 0x61] False = None"
    by (simp_all add: IsSyllabary_def IsConsonant_def matches_def syll_bytes cons_bytes)
  moreover have "fix_gn plain_py [0x61, 0x61] = [0x61, 0x61]" by (simp add: fix_gn_def)
  ultimately show ?thesis
    by (simp add: MapPY_def ascii_def map_whole_def rd_def initial_index code_at_def lens Let_def)
qed

text \<open>The layout of Xiaohe has one entry less than are copied.\<close>

lemma xiaohe_overrun: "spscheme cfg = SP_XIAOHE \<Longrightarrow> LoadSPData fp (cfg, b) = None"
  by (simp add: LoadSPData_def copy_layout_def SPMap_C_XIAOHE_def)

text \<open>A long name in the layout of the user overflows the array of five bytes it is copied to.\<close>

lemma sp_name_overflow: "c \<noteq> 0x3d \<Longrightarrow> 0x3d \<notin> set s \<Longrightarrow> length s \<ge> 4 \<Longrightarrow> sp_entry (c # s @ 0x3d # t) cfg = None"
proof -
  assume a: "c \<noteq> 0x3d" "0x3d \<notin> set s" "length s \<ge> 4"
  have "strcspn ((c # s) @ 0x3d # t) [0x3d] = length (c # s)" using a by (auto simp: strcspn_def takeWhile_append)
  then show ?thesis using a by (simp add: sp_entry_def rd_def Let_def)
qed

text \<open>The initial of \<open>x\<close> has the code \<open>D\<close>; the test for the initials whose \<open>u\<close> may be \<open>v\<close> asks for \<open>X\<close>.\<close>

lemma x_not_jqxy:
  "\<exists>c. table_py syllabaryMapTable c = Some (ascii ''x'') \<and> \<not> IsJ_Q_X_Y c"
  by (rule exI [of _ "0x44"]) (simp add: initial_py IsJ_Q_X_Y_def ascii_def)

text \<open>In Shuangpin two vowels that are no Pinyin reach that place: the key \<open>a\<close> twice in the layout of Ziranma.\<close>

lemma find_parts: "py_table cfg \<Longrightarrow> py_parts (fix_gn cfg py) = None \<Longrightarrow> FindPYFAIndex cfg py False = None"
proof (rule ccontr)
  assume t: "py_table cfg" and n: "py_parts (fix_gn cfg py) = None" and "FindPYFAIndex cfg py False \<noteq> None"
  then obtain i where i: "FindPYFAIndex cfg py False = Some i" by auto
  from find_code [OF t i refl] obtain a b where "py_parts (fix_gn cfg (PYTable_str cfg i)) = Some (a, b)"
    "matches py False (PYTable_str cfg i)" by metis
  then show False using n by (simp add: matches_def)
qed

lemma sp_parse_fault: "ParsePY plain_py (ascii ''aa'') p mode True = None"
proof -
  have none: "IsSyllabary [0x61, 0x61] False = None" "IsConsonant [0x61, 0x61] False = None"
    by (simp_all add: IsSyllabary_def IsConsonant_def matches_def syll_bytes cons_bytes)
  then have "py_parts [0x61, 0x61] = None" by (simp add: py_parts_def map_whole_def rd_def initial_index code_at_def lens)
  then have find: "FindPYFAIndex plain_py [0x61, 0x61] False = None"
    by (intro find_parts [OF plain_py_table]) (simp add: fix_gn_def)
  have "sp_index (\<lambda>e. snd e = 0x61) (SPMap_S plain_py) 0 = Some None" "cNonS plain_py = 0x6f"
    "sp_index (\<lambda>e. snd e = 0x61) (SPMap_C plain_py) 0 = Some None"
    by (simp_all add: plain_py_def InitPYTable_def SPMap_S_Ziranma_def SPMap_C_Ziranma_def ascii_def)
  then have "GetSPIndexJP_S plain_py 0x61 = Some None" "GetSPIndexJP_C plain_py 0x61 0 = Some None"
    "xiaohe_nonS plain_py 0x61 0x61 = Some False" "cNonS plain_py = 0x6f"
    by (simp_all add: GetSPIndexJP_S_def GetSPIndexJP_C_def xiaohe_nonS_def)
  moreover have "key_finals plain_py 0x61 0 32 = Some []"
    using calculation(2) key_finals.simps(2) [of plain_py "0x61" 0 31] by (simp add: eval_nat_numeral(2,3) del: key_finals.simps)
  ultimately have "SP2QP plain_py [0x61, 0x61] = Some [0x61, 0x61]"
    using find by (simp add: SP2QP_def rd_def sp_pass_def cat7_def)
  then have "sp_round plain_py mode ([0x61, 0x61], q, m) = None" for q m
    using map_py_beyond [of m mode] by (simp add: sp_round_def ascii_def)
  then have "sp_loop (Suc (Suc 0)) plain_py mode ([0x61, 0x61], q, m) = None" for q m by (simp del: One_nat_def)
  then show ?thesis by (simp add: ParsePY_def ascii_def numeral_2_eq_2)
qed

section \<open>Shuangpin\<close>

text \<open>A layout that ends within its array, with initials of up to two letters and finals of up to four.\<close>

definition layout_ok :: "pyconfig \<Rightarrow> bool" where
  "layout_ok cfg \<longleftrightarrow> length (SPMap_C cfg) \<le> 31 \<and> [] \<in> fst ` set (SPMap_C cfg) \<and> [] \<in> fst ` set (SPMap_S cfg) \<and>
     (\<forall>e\<in>set (SPMap_C cfg). length (fst e) \<le> 4) \<and> (\<forall>e\<in>set (SPMap_S cfg). length (fst e) \<le> 2)"

lemma sp_index_total:
  "[] \<in> fst ` set t \<Longrightarrow> \<exists>r. sp_index P t i = Some r \<and> (\<forall>j. r = Some j \<longrightarrow> i \<le> j \<and> j - i < length t \<and> fst (t ! (j - i)) \<noteq> [] \<and>
     [] \<in> fst ` set (drop (Suc j - i) t))"
proof (induction t arbitrary: i)
  case (Cons e t)
  show ?case
  proof (cases "fst e = [] \<or> P e")
    case True
    then show ?thesis using Cons.prems by auto
  next
    case False
    then have "[] \<in> fst ` set t" using Cons.prems by auto
    from Cons.IH [OF this, of "Suc i"] obtain r where r: "sp_index P t (Suc i) = Some r"
      "\<And>j. r = Some j \<Longrightarrow> Suc i \<le> j \<and> j - Suc i < length t \<and> fst (t ! (j - Suc i)) \<noteq> [] \<and>
        [] \<in> fst ` set (drop (Suc j - Suc i) t)" by blast
    have "i \<le> j \<and> j - i < length (e # t) \<and> fst ((e # t) ! (j - i)) \<noteq> [] \<and> [] \<in> fst ` set (drop (Suc j - i) (e # t))"
      if "r = Some j" for j
    proof -
      have "j - i = Suc (j - Suc i)" "Suc j - i = Suc (Suc j - Suc i)" using r(2) [OF that] by auto
      then show ?thesis using r(2) [OF that] by simp
    qed
    then show ?thesis using r(1) False by auto
  qed
qed simp

lemma key_finals_total:
  assumes "length (SPMap_C cfg) \<le> 31"
  shows "[] \<in> fst ` set (drop i (SPMap_C cfg)) \<Longrightarrow> length (SPMap_C cfg) - i < n \<Longrightarrow>
    \<exists>is. key_finals cfg c i n = Some is \<and> (\<forall>k\<in>set is. k < length (SPMap_C cfg) \<and> fst (SPMap_C cfg ! k) \<noteq> [])"
proof (induction n arbitrary: i)
  case (Suc n)
  from sp_index_total [OF Suc.prems(1), of "\<lambda>e. snd e = c" i] obtain r where r: "GetSPIndexJP_C cfg c i = Some r"
    "\<And>j. r = Some j \<Longrightarrow> i \<le> j \<and> j - i < length (drop i (SPMap_C cfg)) \<and> fst (drop i (SPMap_C cfg) ! (j - i)) \<noteq> [] \<and>
      [] \<in> fst ` set (drop (Suc j - i) (drop i (SPMap_C cfg)))" unfolding GetSPIndexJP_C_def by blast
  show ?case
  proof (cases r)
    case None
    then show ?thesis using r(1) by simp
  next
    case (Some j)
    with r(2) have j: "i \<le> j" "j < length (SPMap_C cfg)" "fst (SPMap_C cfg ! j) \<noteq> []"
      "[] \<in> fst ` set (drop (Suc j) (SPMap_C cfg))" by (auto simp: less_diff_conv)
    have "length (SPMap_C cfg) - Suc j < n" using j Suc.prems(2) by simp
    from Suc.IH [OF j(4) this] show ?thesis using r(1) Some j(2,3) by auto
  qed
qed simp

lemma try_finals_total:
  assumes "\<forall>k\<in>set is. k < length (SPMap_C cfg) \<and> fst (SPMap_C cfg ! k) \<noteq> []"
    "\<forall>e\<in>set (SPMap_C cfg). length (fst e) \<le> 4" "length q \<le> 2"
  shows "\<exists>q' f. try_finals cfg check a b q is = Some (q', f) \<and> q' \<noteq> [] \<and> length q' \<le> 6"
  using assms(1)
proof (induction "is")
  case Nil
  show ?case using assms(3) by (intro exI [of _ "q @ [b]"] exI [of _ False]) (simp add: cat7_def)
next
  case (Cons i "is")
  then have "length (fst (SPMap_C cfg ! i)) \<le> 4" "fst (SPMap_C cfg ! i) \<noteq> []" using assms(2) by auto
  then show ?case using Cons assms(3) by (auto simp: cat7_def)
qed

lemma sp_pass_total:
  assumes "layout_ok cfg"
  shows "\<exists>q f. sp_pass cfg check a b = Some (q, f) \<and> q \<noteq> [] \<and> length q \<le> 6"
proof -
  have ok: "length (SPMap_C cfg) \<le> 31" "[] \<in> fst ` set (SPMap_C cfg)" "[] \<in> fst ` set (SPMap_S cfg)"
    "\<forall>e\<in>set (SPMap_C cfg). length (fst e) \<le> 4" "\<forall>e\<in>set (SPMap_S cfg). length (fst e) \<le> 2"
    using assms by (auto simp: layout_ok_def)
  from sp_index_total [OF ok(3), of "\<lambda>e. snd e = a" 0] obtain r where r: "GetSPIndexJP_S cfg a = Some r"
    "\<And>j. r = Some j \<Longrightarrow> j < length (SPMap_S cfg) \<and> fst (SPMap_S cfg ! j) \<noteq> []" by (auto simp: GetSPIndexJP_S_def)
  let ?q = "if a \<noteq> cNonS cfg \<and> \<not> check then case r of None \<Rightarrow> [a] | Some i \<Rightarrow> fst (SPMap_S cfg ! i)
      else if b = 0 then [a] else []"
  have q: "length ?q \<le> 2" "b = 0 \<Longrightarrow> ?q \<noteq> []" using r(2) ok(5) by (auto split: option.split)
  from key_finals_total [OF ok(1), of 0 32 b] ok(1,2) obtain "is" where "is": "key_finals cfg b 0 32 = Some is"
    "\<forall>k\<in>set is. k < length (SPMap_C cfg) \<and> fst (SPMap_C cfg ! k) \<noteq> []" by auto
  have pass: "sp_pass cfg check a b = (if b = 0 then Some (?q, True) else try_finals cfg check a b ?q is)"
    using r(1) "is"(1) by (simp add: sp_pass_def)
  show ?thesis unfolding pass using q try_finals_total [OF "is"(2) ok(4) q(1)] by auto
qed

text \<open>
  \<open>SP2QP\<close> turns every pair of keys (and every single key) into a text of one to six letters: with a layout
  that ends within its array the searches end, and the array of seven bytes is never overrun.
\<close>

theorem sp2qp_total:
  assumes "layout_ok cfg" "a \<noteq> 0" "sp = [a] \<or> sp = [a, b]"
  shows "\<exists>q. SP2QP cfg sp = Some q \<and> q \<noteq> [] \<and> length q \<le> 6"
proof -
  obtain c where c: "rd sp 0 = Some a" "rd sp 1 = Some c" using assms(3) by (auto simp: rd_def)
  have ok: "length (SPMap_C cfg) \<le> 31" "[] \<in> fst ` set (SPMap_C cfg)" using assms(1) by (auto simp: layout_ok_def)
  from key_finals_total [OF ok(1), of 0 32 c] ok obtain "is" where "key_finals cfg c 0 32 = Some is" by auto
  then obtain check where check: "xiaohe_nonS cfg a c = Some check"
    by (cases "xiaohe_nonS cfg a c") (auto simp: xiaohe_nonS_def split: if_splits)
  obtain q f where q: "sp_pass cfg check a c = Some (q, f)" "q \<noteq> []" "length q \<le> 6"
    using sp_pass_total [OF assms(1)] by blast
  obtain q2 f2 where q2: "sp_pass cfg False a c = Some (q2, f2)" "q2 \<noteq> []" "length q2 \<le> 6"
    using sp_pass_total [OF assms(1)] by blast
  have sp: "sp \<noteq> []" "length sp \<le> 6" using assms(3) by auto
  show ?thesis using c check q q2 sp by (auto simp: SP2QP_def)
qed

lemma sp2qp_total_witness: "\<exists>q. SP2QP plain_py [0x76, 0x68] = Some q \<and> length q \<le> 6"
proof -
  have "layout_ok plain_py"
    by (simp add: layout_ok_def plain_py_def InitPYTable_def SPMap_C_Ziranma_def SPMap_S_Ziranma_def ascii_def)
  from sp2qp_total [OF this, of "0x76" "[0x76, 0x68]" "0x68"] show ?thesis by auto
qed

end
