(* ===== verification/PyDict_Laws.thy ===== *)
theory PyDict_Laws
  imports PyDict ParsePY_Laws
begin

text \<open>
  The files of the Pinyin dictionary: the phrases of the user, the indices and the frequent characters are restored
  from what was saved, and a file of indices without entries makes loading use variables that were never set.
\<close>

section \<open>Reading what was written\<close>

lemma read_uint32 [simp]: "fcitx_utils_read_uint32 (fcitx_utils_write_uint32 v @ f) = (Some v, f)"
  by (simp add: fcitx_utils_read_uint32_def fcitx_utils_write_uint32_def read_le_bytes)

lemma read_i32_written [simp]: "read_i32 old (fcitx_utils_write_uint32 v @ f) = (Some v, f)"
  by (simp add: read_i32_def)

lemma read_uint32_end [simp]: "fcitx_utils_read_uint32 [] = (None, [])"
  by (simp add: fcitx_utils_read_uint32_def read_le_def)

lemma read_i32_end [simp]: "read_i32 old [] = (old, [])"
  by (simp add: read_i32_def)

lemma length_write_uint32 [simp]: "length (fcitx_utils_write_uint32 v) = 4"
  by (simp add: fcitx_utils_write_uint32_def)

lemma sint_small: "n < 2 ^ 31 \<Longrightarrow> sint (of_nat n :: uint32) = int n"
  by (simp add: signed_of_nat signed_take_bit_int_eq_self)

lemma sint_byte: "n < 128 \<Longrightarrow> sint (of_nat n :: byte) = int n"
  by (simp add: signed_of_nat signed_take_bit_int_eq_self)

lemma unat_small: "n < 2 ^ 31 \<Longrightarrow> unat (of_nat n :: uint32) = n"
  by (simp add: unsigned_of_nat take_bit_nat_eq_self)

lemma fread_written: "is_cstr s \<Longrightarrow> fread_str (int (length s)) (s @ f) = Some (s, f)"
  by (auto simp: fread_str_def is_cstr_def)


section \<open>The phrases of the user\<close>

definition phrase_ok :: "PyPhrase \<Rightarrow> bool" where
  "phrase_ok p \<longleftrightarrow> is_cstr (ph_strMap p) \<and> is_cstr (ph_strPhrase p) \<and>
     length (ph_strMap p) < 2 ^ 31 \<and> length (ph_strPhrase p) < 2 ^ 31"

definition base_ok :: "PyBase \<Rightarrow> bool" where
  "base_ok b \<longleftrightarrow> is_cstr (b_strHZ b) \<and> b_strHZ b \<noteq> [] \<and> length (b_strHZ b) \<le> UTF8_MAX_LENGTH \<and>
     b_iUserPhrase b = int (length (b_userPhrase b)) \<and> length (b_userPhrase b) < 2 ^ 31 \<and>
     (\<forall>p\<in>set (b_userPhrase b). phrase_ok p)"

definition pyfa_ok :: "PYFA \<Rightarrow> bool" where
  "pyfa_ok fa \<longleftrightarrow> distinct (map b_strHZ (fa_pyBase fa)) \<and> (\<forall>b\<in>set (fa_pyBase fa). base_ok b)"

definition clear_base :: "PyBase \<Rightarrow> PyBase" where
  "clear_base b = b\<lparr>b_userPhrase := [], b_iUserPhrase := 0\<rparr>"

definition clear_pyfa :: "PYFA \<Rightarrow> PYFA" where
  "clear_pyfa fa = fa\<lparr>fa_pyBase := map clear_base (fa_pyBase fa)\<rparr>"

definition count_up :: "PyPhrase list \<Rightarrow> uint32 \<Rightarrow> uint32" where
  "count_up ps c = fold (\<lambda>p c. max c (ph_iIndex p)) ps c"

lemma read_phrase_written:
  "phrase_ok p \<Longrightarrow> read_phrase False iLen (phrase_bytes p @ f) = Some (p, Some (ph_iHit p), f)"
  by (cases p) (simp add: read_phrase_def phrase_bytes_def phrase_ok_def sint_small fread_written)

lemma read_phrases_written:
  "\<forall>p\<in>set ps. phrase_ok p \<Longrightarrow>
    \<exists>iLen'. read_phrases False (length ps) c iLen (concat (map phrase_bytes ps) @ f) = Some (ps, count_up ps c, iLen', f)"
proof (induction ps arbitrary: c iLen)
  case (Cons p ps)
  from Cons.IH [of "max c (ph_iIndex p)" "Some (ph_iHit p)"] Cons.prems obtain iLen' where
    "read_phrases False (length ps) (max c (ph_iIndex p)) (Some (ph_iHit p)) (concat (map phrase_bytes ps) @ f) =
      Some (ps, count_up ps (max c (ph_iIndex p)), iLen', f)" by auto
  then show ?case using Cons.prems by (simp add: read_phrase_written count_up_def)
qed (simp add: count_up_def)

text \<open>A dictionary and a counter in a state.\<close>

definition put_dict :: "PYFA list \<Rightarrow> uint32 \<Rightarrow> pystate \<Rightarrow> pystate" where
  "put_dict fas c st = st\<lparr>PYFAList := fas, iCounter := c\<rparr>"

lemma put_dict_simps [simp]:
  "PYFAList (put_dict fas c st) = fas" "iCounter (put_dict fas c st) = c"
  "put_dict fas c (put_dict fas' c' st) = put_dict fas c st"
  by (simp_all add: put_dict_def)

lemma base_index_middle:
  "b_strHZ b \<notin> b_strHZ ` set ds \<Longrightarrow> base_index (b_strHZ b) (ds @ b # bs) k = Some (k + length ds)"
  by (induction ds arbitrary: k) auto

lemma phrase_section_written:
  assumes "base_ok b" "b_userPhrase b \<noteq> []" "b_strHZ b \<notin> b_strHZ ` set ds" "length xs < 2 ^ 31"
    "base_bytes (length xs) b = Some bytes"
  shows "\<exists>iLen'. phrase_section False strip (put_dict (xs @ fa\<lparr>fa_pyBase := ds @ clear_base b # bs\<rparr> # ys) c st, iLen, bytes @ f) =
    Some (True, put_dict (xs @ fa\<lparr>fa_pyBase := ds @ b # bs\<rparr> # ys) (count_up (b_userPhrase b) c) st, iLen', f)"
proof -
  let ?st = "put_dict (xs @ fa\<lparr>fa_pyBase := ds @ clear_base b # bs\<rparr> # ys) c st"
  have ok: "is_cstr (b_strHZ b)" "b_strHZ b \<noteq> []" "length (b_strHZ b) \<le> 6" "b_iUserPhrase b = int (length (b_userPhrase b))"
    "length (b_userPhrase b) < 2 ^ 31" "\<forall>p\<in>set (b_userPhrase b). phrase_ok p"
    using assms(1) by (auto simp: base_ok_def UTF8_MAX_LENGTH_def)
  have bytes: "bytes = fcitx_utils_write_uint32 (of_nat (length xs)) @ [of_nat (length (b_strHZ b))] @ b_strHZ b @
      fcitx_utils_write_uint32 (of_nat (length (b_userPhrase b))) @ concat (map phrase_bytes (b_userPhrase b))"
    using assms(2,5) ok(4) by (simp add: base_bytes_def take_exact_def)
  have name: "b_strHZ (clear_base b) = b_strHZ b" by (simp add: clear_base_def)
  have "GetBaseIndex ?st (int (length xs)) (b_strHZ b) = Some (Some (length ds))"
    using base_index_middle [of "clear_base b" ds bs 0] assms(3) by (simp add: GetBaseIndex_def name)
  moreover have "fread_str (int (length (b_strHZ b))) (b_strHZ b @ g) = Some (b_strHZ b, g)" for g
    by (rule fread_written [OF ok(1)])
  ultimately have head: "phrase_head ?st (bytes @ f) =
      Some (Some (length xs, length ds, of_nat (length (b_userPhrase b))), concat (map phrase_bytes (b_userPhrase b)) @ f)"
    using ok(2,3) assms(4) sint_byte [of "length (b_strHZ b)"]
    by (simp add: phrase_head_def bytes sint_small unat_small UTF8_MAX_LENGTH_def)
  from read_phrases_written [OF ok(6)] obtain iLen' where
    "read_phrases False (length (b_userPhrase b)) c iLen (concat (map phrase_bytes (b_userPhrase b)) @ f) =
      Some (b_userPhrase b, count_up (b_userPhrase b) c, iLen', f)" by blast
  moreover have "upd_base (length xs) (length ds) (\<lambda>x. x\<lparr>b_userPhrase := b_userPhrase b @ b_userPhrase x,
      b_iUserPhrase := int (length (b_userPhrase b))\<rparr>) ?st =
    put_dict (xs @ fa\<lparr>fa_pyBase := ds @ b # bs\<rparr> # ys) c st"
    using ok(4) by (cases b) (simp add: upd_base_def put_dict_def clear_base_def nth_append)
  ultimately show ?thesis using head ok(5)
    by (simp add: phrase_section_def sint_small Let_def put_dict_def)
qed

lemma base_bytes_ok: "b_iUserPhrase b = int (length (b_userPhrase b)) \<Longrightarrow> base_bytes i b \<noteq> None"
  by (simp add: base_bytes_def take_exact_def)

lemma clear_base_empty: "base_ok b \<Longrightarrow> b_userPhrase b = [] \<Longrightarrow> clear_base b = b"
  by (cases b) (simp add: clear_base_def base_ok_def)

lemma bases_written:
  assumes "\<forall>b\<in>set ts. base_ok b" "distinct (map b_strHZ (ds @ ts))" "length xs < 2 ^ 31"
    "bases_bytes (length xs) ts = Some bytes" "length (bytes @ f) < n"
  shows "\<exists>n' iLen'. length f < n' \<and>
    phrase_sections n False strip (put_dict (xs @ fa\<lparr>fa_pyBase := ds @ map clear_base ts\<rparr> # ys) c st, iLen, bytes @ f) =
    phrase_sections n' False strip (put_dict (xs @ fa\<lparr>fa_pyBase := ds @ ts\<rparr> # ys)
      (count_up (concat (map b_userPhrase ts)) c) st, iLen', f)"
  using assms(1,2,4,5)
proof (induction ts arbitrary: ds c iLen bytes n)
  case Nil
  then show ?case by (intro exI [of _ n] exI [of _ iLen]) (simp add: count_up_def)
next
  case (Cons b ts)
  from Cons.prems(3) obtain x y where xy: "base_bytes (length xs) b = Some x" "bases_bytes (length xs) ts = Some y"
    "bytes = x @ y" by (auto simp: bind_eq_Some_conv)
  have ds: "distinct (map b_strHZ ((ds @ [b]) @ ts))" using Cons.prems(2) by simp
  show ?case
  proof (cases "b_userPhrase b = []")
    case True
    then have "x = []" using xy(1) Cons.prems(1) by (simp add: base_bytes_def base_ok_def)
    with Cons.IH [of "ds @ [b]" y n c iLen] Cons.prems(1,4) ds xy True clear_base_empty [of b] show ?thesis by simp
  next
    case False
    obtain m where n: "n = Suc m" using Cons.prems(4) by (cases n) auto
    from phrase_section_written [of b ds xs x strip "map clear_base ts" fa ys c st iLen "y @ f"] Cons.prems(1,2) assms(3) False xy(1)
    obtain iLen' where sec: "phrase_section False strip
        (put_dict (xs @ fa\<lparr>fa_pyBase := ds @ clear_base b # map clear_base ts\<rparr> # ys) c st, iLen, x @ y @ f) =
      Some (True, put_dict (xs @ fa\<lparr>fa_pyBase := ds @ b # map clear_base ts\<rparr> # ys) (count_up (b_userPhrase b) c) st, iLen', y @ f)"
      by auto
    have "x \<noteq> []" using xy(1) False Cons.prems(1) by (auto simp: base_bytes_def base_ok_def bind_eq_Some_conv)
    then have "length (y @ f) < m" using Cons.prems(4) xy(3) n by (cases x) auto
    from Cons.IH [OF _ ds xy(2) this, of "count_up (b_userPhrase b) c" iLen'] Cons.prems(1) obtain n' iLen'' where
      "length f < n'" "phrase_sections m False strip (put_dict (xs @ fa\<lparr>fa_pyBase := (ds @ [b]) @ map clear_base ts\<rparr> # ys)
          (count_up (b_userPhrase b) c) st, iLen', y @ f) =
        phrase_sections n' False strip (put_dict (xs @ fa\<lparr>fa_pyBase := (ds @ [b]) @ ts\<rparr> # ys)
          (count_up (concat (map b_userPhrase ts)) (count_up (b_userPhrase b) c)) st, iLen'', f)" by auto
    then show ?thesis by (intro exI [of _ n'] exI [of _ iLen'']) (simp add: n sec xy(3) count_up_def)
  qed
qed

lemma bases_bytes_ok: "\<forall>b\<in>set bs. b_iUserPhrase b = int (length (b_userPhrase b)) \<Longrightarrow> bases_bytes i bs \<noteq> None"
proof (induction bs)
  case (Cons b bs)
  then show ?case using base_bytes_ok [of b i] by auto
qed simp

lemma pyfas_bytes_ok:
  "\<forall>fa\<in>set fas. \<forall>b\<in>set (fa_pyBase fa). b_iUserPhrase b = int (length (b_userPhrase b)) \<Longrightarrow> pyfas_bytes i fas \<noteq> None"
proof (induction fas arbitrary: i)
  case (Cons fa fas)
  then have "bases_bytes i (fa_pyBase fa) \<noteq> None" "pyfas_bytes (Suc i) fas \<noteq> None"
    using bases_bytes_ok by auto
  then obtain x y where "bases_bytes i (fa_pyBase fa) = Some x" "pyfas_bytes (Suc i) fas = Some y" by auto
  then show ?case by simp
qed simp

definition user_phrases :: "PYFA list \<Rightarrow> PyPhrase list" where
  "user_phrases fas = concat (map (\<lambda>fa. concat (map b_userPhrase (fa_pyBase fa))) fas)"

lemma pyfas_written:
  assumes "\<forall>fa\<in>set ys. pyfa_ok fa" "length (xs @ ys) \<le> 2 ^ 31" "pyfas_bytes (length xs) ys = Some bytes" "length bytes < n"
  shows "\<exists>n' iLen'. 0 < n' \<and>
    phrase_sections n False strip (put_dict (xs @ map clear_pyfa ys) c st, iLen, bytes) =
    phrase_sections n' False strip (put_dict (xs @ ys) (count_up (user_phrases ys) c) st, iLen', [])"
  using assms
proof (induction ys arbitrary: xs c iLen bytes n)
  case Nil
  then show ?case by (intro exI [of _ n] exI [of _ iLen]) (simp add: count_up_def user_phrases_def)
next
  case (Cons fa ys)
  from Cons.prems(3) obtain x y where xy: "bases_bytes (length xs) (fa_pyBase fa) = Some x"
    "pyfas_bytes (Suc (length xs)) ys = Some y" "bytes = x @ y" by (auto simp: bind_eq_Some_conv)
  have fa: "\<forall>b\<in>set (fa_pyBase fa). base_ok b" "distinct (map b_strHZ ([] @ fa_pyBase fa))"
    using Cons.prems(1) by (auto simp: pyfa_ok_def)
  from bases_written [OF fa, of xs x y n strip fa "map clear_pyfa ys" c st iLen] xy Cons.prems(2,4) obtain m iLen' where
    m: "length y < m" "phrase_sections n False strip (put_dict (xs @ clear_pyfa fa # map clear_pyfa ys) c st, iLen, x @ y) =
      phrase_sections m False strip (put_dict ((xs @ [fa]) @ map clear_pyfa ys)
        (count_up (concat (map b_userPhrase (fa_pyBase fa))) c) st, iLen', y)" by (auto simp: clear_pyfa_def)
  from Cons.IH [of "xs @ [fa]" y m "count_up (concat (map b_userPhrase (fa_pyBase fa))) c" iLen'] Cons.prems(1,2) m(1) xy(2)
  obtain n' iLen'' where "0 < n'" "phrase_sections m False strip (put_dict ((xs @ [fa]) @ map clear_pyfa ys)
        (count_up (concat (map b_userPhrase (fa_pyBase fa))) c) st, iLen', y) =
      phrase_sections n' False strip (put_dict (xs @ fa # ys)
        (count_up (user_phrases ys) (count_up (concat (map b_userPhrase (fa_pyBase fa))) c)) st, iLen'', [])" by auto
  then show ?case
    by (intro exI [of _ n'] exI [of _ iLen'']) (simp add: m(2) xy(3) count_up_def user_phrases_def)
qed

text \<open>
  C33: The phrases of the user come back from their file. Loading what \<open>SavePYUserPhrase\<close> wrote, into a dictionary
  with the same characters and no phrases of the user, gives the saved dictionary, with every phrase in its place,
  and raises the counter to the largest index of a phrase.
\<close>

theorem user_phrases_roundtrip:
  assumes "\<forall>fa\<in>set (PYFAList st). pyfa_ok fa" "length (PYFAList st) \<le> 2 ^ 31" "py_disk st"
    "PYFAList fresh = map clear_pyfa (PYFAList st)"
  shows "\<exists>st' f. SavePYUserPhrase st = Some st' \<and> usr_file st' = Some f \<and> iNewPYPhraseCount st' = 0 \<and>
    LoadPYPhraseDict fresh f False strip =
      Some (fresh\<lparr>PYFAList := PYFAList st, iCounter := count_up (user_phrases (PYFAList st)) (iCounter fresh)\<rparr>)"
proof -
  obtain f where f: "pyfas_bytes 0 (PYFAList st) = Some f" 
    using pyfas_bytes_ok [of "PYFAList st" 0] assms(1) by (auto simp: pyfa_ok_def base_ok_def)
  from pyfas_written [of "PYFAList st" "[]" f "Suc (length f)" strip "iCounter fresh" fresh None] assms(1,2) f
  obtain n' iLen' where "0 < n'" "phrase_sections (Suc (length f)) False strip
      (put_dict (map clear_pyfa (PYFAList st)) (iCounter fresh) fresh, None, f) =
    phrase_sections n' False strip (put_dict (PYFAList st) (count_up (user_phrases (PYFAList st)) (iCounter fresh)) fresh, iLen', [])"
    by auto
  moreover have "put_dict (map clear_pyfa (PYFAList st)) (iCounter fresh) fresh = fresh"
    using assms(4) by (simp add: put_dict_def flip: assms(4))
  moreover have "phrase_sections n' False strip (s, iLen', []) = Some s" if "0 < n'" for s
    using that by (cases n') (simp_all add: phrase_section_def phrase_head_def)
  ultimately have "LoadPYPhraseDict fresh f False strip =
      Some (put_dict (PYFAList st) (count_up (user_phrases (PYFAList st)) (iCounter fresh)) fresh)"
    by (simp add: LoadPYPhraseDict_def del: phrase_sections.simps)
  then show ?thesis using f assms(3) by (simp add: SavePYUserPhrase_def put_dict_def)
qed

section \<open>The file of indices\<close>

text \<open>
  A file that holds no entry: the loop runs once, because the end of the file is only noticed by a read, and uses
  variables that were never set.
\<close>

lemma index_file_empty:
  "load_index (fcitx_utils_write_uint32 PY_INDEX_MAGIC_NUMBER @ fcitx_utils_write_uint32 c) st = None"
proof -
  have "read_i32 None (fcitx_utils_write_uint32 c) = (Some c, [])" using read_i32_written [of None c "[]"] by simp
  then show ?thesis
    by (subst load_index_def) (simp add: read_vars_def apply_index_def index_loop.simps [of _ "[]"])
qed

lemma with_index_in: "(i, x) \<in> set (with_index xs) \<Longrightarrow> x \<in> set xs"
  by (auto simp: with_index_def dest: set_zip_rightD)

text \<open>Saving writes such a file when only characters were chosen that had the largest index before.\<close>

lemma index_file_lost:
  assumes "py_disk st"
    "\<forall>fa\<in>set (PYFAList st). \<forall>b\<in>set (fa_pyBase fa). b_iIndex b \<le> iOrigCounter st \<and>
      (\<forall>p\<in>set (b_phrase b). ph_iIndex p \<le> iOrigCounter st)"
  shows "\<exists>f. index_file (SavePYIndex st) = Some f \<and> load_index f st' = None"
proof -
  have old: "\<not> iOrigCounter st < b_iIndex b" "p \<in> set (b_phrase b) \<Longrightarrow> \<not> iOrigCounter st < ph_iIndex p"
    if "fa \<in> set (PYFAList st)" "b \<in> set (fa_pyBase fa)" for fa b p using assms(2) that by (auto simp: not_less)
  have "base_records st = []" by (auto simp: base_records_def old dest!: with_index_in)
  moreover have "phrase_records st = []" by (auto simp: phrase_records_def old dest!: with_index_in)
  ultimately show ?thesis using assms(1) index_file_empty by (simp add: SavePYIndex_def)
qed

section \<open>The frequent characters\<close>

definition hz_ok :: "HZ \<Rightarrow> bool" where
  "hz_ok h \<longleftrightarrow> is_cstr (hz_strHZ h) \<and> length (hz_strHZ h) \<le> MAX_PY_PHRASE_LENGTH * UTF8_MAX_LENGTH"

definition freq_ok :: "PyFreq \<Rightarrow> bool" where
  "freq_ok f \<longleftrightarrow> is_cstr (pf_strPY f) \<and> length (pf_strPY f) \<le> 11 \<and> unat (pf_iCount f) = length (pf_HZList f) \<and>
     (\<forall>h\<in>set (pf_HZList f). hz_ok h)"

lemma freq_key_read:
  assumes "is_cstr s" "length s \<le> 11"
  shows "fread_str 11 (freq_key s @ f) = Some (s, f)"
proof -
  have key: "freq_key s = s @ replicate (11 - length s) 0" using assms(2) by (simp add: freq_key_def)
  then have "length (freq_key s) = 11" using assms(2) by simp
  moreover have "takeWhile (\<lambda>c. c \<noteq> 0) (freq_key s) = s" unfolding key
    by (subst takeWhile_append2) (use assms(1) in \<open>auto simp: is_cstr_def\<close>)
  ultimately show ?thesis by (simp add: fread_str_def)
qed

lemma read_hzs_written:
  "\<forall>h\<in>set hs. hz_ok h \<Longrightarrow> read_hzs (length hs) (concat (map hz_bytes hs) @ f) = Some (hs, f)"
proof (induction hs)
  case (Cons h hs)
  then have "length (hz_strHZ h) \<le> 60" "is_cstr (hz_strHZ h)" by (auto simp: hz_ok_def MAX_PY_PHRASE_LENGTH_def UTF8_MAX_LENGTH_def)
  then show ?case using Cons
    by (cases h) (simp add: hz_bytes_def sint_byte fread_written MAX_PY_PHRASE_LENGTH_def UTF8_MAX_LENGTH_def)
qed simp

lemma read_freqs_written:
  "\<forall>p\<in>set ps. freq_ok p \<Longrightarrow> \<exists>bs. freq_bytes ps = Some bs \<and> read_freqs (length ps) (bs @ f) = Some (ps, f)"
proof (induction ps)
  case (Cons p ps)
  then obtain bs where bs: "freq_bytes ps = Some bs" "read_freqs (length ps) (bs @ f) = Some (ps, f)" by auto
  have p: "is_cstr (pf_strPY p)" "length (pf_strPY p) \<le> 11" "unat (pf_iCount p) = length (pf_HZList p)"
    "\<forall>h\<in>set (pf_HZList p). hz_ok h" using Cons.prems by (auto simp: freq_ok_def)
  then show ?case using bs
    by (cases p) (simp add: take_exact_def freq_key_read read_hzs_written)
qed simp

text \<open>
  The frequent characters come back from their file with their Pinyin and their counters, as long as the
  Pinyin has at most eleven bytes.
\<close>

theorem freq_roundtrip:
  assumes "\<forall>p\<in>set (pyFreq st). freq_ok p" "length (pyFreq st) < 2 ^ 31" "py_disk st" "pyFreq fresh = []"
  shows "\<exists>st' f. SavePYFreq st = Some st' \<and> freq_file st' = Some f \<and> iNewFreqCount st' = 0 \<and>
    load_freq f fresh = Some (fresh\<lparr>pyFreq := pyFreq st, iPYFreqCount := of_nat (length (pyFreq st))\<rparr>)"
proof -
  from read_freqs_written [OF assms(1), of "[]"] obtain bs where
    bs: "freq_bytes (pyFreq st) = Some bs" "read_freqs (length (pyFreq st)) bs = Some (pyFreq st, [])" by auto
  have "unat (of_nat (length (pyFreq st)) :: uint32) = length (pyFreq st)" using assms(2) by (rule unat_small)
  moreover from this have "(of_nat (length (pyFreq st)) :: uint32) = 0 \<Longrightarrow> pyFreq st = []" by simp
  ultimately show ?thesis using bs assms(3,4) by (auto simp: SavePYFreq_def load_freq_def)
qed

section \<open>Adding and deleting phrases\<close>

definition counts_ok :: "pystate \<Rightarrow> bool" where
  "counts_ok st \<longleftrightarrow> (\<forall>fa\<in>set (PYFAList st). \<forall>b\<in>set (fa_pyBase fa). b_iUserPhrase b = int (length (b_userPhrase b)))"

definition in_dict :: "pystate \<Rightarrow> nat \<Rightarrow> nat \<Rightarrow> bool" where
  "in_dict st i j \<longleftrightarrow> i < length (PYFAList st) \<and> j < length (fa_pyBase (PYFAList st ! i))"

lemma counts_at: "counts_ok st \<Longrightarrow> in_dict st i j \<Longrightarrow> b_iUserPhrase (get_base st i j) = int (length (b_userPhrase (get_base st i j)))"
  unfolding counts_ok_def in_dict_def get_base_def by (meson nth_mem)

lemma upd_base_same [simp]:
  "in_dict st i j \<Longrightarrow> get_base (upd_base i j f st) i j = f (get_base st i j)"
  "in_dict (upd_base i j f st) i' j' = in_dict st i' j'"
  "length (PYFAList (upd_base i j f st)) = length (PYFAList st)"
  by (simp add: in_dict_def get_base_def upd_base_def)
    (cases "i < length (PYFAList st)"; cases "i' = i"; simp add: in_dict_def upd_base_def)+

lemma upd_base_counts:
  assumes "counts_ok st" "in_dict st i j" "b_iUserPhrase (f (get_base st i j)) = int (length (b_userPhrase (f (get_base st i j))))"
  shows "counts_ok (upd_base i j f st)"
proof -
  have "PYFAList st ! i \<in> set (PYFAList st)" using assms(2) by (simp add: in_dict_def)
  then have "\<forall>b\<in>set (fa_pyBase (PYFAList st ! i)). b_iUserPhrase b = int (length (b_userPhrase b))"
    using assms(1) unfolding counts_ok_def by blast
  then show ?thesis
    using assms by (auto simp: counts_ok_def get_base_def upd_base_def dest!: subsetD [OF set_update_subset_insert])
qed

lemma upd_base_twice:
  "in_dict st i j \<Longrightarrow> f (g (get_base st i j)) = get_base st i j \<Longrightarrow> PYFAList (upd_base i j f (upd_base i j g st)) = PYFAList st"
  by (simp add: in_dict_def get_base_def upd_base_def)

lemma map_upd_nth: "i < length xs \<Longrightarrow> g x = g (xs ! i) \<Longrightarrow> map g (xs[i := x]) = map g xs"
  by (metis length_map list_update_id map_update nth_map)

lemma base_map_index_names: "map fa_strMap fas = map fa_strMap fas' \<Longrightarrow> base_map_index s fas k = base_map_index s fas' k"
proof (induction fas arbitrary: fas' k)
  case (Cons fa fas)
  then show ?case by (cases fas') auto
qed simp

lemma base_index_names: "map b_strHZ bs = map b_strHZ bs' \<Longrightarrow> base_index s bs k = base_index s bs' k"
proof (induction bs arbitrary: bs' k)
  case (Cons b bs)
  then show ?case by (cases bs') auto
qed simp

lemma upd_base_find:
  assumes "in_dict st i j" "b_strHZ (f (get_base st i j)) = b_strHZ (get_base st i j)"
  shows "GetBaseMapIndex (upd_base i j f st) s = GetBaseMapIndex st s"
    "GetBaseIndex (upd_base i j f st) i' s = GetBaseIndex st i' s"
proof -
  have "map fa_strMap (PYFAList (upd_base i j f st)) = map fa_strMap (PYFAList st)"
    using assms(1) by (simp add: upd_base_def map_upd_nth in_dict_def)
  then show "GetBaseMapIndex (upd_base i j f st) s = GetBaseMapIndex st s"
    unfolding GetBaseMapIndex_def by (rule base_map_index_names)
  have "map b_strHZ (fa_pyBase (PYFAList (upd_base i j f st) ! n)) = map b_strHZ (fa_pyBase (PYFAList st ! n))" for n
    using assms by (cases "n = i") (simp_all add: upd_base_def map_upd_nth in_dict_def get_base_def)
  then show "GetBaseIndex (upd_base i j f st) i' s = GetBaseIndex st i' s"
    using base_index_names [of "fa_pyBase (PYFAList (upd_base i j f st) ! nat i')" "fa_pyBase (PYFAList st ! nat i')" s 0]
    by (simp add: GetBaseIndex_def)
qed

lemma base_index_lt: "base_index s bs k = Some j \<Longrightarrow> k \<le> j \<and> j < k + length bs \<and> b_strHZ (bs ! (j - k)) = s"
proof (induction bs arbitrary: k)
  case (Cons b bs)
  show ?case
  proof (cases "s = b_strHZ b")
    case False
    then have j: "Suc k \<le> j \<and> j < Suc k + length bs \<and> b_strHZ (bs ! (j - Suc k)) = s"
      using Cons.IH [of "Suc k"] Cons.prems by simp
    then have "j - k = Suc (j - Suc k)" by arith
    then show ?thesis using j by simp
  qed (use Cons in auto)
qed simp

lemma find_first_whole:
  "find_first P (length xs) xs k \<noteq> None \<and> (find_first P (length xs) xs k = Some None \<longleftrightarrow> (\<forall>x\<in>set xs. \<not> P x))"
  by (induction xs arbitrary: k) auto

lemma insert_place_le: "insert_place cfg m bSP n ps = Some k \<Longrightarrow> k \<le> n \<and> k \<le> length ps"
  by (induction cfg m bSP n ps arbitrary: k rule: insert_place.induct) (auto simp: bind_eq_Some_conv split: if_splits)

lemma save_now_same:
  "save_phrases_now st = Some st' \<Longrightarrow> PYFAList st' = PYFAList st \<and> py_config st' = py_config st \<and> iCounter st' = iCounter st \<and> py_bSP st' = py_bSP st"
  by (auto simp: save_phrases_now_def SavePYUserPhrase_def Let_def bind_eq_Some_conv split: if_splits)

lemma save_now_total: "counts_ok st \<Longrightarrow> \<exists>st'. save_phrases_now st = Some st'"
  using pyfas_bytes_ok [of "PYFAList st" 0]
  by (auto simp: counts_ok_def save_phrases_now_def SavePYUserPhrase_def Let_def)

lemma same_dict:
  assumes "PYFAList st' = PYFAList st"
  shows "GetBaseMapIndex st' s = GetBaseMapIndex st s" "GetBaseIndex st' n s = GetBaseIndex st n s"
    "get_base st' i j = get_base st i j" "counts_ok st' = counts_ok st" "in_dict st' i j = in_dict st i j"
    "PYFAList (upd_base i j f st') = PYFAList (upd_base i j f st)"
  using assms by (simp_all add: GetBaseMapIndex_def GetBaseIndex_def get_base_def counts_ok_def in_dict_def upd_base_def)

text \<open>How a phrase is found, and what is done with a new one.\<close>

lemma add_phrase_new:
  assumes "PYAddUserPhrase st phrase m inc = Some (True, st')"
  obtains n code i clen j k where "fcitx_utf8_strlen phrase = Some n" "\<not> n < 2" "first_code m = Some code"
    "GetBaseMapIndex st code = Some i" "fcitx_utf8_char_len phrase 0 = Some clen"
    "GetBaseIndex st (int i) (take clen phrase) = Some (Some j)"
    "insert_place (py_config st) (drop 2 m) (py_bSP st) (nat (b_iUserPhrase (get_base st i j))) (b_userPhrase (get_base st i j)) = Some k"
    "save_phrases_now ((upd_base i j (\<lambda>b. b\<lparr>b_userPhrase := insert_at k (new_phrase (drop 2 m) (drop clen phrase) (iCounter st + 1))
       (b_userPhrase b), b_iUserPhrase := b_iUserPhrase b + 1\<rparr>) st)\<lparr>iCounter := iCounter st + 1\<rparr>) = Some st'"
  using assms that unfolding PYAddUserPhrase_def add_new_phrase_def Let_def
  by (auto simp: bind_eq_Some_conv split: if_splits option.splits)

lemma GetBaseIndex_in: "GetBaseIndex st (int i) s = Some (Some j) \<Longrightarrow> in_dict st i j"
  using base_index_lt [of s "fa_pyBase (PYFAList st ! i)" 0 j] by (auto simp: GetBaseIndex_def in_dict_def split: if_splits)

lemma set_insert_at: "k \<le> length xs \<Longrightarrow> set (insert_at k x xs) = insert x (set xs)"
  unfolding insert_at_def by (simp, metis append_take_drop_id set_append)

lemma del_insert_at: "k \<le> length xs \<Longrightarrow> take k (insert_at k x xs) @ drop (Suc k) (insert_at k x xs) = xs"
  by (simp add: insert_at_def)

text \<open>
  C34: A phrase that \<open>PYAddUserPhrase\<close> takes as new is known from then on: adding it again changes nothing but its
  counters. The lists and their counts still agree, and deleting the new phrase gives the dictionary from before.
\<close>

theorem add_user_phrase:
  assumes "counts_ok st" "PYAddUserPhrase st phrase m inc = Some (True, st')"
  shows "counts_ok st' \<and> (\<exists>st''. PYAddUserPhrase st' phrase m inc' = Some (False, st'')) \<and>
    (\<exists>i j k st''. in_dict st i j \<and> PYDelUserPhrase st' i j k = Some st'' \<and> PYFAList st'' = PYFAList st)"
proof -
  from assms(2) obtain n code i clen j k where a: "fcitx_utf8_strlen phrase = Some n" "\<not> n < 2" "first_code m = Some code"
    "GetBaseMapIndex st code = Some i" "fcitx_utf8_char_len phrase 0 = Some clen"
    "GetBaseIndex st (int i) (take clen phrase) = Some (Some j)"
    "insert_place (py_config st) (drop 2 m) (py_bSP st) (nat (b_iUserPhrase (get_base st i j))) (b_userPhrase (get_base st i j)) = Some k"
    and sv: "save_phrases_now ((upd_base i j (\<lambda>b. b\<lparr>b_userPhrase := insert_at k (new_phrase (drop 2 m) (drop clen phrase) (iCounter st + 1))
       (b_userPhrase b), b_iUserPhrase := b_iUserPhrase b + 1\<rparr>) st)\<lparr>iCounter := iCounter st + 1\<rparr>) = Some st'"
    by (rule add_phrase_new)
  define p where "p = new_phrase (drop 2 m) (drop clen phrase) (iCounter st + 1)"
  define f where "f = (\<lambda>b :: PyBase. b\<lparr>b_userPhrase := insert_at k p (b_userPhrase b), b_iUserPhrase := b_iUserPhrase b + 1\<rparr>)"
  let ?b = "get_base st i j"
  have ind: "in_dict st i j" using a(6) by (rule GetBaseIndex_in)
  have count: "b_iUserPhrase ?b = int (length (b_userPhrase ?b))" using counts_at [OF assms(1) ind] .
  have k: "k \<le> length (b_userPhrase ?b)" using insert_place_le [OF a(7)] by simp
  have dict: "PYFAList st' = PYFAList (upd_base i j f st)" using save_now_same [OF sv] by (simp add: f_def p_def)
  have base: "get_base st' i j = f ?b" using dict ind by (simp add: same_dict(3) [OF dict])
  have count': "b_iUserPhrase (f ?b) = int (length (b_userPhrase (f ?b)))" using count k by (simp add: f_def insert_at_def)
  have ok: "counts_ok st'" using upd_base_counts [of st i j f] assms(1) ind count' by (simp add: same_dict(4) [OF dict])
  have "is_phrase (drop 2 m) (drop clen phrase) p" by (simp add: p_def new_phrase_def is_phrase_def)
  then have "find_first (is_phrase (drop 2 m) (drop clen phrase)) (length (b_userPhrase (f ?b))) (b_userPhrase (f ?b)) 0 \<noteq> Some None"
    using find_first_whole [of "is_phrase (drop 2 m) (drop clen phrase)" "b_userPhrase (f ?b)" 0] k
    by (auto simp: f_def set_insert_at)
  then obtain q where q: "find_first (is_phrase (drop 2 m) (drop clen phrase)) (length (b_userPhrase (f ?b))) (b_userPhrase (f ?b)) 0 = Some (Some q)"
    using find_first_whole [of "is_phrase (drop 2 m) (drop clen phrase)" "b_userPhrase (f ?b)" 0] by auto
  have name: "b_strHZ (f ?b) = b_strHZ ?b" by (simp add: f_def)
  have again: "\<exists>st''. PYAddUserPhrase st' phrase m inc' = Some (False, st'')"
    using a(1-6) q by (simp add: PYAddUserPhrase_def same_dict(1,2) [OF dict] upd_base_find [of st i j f, OF ind name] base count' Let_def)
  define g where "g = (\<lambda>b :: PyBase. b\<lparr>b_userPhrase := take k (b_userPhrase b) @ drop (Suc k) (b_userPhrase b), b_iUserPhrase := b_iUserPhrase b - 1\<rparr>)"
  have undo: "g (f ?b) = ?b" by (simp add: f_def g_def del_insert_at [OF k])
  have ind': "in_dict st' i j" using ind by (simp add: same_dict(5) [OF dict])
  have "PYFAList (upd_base i j g st') = PYFAList st"
    using upd_base_twice [of st i j g f] ind undo by (simp add: same_dict(6) [OF dict])
  moreover have "counts_ok (upd_base i j g st')" using assms(1) by (simp add: same_dict(4) [OF calculation])
  moreover have "PYDelUserPhrase st' i j k = save_phrases_now (upd_base i j g st')"
    using ind' k by (simp add: PYDelUserPhrase_def in_dict_def base [unfolded get_base_def] get_base_def g_def f_def insert_at_def)
  ultimately obtain st'' where "PYDelUserPhrase st' i j k = Some st''" "PYFAList st'' = PYFAList st"
    using save_now_total save_now_same by metis
  then show ?thesis using ok again ind by blast
qed

section \<open>A small dictionary\<close>

definition sample_phrase :: PyPhrase where
  "sample_phrase = \<lparr> ph_strPhrase = ascii ''y'', ph_strMap = ascii ''IB'', ph_iIndex = 7, ph_iHit = 2 \<rparr>"

definition sample_py :: pystate where
  "sample_py = \<lparr> py_config = plain_py,
     PYFAList = [\<lparr> fa_strMap = ascii ''JA'', fa_pyBase = [\<lparr> b_strHZ = ascii ''x'', b_phrase = [], b_userPhrase = [sample_phrase],
       b_iUserPhrase = 1, b_iIndex = 3, b_iHit = 0 \<rparr>] \<rparr>],
     iCounter = 7, iOrigCounter = 3, bPYBaseDictLoaded = True, bPYOtherDictLoaded = True,
     pyFreq = [\<lparr> pf_HZList = [\<lparr> hz_strHZ = ascii ''x'', hz_iPYFA = 0, hz_iHit = 4, hz_iIndex = 5 \<rparr>], pf_strPY = ascii ''a'',
       pf_iCount = 1 \<rparr>], iPYFreqCount = 1,
     strFindString = [], findTail = replicate 301 0, findMap = parse_buffer, iPYInsertPoint = 0, strPYRemindSource = [], strPYRemindMap = [],
     pySelected = [], strPYAuto = [], strPYAutoMap = [], iNewPYPhraseCount = 0, iOrderCount = 0, iNewFreqCount = 0,
     bIsPYAddFreq = False, bIsPYDelFreq = False, bIsPYDelUserPhr = False, bSP_UseSemicolon = False, py_bSP = False,
     py_disk = True, usr_file = None, index_file = None, freq_file = None \<rparr>"

lemma user_phrases_roundtrip_witness:
  "\<exists>st' f. SavePYUserPhrase sample_py = Some st' \<and> usr_file st' = Some f \<and> iNewPYPhraseCount st' = 0 \<and>
    LoadPYPhraseDict (sample_py\<lparr>PYFAList := map clear_pyfa (PYFAList sample_py)\<rparr>) f False False =
      Some (sample_py\<lparr>iCounter := 7\<rparr>)"
proof -
  have "\<forall>fa\<in>set (PYFAList sample_py). pyfa_ok fa"
    by (simp add: sample_py_def pyfa_ok_def base_ok_def sample_phrase_def phrase_ok_def is_cstr_def ascii_def UTF8_MAX_LENGTH_def)
  moreover have "count_up (user_phrases (PYFAList sample_py)) 7 = 7"
    by (simp add: sample_py_def sample_phrase_def user_phrases_def count_up_def)
  ultimately show ?thesis
    using user_phrases_roundtrip [of sample_py "sample_py\<lparr>PYFAList := map clear_pyfa (PYFAList sample_py)\<rparr>" False]
    by (simp add: sample_py_def)
qed

lemma freq_roundtrip_witness:
  "\<exists>st' f. SavePYFreq sample_py = Some st' \<and> freq_file st' = Some f \<and> iNewFreqCount st' = 0 \<and>
    load_freq f (sample_py\<lparr>pyFreq := [], iPYFreqCount := 0\<rparr>) = Some sample_py"
proof -
  have "\<forall>p\<in>set (pyFreq sample_py). freq_ok p"
    by (simp add: sample_py_def freq_ok_def hz_ok_def is_cstr_def ascii_def MAX_PY_PHRASE_LENGTH_def UTF8_MAX_LENGTH_def)
  then show ?thesis
    using freq_roundtrip [of sample_py "sample_py\<lparr>pyFreq := [], iPYFreqCount := 0\<rparr>"] by (simp add: sample_py_def)
qed

lemma add_user_phrase_witness:
  "\<exists>st'. PYAddUserPhrase sample_py (ascii ''xz'') (ascii ''JAIC'') False = Some (True, st') \<and> counts_ok st' \<and>
    (\<exists>st''. PYAddUserPhrase st' (ascii ''xz'') (ascii ''JAIC'') True = Some (False, st''))"
proof -
  have len: "fcitx_utf8_strlen [0x78, 0x7a] = Some 2" "fcitx_utf8_char_len [0x78, 0x7a] 0 = Some 1"
    by (simp_all add: fcitx_utf8_strlen_def utf8_strlen_loop.simps fcitx_utf8_get_char_def fcitx_utf8_char_len_def rd_def)
  have "CmpMap plain_py [0x49, 0x43] [0x49, 0x42] False = Some (1, 1)"
    by (simp add: CmpMap_def cmp_map.simps rd_def Cmp1Map_def IsZ_C_S_def plain_py_def InitPYTable_def InitMHPY_def
        MHPY_C_TEMPLATE_def GetMHIndex_C2_def mh_pair_def ascii_def)
  then have "insert_place plain_py [0x49, 0x43] False (Suc 0) [\<lparr> ph_strPhrase = [0x79], ph_strMap = [0x49, 0x42], ph_iIndex = 7,
      ph_iHit = 2 \<rparr>] = Some 0" by simp
  then have "\<exists>st'. PYAddUserPhrase sample_py (ascii ''xz'') (ascii ''JAIC'') False = Some (True, st')"
    by (simp add: PYAddUserPhrase_def len first_code_def ascii_def GetBaseMapIndex_def GetBaseIndex_def sample_py_def
        sample_phrase_def is_phrase_def get_base_def add_new_phrase_def Let_def save_phrases_now_def upd_base_def
        AUTOSAVE_PHRASE_COUNT_def)
  moreover have "counts_ok sample_py" by (simp add: counts_ok_def sample_py_def)
  ultimately show ?thesis using add_user_phrase [of sample_py "ascii ''xz''" "ascii ''JAIC''" False] by metis
qed

end
