(* ===== verification/PyCand_Laws.thy ===== *)
theory PyCand_Laws
  imports PyCand PyDict_Laws
begin

text \<open>
  What the candidates are: exactly the entries whose code matches, each of them once and in the order of the setting.
\<close>

section \<open>Sorting depends on the comparison of the elements only\<close>

lemma sort_inner_cong:
  "\<forall>x\<in>set b. \<forall>y\<in>set b. cmp x y = cmp' x y \<Longrightarrow> j < length b \<Longrightarrow>
    insertion_sort_inner cmp b j = insertion_sort_inner cmp' b j \<and> mset (insertion_sort_inner cmp b j) = mset b"
proof (induction cmp b j rule: insertion_sort_inner.induct)
  case (2 cmp b j)
  have m: "mset (swap_elt b j (Suc j)) = mset b" using 2(3) by (simp add: swap_elt_def mset_swap)
  then have s: "set (swap_elt b j (Suc j)) = set b" by (rule mset_eq_setD)
  have "length (swap_elt b j (Suc j)) = length b" by (simp add: swap_elt_def)
  then show ?case using 2 m s by (auto simp: nth_mem)
qed simp

lemma insertion_sort_cong:
  assumes "\<forall>x\<in>set b. \<forall>y\<in>set b. cmp x y = cmp' x y"
  shows "insertion_sort cmp b = insertion_sort cmp' b \<and> mset (insertion_sort cmp b) = mset b"
proof -
  have "foldl (insertion_sort_inner cmp) b ns = foldl (insertion_sort_inner cmp') b ns \<and>
      mset (foldl (insertion_sort_inner cmp) b ns) = mset b" if "\<forall>n\<in>set ns. n < length b" for ns
    using assms that
  proof (induction ns arbitrary: b)
    case (Cons n ns)
    from sort_inner_cong [OF Cons.prems(1), of n] Cons.prems(2)
    have 1: "insertion_sort_inner cmp b n = insertion_sort_inner cmp' b n" "mset (insertion_sort_inner cmp b n) = mset b" by auto
    have "set (insertion_sort_inner cmp b n) = set b" "length (insertion_sort_inner cmp b n) = length b"
      using 1(2) by (auto dest: mset_eq_setD mset_eq_length)
    with Cons.IH [of "insertion_sort_inner cmp b n"] Cons.prems 1 show ?case
      by (metis foldl.simps(2) list.set_intros(2))
  qed simp
  from this [of "[0..<length b]"] show ?thesis unfolding insertion_sort_def by (metis atLeastLessThan_iff set_upt)
qed

lemma msort_merge_cong:
  "\<forall>x\<in>set b. \<forall>y\<in>set b. cmp x y = cmp' x y \<Longrightarrow> ia + n_a \<le> length b \<Longrightarrow> ib + n_b \<le> length b \<Longrightarrow>
    msort_merge cmp b ia n_a ib n_b tmp = msort_merge cmp' b ia n_a ib n_b tmp"
  by (induction cmp b ia n_a ib n_b tmp rule: msort_merge.induct) (auto simp: nth_mem)

lemma msort_with_tmp_cong:
  assumes "comparator cmp'" "\<forall>x\<in>set b. \<forall>y\<in>set b. cmp x y = cmp' x y"
  shows "fcitx_msort_r_with_tmp cmp b = fcitx_msort_r_with_tmp cmp' b"
  using assms(2)
proof (induction "length b" arbitrary: b rule: less_induct)
  case less
  show ?case
  proof (cases "length b < 10")
    case True
    then show ?thesis using insertion_sort_cong [OF less.prems]
      by (subst (1 2) fcitx_msort_r_with_tmp.simps) simp
  next
    case False
    let ?h = "length b div 2"
    have "\<forall>x\<in>set (take ?h b). \<forall>y\<in>set (take ?h b). cmp x y = cmp' x y"
      "\<forall>x\<in>set (drop ?h b). \<forall>y\<in>set (drop ?h b). cmp x y = cmp' x y"
      using less.prems by (meson in_set_takeD in_set_dropD)+
    then have ih: "fcitx_msort_r_with_tmp cmp (take ?h b) = fcitx_msort_r_with_tmp cmp' (take ?h b)"
      "fcitx_msort_r_with_tmp cmp (drop ?h b) = fcitx_msort_r_with_tmp cmp' (drop ?h b)"
      using False by (auto intro!: less.hyps)
    let ?b = "fcitx_msort_r_with_tmp cmp' (take ?h b) @ fcitx_msort_r_with_tmp cmp' (drop ?h b)"
    have perm: "mset (fcitx_msort_r_with_tmp cmp' xs) = mset xs" for xs
      using comparator.msort_with_tmp_stable [OF assms(1), of xs]
      by (simp add: comparator.stable_sorted_def [OF assms(1)])
    have "mset ?b = mset (take ?h b @ drop ?h b)" by (simp only: mset_append perm)
    then have mb: "mset ?b = mset b" by simp
    have "set ?b = set b" "length ?b = length b" by (rule mset_eq_setD [OF mb], rule mset_eq_length [OF mb])
    then have "msort_merge cmp ?b 0 ?h ?h (length b - ?h) [] = msort_merge cmp' ?b 0 ?h ?h (length b - ?h) []"
      using less.prems by (intro msort_merge_cong) (auto simp del: set_append length_append)
    then show ?thesis unfolding fcitx_msort_r_with_tmp.simps [of cmp b] fcitx_msort_r_with_tmp.simps [of cmp' b]
      using False by (simp only: Let_def ih if_False)
  qed
qed

lemma msort_cong:
  assumes "comparator cmp'" "\<forall>x\<in>set b. \<forall>y\<in>set b. cmp x y = cmp' x y"
  shows "fcitx_msort_r True cmp b = fcitx_msort_r True cmp' b"
  using insertion_sort_cong [OF assms(2)] msort_with_tmp_cong [OF assms] by (simp add: fcitx_msort_r_def)

lemma msort_sorts:
  assumes "comparator cmp'" "\<forall>x\<in>set b. \<forall>y\<in>set b. cmp x y = cmp' x y"
  shows "mset (fcitx_msort_r True cmp b) = mset b" "sorted_wrt (\<lambda>x y. cmp' x y \<le> 0) (fcitx_msort_r True cmp b)"
proof -
  have "fcitx_msort_r True cmp' b = insertion_sort cmp' b"
    using comparator.stable_sorted_unique [OF assms(1) comparator.msort_with_tmp_stable comparator.insertion_sort_stable]
      assms(1) by (metis fcitx_msort_r_def)
  then show "mset (fcitx_msort_r True cmp b) = mset b" "sorted_wrt (\<lambda>x y. cmp' x y \<le> 0) (fcitx_msort_r True cmp b)"
    unfolding msort_cong [OF assms] using comparator.insertion_sort_stable [OF assms(1), of b]
    by (auto simp: comparator.stable_sorted_def [OF assms(1)])
qed

section \<open>The comparison\<close>

lemma delta_small:
  assumes "unat a < 2 ^ 31" "unat b < 2 ^ 31"
  shows "delta a b = int (unat a) - int (unat b)"
proof -
  have "a - b = of_int (int (unat a) - int (unat b))" by (simp add: of_nat_unat)
  moreover have "signed_take_bit 31 (int (unat a) - int (unat b)) = int (unat a) - int (unat b)"
  proof -
    have "unat a < 2147483648" "unat b < 2147483648" "(2 :: int) ^ 31 = 2147483648" using assms by simp_all
    then show ?thesis by (intro signed_take_bit_int_eq_self) linarith+
  qed
  ultimately show ?thesis unfolding delta_def by (simp only: signed_of_int) simp
qed

text \<open>Descending by one key, then by another.\<close>

definition by_keys :: "('a \<Rightarrow> int) \<Rightarrow> ('a \<Rightarrow> int) \<Rightarrow> ('a \<Rightarrow> int) \<Rightarrow> 'a \<Rightarrow> 'a \<Rightarrow> int" where
  "by_keys f g h x y = first_of (f y - f x) (first_of (g y - g x) (h y - h x))"

lemma by_keys_comparator: "comparator (by_keys f g h)"
  by unfold_locales (auto simp: by_keys_def first_of_def sgn_if split: if_splits)

lemma by_keys_le: "by_keys f g h x y \<le> 0 \<longleftrightarrow> f x > f y \<or> f x = f y \<and> (g x > g y \<or> g x = g y \<and> h x \<ge> h y)"
  by (auto simp: by_keys_def first_of_def)

section \<open>Which entries match\<close>

definition matching :: "pystate \<Rightarrow> buf \<Rightarrow> nat \<Rightarrow> nat \<Rightarrow> bool" where
  "matching st str i j \<longleftrightarrow> in_dict st i j \<and> Cmp2Map (py_config st) (fa_strMap (PYFAList st ! i)) str (py_bSP st) = Some 0"

lemma with_index_set: "(i, x) \<in> set (with_index xs) \<longleftrightarrow> i < length xs \<and> xs ! i = x"
  by (auto simp: with_index_def set_zip intro!: exI [of _ i])

lemma with_index_fst: "map fst (with_index xs) = [0..<length xs]"
  by (simp add: with_index_def)

lemma with_index_snd: "map snd (with_index xs) = xs"
  by (simp add: with_index_def)

lemma matching_pyfas_spec:
  "matching_pyfas cfg bSP str fas = Some r \<Longrightarrow> r = filter (\<lambda>e. Cmp2Map cfg (fa_strMap (snd e)) str bSP = Some 0) fas"
  by (induction cfg bSP str fas arbitrary: r rule: matching_pyfas.induct) (auto simp: bind_eq_Some_conv)

definition entry_at :: "pystate \<Rightarrow> nat \<times> nat \<times> PYFA \<times> PyBase \<Rightarrow> bool" where
  "entry_at st e \<longleftrightarrow> (case e of (i, j, fa, b) \<Rightarrow> fa = PYFAList st ! i \<and> b = get_base st i j)"

lemma matching_bases_spec:
  assumes "matching_bases st str = Some bs"
  shows "distinct (map (\<lambda>(i, j, fa, b). (i, j)) bs)" "\<forall>e\<in>set bs. entry_at st e"
    "(\<lambda>(i, j, fa, b). (i, j)) ` set bs = {(i, j). matching st str i j}"
proof -
  let ?P = "\<lambda>e. Cmp2Map (py_config st) (fa_strMap (snd e)) str (py_bSP st) = Some 0"
  let ?fas = "filter ?P (with_index (PYFAList st))"
  have bs: "bs = concat (map (\<lambda>(i, fa). map (\<lambda>(j, b). (i, j, fa, b)) (with_index (fa_pyBase fa))) ?fas)"
    using assms matching_pyfas_spec by (auto simp: matching_bases_def)
  show "\<forall>e\<in>set bs. entry_at st e"
    by (auto simp: bs with_index_set entry_at_def get_base_def)
  show "(\<lambda>(i, j, fa, b). (i, j)) ` set bs = {(i, j). matching st str i j}"
  proof -
    have "(i, j) \<in> (\<lambda>(i, j, fa, b). (i, j)) ` set bs \<longleftrightarrow> matching st str i j" for i j
    proof
      assume "(i, j) \<in> (\<lambda>(i, j, fa, b). (i, j)) ` set bs"
      then obtain fa b where "(i, j, fa, b) \<in> set bs" by auto
      then show "matching st str i j" by (auto simp: bs with_index_set matching_def in_dict_def)
    next
      assume "matching st str i j"
      then have "(i, PYFAList st ! i) \<in> set ?fas" "(j, get_base st i j) \<in> set (with_index (fa_pyBase (PYFAList st ! i)))"
        by (auto simp: with_index_set matching_def in_dict_def get_base_def)
      then have "(i, j, PYFAList st ! i, get_base st i j) \<in> set bs" unfolding bs by fastforce
      then show "(i, j) \<in> (\<lambda>(i, j, fa, b). (i, j)) ` set bs" by (intro image_eqI) auto
    qed
    from this [of "fst x" "snd x" for x] show ?thesis by (intro set_eqI) (simp add: split_beta)
  qed
  have d: "distinct (map fst ?fas)"
    using distinct_map_filter [of fst "with_index (PYFAList st)" ?P] by (simp add: with_index_fst)
  have "distinct (map (\<lambda>(i, j, fa, b). (i, j)) (concat (map (\<lambda>(i, fa). map (\<lambda>(j, b). (i, j, fa, b)) (with_index (fa_pyBase fa))) fas)))"
    if "distinct (map fst fas)" for fas :: "(nat \<times> PYFA) list"
    using that
  proof (induction fas)
    case (Cons e fas)
    obtain i fa where e: "e = (i, fa)" by (cases e)
    have "map (\<lambda>x. case x of (j, b) \<Rightarrow> (i, j)) (with_index (fa_pyBase fa)) = map (Pair i) (map fst (with_index (fa_pyBase fa)))"
      by (simp add: case_prod_beta')
    then have "distinct (map (\<lambda>x. case x of (j, b) \<Rightarrow> (i, j)) (with_index (fa_pyBase fa)))"
      by (simp add: with_index_fst distinct_map inj_on_def del: map_map)
    then show ?case using Cons by (auto simp: e o_def split_beta) (force simp: image_iff)
  qed simp
  from this [OF d] show "distinct (map (\<lambda>(i, j, fa, b). (i, j)) bs)" by (simp only: bs)
qed

section \<open>The characters\<close>

definition small :: "uint32 \<Rightarrow> bool" where
  "small w \<longleftrightarrow> unat w < 2 ^ 31"

definition small_phrase :: "PyPhrase \<Rightarrow> bool" where
  "small_phrase p \<longleftrightarrow> small (ph_iIndex p) \<and> small (ph_iHit p)"

definition small_base :: "PyBase \<Rightarrow> bool" where
  "small_base b \<longleftrightarrow> small (b_iIndex b) \<and> small (b_iHit b) \<and> (\<forall>p\<in>set (b_phrase b). small_phrase p) \<and>
     (\<forall>p\<in>set (b_userPhrase b). small_phrase p)"

definition small_dict :: "pystate \<Rightarrow> bool" where
  "small_dict st \<longleftrightarrow> (\<forall>i j. in_dict st i j \<longrightarrow> small_base (get_base st i j))"

text \<open>The counters that decide, the more important one first.\<close>

definition ranks :: "ADJUSTORDER \<Rightarrow> uint32 \<Rightarrow> uint32 \<Rightarrow> nat \<times> nat" where
  "ranks order iIndex iHit = (case order of AD_NO \<Rightarrow> (0, 0) | AD_FAST \<Rightarrow> (unat iIndex, unat iHit) | AD_FREQ \<Rightarrow> (unat iHit, unat iIndex))"

definition ahead :: "nat \<times> nat \<Rightarrow> nat \<times> nat \<Rightarrow> bool" where
  "ahead p q \<longleftrightarrow> fst p > fst q \<or> fst p = fst q \<and> snd p \<ge> snd q"

definition base_rank :: "pystate \<Rightarrow> PYCandWord \<Rightarrow> nat \<times> nat" where
  "base_rank st w = (case word_base st w of None \<Rightarrow> (0, 0) | Some b \<Rightarrow> ranks (baseOrder (py_config st)) (b_iIndex b) (b_iHit b))"

lemma base_words_spec:
  "base_words cur bs = Some ws \<Longrightarrow>
    ws = map (\<lambda>(i, j, fa, b). CandBase i j) (filter (\<lambda>(i, j, fa, b). PYIsInFreq cur (b_strHZ b) = Some False) bs)"
  by (induction bs arbitrary: ws rule: base_words.induct) (auto simp: bind_eq_Some_conv PYAddBaseCandWord_def split: if_splits)

lemma base_cmp_keys:
  assumes "small_base a" "small_base b" "order \<noteq> AD_NO"
  shows "base_cmp order b a = first_of (int (fst (ranks order (b_iIndex b) (b_iHit b))) - int (fst (ranks order (b_iIndex a) (b_iHit a))))
    (int (snd (ranks order (b_iIndex b) (b_iHit b))) - int (snd (ranks order (b_iIndex a) (b_iHit a))))"
  using assms by (cases order) (auto simp: base_cmp_def ranks_def small_base_def small_def delta_small)

lemma sort_base_words:
  assumes "\<forall>w\<in>set ws. \<exists>i j. w = CandBase i j \<and> in_dict st i j" "small_dict st"
  shows "mset (sort_words st PY_CAND_BASE (baseOrder (py_config st)) ws) = mset ws"
    "sorted_wrt (\<lambda>v w. ahead (base_rank st v) (base_rank st w)) (sort_words st PY_CAND_BASE (baseOrder (py_config st)) ws)"
proof -
  let ?o = "baseOrder (py_config st)"
  let ?cmp = "by_keys (\<lambda>w. int (fst (base_rank st w))) (\<lambda>w. int (snd (base_rank st w))) (\<lambda>w. 0)"
  have "PYCandWordCmp st PY_CAND_BASE ?o v w = ?cmp v w" if "v \<in> set ws" "w \<in> set ws" "?o \<noteq> AD_NO" for v w
  proof -
    from that assms(1) obtain i j i' j' where vw: "v = CandBase i j" "in_dict st i j" "w = CandBase i' j'" "in_dict st i' j'" by meson
    then have "small_base (get_base st i j)" "small_base (get_base st i' j')" using assms(2) by (auto simp: small_dict_def)
    from base_cmp_keys [OF this that(3)] show ?thesis
      by (simp add: PYCandWordCmp_def vw word_base_def by_keys_def base_rank_def first_of_def)
  qed
  then have agree: "\<forall>v\<in>set ws. \<forall>w\<in>set ws. PYCandWordCmp st PY_CAND_BASE ?o v w = ?cmp v w" if "?o \<noteq> AD_NO" using that by blast
  have zero: "base_rank st w = (0, 0)" if "?o = AD_NO" for w
    using that by (simp add: base_rank_def ranks_def split: option.split)
  note ms = msort_sorts [OF by_keys_comparator agree]
  show "mset (sort_words st PY_CAND_BASE ?o ws) = mset ws" using ms(1) by (simp add: sort_words_def)
  show "sorted_wrt (\<lambda>v w. ahead (base_rank st v) (base_rank st w)) (sort_words st PY_CAND_BASE ?o ws)"
  proof (cases "?o = AD_NO")
    case True
    then show ?thesis by (simp add: sort_words_def zero ahead_def sorted_wrt_true)
  next
    case False
    then show ?thesis using ms(2) [OF False]
      by (auto simp: sort_words_def by_keys_le ahead_def elim!: sorted_wrt_mono_rel [rotated])
  qed
qed

text \<open>
  C35: The characters that are offered are exactly those of the dictionary whose code matches the first piece and
  that are not among the frequent ones, each of them once, and in the order of the setting: by the time of their
  last use or by their number of uses first, the larger one first. Counters are below \<open>2 ^ 31\<close>.
\<close>

theorem base_candidates_exact:
  assumes "base_candidates st cur = Some ws" "code2 (findMap st) 0 = Some str" "small_dict st"
  shows "distinct ws \<and>
    set ws = {w. \<exists>i j. w = CandBase i j \<and> matching st str i j \<and>
      PYIsInFreq (map_option (\<lambda>k. pyFreq st ! k) cur) (b_strHZ (get_base st i j)) = Some False} \<and>
    sorted_wrt (\<lambda>v w. ahead (base_rank st v) (base_rank st w)) ws"
proof -
  let ?new = "\<lambda>(i, j, fa, b). PYIsInFreq (map_option (\<lambda>k. pyFreq st ! k) cur) (b_strHZ b) = Some False"
  let ?word = "\<lambda>(i, j, fa, b). CandBase i j"
  from assms(1,2) obtain bs us where bs: "matching_bases st str = Some bs"
    "base_words (map_option (\<lambda>k. pyFreq st ! k) cur) bs = Some us" "ws = sort_words st PY_CAND_BASE (baseOrder (py_config st)) us"
    by (auto simp: base_candidates_def bind_eq_Some_conv)
  note spec = matching_bases_spec [OF bs(1)]
  have us: "us = map ?word (filter ?new bs)" using base_words_spec [OF bs(2)] .
  have "inj_on (\<lambda>(i, j). CandBase i j) A" for A by (auto intro: inj_onI)
  then have "distinct (map (\<lambda>(i, j). CandBase i j) (map (\<lambda>(i, j, fa, b). (i, j)) bs))"
    unfolding distinct_map [of "\<lambda>(i, j). CandBase i j"] using spec(1) by blast
  moreover have "map (\<lambda>(i, j). CandBase i j) (map (\<lambda>(i, j, fa, b). (i, j)) bs) = map ?word bs"
    unfolding map_map by (rule map_cong) auto
  ultimately have "distinct (map ?word bs)" by argo
  then have dist: "distinct us" unfolding us by (rule distinct_map_filter)
  have at: "matching st str i j \<and> b = get_base st i j" if "(i, j, fa, b) \<in> set bs" for i j fa b
  proof
    have "(i, j) \<in> (\<lambda>(i, j, fa, b). (i, j)) ` set bs" using that by force
    then show "matching st str i j" unfolding spec(3) by simp
    show "b = get_base st i j" using bspec [OF spec(2) that] by (simp add: entry_at_def)
  qed
  have all: "\<exists>fa. (i, j, fa, get_base st i j) \<in> set bs" if "matching st str i j" for i j
  proof -
    from that have "(i, j) \<in> (\<lambda>(i, j, fa, b). (i, j)) ` set bs" unfolding spec(3) by simp
    then obtain fa b where "(i, j, fa, b) \<in> set bs" by auto
    with at [OF this] show ?thesis by auto
  qed
  have set_us: "set us = {w. \<exists>i j. w = CandBase i j \<and> matching st str i j \<and>
      PYIsInFreq (map_option (\<lambda>k. pyFreq st ! k) cur) (b_strHZ (get_base st i j)) = Some False}" (is "_ = ?S")
  proof
    show "set us \<subseteq> ?S" unfolding us using at by fastforce
    show "?S \<subseteq> set us"
    proof
      fix w
      assume "w \<in> ?S"
      then obtain i j where w: "w = CandBase i j" "matching st str i j"
        "PYIsInFreq (map_option (\<lambda>k. pyFreq st ! k) cur) (b_strHZ (get_base st i j)) = Some False" by blast
      from all [OF w(2)] obtain fa where "(i, j, fa, get_base st i j) \<in> set (filter ?new bs)" using w(3) by auto
      then show "w \<in> set us" unfolding us w(1) set_map by (rule rev_image_eqI) simp
    qed
  qed
  have "\<forall>w\<in>set us. \<exists>i j. w = CandBase i j \<and> in_dict st i j" unfolding set_us by (auto simp: matching_def)
  note sorted = sort_base_words [OF this assms(3)]
  have ws: "mset ws = mset us" using sorted(1) bs(3) by simp
  show ?thesis
    using mset_eq_imp_distinct_iff [OF ws] dist mset_eq_setD [OF ws] set_us sorted(2) bs(3) by simp
qed

lemma base_candidates_exact_witness:
  "\<exists>st ws. base_candidates st None = Some ws \<and> CandBase 0 0 \<in> set ws \<and> distinct ws"
proof -
  let ?st = "sample_py\<lparr>findMap := parse_buffer\<lparr>iHZCount := 1, strMap := [[0x4A, 0x41, 0]]\<rparr>\<rparr>"
  have code: "code2 (findMap ?st) 0 = Some [0x4A, 0x41]" by (simp add: code2_def rd_def parse_buffer_def)
  have c: "Cmp2Map plain_py [0x4A, 0x41] [0x4A, 0x41] False = Some 0"
    by (simp add: Cmp2Map_def rd_def Cmp1Map_def IsZ_C_S_def IsJ_Q_X_Y_def plain_py_def InitPYTable_def InitMHPY_def
        MHPY_C_TEMPLATE_def MHPY_S_TEMPLATE_def GetMHIndex_C2_def GetMHIndex_S2_def mh_pair_def ascii_def)
  have m: "matching_bases ?st [0x4A, 0x41] = Some [(0, 0, PYFAList sample_py ! 0, get_base sample_py 0 0)]"
    using c by (simp add: matching_bases_def sample_py_def with_index_def ascii_def get_base_def)
  have all: "\<exists>ws. base_candidates ?st None = Some ws"
    using code m by (simp add: base_candidates_def PYIsInFreq_def PYAddBaseCandWord_def)
  then obtain ws where ws: "base_candidates ?st None = Some ws" by blast
  have dict: "in_dict ?st i j \<longleftrightarrow> i = 0 \<and> j = 0" for i j
    by (auto simp: in_dict_def sample_py_def)
  have "small_dict ?st"
    unfolding small_dict_def dict by (simp add: small_base_def small_def small_phrase_def get_base_def sample_py_def sample_phrase_def)
  moreover have "matching ?st [0x4A, 0x41] 0 0"
    unfolding matching_def dict using c by (simp add: sample_py_def ascii_def)
  ultimately have "distinct ws" "CandBase 0 0 \<in> set ws"
    using base_candidates_exact [OF ws code] by (auto simp: PYIsInFreq_def)
  with ws show ?thesis by blast
qed

end
