(* ===== verification/PyInput_Laws.thy ===== *)
theory PyInput_Laws
  imports PyInput PyCand_Laws ImList_Laws
begin

text \<open>
  Typing and editing: the cursor stays in the text, deleting backwards undoes typing, and what the hotkeys of the
  modes do on a candidate that has no word behind it.
\<close>

section \<open>The cursor\<close>

definition text_ok :: "pystate \<Rightarrow> bool" where
  "text_ok st \<longleftrightarrow> 0 \<le> iPYInsertPoint st \<and> iPYInsertPoint st \<le> int (length (strFindString st))"

lemma set_find_simps [simp]:
  "strFindString (set_find s st) = s" "iPYInsertPoint (set_find s st) = iPYInsertPoint st"
  "pySelected (set_find s st) = pySelected st" "findMap (set_find s st) = findMap st"
  "py_config (set_find s st) = py_config st" "py_bSP (set_find s st) = py_bSP st"
  by (simp_all add: set_find_def)

lemma parse_again_keeps:
  "parse_again st = Some st' \<Longrightarrow> \<exists>p. st' = st\<lparr>findMap := p\<rparr>"
  by (auto simp: parse_again_def bind_eq_Some_conv)

lemma text_ok_findMap [simp]: "text_ok (st\<lparr>findMap := p\<rparr>) = text_ok st"
  by (simp add: text_ok_def)

lemma parse_again_ok: "parse_again st = Some st' \<Longrightarrow> text_ok st \<Longrightarrow> text_ok st'"
  by (auto dest: parse_again_keeps)

lemma clip_cursor_ok [simp]: "text_ok (clip_cursor st)"
  by (auto simp: clip_cursor_def text_ok_def Let_def)

lemma insert_char_ok: "insert_char c st = Some st' \<Longrightarrow> text_ok st'"
  by (auto simp: insert_char_def put_text_def Let_def text_ok_def split: if_splits)

lemma UpdateFindString_ok: "UpdateFindString val st = Some st' \<Longrightarrow> text_ok st'"
  by (auto simp: UpdateFindString_def Let_def)

lemma insert_letter_ok: "insert_letter c st = Some (r, st') \<Longrightarrow> text_ok st'"
  unfolding insert_letter_def
  by (auto simp: bind_eq_Some_conv split: if_splits dest!: insert_char_ok UpdateFindString_ok intro: parse_again_ok)

lemma scat_length: "scat n s t = Some u \<Longrightarrow> u = s @ t"
  by (simp add: scat_def split: if_splits)

lemma unselect_ok:
  assumes "unselect f st = Some st'" "\<And>p g. f p g = p + g \<or> f p g = g" "text_ok st"
  shows "text_ok st'"
proof -
  from assms(1) obtain s where s: "s = sel_strPY (last (pySelected st)) @ strFindString st"
    "parse_again ((set_find s st)\<lparr>iPYInsertPoint := f (iPYInsertPoint st) (int (length s) - int (length (strFindString st))),
       pySelected := butlast (pySelected st)\<rparr>) = Some st'"
    by (auto simp: unselect_def bind_eq_Some_conv dest!: scat_length)
  show ?thesis
    using assms(3) assms(2) [of "iPYInsertPoint st" "int (length s) - int (length (strFindString st))"]
    by (intro parse_again_ok [OF s(2)]) (auto simp: text_ok_def s(1))
qed

lemma back_space_ok: "back_space st = Some (r, st') \<Longrightarrow> text_ok st \<Longrightarrow> text_ok st'"
  by (auto simp: back_space_def Let_def bind_eq_Some_conv text_ok_def split: if_splits
      dest!: parse_again_keeps unselect_ok)

lemma bind_SomeE: "m \<bind> f = Some y \<Longrightarrow> (\<And>x. m = Some x \<Longrightarrow> f x = Some y \<Longrightarrow> P) \<Longrightarrow> P"
  by (cases m) auto

lemma delete_char_ok:
  assumes "delete_char st = Some (r, st')" "text_ok st"
  shows "text_ok st'"
proof -
  let ?n = "nat (iPYInsertPoint st)"
  have n: "?n \<le> length (strFindString st)" "?n \<le> length (find_array st)" "0 \<le> iPYInsertPoint st"
    using assms(2) by (auto simp: text_ok_def find_array_def)
  from assms(1) obtain t u where "parse_again (st\<lparr>strFindString := take ?n (find_array st) @ t, findTail := u\<rparr>) = Some st'"
    unfolding delete_char_def Let_def if_P [OF n(1)] by (auto split: if_split_asm elim!: bind_SomeE)
  moreover have "text_ok (st\<lparr>strFindString := take ?n (find_array st) @ t, findTail := u\<rparr>)"
    using n by (simp add: text_ok_def)
  ultimately show ?thesis by (rule parse_again_ok)
qed

lemma go_right_ok: "go_right st = (r, st') \<Longrightarrow> text_ok st \<Longrightarrow> text_ok st'"
  by (auto simp: go_right_def text_ok_def split: if_splits)

lemma go_left_ok: "go_left st = Some (r, st') \<Longrightarrow> text_ok st \<Longrightarrow> text_ok st'"
  by (auto simp: go_left_def text_ok_def split: if_splits dest!: unselect_ok)

section \<open>What does not touch the text\<close>

definition text_of :: "pystate \<Rightarrow> buf \<times> int" where
  "text_of st = (strFindString st, iPYInsertPoint st)"

named_theorems keeps_text

lemma text_of_ok: "text_of st' = text_of st \<Longrightarrow> text_ok st' = text_ok st"
  by (simp add: text_of_def text_ok_def)

lemma text_of_upd [simp]:
  "text_of (upd_base i j f st) = text_of st" "text_of (upd_freq k g st) = text_of st"
  "text_of (SavePYIndex st) = text_of st" "text_of (count_word w st) = text_of st"
  by (simp_all add: text_of_def upd_base_def upd_freq_def SavePYIndex_def count_word_def Let_def split: PYCandWord.split)

lemma SavePYFreq_text [keeps_text]: "SavePYFreq st = Some st' \<Longrightarrow> text_of st' = text_of st"
  by (auto simp: SavePYFreq_def bind_eq_Some_conv text_of_def split: if_splits)

lemma SavePYUserPhrase_text [keeps_text]: "SavePYUserPhrase st = Some st' \<Longrightarrow> text_of st' = text_of st"
  by (auto simp: SavePYUserPhrase_def bind_eq_Some_conv text_of_def split: if_splits)

lemma autosave_text [keeps_text]: "autosave st = Some st' \<Longrightarrow> text_of st' = text_of st"
  by (auto simp: autosave_def Let_def split: if_splits dest!: keeps_text)

lemma save_now_text [keeps_text]:
  "save_phrases_now st = Some st' \<Longrightarrow> text_of st' = text_of st"
  "save_freq_now st = Some st' \<Longrightarrow> text_of st' = text_of st"
  by (auto simp: save_phrases_now_def save_freq_now_def Let_def text_of_def split: if_splits dest!: keeps_text)

lemma PYAddUserPhrase_text [keeps_text]: "PYAddUserPhrase st s m b = Some (r, st') \<Longrightarrow> text_of st' = text_of st"
  unfolding PYAddUserPhrase_def add_new_phrase_def
  by (auto simp: bind_eq_Some_conv Let_def text_of_def upd_base_def split: if_splits option.splits dest!: keeps_text)

lemma PYDelUserPhrase_text [keeps_text]: "PYDelUserPhrase st i j k = Some st' \<Longrightarrow> text_of st' = text_of st"
  by (auto simp: PYDelUserPhrase_def split: if_splits dest!: keeps_text)

lemma PYAddFreq_text [keeps_text]: "PYAddFreq st w = Some st' \<Longrightarrow> text_of st' = text_of st"
  unfolding PYAddFreq_def
  by (auto simp: bind_eq_Some_conv text_of_def upd_freq_def split: if_splits option.splits PYCandWord.splits dest!: keeps_text)

lemma PYDelFreq_text [keeps_text]: "PYDelFreq st w = Some st' \<Longrightarrow> text_of st' = text_of st"
  by (auto simp: PYDelFreq_def split: if_splits PYCandWord.splits dest!: keeps_text)

lemma mode_choice_text [keeps_text]: "mode_choice w st = Some st' \<Longrightarrow> text_of st' = text_of st"
  by (auto simp: mode_choice_def text_of_def split: if_splits PYCandWord.splits dest!: keeps_text)

lemma phrase_section_text: "phrase_section sys dup s = Some (again, s') \<Longrightarrow> text_of (fst s') = text_of (fst s)"
  by (cases s) (auto simp: phrase_section_def bind_eq_Some_conv text_of_def upd_base_def Let_def split: option.splits)

lemma phrase_sections_text: "phrase_sections n sys dup s = Some st' \<Longrightarrow> text_of st' = text_of (fst s)"
proof (induction n arbitrary: s)
  case (Suc n)
  then obtain again s' where "phrase_section sys dup s = Some (again, s')"
    "(if again then phrase_sections n sys dup s' else Some (fst s')) = Some st'"
    by (auto simp: bind_eq_Some_conv)
  with phrase_section_text [OF this(1)] Suc.IH [of s'] show ?case by (simp split: if_splits)
qed simp

lemma LoadPYPhraseDict_text [keeps_text]: "LoadPYPhraseDict st f sys dup = Some st' \<Longrightarrow> text_of st' = text_of st"
  unfolding LoadPYPhraseDict_def by (drule phrase_sections_text) simp

lemma load_extra_text [keeps_text]: "load_extra fs st = Some st' \<Longrightarrow> text_of st' = text_of st"
  by (induction fs arbitrary: st) (auto simp: bind_eq_Some_conv dest!: keeps_text)

lemma apply_index_text: "apply_index v st = Some st' \<Longrightarrow> text_of st' = text_of st"
  by (auto simp: apply_index_def split: prod.splits option.splits if_splits)

lemma index_loop_text: "index_loop v f st = Some st' \<Longrightarrow> text_of st' = text_of st"
proof (induction v f st rule: index_loop.induct)
  case (1 v f st)
  from 1(2) obtain st1 where st1: "apply_index (fst (read_vars v f)) st = Some st1"
    "(if length f < 20 then Some st1 else index_loop (fst (read_vars v f)) (snd (read_vars v f)) st1) = Some st'"
    unfolding index_loop.simps [of v f] by (auto simp: bind_eq_Some_conv)
  from apply_index_text [OF st1(1)] 1(1) [OF st1(1)] st1(2) show ?case by (auto split: if_splits)
qed

lemma load_index_text [keeps_text]: "load_index f st = Some st' \<Longrightarrow> text_of st' = text_of st"
  by (auto simp: load_index_def bind_eq_Some_conv text_of_def simp del: index_loop.simps split: prod.splits if_splits
      dest!: index_loop_text)

lemma load_freq_text [keeps_text]: "load_freq f st = Some st' \<Longrightarrow> text_of st' = text_of st"
  by (auto simp: load_freq_def bind_eq_Some_conv text_of_def split: prod.splits if_splits)

lemma LoadPYOtherDict_text [keeps_text]: "LoadPYOtherDict sys fs st = Some (r, st') \<Longrightarrow> text_of st' = text_of st"
  unfolding LoadPYOtherDict_def Let_def
  by (auto simp: bind_eq_Some_conv text_of_def split: option.splits dest!: keeps_text)

lemma LoadPYBaseDict_text [keeps_text]: "LoadPYBaseDict f st = Some (r, st') \<Longrightarrow> text_of st' = text_of st"
  by (auto simp: LoadPYBaseDict_def bind_eq_Some_conv text_of_def split: option.splits prod.splits if_splits)

lemma load_dicts_text [keeps_text]: "load_dicts pe st = Some st' \<Longrightarrow> text_of st' = text_of st"
  by (auto simp: load_dicts_def bind_eq_Some_conv split: if_splits dest!: keeps_text)


section \<open>Every key keeps the cursor in the text\<close>

definition ses_of :: "py_step \<Rightarrow> pysession" where
  "ses_of s = (case s of Done r ses \<Rightarrow> ses | Next r ses \<Rightarrow> ses)"

lemma ses_of_simps [simp]: "ses_of (Done r ses) = ses" "ses_of (Next r ses) = ses"
  by (simp_all add: ses_of_def)

lemma ses_py_upd [simp]: "ses_py (upd_ses f ses) = ses_py ses" "ses_py (upd_py g ses) = g (ses_py ses)"
  by (simp_all add: upd_ses_def upd_py_def)

lemma append_words_py [simp]: "ses_py (append_words ws ses) = ses_py ses"
  by (induction ws arbitrary: ses) (simp_all add: append_words_def append_word_def append_cand_def)

lemma with_py_conv: "with_py f ses = Some ses' \<longleftrightarrow> (\<exists>st. f (ses_py ses) = Some st \<and> ses' = ses\<lparr>ses_py := st\<rparr>)"
  by (auto simp: with_py_def)

lemma edit_step_ok:
  "edit_step f ses = Some s \<Longrightarrow> (\<And>r st. f (ses_py ses) = Some (r, st) \<Longrightarrow> text_ok st) \<Longrightarrow> text_ok (ses_py (ses_of s))"
  by (auto simp: edit_step_def)

lemma CalculateCursorPosition_py: "ses_py (CalculateCursorPosition ses) = clip_cursor (ses_py ses)"
  by (simp add: CalculateCursorPosition_def Let_def)

lemma PYGetRemindCandWords_py: "PYGetRemindCandWords tr off ses = Some (r, ses') \<Longrightarrow> ses_py ses' = ses_py ses"
  by (auto simp: PYGetRemindCandWords_def Let_def bind_eq_Some_conv split: if_splits)

lemma choose_remind_text: "choose_remind pe sys i j k l ses = Some (r, ses') \<Longrightarrow> text_of (ses_py ses') = text_of (ses_py ses)"
  by (auto simp: choose_remind_def Let_def bind_eq_Some_conv text_of_def split: if_splits dest!: PYGetRemindCandWords_py)

lemma upd_ses_text [simp]: "text_of (ses_py (upd_ses f ses)) = text_of (ses_py ses)"
  by simp

lemma commit_word_ok:
  assumes "commit_word pe w hz ses = Some (r, ses')" "text_ok (ses_py ses)"
  shows "text_ok (ses_py ses')"
proof -
  obtain base phrase bm pm fresh where w: "w = (base, phrase, bm, pm, fresh)" by (metis prod.exhaust)
  have add: "text_ok st" if "(if c then map_option snd (PYAddUserPhrase ((ses_py ses)\<lparr>strPYAuto := auto, findMap := p\<rparr>) auto m False)
      else Some ((ses_py ses)\<lparr>strPYAuto := auto, findMap := p\<rparr>)) = Some st" for c auto m p st
  proof -
    have "text_of st = text_of (ses_py ses)" using that by (auto simp: text_of_def split: if_splits dest!: keeps_text)
    then show ?thesis using assms(2) by (blast dest: text_of_ok)
  qed
  from assms(1) show ?thesis
    unfolding w commit_word_def prod.case Let_def
    by - (elim bind_SomeE, drule add,
      auto split: if_splits elim!: bind_SomeE dest!: PYGetRemindCandWords_py simp: text_ok_def)
qed

lemma PYGetCandWord_ok:
  assumes "PYGetCandWord pe again k ses = Some (r, ses')" "text_ok (ses_py ses)"
  shows "text_ok (ses_py ses')"
proof -
  let ?c = "cl_words (cands ses) ! k"
  let ?w = "ses_words ses ! (cw_priv ?c - 1)"
  have count: "text_ok (ses_py s)" if "with_py (\<lambda>st. autosave (count_word ?w st)) ses = Some s" for s
  proof -
    have "text_of (ses_py s) = text_of (ses_py ses)" using that by (auto simp: with_py_conv dest!: autosave_text)
    then show ?thesis using assms(2) by (blast dest: text_of_ok)
  qed
  consider (null) "cw_priv ?c = 0" | (own) "cw_priv ?c \<noteq> 0" by blast
  then show ?thesis
  proof cases
    case null
    then show ?thesis using assms by (auto simp: PYGetCandWord_def Let_def bind_eq_Some_conv)
  next
    case own
    show ?thesis
    proof (cases "\<exists>sys i j n l. ?w = CandRemind sys i j n l")
      case True
      then show ?thesis using assms own
        by (auto simp: PYGetCandWord_def Let_def split: if_splits dest!: choose_remind_text text_of_ok)
    next
      case False
      then show ?thesis using assms(1) own count unfolding PYGetCandWord_def Let_def
        by (auto simp: CalculateCursorPosition_py split: if_splits PYCandWord.splits elim!: bind_SomeE dest!: commit_word_ok)
    qed
  qed
qed


lemma pe_quick_keeps:
  assumes "\<forall>ses. ses_py (snd (pe_quick pe ses)) = ses_py ses" "pe_quick pe ses = (b, ses')"
  shows "ses_py ses' = ses_py ses"
  using assms(1) [rule_format, of ses] assms(2) by simp

lemma letter_step_ok:
  assumes "letter_step pe ks mods ses = Some s" "text_ok (ses_py ses)" "\<forall>ses. ses_py (snd (pe_quick pe ses)) = ses_py ses"
  shows "text_ok (ses_py (ses_of s))"
  using assms(1,2) unfolding letter_step_def Let_def
  by (auto split: if_splits prod.splits elim!: edit_step_ok dest!: insert_letter_ok pe_quick_keeps [OF assms(3)])

lemma ask_ok:
  assumes "ask m f ses = Some s" "\<And>st. text_of (f st) = text_of st" "text_ok (ses_py ses)"
  shows "text_ok (ses_py (ses_of s))"
proof -
  have "ses_py (ses_of s) = f (ses_py ses)" using assms(1) by (auto simp: ask_def Let_def bind_eq_Some_conv)
  then show ?thesis using text_of_ok [OF assms(2)] assms(3) by simp
qed

lemma ask_steps_ok:
  "ask_delete_phrase pe ses = Some s \<Longrightarrow> text_ok (ses_py ses) \<Longrightarrow> text_ok (ses_py (ses_of s))"
  "ask_add_freq pe ses = Some s \<Longrightarrow> text_ok (ses_py ses) \<Longrightarrow> text_ok (ses_py (ses_of s))"
  "ask_delete_freq pe ses = Some s \<Longrightarrow> text_ok (ses_py ses) \<Longrightarrow> text_ok (ses_py (ses_of s))"
  by (auto simp: ask_delete_phrase_def ask_add_freq_def ask_delete_freq_def bind_eq_Some_conv text_of_def
      split: if_splits elim!: ask_ok)

lemma choose_first_ok: "choose_first pe again ses = Some s \<Longrightarrow> text_ok (ses_py ses) \<Longrightarrow> text_ok (ses_py (ses_of s))"
  by (auto simp: choose_first_def Let_def split: if_splits choice.splits cand_callback.splits prod.splits
      dest!: PYGetCandWord_ok)

lemma py_key_ok:
  assumes "py_key pe again ks mods ses = Some s" "text_ok (ses_py ses)" "\<forall>ses. ses_py (snd (pe_quick pe ses)) = ses_py ses"
  shows "text_ok (ses_py (ses_of s))"
  using assms(1,2) unfolding py_key_def Let_def
  by (auto split: if_splits elim!: edit_step_ok letter_step_ok [OF _ _ assms(3)] choose_first_ok ask_steps_ok
      intro: back_space_ok delete_char_ok go_left_ok go_right_ok simp: text_ok_def [of "iPYInsertPoint_update _ _"]
      enter_step_def Let_def bind_eq_Some_conv)


lemma choice_key_ok: "choice_key ks mods iKey ses = Some s \<Longrightarrow> text_ok (ses_py ses) \<Longrightarrow> text_ok (ses_py (ses_of s))"
  unfolding choice_key_def choose_step_def void_step_def Let_def
  by (auto simp: with_py_conv text_ok_def [of "iPYInsertPoint_update _ _"] bind_eq_Some_conv
      split: if_splits option.splits dest!: mode_choice_text text_of_ok)

lemma ResetPYStatus_ok [simp]: "text_ok (ResetPYStatus st)"
  by (simp add: ResetPYStatus_def text_ok_def)

lemma finish_key_ok: "finish_key r iKey ses = Some (r', ses') \<Longrightarrow> text_ok (ses_py ses) \<Longrightarrow> text_ok (ses_py ses')"
  by (auto simp: finish_key_def UpdateCodeInputPY_def Let_def bind_eq_Some_conv CalculateCursorPosition_py
      split: if_splits)


lemma do_py_input_ok:
  assumes "do_py_input pe again ks mods ses = Some (r, ses')" "text_ok (ses_py ses)"
    "\<forall>ses. ses_py (snd (pe_quick pe ses)) = ses_py ses"
  shows "text_ok (ses_py ses')"
proof -
  have load: "text_ok (ses_py s)" if "with_py (load_dicts pe) ses = Some s" for s
  proof -
    have "text_of (ses_py s) = text_of (ses_py ses)" using that by (auto simp: with_py_conv dest!: load_dicts_text)
    then show ?thesis using assms(2) by (blast dest: text_of_ok)
  qed
  have key: "text_ok (ses_py (ses_of step))"
    if "with_py (load_dicts pe) ses = Some s"
      "(if in_mode (ses_py s) then Some (Next IRV_TO_PROCESS s) else py_key pe again ks mods s) = Some step" for s step ks
    using load [OF that(1)] that(2) py_key_ok [OF _ _ assms(3)] by (auto split: if_splits)
  have choice: "text_ok (ses_py (ses_of step))"
    if "(if b then choice_key ks mods iKey s else Some (Next r s)) = Some step" "text_ok (ses_py s)" for b iKey s step ks r
    using that choice_key_ok by (auto split: if_splits)
  from assms(1) show ?thesis
    unfolding do_py_input_def Let_def
    by (elim bind_SomeE) (drule (1) key, auto split: py_step.splits elim!: bind_SomeE dest!: choice finish_key_ok)
qed

text \<open>
  Deleting on the array: inside of a text without a terminator in it, the character at the cursor goes (and a separator
  behind it); at the end of the text, the bytes behind the terminator are appended up to the next one.
\<close>

lemma string_at_front: "0 \<notin> set s \<Longrightarrow> string_at (s @ 0 # t) 0 = Some s"
  by (auto simp: string_at_def takeWhile_append Let_def)

lemma string_at_beyond: "string_at (s @ t) (length s + i) = string_at t i"
  by (simp add: string_at_def Let_def)

lemma delete_at_end:
  assumes "iPYInsertPoint st = int (length (strFindString st))" "findTail st = c # t @ 0 # u" "0 \<notin> set (c # t)" "c \<noteq> PY_SEPARATOR"
  shows "delete_char st = map_option (\<lambda>st. (IRV_DISPLAY_CANDWORDS, st))
    (parse_again (st\<lparr>strFindString := strFindString st @ c # t, findTail := 0 # u\<rparr>))"
proof -
  let ?s = "strFindString st"
  have a: "find_array st = (?s @ [0]) @ (c # t) @ 0 # u" by (simp add: find_array_def assms(2))
  have t: "string_at (find_array st) (length ?s + 1) = Some (c # t)"
    using string_at_beyond [of "?s @ [0]" "(c # t) @ 0 # u" 0] string_at_front [OF assms(3)] unfolding a by simp
  have "find_array st ! (length ?s + 1) = c" unfolding a by (simp add: nth_append)
  moreover have "drop (Suc (length (?s @ c # t)))
      (take (length ?s) (find_array st) @ (c # t) @ 0 # drop (length ?s + length (c # t) + 1) (find_array st)) = 0 # u"
    unfolding a by simp
  moreover have "take (length ?s) (find_array st) = ?s" unfolding a by simp
  moreover have "length ?s + 1 < length (find_array st)" unfolding a by simp
  moreover have "strFindString t' = ?s @ c # t" if "parse_again (st\<lparr>strFindString := ?s @ c # t, findTail := v\<rparr>) = Some t'" for t' v
    using parse_again_keeps [OF that] by auto
  ultimately show ?thesis using assms(1,4) t
    by (cases "parse_again (st\<lparr>strFindString := ?s @ c # t, findTail := 0 # u\<rparr>)")
      (simp_all add: delete_char_def Let_def del: drop_append)
qed

text \<open>
  C36: every key that the Pinyin input method handles without a fault, in whatever mode and with whatever candidates,
  leaves the cursor inside of the text, provided it was there before and the launch of quick phrase does not touch the
  input method. This covers DELETE at the end of the text, where old bytes come back (\<open>delete_at_end\<close>). A fault is the
  result \<open>None\<close>: it happens for instance when the last letter is deleted, forwards or backwards, because
  \<open>ParsePY\<close> then reads in front of the empty text (\<open>parse_empty\<close>).
\<close>

theorem cursor_stays_in_text:
  assumes "DoPYInput pe ks mods ses = Some (r, ses')"
    "0 \<le> iPYInsertPoint (ses_py ses)" "iPYInsertPoint (ses_py ses) \<le> int (length (strFindString (ses_py ses)))"
    "\<forall>ses. ses_py (snd (pe_quick pe ses)) = ses_py ses"
  shows "0 \<le> iPYInsertPoint (ses_py ses') \<and> iPYInsertPoint (ses_py ses') \<le> int (length (strFindString (ses_py ses')))"
  using do_py_input_ok [OF assms(1) [unfolded DoPYInput_def] _ assms(4)] assms(2,3) by (simp add: text_ok_def)


section \<open>Deleting backwards undoes typing\<close>

lemma py_text_sub: "py_text s \<Longrightarrow> set t \<subseteq> set s \<Longrightarrow> py_text t"
  by (auto simp: py_text_def)

text \<open>Quanpin with a text that fits: parsing it again succeeds, unless it is empty.\<close>

definition quanpin_ok :: "pystate \<Rightarrow> bool" where
  "quanpin_ok st \<longleftrightarrow> py_table (py_config st) \<and> \<not> py_bSP st \<and> py_text (strFindString st) \<and>
     length (strFindString st) \<le> 35 \<and> length (strPYParsed (findMap st)) = 35 \<and> length (strMap (findMap st)) = 35"

lemma parse_again_quanpin:
  assumes "quanpin_ok st" "strFindString st \<noteq> []"
  obtains p where "parse_again st = Some (st\<lparr>findMap := p\<rparr>)" "length (strPYParsed p) = 35" "length (strMap p) = 35"
  using parse_text [of "py_config st" PY_PARSE_INPUT_USER "strFindString st" "findMap st"] assms that
  by (fastforce simp: quanpin_ok_def parse_again_def PY_PARSE_INPUT_USER_def)

lemma parse_again_empty: "strFindString st = [] \<Longrightarrow> parse_again st = None"
  by (simp add: parse_again_def parse_empty)

text \<open>
  C37: a letter that is typed while no word of the text has been chosen yet (with chosen words BACKSPACE takes the
  last one back instead), without the text becoming too long, and then deleted backwards, leaves the text and the
  cursor as they were, parsed once more; only when the cursor stands behind a separator is that deleted with it.
  When no letter is left, as for the first letter that is typed, the deletion faults, because the empty text is parsed.
  On Quanpin with a text of letters and separators of at most 35 characters it succeeds in all other cases.
\<close>

theorem backspace_undoes_letter:
  assumes "insert_letter c st = Some (IRV_DISPLAY_CANDWORDS, st')" "pySelected st = []"
  shows "let k = nat (iPYInsertPoint st); s = strFindString st;
      sep = (k > 0 \<and> s ! (k - 1) = PY_SEPARATOR);
      text = (if sep then take (k - 1) s @ drop k s else s) in
    (if text = [] then back_space st' = None
     else back_space st' = map_option (\<lambda>t. (IRV_DISPLAY_CANDWORDS,
          t\<lparr>iPYInsertPoint := iPYInsertPoint st - (if sep then 1 else 0)\<rparr>)) (parse_again (set_find text st'))) \<and>
    (text \<noteq> [] \<and> quanpin_ok st' \<longrightarrow> (\<exists>st''. back_space st' = Some (IRV_DISPLAY_CANDWORDS, st'') \<and>
       strFindString st'' = text \<and> iPYInsertPoint st'' = iPYInsertPoint st - (if sep then 1 else 0)))"
proof -
  let ?p = "iPYInsertPoint st"
  let ?k = "nat ?p"
  let ?s = "strFindString st"
  let ?sep = "?k > 0 \<and> ?s ! (?k - 1) = PY_SEPARATOR"
  from assms(1) obtain st1 where st1: "insert_char c st = Some st1" "parse_again st1 = Some st'"
    by (auto simp: insert_letter_def bind_eq_Some_conv split: if_splits)
  then have p: "0 \<le> ?p" "?k \<le> length ?s"
    and s1: "st1 = set_find (take ?k ?s @ c # drop ?k ?s) (st\<lparr>iPYInsertPoint := ?p + 1\<rparr>)"
    by (auto simp: insert_char_def put_text_def Let_def split: if_splits)
  from parse_again_keeps [OF st1(2)] have st': "iPYInsertPoint st' = ?p + 1"
    "strFindString st' = take ?k ?s @ c # drop ?k ?s" "pySelected st' = []"
    by (auto simp: s1 assms(2))
  have n: "nat (?p + 1) = Suc ?k" using p(1) by simp
  have before: "(take ?k ?s @ c # drop ?k ?s) ! (Suc ?k - 2) = ?s ! (?k - 1)" if "Suc ?k > 1"
    using that p(2) by (simp add: nth_append)
  let ?val = "if Suc ?k > 1 \<and> (take ?k ?s @ c # drop ?k ?s) ! (Suc ?k - 2) = PY_SEPARATOR then 2 else 1 :: nat"
  have val: "?val = (if ?sep then 2 else 1)" using before by auto
  define sep where "sep \<longleftrightarrow> ?sep"
  define tx where "tx = (if sep then take (?k - 1) ?s @ drop ?k ?s else ?s)"
  have new: "take (Suc ?k - ?val) (take ?k ?s @ c # drop ?k ?s) @ drop (Suc ?k) (take ?k ?s @ c # drop ?k ?s) = tx"
    using p(2) unfolding val tx_def sep_def by (auto simp: min_absorb1)
  have val': "?p + 1 - int ?val = ?p - (if sep then 1 else 0)" unfolding val sep_def by simp
  have del: "back_space st' = do {
      st \<leftarrow> parse_again (set_find tx st');
      Some (if strFindString st = [] then IRV_CLEAN else IRV_DISPLAY_CANDWORDS,
        st\<lparr>iPYInsertPoint := ?p - (if sep then 1 else 0)\<rparr>) }"
    using p st'(3) unfolding back_space_def Let_def st'(1,2) n new val' by simp
  have none: "back_space st' = None" if "tx = []"
    using del parse_again_empty [of "set_find tx st'"] that by simp
  have some: "back_space st' = map_option (\<lambda>t. (IRV_DISPLAY_CANDWORDS, t\<lparr>iPYInsertPoint := ?p - (if sep then 1 else 0)\<rparr>))
      (parse_again (set_find tx st'))" if "tx \<noteq> []"
  proof (cases "parse_again (set_find tx st')")
    case (Some t)
    from parse_again_keeps [OF this] have "strFindString t = tx" by auto
    then show ?thesis using Some that unfolding del by simp
  qed (simp add: del)
  have result: "\<exists>st''. back_space st' = Some (IRV_DISPLAY_CANDWORDS, st'') \<and>
      strFindString st'' = tx \<and> iPYInsertPoint st'' = ?p - (if sep then 1 else 0)" if q: "tx \<noteq> []" "quanpin_ok st'"
  proof -
    have "set ?s = set (take ?k ?s) \<union> set (drop ?k ?s)" by (metis append_take_drop_id set_append)
    then have "set ?s \<subseteq> set (strFindString st')" unfolding st'(2) by auto
    moreover have "set tx \<subseteq> set ?s" unfolding tx_def by (auto dest: in_set_takeD in_set_dropD)
    ultimately have sub: "set tx \<subseteq> set (strFindString st')" by blast
    have "length (take (?k - 1) ?s @ drop ?k ?s) \<le> length ?s" using p(2) by (simp; arith)
    moreover have "length (strFindString st') = Suc (length ?s)" unfolding st'(2) using p(2) by simp
    ultimately have len: "length tx \<le> length (strFindString st')" unfolding tx_def by (cases sep) simp_all
    have "py_text tx" using q(2) py_text_sub [OF _ sub] by (simp add: quanpin_ok_def)
    with q(2) len have "quanpin_ok (set_find tx st')" by (simp add: quanpin_ok_def)
    then obtain f where "parse_again (set_find tx st') = Some ((set_find tx st')\<lparr>findMap := f\<rparr>)"
      using q(1) by (metis parse_again_quanpin set_find_simps(1))
    then show ?thesis using some [OF q(1)] by simp
  qed
  have "if tx = [] then back_space st' = None
     else back_space st' = map_option (\<lambda>t. (IRV_DISPLAY_CANDWORDS, t\<lparr>iPYInsertPoint := ?p - (if sep then 1 else 0)\<rparr>))
       (parse_again (set_find tx st'))" using none some by simp
  moreover have "tx \<noteq> [] \<and> quanpin_ok st' \<longrightarrow> (\<exists>st''. back_space st' = Some (IRV_DISPLAY_CANDWORDS, st'') \<and>
      strFindString st'' = tx \<and> iPYInsertPoint st'' = ?p - (if sep then 1 else 0))" using result by blast
  ultimately show ?thesis unfolding Let_def tx_def sep_def by (rule conjI)
qed


section \<open>A candidate without a word\<close>

lemma clean_down_cands: "cands (ses\<lparr>ses_inst := FcitxInstanceCleanInputWindowDown s\<rparr>) = FcitxCandidateWordReset (candList (input s))"
  by (simp add: cands_def FcitxInstanceCleanInputWindowDown_def upd_input_def)

lemma reset_words: "cl_words (FcitxCandidateWordReset l) = []" "cl_page (FcitxCandidateWordReset l) = 0"
  "cl_perpage (FcitxCandidateWordReset l) = cl_perpage l"
  by (simp_all add: FcitxCandidateWordReset_def Let_def)

lemma error_candidate_alone:
  assumes "error_candidate ses m = Some ses'"
  shows "\<exists>s. cl_words (cands ses') = [new_cand ses 0 MSG_OTHER s]" "cl_page (cands ses') = 0"
    "cl_perpage (cands ses') = cl_perpage (cands ses)" "ses_self ses' = ses_self ses"
proof -
  from assms obtain m' s where "ses' = append_cand (new_cand ses 0 MSG_OTHER s)
      (ses\<lparr>ses_inst := FcitxInstanceCleanInputWindowDown (ses_inst (upd_ses (\<lambda>i. i\<lparr>msgClientPreedit := m'\<rparr>) ses))\<rparr>)"
    by (auto simp: error_candidate_def bind_eq_Some_conv new_cand_def upd_ses_def)
  then have "cands ses' = FcitxCandidateWordAppend (FcitxCandidateWordReset (cands ses)) (new_cand ses 0 MSG_OTHER s)"
    "ses_self ses' = ses_self ses"
    by (simp_all add: append_cand_def upd_ses_def upd_input_def cands_def FcitxInstanceCleanInputWindowDown_def)
  then show "\<exists>s. cl_words (cands ses') = [new_cand ses 0 MSG_OTHER s]" "cl_page (cands ses') = 0"
    "cl_perpage (cands ses') = cl_perpage (cands ses)" "ses_self ses' = ses_self ses"
    by (auto simp: FcitxCandidateWordAppend_def utarray_push_back_def reset_words)
qed

lemma page_own_null:
  assumes "cl_words (cands ses) = [c]" "cl_page (cands ses) = 0" "cl_perpage (cands ses) > 0"
    "cw_owner c = ses_self ses" "cw_priv c = 0"
  shows "\<exists>ws. page_own ses = (0, None) # ws"
proof -
  have "FcitxCandidateWordGetByIndex (cands ses) 0 \<noteq> None"
    using assms by (simp add: FcitxCandidateWordGetByIndex_def FcitxCandidateWordGetByTotalIndex_def fcitx_array_eltptr_def
      utarray_eltptr_def)
  then show ?thesis
    using assms by (simp add: page_own_def Let_def upt_conv_Cons)
qed

text \<open>
  C38: when the text is not Pinyin the input method offers it as a candidate without a word behind it, and then
  the hotkeys that delete a phrase of the user or a frequent character follow its null pointer.
\<close>

theorem hotkeys_follow_null:
  assumes "PYGetCandWords pe ses = Some (r, ses')" "iMode (findMap (ses_py ses)) = PARSE_ERROR"
  shows "ask_delete_phrase pe ses' = None \<and> ask_delete_freq pe ses' = None"
proof -
  from assms obtain ses1 m where ses1: "error_candidate ses1 m = Some ses'" "cl_perpage (cands ses1) > 0"
    by (auto simp: PYGetCandWords_def bind_eq_Some_conv FcitxCandidateWordSetPageSize_def FcitxCandidateWordSetChoose_def
        FcitxCandidateWordSetChooseAndModifier_def Let_def cands_def upd_ses_def upd_input_def split: if_splits)
  from error_candidate_alone [OF ses1(1)] obtain s where s: "cl_words (cands ses') = [new_cand ses1 0 MSG_OTHER s]" by blast
  have "\<exists>ws. page_own ses' = (0, None) # ws"
    using error_candidate_alone [OF ses1(1)] ses1(2) by (intro page_own_null [OF s]) (simp_all add: new_cand_def)
  then show ?thesis by (auto simp: ask_delete_phrase_def ask_delete_freq_def)
qed


section \<open>Concrete sessions\<close>

definition sample_pe :: pyenv where
  "sample_pe = \<lparr> pe_env = plain_env, pe_max = 5, pe_paging_off = False, pe_add = key_pair 0 0 0 0, pe_del = key_pair 0 0 0 0,
     pe_delphr = key_pair 0 0 0 0, pe_quick = (\<lambda>ses. (False, ses)), pe_base = None, pe_system = None, pe_extra = [],
     pe_delmsg = (\<lambda>_ s. s) \<rparr>"

definition typed_ses :: "buf \<Rightarrow> int \<Rightarrow> pysession" where
  "typed_ses s p = \<lparr> ses_py = sample_py\<lparr>strFindString := s, iPYInsertPoint := p\<rparr>,
     ses_inst = new_inst\<lparr>input := FcitxInputStateCreate\<lparr>strCodeInput := s, iCodeInputCount := int (length s)\<rparr>\<rparr>,
     ses_words = [], ses_self = 1, ses_callback = 2 \<rparr>"

lemma parse_zuo:
  obtains p where "ParsePY plain_py (ascii ''zuo'') parse_buffer PY_PARSE_INPUT_USER False = Some p" "iHZCount p = 1"
    "length (strPYParsed p) = 35" "length (strMap p) = 35"
proof -
  have find: "FindPYFAIndex plain_py (ascii ''zuo'') True = Some 0"
    by (simp add: FindPYFAIndex_def plain_py_def InitPYTable_def PYTable_template_def PYTable_template_1_def matches_def
        ascii_def pointer_on_def)
  have str: "PYTable_str plain_py 0 = ascii ''zuo''"
    by (simp add: PYTable_str_def plain_py_def InitPYTable_def PYTable_template_def PYTable_template_1_def)
  have split: "split_piece plain_py (ascii ''zuo'') 0 = ascii ''zuo''"
    by (simp add: split_piece_def str) (simp add: ascii_def)
  have "codable plain_py (ascii ''zuo'')" using find_codable [OF plain_py_table find] by (simp add: str)
  moreover have "length [None, None, None :: byte option] = 3" "PY_PARSE_INPUT_USER \<noteq> 0"
    by (simp_all add: PY_PARSE_INPUT_USER_def)
  ultimately obtain x y where map: "MapPY plain_py (ascii ''zuo'') [None, None, None] PY_PARSE_INPUT_USER =
    Some (True, [Some x, Some y, Some 0])" "x \<noteq> 0" "y \<noteq> 0" using MapPY_codable by metis
  have three: "length (ascii ''zuo'') = 3" "last (ascii ''zuo'') \<noteq> PY_SEPARATOR" "ascii ''zuo'' \<noteq> []"
    by (simp_all add: ascii_def PY_SEPARATOR_def)
  have local: "local_str [Some x, Some y, Some 0] = Some [x, y]" using map by simp
  have "\<exists>p. put_piece (ascii ''zuo'') [x, y] (parse_buffer\<lparr>iMode := PARSE_SINGLEHZ, iHZCount := 0\<rparr>) = Some p \<and> iHZCount p = 1 \<and>
      length (strPYParsed p) = 35 \<and> length (strMap p) = 35"
    using three by (simp add: put_piece_def put_parsed_def put_map_def parse_buffer_def)
  then obtain p where p: "put_piece (ascii ''zuo'') [x, y] (parse_buffer\<lparr>iMode := PARSE_SINGLEHZ, iHZCount := 0\<rparr>) = Some p"
    "iHZCount p = 1" "length (strPYParsed p) = 35" "length (strMap p) = 35" by blast
  have "qp_round plain_py PY_PARSE_INPUT_USER (ascii ''zuo'', False,
      parse_buffer\<lparr>iMode := PARSE_SINGLEHZ, iHZCount := 0\<rparr>, [None, None, None]) = Some ([], False, p, [Some x, Some y, Some 0])"
    using p(1) local map(1) three by (simp add: qp_round_def find split qp_piece_def with_sep_def)
  then have "ParsePY plain_py (ascii ''zuo'') parse_buffer PY_PARSE_INPUT_USER False = Some (final_mode p)"
    using three by (simp add: ParsePY_def numeral_3_eq_3)
  with p(2-4) that show ?thesis by (simp add: final_mode_def)
qed


text \<open>DELETE at the end of a text, with nothing behind its terminator: the text is parsed again.\<close>

lemma cursor_stays_in_text_witness:
  "\<exists>r ses'. DoPYInput sample_pe FcitxKey_Delete 0 (typed_ses (ascii ''zuo'') 3) = Some (r, ses') \<and>
     0 \<le> iPYInsertPoint (ses_py ses') \<and> iPYInsertPoint (ses_py ses') \<le> int (length (strFindString (ses_py ses')))"
proof -
  let ?ses = "typed_ses (ascii ''zuo'') 3"
  let ?st = "sample_py\<lparr>strFindString := ascii ''zuo'', iPYInsertPoint := 3\<rparr>"
  obtain p where p: "ParsePY plain_py (ascii ''zuo'') parse_buffer PY_PARSE_INPUT_USER False = Some p"
    by (rule parse_zuo)
  have tail: "replicate 301 0 = (0::byte) # 0 # replicate 299 0" by (simp add: numeral_eq_Suc)
  have a: "find_array ?st = ascii ''zuo'' @ 0 # 0 # 0 # replicate 299 0" by (simp add: find_array_def sample_py_def tail)
  have "string_at (find_array ?st) 4 = Some []" unfolding a by (simp add: string_at_def ascii_def)
  moreover have "find_array ?st ! 4 = 0" "4 < length (find_array ?st)" "take 3 (find_array ?st) = ascii ''zuo''"
    unfolding a by (simp_all add: ascii_def)
  ultimately have "\<exists>u. delete_char ?st = Some (IRV_DISPLAY_CANDWORDS, ?st\<lparr>findTail := u, findMap := p\<rparr>)"
    using p by (simp add: delete_char_def parse_again_def PY_SEPARATOR_def Let_def sample_py_def ascii_def)
  then obtain u where d: "delete_char ?st = Some (IRV_DISPLAY_CANDWORDS, ?st\<lparr>findTail := u, findMap := p\<rparr>)" by blast
  have "ses_py ?ses = ?st" by (simp add: typed_ses_def)
  with d have "edit_step delete_char ?ses = Some (Next IRV_DISPLAY_CANDWORDS (?ses\<lparr>ses_py := ?st\<lparr>findTail := u, findMap := p\<rparr>\<rparr>))"
    by (simp add: edit_step_def)
  then have "\<exists>ses'. DoPYInput sample_pe FcitxKey_Delete 0 ?ses = Some (IRV_DISPLAY_CANDWORDS, ses')"
    by (simp add: DoPYInput_def do_py_input_def with_py_def load_dicts_def in_mode_def py_key_def typed_ses_def sample_py_def
        raw_size_def FcitxHotkeyIsHotKey_def FcitxHotkeyIsHotKeyLAZ_def finish_key_def UpdateCodeInputPY_def new_inst_def
        FcitxInputStateCreate_def scat_def FCITX_SEPARATOR_def FCITX_SEMICOLON_def FCITX_BACKSPACE_def FCITX_DELETE_def
        FCITX_HOME_def key_pair_def Let_def ascii_def upd_py_def UTF8_MAX_LENGTH_def)
  then obtain ses' where s: "DoPYInput sample_pe FcitxKey_Delete 0 ?ses = Some (IRV_DISPLAY_CANDWORDS, ses')" by blast
  show ?thesis using cursor_stays_in_text [OF s] s by (simp add: typed_ses_def sample_pe_def ascii_def)
qed

lemma backspace_undoes_letter_witness:
  "\<exists>st st' st''. insert_letter 0x6f st = Some (IRV_DISPLAY_CANDWORDS, st') \<and> strFindString st = ascii ''zu'' \<and>
     iPYInsertPoint st = 2 \<and> back_space st' = Some (IRV_DISPLAY_CANDWORDS, st'') \<and> strFindString st'' = ascii ''zu'' \<and>
     iPYInsertPoint st'' = 2"
proof -
  let ?st = "sample_py\<lparr>strFindString := ascii ''zu'', iPYInsertPoint := 2\<rparr>"
  obtain p where p: "ParsePY plain_py (ascii ''zuo'') parse_buffer PY_PARSE_INPUT_USER False = Some p" "iHZCount p = 1"
    "length (strPYParsed p) = 35" "length (strMap p) = 35"
    by (rule parse_zuo)
  let ?st1 = "set_find (ascii ''zuo'') (?st\<lparr>iPYInsertPoint := 3\<rparr>)"
  have "insert_char 0x6f ?st = Some ?st1"
    by (simp add: insert_char_def put_text_def Let_def ascii_def sample_py_def)
  moreover have "parse_again ?st1 = Some (?st1\<lparr>findMap := p\<rparr>)" using p(1) by (simp add: parse_again_def sample_py_def)
  ultimately have st': "insert_letter 0x6f ?st = Some (IRV_DISPLAY_CANDWORDS, ?st1\<lparr>findMap := p\<rparr>)"
    using p(2) by (simp add: insert_letter_def sample_py_def MAX_WORDS_USER_INPUT_def)
  have "quanpin_ok (?st1\<lparr>findMap := p\<rparr>)"
    using p plain_py_table by (simp add: quanpin_ok_def py_text_def PY_SEPARATOR_def ascii_def sample_py_def)
  moreover have "pySelected ?st = []" by (simp add: sample_py_def)
  moreover have st: "strFindString ?st = ascii ''zu''" "iPYInsertPoint ?st = 2" by simp_all
  moreover have "\<not> (nat (iPYInsertPoint ?st) > 0 \<and> strFindString ?st ! (nat (iPYInsertPoint ?st) - 1) = PY_SEPARATOR)"
    "strFindString ?st \<noteq> []"
    by (simp_all add: ascii_def PY_SEPARATOR_def)
  ultimately obtain st'' where "back_space (?st1\<lparr>findMap := p\<rparr>) = Some (IRV_DISPLAY_CANDWORDS, st'')"
      "strFindString st'' = ascii ''zu''" "iPYInsertPoint st'' = 2"
    using backspace_undoes_letter [OF st', unfolded Let_def, THEN conjunct2] by auto
  with st' st show ?thesis by blast
qed

lemma hotkeys_follow_null_witness:
  "\<exists>r ses'. PYGetCandWords sample_pe (upd_py (\<lambda>st. st\<lparr>findMap := parse_buffer\<lparr>iMode := PARSE_ERROR\<rparr>\<rparr>)
      (typed_ses (ascii ''v'') 1)) = Some (r, ses') \<and> ask_delete_phrase sample_pe ses' = None"
proof -
  let ?ses = "upd_py (\<lambda>st. st\<lparr>findMap := parse_buffer\<lparr>iMode := PARSE_ERROR\<rparr>\<rparr>) (typed_ses (ascii ''v'') 1)"
  have "\<exists>r ses'. PYGetCandWords sample_pe ?ses = Some (r, ses')"
    by (simp add: PYGetCandWords_def error_candidate_def preedit_selected_def upd_py_def typed_ses_def sample_py_def
        parse_buffer_def new_inst_def FcitxInputStateCreate_def Let_def FcitxUIMessagesToCString_def
        FcitxMessagesSetMessageCount_def FcitxMessagesNew_def upd_ses_def upd_input_def)
  then obtain r ses' where s: "PYGetCandWords sample_pe ?ses = Some (r, ses')" by blast
  have "iMode (findMap (ses_py ?ses)) = PARSE_ERROR" by simp
  from hotkeys_follow_null [OF s this] s show ?thesis by blast
qed

end
