(* ===== verification/TabDict.thy ===== *)
theory TabDict
  imports StrUtils Utils_Sys Utf8
begin

text \<open>
  The dictionary of a table input method (\<open>src/im/table/tabledict.c\<close>): records of codes and characters in a circle
  that is linked both ways, an index to the first record of every first key of a code, the records of single
  characters, the rules by which codes of phrases are made, and phrases that were made of what was typed. Records
  live in a heap and are named by their place there; the head of the circle is at 0 and has no strings.
\<close>

section \<open>Data\<close>

definition MAX_CODE_LENGTH :: nat where "MAX_CODE_LENGTH = 30"
definition PHRASE_MAX_LENGTH :: nat where "PHRASE_MAX_LENGTH = 10"
definition FH_MAX_LENGTH :: nat where "FH_MAX_LENGTH = 10"
definition TABLE_AUTO_SAVE_AFTER :: int where "TABLE_AUTO_SAVE_AFTER = 1024"
definition AUTO_PHRASE_COUNT :: nat where "AUTO_PHRASE_COUNT = 10000"
definition INTERNAL_VERSION :: byte where "INTERNAL_VERSION = 3"
definition RECORDTYPE_NORMAL :: byte where "RECORDTYPE_NORMAL = 0"
definition RECORDTYPE_PINYIN :: byte where "RECORDTYPE_PINYIN = 1"
definition RECORDTYPE_CONSTRUCT :: byte where "RECORDTYPE_CONSTRUCT = 2"
definition RECORDTYPE_PROMPT :: byte where "RECORDTYPE_PROMPT = 3"

text \<open>The bytes of a character at most, \<open>UTF8_MAX_LENGTH\<close>, and the array of the characters of a phrase.\<close>

abbreviation utf8_max :: nat where "utf8_max \<equiv> 6"
abbreviation phrase_room :: nat where "phrase_room \<equiv> 61"

record RULE_RULE =
  rr_iFlag :: byte
  rr_iWhich :: byte
  rr_iIndex :: byte

record RULE =
  ru_iWords :: byte
  ru_iFlag :: byte
  ru_rule :: "RULE_RULE list"

text \<open>\<open>rc_room\<close> is the size of the array of the code. What lies behind the code in it is zero.\<close>

record RECORD =
  rc_strCode :: buf
  rc_strHZ :: buf
  rc_room :: nat
  rc_next :: nat
  rc_prev :: nat
  rc_iHit :: uint32
  rc_iIndex :: uint32
  rc_type :: byte

text \<open>The arrays of a phrase with what lies behind its strings; the next phrase is the next one of the array.\<close>

record AUTOPHRASE =
  ap_strHZ :: buf
  ap_strCode :: buf
  ap_iSelected :: byte

record TableDict =
  strInputCode :: buf
  recordIndex :: "(byte \<times> nat option) list"
  iCodeLength :: byte
  iPYCodeLength :: byte
  strIgnoreChars :: buf
  bRule :: byte
  rules :: "RULE list"
  iRecordCount :: uint32
  tableSingleHZ :: "nat \<Rightarrow> nat option"
  tableSingleHZCons :: "nat \<Rightarrow> nat option"
  iTableIndex :: uint32
  bHasPinyin :: bool
  currentRecord :: "nat option"
  td_heap :: "RECORD list"
  fh :: "buf list"
  strNewPhraseCode :: buf
  autoPhrase :: "AUTOPHRASE list option"
  insertPoint :: nat
  iAutoPhrase :: int
  iTableChanged :: int
  iHZLastInputCount :: int
  hzLastInput :: "buf list"
  promptCode :: "byte \<Rightarrow> nat option"

datatype table_order = TAD_NO | TAD_FAST | TAD_FREQ

datatype ChooseModifier = CM_NONE | CM_ALT | CM_CTRL | CM_SHIFT

text \<open>The settings of a table that the dictionary uses, and its files of the user.\<close>

record TableMetaData =
  tableOrder :: table_order
  iTableAutoSendToClient :: int
  iTableAutoSendToClientWhenNone :: int
  strEndCode :: "buf option"
  bUseMatchingKey :: bool
  cMatchingKey :: byte
  bAutoPhrase :: bool
  iAutoPhraseLength :: int
  tableDict :: "TableDict option"
  table_disk :: bool
  table_file :: "buf option"
  auto_file :: "buf option"

definition null_record :: RECORD where
  "null_record = \<lparr> rc_strCode = [], rc_strHZ = [], rc_room = 0, rc_next = 0, rc_prev = 0, rc_iHit = 0, rc_iIndex = 0,
     rc_type = 0 \<rparr>"

definition upd_rec :: "nat \<Rightarrow> (RECORD \<Rightarrow> RECORD) \<Rightarrow> TableDict \<Rightarrow> TableDict" where
  "upd_rec p f td = td\<lparr>td_heap := (td_heap td)[p := f (td_heap td ! p)]\<rparr>"

text \<open>A record with strings: the head has none, and its null pointers may not be followed.\<close>

definition rec_of :: "TableDict \<Rightarrow> nat \<Rightarrow> RECORD option" where
  "rec_of td p = (if 0 < p \<and> p < length (td_heap td) then Some (td_heap td ! p) else None)"

text \<open>A string in an array with what lies behind it; an array without a terminator is read behind its end.\<close>

definition c_string :: "buf \<Rightarrow> buf option" where
  "c_string a = (if 0 \<in> set a then Some (takeWhile (\<lambda>c. c \<noteq> 0) a) else None)"

definition put_string :: "buf \<Rightarrow> buf \<Rightarrow> buf option" where
  "put_string s a = (if length s < length a then Some (s @ 0 # drop (Suc (length s)) a) else None)"

section \<open>The number of a character\<close>

text \<open>
  The table of \<open>utf8_in_gb18030.h\<close> has the bytes of every code point from U+0080 to U+FFFF but the surrogates, in
  their order. It is sorted, so the binary search finds the place of a number if and only if it is there.
\<close>

definition utf8_word :: "nat \<Rightarrow> uint32" where
  "utf8_word c = (if c < 0x800 then of_nat (0xc080 + (c div 64) * 256 + c mod 64)
     else of_nat (0xe08080 + (c div 4096) * 65536 + (c div 64 mod 64) * 256 + c mod 64))"

definition fcitx_utf8_in_gb18030 :: "uint32 list" where
  "fcitx_utf8_in_gb18030 = map utf8_word ([0x80..<0xd800] @ [0xe000..<0x10000])"

fun place :: "'a \<Rightarrow> 'a list \<Rightarrow> nat \<Rightarrow> nat option" where
  "place x [] i = None"
| "place x (y # ys) i = (if x = y then Some i else place x ys (Suc i))"

fun be_word :: "buf \<Rightarrow> uint32 \<Rightarrow> uint32" where
  "be_word [] v = v"
| "be_word (b # bs) v = be_word bs (push_bit 8 v OR ucast b)"

definition CalHZIndex :: "buf \<Rightarrow> nat option" where
  "CalHZIndex strHZ = do {
     l \<leftarrow> fcitx_utf8_char_len strHZ 0;
     if l \<in> {2, 3, 4} then do {
       bs \<leftarrow> those (map (rd strHZ) [0..<l]);
       Some (case place (be_word bs 0) fcitx_utf8_in_gb18030 0 of Some i \<Rightarrow> i | None \<Rightarrow> 63361) }
     else Some 63361 }"

section \<open>Keys\<close>

definition IsInputKey :: "TableDict \<Rightarrow> int \<Rightarrow> bool" where
  "IsInputKey td iKey \<longleftrightarrow> iKey \<in> sint ` set (strInputCode td) \<or> (bHasPinyin td \<and> 0x61 \<le> iKey \<and> iKey \<le> 0x7a)"

definition IsEndKey :: "TableMetaData \<Rightarrow> byte \<Rightarrow> bool" where
  "IsEndKey tm cChar = (case strEndCode tm of None \<Rightarrow> False | Some s \<Rightarrow> cChar \<in> set s)"

definition IsIgnoreChar :: "TableDict \<Rightarrow> byte \<Rightarrow> bool" where
  "IsIgnoreChar td cChar \<longleftrightarrow> cChar \<in> set (strIgnoreChars td)"

definition HasMatchingKey :: "TableMetaData \<Rightarrow> buf \<Rightarrow> bool" where
  "HasMatchingKey tm strCodeInput \<longleftrightarrow> cMatchingKey tm \<in> set strCodeInput"

definition UpdateTableMetaData :: "TableDict \<Rightarrow> TableMetaData \<Rightarrow> TableMetaData" where
  "UpdateTableMetaData td tm = tm\<lparr>
     iTableAutoSendToClient :=
       (if iTableAutoSendToClient tm = - 1 then int (unat (iCodeLength td)) else iTableAutoSendToClient tm),
     iTableAutoSendToClientWhenNone :=
       (if iTableAutoSendToClientWhenNone tm = - 1 then int (unat (iCodeLength td)) else iTableAutoSendToClientWhenNone tm)\<rparr>"


section \<open>Loading\<close>

text \<open>
  Reading from a file may fault, come short, or give a value. When it comes short the file of the system is tried;
  two variables of the function keep their values then: whether the version is an old one, and the first key of the
  record before.
\<close>

type_synonym kept = "bool \<times> byte"

datatype 'a load = Fault | Short kept | Got 'a

fun load_bind :: "'a load \<Rightarrow> ('a \<Rightarrow> 'b load) \<Rightarrow> 'b load" where
  "load_bind Fault f = Fault"
| "load_bind (Short k) f = Short k"
| "load_bind (Got x) f = f x"

definition sure :: "'a option \<Rightarrow> 'a load" where
  "sure x = (case x of None \<Rightarrow> Fault | Some y \<Rightarrow> Got y)"

definition get_u8 :: "kept \<Rightarrow> buf \<Rightarrow> (byte \<times> buf) load" where
  "get_u8 k f = (case f of [] \<Rightarrow> Short k | b # f \<Rightarrow> Got (b, f))"

definition get_u32 :: "kept \<Rightarrow> buf \<Rightarrow> (uint32 \<times> buf) load" where
  "get_u32 k f = (case fcitx_utils_read_uint32 f of (Some v, f) \<Rightarrow> Got (v, f) | (None, f) \<Rightarrow> Short k)"

definition get_bytes :: "kept \<Rightarrow> nat \<Rightarrow> buf \<Rightarrow> (buf \<times> buf) load" where
  "get_bytes k n f = (if n \<le> length f then Got (take n f, drop n f) else Short k)"

definition get_string :: "kept \<Rightarrow> nat \<Rightarrow> buf \<Rightarrow> (buf \<times> buf) load" where
  "get_string k n f = load_bind (get_bytes k n f) (\<lambda>(a, f). load_bind (sure (c_string a)) (\<lambda>s. Got (s, f)))"

fun get_rule_rules :: "kept \<Rightarrow> nat \<Rightarrow> buf \<Rightarrow> (RULE_RULE list \<times> buf) load" where
  "get_rule_rules k 0 f = Got ([], f)"
| "get_rule_rules k (Suc n) f =
     load_bind (get_u8 k f) (\<lambda>(flag, f).
     load_bind (get_u8 k f) (\<lambda>(which, f).
     load_bind (get_u8 k f) (\<lambda>(index, f).
     load_bind (get_rule_rules k n f) (\<lambda>(rs, f).
       Got (\<lparr> rr_iFlag = flag, rr_iWhich = which, rr_iIndex = index \<rparr> # rs, f)))))"

fun get_rules :: "kept \<Rightarrow> nat \<Rightarrow> nat \<Rightarrow> buf \<Rightarrow> (RULE list \<times> buf) load" where
  "get_rules k codes 0 f = Got ([], f)"
| "get_rules k codes (Suc n) f =
     load_bind (get_u8 k f) (\<lambda>(flag, f).
     load_bind (get_u8 k f) (\<lambda>(words, f).
     load_bind (get_rule_rules k codes f) (\<lambda>(rr, f).
     load_bind (get_rules k codes n f) (\<lambda>(rs, f).
       Got (\<lparr> ru_iWords = words, ru_iFlag = flag, ru_rule = rr \<rparr> # rs, f)))))"

text \<open>A new dictionary is zero; the empty heap is the null pointer of its head.\<close>

definition new_dict :: TableDict where
  "new_dict = \<lparr> strInputCode = [], recordIndex = [], iCodeLength = 0, iPYCodeLength = 0, strIgnoreChars = [], bRule = 0,
     rules = [], iRecordCount = 0, tableSingleHZ = (\<lambda>_. None), tableSingleHZCons = (\<lambda>_. None), iTableIndex = 0,
     bHasPinyin = False, currentRecord = None, td_heap = [], fh = [], strNewPhraseCode = [],
     autoPhrase = None, insertPoint = 0, iAutoPhrase = 0, iTableChanged = 0, iHZLastInputCount = 0,
     hzLastInput = replicate PHRASE_MAX_LENGTH (replicate 7 0), promptCode = (\<lambda>_. None) \<rparr>"

text \<open>The version: a first number of 0 is followed by it.\<close>

definition load_version :: "kept \<Rightarrow> buf \<Rightarrow> (kept \<times> uint32 \<times> buf) load" where
  "load_version k f = load_bind (get_u32 k f) (\<lambda>(n, f).
     if n \<noteq> 0 then Got (k, n, f)
     else load_bind (get_u8 k f) (\<lambda>(v, f). let k = (sint v < sint INTERNAL_VERSION, snd k) in
       load_bind (get_u32 k f) (\<lambda>(n, f). Got (k, n, f))))"

text \<open>Up to the number of records. The keys get an index with 26 more places; a code length of zero asks for the rules of -1 codes.\<close>

definition load_head :: "kept \<Rightarrow> uint32 \<Rightarrow> buf \<Rightarrow> (TableDict \<times> buf) load" where
  "load_head k n f =
     load_bind (get_string k (unat (n + 1)) f) (\<lambda>(keys, f).
     load_bind (get_u8 k f) (\<lambda>(codes, f).
     load_bind (if fst k then Got (codes, f) else get_u8 k f) (\<lambda>(pycodes, f).
     load_bind (get_u32 k f) (\<lambda>(n, f).
     load_bind (get_string k (unat (n + 1)) f) (\<lambda>(ignored, f).
     load_bind (get_u8 k f) (\<lambda>(rule, f).
     load_bind (if rule = 0 then Got ([], f) else if codes = 0 then Fault
       else get_rules k (unat codes) (unat codes - 1) f) (\<lambda>(rs, f).
     load_bind (get_u32 k f) (\<lambda>(count, f).
       Got (new_dict\<lparr>strInputCode := keys, recordIndex := replicate (length keys + 26) (0, None), iCodeLength := codes,
         iPYCodeLength := pycodes, strIgnoreChars := ignored, bRule := rule, rules := rs, iRecordCount := count,
         currentRecord := Some 0, td_heap := [null_record]\<rparr>, f)))))))))"

text \<open>
  The parts of a record. The code is read to an array of 31 bytes on the stack, whatever the length of codes is.
\<close>

definition get_record :: "kept \<Rightarrow> nat \<Rightarrow> buf \<Rightarrow> (RECORD \<times> buf) load" where
  "get_record k n f =
     (if min n (length f) > MAX_CODE_LENGTH + 1 then Fault
      else load_bind (get_bytes k n f) (\<lambda>(code, f).
        load_bind (get_u32 k f) (\<lambda>(l, f).
        if l > of_nat (utf8_max * 30) then Short k
        else load_bind (get_bytes k (unat l) f) (\<lambda>(hz, f).
        load_bind (sure (c_string code)) (\<lambda>code.
        load_bind (sure (c_string hz)) (\<lambda>hz.
        load_bind (if fst k then Got (RECORDTYPE_NORMAL, f) else get_u8 k f) (\<lambda>(type, f).
        load_bind (get_u32 k f) (\<lambda>(iHit, f).
        load_bind (get_u32 k f) (\<lambda>(iIndex, f).
          Got (\<lparr> rc_strCode = code, rc_strHZ = hz, rc_room = n, rc_next = 0, rc_prev = 0, rc_iHit = iHit,
            rc_iIndex = iIndex, rc_type = type \<rparr>, f))))))))))"

text \<open>A record whose code begins with another key than the one before gets an entry of the index, if there is room.\<close>

definition first_key :: "RECORD \<Rightarrow> byte" where
  "first_key r = (if rc_strCode r = [] then 0 else hd (rc_strCode r))"

definition index_record_at :: "RECORD \<Rightarrow> nat \<Rightarrow> TableDict \<times> nat \<times> byte \<Rightarrow> (TableDict \<times> nat \<times> byte) option" where
  "index_record_at r p s = (case s of (td, i, c) \<Rightarrow>
     if c = first_key r then Some (td, i, c)
     else if i < length (recordIndex td)
     then Some (td\<lparr>recordIndex := (recordIndex td)[i := (first_key r, Some p)]\<rparr>, Suc i, first_key r)
     else None)"

text \<open>
  The record of a character is the one with the longest code. The code of a record for making phrases is compared
  with that of the normal record of the character, which need not be there.
\<close>

definition longer_code :: "TableDict \<Rightarrow> RECORD \<Rightarrow> nat \<Rightarrow> bool option" where
  "longer_code td r i = do {
     q \<leftarrow> tableSingleHZ td i;
     s \<leftarrow> rec_of td q;
     Some (length (rc_strCode r) > length (rc_strCode s)) }"

definition single_record :: "RECORD \<Rightarrow> nat \<Rightarrow> TableDict \<Rightarrow> TableDict option" where
  "single_record r p td = do {
     n \<leftarrow> fcitx_utf8_strlen (rc_strHZ r);
     if n = 1 \<and> \<not> IsIgnoreChar td (first_key r) then do {
       i \<leftarrow> CalHZIndex (rc_strHZ r);
       if rc_type r = RECORDTYPE_NORMAL then do {
         new \<leftarrow> (if tableSingleHZ td i = None then Some True else longer_code td r i);
         Some (if new then td\<lparr>tableSingleHZ := (tableSingleHZ td)(i := Some p)\<rparr> else td) }
       else if rc_type r = RECORDTYPE_CONSTRUCT then do {
         new \<leftarrow> (if tableSingleHZCons td i = None then Some True else longer_code td r i);
         Some (if new then td\<lparr>tableSingleHZCons := (tableSingleHZCons td)(i := Some p)\<rparr> else td) }
       else Some td }
     else Some td }"

definition link_last :: "RECORD \<Rightarrow> nat \<Rightarrow> TableDict \<Rightarrow> TableDict" where
  "link_last r p td = (let q = the (currentRecord td) in
     (upd_rec q (\<lambda>s. s\<lparr>rc_next := p\<rparr>) (td\<lparr>td_heap := td_heap td @ [r\<lparr>rc_prev := q\<rparr>]\<rparr>))\<lparr>currentRecord := Some p\<rparr>)"

definition add_record :: "RECORD \<Rightarrow> TableDict \<times> nat \<times> byte \<Rightarrow> (TableDict \<times> nat \<times> byte) option" where
  "add_record r s = (case s of (td, i, c) \<Rightarrow> let p = length (td_heap td) in do {
     (td, i, c) \<leftarrow> index_record_at r p (td\<lparr>iTableIndex := max (iTableIndex td) (rc_iIndex r)\<rparr>, i, c);
     td \<leftarrow> single_record r p td;
     let td = td\<lparr>bHasPinyin := (bHasPinyin td \<or> rc_type r = RECORDTYPE_PINYIN)\<rparr>;
     let td = (if rc_type r = RECORDTYPE_PROMPT \<and> length (rc_strCode r) = 1
       then td\<lparr>promptCode := (promptCode td)(first_key r := Some p)\<rparr> else td);
     Some (link_last r p td, i, c) })"

fun load_records :: "bool \<Rightarrow> nat \<Rightarrow> TableDict \<times> nat \<times> byte \<Rightarrow> buf \<Rightarrow> (TableDict \<times> nat \<times> byte) load" where
  "load_records old 0 s f = Got s"
| "load_records old (Suc n) s f =
     load_bind (get_record (old, snd (snd s)) (unat (iPYCodeLength (fst s)) + 1) f) (\<lambda>(r, f).
     load_bind (sure (add_record r s)) (\<lambda>s. load_records old n s f))"

text \<open>The circle is closed when all records are there.\<close>

definition close_circle :: "TableDict \<Rightarrow> TableDict" where
  "close_circle td = (let q = the (currentRecord td) in
     upd_rec 0 (\<lambda>s. s\<lparr>rc_prev := q\<rparr>) (upd_rec q (\<lambda>s. s\<lparr>rc_next := 0\<rparr>) td))"

definition load_table :: "kept \<Rightarrow> buf \<Rightarrow> (kept \<times> TableDict) load" where
  "load_table k f =
     load_bind (load_version k f) (\<lambda>(k, n, f).
     load_bind (load_head k n f) (\<lambda>(td, f).
     load_bind (load_records (fst k) (unat (iRecordCount td)) (td, 0, snd k) f) (\<lambda>(td, i, c).
       Got ((fst k, c), close_circle td))))"


text \<open>
  The table of symbols has a line for each, with the newline that \<open>getline\<close> keeps; it ends at the first line that is
  not valid or too long. The string of a line ends at a null byte.
\<close>

fun text_line :: "buf \<Rightarrow> buf \<times> buf" where
  "text_line [] = ([], [])"
| "text_line (c # f) = (if c = 0x0a then ([c], f) else (let (l, f) = text_line f in (c # l, f)))"

fun load_fh :: "nat \<Rightarrow> buf \<Rightarrow> buf list option" where
  "load_fh 0 f = Some []"
| "load_fh (Suc n) f = (if f = [] then Some []
     else (let (l, f) = text_line f; s = takeWhile (\<lambda>c. c \<noteq> 0) l in do {
       ok \<leftarrow> fcitx_utf8_check_string s;
       k \<leftarrow> fcitx_utf8_strlen s;
       if \<not> ok \<or> k > of_nat FH_MAX_LENGTH then Some []
       else map_option ((#) s) (load_fh n f) }))"

text \<open>
  The phrases that were made before: their number, an unsigned one here, may be too large for the array. A phrase
  that cannot be read ends the list.
\<close>

definition new_auto :: "nat \<Rightarrow> AUTOPHRASE" where
  "new_auto codes = \<lparr> ap_strHZ = replicate phrase_room 0, ap_strCode = replicate (codes + 1) 0, ap_iSelected = 0 \<rparr>"

definition load_auto1 :: "nat \<Rightarrow> buf \<Rightarrow> (AUTOPHRASE \<times> buf) option option" where
  "load_auto1 codes f =
     (if length f < codes + 1 + phrase_room then Some None
      else (let code = take (codes + 1) f; hz = (take phrase_room (drop (codes + 1) f))[60 := 0];
          f = drop (codes + 1 + phrase_room) f in do {
        s \<leftarrow> c_string hz;
        ok \<leftarrow> fcitx_utf8_check_string s;
        Some (if \<not> ok then None
          else (case fcitx_utils_read_uint32 f of
            (Some n, f) \<Rightarrow> Some (\<lparr> ap_strHZ = hz, ap_strCode = code, ap_iSelected = ucast n \<rparr>, f)
          | (None, f) \<Rightarrow> None)) }))"

fun load_autos :: "nat \<Rightarrow> nat \<Rightarrow> buf \<Rightarrow> AUTOPHRASE list option" where
  "load_autos codes 0 f = Some []"
| "load_autos codes (Suc n) f = do {
     r \<leftarrow> load_auto1 codes f;
     case r of None \<Rightarrow> Some [] | Some (a, f) \<Rightarrow> map_option ((#) a) (load_autos codes n f) }"

definition load_auto_file :: "nat \<Rightarrow> buf option \<Rightarrow> (int \<times> AUTOPHRASE list) option" where
  "load_auto_file codes file = (case file of None \<Rightarrow> Some (0, [])
     | Some f \<Rightarrow> (case fcitx_utils_read_uint32 f of
         (None, f) \<Rightarrow> Some (0, [])
       | (Some n, f) \<Rightarrow> do {
           as \<leftarrow> load_autos codes (unat n) f;
           if unat n > AUTO_PHRASE_COUNT \<and> length as \<ge> AUTO_PHRASE_COUNT then None
           else Some (if length as = unat n then sint n else int (length as), as) }))"

definition load_rest :: "TableMetaData \<Rightarrow> buf option \<Rightarrow> TableDict \<Rightarrow> TableDict option" where
  "load_rest tm symbols td = do {
     fh \<leftarrow> (case symbols of None \<Rightarrow> Some [] | Some f \<Rightarrow> load_fh (fcitx_utils_calculate_record_number f) f);
     let codes = unat (iCodeLength td);
     let td = td\<lparr>fh := fh, strNewPhraseCode := replicate (codes + 1) 0, iAutoPhrase := 0\<rparr>;
     if bAutoPhrase tm then do {
       (n, as) \<leftarrow> load_auto_file codes (auto_file tm);
       Some (td\<lparr>iAutoPhrase := n, autoPhrase := Some (as @ replicate (AUTO_PHRASE_COUNT - length as) (new_auto codes)),
         insertPoint := 0\<rparr>) }
     else Some (td\<lparr>autoPhrase := None\<rparr>) }"

text \<open>
  The code length that a file has changes the settings of the table even when the file is bad later on. The first
  file is that of the user or, when there is none, that of the system; the second that of the system.
\<close>

definition load_codes :: "kept \<Rightarrow> buf \<Rightarrow> TableMetaData \<Rightarrow> TableMetaData" where
  "load_codes k f tm =
     (case load_bind (load_version k f) (\<lambda>(k, n, f). load_bind (get_string k (unat (n + 1)) f) (\<lambda>(keys, f). get_u8 k f)) of
        Got (codes, f) \<Rightarrow> UpdateTableMetaData (new_dict\<lparr>iCodeLength := codes\<rparr>) tm
      | _ \<Rightarrow> tm)"

definition load_file :: "kept \<Rightarrow> buf \<Rightarrow> TableMetaData \<Rightarrow> (kept \<times> TableDict) load \<times> TableMetaData" where
  "load_file k f tm = (load_table k f, load_codes k f tm)"

definition LoadTableDict :: "buf option \<Rightarrow> buf option \<Rightarrow> TableMetaData \<Rightarrow> (bool \<times> TableMetaData) option" where
  "LoadTableDict system symbols tm =
     (let finish = (\<lambda>td tm. map_option (\<lambda>td. (True, tm\<lparr>tableDict := Some td\<rparr>)) (load_rest tm symbols td)) in
      case (case table_file tm of None \<Rightarrow> system | Some f \<Rightarrow> Some f) of None \<Rightarrow> Some (False, tm)
      | Some f \<Rightarrow> (case load_file (True, 0) f tm of
          (Fault, tm) \<Rightarrow> None
        | (Got (k, td), tm) \<Rightarrow> finish td tm
        | (Short k, tm) \<Rightarrow> (case system of None \<Rightarrow> Some (False, tm\<lparr>tableDict := Some new_dict\<rparr>)
            | Some f \<Rightarrow> (case load_file k f tm of
                (Fault, tm) \<Rightarrow> None
              | (Got (k, td), tm) \<Rightarrow> finish td tm
              | (Short k, tm) \<Rightarrow> Some (False, tm\<lparr>tableDict := Some new_dict\<rparr>)))))"

section \<open>Saving\<close>

text \<open>The bytes of the array of a code; a longer length than its array has reads behind it.\<close>

definition code_bytes :: "nat \<Rightarrow> RECORD \<Rightarrow> buf option" where
  "code_bytes n r = (if n > rc_room r \<or> length (rc_strCode r) \<ge> rc_room r then None
     else Some (take n (rc_strCode r @ replicate (rc_room r - length (rc_strCode r)) 0)))"

definition record_bytes :: "nat \<Rightarrow> RECORD \<Rightarrow> buf option" where
  "record_bytes n r = map_option (\<lambda>code. code @ fcitx_utils_write_uint32 (of_nat (length (rc_strHZ r) + 1)) @ rc_strHZ r @ [0] @
     [rc_type r] @ fcitx_utils_write_uint32 (rc_iHit r) @ fcitx_utils_write_uint32 (rc_iIndex r)) (code_bytes n r)"

text \<open>From a record on to the head; more records than the heap has are a circle without the head.\<close>

fun records_bytes :: "nat \<Rightarrow> TableDict \<Rightarrow> nat \<Rightarrow> buf option" where
  "records_bytes fuel td 0 = Some []"
| "records_bytes 0 td (Suc p) = None"
| "records_bytes (Suc fuel) td (Suc p) = do {
     r \<leftarrow> rec_of td (Suc p);
     x \<leftarrow> record_bytes (unat (iPYCodeLength td) + 1) r;
     y \<leftarrow> records_bytes fuel td (rc_next r);
     Some (x @ y) }"

definition rule_bytes :: "RULE \<Rightarrow> buf" where
  "rule_bytes r = ru_iFlag r # ru_iWords r # concat (map (\<lambda>s. [rr_iFlag s, rr_iWhich s, rr_iIndex s]) (ru_rule r))"

definition string_bytes :: "buf \<Rightarrow> buf" where
  "string_bytes s = fcitx_utils_write_uint32 (of_nat (length s)) @ s @ [0]"

definition head_bytes :: "TableDict \<Rightarrow> buf" where
  "head_bytes td = fcitx_utils_write_uint32 0 @ [INTERNAL_VERSION] @ string_bytes (strInputCode td) @
     [iCodeLength td, iPYCodeLength td] @ string_bytes (strIgnoreChars td) @ [bRule td] @
     (if bRule td = 0 then [] else concat (map rule_bytes (rules td))) @ fcitx_utils_write_uint32 (iRecordCount td)"

definition auto_bytes :: "AUTOPHRASE \<Rightarrow> buf" where
  "auto_bytes a = ap_strCode a @ ap_strHZ a @ fcitx_utils_write_uint32 (scast (ap_iSelected a))"

text \<open>The number of phrases is compared as an unsigned one; a negative one reads behind the array.\<close>

definition autos_bytes :: "int \<Rightarrow> AUTOPHRASE list \<Rightarrow> buf option" where
  "autos_bytes n as = (if n < 0 \<or> nat n > length as then None
     else Some (fcitx_utils_write_uint32 (of_int n) @ concat (map auto_bytes (take (nat n) as))))"

definition SaveTableDict :: "TableMetaData \<Rightarrow> TableMetaData option" where
  "SaveTableDict tm = do {
     td \<leftarrow> tableDict tm;
     if iTableChanged td = 0 \<or> \<not> table_disk tm then Some tm
     else do {
       h \<leftarrow> (case td_heap td of [] \<Rightarrow> None | h # hs \<Rightarrow> Some h);
       rs \<leftarrow> records_bytes (length (td_heap td)) td (rc_next h);
       let tm = tm\<lparr>table_file := Some (head_bytes td @ rs), tableDict := Some (td\<lparr>iTableChanged := 0\<rparr>)\<rparr>;
       case autoPhrase td of None \<Rightarrow> Some tm
       | Some as \<Rightarrow> map_option (\<lambda>bs. tm\<lparr>auto_file := Some bs\<rparr>) (autos_bytes (iAutoPhrase td) as) } }"

definition FreeTableDict :: "TableMetaData \<Rightarrow> TableMetaData option" where
  "FreeTableDict tm = do {
     td \<leftarrow> tableDict tm;
     if td_heap td = [] then Some tm else map_option (\<lambda>tm. tm\<lparr>tableDict := None\<rparr>) (SaveTableDict tm) }"


section \<open>Finding\<close>

text \<open>The first entry of the index with a key; without one the index is read behind its end.\<close>

fun index_place :: "byte \<Rightarrow> (byte \<times> nat option) list \<Rightarrow> nat \<Rightarrow> nat option" where
  "index_place c [] i = None"
| "index_place c ((d, r) # es) i = (if c = d then Some i else index_place c es (Suc i))"

fun find_phrase :: "nat \<Rightarrow> TableDict \<Rightarrow> byte \<Rightarrow> buf \<Rightarrow> nat \<Rightarrow> nat option option" where
  "find_phrase fuel td c strHZ 0 = Some None"
| "find_phrase 0 td c strHZ (Suc p) = None"
| "find_phrase (Suc fuel) td c strHZ (Suc p) = do {
     r \<leftarrow> rec_of td (Suc p);
     if first_key r \<noteq> c then Some None
     else if rc_strHZ r = strHZ \<and> rc_type r \<noteq> RECORDTYPE_PINYIN then Some (Some (Suc p))
     else find_phrase fuel td c strHZ (rc_next r) }"

text \<open>
  Only the records whose code begins with the key of the first character are looked at, from the entry of the
  index on. The inner option is the null pointer; a null entry of the index is followed.
\<close>

definition TableFindPhrase :: "TableDict \<Rightarrow> buf \<Rightarrow> nat option option" where
  "TableFindPhrase td strHZ = do {
     l \<leftarrow> fcitx_utf8_char_len strHZ 0;
     i \<leftarrow> CalHZIndex (take l (strHZ @ replicate l 0));
     case tableSingleHZ td i of None \<Rightarrow> Some None
     | Some p \<Rightarrow> do {
         r \<leftarrow> rec_of td p;
         k \<leftarrow> index_place (first_key r) (recordIndex td) 0;
         q \<leftarrow> snd (recordIndex td ! k);
         find_phrase (length (td_heap td)) td (first_key r) strHZ q } }"

text \<open>Where a phrase belongs: in front of the first larger code, unless it is there (\<open>None\<close> inside).\<close>

fun has_phrase :: "nat \<Rightarrow> TableDict \<Rightarrow> buf \<Rightarrow> buf \<Rightarrow> nat \<Rightarrow> nat option option" where
  "has_phrase fuel td strCode strHZ 0 = Some (Some 0)"
| "has_phrase 0 td strCode strHZ (Suc p) = None"
| "has_phrase (Suc fuel) td strCode strHZ (Suc p) = do {
     r \<leftarrow> rec_of td (Suc p);
     if rc_type r \<noteq> RECORDTYPE_PINYIN \<and> strcmp (rc_strCode r) strCode > 0 then Some (Some (Suc p))
     else if rc_type r \<noteq> RECORDTYPE_PINYIN \<and> rc_strCode r = strCode \<and> rc_strHZ r = strHZ then Some None
     else has_phrase fuel td strCode strHZ (rc_next r) }"

definition TableHasPhrase :: "TableDict \<Rightarrow> buf \<Rightarrow> buf \<Rightarrow> nat option option" where
  "TableHasPhrase td strCode strHZ = do {
     c \<leftarrow> rd strCode 0;
     k \<leftarrow> index_place c (recordIndex td) 0;
     q \<leftarrow> snd (recordIndex td ! k);
     has_phrase (length (td_heap td)) td strCode strHZ q }"

text \<open>The characters of the code of the user are compared as signed ones.\<close>

fun compare_code :: "bool \<Rightarrow> byte \<Rightarrow> bool \<Rightarrow> buf \<Rightarrow> buf \<Rightarrow> int" where
  "compare_code wild key exact [] strDict = (if exact \<and> strDict \<noteq> [] then - 999 else 0)"
| "compare_code wild key exact (u # strUser) [] = sint u"
| "compare_code wild key exact (u # strUser) (d # strDict) =
     (if \<not> (wild \<and> u = key) \<and> u \<noteq> d then sint u - sint d else compare_code wild key exact strUser strDict)"

definition TableCompareCode :: "TableMetaData \<Rightarrow> buf \<Rightarrow> buf \<Rightarrow> bool \<Rightarrow> int" where
  "TableCompareCode tm strUser strDict exactMatch =
     compare_code (bUseMatchingKey tm) (cMatchingKey tm) exactMatch strUser strDict"

fun first_match :: "nat \<Rightarrow> TableMetaData \<Rightarrow> TableDict \<Rightarrow> buf \<Rightarrow> bool \<Rightarrow> nat \<Rightarrow> nat option option" where
  "first_match fuel tm td code exact 0 = Some None"
| "first_match 0 tm td code exact (Suc p) = None"
| "first_match (Suc fuel) tm td code exact (Suc p) = do {
     r \<leftarrow> rec_of td (Suc p);
     if TableCompareCode tm code (rc_strCode r) exact = 0 then Some (Some (Suc p))
     else first_match fuel tm td code exact (rc_next r) }"

text \<open>
  The entry of the index for a key: the first with the key or without one. The code is found in some record from there
  on, whatever its first key. The result is only compared with -1; the record is the second component.
\<close>

fun index_entry :: "byte \<Rightarrow> (byte \<times> nat option) list \<Rightarrow> nat option option" where
  "index_entry c [] = None"
| "index_entry c ((d, r) # es) = (if c = d \<or> d = 0 then Some r else index_entry c es)"

definition TableFindFirstMatchCode :: "TableMetaData \<Rightarrow> TableDict \<Rightarrow> buf \<Rightarrow> bool \<Rightarrow> (bool \<times> nat option) option" where
  "TableFindFirstMatchCode tm td code exact =
     (if td_heap td = [] then Some (False, currentRecord td)
      else do {
        c \<leftarrow> rd code 0;
        r \<leftarrow> (if bUseMatchingKey tm \<and> c = cMatchingKey tm
          then (case recordIndex td of [] \<Rightarrow> None | e # _ \<Rightarrow> Some (snd e)) else index_entry c (recordIndex td));
        case r of None \<Rightarrow> Some (False, None)
        | Some p \<Rightarrow> do {
            q \<leftarrow> first_match (length (td_heap td)) tm td code exact p;
            Some (case q of None \<Rightarrow> (False, Some 0) | Some q \<Rightarrow> (True, Some q)) } })"

section \<open>Changing\<close>

definition link_record :: "nat \<Rightarrow> nat \<Rightarrow> TableDict \<Rightarrow> TableDict" where
  "link_record p q td = (let r = rc_prev (td_heap td ! q) in
     upd_rec q (\<lambda>s. s\<lparr>rc_prev := p\<rparr>) (upd_rec r (\<lambda>s. s\<lparr>rc_next := p\<rparr>)
       (upd_rec p (\<lambda>s. s\<lparr>rc_prev := r, rc_next := q\<rparr>) td)))"

definition unlink :: "nat \<Rightarrow> TableDict \<Rightarrow> TableDict" where
  "unlink p td = (let s = td_heap td ! p in
     upd_rec (rc_next s) (\<lambda>t. t\<lparr>rc_prev := rc_prev s\<rparr>) (upd_rec (rc_prev s) (\<lambda>t. t\<lparr>rc_next := rc_next s\<rparr>) td))"

text \<open>The code is copied to an array for the code length of the table.\<close>

definition TableInsertPhrase :: "TableDict \<Rightarrow> buf \<Rightarrow> buf \<Rightarrow> TableDict option" where
  "TableInsertPhrase td strCode strHZ = do {
     q \<leftarrow> TableHasPhrase td strCode strHZ;
     case q of None \<Rightarrow> Some td
     | Some q \<Rightarrow>
         if length strCode > unat (iCodeLength td) then None
         else (let p = length (td_heap td) in
           Some ((link_record p q (td\<lparr>td_heap := td_heap td @ [\<lparr> rc_strCode = strCode, rc_strHZ = strHZ,
             rc_room = unat (iCodeLength td) + 1, rc_next = 0, rc_prev = 0, rc_iHit = 0, rc_iIndex = iTableIndex td,
             rc_type = RECORDTYPE_NORMAL \<rparr>]\<rparr>))
           \<lparr>iRecordCount := iRecordCount td + 1, iTableChanged := iTableChanged td + 1\<rparr>)) }"

definition TableDelPhrase :: "TableDict \<Rightarrow> nat \<Rightarrow> TableDict" where
  "TableDelPhrase td p = (unlink p td)\<lparr>iRecordCount := iRecordCount td - 1, iTableChanged := iTableChanged td + 1\<rparr>"

definition TableDelPhraseByHZ :: "TableDict \<Rightarrow> buf \<Rightarrow> TableDict option" where
  "TableDelPhraseByHZ td strHZ = do {
     p \<leftarrow> TableFindPhrase td strHZ;
     Some (case p of None \<Rightarrow> td | Some p \<Rightarrow> TableDelPhrase td p) }"

definition TableUpdateHitFrequency :: "table_order \<Rightarrow> TableDict \<Rightarrow> nat \<Rightarrow> TableDict" where
  "TableUpdateHitFrequency order td p = (if order = TAD_NO then td
     else upd_rec p (\<lambda>r. r\<lparr>rc_iHit := rc_iHit r + 1, rc_iIndex := iTableIndex td + 1\<rparr>)
       (td\<lparr>iTableIndex := iTableIndex td + 1, iTableChanged := iTableChanged td + 1\<rparr>))"


section \<open>Codes of phrases\<close>

text \<open>One key of a code: the record of the character that the rule names, counted from the front or the back.\<close>

definition rule_char :: "buf \<Rightarrow> uint64 \<Rightarrow> RULE_RULE \<Rightarrow> buf option" where
  "rule_char strHZ iLen r = do {
     ps \<leftarrow> fcitx_utf8_get_nth_char strHZ
       (if rr_iFlag r \<noteq> 0 then ucast (rr_iWhich r) - 1 else ucast iLen - ucast (rr_iWhich r));
     clen \<leftarrow> fcitx_utf8_char_len strHZ ps;
     Some (take clen (drop ps strHZ @ replicate clen 0)) }"

definition char_record :: "TableDict \<Rightarrow> buf \<Rightarrow> RECORD option option" where
  "char_record td c = do {
     i \<leftarrow> CalHZIndex c;
     case tableSingleHZ td i of None \<Rightarrow> Some None
     | Some p \<Rightarrow> map_option Some (rec_of td (case tableSingleHZCons td i of Some q \<Rightarrow> q | None \<Rightarrow> p)) }"

text \<open>
  The keys are written over the code of the phrase before, which is not cleared: a key that a code does not have
  shortens the new code, and the end of the old one stays. The result tells that a character has no record.
\<close>

fun phrase_keys :: "TableDict \<Rightarrow> buf \<Rightarrow> uint64 \<Rightarrow> RULE_RULE list \<Rightarrow> nat \<Rightarrow> buf \<Rightarrow> (bool \<times> buf) option" where
  "phrase_keys td strHZ iLen [] n code = Some (False, code)"
| "phrase_keys td strHZ iLen (r # rs) n code = do {
     c \<leftarrow> rule_char strHZ iLen r;
     rec \<leftarrow> char_record td c;
     case rec of None \<Rightarrow> Some (True, code)
     | Some s \<Rightarrow>
         if length (rc_strCode s) < unat (rr_iIndex r) then phrase_keys td strHZ iLen rs n code
         else if rr_iIndex r = 0 then None
         else phrase_keys td strHZ iLen rs (Suc n) (code[n := rc_strCode s ! (unat (rr_iIndex r) - 1)]) }"

fun phrase_rule :: "byte \<Rightarrow> byte \<Rightarrow> RULE list \<Rightarrow> RULE option" where
  "phrase_rule words flag [] = None"
| "phrase_rule words flag (r # rs) = (if ru_iWords r = words \<and> ru_iFlag r = flag then Some r else phrase_rule words flag rs)"

text \<open>The rules of a table without rules are a null pointer.\<close>

definition TableCreatePhraseCode :: "TableDict \<Rightarrow> buf \<Rightarrow> (bool \<times> TableDict) option" where
  "TableCreatePhraseCode td strHZ = do {
     iLen \<leftarrow> fcitx_utf8_strlen strHZ;
     let (words, flag) = (if iLen \<ge> ucast (iCodeLength td) then (iCodeLength td, 1) else (ucast iLen, 0));
     if iCodeLength td > 1 \<and> rules td = [] then None
     else (case phrase_rule words flag (rules td) of None \<Rightarrow> Some (iCodeLength td \<noteq> 0, td)
       | Some r \<Rightarrow> do {
           (lost, code) \<leftarrow> phrase_keys td strHZ iLen (ru_rule r) 0 (strNewPhraseCode td);
           Some (lost, td\<lparr>strNewPhraseCode := code\<rparr>) }) }"

section \<open>Phrases of what was typed\<close>

text \<open>The last characters that were typed, each in an array of seven bytes; there are ten of them.\<close>

fun last_chars :: "TableDict \<Rightarrow> nat \<Rightarrow> nat \<Rightarrow> buf option" where
  "last_chars td j 0 = Some []"
| "last_chars td j (Suc n) = (if j \<ge> length (hzLastInput td) then None
     else do {
       s \<leftarrow> c_string (hzLastInput td ! j);
       t \<leftarrow> last_chars td (Suc j) n;
       Some (s @ t) })"

definition known_auto :: "TableDict \<Rightarrow> AUTOPHRASE list \<Rightarrow> buf \<Rightarrow> bool option" where
  "known_auto td as strHZ =
     (if iAutoPhrase td > int (length as) then None
      else map_option (\<lambda>ss. strHZ \<in> set ss) (those (map (\<lambda>a. c_string (ap_strHZ a)) (take (nat (iAutoPhrase td)) as))))"

definition put_auto :: "buf \<Rightarrow> buf \<Rightarrow> AUTOPHRASE \<Rightarrow> AUTOPHRASE option" where
  "put_auto code strHZ a = do {
     c \<leftarrow> put_string code (ap_strCode a);
     s \<leftarrow> put_string strHZ (ap_strHZ a);
     Some \<lparr> ap_strHZ = s, ap_strCode = c, ap_iSelected = 0 \<rparr> }"

text \<open>A new phrase goes behind the others or, when the array is full, over the oldest.\<close>

definition store_auto :: "buf \<Rightarrow> TableDict \<Rightarrow> TableDict option" where
  "store_auto strHZ td = do {
     as \<leftarrow> autoPhrase td;
     code \<leftarrow> c_string (strNewPhraseCode td);
     let full = (iAutoPhrase td = int AUTO_PHRASE_COUNT);
     let k = (if full then insertPoint td else nat (iAutoPhrase td));
     if iAutoPhrase td < 0 \<or> k \<ge> length as then None
     else do {
       a \<leftarrow> put_auto code strHZ (as ! k);
       let td = td\<lparr>autoPhrase := Some (as[k := a]), iTableChanged := iTableChanged td + 1\<rparr>;
       Some (if full then td\<lparr>insertPoint := (if k = AUTO_PHRASE_COUNT - 1 then 0 else Suc k)\<rparr>
         else td\<lparr>iAutoPhrase := iAutoPhrase td + 1\<rparr>) } }"

definition auto_step :: "nat \<Rightarrow> nat \<Rightarrow> TableDict \<Rightarrow> TableDict option" where
  "auto_step j i td = (if int j + int i - 1 > iHZLastInputCount td then Some td
     else do {
       strHZ \<leftarrow> last_chars td j i;
       as \<leftarrow> autoPhrase td;
       known \<leftarrow> known_auto td as strHZ;
       if known then Some td
       else do {
         found \<leftarrow> TableFindPhrase td strHZ;
         if found \<noteq> None then Some td
         else do {
           (lost, td) \<leftarrow> TableCreatePhraseCode td strHZ;
           store_auto strHZ td } } })"

fun auto_lengths :: "nat \<Rightarrow> nat list \<Rightarrow> TableDict \<Rightarrow> TableDict option" where
  "auto_lengths j [] td = Some td"
| "auto_lengths j (i # is) td = do { td \<leftarrow> auto_step j i td; auto_lengths j is td }"

fun auto_starts :: "nat list \<Rightarrow> nat list \<Rightarrow> TableDict \<Rightarrow> TableDict option" where
  "auto_starts [] lengths td = Some td"
| "auto_starts (j # js) lengths td = do { td \<leftarrow> auto_lengths j lengths td; auto_starts js lengths td }"

text \<open>
  Only phrases with one of the \<open>iCount\<close> new characters are made, the long ones first. The length is counted as
  allowed up to one character behind the last.
\<close>

definition TableCreateAutoPhrase :: "int \<Rightarrow> int \<Rightarrow> TableDict \<Rightarrow> TableDict option" where
  "TableCreateAutoPhrase len iCount td = (if autoPhrase td = None then Some td
     else (let j = nat (iHZLastInputCount td - len - iCount) in
       auto_starts [j..<nat (iHZLastInputCount td - 1)] (rev [2..<nat len + 1]) td))"

end
