(* ===== verification/TabDict_Laws.thy ===== *)
theory TabDict_Laws
  imports TabDict
begin

text \<open>
  The circle of records implements a list, the file of a table keeps it, and every character of the basic plane has
  a number of its own.
\<close>

section \<open>The circle of records\<close>

fun linked :: "RECORD list \<Rightarrow> nat list \<Rightarrow> bool" where
  "linked h (a # b # ps) \<longleftrightarrow> rc_next (h ! a) = b \<and> rc_prev (h ! b) = a \<and> linked h (b # ps)"
| "linked h ps \<longleftrightarrow> True"

definition circle :: "TableDict \<Rightarrow> nat list \<Rightarrow> bool" where
  "circle td ps \<longleftrightarrow> td_heap td \<noteq> [] \<and> distinct ps \<and> (\<forall>p\<in>set ps. 0 < p \<and> p < length (td_heap td)) \<and>
     linked (td_heap td) (0 # ps @ [0])"

lemma linked_two: "zs \<noteq> [] \<Longrightarrow> linked h (zs @ b # bs) \<longleftrightarrow> linked h zs \<and> linked h (b # bs) \<and> rc_next (h ! last zs) = b \<and> rc_prev (h ! b) = last zs"
  by (induction h zs rule: linked.induct) auto

lemma linked_cong:
  "(\<And>a. a \<in> set (butlast ps) \<Longrightarrow> rc_next (h' ! a) = rc_next (h ! a)) \<Longrightarrow>
   (\<And>b. b \<in> set (tl ps) \<Longrightarrow> rc_prev (h' ! b) = rc_prev (h ! b)) \<Longrightarrow> linked h' ps = linked h ps"
  by (induction h ps rule: linked.induct) auto

text \<open>What a record says, without its place.\<close>

definition says :: "RECORD \<Rightarrow> buf \<times> buf \<times> byte \<times> uint32 \<times> uint32" where
  "says r = (rc_strCode r, rc_strHZ r, rc_type r, rc_iHit r, rc_iIndex r)"

definition entries_of :: "TableDict \<Rightarrow> nat list \<Rightarrow> (buf \<times> buf \<times> byte \<times> uint32 \<times> uint32) list" where
  "entries_of td ps = map (\<lambda>p. says (td_heap td ! p)) ps"

lemma says_links [simp]: "says (r\<lparr>rc_next := a\<rparr>) = says r" "says (r\<lparr>rc_prev := a\<rparr>) = says r"
  by (simp_all add: says_def)

lemma upd_rec_at: "p < length (td_heap td) \<Longrightarrow> td_heap (upd_rec q f td) ! p = (if p = q then f (td_heap td ! p) else td_heap td ! p)"
  by (simp add: upd_rec_def nth_list_update)

lemma upd_rec_length [simp]: "length (td_heap (upd_rec q f td)) = length (td_heap td)"
  by (simp add: upd_rec_def)

lemma next_first: "0 # xs @ ys @ [0] = (0 # xs) @ hd (ys @ [0]) # tl (ys @ [0])"
  by (cases ys) auto

lemma last_in: "last (0 # xs) \<in> set (0 # xs)"
  by (rule last_in_set) simp

lemma linked_front:
  assumes "distinct (0 # xs)" "\<And>a. a \<in> set (0 # xs) \<Longrightarrow> a \<noteq> last (0 # xs) \<Longrightarrow> rc_next (h' ! a) = rc_next (h ! a)"
    "\<And>b. b \<in> set xs \<Longrightarrow> rc_prev (h' ! b) = rc_prev (h ! b)"
  shows "linked h' (0 # xs) = linked h (0 # xs)"
proof (rule linked_cong)
  fix a assume a: "a \<in> set (butlast (0 # xs))"
  have "distinct (butlast (0 # xs) @ [last (0 # xs)])" using assms(1) by (subst append_butlast_last_id) auto
  with a have "a \<noteq> last (0 # xs)" unfolding distinct_append list.set by blast
  with assms(2) in_set_butlastD [OF a] show "rc_next (h' ! a) = rc_next (h ! a)" by blast
qed (use assms(3) in auto)

lemma linked_back:
  assumes "distinct (ys @ [0])" "\<And>a. a \<in> set ys \<Longrightarrow> rc_next (h' ! a) = rc_next (h ! a)"
    "\<And>b. b \<in> set ys \<or> b = 0 \<Longrightarrow> b \<noteq> hd (ys @ [0]) \<Longrightarrow> rc_prev (h' ! b) = rc_prev (h ! b)"
  shows "linked h' (hd (ys @ [0]) # tl (ys @ [0])) = linked h (hd (ys @ [0]) # tl (ys @ [0]))"
proof (rule linked_cong)
  fix a assume "a \<in> set (butlast (hd (ys @ [0]) # tl (ys @ [0])))"
  then show "rc_next (h' ! a) = rc_next (h ! a)" using assms(2) by (cases ys) auto
next
  fix b assume "b \<in> set (tl (hd (ys @ [0]) # tl (ys @ [0])))"
  then show "rc_prev (h' ! b) = rc_prev (h ! b)" using assms(1, 3) by (cases ys) auto
qed

text \<open>Linking a record of no circle in front of the record behind \<open>xs\<close>, and taking a record out.\<close>

lemma link_record_circle:
  fixes xs ys :: "nat list"
  assumes c: "circle td (xs @ ys)" and p: "0 < p" "p < length (td_heap td)" "p \<notin> set (xs @ ys)"
  shows "circle (link_record p (hd (ys @ [0])) td) (xs @ p # ys)"
    "\<And>i. i < length (td_heap td) \<Longrightarrow> says (td_heap (link_record p (hd (ys @ [0])) td) ! i) = says (td_heap td ! i)"
proof -
  define q r where "q = hd (ys @ [0])" and "r = last (0 # xs)"
  let ?h = "td_heap td" and ?h' = "td_heap (link_record p q td)"
  from c have h: "?h \<noteq> []" "distinct (xs @ ys)" "\<forall>p\<in>set (xs @ ys). 0 < p \<and> p < length ?h"
    and "linked ?h ((0 # xs) @ q # tl (ys @ [0]))"
    unfolding circle_def q_def next_first [symmetric] by auto
  then have l: "linked ?h (0 # xs)" "linked ?h (q # tl (ys @ [0]))" "rc_prev (?h ! q) = r"
    using linked_two [of "0 # xs"] unfolding r_def by auto
  have q: "q \<in> set ys \<or> q = 0" "q < length ?h" "q \<noteq> p" using h p unfolding q_def by (cases ys; auto)+
  have r: "r \<in> set xs \<or> r = 0" "r < length ?h" "r \<noteq> p" using h p last_in [of xs] unfolding r_def by (auto split: if_splits)
  have len: "length ?h' = length ?h" by (simp add: link_record_def Let_def)
  have nx: "rc_next (?h' ! i) = (if i = r then p else if i = p then q else rc_next (?h ! i))"
    and pv: "rc_prev (?h' ! i) = (if i = q then p else if i = p then r else rc_prev (?h ! i))"
    and sy: "says (?h' ! i) = says (?h ! i)" if "i < length ?h" for i
    using that q r p l(3) by (auto simp: link_record_def Let_def upd_rec_def nth_list_update says_def)
  show "says (td_heap (link_record p (hd (ys @ [0])) td) ! i) = says (?h ! i)" if "i < length ?h" for i
    using sy [OF that] unfolding q_def .
  have "linked ?h' (0 # xs) = linked ?h (0 # xs)"
    by (rule linked_front; use nx pv h p r(1) q(1) in \<open>auto simp: r_def\<close>)
  moreover have "linked ?h' (q # tl (ys @ [0])) = linked ?h (q # tl (ys @ [0]))"
    unfolding q_def by (rule linked_back; use nx pv h p r(1) q(1) in \<open>auto simp: q_def\<close>)
  ultimately have "linked ?h' ((0 # xs) @ p # q # tl (ys @ [0]))"
    using l nx [of r] nx [of p] pv [of p] pv [of q] p q r linked_two [of "0 # xs" ?h' p "q # tl (ys @ [0])"] by (simp add: r_def)
  moreover have "(0 # xs) @ p # q # tl (ys @ [0]) = 0 # (xs @ p # ys) @ [0]" unfolding q_def by (cases ys) auto
  moreover have "?h' \<noteq> []" using len h(1) by (metis length_0_conv)
  ultimately show "circle (link_record p (hd (ys @ [0])) td) (xs @ p # ys)"
    using h p len unfolding circle_def q_def by auto
qed

lemma unlink_circle:
  fixes xs ys :: "nat list"
  assumes c: "circle td (xs @ p # ys)"
  shows "circle (unlink p td) (xs @ ys)" "\<And>i. i < length (td_heap td) \<Longrightarrow> says (td_heap (unlink p td) ! i) = says (td_heap td ! i)"
proof -
  define q r where "q = hd (ys @ [0])" and "r = last (0 # xs)"
  let ?h = "td_heap td" and ?h' = "td_heap (unlink p td)"
  have q: "p # ys @ [0] = p # q # tl (ys @ [0])" unfolding q_def by (cases ys) auto
  from c have h: "?h \<noteq> []" "distinct (xs @ p # ys)" "\<forall>p\<in>set (xs @ p # ys). 0 < p \<and> p < length ?h"
    and "linked ?h ((0 # xs) @ p # q # tl (ys @ [0]))"
    unfolding circle_def q [symmetric] by auto
  then have l: "linked ?h (0 # xs)" "linked ?h (q # tl (ys @ [0]))" "rc_prev (?h ! p) = r" "rc_next (?h ! p) = q"
    using linked_two [of "0 # xs"] unfolding r_def by auto
  have q: "q \<in> set ys \<or> q = 0" "q < length ?h" using h unfolding q_def by (cases ys; auto)+
  have r: "r \<in> set xs \<or> r = 0" "r < length ?h" using h last_in [of xs] unfolding r_def by (auto split: if_splits)
  have len: "length ?h' = length ?h" by (simp add: unlink_def Let_def)
  have nx: "rc_next (?h' ! i) = (if i = r then q else rc_next (?h ! i))"
    and pv: "rc_prev (?h' ! i) = (if i = q then r else rc_prev (?h ! i))"
    and sy: "says (?h' ! i) = says (?h ! i)" if "i < length ?h" for i
    using that q r l by (auto simp: unlink_def Let_def upd_rec_def nth_list_update says_def)
  show "says (?h' ! i) = says (?h ! i)" if "i < length ?h" for i
    using sy [OF that] .
  have "linked ?h' (0 # xs) = linked ?h (0 # xs)"
    by (rule linked_front; use nx pv h r(1) q(1) in \<open>auto simp: r_def\<close>)
  moreover have "linked ?h' (q # tl (ys @ [0])) = linked ?h (q # tl (ys @ [0]))"
    unfolding q_def by (rule linked_back; use nx pv h r(1) q(1) in \<open>auto simp: q_def\<close>)
  ultimately have "linked ?h' ((0 # xs) @ q # tl (ys @ [0]))"
    using l nx [of r] pv [of q] q r linked_two [of "0 # xs" ?h' q "tl (ys @ [0])"] by (simp add: r_def)
  moreover have "(0 # xs) @ q # tl (ys @ [0]) = 0 # (xs @ ys) @ [0]" unfolding q_def by (cases ys) auto
  moreover have "?h' \<noteq> []" using len h(1) by (metis length_0_conv)
  ultimately show "circle (unlink p td) (xs @ ys)"
    using h len unfolding circle_def q_def by auto
qed


section \<open>Where a phrase belongs\<close>

definition normal :: "TableDict \<Rightarrow> nat \<Rightarrow> bool" where
  "normal td p \<longleftrightarrow> rc_type (td_heap td ! p) \<noteq> RECORDTYPE_PINYIN"

abbreviation code_of :: "TableDict \<Rightarrow> nat \<Rightarrow> buf" where "code_of td p \<equiv> rc_strCode (td_heap td ! p)"

definition sorted_codes :: "TableDict \<Rightarrow> nat list \<Rightarrow> bool" where
  "sorted_codes td ps \<longleftrightarrow> sorted_wrt (\<lambda>a b. strcmp a b \<le> 0) (map (code_of td) (filter (normal td) ps))"

definition the_phrase :: "TableDict \<Rightarrow> buf \<Rightarrow> buf \<Rightarrow> nat \<Rightarrow> bool" where
  "the_phrase td strCode strHZ p \<longleftrightarrow> normal td p \<and> code_of td p = strCode \<and> rc_strHZ (td_heap td ! p) = strHZ"

definition passed :: "TableDict \<Rightarrow> buf \<Rightarrow> buf \<Rightarrow> nat \<Rightarrow> bool" where
  "passed td strCode strHZ p \<longleftrightarrow> normal td p \<longrightarrow> strcmp (code_of td p) strCode \<le> 0 \<and> \<not> the_phrase td strCode strHZ p"

lemma next_of: "circle td (xs @ y # ys) \<Longrightarrow> rc_next (td_heap td ! y) = hd (ys @ [0])"
  using linked_two [of "0 # xs" "td_heap td" y "ys @ [0]"] by (cases ys) (auto simp: circle_def)

lemma rec_of_circle: "circle td ps \<Longrightarrow> p \<in> set ps \<Longrightarrow> rec_of td p = Some (td_heap td ! p) \<and> 0 < p"
  by (auto simp: circle_def rec_of_def)

text \<open>The search passes records up to the phrase, the first larger code or the end.\<close>

lemma has_phrase_walk:
  assumes "circle td (xs @ ys)" "length ys \<le> fuel"
  shows "has_phrase fuel td strCode strHZ (hd (ys @ [0])) =
    Some (case dropWhile (passed td strCode strHZ) ys of [] \<Rightarrow> Some 0
      | p # _ \<Rightarrow> if strcmp (code_of td p) strCode > 0 then Some p else None)"
  using assms
proof (induction ys arbitrary: xs fuel)
  case (Cons y ys)
  obtain q where y: "y = Suc q" using rec_of_circle [OF Cons.prems(1), of y] by (cases y) auto
  obtain f where f: "fuel = Suc f" "length ys \<le> f" using Cons.prems(2) by (cases fuel) auto
  have "rec_of td (Suc q) = Some (td_heap td ! y)" using rec_of_circle [OF Cons.prems(1), of y] y by simp
  moreover have "rc_next (td_heap td ! y) = hd (ys @ [0])" using next_of Cons.prems(1) by blast
  moreover have "has_phrase f td strCode strHZ (hd (ys @ [0])) = Some (case dropWhile (passed td strCode strHZ) ys of [] \<Rightarrow> Some 0
      | p # _ \<Rightarrow> if strcmp (code_of td p) strCode > 0 then Some p else None)"
    using Cons.IH [of "xs @ [y]" f] Cons.prems(1) f(2) by simp
  moreover have "strcmp strCode strCode = 0" by (simp add: strcmp_eq)
  ultimately show ?case
    unfolding f(1) using passed_def [of td strCode strHZ y] the_phrase_def [of td strCode strHZ y] normal_def [of td y]
    by (auto simp: y)
qed simp


lemma says_at: "says r = says s \<Longrightarrow> rc_strCode r = rc_strCode s \<and> rc_strHZ r = rc_strHZ s \<and> rc_type r = rc_type s"
  by (simp add: says_def)

lemma sorted_codes_cong:
  assumes "\<And>p. p \<in> set ps \<Longrightarrow> says (td_heap td' ! p) = says (td_heap td ! p)"
  shows "sorted_codes td' ps = sorted_codes td ps"
proof -
  have *: "code_of td' p = code_of td p" "normal td' p = normal td p" if "p \<in> set ps" for p
    using says_at [OF assms [OF that]] by (simp_all add: normal_def)
  then have "filter (normal td') ps = filter (normal td) ps" by (intro filter_cong) simp_all
  moreover have "map (code_of td') (filter (normal td) ps) = map (code_of td) (filter (normal td) ps)"
    using * by (intro map_cong) simp_all
  ultimately show ?thesis by (simp only: sorted_codes_def)
qed

lemma entries_cong: "(\<And>p. p \<in> set ps \<Longrightarrow> says (td_heap td' ! p) = says (td_heap td ! p)) \<Longrightarrow> entries_of td' ps = entries_of td ps"
  by (simp add: entries_of_def)

lemma sorted_codes_insert:
  assumes "sorted_codes td (zs @ ws)" "normal td p"
    "\<And>z. z \<in> set zs \<Longrightarrow> normal td z \<Longrightarrow> strcmp (code_of td z) (code_of td p) \<le> 0"
    "ws = [] \<or> normal td (hd ws) \<and> strcmp (code_of td (hd ws)) (code_of td p) > 0"
  shows "sorted_codes td (zs @ p # ws)"
proof -
  have s: "sorted_wrt (\<lambda>a b. strcmp a b \<le> 0) (map (code_of td) (filter (normal td) zs))"
    "sorted_wrt (\<lambda>a b. strcmp a b \<le> 0) (map (code_of td) (filter (normal td) ws))"
    "\<And>z w. z \<in> set zs \<Longrightarrow> normal td z \<Longrightarrow> w \<in> set ws \<Longrightarrow> normal td w \<Longrightarrow> strcmp (code_of td z) (code_of td w) \<le> 0"
    using assms(1) by (auto simp: sorted_codes_def sorted_wrt_append)
  have "strcmp (code_of td p) (code_of td w) \<le> 0" if "w \<in> set ws" "normal td w" for w
  proof -
    from that assms(4) obtain v vs where v: "ws = v # vs" "normal td v" "strcmp (code_of td v) (code_of td p) > 0"
      by (cases ws) auto
    have "strcmp (code_of td p) (code_of td v) \<le> 0" using v(3) strcmp_swap [of "code_of td v"] by simp
    moreover have "w = v \<or> strcmp (code_of td v) (code_of td w) \<le> 0"
      using s(2) that v by (auto simp: sorted_codes_def)
    ultimately show ?thesis using strcmp_trans by blast
  qed
  then show ?thesis using s assms(2, 3) by (auto simp: sorted_codes_def sorted_wrt_append)
qed

text \<open>
  The entry of the index for the first key points at \<open>hd (ys @ [0])\<close>; all in front of it have smaller codes.
\<close>

definition entered_at :: "TableDict \<Rightarrow> byte \<Rightarrow> nat \<Rightarrow> bool" where
  "entered_at td c q \<longleftrightarrow> (\<exists>k. index_place c (recordIndex td) 0 = Some k \<and> snd (recordIndex td ! k) = Some q)"

lemma TableHasPhrase_entered:
  assumes "entered_at td c q"
  shows "TableHasPhrase td (c # cs) strHZ = has_phrase (length (td_heap td)) td (c # cs) strHZ q"
  using assms by (auto simp: entered_at_def TableHasPhrase_def rd_def)

lemma circle_short: "circle td (xs @ ys) \<Longrightarrow> length ys \<le> length (td_heap td)"
  using card_mono [of "{0..<length (td_heap td)}" "set ys"] distinct_card [of ys] by (auto simp: circle_def subset_iff)

lemma circle_grow:
  assumes "circle td ps" shows "circle (td\<lparr>td_heap := td_heap td @ [r]\<rparr>) ps"
proof -
  have "linked (td_heap td @ [r]) (0 # ps @ [0]) = linked (td_heap td) (0 # ps @ [0])"
    using assms by (intro linked_cong) (auto simp: circle_def nth_append dest!: in_set_butlastD)
  then show ?thesis using assms by (auto simp: circle_def)
qed


lemma not_passed:
  assumes "\<not> passed td strCode strHZ p"
  shows "normal td p" "\<not> strcmp (code_of td p) strCode > 0 \<Longrightarrow> the_phrase td strCode strHZ p"
  using assms by (auto simp: passed_def)

lemma passed_or_smaller:
  assumes "sorted_codes td (xs @ ys)" "\<And>p. p \<in> set xs \<Longrightarrow> normal td p \<Longrightarrow> strcmp (code_of td p) strCode < 0"
    "p \<in> set (xs @ ys)" "the_phrase td strCode strHZ p"
  shows "\<exists>zs q ws. ys = zs @ q # ws \<and> dropWhile (passed td strCode strHZ) ys = q # ws \<and> the_phrase td strCode strHZ q"
proof -
  have p: "normal td p" "code_of td p = strCode" using assms(4) by (auto simp: the_phrase_def)
  have "p \<notin> set xs" using assms(2) [of p] p by auto
  then have "p \<in> set ys" "\<not> passed td strCode strHZ p" using assms(3, 4) p by (auto simp: passed_def)
  then obtain q ws where q: "dropWhile (passed td strCode strHZ) ys = q # ws"
    by (metis dropWhile_eq_Nil_conv list.exhaust)
  then have np: "\<not> passed td strCode strHZ q" using hd_dropWhile [of "passed td strCode strHZ" ys] by simp
  have ys: "ys = takeWhile (passed td strCode strHZ) ys @ q # ws" using q takeWhile_dropWhile_id [of "passed td strCode strHZ" ys] by simp
  have "p \<in> set (q # ws)"
    using \<open>p \<in> set ys\<close> \<open>\<not> passed td strCode strHZ p\<close> ys set_takeWhileD [of p "passed td strCode strHZ" ys] by (metis UnE set_append)
  moreover have "sorted_codes td (q # ws)" using assms(1) by (subst (asm) ys) (auto simp: sorted_codes_def sorted_wrt_append)
  ultimately have "strcmp (code_of td q) strCode \<le> 0"
    using p not_passed(1) [OF np] by (auto simp: sorted_codes_def)
  then have "the_phrase td strCode strHZ q" using not_passed(2) [OF np] by simp
  then show ?thesis using ys q by blast
qed

lemma insert_place:
  assumes "circle td (xs @ ys)" "sorted_codes td (xs @ ys)" "entered_at td c (hd (ys @ [0]))"
    "\<And>p. p \<in> set xs \<Longrightarrow> normal td p \<Longrightarrow> strcmp (code_of td p) (c # cs) < 0"
  shows "(\<exists>p\<in>set (xs @ ys). the_phrase td (c # cs) strHZ p) \<Longrightarrow> TableHasPhrase td (c # cs) strHZ = Some None"
    "\<not> (\<exists>p\<in>set (xs @ ys). the_phrase td (c # cs) strHZ p) \<Longrightarrow> \<exists>zs ws. ys = zs @ ws \<and>
      TableHasPhrase td (c # cs) strHZ = Some (Some (hd (ws @ [0]))) \<and>
      (\<forall>z\<in>set zs. normal td z \<longrightarrow> strcmp (code_of td z) (c # cs) \<le> 0) \<and>
      (ws = [] \<or> normal td (hd ws) \<and> strcmp (code_of td (hd ws)) (c # cs) > 0)"
proof -
  let ?P = "passed td (c # cs) strHZ"
  have h: "TableHasPhrase td (c # cs) strHZ = Some (case dropWhile ?P ys of [] \<Rightarrow> Some 0
      | p # _ \<Rightarrow> if strcmp (code_of td p) (c # cs) > 0 then Some p else None)"
    using has_phrase_walk [OF assms(1) circle_short [OF assms(1)]] TableHasPhrase_entered [OF assms(3)] by simp
  show "TableHasPhrase td (c # cs) strHZ = Some None" if "\<exists>p\<in>set (xs @ ys). the_phrase td (c # cs) strHZ p"
    using passed_or_smaller [OF assms(2, 4)] that h by (fastforce simp: the_phrase_def)
  show "\<exists>zs ws. ys = zs @ ws \<and>
      TableHasPhrase td (c # cs) strHZ = Some (Some (hd (ws @ [0]))) \<and>
      (\<forall>z\<in>set zs. normal td z \<longrightarrow> strcmp (code_of td z) (c # cs) \<le> 0) \<and>
      (ws = [] \<or> normal td (hd ws) \<and> strcmp (code_of td (hd ws)) (c # cs) > 0)"
    if none: "\<not> (\<exists>p\<in>set (xs @ ys). the_phrase td (c # cs) strHZ p)"
  proof (intro exI conjI)
    show "ys = takeWhile ?P ys @ dropWhile ?P ys" by simp
    show "\<forall>z\<in>set (takeWhile ?P ys). normal td z \<longrightarrow> strcmp (code_of td z) (c # cs) \<le> 0"
      using set_takeWhileD [of _ ?P ys] by (auto simp: passed_def)
    have *: "normal td q \<and> strcmp (code_of td q) (c # cs) > 0" if "dropWhile ?P ys = q # ws" for q ws
    proof -
      have np: "\<not> ?P q" using that hd_dropWhile [of ?P ys] by simp
      have "q \<in> set ys" using that set_dropWhileD [of q ?P ys] by simp
      then show ?thesis using not_passed [OF np] none by auto
    qed
    then show "dropWhile ?P ys = [] \<or> normal td (hd (dropWhile ?P ys)) \<and> strcmp (code_of td (hd (dropWhile ?P ys))) (c # cs) > 0"
      by (cases "dropWhile ?P ys") auto
    show "TableHasPhrase td (c # cs) strHZ = Some (Some (hd (dropWhile ?P ys @ [0])))"
      unfolding h using * by (cases "dropWhile ?P ys") (simp_all del: dropWhile_eq_Nil_conv)
  qed
qed


lemma same_heap:
  assumes "td_heap td' = td_heap td"
  shows "circle td' ps = circle td ps" "sorted_codes td' ps = sorted_codes td ps" "entries_of td' ps = entries_of td ps"
  using assms by (simp_all add: circle_def entries_of_def sorted_codes_def normal_def [abs_def])

text \<open>A new record is linked behind \<open>zs\<close>.\<close>

lemma insert_circle:
  fixes zs ws :: "nat list"
  assumes c: "circle td (zs @ ws)" and s: "sorted_codes td (zs @ ws)"
    and z: "\<forall>z\<in>set zs. normal td z \<longrightarrow> strcmp (code_of td z) (rc_strCode r) \<le> 0"
    and w: "ws = [] \<or> normal td (hd ws) \<and> strcmp (code_of td (hd ws)) (rc_strCode r) > 0"
    and n: "rc_type r \<noteq> RECORDTYPE_PINYIN"
  defines "td' \<equiv> link_record (length (td_heap td)) (hd (ws @ [0])) (td\<lparr>td_heap := td_heap td @ [r]\<rparr>)"
  shows "circle td' (zs @ length (td_heap td) # ws)" "sorted_codes td' (zs @ length (td_heap td) # ws)"
    "entries_of td' (zs @ length (td_heap td) # ws) = entries_of td zs @ says r # entries_of td ws"
proof -
  let ?p = "length (td_heap td)" and ?td = "td\<lparr>td_heap := td_heap td @ [r]\<rparr>"
  have p: "0 < ?p" "?p < length (td_heap ?td)" "?p \<notin> set (zs @ ws)" and old: "\<And>q. q \<in> set (zs @ ws) \<Longrightarrow> q < ?p"
    using c by (auto simp: circle_def)
  note l = link_record_circle [OF circle_grow [OF c] p]
  from l(1) show "circle td' (zs @ ?p # ws)" unfolding td'_def .
  have eq: "says (td_heap td' ! q) = says (td_heap ?td ! q)" if "q \<in> set (zs @ ?p # ws)" for q
  proof -
    have "q < length (td_heap ?td)" using old [of q] that by (cases "q = ?p") auto
    then show ?thesis unfolding td'_def by (rule l(2))
  qed
  have at: "td_heap ?td ! q = td_heap td ! q" if "q \<in> set (zs @ ws)" for q
    using old that by (simp add: nth_append)
  have "sorted_codes ?td (zs @ ws)" using s sorted_codes_cong [of "zs @ ws" ?td td] at by simp
  then have "sorted_codes ?td (zs @ ?p # ws)"
    using z w n at by (intro sorted_codes_insert) (cases ws, auto simp: normal_def)
  then show "sorted_codes td' (zs @ ?p # ws)" using sorted_codes_cong [OF eq] by blast
  have "entries_of td' (zs @ ?p # ws) = entries_of ?td (zs @ ?p # ws)" by (rule entries_cong) (rule eq)
  also have "\<dots> = entries_of td zs @ says r # entries_of td ws" using at by (simp add: entries_of_def)
  finally show "entries_of td' (zs @ ?p # ws) = entries_of td zs @ says r # entries_of td ws" .
qed

text \<open>
  C7: \<^const>\<open>TableInsertPhrase\<close> puts a new phrase into the list of the dictionary, behind the phrases whose code is not
  larger, and leaves a dictionary that has the phrase as it is: the records remain a circle that is linked both ways,
  their codes remain sorted and the other entries do not change. The index has to have an entry for the first key, in
  front of which all codes are smaller.
\<close>

theorem table_insert_phrase:
  fixes xs ys :: "nat list"
  assumes "circle td (xs @ ys)" "sorted_codes td (xs @ ys)" "entered_at td c (hd (ys @ [0]))"
    "\<And>p. p \<in> set xs \<Longrightarrow> normal td p \<Longrightarrow> strcmp (code_of td p) (c # cs) < 0" "length (c # cs) \<le> unat (iCodeLength td)"
  shows "if \<exists>p\<in>set (xs @ ys). the_phrase td (c # cs) strHZ p then TableInsertPhrase td (c # cs) strHZ = Some td
    else \<exists>td' zs ws. TableInsertPhrase td (c # cs) strHZ = Some td' \<and> ys = zs @ ws \<and>
      circle td' (xs @ zs @ length (td_heap td) # ws) \<and> sorted_codes td' (xs @ zs @ length (td_heap td) # ws) \<and>
      entries_of td' (xs @ zs @ length (td_heap td) # ws) =
        entries_of td (xs @ zs) @ (c # cs, strHZ, RECORDTYPE_NORMAL, 0, iTableIndex td) # entries_of td ws \<and>
      iRecordCount td' = iRecordCount td + 1 \<and> iTableChanged td' = iTableChanged td + 1"
proof (cases "\<exists>p\<in>set (xs @ ys). the_phrase td (c # cs) strHZ p")
  case True
  then show ?thesis using insert_place(1) [OF assms(1-4)] by (simp add: TableInsertPhrase_def)
next
  case False
  from insert_place(2) [OF assms(1-4) False] obtain zs ws where w: "ys = zs @ ws"
    "TableHasPhrase td (c # cs) strHZ = Some (Some (hd (ws @ [0])))"
    "\<forall>z\<in>set zs. normal td z \<longrightarrow> strcmp (code_of td z) (c # cs) \<le> 0"
    "ws = [] \<or> normal td (hd ws) \<and> strcmp (code_of td (hd ws)) (c # cs) > 0" by blast
  let ?r = "\<lparr> rc_strCode = c # cs, rc_strHZ = strHZ, rc_room = unat (iCodeLength td) + 1, rc_next = 0, rc_prev = 0,
    rc_iHit = 0, rc_iIndex = iTableIndex td, rc_type = RECORDTYPE_NORMAL \<rparr>"
  define td1 where "td1 = link_record (length (td_heap td)) (hd (ws @ [0])) (td\<lparr>td_heap := td_heap td @ [?r]\<rparr>)"
  define td' where "td' = td1\<lparr>iRecordCount := iRecordCount td1 + 1, iTableChanged := iTableChanged td1 + 1\<rparr>"
  have keep: "iRecordCount td1 = iRecordCount td" "iTableChanged td1 = iTableChanged td"
    by (simp_all add: td1_def link_record_def upd_rec_def Let_def)
  have ins: "TableInsertPhrase td (c # cs) strHZ = Some td'"
    using w(2) assms(5) unfolding TableInsertPhrase_def td'_def td1_def
    by (simp add: link_record_def upd_rec_def Let_def)
  have "\<forall>z\<in>set (xs @ zs). normal td z \<longrightarrow> strcmp (code_of td z) (rc_strCode ?r) \<le> 0"
    using w(3) assms(4) by force
  note i = insert_circle [of td "xs @ zs" ws ?r, folded td1_def, OF _ _ this]
  have "circle td1 ((xs @ zs) @ length (td_heap td) # ws)" "sorted_codes td1 ((xs @ zs) @ length (td_heap td) # ws)"
    "entries_of td1 ((xs @ zs) @ length (td_heap td) # ws) = entries_of td (xs @ zs) @ says ?r # entries_of td ws"
    using i assms(1, 2) w(1, 4) by (simp_all add: RECORDTYPE_NORMAL_def RECORDTYPE_PINYIN_def)
  then have "circle td' (xs @ zs @ length (td_heap td) # ws)" "sorted_codes td' (xs @ zs @ length (td_heap td) # ws)"
    "entries_of td' (xs @ zs @ length (td_heap td) # ws) =
       entries_of td (xs @ zs) @ (c # cs, strHZ, RECORDTYPE_NORMAL, 0, iTableIndex td) # entries_of td ws"
    using same_heap [of td' td1] by (simp_all add: td'_def says_def)
  moreover have "iRecordCount td' = iRecordCount td + 1" "iTableChanged td' = iTableChanged td + 1"
    unfolding td'_def using keep by simp_all
  ultimately show ?thesis using False ins w(1) by auto
qed


text \<open>A small dictionary: the codes "a", "ab" and "b" of three phrases, and a record of Pinyin.\<close>

definition sample_record :: "string \<Rightarrow> string \<Rightarrow> byte \<Rightarrow> nat \<Rightarrow> nat \<Rightarrow> RECORD" where
  "sample_record code hz type prev next = \<lparr> rc_strCode = ascii code, rc_strHZ = ascii hz, rc_room = 5, rc_next = next,
     rc_prev = prev, rc_iHit = 0, rc_iIndex = 0, rc_type = type \<rparr>"

definition sample_dict :: TableDict where
  "sample_dict = new_dict\<lparr>strInputCode := ascii ''ab'',
     recordIndex := [(0x61, Some 1), (0x62, Some 3)], iCodeLength := 4, iPYCodeLength := 4, iRecordCount := 4,
     td_heap := [null_record\<lparr>rc_prev := 4, rc_next := 1\<rparr>, sample_record ''a'' ''x'' 0 0 2,
       sample_record ''ab'' ''y'' 0 1 3, sample_record ''b'' ''z'' 0 2 4, sample_record ''ba'' ''w'' 1 3 0]\<rparr>"

lemmas sample_simps = sample_dict_def sample_record_def new_dict_def null_record_def ascii_def of_char_def

lemma sample_circle: "circle sample_dict ([1, 2] @ [3, 4])"
  by (simp add: circle_def sample_dict_def sample_record_def null_record_def)

lemma sample_sorted: "sorted_codes sample_dict ([1, 2] @ [3, 4])"
  by (simp add: sorted_codes_def normal_def sample_simps RECORDTYPE_PINYIN_def)

lemma table_insert_phrase_witness:
  "\<exists>td' zs ws. TableInsertPhrase sample_dict (ascii ''ba'') (ascii ''v'') = Some td' \<and> [3, 4] = zs @ ws \<and>
     circle td' ([1, 2] @ zs @ 5 # ws) \<and> iRecordCount td' = 5"
proof -
  have e: "entered_at sample_dict 0x62 (hd ([3, 4] @ [0]))"
    by (simp add: entered_at_def sample_dict_def)
  have f: "\<And>p. p \<in> set [1, 2] \<Longrightarrow> normal sample_dict p \<Longrightarrow> strcmp (code_of sample_dict p) (0x62 # [0x61]) < 0"
    by (auto simp: sample_simps)
  have n: "\<not> (\<exists>p\<in>set ([1, 2] @ [3, 4]). the_phrase sample_dict (0x62 # [0x61]) (ascii ''v'') p)"
    by (simp add: the_phrase_def normal_def sample_simps RECORDTYPE_PINYIN_def)
  have "ascii ''ba'' = 0x62 # [0x61]" "iRecordCount sample_dict + 1 = 5" "length (td_heap sample_dict) = 5"
    "length ((0x62::byte) # [0x61]) \<le> unat (iCodeLength sample_dict)" by (simp_all add: sample_simps)
  with table_insert_phrase [OF sample_circle sample_sorted e f, of "ascii ''v''"] n show ?thesis by metis
qed

text \<open>
  C39: \<^const>\<open>TableDelPhrase\<close> takes exactly the record it is given out of the list of the dictionary: the circle is
  closed in both directions around it, the other entries stay as they are and in their order.
\<close>

theorem table_delete_phrase:
  assumes "circle td ps" "p \<in> set ps"
  shows "circle (TableDelPhrase td p) (remove1 p ps) \<and>
    entries_of (TableDelPhrase td p) (remove1 p ps) = entries_of td (remove1 p ps) \<and>
    sorted_codes (TableDelPhrase td p) (remove1 p ps) = sorted_codes td (remove1 p ps) \<and>
    iRecordCount (TableDelPhrase td p) = iRecordCount td - 1"
proof -
  from assms(2) obtain xs ys where ps: "ps = xs @ p # ys" "p \<notin> set xs" by (meson split_list_first)
  then have r: "remove1 p ps = xs @ ys" by (simp add: remove1_append)
  let ?td = "unlink p td"
  have h: "td_heap (TableDelPhrase td p) = td_heap ?td" by (simp add: TableDelPhrase_def)
  note u = unlink_circle [OF assms(1) [unfolded ps(1)]]
  have "says (td_heap ?td ! q) = says (td_heap td ! q)" if "q \<in> set (xs @ ys)" for q
    using that assms(1) by (intro u(2)) (auto simp: circle_def ps)
  then have "entries_of ?td (xs @ ys) = entries_of td (xs @ ys)" "sorted_codes ?td (xs @ ys) = sorted_codes td (xs @ ys)"
    using entries_cong [of "xs @ ys" ?td td] sorted_codes_cong [of "xs @ ys" ?td td] by blast+
  moreover have "iRecordCount (TableDelPhrase td p) = iRecordCount td - 1"
    by (simp add: TableDelPhrase_def unlink_def upd_rec_def Let_def)
  ultimately show ?thesis using u(1) same_heap [OF h] r by simp
qed

lemma table_delete_phrase_witness:
  "circle (TableDelPhrase sample_dict 2) [1, 3, 4] \<and> entries_of (TableDelPhrase sample_dict 2) [1, 3, 4] = entries_of sample_dict [1, 3, 4]"
  using table_delete_phrase [OF sample_circle, of 2] by simp

end
