(* ===== verification/TabFile.thy ===== *)
theory TabFile
  imports TabDict_Laws Utf8_Codec
begin

text \<open>
  The file of a table: what is saved is loaded again as a dictionary with the same head and the same records in the
  same order, linked into a new circle.
\<close>

section \<open>Reading what was written\<close>

lemma got_u8 [simp]: "get_u8 k (b # f) = Got (b, f)"
  by (simp add: get_u8_def)

lemma got_u32 [simp]: "get_u32 k (fcitx_utils_write_uint32 v @ f) = Got (v, f)"
  by (simp add: get_u32_def fcitx_utils_read_uint32_def fcitx_utils_write_uint32_def read_le_bytes)

lemma got_bytes [simp]: "length s = n \<Longrightarrow> get_bytes k n (s @ f) = Got (s, f)"
  by (simp add: get_bytes_def)

lemma sure_Some [simp]: "sure (Some x) = Got x"
  by (simp add: sure_def)

lemma c_string_end: "is_cstr s \<Longrightarrow> c_string (s @ 0 # z) = Some s"
  by (induction s) (auto simp: c_string_def is_cstr_def)

lemma c_string_pad: "is_cstr s \<Longrightarrow> 0 < n \<Longrightarrow> c_string (s @ replicate n 0) = Some s"
  using c_string_end [of s "replicate (n - 1) 0"] by (cases n) simp_all

lemma got_string [simp]: "is_cstr s \<Longrightarrow> n = Suc (length s) \<Longrightarrow> get_string k n (s @ 0 # f) = Got (s, f)"
  using got_bytes [of "s @ [0]" n k f] c_string_end [of s "[]"] by (simp add: get_string_def)

lemma of_nat_length: "length s < 2 ^ 32 - 1 \<Longrightarrow> unat (of_nat (length s) + 1 :: uint32) = Suc (length s)"
  by (simp add: unat_word_ariths unsigned_of_nat take_bit_nat_eq_self)

lemma got_rule_rules: "length rr = n \<Longrightarrow> 
    get_rule_rules k n (concat (map (\<lambda>s. [rr_iFlag s, rr_iWhich s, rr_iIndex s]) rr) @ f) = Got (rr, f)"
  by (induction rr arbitrary: n) auto

lemma got_rules: "(\<And>r. r \<in> set rs \<Longrightarrow> length (ru_rule r) = codes) \<Longrightarrow> length rs = n \<Longrightarrow>
    get_rules k codes n (concat (map rule_bytes rs) @ f) = Got (rs, f)"
  by (induction rs arbitrary: n) (auto simp: rule_bytes_def got_rule_rules)

section \<open>The head\<close>

text \<open>The parts of the head of a file, and when they can be written.\<close>

definition head_of :: "TableDict \<Rightarrow> buf \<times> byte \<times> byte \<times> buf \<times> byte \<times> RULE list \<times> uint32" where
  "head_of td = (strInputCode td, iCodeLength td, iPYCodeLength td, strIgnoreChars td, bRule td, rules td, iRecordCount td)"

definition head_ok :: "TableDict \<Rightarrow> bool" where
  "head_ok td \<longleftrightarrow> is_cstr (strInputCode td) \<and> length (strInputCode td) < 2 ^ 32 - 1 \<and>
     is_cstr (strIgnoreChars td) \<and> length (strIgnoreChars td) < 2 ^ 32 - 1 \<and>
     (if bRule td = 0 then rules td = []
      else 0 < iCodeLength td \<and> length (rules td) = unat (iCodeLength td) - 1 \<and>
        list_all (\<lambda>r. length (ru_rule r) = unat (iCodeLength td)) (rules td))"

definition empty_dict :: "TableDict \<Rightarrow> TableDict" where
  "empty_dict td = new_dict\<lparr>strInputCode := strInputCode td,
     recordIndex := replicate (length (strInputCode td) + 26) (0, None), iCodeLength := iCodeLength td,
     iPYCodeLength := iPYCodeLength td, strIgnoreChars := strIgnoreChars td, bRule := bRule td, rules := rules td,
     iRecordCount := iRecordCount td, currentRecord := Some 0, td_heap := [null_record]\<rparr>"

lemma string_bytes_append: "string_bytes s @ f = fcitx_utils_write_uint32 (of_nat (length s)) @ s @ 0 # f"
  by (simp add: string_bytes_def)

lemma got_head:
  assumes "head_ok td"
  shows "\<exists>g. head_bytes td @ f = fcitx_utils_write_uint32 0 @ INTERNAL_VERSION #
      fcitx_utils_write_uint32 (of_nat (length (strInputCode td))) @ g \<and>
    load_head (False, c) (of_nat (length (strInputCode td))) g = Got (empty_dict td, f)"
proof (intro exI conjI)
  let ?rest = "bRule td # (if bRule td = 0 then [] else concat (map rule_bytes (rules td))) @
     fcitx_utils_write_uint32 (iRecordCount td) @ f"
  let ?g = "strInputCode td @ 0 # iCodeLength td # iPYCodeLength td # string_bytes (strIgnoreChars td) @ ?rest"
  show "head_bytes td @ f = fcitx_utils_write_uint32 0 @ INTERNAL_VERSION #
      fcitx_utils_write_uint32 (of_nat (length (strInputCode td))) @ ?g"
    by (simp add: head_bytes_def string_bytes_def)
  have r: "load_bind (if bRule td = 0 then Got ([], (if bRule td = 0 then [] else concat (map rule_bytes (rules td))) @
          fcitx_utils_write_uint32 (iRecordCount td) @ f)
        else if iCodeLength td = 0 then Fault
        else get_rules (False, c) (unat (iCodeLength td)) (unat (iCodeLength td) - 1)
          ((if bRule td = 0 then [] else concat (map rule_bytes (rules td))) @ fcitx_utils_write_uint32 (iRecordCount td) @ f)) h =
      h (rules td, fcitx_utils_write_uint32 (iRecordCount td) @ f)" for h :: "RULE list \<times> byte list \<Rightarrow> (TableDict \<times> byte list) load"
  proof (cases "bRule td = 0")
    case False
    with assms have "0 < iCodeLength td" "length (rules td) = unat (iCodeLength td) - 1"
      "\<And>r. r \<in> set (rules td) \<Longrightarrow> length (ru_rule r) = unat (iCodeLength td)"
      by (simp_all add: head_ok_def list_all_iff)
    with False got_rules [of "rules td" "unat (iCodeLength td)" "unat (iCodeLength td) - 1"] show ?thesis by auto
  qed (use assms in \<open>simp add: head_ok_def\<close>)
  show "load_head (False, c) (of_nat (length (strInputCode td))) ?g = Got (empty_dict td, f)"
    using assms of_nat_length [of "strInputCode td"] of_nat_length [of "strIgnoreChars td"] r
    unfolding load_head_def string_bytes_append
    by (simp add: head_ok_def empty_dict_def)
qed


section \<open>The records\<close>

definition record_ok :: "nat \<Rightarrow> RECORD \<Rightarrow> bool" where
  "record_ok n r \<longleftrightarrow> is_cstr (rc_strCode r) \<and> is_cstr (rc_strHZ r) \<and> length (rc_strCode r) < n \<and> rc_room r = n \<and>
     n \<le> MAX_CODE_LENGTH + 1 \<and> length (rc_strHZ r) < utf8_max * 30"

definition unlinked :: "RECORD \<Rightarrow> RECORD" where
  "unlinked r = r\<lparr>rc_next := 0, rc_prev := 0\<rparr>"

lemma got_record:
  assumes "record_ok n r"
  shows "\<exists>b. record_bytes n r = Some b \<and> get_record (False, c) n (b @ f) = Got (unlinked r, f)"
proof -
  let ?code = "rc_strCode r @ replicate (n - length (rc_strCode r)) 0"
  let ?l = "of_nat (length (rc_strHZ r) + 1) :: uint32"
  have ok: "is_cstr (rc_strCode r)" "is_cstr (rc_strHZ r)" "length (rc_strCode r) < n" "rc_room r = n"
    "n \<le> MAX_CODE_LENGTH + 1" "length (rc_strHZ r) < 180"
    using assms by (simp_all add: record_ok_def)
  then have l: "unat ?l = Suc (length (rc_strHZ r))" by (simp del: of_nat_Suc of_nat_add add: unsigned_of_nat take_bit_nat_eq_self)
  then have l': "\<not> of_nat (utf8_max * 30) < ?l" using ok(6) by (simp add: word_less_nat_alt)
  have c: "c_string ?code = Some (rc_strCode r)" "c_string (rc_strHZ r @ [0]) = Some (rc_strHZ r)"
    using c_string_pad [OF ok(1)] c_string_end [OF ok(2), of "[]"] ok(3) by simp_all
  define l code hz where "l = ?l" and "code = ?code" and "hz = rc_strHZ r @ [0]"
  have g: "length code = n" "length hz = unat l" using ok(3) l by (simp_all add: l_def code_def hz_def)
  let ?b = "code @ fcitx_utils_write_uint32 l @ hz @ rc_type r # fcitx_utils_write_uint32 (rc_iHit r) @
    fcitx_utils_write_uint32 (rc_iIndex r)"
  have "record_bytes n r = Some ?b" using ok by (simp add: record_bytes_def code_bytes_def l_def code_def hz_def)
  moreover have "get_record (False, c) n (?b @ f) = Got (unlinked r, f)"
    using g ok(4, 5) c [folded code_def hz_def] l' [folded l_def] unfolding get_record_def append_assoc append_Cons
    by (simp add: min_def unlinked_def)
  ultimately show ?thesis by blast
qed

fun add_records :: "RECORD list \<Rightarrow> TableDict \<times> nat \<times> byte \<Rightarrow> (TableDict \<times> nat \<times> byte) option" where
  "add_records [] s = Some s"
| "add_records (r # rs) s = do { s \<leftarrow> add_record r s; add_records rs s }"


lemma head_links [simp]: "head_of (link_last r p td) = head_of td"
  by (simp add: head_of_def link_last_def upd_rec_def Let_def)

lemma index_record_keeps: "index_record_at r p (td, i, c) = Some (td', i', c') \<Longrightarrow>
    head_of td' = head_of td \<and> td_heap td' = td_heap td \<and> currentRecord td' = currentRecord td \<and>
    tableSingleHZ td' = tableSingleHZ td \<and> tableSingleHZCons td' = tableSingleHZCons td"
  by (auto simp: index_record_at_def head_of_def split: if_splits)

lemma single_record_shape: "single_record r p td = Some td' \<Longrightarrow>
    td' = td \<or> (\<exists>i. td' = td\<lparr>tableSingleHZ := (tableSingleHZ td)(i := Some p)\<rparr>) \<or>
    (\<exists>i. rc_type r = RECORDTYPE_CONSTRUCT \<and> fcitx_utf8_strlen (rc_strHZ r) = Some 1 \<and> CalHZIndex (rc_strHZ r) = Some i \<and>
      td' = td\<lparr>tableSingleHZCons := (tableSingleHZCons td)(i := Some p)\<rparr>)"
proof -
  assume "single_record r p td = Some td'"
  then obtain n :: uint64 where l: "fcitx_utf8_strlen (rc_strHZ r) = Some n" and n: "(if n = 1 \<and> \<not> IsIgnoreChar td (first_key r) then do {
       i \<leftarrow> CalHZIndex (rc_strHZ r);
       if rc_type r = RECORDTYPE_NORMAL then do {
         new \<leftarrow> (if tableSingleHZ td i = None then Some True else longer_code td r i);
         Some (if new then td\<lparr>tableSingleHZ := (tableSingleHZ td)(i := Some p)\<rparr> else td) }
       else if rc_type r = RECORDTYPE_CONSTRUCT then do {
         new \<leftarrow> (if tableSingleHZCons td i = None then Some True else longer_code td r i);
         Some (if new then td\<lparr>tableSingleHZCons := (tableSingleHZCons td)(i := Some p)\<rparr> else td) }
       else Some td }
     else Some td) = Some td'"
    unfolding single_record_def bind_eq_Some_conv by blast
  show ?thesis
  proof (cases "n = 1 \<and> \<not> IsIgnoreChar td (first_key r)")
    case True
    with n obtain i where i: "CalHZIndex (rc_strHZ r) = Some i" by (cases "CalHZIndex (rc_strHZ r)") simp_all
    consider "rc_type r = RECORDTYPE_NORMAL" | "rc_type r \<noteq> RECORDTYPE_NORMAL" "rc_type r = RECORDTYPE_CONSTRUCT"
      | "rc_type r \<noteq> RECORDTYPE_NORMAL" "rc_type r \<noteq> RECORDTYPE_CONSTRUCT" by blast
    then show ?thesis
    proof cases
      case 1
      with n True i obtain new where "td' = (if new then td\<lparr>tableSingleHZ := (tableSingleHZ td)(i := Some p)\<rparr> else td)"
        by (auto simp only: bind_eq_Some_conv bind.bind_lunit if_True simp_thms option.inject)
      then show ?thesis by (split if_split_asm) blast+
    next
      case 2
      with n True i obtain new where "td' = (if new then td\<lparr>tableSingleHZCons := (tableSingleHZCons td)(i := Some p)\<rparr> else td)"
        by (auto simp only: bind_eq_Some_conv bind.bind_lunit if_True if_False simp_thms option.inject)
      then show ?thesis using 2(2) i l True by (split if_split_asm) blast+
    next
      case 3
      with n True i have "td' = td" by (simp only: bind.bind_lunit if_True if_False simp_thms option.inject)
      then show ?thesis by simp
    qed
  next
    case False
    then have "td' = td" using n by (simp only: if_False option.inject)
    then show ?thesis by simp
  qed
qed

lemma single_record_keeps: "single_record r p td = Some td' \<Longrightarrow>
    head_of td' = head_of td \<and> td_heap td' = td_heap td \<and> currentRecord td' = currentRecord td"
  by (drule single_record_shape) (elim disjE exE; simp add: head_of_def)

lemma add_record_links:
  assumes "add_record r (td, i, c) = Some (td', i', c')"
  shows "head_of td' = head_of td" "\<exists>td1. td_heap td1 = td_heap td \<and> currentRecord td1 = currentRecord td \<and>
    td_heap td' = td_heap (link_last r (length (td_heap td)) td1) \<and> currentRecord td' = Some (length (td_heap td))"
proof -
  let ?p = "length (td_heap td)"
  obtain td1 i1 c1 where t1: "index_record_at r ?p (td\<lparr>iTableIndex := max (iTableIndex td) (rc_iIndex r)\<rparr>, i, c) = Some (td1, i1, c1)"
    using assms by (cases "index_record_at r ?p (td\<lparr>iTableIndex := max (iTableIndex td) (rc_iIndex r)\<rparr>, i, c)")
      (auto simp: add_record_def Let_def)
  obtain td2 where t2: "single_record r ?p td1 = Some td2"
    using assms t1 by (cases "single_record r ?p td1") (simp_all add: add_record_def Let_def)
  note t = t1 t2
  let ?td3 = "let td = td2\<lparr>bHasPinyin := (bHasPinyin td2 \<or> rc_type r = RECORDTYPE_PINYIN)\<rparr>
    in if rc_type r = RECORDTYPE_PROMPT \<and> length (rc_strCode r) = 1
        then td\<lparr>promptCode := (promptCode td)(first_key r := Some ?p)\<rparr> else td"
  have e: "td' = link_last r ?p ?td3" using assms t by (simp add: add_record_def Let_def)
  have k: "head_of ?td3 = head_of td" "td_heap ?td3 = td_heap td" "currentRecord ?td3 = currentRecord td"
    using index_record_keeps [OF t(1)] single_record_keeps [OF t(2)] by (simp_all add: head_of_def Let_def)
  show "head_of td' = head_of td" unfolding e using k(1) by simp
  have "currentRecord td' = Some ?p" unfolding e by (simp add: link_last_def Let_def)
  then show "\<exists>td1. td_heap td1 = td_heap td \<and> currentRecord td1 = currentRecord td \<and>
    td_heap td' = td_heap (link_last r ?p td1) \<and> currentRecord td' = Some ?p"
    using k e by blast
qed

lemma records_walk:
  assumes "circle td (xs @ ys)" "length ys \<le> fuel" "\<And>p. p \<in> set ys \<Longrightarrow> record_ok (unat (iPYCodeLength td) + 1) (td_heap td ! p)"
  shows "\<exists>b. records_bytes fuel td (hd (ys @ [0])) = Some b \<and>
    (\<forall>s. iPYCodeLength (fst s) = iPYCodeLength td \<longrightarrow>
      load_records False (length ys) s (b @ f) = sure (add_records (map (\<lambda>p. unlinked (td_heap td ! p)) ys) s))"
  using assms
proof (induction ys arbitrary: xs fuel)
  case (Cons y ys)
  let ?n = "unat (iPYCodeLength td) + 1" and ?r = "td_heap td ! y"
  obtain q where y: "y = Suc q" using rec_of_circle [OF Cons.prems(1), of y] by (cases y) auto
  obtain g where g: "fuel = Suc g" "length ys \<le> g" using Cons.prems(2) by (cases fuel) auto
  have r: "rec_of td (Suc q) = Some ?r" "rc_next ?r = hd (ys @ [0])"
    using rec_of_circle [OF Cons.prems(1), of y] next_of Cons.prems(1) y by auto
  from Cons.IH [of "xs @ [y]" g] Cons.prems g(2) obtain b where b: "records_bytes g td (hd (ys @ [0])) = Some b"
    "\<And>s. iPYCodeLength (fst s) = iPYCodeLength td \<Longrightarrow>
      load_records False (length ys) s (b @ f) = sure (add_records (map (\<lambda>p. unlinked (td_heap td ! p)) ys) s)" by auto
  have ok: "record_ok ?n ?r" using Cons.prems(3) by simp
  obtain a where a: "record_bytes ?n ?r = Some a" using got_record [OF ok, of 0 "[]"] by blast
  then have a': "get_record (False, c) ?n (a @ h) = Got (unlinked ?r, h)" for c h using got_record [OF ok] by fastforce
  have "records_bytes fuel td (hd ((y # ys) @ [0])) = Some (a @ b)" using a b(1) r by (simp add: y g(1))
  moreover have "load_records False (length (y # ys)) s ((a @ b) @ f) =
      sure (add_records (map (\<lambda>p. unlinked (td_heap td ! p)) (y # ys)) s)" if "iPYCodeLength (fst s) = iPYCodeLength td" for s
  proof -
    have *: "load_records False (length (y # ys)) s ((a @ b) @ f) = load_bind (sure (add_record (unlinked ?r) s)) (\<lambda>s. load_records False (length ys) s (b @ f))"
      using a' [of "snd (snd s)" "b @ f"] that by simp
    show ?thesis
    proof (cases "add_record (unlinked ?r) s")
      case None
      then show ?thesis using * by (simp add: sure_def)
    next
      case (Some t)
      have "iPYCodeLength (fst t) = iPYCodeLength td"
        using add_record_links(1) [of "unlinked ?r" "fst s" "fst (snd s)" "snd (snd s)" "fst t" "fst (snd t)" "snd (snd t)"] Some that
        by (simp add: head_of_def)
      then show ?thesis using * Some b(2) [of t] by simp
    qed
  qed
  ultimately show ?case by blast
qed (simp add: sure_def)


text \<open>While records are added they are a chain in the order of their places.\<close>

definition chain :: "TableDict \<Rightarrow> nat \<Rightarrow> bool" where
  "chain td k \<longleftrightarrow> length (td_heap td) = Suc k \<and> currentRecord td = Some k \<and> linked (td_heap td) [0..<Suc k]"

definition said :: "TableDict \<Rightarrow> (buf \<times> buf \<times> byte \<times> uint32 \<times> uint32) list" where
  "said td = map says (tl (td_heap td))"

lemma chain_step:
  assumes "chain td k" "add_record r (td, i, c) = Some (td', i', c')"
  shows "chain td' (Suc k)" "said td' = said td @ [says r]"
proof -
  let ?h = "td_heap td" and ?h' = "td_heap td'"
  from assms(1) have k: "length ?h = Suc k" "currentRecord td = Some k" "linked ?h [0..<Suc k]" by (simp_all add: chain_def)
  from add_record_links(2) [OF assms(2)] obtain td1 where "td_heap td1 = ?h" "currentRecord td1 = currentRecord td"
    "?h' = td_heap (link_last r (Suc k) td1)" and c: "currentRecord td' = Some (Suc k)" using k(1) by auto
  then have h': "?h' = (?h @ [r\<lparr>rc_prev := k\<rparr>])[k := (?h ! k)\<lparr>rc_next := Suc k\<rparr>]"
    using k by (simp add: link_last_def upd_rec_def Let_def nth_append)
  have "linked ?h' [0..<Suc k] = linked ?h [0..<Suc k]"
  proof (rule linked_cong)
    fix a assume "a \<in> set (butlast [0..<Suc k])"
    then have "a < k" by simp
    then show "rc_next (?h' ! a) = rc_next (?h ! a)" using k(1) by (simp add: h' nth_append)
  next
    fix b assume "b \<in> set (tl [0..<Suc k])"
    then have "b \<le> k" by (auto dest!: list.set_sel(2) [rotated])
    then show "rc_prev (?h' ! b) = rc_prev (?h ! b)" using k(1) by (cases "b = k") (simp_all add: h' nth_append)
  qed
  moreover have "[0..<Suc (Suc k)] = [0..<Suc k] @ [Suc k]" "last [0..<Suc k] = k" by simp_all
  moreover have "rc_next (?h' ! k) = Suc k" "rc_prev (?h' ! Suc k) = k" "length ?h' = Suc (Suc k)"
    using k(1) by (simp_all add: h' nth_append)
  ultimately show "chain td' (Suc k)"
    using k(3) c linked_two [of "[0..<Suc k]" ?h' "Suc k" "[]"] unfolding chain_def by simp
  have "map says ?h' = map says ?h @ [says r]"
  proof -
    have "map says ?h' = (map says ?h @ [says r])[k := says (?h ! k)]" by (simp add: h' map_update)
    moreover have "(map says ?h @ [says r]) ! k = says (?h ! k)" using k(1) by (simp add: nth_append)
    ultimately show ?thesis by (metis list_update_id)
  qed
  moreover have "?h \<noteq> []" using k(1) by auto
  ultimately show "said td' = said td @ [says r]" by (simp add: said_def map_tl)
qed

lemma chain_records:
  assumes "chain td k" "add_records rs (td, i, c) = Some (td', i', c')"
  shows "chain td' (k + length rs) \<and> said td' = said td @ map says rs \<and> head_of td' = head_of td"
  using assms
proof (induction rs arbitrary: td i c k)
  case (Cons r rs)
  from Cons.prems(2) obtain td1 i1 c1 where s: "add_record r (td, i, c) = Some (td1, i1, c1)" "add_records rs (td1, i1, c1) = Some (td', i', c')"
    by (auto simp: bind_eq_Some_conv)
  from Cons.IH [OF chain_step(1) [OF Cons.prems(1) s(1)] s(2)] chain_step(2) [OF Cons.prems(1) s(1)] add_record_links(1) [OF s(1)]
  show ?case by simp
qed simp

lemma chain_close:
  assumes "chain td k"
  shows "circle (close_circle td) [1..<Suc k]" "entries_of (close_circle td) [1..<Suc k] = said td" "head_of (close_circle td) = head_of td"
proof -
  let ?h = "td_heap td" and ?h' = "td_heap (close_circle td)"
  from assms have k: "length ?h = Suc k" "currentRecord td = Some k" "linked ?h [0..<Suc k]" by (simp_all add: chain_def)
  have nx: "rc_next (?h' ! a) = (if a = k then 0 else rc_next (?h ! a))"
    and pv: "rc_prev (?h' ! a) = (if a = 0 then k else rc_prev (?h ! a))"
    and sy: "says (?h' ! a) = says (?h ! a)" if "a \<le> k" for a
    using that k by (auto simp: close_circle_def Let_def upd_rec_def nth_list_update says_def)
  have l: "length ?h' = Suc k" using k by (simp add: close_circle_def Let_def)
  have up: "[0..<Suc k] = 0 # [1..<Suc k]" by (simp add: upt_conv_Cons)
  have "linked ?h' [0..<Suc k] = linked ?h [0..<Suc k]"
  proof (rule linked_cong)
    fix a assume "a \<in> set (butlast [0..<Suc k])"
    then show "rc_next (?h' ! a) = rc_next (?h ! a)" using nx [of a] by simp
  next
    fix b assume "b \<in> set (tl [0..<Suc k])"
    then have "b \<le> k" "b \<noteq> 0" unfolding up by auto
    then show "rc_prev (?h' ! b) = rc_prev (?h ! b)" using pv [of b] by simp
  qed
  moreover have "last [0..<Suc k] = k" by simp
  ultimately have "linked ?h' ([0..<Suc k] @ [0])"
    using k(3) nx [of k] pv [of 0] linked_two [of "[0..<Suc k]" ?h' 0 "[]"] by simp
  then have "linked ?h' (0 # [1..<Suc k] @ [0])" unfolding up by simp
  then show "circle (close_circle td) [1..<Suc k]" using l unfolding circle_def by (auto simp del: upt_Suc)
  have "map (\<lambda>p. says (?h' ! p)) [1..<Suc k] = map (\<lambda>p. says (?h ! p)) [1..<Suc k]" using sy by auto
  also have "\<dots> = map says (tl ?h)" using k(1) by (intro nth_equalityI) (simp_all add: nth_tl del: upt_Suc)
  finally show "entries_of (close_circle td) [1..<Suc k] = said td" by (simp add: entries_of_def said_def)
  show "head_of (close_circle td) = head_of td" by (simp add: head_of_def close_circle_def Let_def upd_rec_def)
qed


section \<open>Adding records does not fail\<close>

lemma strlen_loop_total: "i \<le> length s \<Longrightarrow> utf8_strlen_loop s i l \<noteq> None"
proof (induction s i l rule: utf8_strlen_loop.induct)
  case (1 s i l)
  from 1(2) obtain b where b: "rd s i = Some b" by (cases "i < length s") (auto simp: rd_def)
  show ?case
  proof (cases "b = 0")
    case False
    then have "i < length s" using b by (auto dest: rd_nonzero)
    then obtain c j where c: "fcitx_utf8_get_char s i = Some (c, j)" "j \<le> length s" using get_char_total by blast
    with 1(1) [OF b False c(1) refl] show ?thesis using b False by (subst utf8_strlen_loop.simps) simp
  qed (use b in \<open>subst utf8_strlen_loop.simps, simp\<close>)
qed

lemma strlen_total: "\<exists>n. fcitx_utf8_strlen s = Some n"
  using strlen_loop_total [of 0 s 0] by (auto simp: fcitx_utf8_strlen_def)

lemma CalHZIndex_total:
  assumes "s \<noteq> []" shows "\<exists>i. CalHZIndex s = Some i"
proof -
  obtain c j where c: "fcitx_utf8_get_char s 0 = Some (c, j)" "j \<le> length s" using get_char_total [of 0 s] assms by auto
  then have l: "fcitx_utf8_char_len s 0 = Some j" by (simp add: char_len_get_char)
  have "map (rd s) [0..<j] = map Some (take j s)" using c(2) by (intro nth_equalityI) (simp_all add: rd_def)
  moreover have "those (map Some bs) = Some bs" for bs :: buf by (induction bs) simp_all
  ultimately show ?thesis using l by (simp add: CalHZIndex_def)
qed

definition singles_ok :: "TableDict \<Rightarrow> bool" where
  "singles_ok td \<longleftrightarrow> td_heap td \<noteq> [] \<and> (\<forall>i q. tableSingleHZ td i = Some q \<longrightarrow> 0 < q \<and> q < length (td_heap td))"

definition construct :: "RECORD \<Rightarrow> bool" where
  "construct r \<longleftrightarrow> rc_type r = RECORDTYPE_CONSTRUCT \<and> fcitx_utf8_strlen (rc_strHZ r) = Some 1"

lemma single_record_total:
  assumes "singles_ok td" "construct r \<Longrightarrow> CalHZIndex (rc_strHZ r) = Some i \<Longrightarrow> tableSingleHZCons td i = None"
    "CalHZIndex (rc_strHZ r) = Some i \<or> rc_strHZ r = []"
  shows "\<exists>td'. single_record r p td = Some td'"
proof -
  obtain n where n: "fcitx_utf8_strlen (rc_strHZ r) = Some n" using strlen_total by blast
  show ?thesis
  proof (cases "n = 1 \<and> \<not> IsIgnoreChar td (first_key r)")
    case True
    then have "rc_strHZ r \<noteq> []" using n by (auto simp: fcitx_utf8_strlen_def utf8_strlen_loop.simps [of "[]"] rd_def)
    then have i: "CalHZIndex (rc_strHZ r) = Some i" using assms(3) by simp
    have "\<exists>b. longer_code td r i = Some b" if "tableSingleHZ td i \<noteq> None"
      using that assms(1) by (auto simp: longer_code_def singles_ok_def rec_of_def)
    then show ?thesis using n i True assms(2) by (auto simp: single_record_def construct_def)
  next
    case False
    then have "single_record r p td = Some td" unfolding single_record_def n bind.bind_lunit by (simp only: if_False)
    then show ?thesis by blast
  qed
qed

fun key_changes :: "byte \<Rightarrow> RECORD list \<Rightarrow> nat" where
  "key_changes c [] = 0"
| "key_changes c (r # rs) = (if c = first_key r then 0 else 1) + key_changes (first_key r) rs"


lemma add_record_total:
  assumes s: "singles_ok td" and r: "construct r \<Longrightarrow> CalHZIndex (rc_strHZ r) = Some n \<Longrightarrow> tableSingleHZCons td n = None"
    "CalHZIndex (rc_strHZ r) = Some n \<or> rc_strHZ r = []"
    and k: "i + key_changes c (r # rs) \<le> length (recordIndex td)"
  shows "\<exists>td' i'. add_record r (td, i, c) = Some (td', i', first_key r) \<and> singles_ok td' \<and>
    i' + key_changes (first_key r) rs \<le> length (recordIndex td') \<and>
    (\<forall>m. tableSingleHZCons td' m \<noteq> None \<longrightarrow> tableSingleHZCons td m \<noteq> None \<or> construct r \<and> CalHZIndex (rc_strHZ r) = Some m)"
proof -
  let ?p = "length (td_heap td)"
  let ?td0 = "td\<lparr>iTableIndex := max (iTableIndex td) (rc_iIndex r)\<rparr>"
  obtain td1 i' where t1: "index_record_at r ?p (?td0, i, c) = Some (td1, i', first_key r)"
    "i' + key_changes (first_key r) rs \<le> length (recordIndex td1)"
    using k by (cases "c = first_key r") (auto simp: index_record_at_def)
  note k1 = index_record_keeps [OF t1(1)]
  have s1: "singles_ok td1" and c1: "tableSingleHZCons td1 = tableSingleHZCons td" using s k1 by (simp_all add: singles_ok_def)
  obtain td2 where t2: "single_record r ?p td1 = Some td2"
    using single_record_total [OF s1, of r n] r c1 by auto
  let ?td3 = "let td = td2\<lparr>bHasPinyin := (bHasPinyin td2 \<or> rc_type r = RECORDTYPE_PINYIN)\<rparr>
    in if rc_type r = RECORDTYPE_PROMPT \<and> length (rc_strCode r) = 1
        then td\<lparr>promptCode := (promptCode td)(first_key r := Some ?p)\<rparr> else td"
  have a: "add_record r (td, i, c) = Some (link_last r ?p ?td3, i', first_key r)"
    using t1(1) t2 by (simp add: add_record_def Let_def)
  have l: "tableSingleHZ (link_last r ?p ?td3) = tableSingleHZ td2" "tableSingleHZCons (link_last r ?p ?td3) = tableSingleHZCons td2"
    "recordIndex (link_last r ?p ?td3) = recordIndex td2" "length (td_heap (link_last r ?p ?td3)) = Suc (length (td_heap td2))"
    by (simp_all add: link_last_def Let_def upd_rec_def)
  have h: "length (td_heap td2) = ?p" using single_record_keeps [OF t2] k1 by simp
  from single_record_shape [OF t2] have x: "recordIndex td2 = recordIndex td1 \<and>
      (\<forall>m q. tableSingleHZ td2 m = Some q \<longrightarrow> tableSingleHZ td1 m = Some q \<or> q = ?p) \<and>
      (\<forall>m. tableSingleHZCons td2 m \<noteq> None \<longrightarrow> tableSingleHZCons td1 m \<noteq> None \<or> construct r \<and> CalHZIndex (rc_strHZ r) = Some m)"
    by (elim disjE exE conjE) (simp_all add: construct_def)
  have "singles_ok (link_last r ?p ?td3)"
    unfolding singles_ok_def l(1)
  proof (intro conjI allI impI)
    have len: "length (td_heap (link_last r ?p ?td3)) = Suc ?p" using l(4) h by simp
    then show "td_heap (link_last r ?p ?td3) \<noteq> []" by (metis list.size(3) nat.distinct(1))
    fix m q assume "tableSingleHZ td2 m = Some q"
    then have "tableSingleHZ td1 m = Some q \<or> q = ?p" using x by blast
    then have "0 < q \<and> q \<le> ?p" using s1 s k1 by (auto simp: singles_ok_def intro: less_imp_le)
    then show "0 < q" "q < length (td_heap (link_last r ?p ?td3))" using len by simp_all
  qed
  moreover have "i' + key_changes (first_key r) rs \<le> length (recordIndex (link_last r ?p ?td3))" using t1(2) x l(3) by simp
  moreover have "\<forall>m. tableSingleHZCons (link_last r ?p ?td3) m \<noteq> None \<longrightarrow>
      tableSingleHZCons td m \<noteq> None \<or> construct r \<and> CalHZIndex (rc_strHZ r) = Some m"
    using x c1 l(2) by metis
  ultimately show ?thesis using a by blast
qed

text \<open>At most one record for making phrases per character, and enough places of the index.\<close>

definition constructs :: "RECORD list \<Rightarrow> nat option list" where
  "constructs rs = map (\<lambda>r. CalHZIndex (rc_strHZ r)) (filter construct rs)"

lemma add_records_total:
  assumes "singles_ok td" "i + key_changes c rs \<le> length (recordIndex td)" "distinct (constructs rs)"
    "\<And>m. tableSingleHZCons td m \<noteq> None \<Longrightarrow> Some m \<notin> set (constructs rs)"
  shows "\<exists>s. add_records rs (td, i, c) = Some s"
  using assms
proof (induction rs arbitrary: td i c)
  case (Cons r rs)
  obtain n where n: "CalHZIndex (rc_strHZ r) = Some n \<or> rc_strHZ r = []" using CalHZIndex_total by blast
  have "tableSingleHZCons td n = None" if "construct r" "CalHZIndex (rc_strHZ r) = Some n"
    using that Cons.prems(4) [of n] by (cases "tableSingleHZCons td n") (auto simp: constructs_def)
  from add_record_total [OF Cons.prems(1) this n Cons.prems(2)] obtain td' i' where
    t: "add_record r (td, i, c) = Some (td', i', first_key r)" "singles_ok td'"
      "i' + key_changes (first_key r) rs \<le> length (recordIndex td')"
      "\<And>m. tableSingleHZCons td' m \<noteq> None \<Longrightarrow> tableSingleHZCons td m \<noteq> None \<or> construct r \<and> CalHZIndex (rc_strHZ r) = Some m"
    by blast
  have "Some m \<notin> set (constructs rs)" if "tableSingleHZCons td' m \<noteq> None" for m
    using t(4) [OF that] Cons.prems(3) Cons.prems(4) [of m] by (auto simp: constructs_def split: if_splits)
  moreover have "distinct (constructs rs)" using Cons.prems(3) by (auto simp: constructs_def split: if_splits)
  ultimately show ?case using Cons.IH [OF t(2, 3)] t(1) by simp
qed simp

text \<open>
  C8: What \<^const>\<open>SaveTableDict\<close> writes is loaded again: a dictionary with the same keys, code lengths, ignored
  characters, rules and number of records, whose circle has the same records in the same order. The strings have to fit
  into what the loader reads, the places of the index have to suffice for the changes of the first key, and no character
  may have two records for making phrases.
\<close>

theorem table_file_roundtrip:
  assumes "tableDict tm = Some td" "iTableChanged td \<noteq> 0" "table_disk tm" "SaveTableDict tm = Some tm'"
    and "circle td ps" "unat (iRecordCount td) = length ps" "head_ok td"
    and "\<And>p. p \<in> set ps \<Longrightarrow> record_ok (unat (iPYCodeLength td) + 1) (td_heap td ! p)"
    and "key_changes 0 (map ((!) (td_heap td)) ps) \<le> length (strInputCode td) + 26"
    and "distinct (constructs (map ((!) (td_heap td)) ps))"
  shows "\<exists>f c td'. table_file tm' = Some f \<and> load_table (True, 0) f = Got ((False, c), td') \<and> head_of td' = head_of td \<and>
    circle td' [1..<Suc (length ps)] \<and> entries_of td' [1..<Suc (length ps)] = entries_of td ps"
proof -
  let ?rs = "map (\<lambda>p. unlinked (td_heap td ! p)) ps" and ?qs = "map ((!) (td_heap td)) ps"
  have h: "td_heap td \<noteq> []" "rc_next (hd (td_heap td)) = hd (ps @ [0])"
    using assms(5) linked_two [of "[0]" "td_heap td" "hd (ps @ [0])" "tl (ps @ [0])"]
    by (cases ps; simp add: circle_def hd_conv_nth)+
  have "\<exists>b. records_bytes (length (td_heap td)) td (hd (ps @ [0])) = Some b \<and>
      (\<forall>s. iPYCodeLength (fst s) = iPYCodeLength td \<longrightarrow> load_records False (length ps) s (b @ []) = sure (add_records ?rs s))"
    using assms(5, 8) circle_short [of td "[]" ps] by (intro records_walk [of td "[]"]) simp_all
  then obtain b where b: "records_bytes (length (td_heap td)) td (hd (ps @ [0])) = Some b"
    "\<And>s. iPYCodeLength (fst s) = iPYCodeLength td \<Longrightarrow> load_records False (length ps) s b = sure (add_records ?rs s)"
    unfolding append_Nil2 by blast
  have f: "table_file tm' = Some (head_bytes td @ b)"
    using assms(1-4) h b(1) by (cases "td_heap td") (auto simp: SaveTableDict_def Let_def split: option.splits)
  from got_head [OF assms(7), of b 0] obtain g where g: "head_bytes td @ b = fcitx_utils_write_uint32 0 @ INTERNAL_VERSION #
      fcitx_utils_write_uint32 (of_nat (length (strInputCode td))) @ g"
    "load_head (False, 0) (of_nat (length (strInputCode td))) g = Got (empty_dict td, b)" by blast
  have same: "key_changes c ?rs = key_changes c ?qs" for c
    by (induction ps arbitrary: c) (simp_all add: unlinked_def first_key_def)
  have "constructs ?rs = constructs ?qs"
    by (induction ps) (simp_all add: constructs_def construct_def unlinked_def)
  then have "\<exists>s. add_records ?rs (empty_dict td, 0, 0) = Some s"
    using assms(9, 10) same
    by (intro add_records_total) (simp_all add: empty_dict_def singles_ok_def new_dict_def)
  then obtain td1 i1 c1 where r: "add_records ?rs (empty_dict td, 0, 0) = Some (td1, i1, c1)" by auto
  have e: "chain (empty_dict td) 0" "said (empty_dict td) = []" "head_of (empty_dict td) = head_of td"
    by (simp_all add: chain_def said_def empty_dict_def head_of_def)
  from chain_records [OF e(1) r] e have k: "chain td1 (length ps)" "said td1 = entries_of td ps" "head_of td1 = head_of td"
    by (simp_all add: entries_of_def unlinked_def comp_def)
  have "load_table (True, 0) (head_bytes td @ b) = Got ((False, c1), close_circle td1)"
    using g(2) b(2) [of "(empty_dict td, 0, 0)"] r assms(6)
    unfolding g(1) load_table_def load_version_def
    by (simp add: Let_def INTERNAL_VERSION_def empty_dict_def)
  with f chain_close [OF k(1)] k show ?thesis by auto
qed

lemma records_written:
  assumes "circle td ps" "\<And>p. p \<in> set ps \<Longrightarrow> record_ok (unat (iPYCodeLength td) + 1) (td_heap td ! p)"
  shows "\<exists>b. records_bytes (length (td_heap td)) td (hd (ps @ [0])) = Some b"
  using records_walk [of td "[]" ps "length (td_heap td)" "[]"] assms circle_short [of td "[]" ps] by auto

lemma save_written: "tableDict tm = Some td \<Longrightarrow> td_heap td \<noteq> [] \<Longrightarrow> autoPhrase td = None \<Longrightarrow>
    records_bytes (length (td_heap td)) td (rc_next (hd (td_heap td))) = Some b \<Longrightarrow> \<exists>tm'. SaveTableDict tm = Some tm'"
  by (cases "td_heap td") (simp_all add: SaveTableDict_def Let_def)

text \<open>The small dictionary, changed, with its files.\<close>

definition sample_table :: TableMetaData where
  "sample_table = \<lparr> tableOrder = TAD_NO, iTableAutoSendToClient = 0, iTableAutoSendToClientWhenNone = 0, strEndCode = None,
     bUseMatchingKey = False, cMatchingKey = 0, bAutoPhrase = False, iAutoPhraseLength = 4,
     tableDict = Some (sample_dict\<lparr>iTableChanged := 1\<rparr>), table_disk = True, table_file = None, auto_file = None \<rparr>"

lemma table_file_roundtrip_witness:
  "\<exists>tm' f c td'. SaveTableDict sample_table = Some tm' \<and> table_file tm' = Some f \<and>
     load_table (True, 0) f = Got ((False, c), td') \<and> entries_of td' [1..<Suc 4] = entries_of sample_dict [1, 2, 3, 4]"
proof -
  let ?td = "sample_dict\<lparr>iTableChanged := 1\<rparr>"
  have t: "tableDict sample_table = Some ?td" "iTableChanged ?td \<noteq> 0" "table_disk sample_table" by (simp_all add: sample_table_def)
  have c: "circle ?td [1, 2, 3, 4]" "entries_of ?td [1, 2, 3, 4] = entries_of sample_dict [1, 2, 3, 4]"
    using sample_circle same_heap [of ?td sample_dict] by simp_all
  have h: "unat (iRecordCount ?td) = length [1, 2, 3, 4::nat]" "head_ok ?td"
    by (simp_all add: sample_simps head_ok_def is_cstr_def)
  have r: "record_ok (unat (iPYCodeLength ?td) + 1) (td_heap ?td ! p)" if "p \<in> set [1, 2, 3, 4]" for p
    using that by (auto simp: sample_simps record_ok_def is_cstr_def MAX_CODE_LENGTH_def)
  have "rc_next (hd (td_heap ?td)) = hd ([1, 2, 3, 4] @ [0])" "td_heap ?td \<noteq> []" "autoPhrase ?td = None"
    by (simp_all add: sample_dict_def new_dict_def)
  with save_written [OF t(1)] records_written [OF c(1) r] have "\<exists>tm'. SaveTableDict sample_table = Some tm'" by metis
  then obtain tm' where s: "SaveTableDict sample_table = Some tm'" by blast
  have k: "key_changes 0 (map ((!) (td_heap ?td)) [1, 2, 3, 4]) \<le> length (strInputCode ?td) + 26"
    "distinct (constructs (map ((!) (td_heap ?td)) [1, 2, 3, 4]))"
    by (simp_all add: sample_simps first_key_def constructs_def construct_def RECORDTYPE_CONSTRUCT_def)
  from table_file_roundtrip [OF t s c(1) h r k] obtain f x td' where "table_file tm' = Some f"
    "load_table (True, 0) f = Got ((False, x), td')"
    "entries_of td' [1..<Suc (length [1, 2, 3, 4::nat])] = entries_of ?td [1, 2, 3, 4]" by blast
  moreover have "length [1, 2, 3, 4::nat] = 4" by simp
  ultimately show ?thesis using s c(2) by metis
qed

end
