(* ===== verification/TabChar.thy ===== *)
theory TabChar
  imports TabDict Utf8_Codec
begin

text \<open>
  The number of a character in the table of \<open>utf8_in_gb18030.h\<close>: every character of the basic plane that is no ASCII
  one has its own, all others share the last.
\<close>

section \<open>The number of a character\<close>

lemma place_append: "place x (xs @ ys) i = (case place x xs i of None \<Rightarrow> place x ys (i + length xs) | Some j \<Rightarrow> Some j)"
  by (induction xs arbitrary: i) (simp_all split: option.split)

lemma place_map: "inj_on f (insert x (set xs)) \<Longrightarrow> place (f x) (map f xs) i = place x xs i"
proof (induction xs arbitrary: i)
  case (Cons y ys)
  then have "inj_on f (insert x (set ys))" "f x = f y \<longleftrightarrow> x = y" by (auto simp: inj_on_def)
  with Cons.IH show ?case by simp
qed simp

lemma place_none: "x \<notin> set xs \<Longrightarrow> place x xs i = None"
  by (induction xs arbitrary: i) auto

lemma place_upt: "place c [a..<b] i = (if a \<le> c \<and> c < b then Some (i + (c - a)) else None)"
proof (induction "b - a" arbitrary: a i)
  case (Suc n)
  then have "a < b" "[a..<b] = a # [Suc a..<b]" "n = b - Suc a" by (simp_all add: upt_conv_Cons)
  with Suc.hyps(1) [of "Suc a" "Suc i"] show ?case by (cases "c = a") auto
qed simp

definition code_number :: "nat \<Rightarrow> nat" where
  "code_number c = (if c < 0x800 then (0xc0 + c div 64) * 256 + (0x80 + c mod 64)
     else ((0xe0 + c div 4096) * 256 + (0x80 + c div 64 mod 64)) * 256 + (0x80 + c mod 64))"

lemma code_number_less: "c < 0x10000 \<Longrightarrow> code_number c < 0xf00000"
proof -
  assume "c < 0x10000"
  then have "c div 4096 < 16" "c div 64 mod 64 < 64" "c mod 64 < 64" "c < 0x800 \<longrightarrow> c div 64 < 32" by auto
  then show ?thesis unfolding code_number_def by (cases "c < 0x800") simp_all
qed

lemma utf8_word_number: "c < 0x10000 \<Longrightarrow> unat (utf8_word c) = code_number c"
proof -
  assume c: "c < 0x10000"
  have "utf8_word c = of_nat (code_number c)" by (simp add: utf8_word_def code_number_def algebra_simps)
  moreover have "code_number c < 2 ^ 32" using code_number_less [OF c] by simp
  ultimately show ?thesis by (simp add: unsigned_of_nat take_bit_nat_eq_self_iff)
qed

lemma digits: "r < 256 \<Longrightarrow> (q * 256 + r) div 256 = (q::nat)" "r < 256 \<Longrightarrow> (q * 256 + r) mod 256 = (r::nat)"
  by simp_all

lemma code_number_inj: "inj_on code_number {c. c < 0x10000}"
proof (rule inj_on_inverseI)
  fix c :: nat
  assume "c \<in> {c. c < 0x10000}"
  then have c: "c < 0x10000" by simp
  let ?dec = "\<lambda>n. if n < 0xe00000 then (n div 256 - 0xc0) * 64 + (n mod 256 - 0x80)
    else (n div 65536 - 0xe0) * 4096 + (n div 256 mod 256 - 0x80) * 64 + (n mod 256 - 0x80)"
  show "?dec (code_number c) = c"
  proof (cases "c < 0x800")
    case True
    define x y where "x = c div 64" and "y = c mod 64"
    have "c = x * 64 + y" "x < 32" "y < 64" using True by (simp_all add: x_def y_def)
    moreover have "code_number c = (0xc0 + x) * 256 + (0x80 + y)"
      using True unfolding code_number_def x_def y_def by simp
    then have "code_number c div 256 = 0xc0 + x" "code_number c mod 256 = 0x80 + y" "code_number c < 0xe00000"
      using digits [of "0x80 + y" "0xc0 + x"] \<open>x < 32\<close> \<open>y < 64\<close> by simp_all
    ultimately show ?thesis by simp
  next
    case False
    define x y z where "x = c div 4096" and "y = c div 64 mod 64" and "z = c mod 64"
    have "c div 64 div 64 = x" by (simp add: x_def div_mult2_eq [symmetric])
    moreover have "c = (c div 64 div 64 * 64 + c div 64 mod 64) * 64 + c mod 64" by (simp only: div_mult_mod_eq)
    ultimately have "c = x * 4096 + y * 64 + z" "x < 16" "y < 64" "z < 64"
      using c unfolding x_def y_def z_def by simp_all
    moreover have n: "code_number c = ((0xe0 + x) * 256 + (0x80 + y)) * 256 + (0x80 + z)"
      using False unfolding code_number_def x_def y_def z_def by simp
    moreover have "code_number c div 256 = (0xe0 + x) * 256 + (0x80 + y)" "code_number c mod 256 = 0x80 + z"
      unfolding n using \<open>z < 64\<close> by (intro digits, simp)+
    moreover have "code_number c div 65536 = code_number c div 256 div 256" by (simp add: div_mult2_eq [symmetric])
    moreover have "((0xe0 + x) * 256 + (0x80 + y)) div 256 = 0xe0 + x" "((0xe0 + x) * 256 + (0x80 + y)) mod 256 = 0x80 + y"
      using \<open>y < 64\<close> by (intro digits, simp)+
    moreover have "\<not> code_number c < 0xe00000" unfolding n by simp
    ultimately show ?thesis by (simp only: if_False add_diff_cancel_left')
  qed
qed

lemma utf8_word_inj: "inj_on utf8_word {c. c < 0x10000}"
proof (rule inj_onI)
  fix c d :: nat
  assume "c \<in> {c. c < 0x10000}" "d \<in> {c. c < 0x10000}" "utf8_word c = utf8_word d"
  then have "code_number c = code_number d" using utf8_word_number by (metis mem_Collect_eq)
  then show "c = d" using code_number_inj \<open>c \<in> _\<close> \<open>d \<in> _\<close> by (auto dest: inj_onD)
qed

lemma place_in_table:
  assumes "c < 0x10000"
  shows "place (utf8_word c) fcitx_utf8_in_gb18030 0 = (if 0x80 \<le> c \<and> c < 0xd800 then Some (c - 0x80)
    else if 0xe000 \<le> c then Some (c - 0x880) else None)"
proof -
  let ?xs = "[0x80..<0xd800] @ [0xe000..<0x10000]"
  have "insert c (set ?xs) \<subseteq> {c. c < 0x10000}" using assms by (auto simp del: upt_rec_numeral)
  then have "inj_on utf8_word (insert c (set ?xs))" using utf8_word_inj inj_on_subset by blast
  from place_map [OF this, of 0] show ?thesis
    using assms unfolding fcitx_utf8_in_gb18030_def place_append place_upt by (auto simp del: upt_rec_numeral)
qed


text \<open>The bytes of a character as a number.\<close>

lemma be_word_unat:
  "unat v < 256 ^ k \<Longrightarrow> k + length bs \<le> 4 \<Longrightarrow> unat (be_word bs v) = foldl (\<lambda>n b. n * 256 + unat b) (unat v) bs"
proof (induction bs arbitrary: v k)
  case (Cons b bs)
  have "k \<le> 3" using Cons.prems(2) by simp
  then have v: "unat v < 256 ^ 3" using Cons.prems(1) power_increasing [of k 3 "256::nat"] by linarith
  have "push_bit 8 v AND ucast b = 0" by (rule bit_word_eqI) (auto simp: bit_simps dest: bit_imp_le_length)
  then have "push_bit 8 v OR ucast b = v * 256 + ucast b"
    using disjunctive_add_eq_or [of "push_bit 8 v" "ucast b"] by (simp add: push_bit_eq_mult mult.commute)
  moreover have "unat (v * 256 + ucast b) = unat v * 256 + unat b"
  proof -
    have "unat b < 256" using unsigned_less [of b] by simp
    then have "take_bit 32 (unat b) = unat b" by (intro take_bit_nat_eq_self) simp
    then show ?thesis using v \<open>unat b < 256\<close> by (simp add: unat_word_ariths unsigned_ucast_eq)
  qed
  ultimately have *: "unat (push_bit 8 v OR ucast b) = unat v * 256 + unat b" by simp
  also have "\<dots> < 256 ^ Suc k" using Cons.prems(1) unsigned_less [of b, where 'a = nat] by simp
  finally show ?case using Cons.IH [of "push_bit 8 v OR ucast b" "Suc k"] Cons.prems(2) * by simp
qed simp

lemma byte_unat:
  fixes z :: uint32
  assumes "unat z < 64"
  shows "unat (ucast (0x80 + z) :: byte) = 0x80 + unat z" "unat (ucast (0xc0 + z) :: byte) = 0xc0 + unat z"
proof -
  have "unat (ucast (0x80 + z) :: byte) = 0x80 + unat z \<and> unat (ucast (0xc0 + z) :: byte) = 0xc0 + unat z"
    by (rule word_below_all [OF _ assms]) code_simp
  then show "unat (ucast (0x80 + z) :: byte) = 0x80 + unat z" "unat (ucast (0xc0 + z) :: byte) = 0xc0 + unat z" by simp_all
qed

lemma lead_unat:
  fixes z :: uint32
  assumes "unat z < 16"
  shows "unat (ucast (0xe0 + z) :: byte) = 0xe0 + unat z" "unat (ucast (0xf0 + z) :: byte) = 0xf0 + unat z"
proof -
  have "unat (ucast (0xe0 + z) :: byte) = 0xe0 + unat z \<and> unat (ucast (0xf0 + z) :: byte) = 0xf0 + unat z"
    by (rule word_below_all [OF _ assms]) code_simp
  then show "unat (ucast (0xe0 + z) :: byte) = 0xe0 + unat z" "unat (ucast (0xf0 + z) :: byte) = 0xf0 + unat z" by simp_all
qed

lemma cut_unat: "unat (drop_bit k c AND 0x3f :: uint32) = unat c div 2 ^ k mod 64"
  "unat (drop_bit k c AND 0x1f :: uint32) = unat c div 2 ^ k mod 32"
  "unat (drop_bit k c AND 0xf :: uint32) = unat c div 2 ^ k mod 16"
  using unsigned_less [of c, where 'a = nat] unfolding masks unsigned_take_bit_eq unsigned_drop_bit_eq by (simp_all add: take_bit_eq_mod drop_bit_eq_div)

lemma cb_unat: "unat (cb c k) = 0x80 + unat c div 2 ^ k mod 64"
  unfolding cb_def by (subst byte_unat(1)) (simp_all add: cut_unat)

text \<open>The bytes that encode a character of the basic plane are its word in the table.\<close>

lemma encoded_word:
  assumes "0x80 \<le> c" "c < 0x10000"
  shows "be_word (fcitx_ucs4_to_utf8 c) 0 = utf8_word (unat c)"
proof -
  have u: "0x80 \<le> unat c" "unat c < 0x10000" using assms by (simp_all add: word_less_nat_alt word_le_nat_alt)
  have "unat (be_word (fcitx_ucs4_to_utf8 c) 0) = code_number (unat c)"
  proof (cases "unat c < 0x800")
    case True
    then have "c < 0x800" "\<not> c < 0x80" "unat c div 64 < 32" using u by (simp_all add: word_less_nat_alt)
    then have "fcitx_ucs4_to_utf8 c = [ucast (0xC0 + (drop_bit 6 c AND 0x1F)), cb c 0]" by (simp add: fcitx_ucs4_to_utf8_def)
    moreover have "unat (ucast (0xC0 + (drop_bit 6 c AND 0x1F)) :: byte) = 0xc0 + unat c div 64"
      using \<open>unat c div 64 < 32\<close> by (subst byte_unat(2)) (simp_all add: cut_unat)
    ultimately show ?thesis using be_word_unat [of 0 0 "fcitx_ucs4_to_utf8 c"] True by (simp add: cb_unat code_number_def)
  next
    case False
    then have "\<not> c < 0x800" "\<not> c < 0x80" "unat c div 4096 < 16" using u by (simp_all add: word_less_nat_alt)
    then have "fcitx_ucs4_to_utf8 c = [ucast (0xE0 + (drop_bit 12 c AND 0x0F)), cb c 6, cb c 0]"
      using assms by (simp add: fcitx_ucs4_to_utf8_def)
    moreover have "unat (ucast (0xE0 + (drop_bit 12 c AND 0x0F)) :: byte) = 0xe0 + unat c div 4096"
      using \<open>unat c div 4096 < 16\<close> by (subst lead_unat(1)) (simp_all add: cut_unat)
    ultimately show ?thesis using be_word_unat [of 0 0 "fcitx_ucs4_to_utf8 c"] False by (simp add: cb_unat code_number_def)
  qed
  then show ?thesis using utf8_word_number [OF u(2)] by (metis word_unat_eq_iff)
qed

lemma small_numbers: "x < 55296 \<Longrightarrow> x < (65536::nat)"
  by simp

lemma four_byte_word:
  assumes "\<not> c < 0x10000" "c < 0x200000"
  shows "place (be_word (fcitx_ucs4_to_utf8 c) 0) fcitx_utf8_in_gb18030 0 = None"
proof -
  have u: "unat c div 2 ^ 18 < 8" using assms by (simp add: word_less_nat_alt)
  have "\<not> c < 0x800" "\<not> c < 0x80" using assms by (simp_all add: word_less_nat_alt)
  then have e: "fcitx_ucs4_to_utf8 c = [ucast (0xF0 + (drop_bit 18 c AND 0x07)), cb c 12, cb c 6, cb c 0]"
    using assms by (simp add: fcitx_ucs4_to_utf8_def)
  have "unat (ucast (0xF0 + (drop_bit 18 c AND 0x07)) :: byte) \<ge> 0xf0"
    using mask_bounds(3) [of "drop_bit 18 c"] by (subst lead_unat(2)) simp_all
  then have "unat (be_word (fcitx_ucs4_to_utf8 c) 0) \<ge> 0xf0 * 256 ^ 3"
    using be_word_unat [of 0 0 "fcitx_ucs4_to_utf8 c"] by (simp add: e)
  moreover have "unat (utf8_word d) < 0xf00000" if "d < 0x10000" for d
    using utf8_word_number [OF that] code_number_less [OF that] by simp
  ultimately have "be_word (fcitx_ucs4_to_utf8 c) 0 \<noteq> utf8_word d" if "d < 0x10000" for d
    using that by fastforce
  then have "be_word (fcitx_ucs4_to_utf8 c) 0 \<notin> set fcitx_utf8_in_gb18030"
    unfolding fcitx_utf8_in_gb18030_def set_map set_append set_upt image_iff Bex_def Un_iff atLeastLessThan_iff 
    using small_numbers by blast
  then show ?thesis by (rule place_none)
qed

definition number_of_char :: "uint32 \<Rightarrow> nat" where
  "number_of_char c = (if 0x80 \<le> unat c \<and> unat c < 0xd800 then unat c - 0x80
     else if 0xe000 \<le> unat c \<and> unat c < 0x10000 then unat c - 0x880 else 63361)"

lemma rd_front: "map (rd (bs @ rest)) [0..<length bs] = map Some bs"
  by (rule nth_equalityI) (simp_all add: rd_def nth_append)

lemma those_Some: "those (map Some bs) = Some bs"
  by (induction bs) simp_all

text \<open>
  C40: The number of a character that stands first in a string is its place among the characters from U+0080 to U+FFFF
  that are no surrogates; the ASCII characters and all characters outside of the basic plane have the number 63361.
  So two characters share a place of the tables of single characters only if both are of the latter kind.
\<close>

theorem char_number:
  assumes "c < 0x200000"
  shows "CalHZIndex (fcitx_ucs4_to_utf8 c @ rest) = Some (number_of_char c) \<and>
    (number_of_char c = number_of_char d \<longleftrightarrow> c = d \<or> number_of_char c = 63361 \<and> number_of_char d = 63361)"
proof
  show "number_of_char c = number_of_char d \<longleftrightarrow> c = d \<or> number_of_char c = 63361 \<and> number_of_char d = 63361"
    by (auto simp: number_of_char_def word_unat_eq_iff split: if_splits)
  show "CalHZIndex (fcitx_ucs4_to_utf8 c @ rest) = Some (number_of_char c)"
  proof (cases "c < 0x80")
    case True
    then have "fcitx_utf8_char_len (fcitx_ucs4_to_utf8 c @ rest) 0 = Some 1"
      using encode_ascii [OF True] by (simp add: fcitx_utf8_char_len_def rd_def)
    moreover have "unat c < 0x80" using True by (simp add: word_less_nat_alt)
    ultimately show ?thesis by (simp add: CalHZIndex_def number_of_char_def)
  next
    case False
    have "c < 0x4000000" using assms by (simp add: word_less_nat_alt)
    with encode_shape [OF False] obtain b bs w where
      e: "fcitx_ucs4_to_utf8 c = b # bs" "ext_head b = Some (Suc (length bs), w)" "\<forall>x\<in>set bs. is_utf8_cb x" by blast
    have "fcitx_utf8_char_len (fcitx_ucs4_to_utf8 c @ rest) 0 = Some (length (fcitx_ucs4_to_utf8 c))"
      using get_char_at [of 0 "fcitx_ucs4_to_utf8 c @ rest" b bs rest w] e by (simp add: char_len_get_char)
    moreover have "length (fcitx_ucs4_to_utf8 c) \<in> {2, 3, 4}" using False assms by (simp add: fcitx_ucs4_to_utf8_def)
    ultimately have *: "CalHZIndex (fcitx_ucs4_to_utf8 c @ rest) =
        Some (case place (be_word (fcitx_ucs4_to_utf8 c) 0) fcitx_utf8_in_gb18030 0 of Some i \<Rightarrow> i | None \<Rightarrow> 63361)"
      unfolding CalHZIndex_def by (simp add: rd_front those_Some)
    show ?thesis
    proof (cases "c < 0x10000")
      case True
      then have "unat c < 0x10000" "0x80 \<le> unat c" "0x80 \<le> c" using False by (simp_all add: word_less_nat_alt word_le_nat_alt)
      then show ?thesis using encoded_word [of c] True place_in_table [of "unat c"] unfolding *
        by (simp add: number_of_char_def)
    next
      case False
      then have "\<not> unat c < 0x10000" by (simp add: word_less_nat_alt)
      then show ?thesis using four_byte_word [OF False assms] unfolding * by (simp add: number_of_char_def)
    qed
  qed
qed

lemma char_number_witness:
  "CalHZIndex (fcitx_ucs4_to_utf8 0x4e00) = Some 19840 \<and> CalHZIndex (fcitx_ucs4_to_utf8 0x20000) = Some 63361"
  using char_number [of "0x4e00" "[]"] char_number [of "0x20000" "[]"] by (simp add: number_of_char_def)

end
