(* ===== verification/Spec2Isabelle.thy ===== *)
theory Spec2Isabelle
  imports Utf8_Text Utarray StrUtils_Laws Utils_Sys StringMap SortUtils HandlerTable_Laws MemPool Hotkey_Laws
    Candidate_Laws FrontendIC_Laws ImKey_Laws Config_File
    CmpMap_Laws PyInput_Laws TabFile TabChar
begin

text \<open>
  Verification library of fcitx, an input method framework. A daemon keeps one \<^emph>\<open>instance\<close>: its
  registered input methods, the input contexts of the programs that type, the configuration, and the
  input window with its preedit, messages and candidates. Frontends hand key events of a context to the
  instance, which passes them through hotkeys, filters of modules and the current input method, and
  commits text back to the context. Everything is written in C over a small library of containers and
  string helpers (\<open>src/lib/fcitx-utils\<close>), a configuration library (\<open>src/lib/fcitx-config\<close>) and the core
  (\<open>src/lib/fcitx\<close>).

  \<^bold>\<open>How the code is modelled.\<close> Functions keep their names. Records are the structs with the fields that
  the modelled functions use, machine integers are words where they wrap or are tested bitwise and
  integers otherwise, strings are lists of bytes. A C string in a buffer that is read byte by byte is the
  list with its terminator (\<open>rd\<close> of the prelude); a string that is handled as a whole is the list before
  the terminator. Fallible code has an option result: \<open>None\<close> is an access outside of an array, a null
  pointer that is followed, or exhausted fuel. Function pointers are numbers with 0 for null, and what
  they do, like all code that is loaded at run time, is the environment (\<open>env\<close>), a record of functions
  on the instance.

  \<^bold>\<open>Utilities\<close> (\<open>src/lib/fcitx-utils\<close>).
  \<^item> \<open>Utf8\<close>, \<open>Utf8_Codec\<close>, \<open>Utf8_Text\<close>: \<open>utf8.c\<close>; encoding and decoding are inverse, and the functions on
    text count and cut whole characters.
  \<^item> \<open>Utarray\<close>, \<open>Uthash\<close>: \<open>utarray.h\<close> with the helpers of \<open>utils.h\<close>, and \<open>uthash.h\<close> as the list of its
    entries in the order of insertion.
  \<^item> \<open>StrUtils\<close>, \<open>StrUtils_Laws\<close>, \<open>Utils_Sys\<close>, \<open>StringMap\<close>: \<open>utils.c\<close> and \<open>stringmap.c\<close>; splitting and
    joining, escaping and unescaping are round trips.
  \<^item> \<open>SortUtils\<close>: \<open>msort_r.c\<close>, \<open>qsort_r.c\<close>, \<open>sort_common.h\<close>, for any comparison function (the locale
    \<open>comparator\<close> states what it has to satisfy).
  \<^item> \<open>ObjPool\<close>, \<open>HandlerTable\<close>, \<open>HandlerTable_Laws\<close>, \<open>MemPool\<close>: the pools and the tables of handlers; the
    linked lists of ids implement a map from keys to lists of handlers. Addresses and sizes of \<open>MemPool\<close> are words;
    as long as no sum wraps no memory is handed out twice, and a lemma shows that it is when one does.

  \<^item> \<open>Desktop\<close>, \<open>Desktop_Laws\<close>, \<open>Desktop_Load\<close>: \<open>desktop-parse.c\<close> with its linked lists in a heap of cells; a
    file that is written loads back to the same content, and linking behind an inner item breaks the list.

  \<^bold>\<open>Configuration library\<close> (\<open>src/lib/fcitx-config\<close>).
  \<^item> \<open>KeyData\<close>, \<open>Hotkey\<close>, \<open>Hotkey_Laws\<close>, \<open>Hotkey_Total\<close>: \<open>hotkey.c\<close> with its tables; the parser stays inside of
    its argument, and reads the texts of all keys back but those of nine that are named.
  \<^item> \<open>Numbers\<close>: decimal texts of integers and the doubles that \<open>fcitx-config.c\<close> needs for colours.
  \<^item> \<open>IniFile\<close>, \<open>Config\<close>: \<open>fcitx-config.c\<close>. The variables of a program are a store of typed values, the union of
    pointers in an option is an address, and the filters of the program are part of an environment.
    \<open>Config_Laws\<close>: what was parsed and completed can be bound and synchronised without a type error, and the
    value of an option survives its text. \<open>Config_File\<close>: saving and parsing a file is a round trip.

  \<^bold>\<open>Core\<close> (\<open>src/lib/fcitx\<close>).
  \<^item> \<open>Candidate\<close>, \<open>Candidate_Laws\<close>: \<open>candidate.c\<close>; pages, choice keys and focus.
  \<^item> \<open>Hook\<close>: \<open>hook.c\<close>. \<open>Context\<close>: \<open>context.c\<close>. \<open>Keys\<close>: \<open>keys.c\<close>.
  \<^item> \<open>Messages\<close>: the message lists of \<open>ui.c\<close>, refined to lists of strings.
  \<^item> \<open>Timeout\<close>: the timeouts of \<open>instance.c\<close> and the loop that runs them, which refines an abstract loop
    (\<open>serves\<close>) for callbacks that add and remove timeouts; the number of timeouts that are due, and behind it the
    rest of the array, bounds the fuel.
  \<^item> \<open>Instance\<close>, \<open>Input\<close>, \<open>InputWindow\<close>: the state of an instance, and the operations of \<open>ime.c\<close>, \<open>ui.c\<close>,
    \<open>instance.c\<close> and \<open>frontend.c\<close> on the input state and the window.
  \<^item> \<open>ImList\<close>, \<open>ImList_Laws\<close>: registration, the enabled list and the profile, with the round trip through it.
  \<^item> \<open>ImSwitch\<close>, \<open>Quiet\<close>, \<open>ImSwitch_Laws\<close>, \<open>ImSwitch_Props\<close>: the current input method and the states of the
    contexts. Switching may load an addon, which updates the list, which switches again: the recursion runs on
    fuel \<open>e_loads\<close>, and every load takes at least one input method off the unloaded ones, so more fuel
    than unloaded input methods is enough (\<open>update_im_list_ends\<close>). \<open>Quiet\<close> states what these theorems ask
    of the environment: callbacks leave the lists, contexts and configuration alone, and loading only registers.
  \<^item> \<open>ImKey\<close>, \<open>ImKey_Laws\<close>: the way of a key event.
  \<^item> \<open>FrontendIC\<close>, \<open>FrontendIC_Laws\<close>: the input contexts of \<open>frontend.c\<close> and their invariant.

  \<^bold>\<open>Pinyin\<close> (\<open>src/im/pinyin\<close>).
  \<^item> \<open>PyTables\<close>, \<open>PyParser\<close>, \<open>PyParser_Laws\<close>, \<open>CmpMap_Laws\<close>: the tables of \<open>PYFA.c\<close> and \<open>pyMapTable.c\<close>, and the
    codes of Pinyin in \<open>pyParser.c\<close>; a code turns back into its Pinyin, and comparing codes compares the parts.
  \<^item> \<open>ShuangPin\<close>: the double pinyin of \<open>sp.c\<close> with the layouts of \<open>spdata.h\<close> and the layout file of the user.
  \<^item> \<open>ParsePY\<close>, \<open>ParsePY_Laws\<close>: the parser of \<open>pyParser.c\<close>; in Quanpin no text of at most 35 characters overruns
    the arrays of the result, and the faults on other inputs are stated as lemmas. The loops run on the length of
    the text as fuel, since every round takes a character, and the search for finals on 32 for a table of 31.
  \<^item> \<open>PyDict\<close>, \<open>PyDict_Laws\<close>: the dictionary of \<open>py.c\<close> with its files. Pointers to characters and phrases are
    places in lists; the phrases of the user and the frequent characters survive their files, and a phrase that
    is added can be taken away again. The reader of phrase files runs on the length of the file.
  \<^item> \<open>PyCand\<close>, \<open>PyCand_Laws\<close>: the candidates and the automatic composition of \<open>py.c\<close>; the characters are exactly
    those whose code matches, in the order of the setting. The composition runs on 200 rounds, more than the 192
    bytes of its text; a round that adds nothing is repeated for ever by the code and is \<open>None\<close> here.
  \<^item> \<open>PyInput\<close>, \<open>PyInput_Laws\<close>: the keys of \<open>py.c\<close>. Choosing a candidate calls \<open>DoPYInput\<close> again with a key that
    chooses nothing, so one level of that call is all there is. The array of the text keeps what older texts left
    behind its terminator. Every key that is handled without a fault leaves the cursor in the text,
    deleting undoes typing, and the candidate of a text that is not Pinyin makes two hotkeys follow null.

  \<^bold>\<open>Table input method\<close> (\<open>src/im/table\<close>).
  \<^item> \<open>TabDict\<close>: the dictionary of \<open>tabledict.c\<close>. Records are places of a heap with links in both directions, the
    head of the circle is at 0, and searches run on the size of the heap. Files are their bytes; a reader faults,
    comes short, or gives a value.
  \<^item> \<open>TabDict_Laws\<close>: inserting and deleting refine insertion into and removal from a list that is sorted by codes.
    \<open>TabFile\<close>: what is saved is loaded again. \<open>TabChar\<close>: the numbers of characters are their own in the basic plane.

  \<^bold>\<open>Not modelled.\<close> Loading of addons and modules, the D-Bus, X11, Gtk and Qt clients and the user
  interfaces only call libraries that are not part of the repository; growing and freeing memory, printf
  formatting and locks are left out; the search for files in the directories of the user (\<open>xdg.c\<close>), creating and
  destroying the state of an input method, and the other input methods and modules, which are clients of the core.
\<close>

end
